(* ===== verification/Dsp_Prelude.thy ===== *)
theory Dsp_Prelude
  imports Main "HOL-Library.Word"
begin

unbundle bit_operations_syntax

text \<open>
  Prelude of the development: the machine integer types of \<open>Common/CommonTypes.h\<close>, the
  theorem collections the component theories fill, and the generic facts about words they
  share.  A signed C++ integer is the word of the same width read with \<^const>\<open>sint\<close>:
  \<open>static_cast\<close> to a wider signed type is \<^const>\<open>scast\<close>, to a wider unsigned type
  \<^const>\<open>ucast\<close>, to a narrower one truncation; a right shift of a signed value is
  \<^const>\<open>signed_drop_bit\<close>, of an unsigned one \<^const>\<open>drop_bit\<close>.
\<close>

section \<open>Types and theorem collections\<close>

type_synonym u8 = "8 word"
type_synonym u16 = "16 word"
type_synonym u32 = "32 word"
type_synonym u64 = "64 word"
type_synonym s16 = "16 word"
type_synonym s32 = "32 word"
type_synonym s64 = "64 word"

named_theorems wf_intro \<open>preservation of well-formedness by one operation\<close>
named_theorems op_defs \<open>definitions of the instruction handlers\<close>
named_theorems frame_simps \<open>fields an operation leaves unchanged\<close>

text \<open>Exceptions of the CPU that devices raise (\<open>Core/PowerPC/Gekko.h\<close>).\<close>

abbreviation (input) EXCEPTION_DECREMENTER :: u32 where "EXCEPTION_DECREMENTER \<equiv> 1"
abbreviation (input) EXCEPTION_EXTERNAL_INT :: u32 where "EXCEPTION_EXTERNAL_INT \<equiv> 4"

section \<open>Fields of an instruction word\<close>

text \<open>The idiom \<open>(opc >> n) & m\<close>, used as an array index.\<close>

definition opfield :: "nat \<Rightarrow> u16 \<Rightarrow> u16 \<Rightarrow> nat" where
  "opfield n m opc = unat (drop_bit n opc AND m)"

lemma unat_and_le: "unat (x AND m) \<le> unat (m :: 'a::len word)"
  by (rule word_and_le1 [THEN word_le_nat_alt [THEN iffD1]])

lemma opfield_le: "opfield n m opc \<le> unat m"
  by (simp add: opfield_def unat_and_le)

lemma opfield_1 [simp]: "opfield n 1 opc < 2"
  using opfield_le [of n 1 opc] by simp

lemma opfield_1_alt: "opfield n 1 opc = of_bool (bit opc n)"
proof (cases "n < 16")
  case True
  have "drop_bit n opc AND 1 = of_bool (bit opc n)"
    by (rule bit_word_eqI) (auto simp: bit_simps)
  then show ?thesis by (simp add: opfield_def)
next
  case False
  then have "\<not> bit opc n" using bit_imp_le_length [of opc n] by auto
  moreover have "drop_bit n opc AND 1 = of_bool (bit opc n)"
    by (rule bit_word_eqI) (auto simp: bit_simps)
  ultimately show ?thesis by (simp add: opfield_def)
qed

lemma opfield_3 [simp]: "opfield n 3 opc < 4"
  using opfield_le [of n 3 opc] by simp

lemma opfield_7 [simp]: "opfield n 7 opc < 8"
  using opfield_le [of n 7 opc] by simp

lemma opfield_1F [simp]: "opfield n 0x1F opc < 32"
  using opfield_le [of n "0x1F" opc] by simp

section \<open>Slices of a 64-bit union\<close>

definition slice16 :: "nat \<Rightarrow> u64 \<Rightarrow> u16" where
  "slice16 n w = ucast (drop_bit n w)"

definition put16 :: "nat \<Rightarrow> u16 \<Rightarrow> u64 \<Rightarrow> u64" where
  "put16 n v w = (w AND NOT (push_bit n (mask 16))) OR push_bit n (ucast v)"

definition put32 :: "nat \<Rightarrow> u32 \<Rightarrow> u64 \<Rightarrow> u64" where
  "put32 n v w = (w AND NOT (push_bit n (mask 32))) OR push_bit n (ucast v)"

lemma bit_slice16: "bit (slice16 n w) k \<longleftrightarrow> k < 16 \<and> bit w (n + k)"
  by (auto simp: slice16_def bit_simps)

lemma bit_put16:
  "bit (put16 n v w) k \<longleftrightarrow> k < 64 \<and> (if n \<le> k \<and> k < n + 16 then bit v (k - n) else bit w k)"
  by (auto simp: put16_def bit_simps dest: bit_imp_le_length)

lemma bit_put32:
  "bit (put32 n v w) k \<longleftrightarrow> k < 64 \<and> (if n \<le> k \<and> k < n + 32 then bit v (k - n) else bit w k)"
  by (auto simp: put32_def bit_simps dest: bit_imp_le_length)

lemma slice16_put16_same [simp]: "n \<le> 48 \<Longrightarrow> slice16 n (put16 n v w) = v"
  by (rule bit_word_eqI) (auto simp: bit_slice16 bit_put16)

lemma slice16_put16_other: "n + 16 \<le> m \<or> m + 16 \<le> n \<Longrightarrow> slice16 n (put16 m v w) = slice16 n w"
  by (rule bit_word_eqI) (auto simp: bit_slice16 bit_put16 dest: bit_imp_le_length)

section \<open>40-bit sign extension\<close>

text \<open>
  The accumulators of the DSP have 40 bits and are kept in a 64-bit integer.
  \<open>(value << 24) >> 24\<close> on a signed value extends bit 39.
\<close>

definition sext40 :: "s64 \<Rightarrow> s64" where
  "sext40 v = signed_drop_bit 24 (push_bit 24 v)"

lemma bit_sext40: "bit (sext40 v) n \<longleftrightarrow> n < 64 \<and> bit v (min n 39)"
  by (auto simp: sext40_def bit_simps min_def)

lemma sext40_idem [simp]: "sext40 (sext40 v) = sext40 v"
  by (rule bit_word_eqI) (auto simp: bit_sext40 min_def)

lemma sint_sext40: "sint (sext40 v) = signed_take_bit 39 (sint v)"
  by (rule bit_eqI) (auto simp: bit_sext40 bit_simps min_def)

lemma sext40_fixed_iff: "sext40 v = v \<longleftrightarrow> - (2 ^ 39) \<le> sint v \<and> sint v < 2 ^ 39"
proof -
  have "sext40 v = v \<longleftrightarrow> signed_take_bit 39 (sint v) = sint v"
    by (metis sint_sext40 signed_word_eqI)
  also have "\<dots> \<longleftrightarrow> - (2 ^ 39) \<le> sint v \<and> sint v < 2 ^ 39"
    using signed_take_bit_int_eq_self_iff [of 39 "sint v"] by simp
  finally show ?thesis .
qed

lemma sext40_range: "- (2 ^ 39) \<le> sint (sext40 v)" "sint (sext40 v) < 2 ^ 39"
  using sext40_fixed_iff [of "sext40 v"] by simp_all

lemma sext40_0 [simp]: "sext40 0 = 0"
  by (simp add: sext40_def)

text \<open>
  Signed 40-bit arithmetic: the values are small enough for 64-bit addition and
  subtraction to be exact, and the extension reduces the exact result modulo \<open>2 ^ 40\<close>.
\<close>

lemma sint_add_exact:
  fixes a b :: s64
  assumes "\<bar>sint a\<bar> \<le> 2 ^ 61" "\<bar>sint b\<bar> \<le> 2 ^ 61"
  shows "sint (a + b) = sint a + sint b"
proof -
  have "sint (a + b) = signed_take_bit 63 (sint a + sint b)"
    by (simp add: sint_word_ariths)
  moreover have "signed_take_bit 63 (sint a + sint b) = sint a + sint b"
    using assms by (intro signed_take_bit_int_eq_self) auto
  ultimately show ?thesis by simp
qed

lemma sint_sub_exact:
  fixes a b :: s64
  assumes "\<bar>sint a\<bar> \<le> 2 ^ 61" "\<bar>sint b\<bar> \<le> 2 ^ 61"
  shows "sint (a - b) = sint a - sint b"
proof -
  have "sint (a - b) = signed_take_bit 63 (sint a - sint b)"
    by (simp add: sint_word_ariths)
  moreover have "signed_take_bit 63 (sint a - sint b) = sint a - sint b"
    using assms by (intro signed_take_bit_int_eq_self) auto
  ultimately show ?thesis by simp
qed

lemma sint_minus_exact:
  fixes b :: s64
  assumes "\<bar>sint b\<bar> \<le> 2 ^ 61"
  shows "sint (- b) = - sint b"
  using sint_sub_exact [of 0 b] assms by simp

lemma signed_take_bit_39: "signed_take_bit 39 x = (x + 2 ^ 39) mod 2 ^ 40 - (2 ^ 39 :: int)"
  by (simp add: signed_take_bit_eq_take_bit_shift take_bit_eq_mod)

lemma signed_take_bit_39_cases:
  fixes x :: int
  assumes "- (2 ^ 40) \<le> x" "x < 2 ^ 40"
  shows "signed_take_bit 39 x =
    (if x < - (2 ^ 39) then x + 2 ^ 40 else if x < 2 ^ 39 then x else x - 2 ^ 40)"
proof -
  consider "x < - (2 ^ 39)" | "- (2 ^ 39) \<le> x" "x < 2 ^ 39" | "2 ^ 39 \<le> x" by linarith
  then show ?thesis
  proof cases
    case 1
    have "(x + 2 ^ 39) mod 2 ^ 40 = (x + 2 ^ 39 + 2 ^ 40) mod (2 ^ 40 :: int)"
      by (rule mod_add_self2 [symmetric])
    also have "\<dots> = x + 2 ^ 39 + 2 ^ 40" using 1 assms by (intro mod_pos_pos_trivial) auto
    finally show ?thesis using 1 by (simp add: signed_take_bit_39)
  next
    case 2
    then show ?thesis by (simp add: signed_take_bit_int_eq_self)
  next
    case 3
    have "(x + 2 ^ 39) mod 2 ^ 40 = (x + 2 ^ 39 - 2 ^ 40) mod (2 ^ 40 :: int)"
      using minus_mod_self2 [of "x + 2 ^ 39" "2 ^ 40"] by simp
    also have "\<dots> = x + 2 ^ 39 - 2 ^ 40" using 3 assms by (intro mod_pos_pos_trivial) auto
    finally show ?thesis using 3 by (simp add: signed_take_bit_39)
  qed
qed

text \<open>The sign bit, and the unsigned order of two sign-extended values.\<close>

lemma bit_63_sint: "bit (w :: s64) 63 \<longleftrightarrow> sint w < 0"
  by (simp add: bit_last_iff [where 'a=64, simplified])

lemma uint_by_sign: "uint (w :: u64) = (if sint w < 0 then sint w + 2 ^ 64 else sint w)"
proof -
  have u: "uint w = sint w mod 2 ^ 64" using uint_sint [of w] by (simp add: take_bit_eq_mod)
  have r: "- (2 ^ 63) \<le> sint w" "sint w < 2 ^ 63"
    using sint_ge [of w] sint_lt [of w] by simp_all
  show ?thesis
  proof (cases "sint w < 0")
    case True
    have "sint w mod 2 ^ 64 = (sint w + 2 ^ 64) mod 2 ^ 64"
      by (rule mod_add_self2 [symmetric])
    also have "\<dots> = sint w + 2 ^ 64" using True r by (intro mod_pos_pos_trivial) auto
    finally show ?thesis using True u by simp
  next
    case False
    then have "sint w mod 2 ^ 64 = sint w" using r by (intro mod_pos_pos_trivial) auto
    then show ?thesis using False u by simp
  qed
qed

lemma word_less_sint:
  "(a :: u64) < b \<longleftrightarrow>
    (if sint a < 0 then sint a + 2 ^ 64 else sint a) < (if sint b < 0 then sint b + 2 ^ 64 else sint b)"
  by (simp add: word_less_def uint_by_sign)

section \<open>Widening 16-bit words\<close>

lemma uint_wr [simp]: "uint (ucast (w :: u16) :: u32) = uint w"
  using unsigned_less [of w, where 'a = int] by (simp add: unsigned_ucast_eq take_bit_int_eq_self)

lemma sint_ix: "sint (scast (x :: s16) :: u32) = sint x"
proof -
  have "- (2 ^ 15) \<le> sint x" "sint x < 2 ^ 15" using sint_ge [of x] sint_lt [of x] by simp_all
  then have "signed_take_bit 31 (sint x) = sint x"
    by (intro signed_take_bit_int_eq_self) simp_all
  then show ?thesis by (simp add: signed_scast_eq)
qed

end
