(* ===== verification/Dsp_Accelerator.thy ===== *)
theory Dsp_Accelerator
  imports Dsp_Prelude
begin

text \<open>
  \<open>Core/DSP/DSPAccelerator.cpp\<close> and \<open>.h\<close>: the DSP's memory accelerator, which streams
  samples from ARAM.  The abstract class's virtual methods are parameters: \<open>ReadMemory\<close> is a
  function \<open>rd\<close>, \<open>WriteMemory\<close> calls are returned as the list of \<open>(address, value)\<close> pairs in
  the order they are made, and a call of an \<open>On...EndException\<close> method is a returned flag.
  32-bit addresses and the 32-bit signed sample arithmetic wrap as in the source.
\<close>

section \<open>State\<close>

datatype FormatSize = Size4Bit | Size8Bit | Size16Bit | SizeInvalid

datatype FormatDecode = ADPCM | MMIOPCMNoInc | PCM | MMIOPCMInc

datatype FormatGainScale = GainScale2048 | GainScale1 | GainScale65536 | GainScaleInvalid

record Accelerator =
  m_start_address :: u32
  m_end_address :: u32
  m_current_address :: u32
  m_sample_format :: u16
  m_gain :: s16
  m_yn1 :: s16
  m_yn2 :: s16
  m_pred_scale :: u16
  m_input :: u16
  m_reads_stopped :: bool

text \<open>The bit fields of \<open>union SampleFormat\<close>.\<close>

definition format_size :: "u16 \<Rightarrow> FormatSize" where
  "format_size hex = (let f = hex AND 3 in
     if f = 0 then Size4Bit else if f = 1 then Size8Bit else if f = 2 then Size16Bit
     else SizeInvalid)"

definition format_decode :: "u16 \<Rightarrow> FormatDecode" where
  "format_decode hex = (let f = drop_bit 2 hex AND 3 in
     if f = 0 then ADPCM else if f = 1 then MMIOPCMNoInc else if f = 2 then PCM
     else MMIOPCMInc)"

definition format_gain_scale :: "u16 \<Rightarrow> FormatGainScale" where
  "format_gain_scale hex = (let f = drop_bit 4 hex AND 3 in
     if f = 0 then GainScale2048 else if f = 1 then GainScale1
     else if f = 2 then GainScale65536 else GainScaleInvalid)"

definition initial_accelerator :: Accelerator where
  "initial_accelerator = \<lparr>m_start_address = 0, m_end_address = 0, m_current_address = 0,
     m_sample_format = 0, m_gain = 0, m_yn1 = 0, m_yn2 = 0, m_pred_scale = 0, m_input = 0,
     m_reads_stopped = False\<rparr>"

section \<open>Register writes\<close>

definition START_END_ADDRESS_MASK :: u32 where
  "START_END_ADDRESS_MASK = 0x3fffffff"

definition CURRENT_ADDRESS_MASK :: u32 where
  "CURRENT_ADDRESS_MASK = 0xbfffffff"

definition SetStartAddress :: "u32 \<Rightarrow> Accelerator \<Rightarrow> Accelerator" where
  "SetStartAddress address a = a\<lparr>m_start_address := address AND START_END_ADDRESS_MASK\<rparr>"

definition SetEndAddress :: "u32 \<Rightarrow> Accelerator \<Rightarrow> Accelerator" where
  "SetEndAddress address a = a\<lparr>m_end_address := address AND START_END_ADDRESS_MASK\<rparr>"

definition SetCurrentAddress :: "u32 \<Rightarrow> Accelerator \<Rightarrow> Accelerator" where
  "SetCurrentAddress address a = a\<lparr>m_current_address := address AND CURRENT_ADDRESS_MASK\<rparr>"

definition SetSampleFormat :: "u16 \<Rightarrow> Accelerator \<Rightarrow> Accelerator" where
  "SetSampleFormat format a = a\<lparr>m_sample_format := format\<rparr>"

definition SetGain :: "s16 \<Rightarrow> Accelerator \<Rightarrow> Accelerator" where
  "SetGain gain a = a\<lparr>m_gain := gain\<rparr>"

definition SetYn1 :: "s16 \<Rightarrow> Accelerator \<Rightarrow> Accelerator" where
  "SetYn1 yn1 a = a\<lparr>m_yn1 := yn1\<rparr>"

definition SetYn2 :: "s16 \<Rightarrow> Accelerator \<Rightarrow> Accelerator" where
  "SetYn2 yn2 a = a\<lparr>m_yn2 := yn2, m_reads_stopped := False\<rparr>"

definition SetPredScale :: "u16 \<Rightarrow> Accelerator \<Rightarrow> Accelerator" where
  "SetPredScale pred_scale a = a\<lparr>m_pred_scale := pred_scale AND 0x7f\<rparr>"

definition SetInput :: "u16 \<Rightarrow> Accelerator \<Rightarrow> Accelerator" where
  "SetInput input a = a\<lparr>m_input := input\<rparr>"

section \<open>Raw accesses\<close>

definition GetCurrentSample :: "(u32 \<Rightarrow> u8) \<Rightarrow> Accelerator \<Rightarrow> u16" where
  "GetCurrentSample rd a = (let cur = m_current_address a in
     case format_size (m_sample_format a) of
       Size4Bit \<Rightarrow>
         (let val = ucast (rd (drop_bit 1 cur)) :: u16
          in if cur AND 1 \<noteq> 0 then val AND 0xf else drop_bit 4 val)
     | Size8Bit \<Rightarrow> ucast (rd cur)
     | Size16Bit \<Rightarrow> push_bit 8 (ucast (rd (cur * 2))) OR ucast (rd (cur * 2 + 1))
     | SizeInvalid \<Rightarrow> 0)"

text \<open>The flag says whether \<open>OnRawReadEndException\<close> is called.\<close>

definition ReadRaw :: "(u32 \<Rightarrow> u8) \<Rightarrow> Accelerator \<Rightarrow> u16 \<times> Accelerator \<times> bool" where
  "ReadRaw rd a =
    (let val = GetCurrentSample rd a;
         cur = m_current_address a;
         cur' = (if format_size (m_sample_format a) \<noteq> SizeInvalid then cur + 1
                 else (cur AND NOT 3) OR ((cur + 1) AND 3));
         at_end = (cur' - 1 = m_end_address a);
         cur'' = (if at_end then m_start_address a else cur')
     in (val, SetCurrentAddress cur'' a, at_end))"

text \<open>The writes made, and whether \<open>OnRawWriteEndException\<close> is called.\<close>

definition WriteRaw :: "u16 \<Rightarrow> Accelerator \<Rightarrow> Accelerator \<times> (u32 \<times> u8) list \<times> bool" where
  "WriteRaw value a =
    (let cur = m_current_address a in
     if cur AND 0x80000000 \<noteq> 0
     then (a\<lparr>m_current_address := cur + 1\<rparr>,
           [(cur * 2, ucast (drop_bit 8 value)), (cur * 2 + 1, ucast (value AND 0xFF))], True)
     else (a, [], False))"

section \<open>Decoded samples\<close>

definition sx16_32 :: "s16 \<Rightarrow> s32" where
  "sx16_32 v = scast v"

definition clamp_s32 :: "s32 \<Rightarrow> int \<Rightarrow> int \<Rightarrow> s32" where
  "clamp_s32 v lo hi = (if sint v < lo then word_of_int lo else if hi < sint v then word_of_int hi else v)"

text \<open>The ADPCM branch up to the value: the sample, as \<open>s16\<close>.\<close>

definition adpcm_value :: "s16 \<Rightarrow> s32 \<Rightarrow> s32 \<Rightarrow> Accelerator \<Rightarrow> s16" where
  "adpcm_value raw coef1 coef2 a =
    (let raw' = raw AND 0xF;
         scale = push_bit (unat (m_pred_scale a AND 0xF)) 1 :: s32;
         raw'' = (if 8 \<le> sint raw' then raw' - 16 else raw');
         val32 = scale * sx16_32 raw'' +
           signed_drop_bit 11 (0x400 + coef1 * sx16_32 (m_yn1 a) + coef2 * sx16_32 (m_yn2 a))
     in ucast (clamp_s32 val32 (- 0x7FFF) 0x7FFF))"

text \<open>The ADPCM branch's addresses: new current address, predictor scale and step size.\<close>

definition adpcm_advance :: "(u32 \<Rightarrow> u8) \<Rightarrow> Accelerator \<Rightarrow> Accelerator \<times> u32" where
  "adpcm_advance rd a =
    (let cur = m_current_address a + 1; start = m_start_address a; ending = m_end_address a in
     if ending AND 0xf = 0 \<and> cur = ending then (a\<lparr>m_current_address := start + 1\<rparr>, 2)
     else if ending AND 0xf = 1 \<and> cur = ending - 1 then (a\<lparr>m_current_address := start\<rparr>, 2)
     else if cur AND 15 = 0 then
       (a\<lparr>m_pred_scale := ucast (rd (drop_bit 1 (cur AND NOT 15))), m_current_address := cur + 2\<rparr>, 4)
     else (a\<lparr>m_current_address := cur\<rparr>, 2))"

definition gain_shift :: "u16 \<Rightarrow> nat" where
  "gain_shift hex = (case format_gain_scale hex of
     GainScale2048 \<Rightarrow> 11 | GainScale1 \<Rightarrow> 0 | GainScale65536 \<Rightarrow> 16 | GainScaleInvalid \<Rightarrow> 0)"

definition pcm_value :: "s16 \<Rightarrow> s32 \<Rightarrow> s32 \<Rightarrow> Accelerator \<Rightarrow> s16" where
  "pcm_value raw coef1 coef2 a =
    (let sh = gain_shift (m_sample_format a);
         val32 = signed_drop_bit sh (sx16_32 (m_gain a) * sx16_32 raw) +
           (signed_drop_bit sh (coef1 * sx16_32 (m_yn1 a)) + signed_drop_bit sh (coef2 * sx16_32 (m_yn2 a)))
     in ucast val32)"

text \<open>
  \<open>coefs\<close> is the array of 16 coefficients.  The flag says whether \<open>OnSampleReadEndException\<close>
  is called.
\<close>

definition ReadSample ::
  "(u32 \<Rightarrow> u8) \<Rightarrow> (nat \<Rightarrow> s16) \<Rightarrow> Accelerator \<Rightarrow> u16 \<times> Accelerator \<times> bool" where
  "ReadSample rd coefs a =
    (if m_reads_stopped a then (0, a, False) else
     let decode = format_decode (m_sample_format a);
         raw_sample = (if decode = MMIOPCMNoInc \<or> decode = MMIOPCMInc then m_input a
                       else GetCurrentSample rd a);
         coef_idx = unat (drop_bit 4 (m_pred_scale a) AND 7);
         coef1 = sx16_32 (coefs (coef_idx * 2));
         coef2 = sx16_32 (coefs (coef_idx * 2 + 1));
         val = (if decode = ADPCM then adpcm_value raw_sample coef1 coef2 a
                else pcm_value raw_sample coef1 coef2 a);
         a1 = a\<lparr>m_yn2 := m_yn1 a, m_yn1 := val\<rparr>;
         (a2, step_size) =
           (if decode = ADPCM then adpcm_advance rd a1
            else (if decode \<noteq> MMIOPCMNoInc then a1\<lparr>m_current_address := m_current_address a1 + 1\<rparr>
                  else a1, 2));
         at_end = (m_current_address a2 = m_end_address a2 + step_size - 1);
         a3 = (if at_end then a2\<lparr>m_current_address := m_start_address a2, m_reads_stopped := True\<rparr>
               else a2)
     in (val, SetCurrentAddress (m_current_address a3) a3, at_end))"

end
