(* ===== verification/Dsp_State.thy ===== *)
theory Dsp_State
  imports Dsp_Accelerator
begin

text \<open>
  \<open>Core/DSP/DSPCore.h\<close>: the constants of the DSP, its register file \<open>struct DSP_Regs\<close> with
  the product, secondary and main accumulator unions, and the machine state \<open>struct SDSP\<close>.
  The write-back log of the class \<open>Interpreter\<close>, the analyzer's flag array and the host
  memory the DSP reaches (main RAM, ARAM, EXRAM and the interrupt line to the CPU) are part
  of the same state record, because the handlers change them.  Arrays are functions from the
  index; every index the source uses is masked to the array's size, except in DMA, whose
  out-of-range accesses are the fault \<open>OutOfBoundsDMA\<close>.
\<close>

section \<open>Constants\<close>

abbreviation (input) DSP_IRAM_SIZE :: nat where "DSP_IRAM_SIZE \<equiv> 0x1000"

abbreviation (input) DSP_IRAM_MASK :: u16 where "DSP_IRAM_MASK \<equiv> 0x0fff"

abbreviation (input) DSP_IROM_SIZE :: nat where "DSP_IROM_SIZE \<equiv> 0x1000"

abbreviation (input) DSP_IROM_MASK :: u16 where "DSP_IROM_MASK \<equiv> 0x0fff"

abbreviation (input) DSP_DRAM_SIZE :: nat where "DSP_DRAM_SIZE \<equiv> 0x1000"

abbreviation (input) DSP_DRAM_MASK :: u16 where "DSP_DRAM_MASK \<equiv> 0x0fff"

abbreviation (input) DSP_COEF_SIZE :: nat where "DSP_COEF_SIZE \<equiv> 0x800"

abbreviation (input) DSP_COEF_MASK :: u16 where "DSP_COEF_MASK \<equiv> 0x7ff"

abbreviation (input) DSP_RESET_VECTOR :: u16 where "DSP_RESET_VECTOR \<equiv> 0x8000"

abbreviation (input) DSP_STACK_DEPTH :: nat where "DSP_STACK_DEPTH \<equiv> 0x20"

abbreviation (input) DSP_STACK_MASK :: u8 where "DSP_STACK_MASK \<equiv> 0x1f"

subsection \<open>Register numbers\<close>

abbreviation (input) DSP_REG_AR0 :: nat where "DSP_REG_AR0 \<equiv> 0x00"

abbreviation (input) DSP_REG_AR3 :: nat where "DSP_REG_AR3 \<equiv> 0x03"

abbreviation (input) DSP_REG_IX0 :: nat where "DSP_REG_IX0 \<equiv> 0x04"

abbreviation (input) DSP_REG_IX3 :: nat where "DSP_REG_IX3 \<equiv> 0x07"

abbreviation (input) DSP_REG_WR0 :: nat where "DSP_REG_WR0 \<equiv> 0x08"

abbreviation (input) DSP_REG_WR3 :: nat where "DSP_REG_WR3 \<equiv> 0x0b"

abbreviation (input) DSP_REG_ST0 :: nat where "DSP_REG_ST0 \<equiv> 0x0c"

abbreviation (input) DSP_REG_ST3 :: nat where "DSP_REG_ST3 \<equiv> 0x0f"

abbreviation (input) DSP_REG_ACH0 :: nat where "DSP_REG_ACH0 \<equiv> 0x10"

abbreviation (input) DSP_REG_ACH1 :: nat where "DSP_REG_ACH1 \<equiv> 0x11"

abbreviation (input) DSP_REG_CR :: nat where "DSP_REG_CR \<equiv> 0x12"

abbreviation (input) DSP_REG_SR :: nat where "DSP_REG_SR \<equiv> 0x13"

abbreviation (input) DSP_REG_PRODL :: nat where "DSP_REG_PRODL \<equiv> 0x14"

abbreviation (input) DSP_REG_PRODM :: nat where "DSP_REG_PRODM \<equiv> 0x15"

abbreviation (input) DSP_REG_PRODH :: nat where "DSP_REG_PRODH \<equiv> 0x16"

abbreviation (input) DSP_REG_PRODM2 :: nat where "DSP_REG_PRODM2 \<equiv> 0x17"

abbreviation (input) DSP_REG_AXL0 :: nat where "DSP_REG_AXL0 \<equiv> 0x18"

abbreviation (input) DSP_REG_AXL1 :: nat where "DSP_REG_AXL1 \<equiv> 0x19"

abbreviation (input) DSP_REG_AXH0 :: nat where "DSP_REG_AXH0 \<equiv> 0x1a"

abbreviation (input) DSP_REG_AXH1 :: nat where "DSP_REG_AXH1 \<equiv> 0x1b"

abbreviation (input) DSP_REG_ACL0 :: nat where "DSP_REG_ACL0 \<equiv> 0x1c"

abbreviation (input) DSP_REG_ACL1 :: nat where "DSP_REG_ACL1 \<equiv> 0x1d"

abbreviation (input) DSP_REG_ACM0 :: nat where "DSP_REG_ACM0 \<equiv> 0x1e"

abbreviation (input) DSP_REG_ACM1 :: nat where "DSP_REG_ACM1 \<equiv> 0x1f"

subsection \<open>Hardware register addresses\<close>

abbreviation (input) DSP_COEF_A1_0 :: nat where "DSP_COEF_A1_0 \<equiv> 0xa0"

abbreviation (input) DSP_DSCR :: nat where "DSP_DSCR \<equiv> 0xc9"

abbreviation (input) DSP_DSBL :: nat where "DSP_DSBL \<equiv> 0xcb"

abbreviation (input) DSP_DSPA :: nat where "DSP_DSPA \<equiv> 0xcd"

abbreviation (input) DSP_DSMAH :: nat where "DSP_DSMAH \<equiv> 0xce"

abbreviation (input) DSP_DSMAL :: nat where "DSP_DSMAL \<equiv> 0xcf"

abbreviation (input) DSP_FORMAT :: nat where "DSP_FORMAT \<equiv> 0xd1"

abbreviation (input) DSP_ACDRAW :: nat where "DSP_ACDRAW \<equiv> 0xd3"

abbreviation (input) DSP_ACSAH :: nat where "DSP_ACSAH \<equiv> 0xd4"

abbreviation (input) DSP_ACSAL :: nat where "DSP_ACSAL \<equiv> 0xd5"

abbreviation (input) DSP_ACEAH :: nat where "DSP_ACEAH \<equiv> 0xd6"

abbreviation (input) DSP_ACEAL :: nat where "DSP_ACEAL \<equiv> 0xd7"

abbreviation (input) DSP_ACCAH :: nat where "DSP_ACCAH \<equiv> 0xd8"

abbreviation (input) DSP_ACCAL :: nat where "DSP_ACCAL \<equiv> 0xd9"

abbreviation (input) DSP_PRED_SCALE :: nat where "DSP_PRED_SCALE \<equiv> 0xda"

abbreviation (input) DSP_YN1 :: nat where "DSP_YN1 \<equiv> 0xdb"

abbreviation (input) DSP_YN2 :: nat where "DSP_YN2 \<equiv> 0xdc"

abbreviation (input) DSP_ACDSAMP :: nat where "DSP_ACDSAMP \<equiv> 0xdd"

abbreviation (input) DSP_GAIN :: nat where "DSP_GAIN \<equiv> 0xde"

abbreviation (input) DSP_ACIN :: nat where "DSP_ACIN \<equiv> 0xdf"

abbreviation (input) DSP_AMDM :: nat where "DSP_AMDM \<equiv> 0xef"

abbreviation (input) DSP_DIRQ :: nat where "DSP_DIRQ \<equiv> 0xfb"

abbreviation (input) DSP_DMBH :: nat where "DSP_DMBH \<equiv> 0xfc"

abbreviation (input) DSP_DMBL :: nat where "DSP_DMBL \<equiv> 0xfd"

abbreviation (input) DSP_CMBH :: nat where "DSP_CMBH \<equiv> 0xfe"

abbreviation (input) DSP_CMBL :: nat where "DSP_CMBL \<equiv> 0xff"

subsection \<open>Control and status bits\<close>

abbreviation (input) CR_RESET :: u16 where "CR_RESET \<equiv> 0x0001"

abbreviation (input) CR_EXTERNAL_INT :: u16 where "CR_EXTERNAL_INT \<equiv> 0x0002"

abbreviation (input) CR_HALT :: u16 where "CR_HALT \<equiv> 0x0004"

abbreviation (input) CR_INIT_CODE :: u16 where "CR_INIT_CODE \<equiv> 0x0400"

abbreviation (input) CR_INIT :: u16 where "CR_INIT \<equiv> 0x0800"

abbreviation (input) SR_CARRY :: u16 where "SR_CARRY \<equiv> 0x0001"

abbreviation (input) SR_OVERFLOW :: u16 where "SR_OVERFLOW \<equiv> 0x0002"

abbreviation (input) SR_ARITH_ZERO :: u16 where "SR_ARITH_ZERO \<equiv> 0x0004"

abbreviation (input) SR_SIGN :: u16 where "SR_SIGN \<equiv> 0x0008"

abbreviation (input) SR_OVER_S32 :: u16 where "SR_OVER_S32 \<equiv> 0x0010"

abbreviation (input) SR_TOP2BITS :: u16 where "SR_TOP2BITS \<equiv> 0x0020"

abbreviation (input) SR_LOGIC_ZERO :: u16 where "SR_LOGIC_ZERO \<equiv> 0x0040"

abbreviation (input) SR_OVERFLOW_STICKY :: u16 where "SR_OVERFLOW_STICKY \<equiv> 0x0080"

abbreviation (input) SR_100 :: u16 where "SR_100 \<equiv> 0x0100"

abbreviation (input) SR_INT_ENABLE :: u16 where "SR_INT_ENABLE \<equiv> 0x0200"

abbreviation (input) SR_EXT_INT_ENABLE :: u16 where "SR_EXT_INT_ENABLE \<equiv> 0x0800"

abbreviation (input) SR_MUL_MODIFY :: u16 where "SR_MUL_MODIFY \<equiv> 0x2000"

abbreviation (input) SR_40_MODE_BIT :: u16 where "SR_40_MODE_BIT \<equiv> 0x4000"

abbreviation (input) SR_MUL_UNSIGNED :: u16 where "SR_MUL_UNSIGNED \<equiv> 0x8000"

abbreviation (input) SR_CMP_MASK :: u16 where "SR_CMP_MASK \<equiv> 0x3f"

section \<open>Enumerations\<close>

datatype StackRegister = CallStack | DataStack | LoopAddress | LoopCounter

definition stack_index :: "StackRegister \<Rightarrow> nat" where
  "stack_index k = (case k of CallStack \<Rightarrow> 0 | DataStack \<Rightarrow> 1 | LoopAddress \<Rightarrow> 2 | LoopCounter \<Rightarrow> 3)"

definition stack_of_index :: "nat \<Rightarrow> StackRegister" where
  "stack_of_index i = (if i = 0 then CallStack else if i = 1 then DataStack
     else if i = 2 then LoopAddress else LoopCounter)"

datatype ExceptionType = StackOverflow | EXP_2 | AcceleratorRawReadOverflow
  | AcceleratorRawWriteOverflow | AcceleratorSampleReadOverflow | EXP_6 | ExternalInterrupt

definition exception_number :: "ExceptionType \<Rightarrow> nat" where
  "exception_number e = (case e of StackOverflow \<Rightarrow> 1 | EXP_2 \<Rightarrow> 2
     | AcceleratorRawReadOverflow \<Rightarrow> 3 | AcceleratorRawWriteOverflow \<Rightarrow> 4
     | AcceleratorSampleReadOverflow \<Rightarrow> 5 | EXP_6 \<Rightarrow> 6 | ExternalInterrupt \<Rightarrow> 7)"

datatype Mailbox = CPU | DSP

section \<open>The register file\<close>

record DSP_Regs =
  r_ar :: "nat \<Rightarrow> u16"
  r_ix :: "nat \<Rightarrow> u16"
  r_wr :: "nat \<Rightarrow> u16"
  r_st :: "nat \<Rightarrow> u16"
  r_cr :: u16
  r_sr :: u16
  r_prod :: u64
  r_ax :: "nat \<Rightarrow> u32"
  r_ac :: "nat \<Rightarrow> u64"

text \<open>The members of the unions \<open>prod\<close>, \<open>ax\<close> and \<open>ac\<close>, in little-endian layout.\<close>

definition prod_l :: "u64 \<Rightarrow> u16" where "prod_l p = slice16 0 p"

definition prod_m :: "u64 \<Rightarrow> u16" where "prod_m p = slice16 16 p"

definition prod_h :: "u64 \<Rightarrow> u16" where "prod_h p = slice16 32 p"

definition prod_m2 :: "u64 \<Rightarrow> u16" where "prod_m2 p = slice16 48 p"

definition set_prod_l :: "u16 \<Rightarrow> u64 \<Rightarrow> u64" where "set_prod_l v p = put16 0 v p"

definition set_prod_m :: "u16 \<Rightarrow> u64 \<Rightarrow> u64" where "set_prod_m v p = put16 16 v p"

definition set_prod_h :: "u16 \<Rightarrow> u64 \<Rightarrow> u64" where "set_prod_h v p = put16 32 v p"

definition set_prod_m2 :: "u16 \<Rightarrow> u64 \<Rightarrow> u64" where "set_prod_m2 v p = put16 48 v p"

definition ax_l :: "u32 \<Rightarrow> u16" where "ax_l x = ucast x"

definition ax_h :: "u32 \<Rightarrow> u16" where "ax_h x = ucast (drop_bit 16 x)"

definition set_ax_l :: "u16 \<Rightarrow> u32 \<Rightarrow> u32" where
  "set_ax_l v x = (x AND NOT (mask 16)) OR ucast v"

definition set_ax_h :: "u16 \<Rightarrow> u32 \<Rightarrow> u32" where
  "set_ax_h v x = (x AND mask 16) OR push_bit 16 (ucast v)"

definition ac_l :: "u64 \<Rightarrow> u16" where "ac_l a = slice16 0 a"

definition ac_m :: "u64 \<Rightarrow> u16" where "ac_m a = slice16 16 a"

definition ac_h :: "u64 \<Rightarrow> u32" where "ac_h a = ucast (drop_bit 32 a)"

definition set_ac_l :: "u16 \<Rightarrow> u64 \<Rightarrow> u64" where "set_ac_l v a = put16 0 v a"

definition set_ac_m :: "u16 \<Rightarrow> u64 \<Rightarrow> u64" where "set_ac_m v a = put16 16 v a"

definition set_ac_h :: "u32 \<Rightarrow> u64 \<Rightarrow> u64" where "set_ac_h v a = put32 32 v a"

lemma bit_set_ac:
  "bit (set_ac_l x a) n \<longleftrightarrow> n < 64 \<and> (if n < 16 then bit x n else bit a n)"
  "bit (set_ac_m x a) n \<longleftrightarrow> n < 64 \<and> (if 16 \<le> n \<and> n < 32 then bit x (n - 16) else bit a n)"
  "bit (set_ac_h y a) n \<longleftrightarrow> n < 64 \<and> (if 32 \<le> n then bit y (n - 32) else bit a n)"
  by (auto simp: set_ac_l_def set_ac_m_def set_ac_h_def bit_put16 bit_put32)

section \<open>Host side\<close>

text \<open>
  The memory of the emulated console as the DSP sees it: main RAM, EXRAM (Wii), ARAM
  (GameCube) and the number of interrupts the DSP has requested of the CPU.
\<close>

record host =
  h_ram :: "u32 \<Rightarrow> u8"
  h_ram_size :: u32
  h_ram_mask :: u32
  h_exram :: "u32 \<Rightarrow> u8"
  h_exram_size :: u32
  h_exram_mask :: u32
  h_aram :: "u32 \<Rightarrow> u8"
  h_aram_mask :: u32
  h_wii_mode :: bool
  h_irq :: nat

section \<open>The machine state\<close>

text \<open>
  \<open>ExitOversizedDMA\<close> is the \<open>std::exit(0)\<close> of \<open>SDSP::DoDMA\<close>; \<open>OutOfBoundsDMA\<close> is a DMA
  that reads or writes outside \<open>iram\<close> or \<open>dram\<close>, undefined behaviour in C++;
  \<open>NullCodePointer\<close> is \<open>Host::CodeLoaded\<close> hashing through the null pointer of an unmapped
  source address.  The first fault
  is kept in \<open>fault\<close>; the source's program has no defined state after it, so the run
  functions stop there and no theorem says anything of the other fields of a faulted state.
\<close>

datatype dsp_fault = ExitOversizedDMA | OutOfBoundsDMA | NullCodePointer

record SDSP =
  regs :: DSP_Regs
  pc :: u16
  control_reg :: u16
  control_reg_init_code_clear_time :: u64
  reg_stack_ptrs :: "nat \<Rightarrow> u8"
  exceptions :: u8
  external_interrupt_waiting :: bool
  reg_stacks :: "nat \<Rightarrow> nat \<Rightarrow> u16"
  iram :: "nat \<Rightarrow> u16"
  dram :: "nat \<Rightarrow> u16"
  irom :: "nat \<Rightarrow> u16"
  coef :: "nat \<Rightarrow> u16"
  iram_crc :: u32
  step_counter :: u64
  ifx_regs :: "nat \<Rightarrow> u16"
  accelerator :: Accelerator
  mailbox :: "Mailbox \<Rightarrow> u32"
  code_flags :: "u16 \<Rightarrow> u8"
  write_back_log :: "nat \<Rightarrow> u16"
  write_back_log_idx :: "nat \<Rightarrow> int"
  the_host :: host
  fault :: "dsp_fault option"

subsection \<open>Access to single registers\<close>

abbreviation sr_of :: "SDSP \<Rightarrow> u16" where "sr_of s \<equiv> r_sr (regs s)"

abbreviation ac_of :: "SDSP \<Rightarrow> nat \<Rightarrow> u64" where "ac_of s i \<equiv> r_ac (regs s) i"

abbreviation ax_of :: "SDSP \<Rightarrow> nat \<Rightarrow> u32" where "ax_of s i \<equiv> r_ax (regs s) i"

abbreviation ar_of :: "SDSP \<Rightarrow> nat \<Rightarrow> u16" where "ar_of s i \<equiv> r_ar (regs s) i"

abbreviation ix_of :: "SDSP \<Rightarrow> nat \<Rightarrow> u16" where "ix_of s i \<equiv> r_ix (regs s) i"

abbreviation wr_of :: "SDSP \<Rightarrow> nat \<Rightarrow> u16" where "wr_of s i \<equiv> r_wr (regs s) i"

abbreviation upd_sr :: "(u16 \<Rightarrow> u16) \<Rightarrow> SDSP \<Rightarrow> SDSP" where
  "upd_sr f \<equiv> regs_update (r_sr_update f)"

abbreviation upd_ac :: "nat \<Rightarrow> (u64 \<Rightarrow> u64) \<Rightarrow> SDSP \<Rightarrow> SDSP" where
  "upd_ac i f \<equiv> regs_update (r_ac_update (\<lambda>a. a(i := f (a i))))"

abbreviation upd_ax :: "nat \<Rightarrow> (u32 \<Rightarrow> u32) \<Rightarrow> SDSP \<Rightarrow> SDSP" where
  "upd_ax i f \<equiv> regs_update (r_ax_update (\<lambda>a. a(i := f (a i))))"

abbreviation set_ar :: "nat \<Rightarrow> u16 \<Rightarrow> SDSP \<Rightarrow> SDSP" where
  "set_ar i v \<equiv> regs_update (r_ar_update (\<lambda>a. a(i := v)))"

abbreviation set_pc :: "u16 \<Rightarrow> SDSP \<Rightarrow> SDSP" where
  "set_pc v \<equiv> pc_update (\<lambda>_. v)"

definition raise_fault :: "dsp_fault \<Rightarrow> SDSP \<Rightarrow> SDSP" where
  "raise_fault f s = (if fault s = None then s\<lparr>fault := Some f\<rparr> else s)"

section \<open>Well-formed states\<close>

text \<open>
  Between two instructions the accumulators are sign-extended 40-bit values, \<open>$cr\<close> and the
  high part of \<open>$prod\<close> have eight bits, the stack pointers index the 32-entry stacks and the
  write-back log is empty.
\<close>

definition log_empty :: "SDSP \<Rightarrow> bool" where
  "log_empty s \<longleftrightarrow> (\<forall>i<5. write_back_log_idx s i = -1)"

definition regs_ok :: "SDSP \<Rightarrow> bool" where
  "regs_ok s \<longleftrightarrow> (\<forall>i<2. sext40 (ac_of s i) = ac_of s i) \<and> r_cr (regs s) \<le> 0xff \<and>
     prod_h (r_prod (regs s)) \<le> 0xff \<and> (\<forall>i<4. reg_stack_ptrs s i < 32)"

definition dsp_wf :: "SDSP \<Rightarrow> bool" where
  "dsp_wf s \<longleftrightarrow> regs_ok s \<and> log_empty s"

end
