(* ===== verification/Dsp_Tables.thy ===== *)
theory Dsp_Tables
  imports Dsp_State
begin

text \<open>
  \<open>Core/DSP/DSPTables.cpp\<close> and \<open>.h\<close>: the table of the 230 instruction templates and of
  the 25 extension templates, the first-match search \<open>FindByOpcode\<close> and the lookups built on
  it.  A template keeps its name, code, mask, size and flags; the parameter descriptions and
  labels, which only the assembler and disassembler read, are left out.  \<open>InitInstructionTable\<close>
  fills two arrays with the result of \<open>FindByOpcode\<close>, or with \<open>cw\<close> where nothing matches; the
  model computes the entry instead of storing it.
\<close>

section \<open>Templates\<close>

record DSPOPCTemplate =
  op_name :: string
  opcode :: u16
  opcode_mask :: u16
  op_size :: u16
  extended :: bool
  branch :: bool
  uncond_branch :: bool
  reads_pc :: bool
  updates_sr :: bool

definition op_template :: "string \<Rightarrow> u16 \<Rightarrow> u16 \<Rightarrow> u16 \<Rightarrow> bool \<Rightarrow> bool \<Rightarrow> bool \<Rightarrow> bool \<Rightarrow> bool \<Rightarrow> DSPOPCTemplate" where
  "op_template n c m sz e b u p r = \<lparr>op_name = n, opcode = c, opcode_mask = m, op_size = sz,
     extended = e, branch = b, uncond_branch = u, reads_pc = p, updates_sr = r\<rparr>"

definition dsp_opcodes_1 :: "DSPOPCTemplate list" where
  "dsp_opcodes_1 = [
    op_template ''NOP'' 0x0000 0xfffc 1 False False False False False,
    op_template ''DAR'' 0x0004 0xfffc 1 False False False False False,
    op_template ''IAR'' 0x0008 0xfffc 1 False False False False False,
    op_template ''SUBARN'' 0x000c 0xfffc 1 False False False False False,
    op_template ''ADDARN'' 0x0010 0xfff0 1 False False False False False,
    op_template ''HALT'' 0x0021 0xffff 1 False True True False False,
    op_template ''RETGE'' 0x02d0 0xffff 1 False True False True False,
    op_template ''RETL'' 0x02d1 0xffff 1 False True False True False,
    op_template ''RETG'' 0x02d2 0xffff 1 False True False True False,
    op_template ''RETLE'' 0x02d3 0xffff 1 False True False True False,
    op_template ''RETNZ'' 0x02d4 0xffff 1 False True False True False,
    op_template ''RETZ'' 0x02d5 0xffff 1 False True False True False,
    op_template ''RETNC'' 0x02d6 0xffff 1 False True False True False,
    op_template ''RETC'' 0x02d7 0xffff 1 False True False True False,
    op_template ''RETX8'' 0x02d8 0xffff 1 False True False True False,
    op_template ''RETX9'' 0x02d9 0xffff 1 False True False True False,
    op_template ''RETXA'' 0x02da 0xffff 1 False True False True False,
    op_template ''RETXB'' 0x02db 0xffff 1 False True False True False,
    op_template ''RETLNZ'' 0x02dc 0xffff 1 False True False True False,
    op_template ''RETLZ'' 0x02dd 0xffff 1 False True False True False,
    op_template ''RETO'' 0x02de 0xffff 1 False True False True False,
    op_template ''RET'' 0x02df 0xffff 1 False True True False False,
    op_template ''RTIGE'' 0x02f0 0xffff 1 False True False True False,
    op_template ''RTIL'' 0x02f1 0xffff 1 False True False True False,
    op_template ''RTIG'' 0x02f2 0xffff 1 False True False True False,
    op_template ''RTILE'' 0x02f3 0xffff 1 False True False True False,
    op_template ''RTINZ'' 0x02f4 0xffff 1 False True False True False,
    op_template ''RTIZ'' 0x02f5 0xffff 1 False True False True False,
    op_template ''RTINC'' 0x02f6 0xffff 1 False True False True False,
    op_template ''RTIC'' 0x02f7 0xffff 1 False True False True False,
    op_template ''RTIX8'' 0x02f8 0xffff 1 False True False True False,
    op_template ''RTIX9'' 0x02f9 0xffff 1 False True False True False,
    op_template ''RTIXA'' 0x02fa 0xffff 1 False True False True False,
    op_template ''RTIXB'' 0x02fb 0xffff 1 False True False True False,
    op_template ''RTILNZ'' 0x02fc 0xffff 1 False True False True False,
    op_template ''RTILZ'' 0x02fd 0xffff 1 False True False True False,
    op_template ''RTIO'' 0x02fe 0xffff 1 False True False True False,
    op_template ''RTI'' 0x02ff 0xffff 1 False True True False False,
    op_template ''CALLGE'' 0x02b0 0xffff 2 False True False True False,
    op_template ''CALLL'' 0x02b1 0xffff 2 False True False True False,
    op_template ''CALLG'' 0x02b2 0xffff 2 False True False True False,
    op_template ''CALLLE'' 0x02b3 0xffff 2 False True False True False,
    op_template ''CALLNZ'' 0x02b4 0xffff 2 False True False True False,
    op_template ''CALLZ'' 0x02b5 0xffff 2 False True False True False,
    op_template ''CALLNC'' 0x02b6 0xffff 2 False True False True False,
    op_template ''CALLC'' 0x02b7 0xffff 2 False True False True False,
    op_template ''CALLX8'' 0x02b8 0xffff 2 False True False True False,
    op_template ''CALLX9'' 0x02b9 0xffff 2 False True False True False,
    op_template ''CALLXA'' 0x02ba 0xffff 2 False True False True False,
    op_template ''CALLXB'' 0x02bb 0xffff 2 False True False True False,
    op_template ''CALLLNZ'' 0x02bc 0xffff 2 False True False True False,
    op_template ''CALLLZ'' 0x02bd 0xffff 2 False True False True False,
    op_template ''CALLO'' 0x02be 0xffff 2 False True False True False,
    op_template ''CALL'' 0x02bf 0xffff 2 False True True True False,
    op_template ''IFGE'' 0x0270 0xffff 1 False True False True False,
    op_template ''IFL'' 0x0271 0xffff 1 False True False True False,
    op_template ''IFG'' 0x0272 0xffff 1 False True False True False,
    op_template ''IFLE'' 0x0273 0xffff 1 False True False True False,
    op_template ''IFNZ'' 0x0274 0xffff 1 False True False True False,
    op_template ''IFZ'' 0x0275 0xffff 1 False True False True False,
    op_template ''IFNC'' 0x0276 0xffff 1 False True False True False,
    op_template ''IFC'' 0x0277 0xffff 1 False True False True False,
    op_template ''IFX8'' 0x0278 0xffff 1 False True False True False,
    op_template ''IFX9'' 0x0279 0xffff 1 False True False True False,
    op_template ''IFXA'' 0x027a 0xffff 1 False True False True False,
    op_template ''IFXB'' 0x027b 0xffff 1 False True False True False,
    op_template ''IFLNZ'' 0x027c 0xffff 1 False True False True False,
    op_template ''IFLZ'' 0x027d 0xffff 1 False True False True False,
    op_template ''IFO'' 0x027e 0xffff 1 False True False True False,
    op_template ''IF'' 0x027f 0xffff 1 False True True True False,
    op_template ''JGE'' 0x0290 0xffff 2 False True False True False,
    op_template ''JL'' 0x0291 0xffff 2 False True False True False,
    op_template ''JG'' 0x0292 0xffff 2 False True False True False,
    op_template ''JLE'' 0x0293 0xffff 2 False True False True False,
    op_template ''JNZ'' 0x0294 0xffff 2 False True False True False,
    op_template ''JZ'' 0x0295 0xffff 2 False True False True False,
    op_template ''JNC'' 0x0296 0xffff 2 False True False True False,
    op_template ''JC'' 0x0297 0xffff 2 False True False True False,
    op_template ''JMPX8'' 0x0298 0xffff 2 False True False True False,
    op_template ''JMPX9'' 0x0299 0xffff 2 False True False True False,
    op_template ''JMPXA'' 0x029a 0xffff 2 False True False True False,
    op_template ''JMPXB'' 0x029b 0xffff 2 False True False True False,
    op_template ''JLNZ'' 0x029c 0xffff 2 False True False True False,
    op_template ''JLZ'' 0x029d 0xffff 2 False True False True False,
    op_template ''JO'' 0x029e 0xffff 2 False True False True False,
    op_template ''JMP'' 0x029f 0xffff 2 False True True True False]"

definition dsp_opcodes_2 :: "DSPOPCTemplate list" where
  "dsp_opcodes_2 = [
    op_template ''JRGE'' 0x1700 0xff1f 1 False True False False False,
    op_template ''JRL'' 0x1701 0xff1f 1 False True False False False,
    op_template ''JRG'' 0x1702 0xff1f 1 False True False False False,
    op_template ''JRLE'' 0x1703 0xff1f 1 False True False False False,
    op_template ''JRNZ'' 0x1704 0xff1f 1 False True False False False,
    op_template ''JRZ'' 0x1705 0xff1f 1 False True False False False,
    op_template ''JRNC'' 0x1706 0xff1f 1 False True False False False,
    op_template ''JRC'' 0x1707 0xff1f 1 False True False False False,
    op_template ''JMPRX8'' 0x1708 0xff1f 1 False True False False False,
    op_template ''JMPRX9'' 0x1709 0xff1f 1 False True False False False,
    op_template ''JMPRXA'' 0x170a 0xff1f 1 False True False False False,
    op_template ''JMPRXB'' 0x170b 0xff1f 1 False True False False False,
    op_template ''JRLNZ'' 0x170c 0xff1f 1 False True False False False,
    op_template ''JRLZ'' 0x170d 0xff1f 1 False True False False False,
    op_template ''JRO'' 0x170e 0xff1f 1 False True False False False,
    op_template ''JMPR'' 0x170f 0xff1f 1 False True True False False,
    op_template ''CALLRGE'' 0x1710 0xff1f 1 False True False True False,
    op_template ''CALLRL'' 0x1711 0xff1f 1 False True False True False,
    op_template ''CALLRG'' 0x1712 0xff1f 1 False True False True False,
    op_template ''CALLRLE'' 0x1713 0xff1f 1 False True False True False,
    op_template ''CALLRNZ'' 0x1714 0xff1f 1 False True False True False,
    op_template ''CALLRZ'' 0x1715 0xff1f 1 False True False True False,
    op_template ''CALLRNC'' 0x1716 0xff1f 1 False True False True False,
    op_template ''CALLRC'' 0x1717 0xff1f 1 False True False True False,
    op_template ''CALLRX8'' 0x1718 0xff1f 1 False True False True False,
    op_template ''CALLRX9'' 0x1719 0xff1f 1 False True False True False,
    op_template ''CALLRXA'' 0x171a 0xff1f 1 False True False True False,
    op_template ''CALLRXB'' 0x171b 0xff1f 1 False True False True False,
    op_template ''CALLRLNZ'' 0x171c 0xff1f 1 False True False True False,
    op_template ''CALLRLZ'' 0x171d 0xff1f 1 False True False True False,
    op_template ''CALLRO'' 0x171e 0xff1f 1 False True False True False,
    op_template ''CALLR'' 0x171f 0xff1f 1 False True True True False,
    op_template ''SBCLR'' 0x1200 0xff00 1 False False False False False,
    op_template ''SBSET'' 0x1300 0xff00 1 False False False False False,
    op_template ''LSL'' 0x1400 0xfec0 1 False False False False True,
    op_template ''LSR'' 0x1440 0xfec0 1 False False False False True,
    op_template ''ASL'' 0x1480 0xfec0 1 False False False False True,
    op_template ''ASR'' 0x14c0 0xfec0 1 False False False False True,
    op_template ''LSRN'' 0x02ca 0xffff 1 False False False False True,
    op_template ''ASRN'' 0x02cb 0xffff 1 False False False False True,
    op_template ''LRI'' 0x0080 0xffe0 2 False False False True False,
    op_template ''LR'' 0x00c0 0xffe0 2 False False False True False,
    op_template ''SR'' 0x00e0 0xffe0 2 False False False True False,
    op_template ''MRR'' 0x1c00 0xfc00 1 False False False False False,
    op_template ''SI'' 0x1600 0xff00 2 False False False True False,
    op_template ''ADDIS'' 0x0400 0xfe00 1 False False False False True,
    op_template ''CMPIS'' 0x0600 0xfe00 1 False False False False True,
    op_template ''LRIS'' 0x0800 0xf800 1 False False False False True,
    op_template ''ADDI'' 0x0200 0xfeff 2 False False False True True,
    op_template ''XORI'' 0x0220 0xfeff 2 False False False True True,
    op_template ''ANDI'' 0x0240 0xfeff 2 False False False True True,
    op_template ''ORI'' 0x0260 0xfeff 2 False False False True True,
    op_template ''CMPI'' 0x0280 0xfeff 2 False False False True True,
    op_template ''ANDF'' 0x02a0 0xfeff 2 False False False True True,
    op_template ''ANDCF'' 0x02c0 0xfeff 2 False False False True True,
    op_template ''ILRR'' 0x0210 0xfefc 1 False False False False False,
    op_template ''ILRRD'' 0x0214 0xfefc 1 False False False False False,
    op_template ''ILRRI'' 0x0218 0xfefc 1 False False False False False,
    op_template ''ILRRN'' 0x021c 0xfefc 1 False False False False False,
    op_template ''LOOP'' 0x0040 0xffe0 1 False True True True False,
    op_template ''BLOOP'' 0x0060 0xffe0 2 False True True True False,
    op_template ''LOOPI'' 0x1000 0xff00 1 False True True True False,
    op_template ''BLOOPI'' 0x1100 0xff00 2 False True True True False,
    op_template ''LRR'' 0x1800 0xff80 1 False False False False False,
    op_template ''LRRD'' 0x1880 0xff80 1 False False False False False,
    op_template ''LRRI'' 0x1900 0xff80 1 False False False False False,
    op_template ''LRRN'' 0x1980 0xff80 1 False False False False False,
    op_template ''SRR'' 0x1a00 0xff80 1 False False False False False,
    op_template ''SRRD'' 0x1a80 0xff80 1 False False False False False,
    op_template ''SRRI'' 0x1b00 0xff80 1 False False False False False,
    op_template ''SRRN'' 0x1b80 0xff80 1 False False False False False,
    op_template ''LRS'' 0x2000 0xf800 1 False False False False False,
    op_template ''SRSH'' 0x2800 0xfe00 1 False False False False False,
    op_template ''SRS'' 0x2c00 0xfc00 1 False False False False False]"

definition dsp_opcodes_3 :: "DSPOPCTemplate list" where
  "dsp_opcodes_3 = [
    op_template ''XORR'' 0x3000 0xfc80 1 True False False False True,
    op_template ''ANDR'' 0x3400 0xfc80 1 True False False False True,
    op_template ''ORR'' 0x3800 0xfc80 1 True False False False True,
    op_template ''ANDC'' 0x3c00 0xfe80 1 True False False False True,
    op_template ''ORC'' 0x3e00 0xfe80 1 True False False False True,
    op_template ''XORC'' 0x3080 0xfe80 1 True False False False True,
    op_template ''NOT'' 0x3280 0xfe80 1 True False False False True,
    op_template ''LSRNRX'' 0x3480 0xfc80 1 True False False False True,
    op_template ''ASRNRX'' 0x3880 0xfc80 1 True False False False True,
    op_template ''LSRNR'' 0x3c80 0xfe80 1 True False False False True,
    op_template ''ASRNR'' 0x3e80 0xfe80 1 True False False False True,
    op_template ''ADDR'' 0x4000 0xf800 1 True False False False True,
    op_template ''ADDAX'' 0x4800 0xfc00 1 True False False False True,
    op_template ''ADD'' 0x4c00 0xfe00 1 True False False False True,
    op_template ''ADDP'' 0x4e00 0xfe00 1 True False False False True,
    op_template ''SUBR'' 0x5000 0xf800 1 True False False False True,
    op_template ''SUBAX'' 0x5800 0xfc00 1 True False False False True,
    op_template ''SUB'' 0x5c00 0xfe00 1 True False False False True,
    op_template ''SUBP'' 0x5e00 0xfe00 1 True False False False True,
    op_template ''MOVR'' 0x6000 0xf800 1 True False False False True,
    op_template ''MOVAX'' 0x6800 0xfc00 1 True False False False True,
    op_template ''MOV'' 0x6c00 0xfe00 1 True False False False True,
    op_template ''MOVP'' 0x6e00 0xfe00 1 True False False False True,
    op_template ''ADDAXL'' 0x7000 0xfc00 1 True False False False True,
    op_template ''INCM'' 0x7400 0xfe00 1 True False False False True,
    op_template ''INC'' 0x7600 0xfe00 1 True False False False True,
    op_template ''DECM'' 0x7800 0xfe00 1 True False False False True,
    op_template ''DEC'' 0x7a00 0xfe00 1 True False False False True,
    op_template ''NEG'' 0x7c00 0xfe00 1 True False False False True,
    op_template ''MOVNP'' 0x7e00 0xfe00 1 True False False False True,
    op_template ''NX'' 0x8000 0xf700 1 True False False False False,
    op_template ''CLR'' 0x8100 0xf700 1 True False False False True,
    op_template ''CMP'' 0x8200 0xff00 1 True False False False True,
    op_template ''MULAXH'' 0x8300 0xff00 1 True False False False True,
    op_template ''CLRP'' 0x8400 0xff00 1 True False False False True,
    op_template ''TSTPROD'' 0x8500 0xff00 1 True False False False True,
    op_template ''TSTAXH'' 0x8600 0xfe00 1 True False False False True,
    op_template ''M2'' 0x8a00 0xff00 1 True False False False False,
    op_template ''M0'' 0x8b00 0xff00 1 True False False False False,
    op_template ''CLR15'' 0x8c00 0xff00 1 True False False False False,
    op_template ''SET15'' 0x8d00 0xff00 1 True False False False False,
    op_template ''SET16'' 0x8e00 0xff00 1 True False False False False,
    op_template ''SET40'' 0x8f00 0xff00 1 True False False False False,
    op_template ''MUL'' 0x9000 0xf700 1 True False False False True,
    op_template ''ASR16'' 0x9100 0xf700 1 True False False False True,
    op_template ''MULMVZ'' 0x9200 0xf600 1 True False False False True,
    op_template ''MULAC'' 0x9400 0xf600 1 True False False False True,
    op_template ''MULMV'' 0x9600 0xf600 1 True False False False True,
    op_template ''MULX'' 0xa000 0xe700 1 True False False False True,
    op_template ''ABS'' 0xa100 0xf700 1 True False False False True,
    op_template ''MULXMVZ'' 0xa200 0xe600 1 True False False False True,
    op_template ''MULXAC'' 0xa400 0xe600 1 True False False False True,
    op_template ''MULXMV'' 0xa600 0xe600 1 True False False False True,
    op_template ''TST'' 0xb100 0xf700 1 True False False False True,
    op_template ''MULC'' 0xc000 0xe700 1 True False False False True,
    op_template ''CMPAXH'' 0xc100 0xe700 1 True False False False True,
    op_template ''MULCMVZ'' 0xc200 0xe600 1 True False False False True,
    op_template ''MULCAC'' 0xc400 0xe600 1 True False False False True,
    op_template ''MULCMV'' 0xc600 0xe600 1 True False False False True,
    op_template ''MADDX'' 0xe000 0xfc00 1 True False False False True,
    op_template ''MSUBX'' 0xe400 0xfc00 1 True False False False True,
    op_template ''MADDC'' 0xe800 0xfc00 1 True False False False True,
    op_template ''MSUBC'' 0xec00 0xfc00 1 True False False False True,
    op_template ''LSL16'' 0xf000 0xfe00 1 True False False False True,
    op_template ''MADD'' 0xf200 0xfe00 1 True False False False True,
    op_template ''LSR16'' 0xf400 0xfe00 1 True False False False True,
    op_template ''MSUB'' 0xf600 0xfe00 1 True False False False True,
    op_template ''ADDPAXZ'' 0xf800 0xfc00 1 True False False False True,
    op_template ''CLRL'' 0xfc00 0xfe00 1 True False False False True,
    op_template ''MOVPZ'' 0xfe00 0xfe00 1 True False False False True]"

definition dsp_opcodes_ext :: "DSPOPCTemplate list" where
  "dsp_opcodes_ext = [
    op_template ''XXX'' 0x0000 0x00fc 1 False False False False False,
    op_template ''DR'' 0x0004 0x00fc 1 False False False False False,
    op_template ''IR'' 0x0008 0x00fc 1 False False False False False,
    op_template ''NR'' 0x000c 0x00fc 1 False False False False False,
    op_template ''MV'' 0x0010 0x00f0 1 False False False False False,
    op_template ''S'' 0x0020 0x00e4 1 False False False False False,
    op_template ''SN'' 0x0024 0x00e4 1 False False False False False,
    op_template ''L'' 0x0040 0x00c4 1 False False False False False,
    op_template ''LN'' 0x0044 0x00c4 1 False False False False False,
    op_template ''LS'' 0x0080 0x00ce 1 False False False False False,
    op_template ''SL'' 0x0082 0x00ce 1 False False False False False,
    op_template ''LSN'' 0x0084 0x00ce 1 False False False False False,
    op_template ''SLN'' 0x0086 0x00ce 1 False False False False False,
    op_template ''LSM'' 0x0088 0x00ce 1 False False False False False,
    op_template ''SLM'' 0x008a 0x00ce 1 False False False False False,
    op_template ''LSNM'' 0x008c 0x00ce 1 False False False False False,
    op_template ''SLNM'' 0x008e 0x00ce 1 False False False False False,
    op_template ''LDAX'' 0x00c3 0x00cf 1 False False False False False,
    op_template ''LDAXN'' 0x00c7 0x00cf 1 False False False False False,
    op_template ''LDAXM'' 0x00cb 0x00cf 1 False False False False False,
    op_template ''LDAXNM'' 0x00cf 0x00cf 1 False False False False False,
    op_template ''LD'' 0x00c0 0x00cc 1 False False False False False,
    op_template ''LDN'' 0x00c4 0x00cc 1 False False False False False,
    op_template ''LDM'' 0x00c8 0x00cc 1 False False False False False,
    op_template ''LDNM'' 0x00cc 0x00cc 1 False False False False False]"

definition dsp_opcodes :: "DSPOPCTemplate list" where
  "dsp_opcodes = dsp_opcodes_1 @ dsp_opcodes_2 @ dsp_opcodes_3"

definition cw :: DSPOPCTemplate where
  "cw = op_template ''CW'' 0x0000 0x0000 1 False False False False False"

section \<open>Lookup\<close>

definition FindByOpcode :: "u16 \<Rightarrow> DSPOPCTemplate list \<Rightarrow> DSPOPCTemplate option" where
  "FindByOpcode inst data = List.find (\<lambda>info. inst AND opcode_mask info = opcode info) data"

definition FindOpInfoByOpcode :: "u16 \<Rightarrow> DSPOPCTemplate option" where
  "FindOpInfoByOpcode inst = FindByOpcode inst dsp_opcodes"

definition FindOpInfoByName :: "string \<Rightarrow> DSPOPCTemplate option" where
  "FindOpInfoByName name = List.find (\<lambda>info. op_name info = name) dsp_opcodes"

definition FindExtOpInfoByOpcode :: "u16 \<Rightarrow> DSPOPCTemplate option" where
  "FindExtOpInfoByOpcode inst = FindByOpcode inst dsp_opcodes_ext"

definition FindExtOpInfoByName :: "string \<Rightarrow> DSPOPCTemplate option" where
  "FindExtOpInfoByName name = List.find (\<lambda>info. op_name info = name) dsp_opcodes_ext"

definition GetOpTemplate :: "u16 \<Rightarrow> DSPOPCTemplate" where
  "GetOpTemplate inst = (case FindOpInfoByOpcode inst of Some t \<Rightarrow> t | None \<Rightarrow> cw)"

definition GetExtOpTemplate :: "u16 \<Rightarrow> DSPOPCTemplate" where
  "GetExtOpTemplate inst =
    (let i = (if drop_bit 12 inst = 3 then inst AND 0x7F else inst AND 0xFF)
     in case FindExtOpInfoByOpcode i of Some t \<Rightarrow> t | None \<Rightarrow> cw)"

section \<open>Facts every lookup has\<close>

lemma find_Some_in: "List.find P xs = Some x \<Longrightarrow> x \<in> set xs \<and> P x"
  by (auto simp: find_Some_iff)

lemmas dsp_opcodes_defs = dsp_opcodes_def dsp_opcodes_1_def dsp_opcodes_2_def dsp_opcodes_3_def

lemma op_template_simps [simp]:
  "op_name (op_template n c m sz e b u p r) = n" "opcode (op_template n c m sz e b u p r) = c"
  "opcode_mask (op_template n c m sz e b u p r) = m" "op_size (op_template n c m sz e b u p r) = sz"
  "extended (op_template n c m sz e b u p r) = e" "branch (op_template n c m sz e b u p r) = b"
  "uncond_branch (op_template n c m sz e b u p r) = u" "reads_pc (op_template n c m sz e b u p r) = p"
  "updates_sr (op_template n c m sz e b u p r) = r"
  by (simp_all add: op_template_def)

definition templates_conflict :: "DSPOPCTemplate \<Rightarrow> DSPOPCTemplate \<Rightarrow> bool" where
  "templates_conflict a b \<longleftrightarrow> (opcode a XOR opcode b) AND (opcode_mask a AND opcode_mask b) = 0"

end
