(* ===== verification/Dsp_Host.thy ===== *)
theory Dsp_Host
  imports Dsp_Analyzer
begin

text \<open>
  The environment the DSP core calls: \<open>Core/HW/DSPLLE/DSPHost.cpp\<close>, the ARAM accesses of
  \<open>Core/HW/DSP.cpp\<close>, the address translation and the byte-swapping copies of
  \<open>Core/HW/Memmap.cpp\<close> and \<open>.h\<close>, and the hash of uploaded code (\<open>Common/Hash.cpp\<close>).  A copy
  whose DSP side leaves the 4096-word memory is the fault \<open>OutOfBoundsDMA\<close>.  The panic alerts
  of unmapped addresses and the symbol files written for the debugger are left out.
\<close>

section \<open>Console memory\<close>

datatype region = Ram | ExRam

text \<open>\<open>GetSpanForAddress\<close>: the region, the offset in it and the bytes left, or a null span.\<close>

definition GetSpanForAddress :: "host \<Rightarrow> u32 \<Rightarrow> (region \<times> u32 \<times> u32) option" where
  "GetSpanForAddress h address =
    (let a = address AND 0x3FFFFFFF in
     if a < h_ram_size h then Some (Ram, a, h_ram_size h - a)
     else if drop_bit 28 a = 1 \<and> a AND 0x0fffffff < h_exram_size h
     then Some (ExRam, a AND h_exram_mask h, h_exram_size h - (a AND h_exram_mask h))
     else None)"

definition GetPointerForRange :: "host \<Rightarrow> u32 \<Rightarrow> nat \<Rightarrow> (region \<times> u32) option" where
  "GetPointerForRange h address sz =
    (case GetSpanForAddress h address of
       None \<Rightarrow> None
     | Some (rg, off, len) \<Rightarrow> if unat len < sz then None else Some (rg, off))"

definition region_byte :: "host \<Rightarrow> region \<Rightarrow> u32 \<Rightarrow> u8" where
  "region_byte h rg off = (case rg of Ram \<Rightarrow> h_ram h off | ExRam \<Rightarrow> h_exram h off)"

definition set_region_bytes :: "region \<Rightarrow> (u32 \<Rightarrow> u8) \<Rightarrow> host \<Rightarrow> host" where
  "set_region_bytes rg f h = (case rg of Ram \<Rightarrow> h\<lparr>h_ram := f\<rparr> | ExRam \<Rightarrow> h\<lparr>h_exram := f\<rparr>)"

definition Read_U8 :: "host \<Rightarrow> u32 \<Rightarrow> u8" where
  "Read_U8 h address =
    (case GetPointerForRange h address 1 of None \<Rightarrow> 0 | Some (rg, off) \<Rightarrow> region_byte h rg off)"

section \<open>ARAM\<close>

text \<open>On the Wii the ARAM pointer is the EXRAM.\<close>

definition ReadARAM :: "host \<Rightarrow> u32 \<Rightarrow> u8" where
  "ReadARAM h address =
    (if h_wii_mode h then
       (if address AND 0x10000000 \<noteq> 0 then h_exram h (address AND h_aram_mask h)
        else Read_U8 h (address AND h_ram_mask h))
     else h_aram h (address AND h_aram_mask h))"

definition WriteARAM :: "u8 \<Rightarrow> u32 \<Rightarrow> host \<Rightarrow> host" where
  "WriteARAM value address h =
    (if h_wii_mode h then h\<lparr>h_exram := (h_exram h)(address AND h_aram_mask h := value)\<rparr>
     else h\<lparr>h_aram := (h_aram h)(address AND h_aram_mask h := value)\<rparr>)"

definition ReadHostMemory :: "SDSP \<Rightarrow> u32 \<Rightarrow> u8" where
  "ReadHostMemory s addr = ReadARAM (the_host s) addr"

definition WriteHostMemory :: "u8 \<Rightarrow> u32 \<Rightarrow> SDSP \<Rightarrow> SDSP" where
  "WriteHostMemory value addr s = s\<lparr>the_host := WriteARAM value addr (the_host s)\<rparr>"

definition InterruptRequest :: "SDSP \<Rightarrow> SDSP" where
  "InterruptRequest s = s\<lparr>the_host := (the_host s)\<lparr>h_irq := h_irq (the_host s) + 1\<rparr>\<rparr>"

section \<open>Copies between console memory and DSP memory\<close>

text \<open>Word \<open>i\<close> of a big-endian range.\<close>

definition be_word :: "host \<Rightarrow> region \<Rightarrow> u32 \<Rightarrow> nat \<Rightarrow> u16" where
  "be_word h rg off i =
     push_bit 8 (ucast (region_byte h rg (off + 2 * word_of_nat i))) OR
     ucast (region_byte h rg (off + 2 * word_of_nat i + 1))"

text \<open>\<open>CopyFromEmuSwapped\<close> into a DSP memory \<open>mem\<close> from word \<open>d\<close> on.\<close>

definition CopyFromEmuSwapped ::
  "host \<Rightarrow> u32 \<Rightarrow> nat \<Rightarrow> nat \<Rightarrow> (nat \<Rightarrow> u16) \<Rightarrow> dsp_fault + (nat \<Rightarrow> u16)" where
  "CopyFromEmuSwapped h address sz d mem =
    (case GetPointerForRange h address sz of
       None \<Rightarrow> Inr mem
     | Some (rg, off) \<Rightarrow>
         if 0 < sz div 2 \<and> DSP_DRAM_SIZE < d + sz div 2 then Inl OutOfBoundsDMA
         else Inr (\<lambda>i. if d \<le> i \<and> i < d + sz div 2 then be_word h rg off (i - d) else mem i))"

text \<open>One word stored big-endian.\<close>

definition store_be :: "u32 \<Rightarrow> u16 \<Rightarrow> (u32 \<Rightarrow> u8) \<Rightarrow> (u32 \<Rightarrow> u8)" where
  "store_be off w f = f(off := ucast (drop_bit 8 w), off + 1 := ucast w)"

fun store_words :: "u32 \<Rightarrow> u16 list \<Rightarrow> (u32 \<Rightarrow> u8) \<Rightarrow> (u32 \<Rightarrow> u8)" where
  "store_words off [] f = f"
| "store_words off (w # ws) f = store_words (off + 2) ws (store_be off w f)"

definition CopyToEmuSwapped ::
  "u32 \<Rightarrow> nat \<Rightarrow> nat \<Rightarrow> (nat \<Rightarrow> u16) \<Rightarrow> host \<Rightarrow> dsp_fault + host" where
  "CopyToEmuSwapped address sz d mem h =
    (case GetPointerForRange h address sz of
       None \<Rightarrow> Inr h
     | Some (rg, off) \<Rightarrow>
         if 0 < sz div 2 \<and> DSP_DRAM_SIZE < d + sz div 2 then Inl OutOfBoundsDMA
         else Inr (set_region_bytes rg
                (store_words off (map mem [d ..< d + sz div 2]) (region_byte h rg)) h))"

section \<open>Uploaded code\<close>

fun hash_ector_from :: "u32 \<Rightarrow> u8 list \<Rightarrow> u32" where
  "hash_ector_from crc [] = crc"
| "hash_ector_from crc (b # bs) =
    (let c = crc XOR ucast b in hash_ector_from (push_bit 3 c OR drop_bit 29 c) bs)"

definition HashEctor :: "u8 list \<Rightarrow> u32" where
  "HashEctor data = hash_ector_from 0 data"

text \<open>\<open>Host::CodeLoaded\<close>: hash the source bytes and analyze the new instruction memory.\<close>

definition CodeLoaded :: "u32 \<Rightarrow> nat \<Rightarrow> SDSP \<Rightarrow> SDSP" where
  "CodeLoaded addr sz s =
    (case GetPointerForRange (the_host s) addr sz of
       None \<Rightarrow> if 0 < sz then raise_fault NullCodePointer s
               else analyze_state (s\<lparr>iram_crc := HashEctor []\<rparr>)
     | Some (rg, off) \<Rightarrow> analyze_state (s\<lparr>iram_crc :=
         HashEctor (map (\<lambda>i. region_byte (the_host s) rg (off + word_of_nat i)) [0..<sz])\<rparr>))"

section \<open>An empty console\<close>

text \<open>
  A GameCube with zeroed memory: 24 MB of main RAM and 16 MB of ARAM, with the size and the
  masks the memory manager gives them.  It is the concrete host of the examples.
\<close>

definition gamecube_host :: host where
  "gamecube_host = \<lparr>h_ram = \<lambda>_. 0, h_ram_size = 0x01800000, h_ram_mask = 0x01ffffff,
     h_exram = \<lambda>_. 0, h_exram_size = 0, h_exram_mask = 0, h_aram = \<lambda>_. 0,
     h_aram_mask = 0x00ffffff, h_wii_mode = False, h_irq = 0\<rparr>"

end
