(* ===== verification/Dsp_Stacks.thy ===== *)
theory Dsp_Stacks
  imports Dsp_State
begin

text \<open>
  \<open>Core/DSP/DSPStacks.cpp\<close>: the four hardware stacks (call, data, loop address, loop
  counter).  The top of a stack is the register \<open>$stK\<close>; the 32 entries below it are a ring
  indexed by \<open>reg_stack_ptrs\<close>.  The abstract view of a stack is the list of its 33 entries
  from the top down.  The locale \<open>hw_stacks\<close> states what its clients (calls, loops,
  exceptions) rely on; the interpretation proves it of the model.
\<close>

section \<open>Operations\<close>

definition StoreStack :: "StackRegister \<Rightarrow> u16 \<Rightarrow> SDSP \<Rightarrow> SDSP" where
  "StoreStack stack_reg val s =
    (let k = stack_index stack_reg;
         ptr = (reg_stack_ptrs s k + 1) AND DSP_STACK_MASK
     in s\<lparr>reg_stack_ptrs := (reg_stack_ptrs s)(k := ptr),
          reg_stacks := (reg_stacks s)(k := (reg_stacks s k)(unat ptr := r_st (regs s) k)),
          regs := (regs s)\<lparr>r_st := (r_st (regs s))(k := val)\<rparr>\<rparr>)"

definition PopStack :: "StackRegister \<Rightarrow> SDSP \<Rightarrow> u16 \<times> SDSP" where
  "PopStack stack_reg s =
    (let k = stack_index stack_reg;
         val = r_st (regs s) k;
         ptr = reg_stack_ptrs s k
     in (val, s\<lparr>reg_stack_ptrs := (reg_stack_ptrs s)(k := (ptr - 1) AND DSP_STACK_MASK),
          regs := (regs s)\<lparr>r_st := (r_st (regs s))(k := reg_stacks s k (unat ptr))\<rparr>\<rparr>))"

text \<open>A pop whose value is not used.\<close>

abbreviation DropStack :: "StackRegister \<Rightarrow> SDSP \<Rightarrow> SDSP" where
  "DropStack k s \<equiv> snd (PopStack k s)"

section \<open>Stack pointers stay in range\<close>

lemma stack_index_less [simp]: "stack_index k < 4"
  by (cases k) (simp_all add: stack_index_def)

lemma stack_index_eq_iff [simp]: "stack_index j = stack_index k \<longleftrightarrow> j = k"
  by (cases j; cases k) (simp_all add: stack_index_def)

lemma stack_of_index_index [simp]: "stack_of_index (stack_index k) = k"
  by (cases k) (simp_all add: stack_index_def stack_of_index_def)

lemma and_1F_less: "(x :: u8) AND 0x1F < 32"
proof -
  have "x AND 0x1F \<le> 0x1F" by (rule word_and_le1)
  then show ?thesis by (rule le_less_trans) simp
qed

lemma unat_and_1F: "unat ((x :: u8) AND 0x1F) = unat x mod 32"
proof -
  have "(0x1F :: u8) = mask 5" by (simp add: mask_eq_exp_minus_1)
  then have "x AND 0x1F = take_bit 5 x" by (simp add: take_bit_eq_mask)
  then show ?thesis by (simp add: take_bit_eq_mod unat_mod)
qed

lemma unat_inc_ptr: "unat ((p + 1 :: u8) AND 0x1F) = Suc (unat p) mod 32"
proof -
  have "unat (p + 1) mod 32 = Suc (unat p) mod 32"
    by (simp add: unat_word_ariths mod_mod_cancel)
  then show ?thesis by (simp add: unat_and_1F)
qed

lemma unat_dec_ptr: "unat ((p - 1 :: u8) AND 0x1F) = (unat p + 31) mod 32"
proof -
  have "unat (p + 255) = (unat p + 255) mod 256" by (simp add: unat_word_ariths)
  moreover have "p + 255 = p - 1"
  proof -
    have "(255 :: u8) = - 1" by simp
    then show ?thesis by (simp only: add_uminus_conv_diff)
  qed
  ultimately have "unat (p - 1) = (unat p + 255) mod 256" by (simp only:)
  then have "unat (p - 1) mod 32 = (unat p + 255) mod 32" by (simp add: mod_mod_cancel add.commute [of _ 255])
  also have "\<dots> = (unat p + 31 + 7 * 32) mod 32" by (simp add: add.commute)
  also have "\<dots> = (unat p + 31) mod 32" by (rule mod_mult_self1)
  finally have "unat (p - 1) mod 32 = (unat p + 31) mod 32" .
  then show ?thesis by (simp add: unat_and_1F)
qed

lemma ring_shift: "p < 32 \<Longrightarrow> m < 31 \<Longrightarrow> (Suc p mod 32 + 32 - Suc m) mod 32 = (p + 32 - m) mod (32 :: nat)"
proof (cases "p = 31")
  case True
  assume "m < 31"
  then have "63 - m = (31 - m) + 32" by simp
  then have "(63 - m) mod 32 = (31 - m) mod 32" by (simp only: mod_add_self2)
  with True show ?thesis by simp
qed (simp add: add.commute)

lemma ring_shift_neq: "p < 32 \<Longrightarrow> m < 31 \<Longrightarrow> (p + 32 - m) mod 32 \<noteq> Suc p mod (32 :: nat)"
proof (cases "m \<le> p")
  case True
  assume "p < 32"
  have "(p + 32 - m) mod 32 = (p - m + 32) mod 32" using True by simp
  also have "\<dots> = p - m" using \<open>p < 32\<close> by (simp only: mod_add_self2) simp
  finally have "(p + 32 - m) mod 32 = p - m" .
  moreover assume "m < 31"
  ultimately show ?thesis using True \<open>p < 32\<close> by (cases "p = 31") auto
next
  case False
  assume "p < 32" "m < 31"
  with False show ?thesis by auto
qed

section \<open>The abstract view\<close>

text \<open>Entry \<open>i\<close> below the top sits \<open>i - 1\<close> places behind the pointer in the ring.\<close>

definition ring_index :: "u8 \<Rightarrow> nat \<Rightarrow> nat" where
  "ring_index p i = (unat p + 32 - i) mod 32"

definition stack_view :: "SDSP \<Rightarrow> StackRegister \<Rightarrow> u16 list" where
  "stack_view s k = r_st (regs s) (stack_index k) #
     map (\<lambda>i. reg_stacks s (stack_index k) (ring_index (reg_stack_ptrs s (stack_index k)) i)) [0..<32]"

definition stack_ptrs_ok :: "SDSP \<Rightarrow> bool" where
  "stack_ptrs_ok s \<longleftrightarrow> (\<forall>k. unat (reg_stack_ptrs s (stack_index k)) < 32)"

lemma length_stack_view [simp]: "length (stack_view s k) = 33"
  by (simp add: stack_view_def)

lemma hd_stack_view: "hd (stack_view s k) = r_st (regs s) (stack_index k)"
  by (simp add: stack_view_def)

lemma StoreStack_ptrs_ok: "stack_ptrs_ok s \<Longrightarrow> stack_ptrs_ok (StoreStack k v s)"
  by (auto simp: stack_ptrs_ok_def StoreStack_def Let_def unat_and_1F)

lemma PopStack_ptrs_ok: "stack_ptrs_ok s \<Longrightarrow> stack_ptrs_ok (snd (PopStack k s))"
  by (auto simp: stack_ptrs_ok_def PopStack_def Let_def unat_and_1F)

lemma stack_view_StoreStack_same:
  assumes "stack_ptrs_ok s"
  shows "stack_view (StoreStack k v s) k = v # butlast (stack_view s k)"
proof (rule nth_equalityI)
  show "length (stack_view (StoreStack k v s) k) = length (v # butlast (stack_view s k))" by simp
next
  fix n assume "n < length (stack_view (StoreStack k v s) k)"
  then have n: "n < 33" by simp
  let ?p = "unat (reg_stack_ptrs s (stack_index k))"
  have p: "?p < 32" using assms by (simp add: stack_ptrs_ok_def)
  consider "n = 0" | "n = 1" | m where "n = Suc (Suc m)" "m < 31"
    using n by (cases n) (auto simp: less_Suc_eq_0_disj, metis Suc_less_eq not0_implies_Suc numeral_eq_Suc pred_numeral_simps(3) One_nat_def)
  then show "stack_view (StoreStack k v s) k ! n = (v # butlast (stack_view s k)) ! n"
  proof cases
    case 1
    then show ?thesis by (simp add: stack_view_def StoreStack_def Let_def)
  next
    case 2
    then show ?thesis
      by (simp add: stack_view_def StoreStack_def Let_def ring_index_def unat_inc_ptr nth_butlast)
  next
    case 3
    have e: "(Suc ?p mod 32 + 32 - Suc m) mod 32 = (?p + 32 - m) mod 32"
      by (rule ring_shift) (use p 3 in simp_all)
    have ne: "(?p + 32 - m) mod 32 \<noteq> Suc ?p mod 32"
      by (rule ring_shift_neq) (use p 3 in simp_all)
    show ?thesis using 3 e ne
      by (simp add: stack_view_def StoreStack_def Let_def ring_index_def unat_inc_ptr nth_butlast)
  qed
qed

lemma stack_view_StoreStack_other: "j \<noteq> k \<Longrightarrow> stack_view (StoreStack k v s) j = stack_view s j"
  by (simp add: stack_view_def StoreStack_def Let_def)

lemma PopStack_value: "fst (PopStack k s) = hd (stack_view s k)"
  by (simp add: stack_view_def PopStack_def Let_def)

lemma stack_view_PopStack_same:
  assumes "stack_ptrs_ok s"
  shows "stack_view (snd (PopStack k s)) k = tl (stack_view s k) @ [stack_view s k ! 1]"
proof (rule nth_equalityI)
  show "length (stack_view (snd (PopStack k s)) k) = length (tl (stack_view s k) @ [stack_view s k ! 1])"
    by simp
next
  fix n assume "n < length (stack_view (snd (PopStack k s)) k)"
  then have n: "n < 33" by simp
  let ?p = "unat (reg_stack_ptrs s (stack_index k))"
  have p: "?p < 32" using assms by (simp add: stack_ptrs_ok_def)
  have step: "((?p + 31) mod 32 + 32 - m) mod 32 = (?p + 32 - Suc m) mod 32" if "m < 32" for m
    using p that by (cases "?p = 0") (auto simp: mod_if)
  show "stack_view (snd (PopStack k s)) k ! n = (tl (stack_view s k) @ [stack_view s k ! 1]) ! n"
  proof (cases n)
    case 0
    then show ?thesis using p
      by (simp add: stack_view_def PopStack_def Let_def ring_index_def nth_append)
  next
    case (Suc m)
    then show ?thesis using n p step [of m]
      by (cases "m = 31")
        (auto simp: stack_view_def PopStack_def Let_def ring_index_def nth_append unat_dec_ptr)
  qed
qed

lemma stack_view_PopStack_other: "j \<noteq> k \<Longrightarrow> stack_view (snd (PopStack k s)) j = stack_view s j"
  by (simp add: stack_view_def PopStack_def Let_def)

section \<open>The contract of the hardware stacks\<close>

locale hw_stacks =
  fixes store :: "'k \<Rightarrow> 'v \<Rightarrow> 's \<Rightarrow> 's"
    and pop :: "'k \<Rightarrow> 's \<Rightarrow> 'v \<times> 's"
    and view :: "'s \<Rightarrow> 'k \<Rightarrow> 'v list"
    and ok :: "'s \<Rightarrow> bool"
    and depth :: nat
  assumes view_length: "ok s \<Longrightarrow> length (view s k) = Suc depth"
    and store_ok: "ok s \<Longrightarrow> ok (store k v s)"
    and pop_ok: "ok s \<Longrightarrow> ok (snd (pop k s))"
    and view_store: "ok s \<Longrightarrow> view (store k v s) j = (if j = k then v # butlast (view s j) else view s j)"
    and pop_value: "ok s \<Longrightarrow> fst (pop k s) = hd (view s k)"
    and view_pop: "ok s \<Longrightarrow> view (snd (pop k s)) j =
      (if j = k then tl (view s j) @ [view s j ! 1] else view s j)"
begin

text \<open>What a push and a pop leave of a stack, down to the depth of the ring.\<close>

lemma pop_store_value: "ok s \<Longrightarrow> fst (pop k (store k v s)) = v"
  by (simp add: pop_value store_ok view_store)

lemma take_view_pop_store:
  assumes "ok s"
  shows "take depth (view (snd (pop k (store k v s))) j) = take depth (view s j)"
proof (cases "j = k")
  case True
  have "length (butlast (view s k)) = depth" using view_length [OF assms] by simp
  moreover have "take depth (view s k) = butlast (view s k)"
    using view_length [OF assms, of k] by (simp add: butlast_conv_take)
  ultimately show ?thesis using assms True by (simp add: view_pop view_store store_ok)
next
  case False
  then show ?thesis using assms by (simp add: view_pop view_store store_ok)
qed

text \<open>A sequence of pushes, and the same number of pops.\<close>

fun push_all :: "'k \<Rightarrow> 'v list \<Rightarrow> 's \<Rightarrow> 's" where
  "push_all k [] s = s"
| "push_all k (v # vs) s = push_all k vs (store k v s)"

fun pop_many :: "'k \<Rightarrow> nat \<Rightarrow> 's \<Rightarrow> 'v list \<times> 's" where
  "pop_many k 0 s = ([], s)"
| "pop_many k (Suc n) s = (let (v, s') = pop k s; (vs, s'') = pop_many k n s' in (v # vs, s''))"

lemma push_all_ok: "ok s \<Longrightarrow> ok (push_all k vs s)"
  by (induction vs arbitrary: s) (auto simp: store_ok)

lemma view_push_all:
  "ok s \<Longrightarrow> view (push_all k vs s) k = take (Suc depth) (rev vs @ view s k)"
proof (induction vs arbitrary: s)
  case Nil
  then show ?case by (simp add: view_length)
next
  case (Cons v vs)
  have "view (push_all k (v # vs) s) k = take (Suc depth) (rev vs @ v # butlast (view s k))"
    using Cons by (simp add: store_ok view_store)
  also have "\<dots> = take (Suc depth) (rev vs @ v # view s k)"
    using view_length [OF Cons.prems, of k] by (simp add: butlast_conv_take take_Cons' min_def)
  finally show ?case by simp
qed

lemma pop_many_view:
  assumes "ok s" "n \<le> depth"
  shows "fst (pop_many k n s) = take n (view s k) \<and>
    take (Suc depth - n) (view (snd (pop_many k n s)) k) = drop n (view s k) \<and>
    ok (snd (pop_many k n s))"
  using assms
proof (induction n arbitrary: s)
  case 0
  then show ?case by (simp add: view_length)
next
  case (Suc n)
  let ?s = "snd (pop k s)"
  have l: "length (view s k) = Suc depth" using Suc.prems view_length by blast
  then obtain x xs where v: "view s k = x # xs" "length xs = depth" by (cases "view s k") auto
  have ok': "ok ?s" using Suc.prems pop_ok by blast
  have v': "view ?s k = xs @ [(x # xs) ! 1]" using Suc.prems v by (simp add: view_pop)
  have IH: "fst (pop_many k n ?s) = take n (view ?s k)"
    "take (Suc depth - n) (view (snd (pop_many k n ?s)) k) = drop n (view ?s k)"
    "ok (snd (pop_many k n ?s))"
    using Suc.IH [OF ok'] Suc.prems by simp_all
  have "take (depth - n) (view (snd (pop_many k n ?s)) k) =
      take (depth - n) (take (Suc depth - n) (view (snd (pop_many k n ?s)) k))"
    using Suc.prems by (simp add: min_def)
  also have "\<dots> = drop n xs" using IH(2) v' v(2) Suc.prems by simp
  finally show ?case using IH(1,3) v v' Suc.prems
    by (simp add: case_prod_unfold Let_def pop_value)
qed

theorem pushes_then_pops:
  assumes "ok s" "length vs \<le> depth"
  shows "fst (pop_many k (length vs) (push_all k vs s)) = rev vs \<and>
    take (Suc depth - length vs) (view (snd (pop_many k (length vs) (push_all k vs s))) k) =
      take (Suc depth - length vs) (view s k)"
  using pop_many_view [OF push_all_ok [OF assms(1)] assms(2)] assms
  by (simp add: view_push_all)

end

interpretation stacks: hw_stacks StoreStack PopStack stack_view stack_ptrs_ok 32
  by unfold_locales
    (simp_all add: StoreStack_ptrs_ok PopStack_ptrs_ok PopStack_value
      stack_view_StoreStack_same stack_view_StoreStack_other
      stack_view_PopStack_same stack_view_PopStack_other)

end
