(* ===== verification/Dsp_Hardware.thy ===== *)
theory Dsp_Hardware
  imports Dsp_Host Dsp_Stacks
begin

text \<open>
  \<open>Core/DSP/DSPHWInterface.cpp\<close>: the mailboxes between CPU and DSP, the hardware registers at
  \<open>0xFF00..0xFFFF\<close> of data memory (\<open>ReadIFX\<close>, \<open>WriteIFX\<close>), and DMA between console memory and
  instruction or data memory.  The capture logger is left out.  \<open>LLEAccelerator\<close> of
  \<open>DSPCore.cpp\<close> binds the accelerator's virtual methods to host memory and to
  \<open>SetException\<close>, which is here too.
\<close>

section \<open>Pending exceptions\<close>

definition SetException :: "ExceptionType \<Rightarrow> SDSP \<Rightarrow> SDSP" where
  "SetException e s = s\<lparr>exceptions := exceptions s OR push_bit (exception_number e) 1\<rparr>"

section \<open>Mailboxes\<close>

definition InitializeIFX :: "SDSP \<Rightarrow> SDSP" where
  "InitializeIFX s = s\<lparr>ifx_regs := (\<lambda>_. 0), mailbox := (\<lambda>_. 0)\<rparr>"

definition PeekMailbox :: "Mailbox \<Rightarrow> SDSP \<Rightarrow> u32" where
  "PeekMailbox mb s = mailbox s mb"

definition ReadMailboxLow :: "Mailbox \<Rightarrow> SDSP \<Rightarrow> u16 \<times> SDSP" where
  "ReadMailboxLow mb s =
    (let value = mailbox s mb
     in (ucast value, s\<lparr>mailbox := (mailbox s)(mb := value AND NOT 0x80000000)\<rparr>))"

definition ReadMailboxHigh :: "Mailbox \<Rightarrow> SDSP \<Rightarrow> u16" where
  "ReadMailboxHigh mb s = ucast (drop_bit 16 (PeekMailbox mb s))"

definition WriteMailboxLow :: "Mailbox \<Rightarrow> u16 \<Rightarrow> SDSP \<Rightarrow> SDSP" where
  "WriteMailboxLow mb value s =
    (let old_value = mailbox s mb; new_value = (old_value AND NOT 0xffff) OR ucast value
     in s\<lparr>mailbox := (mailbox s)(mb := new_value OR 0x80000000)\<rparr>)"

definition WriteMailboxHigh :: "Mailbox \<Rightarrow> u16 \<Rightarrow> SDSP \<Rightarrow> SDSP" where
  "WriteMailboxHigh mb value s =
    (let old_value = mailbox s mb; new_value = (old_value AND 0xffff) OR push_bit 16 (ucast value)
     in s\<lparr>mailbox := (mailbox s)(mb := new_value AND NOT 0x80000000)\<rparr>)"

section \<open>DMA\<close>

text \<open>\<open>DMAToDSP\<close> and \<open>DMAFromDSP\<close> with the DSP's array and word offset.\<close>

definition IDMAIn :: "u16 \<Rightarrow> u32 \<Rightarrow> nat \<Rightarrow> SDSP \<Rightarrow> SDSP" where
  "IDMAIn dsp_addr addr sz s =
    (case CopyFromEmuSwapped (the_host s) addr sz (unat dsp_addr div 2) (iram s) of
       Inl f \<Rightarrow> raise_fault f s
     | Inr mem \<Rightarrow> CodeLoaded addr sz (s\<lparr>iram := mem\<rparr>))"

definition IDMAOut :: "u16 \<Rightarrow> u32 \<Rightarrow> nat \<Rightarrow> SDSP \<Rightarrow> SDSP" where
  "IDMAOut dsp_addr addr sz s = s"

definition DDMAIn :: "u16 \<Rightarrow> u32 \<Rightarrow> nat \<Rightarrow> SDSP \<Rightarrow> SDSP" where
  "DDMAIn dsp_addr addr sz s =
    (case CopyFromEmuSwapped (the_host s) addr sz (unat dsp_addr div 2) (dram s) of
       Inl f \<Rightarrow> raise_fault f s
     | Inr mem \<Rightarrow> s\<lparr>dram := mem\<rparr>)"

definition DDMAOut :: "u16 \<Rightarrow> u32 \<Rightarrow> nat \<Rightarrow> SDSP \<Rightarrow> SDSP" where
  "DDMAOut dsp_addr addr sz s =
    (case CopyToEmuSwapped addr sz (unat dsp_addr div 2) (dram s) (the_host s) of
       Inl f \<Rightarrow> raise_fault f s
     | Inr h \<Rightarrow> s\<lparr>the_host := h\<rparr>)"

definition DoDMA :: "SDSP \<Rightarrow> SDSP" where
  "DoDMA s =
    (let addr = push_bit 16 (ucast (ifx_regs s DSP_DSMAH)) OR ucast (ifx_regs s DSP_DSMAL) :: u32;
         ctl = ifx_regs s DSP_DSCR;
         dsp_addr = ifx_regs s DSP_DSPA * 2;
         len = ifx_regs s DSP_DSBL
     in if 0x4000 < len then raise_fault ExitOversizedDMA s
        else if ctl AND 3 = 1 then DDMAOut dsp_addr addr (unat len) s
        else if ctl AND 3 = 0 then DDMAIn dsp_addr addr (unat len) s
        else if ctl AND 3 = 3 then IDMAOut dsp_addr addr (unat len) s
        else IDMAIn dsp_addr addr (unat len) s)"

section \<open>Hardware registers\<close>

abbreviation set_ifx :: "nat \<Rightarrow> u16 \<Rightarrow> SDSP \<Rightarrow> SDSP" where
  "set_ifx i v \<equiv> ifx_regs_update (\<lambda>m. m(i := v))"

text \<open>The write that starts a DMA: length, busy bit, transfer unless masked, busy bit off.\<close>

definition write_DSBL :: "u16 \<Rightarrow> SDSP \<Rightarrow> SDSP" where
  "write_DSBL value s =
    (let s1 = set_ifx DSP_DSBL value s;
         s2 = set_ifx DSP_DSCR (ifx_regs s1 DSP_DSCR OR 4) s1;
         s3 = (if ifx_regs s2 DSP_AMDM = 0 then DoDMA s2 else s2);
         s4 = set_ifx DSP_DSCR (ifx_regs s3 DSP_DSCR AND NOT 4) s3
     in set_ifx DSP_DSBL 0 s4)"

definition hi_word :: "u16 \<Rightarrow> u32 \<Rightarrow> u32" where
  "hi_word value old = push_bit 16 (ucast value) OR ucast (ucast old :: u16)"

definition lo_word :: "u16 \<Rightarrow> u32 \<Rightarrow> u32" where
  "lo_word value old = push_bit 16 (ucast (ucast (drop_bit 16 old) :: u16)) OR ucast value"

abbreviation upd_acc :: "(Accelerator \<Rightarrow> Accelerator) \<Rightarrow> SDSP \<Rightarrow> SDSP" where
  "upd_acc f s \<equiv> s\<lparr>accelerator := f (accelerator s)\<rparr>"

definition accelerator_write_raw :: "u16 \<Rightarrow> SDSP \<Rightarrow> SDSP" where
  "accelerator_write_raw value s =
    (case WriteRaw value (accelerator s) of (a, writes, exc) \<Rightarrow>
      let s1 = fold (\<lambda>(addr, b). WriteHostMemory b addr) writes (s\<lparr>accelerator := a\<rparr>)
      in if exc then SetException AcceleratorRawWriteOverflow s1 else s1)"

definition accelerator_read_raw :: "SDSP \<Rightarrow> u16 \<times> SDSP" where
  "accelerator_read_raw s =
    (case ReadRaw (ReadHostMemory s) (accelerator s) of (val, a, exc) \<Rightarrow>
      let s1 = s\<lparr>accelerator := a\<rparr>
      in (val, if exc then SetException AcceleratorRawReadOverflow s1 else s1))"

definition accelerator_read_sample :: "SDSP \<Rightarrow> u16 \<times> SDSP" where
  "accelerator_read_sample s =
    (case ReadSample (ReadHostMemory s) (\<lambda>i. ifx_regs s (DSP_COEF_A1_0 + i)) (accelerator s) of
      (val, a, exc) \<Rightarrow>
      let s1 = s\<lparr>accelerator := a\<rparr>
      in (val, if exc then SetException AcceleratorSampleReadOverflow s1 else s1))"

definition WriteIFX :: "u32 \<Rightarrow> u16 \<Rightarrow> SDSP \<Rightarrow> SDSP" where
  "WriteIFX address value s =
    (let reg = unat (address AND 0xff); acc = accelerator s in
     if reg = DSP_DIRQ then (if value AND 1 \<noteq> 0 then InterruptRequest s else s)
     else if reg = DSP_DMBH then WriteMailboxHigh DSP value s
     else if reg = DSP_DMBL then WriteMailboxLow DSP value s
     else if reg = DSP_CMBH then WriteMailboxHigh CPU value s
     else if reg = DSP_CMBL then WriteMailboxLow CPU value s
     else if reg = DSP_DSBL then write_DSBL value s
     else if reg = DSP_DSPA \<or> reg = DSP_DSMAH \<or> reg = DSP_DSMAL \<or> reg = DSP_DSCR
       then set_ifx reg value s
     else if reg = DSP_ACSAH then upd_acc (SetStartAddress (hi_word value (m_start_address acc))) s
     else if reg = DSP_ACSAL then upd_acc (SetStartAddress (lo_word value (m_start_address acc))) s
     else if reg = DSP_ACEAH then upd_acc (SetEndAddress (hi_word value (m_end_address acc))) s
     else if reg = DSP_ACEAL then upd_acc (SetEndAddress (lo_word value (m_end_address acc))) s
     else if reg = DSP_ACCAH then upd_acc (SetCurrentAddress (hi_word value (m_current_address acc))) s
     else if reg = DSP_ACCAL then upd_acc (SetCurrentAddress (lo_word value (m_current_address acc))) s
     else if reg = DSP_FORMAT then upd_acc (SetSampleFormat value) s
     else if reg = DSP_GAIN then upd_acc (SetGain value) s
     else if reg = DSP_YN1 then upd_acc (SetYn1 value) s
     else if reg = DSP_YN2 then upd_acc (SetYn2 value) s
     else if reg = DSP_PRED_SCALE then upd_acc (SetPredScale value) s
     else if reg = DSP_ACDRAW then accelerator_write_raw value s
     else if reg = DSP_ACIN then upd_acc (SetInput value) s
     else set_ifx reg value s)"

definition ReadIFXImpl :: "u16 \<Rightarrow> SDSP \<Rightarrow> u16 \<times> SDSP" where
  "ReadIFXImpl address s =
    (let reg = unat (address AND 0xff); acc = accelerator s in
     if reg = DSP_DMBH then (ReadMailboxHigh DSP s, s)
     else if reg = DSP_DMBL then ReadMailboxLow DSP s
     else if reg = DSP_CMBH then (ReadMailboxHigh CPU s, s)
     else if reg = DSP_CMBL then ReadMailboxLow CPU s
     else if reg = DSP_DSCR then (ifx_regs s reg, s)
     else if reg = DSP_ACSAH then (ucast (drop_bit 16 (m_start_address acc)), s)
     else if reg = DSP_ACSAL then (ucast (m_start_address acc), s)
     else if reg = DSP_ACEAH then (ucast (drop_bit 16 (m_end_address acc)), s)
     else if reg = DSP_ACEAL then (ucast (m_end_address acc), s)
     else if reg = DSP_ACCAH then (ucast (drop_bit 16 (m_current_address acc)), s)
     else if reg = DSP_ACCAL then (ucast (m_current_address acc), s)
     else if reg = DSP_FORMAT then (m_sample_format acc, s)
     else if reg = DSP_GAIN then (m_gain acc, s)
     else if reg = DSP_YN1 then (m_yn1 acc, s)
     else if reg = DSP_YN2 then (m_yn2 acc, s)
     else if reg = DSP_PRED_SCALE then (m_pred_scale acc, s)
     else if reg = DSP_ACDSAMP then accelerator_read_sample s
     else if reg = DSP_ACDRAW then accelerator_read_raw s
     else if reg = DSP_ACIN then (m_input acc, s)
     else (ifx_regs s reg, s))"

definition ReadIFX :: "u16 \<Rightarrow> SDSP \<Rightarrow> u16 \<times> SDSP" where
  "ReadIFX address s = ReadIFXImpl address s"

end
