(* ===== verification/Dsp_Core.thy ===== *)
theory Dsp_Core
  imports Dsp_Hardware
begin

text \<open>
  Data memory and instruction fetch (\<open>Core/DSP/DSPMemoryMap.cpp\<close>) and the machine's own
  operations of \<open>Core/DSP/DSPCore.cpp\<close>: initialisation, reset, exceptions, external
  interrupts and the raw register access of the debugger.  \<open>VerifyRoms\<close>, which asks the user
  about unknown ROM images, is a Boolean argument of \<open>Initialize\<close>; page allocation and write
  protection have no effect on the state.
\<close>

section \<open>Data memory and fetch\<close>

definition ReadDMEM :: "u16 \<Rightarrow> SDSP \<Rightarrow> u16 \<times> SDSP" where
  "ReadDMEM address s =
    (let bank = drop_bit 12 address in
     if bank = 0 then (dram s (unat (address AND DSP_DRAM_MASK)), s)
     else if bank = 1 then (coef s (unat (address AND DSP_COEF_MASK)), s)
     else if bank = 0xf then ReadIFX address s
     else (0, s))"

definition WriteDMEM :: "u16 \<Rightarrow> u16 \<Rightarrow> SDSP \<Rightarrow> SDSP" where
  "WriteDMEM address value s =
    (let bank = drop_bit 12 address in
     if bank = 0 then s\<lparr>dram := (dram s)(unat (address AND DSP_DRAM_MASK) := value)\<rparr>
     else if bank = 0xf then WriteIFX (ucast address) value s
     else s)"

definition PeekInstruction :: "SDSP \<Rightarrow> u16" where
  "PeekInstruction s = ReadIMEM (pc s) s"

definition FetchInstruction :: "SDSP \<Rightarrow> u16 \<times> SDSP" where
  "FetchInstruction s = (PeekInstruction s, s\<lparr>pc := pc s + 1\<rparr>)"

definition SkipInstruction :: "SDSP \<Rightarrow> SDSP" where
  "SkipInstruction s = s\<lparr>pc := pc s + op_size (GetOpTemplate (PeekInstruction s))\<rparr>"

section \<open>Status flags\<close>

definition SetSRFlag :: "u16 \<Rightarrow> SDSP \<Rightarrow> SDSP" where
  "SetSRFlag flag s = upd_sr (\<lambda>sr. sr OR flag) s"

definition IsSRFlagSet :: "u16 \<Rightarrow> SDSP \<Rightarrow> bool" where
  "IsSRFlagSet flag s \<longleftrightarrow> sr_of s AND flag \<noteq> 0"

section \<open>Initialisation and reset\<close>

text \<open>
  \<open>verified\<close> is the answer of \<open>VerifyRoms\<close>.  The register file is zeroed before the wrapping
  registers and the interrupt enables are set; \<open>pc\<close>, \<open>exceptions\<close> and the flag of a waiting
  interrupt are not touched.
\<close>

definition zero_regs :: DSP_Regs where
  "zero_regs = \<lparr>r_ar = \<lambda>_. 0, r_ix = \<lambda>_. 0, r_wr = \<lambda>_. 0, r_st = \<lambda>_. 0, r_cr = 0, r_sr = 0,
     r_prod = 0, r_ax = \<lambda>_. 0, r_ac = \<lambda>_. 0\<rparr>"

definition Initialize :: "bool \<Rightarrow> (nat \<Rightarrow> u16) \<Rightarrow> (nat \<Rightarrow> u16) \<Rightarrow> SDSP \<Rightarrow> bool \<times> SDSP" where
  "Initialize verified irom_contents coef_contents s =
    (let s1 = s\<lparr>step_counter := 0, accelerator := initial_accelerator,
                 irom := irom_contents, coef := coef_contents\<rparr>
     in if \<not> verified then (False, s1)
        else (True, InitializeIFX (s1\<lparr>
          regs := zero_regs\<lparr>r_wr := \<lambda>_. 0xffff, r_sr := SR_INT_ENABLE OR SR_EXT_INT_ENABLE\<rparr>,
          reg_stack_ptrs := \<lambda>_. 0, reg_stacks := \<lambda>_ _. 0,
          iram := \<lambda>_. 0x0021, dram := \<lambda>_. 0,
          control_reg := CR_INIT OR CR_HALT\<rparr>)))"

definition SDSP_Reset :: "SDSP \<Rightarrow> SDSP" where
  "SDSP_Reset s = s\<lparr>pc := DSP_RESET_VECTOR, regs := (regs s)\<lparr>r_wr := \<lambda>_. 0xffff\<rparr>\<rparr>"

text \<open>\<open>DSPCore::Reset\<close>: the reset, then a fresh analysis.\<close>

definition Reset :: "SDSP \<Rightarrow> SDSP" where
  "Reset s = analyze_state (SDSP_Reset s)"

text \<open>
  The state before \<open>Initialize\<close>: the member initialisers of \<open>SDSP\<close> and of the class
  \<open>Interpreter\<close>, with freshly allocated (zero) memory pages.
\<close>

definition power_on :: "host \<Rightarrow> SDSP" where
  "power_on h = \<lparr>regs = zero_regs, pc = 0, control_reg = 0, control_reg_init_code_clear_time = 0,
     reg_stack_ptrs = \<lambda>_. 0, exceptions = 0, external_interrupt_waiting = False,
     reg_stacks = \<lambda>_ _. 0, iram = \<lambda>_. 0, dram = \<lambda>_. 0, irom = \<lambda>_. 0, coef = \<lambda>_. 0,
     iram_crc = 0, step_counter = 0, ifx_regs = \<lambda>_. 0, accelerator = initial_accelerator,
     mailbox = \<lambda>_. 0, code_flags = \<lambda>_. 0, write_back_log = \<lambda>_. 0,
     write_back_log_idx = \<lambda>_. -1, the_host = h, fault = None\<rparr>"

section \<open>Exceptions and interrupts\<close>

definition SetExternalInterrupt :: "bool \<Rightarrow> SDSP \<Rightarrow> SDSP" where
  "SetExternalInterrupt val s = s\<lparr>external_interrupt_waiting := val\<rparr>"

definition CheckExternalInterrupt :: "SDSP \<Rightarrow> SDSP" where
  "CheckExternalInterrupt s =
    (if \<not> IsSRFlagSet SR_EXT_INT_ENABLE s then s
     else (SetException ExternalInterrupt s)\<lparr>control_reg := control_reg s AND NOT CR_EXTERNAL_INT\<rparr>)"

text \<open>Taking exception \<open>i\<close>: save \<open>pc\<close> and \<open>$sr\<close>, jump to the vector, clear the pending bit.\<close>

definition enter_exception :: "nat \<Rightarrow> SDSP \<Rightarrow> SDSP" where
  "enter_exception i s =
    (let s1 = StoreStack CallStack (pc s) s;
         s2 = StoreStack DataStack (sr_of s1) s1;
         s3 = s2\<lparr>pc := word_of_nat (i * 2), exceptions := exceptions s2 AND NOT (push_bit i 1)\<rparr>
     in if i = 7 then upd_sr (\<lambda>sr. sr AND NOT SR_EXT_INT_ENABLE) s3
        else upd_sr (\<lambda>sr. sr AND NOT SR_INT_ENABLE) s3)"

text \<open>The loop from 7 down to 1; an exception that is pending but disabled is passed over.\<close>

fun check_exceptions_from :: "nat \<Rightarrow> SDSP \<Rightarrow> bool \<times> SDSP" where
  "check_exceptions_from 0 s = (False, s)"
| "check_exceptions_from (Suc i) s =
    (if exceptions s AND push_bit (Suc i) 1 \<noteq> 0 \<and>
        (IsSRFlagSet SR_INT_ENABLE s \<or> Suc i = exception_number ExternalInterrupt)
     then (True, enter_exception (Suc i) s)
     else check_exceptions_from i s)"

definition CheckExceptions :: "SDSP \<Rightarrow> bool \<times> SDSP" where
  "CheckExceptions s = (if exceptions s = 0 then (False, s) else check_exceptions_from 7 s)"

section \<open>Raw register access\<close>

definition ReadRegister :: "nat \<Rightarrow> SDSP \<Rightarrow> u16" where
  "ReadRegister reg s =
    (if reg \<le> DSP_REG_AR3 then ar_of s (reg - DSP_REG_AR0)
     else if DSP_REG_IX0 \<le> reg \<and> reg \<le> DSP_REG_IX3 then ix_of s (reg - DSP_REG_IX0)
     else if DSP_REG_WR0 \<le> reg \<and> reg \<le> DSP_REG_WR3 then wr_of s (reg - DSP_REG_WR0)
     else if DSP_REG_ST0 \<le> reg \<and> reg \<le> DSP_REG_ST3 then r_st (regs s) (reg - DSP_REG_ST0)
     else if reg = DSP_REG_ACH0 \<or> reg = DSP_REG_ACH1 then ucast (ac_h (ac_of s (reg - DSP_REG_ACH0)))
     else if reg = DSP_REG_CR then r_cr (regs s)
     else if reg = DSP_REG_SR then sr_of s
     else if reg = DSP_REG_PRODL then prod_l (r_prod (regs s))
     else if reg = DSP_REG_PRODM then prod_m (r_prod (regs s))
     else if reg = DSP_REG_PRODH then prod_h (r_prod (regs s))
     else if reg = DSP_REG_PRODM2 then prod_m2 (r_prod (regs s))
     else if reg = DSP_REG_AXL0 \<or> reg = DSP_REG_AXL1 then ax_l (ax_of s (reg - DSP_REG_AXL0))
     else if reg = DSP_REG_AXH0 \<or> reg = DSP_REG_AXH1 then ax_h (ax_of s (reg - DSP_REG_AXH0))
     else if reg = DSP_REG_ACL0 \<or> reg = DSP_REG_ACL1 then ac_l (ac_of s (reg - DSP_REG_ACL0))
     else if reg = DSP_REG_ACM0 \<or> reg = DSP_REG_ACM1 then ac_m (ac_of s (reg - DSP_REG_ACM0))
     else 0)"

abbreviation upd_prod :: "(u64 \<Rightarrow> u64) \<Rightarrow> SDSP \<Rightarrow> SDSP" where
  "upd_prod f \<equiv> regs_update (r_prod_update f)"

definition WriteRegister :: "nat \<Rightarrow> u16 \<Rightarrow> SDSP \<Rightarrow> SDSP" where
  "WriteRegister reg val s =
    (if reg \<le> DSP_REG_AR3 then set_ar (reg - DSP_REG_AR0) val s
     else if DSP_REG_IX0 \<le> reg \<and> reg \<le> DSP_REG_IX3
       then regs_update (r_ix_update (\<lambda>a. a(reg - DSP_REG_IX0 := val))) s
     else if DSP_REG_WR0 \<le> reg \<and> reg \<le> DSP_REG_WR3
       then regs_update (r_wr_update (\<lambda>a. a(reg - DSP_REG_WR0 := val))) s
     else if DSP_REG_ST0 \<le> reg \<and> reg \<le> DSP_REG_ST3
       then regs_update (r_st_update (\<lambda>a. a(reg - DSP_REG_ST0 := val))) s
     else if reg = DSP_REG_ACH0 \<or> reg = DSP_REG_ACH1
       then upd_ac (reg - DSP_REG_ACH0) (set_ac_h (ucast val)) s
     else if reg = DSP_REG_CR then regs_update (r_cr_update (\<lambda>_. val)) s
     else if reg = DSP_REG_SR then upd_sr (\<lambda>_. val) s
     else if reg = DSP_REG_PRODL then upd_prod (set_prod_l val) s
     else if reg = DSP_REG_PRODM then upd_prod (set_prod_m val) s
     else if reg = DSP_REG_PRODH then upd_prod (set_prod_h val) s
     else if reg = DSP_REG_PRODM2 then upd_prod (set_prod_m2 val) s
     else if reg = DSP_REG_AXL0 \<or> reg = DSP_REG_AXL1
       then upd_ax (reg - DSP_REG_AXL0) (set_ax_l val) s
     else if reg = DSP_REG_AXH0 \<or> reg = DSP_REG_AXH1
       then upd_ax (reg - DSP_REG_AXH0) (set_ax_h val) s
     else if reg = DSP_REG_ACL0 \<or> reg = DSP_REG_ACL1
       then upd_ac (reg - DSP_REG_ACL0) (set_ac_l val) s
     else if reg = DSP_REG_ACM0 \<or> reg = DSP_REG_ACM1
       then upd_ac (reg - DSP_REG_ACM0) (set_ac_m val) s
     else s)"

end
