(* ===== verification/Dsp_Interp.thy ===== *)
theory Dsp_Interp
  imports Dsp_Core
begin

text \<open>
  The helpers of \<open>Core/DSP/Interpreter/DSPInterpreter.cpp\<close>, \<open>DSPIntCCUtil.h\<close> and
  \<open>DSPIntUtil.h\<close> the instruction handlers share: conditions, address registers, the parts of
  the accumulators and of the product, the multiplier, the status flags, the checked register
  access and the write-back log of the extended opcodes (without \<open>PRECISE_BACKLOG\<close>, as the
  source is compiled: \<open>ZeroWriteBackLog\<close> does nothing).
\<close>

section \<open>Conditions\<close>

definition CheckCondition :: "u16 \<Rightarrow> SDSP \<Rightarrow> bool" where
  "CheckCondition condition s =
    (let c = condition AND 0xf;
         IsCarry = IsSRFlagSet SR_CARRY s;
         IsOverflow = IsSRFlagSet SR_OVERFLOW s;
         IsOverS32 = IsSRFlagSet SR_OVER_S32 s;
         IsLess = (IsSRFlagSet SR_OVERFLOW s \<noteq> IsSRFlagSet SR_SIGN s);
         IsZero = IsSRFlagSet SR_ARITH_ZERO s;
         IsLogicZero = IsSRFlagSet SR_LOGIC_ZERO s;
         IsConditionB = (\<not> (IsSRFlagSet SR_OVER_S32 s \<or> IsSRFlagSet SR_TOP2BITS s)
                         \<or> IsSRFlagSet SR_ARITH_ZERO s)
     in if c = 0xf then True
        else if c = 0x0 then \<not> IsLess
        else if c = 0x1 then IsLess
        else if c = 0x2 then \<not> IsLess \<and> \<not> IsZero
        else if c = 0x3 then IsLess \<or> IsZero
        else if c = 0x4 then \<not> IsZero
        else if c = 0x5 then IsZero
        else if c = 0x6 then \<not> IsCarry
        else if c = 0x7 then IsCarry
        else if c = 0x8 then \<not> IsOverS32
        else if c = 0x9 then IsOverS32
        else if c = 0xa then \<not> IsConditionB
        else if c = 0xb then IsConditionB
        else if c = 0xc then \<not> IsLogicZero
        else if c = 0xd then IsLogicZero
        else if c = 0xe then IsOverflow
        else True)"

section \<open>Address registers\<close>

text \<open>The arithmetic of one address register with its wrapping register, on \<open>u32\<close>.\<close>

definition increment_address :: "u16 \<Rightarrow> u16 \<Rightarrow> u16" where
  "increment_address a0 w0 =
    (let ar = ucast a0 :: u32; wr = ucast w0 :: u32;
         nar = ar + 1;
         nar' = (if push_bit 1 (wr OR 1) < nar XOR ar then nar - (wr + 1) else nar)
     in ucast nar')"

definition decrement_address :: "u16 \<Rightarrow> u16 \<Rightarrow> u16" where
  "decrement_address a0 w0 =
    (let ar = ucast a0 :: u32; wr = ucast w0 :: u32;
         nar = ar + wr;
         nar' = (if wr < (nar XOR ar) AND push_bit 1 (wr OR 1) then nar - (wr + 1) else nar)
     in ucast nar')"

definition increase_address :: "u16 \<Rightarrow> u16 \<Rightarrow> s16 \<Rightarrow> u16" where
  "increase_address a0 w0 x0 =
    (let ar = ucast a0 :: u32; wr = ucast w0 :: u32; ix = scast x0 :: s32;
         mx = push_bit 1 (wr OR 1);
         nar = ar + ix;
         dar = (nar XOR ar XOR ix) AND mx;
         nar' = (if 0 \<le> sint ix then (if wr < dar then nar - (wr + 1) else nar)
                 else (if ((nar + wr + 1) XOR nar) AND dar \<le> wr then nar + (wr + 1) else nar))
     in ucast nar')"

definition decrease_address :: "u16 \<Rightarrow> u16 \<Rightarrow> s16 \<Rightarrow> u16" where
  "decrease_address a0 w0 x0 =
    (let ar = ucast a0 :: u32; wr = ucast w0 :: u32; ix = scast x0 :: s32;
         mx = push_bit 1 (wr OR 1);
         nar = ar - ix;
         dar = (nar XOR ar XOR NOT ix) AND mx;
         nar' = (if 0xFFFF8000 < ix then (if wr < dar then nar - (wr + 1) else nar)
                 else (if ((nar + wr + 1) XOR nar) AND dar \<le> wr then nar + (wr + 1) else nar))
     in ucast nar')"

definition IncrementAddressRegister :: "nat \<Rightarrow> SDSP \<Rightarrow> u16" where
  "IncrementAddressRegister reg s = increment_address (ar_of s reg) (wr_of s reg)"

definition DecrementAddressRegister :: "nat \<Rightarrow> SDSP \<Rightarrow> u16" where
  "DecrementAddressRegister reg s = decrement_address (ar_of s reg) (wr_of s reg)"

definition IncreaseAddressRegister :: "nat \<Rightarrow> s16 \<Rightarrow> SDSP \<Rightarrow> u16" where
  "IncreaseAddressRegister reg ix s = increase_address (ar_of s reg) (wr_of s reg) ix"

definition DecreaseAddressRegister :: "nat \<Rightarrow> s16 \<Rightarrow> SDSP \<Rightarrow> u16" where
  "DecreaseAddressRegister reg ix s = decrease_address (ar_of s reg) (wr_of s reg) ix"

section \<open>Accumulators\<close>

definition GetLongACX :: "nat \<Rightarrow> SDSP \<Rightarrow> s32" where
  "GetLongACX reg s = push_bit 16 (ucast (ax_h (ax_of s reg))) OR ucast (ax_l (ax_of s reg))"

definition GetAXLow :: "nat \<Rightarrow> SDSP \<Rightarrow> s16" where
  "GetAXLow reg s = ax_l (ax_of s reg)"

definition GetAXHigh :: "nat \<Rightarrow> SDSP \<Rightarrow> s16" where
  "GetAXHigh reg s = ax_h (ax_of s reg)"

definition GetLongAcc :: "nat \<Rightarrow> SDSP \<Rightarrow> s64" where
  "GetLongAcc reg s = ac_of s reg"

definition SetLongAcc :: "nat \<Rightarrow> s64 \<Rightarrow> SDSP \<Rightarrow> SDSP" where
  "SetLongAcc reg value s = upd_ac reg (\<lambda>_. sext40 value) s"

definition GetAccLow :: "nat \<Rightarrow> SDSP \<Rightarrow> s16" where
  "GetAccLow reg s = ac_l (ac_of s reg)"

definition GetAccMid :: "nat \<Rightarrow> SDSP \<Rightarrow> s16" where
  "GetAccMid reg s = ac_m (ac_of s reg)"

definition GetAccHigh :: "nat \<Rightarrow> SDSP \<Rightarrow> s16" where
  "GetAccHigh reg s = ucast (ac_h (ac_of s reg))"

definition dsp_convert_long_acc :: "s64 \<Rightarrow> s64" where
  "dsp_convert_long_acc val = signed_drop_bit 24 (push_bit 24 val)"

definition dsp_round_long_acc :: "s64 \<Rightarrow> s64" where
  "dsp_round_long_acc val =
    (if val AND 0x10000 \<noteq> 0 then (val + 0x8000) AND NOT 0xffff else (val + 0x7fff) AND NOT 0xffff)"

section \<open>Product and multiplier\<close>

definition long_product :: "u64 \<Rightarrow> s64" where
  "long_product p =
    (let val = push_bit 32 (scast (ucast (prod_h p) :: u8));
         low_prod = push_bit 16 (ucast (prod_m p) + ucast (prod_m2 p)) OR ucast (prod_l p)
     in val + low_prod)"

definition GetLongProduct :: "SDSP \<Rightarrow> s64" where
  "GetLongProduct s = long_product (r_prod (regs s))"

definition GetLongProductRounded :: "SDSP \<Rightarrow> s64" where
  "GetLongProductRounded s =
    (let prod = GetLongProduct s in
     if prod AND 0x10000 \<noteq> 0 then (prod + 0x8000) AND NOT 0xffff else (prod + 0x7fff) AND NOT 0xffff)"

definition SetLongProduct :: "s64 \<Rightarrow> SDSP \<Rightarrow> SDSP" where
  "SetLongProduct value s = upd_prod (\<lambda>_. value AND 0x000000FFFFFFFFFF) s"

definition sx16_64 :: "s16 \<Rightarrow> s64" where
  "sx16_64 v = scast v"

text \<open>
  \<open>a * b\<close> on \<open>u16\<close> operands is computed in \<open>int\<close>: the model wraps at 32 bits, as every
  compiler in use does, where the standard leaves an overflow undefined.
\<close>

definition GetMultiplyProduct :: "u16 \<Rightarrow> u16 \<Rightarrow> nat \<Rightarrow> SDSP \<Rightarrow> s64" where
  "GetMultiplyProduct a b sign s =
    (let prod = (if sign = 1 \<and> IsSRFlagSet SR_MUL_UNSIGNED s then ucast (ucast a * ucast b :: u32)
                 else if sign = 2 \<and> IsSRFlagSet SR_MUL_UNSIGNED s then scast (ucast a * scast b :: s32)
                 else scast (scast a * scast b :: s32))
     in if \<not> IsSRFlagSet SR_MUL_MODIFY s then push_bit 1 prod else prod)"

definition Multiply :: "u16 \<Rightarrow> u16 \<Rightarrow> nat \<Rightarrow> SDSP \<Rightarrow> s64" where
  "Multiply a b sign s = GetMultiplyProduct a b sign s"

definition MultiplyAdd :: "u16 \<Rightarrow> u16 \<Rightarrow> nat \<Rightarrow> SDSP \<Rightarrow> s64" where
  "MultiplyAdd a b sign s = GetLongProduct s + GetMultiplyProduct a b sign s"

definition MultiplySub :: "u16 \<Rightarrow> u16 \<Rightarrow> nat \<Rightarrow> SDSP \<Rightarrow> s64" where
  "MultiplySub a b sign s = GetLongProduct s - GetMultiplyProduct a b sign s"

definition MultiplyMulX :: "nat \<Rightarrow> nat \<Rightarrow> u16 \<Rightarrow> u16 \<Rightarrow> SDSP \<Rightarrow> s64" where
  "MultiplyMulX axh0 axh1 val1 val2 s =
    (if axh0 = 0 \<and> axh1 = 0 then Multiply val1 val2 1 s
     else if axh0 = 0 \<and> axh1 = 1 then Multiply val1 val2 2 s
     else if axh0 = 1 \<and> axh1 = 0 then Multiply val2 val1 2 s
     else Multiply val1 val2 0 s)"

section \<open>Status register\<close>

definition isCarryAdd :: "u64 \<Rightarrow> u64 \<Rightarrow> bool" where
  "isCarryAdd val result \<longleftrightarrow> result < val"

definition isCarrySubtract :: "u64 \<Rightarrow> u64 \<Rightarrow> bool" where
  "isCarrySubtract val result \<longleftrightarrow> result \<le> val"

definition isOverflow :: "s64 \<Rightarrow> s64 \<Rightarrow> s64 \<Rightarrow> bool" where
  "isOverflow val1 val2 res \<longleftrightarrow> sint ((val1 XOR res) AND (val2 XOR res)) < 0"

definition isOverS32 :: "s64 \<Rightarrow> bool" where
  "isOverS32 acc \<longleftrightarrow> acc \<noteq> scast (ucast acc :: s32)"

definition set_if :: "bool \<Rightarrow> u16 \<Rightarrow> u16 \<Rightarrow> u16" where
  "set_if b flag sr = (if b then sr OR flag else sr)"

definition sr16 :: "s16 \<Rightarrow> bool \<Rightarrow> bool \<Rightarrow> bool \<Rightarrow> u16 \<Rightarrow> u16" where
  "sr16 value carry overflow over_s32 sr0 =
    (let sr1 = sr0 AND NOT SR_CMP_MASK;
         sr2 = set_if carry SR_CARRY sr1;
         sr3 = set_if overflow SR_OVERFLOW_STICKY (set_if overflow SR_OVERFLOW sr2);
         sr4 = set_if (value = 0) SR_ARITH_ZERO sr3;
         sr5 = set_if (sint value < 0) SR_SIGN sr4;
         sr6 = set_if over_s32 SR_OVER_S32 sr5
     in set_if (drop_bit 14 value = 0 \<or> drop_bit 14 value = 3) SR_TOP2BITS sr6)"

definition UpdateSR16 :: "s16 \<Rightarrow> bool \<Rightarrow> bool \<Rightarrow> bool \<Rightarrow> SDSP \<Rightarrow> SDSP" where
  "UpdateSR16 value carry overflow over_s32 s = upd_sr (sr16 value carry overflow over_s32) s"

definition IsProperlySignExtended :: "u64 \<Rightarrow> bool" where
  "IsProperlySignExtended val \<longleftrightarrow>
    (let topbits = val AND 0xffffff8000000000 in topbits = 0 \<or> 0xffffff8000000000 = topbits)"

definition sr64 :: "s64 \<Rightarrow> bool \<Rightarrow> bool \<Rightarrow> u16 \<Rightarrow> u16" where
  "sr64 value carry overflow sr0 =
    (let sr1 = sr0 AND NOT SR_CMP_MASK;
         sr2 = set_if carry SR_CARRY sr1;
         sr3 = set_if overflow SR_OVERFLOW_STICKY (set_if overflow SR_OVERFLOW sr2);
         sr4 = set_if (value = 0) SR_ARITH_ZERO sr3;
         sr5 = set_if (sint value < 0) SR_SIGN sr4;
         sr6 = set_if (isOverS32 value) SR_OVER_S32 sr5
     in set_if (value AND 0xc0000000 = 0 \<or> value AND 0xc0000000 = 0xc0000000) SR_TOP2BITS sr6)"

definition UpdateSR64 :: "s64 \<Rightarrow> bool \<Rightarrow> bool \<Rightarrow> SDSP \<Rightarrow> SDSP" where
  "UpdateSR64 value carry overflow s = upd_sr (sr64 value carry overflow) s"

definition UpdateSR64Add :: "s64 \<Rightarrow> s64 \<Rightarrow> s64 \<Rightarrow> SDSP \<Rightarrow> SDSP" where
  "UpdateSR64Add val1 val2 result s =
     UpdateSR64 result (isCarryAdd val1 result) (isOverflow val1 val2 result) s"

definition UpdateSR64Sub :: "s64 \<Rightarrow> s64 \<Rightarrow> s64 \<Rightarrow> SDSP \<Rightarrow> SDSP" where
  "UpdateSR64Sub val1 val2 result s =
     UpdateSR64 result (isCarrySubtract val1 result) (isOverflow val1 (- val2) result) s"

definition UpdateSRLogicZero :: "bool \<Rightarrow> SDSP \<Rightarrow> SDSP" where
  "UpdateSRLogicZero value s =
    (if value then upd_sr (\<lambda>sr. sr OR SR_LOGIC_ZERO) s else upd_sr (\<lambda>sr. sr AND NOT SR_LOGIC_ZERO) s)"

section \<open>Register access of instructions\<close>

text \<open>Reads of the middle accumulators saturate in 40-bit mode.\<close>

definition read_acm :: "nat \<Rightarrow> SDSP \<Rightarrow> u16" where
  "read_acm i s =
    (if IsSRFlagSet SR_40_MODE_BIT s then
       (let acc = GetLongAcc i s in
        if acc \<noteq> scast (ucast acc :: s32) then (if 0 < sint acc then 0x7fff else 0x8000)
        else ac_m (ac_of s i))
     else ac_m (ac_of s i))"

definition OpReadRegister :: "nat \<Rightarrow> SDSP \<Rightarrow> u16 \<times> SDSP" where
  "OpReadRegister r0 s =
    (let reg = take_bit 5 r0 in
     if DSP_REG_ST0 \<le> reg \<and> reg \<le> DSP_REG_ST3 then PopStack (stack_of_index (reg - DSP_REG_ST0)) s
     else if reg \<le> DSP_REG_AR3 then (ar_of s (reg - DSP_REG_AR0), s)
     else if DSP_REG_IX0 \<le> reg \<and> reg \<le> DSP_REG_IX3 then (ix_of s (reg - DSP_REG_IX0), s)
     else if DSP_REG_WR0 \<le> reg \<and> reg \<le> DSP_REG_WR3 then (wr_of s (reg - DSP_REG_WR0), s)
     else if reg = DSP_REG_ACH0 \<or> reg = DSP_REG_ACH1
       then (ucast (ac_h (ac_of s (reg - DSP_REG_ACH0))), s)
     else if reg = DSP_REG_CR then (r_cr (regs s), s)
     else if reg = DSP_REG_SR then (sr_of s, s)
     else if reg = DSP_REG_PRODL then (prod_l (r_prod (regs s)), s)
     else if reg = DSP_REG_PRODM then (prod_m (r_prod (regs s)), s)
     else if reg = DSP_REG_PRODH then (prod_h (r_prod (regs s)), s)
     else if reg = DSP_REG_PRODM2 then (prod_m2 (r_prod (regs s)), s)
     else if reg = DSP_REG_AXL0 \<or> reg = DSP_REG_AXL1 then (ax_l (ax_of s (reg - DSP_REG_AXL0)), s)
     else if reg = DSP_REG_AXH0 \<or> reg = DSP_REG_AXH1 then (ax_h (ax_of s (reg - DSP_REG_AXH0)), s)
     else if reg = DSP_REG_ACL0 \<or> reg = DSP_REG_ACL1 then (ac_l (ac_of s (reg - DSP_REG_ACL0)), s)
     else (read_acm (reg - DSP_REG_ACM0) s, s))"

definition OpWriteRegister :: "nat \<Rightarrow> u16 \<Rightarrow> SDSP \<Rightarrow> SDSP" where
  "OpWriteRegister r0 val s =
    (let reg = take_bit 5 r0 in
     if reg = DSP_REG_ACH0 \<or> reg = DSP_REG_ACH1
       then upd_ac (reg - DSP_REG_ACH0) (set_ac_h (scast (ucast val :: u8))) s
     else if DSP_REG_ST0 \<le> reg \<and> reg \<le> DSP_REG_ST3
       then StoreStack (stack_of_index (reg - DSP_REG_ST0)) val s
     else if reg \<le> DSP_REG_AR3 then set_ar (reg - DSP_REG_AR0) val s
     else if DSP_REG_IX0 \<le> reg \<and> reg \<le> DSP_REG_IX3
       then regs_update (r_ix_update (\<lambda>a. a(reg - DSP_REG_IX0 := val))) s
     else if DSP_REG_WR0 \<le> reg \<and> reg \<le> DSP_REG_WR3
       then regs_update (r_wr_update (\<lambda>a. a(reg - DSP_REG_WR0 := val))) s
     else if reg = DSP_REG_CR then regs_update (r_cr_update (\<lambda>_. val AND 0x00ff)) s
     else if reg = DSP_REG_SR then upd_sr (\<lambda>_. val AND NOT SR_100) s
     else if reg = DSP_REG_PRODL then upd_prod (set_prod_l val) s
     else if reg = DSP_REG_PRODM then upd_prod (set_prod_m val) s
     else if reg = DSP_REG_PRODH then upd_prod (set_prod_h (val AND 0x00ff)) s
     else if reg = DSP_REG_PRODM2 then upd_prod (set_prod_m2 val) s
     else if reg = DSP_REG_AXL0 \<or> reg = DSP_REG_AXL1
       then upd_ax (reg - DSP_REG_AXL0) (set_ax_l val) s
     else if reg = DSP_REG_AXH0 \<or> reg = DSP_REG_AXH1
       then upd_ax (reg - DSP_REG_AXH0) (set_ax_h val) s
     else if reg = DSP_REG_ACL0 \<or> reg = DSP_REG_ACL1
       then upd_ac (reg - DSP_REG_ACL0) (set_ac_l val) s
     else upd_ac (reg - DSP_REG_ACM0) (set_ac_m val) s)"

definition ConditionalExtendAccum :: "nat \<Rightarrow> SDSP \<Rightarrow> SDSP" where
  "ConditionalExtendAccum reg s =
    (if reg \<noteq> DSP_REG_ACM0 \<and> reg \<noteq> DSP_REG_ACM1 then s
     else if \<not> IsSRFlagSet SR_40_MODE_BIT s then s
     else let i = reg - DSP_REG_ACM0; val = ac_m (ac_of s i)
          in upd_ac i (\<lambda>a. set_ac_l 0 (set_ac_h (if val AND 0x8000 \<noteq> 0 then 0xFFFFFFFF else 0) a)) s)"

section \<open>Write-back log\<close>

definition WriteToBackLog :: "nat \<Rightarrow> nat \<Rightarrow> u16 \<Rightarrow> SDSP \<Rightarrow> SDSP" where
  "WriteToBackLog i idx value s =
     s\<lparr>write_back_log := (write_back_log s)(i := value),
       write_back_log_idx := (write_back_log_idx s)(i := int idx)\<rparr>"

text \<open>The loop over the five entries; an entry \<open>-1\<close> ends it.\<close>

fun apply_log_from :: "nat \<Rightarrow> nat \<Rightarrow> SDSP \<Rightarrow> SDSP" where
  "apply_log_from 0 i s = s"
| "apply_log_from (Suc n) i s =
    (if write_back_log_idx s i = -1 then s
     else let s1 = OpWriteRegister (nat (write_back_log_idx s i)) (write_back_log s i) s
          in apply_log_from n (Suc i) (s1\<lparr>write_back_log_idx := (write_back_log_idx s1)(i := -1)\<rparr>))"

definition ApplyWriteBackLog :: "SDSP \<Rightarrow> SDSP" where
  "ApplyWriteBackLog s = apply_log_from 5 0 s"

definition ZeroWriteBackLog :: "SDSP \<Rightarrow> SDSP" where
  "ZeroWriteBackLog s = s"

definition ZeroWriteBackLogPreserveAcc :: "nat \<Rightarrow> SDSP \<Rightarrow> SDSP" where
  "ZeroWriteBackLogPreserveAcc acc s = s"

end
