(* ===== verification/Dsp_Address.thy ===== *)
theory Dsp_Address
  imports Dsp_Interp
begin

text \<open>
  The address register arithmetic of \<open>DSPInterpreter.cpp\<close> is a tangle of carries; here it is
  shown to be a cursor on a ring.  With \<open>k\<close> the bit length of \<open>wr | 1\<close>, the ring of an
  address is the last \<open>wr + 1\<close> places of its aligned block of \<open>2 ^ k\<close> places.
\<close>

section \<open>Bits of natural numbers\<close>

lemma nat_bit_ge: "bit (n :: nat) k \<Longrightarrow> 2 ^ k \<le> n"
proof (rule ccontr)
  assume b: "bit n k" and "\<not> 2 ^ k \<le> n"
  then have "take_bit k n = n" by (simp add: take_bit_nat_eq_self)
  with b show False using bit_take_bit_iff [of k n k] by simp
qed

lemma nat_less_no_bit: "(n :: nat) < 2 ^ k \<Longrightarrow> k \<le> j \<Longrightarrow> \<not> bit n j"
  using nat_bit_ge [of n j] power_increasing [of k j "2 :: nat"] by (fastforce simp: not_le)

lemma nat_and_le: "(x AND y) \<le> (y :: nat)"
proof -
  have "int (x AND y) \<le> int y" by (simp only: of_nat_and_eq) simp
  then show ?thesis by simp
qed

definition odd_up :: "nat \<Rightarrow> nat" where
  "odd_up w = w OR 1"

lemma odd_up_eq: "odd_up w = (if even w then w + 1 else w)"
  by (simp only: odd_up_def or_one_eq) simp

fun bit_length :: "nat \<Rightarrow> nat" where
  "bit_length n = (if n = 0 then 0 else Suc (bit_length (n div 2)))"

declare bit_length.simps [simp del]

lemma bit_length_0 [simp]: "bit_length 0 = 0"
  by (simp add: bit_length.simps)

lemma bit_length_bounds: "0 < n \<Longrightarrow> 2 ^ (bit_length n - 1) \<le> n \<and> n < 2 ^ bit_length n \<and> 0 < bit_length n"
proof (induction n rule: bit_length.induct)
  case (1 n)
  show ?case
  proof (cases "n div 2 = 0")
    case True
    with 1 have "n = 1" by auto
    then show ?thesis by (simp add: bit_length.simps)
  next
    case False
    with 1 have IH: "2 ^ (bit_length (n div 2) - 1) \<le> n div 2 \<and> n div 2 < 2 ^ bit_length (n div 2)
        \<and> 0 < bit_length (n div 2)" by simp
    then obtain j where j: "bit_length (n div 2) = Suc j" by (cases "bit_length (n div 2)") auto
    have "bit_length n = Suc (Suc j)" using 1(2) j bit_length.simps [of n] by simp
    with IH j show ?thesis by auto
  qed
qed

text \<open>The width of the block: the bit length of \<open>wr | 1\<close>.\<close>

definition wrap_bits :: "nat \<Rightarrow> nat" where
  "wrap_bits w = bit_length (odd_up w)"

lemma wrap_bits_bounds:
  "2 ^ (wrap_bits w - 1) \<le> odd_up w" "odd_up w < 2 ^ wrap_bits w" "0 < wrap_bits w" "w < 2 ^ wrap_bits w"
proof -
  have p: "0 < odd_up w" by (auto simp: odd_up_eq intro: Nat.gr0I)
  show "2 ^ (wrap_bits w - 1) \<le> odd_up w" "odd_up w < 2 ^ wrap_bits w" "0 < wrap_bits w"
    using bit_length_bounds [OF p] by (simp_all add: wrap_bits_def)
  then show "w < 2 ^ wrap_bits w" by (auto simp: odd_up_eq split: if_splits)
qed

lemma wrap_bits_le_16: "w < 2 ^ 16 \<Longrightarrow> wrap_bits w \<le> 16"
proof (rule ccontr)
  assume w: "w < 2 ^ 16" and "\<not> wrap_bits w \<le> 16"
  then have "2 ^ 16 \<le> (2 :: nat) ^ (wrap_bits w - 1)" by (intro power_increasing) auto
  also have "\<dots> \<le> odd_up w" by (rule wrap_bits_bounds)
  finally show False using w by (auto simp: odd_up_eq split: if_splits)
qed

section \<open>The comparison with the doubled wrapping register\<close>

lemma double_mod_le: "(2 * odd_up w) mod 2 ^ wrap_bits w \<le> (w :: nat)"
proof -
  obtain j where j: "wrap_bits w = Suc j" using wrap_bits_bounds(3) [of w] by (cases "wrap_bits w") auto
  let ?v = "odd_up w"
  have v: "2 ^ j \<le> ?v" "?v < 2 * 2 ^ j" using wrap_bits_bounds [of w] j by simp_all
  have "2 * ?v mod 2 ^ Suc j = 2 * (?v mod 2 ^ j)" by (simp only: power_Suc mult_mod_right)
  also have "?v mod 2 ^ j = ?v - 2 ^ j" using v by (simp add: le_mod_geq)
  finally have e: "2 * ?v mod 2 ^ Suc j = 2 * (?v - 2 ^ j)" .
  show ?thesis
  proof (cases "even w")
    case False
    then show ?thesis using e v j by (simp add: odd_up_eq)
  next
    case True
    then have vw: "?v = w + 1" by (simp add: odd_up_eq)
    show ?thesis
    proof (cases j)
      case 0
      then show ?thesis using e v j vw by simp
    next
      case (Suc i)
      then have "even (2 ^ j :: nat)" by simp
      then have "w + 2 \<le> 2 * 2 ^ j" using True v vw by presburger
      then show ?thesis using e j vw by simp
    qed
  qed
qed

lemma masked_greater_iff: "w < (x AND (2 * odd_up w)) \<longleftrightarrow> bit (x :: nat) (wrap_bits w)"
proof -
  let ?k = "wrap_bits w" and ?m = "2 * odd_up w"
  obtain j where j: "?k = Suc j" using wrap_bits_bounds(3) [of w] by (cases ?k) auto
  have v: "2 ^ j \<le> odd_up w" "odd_up w < 2 * 2 ^ j" using wrap_bits_bounds [of w] j by simp_all
  have mlt: "?m < 2 ^ Suc ?k" using v j by simp
  have mk: "bit ?m ?k"
    using v j by (simp add: bit_iff_odd div_if)
  show ?thesis
  proof
    assume "bit x ?k"
    with mk have "bit (x AND ?m) ?k" by (simp add: bit_and_iff)
    then have "2 ^ ?k \<le> (x AND ?m)" by (rule nat_bit_ge)
    with wrap_bits_bounds(4) [of w] show "w < (x AND ?m)" by linarith
  next
    assume gr: "w < (x AND ?m)"
    show "bit x ?k"
    proof (rule ccontr)
      assume n: "\<not> bit x ?k"
      have "(x AND ?m) = (x AND take_bit ?k ?m)"
      proof (rule bit_eqI)
        fix i
        show "bit (x AND ?m) i = bit (x AND take_bit ?k ?m) i"
          using n nat_less_no_bit [OF mlt, of i]
          by (cases i ?k rule: linorder_cases) (auto simp: bit_and_iff bit_take_bit_iff Suc_le_eq)
      qed
      also have "\<dots> \<le> take_bit ?k ?m" by (rule nat_and_le)
      also have "\<dots> \<le> w" using double_mod_le [of w] by (simp add: take_bit_eq_mod)
      finally show False using gr by simp
    qed
  qed
qed

section \<open>Carries\<close>

lemma odd_div_add:
  fixes x y c :: int
  assumes "c = 0 \<or> c = 1"
  shows "odd ((x + y + c) div 2 ^ k) \<longleftrightarrow>
    (odd (x div 2 ^ k) \<noteq> (odd (y div 2 ^ k) \<noteq> (2 ^ k \<le> x mod 2 ^ k + y mod 2 ^ k + c)))"
proof -
  let ?m = "2 ^ k :: int"
  have r: "0 \<le> x mod ?m" "x mod ?m < ?m" "0 \<le> y mod ?m" "y mod ?m < ?m" by simp_all
  have "x + y + c = (x mod ?m + y mod ?m + c) + ?m * (x div ?m + y div ?m)"
    by (simp add: algebra_simps)
  then have e: "(x + y + c) div ?m = (x div ?m + y div ?m) + (x mod ?m + y mod ?m + c) div ?m"
    using div_mult_self2 [of ?m "x mod ?m + y mod ?m + c" "x div ?m + y div ?m"]
    by (simp only:) simp
  have "(x mod ?m + y mod ?m + c) div ?m = of_bool (?m \<le> x mod ?m + y mod ?m + c)"
  proof (cases "?m \<le> x mod ?m + y mod ?m + c")
    case True
    moreover have "x mod ?m + y mod ?m + c < 2 * ?m" using r assms by linarith
    ultimately have "(x mod ?m + y mod ?m + c) div ?m = 1"
      by (intro int_div_pos_eq [where r = "x mod ?m + y mod ?m + c - ?m"]) linarith+
    with True show ?thesis by simp
  next
    case False
    moreover have "0 \<le> x mod ?m + y mod ?m + c" using r assms by linarith
    ultimately show ?thesis by simp
  qed
  with e show ?thesis by auto
qed

lemma bit_uint_mod:
  assumes "uint (x :: u32) = take_bit 32 i" "k < 32"
  shows "bit x k = bit i k"
proof -
  have "bit x k = bit (uint x) k" using assms(2) by (simp add: bit_uint_iff)
  then show ?thesis using assms by (simp add: bit_take_bit_iff)
qed

lemma bit_uint_odd: "k < 32 \<Longrightarrow> bit (x :: u32) k \<longleftrightarrow> odd (uint x div 2 ^ k)"
  by (simp add: bit_iff_odd [symmetric] bit_uint_iff)

lemma bit_word_add:
  "k < 32 \<Longrightarrow> bit (x + y :: u32) k \<longleftrightarrow>
    (bit x k \<noteq> (bit y k \<noteq> (2 ^ k \<le> uint x mod 2 ^ k + uint y mod 2 ^ k)))"
proof -
  assume k: "k < 32"
  have "bit (x + y) k = bit (uint x + uint y) k"
    by (rule bit_uint_mod [OF _ k]) (simp add: uint_word_ariths take_bit_eq_mod)
  also have "\<dots> = odd ((uint x + uint y + 0) div 2 ^ k)" by (simp add: bit_iff_odd)
  also have "\<dots> = (odd (uint x div 2 ^ k) \<noteq> (odd (uint y div 2 ^ k) \<noteq>
      (2 ^ k \<le> uint x mod 2 ^ k + uint y mod 2 ^ k + 0)))"
    by (rule odd_div_add) simp
  finally show ?thesis using k by (simp only: bit_uint_odd [OF k] add_0_right)
qed

lemma bit_word_add_carry:
  "k < 32 \<Longrightarrow> bit (x + y + 1 :: u32) k \<longleftrightarrow>
    (bit x k \<noteq> (bit y k \<noteq> (2 ^ k \<le> uint x mod 2 ^ k + uint y mod 2 ^ k + 1)))"
proof -
  assume k: "k < 32"
  have "bit (x + y + 1) k = bit (uint x + uint y + 1) k"
    by (rule bit_uint_mod [OF _ k]) (simp add: uint_word_ariths take_bit_eq_mod mod_simps)
  also have "\<dots> = odd ((uint x + uint y + 1) div 2 ^ k)" by (simp add: bit_iff_odd)
  also have "\<dots> = (odd (uint x div 2 ^ k) \<noteq> (odd (uint y div 2 ^ k) \<noteq>
      (2 ^ k \<le> uint x mod 2 ^ k + uint y mod 2 ^ k + 1)))"
    by (rule odd_div_add) simp
  finally show ?thesis using k by (simp only: bit_uint_odd [OF k])
qed

section \<open>The four updates as conditional arithmetic\<close>

text \<open>Narrowing to 16 bits commutes with addition and subtraction.\<close>

lemma ucast16_arith:
  "(ucast (x + y :: u32) :: u16) = ucast x + ucast y"
  "(ucast (x - y :: u32) :: u16) = ucast x - ucast y"
  by (simp_all add: word_uint_eq_iff uint_word_ariths unsigned_ucast_eq take_bit_eq_mod mod_mod_cancel
      mod_simps)

lemma ucast16_back [simp]:
  "(ucast (ucast (a :: u16) :: u32) :: u16) = a" "(ucast (scast (a :: s16) :: u32) :: u16) = a"
  "(ucast (1 :: u32) :: u16) = 1"
proof -
  show "(ucast (ucast a :: u32) :: u16) = a"
    by (rule bit_word_eqI) (auto simp: bit_simps)
  show "(ucast (scast a :: u32) :: u16) = a"
  proof (rule bit_word_eqI)
    fix n assume "n < LENGTH(16)"
    then have "n \<le> 15" by simp
    then show "bit (ucast (scast a :: u32) :: u16) n = bit a n"
      by (simp add: bit_simps min_absorb1 bit_imp_le_length)
  qed
qed simp

abbreviation wbits :: "u16 \<Rightarrow> nat" where
  "wbits w \<equiv> wrap_bits (unat w)"

lemma unat_wr [simp]: "unat (ucast (w :: u16) :: u32) = unat w"
  using unsigned_less [of w, where 'a = nat] by (simp add: unsigned_ucast_eq take_bit_nat_eq_self)

lemma len_word32: "LENGTH(32) = 32"
  by simp

lemma unat_doubled: "unat (push_bit 1 ((ucast (w :: u16) :: u32) OR 1)) = 2 * odd_up (unat w)"
proof -
  have o: "unat ((ucast w :: u32) OR 1) = odd_up (unat w)"
    by (simp only: unsigned_or_eq unat_wr unsigned_1 odd_up_def)
  have lt: "odd_up (unat w) < 2 ^ 17" using unsigned_less [of w, where 'a = nat] by (simp add: odd_up_eq)
  have "unat (push_bit 1 ((ucast w :: u32) OR 1)) = take_bit 32 (push_bit 1 (unat ((ucast w :: u32) OR 1)))"
    unfolding unsigned_push_bit_eq by (simp only: len_word32)
  also have "\<dots> = take_bit 32 (2 * odd_up (unat w))" by (simp only: o) (simp add: push_bit_eq_mult mult.commute)
  also have "\<dots> = 2 * odd_up (unat w)" using lt by (simp add: take_bit_nat_eq_self)
  finally show ?thesis .
qed

lemma wbits_le: "wbits w \<le> 16"
  by (rule wrap_bits_le_16) (use unsigned_less [of w, where 'a = nat] in simp)

lemma bit_unat: "k < 32 \<Longrightarrow> bit (unat (x :: u32)) k = bit x k"
  by (simp add: bit_unsigned_iff)

lemma masked_word:
  "ucast (w :: u16) < (x AND push_bit 1 ((ucast w :: u32) OR 1)) \<longleftrightarrow> bit x (wbits w)"
proof -
  have "ucast w < (x AND push_bit 1 ((ucast w :: u32) OR 1)) \<longleftrightarrow>
      unat w < (unat x AND 2 * odd_up (unat w))"
    by (simp only: word_less_nat_alt unsigned_and_eq unat_doubled unat_wr)
  also have "\<dots> \<longleftrightarrow> bit (unat x) (wbits w)" by (rule masked_greater_iff)
  also have "\<dots> \<longleftrightarrow> bit x (wbits w)" using wbits_le [of w] by (intro bit_unat) simp
  finally show ?thesis .
qed

lemma bit_wr: "\<not> bit (ucast (w :: u16) :: u32) (wbits w)"
proof -
  have "\<not> bit (unat (ucast w :: u32)) (wbits w)"
    by (rule nat_less_no_bit [of _ "wbits w"]) (simp_all add: wrap_bits_bounds)
  then show ?thesis using wbits_le [of w] by (subst bit_unat [symmetric]) simp_all
qed

lemma mod_wr: "uint (w :: u16) mod 2 ^ wbits w = uint w"
proof -
  have "int (unat w) < int (2 ^ wbits w)" using wrap_bits_bounds(4) [of "unat w"] by (simp only: of_nat_less_iff)
  then have "uint w < 2 ^ wbits w" by (simp only: uint_nat) simp
  then show ?thesis by simp
qed

lemma decrement_address_eq:
  "decrement_address a w = (if 2 ^ wbits w \<le> uint a mod 2 ^ wbits w + uint w then a - 1 else a + w)"
proof -
  let ?a = "ucast a :: u32" and ?w = "ucast w :: u32" and ?k = "wbits w"
  have k: "?k < 32" using wbits_le [of w] by simp
  have "bit ((?a + ?w) XOR ?a) ?k \<longleftrightarrow> 2 ^ ?k \<le> uint a mod 2 ^ ?k + uint w"
    using bit_wr [of w] by (simp add: bit_xor_iff bit_word_add [OF k] mod_wr) argo
  moreover have "(ucast (?a + ?w - (?w + 1)) :: u16) = a - 1" by (simp add: ucast16_arith)
  moreover have "(ucast (?a + ?w) :: u16) = a + w" by (simp add: ucast16_arith)
  ultimately show ?thesis
    unfolding decrement_address_def Let_def masked_word by (simp only: if_distrib [of ucast])
qed

lemma increment_mask:
  fixes x :: u32
  assumes "j < 32"
  shows "bit ((x + 1) XOR x) j \<longleftrightarrow> uint x mod 2 ^ j = 2 ^ j - 1"
proof (cases "j = 0")
  case True
  then show ?thesis using bit_word_add [of 0 x 1] by (simp add: bit_xor_iff)
next
  case False
  have "bit ((x + 1) XOR x) j \<longleftrightarrow> 2 ^ j \<le> uint x mod 2 ^ j + 1"
    using False bit_word_add [OF assms, of x 1] by (simp add: bit_xor_iff bit_1_iff) argo
  moreover have "uint x mod 2 ^ j < 2 ^ j" by simp
  ultimately show ?thesis by linarith
qed

lemma increment_mask_less:
  fixes x :: u32
  assumes "2 ^ k \<le> m" "m < 2 ^ Suc k - 1" "k < 32"
  shows "m < unat ((x + 1) XOR x) \<longleftrightarrow> bit ((x + 1) XOR x) k"
proof
  let ?y = "(x + 1) XOR x"
  assume b: "bit ?y k"
  have "bit ?y j" if "j \<le> k" for j
  proof -
    have "uint x mod 2 ^ k mod 2 ^ j = uint x mod 2 ^ j"
      using that by (simp add: mod_mod_cancel le_imp_power_dvd)
    moreover have "uint x mod 2 ^ k = 2 ^ k - 1" using b assms(3) by (simp add: increment_mask)
    moreover have "(2 ^ k - 1) mod 2 ^ j = (2 ^ j - 1 :: int)"
      using that by (simp add: mask_eq_exp_minus_1 [symmetric] take_bit_eq_mod [symmetric] min_def)
    ultimately show ?thesis using that assms(3) by (simp add: increment_mask)
  qed
  then have "take_bit (Suc k) (unat ?y) = mask (Suc k)"
    using assms(3) by (intro bit_eqI) (auto simp: bit_take_bit_iff bit_mask_iff bit_unat)
  then have "2 ^ Suc k - 1 \<le> unat ?y"
    by (metis mask_eq_exp_minus_1 take_bit_nat_less_eq_self)
  with assms(2) show "m < unat ?y" by linarith
next
  let ?y = "(x + 1) XOR x"
  assume gr: "m < unat ?y"
  show "bit ?y k"
  proof (rule ccontr)
    assume n: "\<not> bit ?y k"
    have "\<not> bit ?y j" if "k \<le> j" "j < 32" for j
    proof
      assume "bit ?y j"
      then have "uint x mod 2 ^ j = 2 ^ j - 1" using that by (simp add: increment_mask)
      then have "uint x mod 2 ^ j mod 2 ^ k = 2 ^ k - 1"
        using that by (simp add: mask_eq_exp_minus_1 [symmetric] take_bit_eq_mod [symmetric] min_def)
      then have "uint x mod 2 ^ k = 2 ^ k - 1"
        using that by (simp add: mod_mod_cancel le_imp_power_dvd)
      with n assms(3) show False by (simp add: increment_mask)
    qed
    then have hi: "bit ?y j \<Longrightarrow> j < k" for j
      using bit_imp_le_length [of ?y j] by (cases "k \<le> j") auto
    have "take_bit k (unat ?y) = unat ?y"
      by (intro bit_eqI) (auto simp: bit_take_bit_iff bit_unsigned_iff dest: hi)
    then have "unat ?y < 2 ^ k" by (metis take_bit_nat_less_exp)
    with gr assms(1) show False by simp
  qed
qed

lemma increment_address_eq:
  "increment_address a w =
    (if uint a mod 2 ^ wbits w = 2 ^ wbits w - 1 then a - w else a + 1)"
proof -
  let ?a = "ucast a :: u32" and ?w = "ucast w :: u32" and ?k = "wbits w"
  have k: "?k < 32" using wbits_le [of w] by simp
  obtain j where j: "?k = Suc j" using wrap_bits_bounds(3) [of "unat w"] by (cases ?k) auto
  have o: "2 ^ j \<le> odd_up (unat w)" "odd_up (unat w) < 2 * 2 ^ j" "odd (odd_up (unat w))"
    using wrap_bits_bounds [of "unat w"] j by (simp_all add: odd_up_eq)
  have "push_bit 1 (?w OR 1) < (?a + 1) XOR ?a \<longleftrightarrow> 2 * odd_up (unat w) < unat ((?a + 1) XOR ?a)"
    by (simp only: word_less_nat_alt unat_doubled)
  also have "\<dots> \<longleftrightarrow> bit ((?a + 1) XOR ?a) ?k"
    using o j by (intro increment_mask_less k) auto
  also have "\<dots> \<longleftrightarrow> uint a mod 2 ^ ?k = 2 ^ ?k - 1"
    by (simp only: increment_mask [OF k] uint_wr)
  finally have c: "push_bit 1 (?w OR 1) < (?a + 1) XOR ?a \<longleftrightarrow> uint a mod 2 ^ ?k = 2 ^ ?k - 1" .
  have "(ucast (?a + 1 - (?w + 1)) :: u16) = a - w" "(ucast (?a + 1) :: u16) = a + 1"
    by (simp_all add: ucast16_arith)
  then show ?thesis
    unfolding increment_address_def Let_def c by (simp only: if_distrib [of ucast])
qed

text \<open>Adding or subtracting an index register.\<close>

lemma mod_2_32: "k \<le> 32 \<Longrightarrow> x mod 4294967296 mod 2 ^ k = x mod (2 ^ k :: int)"
  using mod_mod_cancel [OF le_imp_power_dvd [of k 32 "2 :: int"], of x] by simp

lemma uint_ix: "sint (x :: s16) = (if 0 \<le> sint x then uint (scast x :: u32) else uint (scast x :: u32) - 2 ^ 32)"
proof -
  have s: "sint (scast x :: u32) = sint x" by (rule sint_ix)
  have "uint (scast x :: u32) = sint (scast x :: u32) mod 2 ^ 32"
    using uint_sint [of "scast x :: u32"] by (simp add: take_bit_eq_mod)
  moreover have "- (2 ^ 15) \<le> sint x" "sint x < 2 ^ 15"
    using sint_ge [of x] sint_lt [of x] by simp_all
  moreover have "sint x mod 2 ^ 32 = sint x + 2 ^ 32" if "sint x < 0" "- (2 ^ 15) \<le> sint x"
  proof -
    have "sint x mod 2 ^ 32 = (sint x + 2 ^ 32) mod 2 ^ 32" by (rule mod_add_self2 [symmetric])
    also have "\<dots> = sint x + 2 ^ 32" using that by (intro mod_pos_pos_trivial) simp_all
    finally show ?thesis .
  qed
  ultimately show ?thesis using s by (auto simp: not_le)
qed

lemma uint_ix_mod: "k \<le> 16 \<Longrightarrow> uint (scast (x :: s16) :: u32) mod 2 ^ k = sint x mod 2 ^ k"
proof -
  assume k: "k \<le> 16"
  have "(uint (scast x :: u32) - 2 ^ 32) mod 2 ^ k = (uint (scast x :: u32) - 2 ^ 32) mod 2 ^ 32 mod 2 ^ k"
    using k mod_2_32 [of k "uint (scast x :: u32) - 2 ^ 32"] by simp
  also have "(uint (scast x :: u32) - 2 ^ 32) mod 2 ^ 32 = uint (scast x :: u32) mod 2 ^ 32"
    by (rule minus_mod_self2)
  also have "\<dots> mod 2 ^ k = uint (scast x :: u32) mod 2 ^ k"
    using k mod_2_32 [of k "uint (scast x :: u32)"] by simp
  finally have "(uint (scast x :: u32) - 2 ^ 32) mod 2 ^ k = uint (scast x :: u32) mod 2 ^ k" .
  then show ?thesis using uint_ix [of x] by (cases "0 \<le> sint x") simp_all
qed

text \<open>Bit \<open>k\<close> changes when \<open>wr + 1\<close> is added, in terms of the low bits.\<close>

lemma flip_iff:
  "bit ((n + ucast (w :: u16) + 1) XOR n :: u32) (wbits w) \<longleftrightarrow>
    2 ^ wbits w \<le> uint n mod 2 ^ wbits w + (uint w + 1)"
proof -
  have k: "wbits w < 32" using wbits_le [of w] by simp
  show ?thesis
    using bit_word_add_carry [OF k, of n "ucast w"] bit_wr [of w]
    by (simp add: bit_xor_iff mod_wr add.assoc) argo
qed

lemma increase_address_eq:
  "increase_address a w x =
    (let K = 2 ^ wbits w; low = uint a mod K; c = K \<le> low + sint x mod K in
     if 0 \<le> sint x then (if c then a + x - (w + 1) else a + x)
     else (if c \<and> K \<le> (low + sint x) mod K + (uint w + 1) then a + x else a + x + (w + 1)))"
proof -
  let ?a = "ucast a :: u32" and ?w = "ucast w :: u32" and ?x = "scast x :: u32" and ?k = "wbits w"
  have k: "?k < 32" "?k \<le> 16" using wbits_le [of w] by simp_all
  have c: "bit ((?a + ?x) XOR ?a XOR ?x) ?k \<longleftrightarrow> 2 ^ ?k \<le> uint a mod 2 ^ ?k + sint x mod 2 ^ ?k"
    using bit_word_add [OF k(1), of ?a ?x] uint_ix_mod [OF k(2), of x] by (simp add: bit_xor_iff) argo
  have n: "uint (?a + ?x) mod 2 ^ ?k = (uint a mod 2 ^ ?k + sint x) mod 2 ^ ?k"
  proof -
    have "uint (?a + ?x) mod 2 ^ ?k = (uint a + uint ?x) mod 2 ^ ?k"
      using k(1) by (simp add: uint_word_ariths mod_2_32)
    also have "\<dots> = (uint a mod 2 ^ ?k + uint ?x mod 2 ^ ?k) mod 2 ^ ?k" by (simp add: mod_add_eq)
    also have "\<dots> = (uint a mod 2 ^ ?k + sint x) mod 2 ^ ?k"
      by (simp only: uint_ix_mod [OF k(2)]) (simp add: mod_simps)
    finally show ?thesis .
  qed
  have s: "sint ?x = sint x" by (rule sint_ix)
  have m: "((y AND (z AND p) \<le> v) = (\<not> v < (y AND z) AND p))" for y z p v :: u32
    by (simp add: not_less and.assoc)
  have r: "(ucast (?a + ?x) :: u16) = a + x" "(ucast (?a + ?x - (?w + 1)) :: u16) = a + x - (w + 1)"
    "(ucast (?a + ?x + (?w + 1)) :: u16) = a + x + (w + 1)"
    by (simp_all add: ucast16_arith)
  show ?thesis
    unfolding increase_address_def Let_def s m masked_word bit_and_iff flip_iff c n
    by (auto simp: r)
qed

lemma decrease_address_eq:
  "decrease_address a w x =
    (let K = 2 ^ wbits w; low = uint a mod K; c = sint x mod K \<le> low in
     if sint x < 0 \<and> sint x \<noteq> - (2 ^ 15) then (if c then a - x - (w + 1) else a - x)
     else (if c \<and> K \<le> (low - sint x) mod K + (uint w + 1) then a - x else a - x + (w + 1)))"
proof -
  let ?a = "ucast a :: u32" and ?w = "ucast w :: u32" and ?x = "scast x :: u32" and ?k = "wbits w"
  have k: "?k < 32" "?k \<le> 16" using wbits_le [of w] by simp_all
  have not_x: "uint (NOT ?x) mod 2 ^ ?k = 2 ^ ?k - 1 - sint x mod 2 ^ ?k"
  proof -
    have "uint (NOT ?x) = (- uint ?x - 1) mod 2 ^ 32"
      by (simp add: not_eq_complement uint_word_ariths mod_simps)
    then have "uint (NOT ?x) mod 2 ^ ?k = (- uint ?x - 1) mod 2 ^ ?k"
      using k mod_2_32 [of ?k "- uint ?x - 1"] by simp
    also have "\<dots> = (- 1 - uint ?x) mod 2 ^ ?k"
      by (simp only: diff_conv_add_uminus add.commute [of "- uint ?x"])
    also have "\<dots> = (- 1 - uint ?x mod 2 ^ ?k) mod 2 ^ ?k" by (simp add: mod_simps)
    also have "\<dots> = (- 1 - sint x mod 2 ^ ?k + 2 ^ ?k) mod 2 ^ ?k"
      by (simp only: uint_ix_mod [OF k(2)] mod_add_self2)
    also have "\<dots> = 2 ^ ?k - 1 - sint x mod 2 ^ ?k"
    proof -
      have "0 \<le> sint x mod 2 ^ ?k" "sint x mod 2 ^ ?k < 2 ^ ?k" by simp_all
      then show ?thesis by (intro trans [OF mod_pos_pos_trivial]) linarith+
    qed
    finally show ?thesis .
  qed
  have d: "?a - ?x = ?a + NOT ?x + 1" by (simp add: not_eq_complement)
  have c: "bit ((?a - ?x) XOR ?a XOR NOT ?x) ?k \<longleftrightarrow> sint x mod 2 ^ ?k \<le> uint a mod 2 ^ ?k"
  proof -
    define y where "y = NOT ?x"
    have "bit ((?a + y + 1) XOR ?a XOR y) ?k \<longleftrightarrow> sint x mod 2 ^ ?k \<le> uint a mod 2 ^ ?k"
      using bit_word_add_carry [OF k(1), of ?a y] not_x unfolding y_def [symmetric]
      by (simp add: bit_xor_iff) argo
    then show ?thesis unfolding d y_def .
  qed
  have n: "uint (?a - ?x) mod 2 ^ ?k = (uint a mod 2 ^ ?k - sint x) mod 2 ^ ?k"
  proof -
    have "uint (?a - ?x) mod 2 ^ ?k = (uint a - uint ?x) mod 2 ^ ?k"
      using k(1) by (simp add: uint_word_ariths mod_2_32)
    also have "\<dots> = (uint a mod 2 ^ ?k - uint ?x mod 2 ^ ?k) mod 2 ^ ?k" by (simp add: mod_diff_eq)
    also have "\<dots> = (uint a mod 2 ^ ?k - sint x) mod 2 ^ ?k"
      by (simp only: uint_ix_mod [OF k(2)]) (simp add: mod_simps)
    finally show ?thesis .
  qed
  have s: "0xFFFF8000 < ?x \<longleftrightarrow> sint x < 0 \<and> sint x \<noteq> - (2 ^ 15)"
    using sint_ge [of x] sint_lt [of x] uint_ix [of x] by (auto simp: word_less_def split: if_splits)
  have m: "((y AND (z AND p) \<le> v) = (\<not> v < (y AND z) AND p))" for y z p v :: u32
    by (simp add: not_less and.assoc)
  have r: "(ucast (?a - ?x) :: u16) = a - x" "(ucast (?a - ?x - (?w + 1)) :: u16) = a - x - (w + 1)"
    "(ucast (?a - ?x + (?w + 1)) :: u16) = a - x + (w + 1)"
    by (simp_all add: ucast16_arith)
  show ?thesis
    unfolding decrease_address_def Let_def s m masked_word bit_and_iff flip_iff c n
    by (auto simp: r)
qed

section \<open>The ring\<close>

definition ring_size :: "u16 \<Rightarrow> int" where
  "ring_size w = uint w + 1"

definition ring_start :: "u16 \<Rightarrow> u16 \<Rightarrow> int" where
  "ring_start w a = uint a div 2 ^ wbits w * 2 ^ wbits w + 2 ^ wbits w - ring_size w"

definition ring_pos :: "u16 \<Rightarrow> u16 \<Rightarrow> int" where
  "ring_pos w a = uint a - ring_start w a"

definition in_ring :: "u16 \<Rightarrow> u16 \<Rightarrow> bool" where
  "in_ring w a \<longleftrightarrow> 0 \<le> ring_pos w a"

lemma ring_pos_low: "ring_pos w a = uint a mod 2 ^ wbits w - (2 ^ wbits w - ring_size w)"
  by (simp add: ring_pos_def ring_start_def minus_div_mult_eq_mod [symmetric])

lemma ring_size_le: "0 < ring_size w" "ring_size w \<le> 2 ^ wbits w"
proof -
  have "int (unat w) < int (2 ^ wbits w)"
    using wrap_bits_bounds(4) [of "unat w"] by (simp only: of_nat_less_iff)
  then have "uint w < 2 ^ wbits w" by (simp only: uint_nat) simp
  then show "ring_size w \<le> 2 ^ wbits w" by (simp add: ring_size_def)
  show "0 < ring_size w" by (simp add: ring_size_def add_nonneg_pos)
qed

lemma ring_pos_less: "ring_pos w a < ring_size w"
  using pos_mod_bound [of "2 ^ wbits w" "uint a"] by (simp add: ring_pos_low)

text \<open>A move that stays in the ring, wherever it comes from.\<close>

lemma ring_move:
  assumes "0 \<le> ring_pos w a + d" "ring_pos w a + d < ring_size w"
  shows "ring_start w (a + word_of_int d) = ring_start w a"
    and "ring_pos w (a + word_of_int d) = ring_pos w a + d"
proof -
  let ?K = "2 ^ wbits w :: int"
  define q where "q = uint a div ?K"
  obtain j where j: "(2 ^ 16 :: int) = ?K * 2 ^ j"
    using wbits_le [of w] by (metis le_Suc_ex power_add)
  have K: "0 < ?K" by simp
  have a: "uint a = q * ?K + uint a mod ?K" unfolding q_def by (rule div_mult_mod_eq [symmetric])
  have "uint a < 2 ^ 16" using unsigned_less [of a, where 'a = int] by simp
  then have "uint a < ?K * 2 ^ j" by (simp only: j)
  then have "q * ?K < 2 ^ j * ?K" using a pos_mod_sign [OF K, of "uint a"] by (simp only: mult.commute)
  then have "q < 2 ^ j" using K by (rule mult_right_less_imp_less [OF _ less_imp_le])
  then have "(q + 1) * ?K \<le> 2 ^ j * ?K" by (intro mult_right_mono) auto
  then have qK: "q * ?K + ?K \<le> 2 ^ 16" using j by (simp add: algebra_simps)
  have q0: "0 \<le> q * ?K" by (simp add: q_def pos_imp_zdiv_nonneg_iff)
  have lo: "0 \<le> uint a mod ?K + d" "uint a mod ?K + d < ?K"
    using assms ring_size_le [of w] by (auto simp: ring_pos_low)
  have v: "uint (a + word_of_int d) = q * ?K + (uint a mod ?K + d)"
  proof -
    have "uint (a + word_of_int d) = (uint a + d) mod 2 ^ 16"
      by (simp add: uint_word_ariths uint_word_of_int mod_simps)
    also have "\<dots> = uint a + d" using a lo qK q0 by (intro mod_pos_pos_trivial) linarith+
    finally show ?thesis using a by linarith
  qed
  have dv: "uint (a + word_of_int d) div ?K = q"
    using lo unfolding v by (simp add: div_pos_pos_trivial)
  show "ring_start w (a + word_of_int d) = ring_start w a"
    by (simp add: ring_start_def dv q_def)
  then show "ring_pos w (a + word_of_int d) = ring_pos w a + d"
    using v a by (simp add: ring_pos_def)
qed

lemma mod_neg: "0 < K \<Longrightarrow> - K \<le> x \<Longrightarrow> x < 0 \<Longrightarrow> x mod K = x + (K :: int)"
proof -
  assume "0 < K" "- K \<le> x" "x < 0"
  then have "(x + K) mod K = x + K" by (intro mod_pos_pos_trivial) linarith+
  then show ?thesis by simp
qed

lemma mod_ring:
  assumes "0 < (m :: int)" "0 \<le> p" "p < m" "- m \<le> d" "d \<le> m"
  shows "(p + d) mod m = (if p + d < 0 then p + d + m else if p + d < m then p + d else p + d - m)"
proof -
  consider "p + d < 0" | "0 \<le> p + d" "p + d < m" | "m \<le> p + d" by linarith
  then show ?thesis
  proof cases
    case 1
    have "(p + d) mod m = (p + d + m) mod m" by simp
    also have "\<dots> = p + d + m" using 1 assms by (intro mod_pos_pos_trivial) linarith+
    finally show ?thesis using 1 by simp
  next
    case 2
    then show ?thesis by simp
  next
    case 3
    have "(p + d) mod m = (p + d - m) mod m" by simp
    also have "\<dots> = p + d - m" using 3 assms by (intro mod_pos_pos_trivial) linarith+
    finally show ?thesis using 3 assms by simp
  qed
qed

text \<open>The move by a signed amount, as the ring sees it.\<close>

definition ring_moves :: "u16 \<Rightarrow> u16 \<Rightarrow> int \<Rightarrow> u16 \<Rightarrow> bool" where
  "ring_moves w a d r \<longleftrightarrow>
     ring_start w r = ring_start w a \<and> ring_pos w r = (ring_pos w a + d) mod ring_size w"

lemma ring_movesI:
  assumes "in_ring w a" "- ring_size w \<le> d" "d \<le> ring_size w"
    "r = a + word_of_int (if ring_pos w a + d < 0 then d + ring_size w
      else if ring_pos w a + d < ring_size w then d else d - ring_size w)"
  shows "ring_moves w a d r"
proof -
  have m: "(ring_pos w a + d) mod ring_size w = (if ring_pos w a + d < 0 then ring_pos w a + d + ring_size w
      else if ring_pos w a + d < ring_size w then ring_pos w a + d else ring_pos w a + d - ring_size w)"
    using assms ring_pos_less ring_size_le by (intro mod_ring) (auto simp: in_ring_def)
  let ?e = "if ring_pos w a + d < 0 then d + ring_size w
      else if ring_pos w a + d < ring_size w then d else d - ring_size w"
  have "0 \<le> ring_pos w a + ?e" "ring_pos w a + ?e < ring_size w"
    using assms ring_pos_less [of w a] by (auto simp: in_ring_def)
  from ring_move [OF this] show ?thesis
    unfolding ring_moves_def m assms(4) by (auto split: if_splits)
qed

lemma increment_ring: "in_ring w a \<Longrightarrow> ring_moves w a 1 (increment_address a w)"
proof (rule ring_movesI)
  assume "in_ring w a"
  have "uint a mod 2 ^ wbits w < 2 ^ wbits w" by simp
  then have "(uint a mod 2 ^ wbits w = 2 ^ wbits w - 1) \<longleftrightarrow> \<not> ring_pos w a + 1 < ring_size w"
    unfolding ring_pos_low by linarith
  then show "increment_address a w = a + word_of_int (if ring_pos w a + 1 < 0 then 1 + ring_size w
      else if ring_pos w a + 1 < ring_size w then 1 else 1 - ring_size w)"
    using \<open>in_ring w a\<close> by (simp add: increment_address_eq in_ring_def ring_size_def)
qed (use ring_size_le [of w] in linarith)+

lemma decrement_ring: "in_ring w a \<Longrightarrow> ring_moves w a (- 1) (decrement_address a w)"
proof (rule ring_movesI)
  assume "in_ring w a"
  have "2 ^ wbits w \<le> uint a mod 2 ^ wbits w + uint w \<longleftrightarrow> \<not> ring_pos w a - 1 < 0"
    unfolding ring_pos_low ring_size_def by linarith
  then show "decrement_address a w = a + word_of_int (if ring_pos w a + - 1 < 0 then - 1 + ring_size w
      else if ring_pos w a + - 1 < ring_size w then - 1 else - 1 - ring_size w)"
    using ring_pos_less [of w a] by (simp add: decrement_address_eq ring_size_def)
qed (use ring_size_le [of w] in linarith)+

lemma increase_ring:
  assumes "in_ring w a" "- ring_size w \<le> sint x" "sint x < ring_size w"
  shows "ring_moves w a (sint x) (increase_address a w x)"
proof (rule ring_movesI [OF assms(1,2)])
  let ?K = "2 ^ wbits w :: int" and ?low = "uint a mod 2 ^ wbits w"
  have r: "0 \<le> ?low" "?low < ?K" "ring_size w \<le> ?K" "0 < ring_size w" using ring_size_le by simp_all
  have x: "x = word_of_int (sint x)" and w: "w + 1 = word_of_int (ring_size w)"
    by (simp_all add: ring_size_def)
  have p: "ring_pos w a = ?low - (?K - ring_size w)" by (rule ring_pos_low)
  show "increase_address a w x = a + word_of_int (if ring_pos w a + sint x < 0 then sint x + ring_size w
      else if ring_pos w a + sint x < ring_size w then sint x else sint x - ring_size w)"
  proof (cases "0 \<le> sint x")
    case True
    then have m: "sint x mod ?K = sint x" using r assms by (intro mod_pos_pos_trivial) linarith+
    have "\<not> ring_pos w a + sint x < 0" using True assms(1) by (simp add: in_ring_def)
    moreover have "?K \<le> ?low + sint x \<longleftrightarrow> \<not> ring_pos w a + sint x < ring_size w"
      using p by linarith
    ultimately show ?thesis using True
      unfolding increase_address_eq Let_def m by (simp add: ring_size_def)
  next
    case False
    then have m: "sint x mod ?K = sint x + ?K" using r assms by (intro mod_neg) linarith+
    have "ring_pos w a + sint x < ring_size w" using False ring_pos_less [of w a] by linarith
    moreover have "?K \<le> ?low + (sint x + ?K) \<and> ?K \<le> (?low + sint x) mod ?K + (uint w + 1)
        \<longleftrightarrow> \<not> ring_pos w a + sint x < 0"
    proof (cases "0 \<le> ?low + sint x")
      case True
      then have "(?low + sint x) mod ?K = ?low + sint x"
        using False r by (intro mod_pos_pos_trivial) linarith+
      then show ?thesis using True p unfolding ring_size_def by linarith
    qed (use p r in linarith)
    ultimately show ?thesis using False
      unfolding increase_address_eq Let_def m by (simp add: ring_size_def)
  qed
qed (use assms in simp)

lemma decrease_ring:
  assumes "in_ring w a" "- ring_size w \<le> sint x" "sint x < ring_size w" "sint x \<noteq> - (2 ^ 15)"
  shows "ring_moves w a (- sint x) (decrease_address a w x)"
proof (rule ring_movesI [OF assms(1)])
  let ?K = "2 ^ wbits w :: int" and ?low = "uint a mod 2 ^ wbits w"
  have r: "0 \<le> ?low" "?low < ?K" "ring_size w \<le> ?K" "0 < ring_size w" using ring_size_le by simp_all
  have p: "ring_pos w a = ?low - (?K - ring_size w)" by (rule ring_pos_low)
  show "decrease_address a w x = a + word_of_int (if ring_pos w a + - sint x < 0 then - sint x + ring_size w
      else if ring_pos w a + - sint x < ring_size w then - sint x else - sint x - ring_size w)"
  proof (cases "sint x < 0")
    case True
    then have m: "sint x mod ?K = sint x + ?K" using r assms by (intro mod_neg) linarith+
    have "\<not> ring_pos w a + - sint x < 0" using True assms(1) by (simp add: in_ring_def)
    moreover have "sint x + ?K \<le> ?low \<longleftrightarrow> \<not> ring_pos w a + - sint x < ring_size w"
      using p by linarith
    ultimately show ?thesis using True assms(4)
      unfolding decrease_address_eq Let_def m by (simp add: ring_size_def)
  next
    case False
    then have m: "sint x mod ?K = sint x" using r assms by (intro mod_pos_pos_trivial) linarith+
    have "ring_pos w a + - sint x < ring_size w" using False ring_pos_less [of w a] by linarith
    moreover have "sint x \<le> ?low \<and> ?K \<le> (?low - sint x) mod ?K + (uint w + 1)
        \<longleftrightarrow> \<not> ring_pos w a + - sint x < 0"
    proof (cases "sint x \<le> ?low")
      case True
      then have "(?low - sint x) mod ?K = ?low - sint x"
        using False r by (intro mod_pos_pos_trivial) linarith+
      then show ?thesis using True p unfolding ring_size_def by linarith
    qed (use p r in linarith)
    ultimately show ?thesis using False
      unfolding decrease_address_eq Let_def m by (simp add: ring_size_def)
  qed
qed (use assms in linarith)+

section \<open>The contract of a ring cursor\<close>

text \<open>
  What code that walks a ring relies on: a position below the size, steps that move it by one
  modulo the size and stay in the same ring.
\<close>

locale ring_cursor =
  fixes inc dec :: "'a \<Rightarrow> 'a" and start pos :: "'a \<Rightarrow> int" and n :: int
  assumes same_place: "start a = start b \<Longrightarrow> pos a = pos b \<Longrightarrow> a = b"
    and pos_bound: "pos a < n" and size_pos: "0 < n"
    and inc_moves: "0 \<le> pos a \<Longrightarrow> start (inc a) = start a \<and> pos (inc a) = (pos a + 1) mod n"
    and dec_moves: "0 \<le> pos a \<Longrightarrow> start (dec a) = start a \<and> pos (dec a) = (pos a + - 1) mod n"
begin

lemma inc_in: "0 \<le> pos a \<Longrightarrow> 0 \<le> pos (inc a)"
  using inc_moves size_pos by simp

lemma dec_in: "0 \<le> pos a \<Longrightarrow> 0 \<le> pos (dec a)"
  using dec_moves size_pos by simp

lemma dec_inc: "0 \<le> pos a \<Longrightarrow> dec (inc a) = a"
  using inc_moves [of a] dec_moves [OF inc_in [of a]] pos_bound [of a]
  by (intro same_place) (simp_all add: mod_simps)

lemma inc_dec: "0 \<le> pos a \<Longrightarrow> inc (dec a) = a"
  using dec_moves [of a] inc_moves [OF dec_in [of a]] pos_bound [of a]
  by (intro same_place) (simp_all add: mod_simps)

lemma inc_power:
  "0 \<le> pos a \<Longrightarrow> start ((inc ^^ k) a) = start a \<and> pos ((inc ^^ k) a) = (pos a + int k) mod n"
proof (induction k)
  case 0
  then show ?case using pos_bound [of a] by simp
next
  case (Suc k)
  have "0 \<le> pos ((inc ^^ k) a)" using Suc size_pos by simp
  from inc_moves [OF this] Suc show ?case by (simp add: mod_simps ac_simps)
qed

lemma full_turn: "0 \<le> pos a \<Longrightarrow> (inc ^^ nat n) a = a"
  using inc_power [of a "nat n"] pos_bound [of a] size_pos by (intro same_place) simp_all

lemma reaches_all:
  assumes "0 \<le> pos a" "0 \<le> pos b" "start b = start a"
  shows "(inc ^^ nat ((pos b - pos a) mod n)) a = b"
  using inc_power [OF assms(1), of "nat ((pos b - pos a) mod n)"] pos_bound [of b] size_pos assms
  by (intro same_place) (simp_all add: mod_simps)

lemma no_early_return:
  assumes "0 \<le> pos a" "0 < k" "int k < n"
  shows "(inc ^^ k) a \<noteq> a"
proof
  assume "(inc ^^ k) a = a"
  then have "(pos a + int k) mod n = pos a mod n"
    using inc_power [OF assms(1), of k] pos_bound [of a] assms(1) by simp
  then have "n dvd int k" by (simp add: mod_eq_dvd_iff)
  with assms show False by (auto dest: zdvd_imp_le)
qed

end

lemma ring_same_place: "ring_start w a = ring_start w b \<Longrightarrow> ring_pos w a = ring_pos w b \<Longrightarrow> a = b"
  by (simp add: ring_pos_def word_uint_eq_iff)

interpretation ring: ring_cursor "\<lambda>a. increment_address a w" "\<lambda>a. decrement_address a w"
  "ring_start w" "ring_pos w" "ring_size w" for w
  using increment_ring [of w] decrement_ring [of w]
  by unfold_locales
    (auto simp: ring_moves_def in_ring_def ring_pos_less ring_size_le intro: ring_same_place)

section \<open>Properties\<close>

text \<open>
  An address register that lies in its ring (the last \<open>wr + 1\<close> places of its aligned block)
  is moved by an increment or a decrement by one place in that ring, from the last place to the
  first and back, and each of the two undoes the other.
\<close>

theorem address_step_moves_in_ring:
  assumes "in_ring (wr_of s r) (ar_of s r)"
  shows "ring_moves (wr_of s r) (ar_of s r) 1 (IncrementAddressRegister r s) \<and>
    ring_moves (wr_of s r) (ar_of s r) (- 1) (DecrementAddressRegister r s) \<and>
    decrement_address (IncrementAddressRegister r s) (wr_of s r) = ar_of s r \<and>
    increment_address (DecrementAddressRegister r s) (wr_of s r) = ar_of s r"
  using assms increment_ring decrement_ring ring.dec_inc ring.inc_dec
  by (auto simp: IncrementAddressRegister_def DecrementAddressRegister_def in_ring_def)

text \<open>A ring of three places: \<open>0x11 .. 0x13\<close>, at the end of the block of four from \<open>0x10\<close>.\<close>

lemma ring_example:
  "in_ring 2 0x13" "in_ring 2 0x12" "in_ring 2 0x11" "\<not> in_ring 2 0x10" "ring_size 2 = 3"
  "ring_start 2 0x11 = 0x11" "ring_start 2 0x13 = 0x11"
  by (simp_all add: in_ring_def ring_pos_low ring_size_def ring_start_def wrap_bits_def odd_up_def
      bit_length.simps)

definition ring_example_state :: SDSP where
  "ring_example_state = (power_on gamecube_host)\<lparr>regs := zero_regs\<lparr>
     r_ar := (\<lambda>_. 0)(0 := 0x13, 1 := 0x11), r_wr := \<lambda>_. 2, r_ix := \<lambda>_. 2\<rparr>\<rparr>"

theorem address_step_moves_in_ring_witness:
  "ring_moves 2 0x13 1 0x11 \<and> ring_moves 2 0x11 (- 1) 0x13"
  using address_step_moves_in_ring [of ring_example_state 0]
    address_step_moves_in_ring [of ring_example_state 1] ring_example
  by (simp add: ring_example_state_def IncrementAddressRegister_def DecrementAddressRegister_def
      increment_address_def decrement_address_def)

text \<open>
  C20: adding an index register between \<open>- (wr + 1)\<close> and \<open>wr\<close> moves the address by that many
  places modulo \<open>wr + 1\<close>; subtracting one does the opposite, for every such index but
  \<open>-0x8000\<close>, which the source treats as a special case.
\<close>

theorem address_index_moves_in_ring:
  assumes "in_ring (wr_of s r) (ar_of s r)" "- ring_size (wr_of s r) \<le> sint ix"
    "sint ix < ring_size (wr_of s r)"
  shows "ring_moves (wr_of s r) (ar_of s r) (sint ix) (IncreaseAddressRegister r ix s) \<and>
    (sint ix \<noteq> - (2 ^ 15) \<longrightarrow>
      ring_moves (wr_of s r) (ar_of s r) (- sint ix) (DecreaseAddressRegister r ix s))"
  using assms increase_ring decrease_ring
  by (auto simp: IncreaseAddressRegister_def DecreaseAddressRegister_def)

theorem address_index_moves_in_ring_witness:
  "ring_moves 2 0x13 2 0x12 \<and> ring_moves 2 0x13 (- 2) 0x11"
  using address_index_moves_in_ring [of ring_example_state 0 2] ring_example
  by (simp add: ring_example_state_def IncreaseAddressRegister_def DecreaseAddressRegister_def
      increase_address_def decrease_address_def)

text \<open>
  Stepping through a ring visits every place of it exactly once before it comes back to
  where it began, after \<open>wr + 1\<close> steps.
\<close>

theorem address_ring_is_one_cycle:
  assumes "in_ring w a"
  shows "((\<lambda>x. increment_address x w) ^^ (unat w + 1)) a = a \<and>
    (\<forall>k. 0 < k \<and> k < unat w + 1 \<longrightarrow> ((\<lambda>x. increment_address x w) ^^ k) a \<noteq> a) \<and>
    (\<forall>b. in_ring w b \<and> ring_start w b = ring_start w a \<longrightarrow>
      (\<exists>k<unat w + 1. ((\<lambda>x. increment_address x w) ^^ k) a = b))"
proof -
  have n: "ring_size w = int (unat w + 1)" by (simp add: ring_size_def)
  have a: "0 \<le> ring_pos w a" using assms by (simp add: in_ring_def)
  have "nat ((ring_pos w b - ring_pos w a) mod ring_size w) < unat w + 1" for b
    using pos_mod_bound [of "ring_size w" "ring_pos w b - ring_pos w a"] ring_size_le(1) [of w] n
    by (simp add: nat_less_iff)
  then have "\<exists>k<unat w + 1. ((\<lambda>x. increment_address x w) ^^ k) a = b"
    if "in_ring w b" "ring_start w b = ring_start w a" for b
    using ring.reaches_all [OF a, of b] that by (auto simp: in_ring_def)
  moreover have "nat (ring_size w) = unat w + 1" by (simp only: n nat_int)
  ultimately show ?thesis
    using ring.full_turn [OF a] ring.no_early_return [OF a] by (simp only: n of_nat_less_iff) blast
qed

theorem address_ring_is_one_cycle_witness:
  "((\<lambda>x. increment_address x 2) ^^ 3) 0x12 = 0x12"
  using address_ring_is_one_cycle [of 2 "0x12"] ring_example by (simp add: numeral_3_eq_3)

text \<open>
  With the reset value \<open>0xffff\<close> in the wrapping register the four updates are plain 16-bit
  arithmetic.
\<close>

theorem address_linear_by_default:
  assumes "wr_of s r = 0xffff"
  shows "IncrementAddressRegister r s = ar_of s r + 1 \<and>
    DecrementAddressRegister r s = ar_of s r - 1 \<and>
    IncreaseAddressRegister r ix s = ar_of s r + ix \<and>
    DecreaseAddressRegister r ix s = ar_of s r - ix"
proof -
  have "(0xffff :: u16) = - 1" by simp
  then show ?thesis using assms
    by (simp add: IncrementAddressRegister_def DecrementAddressRegister_def
        IncreaseAddressRegister_def DecreaseAddressRegister_def increment_address_eq
        decrement_address_eq increase_address_eq decrease_address_eq Let_def)
qed

theorem address_linear_by_default_witness:
  "IncrementAddressRegister 0 (SDSP_Reset (power_on gamecube_host)) = 1"
  using address_linear_by_default [of "SDSP_Reset (power_on gamecube_host)" 0]
  by (simp add: SDSP_Reset_def power_on_def zero_regs_def)

end
