(* ===== verification/Dsp_Branch.thy ===== *)
theory Dsp_Branch
  imports Dsp_Interp
begin

text \<open>
  The branch, loop and return instructions of \<open>Core/DSP/Interpreter/DSPIntBranch.cpp\<close> and the
  loop hardware \<open>HandleLoop\<close>.
\<close>

section \<open>Calls, jumps and returns\<close>

definition call_op :: "u16 \<Rightarrow> SDSP \<Rightarrow> SDSP" where [op_defs]:
  "call_op opc s =
    (case FetchInstruction s of (dest, s1) \<Rightarrow>
       if CheckCondition (opc AND 0xf) s1 then set_pc dest (StoreStack CallStack (pc s1) s1) else s1)"

definition callr_op :: "u16 \<Rightarrow> SDSP \<Rightarrow> SDSP" where [op_defs]:
  "callr_op opc s =
    (if \<not> CheckCondition (opc AND 0xf) s then s
     else case OpReadRegister (opfield 5 7 opc) s of (addr, s1) \<Rightarrow>
       set_pc addr (StoreStack CallStack (pc s1) s1))"

definition ifcc_op :: "u16 \<Rightarrow> SDSP \<Rightarrow> SDSP" where [op_defs]:
  "ifcc_op opc s =
    (if CheckCondition (opc AND 0xf) s then s else SkipInstruction s)"

definition jcc_op :: "u16 \<Rightarrow> SDSP \<Rightarrow> SDSP" where [op_defs]:
  "jcc_op opc s =
    (case FetchInstruction s of (dest, s1) \<Rightarrow>
       if CheckCondition (opc AND 0xf) s1 then set_pc dest s1 else s1)"

definition jmprcc_op :: "u16 \<Rightarrow> SDSP \<Rightarrow> SDSP" where [op_defs]:
  "jmprcc_op opc s =
    (if \<not> CheckCondition (opc AND 0xf) s then s
     else case OpReadRegister (opfield 5 7 opc) s of (addr, s1) \<Rightarrow> set_pc addr s1)"

definition ret_op :: "u16 \<Rightarrow> SDSP \<Rightarrow> SDSP" where [op_defs]:
  "ret_op opc s =
    (if \<not> CheckCondition (opc AND 0xf) s then s
     else case PopStack CallStack s of (addr, s1) \<Rightarrow> set_pc addr s1)"

definition rti_op :: "u16 \<Rightarrow> SDSP \<Rightarrow> SDSP" where [op_defs]:
  "rti_op opc s =
    (if \<not> CheckCondition (opc AND 0xf) s then s
     else case PopStack DataStack s of (sr, s1) \<Rightarrow>
       case PopStack CallStack (upd_sr (\<lambda>_. sr) s1) of (addr, s2) \<Rightarrow> set_pc addr s2)"

definition halt_op :: "u16 \<Rightarrow> SDSP \<Rightarrow> SDSP" where [op_defs]:
  "halt_op opc s =
    s\<lparr>control_reg := control_reg s OR CR_HALT, pc := pc s - 1\<rparr>"

section \<open>Loops\<close>

text \<open>
  \<open>state.pc - 1\<close> is computed in \<open>int\<close>, so a loop address is never matched by \<open>pc = 0\<close>: the
  comparison \<open>-1 == rLoopAddress\<close> is false.
\<close>

definition HandleLoop :: "SDSP \<Rightarrow> SDSP" where
  "HandleLoop s =
    (let rCallAddress = r_st (regs s) 0; rLoopAddress = r_st (regs s) 2;
         rLoopCounter = r_st (regs s) 3
     in if 0 < rLoopAddress \<and> 0 < rLoopCounter then
          (if uint (pc s) - 1 = uint rLoopAddress then
             (let s1 = regs_update (r_st_update (\<lambda>st. st(3 := rLoopCounter - 1))) s
              in if 0 < rLoopCounter - 1 then set_pc rCallAddress s1
                 else DropStack LoopCounter (DropStack LoopAddress (DropStack CallStack s1)))
           else s)
        else s)"

definition push_loop :: "u16 \<Rightarrow> u16 \<Rightarrow> SDSP \<Rightarrow> SDSP" where
  "push_loop loop_pc cnt s =
    StoreStack LoopCounter cnt (StoreStack LoopAddress loop_pc (StoreStack CallStack (pc s) s))"

definition loop_op :: "u16 \<Rightarrow> SDSP \<Rightarrow> SDSP" where [op_defs]:
  "loop_op opc s =
    (case OpReadRegister (opfield 0 0x1f opc) s of (cnt, s1) \<Rightarrow>
       let loop_pc = pc s1 in
       if cnt \<noteq> 0 then push_loop loop_pc cnt s1 else SkipInstruction s1)"

definition loopi_op :: "u16 \<Rightarrow> SDSP \<Rightarrow> SDSP" where [op_defs]:
  "loopi_op opc s =
    (let cnt = opc AND 0xff; loop_pc = pc s in
     if cnt \<noteq> 0 then push_loop loop_pc cnt s else SkipInstruction s)"

definition bloop_op :: "u16 \<Rightarrow> SDSP \<Rightarrow> SDSP" where [op_defs]:
  "bloop_op opc s =
    (case OpReadRegister (opfield 0 0x1f opc) s of (cnt, s1) \<Rightarrow>
     case FetchInstruction s1 of (loop_pc, s2) \<Rightarrow>
       if cnt \<noteq> 0 then push_loop loop_pc cnt s2 else SkipInstruction (set_pc loop_pc s2))"

definition bloopi_op :: "u16 \<Rightarrow> SDSP \<Rightarrow> SDSP" where [op_defs]:
  "bloopi_op opc s =
    (let cnt = opc AND 0xff in
     case FetchInstruction s of (loop_pc, s1) \<Rightarrow>
       if cnt \<noteq> 0 then push_loop loop_pc cnt s1 else SkipInstruction (set_pc loop_pc s1))"

end
