(* ===== verification/Dsp_Arith.thy ===== *)
theory Dsp_Arith
  imports Dsp_Interp
begin

text \<open>
  The arithmetic and accumulator instructions of \<open>Core/DSP/Interpreter/DSPIntArithmetic.cpp\<close>.
  Each handler \<open>Interpreter::x\<close> is a function \<open>x_op\<close> of the instruction word and the state.
  Bit fields of the word used as register numbers are \<^const>\<open>opfield\<close>s; an extended opcode's
  register writes wait in the write-back log while the handler runs, so \<open>ZeroWriteBackLog\<close> is
  called where the source calls it.
\<close>

section \<open>Shared pieces\<close>

text \<open>The switch of \<open>addr\<close>, \<open>subr\<close> and \<open>movr\<close> on the secondary accumulator register.\<close>

definition ax_operand :: "nat \<Rightarrow> SDSP \<Rightarrow> s64" where
  "ax_operand sreg s =
    (if sreg = DSP_REG_AXL0 \<or> sreg = DSP_REG_AXL1 then scast (ax_l (ax_of s (sreg - DSP_REG_AXL0)))
     else if sreg = DSP_REG_AXH0 \<or> sreg = DSP_REG_AXH1 then scast (ax_h (ax_of s (sreg - DSP_REG_AXH0)))
     else 0)"

text \<open>The 7-bit signed shift amount of the register shifts.\<close>

definition shift_amount :: "u16 \<Rightarrow> int" where
  "shift_amount v =
    (if v AND 0x3f = 0 then 0
     else if v AND 0x40 \<noteq> 0 then - 0x40 + uint (v AND 0x3f)
     else uint (v AND 0x3f))"

text \<open>The immediate shift amount of the right shifts.\<close>

definition neg_shift_imm :: "u16 \<Rightarrow> nat" where
  "neg_shift_imm opc = (if opc AND 0x3f = 0 then 0 else 0x40 - unat (opc AND 0x3f))"

text \<open>\<open>acc &= 0x000000FFFFFFFFFF\<close>.\<close>

definition low40 :: "u64 \<Rightarrow> u64" where
  "low40 acc = acc AND 0x000000FFFFFFFFFF"

text \<open>Shifts by a signed amount: right when positive, and left when positive.\<close>

definition lshift_right_by :: "int \<Rightarrow> u64 \<Rightarrow> u64" where
  "lshift_right_by n acc =
    (if 0 < n then drop_bit (nat n) acc else if n < 0 then push_bit (nat (- n)) acc else acc)"

definition ashift_right_by :: "int \<Rightarrow> s64 \<Rightarrow> s64" where
  "ashift_right_by n acc =
    (if 0 < n then signed_drop_bit (nat n) acc else if n < 0 then push_bit (nat (- n)) acc else acc)"

text \<open>\<open>SetLongAcc\<close> followed by the flags of the accumulator as it then is.\<close>

definition store_acc :: "nat \<Rightarrow> s64 \<Rightarrow> SDSP \<Rightarrow> SDSP" where
  "store_acc d value s =
    (let s1 = SetLongAcc d value (ZeroWriteBackLog s) in UpdateSR64 (GetLongAcc d s1) False False s1)"

definition store_acc_add :: "nat \<Rightarrow> s64 \<Rightarrow> s64 \<Rightarrow> SDSP \<Rightarrow> SDSP" where
  "store_acc_add d acc x s =
    (let s1 = SetLongAcc d (acc + x) (ZeroWriteBackLog s)
     in UpdateSR64Add acc x (GetLongAcc d s1) s1)"

definition store_acc_sub :: "nat \<Rightarrow> s64 \<Rightarrow> s64 \<Rightarrow> SDSP \<Rightarrow> SDSP" where
  "store_acc_sub d acc x s =
    (let s1 = SetLongAcc d (acc - x) (ZeroWriteBackLog s)
     in UpdateSR64Sub acc x (GetLongAcc d s1) s1)"

text \<open>A value moved into an accumulator, with the flags of the value as it was computed.\<close>

definition move_acc :: "nat \<Rightarrow> s64 \<Rightarrow> SDSP \<Rightarrow> SDSP" where
  "move_acc d value s =
    UpdateSR64 value False False (SetLongAcc d value (ZeroWriteBackLog s))"

text \<open>The end of the logic instructions: the middle part is replaced and tested.\<close>

definition store_accm :: "nat \<Rightarrow> u16 \<Rightarrow> SDSP \<Rightarrow> SDSP" where
  "store_accm d accm s =
    (let s1 = upd_ac d (set_ac_m accm) (ZeroWriteBackLogPreserveAcc d s)
     in UpdateSR16 accm False False (isOverS32 (GetLongAcc d s1)) s1)"

section \<open>Handlers\<close>

subsection \<open>Clearing and testing\<close>

definition clr_op :: "u16 \<Rightarrow> SDSP \<Rightarrow> SDSP" where [op_defs]:
  "clr_op opc s =
    ZeroWriteBackLog (UpdateSR64 0 False False (SetLongAcc (opfield 11 1 opc) 0 s))"

definition clrl_op :: "u16 \<Rightarrow> SDSP \<Rightarrow> SDSP" where [op_defs]:
  "clrl_op opc s =
    (let reg = opfield 8 1 opc in move_acc reg (dsp_round_long_acc (GetLongAcc reg s)) s)"

definition andcf_op :: "u16 \<Rightarrow> SDSP \<Rightarrow> SDSP" where [op_defs]:
  "andcf_op opc s =
    (case FetchInstruction s of (imm, s1) \<Rightarrow>
       UpdateSRLogicZero (GetAccMid (opfield 8 1 opc) s1 AND imm = imm) s1)"

definition andf_op :: "u16 \<Rightarrow> SDSP \<Rightarrow> SDSP" where [op_defs]:
  "andf_op opc s =
    (case FetchInstruction s of (imm, s1) \<Rightarrow>
       UpdateSRLogicZero (GetAccMid (opfield 8 1 opc) s1 AND imm = 0) s1)"

definition tst_op :: "u16 \<Rightarrow> SDSP \<Rightarrow> SDSP" where [op_defs]:
  "tst_op opc s =
    ZeroWriteBackLog (UpdateSR64 (GetLongAcc (opfield 11 1 opc) s) False False s)"

definition tstaxh_op :: "u16 \<Rightarrow> SDSP \<Rightarrow> SDSP" where [op_defs]:
  "tstaxh_op opc s =
    ZeroWriteBackLog (UpdateSR16 (GetAXHigh (opfield 8 1 opc) s) False False False s)"

subsection \<open>Comparisons\<close>

text \<open>The common end of the comparisons: the flags of the difference, no register written.\<close>

definition compare_acc :: "s64 \<Rightarrow> s64 \<Rightarrow> SDSP \<Rightarrow> SDSP" where
  "compare_acc acc x s = UpdateSR64Sub acc x (dsp_convert_long_acc (acc - x)) s"

definition cmp_op :: "u16 \<Rightarrow> SDSP \<Rightarrow> SDSP" where [op_defs]:
  "cmp_op opc s =
    ZeroWriteBackLog (compare_acc (GetLongAcc 0 s) (GetLongAcc 1 s) s)"

definition cmpaxh_op :: "u16 \<Rightarrow> SDSP \<Rightarrow> SDSP" where [op_defs]:
  "cmpaxh_op opc s =
    ZeroWriteBackLog (compare_acc (GetLongAcc (opfield 11 1 opc) s)
      (push_bit 16 (scast (GetAXHigh (opfield 12 1 opc) s))) s)"

definition cmpi_op :: "u16 \<Rightarrow> SDSP \<Rightarrow> SDSP" where [op_defs]:
  "cmpi_op opc s =
    (let val = GetLongAcc (opfield 8 1 opc) s in
     case FetchInstruction s of (imm, s1) \<Rightarrow> compare_acc val (push_bit 16 (scast imm)) s1)"

definition cmpis_op :: "u16 \<Rightarrow> SDSP \<Rightarrow> SDSP" where [op_defs]:
  "cmpis_op opc s =
    compare_acc (GetLongAcc (opfield 8 1 opc) s) (push_bit 16 (scast (ucast opc :: u8))) s"

subsection \<open>Logic on the middle part\<close>

definition xorr_op :: "u16 \<Rightarrow> SDSP \<Rightarrow> SDSP" where [op_defs]:
  "xorr_op opc s =
    (let dreg = opfield 8 1 opc; sreg = opfield 9 1 opc
     in store_accm dreg (ac_m (ac_of s dreg) XOR ax_h (ax_of s sreg)) s)"

definition andr_op :: "u16 \<Rightarrow> SDSP \<Rightarrow> SDSP" where [op_defs]:
  "andr_op opc s =
    (let dreg = opfield 8 1 opc; sreg = opfield 9 1 opc
     in store_accm dreg (ac_m (ac_of s dreg) AND ax_h (ax_of s sreg)) s)"

definition orr_op :: "u16 \<Rightarrow> SDSP \<Rightarrow> SDSP" where [op_defs]:
  "orr_op opc s =
    (let dreg = opfield 8 1 opc; sreg = opfield 9 1 opc
     in store_accm dreg (ac_m (ac_of s dreg) OR ax_h (ax_of s sreg)) s)"

definition andc_op :: "u16 \<Rightarrow> SDSP \<Rightarrow> SDSP" where [op_defs]:
  "andc_op opc s =
    (let dreg = opfield 8 1 opc
     in store_accm dreg (ac_m (ac_of s dreg) AND ac_m (ac_of s (1 - dreg))) s)"

definition orc_op :: "u16 \<Rightarrow> SDSP \<Rightarrow> SDSP" where [op_defs]:
  "orc_op opc s =
    (let dreg = opfield 8 1 opc
     in store_accm dreg (ac_m (ac_of s dreg) OR ac_m (ac_of s (1 - dreg))) s)"

definition xorc_op :: "u16 \<Rightarrow> SDSP \<Rightarrow> SDSP" where [op_defs]:
  "xorc_op opc s =
    (let dreg = opfield 8 1 opc
     in store_accm dreg (ac_m (ac_of s dreg) XOR ac_m (ac_of s (1 - dreg))) s)"

definition notc_op :: "u16 \<Rightarrow> SDSP \<Rightarrow> SDSP" where [op_defs]:
  "notc_op opc s =
    (let dreg = opfield 8 1 opc in store_accm dreg (ac_m (ac_of s dreg) XOR 0xffff) s)"

definition xori_op :: "u16 \<Rightarrow> SDSP \<Rightarrow> SDSP" where [op_defs]:
  "xori_op opc s =
    (let reg = opfield 8 1 opc in
     case FetchInstruction s of (imm, s1) \<Rightarrow>
       let s2 = upd_ac reg (\<lambda>a. set_ac_m (ac_m a XOR imm) a) s1
       in UpdateSR16 (ac_m (ac_of s2 reg)) False False (isOverS32 (GetLongAcc reg s2)) s2)"

definition andi_op :: "u16 \<Rightarrow> SDSP \<Rightarrow> SDSP" where [op_defs]:
  "andi_op opc s =
    (let reg = opfield 8 1 opc in
     case FetchInstruction s of (imm, s1) \<Rightarrow>
       let s2 = upd_ac reg (\<lambda>a. set_ac_m (ac_m a AND imm) a) s1
       in UpdateSR16 (ac_m (ac_of s2 reg)) False False (isOverS32 (GetLongAcc reg s2)) s2)"

definition ori_op :: "u16 \<Rightarrow> SDSP \<Rightarrow> SDSP" where [op_defs]:
  "ori_op opc s =
    (let reg = opfield 8 1 opc in
     case FetchInstruction s of (imm, s1) \<Rightarrow>
       let s2 = upd_ac reg (\<lambda>a. set_ac_m (ac_m a OR imm) a) s1
       in UpdateSR16 (ac_m (ac_of s2 reg)) False False (isOverS32 (GetLongAcc reg s2)) s2)"

subsection \<open>Addition\<close>

definition addr_op :: "u16 \<Rightarrow> SDSP \<Rightarrow> SDSP" where [op_defs]:
  "addr_op opc s =
    (let dreg = opfield 8 1 opc; sreg = opfield 9 3 opc + DSP_REG_AXL0
     in store_acc_add dreg (GetLongAcc dreg s) (push_bit 16 (ax_operand sreg s)) s)"

definition addax_op :: "u16 \<Rightarrow> SDSP \<Rightarrow> SDSP" where [op_defs]:
  "addax_op opc s =
    (let dreg = opfield 8 1 opc; sreg = opfield 9 1 opc
     in store_acc_add dreg (GetLongAcc dreg s) (scast (GetLongACX sreg s)) s)"

definition add_op :: "u16 \<Rightarrow> SDSP \<Rightarrow> SDSP" where [op_defs]:
  "add_op opc s =
    (let dreg = opfield 8 1 opc
     in store_acc_add dreg (GetLongAcc dreg s) (GetLongAcc (1 - dreg) s) s)"

definition addp_op :: "u16 \<Rightarrow> SDSP \<Rightarrow> SDSP" where [op_defs]:
  "addp_op opc s =
    (let dreg = opfield 8 1 opc in store_acc_add dreg (GetLongAcc dreg s) (GetLongProduct s) s)"

definition addaxl_op :: "u16 \<Rightarrow> SDSP \<Rightarrow> SDSP" where [op_defs]:
  "addaxl_op opc s =
    (let sreg = opfield 9 1 opc; dreg = opfield 8 1 opc
     in store_acc_add dreg (GetLongAcc dreg s) (ucast (GetAXLow sreg s)) s)"

text \<open>\<open>addi\<close> and \<open>addis\<close> cannot be extended and do not touch the log.\<close>

definition addi_op :: "u16 \<Rightarrow> SDSP \<Rightarrow> SDSP" where [op_defs]:
  "addi_op opc s =
    (let areg = opfield 8 1 opc; acc = GetLongAcc areg s in
     case FetchInstruction s of (imm, s1) \<Rightarrow>
       let x = push_bit 16 (scast imm); s2 = SetLongAcc areg (acc + x) s1
       in UpdateSR64Add acc x (GetLongAcc areg s2) s2)"

definition addis_op :: "u16 \<Rightarrow> SDSP \<Rightarrow> SDSP" where [op_defs]:
  "addis_op opc s =
    (let dreg = opfield 8 1 opc; acc = GetLongAcc dreg s; x = push_bit 16 (scast (ucast opc :: u8));
         s1 = SetLongAcc dreg (acc + x) s
     in UpdateSR64Add acc x (GetLongAcc dreg s1) s1)"

definition incm_op :: "u16 \<Rightarrow> SDSP \<Rightarrow> SDSP" where [op_defs]:
  "incm_op opc s =
    (let dreg = opfield 8 1 opc in store_acc_add dreg (GetLongAcc dreg s) 0x10000 s)"

definition inc_op :: "u16 \<Rightarrow> SDSP \<Rightarrow> SDSP" where [op_defs]:
  "inc_op opc s =
    (let dreg = opfield 8 1 opc in store_acc_add dreg (GetLongAcc dreg s) 1 s)"

subsection \<open>Subtraction\<close>

definition subr_op :: "u16 \<Rightarrow> SDSP \<Rightarrow> SDSP" where [op_defs]:
  "subr_op opc s =
    (let dreg = opfield 8 1 opc; sreg = opfield 9 3 opc + DSP_REG_AXL0
     in store_acc_sub dreg (GetLongAcc dreg s) (push_bit 16 (ax_operand sreg s)) s)"

definition subax_op :: "u16 \<Rightarrow> SDSP \<Rightarrow> SDSP" where [op_defs]:
  "subax_op opc s =
    (let dreg = opfield 8 1 opc; sreg = opfield 9 1 opc
     in store_acc_sub dreg (GetLongAcc dreg s) (scast (GetLongACX sreg s)) s)"

definition sub_op :: "u16 \<Rightarrow> SDSP \<Rightarrow> SDSP" where [op_defs]:
  "sub_op opc s =
    (let dreg = opfield 8 1 opc
     in store_acc_sub dreg (GetLongAcc dreg s) (GetLongAcc (1 - dreg) s) s)"

definition subp_op :: "u16 \<Rightarrow> SDSP \<Rightarrow> SDSP" where [op_defs]:
  "subp_op opc s =
    (let dreg = opfield 8 1 opc in store_acc_sub dreg (GetLongAcc dreg s) (GetLongProduct s) s)"

definition decm_op :: "u16 \<Rightarrow> SDSP \<Rightarrow> SDSP" where [op_defs]:
  "decm_op opc s =
    (let dreg = opfield 8 1 opc in store_acc_sub dreg (GetLongAcc dreg s) 0x10000 s)"

definition dec_op :: "u16 \<Rightarrow> SDSP \<Rightarrow> SDSP" where [op_defs]:
  "dec_op opc s =
    (let dreg = opfield 8 1 opc in store_acc_sub dreg (GetLongAcc dreg s) 1 s)"

definition neg_op :: "u16 \<Rightarrow> SDSP \<Rightarrow> SDSP" where [op_defs]:
  "neg_op opc s =
    (let dreg = opfield 8 1 opc in store_acc_sub dreg 0 (GetLongAcc dreg s) s)"

definition abs_op :: "u16 \<Rightarrow> SDSP \<Rightarrow> SDSP" where [op_defs]:
  "abs_op opc s =
    (let dreg = opfield 11 1 opc; acc = GetLongAcc dreg s
     in store_acc dreg (if sint acc < 0 then 0 - acc else acc) s)"

subsection \<open>Moves\<close>

definition movr_op :: "u16 \<Rightarrow> SDSP \<Rightarrow> SDSP" where [op_defs]:
  "movr_op opc s =
    (let areg = opfield 8 1 opc; sreg = opfield 9 3 opc + DSP_REG_AXL0
     in move_acc areg (push_bit 16 (ax_operand sreg s)) s)"

definition movax_op :: "u16 \<Rightarrow> SDSP \<Rightarrow> SDSP" where [op_defs]:
  "movax_op opc s =
    (let dreg = opfield 8 1 opc; sreg = opfield 9 1 opc in move_acc dreg (scast (GetLongACX sreg s)) s)"

definition mov_op :: "u16 \<Rightarrow> SDSP \<Rightarrow> SDSP" where [op_defs]:
  "mov_op opc s =
    (let dreg = opfield 8 1 opc in move_acc dreg (GetLongAcc (1 - dreg) s) s)"

subsection \<open>Shifts\<close>

definition lsl16_op :: "u16 \<Rightarrow> SDSP \<Rightarrow> SDSP" where [op_defs]:
  "lsl16_op opc s =
    (let areg = opfield 8 1 opc in store_acc areg (push_bit 16 (GetLongAcc areg s)) s)"

definition lsr16_op :: "u16 \<Rightarrow> SDSP \<Rightarrow> SDSP" where [op_defs]:
  "lsr16_op opc s =
    (let areg = opfield 8 1 opc in store_acc areg (drop_bit 16 (low40 (GetLongAcc areg s))) s)"

definition asr16_op :: "u16 \<Rightarrow> SDSP \<Rightarrow> SDSP" where [op_defs]:
  "asr16_op opc s =
    (let areg = opfield 11 1 opc in store_acc areg (signed_drop_bit 16 (GetLongAcc areg s)) s)"

definition lsl_op :: "u16 \<Rightarrow> SDSP \<Rightarrow> SDSP" where [op_defs]:
  "lsl_op opc s =
    (let rreg = opfield 8 1 opc;
         s1 = SetLongAcc rreg (push_bit (unat (opc AND 0x3f)) (GetLongAcc rreg s)) s
     in UpdateSR64 (GetLongAcc rreg s1) False False s1)"

definition lsr_op :: "u16 \<Rightarrow> SDSP \<Rightarrow> SDSP" where [op_defs]:
  "lsr_op opc s =
    (let rreg = opfield 8 1 opc;
         s1 = SetLongAcc rreg (drop_bit (neg_shift_imm opc) (low40 (GetLongAcc rreg s))) s
     in UpdateSR64 (GetLongAcc rreg s1) False False s1)"

definition asl_op :: "u16 \<Rightarrow> SDSP \<Rightarrow> SDSP" where [op_defs]:
  "asl_op opc s =
    (let rreg = opfield 8 1 opc;
         s1 = SetLongAcc rreg (push_bit (unat (opc AND 0x3f)) (GetLongAcc rreg s)) s
     in UpdateSR64 (GetLongAcc rreg s1) False False s1)"

definition asr_op :: "u16 \<Rightarrow> SDSP \<Rightarrow> SDSP" where [op_defs]:
  "asr_op opc s =
    (let rreg = opfield 8 1 opc;
         s1 = SetLongAcc rreg (signed_drop_bit (neg_shift_imm opc) (GetLongAcc rreg s)) s
     in UpdateSR64 (GetLongAcc rreg s1) False False s1)"

definition lsrn_op :: "u16 \<Rightarrow> SDSP \<Rightarrow> SDSP" where [op_defs]:
  "lsrn_op opc s =
    (let s1 = SetLongAcc 0 (lshift_right_by (shift_amount (GetAccMid 1 s)) (low40 (GetLongAcc 0 s))) s
     in UpdateSR64 (GetLongAcc 0 s1) False False s1)"

definition asrn_op :: "u16 \<Rightarrow> SDSP \<Rightarrow> SDSP" where [op_defs]:
  "asrn_op opc s =
    (let s1 = SetLongAcc 0 (ashift_right_by (shift_amount (GetAccMid 1 s)) (GetLongAcc 0 s)) s
     in UpdateSR64 (GetLongAcc 0 s1) False False s1)"

definition lsrnrx_op :: "u16 \<Rightarrow> SDSP \<Rightarrow> SDSP" where [op_defs]:
  "lsrnrx_op opc s =
    (let dreg = opfield 8 1 opc; sreg = opfield 9 1 opc
     in store_acc dreg (lshift_right_by (- shift_amount (ax_h (ax_of s sreg))) (low40 (GetLongAcc dreg s))) s)"

definition asrnrx_op :: "u16 \<Rightarrow> SDSP \<Rightarrow> SDSP" where [op_defs]:
  "asrnrx_op opc s =
    (let dreg = opfield 8 1 opc; sreg = opfield 9 1 opc
     in store_acc dreg (ashift_right_by (- shift_amount (ax_h (ax_of s sreg))) (GetLongAcc dreg s)) s)"

definition lsrnr_op :: "u16 \<Rightarrow> SDSP \<Rightarrow> SDSP" where [op_defs]:
  "lsrnr_op opc s =
    (let dreg = opfield 8 1 opc
     in store_acc dreg (lshift_right_by (- shift_amount (GetAccMid (1 - dreg) s)) (low40 (GetLongAcc dreg s))) s)"

definition asrnr_op :: "u16 \<Rightarrow> SDSP \<Rightarrow> SDSP" where [op_defs]:
  "asrnr_op opc s =
    (let dreg = opfield 8 1 opc
     in store_acc dreg (ashift_right_by (- shift_amount (GetAccMid (1 - dreg) s)) (GetLongAcc dreg s)) s)"

end
