(* ===== verification/Dsp_Mult.thy ===== *)
theory Dsp_Mult
  imports Dsp_Arith
begin

text \<open>
  The multiplier instructions of \<open>Core/DSP/Interpreter/DSPIntMultiplier.cpp\<close>.  Every one of the
  \<open>mul\<close> family reads the product and its operands before it writes anything; the variants move
  the old product, its rounded value or its sum with an accumulator into an accumulator.
\<close>

section \<open>Shared pieces\<close>

text \<open>The operand selection of the \<open>x\<close> variants: low part for 0, high part for 1.\<close>

definition ax_half :: "nat \<Rightarrow> nat \<Rightarrow> SDSP \<Rightarrow> u16" where
  "ax_half sel reg s = (if sel = 0 then GetAXLow reg s else GetAXHigh reg s)"

text \<open>The common end: product, then accumulator, then the flags of the accumulator.\<close>

definition store_prod :: "s64 \<Rightarrow> SDSP \<Rightarrow> SDSP" where
  "store_prod product s = SetLongProduct product (ZeroWriteBackLog s)"

definition store_prod_acc :: "s64 \<Rightarrow> nat \<Rightarrow> s64 \<Rightarrow> SDSP \<Rightarrow> SDSP" where
  "store_prod_acc product rreg acc s =
    (let s1 = SetLongAcc rreg acc (SetLongProduct product (ZeroWriteBackLog s))
     in UpdateSR64 (GetLongAcc rreg s1) False False s1)"

section \<open>Handlers\<close>

subsection \<open>Product register\<close>

definition clrp_op :: "u16 \<Rightarrow> SDSP \<Rightarrow> SDSP" where [op_defs]:
  "clrp_op opc s =
    upd_prod (set_prod_m2 0x0010 \<circ> set_prod_h 0x00ff \<circ> set_prod_m 0xfff0 \<circ> set_prod_l 0x0000)
      (ZeroWriteBackLog s)"

definition tstprod_op :: "u16 \<Rightarrow> SDSP \<Rightarrow> SDSP" where [op_defs]:
  "tstprod_op opc s =
    ZeroWriteBackLog (UpdateSR64 (GetLongProduct s) False False s)"

definition movp_op :: "u16 \<Rightarrow> SDSP \<Rightarrow> SDSP" where [op_defs]:
  "movp_op opc s =
    move_acc (opfield 8 1 opc) (GetLongProduct s) s"

definition movnp_op :: "u16 \<Rightarrow> SDSP \<Rightarrow> SDSP" where [op_defs]:
  "movnp_op opc s =
    move_acc (opfield 8 1 opc) (- GetLongProduct s) s"

definition movpz_op :: "u16 \<Rightarrow> SDSP \<Rightarrow> SDSP" where [op_defs]:
  "movpz_op opc s =
    move_acc (opfield 8 1 opc) (GetLongProductRounded s) s"

definition addpaxz_op :: "u16 \<Rightarrow> SDSP \<Rightarrow> SDSP" where [op_defs]:
  "addpaxz_op opc s =
    (let dreg = opfield 8 1 opc; sreg = opfield 9 1 opc; oldprod = GetLongProduct s;
         ax = scast (GetLongACX sreg s) :: s64;
         s1 = SetLongAcc dreg (GetLongProductRounded s + (ax AND NOT 0xffff)) (ZeroWriteBackLog s);
         res = GetLongAcc dreg s1
     in UpdateSR64 res (isCarryAdd oldprod res) False s1)"

subsection \<open>Products of the secondary accumulators\<close>

definition mulaxh_op :: "u16 \<Rightarrow> SDSP \<Rightarrow> SDSP" where [op_defs]:
  "mulaxh_op opc s =
    store_prod (Multiply (GetAXHigh 0 s) (GetAXHigh 0 s) 0 s) s"

definition mul_op :: "u16 \<Rightarrow> SDSP \<Rightarrow> SDSP" where [op_defs]:
  "mul_op opc s =
    (let sreg = opfield 11 1 opc in store_prod (Multiply (GetAXHigh sreg s) (GetAXLow sreg s) 0 s) s)"

definition mulac_op :: "u16 \<Rightarrow> SDSP \<Rightarrow> SDSP" where [op_defs]:
  "mulac_op opc s =
    (let rreg = opfield 8 1 opc; sreg = opfield 11 1 opc
     in store_prod_acc (Multiply (GetAXLow sreg s) (GetAXHigh sreg s) 0 s) rreg
          (GetLongAcc rreg s + GetLongProduct s) s)"

definition mulmv_op :: "u16 \<Rightarrow> SDSP \<Rightarrow> SDSP" where [op_defs]:
  "mulmv_op opc s =
    (let rreg = opfield 8 1 opc; sreg = opfield 11 1 opc
     in store_prod_acc (Multiply (GetAXLow sreg s) (GetAXHigh sreg s) 0 s) rreg
          (GetLongProduct s) s)"

definition mulmvz_op :: "u16 \<Rightarrow> SDSP \<Rightarrow> SDSP" where [op_defs]:
  "mulmvz_op opc s =
    (let rreg = opfield 8 1 opc; sreg = opfield 11 1 opc
     in store_prod_acc (Multiply (GetAXLow sreg s) (GetAXHigh sreg s) 0 s) rreg
          (GetLongProductRounded s) s)"

definition mulx_op :: "u16 \<Rightarrow> SDSP \<Rightarrow> SDSP" where [op_defs]:
  "mulx_op opc s =
    (let treg = opfield 11 1 opc; sreg = opfield 12 1 opc
     in store_prod (MultiplyMulX sreg treg (ax_half sreg 0 s) (ax_half treg 1 s) s) s)"

definition mulxac_op :: "u16 \<Rightarrow> SDSP \<Rightarrow> SDSP" where [op_defs]:
  "mulxac_op opc s =
    (let rreg = opfield 8 1 opc; treg = opfield 11 1 opc; sreg = opfield 12 1 opc
     in store_prod_acc (MultiplyMulX sreg treg (ax_half sreg 0 s) (ax_half treg 1 s) s) rreg
          (GetLongAcc rreg s + GetLongProduct s) s)"

definition mulxmv_op :: "u16 \<Rightarrow> SDSP \<Rightarrow> SDSP" where [op_defs]:
  "mulxmv_op opc s =
    (let rreg = opfield 8 1 opc; treg = opfield 11 1 opc; sreg = opfield 12 1 opc
     in store_prod_acc (MultiplyMulX sreg treg (ax_half sreg 0 s) (ax_half treg 1 s) s) rreg
          (GetLongProduct s) s)"

definition mulxmvz_op :: "u16 \<Rightarrow> SDSP \<Rightarrow> SDSP" where [op_defs]:
  "mulxmvz_op opc s =
    (let rreg = opfield 8 1 opc; treg = opfield 11 1 opc; sreg = opfield 12 1 opc
     in store_prod_acc (MultiplyMulX sreg treg (ax_half sreg 0 s) (ax_half treg 1 s) s) rreg
          (GetLongProductRounded s) s)"

subsection \<open>Products with the middle part of an accumulator\<close>

definition mulc_op :: "u16 \<Rightarrow> SDSP \<Rightarrow> SDSP" where [op_defs]:
  "mulc_op opc s =
    (let treg = opfield 11 1 opc; sreg = opfield 12 1 opc
     in store_prod (Multiply (GetAccMid sreg s) (GetAXHigh treg s) 0 s) s)"

definition mulcac_op :: "u16 \<Rightarrow> SDSP \<Rightarrow> SDSP" where [op_defs]:
  "mulcac_op opc s =
    (let rreg = opfield 8 1 opc; treg = opfield 11 1 opc; sreg = opfield 12 1 opc
     in store_prod_acc (Multiply (GetAccMid sreg s) (GetAXHigh treg s) 0 s) rreg
          (GetLongAcc rreg s + GetLongProduct s) s)"

definition mulcmv_op :: "u16 \<Rightarrow> SDSP \<Rightarrow> SDSP" where [op_defs]:
  "mulcmv_op opc s =
    (let rreg = opfield 8 1 opc; treg = opfield 11 1 opc; sreg = opfield 12 1 opc
     in store_prod_acc (Multiply (GetAccMid sreg s) (GetAXHigh treg s) 0 s) rreg
          (GetLongProduct s) s)"

definition mulcmvz_op :: "u16 \<Rightarrow> SDSP \<Rightarrow> SDSP" where [op_defs]:
  "mulcmvz_op opc s =
    (let rreg = opfield 8 1 opc; treg = opfield 11 1 opc; sreg = opfield 12 1 opc
     in store_prod_acc (Multiply (GetAccMid sreg s) (GetAXHigh treg s) 0 s) rreg
          (GetLongProductRounded s) s)"

subsection \<open>Multiply and accumulate\<close>

definition maddx_op :: "u16 \<Rightarrow> SDSP \<Rightarrow> SDSP" where [op_defs]:
  "maddx_op opc s =
    (let treg = opfield 8 1 opc; sreg = opfield 9 1 opc
     in store_prod (MultiplyAdd (ax_half sreg 0 s) (ax_half treg 1 s) 0 s) s)"

definition msubx_op :: "u16 \<Rightarrow> SDSP \<Rightarrow> SDSP" where [op_defs]:
  "msubx_op opc s =
    (let treg = opfield 8 1 opc; sreg = opfield 9 1 opc
     in store_prod (MultiplySub (ax_half sreg 0 s) (ax_half treg 1 s) 0 s) s)"

definition maddc_op :: "u16 \<Rightarrow> SDSP \<Rightarrow> SDSP" where [op_defs]:
  "maddc_op opc s =
    (let treg = opfield 8 1 opc; sreg = opfield 9 1 opc
     in store_prod (MultiplyAdd (GetAccMid sreg s) (GetAXHigh treg s) 0 s) s)"

definition msubc_op :: "u16 \<Rightarrow> SDSP \<Rightarrow> SDSP" where [op_defs]:
  "msubc_op opc s =
    (let treg = opfield 8 1 opc; sreg = opfield 9 1 opc
     in store_prod (MultiplySub (GetAccMid sreg s) (GetAXHigh treg s) 0 s) s)"

definition madd_op :: "u16 \<Rightarrow> SDSP \<Rightarrow> SDSP" where [op_defs]:
  "madd_op opc s =
    (let sreg = opfield 8 1 opc
     in store_prod (MultiplyAdd (GetAXLow sreg s) (GetAXHigh sreg s) 0 s) s)"

definition msub_op :: "u16 \<Rightarrow> SDSP \<Rightarrow> SDSP" where [op_defs]:
  "msub_op opc s =
    (let sreg = opfield 8 1 opc
     in store_prod (MultiplySub (GetAXLow sreg s) (GetAXHigh sreg s) 0 s) s)"

end
