(* ===== verification/Dsp_Flags.thy ===== *)
theory Dsp_Flags
  imports Dsp_Branch Dsp_Mult
begin

text \<open>
  The status flags and the 40-bit arithmetic behind them.  The source computes carry and
  overflow with comparisons of 64-bit values; here they are shown to be the carry out of 40
  bits and the signed overflow of 40 bits, and the conditions after a comparison to be the
  comparison of the accumulators.
\<close>

section \<open>Flags as bits of \<open>$sr\<close>\<close>

lemma cmp_mask: "(0x3f :: u16) = mask 6"
  by (simp add: mask_eq_exp_minus_1)

lemma and_flag: "(x :: u16) AND push_bit n 1 \<noteq> 0 \<longleftrightarrow> n < 16 \<and> bit x n"
proof -
  have "x AND push_bit n 1 = (if n < 16 \<and> bit x n then push_bit n 1 else 0)"
    by (rule bit_word_eqI) (auto simp: bit_simps)
  moreover have "n < 16 \<Longrightarrow> push_bit n (1 :: u16) \<noteq> 0"
  proof
    assume "n < 16" "push_bit n (1 :: u16) = 0"
    then have "bit (push_bit n (1 :: u16)) n = bit (0 :: u16) n" by simp
    with \<open>n < 16\<close> show False by (simp add: bit_simps)
  qed
  ultimately show ?thesis by auto
qed

lemma IsSRFlagSet_bit: "n < 16 \<Longrightarrow> IsSRFlagSet (push_bit n 1) s \<longleftrightarrow> bit (sr_of s) n"
  by (simp only: IsSRFlagSet_def and_flag) simp

lemma flag_set_bits [simp]:
  "IsSRFlagSet SR_CARRY s \<longleftrightarrow> bit (sr_of s) 0" "IsSRFlagSet SR_OVERFLOW s \<longleftrightarrow> bit (sr_of s) 1"
  "IsSRFlagSet SR_ARITH_ZERO s \<longleftrightarrow> bit (sr_of s) 2" "IsSRFlagSet SR_SIGN s \<longleftrightarrow> bit (sr_of s) 3"
  "IsSRFlagSet SR_OVER_S32 s \<longleftrightarrow> bit (sr_of s) 4" "IsSRFlagSet SR_TOP2BITS s \<longleftrightarrow> bit (sr_of s) 5"
  "IsSRFlagSet SR_LOGIC_ZERO s \<longleftrightarrow> bit (sr_of s) 6" "IsSRFlagSet SR_OVERFLOW_STICKY s \<longleftrightarrow> bit (sr_of s) 7"
  "IsSRFlagSet SR_INT_ENABLE s \<longleftrightarrow> bit (sr_of s) 9" "IsSRFlagSet SR_EXT_INT_ENABLE s \<longleftrightarrow> bit (sr_of s) 11"
  "IsSRFlagSet SR_MUL_MODIFY s \<longleftrightarrow> bit (sr_of s) 13" "IsSRFlagSet SR_40_MODE_BIT s \<longleftrightarrow> bit (sr_of s) 14"
  "IsSRFlagSet SR_MUL_UNSIGNED s \<longleftrightarrow> bit (sr_of s) 15"
  using IsSRFlagSet_bit [of 0 s] IsSRFlagSet_bit [of 1 s] IsSRFlagSet_bit [of 2 s]
    IsSRFlagSet_bit [of 3 s] IsSRFlagSet_bit [of 4 s] IsSRFlagSet_bit [of 5 s] IsSRFlagSet_bit [of 6 s]
    IsSRFlagSet_bit [of 7 s] IsSRFlagSet_bit [of 9 s] IsSRFlagSet_bit [of 11 s]
    IsSRFlagSet_bit [of 13 s] IsSRFlagSet_bit [of 14 s] IsSRFlagSet_bit [of 15 s]
  by simp_all

lemma bit_set_if: "n < 16 \<Longrightarrow> bit (set_if b (push_bit k 1) sr) n \<longleftrightarrow> bit sr n \<or> b \<and> n = k"
  by (auto simp: set_if_def bit_simps)

lemma bit_set_flags:
  assumes "n < 16"
  shows "bit (set_if b SR_CARRY sr) n \<longleftrightarrow> bit sr n \<or> b \<and> n = 0"
    "bit (set_if b SR_OVERFLOW sr) n \<longleftrightarrow> bit sr n \<or> b \<and> n = 1"
    "bit (set_if b SR_ARITH_ZERO sr) n \<longleftrightarrow> bit sr n \<or> b \<and> n = 2"
    "bit (set_if b SR_SIGN sr) n \<longleftrightarrow> bit sr n \<or> b \<and> n = 3"
    "bit (set_if b SR_OVER_S32 sr) n \<longleftrightarrow> bit sr n \<or> b \<and> n = 4"
    "bit (set_if b SR_TOP2BITS sr) n \<longleftrightarrow> bit sr n \<or> b \<and> n = 5"
    "bit (set_if b SR_OVERFLOW_STICKY sr) n \<longleftrightarrow> bit sr n \<or> b \<and> n = 7"
  using bit_set_if [OF assms, of b 0 sr] bit_set_if [OF assms, of b 1 sr]
    bit_set_if [OF assms, of b 2 sr] bit_set_if [OF assms, of b 3 sr] bit_set_if [OF assms, of b 4 sr]
    bit_set_if [OF assms, of b 5 sr] bit_set_if [OF assms, of b 7 sr]
  by simp_all

lemma bit_clear_cmp: "n < 16 \<Longrightarrow> bit ((sr :: u16) AND NOT (mask 6)) n \<longleftrightarrow> bit sr n \<and> \<not> n < 6"
  by (auto simp: bit_simps)

text \<open>Every bit of \<open>$sr\<close> after an update of the arithmetic flags.\<close>

lemma bit_sr64:
  "n < 16 \<Longrightarrow> bit (sr64 v c ovf sr) n \<longleftrightarrow>
    (if n = 0 then c else if n = 1 then ovf else if n = 2 then v = 0 else if n = 3 then sint v < 0
     else if n = 4 then isOverS32 v
     else if n = 5 then v AND 0xc0000000 = 0 \<or> v AND 0xc0000000 = 0xc0000000
     else if n = 7 then bit sr 7 \<or> ovf else bit sr n)"
  unfolding sr64_def Let_def cmp_mask
  by (simp only: bit_set_flags bit_clear_cmp, cases "n = 0", simp, cases "n = 1", simp, cases "n = 2", simp,
      cases "n = 3", simp, cases "n = 4", simp, cases "n = 5", simp, cases "n = 7", simp, simp)

lemma bit_sr16:
  "n < 16 \<Longrightarrow> bit (sr16 v c ovf o32 sr) n \<longleftrightarrow>
    (if n = 0 then c else if n = 1 then ovf else if n = 2 then v = 0 else if n = 3 then sint v < 0
     else if n = 4 then o32 else if n = 5 then drop_bit 14 v = 0 \<or> drop_bit 14 v = 3
     else if n = 7 then bit sr 7 \<or> ovf else bit sr n)"
  unfolding sr16_def Let_def cmp_mask
  by (simp only: bit_set_flags bit_clear_cmp, cases "n = 0", simp, cases "n = 1", simp, cases "n = 2", simp,
      cases "n = 3", simp, cases "n = 4", simp, cases "n = 5", simp, cases "n = 7", simp, simp)

lemma sr_UpdateSR64: "sr_of (UpdateSR64 v c ovf s) = sr64 v c ovf (sr_of s)"
  by (simp add: UpdateSR64_def)

section \<open>Carry and overflow of 40 bits\<close>

definition u40 :: "s64 \<Rightarrow> int" where
  "u40 v = sint v mod 2 ^ 40"

definition is40 :: "s64 \<Rightarrow> bool" where
  "is40 v \<longleftrightarrow> sext40 v = v"

lemma is40_range: "is40 v \<longleftrightarrow> - (2 ^ 39) \<le> sint v \<and> sint v < 2 ^ 39"
  by (simp only: is40_def sext40_fixed_iff)

lemma u40_cases: "is40 v \<Longrightarrow> u40 v = (if sint v < 0 then sint v + 2 ^ 40 else sint v)"
proof -
  assume r: "is40 v"
  show ?thesis
  proof (cases "sint v < 0")
    case True
    have "(sint v + 2 ^ 40) mod 2 ^ 40 = sint v + 2 ^ 40"
      using True r by (intro mod_pos_pos_trivial) (simp_all add: is40_range)
    with True show ?thesis by (simp add: u40_def)
  qed (use r in \<open>simp add: u40_def is40_range\<close>)
qed

text \<open>The signed 40-bit value of an exact integer.\<close>

definition wrap40 :: "int \<Rightarrow> int" where
  "wrap40 x = signed_take_bit 39 x"

definition fits40 :: "int \<Rightarrow> bool" where
  "fits40 x \<longleftrightarrow> - (2 ^ 39) \<le> x \<and> x < 2 ^ 39"

lemma wrap40_cases: "- (2 ^ 40) \<le> x \<Longrightarrow> x < 2 ^ 40 \<Longrightarrow> wrap40 x =
    (if x < - (2 ^ 39) then x + 2 ^ 40 else if x < 2 ^ 39 then x else x - 2 ^ 40)"
  unfolding wrap40_def by (rule signed_take_bit_39_cases)

lemma wrap40_fits [simp]: "fits40 x \<Longrightarrow> wrap40 x = x"
  by (simp add: fits40_def wrap40_def signed_take_bit_int_eq_self)

lemma is40_bound: "is40 a \<Longrightarrow> \<bar>sint a\<bar> \<le> 2 ^ 61"
  by (auto simp: is40_range)

lemma sint_sext40_add: "is40 a \<Longrightarrow> is40 b \<Longrightarrow> sint (sext40 (a + b)) = wrap40 (sint a + sint b)"
  by (simp only: sint_sext40 wrap40_def sint_add_exact [OF is40_bound is40_bound])

lemma sint_sext40_sub: "is40 a \<Longrightarrow> is40 b \<Longrightarrow> sint (sext40 (a - b)) = wrap40 (sint a - sint b)"
  by (simp only: sint_sext40 wrap40_def sint_sub_exact [OF is40_bound is40_bound])

lemma sint_minus40: "is40 b \<Longrightarrow> sint (- b) = - sint b"
  by (intro sint_minus_exact is40_bound)

lemma isOverflow_sint:
  "isOverflow a b r \<longleftrightarrow> (sint a < 0) \<noteq> (sint r < 0) \<and> (sint b < 0) \<noteq> (sint r < 0)"
  by (simp add: isOverflow_def bit_63_sint [symmetric] bit_and_iff bit_xor_iff)

text \<open>The wrapped sum and difference, spelt out.\<close>

lemma wrap40_add:
  assumes "is40 a" "is40 b"
  shows "wrap40 (sint a + sint b) = (if sint a + sint b < - (2 ^ 39) then sint a + sint b + 2 ^ 40
    else if sint a + sint b < 2 ^ 39 then sint a + sint b else sint a + sint b - 2 ^ 40)"
  using assms by (intro wrap40_cases) (simp_all add: is40_range)

lemma wrap40_sub:
  assumes "is40 a" "is40 b"
  shows "wrap40 (sint a - sint b) = (if sint a - sint b < - (2 ^ 39) then sint a - sint b + 2 ^ 40
    else if sint a - sint b < 2 ^ 39 then sint a - sint b else sint a - sint b - 2 ^ 40)"
  using assms by (intro wrap40_cases) (simp_all add: is40_range)

lemma add_overflow:
  assumes "is40 a" "is40 b"
  shows "isOverflow a b (sext40 (a + b)) \<longleftrightarrow> \<not> fits40 (sint a + sint b)"
  using assms unfolding isOverflow_sint sint_sext40_add [OF assms] wrap40_add [OF assms]
  by (auto simp: fits40_def is40_range)

lemma add_carry:
  assumes "is40 a" "is40 b"
  shows "isCarryAdd a (sext40 (a + b)) \<longleftrightarrow> 2 ^ 40 \<le> u40 a + u40 b"
  using assms unfolding isCarryAdd_def word_less_sint sint_sext40_add [OF assms] wrap40_add [OF assms]
    u40_cases [OF assms(1)] u40_cases [OF assms(2)]
  by (auto simp: is40_range)

lemma sub_overflow:
  assumes "is40 a" "is40 b"
  shows "isOverflow a (- b) (sext40 (a - b)) \<longleftrightarrow> \<not> fits40 (sint a - sint b)"
  using assms unfolding isOverflow_sint sint_minus40 [OF assms(2)] sint_sext40_sub [OF assms]
    wrap40_sub [OF assms]
  by (auto simp: fits40_def is40_range)

lemma sub_carry:
  assumes "is40 a" "is40 b"
  shows "isCarrySubtract a (sext40 (a - b)) \<longleftrightarrow> u40 b \<le> u40 a"
  using assms unfolding isCarrySubtract_def linorder_not_less [symmetric] word_less_sint
    sint_sext40_sub [OF assms] wrap40_sub [OF assms] u40_cases [OF assms(1)] u40_cases [OF assms(2)]
  by (auto simp: is40_range)

section \<open>Operands\<close>

lemma sint_scast_s32: "sint (scast (x :: s32) :: s64) = sint x"
proof -
  have "- (2 ^ 31) \<le> sint x" "sint x < 2 ^ 31" using sint_ge [of x] sint_lt [of x] by simp_all
  then have "signed_take_bit 63 (sint x) = sint x" by (intro signed_take_bit_int_eq_self) simp_all
  then show ?thesis by (simp add: signed_scast_eq)
qed

lemma sint_scast_s16: "sint (scast (x :: s16) :: s64) = sint x"
proof -
  have "- (2 ^ 15) \<le> sint x" "sint x < 2 ^ 15" using sint_ge [of x] sint_lt [of x] by simp_all
  then have "signed_take_bit 63 (sint x) = sint x" by (intro signed_take_bit_int_eq_self) simp_all
  then show ?thesis by (simp add: signed_scast_eq)
qed

lemma sint_scast_s8: "sint (scast (x :: u8) :: s64) = sint x"
proof -
  have "- (2 ^ 7) \<le> sint x" "sint x < 2 ^ 7" using sint_ge [of x] sint_lt [of x] by simp_all
  then have "signed_take_bit 63 (sint x) = sint x" by (intro signed_take_bit_int_eq_self) simp_all
  then show ?thesis by (simp add: signed_scast_eq)
qed

lemma sint_shift16:
  assumes "\<bar>sint (v :: s64)\<bar> \<le> 2 ^ 40"
  shows "sint (push_bit 16 v) = sint v * 2 ^ 16"
proof -
  have "sint (push_bit 16 v) = signed_take_bit 63 (sint v * 2 ^ 16)"
    by (simp add: push_bit_eq_mult sint_word_ariths)
  also have "\<dots> = sint v * 2 ^ 16" using assms by (intro signed_take_bit_int_eq_self) auto
  finally show ?thesis .
qed

lemma sint_uint_u16: "sint (ucast (y :: s16) :: s64) = uint y"
proof -
  have "uint y < 2 ^ 16" using unsigned_less [of y, where 'a = int] by simp
  moreover have "- (2 ^ 63) \<le> uint y" by (rule order_trans [of _ 0]) simp_all
  ultimately have "signed_take_bit 63 (uint y) = uint y"
    by (intro signed_take_bit_int_eq_self) auto
  then show ?thesis by (simp add: signed_ucast_eq)
qed

lemma s16_range: "- (2 ^ 15) \<le> sint (x :: s16) \<and> sint x < 2 ^ 15"
  using sint_ge [of x] sint_lt [of x] by simp

lemma is40_operands [simp]:
  "is40 (scast (x :: s32))" "is40 (push_bit 16 (scast (y :: s16)))"
  "is40 (push_bit 16 (scast (z :: u8)))" "is40 (ucast (y :: s16))" "is40 1" "is40 0" "is40 0x10000"
proof -
  show "is40 (scast x)"
    using sint_ge [of x] sint_lt [of x] by (simp add: is40_range sint_scast_s32)
  show "is40 (push_bit 16 (scast y))"
    using s16_range [of y] sint_shift16 [of "scast y"] by (auto simp: is40_range sint_scast_s16)
  show "is40 (push_bit 16 (scast z))"
    using sint_ge [of z] sint_lt [of z] sint_shift16 [of "scast z"]
    by (auto simp: is40_range sint_scast_s8)
  have "uint y < 2 ^ 16" using unsigned_less [of y, where 'a = int] by simp
  moreover have "- (2 ^ 39) \<le> uint y" by (rule order_trans [of _ 0]) simp_all
  ultimately show "is40 (ucast y)" unfolding is40_range sint_uint_u16 by auto
qed (simp_all add: is40_range)

section \<open>Additions and subtractions are exact\<close>

text \<open>
  \<open>adds_exactly s d x s'\<close>: from \<open>s\<close> to \<open>s'\<close> the accumulator \<open>d\<close> became the sum with the exact
  integer \<open>x\<close> in 40 bits, and the flags tell the truth about that sum.
\<close>

definition flags_of :: "int \<Rightarrow> bool \<Rightarrow> SDSP \<Rightarrow> bool" where
  "flags_of exact carry s' \<longleftrightarrow>
     (IsSRFlagSet SR_CARRY s' \<longleftrightarrow> carry) \<and> (IsSRFlagSet SR_OVERFLOW s' \<longleftrightarrow> \<not> fits40 exact) \<and>
     (IsSRFlagSet SR_ARITH_ZERO s' \<longleftrightarrow> wrap40 exact = 0) \<and> (IsSRFlagSet SR_SIGN s' \<longleftrightarrow> wrap40 exact < 0)"

definition adds_exactly :: "SDSP \<Rightarrow> nat \<Rightarrow> int \<Rightarrow> SDSP \<Rightarrow> bool" where
  "adds_exactly s d x s' \<longleftrightarrow>
     (let a = sint (GetLongAcc d s) in
      sint (GetLongAcc d s') = wrap40 (a + x) \<and>
      flags_of (a + x) (2 ^ 40 \<le> a mod 2 ^ 40 + x mod 2 ^ 40) s' \<and>
      (IsSRFlagSet SR_OVERFLOW_STICKY s' \<longleftrightarrow> IsSRFlagSet SR_OVERFLOW_STICKY s \<or> \<not> fits40 (a + x)))"

definition subtracts_exactly :: "SDSP \<Rightarrow> nat \<Rightarrow> int \<Rightarrow> int \<Rightarrow> SDSP \<Rightarrow> bool" where
  "subtracts_exactly s d a x s' \<longleftrightarrow>
     sint (GetLongAcc d s') = wrap40 (a - x) \<and>
     flags_of (a - x) (x mod 2 ^ 40 \<le> a mod 2 ^ 40) s' \<and>
     (IsSRFlagSet SR_OVERFLOW_STICKY s' \<longleftrightarrow> IsSRFlagSet SR_OVERFLOW_STICKY s \<or> \<not> fits40 (a - x))"

lemma GetLongAcc_simps [simp]:
  "GetLongAcc d (UpdateSR64 v c ovf s) = GetLongAcc d s"
  "GetLongAcc d (SetLongAcc d v s) = sext40 v"
  "GetLongAcc d (ZeroWriteBackLog s) = GetLongAcc d s"
  "sr_of (SetLongAcc d v s) = sr_of s" "sr_of (ZeroWriteBackLog s) = sr_of s"
  by (simp_all add: GetLongAcc_def UpdateSR64_def SetLongAcc_def ZeroWriteBackLog_def)

lemma sint_eq_0 [simp]: "sint (v :: s64) = 0 \<longleftrightarrow> v = 0"
  using signed_eq_0_iff [of v] by simp

lemma sint64_inj: "sint (v :: s64) = sint w \<Longrightarrow> v = w"
  by (rule signed_word_eqI)

lemma flags_of_UpdateSR64:
  assumes "sint r = wrap40 exact" "ovf \<longleftrightarrow> \<not> fits40 exact"
  shows "flags_of exact c (UpdateSR64 r c ovf s)"
  using assms by (auto simp: flags_of_def sr_UpdateSR64 bit_sr64 simp flip: assms(1))

lemma store_acc_add_exact:
  assumes "is40 x" "GetLongAcc d s = acc" "is40 acc"
  shows "adds_exactly s d (sint x) (store_acc_add d acc x s)"
  unfolding adds_exactly_def Let_def store_acc_add_def UpdateSR64Add_def GetLongAcc_simps assms(2)
    add_carry [OF assms(3,1)] add_overflow [OF assms(3,1)] u40_def
  by (simp add: sint_sext40_add assms flags_of_UpdateSR64 sr_UpdateSR64 bit_sr64)

lemma store_acc_sub_exact:
  assumes "is40 x" "is40 acc"
  shows "subtracts_exactly s d (sint acc) (sint x) (store_acc_sub d acc x s)"
  unfolding subtracts_exactly_def Let_def store_acc_sub_def UpdateSR64Sub_def GetLongAcc_simps
    sub_carry [OF assms(2,1)] sub_overflow [OF assms(2,1)] u40_def
  by (simp add: sint_sext40_sub assms flags_of_UpdateSR64 sr_UpdateSR64 bit_sr64)

lemma regs_ok_is40: "regs_ok s \<Longrightarrow> d < 2 \<Longrightarrow> is40 (GetLongAcc d s)"
  by (simp add: regs_ok_def is40_def GetLongAcc_def)

lemma acc_index [simp]: "opfield n 1 opc < 2" "1 - opfield n 1 opc < 2"
  by simp_all

section \<open>Comparisons\<close>

text \<open>\<open>compares a b s'\<close>: every condition code in \<open>s'\<close> is the comparison of \<open>a\<close> and \<open>b\<close> it stands for.\<close>

definition compares :: "int \<Rightarrow> int \<Rightarrow> SDSP \<Rightarrow> bool" where
  "compares a b s' \<longleftrightarrow>
     (CheckCondition 0x0 s' \<longleftrightarrow> b \<le> a) \<and> (CheckCondition 0x1 s' \<longleftrightarrow> a < b) \<and>
     (CheckCondition 0x2 s' \<longleftrightarrow> b < a) \<and> (CheckCondition 0x3 s' \<longleftrightarrow> a \<le> b) \<and>
     (CheckCondition 0x4 s' \<longleftrightarrow> a \<noteq> b) \<and> (CheckCondition 0x5 s' \<longleftrightarrow> a = b) \<and>
     (CheckCondition 0x6 s' \<longleftrightarrow> a mod 2 ^ 40 < b mod 2 ^ 40) \<and>
     (CheckCondition 0x7 s' \<longleftrightarrow> b mod 2 ^ 40 \<le> a mod 2 ^ 40)"

lemma flags_compare:
  assumes "flags_of (a - b) (b mod 2 ^ 40 \<le> a mod 2 ^ 40) s'" "fits40 a" "fits40 b"
  shows "compares a b s'"
proof -
  have w: "wrap40 (a - b) = (if a - b < - (2 ^ 39) then a - b + 2 ^ 40
      else if a - b < 2 ^ 39 then a - b else a - b - 2 ^ 40)"
    using assms(2,3) by (intro wrap40_cases) (auto simp: fits40_def)
  have less: "(\<not> fits40 (a - b)) \<noteq> (wrap40 (a - b) < 0) \<longleftrightarrow> a < b"
    using assms(2,3) unfolding w by (auto simp: fits40_def)
  have zero: "wrap40 (a - b) = 0 \<longleftrightarrow> a = b"
    using assms(2,3) unfolding w by (auto simp: fits40_def)
  show ?thesis
    using assms(1) less zero
    unfolding flags_of_def compares_def CheckCondition_def Let_def by auto
qed

lemma compare_acc_compares:
  assumes "is40 acc" "is40 x"
  shows "compares (sint acc) (sint x) (compare_acc acc x s)"
proof (rule flags_compare)
  have "dsp_convert_long_acc (acc - x) = sext40 (acc - x)"
    by (simp add: dsp_convert_long_acc_def sext40_def)
  then show "flags_of (sint acc - sint x) (sint x mod 2 ^ 40 \<le> sint acc mod 2 ^ 40) (compare_acc acc x s)"
    unfolding compare_acc_def UpdateSR64Sub_def
    by (simp only: sub_carry [OF assms] sub_overflow [OF assms] u40_def)
      (intro flags_of_UpdateSR64 sint_sext40_sub assms refl)
qed (use assms in \<open>simp_all add: fits40_def is40_range\<close>)

lemma compares_ZeroWriteBackLog [simp]: "compares a b (ZeroWriteBackLog s) = compares a b s"
  by (simp add: ZeroWriteBackLog_def)

section \<open>Properties\<close>

text \<open>
  C21: the addition instructions compute the exact sum in 40-bit two's complement, and set
  carry to the carry out of 40 bits, overflow (and its sticky copy) to signed overflow of 40
  bits, and the zero and sign flags to those of the result.
\<close>

theorem additions_exact:
  assumes "dsp_wf s" "d = opfield 8 1 opc" "q = opfield 9 1 opc"
  shows "adds_exactly s d (sint (GetLongAcc (1 - d) s)) (add_op opc s) \<and>
    adds_exactly s d (sint (GetLongACX q s)) (addax_op opc s) \<and>
    adds_exactly s d (uint (GetAXLow q s)) (addaxl_op opc s) \<and>
    adds_exactly s d 1 (inc_op opc s) \<and> adds_exactly s d 0x10000 (incm_op opc s) \<and>
    adds_exactly s d (2 ^ 16 * sint (ucast opc :: u8)) (addis_op opc s)"
proof -
  have r: "regs_ok s" using assms(1) by (simp add: dsp_wf_def)
  have a: "is40 (GetLongAcc d s)" "is40 (GetLongAcc (1 - d) s)"
    using r assms(2) by (intro regs_ok_is40; simp)+
  note st = store_acc_add_exact [OF _ refl a(1)]
  have sh: "sint (push_bit 16 (scast (ucast opc :: u8) :: s64)) = 2 ^ 16 * sint (ucast opc :: u8)"
    using sint_ge [of "ucast opc :: u8"] sint_lt [of "ucast opc :: u8"]
    by (subst sint_shift16) (auto simp: sint_scast_s8)
  have "addis_op opc s = store_acc_add d (GetLongAcc d s) (push_bit 16 (scast (ucast opc :: u8))) s"
    by (simp add: addis_op_def store_acc_add_def assms(2) Let_def ZeroWriteBackLog_def)
  then show ?thesis
    using st [OF a(2)] st [of "scast (GetLongACX q s)"] st [of "ucast (GetAXLow q s)"] st [of 1]
      st [of "0x10000"] st [of "push_bit 16 (scast (ucast opc :: u8))"] assms(2,3)
    unfolding sint_scast_s32 sint_uint_u16 sh
    by (simp add: add_op_def addax_op_def addaxl_op_def inc_op_def incm_op_def Let_def)
qed

text \<open>The largest accumulator plus one: the sum wraps, with overflow and without carry.\<close>

definition max_acc_state :: SDSP where
  "max_acc_state = (power_on gamecube_host)\<lparr>regs := zero_regs\<lparr>r_ac := (\<lambda>_. 0)(0 := 0x7fffffffff)\<rparr>\<rparr>"

lemma max_acc_wf: "dsp_wf max_acc_state"
  by (auto simp: max_acc_state_def power_on_def dsp_wf_def regs_ok_def log_empty_def zero_regs_def
      prod_h_def slice16_def sext40_fixed_iff)

theorem additions_exact_witness: "adds_exactly max_acc_state 0 1 (inc_op 0x7600 max_acc_state)"
  using additions_exact [OF max_acc_wf refl refl, of "0x7600"] by (simp add: opfield_def)

lemma neg_subtracts_exactly:
  assumes "dsp_wf s"
  shows "subtracts_exactly s (opfield 8 1 opc) 0 (sint (GetLongAcc (opfield 8 1 opc) s)) (neg_op opc s)"
proof -
  have "is40 (GetLongAcc (opfield 8 1 opc) s)"
    using assms by (intro regs_ok_is40) (simp_all add: dsp_wf_def)
  then show ?thesis using store_acc_sub_exact [of "GetLongAcc (opfield 8 1 opc) s" 0]
    by (simp add: neg_op_def Let_def)
qed

text \<open>
  the subtraction instructions compute the exact difference in 40-bit two's complement and
  set carry to the absence of a borrow and overflow to signed overflow of 40 bits.
\<close>

theorem subtractions_exact:
  assumes "dsp_wf s" "d = opfield 8 1 opc" "q = opfield 9 1 opc"
  shows "subtracts_exactly s d (sint (GetLongAcc d s)) (sint (GetLongAcc (1 - d) s)) (sub_op opc s) \<and>
    subtracts_exactly s d (sint (GetLongAcc d s)) (sint (GetLongACX q s)) (subax_op opc s) \<and>
    subtracts_exactly s d (sint (GetLongAcc d s)) 1 (dec_op opc s) \<and>
    subtracts_exactly s d (sint (GetLongAcc d s)) 0x10000 (decm_op opc s) \<and>
    subtracts_exactly s d 0 (sint (GetLongAcc d s)) (neg_op opc s)"
proof -
  have r: "regs_ok s" using assms(1) by (simp add: dsp_wf_def)
  have a: "is40 (GetLongAcc d s)" "is40 (GetLongAcc (1 - d) s)"
    using r assms(2) by (intro regs_ok_is40; simp)+
  note st = store_acc_sub_exact [OF _ a(1)]
  show ?thesis
    using st [OF a(2)] st [of "scast (GetLongACX q s)"] st [of 1] st [of "0x10000"]
      neg_subtracts_exactly [OF assms(1), of opc] assms(2,3)
    unfolding sint_scast_s32
    by (simp add: sub_op_def subax_op_def dec_op_def decm_op_def Let_def)
qed

theorem subtractions_exact_witness:
  "subtracts_exactly max_acc_state 0 0 0x7fffffffff (neg_op 0x7c00 max_acc_state)"
proof -
  have "sint (GetLongAcc 0 max_acc_state) = 0x7fffffffff"
    by (simp add: GetLongAcc_def max_acc_state_def power_on_def zero_regs_def)
  then show ?thesis
    using subtractions_exact [OF max_acc_wf refl refl, of "0x7c00"] by (simp add: opfield_def)
qed

text \<open>
  As the comment of \<open>neg\<close> says, negating an accumulator sets carry only for zero and
  overflow only for the minimum \<open>-2^39\<close>, and in both cases leaves its value as it was.
\<close>

theorem neg_carry_and_overflow:
  assumes "dsp_wf s" "d = opfield 8 1 opc"
  shows "(IsSRFlagSet SR_CARRY (neg_op opc s) \<longleftrightarrow> GetLongAcc d s = 0) \<and>
    (IsSRFlagSet SR_OVERFLOW (neg_op opc s) \<longleftrightarrow> sint (GetLongAcc d s) = - (2 ^ 39)) \<and>
    (GetLongAcc d s = 0 \<or> sint (GetLongAcc d s) = - (2 ^ 39) \<longrightarrow>
      GetLongAcc d (neg_op opc s) = GetLongAcc d s)"
proof -
  let ?a = "GetLongAcc d s"
  have r: "is40 ?a" using assms by (intro regs_ok_is40) (auto simp: dsp_wf_def)
  have e: "subtracts_exactly s d 0 (sint ?a) (neg_op opc s)"
    using neg_subtracts_exactly [OF assms(1), of opc] assms(2) by simp
  have c: "sint ?a mod 2 ^ 40 \<le> 0 \<longleftrightarrow> sint ?a = 0"
    using u40_cases [OF r] r by (auto simp: u40_def is40_range split: if_splits)
  have "wrap40 (- sint ?a) = sint ?a" if "sint ?a = - (2 ^ 39)"
    using wrap40_cases [of "2 ^ 39"] that by simp
  moreover have "wrap40 0 = 0" by (simp add: fits40_def)
  ultimately show ?thesis
    using e c r by (auto simp: subtracts_exactly_def flags_of_def fits40_def is40_range
        intro!: sint64_inj)
qed

theorem neg_carry_and_overflow_witness: "\<not> IsSRFlagSet SR_CARRY (neg_op 0x7c00 max_acc_state)"
  using neg_carry_and_overflow [OF max_acc_wf refl, of "0x7c00"]
  by (simp add: opfield_def GetLongAcc_def max_acc_state_def power_on_def zero_regs_def)

text \<open>
  C22: after a comparison instruction every condition code (GE, L, G, LE, NZ, Z, NC, C) is the
  signed, equality or unsigned comparison of the two 40-bit operands it stands for, also when
  their difference overflows.
\<close>

theorem comparisons_decide:
  assumes "dsp_wf s" "d = opfield 11 1 opc" "e = opfield 8 1 opc"
  shows "compares (sint (GetLongAcc 0 s)) (sint (GetLongAcc 1 s)) (cmp_op opc s) \<and>
    compares (sint (GetLongAcc d s)) (2 ^ 16 * sint (GetAXHigh (opfield 12 1 opc) s)) (cmpaxh_op opc s) \<and>
    compares (sint (GetLongAcc e s)) (2 ^ 16 * sint (PeekInstruction s)) (cmpi_op opc s) \<and>
    compares (sint (GetLongAcc e s)) (2 ^ 16 * sint (ucast opc :: u8)) (cmpis_op opc s)"
proof -
  have r: "regs_ok s" using assms(1) by (simp add: dsp_wf_def)
  have a: "is40 (GetLongAcc 0 s)" "is40 (GetLongAcc 1 s)" "is40 (GetLongAcc d s)" "is40 (GetLongAcc e s)"
    using r assms by (intro regs_ok_is40; simp)+
  have h: "sint (push_bit 16 (scast x :: s64)) = 2 ^ 16 * sint x" for x :: s16
    using s16_range [of x] by (subst sint_shift16) (auto simp: sint_scast_s16)
  have b: "sint (push_bit 16 (scast x :: s64)) = 2 ^ 16 * sint x" for x :: u8
    using sint_ge [of x] sint_lt [of x] by (subst sint_shift16) (auto simp: sint_scast_s8)
  show ?thesis
    using compare_acc_compares [OF a(1,2)]
      compare_acc_compares [OF a(3), of "push_bit 16 (scast (GetAXHigh (opfield 12 1 opc) s))"]
      compare_acc_compares [OF a(4), of "push_bit 16 (scast (PeekInstruction s))"]
      compare_acc_compares [OF a(4), of "push_bit 16 (scast (ucast opc :: u8))"] assms(2,3)
    unfolding h b
    by (simp add: cmp_op_def cmpaxh_op_def cmpi_op_def cmpis_op_def Let_def FetchInstruction_def)
qed

theorem comparisons_decide_witness: "compares 0x7fffffffff 0 (cmp_op 0x8200 max_acc_state)"
  using comparisons_decide [OF max_acc_wf refl refl, of "0x8200"]
  by (simp add: GetLongAcc_def max_acc_state_def power_on_def zero_regs_def)

end
