(* ===== verification/Dsp_Product.thy ===== *)
theory Dsp_Product
  imports Dsp_Flags
begin

text \<open>
  The multiplier and the product register: exactness of the products in the three signedness
  modes, the product register as a 40-bit accumulator, the pipelined multiply instructions, and
  the rounding of accumulators.
\<close>

section \<open>Products\<close>

lemma sint_mult_s32:
  fixes x y :: s32
  assumes "- (2 ^ 31) \<le> sint x * sint y" "sint x * sint y < 2 ^ 31"
  shows "sint (x * y) = sint x * sint y"
proof -
  have "sint (x * y) = signed_take_bit 31 (sint x * sint y)" by (simp add: sint_word_ariths)
  also have "\<dots> = sint x * sint y" using assms by (intro signed_take_bit_int_eq_self) simp_all
  finally show ?thesis .
qed

lemma sint_push1: "\<bar>sint (v :: s64)\<bar> \<le> 2 ^ 40 \<Longrightarrow> sint (push_bit 1 v) = 2 * sint v"
proof -
  assume r: "\<bar>sint v\<bar> \<le> 2 ^ 40"
  have "sint (push_bit 1 v) = signed_take_bit 63 (sint v * 2)"
    by (simp add: sint_word_ariths)
  also have "\<dots> = sint v * 2" using r by (intro signed_take_bit_int_eq_self) auto
  finally show ?thesis by simp
qed

lemma u16_range: "0 \<le> uint (a :: u16) \<and> uint a \<le> 65535"
  using unsigned_less [of a, where 'a = int] by simp

lemma s16_prod_range: "\<bar>sint (a :: s16) * sint (b :: s16)\<bar> \<le> 2 ^ 30"
proof -
  have "\<bar>sint a\<bar> * \<bar>sint b\<bar> \<le> 2 ^ 15 * 2 ^ 15"
    using s16_range [of a] s16_range [of b] by (intro mult_mono) auto
  then show ?thesis by (simp add: abs_mult)
qed

lemma mixed_prod_range: "- (65535 * 2 ^ 15) \<le> uint (a :: u16) * sint (b :: s16) \<and> uint a * sint b \<le> 65535 * 2 ^ 15"
proof -
  have "uint a * \<bar>sint b\<bar> \<le> 65535 * 2 ^ 15"
    using u16_range [of a] s16_range [of b] by (intro mult_mono) auto
  moreover have "\<bar>uint a * sint b\<bar> = uint a * \<bar>sint b\<bar>" by (simp add: abs_mult)
  ultimately show ?thesis by linarith
qed

lemma u16_prod_range: "0 \<le> uint (a :: u16) * uint (b :: u16) \<and> uint a * uint b \<le> 65535 * 65535"
proof
  show "uint a * uint b \<le> 65535 * 65535"
    by (rule mult_mono) (use u16_range [of a] u16_range [of b] in simp_all)
qed simp

lemma product_ranges:
  fixes a b :: u16
  shows "\<bar>sint a * sint b\<bar> \<le> 2 ^ 32" "\<bar>uint a * sint b\<bar> \<le> 2 ^ 32" "\<bar>uint a * uint b\<bar> \<le> 2 ^ 32"
proof -
  show "\<bar>sint a * sint b\<bar> \<le> 2 ^ 32" by (rule order_trans [OF s16_prod_range]) simp
  show "\<bar>uint a * sint b\<bar> \<le> 2 ^ 32"
    unfolding abs_le_iff using mixed_prod_range [of a b] by simp
  show "\<bar>uint a * uint b\<bar> \<le> 2 ^ 32"
    using u16_prod_range [of a b] by (simp only: abs_of_nonneg) simp
qed

lemma sint_scast_32: "sint (scast (b :: s16) :: s32) = sint b"
  using sint_ix [of b] by simp

lemma sint_ucast_32: "sint (ucast (a :: u16) :: s32) = uint a"
proof -
  have "signed_take_bit 31 (uint a) = uint a"
    using u16_range [of a] by (intro signed_take_bit_int_eq_self) (auto intro: order_trans [of _ 0])
  then show ?thesis by (simp add: signed_ucast_eq)
qed

lemma product_modes:
  fixes a b :: u16
  shows "sint (scast (scast a * scast b :: s32) :: s64) = sint a * sint b"
    and "sint (scast (ucast a * scast b :: s32) :: s64) = uint a * sint b"
    and "sint (ucast (ucast a * ucast b :: u32) :: s64) = uint a * uint b"
proof -
  show "sint (scast (scast a * scast b :: s32) :: s64) = sint a * sint b"
    using s16_prod_range [of a b] by (simp add: sint_scast_s32 sint_mult_s32 sint_scast_32 abs_le_iff)
  show "sint (scast (ucast a * scast b :: s32) :: s64) = uint a * sint b"
    using mixed_prod_range [of a b]
    by (simp add: sint_scast_s32 sint_mult_s32 sint_scast_32 sint_ucast_32)
  have "uint (ucast a * ucast b :: u32) = (uint a * uint b) mod 2 ^ LENGTH(32)"
    by (simp only: uint_word_ariths uint_wr)
  also have "\<dots> = uint a * uint b" using u16_prod_range [of a b] by (intro mod_pos_pos_trivial) simp_all
  finally have u: "uint (ucast a * ucast b :: u32) = uint a * uint b" .
  have "signed_take_bit 63 (uint a * uint b) = uint a * uint b"
    using u16_prod_range [of a b]
    by (intro signed_take_bit_int_eq_self) (auto intro: order_trans [of _ 0])
  then show "sint (ucast (ucast a * ucast b :: u32) :: s64) = uint a * uint b"
    by (simp add: signed_ucast_eq u)
qed

text \<open>The exact product of a mode: 1 is unsigned, 2 is mixed, both only with \<open>SR_MUL_UNSIGNED\<close>.\<close>

definition exact_product :: "u16 \<Rightarrow> u16 \<Rightarrow> nat \<Rightarrow> SDSP \<Rightarrow> int" where
  "exact_product a b sign s =
    (if IsSRFlagSet SR_MUL_MODIFY s then 1 else 2) *
    (if sign = 1 \<and> IsSRFlagSet SR_MUL_UNSIGNED s then uint a * uint b
     else if sign = 2 \<and> IsSRFlagSet SR_MUL_UNSIGNED s then uint a * sint b
     else sint a * sint b)"

lemma GetMultiplyProduct_exact: "sint (GetMultiplyProduct a b sign s) = exact_product a b sign s"
proof -
  define p where "p = (if sign = 1 \<and> IsSRFlagSet SR_MUL_UNSIGNED s then ucast (ucast a * ucast b :: u32)
                 else if sign = 2 \<and> IsSRFlagSet SR_MUL_UNSIGNED s then scast (ucast a * scast b :: s32)
                 else scast (scast a * scast b :: s32) :: s64)"
  have "sint p = (if sign = 1 \<and> IsSRFlagSet SR_MUL_UNSIGNED s then uint a * uint b
     else if sign = 2 \<and> IsSRFlagSet SR_MUL_UNSIGNED s then uint a * sint b
     else sint a * sint b)"
    by (simp add: p_def product_modes)
  moreover from this have "\<bar>sint p\<bar> \<le> 2 ^ 40"
    using product_ranges [of a b] by (auto split: if_splits)
  ultimately show ?thesis
    unfolding GetMultiplyProduct_def Let_def p_def [symmetric] exact_product_def
    by (cases "IsSRFlagSet SR_MUL_MODIFY s") (simp_all only: sint_push1 simp_thms if_True if_False mult_1)
qed

lemma exact_product_range: "\<bar>exact_product a b sign s\<bar> \<le> 2 ^ 33"
proof -
  have "\<bar>k * x\<bar> \<le> 2 ^ 33" if "\<bar>x\<bar> \<le> 2 ^ 32" "k = 1 \<or> k = 2" for k x :: int
    using that by auto
  then show ?thesis
    unfolding exact_product_def using product_ranges [of a b] by (auto split: if_splits)
qed

section \<open>The product register\<close>

lemma long_product_masked: "long_product (v AND 0xFFFFFFFFFF) = sext40 v"
proof -
  have m: "(0xFFFFFFFFFF :: u64) = mask 40" by (simp add: mask_eq_exp_minus_1)
  have m2: "prod_m2 (v AND mask 40) = 0"
    by (rule bit_word_eqI) (auto simp: prod_m2_def bit_slice16 bit_simps)
  define hi where "hi = push_bit 32 (scast (ucast (prod_h (v AND mask 40)) :: u8) :: s64)"
  define lo where "lo = (push_bit 16 (ucast (prod_m (v AND mask 40)) :: s64) OR ucast (prod_l (v AND mask 40)))"
  have hi: "bit hi n \<longleftrightarrow> 32 \<le> n \<and> n < 64 \<and> bit v (min n 39)" for n
  proof (cases "n \<le> 39 \<and> 7 \<le> n - 32")
    case True
    then have "n = 39" by auto
    then show ?thesis by (simp add: hi_def prod_h_def bit_slice16 bit_simps)
  qed (auto simp: hi_def prod_h_def bit_slice16 bit_simps min_def)
  have lo: "bit lo n \<longleftrightarrow> n < 32 \<and> bit v n" for n
    by (auto simp: lo_def prod_m_def prod_l_def bit_slice16 bit_simps dest: bit_imp_le_length)
  have "hi AND lo = 0" by (rule bit_word_eqI) (auto simp: bit_and_iff hi lo)
  then have "hi + lo = hi OR lo" by (rule disjunctive_add_eq_or)
  moreover have "hi OR lo = sext40 v"
    by (rule bit_word_eqI) (auto simp: bit_or_iff hi lo bit_sext40 min_def)
  ultimately show ?thesis
    unfolding long_product_def Let_def m m2 hi_def [symmetric] by (simp add: lo_def)
qed

lemma GetLongProduct_SetLongProduct [simp]: "GetLongProduct (SetLongProduct v s) = sext40 v"
  by (simp add: GetLongProduct_def SetLongProduct_def long_product_masked)

lemma sint_GetLongProduct_set: "sint (GetLongProduct (SetLongProduct v s)) = wrap40 (sint v)"
  by (simp add: sint_sext40 wrap40_def)

lemma GetLongProduct_frame [simp]:
  "GetLongProduct (SetLongAcc d v s) = GetLongProduct s"
  "GetLongProduct (UpdateSR64 v c ovf s) = GetLongProduct s"
  "GetLongProduct (ZeroWriteBackLog s) = GetLongProduct s"
  by (simp_all add: GetLongProduct_def SetLongAcc_def UpdateSR64_def ZeroWriteBackLog_def)

lemma GetLongAcc_SetLongProduct [simp]: "GetLongAcc d (SetLongProduct v s) = GetLongAcc d s"
  by (simp add: GetLongAcc_def SetLongProduct_def)

lemma fits40_product: "fits40 (exact_product a b sign s)"
  using exact_product_range [of a b sign s] by (auto simp: fits40_def abs_le_iff)

text \<open>The value of the four product registers, with no assumption on them.\<close>

definition product_value :: "u64 \<Rightarrow> int" where
  "product_value p =
    sint (ucast (prod_h p) :: u8) * 2 ^ 32 + (uint (prod_m p) + uint (prod_m2 p)) * 2 ^ 16 + uint (prod_l p)"

lemma product_value_range: "\<bar>product_value p\<bar> \<le> 2 ^ 40"
proof -
  have "- (2 ^ 7) \<le> sint (ucast (prod_h p) :: u8)" "sint (ucast (prod_h p) :: u8) < 2 ^ 7"
    using sint_ge [of "ucast (prod_h p) :: u8"] sint_lt [of "ucast (prod_h p) :: u8"] by simp_all
  moreover have "\<bar>h * 2 ^ 32 + (m + m2) * 2 ^ 16 + l\<bar> \<le> 2 ^ 40"
    if "- (2 ^ 7) \<le> h" "h < 2 ^ 7" "0 \<le> m \<and> m \<le> 65535" "0 \<le> m2 \<and> m2 \<le> 65535" "0 \<le> l \<and> l \<le> 65535"
    for h m m2 l :: int
    using that by (auto simp: abs_le_iff)
  ultimately show ?thesis unfolding product_value_def using u16_range by blast
qed

lemma sint_ucast_u16_64: "sint (ucast (y :: u16) :: s64) = uint y"
  by (rule sint_uint_u16)

lemma sint_long_product: "sint (long_product p) = product_value p"
proof -
  let ?h = "ucast (prod_h p) :: u8" and ?m = "ucast (prod_m p) + ucast (prod_m2 p) :: s64" and ?l = "ucast (prod_l p) :: s64"
  have "bit (push_bit 16 ?m) n \<Longrightarrow> \<not> bit ?l n" for n
    by (auto simp: bit_simps dest: bit_imp_le_length)
  then have "push_bit 16 ?m AND ?l = 0" by (intro bit_word_eqI) (auto simp: bit_and_iff)
  then have o: "push_bit 16 ?m OR ?l = push_bit 16 ?m + ?l" by (rule disjunctive_add_eq_or [symmetric])
  have m: "sint ?m = uint (prod_m p) + uint (prod_m2 p)"
    using u16_range [of "prod_m p"] u16_range [of "prod_m2 p"]
    by (subst sint_add_exact) (auto simp: sint_ucast_u16_64)
  have ms: "sint (push_bit 16 ?m) = (uint (prod_m p) + uint (prod_m2 p)) * 2 ^ 16"
    using m u16_range [of "prod_m p"] u16_range [of "prod_m2 p"] by (subst sint_shift16) auto
  have h7: "- (2 ^ 7) \<le> sint ?h" "sint ?h < 2 ^ 7" using sint_ge [of ?h] sint_lt [of ?h] by simp_all
  have "sint (push_bit 32 (scast ?h :: s64)) = signed_take_bit 63 (sint ?h * 2 ^ 32)"
    by (simp add: push_bit_eq_mult sint_word_ariths sint_scast_s8)
  also have "\<dots> = sint ?h * 2 ^ 32" using h7 by (intro signed_take_bit_int_eq_self) auto
  finally have h: "sint (push_bit 32 (scast ?h :: s64)) = sint ?h * 2 ^ 32" .
  have lo: "sint (push_bit 16 ?m + ?l) = (uint (prod_m p) + uint (prod_m2 p)) * 2 ^ 16 + uint (prod_l p)"
    using ms u16_range [of "prod_m p"] u16_range [of "prod_m2 p"] u16_range [of "prod_l p"]
    by (subst sint_add_exact) (auto simp: sint_ucast_u16_64)
  have "sint (push_bit 32 (scast ?h :: s64) + (push_bit 16 ?m + ?l)) =
      sint ?h * 2 ^ 32 + ((uint (prod_m p) + uint (prod_m2 p)) * 2 ^ 16 + uint (prod_l p))"
    using h lo h7 u16_range [of "prod_m p"] u16_range [of "prod_m2 p"] u16_range [of "prod_l p"]
    by (subst sint_add_exact) auto
  then show ?thesis unfolding long_product_def Let_def o product_value_def by simp
qed

lemma sint_GetLongProduct: "sint (GetLongProduct s) = product_value (r_prod (regs s))"
  by (simp add: GetLongProduct_def sint_long_product)

lemma GetLongProduct_range: "\<bar>sint (GetLongProduct s)\<bar> \<le> 2 ^ 40"
  unfolding sint_GetLongProduct by (rule product_value_range)

lemma sint_MultiplyAdd: "sint (MultiplyAdd a b n s) = sint (GetLongProduct s) + exact_product a b n s"
  unfolding MultiplyAdd_def using GetLongProduct_range [of s] exact_product_range [of a b n s]
  by (subst sint_add_exact) (auto simp: GetMultiplyProduct_exact)

lemma sint_MultiplySub: "sint (MultiplySub a b n s) = sint (GetLongProduct s) - exact_product a b n s"
  unfolding MultiplySub_def using GetLongProduct_range [of s] exact_product_range [of a b n s]
  by (subst sint_sub_exact) (auto simp: GetMultiplyProduct_exact)

lemma sint_Multiply: "sint (Multiply a b n s) = exact_product a b n s"
  by (simp add: Multiply_def GetMultiplyProduct_exact)

lemma GetLongProduct_store:
  "sint (GetLongProduct (store_prod v s)) = wrap40 (sint v)"
  "sint (GetLongProduct (store_prod_acc v r a s)) = wrap40 (sint v)"
  "GetLongAcc r (store_prod_acc v r a s) = sext40 a"
  by (simp_all add: store_prod_def store_prod_acc_def Let_def sint_GetLongProduct_set
      del: GetLongProduct_SetLongProduct)

section \<open>Properties\<close>

text \<open>The signedness of a \<open>mulx\<close> product: low parts are unsigned, high parts are signed.\<close>

definition mulx_product :: "nat \<Rightarrow> nat \<Rightarrow> u16 \<Rightarrow> u16 \<Rightarrow> SDSP \<Rightarrow> int" where
  "mulx_product sreg treg x y s =
    (if IsSRFlagSet SR_MUL_MODIFY s then 1 else 2) *
    (if \<not> IsSRFlagSet SR_MUL_UNSIGNED s then sint x * sint y
     else (if sreg = 0 then uint x else sint x) * (if treg = 0 then uint y else sint y))"

lemma sint_MultiplyMulX:
  "sreg < 2 \<Longrightarrow> treg < 2 \<Longrightarrow> sint (MultiplyMulX sreg treg x y s) = mulx_product sreg treg x y s"
  by (auto simp: MultiplyMulX_def sint_Multiply exact_product_def mulx_product_def)

lemma fits40_mulx: "sreg < 2 \<Longrightarrow> treg < 2 \<Longrightarrow> fits40 (mulx_product sreg treg x y s)"
proof -
  have "fits40 (sint (MultiplyMulX sreg treg x y s))"
    by (auto simp: MultiplyMulX_def sint_Multiply fits40_product)
  then show "sreg < 2 \<Longrightarrow> treg < 2 \<Longrightarrow> ?thesis" by (simp add: sint_MultiplyMulX)
qed

text \<open>
  C31: the multiply instructions leave the exact product in the product register: signed, or
  with \<open>SR_MUL_UNSIGNED\<close> and a \<open>mulx\<close> form unsigned for the low halves of the secondary
  accumulators, and doubled unless \<open>SR_MUL_MODIFY\<close> is set; \<open>clrp\<close> leaves the value zero, which
  it represents as \<open>ff.fff0 + 0010\<close> in the registers.
\<close>

theorem products_exact:
  "let d = opfield 11 1 opc; q = opfield 12 1 opc in
    sint (GetLongProduct (mul_op opc s)) = exact_product (GetAXHigh d s) (GetAXLow d s) 0 s \<and>
    sint (GetLongProduct (mulaxh_op opc s)) = exact_product (GetAXHigh 0 s) (GetAXHigh 0 s) 0 s \<and>
    sint (GetLongProduct (mulc_op opc s)) = exact_product (GetAccMid q s) (GetAXHigh d s) 0 s \<and>
    sint (GetLongProduct (mulx_op opc s)) = mulx_product q d (ax_half q 0 s) (ax_half d 1 s) s \<and>
    GetLongProduct (clrp_op opc s) = 0"
proof -
  have "sint (GetLongProduct (clrp_op opc s)) = 0"
    by (simp add: sint_GetLongProduct clrp_op_def product_value_def prod_h_def prod_m_def prod_l_def
        prod_m2_def set_prod_l_def set_prod_m_def set_prod_h_def set_prod_m2_def slice16_put16_other)
  then show ?thesis
    by (simp add: Let_def mul_op_def mulaxh_op_def mulc_op_def mulx_op_def GetLongProduct_store
        sint_Multiply sint_MultiplyMulX fits40_product fits40_mulx)
qed

text \<open>
  multiply-and-accumulate adds the exact product to the old product, or subtracts it, in
  40-bit two's complement.
\<close>

theorem multiply_accumulate_exact:
  "let p = sint (GetLongProduct s); q = opfield 8 1 opc; r = opfield 9 1 opc in
    sint (GetLongProduct (madd_op opc s)) = wrap40 (p + exact_product (GetAXLow q s) (GetAXHigh q s) 0 s) \<and>
    sint (GetLongProduct (msub_op opc s)) = wrap40 (p - exact_product (GetAXLow q s) (GetAXHigh q s) 0 s) \<and>
    sint (GetLongProduct (maddx_op opc s)) = wrap40 (p + exact_product (ax_half r 0 s) (ax_half q 1 s) 0 s) \<and>
    sint (GetLongProduct (msubx_op opc s)) = wrap40 (p - exact_product (ax_half r 0 s) (ax_half q 1 s) 0 s) \<and>
    sint (GetLongProduct (maddc_op opc s)) = wrap40 (p + exact_product (GetAccMid r s) (GetAXHigh q s) 0 s) \<and>
    sint (GetLongProduct (msubc_op opc s)) = wrap40 (p - exact_product (GetAccMid r s) (GetAXHigh q s) 0 s)"
  by (simp add: Let_def madd_op_def msub_op_def maddx_op_def msubx_op_def maddc_op_def msubc_op_def
      GetLongProduct_store sint_MultiplyAdd sint_MultiplySub)

section \<open>Rounding\<close>

text \<open>Rounding to a multiple of \<open>2^16\<close>, halves to the even multiple.\<close>

definition round_half_even :: "int \<Rightarrow> int" where
  "round_half_even v =
    (let q = v div 2 ^ 16; r = v mod 2 ^ 16
     in if r < 2 ^ 15 \<or> r = 2 ^ 15 \<and> even q then q * 2 ^ 16 else (q + 1) * 2 ^ 16)"

lemma and_not_low16: "sint (x AND NOT 0xffff :: s64) = (sint x div 2 ^ 16) * 2 ^ 16"
proof -
  have m: "(0xffff :: s64) = mask 16" by (simp add: mask_eq_exp_minus_1)
  have "sint (x AND NOT (mask 16)) = push_bit 16 (drop_bit 16 (sint x))"
    by (rule bit_eqI) (auto simp: bit_simps min_def)
  then show ?thesis unfolding m by (simp add: push_bit_eq_mult drop_bit_eq_div)
qed

lemma bit16_odd: "x AND 0x10000 \<noteq> 0 \<longleftrightarrow> odd (sint (x :: s64) div 2 ^ 16)"
proof -
  have "x AND 0x10000 \<noteq> 0 \<longleftrightarrow> bit x 16"
    using and_exp_eq_0_iff_not_bit [of x 16] by simp
  also have "\<dots> \<longleftrightarrow> bit (sint x) 16" by (simp add: bit_simps)
  finally show ?thesis by (simp add: bit_iff_odd)
qed

lemma round_up_cases:
  fixes v :: int
  shows "(v + 0x8000) div 2 ^ 16 = (if v mod 2 ^ 16 < 2 ^ 15 then v div 2 ^ 16 else v div 2 ^ 16 + 1)"
    and "(v + 0x7fff) div 2 ^ 16 = (if v mod 2 ^ 16 \<le> 2 ^ 15 then v div 2 ^ 16 else v div 2 ^ 16 + 1)"
proof -
  have v: "v = 2 ^ 16 * (v div 2 ^ 16) + v mod 2 ^ 16" by simp
  have r: "0 \<le> v mod 2 ^ 16" "v mod 2 ^ 16 < 2 ^ 16" by simp_all
  show "(v + 0x8000) div 2 ^ 16 = (if v mod 2 ^ 16 < 2 ^ 15 then v div 2 ^ 16 else v div 2 ^ 16 + 1)"
  proof (cases "v mod 2 ^ 16 < 2 ^ 15")
    case True
    then show ?thesis using v r by (simp add: int_div_pos_eq [of _ _ _ "v mod 2 ^ 16 + 0x8000"])
  next
    case False
    then show ?thesis using v r by (simp add: int_div_pos_eq [of _ _ _ "v mod 2 ^ 16 - 0x8000"])
  qed
  show "(v + 0x7fff) div 2 ^ 16 = (if v mod 2 ^ 16 \<le> 2 ^ 15 then v div 2 ^ 16 else v div 2 ^ 16 + 1)"
  proof (cases "v mod 2 ^ 16 \<le> 2 ^ 15")
    case True
    then show ?thesis using v r by (simp add: int_div_pos_eq [of _ _ _ "v mod 2 ^ 16 + 0x7fff"])
  next
    case False
    then show ?thesis using v r by (simp add: int_div_pos_eq [of _ _ _ "v mod 2 ^ 16 - 0x8001"])
  qed
qed

lemma sint_round_long_acc:
  assumes "\<bar>sint v\<bar> \<le> 2 ^ 41"
  shows "sint (dsp_round_long_acc v) = round_half_even (sint v)"
proof -
  have a: "sint (v + 0x8000) = sint v + 0x8000" "sint (v + 0x7fff) = sint v + 0x7fff"
    using assms by (subst sint_add_exact; auto)+
  show ?thesis
    unfolding dsp_round_long_acc_def round_half_even_def Let_def bit16_odd if_distrib [of sint]
      and_not_low16 a round_up_cases
    by (auto simp: not_less)
qed

lemma sint_product_rounded: "sint (GetLongProductRounded s) = round_half_even (sint (GetLongProduct s))"
proof -
  have "GetLongProductRounded s = dsp_round_long_acc (GetLongProduct s)"
    by (simp add: GetLongProductRounded_def dsp_round_long_acc_def Let_def)
  then show ?thesis using GetLongProduct_range [of s] by (simp add: sint_round_long_acc)
qed

lemma GetLongAcc_move_acc: "sint (GetLongAcc d (move_acc d v s)) = wrap40 (sint v)"
  by (simp add: move_acc_def sint_sext40 wrap40_def)

text \<open>
  \<open>clrl\<close> rounds an accumulator to the nearest multiple of \<open>2^16\<close>, halves to even, and
  \<open>movpz\<close> and the \<open>mulmvz\<close> family do the same to the product they move into an accumulator.
\<close>

theorem rounding_is_half_even:
  assumes "dsp_wf s" "d = opfield 8 1 opc"
  shows "sint (GetLongAcc d (clrl_op opc s)) = wrap40 (round_half_even (sint (GetLongAcc d s))) \<and>
    sint (GetLongAcc d (movpz_op opc s)) = wrap40 (round_half_even (sint (GetLongProduct s))) \<and>
    sint (GetLongAcc d (mulmvz_op opc s)) = wrap40 (round_half_even (sint (GetLongProduct s))) \<and>
    sint (GetLongAcc d (mulxmvz_op opc s)) = wrap40 (round_half_even (sint (GetLongProduct s))) \<and>
    sint (GetLongAcc d (mulcmvz_op opc s)) = wrap40 (round_half_even (sint (GetLongProduct s)))"
proof -
  have "is40 (GetLongAcc d s)" using assms by (intro regs_ok_is40) (auto simp: dsp_wf_def)
  then have "\<bar>sint (GetLongAcc d s)\<bar> \<le> 2 ^ 41" by (auto simp: is40_range)
  then show ?thesis
    by (simp add: assms(2) Let_def clrl_op_def movpz_op_def mulmvz_op_def mulxmvz_op_def mulcmvz_op_def
        GetLongAcc_move_acc sint_round_long_acc sint_product_rounded GetLongProduct_store
        sint_sext40 wrap40_def [symmetric])
qed

text \<open>The largest accumulator rounds up out of the 40 bits: the result wraps to the minimum.\<close>

theorem rounding_is_half_even_witness:
  "sint (GetLongAcc 0 (clrl_op 0xfc00 max_acc_state)) = - (2 ^ 39)"
proof -
  have "sint (GetLongAcc 0 max_acc_state) = 0x7fffffffff"
    by (simp add: GetLongAcc_def max_acc_state_def power_on_def zero_regs_def)
  moreover have "wrap40 (round_half_even 0x7fffffffff) = - (2 ^ 39)"
    using wrap40_cases [of "2 ^ 39"] by (simp add: round_half_even_def Let_def)
  ultimately show ?thesis
    using rounding_is_half_even [OF max_acc_wf refl, of "0xfc00"] by (simp add: opfield_def)
qed

text \<open>
  \<open>clrl\<close> computes its flags from the rounded value before it is cut to 40 bits: when the
  rounding leaves the 40 bits the accumulator is negative and the sign flag says it is not.
\<close>

theorem clrl_sign_flag_ignores_wrap:
  "sint (GetLongAcc 0 (clrl_op 0xfc00 max_acc_state)) < 0 \<and>
    \<not> IsSRFlagSet SR_SIGN (clrl_op 0xfc00 max_acc_state)"
proof -
  have a: "GetLongAcc 0 max_acc_state = 0x7fffffffff"
    by (simp add: GetLongAcc_def max_acc_state_def power_on_def zero_regs_def)
  have r: "dsp_round_long_acc 0x7fffffffff = 0x8000000000"
    by (simp add: dsp_round_long_acc_def)
  have "wrap40 0x8000000000 < 0" using wrap40_cases [of "2 ^ 39"] by simp
  then have "sint (GetLongAcc 0 (clrl_op 0xfc00 max_acc_state)) < 0"
    by (simp add: clrl_op_def Let_def opfield_def a r GetLongAcc_move_acc)
  moreover have "\<not> IsSRFlagSet SR_SIGN (clrl_op 0xfc00 max_acc_state)"
    by (simp add: clrl_op_def Let_def opfield_def a r move_acc_def sr_UpdateSR64 bit_sr64)
  ultimately show ?thesis ..
qed

text \<open>A pipelined family: the plain form, the one that accumulates and the one that moves.\<close>

definition pipelined :: "(u16 \<Rightarrow> SDSP \<Rightarrow> SDSP) \<Rightarrow> (u16 \<Rightarrow> SDSP \<Rightarrow> SDSP) \<Rightarrow> (u16 \<Rightarrow> SDSP \<Rightarrow> SDSP) \<Rightarrow>
    u16 \<Rightarrow> SDSP \<Rightarrow> bool" where
  "pipelined plain accumulate move opc s \<longleftrightarrow>
    (let r = opfield 8 1 opc; old = sint (GetLongProduct s) in
      sint (GetLongAcc r (accumulate opc s)) = wrap40 (sint (GetLongAcc r s) + old) \<and>
      sint (GetLongAcc r (move opc s)) = wrap40 old \<and>
      GetLongProduct (accumulate opc s) = GetLongProduct (plain opc s) \<and>
      GetLongProduct (move opc s) = GetLongProduct (plain opc s))"

lemma Multiply_commute: "Multiply a b 0 s = Multiply b a 0 s"
  by (rule sint64_inj) (simp add: sint_Multiply exact_product_def mult.commute)

lemma pipelined_store:
  assumes "dsp_wf s" "\<And>s. plain opc s = store_prod (f s) s"
    "accumulate opc s = store_prod_acc (f s) (opfield 8 1 opc) (GetLongAcc (opfield 8 1 opc) s + GetLongProduct s) s"
    "move opc s = store_prod_acc (f s) (opfield 8 1 opc) (GetLongProduct s) s"
  shows "pipelined plain accumulate move opc s"
proof -
  have "is40 (GetLongAcc (opfield 8 1 opc) s)" using assms by (intro regs_ok_is40) (auto simp: dsp_wf_def)
  then have "sint (GetLongAcc (opfield 8 1 opc) s + GetLongProduct s) =
      sint (GetLongAcc (opfield 8 1 opc) s) + sint (GetLongProduct s)"
    using GetLongProduct_range [of s] is40_bound by (intro sint_add_exact) auto
  moreover have "GetLongProduct (store_prod_acc v r a s) = GetLongProduct (store_prod v s)" for v r a
    by (rule sint64_inj) (simp add: GetLongProduct_store)
  ultimately show ?thesis
    by (simp add: pipelined_def Let_def assms(2-4) GetLongProduct_store sint_sext40 wrap40_def)
qed

text \<open>
  The pipelined forms work on the old product: \<open>mulac\<close>, \<open>mulxac\<close> and \<open>mulcac\<close> add it to an
  accumulator, \<open>mulmv\<close>, \<open>mulxmv\<close> and \<open>mulcmv\<close> move it there, and each leaves the same new product
  as the plain form.
\<close>

theorem pipelined_multiplies:
  assumes "dsp_wf s"
  shows "pipelined mul_op mulac_op mulmv_op opc s \<and> pipelined mulx_op mulxac_op mulxmv_op opc s \<and>
    pipelined mulc_op mulcac_op mulcmv_op opc s"
  by (intro conjI; rule pipelined_store [OF assms])
    (simp_all add: mul_op_def mulac_op_def mulmv_op_def mulx_op_def mulxac_op_def mulxmv_op_def
      mulc_op_def mulcac_op_def mulcmv_op_def Let_def Multiply_commute)

theorem pipelined_multiplies_witness: "pipelined mulc_op mulcac_op mulcmv_op 0xc000 max_acc_state"
  using pipelined_multiplies [OF max_acc_wf] by blast

end
