(* ===== verification/Dsp_LoadStore.thy ===== *)
theory Dsp_LoadStore
  imports Dsp_Interp
begin

text \<open>
  The load and store instructions of \<open>Core/DSP/Interpreter/DSPIntLoadStore.cpp\<close> and the
  register moves, address register updates and mode bits of \<open>DSPIntMisc.cpp\<close>.
\<close>

section \<open>Loads and stores\<close>

text \<open>\<open>(cr << 8) | (opc & 0xFF)\<close>, the address of the short forms.\<close>

definition short_addr :: "u16 \<Rightarrow> SDSP \<Rightarrow> u16" where
  "short_addr opc s = push_bit 8 (r_cr (regs s)) OR (opc AND 0xFF)"

text \<open>\<open>WriteDMEM(addr, OpReadRegister(reg))\<close>, and a load into a register.\<close>

definition store_register :: "u16 \<Rightarrow> nat \<Rightarrow> SDSP \<Rightarrow> SDSP" where
  "store_register addr reg s = (case OpReadRegister reg s of (val, s1) \<Rightarrow> WriteDMEM addr val s1)"

definition load_register :: "nat \<Rightarrow> u16 \<Rightarrow> SDSP \<Rightarrow> SDSP" where
  "load_register reg addr s =
    (case ReadDMEM addr s of (val, s1) \<Rightarrow> ConditionalExtendAccum reg (OpWriteRegister reg val s1))"

definition srsh_op :: "u16 \<Rightarrow> SDSP \<Rightarrow> SDSP" where [op_defs]:
  "srsh_op opc s =
    store_register (short_addr opc s) (opfield 8 1 opc + DSP_REG_ACH0) s"

definition srs_op :: "u16 \<Rightarrow> SDSP \<Rightarrow> SDSP" where [op_defs]:
  "srs_op opc s =
    store_register (short_addr opc s) (opfield 8 3 opc + DSP_REG_ACL0) s"

definition lrs_op :: "u16 \<Rightarrow> SDSP \<Rightarrow> SDSP" where [op_defs]:
  "lrs_op opc s =
    load_register (opfield 8 7 opc + 0x18) (short_addr opc s) s"

definition lr_op :: "u16 \<Rightarrow> SDSP \<Rightarrow> SDSP" where [op_defs]:
  "lr_op opc s =
    (case FetchInstruction s of (addr, s1) \<Rightarrow> load_register (opfield 0 0x1F opc) addr s1)"

definition sr_op :: "u16 \<Rightarrow> SDSP \<Rightarrow> SDSP" where [op_defs]:
  "sr_op opc s =
    (case FetchInstruction s of (addr, s1) \<Rightarrow> store_register addr (opfield 0 0x1F opc) s1)"

definition si_op :: "u16 \<Rightarrow> SDSP \<Rightarrow> SDSP" where [op_defs]:
  "si_op opc s =
    (case FetchInstruction s of (imm, s1) \<Rightarrow> WriteDMEM (scast (ucast opc :: u8)) imm s1)"

text \<open>\<open>ReadDMEM(OpReadRegister(sreg))\<close> for an address register.\<close>

definition load_indirect :: "nat \<Rightarrow> nat \<Rightarrow> SDSP \<Rightarrow> SDSP" where
  "load_indirect dreg sreg s =
    (case OpReadRegister sreg s of (addr, s1) \<Rightarrow> load_register dreg addr s1)"

definition lrr_op :: "u16 \<Rightarrow> SDSP \<Rightarrow> SDSP" where [op_defs]:
  "lrr_op opc s =
    load_indirect (opfield 0 0x1f opc) (opfield 5 3 opc) s"

definition lrrd_op :: "u16 \<Rightarrow> SDSP \<Rightarrow> SDSP" where [op_defs]:
  "lrrd_op opc s =
    (let sreg = opfield 5 3 opc; s1 = load_indirect (opfield 0 0x1f opc) sreg s
     in set_ar sreg (DecrementAddressRegister sreg s1) s1)"

definition lrri_op :: "u16 \<Rightarrow> SDSP \<Rightarrow> SDSP" where [op_defs]:
  "lrri_op opc s =
    (let sreg = opfield 5 3 opc; s1 = load_indirect (opfield 0 0x1f opc) sreg s
     in set_ar sreg (IncrementAddressRegister sreg s1) s1)"

definition lrrn_op :: "u16 \<Rightarrow> SDSP \<Rightarrow> SDSP" where [op_defs]:
  "lrrn_op opc s =
    (let sreg = opfield 5 3 opc; s1 = load_indirect (opfield 0 0x1f opc) sreg s
     in set_ar sreg (IncreaseAddressRegister sreg (ix_of s1 sreg) s1) s1)"

definition srr_op :: "u16 \<Rightarrow> SDSP \<Rightarrow> SDSP" where [op_defs]:
  "srr_op opc s =
    store_register (ar_of s (opfield 5 3 opc)) (opfield 0 0x1f opc) s"

definition srrd_op :: "u16 \<Rightarrow> SDSP \<Rightarrow> SDSP" where [op_defs]:
  "srrd_op opc s =
    (let dreg = opfield 5 3 opc; s1 = store_register (ar_of s dreg) (opfield 0 0x1f opc) s
     in set_ar dreg (DecrementAddressRegister dreg s1) s1)"

definition srri_op :: "u16 \<Rightarrow> SDSP \<Rightarrow> SDSP" where [op_defs]:
  "srri_op opc s =
    (let dreg = opfield 5 3 opc; s1 = store_register (ar_of s dreg) (opfield 0 0x1f opc) s
     in set_ar dreg (IncrementAddressRegister dreg s1) s1)"

definition srrn_op :: "u16 \<Rightarrow> SDSP \<Rightarrow> SDSP" where [op_defs]:
  "srrn_op opc s =
    (let dreg = opfield 5 3 opc; s1 = store_register (ar_of s dreg) (opfield 0 0x1f opc) s
     in set_ar dreg (IncreaseAddressRegister dreg (ix_of s1 dreg) s1) s1)"

text \<open>Loads from instruction memory into the middle part of an accumulator.\<close>

definition load_imem :: "u16 \<Rightarrow> nat \<Rightarrow> SDSP \<Rightarrow> SDSP" where
  "load_imem opc reg s =
    (let dreg = DSP_REG_ACM0 + opfield 8 1 opc
     in ConditionalExtendAccum dreg
          (upd_ac (dreg - DSP_REG_ACM0) (set_ac_m (ReadIMEM (ar_of s reg) s)) s))"

definition ilrr_op :: "u16 \<Rightarrow> SDSP \<Rightarrow> SDSP" where [op_defs]:
  "ilrr_op opc s =
    load_imem opc (opfield 0 3 opc) s"

definition ilrrd_op :: "u16 \<Rightarrow> SDSP \<Rightarrow> SDSP" where [op_defs]:
  "ilrrd_op opc s =
    (let reg = opfield 0 3 opc; s1 = load_imem opc reg s
     in set_ar reg (DecrementAddressRegister reg s1) s1)"

definition ilrri_op :: "u16 \<Rightarrow> SDSP \<Rightarrow> SDSP" where [op_defs]:
  "ilrri_op opc s =
    (let reg = opfield 0 3 opc; s1 = load_imem opc reg s
     in set_ar reg (IncrementAddressRegister reg s1) s1)"

definition ilrrn_op :: "u16 \<Rightarrow> SDSP \<Rightarrow> SDSP" where [op_defs]:
  "ilrrn_op opc s =
    (let reg = opfield 0 3 opc; s1 = load_imem opc reg s
     in set_ar reg (IncreaseAddressRegister reg (ix_of s1 reg) s1) s1)"

section \<open>Register moves and immediates\<close>

definition mrr_op :: "u16 \<Rightarrow> SDSP \<Rightarrow> SDSP" where [op_defs]:
  "mrr_op opc s =
    (let sreg = opfield 0 0x1f opc; dreg = opfield 5 0x1f opc
     in case OpReadRegister sreg s of (val, s1) \<Rightarrow>
          ConditionalExtendAccum dreg (OpWriteRegister dreg val s1))"

definition lri_op :: "u16 \<Rightarrow> SDSP \<Rightarrow> SDSP" where [op_defs]:
  "lri_op opc s =
    (let reg = opfield 0 0x1F opc
     in case FetchInstruction s of (imm, s1) \<Rightarrow>
          ConditionalExtendAccum reg (OpWriteRegister reg imm s1))"

definition lris_op :: "u16 \<Rightarrow> SDSP \<Rightarrow> SDSP" where [op_defs]:
  "lris_op opc s =
    (let reg = opfield 8 7 opc + DSP_REG_AXL0; imm = scast (ucast opc :: u8)
     in ConditionalExtendAccum reg (OpWriteRegister reg imm s))"

definition nx_op :: "u16 \<Rightarrow> SDSP \<Rightarrow> SDSP" where [op_defs]:
  "nx_op opc s =
    ZeroWriteBackLog s"

section \<open>Address registers\<close>

definition dar_op :: "u16 \<Rightarrow> SDSP \<Rightarrow> SDSP" where [op_defs]:
  "dar_op opc s =
    (let index = opfield 0 3 opc in set_ar index (DecrementAddressRegister index s) s)"

definition iar_op :: "u16 \<Rightarrow> SDSP \<Rightarrow> SDSP" where [op_defs]:
  "iar_op opc s =
    (let index = opfield 0 3 opc in set_ar index (IncrementAddressRegister index s) s)"

definition subarn_op :: "u16 \<Rightarrow> SDSP \<Rightarrow> SDSP" where [op_defs]:
  "subarn_op opc s =
    (let dreg = opfield 0 3 opc in set_ar dreg (DecreaseAddressRegister dreg (ix_of s dreg) s) s)"

definition addarn_op :: "u16 \<Rightarrow> SDSP \<Rightarrow> SDSP" where [op_defs]:
  "addarn_op opc s =
    (let dreg = opfield 0 3 opc; sreg = opfield 2 3 opc
     in set_ar dreg (IncreaseAddressRegister dreg (ix_of s sreg) s) s)"

section \<open>Status register bits\<close>

definition sbclr_op :: "u16 \<Rightarrow> SDSP \<Rightarrow> SDSP" where [op_defs]:
  "sbclr_op opc s =
    upd_sr (\<lambda>sr. sr AND NOT (push_bit (opfield 0 7 opc + 6) 1)) s"

definition sbset_op :: "u16 \<Rightarrow> SDSP \<Rightarrow> SDSP" where [op_defs]:
  "sbset_op opc s =
    upd_sr (\<lambda>sr. sr OR push_bit (opfield 0 7 opc + 6) 1) s"

definition srbith_op :: "u16 \<Rightarrow> SDSP \<Rightarrow> SDSP" where [op_defs]:
  "srbith_op opc s =
    (let s1 = ZeroWriteBackLog s; k = opfield 8 7 opc in
     if k = 2 then upd_sr (\<lambda>sr. sr AND NOT SR_MUL_MODIFY) s1
     else if k = 3 then upd_sr (\<lambda>sr. sr OR SR_MUL_MODIFY) s1
     else if k = 4 then upd_sr (\<lambda>sr. sr AND NOT SR_MUL_UNSIGNED) s1
     else if k = 5 then upd_sr (\<lambda>sr. sr OR SR_MUL_UNSIGNED) s1
     else if k = 6 then upd_sr (\<lambda>sr. sr AND NOT SR_40_MODE_BIT) s1
     else if k = 7 then upd_sr (\<lambda>sr. sr OR SR_40_MODE_BIT) s1
     else s1)"

end
