(* ===== verification/Dsp_ExtOps.thy ===== *)
theory Dsp_ExtOps
  imports Dsp_Interp
begin

text \<open>
  The extended opcodes of \<open>Core/DSP/Interpreter/DSPIntExtOps.cpp\<close>.  \<open>Interpreter::x\<close> is \<open>x_ext\<close>.
  An extended opcode reads registers and data memory and may store to data memory at once;
  its register writes go to the write-back log, applied after the main opcode.
\<close>

section \<open>Shared pieces\<close>

definition IsSameMemArea :: "u16 \<Rightarrow> u16 \<Rightarrow> bool" where
  "IsSameMemArea a b \<longleftrightarrow> drop_bit 10 a = drop_bit 10 b"

text \<open>\<open>WriteToBackLog(i, reg, state.ReadDMEM(addr))\<close> and \<open>WriteDMEM(addr, OpReadRegister(reg))\<close>.\<close>

definition log_load :: "nat \<Rightarrow> nat \<Rightarrow> u16 \<Rightarrow> SDSP \<Rightarrow> SDSP" where
  "log_load i reg addr s = (case ReadDMEM addr s of (val, s1) \<Rightarrow> WriteToBackLog i reg val s1)"

definition ext_store :: "u16 \<Rightarrow> nat \<Rightarrow> SDSP \<Rightarrow> SDSP" where
  "ext_store addr reg s = (case OpReadRegister reg s of (val, s1) \<Rightarrow> WriteDMEM addr val s1)"

text \<open>The logged update of an address register: by one, or by its index register.\<close>

definition log_inc :: "nat \<Rightarrow> nat \<Rightarrow> SDSP \<Rightarrow> SDSP" where
  "log_inc i reg s = WriteToBackLog i reg (IncrementAddressRegister reg s) s"

definition log_add_ix :: "nat \<Rightarrow> nat \<Rightarrow> SDSP \<Rightarrow> SDSP" where
  "log_add_ix i reg s = WriteToBackLog i reg (IncreaseAddressRegister reg (ix_of s reg) s) s"

text \<open>The branch of \<open>ld\<close> and its variants on the memory area of the two addresses.\<close>

definition log_second_load :: "nat \<Rightarrow> nat \<Rightarrow> SDSP \<Rightarrow> SDSP" where
  "log_second_load reg sreg s =
    (if IsSameMemArea (ar_of s sreg) (ar_of s 3) then log_load 1 reg (ar_of s sreg) s
     else log_load 1 reg (ar_of s 3) s)"

section \<open>Extended opcodes\<close>

definition dr_ext :: "u16 \<Rightarrow> SDSP \<Rightarrow> SDSP" where [op_defs]:
  "dr_ext opc s =
    (let r = opfield 0 3 opc in WriteToBackLog 0 r (DecrementAddressRegister r s) s)"

definition ir_ext :: "u16 \<Rightarrow> SDSP \<Rightarrow> SDSP" where [op_defs]:
  "ir_ext opc s =
    (let r = opfield 0 3 opc in log_inc 0 r s)"

definition nr_ext :: "u16 \<Rightarrow> SDSP \<Rightarrow> SDSP" where [op_defs]:
  "nr_ext opc s =
    (let r = opfield 0 3 opc in log_add_ix 0 r s)"

definition mv_ext :: "u16 \<Rightarrow> SDSP \<Rightarrow> SDSP" where [op_defs]:
  "mv_ext opc s =
    (let sreg = opfield 0 3 opc + DSP_REG_ACL0; dreg = opfield 2 3 opc
     in case OpReadRegister sreg s of (val, s1) \<Rightarrow> WriteToBackLog 0 (dreg + DSP_REG_AXL0) val s1)"

definition s_ext :: "u16 \<Rightarrow> SDSP \<Rightarrow> SDSP" where [op_defs]:
  "s_ext opc s =
    (let dreg = opfield 0 3 opc; sreg = opfield 3 3 opc + DSP_REG_ACL0
     in log_inc 0 dreg (ext_store (ar_of s dreg) sreg s))"

definition sn_ext :: "u16 \<Rightarrow> SDSP \<Rightarrow> SDSP" where [op_defs]:
  "sn_ext opc s =
    (let dreg = opfield 0 3 opc; sreg = opfield 3 3 opc + DSP_REG_ACL0
     in log_add_ix 0 dreg (ext_store (ar_of s dreg) sreg s))"

definition l_ext :: "u16 \<Rightarrow> SDSP \<Rightarrow> SDSP" where [op_defs]:
  "l_ext opc s =
    (let sreg = opfield 0 3 opc; dreg = opfield 3 7 opc + DSP_REG_AXL0 in
     if DSP_REG_ACM0 \<le> dreg \<and> IsSRFlagSet SR_40_MODE_BIT s then
       (case ReadDMEM (ar_of s sreg) s of (val, s1) \<Rightarrow>
          log_inc 3 sreg
            (WriteToBackLog 2 (dreg - DSP_REG_ACM0 + DSP_REG_ACL0) 0
               (WriteToBackLog 1 dreg val
                  (WriteToBackLog 0 (dreg - DSP_REG_ACM0 + DSP_REG_ACH0)
                     (if val AND 0x8000 \<noteq> 0 then 0xFFFF else 0) s1))))
     else log_inc 1 sreg (log_load 0 dreg (ar_of s sreg) s))"

definition ln_ext :: "u16 \<Rightarrow> SDSP \<Rightarrow> SDSP" where [op_defs]:
  "ln_ext opc s =
    (let sreg = opfield 0 3 opc; dreg = opfield 3 7 opc + DSP_REG_AXL0 in
     if DSP_REG_ACM0 \<le> dreg \<and> IsSRFlagSet SR_40_MODE_BIT s then
       (case ReadDMEM (ar_of s sreg) s of (val, s1) \<Rightarrow>
          log_add_ix 3 sreg
            (WriteToBackLog 2 (dreg - DSP_REG_ACM0 + DSP_REG_ACL0) 0
               (WriteToBackLog 1 dreg val
                  (WriteToBackLog 0 (dreg - DSP_REG_ACM0 + DSP_REG_ACH0)
                     (if val AND 0x8000 \<noteq> 0 then 0xFFFF else 0) s1))))
     else log_add_ix 1 sreg (log_load 0 dreg (ar_of s sreg) s))"

text \<open>Store through one of \<open>$ar0\<close>, \<open>$ar3\<close> and load through the other.\<close>

definition ls_ext :: "u16 \<Rightarrow> SDSP \<Rightarrow> SDSP" where [op_defs]:
  "ls_ext opc s =
    (let sreg = opfield 0 1 opc + DSP_REG_ACM0; dreg = opfield 4 3 opc + DSP_REG_AXL0;
         s1 = ext_store (ar_of s 3) sreg s
     in log_inc 2 DSP_REG_AR0 (log_inc 1 DSP_REG_AR3 (log_load 0 dreg (ar_of s1 0) s1)))"

definition lsn_ext :: "u16 \<Rightarrow> SDSP \<Rightarrow> SDSP" where [op_defs]:
  "lsn_ext opc s =
    (let sreg = opfield 0 1 opc + DSP_REG_ACM0; dreg = opfield 4 3 opc + DSP_REG_AXL0;
         s1 = ext_store (ar_of s 3) sreg s
     in log_add_ix 2 DSP_REG_AR0 (log_inc 1 DSP_REG_AR3 (log_load 0 dreg (ar_of s1 0) s1)))"

definition lsm_ext :: "u16 \<Rightarrow> SDSP \<Rightarrow> SDSP" where [op_defs]:
  "lsm_ext opc s =
    (let sreg = opfield 0 1 opc + DSP_REG_ACM0; dreg = opfield 4 3 opc + DSP_REG_AXL0;
         s1 = ext_store (ar_of s 3) sreg s
     in log_inc 2 DSP_REG_AR0 (log_add_ix 1 DSP_REG_AR3 (log_load 0 dreg (ar_of s1 0) s1)))"

definition lsnm_ext :: "u16 \<Rightarrow> SDSP \<Rightarrow> SDSP" where [op_defs]:
  "lsnm_ext opc s =
    (let sreg = opfield 0 1 opc + DSP_REG_ACM0; dreg = opfield 4 3 opc + DSP_REG_AXL0;
         s1 = ext_store (ar_of s 3) sreg s
     in log_add_ix 2 DSP_REG_AR0 (log_add_ix 1 DSP_REG_AR3 (log_load 0 dreg (ar_of s1 0) s1)))"

definition sl_ext :: "u16 \<Rightarrow> SDSP \<Rightarrow> SDSP" where [op_defs]:
  "sl_ext opc s =
    (let sreg = opfield 0 1 opc + DSP_REG_ACM0; dreg = opfield 4 3 opc + DSP_REG_AXL0;
         s1 = ext_store (ar_of s 0) sreg s
     in log_inc 2 DSP_REG_AR0 (log_inc 1 DSP_REG_AR3 (log_load 0 dreg (ar_of s1 3) s1)))"

definition sln_ext :: "u16 \<Rightarrow> SDSP \<Rightarrow> SDSP" where [op_defs]:
  "sln_ext opc s =
    (let sreg = opfield 0 1 opc + DSP_REG_ACM0; dreg = opfield 4 3 opc + DSP_REG_AXL0;
         s1 = ext_store (ar_of s 0) sreg s
     in log_add_ix 2 DSP_REG_AR0 (log_inc 1 DSP_REG_AR3 (log_load 0 dreg (ar_of s1 3) s1)))"

definition slm_ext :: "u16 \<Rightarrow> SDSP \<Rightarrow> SDSP" where [op_defs]:
  "slm_ext opc s =
    (let sreg = opfield 0 1 opc + DSP_REG_ACM0; dreg = opfield 4 3 opc + DSP_REG_AXL0;
         s1 = ext_store (ar_of s 0) sreg s
     in log_inc 2 DSP_REG_AR0 (log_add_ix 1 DSP_REG_AR3 (log_load 0 dreg (ar_of s1 3) s1)))"

definition slnm_ext :: "u16 \<Rightarrow> SDSP \<Rightarrow> SDSP" where [op_defs]:
  "slnm_ext opc s =
    (let sreg = opfield 0 1 opc + DSP_REG_ACM0; dreg = opfield 4 3 opc + DSP_REG_AXL0;
         s1 = ext_store (ar_of s 0) sreg s
     in log_add_ix 2 DSP_REG_AR0 (log_add_ix 1 DSP_REG_AR3 (log_load 0 dreg (ar_of s1 3) s1)))"

text \<open>Two loads: through \<open>$arS\<close> and through \<open>$ar3\<close>.\<close>

definition ld_ext :: "u16 \<Rightarrow> SDSP \<Rightarrow> SDSP" where [op_defs]:
  "ld_ext opc s =
    (let dreg = opfield 5 1 opc; rreg = opfield 4 1 opc; sreg = opfield 0 3 opc
     in log_inc 3 DSP_REG_AR3 (log_inc 2 sreg
          (log_second_load (2 * rreg + DSP_REG_AXL1) sreg
             (log_load 0 (2 * dreg + DSP_REG_AXL0) (ar_of s sreg) s))))"

definition ldax_ext :: "u16 \<Rightarrow> SDSP \<Rightarrow> SDSP" where [op_defs]:
  "ldax_ext opc s =
    (let sreg = opfield 5 1 opc; rreg = opfield 4 1 opc
     in log_inc 3 DSP_REG_AR3 (log_inc 2 sreg
          (log_second_load (rreg + DSP_REG_AXL0) sreg
             (log_load 0 (rreg + DSP_REG_AXH0) (ar_of s sreg) s))))"

definition ldn_ext :: "u16 \<Rightarrow> SDSP \<Rightarrow> SDSP" where [op_defs]:
  "ldn_ext opc s =
    (let dreg = opfield 5 1 opc; rreg = opfield 4 1 opc; sreg = opfield 0 3 opc
     in log_inc 3 DSP_REG_AR3 (log_add_ix 2 sreg
          (log_second_load (2 * rreg + DSP_REG_AXL1) sreg
             (log_load 0 (2 * dreg + DSP_REG_AXL0) (ar_of s sreg) s))))"

definition ldaxn_ext :: "u16 \<Rightarrow> SDSP \<Rightarrow> SDSP" where [op_defs]:
  "ldaxn_ext opc s =
    (let sreg = opfield 5 1 opc; rreg = opfield 4 1 opc
     in log_inc 3 DSP_REG_AR3 (log_add_ix 2 sreg
          (log_second_load (rreg + DSP_REG_AXL0) sreg
             (log_load 0 (rreg + DSP_REG_AXH0) (ar_of s sreg) s))))"

definition ldm_ext :: "u16 \<Rightarrow> SDSP \<Rightarrow> SDSP" where [op_defs]:
  "ldm_ext opc s =
    (let dreg = opfield 5 1 opc; rreg = opfield 4 1 opc; sreg = opfield 0 3 opc
     in log_add_ix 3 DSP_REG_AR3 (log_inc 2 sreg
          (log_second_load (2 * rreg + DSP_REG_AXL1) sreg
             (log_load 0 (2 * dreg + DSP_REG_AXL0) (ar_of s sreg) s))))"

definition ldaxm_ext :: "u16 \<Rightarrow> SDSP \<Rightarrow> SDSP" where [op_defs]:
  "ldaxm_ext opc s =
    (let sreg = opfield 5 1 opc; rreg = opfield 4 1 opc
     in log_add_ix 3 DSP_REG_AR3 (log_inc 2 sreg
          (log_second_load (rreg + DSP_REG_AXL0) sreg
             (log_load 0 (rreg + DSP_REG_AXH0) (ar_of s sreg) s))))"

definition ldnm_ext :: "u16 \<Rightarrow> SDSP \<Rightarrow> SDSP" where [op_defs]:
  "ldnm_ext opc s =
    (let dreg = opfield 5 1 opc; rreg = opfield 4 1 opc; sreg = opfield 0 3 opc
     in log_add_ix 3 DSP_REG_AR3 (log_add_ix 2 sreg
          (log_second_load (2 * rreg + DSP_REG_AXL1) sreg
             (log_load 0 (2 * dreg + DSP_REG_AXL0) (ar_of s sreg) s))))"

definition ldaxnm_ext :: "u16 \<Rightarrow> SDSP \<Rightarrow> SDSP" where [op_defs]:
  "ldaxnm_ext opc s =
    (let sreg = opfield 5 1 opc; rreg = opfield 4 1 opc
     in log_add_ix 3 DSP_REG_AR3 (log_add_ix 2 sreg
          (log_second_load (rreg + DSP_REG_AXL0) sreg
             (log_load 0 (rreg + DSP_REG_AXH0) (ar_of s sreg) s))))"

definition nop_ext :: "u16 \<Rightarrow> SDSP \<Rightarrow> SDSP" where [op_defs]:
  "nop_ext opc s = s"

end
