(* ===== verification/Dsp_Decode.thy ===== *)
theory Dsp_Decode
  imports Dsp_Mult Dsp_Branch Dsp_LoadStore Dsp_ExtOps
begin

text \<open>
  Instruction decoding (\<open>Core/DSP/Interpreter/DSPIntTables.cpp\<close>) and the execution loops and
  control register of \<open>DSPInterpreter.cpp\<close>.  The tables the source fills once from its
  opcode lists are computed by search.  The run functions count cycles as the source does and
  stop at a fault, after which the program has no defined state.
\<close>

section \<open>The opcode tables\<close>

type_synonym instruction = "u16 \<Rightarrow> SDSP \<Rightarrow> SDSP"

text \<open>The handler of unknown codes (and of 0): it only logs.\<close>

definition nop_op :: instruction where [op_defs]:
  "nop_op opc s = s"

definition s_opcodes_1 :: "(u16 \<times> u16 \<times> instruction) list" where
  "s_opcodes_1 = [
    (0x0000, 0xfffc, nop_op),
    (0x0004, 0xfffc, dar_op),
    (0x0008, 0xfffc, iar_op),
    (0x000c, 0xfffc, subarn_op),
    (0x0010, 0xfff0, addarn_op),
    (0x0021, 0xffff, halt_op),
    (0x02d0, 0xfff0, ret_op),
    (0x02f0, 0xfff0, rti_op),
    (0x02b0, 0xfff0, call_op),
    (0x0270, 0xfff0, ifcc_op),
    (0x0290, 0xfff0, jcc_op),
    (0x1700, 0xff10, jmprcc_op),
    (0x1710, 0xff10, callr_op),
    (0x1200, 0xff00, sbclr_op),
    (0x1300, 0xff00, sbset_op),
    (0x1400, 0xfec0, lsl_op),
    (0x1440, 0xfec0, lsr_op),
    (0x1480, 0xfec0, asl_op),
    (0x14c0, 0xfec0, asr_op),
    (0x02ca, 0xffff, lsrn_op),
    (0x02cb, 0xffff, asrn_op),
    (0x0080, 0xffe0, lri_op),
    (0x00c0, 0xffe0, lr_op),
    (0x00e0, 0xffe0, sr_op),
    (0x1c00, 0xfc00, mrr_op),
    (0x1600, 0xff00, si_op),
    (0x0400, 0xfe00, addis_op),
    (0x0600, 0xfe00, cmpis_op),
    (0x0800, 0xf800, lris_op),
    (0x0200, 0xfeff, addi_op),
    (0x0220, 0xfeff, xori_op),
    (0x0240, 0xfeff, andi_op)]"

definition s_opcodes_2 :: "(u16 \<times> u16 \<times> instruction) list" where
  "s_opcodes_2 = [
    (0x0260, 0xfeff, ori_op),
    (0x0280, 0xfeff, cmpi_op),
    (0x02a0, 0xfeff, andf_op),
    (0x02c0, 0xfeff, andcf_op),
    (0x0210, 0xfefc, ilrr_op),
    (0x0214, 0xfefc, ilrrd_op),
    (0x0218, 0xfefc, ilrri_op),
    (0x021c, 0xfefc, ilrrn_op),
    (0x0040, 0xffe0, loop_op),
    (0x0060, 0xffe0, bloop_op),
    (0x1000, 0xff00, loopi_op),
    (0x1100, 0xff00, bloopi_op),
    (0x1800, 0xff80, lrr_op),
    (0x1880, 0xff80, lrrd_op),
    (0x1900, 0xff80, lrri_op),
    (0x1980, 0xff80, lrrn_op),
    (0x1a00, 0xff80, srr_op),
    (0x1a80, 0xff80, srrd_op),
    (0x1b00, 0xff80, srri_op),
    (0x1b80, 0xff80, srrn_op),
    (0x2000, 0xf800, lrs_op),
    (0x2800, 0xfe00, srsh_op),
    (0x2c00, 0xfc00, srs_op),
    (0x3000, 0xfc80, xorr_op),
    (0x3400, 0xfc80, andr_op),
    (0x3800, 0xfc80, orr_op),
    (0x3c00, 0xfe80, andc_op),
    (0x3e00, 0xfe80, orc_op),
    (0x3080, 0xfe80, xorc_op),
    (0x3280, 0xfe80, notc_op),
    (0x3480, 0xfc80, lsrnrx_op)]"

definition s_opcodes_3 :: "(u16 \<times> u16 \<times> instruction) list" where
  "s_opcodes_3 = [
    (0x3880, 0xfc80, asrnrx_op),
    (0x3c80, 0xfe80, lsrnr_op),
    (0x3e80, 0xfe80, asrnr_op),
    (0x4000, 0xf800, addr_op),
    (0x4800, 0xfc00, addax_op),
    (0x4c00, 0xfe00, add_op),
    (0x4e00, 0xfe00, addp_op),
    (0x5000, 0xf800, subr_op),
    (0x5800, 0xfc00, subax_op),
    (0x5c00, 0xfe00, sub_op),
    (0x5e00, 0xfe00, subp_op),
    (0x6000, 0xf800, movr_op),
    (0x6800, 0xfc00, movax_op),
    (0x6c00, 0xfe00, mov_op),
    (0x6e00, 0xfe00, movp_op),
    (0x7000, 0xfc00, addaxl_op),
    (0x7400, 0xfe00, incm_op),
    (0x7600, 0xfe00, inc_op),
    (0x7800, 0xfe00, decm_op),
    (0x7a00, 0xfe00, dec_op),
    (0x7c00, 0xfe00, neg_op),
    (0x7e00, 0xfe00, movnp_op),
    (0x8000, 0xf700, nx_op),
    (0x8100, 0xf700, clr_op),
    (0x8200, 0xff00, cmp_op),
    (0x8300, 0xff00, mulaxh_op),
    (0x8400, 0xff00, clrp_op),
    (0x8500, 0xff00, tstprod_op),
    (0x8600, 0xfe00, tstaxh_op),
    (0x8a00, 0xff00, srbith_op),
    (0x8b00, 0xff00, srbith_op)]"

definition s_opcodes_4 :: "(u16 \<times> u16 \<times> instruction) list" where
  "s_opcodes_4 = [
    (0x8c00, 0xff00, srbith_op),
    (0x8d00, 0xff00, srbith_op),
    (0x8e00, 0xff00, srbith_op),
    (0x8f00, 0xff00, srbith_op),
    (0x9000, 0xf700, mul_op),
    (0x9100, 0xf700, asr16_op),
    (0x9200, 0xf600, mulmvz_op),
    (0x9400, 0xf600, mulac_op),
    (0x9600, 0xf600, mulmv_op),
    (0xa000, 0xe700, mulx_op),
    (0xa100, 0xf700, abs_op),
    (0xa200, 0xe600, mulxmvz_op),
    (0xa400, 0xe600, mulxac_op),
    (0xa600, 0xe600, mulxmv_op),
    (0xb100, 0xf700, tst_op),
    (0xc000, 0xe700, mulc_op),
    (0xc100, 0xe700, cmpaxh_op),
    (0xc200, 0xe600, mulcmvz_op),
    (0xc400, 0xe600, mulcac_op),
    (0xc600, 0xe600, mulcmv_op),
    (0xe000, 0xfc00, maddx_op),
    (0xe400, 0xfc00, msubx_op),
    (0xe800, 0xfc00, maddc_op),
    (0xec00, 0xfc00, msubc_op),
    (0xf000, 0xfe00, lsl16_op),
    (0xf200, 0xfe00, madd_op),
    (0xf400, 0xfe00, lsr16_op),
    (0xf600, 0xfe00, msub_op),
    (0xf800, 0xfc00, addpaxz_op),
    (0xfc00, 0xfe00, clrl_op),
    (0xfe00, 0xfe00, movpz_op)]"

definition s_opcodes :: "(u16 \<times> u16 \<times> instruction) list" where
  "s_opcodes = s_opcodes_1 @ s_opcodes_2 @ s_opcodes_3 @ s_opcodes_4"

lemmas s_opcodes_defs = s_opcodes_def s_opcodes_1_def s_opcodes_2_def s_opcodes_3_def s_opcodes_4_def

definition s_opcodes_ext :: "(u16 \<times> u16 \<times> instruction) list" where
  "s_opcodes_ext = [
    (0x0000, 0x00fc, nop_ext),
    (0x0004, 0x00fc, dr_ext),
    (0x0008, 0x00fc, ir_ext),
    (0x000c, 0x00fc, nr_ext),
    (0x0010, 0x00f0, mv_ext),
    (0x0020, 0x00e4, s_ext),
    (0x0024, 0x00e4, sn_ext),
    (0x0040, 0x00c4, l_ext),
    (0x0044, 0x00c4, ln_ext),
    (0x0080, 0x00ce, ls_ext),
    (0x0082, 0x00ce, sl_ext),
    (0x0084, 0x00ce, lsn_ext),
    (0x0086, 0x00ce, sln_ext),
    (0x0088, 0x00ce, lsm_ext),
    (0x008a, 0x00ce, slm_ext),
    (0x008c, 0x00ce, lsnm_ext),
    (0x008e, 0x00ce, slnm_ext),
    (0x00c3, 0x00cf, ldax_ext),
    (0x00c7, 0x00cf, ldaxn_ext),
    (0x00cb, 0x00cf, ldaxm_ext),
    (0x00cf, 0x00cf, ldaxnm_ext),
    (0x00c0, 0x00cc, ld_ext),
    (0x00c4, 0x00cc, ldn_ext),
    (0x00c8, 0x00cc, ldm_ext),
    (0x00cc, 0x00cc, ldnm_ext)]"

definition find_op :: "u16 \<Rightarrow> (u16 \<times> u16 \<times> instruction) list \<Rightarrow> instruction" where
  "find_op i tab =
    (case List.find (\<lambda>(c, m, f). i AND m = c) tab of Some (c, m, f) \<Rightarrow> f | None \<Rightarrow> nop_op)"

definition GetOp :: "u16 \<Rightarrow> instruction" where
  "GetOp inst = find_op inst s_opcodes"

definition GetExtOp :: "u16 \<Rightarrow> instruction" where
  "GetExtOp inst =
    (if drop_bit 12 inst = 3 then find_op (inst AND 0x7F) s_opcodes_ext
     else find_op (inst AND 0xFF) s_opcodes_ext)"

section \<open>One instruction\<close>

definition ExecuteInstruction :: "u16 \<Rightarrow> SDSP \<Rightarrow> SDSP" where
  "ExecuteInstruction inst s =
    (let ext = extended (GetOpTemplate inst);
         s1 = (if ext then GetExtOp inst inst s else s);
         s2 = GetOp inst inst s1
     in if ext then ApplyWriteBackLog s2 else s2)"

definition Step :: "SDSP \<Rightarrow> SDSP" where
  "Step s =
    (let s1 = snd (CheckExceptions s);
         s2 = s1\<lparr>step_counter := step_counter s1 + 1\<rparr>
     in case FetchInstruction s2 of (opc, s3) \<Rightarrow>
        let s4 = ExecuteInstruction opc s3
        in if IsLoopEnd (code_flags s4) (pc s4 - 1) then HandleLoop s4 else s4)"

section \<open>Running\<close>

definition halted :: "SDSP \<Rightarrow> bool" where
  "halted s \<longleftrightarrow> control_reg s AND CR_HALT \<noteq> 0"

text \<open>
  Why a run function stops before a step, and how a burst of steps ends: the function returns
  the cycles it reports, it reports a breakpoint (the caller's state becomes \<open>Stepping\<close>), the
  program is lost to a fault, or the burst is over with cycles left.
\<close>

datatype stop_reason = StopReturn | StopBreak

datatype run_end = Returned int | BreakHit int | Faulted | CyclesLeft int

text \<open>One \<open>for\<close> loop of a run function: \<open>test\<close> before each step, the cycle count after it.\<close>

fun burst :: "(SDSP \<Rightarrow> stop_reason option) \<Rightarrow> nat \<Rightarrow> int \<Rightarrow> SDSP \<Rightarrow> run_end \<times> SDSP" where
  "burst test 0 cycles s = (CyclesLeft cycles, s)"
| "burst test (Suc n) cycles s =
    (case test s of
       Some StopReturn \<Rightarrow> (Returned 0, s)
     | Some StopBreak \<Rightarrow> (BreakHit cycles, s)
     | None \<Rightarrow>
        let s1 = Step s; c1 = cycles - 1 in
        if fault s1 \<noteq> None then (Faulted, s1)
        else if c1 \<le> 0 then (Returned 0, s1)
        else burst test n c1 s1)"

lemma burst_CyclesLeft:
  "burst test n cycles s = (CyclesLeft c, s') \<Longrightarrow> c = cycles - int n \<and> (0 < n \<longrightarrow> 0 < c)"
proof (induction n arbitrary: cycles s)
  case (Suc n)
  then show ?case
    by (cases "n = 0") (auto simp: Let_def split: option.splits stop_reason.splits if_splits, force+)
qed simp

text \<open>The \<open>while (true)\<close> of \<open>RunCycles\<close> and \<open>RunCyclesDebug\<close>: 8 steps, then 200.\<close>

function run_loop ::
  "(SDSP \<Rightarrow> stop_reason option) \<Rightarrow> (SDSP \<Rightarrow> stop_reason option) \<Rightarrow> int \<Rightarrow> SDSP \<Rightarrow> run_end \<times> SDSP" where
  "run_loop test8 test200 cycles s =
    (case burst test8 8 cycles s of
       (CyclesLeft c1, s1) \<Rightarrow>
         (case burst test200 200 c1 s1 of
            (CyclesLeft c2, s2) \<Rightarrow> run_loop test8 test200 c2 s2
          | r \<Rightarrow> r)
     | r \<Rightarrow> r)"
  by pat_completeness auto

termination
  by (relation "measure (\<lambda>(t8, t200, c, s). nat c)") (auto dest!: burst_CyclesLeft [OF sym])

definition no_test :: "SDSP \<Rightarrow> stop_reason option" where
  "no_test s = None"

definition halt_test :: "SDSP \<Rightarrow> stop_reason option" where
  "halt_test s = (if halted s then Some StopReturn else None)"

definition idle_test :: "SDSP \<Rightarrow> stop_reason option" where
  "idle_test s =
    (if halted s then Some StopReturn
     else if IsIdleSkip (code_flags s) (pc s) then Some StopReturn else None)"

definition RunCycles :: "int \<Rightarrow> SDSP \<Rightarrow> run_end \<times> SDSP" where
  "RunCycles cycles s =
    (case burst halt_test 8 cycles s of
       (CyclesLeft c, s1) \<Rightarrow> run_loop idle_test no_test c s1
     | r \<Rightarrow> r)"

text \<open>The debugging variant; \<open>bp\<close> is \<open>IsAddressBreakPoint\<close>.\<close>

definition break_test :: "(u16 \<Rightarrow> bool) \<Rightarrow> SDSP \<Rightarrow> stop_reason option" where
  "break_test bp s = (if bp (pc s) then Some StopBreak else None)"

definition halt_break_test :: "(u16 \<Rightarrow> bool) \<Rightarrow> SDSP \<Rightarrow> stop_reason option" where
  "halt_break_test bp s = (if halted s then Some StopReturn else break_test bp s)"

definition halt_break_idle_test :: "(u16 \<Rightarrow> bool) \<Rightarrow> SDSP \<Rightarrow> stop_reason option" where
  "halt_break_idle_test bp s =
    (case halt_break_test bp s of
       Some r \<Rightarrow> Some r
     | None \<Rightarrow> if IsIdleSkip (code_flags s) (pc s) then Some StopReturn else None)"

definition RunCyclesDebug :: "(u16 \<Rightarrow> bool) \<Rightarrow> int \<Rightarrow> SDSP \<Rightarrow> run_end \<times> SDSP" where
  "RunCyclesDebug bp cycles s =
    (case burst (halt_break_test bp) 8 cycles s of
       (CyclesLeft c, s1) \<Rightarrow> run_loop (halt_break_idle_test bp) (break_test bp) c s1
     | r \<Rightarrow> r)"

text \<open>
  The loop of the DSP thread.  A waiting external interrupt is consumed before the step; other
  threads may set the flag between two rounds, which the list \<open>irqs\<close> gives: whether the flag
  was raised before the first round, the second, and so on (not, once the list is used up).
\<close>

definition take_external_interrupt :: "SDSP \<Rightarrow> SDSP" where
  "take_external_interrupt s =
    (if external_interrupt_waiting s
     then CheckExternalInterrupt (s\<lparr>external_interrupt_waiting := False\<rparr>) else s)"

function RunCyclesThread :: "bool list \<Rightarrow> int \<Rightarrow> SDSP \<Rightarrow> run_end \<times> SDSP" where
  "RunCyclesThread irqs cycles s =
    (if halted s then (Returned 0, s)
     else let s0 = (if irqs \<noteq> [] \<and> hd irqs then SetExternalInterrupt True s else s);
              s1 = Step (take_external_interrupt s0) in
       if fault s1 \<noteq> None then (Faulted, s1)
       else if cycles - 1 \<le> 0 then (Returned 0, s1)
       else RunCyclesThread (tl irqs) (cycles - 1) s1)"
  by pat_completeness auto

termination by (relation "measure (\<lambda>(irqs, c, s). nat c)") auto

declare run_loop.simps [simp del] RunCyclesThread.simps [simp del]

section \<open>The control register\<close>

text \<open>\<open>now\<close> is the time base (\<open>GetFakeTimeBase\<close>).  Leaving INIT loads the first code.\<close>

definition WriteControlRegister :: "u64 \<Rightarrow> u16 \<Rightarrow> SDSP \<Rightarrow> SDSP" where
  "WriteControlRegister now val0 s0 =
    (let s1 = (if val0 AND CR_RESET \<noteq> 0 then Reset s0 else s0);
         val1 = (if val0 AND CR_RESET \<noteq> 0 then val0 AND NOT CR_RESET else val0)
     in if control_reg s1 AND CR_INIT \<noteq> 0 \<and> val1 AND CR_INIT = 0 then
          let s2 = IDMAIn 0 0x81000000 0x1000 (set_pc 0 s1);
              val2 = (val1 AND NOT CR_INIT) OR CR_INIT_CODE
          in s2\<lparr>control_reg_init_code_clear_time := now + 130, control_reg := val2\<rparr>
        else s1\<lparr>control_reg := val1\<rparr>)"

definition ReadControlRegister :: "u64 \<Rightarrow> SDSP \<Rightarrow> u16 \<times> SDSP" where
  "ReadControlRegister now s =
    (let s1 = (if control_reg s AND CR_INIT_CODE \<noteq> 0 \<and> control_reg_init_code_clear_time s \<le> now
               then s\<lparr>control_reg := control_reg s AND NOT CR_INIT_CODE\<rparr> else s)
     in (control_reg s1, s1))"

end
