(* ===== verification/Dsp_Invariant.thy ===== *)
theory Dsp_Invariant
  imports Dsp_Decode
begin

text \<open>
  The well-formedness invariant: every instruction, exception and run function keeps the
  accumulators sign-extended from 40 bits, \<open>$cr\<close> and the high part of \<open>$prod\<close> at eight bits
  and the stack pointers inside the stacks; between instructions the write-back log is empty.
  Each primitive has its rule in \<open>wf_intro\<close> (register invariant) and \<open>frame_simps\<close> (fields it
  leaves alone); the handlers follow by simplification with these collections.
\<close>

section \<open>Record updates\<close>

lemma regs_ok_updates [simp]:
  "regs_ok (regs_update (r_sr_update f) s) = regs_ok s"
  "regs_ok (regs_update (r_ar_update g) s) = regs_ok s"
  "regs_ok (regs_update (r_ix_update g) s) = regs_ok s"
  "regs_ok (regs_update (r_wr_update g) s) = regs_ok s"
  "regs_ok (regs_update (r_st_update g) s) = regs_ok s"
  "regs_ok (regs_update (r_ax_update h) s) = regs_ok s"
  "regs_ok (pc_update f s) = regs_ok s"
  "regs_ok (control_reg_update f s) = regs_ok s"
  "regs_ok (exceptions_update e s) = regs_ok s"
  "regs_ok (external_interrupt_waiting_update w s) = regs_ok s"
  "regs_ok (reg_stacks_update x1 s) = regs_ok s"
  "regs_ok (iram_update m s) = regs_ok s"
  "regs_ok (dram_update m s) = regs_ok s"
  "regs_ok (iram_crc_update x2 s) = regs_ok s"
  "regs_ok (step_counter_update x3 s) = regs_ok s"
  "regs_ok (control_reg_init_code_clear_time_update x3 s) = regs_ok s"
  "regs_ok (ifx_regs_update g s) = regs_ok s"
  "regs_ok (accelerator_update x4 s) = regs_ok s"
  "regs_ok (mailbox_update x5 s) = regs_ok s"
  "regs_ok (code_flags_update x6 s) = regs_ok s"
  "regs_ok (write_back_log_update x7 s) = regs_ok s"
  "regs_ok (write_back_log_idx_update x8 s) = regs_ok s"
  "regs_ok (the_host_update x9 s) = regs_ok s"
  "regs_ok (fault_update x10 s) = regs_ok s"
  by (simp_all add: regs_ok_def)

lemma sext40_bits: "sext40 a = a \<longleftrightarrow> (\<forall>n. 39 < n \<and> n < 64 \<longrightarrow> bit a n = bit a 39)"
proof
  assume a: "sext40 a = a"
  show "\<forall>n. 39 < n \<and> n < 64 \<longrightarrow> bit a n = bit a 39"
  proof (intro allI impI)
    fix n assume n: "39 < n \<and> n < (64 :: nat)"
    have "bit (sext40 a) n = bit a n" by (simp only: a)
    with n show "bit a n = bit a 39" by (simp add: bit_sext40 min_absorb2)
  qed
next
  assume "\<forall>n. 39 < n \<and> n < 64 \<longrightarrow> bit a n = bit a 39"
  then show "sext40 a = a"
    by (intro bit_word_eqI) (simp add: bit_sext40 min_def)
qed

lemma sext40_set_ac_low:
  "sext40 a = a \<Longrightarrow> sext40 (set_ac_l v a) = set_ac_l v a"
  "sext40 a = a \<Longrightarrow> sext40 (set_ac_m v a) = set_ac_m v a"
  by (simp_all add: sext40_bits bit_set_ac)

lemma sext40_set_ac_h: "sext40 (set_ac_h (scast (v :: u8)) a) = set_ac_h (scast v) a"
  by (rule bit_word_eqI) (auto simp: bit_sext40 bit_set_ac bit_simps min_def)

lemma sext40_set_ac_h_full:
  "sext40 (set_ac_h (if b then 0xFFFFFFFF else 0) a) = set_ac_h (if b then 0xFFFFFFFF else 0) a"
proof -
  have m: "(0xFFFFFFFF :: u32) = mask 32" by (simp add: mask_eq_exp_minus_1)
  show ?thesis
    unfolding m by (rule bit_word_eqI) (auto simp: bit_sext40 bit_set_ac bit_mask_iff min_def)
qed

lemma upd_ac_low_ok [wf_intro]:
  "regs_ok s \<Longrightarrow> regs_ok (upd_ac d (set_ac_l v) s)"
  "regs_ok s \<Longrightarrow> regs_ok (upd_ac d (set_ac_m v) s)"
  "regs_ok s \<Longrightarrow> regs_ok (upd_ac d (\<lambda>a. set_ac_m (ac_m a XOR v) a) s)"
  "regs_ok s \<Longrightarrow> regs_ok (upd_ac d (\<lambda>a. set_ac_m (ac_m a AND v) a) s)"
  "regs_ok s \<Longrightarrow> regs_ok (upd_ac d (\<lambda>a. set_ac_m (ac_m a OR v) a) s)"
  by (auto simp: regs_ok_def sext40_set_ac_low)

lemma upd_ac_high_ok [wf_intro]: "regs_ok s \<Longrightarrow> regs_ok (upd_ac d (set_ac_h (scast (v :: u8))) s)"
  by (auto simp: regs_ok_def sext40_set_ac_h)

lemma upd_ac_extend_ok [wf_intro]:
  "regs_ok s \<Longrightarrow>
    regs_ok (upd_ac d (\<lambda>a. set_ac_l 0 (set_ac_h (if b then 0xFFFFFFFF else 0) a)) s)"
  by (auto simp only: regs_ok_def) (auto simp: sext40_set_ac_low sext40_set_ac_h_full)

lemma SetLongAcc_ok [wf_intro]: "regs_ok s \<Longrightarrow> regs_ok (SetLongAcc d v s)"
  by (auto simp: SetLongAcc_def regs_ok_def)

lemma and_ff_le: "(v :: u16) AND 0xff \<le> 0xff"
  by (rule word_and_le1)

lemma upd_cr_ok [wf_intro]: "regs_ok s \<Longrightarrow> regs_ok (regs_update (r_cr_update (\<lambda>_. v AND 0xff)) s)"
  by (simp add: regs_ok_def and_ff_le)

lemma prod_h_sets [simp]:
  "prod_h (set_prod_l v p) = prod_h p" "prod_h (set_prod_m v p) = prod_h p"
  "prod_h (set_prod_m2 v p) = prod_h p" "prod_h (set_prod_h v p) = v"
  by (simp_all add: prod_h_def set_prod_l_def set_prod_m_def set_prod_m2_def set_prod_h_def
      slice16_put16_other)

lemma upd_prod_ok [wf_intro]:
  "regs_ok s \<Longrightarrow> regs_ok (upd_prod (set_prod_l v) s)"
  "regs_ok s \<Longrightarrow> regs_ok (upd_prod (set_prod_m v) s)"
  "regs_ok s \<Longrightarrow> regs_ok (upd_prod (set_prod_m2 v) s)"
  "regs_ok s \<Longrightarrow> regs_ok (upd_prod (set_prod_h (v AND 0xff)) s)"
  by (simp_all add: regs_ok_def and_ff_le)

lemma prod_h_40: "prod_h (v AND 0xFFFFFFFFFF) \<le> 0xff"
proof -
  have m: "(0xFFFFFFFFFF :: u64) = mask 40" "(0xff :: u16) = mask 8"
    by (simp_all add: mask_eq_exp_minus_1)
  have "prod_h (v AND mask 40) = prod_h (v AND mask 40) AND mask 8"
    by (rule bit_word_eqI) (auto simp: prod_h_def bit_slice16 bit_simps)
  also have "\<dots> \<le> mask 8" by (rule word_and_le1)
  finally show ?thesis by (simp only: m)
qed

lemma SetLongProduct_ok [wf_intro]: "regs_ok s \<Longrightarrow> regs_ok (SetLongProduct v s)"
  by (simp add: regs_ok_def SetLongProduct_def prod_h_40)

section \<open>Stacks\<close>

lemma StoreStack_ok [wf_intro]: "regs_ok s \<Longrightarrow> regs_ok (StoreStack k v s)"
  by (auto simp: regs_ok_def StoreStack_def Let_def and_1F_less)

lemma PopStack_ok [wf_intro]: "regs_ok s \<Longrightarrow> regs_ok (snd (PopStack k s))"
  by (auto simp: regs_ok_def PopStack_def Let_def and_1F_less)

lemma stack_log [frame_simps]:
  "write_back_log_idx (StoreStack k v s) = write_back_log_idx s"
  "write_back_log_idx (snd (PopStack k s)) = write_back_log_idx s"
  by (simp_all add: StoreStack_def PopStack_def Let_def)

section \<open>Memory and hardware registers\<close>

text \<open>The part of the state the invariant reads; hardware accesses leave all of it alone.\<close>

definition core_part :: "SDSP \<Rightarrow> DSP_Regs \<times> (nat \<Rightarrow> u8) \<times> (nat \<Rightarrow> int)" where
  "core_part s = (regs s, reg_stack_ptrs s, write_back_log_idx s)"

lemma core_part_D:
  assumes "core_part s' = core_part s"
  shows "regs_ok s' = regs_ok s" "write_back_log_idx s' = write_back_log_idx s" "regs s' = regs s"
  using assms by (simp_all add: core_part_def regs_ok_def)

lemma core_part_updates [simp]:
  "core_part (pc_update f s) = core_part s"
  "core_part (exceptions_update e s) = core_part s"
  "core_part (iram_update m s) = core_part s"
  "core_part (dram_update m s) = core_part s"
  "core_part (iram_crc_update x2 s) = core_part s"
  "core_part (ifx_regs_update g s) = core_part s"
  "core_part (accelerator_update x4 s) = core_part s"
  "core_part (mailbox_update x5 s) = core_part s"
  "core_part (code_flags_update x6 s) = core_part s"
  "core_part (the_host_update x9 s) = core_part s"
  "core_part (fault_update x10 s) = core_part s"
  by (simp_all add: core_part_def)

lemma core_part_raise [simp]: "core_part (raise_fault f s) = core_part s"
  by (simp add: raise_fault_def)

lemma core_part_analyze [simp]: "core_part (analyze_state s) = core_part s"
  by (simp add: analyze_state_def split: option.split)

lemma core_part_CodeLoaded [simp]: "core_part (CodeLoaded a n s) = core_part s"
  by (simp add: CodeLoaded_def split: option.split)

lemma core_part_DoDMA [simp]: "core_part (DoDMA s) = core_part s"
  by (simp add: DoDMA_def IDMAIn_def IDMAOut_def DDMAIn_def DDMAOut_def Let_def split: sum.split)

lemma core_part_write_DSBL [simp]: "core_part (write_DSBL v s) = core_part s"
  by (simp add: write_DSBL_def Let_def)

lemma core_part_SetException [simp]: "core_part (SetException e s) = core_part s"
  by (simp add: SetException_def)

lemma core_part_fold_host: "core_part (fold (\<lambda>(a, b). WriteHostMemory b a) ws s) = core_part s"
  by (induction ws arbitrary: s) (auto simp: WriteHostMemory_def)

lemma core_part_accelerator [simp]:
  "core_part (accelerator_write_raw v s) = core_part s"
  "core_part (snd (accelerator_read_raw s)) = core_part s"
  "core_part (snd (accelerator_read_sample s)) = core_part s"
  by (simp_all add: accelerator_write_raw_def accelerator_read_raw_def accelerator_read_sample_def
      Let_def core_part_fold_host split: prod.split)

lemma core_part_mailboxes [simp]:
  "core_part (snd (ReadMailboxLow mb s)) = core_part s"
  "core_part (WriteMailboxLow mb v s) = core_part s"
  "core_part (WriteMailboxHigh mb v s) = core_part s"
  by (simp_all add: ReadMailboxLow_def WriteMailboxLow_def WriteMailboxHigh_def Let_def)

lemma core_part_WriteIFX [simp]: "core_part (WriteIFX a v s) = core_part s"
  by (simp add: WriteIFX_def InterruptRequest_def Let_def)

lemma core_part_ReadIFX [simp]: "core_part (snd (ReadIFX a s)) = core_part s"
  by (simp add: ReadIFX_def ReadIFXImpl_def Let_def)

lemma core_part_memory [simp]:
  "core_part (snd (ReadDMEM a s)) = core_part s" "core_part (WriteDMEM a v s) = core_part s"
  "core_part (snd (FetchInstruction s)) = core_part s" "core_part (SkipInstruction s) = core_part s"
  by (simp_all add: ReadDMEM_def WriteDMEM_def FetchInstruction_def SkipInstruction_def Let_def)

lemmas memory_ok [simp] =
  core_part_memory(1) [THEN core_part_D(1)] core_part_memory(2) [THEN core_part_D(1)]
  core_part_memory(3) [THEN core_part_D(1)] core_part_memory(4) [THEN core_part_D(1)]

lemmas memory_log [simp] =
  core_part_memory(1) [THEN core_part_D(2)] core_part_memory(2) [THEN core_part_D(2)]
  core_part_memory(3) [THEN core_part_D(2)] core_part_memory(4) [THEN core_part_D(2)]

section \<open>Interpreter helpers\<close>

lemma status_ok [simp]:
  "regs_ok (UpdateSR16 v c o3 b s) = regs_ok s" "regs_ok (UpdateSR64 w c o3 s) = regs_ok s"
  "regs_ok (UpdateSR64Add x y z s) = regs_ok s" "regs_ok (UpdateSR64Sub x y z s) = regs_ok s"
  "regs_ok (UpdateSRLogicZero b s) = regs_ok s" "regs_ok (compare_acc x y s) = regs_ok s"
  "regs_ok (ZeroWriteBackLog s) = regs_ok s" "regs_ok (ZeroWriteBackLogPreserveAcc d s) = regs_ok s"
  "regs_ok (WriteToBackLog i r v2 s) = regs_ok s"
  by (simp_all add: UpdateSR16_def UpdateSR64_def UpdateSR64Add_def UpdateSR64Sub_def compare_acc_def
      UpdateSRLogicZero_def ZeroWriteBackLog_def ZeroWriteBackLogPreserveAcc_def WriteToBackLog_def)

lemma status_log [simp]:
  "write_back_log_idx (UpdateSR16 v c o3 b s) = write_back_log_idx s"
  "write_back_log_idx (UpdateSR64 w c o3 s) = write_back_log_idx s"
  "write_back_log_idx (UpdateSR64Add x y z s) = write_back_log_idx s"
  "write_back_log_idx (UpdateSR64Sub x y z s) = write_back_log_idx s"
  "write_back_log_idx (UpdateSRLogicZero b s) = write_back_log_idx s"
  "write_back_log_idx (compare_acc x y s) = write_back_log_idx s"
  "write_back_log_idx (ZeroWriteBackLog s) = write_back_log_idx s"
  "write_back_log_idx (ZeroWriteBackLogPreserveAcc d s) = write_back_log_idx s"
  "write_back_log_idx (SetLongAcc d w s) = write_back_log_idx s"
  "write_back_log_idx (SetLongProduct w s) = write_back_log_idx s"
  by (simp_all add: UpdateSR16_def UpdateSR64_def UpdateSR64Add_def UpdateSR64Sub_def compare_acc_def
      UpdateSRLogicZero_def ZeroWriteBackLog_def ZeroWriteBackLogPreserveAcc_def SetLongAcc_def
      SetLongProduct_def)

lemma OpReadRegister_ok [wf_intro]: "regs_ok s \<Longrightarrow> regs_ok (snd (OpReadRegister r s))"
  by (simp add: OpReadRegister_def Let_def wf_intro)

lemma OpReadRegister_log [simp]: "write_back_log_idx (snd (OpReadRegister r s)) = write_back_log_idx s"
  by (simp add: OpReadRegister_def Let_def frame_simps)

lemma OpWriteRegister_ok [wf_intro]: "regs_ok s \<Longrightarrow> regs_ok (OpWriteRegister r v s)"
  by (simp add: OpWriteRegister_def Let_def wf_intro)

lemma OpWriteRegister_log [simp]: "write_back_log_idx (OpWriteRegister r v s) = write_back_log_idx s"
  by (simp add: OpWriteRegister_def Let_def frame_simps)

lemma regs_ok_if: "regs_ok x \<Longrightarrow> regs_ok y \<Longrightarrow> regs_ok (if b then x else y)"
  by simp

lemma ConditionalExtendAccum_ok [wf_intro]: "regs_ok s \<Longrightarrow> regs_ok (ConditionalExtendAccum r s)"
  unfolding ConditionalExtendAccum_def Let_def
  by (rule regs_ok_if, assumption, rule regs_ok_if, assumption, rule upd_ac_extend_ok)

lemma ConditionalExtendAccum_log [simp]:
  "write_back_log_idx (ConditionalExtendAccum r s) = write_back_log_idx s"
  by (simp add: ConditionalExtendAccum_def Let_def)

section \<open>Main opcodes\<close>

definition op_ok :: "instruction \<Rightarrow> bool" where
  "op_ok f \<longleftrightarrow> (\<forall>opc s. regs_ok s \<longrightarrow>
     regs_ok (f opc s) \<and> write_back_log_idx (f opc s) = write_back_log_idx s)"

lemma stores_ok [wf_intro]:
  "regs_ok s \<Longrightarrow> regs_ok (store_acc d v s)" "regs_ok s \<Longrightarrow> regs_ok (move_acc d v s)"
  "regs_ok s \<Longrightarrow> regs_ok (store_acc_add d v w s)" "regs_ok s \<Longrightarrow> regs_ok (store_acc_sub d v w s)"
  "regs_ok s \<Longrightarrow> regs_ok (store_accm d m s)" "regs_ok s \<Longrightarrow> regs_ok (store_prod v s)"
  "regs_ok s \<Longrightarrow> regs_ok (store_prod_acc v d w s)"
  by (simp_all add: store_acc_def move_acc_def store_acc_add_def store_acc_sub_def store_accm_def
      store_prod_def store_prod_acc_def Let_def wf_intro)

lemma stores_log [simp]:
  "write_back_log_idx (store_acc d v s) = write_back_log_idx s"
  "write_back_log_idx (move_acc d v s) = write_back_log_idx s"
  "write_back_log_idx (store_acc_add d v w s) = write_back_log_idx s"
  "write_back_log_idx (store_acc_sub d v w s) = write_back_log_idx s"
  "write_back_log_idx (store_accm d m s) = write_back_log_idx s"
  "write_back_log_idx (store_prod v s) = write_back_log_idx s"
  "write_back_log_idx (store_prod_acc v d w s) = write_back_log_idx s"
  by (simp_all add: store_acc_def move_acc_def store_acc_add_def store_acc_sub_def store_accm_def
      store_prod_def store_prod_acc_def Let_def)

lemma loads_ok [wf_intro]:
  "regs_ok s \<Longrightarrow> regs_ok (store_register a r s)" "regs_ok s \<Longrightarrow> regs_ok (load_register r a s)"
  "regs_ok s \<Longrightarrow> regs_ok (load_indirect r q s)" "regs_ok s \<Longrightarrow> regs_ok (load_imem opc r s)"
  by (simp_all add: store_register_def load_register_def load_indirect_def load_imem_def Let_def
      case_prod_unfold wf_intro)

lemma loads_log [simp]:
  "write_back_log_idx (store_register a r s) = write_back_log_idx s"
  "write_back_log_idx (load_register r a s) = write_back_log_idx s"
  "write_back_log_idx (load_indirect r q s) = write_back_log_idx s"
  "write_back_log_idx (load_imem opc r s) = write_back_log_idx s"
  by (simp_all add: store_register_def load_register_def load_indirect_def load_imem_def Let_def
      case_prod_unfold)

lemma HandleLoop_ok [wf_intro]: "regs_ok s \<Longrightarrow> regs_ok (HandleLoop s)"
  by (simp add: HandleLoop_def Let_def wf_intro)

lemma HandleLoop_log [simp]: "write_back_log_idx (HandleLoop s) = write_back_log_idx s"
  by (simp add: HandleLoop_def Let_def frame_simps)

lemma push_loop_ok [wf_intro]: "regs_ok s \<Longrightarrow> regs_ok (push_loop a c s)"
  by (simp add: push_loop_def wf_intro)

lemma push_loop_log [simp]: "write_back_log_idx (push_loop a c s) = write_back_log_idx s"
  by (simp add: push_loop_def frame_simps)

lemma clrp_ok: "regs_ok s \<Longrightarrow> regs_ok (clrp_op opc s)"
  by (simp add: clrp_op_def regs_ok_def ZeroWriteBackLog_def)

lemma arith_ops_ok:
  "op_ok clr_op"
  "op_ok clrl_op"
  "op_ok andcf_op"
  "op_ok andf_op"
  "op_ok tst_op"
  "op_ok tstaxh_op"
  "op_ok cmp_op"
  "op_ok cmpaxh_op"
  "op_ok cmpi_op"
  "op_ok cmpis_op"
  "op_ok xorr_op"
  "op_ok andr_op"
  "op_ok orr_op"
  "op_ok andc_op"
  "op_ok orc_op"
  "op_ok xorc_op"
  "op_ok notc_op"
  "op_ok xori_op"
  "op_ok andi_op"
  "op_ok ori_op"
  "op_ok addr_op"
  "op_ok addax_op"
  "op_ok add_op"
  "op_ok addp_op"
  "op_ok addaxl_op"
  "op_ok addi_op"
  "op_ok addis_op"
  "op_ok incm_op"
  "op_ok inc_op"
  "op_ok subr_op"
  "op_ok subax_op"
  "op_ok sub_op"
  "op_ok subp_op"
  "op_ok decm_op"
  "op_ok dec_op"
  "op_ok neg_op"
  "op_ok abs_op"
  "op_ok movr_op"
  "op_ok movax_op"
  "op_ok mov_op"
  "op_ok lsl16_op"
  "op_ok lsr16_op"
  "op_ok asr16_op"
  "op_ok lsl_op"
  "op_ok lsr_op"
  "op_ok asl_op"
  "op_ok asr_op"
  "op_ok lsrn_op"
  "op_ok asrn_op"
  "op_ok lsrnrx_op"
  "op_ok asrnrx_op"
  "op_ok lsrnr_op"
  "op_ok asrnr_op"
  by (simp_all add: op_ok_def op_defs Let_def case_prod_unfold wf_intro)

lemma mult_ops_ok:
  "op_ok tstprod_op"
  "op_ok movp_op"
  "op_ok movnp_op"
  "op_ok movpz_op"
  "op_ok addpaxz_op"
  "op_ok mulaxh_op"
  "op_ok mul_op"
  "op_ok mulac_op"
  "op_ok mulmv_op"
  "op_ok mulmvz_op"
  "op_ok mulx_op"
  "op_ok mulxac_op"
  "op_ok mulxmv_op"
  "op_ok mulxmvz_op"
  "op_ok mulc_op"
  "op_ok mulcac_op"
  "op_ok mulcmv_op"
  "op_ok mulcmvz_op"
  "op_ok maddx_op"
  "op_ok msubx_op"
  "op_ok maddc_op"
  "op_ok msubc_op"
  "op_ok madd_op"
  "op_ok msub_op"
  by (simp_all add: op_ok_def op_defs Let_def wf_intro)

lemma clrp_op_ok: "op_ok clrp_op"
  by (simp add: op_ok_def clrp_ok) (simp add: clrp_op_def)

lemma branch_ops_ok:
  "op_ok call_op"
  "op_ok callr_op"
  "op_ok ifcc_op"
  "op_ok jcc_op"
  "op_ok jmprcc_op"
  "op_ok ret_op"
  "op_ok rti_op"
  "op_ok halt_op"
  "op_ok loop_op"
  "op_ok loopi_op"
  "op_ok bloop_op"
  "op_ok bloopi_op"
  by (simp_all add: op_ok_def op_defs Let_def case_prod_unfold wf_intro frame_simps)

lemma load_store_ops_ok:
  "op_ok srsh_op"
  "op_ok srs_op"
  "op_ok lrs_op"
  "op_ok lr_op"
  "op_ok sr_op"
  "op_ok si_op"
  "op_ok lrr_op"
  "op_ok lrrd_op"
  "op_ok lrri_op"
  "op_ok lrrn_op"
  "op_ok srr_op"
  "op_ok srrd_op"
  "op_ok srri_op"
  "op_ok srrn_op"
  "op_ok ilrr_op"
  "op_ok ilrrd_op"
  "op_ok ilrri_op"
  "op_ok ilrrn_op"
  "op_ok mrr_op"
  "op_ok lri_op"
  "op_ok lris_op"
  "op_ok nx_op"
  "op_ok dar_op"
  "op_ok iar_op"
  "op_ok subarn_op"
  "op_ok addarn_op"
  "op_ok sbclr_op"
  "op_ok sbset_op"
  "op_ok srbith_op"
  "op_ok nop_op"
  by (simp_all add: op_ok_def op_defs Let_def case_prod_unfold wf_intro)

lemma find_op_cases: "find_op i tab = nop_op \<or> (\<exists>c m. (c, m, find_op i tab) \<in> set tab)"
  by (auto simp: find_op_def split: option.split dest!: find_Some_in)

lemma s_opcodes_ok: "list_all (\<lambda>(c, m, f). op_ok f) s_opcodes"
  by (simp add: s_opcodes_defs arith_ops_ok mult_ops_ok clrp_op_ok
      branch_ops_ok load_store_ops_ok)

lemma GetOp_ok: "op_ok (GetOp inst)"
  using find_op_cases [of inst s_opcodes] s_opcodes_ok load_store_ops_ok
  by (auto simp: GetOp_def list_all_iff)

section \<open>Extended opcodes\<close>

text \<open>The entries of the write-back log in use are the first ones, and at most four.\<close>

definition log_prefix :: "SDSP \<Rightarrow> bool" where
  "log_prefix s \<longleftrightarrow> write_back_log_idx s 4 = -1 \<and>
     (write_back_log_idx s 3 \<noteq> -1 \<longrightarrow> write_back_log_idx s 2 \<noteq> -1) \<and>
     (write_back_log_idx s 2 \<noteq> -1 \<longrightarrow> write_back_log_idx s 1 \<noteq> -1) \<and>
     (write_back_log_idx s 1 \<noteq> -1 \<longrightarrow> write_back_log_idx s 0 \<noteq> -1)"

lemma log_empty_unfold: "log_empty s \<longleftrightarrow> write_back_log_idx s 0 = -1 \<and> write_back_log_idx s 1 = -1 \<and>
    write_back_log_idx s 2 = -1 \<and> write_back_log_idx s 3 = -1 \<and> write_back_log_idx s 4 = -1"
  by (auto simp: log_empty_def less_Suc_eq numeral_eq_Suc)

lemma log_writes_ok [wf_intro]:
  "regs_ok s \<Longrightarrow> regs_ok (log_load i r a s)" "regs_ok s \<Longrightarrow> regs_ok (ext_store a r s)"
  "regs_ok s \<Longrightarrow> regs_ok (log_inc i r s)" "regs_ok s \<Longrightarrow> regs_ok (log_add_ix i r s)"
  "regs_ok s \<Longrightarrow> regs_ok (log_second_load r q s)"
  by (simp_all add: log_load_def ext_store_def log_inc_def log_add_ix_def log_second_load_def
      case_prod_unfold wf_intro)

lemma log_writes [simp]:
  "write_back_log_idx (WriteToBackLog i r v s) = (write_back_log_idx s)(i := int r)"
  "write_back_log_idx (log_load i r a s) = (write_back_log_idx s)(i := int r)"
  "write_back_log_idx (ext_store a r s) = write_back_log_idx s"
  "write_back_log_idx (log_inc i r s) = (write_back_log_idx s)(i := int r)"
  "write_back_log_idx (log_add_ix i r s) = (write_back_log_idx s)(i := int r)"
  "write_back_log_idx (log_second_load r q s) = (write_back_log_idx s)(1 := int r)"
  by (simp_all add: WriteToBackLog_def log_load_def ext_store_def log_inc_def log_add_ix_def
      log_second_load_def case_prod_unfold)

definition ext_ok :: "instruction \<Rightarrow> bool" where
  "ext_ok f \<longleftrightarrow> (\<forall>opc s. regs_ok s \<and> log_empty s \<longrightarrow> regs_ok (f opc s) \<and> log_prefix (f opc s))"

lemma ext_ops_ok:
  "ext_ok dr_ext"
  "ext_ok ir_ext"
  "ext_ok nr_ext"
  "ext_ok mv_ext"
  "ext_ok s_ext"
  "ext_ok sn_ext"
  "ext_ok l_ext"
  "ext_ok ln_ext"
  "ext_ok ls_ext"
  "ext_ok lsn_ext"
  "ext_ok lsm_ext"
  "ext_ok lsnm_ext"
  "ext_ok sl_ext"
  "ext_ok sln_ext"
  "ext_ok slm_ext"
  "ext_ok slnm_ext"
  "ext_ok ld_ext"
  "ext_ok ldax_ext"
  "ext_ok ldn_ext"
  "ext_ok ldaxn_ext"
  "ext_ok ldm_ext"
  "ext_ok ldaxm_ext"
  "ext_ok ldnm_ext"
  "ext_ok ldaxnm_ext"
  "ext_ok nop_ext"
  "ext_ok nop_op"
  by (simp_all add: ext_ok_def op_defs Let_def case_prod_unfold wf_intro log_prefix_def log_empty_unfold)

lemma s_opcodes_ext_ok: "list_all (\<lambda>(c, m, f). ext_ok f) s_opcodes_ext"
  by (simp add: s_opcodes_ext_def ext_ops_ok)

lemma GetExtOp_ok: "ext_ok (GetExtOp inst)"
  using find_op_cases [of "inst AND 0x7F" s_opcodes_ext] find_op_cases [of "inst AND 0xFF" s_opcodes_ext]
    s_opcodes_ext_ok ext_ops_ok
  by (auto simp: GetExtOp_def list_all_iff)

section \<open>Whole instructions\<close>

lemma apply_log_ok: "regs_ok s \<Longrightarrow> regs_ok (apply_log_from n i s)"
  by (induction n i s rule: apply_log_from.induct) (simp_all add: Let_def wf_intro)

lemma ApplyWriteBackLog_empty: "log_prefix s \<Longrightarrow> log_empty (ApplyWriteBackLog s)"
  by (simp add: ApplyWriteBackLog_def log_empty_unfold log_prefix_def Let_def eval_nat_numeral)

lemma ExecuteInstruction_wf [wf_intro]:
  assumes "dsp_wf s"
  shows "dsp_wf (ExecuteInstruction inst s)"
proof (cases "extended (GetOpTemplate inst)")
  case True
  let ?s1 = "GetExtOp inst inst s" and ?s2 = "GetOp inst inst (GetExtOp inst inst s)"
  have "regs_ok ?s1" "log_prefix ?s1"
    using assms GetExtOp_ok [of inst] by (auto simp: ext_ok_def dsp_wf_def)
  then have "regs_ok ?s2" "log_prefix ?s2"
    using GetOp_ok [of inst] by (auto simp: op_ok_def log_prefix_def)
  then show ?thesis using True
    by (simp add: ExecuteInstruction_def dsp_wf_def ApplyWriteBackLog_empty)
      (simp add: ApplyWriteBackLog_def apply_log_ok)
next
  case False
  then show ?thesis using assms GetOp_ok [of inst]
    by (auto simp: ExecuteInstruction_def op_ok_def dsp_wf_def log_empty_def)
qed

lemma enter_exception_wf [wf_intro]: "dsp_wf s \<Longrightarrow> dsp_wf (enter_exception i s)"
  by (simp add: dsp_wf_def enter_exception_def Let_def wf_intro log_empty_def frame_simps)

lemma CheckExceptions_wf [wf_intro]: "dsp_wf s \<Longrightarrow> dsp_wf (snd (CheckExceptions s))"
proof -
  have "dsp_wf s \<Longrightarrow> dsp_wf (snd (check_exceptions_from n s))" for n
    by (induction n) (auto intro: wf_intro)
  then show "dsp_wf s \<Longrightarrow> dsp_wf (snd (CheckExceptions s))" by (simp add: CheckExceptions_def)
qed

lemma dsp_wf_updates [simp]:
  "dsp_wf (pc_update f s) = dsp_wf s" "dsp_wf (step_counter_update g s) = dsp_wf s"
  "dsp_wf (control_reg_update f s) = dsp_wf s"
  "dsp_wf (external_interrupt_waiting_update w s) = dsp_wf s"
  "dsp_wf (control_reg_init_code_clear_time_update g s) = dsp_wf s"
  by (simp_all add: dsp_wf_def log_empty_def)

lemma HandleLoop_wf [wf_intro]: "dsp_wf s \<Longrightarrow> dsp_wf (HandleLoop s)"
  by (simp add: dsp_wf_def log_empty_def HandleLoop_ok)

lemma Step_wf [wf_intro]: "dsp_wf s \<Longrightarrow> dsp_wf (Step s)"
  by (simp add: Step_def Let_def FetchInstruction_def wf_intro)

lemma burst_wf: "dsp_wf s \<Longrightarrow> dsp_wf (snd (burst test n c s))"
  by (induction test n c s rule: burst.induct)
    (auto simp: Let_def wf_intro split: option.split stop_reason.split)

lemma run_loop_wf: "dsp_wf s \<Longrightarrow> dsp_wf (snd (run_loop t8 t200 c s))"
proof (induction t8 t200 c s rule: run_loop.induct)
  case (1 t8 t200 c s)
  obtain r1 s1 where b1: "burst t8 8 c s = (r1, s1)" by fastforce
  have w1: "dsp_wf s1" using burst_wf [OF 1(2), of t8 8 c] b1 by simp
  show ?case
  proof (cases r1)
    case (CyclesLeft c1)
    obtain r2 s2 where b2: "burst t200 200 c1 s1 = (r2, s2)" by fastforce
    have w2: "dsp_wf s2" using burst_wf [OF w1, of t200 200 c1] b2 by simp
    show ?thesis
    proof (cases r2)
      case (CyclesLeft c2)
      then have "dsp_wf (snd (run_loop t8 t200 c2 s2))"
        using 1(1) b1 b2 \<open>r1 = CyclesLeft c1\<close> w2 by simp
      with CyclesLeft b1 b2 \<open>r1 = _\<close> show ?thesis by (subst run_loop.simps) simp
    qed (use b1 b2 w2 \<open>r1 = _\<close> in \<open>simp_all add: run_loop.simps [of t8]\<close>)
  qed (use b1 w1 in \<open>simp_all add: run_loop.simps [of t8]\<close>)
qed

lemma RunCycles_wf: "dsp_wf s \<Longrightarrow> dsp_wf (snd (RunCycles c s))"
  using burst_wf [of s halt_test 8 c] run_loop_wf
  by (auto simp: RunCycles_def split: prod.split run_end.split)

end
