(* ===== verification/Dsp_Control.thy ===== *)
theory Dsp_Control
  imports Dsp_Invariant
begin

text \<open>
  Control flow: the hardware stacks seen by the program, calls and returns, exceptions with
  their priority and the return from them, and the hardware loops.  The proofs rest on the
  contract \<open>hw_stacks\<close> through its interpretation \<open>stacks\<close>.
\<close>

section \<open>Stacks\<close>

fun pops :: "StackRegister \<Rightarrow> nat \<Rightarrow> SDSP \<Rightarrow> u16 list \<times> SDSP" where
  "pops k 0 s = ([], s)"
| "pops k (Suc n) s =
    (case PopStack k s of (v, s') \<Rightarrow> case pops k n s' of (vs, s'') \<Rightarrow> (v # vs, s''))"

lemma fold_StoreStack: "fold (StoreStack k) vs s = stacks.push_all k vs s"
  by (induction vs arbitrary: s) simp_all

lemma pops_pop_many: "pops k n s = stacks.pop_many k n s"
  by (induction n arbitrary: s) (simp_all add: case_prod_unfold Let_def)

lemma wf_stacks: "dsp_wf s \<Longrightarrow> stack_ptrs_ok s"
proof -
  assume "dsp_wf s"
  then have "reg_stack_ptrs s (stack_index k) < 32" for k by (auto simp: dsp_wf_def regs_ok_def)
  then show ?thesis by (auto simp: stack_ptrs_ok_def word_less_nat_alt)
qed

text \<open>
  C24: each hardware stack is a bounded last-in first-out list: what at most 32 pushes put on
  it comes back in reverse order and the entries below are intact, and after any number of
  pushes it holds the last 33 values, older ones being lost.
\<close>

theorem stacks_are_bounded_lifo:
  assumes "dsp_wf s" "length vs \<le> DSP_STACK_DEPTH"
  shows "fst (pops k (length vs) (fold (StoreStack k) vs s)) = rev vs \<and>
    take (33 - length vs) (stack_view (snd (pops k (length vs) (fold (StoreStack k) vs s))) k) =
      take (33 - length vs) (stack_view s k) \<and>
    stack_view (fold (StoreStack k) ws s) k = take 33 (rev ws @ stack_view s k)"
  using stacks.pushes_then_pops [OF wf_stacks [OF assms(1)] assms(2), of k]
    stacks.view_push_all [OF wf_stacks [OF assms(1)], of k ws]
  unfolding fold_StoreStack pops_pop_many by simp

lemma power_on_wf: "dsp_wf (power_on gamecube_host)"
  by (simp add: power_on_def dsp_wf_def regs_ok_def log_empty_def zero_regs_def prod_h_def slice16_def)

theorem stacks_are_bounded_lifo_witness:
  "fst (pops DataStack 3 (fold (StoreStack DataStack) [1, 2, 3] (power_on gamecube_host))) = [3, 2, 1]"
  using stacks_are_bounded_lifo [OF power_on_wf, of "[1, 2, 3]" DataStack] by (simp add: numeral_3_eq_3)

section \<open>Calls\<close>

lemma CheckCondition_always [simp]: "CheckCondition 0xf s"
  by (simp add: CheckCondition_def Let_def)

lemma stack_view_set_pc [simp]: "stack_view (set_pc v s) = stack_view s"
  by (simp add: stack_view_def fun_eq_iff)

lemma stack_view_pc_update [simp]: "stack_view (s\<lparr>pc := v\<rparr>) = stack_view s"
  by (simp add: stack_view_def fun_eq_iff)

lemma stack_view_upd_sr [simp]: "stack_view (upd_sr f s) = stack_view s"
  by (simp add: stack_view_def fun_eq_iff)

lemma stack_ptrs_ok_updates [simp]:
  "stack_ptrs_ok (set_pc v s) = stack_ptrs_ok s" "stack_ptrs_ok (s\<lparr>pc := w\<rparr>) = stack_ptrs_ok s"
  "stack_ptrs_ok (upd_sr f s) = stack_ptrs_ok s"
  by (simp_all add: stack_ptrs_ok_def)

lemma pc_stacks [simp]:
  "pc (StoreStack k v s) = pc s" "pc (snd (PopStack k s)) = pc s"
  "sr_of (StoreStack k v s) = sr_of s" "sr_of (snd (PopStack k s)) = sr_of s"
  "exceptions (StoreStack k v s) = exceptions s"
  by (simp_all add: StoreStack_def PopStack_def Let_def)

text \<open>
  a call jumps to its target, and a return executed later, after code that leaves the call
  stack as the call made it, resumes at the instruction after the call with the call stack of
  the caller.
\<close>

theorem call_then_return:
  assumes "dsp_wf s" "CheckCondition (opc AND 0xf) s" "CheckCondition (opr AND 0xf) t" "stack_ptrs_ok t"
    and "stack_view t CallStack = stack_view (call_op opc s) CallStack"
  shows "pc (call_op opc s) = ReadIMEM (pc s) s \<and> pc (ret_op opr t) = pc s + 1 \<and>
    take 32 (stack_view (ret_op opr t) CallStack) = take 32 (stack_view s CallStack)"
proof -
  let ?s1 = "s\<lparr>pc := pc s + 1\<rparr>"
  have ok: "stack_ptrs_ok ?s1" using wf_stacks [OF assms(1)] by simp
  have "CheckCondition (opc AND 0xf) ?s1"
    using assms(2) by (simp add: CheckCondition_def IsSRFlagSet_def)
  then have c: "call_op opc s = set_pc (ReadIMEM (pc s) s) (StoreStack CallStack (pc s + 1) ?s1)"
    by (simp add: call_op_def FetchInstruction_def PeekInstruction_def)
  have v: "stack_view t CallStack = (pc s + 1) # butlast (stack_view s CallStack)"
    using assms(5) stacks.view_store [OF ok] by (simp add: c)
  have r: "ret_op opr t = set_pc (fst (PopStack CallStack t)) (snd (PopStack CallStack t))"
    using assms(3) by (simp add: ret_op_def case_prod_unfold)
  have "take 32 (butlast (stack_view s CallStack)) = take 32 (stack_view s CallStack)"
    by (simp add: butlast_conv_take)
  then show ?thesis
    by (simp add: c r v PopStack_value stacks.view_pop [OF assms(4)])
qed

theorem call_then_return_witness:
  "pc (ret_op 0x02df (call_op 0x02bf (power_on gamecube_host))) = 1"
proof -
  let ?s = "power_on gamecube_host"
  have "stack_ptrs_ok (call_op 0x02bf ?s)"
    using stacks.store_ok [of "?s\<lparr>pc := pc ?s + 1\<rparr>"] wf_stacks [OF power_on_wf]
    by (simp add: call_op_def FetchInstruction_def)
  then show ?thesis
    using call_then_return [OF power_on_wf, of "0x02bf" "0x02df" "call_op 0x02bf ?s"]
    by (simp add: power_on_def)
qed

section \<open>Exceptions\<close>

text \<open>Exceptions are ordered by their number: the highest is served first.\<close>

instantiation ExceptionType :: linorder
begin

definition less_eq_ExceptionType :: "ExceptionType \<Rightarrow> ExceptionType \<Rightarrow> bool" where
  "less_eq_ExceptionType a b \<longleftrightarrow> exception_number a \<le> exception_number b"

definition less_ExceptionType :: "ExceptionType \<Rightarrow> ExceptionType \<Rightarrow> bool" where
  "less_ExceptionType a b \<longleftrightarrow> exception_number a < exception_number b"

instance
proof
  fix a b :: ExceptionType
  show "a \<le> b \<Longrightarrow> b \<le> a \<Longrightarrow> a = b"
    by (cases a; cases b) (simp_all add: less_eq_ExceptionType_def exception_number_def)
qed (auto simp: less_eq_ExceptionType_def less_ExceptionType_def)

end

text \<open>An exception is eligible when it is pending and enabled; the external interrupt always is.\<close>

definition eligible :: "ExceptionType \<Rightarrow> SDSP \<Rightarrow> bool" where
  "eligible e s \<longleftrightarrow> exceptions s AND push_bit (exception_number e) 1 \<noteq> 0 \<and>
     (IsSRFlagSet SR_INT_ENABLE s \<or> e = ExternalInterrupt)"

lemma exception_number_eq_iff [simp]: "exception_number a = exception_number b \<longleftrightarrow> a = b"
  by (cases a; cases b) (simp_all add: exception_number_def)

lemma exception_number_surj: "0 < i \<Longrightarrow> i \<le> 7 \<Longrightarrow> \<exists>e. exception_number e = i"
proof -
  assume "0 < i" "i \<le> 7"
  then have "i = 1 \<or> i = 2 \<or> i = 3 \<or> i = 4 \<or> i = 5 \<or> i = 6 \<or> i = 7" by arith
  moreover have "exception_number StackOverflow = 1" "exception_number EXP_2 = 2"
    "exception_number AcceleratorRawReadOverflow = 3" "exception_number AcceleratorRawWriteOverflow = 4"
    "exception_number AcceleratorSampleReadOverflow = 5" "exception_number EXP_6 = 6"
    "exception_number ExternalInterrupt = 7"
    by (simp_all add: exception_number_def)
  ultimately show ?thesis by metis
qed

lemma exception_number_range: "0 < exception_number e \<and> exception_number e \<le> 7"
  by (cases e) (simp_all add: exception_number_def)

lemma check_exceptions_from_cases:
  "n \<le> 7 \<Longrightarrow>
    (\<exists>e. eligible e s \<and> exception_number e \<le> n \<and>
       (\<forall>e'. eligible e' s \<longrightarrow> exception_number e' \<le> n \<longrightarrow> e' \<le> e) \<and>
       check_exceptions_from n s = (True, enter_exception (exception_number e) s)) \<or>
    (\<forall>e. eligible e s \<longrightarrow> n < exception_number e) \<and> check_exceptions_from n s = (False, s)"
proof (induction n)
  case 0
  then show ?case using exception_number_range by auto
next
  case (Suc i)
  obtain e where e: "exception_number e = Suc i" using exception_number_surj [of "Suc i"] Suc.prems by auto
  have cond: "(exceptions s AND push_bit (Suc i) 1 \<noteq> 0 \<and>
      (IsSRFlagSet SR_INT_ENABLE s \<or> Suc i = exception_number ExternalInterrupt)) \<longleftrightarrow> eligible e s"
    using e by (auto simp: eligible_def e [symmetric] simp del: push_bit_Suc)
  show ?case
  proof (cases "eligible e s")
    case True
    then have "check_exceptions_from (Suc i) s = (True, enter_exception (exception_number e) s)"
      by (simp only: check_exceptions_from.simps cond if_True e)
    moreover have "\<forall>e'. exception_number e' \<le> Suc i \<longrightarrow> e' \<le> e"
      by (simp add: less_eq_ExceptionType_def e)
    ultimately show ?thesis using True e by auto
  next
    case False
    then have c: "check_exceptions_from (Suc i) s = check_exceptions_from i s"
      by (simp only: check_exceptions_from.simps cond if_False)
    have "exception_number e' \<le> Suc i \<longleftrightarrow> exception_number e' \<le> i" if "eligible e' s" for e'
      using that False e by (metis exception_number_eq_iff le_Suc_eq)
    moreover from this have "i < exception_number e' \<longleftrightarrow> Suc i < exception_number e'"
      if "eligible e' s" for e'
      using that by (simp flip: not_le)
    moreover have "i \<le> 7" using Suc.prems by simp
    ultimately show ?thesis using Suc.IH unfolding c by auto
  qed
qed

lemma check_exceptions_result:
  "(\<exists>e. eligible e s \<and> (\<forall>e'. eligible e' s \<longrightarrow> e' \<le> e) \<and>
      CheckExceptions s = (True, enter_exception (exception_number e) s)) \<or>
   (\<forall>e. \<not> eligible e s) \<and> CheckExceptions s = (False, s)"
proof (cases "exceptions s = 0")
  case True
  then show ?thesis by (simp add: CheckExceptions_def eligible_def)
next
  case False
  have "\<not> (7 < exception_number e)" "exception_number e \<le> 7" for e
    using exception_number_range [of e] by auto
  then show ?thesis
    using check_exceptions_from_cases [of 7 s] False unfolding CheckExceptions_def by auto
qed

lemma finite_ExceptionType: "finite (A :: ExceptionType set)"
  by (rule inj_on_finite [of exception_number _ "{..7}"])
    (auto simp: inj_on_def exception_number_eq_iff exception_number_range)

text \<open>
  an instruction boundary serves exactly the highest eligible exception, if there is one,
  and does nothing otherwise: lower ones stay pending, and a disabled one does not hide an
  enabled one below it.
\<close>

theorem highest_exception_served:
  "CheckExceptions s =
    (if {e. eligible e s} = {} then (False, s)
     else (True, enter_exception (exception_number (Max {e. eligible e s})) s))"
  using check_exceptions_result [of s]
proof (elim disjE exE conjE)
  fix e
  assume e: "eligible e s" "\<forall>e'. eligible e' s \<longrightarrow> e' \<le> e"
    and c: "CheckExceptions s = (True, enter_exception (exception_number e) s)"
  have "Max {e. eligible e s} = e" using e by (intro Max_eqI finite_ExceptionType) auto
  then show ?thesis using c e(1) by auto
qed simp

lemma rti_always:
  assumes "CheckCondition (opr AND 0xf) t"
  shows "rti_op opr t =
    (let t1 = upd_sr (\<lambda>_. fst (PopStack DataStack t)) (DropStack DataStack t)
     in set_pc (fst (PopStack CallStack t1)) (DropStack CallStack t1))"
  using assms by (simp add: rti_op_def case_prod_unfold Let_def)

text \<open>
  C5: taking an exception jumps to its vector with its pending bit and its enable bit off, and
  an \<open>rti\<close> executed later, after a handler that leaves the call and data stacks as it found
  them, restores \<open>pc\<close>, \<open>$sr\<close> and both stacks.
\<close>

theorem exception_then_rti:
  assumes "dsp_wf s" "CheckExceptions s = (True, s')" "CheckCondition (opr AND 0xf) t" "stack_ptrs_ok t"
    and "stack_view t CallStack = stack_view s' CallStack" "stack_view t DataStack = stack_view s' DataStack"
  shows "(\<exists>e. eligible e s \<and> pc s' = word_of_nat (2 * exception_number e) \<and>
      exceptions s' = exceptions s AND NOT (push_bit (exception_number e) 1) \<and>
      \<not> IsSRFlagSet (if e = ExternalInterrupt then SR_EXT_INT_ENABLE else SR_INT_ENABLE) s') \<and>
    pc (rti_op opr t) = pc s \<and> sr_of (rti_op opr t) = sr_of s \<and>
    (\<forall>k. k = CallStack \<or> k = DataStack \<longrightarrow>
      take 32 (stack_view (rti_op opr t) k) = take 32 (stack_view s k))"
proof -
  have ok: "stack_ptrs_ok s" using assms(1) by (rule wf_stacks)
  obtain e where e: "eligible e s" "s' = enter_exception (exception_number e) s"
    using check_exceptions_result [of s] assms(2) by auto
  have n7: "exception_number e = 7 \<longleftrightarrow> e = ExternalInterrupt" by (cases e) (simp_all add: exception_number_def)
  have v: "stack_view s' CallStack = pc s # butlast (stack_view s CallStack)"
    "stack_view s' DataStack = sr_of s # butlast (stack_view s DataStack)"
    using ok by (simp_all add: e(2) enter_exception_def Let_def stacks.view_store stacks.store_ok
        stack_view_def [of "exceptions_update f x" for f x] flip: stack_view_def)
  have "pc s' = word_of_nat (2 * exception_number e) \<and>
      exceptions s' = exceptions s AND NOT (push_bit (exception_number e) 1) \<and>
      \<not> IsSRFlagSet (if e = ExternalInterrupt then SR_EXT_INT_ENABLE else SR_INT_ENABLE) s'"
    by (simp add: e(2) enter_exception_def Let_def n7 IsSRFlagSet_def and.assoc mult.commute)
  moreover have "pc (rti_op opr t) = pc s \<and> sr_of (rti_op opr t) = sr_of s \<and>
      take 32 (stack_view (rti_op opr t) CallStack) = take 32 (stack_view s CallStack) \<and>
      take 32 (stack_view (rti_op opr t) DataStack) = take 32 (stack_view s DataStack)"
    unfolding rti_always [OF assms(3)] Let_def
    by (simp add: PopStack_value stacks.view_pop stacks.pop_ok assms(4-6) v butlast_conv_take)
  ultimately show ?thesis using e(1) by blast
qed

text \<open>A pending external interrupt right after power-on.\<close>

definition interrupted :: SDSP where
  "interrupted = SetException ExternalInterrupt (power_on gamecube_host)"

lemma interrupted_wf: "dsp_wf interrupted"
  using power_on_wf by (simp add: interrupted_def SetException_def dsp_wf_def regs_ok_def log_empty_def)

lemma external_first:
  assumes "exceptions s = 0x80"
  shows "CheckExceptions s = (True, enter_exception 7 s)"
proof -
  have "check_exceptions_from (Suc 6) s = (True, enter_exception (Suc 6) s)"
    using assms unfolding check_exceptions_from.simps(2) [of 6]
    by (simp add: exception_number_def del: push_bit_Suc)
  then show ?thesis using assms by (simp add: CheckExceptions_def)
qed

theorem exception_then_rti_witness:
  "pc (snd (CheckExceptions interrupted)) = 14 \<and> pc (rti_op 0x02ff (snd (CheckExceptions interrupted))) = 0"
proof -
  have "exceptions interrupted = 0x80"
    by (simp add: interrupted_def SetException_def exception_number_def power_on_def)
  then have c: "CheckExceptions interrupted = (True, enter_exception 7 interrupted)"
    by (simp add: external_first)
  have ok: "stack_ptrs_ok (enter_exception 7 interrupted)"
    using wf_stacks [OF enter_exception_wf [OF interrupted_wf]] .
  have p: "pc interrupted = 0" by (simp add: interrupted_def SetException_def power_on_def)
  show ?thesis
    using exception_then_rti [OF interrupted_wf c, of "0x02ff" "enter_exception 7 interrupted"] ok
    by (simp add: c p) (simp add: enter_exception_def Let_def)
qed

section \<open>Loops\<close>

text \<open>
  A body that runs from \<open>start\<close> to the instruction after \<open>fin\<close> and leaves the four stacks as it
  found them, which includes the loops inside it.
\<close>

definition neutral_body :: "(SDSP \<Rightarrow> SDSP) \<Rightarrow> u16 \<Rightarrow> u16 \<Rightarrow> bool" where
  "neutral_body body start fin \<longleftrightarrow>
    (\<forall>t. stack_ptrs_ok t \<and> pc t = start \<longrightarrow>
      stack_ptrs_ok (body t) \<and> pc (body t) = fin + 1 \<and> (\<forall>k. stack_view (body t) k = stack_view t k))"

definition in_loop :: "SDSP \<Rightarrow> u16 \<Rightarrow> u16 \<Rightarrow> SDSP \<Rightarrow> bool" where
  "in_loop s fin cnt t \<longleftrightarrow> stack_ptrs_ok t \<and>
    stack_view t CallStack = pc s # butlast (stack_view s CallStack) \<and>
    stack_view t LoopAddress = fin # butlast (stack_view s LoopAddress) \<and>
    stack_view t LoopCounter = cnt # butlast (stack_view s LoopCounter) \<and>
    stack_view t DataStack = stack_view s DataStack"

lemma push_loop_in_loop: "stack_ptrs_ok s \<Longrightarrow> in_loop s fin cnt (push_loop fin cnt s)"
  by (simp add: in_loop_def push_loop_def stacks.view_store stacks.store_ok)

lemma stack_view_set_counter:
  "stack_view (regs_update (r_st_update (\<lambda>st. st(3 := c))) s) k =
    (if k = LoopCounter then c # tl (stack_view s k) else stack_view s k)"
  by (cases k) (simp_all add: stack_view_def stack_index_def)

lemma in_loop_regs:
  assumes "in_loop s fin cnt t"
  shows "r_st (regs t) 0 = pc s" "r_st (regs t) 2 = fin" "r_st (regs t) 3 = cnt"
  using assms hd_stack_view [of t CallStack] hd_stack_view [of t LoopAddress] hd_stack_view [of t LoopCounter]
  by (simp_all add: in_loop_def stack_index_def)

lemma uint_pc_after: "fin \<noteq> 0xffff \<Longrightarrow> uint ((fin :: u16) + 1) - 1 = uint fin"
proof -
  assume "fin \<noteq> 0xffff"
  moreover have "(0xffff :: u16) = - 1" by simp
  ultimately have "1 + fin \<noteq> 0" by (metis add.commute eq_neg_iff_add_eq_0)
  then have "unat (1 + fin) = Suc (unat fin)" by (rule unatSuc)
  then have "int (unat (fin + 1)) = int (unat fin) + 1" by (simp only: add.commute [of fin] of_nat_Suc)
  then show ?thesis by simp
qed

lemma HandleLoop_again:
  assumes "in_loop s fin cnt t" "0 < fin" "fin \<noteq> 0xffff" "1 < cnt" "pc t = fin + 1"
  shows "in_loop s fin (cnt - 1) (HandleLoop t) \<and> pc (HandleLoop t) = pc s"
proof -
  have "0 < cnt - 1" "0 < cnt" using assms(4) by (auto simp: word_gt_0 less_le_trans)
  then have "HandleLoop t = set_pc (pc s) (regs_update (r_st_update (\<lambda>st. st(3 := cnt - 1))) t)"
    using assms by (simp add: HandleLoop_def in_loop_regs [OF assms(1)] uint_pc_after)
  moreover have "stack_ptrs_ok (regs_update f t) = stack_ptrs_ok t" for f by (simp add: stack_ptrs_ok_def)
  ultimately show ?thesis
    using assms(1) by (simp add: in_loop_def stack_view_set_counter)
qed

lemma HandleLoop_last:
  assumes "in_loop s fin 1 t" "0 < fin" "fin \<noteq> 0xffff" "pc t = fin + 1"
  shows "pc (HandleLoop t) = fin + 1 \<and> stack_ptrs_ok (HandleLoop t) \<and>
    (\<forall>k. take 32 (stack_view (HandleLoop t) k) = take 32 (stack_view s k))"
proof -
  let ?t = "regs_update (r_st_update (\<lambda>st. st(3 := 0))) t"
  have h: "HandleLoop t = DropStack LoopCounter (DropStack LoopAddress (DropStack CallStack ?t))"
    using assms by (simp add: HandleLoop_def in_loop_regs [OF assms(1)] uint_pc_after)
  have ok: "stack_ptrs_ok ?t" using assms(1) by (simp add: in_loop_def stack_ptrs_ok_def)
  have "take 32 (stack_view (HandleLoop t) k) = take 32 (stack_view s k)" for k
    using assms(1)
    by (cases k) (simp_all add: h stacks.view_pop stacks.pop_ok ok stack_view_set_counter in_loop_def butlast_conv_take)
  then show ?thesis using assms(4) by (simp add: h stacks.pop_ok ok)
qed

text \<open>The state after \<open>k\<close> rounds of body and loop hardware.\<close>

definition loop_rounds :: "(SDSP \<Rightarrow> SDSP) \<Rightarrow> nat \<Rightarrow> SDSP \<Rightarrow> SDSP" where
  "loop_rounds body k s = ((\<lambda>t. HandleLoop (body t)) ^^ k) s"

lemma loop_rounds_before_last:
  assumes "stack_ptrs_ok s" "neutral_body body (pc s) fin" "0 < fin" "fin \<noteq> 0xffff"
  shows "k < unat cnt \<Longrightarrow> in_loop s fin (cnt - word_of_nat k) (loop_rounds body k (push_loop fin cnt s)) \<and>
    pc (loop_rounds body k (push_loop fin cnt s)) = pc s"
proof (induction k)
  case 0
  have "pc (push_loop fin cnt s) = pc s" by (simp add: push_loop_def)
  then show ?case using push_loop_in_loop [OF assms(1), of fin cnt] by (simp add: loop_rounds_def)
next
  case (Suc k)
  let ?t = "loop_rounds body k (push_loop fin cnt s)"
  have t: "in_loop s fin (cnt - word_of_nat k) ?t" "pc ?t = pc s" using Suc by simp_all
  then have b: "in_loop s fin (cnt - word_of_nat k) (body ?t)" "pc (body ?t) = fin + 1"
    using assms(2) by (simp_all add: in_loop_def neutral_body_def)
  have k: "unat (word_of_nat k :: u16) = k"
    using Suc.prems unsigned_less [of cnt, where 'a = nat]
    by (simp add: unat_of_nat)
  then have "unat (cnt - word_of_nat k) = unat cnt - k"
    using Suc.prems by (simp add: unat_sub word_le_nat_alt)
  then have "1 < cnt - word_of_nat k" using Suc.prems by (simp add: word_less_nat_alt)
  from HandleLoop_again [OF b(1) assms(3,4) this b(2)]
  have "in_loop s fin (cnt - word_of_nat k - 1) (loop_rounds body (Suc k) (push_loop fin cnt s)) \<and>
      pc (loop_rounds body (Suc k) (push_loop fin cnt s)) = pc s"
    by (simp add: loop_rounds_def)
  then show ?case by (simp add: algebra_simps)
qed

text \<open>
  C3: a hardware loop with a count \<open>cnt > 0\<close> runs its body exactly \<open>cnt\<close> times: in every
  round before the last the loop hardware jumps back to the start, with the counter at the
  number of rounds left, and after the last it falls through with the top 32 entries of all four stacks
  as they were before the loop instruction (a push on a full stack loses the one below them).
\<close>

theorem loops_run_count_times:
  assumes "dsp_wf s" "neutral_body body (pc s) fin" "0 < fin" "fin \<noteq> 0xffff" "0 < cnt"
  shows "(\<forall>k<unat cnt. pc (loop_rounds body k (push_loop fin cnt s)) = pc s \<and>
      r_st (regs (loop_rounds body k (push_loop fin cnt s))) 3 = cnt - word_of_nat k) \<and>
    pc (loop_rounds body (unat cnt) (push_loop fin cnt s)) = fin + 1 \<and>
    (\<forall>j. take 32 (stack_view (loop_rounds body (unat cnt) (push_loop fin cnt s)) j) =
      take 32 (stack_view s j))"
proof -
  note before = loop_rounds_before_last [OF wf_stacks [OF assms(1)] assms(2-4), of _ cnt]
  obtain n where n: "unat cnt = Suc n" using assms(5) by (metis not0_implies_Suc unat_eq_0 word_gt_0)
  let ?t = "loop_rounds body n (push_loop fin cnt s)"
  have "word_of_nat (unat cnt) = cnt" by simp
  then have "cnt - word_of_nat n = 1" unfolding n by (auto simp: algebra_simps)
  then have "in_loop s fin 1 (body ?t)" "pc (body ?t) = fin + 1"
    using before [of n] assms(2) n by (simp_all add: in_loop_def neutral_body_def)
  moreover have "loop_rounds body (unat cnt) (push_loop fin cnt s) = HandleLoop (body ?t)"
    by (simp add: loop_rounds_def n)
  ultimately show ?thesis
    using before in_loop_regs(3) [of s fin "cnt - word_of_nat k" "loop_rounds body k (push_loop fin cnt s)" for k]
      HandleLoop_last [of s fin "body ?t"] assms(3,4) by auto
qed

theorem loops_run_count_times_witness:
  "pc (loop_rounds (set_pc 0x11) 5 (push_loop 0x10 5 (power_on gamecube_host))) = 0x11"
proof -
  have "neutral_body (set_pc 0x11) (pc (power_on gamecube_host)) 0x10"
    by (simp add: neutral_body_def)
  then show ?thesis
    using loops_run_count_times [OF power_on_wf, of "set_pc 0x11" "0x10" 5] by simp
qed

end
