(* ===== verification/Dsp_Machine.thy ===== *)
theory Dsp_Machine
  imports Dsp_Control
begin

text \<open>
  Properties of the machine as a whole: initialisation, the invariant of well-formed states
  under every way of running, the run functions as iterations of \<open>Step\<close>, and the control
  register.
\<close>

section \<open>Initialisation and reset\<close>

lemma log_empty_updates [simp]:
  "log_empty (InitializeIFX s) = log_empty s" "log_empty (analyze_state s) = log_empty s"
  by (simp_all add: log_empty_def InitializeIFX_def analyze_state_def split: option.split)

text \<open>
  Initialisation succeeds when the ROMs are accepted and then leaves a well-formed, halted
  machine with the interrupts enabled, empty stacks, cleared mailboxes and instruction memory
  filled with HALT; when they are refused it reports failure and touches no register.
\<close>

theorem initialize_spec:
  assumes "log_empty s"
  shows "(\<exists>s'. Initialize True ir co s = (True, s') \<and> dsp_wf s' \<and> halted s' \<and>
      IsSRFlagSet SR_INT_ENABLE s' \<and> IsSRFlagSet SR_EXT_INT_ENABLE s' \<and>
      (\<forall>k. stack_view s' k = replicate 33 0) \<and> (\<forall>m. PeekMailbox m s' = 0) \<and>
      (\<forall>a < 0x1000. ReadIMEM a s' = 0x0021) \<and> irom s' = ir \<and> coef s' = co) \<and>
    (\<exists>s'. Initialize False ir co s = (False, s') \<and> regs s' = regs s \<and>
      control_reg s' = control_reg s \<and> iram s' = iram s)"
proof -
  let ?s = "snd (Initialize True ir co s)"
  have "a < 0x1000 \<Longrightarrow> drop_bit 12 a = 0" for a :: u16
    by (simp add: word_less_nat_alt word_unat_eq_iff drop_bit_eq_div unat_div)
  moreover have "stack_view ?s k = replicate 33 0" for k
    by (simp add: stack_view_def Initialize_def Let_def InitializeIFX_def zero_regs_def
        map_replicate_const numeral_eq_Suc flip: replicate_Suc)
  moreover have "log_empty ?s" using assms by (simp add: Initialize_def Let_def log_empty_def InitializeIFX_def)
  ultimately show ?thesis
    by (auto simp: Initialize_def Let_def InitializeIFX_def dsp_wf_def regs_ok_def zero_regs_def
        halted_def IsSRFlagSet_def PeekMailbox_def ReadIMEM_def prod_h_def slice16_def)
qed

theorem initialize_spec_witness:
  "\<exists>s'. Initialize True (\<lambda>_. 0) (\<lambda>_. 0) (power_on gamecube_host) = (True, s') \<and> dsp_wf s' \<and> halted s'"
proof -
  have "log_empty (power_on gamecube_host)" using power_on_wf by (simp add: dsp_wf_def)
  from initialize_spec [OF this, of "\<lambda>_. 0" "\<lambda>_. 0"] show ?thesis by blast
qed

section \<open>The invariant\<close>

lemma CheckExternalInterrupt_wf [wf_intro]: "dsp_wf s \<Longrightarrow> dsp_wf (CheckExternalInterrupt s)"
  by (simp add: CheckExternalInterrupt_def SetException_def dsp_wf_def regs_ok_def log_empty_def)

lemma take_external_interrupt_wf [wf_intro]: "dsp_wf s \<Longrightarrow> dsp_wf (take_external_interrupt s)"
  by (simp add: take_external_interrupt_def wf_intro)

lemma RunCyclesDebug_wf: "dsp_wf s \<Longrightarrow> dsp_wf (snd (RunCyclesDebug bp c s))"
  using burst_wf [of s "halt_break_test bp" 8 c] run_loop_wf
  by (auto simp: RunCyclesDebug_def split: prod.split run_end.split)

lemma RunCyclesThread_wf: "dsp_wf s \<Longrightarrow> dsp_wf (snd (RunCyclesThread irqs c s))"
proof (induction irqs c s rule: RunCyclesThread.induct)
  case (1 irqs c s)
  let ?s0 = "if irqs \<noteq> [] \<and> hd irqs then SetExternalInterrupt True s else s"
  have "dsp_wf (Step (take_external_interrupt ?s0))"
    using 1(2) by (intro wf_intro) (auto simp: SetExternalInterrupt_def)
  then show ?case using 1 by (subst RunCyclesThread.simps) (simp add: Let_def)
qed

lemma Reset_wf: "dsp_wf s \<Longrightarrow> dsp_wf (Reset s)"
  by (simp add: Reset_def SDSP_Reset_def dsp_wf_def regs_ok_def analyze_state_def log_empty_def split: option.split)

text \<open>
  C1: well-formedness is an invariant: one instruction, whatever its code, and each of the run
  functions, whatever breakpoints or interrupts arrive, keep the accumulators sign-extended
  40-bit values, the stack pointers in range and the write-back log empty.
\<close>

theorem running_keeps_well_formed:
  assumes "dsp_wf s"
  shows "dsp_wf (ExecuteInstruction inst s) \<and> dsp_wf (Step s) \<and> dsp_wf (snd (RunCycles c s)) \<and>
    dsp_wf (snd (RunCyclesDebug bp c s)) \<and> dsp_wf (snd (RunCyclesThread irqs c s)) \<and> dsp_wf (Reset s)"
  using assms by (simp add: wf_intro RunCycles_wf RunCyclesDebug_wf RunCyclesThread_wf Reset_wf)

theorem running_keeps_well_formed_witness: "dsp_wf (snd (RunCycles 1000 (power_on gamecube_host)))"
  using running_keeps_well_formed [OF power_on_wf] by blast

section \<open>Running is stepping\<close>

text \<open>
  \<open>run_spec P B c s r s' k\<close>: from \<open>s\<close> with \<open>c\<close> cycles, \<open>k\<close> steps lead to \<open>s'\<close> and end with
  \<open>r\<close>; no step follows a fault, and a normal return has used the cycles up or found \<open>P\<close>.
\<close>

definition run_spec ::
  "(SDSP \<Rightarrow> bool) \<Rightarrow> (SDSP \<Rightarrow> bool) \<Rightarrow> int \<Rightarrow> SDSP \<Rightarrow> run_end \<Rightarrow> SDSP \<Rightarrow> nat \<Rightarrow> bool" where
  "run_spec P B c s r s' k \<longleftrightarrow>
     s' = (Step ^^ k) s \<and> int k \<le> max 1 c \<and> (\<forall>i<k. 0 < i \<longrightarrow> fault ((Step ^^ i) s) = None) \<and>
     (case r of Returned x \<Rightarrow> x = 0 \<and> (int k = max 1 c \<or> P s')
      | BreakHit x \<Rightarrow> x = c - int k \<and> B s'
      | Faulted \<Rightarrow> 0 < k \<and> fault s' \<noteq> None
      | CyclesLeft x \<Rightarrow> x = c - int k \<and> (0 < k \<longrightarrow> 0 < x \<and> fault s' = None))"

lemma run_spec_append:
  assumes "run_spec P B c s (CyclesLeft c1) s1 k1" "run_spec P B c1 s1 r s2 k2" "0 < k1"
  shows "run_spec P B c s r s2 (k1 + k2)"
proof -
  have c1: "c1 = c - int k1" "0 < c1" "fault s1 = None" "s1 = (Step ^^ k1) s"
    using assms(1,3) by (auto simp: run_spec_def)
  have s2: "s2 = (Step ^^ k2) s1" using assms(2) by (simp add: run_spec_def)
  have shift: "(Step ^^ (m + k1)) s = (Step ^^ m) s1" for m by (simp add: c1(4) funpow_add)
  have "(Step ^^ (k1 + k2)) s = s2" using shift [of k2] by (simp add: s2 add.commute)
  moreover have "fault ((Step ^^ i) s) = None" if "i < k1 + k2" "0 < i" for i
  proof (cases "i \<le> k1")
    case True
    have "fault ((Step ^^ k1) s) = None" using c1(3) unfolding c1(4) .
    then show ?thesis using assms(1) that True by (cases "i = k1") (auto simp: run_spec_def)
  next
    case False
    then have "(Step ^^ i) s = (Step ^^ (i - k1)) s1" using shift [of "i - k1"] by simp
    then show ?thesis using assms(2) that False by (auto simp: run_spec_def)
  qed
  moreover have "max 1 c = int k1 + max 1 c1" using c1 by auto
  ultimately show ?thesis using assms(2) c1 unfolding run_spec_def by (auto split: run_end.splits)
qed

text \<open>What the tests of a run function may report.\<close>

definition reports :: "(SDSP \<Rightarrow> bool) \<Rightarrow> (SDSP \<Rightarrow> bool) \<Rightarrow> (SDSP \<Rightarrow> stop_reason option) \<Rightarrow> bool" where
  "reports P B test \<longleftrightarrow>
    (\<forall>t. (test t = Some StopReturn \<longrightarrow> P t) \<and> (test t = Some StopBreak \<longrightarrow> B t))"

lemma run_spec_step:
  assumes "fault (Step s) = None" "0 < c - 1" "run_spec P B (c - 1) (Step s) r s' k"
  shows "run_spec P B c s r s' (Suc k)"
proof -
  have "run_spec P B c s (CyclesLeft (c - 1)) (Step s) 1"
    using assms(1,2) by (simp add: run_spec_def)
  from run_spec_append [OF this assms(3)] show ?thesis by simp
qed

lemma burst_spec:
  assumes "reports P B test"
  shows "\<exists>k\<le>n. run_spec P B c s (fst (burst test n c s)) (snd (burst test n c s)) k \<and>
    (\<forall>x. fst (burst test n c s) = CyclesLeft x \<longrightarrow> k = n)"
proof (induction n arbitrary: c s)
  case 0
  show ?case by (simp add: run_spec_def)
next
  case (Suc n)
  show ?case
  proof (cases "test s")
    case None
    consider "fault (Step s) \<noteq> None" | "fault (Step s) = None" "c - 1 \<le> 0" | "fault (Step s) = None" "0 < c - 1"
      by linarith
    then show ?thesis
    proof cases
      case 3
      from Suc.IH [of "c - 1" "Step s"] obtain k where "k \<le> n"
        and k: "run_spec P B (c - 1) (Step s) (fst (burst test n (c - 1) (Step s))) (snd (burst test n (c - 1) (Step s))) k"
        "\<forall>x. fst (burst test n (c - 1) (Step s)) = CyclesLeft x \<longrightarrow> k = n" by blast
      moreover have "burst test (Suc n) c s = burst test n (c - 1) (Step s)"
        using 3 None by (simp add: Let_def)
      ultimately show ?thesis using run_spec_step [OF 3 k(1)] by (intro exI [of _ "Suc k"]) simp
    qed (use None in \<open>auto intro!: exI [of _ 1] simp: Let_def run_spec_def\<close>)
  next
    case (Some a)
    then show ?thesis using assms
      by (cases a) (auto intro!: exI [of _ 0] simp: run_spec_def reports_def)
  qed
qed

lemma run_loop_spec:
  assumes "reports P B t8" "reports P B t200"
  shows "\<exists>k. run_spec P B c s (fst (run_loop t8 t200 c s)) (snd (run_loop t8 t200 c s)) k \<and>
    (\<forall>x. fst (run_loop t8 t200 c s) \<noteq> CyclesLeft x)"
  using assms
proof (induction t8 t200 c s rule: run_loop.induct)
  case (1 t8 t200 c s)
  obtain r1 s1 where b1: "burst t8 8 c s = (r1, s1)" by fastforce
  obtain k1 where k1: "run_spec P B c s r1 s1 k1" "\<forall>x. r1 = CyclesLeft x \<longrightarrow> k1 = 8"
    using burst_spec [OF 1(2), of 8 c s] b1 by auto
  show ?case
  proof (cases r1)
    case (CyclesLeft c1)
    note r1 = CyclesLeft
    obtain r2 s2 where b2: "burst t200 200 c1 s1 = (r2, s2)" by fastforce
    obtain k2 where k2: "run_spec P B c1 s1 r2 s2 k2" "\<forall>x. r2 = CyclesLeft x \<longrightarrow> k2 = 200"
      using burst_spec [OF 1(3), of 200 c1 s1] b2 by auto
    have k12: "run_spec P B c s r2 s2 (k1 + k2)"
      using run_spec_append [OF k1(1) [unfolded r1] k2(1)] k1(2) r1 by simp
    show ?thesis
    proof (cases r2)
      case (CyclesLeft c2)
      then obtain k3 where "run_spec P B c2 s2 (fst (run_loop t8 t200 c2 s2)) (snd (run_loop t8 t200 c2 s2)) k3"
        "\<forall>x. fst (run_loop t8 t200 c2 s2) \<noteq> CyclesLeft x"
        using 1(1) [OF b1 [symmetric] r1 b2 [symmetric] CyclesLeft 1(2,3)] by auto
      moreover from this have "run_spec P B c s (fst (run_loop t8 t200 c2 s2)) (snd (run_loop t8 t200 c2 s2)) (k1 + k2 + k3)"
        using run_spec_append [OF k12 [unfolded CyclesLeft]] k1(2) r1 by simp
      ultimately show ?thesis
        using r1 b1 b2 CyclesLeft by (auto simp: run_loop.simps [of t8 t200 c s])
    qed (use b1 b2 k12 r1 in \<open>auto simp: run_loop.simps [of t8 t200 c]\<close>)
  qed (use b1 k1 in \<open>auto simp: run_loop.simps [of t8 t200 c]\<close>)
qed

lemma burst_then_loop_spec:
  assumes "reports P B t" "reports P B t8" "reports P B t200"
    and "R = (case burst t 8 c s of (CyclesLeft c1, s1) \<Rightarrow> run_loop t8 t200 c1 s1 | r \<Rightarrow> r)"
  shows "\<exists>k. run_spec P B c s (fst R) (snd R) k \<and> (\<forall>x. fst R \<noteq> CyclesLeft x)"
proof -
  obtain r1 s1 where b1: "burst t 8 c s = (r1, s1)" by fastforce
  obtain k1 where k1: "run_spec P B c s r1 s1 k1" "\<forall>x. r1 = CyclesLeft x \<longrightarrow> k1 = 8"
    using burst_spec [OF assms(1), of 8 c s] b1 by auto
  show ?thesis
  proof (cases r1)
    case (CyclesLeft c1)
    then show ?thesis
      using run_loop_spec [OF assms(2,3), of c1 s1] run_spec_append [OF k1(1) [unfolded CyclesLeft]] k1(2) b1 assms(4)
      by auto
  qed (use b1 k1 assms(4) in auto)
qed

lemma RunCycles_spec:
  "\<exists>k. run_spec (\<lambda>t. halted t \<or> IsIdleSkip (code_flags t) (pc t)) (\<lambda>_. False) c s
      (fst (RunCycles c s)) (snd (RunCycles c s)) k \<and> (\<forall>x. fst (RunCycles c s) \<noteq> CyclesLeft x)"
  by (intro burst_then_loop_spec [OF _ _ _ RunCycles_def])
    (auto simp: reports_def halt_test_def idle_test_def no_test_def split: if_splits)

text \<open>The interpreter's \<open>RunCycles\<close> reports that no cycles are left, or the program is lost.\<close>

lemma RunCycles_ends:
  "(fst (RunCycles c s) = Returned 0 \<or> fst (RunCycles c s) = Faulted \<and> fault (snd (RunCycles c s)) \<noteq> None) \<and>
   (\<exists>k. snd (RunCycles c s) = (Step ^^ k) s \<and> int k \<le> max 1 c)"
  using RunCycles_spec [of c s] by (cases "fst (RunCycles c s)") (auto simp: run_spec_def)

text \<open>
  C7: \<open>RunCycles\<close> always ends, after at most \<open>max 1 cycles\<close> steps.  It reports no cycles left
  when they are used up or the machine is halted or at an idle loop, it never steps past a
  fault, and \<open>RunCyclesDebug\<close> stops only there or at a breakpoint, with the exact rest.
\<close>

theorem run_functions_iterate_step:
  "(\<exists>k. run_spec (\<lambda>t. halted t \<or> IsIdleSkip (code_flags t) (pc t)) (\<lambda>_. False) c s
      (fst (RunCycles c s)) (snd (RunCycles c s)) k \<and> (\<forall>x. fst (RunCycles c s) \<noteq> CyclesLeft x)) \<and>
   (\<exists>k. run_spec (\<lambda>t. halted t \<or> IsIdleSkip (code_flags t) (pc t)) (\<lambda>t. bp (pc t)) c s
      (fst (RunCyclesDebug bp c s)) (snd (RunCyclesDebug bp c s)) k \<and>
      (\<forall>x. fst (RunCyclesDebug bp c s) \<noteq> CyclesLeft x))"
  by (intro conjI RunCycles_spec burst_then_loop_spec [OF _ _ _ RunCyclesDebug_def])
    (auto simp: reports_def break_test_def halt_break_test_def halt_break_idle_test_def
      split: if_splits option.splits)

end
