(* ===== verification/Dsp_Code.thy ===== *)
theory Dsp_Code
  imports Dsp_Invariant
begin

text \<open>
  What the analyzer finds in the instruction memory: its scan ends, marks exactly the addresses
  of the linear sweep, and flags the ends of all hardware loops and the places where exceptions
  are checked.
\<close>

section \<open>Bits of the flag bytes\<close>

lemma u8_flag: "(x :: u8) AND 1 \<noteq> 0 \<longleftrightarrow> bit x 0" "x AND 2 \<noteq> 0 \<longleftrightarrow> bit x 1"
  "x AND 8 \<noteq> 0 \<longleftrightarrow> bit x 3" "x AND 32 \<noteq> 0 \<longleftrightarrow> bit x 5"
  using and_exp_eq_0_iff_not_bit [of x 0] and_exp_eq_0_iff_not_bit [of x 1]
    and_exp_eq_0_iff_not_bit [of x 3] and_exp_eq_0_iff_not_bit [of x 5] by simp_all

lemma flag_queries:
  "IsStartOfInstruction m a \<longleftrightarrow> bit (m a) 0" "IsIdleSkip m a \<longleftrightarrow> bit (m a) 1"
  "IsLoopEnd m a \<longleftrightarrow> bit (m a) 3" "IsCheckExceptions m a \<longleftrightarrow> bit (m a) 5"
  by (simp_all add: IsStartOfInstruction_def IsIdleSkip_def IsLoopEnd_def IsCheckExceptions_def u8_flag)

lemma bit_u8_exp: "bit (push_bit j 1 :: u8) k \<longleftrightarrow> k = j \<and> j < 8"
  by (auto simp: bit_simps)

lemma bit_or_flag:
  "bit (or_flag x 1 m a) k \<longleftrightarrow> bit (m a) k \<or> a = x \<and> k = 0"
  "bit (or_flag x 2 m a) k \<longleftrightarrow> bit (m a) k \<or> a = x \<and> k = 1"
  "bit (or_flag x 4 m a) k \<longleftrightarrow> bit (m a) k \<or> a = x \<and> k = 2"
  "bit (or_flag x 8 m a) k \<longleftrightarrow> bit (m a) k \<or> a = x \<and> k = 3"
  "bit (or_flag x 32 m a) k \<longleftrightarrow> bit (m a) k \<or> a = x \<and> k = 5"
  using bit_u8_exp [of 0 k] bit_u8_exp [of 1 k] bit_u8_exp [of 2 k] bit_u8_exp [of 3 k] bit_u8_exp [of 5 k]
  by (auto simp: or_flag_def bit_or_iff)

section \<open>The linear sweep\<close>

definition next_addr :: "op_lookup \<Rightarrow> SDSP \<Rightarrow> u16 \<Rightarrow> u16" where
  "next_addr look s a =
    (case look (ReadIMEM a s) of None \<Rightarrow> a + 1 | Some t \<Rightarrow> a + op_size t)"

inductive swept :: "op_lookup \<Rightarrow> SDSP \<Rightarrow> u16 \<Rightarrow> u16 \<Rightarrow> u16 \<Rightarrow> bool" for look s first stop where
  swept_first: "first < stop \<Longrightarrow> swept look s first stop first"
| swept_next: "swept look s first stop a \<Longrightarrow> next_addr look s a < stop \<Longrightarrow>
    swept look s first stop (next_addr look s a)"

inductive_cases swept_cases: "swept look s first stop a"

lemma swept_from_next: "swept look s (next_addr look s first) stop a \<Longrightarrow> first < stop \<Longrightarrow> swept look s first stop a"
  by (induction rule: swept.induct) (auto intro: swept.intros)

lemma swept_unfold:
  "swept look s first stop a \<longleftrightarrow> first < stop \<and> (a = first \<or> swept look s (next_addr look s first) stop a)"
proof
  show "swept look s first stop a \<Longrightarrow> first < stop \<and> (a = first \<or> swept look s (next_addr look s first) stop a)"
    by (induction rule: swept.induct) (auto intro: swept.intros)
qed (auto intro: swept.intros swept_from_next)

lemma swept_less: "swept look s first stop a \<Longrightarrow> a < stop"
  by (induction rule: swept.induct) auto

text \<open>Templates of one or two words.\<close>

definition sizes_ok :: "op_lookup \<Rightarrow> bool" where
  "sizes_ok look \<longleftrightarrow> (\<forall>i t. look i = Some t \<longrightarrow> op_size t = 1 \<or> op_size t = 2)"

lemma unat_next_addr:
  assumes "sizes_ok look" "a < stop" "stop \<le> 0xf000"
  shows "unat a < unat (next_addr look s a) \<and> unat (next_addr look s a) \<le> unat a + 2"
proof -
  have l: "unat a < 0xf000" using assms(2,3) by (auto simp: word_less_nat_alt word_le_nat_alt)
  have "unat (a + 1) = unat a + 1" "unat (a + 2) = unat a + 2"
    using l by (simp_all add: unat_word_ariths)
  moreover have "next_addr look s a = a + 1 \<or> next_addr look s a = a + 2"
    using assms(1) by (auto simp: next_addr_def sizes_ok_def split: option.split)
  ultimately show ?thesis by auto
qed

lemma swept_ge:
  assumes "sizes_ok look" "stop \<le> 0xf000"
  shows "swept look s first stop a \<Longrightarrow> first \<le> a"
proof (induction rule: swept.induct)
  case (swept_next a)
  then show ?case
    using unat_next_addr [OF assms(1) swept_less [OF swept_next(1)] assms(2), of s]
    by (auto simp: word_le_nat_alt intro: order_trans)
qed simp

section \<open>The scan\<close>

text \<open>With the fuel \<open>FindInstructionStarts\<close> gives it, the scan always reaches its end.\<close>

lemma scan_enough:
  assumes "sizes_ok look" "stop \<le> 0xf000"
  shows "unat stop - unat a \<le> fuel \<Longrightarrow> \<exists>m'. scan_instructions fuel look s a stop m = Some m'"
proof (induction fuel arbitrary: a m)
  case 0
  then show ?case by (simp add: word_less_nat_alt)
next
  case (Suc fuel)
  show ?case
  proof (cases "a < stop")
    case True
    have "unat stop - unat (next_addr look s a) \<le> fuel"
      using unat_next_addr [OF assms(1) True assms(2), of s] Suc.prems by auto
    then show ?thesis
      using Suc.IH [of "next_addr look s a"] True by (auto simp: next_addr_def split: option.split)
  qed simp
qed

text \<open>The flags a start carries with it.\<close>

definition start_flags :: "op_lookup \<Rightarrow> SDSP \<Rightarrow> code_map \<Rightarrow> u16 \<Rightarrow> bool" where
  "start_flags look s m a \<longleftrightarrow>
    (is_block_loop (ReadIMEM a s) \<longrightarrow> IsLoopEnd m (ReadIMEM (a + 1) s)) \<and>
    (is_single_loop (ReadIMEM a s) \<longrightarrow> IsLoopEnd m (a + 1)) \<and>
    (\<forall>t. look (ReadIMEM a s) = Some t \<and> raises_exceptions t \<longrightarrow> IsCheckExceptions m (a + op_size t))"

definition grows :: "code_map \<Rightarrow> code_map \<Rightarrow> bool" where
  "grows m m' \<longleftrightarrow> (\<forall>a k. bit (m a) k \<longrightarrow> bit (m' a) k)"

lemma grows_trans: "grows m m' \<Longrightarrow> grows m' m'' \<Longrightarrow> grows m m''"
  by (auto simp: grows_def)

lemma start_flags_grows: "grows m m' \<Longrightarrow> start_flags look s m a \<Longrightarrow> start_flags look s m' a"
  by (auto simp: grows_def start_flags_def flag_queries)

lemma loops_exclusive: "is_block_loop i \<Longrightarrow> \<not> is_single_loop i"
proof
  assume b: "is_block_loop i" and s: "is_single_loop i"
  have t: "(i AND 0xffe0) AND 0xff00 = i AND 0xff00" by (simp add: and.assoc)
  from b s t show False by (auto simp: is_block_loop_def is_single_loop_def)
qed

lemma mark_instruction_facts:
  fixes t :: DSPOPCTemplate
  assumes "look (ReadIMEM a s) = Some t"
  shows "grows m (mark_instruction s a t m)"
    and "bit (mark_instruction s a t m b) 0 \<longleftrightarrow> bit (m b) 0 \<or> b = a"
    and "bit (mark_instruction s a t m b) 1 \<longleftrightarrow> bit (m b) 1"
    and "start_flags look s (mark_instruction s a t m) a"
  using assms loops_exclusive [of "ReadIMEM a s"]
  by (auto simp: mark_instruction_def Let_def grows_def bit_or_flag start_flags_def flag_queries)

lemma scan_facts:
  assumes "sizes_ok look" "stop \<le> 0xf000"
  shows "scan_instructions fuel look s a stop m = Some m' \<Longrightarrow>
    grows m m' \<and>
    (\<forall>b. bit (m' b) 0 \<longleftrightarrow> bit (m b) 0 \<or> swept look s a stop b \<and> look (ReadIMEM b s) \<noteq> None) \<and>
    (\<forall>b. bit (m' b) 1 \<longleftrightarrow> bit (m b) 1) \<and>
    (\<forall>b. swept look s a stop b \<and> look (ReadIMEM b s) \<noteq> None \<longrightarrow> start_flags look s m' b)"
proof (induction fuel arbitrary: a m)
  case 0
  then show ?case by (auto simp: grows_def swept_unfold [of look s a] split: if_splits)
next
  case (Suc fuel)
  show ?case
  proof (cases "a < stop")
    case False
    then show ?thesis using Suc.prems by (auto simp: grows_def swept_unfold [of look s a])
  next
    case True
    let ?m = "case look (ReadIMEM a s) of None \<Rightarrow> m | Some t \<Rightarrow> mark_instruction s a t m"
    have "scan_instructions fuel look s (next_addr look s a) stop ?m = Some m'"
      using Suc.prems True by (simp add: next_addr_def split: option.splits)
    note IH = Suc.IH [OF this]
    have g: "grows m ?m" "\<And>b. bit (?m b) 0 \<longleftrightarrow> bit (m b) 0 \<or> b = a \<and> look (ReadIMEM a s) \<noteq> None"
      "\<And>b. bit (?m b) 1 \<longleftrightarrow> bit (m b) 1" "look (ReadIMEM a s) \<noteq> None \<Longrightarrow> start_flags look s ?m a"
      using mark_instruction_facts [of look a s]
      by (auto simp: grows_def split: option.splits)
    have "look (ReadIMEM a s) \<noteq> None \<longrightarrow> start_flags look s m' a"
      using g(4) IH start_flags_grows [of ?m m'] by blast
    then show ?thesis
      using IH g(1-3) grows_trans [of m ?m m'] True
      unfolding swept_unfold [of look s a] by auto
  qed
qed

section \<open>Idle loops\<close>

lemma bit_idle_fold:
  "bit (fold (\<lambda>addr m'. if P addr then or_flag addr 2 m' else m') xs m a) k \<longleftrightarrow>
    bit (m a) k \<or> k = 1 \<and> a \<in> set xs \<and> P a"
  by (induction xs arbitrary: m) (auto simp: bit_or_flag)

lemma word_range: "(a :: u16) \<in> set (map word_of_nat [unat b ..< unat c]) \<longleftrightarrow> b \<le> a \<and> a < c"
proof
  assume "a \<in> set (map word_of_nat [unat b ..< unat c])"
  then obtain n where n: "a = word_of_nat n" "unat b \<le> n" "n < unat c" by auto
  then have "unat a = n" using unsigned_less [of c, where 'a = nat] by (simp add: unat_of_nat)
  then show "b \<le> a \<and> a < c" using n by (simp add: word_le_nat_alt word_less_nat_alt)
next
  assume "b \<le> a \<and> a < c"
  then have "unat a \<in> set [unat b ..< unat c]" by (simp add: word_le_nat_alt word_less_nat_alt)
  moreover have "a = word_of_nat (unat a)" by simp
  ultimately show "a \<in> set (map word_of_nat [unat b ..< unat c])" unfolding set_map by (rule rev_image_eqI)
qed

lemma bit_FindIdleSkips:
  "bit (FindIdleSkips s b c m a) k \<longleftrightarrow>
    bit (m a) k \<or> k = 1 \<and> b \<le> a \<and> a < c \<and> (\<exists>sig\<in>set idle_skip_sigs. match_signature s a False sig)"
proof -
  have "bit (fold (\<lambda>sig. fold (\<lambda>addr m'. if match_signature s addr False sig then or_flag addr 2 m' else m')
      (map word_of_nat [unat b ..< unat c])) sigs m a) k \<longleftrightarrow>
    bit (m a) k \<or> k = 1 \<and> b \<le> a \<and> a < c \<and> (\<exists>sig\<in>set sigs. match_signature s a False sig)" for sigs
    by (induction sigs arbitrary: m) (auto simp only: fold_simps comp_apply bit_idle_fold word_range list.set bex_simps)
  then show ?thesis by (simp add: FindIdleSkips_def)
qed

section \<open>The whole analysis\<close>

lemma table_sizes: "sizes_ok table_lookup"
proof -
  have "list_all (\<lambda>t. op_size t = 1 \<or> op_size t = 2) dsp_opcodes"
    by (simp add: dsp_opcodes_defs)
  then have "\<forall>t\<in>set dsp_opcodes. op_size t = 1 \<or> op_size t = 2" by (simp add: list_all_iff)
  then show ?thesis
    by (auto simp: sizes_ok_def table_lookup_def GetOpTemplate_def FindOpInfoByOpcode_def
        FindByOpcode_def cw_def dest!: find_Some_in split: option.split)
qed

lemma AnalyzeRange_facts:
  assumes "sizes_ok look" "stop \<le> 0xf000"
  shows "\<exists>m'. AnalyzeRange look s a stop m = Some m' \<and> grows m m' \<and>
    (\<forall>b. bit (m' b) 0 \<longleftrightarrow> bit (m b) 0 \<or> swept look s a stop b \<and> look (ReadIMEM b s) \<noteq> None) \<and>
    (\<forall>b. bit (m' b) 1 \<longleftrightarrow> bit (m b) 1 \<or> a \<le> b \<and> b < stop \<and>
      (\<exists>sig\<in>set idle_skip_sigs. match_signature s b False sig)) \<and>
    (\<forall>b. swept look s a stop b \<and> look (ReadIMEM b s) \<noteq> None \<longrightarrow> start_flags look s m' b)"
proof -
  obtain m1 where m1: "scan_instructions (unat stop - unat a) look s a stop m = Some m1"
    using scan_enough [OF assms order_refl] by blast
  note f = scan_facts [OF assms m1]
  let ?m2 = "FindIdleSkips s a stop m1"
  have g: "grows m1 ?m2" by (simp add: grows_def bit_FindIdleSkips)
  have "AnalyzeRange look s a stop m = Some ?m2"
    by (simp add: AnalyzeRange_def FindInstructionStarts_def m1)
  then show ?thesis
    using f grows_trans [OF _ g] start_flags_grows [OF g]
    by (auto simp: bit_FindIdleSkips)
qed

text \<open>The addresses of the two analyzed ranges that hold an instruction.\<close>

definition instruction_at :: "op_lookup \<Rightarrow> SDSP \<Rightarrow> u16 \<Rightarrow> bool" where
  "instruction_at look s a \<longleftrightarrow>
    (swept look s 0 0x1000 a \<or> swept look s 0x8000 0x9000 a) \<and> look (ReadIMEM a s) \<noteq> None"

lemma Analyze_facts:
  assumes "sizes_ok look"
  shows "\<exists>m. Analyze look s = Some m \<and>
    (\<forall>a. IsStartOfInstruction m a \<longleftrightarrow> instruction_at look s a) \<and>
    (\<forall>a. IsIdleSkip m a \<longleftrightarrow> (a < 0x1000 \<or> 0x8000 \<le> a \<and> a < 0x9000) \<and>
      (\<exists>sig\<in>set idle_skip_sigs. match_signature s a False sig)) \<and>
    (\<forall>a. instruction_at look s a \<longrightarrow> start_flags look s m a)"
proof -
  obtain m1 where m1: "AnalyzeRange look s 0 0x1000 (\<lambda>_. 0) = Some m1"
    "\<forall>b. bit (m1 b) 0 \<longleftrightarrow> swept look s 0 0x1000 b \<and> look (ReadIMEM b s) \<noteq> None"
    "\<forall>b. bit (m1 b) 1 \<longleftrightarrow> b < 0x1000 \<and> (\<exists>sig\<in>set idle_skip_sigs. match_signature s b False sig)"
    "\<forall>b. swept look s 0 0x1000 b \<and> look (ReadIMEM b s) \<noteq> None \<longrightarrow> start_flags look s m1 b"
    using AnalyzeRange_facts [OF assms, of "0x1000" s 0 "\<lambda>_. 0"] by auto
  obtain m2 where m2: "AnalyzeRange look s 0x8000 0x9000 m1 = Some m2" "grows m1 m2"
    "\<forall>b. bit (m2 b) 0 \<longleftrightarrow> bit (m1 b) 0 \<or> swept look s 0x8000 0x9000 b \<and> look (ReadIMEM b s) \<noteq> None"
    "\<forall>b. bit (m2 b) 1 \<longleftrightarrow> bit (m1 b) 1 \<or> 0x8000 \<le> b \<and> b < 0x9000 \<and>
      (\<exists>sig\<in>set idle_skip_sigs. match_signature s b False sig)"
    "\<forall>b. swept look s 0x8000 0x9000 b \<and> look (ReadIMEM b s) \<noteq> None \<longrightarrow> start_flags look s m2 b"
    using AnalyzeRange_facts [OF assms, of "0x9000" s "0x8000" m1] by auto
  have "Analyze look s = Some m2" by (simp add: Analyze_def m1(1) m2(1))
  moreover have "\<forall>a. IsStartOfInstruction m2 a \<longleftrightarrow> instruction_at look s a"
    using m1(2) m2(3) by (auto simp: flag_queries instruction_at_def)
  moreover have "\<forall>a. IsIdleSkip m2 a \<longleftrightarrow> (a < 0x1000 \<or> 0x8000 \<le> a \<and> a < 0x9000) \<and>
      (\<exists>sig\<in>set idle_skip_sigs. match_signature s a False sig)"
    using m1(3) m2(4) by (auto simp: flag_queries)
  moreover have "\<forall>a. instruction_at look s a \<longrightarrow> start_flags look s m2 a"
    using m1(4) m2(5) start_flags_grows [OF m2(2)] unfolding instruction_at_def by blast
  ultimately show ?thesis by blast
qed

text \<open>
  C23: the analysis always ends; it marks as instruction starts exactly the addresses a linear
  sweep of the two code ranges visits, and as idle loops exactly the addresses in them where a
  known signature matches.
\<close>

theorem analysis_is_linear_sweep:
  "\<exists>m. Analyze table_lookup s = Some m \<and>
    (\<forall>a. IsStartOfInstruction m a \<longleftrightarrow>
      swept table_lookup s 0 0x1000 a \<or> swept table_lookup s 0x8000 0x9000 a) \<and>
    (\<forall>a. IsIdleSkip m a \<longleftrightarrow> (a < 0x1000 \<or> 0x8000 \<le> a \<and> a < 0x9000) \<and>
      (\<exists>sig\<in>set idle_skip_sigs. match_signature s a False sig))"
  using Analyze_facts [OF table_sizes, of s] by (auto simp: instruction_at_def table_lookup_def)

text \<open>
  at every marked instruction start the analyzer has flagged the end of the loop the
  instruction opens, if it is a loop instruction, and the address after it, if the instruction
  can raise an exception: the loop hardware misses no loop of the swept code.
\<close>

theorem analysis_flags_loop_ends:
  assumes "Analyze table_lookup s = Some m" "IsStartOfInstruction m a"
  shows "(is_block_loop (ReadIMEM a s) \<longrightarrow> IsLoopEnd m (ReadIMEM (a + 1) s)) \<and>
    (is_single_loop (ReadIMEM a s) \<longrightarrow> IsLoopEnd m (a + 1)) \<and>
    (raises_exceptions (GetOpTemplate (ReadIMEM a s)) \<longrightarrow>
      IsCheckExceptions m (a + op_size (GetOpTemplate (ReadIMEM a s))))"
  using Analyze_facts [OF table_sizes, of s] assms by (auto simp: start_flags_def table_lookup_def)

text \<open>A single-word loop over the instruction after it, at address 0.\<close>

definition loop_program :: SDSP where
  "loop_program = (power_on gamecube_host)\<lparr>iram := (\<lambda>_. 0)(0 := 0x1005, 1 := 0x7600, 2 := 0x0021)\<rparr>"

theorem analysis_flags_loop_ends_witness:
  "\<exists>m. Analyze table_lookup loop_program = Some m \<and> IsLoopEnd m 1"
proof -
  obtain m where m: "Analyze table_lookup loop_program = Some m" "IsStartOfInstruction m 0"
    using Analyze_facts [OF table_sizes, of loop_program]
      swept_first [of 0 "0x1000" table_lookup loop_program]
    by (auto simp: instruction_at_def table_lookup_def)
  have "is_single_loop (ReadIMEM 0 loop_program)"
    by (simp add: is_single_loop_def ReadIMEM_def loop_program_def)
  then show ?thesis using analysis_flags_loop_ends [OF m] m(1) by auto
qed

text \<open>
  With the instruction table not yet filled, as in the first \<open>DSPLLE::Initialize\<close>, which
  resets the core before it calls \<open>InitInstructionTable\<close>, the analysis finds no instruction and
  no loop end at all.
\<close>

theorem null_table_finds_nothing:
  "\<exists>m. Analyze null_table s = Some m \<and>
    (\<forall>a. \<not> IsStartOfInstruction m a \<and> \<not> IsLoopEnd m a \<and> \<not> IsCheckExceptions m a)"
proof -
  have u: "scan_instructions fuel null_table s a stop m = Some m' \<Longrightarrow> m' = m" for fuel a stop m m'
    by (induction fuel arbitrary: a m) (auto simp: null_table_def split: if_splits)
  have "sizes_ok null_table" by (simp add: sizes_ok_def null_table_def)
  then have "FindInstructionStarts null_table s a stop m = Some m" if "stop \<le> 0xf000" for a stop m
    using scan_enough [OF _ that order_refl, of null_table a s m] u
    by (auto simp: FindInstructionStarts_def)
  then have "Analyze null_table s =
      Some (FindIdleSkips s 0x8000 0x9000 (FindIdleSkips s 0 0x1000 (\<lambda>_. 0)))"
    by (simp add: Analyze_def AnalyzeRange_def)
  then show ?thesis by (simp add: flag_queries bit_FindIdleSkips)
qed

end
