(* ===== verification/Dsp_Opcodes.thy ===== *)
theory Dsp_Opcodes
  imports Dsp_Code Dsp_Control
begin

text \<open>
  The interpreter's opcode table is free of ambiguity: its patterns are pairwise disjoint,
  which is computed on the integers, in four parts of the table.
\<close>

section \<open>No code has two handlers\<close>

text \<open>Two patterns (code, mask) overlap when they agree on the bits both test.\<close>

definition overlap :: "int \<times> int \<Rightarrow> int \<times> int \<Rightarrow> bool" where
  "overlap p q \<longleftrightarrow> (fst p XOR fst q) AND (snd p AND snd q) = 0"

definition apart :: "(int \<times> int) list \<Rightarrow> (int \<times> int) list \<Rightarrow> bool" where
  "apart ps qs \<longleftrightarrow> list_all (\<lambda>p. list_all (\<lambda>q. \<not> overlap p q) qs) ps"

fun disjoint_patterns :: "(int \<times> int) list \<Rightarrow> bool" where
  "disjoint_patterns [] = True"
| "disjoint_patterns (p # ps) = (list_all (\<lambda>q. \<not> overlap p q) ps \<and> disjoint_patterns ps)"

lemma disjoint_patterns_append:
  "disjoint_patterns (ps @ qs) \<longleftrightarrow> disjoint_patterns ps \<and> disjoint_patterns qs \<and> apart ps qs"
  by (induction ps) (auto simp: apart_def)

lemma apart_append: "apart ps (qs @ rs) \<longleftrightarrow> apart ps qs \<and> apart ps rs"
  by (auto simp: apart_def list_all_iff)

lemma overlap_match:
  assumes "i AND m = c" "i AND m' = c'"
  shows "overlap (c, m) (c', m')"
proof -
  have "((i AND m) XOR (i AND m')) AND (m AND m') = 0"
    by (rule bit_eqI) (auto simp: bit_simps)
  with assms show ?thesis by (simp add: overlap_def)
qed

lemma find_disjoint:
  "disjoint_patterns (map p xs) \<Longrightarrow> x \<in> set xs \<Longrightarrow> i AND snd (p x) = fst (p x) \<Longrightarrow>
    List.find (\<lambda>y. i AND snd (p y) = fst (p y)) xs = Some x"
proof (induction xs)
  case (Cons y ys)
  show ?case
  proof (cases "i AND snd (p y) = fst (p y)")
    case True
    then have "overlap (p y) (p x)"
      using overlap_match [of i "snd (p y)" "fst (p y)" "snd (p x)" "fst (p x)"] Cons.prems(3) by simp
    then have "x \<notin> set ys" using Cons.prems(1) by (auto simp: list_all_iff)
    with Cons.prems(2) True show ?thesis by simp
  next
    case False
    with Cons show ?thesis by auto
  qed
qed simp

definition op_pattern :: "u16 \<times> u16 \<times> instruction \<Rightarrow> int \<times> int" where
  "op_pattern e = (case e of (c, m, f) \<Rightarrow> (uint c, uint m))"

lemma patterns_disjoint:
  "disjoint_patterns (map op_pattern s_opcodes_1)" "disjoint_patterns (map op_pattern s_opcodes_2)"
  "disjoint_patterns (map op_pattern s_opcodes_3)" "disjoint_patterns (map op_pattern s_opcodes_4)"
  by (simp_all add: s_opcodes_1_def s_opcodes_2_def s_opcodes_3_def s_opcodes_4_def op_pattern_def overlap_def)

lemma patterns_apart:
  "apart (map op_pattern s_opcodes_1) (map op_pattern s_opcodes_2)"
  "apart (map op_pattern s_opcodes_1) (map op_pattern s_opcodes_3)"
  "apart (map op_pattern s_opcodes_1) (map op_pattern s_opcodes_4)"
  "apart (map op_pattern s_opcodes_2) (map op_pattern s_opcodes_3)"
  "apart (map op_pattern s_opcodes_2) (map op_pattern s_opcodes_4)"
  "apart (map op_pattern s_opcodes_3) (map op_pattern s_opcodes_4)"
  by (simp_all add: s_opcodes_1_def s_opcodes_2_def s_opcodes_3_def s_opcodes_4_def op_pattern_def
      overlap_def apart_def)

lemma s_opcodes_disjoint: "disjoint_patterns (map op_pattern s_opcodes)"
  by (simp add: s_opcodes_def disjoint_patterns_append apart_append patterns_disjoint patterns_apart)

lemma uint_match: "uint i AND uint m = uint c \<longleftrightarrow> i AND m = (c :: u16)"
  by (simp add: word_uint_eq_iff unsigned_and_eq)

lemma GetOp_entry: "(c, m, f) \<in> set s_opcodes \<Longrightarrow> i AND m = c \<Longrightarrow> GetOp i = f"
  using find_disjoint [OF s_opcodes_disjoint, of "(c, m, f)" "uint i"]
  by (simp add: GetOp_def find_op_def op_pattern_def case_prod_unfold uint_match)

text \<open>
  the order of the interpreter's opcode table is irrelevant: an instruction code matches
  at most one of its entries, and the decoder returns the handler of that one.
\<close>

theorem decoding_unambiguous:
  assumes "(c, m, f) \<in> set s_opcodes" "i AND m = c"
  shows "GetOp i = f \<and> (\<forall>c' m' f'. (c', m', f') \<in> set s_opcodes \<and> i AND m' = c' \<longrightarrow> f' = f)"
  using assms GetOp_entry by metis

theorem decoding_unambiguous_witness: "GetOp 0x9500 = mulac_op"
  using decoding_unambiguous [of "0x9400" "0xf600" mulac_op "0x9500"]
  by (simp add: s_opcodes_def s_opcodes_4_def)

end
