(* ===== verification/Dsp_Lengths.thy ===== *)
theory Dsp_Lengths
  imports Dsp_Opcodes
begin

text \<open>
  The length of instructions: every handler that is not a branch advances \<open>pc\<close> by the number
  of words its template gives, so that straight-line execution stays on the instruction starts
  the analyzer found.
\<close>

named_theorems pc_frame

section \<open>What leaves \<open>pc\<close> alone\<close>

lemma pc_raise [pc_frame]: "pc (raise_fault f s) = pc s"
  by (simp add: raise_fault_def)

lemma pc_analyze [pc_frame]: "pc (analyze_state s) = pc s"
  by (simp add: analyze_state_def split: option.split)

lemma pc_CodeLoaded [pc_frame]: "pc (CodeLoaded a n s) = pc s"
  by (simp add: CodeLoaded_def pc_frame split: option.split)

lemma pc_DoDMA [pc_frame]: "pc (DoDMA s) = pc s"
  by (simp add: DoDMA_def IDMAIn_def IDMAOut_def DDMAIn_def DDMAOut_def Let_def pc_frame split: sum.split)

lemma pc_fold_host [pc_frame]: "pc (fold (\<lambda>(a, b). WriteHostMemory b a) ws s) = pc s"
  by (induction ws arbitrary: s) (auto simp: WriteHostMemory_def)

lemma pc_hardware [pc_frame]:
  "pc (write_DSBL v s) = pc s" "pc (SetException e s) = pc s"
  "pc (accelerator_write_raw v s) = pc s" "pc (snd (accelerator_read_raw s)) = pc s"
  "pc (snd (accelerator_read_sample s)) = pc s" "pc (snd (ReadMailboxLow mb s)) = pc s"
  "pc (WriteMailboxLow mb v s) = pc s" "pc (WriteMailboxHigh mb v s) = pc s"
  by (simp_all add: write_DSBL_def SetException_def accelerator_write_raw_def accelerator_read_raw_def
      accelerator_read_sample_def ReadMailboxLow_def WriteMailboxLow_def WriteMailboxHigh_def
      Let_def pc_frame split: prod.split)

lemma pc_ifx [pc_frame]: "pc (WriteIFX a v s) = pc s" "pc (snd (ReadIFX b s)) = pc s"
  by (simp_all add: WriteIFX_def InterruptRequest_def ReadIFX_def ReadIFXImpl_def Let_def pc_frame)

lemma pc_memory [pc_frame]: "pc (snd (ReadDMEM a s)) = pc s" "pc (WriteDMEM a v s) = pc s"
  by (simp_all add: ReadDMEM_def WriteDMEM_def Let_def pc_frame)

lemma pc_registers [pc_frame]:
  "pc (snd (OpReadRegister r s)) = pc s" "pc (OpWriteRegister r v s) = pc s"
  "pc (ConditionalExtendAccum r s) = pc s"
  by (simp_all add: OpReadRegister_def OpWriteRegister_def ConditionalExtendAccum_def Let_def)

lemma pc_status [pc_frame]:
  "pc (UpdateSR16 v c o3 b s) = pc s" "pc (UpdateSR64 w c o3 s) = pc s"
  "pc (UpdateSR64Add x y z s) = pc s" "pc (UpdateSR64Sub x y z s) = pc s"
  "pc (UpdateSRLogicZero b s) = pc s" "pc (compare_acc x y s) = pc s"
  "pc (ZeroWriteBackLog s) = pc s" "pc (ZeroWriteBackLogPreserveAcc d s) = pc s"
  "pc (SetLongAcc d w s) = pc s" "pc (SetLongProduct w s) = pc s" "pc (WriteToBackLog i r v2 s) = pc s"
  by (simp_all add: UpdateSR16_def UpdateSR64_def UpdateSR64Add_def UpdateSR64Sub_def compare_acc_def
      UpdateSRLogicZero_def ZeroWriteBackLog_def ZeroWriteBackLogPreserveAcc_def SetLongAcc_def
      SetLongProduct_def WriteToBackLog_def)

section \<open>Handlers by length\<close>

definition advances :: "u16 \<Rightarrow> instruction \<Rightarrow> bool" where
  "advances n f \<longleftrightarrow> (\<forall>opc s. pc (f opc s) = pc s + n)"

lemma pc_stores [pc_frame]:
  "pc (store_acc_add d a x s) = pc s" "pc (store_acc_sub d a x s) = pc s" "pc (move_acc d v s) = pc s"
  "pc (store_accm d w s) = pc s" "pc (store_prod v s) = pc s" "pc (store_prod_acc v d v2 s) = pc s"
  "pc (store_acc d v s) = pc s"
  by (simp_all add: store_acc_def store_acc_add_def store_acc_sub_def move_acc_def store_accm_def store_prod_def
      store_prod_acc_def Let_def pc_frame)

lemma pc_loads [pc_frame]:
  "pc (store_register a r s) = pc s" "pc (load_register r a s) = pc s" "pc (load_indirect d r s) = pc s"
  "pc (load_imem opc r s) = pc s"
  by (simp_all add: store_register_def load_register_def load_indirect_def load_imem_def Let_def
      case_prod_unfold pc_frame)

lemma pc_move_address [pc_frame]: "pc (regs_update f s) = pc s"
  by simp

lemmas advance_simps = advances_def op_defs Let_def case_prod_unfold FetchInstruction_def

text \<open>
  The entries of the interpreter's table that are no branches, loops or returns: all but three
  runs of the table.
\<close>

definition straight_opcodes :: "(u16 \<times> u16 \<times> instruction) list" where
  "straight_opcodes = take 5 s_opcodes @ take 27 (drop 13 s_opcodes) @ drop 44 s_opcodes"

lemma straight_opcodes_subset: "set straight_opcodes \<subseteq> set s_opcodes"
  by (auto simp: straight_opcodes_def dest: in_set_takeD in_set_dropD)

text \<open>The templates that are no branches are these entries, one by one, with the handler's length.\<close>

lemma templates_match_handlers:
  "list_all2 (\<lambda>t (c, m, f). opcode t = c \<and> opcode_mask t = m \<and> advances (op_size t - 1) f)
    (filter (\<lambda>t. \<not> branch t) dsp_opcodes) straight_opcodes"
  unfolding straight_opcodes_def s_opcodes_defs dsp_opcodes_defs
  by (simp add: advance_simps pc_frame)

lemma pc_logs [pc_frame]:
  "pc (log_load i r a s) = pc s" "pc (ext_store a r s) = pc s" "pc (log_inc i r s) = pc s"
  "pc (log_add_ix i r s) = pc s" "pc (log_second_load r q s) = pc s"
  by (simp_all add: log_load_def ext_store_def log_inc_def log_add_ix_def log_second_load_def
      case_prod_unfold pc_frame)

lemma ext_ops_keep_pc: "list_all (\<lambda>(c, m, f). advances 0 f) s_opcodes_ext"
  by (simp add: s_opcodes_ext_def advance_simps pc_frame)

lemma GetExtOp_keeps_pc: "pc (GetExtOp i opc s) = pc s"
proof -
  have "pc (find_op j s_opcodes_ext opc s) = pc s" for j
  proof -
    consider "find_op j s_opcodes_ext = nop_op" | c m where "(c, m, find_op j s_opcodes_ext) \<in> set s_opcodes_ext"
      using find_op_cases [of j s_opcodes_ext] by blast
    then show ?thesis
    proof cases
      case 2
      then have "advances 0 (find_op j s_opcodes_ext)" using ext_ops_keep_pc by (auto simp: list_all_iff)
      then show ?thesis by (simp add: advances_def)
    qed (simp add: nop_op_def)
  qed
  then show ?thesis by (simp add: GetExtOp_def)
qed

lemma pc_apply_log [pc_frame]: "pc (ApplyWriteBackLog s) = pc s"
proof -
  have "pc (apply_log_from n i s) = pc s" for n i
    by (induction n i s rule: apply_log_from.induct) (simp_all add: Let_def pc_frame)
  then show ?thesis by (simp add: ApplyWriteBackLog_def)
qed

lemma list_all2_member: "list_all2 P xs ys \<Longrightarrow> x \<in> set xs \<Longrightarrow> \<exists>y\<in>set ys. P x y"
  by (induction rule: list_all2_induct) auto

lemma straight_handler:
  assumes "FindOpInfoByOpcode i = Some t" "\<not> branch t"
  shows "advances (op_size t - 1) (GetOp i)"
proof -
  have t: "t \<in> set dsp_opcodes" "i AND opcode_mask t = opcode t"
    using assms(1) by (auto simp: FindOpInfoByOpcode_def FindByOpcode_def dest!: find_Some_in)
  then have "t \<in> set (filter (\<lambda>t. \<not> branch t) dsp_opcodes)" using assms(2) by simp
  then obtain c m f where "(c, m, f) \<in> set straight_opcodes"
    "opcode t = c" "opcode_mask t = m" "advances (op_size t - 1) f"
    using list_all2_member [OF templates_match_handlers] by blast
  then show ?thesis using GetOp_entry [of c m f i] straight_opcodes_subset t(2) by auto
qed

lemma Analyze_pc: "Analyze look (s\<lparr>pc := a\<rparr>) = Analyze look s"
proof -
  have i: "ReadIMEM b (s\<lparr>pc := a\<rparr>) = ReadIMEM b s" for b by (simp add: ReadIMEM_def Let_def)
  have "scan_instructions n look (s\<lparr>pc := a\<rparr>) b c m = scan_instructions n look s b c m" for n b c m
    by (induction n arbitrary: b m) (simp_all add: i mark_instruction_def Let_def split: option.split)
  moreover have "match_signature (s\<lparr>pc := a\<rparr>) b f sig = match_signature s b f sig" for b f sig
    by (induction sig arbitrary: b f) (simp_all add: i Let_def)
  ultimately have "AnalyzeRange look (s\<lparr>pc := a\<rparr>) b c m = AnalyzeRange look s b c m" for b c m
    unfolding AnalyzeRange_def FindInstructionStarts_def FindIdleSkips_def by (simp cong: option.case_cong)
  then show ?thesis unfolding Analyze_def by (simp cong: option.case_cong)
qed

section \<open>Properties\<close>

text \<open>
  every known instruction that is not a branch, with or without an extension, advances
  \<open>pc\<close> by exactly the size its template gives: the interpreter and the table the analyzer,
  \<open>SkipInstruction\<close> and the disassembler read agree on instruction lengths.
\<close>

theorem instruction_length_is_template_size:
  assumes "FindOpInfoByOpcode inst = Some t" "\<not> branch t"
  shows "pc (ExecuteInstruction inst s) = pc s + op_size t - 1"
  using straight_handler [OF assms]
  by (simp add: ExecuteInstruction_def Let_def pc_frame GetExtOp_keeps_pc advances_def)

theorem instruction_length_is_template_size_witness:
  "pc (ExecuteInstruction 0x0080 (power_on gamecube_host)) = 1"
proof -
  have "FindOpInfoByOpcode 0x0080 = Some (op_template ''LRI'' 0x0080 0xffe0 2 False False False True False)"
    by (simp add: FindOpInfoByOpcode_def FindByOpcode_def dsp_opcodes_defs)
  from instruction_length_is_template_size [OF this, of "power_on gamecube_host"]
  show ?thesis by (simp add: power_on_def)
qed

text \<open>
  C10: straight-line execution stays on the analyzer's instruction starts: after an instruction
  that is not a branch, fetched at a marked start, \<open>pc\<close> is a marked start again, unless it has
  left the code range.
\<close>

theorem straight_line_stays_on_starts:
  assumes "Analyze table_lookup s = Some m" "IsStartOfInstruction m (pc s)"
    and "FindOpInfoByOpcode (PeekInstruction s) = Some t" "\<not> branch t"
    and "pc s + op_size t < (if pc s < 0x1000 then 0x1000 else 0x9000)"
  shows "IsStartOfInstruction m (pc (ExecuteInstruction (PeekInstruction s) (snd (FetchInstruction s))))"
proof -
  have tmpl: "GetOpTemplate (ReadIMEM (pc s) s) = t"
    using assms(3) by (simp add: GetOpTemplate_def PeekInstruction_def)
  have n: "next_addr table_lookup s (pc s) = pc s + op_size t"
    by (simp add: next_addr_def table_lookup_def tmpl)
  have e: "pc (ExecuteInstruction (PeekInstruction s) (snd (FetchInstruction s))) = pc s + op_size t"
    using straight_handler [OF assms(3,4)]
    by (simp add: ExecuteInstruction_def Let_def pc_frame GetExtOp_keeps_pc advances_def FetchInstruction_def)
  have starts: "IsStartOfInstruction m a \<longleftrightarrow> instruction_at table_lookup s a" for a
    using Analyze_facts [OF table_sizes, of s] assms(1) by auto
  have "swept table_lookup s 0 0x1000 (pc s) \<or> swept table_lookup s 0x8000 0x9000 (pc s)"
    using assms(2) by (auto simp: starts instruction_at_def)
  then have "swept table_lookup s 0 0x1000 (pc s + op_size t) \<or> swept table_lookup s 0x8000 0x9000 (pc s + op_size t)"
  proof
    assume a: "swept table_lookup s 0 0x1000 (pc s)"
    then have "pc s + op_size t < 0x1000" using swept_less [OF a] assms(5) by simp
    then show ?thesis using swept_next [OF a] by (simp add: n)
  next
    assume a: "swept table_lookup s 0x8000 0x9000 (pc s)"
    have "0x8000 \<le> pc s" using swept_ge [OF table_sizes _ a] by simp
    then have "\<not> pc s < 0x1000" by (auto simp: word_less_nat_alt word_le_nat_alt)
    then show ?thesis using swept_next [OF a] assms(5) by (simp add: n)
  qed
  then show ?thesis by (simp add: starts e instruction_at_def table_lookup_def)
qed

theorem straight_line_stays_on_starts_witness:
  "\<exists>m. Analyze table_lookup loop_program = Some m \<and>
    (let s = loop_program\<lparr>pc := 1\<rparr> in
      IsStartOfInstruction m (pc (ExecuteInstruction (PeekInstruction s) (snd (FetchInstruction s)))))"
proof -
  let ?s = "loop_program\<lparr>pc := 1\<rparr>"
  have templates: "FindOpInfoByOpcode 0x1005 = Some (op_template ''LOOPI'' 0x1000 0xff00 1 False True True True False)"
    "FindOpInfoByOpcode 0x7600 = Some (op_template ''INC'' 0x7600 0xfe00 1 True False False False True)"
    by (simp_all add: FindOpInfoByOpcode_def FindByOpcode_def dsp_opcodes_defs)
  have i0: "ReadIMEM 0 ?s = 0x1005" and i1: "PeekInstruction ?s = 0x7600"
    by (simp_all add: ReadIMEM_def PeekInstruction_def loop_program_def)
  have "next_addr table_lookup ?s 0 = 1"
    by (simp add: next_addr_def table_lookup_def GetOpTemplate_def i0 templates)
  then have "swept table_lookup ?s 0 0x1000 1"
    using swept_next [OF swept_first, of 0 "0x1000" table_lookup ?s] by simp
  then obtain m where m: "Analyze table_lookup ?s = Some m" "IsStartOfInstruction m (pc ?s)"
    using Analyze_facts [OF table_sizes, of ?s] by (auto simp: instruction_at_def table_lookup_def)
  have "Analyze table_lookup loop_program = Some m" using m(1) by (simp add: Analyze_pc)
  moreover have "IsStartOfInstruction m (pc (ExecuteInstruction (PeekInstruction ?s) (snd (FetchInstruction ?s))))"
    using straight_line_stays_on_starts [OF m, of "op_template ''INC'' 0x7600 0xfe00 1 True False False False True"]
    by (simp add: i1 templates(2))
  ultimately show ?thesis by (auto simp: Let_def)
qed

end
