(* ===== verification/Dsp_Lle.thy ===== *)
theory Dsp_Lle
  imports Dsp_Decode
begin

text \<open>
  The class \<open>DSPCore\<close> of \<open>Core/DSP/DSPCore.cpp\<close> around the machine, and its user, the
  emulator object \<open>DSPLLE\<close> of \<open>Core/HW/DSPLLE/DSPLLE.cpp\<close>: loading the ROMs, initialisation,
  the entry points the console's DSP interface calls, and the DSP thread.  The recompiler is not
  modelled, so \<open>IsJITCreated()\<close> is false throughout.  The time base read by the control
  register is the argument \<open>now\<close>; ROM files and configuration values are arguments.  Threads
  are sequences of explicit steps: \<open>DSPThread_round\<close> is one round of the DSP thread's loop, the
  other operations are those of the CPU thread, and the events and the join, which only order
  these steps, leave the state as it is.
\<close>

section \<open>The core object\<close>

datatype State = Stopped | Running | Stepping

record DSPCore =
  m_dsp :: SDSP
  m_core_state :: State
  m_init_hax :: bool

abbreviation upd_dsp :: "(SDSP \<Rightarrow> SDSP) \<Rightarrow> DSPCore \<Rightarrow> DSPCore" where
  "upd_dsp f c \<equiv> c\<lparr>m_dsp := f (m_dsp c)\<rparr>"

definition core_Initialize ::
  "bool \<Rightarrow> (nat \<Rightarrow> u16) \<Rightarrow> (nat \<Rightarrow> u16) \<Rightarrow> DSPCore \<Rightarrow> bool \<times> DSPCore" where
  "core_Initialize verified irom_contents coef_contents c =
    (case Initialize verified irom_contents coef_contents (m_dsp c) of (ok, s) \<Rightarrow>
      if \<not> ok then (False, c\<lparr>m_dsp := s\<rparr>)
      else (True, c\<lparr>m_dsp := s, m_init_hax := False, m_core_state := Running\<rparr>))"

definition core_Shutdown :: "DSPCore \<Rightarrow> DSPCore" where
  "core_Shutdown c = (if m_core_state c = Stopped then c else c\<lparr>m_core_state := Stopped\<rparr>)"

definition SetState :: "State \<Rightarrow> DSPCore \<Rightarrow> DSPCore" where
  "SetState new_state c = c\<lparr>m_core_state := new_state\<rparr>"

text \<open>
  What ends a wait for \<open>m_step_event\<close> of a stepping core: the debugger's \<open>Step\<close>, or
  \<open>SetState(Running)\<close>.
\<close>

datatype wake = StepPressed | RunPressed

text \<open>
  \<open>wakes\<close> are the wake-ups to come; with none left a stepping core waits for ever, and a
  stopped one spins for ever, both \<open>None\<close>.  A fault ends the program, so the loop ends with it.
\<close>

partial_function (option) core_RunCycles :: "wake list \<Rightarrow> int \<Rightarrow> DSPCore \<Rightarrow> (int \<times> DSPCore) option" where
  "core_RunCycles wakes cycles c =
    (if \<not> 0 < cycles then Some (cycles, c)
     else case m_core_state c of
       Running \<Rightarrow>
         (case RunCycles cycles (m_dsp c) of (r, s) \<Rightarrow>
           (case r of
              Returned n \<Rightarrow> core_RunCycles wakes n (c\<lparr>m_dsp := s\<rparr>)
            | BreakHit n \<Rightarrow> core_RunCycles wakes n (c\<lparr>m_dsp := s, m_core_state := Stepping\<rparr>)
            | CyclesLeft n \<Rightarrow> core_RunCycles wakes n (c\<lparr>m_dsp := s\<rparr>)
            | Faulted \<Rightarrow> Some (0, c\<lparr>m_dsp := s\<rparr>)))
     | Stepping \<Rightarrow>
         (case wakes of
            [] \<Rightarrow> None
          | w # ws \<Rightarrow>
              if w = RunPressed then core_RunCycles ws cycles (SetState Running c)
              else let c1 = upd_dsp Step c in
                if fault (m_dsp c1) \<noteq> None then Some (0, c1) else core_RunCycles ws (cycles - 1) c1)
     | Stopped \<Rightarrow> core_RunCycles wakes cycles c)"

section \<open>Loading the ROMs\<close>

definition DSP_IROM_BYTE_SIZE :: nat where "DSP_IROM_BYTE_SIZE = DSP_IROM_SIZE * 2"

definition DSP_COEF_BYTE_SIZE :: nat where "DSP_COEF_BYTE_SIZE = DSP_COEF_SIZE * 2"

text \<open>\<open>file\<close> is the result of \<open>ReadFileToString\<close>; a ROM is big-endian in the file.\<close>

definition LoadDSPRom :: "u8 list option \<Rightarrow> nat \<Rightarrow> (nat \<Rightarrow> u16) option" where
  "LoadDSPRom file size_in_bytes =
    (case file of
       None \<Rightarrow> None
     | Some bytes \<Rightarrow>
         if length bytes \<noteq> size_in_bytes then None
         else Some (\<lambda>i. if i < size_in_bytes div 2
                        then push_bit 8 (ucast (bytes ! (2 * i))) OR ucast (bytes ! (2 * i + 1)) else 0))"

definition FillDSPInitOptions ::
  "u8 list option \<Rightarrow> u8 list option \<Rightarrow> ((nat \<Rightarrow> u16) \<times> (nat \<Rightarrow> u16)) option" where
  "FillDSPInitOptions irom_file coef_file =
    (case LoadDSPRom irom_file DSP_IROM_BYTE_SIZE of
       None \<Rightarrow> None
     | Some irom_contents \<Rightarrow>
         (case LoadDSPRom coef_file DSP_COEF_BYTE_SIZE of
            None \<Rightarrow> None
          | Some coef_contents \<Rightarrow> Some (irom_contents, coef_contents)))"

section \<open>The emulator object\<close>

record DSPLLE =
  m_dsp_core :: DSPCore
  m_wii :: bool
  m_is_dsp_on_thread :: bool
  m_is_running :: bool
  m_cycle_count :: u32
  m_request_disable_thread :: bool

abbreviation dsp_of :: "DSPLLE \<Rightarrow> SDSP" where
  "dsp_of l \<equiv> m_dsp (m_dsp_core l)"

abbreviation upd_lle_dsp :: "(SDSP \<Rightarrow> SDSP) \<Rightarrow> DSPLLE \<Rightarrow> DSPLLE" where
  "upd_lle_dsp f l \<equiv> l\<lparr>m_dsp_core := upd_dsp f (m_dsp_core l)\<rparr>"

text \<open>The freshly constructed objects, with their member initialisers.\<close>

definition constructed_core :: "host \<Rightarrow> DSPCore" where
  "constructed_core h = \<lparr>m_dsp = power_on h, m_core_state = Stopped, m_init_hax = False\<rparr>"

definition constructed_lle :: "host \<Rightarrow> DSPLLE" where
  "constructed_lle h = \<lparr>m_dsp_core = constructed_core h, m_wii = False, m_is_dsp_on_thread = False,
     m_is_running = False, m_cycle_count = 0, m_request_disable_thread = False\<rparr>"

text \<open>
  \<open>look\<close> is the instruction table as the analyzer finds it in \<open>Reset\<close>: \<open>null_table\<close> in the
  first initialisation of the process, since \<open>InitInstructionTable\<close> comes after it, and
  \<open>table_lookup\<close> in later ones.  Without a recompiler the thread is never used.
\<close>

definition lle_Initialize ::
  "op_lookup \<Rightarrow> u8 list option \<Rightarrow> u8 list option \<Rightarrow> bool \<Rightarrow> bool \<Rightarrow> bool \<Rightarrow> DSPLLE \<Rightarrow> bool \<times> DSPLLE" where
  "lle_Initialize look irom_file coef_file verified wii dsp_thread l =
    (let l1 = l\<lparr>m_request_disable_thread := False\<rparr> in
     case FillDSPInitOptions irom_file coef_file of
       None \<Rightarrow> (False, l1)
     | Some (irom_contents, coef_contents) \<Rightarrow>
         (case core_Initialize verified irom_contents coef_contents (m_dsp_core l1) of (ok, c) \<Rightarrow>
           if \<not> ok then (False, l1\<lparr>m_dsp_core := c\<rparr>)
           else let s = SDSP_Reset (m_dsp c) in
             (True, l1\<lparr>m_wii := wii, m_is_dsp_on_thread := False,
                m_dsp_core := c\<lparr>m_dsp := (case Analyze look s of None \<Rightarrow> s | Some m \<Rightarrow> s\<lparr>code_flags := m\<rparr>)\<rparr>\<rparr>)))"

definition DSP_StopSoundStream :: "DSPLLE \<Rightarrow> DSPLLE" where
  "DSP_StopSoundStream l = (if \<not> m_is_dsp_on_thread l then l else l\<lparr>m_is_running := False\<rparr>)"

definition lle_Shutdown :: "DSPLLE \<Rightarrow> DSPLLE" where
  "lle_Shutdown l = l\<lparr>m_dsp_core := core_Shutdown (m_dsp_core l)\<rparr>"

definition DSP_ReadControlRegister :: "u64 \<Rightarrow> DSPLLE \<Rightarrow> u16 \<times> DSPLLE" where
  "DSP_ReadControlRegister now l =
    (case ReadControlRegister now (dsp_of l) of (v, s) \<Rightarrow> (v, upd_lle_dsp (\<lambda>_. s) l))"

definition DSP_WriteControlRegister :: "u64 \<Rightarrow> u16 \<Rightarrow> DSPLLE \<Rightarrow> u16 \<times> DSPLLE" where
  "DSP_WriteControlRegister now value l =
    (let l1 = upd_lle_dsp (WriteControlRegister now value) l;
         l2 = (if value AND CR_EXTERNAL_INT \<noteq> 0 then
                 (if m_is_dsp_on_thread l1 then
                    upd_lle_dsp (SetExternalInterrupt True) (l1\<lparr>m_request_disable_thread := True\<rparr>)
                  else upd_lle_dsp (\<lambda>s. snd (CheckExceptions (CheckExternalInterrupt s))) l1)
               else l1)
     in DSP_ReadControlRegister now l2)"

definition mailbox_of :: "bool \<Rightarrow> Mailbox" where
  "mailbox_of cpu_mailbox = (if cpu_mailbox then CPU else DSP)"

definition DSP_ReadMailBoxHigh :: "bool \<Rightarrow> DSPLLE \<Rightarrow> u16" where
  "DSP_ReadMailBoxHigh cpu_mailbox l = ReadMailboxHigh (mailbox_of cpu_mailbox) (dsp_of l)"

definition DSP_ReadMailBoxLow :: "bool \<Rightarrow> DSPLLE \<Rightarrow> u16 \<times> DSPLLE" where
  "DSP_ReadMailBoxLow cpu_mailbox l =
    (case ReadMailboxLow (mailbox_of cpu_mailbox) (dsp_of l) of (v, s) \<Rightarrow> (v, upd_lle_dsp (\<lambda>_. s) l))"

definition DSP_WriteMailBoxHigh :: "bool \<Rightarrow> u16 \<Rightarrow> DSPLLE \<Rightarrow> DSPLLE" where
  "DSP_WriteMailBoxHigh cpu_mailbox value l =
    (if cpu_mailbox then upd_lle_dsp (WriteMailboxHigh CPU value) l else l)"

definition DSP_WriteMailBoxLow :: "bool \<Rightarrow> u16 \<Rightarrow> DSPLLE \<Rightarrow> DSPLLE" where
  "DSP_WriteMailBoxLow cpu_mailbox value l =
    (if cpu_mailbox then upd_lle_dsp (WriteMailboxLow CPU value) l else l)"

text \<open>Division of C++ truncates.\<close>

definition dsp_cycles_of :: "int \<Rightarrow> int" where
  "dsp_cycles_of cycles = (if cycles < 0 then - (- cycles div 6) else cycles div 6)"

text \<open>\<open>det\<close> is \<open>WantsDeterminism()\<close>; \<open>None\<close> if the call never returns.\<close>

definition DSP_Update :: "wake list \<Rightarrow> bool \<Rightarrow> int \<Rightarrow> DSPLLE \<Rightarrow> DSPLLE option" where
  "DSP_Update wakes det cycles l =
    (let dsp_cycles = dsp_cycles_of cycles in
     if dsp_cycles \<le> 0 then Some l
     else
       let l1 = (if m_is_dsp_on_thread l \<and> (m_request_disable_thread l \<or> det)
                 then (DSP_StopSoundStream l)\<lparr>m_is_dsp_on_thread := False, m_request_disable_thread := False\<rparr>
                 else l)
       in if \<not> m_is_dsp_on_thread l1
          then map_option (\<lambda>(n, c). l1\<lparr>m_dsp_core := c\<rparr>) (core_RunCycles wakes dsp_cycles (m_dsp_core l1))
          else Some (l1\<lparr>m_cycle_count := m_cycle_count l1 + word_of_int dsp_cycles\<rparr>))"

definition DSP_UpdateRate :: u32 where
  "DSP_UpdateRate = 12600"

text \<open>One round of \<open>DSPThread\<close> in which it gets the lock; \<open>irqs\<close> as for \<open>RunCyclesThread\<close>.\<close>

definition DSPThread_round :: "bool list \<Rightarrow> DSPLLE \<Rightarrow> DSPLLE" where
  "DSPThread_round irqs l =
    (let cycles = sint (m_cycle_count l) in
     if m_is_running l \<and> 0 < cycles
     then (upd_lle_dsp (\<lambda>s. snd (RunCyclesThread irqs cycles s)) l)\<lparr>m_cycle_count := 0\<rparr>
     else l)"

end
