(* ===== verification/Dsp_Memory.thy ===== *)
theory Dsp_Memory
  imports Dsp_Host
begin

text \<open>
  Accesses of the emulator to console memory: \<open>CopyFromEmu\<close>, \<open>CopyToEmu\<close>, \<open>Memset\<close>,
  \<open>GetString\<close> and the sized reads and writes of \<open>Core/HW/Memmap.cpp\<close>, over the byte swaps of
  \<open>Common/Swap.h\<close>.  A \<open>memcpy\<close> to or from an integer is little-endian, as on the hosts the
  program runs on.  The locale \<open>memory_cell\<close> states what a sized pair of accesses promises.
\<close>

section \<open>Integers as bytes\<close>

fun le_word :: "u8 list \<Rightarrow> 'a::len word" where
  "le_word [] = 0"
| "le_word (b # bs) = ucast b OR push_bit 8 (le_word bs)"

definition byte_at :: "nat \<Rightarrow> 'a::len word \<Rightarrow> u8" where
  "byte_at k w = ucast (drop_bit (8 * k) w)"

definition le_bytes :: "nat \<Rightarrow> 'a::len word \<Rightarrow> u8 list" where
  "le_bytes n w = map (\<lambda>k. byte_at k w) [0..<n]"

definition swap16 :: "u16 \<Rightarrow> u16" where
  "swap16 data = drop_bit 8 data OR push_bit 8 data"

definition swap32 :: "u32 \<Rightarrow> u32" where
  "swap32 data = push_bit 16 (ucast (swap16 (ucast data))) OR ucast (swap16 (ucast (drop_bit 16 data)))"

definition swap64 :: "u64 \<Rightarrow> u64" where
  "swap64 data = push_bit 32 (ucast (swap32 (ucast data))) OR ucast (swap32 (ucast (drop_bit 32 data)))"

lemma length_le_bytes [simp]: "length (le_bytes n w) = n"
  by (simp add: le_bytes_def)

lemma bit_le_word:
  "bit (le_word bs :: 'a::len word) i \<longleftrightarrow>
    i < LENGTH('a) \<and> i div 8 < length bs \<and> bit (bs ! (i div 8)) (i mod 8)"
proof (induction bs arbitrary: i)
  case (Cons b bs)
  show ?case
  proof (cases "i < 8")
    case True
    then show ?thesis by (auto simp: bit_simps)
  next
    case False
    then obtain j where j: "i = j + 8" by (metis add.commute le_Suc_ex not_less)
    have "(j + 8) div 8 = Suc (j div 8)" by simp
    then show ?thesis using Cons.IH [of j] unfolding j
      by (auto simp: bit_simps dest: bit_imp_le_length)
  qed
qed simp

lemma byte_at_le_word:
  "k < length bs \<Longrightarrow> 8 * length bs \<le> LENGTH('a) \<Longrightarrow> byte_at k (le_word bs :: 'a::len word) = bs ! k"
  by (rule bit_word_eqI) (auto simp: byte_at_def bit_simps bit_le_word)

lemma le_bytes_le_word:
  "8 * length bs \<le> LENGTH('a) \<Longrightarrow> n = length bs \<Longrightarrow> le_bytes n (le_word bs :: 'a::len word) = bs"
  by (rule nth_equalityI) (simp_all add: le_bytes_def byte_at_le_word)

lemma le_word_le_bytes:
  assumes "LENGTH('a) = 8 * n"
  shows "le_word (le_bytes n (w :: 'a::len word)) = w"
proof (rule bit_word_eqI)
  fix i assume "i < LENGTH('a)"
  then have "i div 8 < n" using assms by (simp add: less_mult_imp_div_less mult.commute)
  moreover have "8 * (i div 8) + i mod 8 = i" by simp
  ultimately show "bit (le_word (le_bytes n w) :: 'a word) i \<longleftrightarrow> bit w i"
    using \<open>i < LENGTH('a)\<close> by (simp add: bit_le_word le_bytes_def byte_at_def bit_simps)
qed

lemma bit_swap16: "bit (swap16 w) i \<longleftrightarrow> i < 16 \<and> bit w (if i < 8 then i + 8 else i - 8)"
  by (auto simp: swap16_def bit_simps add.commute dest: bit_imp_le_length)

lemma bit_swap32:
  "bit (swap32 w) i \<longleftrightarrow> i < 32 \<and> bit w
    (if i < 8 then i + 24 else if i < 16 then i + 8 else if i < 24 then i - 8 else i - 24)"
  by (auto simp: swap32_def bit_simps bit_swap16 not_less add.commute dest: bit_imp_le_length)

lemma swap_swap [simp]: "swap16 (swap16 a) = a" "swap32 (swap32 b) = b" "swap64 (swap64 c) = c"
proof -
  show "swap16 (swap16 a) = a" by (rule bit_word_eqI) (auto simp: bit_swap16)
  show s: "swap32 (swap32 b) = b" for b
    by (rule bit_word_eqI) (auto simp: bit_swap32 not_less)
  have "ucast (swap64 c) = swap32 (ucast (drop_bit 32 c))"
    "ucast (drop_bit 32 (swap64 c)) = swap32 (ucast c)"
    by (rule bit_word_eqI, auto simp: swap64_def bit_simps dest: bit_imp_le_length)+
  then show "swap64 (swap64 c) = c"
    unfolding swap64_def [of "swap64 c"]
    by (intro bit_word_eqI) (auto simp: s bit_simps dest: bit_imp_le_length)
qed

section \<open>Copies\<close>

definition emu_bytes :: "host \<Rightarrow> region \<Rightarrow> u32 \<Rightarrow> nat \<Rightarrow> u8 list" where
  "emu_bytes h rg off n = map (\<lambda>i. region_byte h rg (off + word_of_nat i)) [0..<n]"

text \<open>\<open>data\<close> is the destination, unchanged when the range is invalid.\<close>

definition CopyFromEmu :: "host \<Rightarrow> u8 list \<Rightarrow> u32 \<Rightarrow> u8 list" where
  "CopyFromEmu h data address =
    (if length data = 0 then data else
     case GetPointerForRange h address (length data) of
       None \<Rightarrow> data
     | Some (rg, off) \<Rightarrow> emu_bytes h rg off (length data))"

fun store_bytes :: "u32 \<Rightarrow> u8 list \<Rightarrow> (u32 \<Rightarrow> u8) \<Rightarrow> (u32 \<Rightarrow> u8)" where
  "store_bytes off [] f = f"
| "store_bytes off (b # bs) f = store_bytes (off + 1) bs (f(off := b))"

definition CopyToEmu :: "u32 \<Rightarrow> u8 list \<Rightarrow> host \<Rightarrow> host" where
  "CopyToEmu address data h =
    (if length data = 0 then h else
     case GetPointerForRange h address (length data) of
       None \<Rightarrow> h
     | Some (rg, off) \<Rightarrow> set_region_bytes rg (store_bytes off data (region_byte h rg)) h)"

definition Memset :: "u32 \<Rightarrow> u8 \<Rightarrow> nat \<Rightarrow> host \<Rightarrow> host" where
  "Memset address value n h =
    (if n = 0 then h else
     case GetPointerForRange h address n of
       None \<Rightarrow> h
     | Some (rg, off) \<Rightarrow> set_region_bytes rg (store_bytes off (replicate n value) (region_byte h rg)) h)"

section \<open>Sized accesses\<close>

definition Read_U16 :: "host \<Rightarrow> u32 \<Rightarrow> u16" where
  "Read_U16 h address = swap16 (le_word (CopyFromEmu h (replicate 2 0) address))"

definition Read_U32 :: "host \<Rightarrow> u32 \<Rightarrow> u32" where
  "Read_U32 h address = swap32 (le_word (CopyFromEmu h (replicate 4 0) address))"

definition Read_U64 :: "host \<Rightarrow> u32 \<Rightarrow> u64" where
  "Read_U64 h address = swap64 (le_word (CopyFromEmu h (replicate 8 0) address))"

definition Read_U32_Swap :: "host \<Rightarrow> u32 \<Rightarrow> u32" where
  "Read_U32_Swap h address = le_word (CopyFromEmu h (replicate 4 0) address)"

definition Write_U8 :: "u8 \<Rightarrow> u32 \<Rightarrow> host \<Rightarrow> host" where
  "Write_U8 value address h = CopyToEmu address [value] h"

definition Write_U16 :: "u16 \<Rightarrow> u32 \<Rightarrow> host \<Rightarrow> host" where
  "Write_U16 value address h = CopyToEmu address (le_bytes 2 (swap16 value)) h"

definition Write_U32 :: "u32 \<Rightarrow> u32 \<Rightarrow> host \<Rightarrow> host" where
  "Write_U32 value address h = CopyToEmu address (le_bytes 4 (swap32 value)) h"

definition Write_U64 :: "u64 \<Rightarrow> u32 \<Rightarrow> host \<Rightarrow> host" where
  "Write_U64 value address h = CopyToEmu address (le_bytes 8 (swap64 value)) h"

definition Write_U32_Swap :: "u32 \<Rightarrow> u32 \<Rightarrow> host \<Rightarrow> host" where
  "Write_U32_Swap value address h = CopyToEmu address (le_bytes 4 value) h"

definition Write_U64_Swap :: "u64 \<Rightarrow> u32 \<Rightarrow> host \<Rightarrow> host" where
  "Write_U64_Swap value address h = CopyToEmu address (le_bytes 8 value) h"

section \<open>Strings\<close>

text \<open>The null-terminated loop: \<open>None\<close> if it never ends.\<close>

partial_function (option) string_from :: "host \<Rightarrow> u32 \<Rightarrow> u8 list \<Rightarrow> u8 list option" where
  "string_from h em_address result =
    (let value = Read_U8 h em_address in
     if value = 0 then Some result
     else string_from h (em_address + 1) (result @ [value]))"

definition GetString :: "host \<Rightarrow> u32 \<Rightarrow> nat \<Rightarrow> u8 list option" where
  "GetString h em_address n =
    (if n = 0 then string_from h em_address []
     else Some (takeWhile (\<lambda>b. b \<noteq> 0) (CopyFromEmu h (replicate n 0) em_address)))"

section \<open>A memory cell\<close>

text \<open>
  The contract of a pair of accesses of one width: a value written to a mapped range is read
  back, a write keeps the memory map, and a write to an unmapped range changes nothing.
\<close>

locale memory_cell =
  fixes rd :: "host \<Rightarrow> u32 \<Rightarrow> 'v" and wr :: "'v \<Rightarrow> u32 \<Rightarrow> host \<Rightarrow> host" and bytes :: nat
  assumes read_write: "GetPointerForRange h a bytes \<noteq> None \<Longrightarrow> rd (wr v a h) a = v"
    and map_kept: "GetPointerForRange (wr v a h) b n = GetPointerForRange h b n"
    and unmapped: "GetPointerForRange h a bytes = None \<Longrightarrow> wr v a h = h"
begin

lemma write_all_then_read:
  "GetPointerForRange h a bytes \<noteq> None \<Longrightarrow> vs \<noteq> [] \<Longrightarrow>
    rd (fold (\<lambda>v. wr v a) vs h) a = List.last vs"
proof (induction vs arbitrary: h)
  case (Cons v vs)
  then show ?case by (cases "vs = []") (simp_all add: read_write map_kept)
qed simp

lemma written:
  "if GetPointerForRange h a bytes = None then wr v a h = h
   else rd (fold (\<lambda>v. wr v a) (vs @ [v]) h) a = v"
  using write_all_then_read [of h a "vs @ [v]"] unmapped [of h a] by simp

end

lemma map_set_region_bytes:
  "GetPointerForRange (set_region_bytes rg f h) b n = GetPointerForRange h b n"
  by (cases rg) (simp_all add: set_region_bytes_def GetPointerForRange_def GetSpanForAddress_def Let_def)

lemma map_CopyToEmu: "GetPointerForRange (CopyToEmu a data h) b n = GetPointerForRange h b n"
  by (simp add: CopyToEmu_def map_set_region_bytes split: option.splits)

lemma CopyToEmu_unmapped: "GetPointerForRange h a (length data) = None \<Longrightarrow> CopyToEmu a data h = h"
  by (simp add: CopyToEmu_def)

lemma region_byte_set [simp]:
  "region_byte (set_region_bytes rg f h) r off = (if r = rg then f off else region_byte h r off)"
  by (cases rg; cases r) (simp_all add: set_region_bytes_def region_byte_def)

lemma store_bytes_other:
  "(\<forall>i < length bs. x \<noteq> off + word_of_nat i) \<Longrightarrow> store_bytes off bs f x = f x"
proof (induction bs arbitrary: off f)
  case (Cons b bs)
  have "x \<noteq> off" using Cons.prems by (auto dest: spec [of _ 0])
  moreover have "\<forall>i < length bs. x \<noteq> off + 1 + word_of_nat i"
    using Cons.prems by (auto dest: spec [of _ "Suc _"] simp: add.assoc)
  ultimately show ?case using Cons.IH [of "off + 1"] by simp
qed simp

lemma store_bytes_append:
  "store_bytes off (xs @ ys) f = store_bytes (off + word_of_nat (length xs)) ys (store_bytes off xs f)"
  by (induction xs arbitrary: off f) (simp_all add: add.assoc)

lemma store_bytes_nth:
  "i < length bs \<Longrightarrow> length bs \<le> 2 ^ 32 \<Longrightarrow> store_bytes off bs f (off + word_of_nat i) = bs ! i"
proof (induction bs arbitrary: off f i)
  case (Cons b bs)
  show ?case
  proof (cases i)
    case 0
    have "off \<noteq> off + 1 + word_of_nat j" if "j < length bs" for j
    proof
      assume "off = off + 1 + word_of_nat j"
      then have "(word_of_nat (Suc j) :: u32) = 0" by (simp add: add.assoc)
      then have "2 ^ 32 dvd Suc j" by (simp add: word_of_nat_eq_0_iff del: of_nat_Suc)
      moreover have "Suc j < 2 ^ 32" using that Cons.prems(2) by simp
      ultimately show False using dvd_imp_le [of "2 ^ 32" "Suc j"] by simp
    qed
    then show ?thesis using 0 by (simp add: store_bytes_other)
  next
    case (Suc j)
    then show ?thesis using Cons.IH [of j "off + 1"] Cons.prems
      by (simp add: add.assoc)
  qed
qed simp

lemma CopyFromEmu_CopyToEmu:
  assumes "GetPointerForRange h a (length data) \<noteq> None" "length d0 = length data" "length data \<le> 2 ^ 32"
  shows "CopyFromEmu (CopyToEmu a data h) d0 a = data"
proof (cases "length data = 0")
  case False
  obtain rg off where p: "GetPointerForRange h a (length data) = Some (rg, off)" using assms(1) by auto
  have "emu_bytes (set_region_bytes rg (store_bytes off data (region_byte h rg)) h) rg off (length data) = data"
    using assms(3) by (intro nth_equalityI) (simp_all add: emu_bytes_def store_bytes_nth)
  then show ?thesis using False p assms(2)
    by (auto simp: CopyFromEmu_def CopyToEmu_def map_set_region_bytes)
qed (use assms in \<open>simp add: CopyFromEmu_def\<close>)

lemma Read_U8_copy: "Read_U8 h a = le_word (CopyFromEmu h [0] a)"
  by (simp add: Read_U8_def CopyFromEmu_def emu_bytes_def split: option.split)

text \<open>The four widths provide the contract.\<close>

interpretation u8: memory_cell Read_U8 Write_U8 1
proof unfold_locales
  fix h a and v :: u8
  assume "GetPointerForRange h a 1 \<noteq> None"
  then show "Read_U8 (Write_U8 v a h) a = v"
    unfolding Read_U8_copy Write_U8_def by (subst CopyFromEmu_CopyToEmu) simp_all
qed (simp_all add: Write_U8_def map_CopyToEmu CopyToEmu_unmapped)

interpretation u16: memory_cell Read_U16 Write_U16 2
proof unfold_locales
  fix h a v
  assume "GetPointerForRange h a 2 \<noteq> None"
  then show "Read_U16 (Write_U16 v a h) a = v"
    unfolding Read_U16_def Write_U16_def by (subst CopyFromEmu_CopyToEmu) (simp_all add: le_word_le_bytes)
qed (simp_all add: Write_U16_def map_CopyToEmu CopyToEmu_unmapped)

interpretation u32: memory_cell Read_U32 Write_U32 4
proof unfold_locales
  fix h a v
  assume "GetPointerForRange h a 4 \<noteq> None"
  then show "Read_U32 (Write_U32 v a h) a = v"
    unfolding Read_U32_def Write_U32_def by (subst CopyFromEmu_CopyToEmu) (simp_all add: le_word_le_bytes)
qed (simp_all add: Write_U32_def map_CopyToEmu CopyToEmu_unmapped)

interpretation u64: memory_cell Read_U64 Write_U64 8
proof unfold_locales
  fix h a v
  assume "GetPointerForRange h a 8 \<noteq> None"
  then show "Read_U64 (Write_U64 v a h) a = v"
    unfolding Read_U64_def Write_U64_def by (subst CopyFromEmu_CopyToEmu) (simp_all add: le_word_le_bytes)
qed (simp_all add: Write_U64_def map_CopyToEmu CopyToEmu_unmapped)

section \<open>Properties\<close>

text \<open>
  after any sequence of writes of one width to a mapped address, a read of that width gives
  the last value written; a write to an unmapped range changes nothing.
\<close>

theorem sized_accesses_read_back:
  "(if GetPointerForRange h a 1 = None then Write_U8 b a h = h
    else Read_U8 (fold (\<lambda>v. Write_U8 v a) (bs @ [b]) h) a = b) \<and>
   (if GetPointerForRange h a 2 = None then Write_U16 w a h = h
    else Read_U16 (fold (\<lambda>v. Write_U16 v a) (ws @ [w]) h) a = w) \<and>
   (if GetPointerForRange h a 4 = None then Write_U32 d a h = h
    else Read_U32 (fold (\<lambda>v. Write_U32 v a) (ds @ [d]) h) a = d) \<and>
   (if GetPointerForRange h a 8 = None then Write_U64 q a h = h
    else Read_U64 (fold (\<lambda>v. Write_U64 v a) (qs @ [q]) h) a = q)"
  by (intro conjI u8.written u16.written u32.written u64.written)

lemma string_from_unroll:
  "(\<forall>i<n. Read_U8 h (a + word_of_nat i) \<noteq> 0) \<Longrightarrow> Read_U8 h (a + word_of_nat n) = 0 \<Longrightarrow>
    string_from h a acc = Some (acc @ map (\<lambda>i. Read_U8 h (a + word_of_nat i)) [0..<n])"
proof (induction n arbitrary: a acc)
  case 0
  then show ?case by (subst string_from.simps) simp
next
  case (Suc n)
  have "\<forall>i<n. Read_U8 h (a + 1 + word_of_nat i) \<noteq> 0" "Read_U8 h (a + 1 + word_of_nat n) = 0"
    using Suc.prems by (auto simp: add.assoc dest: spec [of _ "Suc _"])
  then have "string_from h (a + 1) acc' =
      Some (acc' @ map (\<lambda>i. Read_U8 h (a + 1 + word_of_nat i)) [0..<n])" for acc'
    by (rule Suc.IH)
  moreover have "Read_U8 h a \<noteq> 0" using Suc.prems(1) by (auto dest: spec [of _ 0])
  ultimately show ?case
    by (subst string_from.simps) (simp add: Let_def upt_conv_Cons map_Suc_upt [symmetric] add.assoc del: upt_Suc)
qed

lemma unmapped_reads_zero:
  assumes "h_ram_size h \<le> 0x3fffffff"
  shows "Read_U8 h 0x3fffffff = 0"
  using assms by (simp add: Read_U8_def GetPointerForRange_def GetSpanForAddress_def Let_def leD)

text \<open>
  Reading a string always ends: a null-terminated one (\<open>n = 0\<close>) is the bytes up to the first
  zero, which the end of mapped memory supplies at the latest, and one of \<open>n\<close> bytes is cut at the
  first zero.
\<close>

theorem get_string_ends:
  assumes "h_ram_size h \<le> 0x3fffffff"
  shows "\<exists>s. GetString h a n = Some s \<and> 0 \<notin> set s \<and>
    (if n = 0 then s = map (\<lambda>i. Read_U8 h (a + word_of_nat i)) [0..<length s] \<and>
        Read_U8 h (a + word_of_nat (length s)) = 0
     else length s \<le> n \<and> s = take (length s) (CopyFromEmu h (replicate n 0) a))"
proof (cases "n = 0")
  case True
  define P where "P k \<longleftrightarrow> Read_U8 h (a + word_of_nat k) = 0" for k
  have "P (unat (0x3fffffff - a))" using unmapped_reads_zero [OF assms] by (simp add: P_def)
  then have l: "P (Least P)" by (rule LeastI)
  have m: "\<not> P i" if "i < Least P" for i using that by (rule not_less_Least)
  let ?s = "map (\<lambda>i. Read_U8 h (a + word_of_nat i)) [0..<Least P]"
  have "string_from h a [] = Some ([] @ ?s)"
    by (rule string_from_unroll) (use l m in \<open>simp_all add: P_def\<close>)
  moreover have "0 \<notin> set ?s" using m by (force simp: P_def)
  ultimately have "GetString h a n = Some ?s \<and> 0 \<notin> set ?s \<and> ?s = map (\<lambda>i. Read_U8 h (a + word_of_nat i)) [0..<length ?s] \<and>
      Read_U8 h (a + word_of_nat (length ?s)) = 0"
    using l True by (simp add: P_def GetString_def)
  then show ?thesis using True by (intro exI [of _ ?s]) simp
next
  case False
  let ?b = "CopyFromEmu h (replicate n 0) a"
  have "length ?b = n" by (simp add: CopyFromEmu_def emu_bytes_def split: option.split)
  moreover have "length (takeWhile (\<lambda>b. b \<noteq> 0) ?b) \<le> length ?b" by (rule length_takeWhile_le)
  moreover have "0 \<notin> set (takeWhile (\<lambda>b. b \<noteq> 0) ?b)" by (blast dest: set_takeWhileD)
  moreover have "take (length (takeWhile (\<lambda>b. b \<noteq> 0) ?b)) ?b = takeWhile (\<lambda>b. b \<noteq> 0) ?b"
    by (metis append_eq_conv_conj takeWhile_dropWhile_id)
  ultimately show ?thesis using False
    by (intro exI [of _ "takeWhile (\<lambda>b. b \<noteq> 0) ?b"]) (simp add: GetString_def)
qed

theorem get_string_ends_witness: "\<exists>s. GetString gamecube_host 0x80000000 0 = Some s"
proof -
  have "h_ram_size gamecube_host \<le> 0x3fffffff" by (simp add: gamecube_host_def)
  then show ?thesis using get_string_ends [of gamecube_host "0x80000000" 0] by blast
qed

end
