(* ===== verification/Console_Devices.thy ===== *)
theory Console_Devices
  imports Dsp_Memory
begin

text \<open>
  The two devices beside the DSP interface: the interrupt controller of
  \<open>Core/HW/ProcessorInterface.cpp\<close> with the external-interrupt line of the CPU, and the high
  speed port of \<open>Core/HW/HSP/\<close>, which holds the ARAM expansion.  The FIFO reset, the drive reset
  and the reset and power buttons of the processor interface belong to other components and are
  left out.
\<close>

section \<open>Processor interface\<close>

abbreviation (input) INT_CAUSE_DSP :: u32 where "INT_CAUSE_DSP \<equiv> 0x40"

abbreviation (input) INT_CAUSE_VI :: u32 where "INT_CAUSE_VI \<equiv> 0x100"

abbreviation (input) INT_CAUSE_RST_BUTTON :: u32 where "INT_CAUSE_RST_BUTTON \<equiv> 0x10000"

text \<open>\<open>ppc_exceptions\<close> is the CPU's pending exception word.\<close>

record ProcessorInterface =
  m_interrupt_cause :: u32
  m_interrupt_mask :: u32
  m_fifo_cpu_base :: u32
  m_fifo_cpu_end :: u32
  m_fifo_cpu_write_pointer :: u32
  m_reset_code :: u32
  ppc_exceptions :: u32

definition UpdateException :: "ProcessorInterface \<Rightarrow> ProcessorInterface" where
  "UpdateException p =
    (if m_interrupt_cause p AND m_interrupt_mask p \<noteq> 0
     then p\<lparr>ppc_exceptions := ppc_exceptions p OR EXCEPTION_EXTERNAL_INT\<rparr>
     else p\<lparr>ppc_exceptions := ppc_exceptions p AND NOT EXCEPTION_EXTERNAL_INT\<rparr>)"

definition SetInterrupt :: "u32 \<Rightarrow> bool \<Rightarrow> ProcessorInterface \<Rightarrow> ProcessorInterface" where
  "SetInterrupt cause_mask on p = UpdateException
    (if on then p\<lparr>m_interrupt_cause := m_interrupt_cause p OR cause_mask\<rparr>
     else p\<lparr>m_interrupt_cause := m_interrupt_cause p AND NOT cause_mask\<rparr>)"

definition pi_Init :: "ProcessorInterface \<Rightarrow> ProcessorInterface" where
  "pi_Init p = p\<lparr>m_interrupt_mask := 0, m_fifo_cpu_base := 0, m_fifo_cpu_end := 0,
     m_fifo_cpu_write_pointer := 0, m_reset_code := 0,
     m_interrupt_cause := INT_CAUSE_RST_BUTTON OR INT_CAUSE_VI\<rparr>"

definition SetResetButton :: "bool \<Rightarrow> ProcessorInterface \<Rightarrow> ProcessorInterface" where
  "SetResetButton pressed p = SetInterrupt INT_CAUSE_RST_BUTTON (\<not> pressed) p"

text \<open>The handlers of the registers \<open>PI_INTERRUPT_CAUSE\<close> and \<open>PI_INTERRUPT_MASK\<close>.\<close>

definition write_interrupt_cause :: "u32 \<Rightarrow> ProcessorInterface \<Rightarrow> ProcessorInterface" where
  "write_interrupt_cause val p = UpdateException (p\<lparr>m_interrupt_cause := m_interrupt_cause p AND NOT val\<rparr>)"

definition write_interrupt_mask :: "u32 \<Rightarrow> ProcessorInterface \<Rightarrow> ProcessorInterface" where
  "write_interrupt_mask val p = UpdateException (p\<lparr>m_interrupt_mask := val\<rparr>)"

text \<open>The CPU's line is asserted exactly while an unmasked cause is pending.\<close>

definition line_ok :: "ProcessorInterface \<Rightarrow> bool" where
  "line_ok p \<longleftrightarrow> (ppc_exceptions p AND EXCEPTION_EXTERNAL_INT \<noteq> 0 \<longleftrightarrow>
     m_interrupt_cause p AND m_interrupt_mask p \<noteq> 0)"

lemma UpdateException_line: "line_ok (UpdateException p)"
  by (simp add: line_ok_def UpdateException_def and.assoc bit.conj_disj_distrib2)

lemma SetInterrupt_line: "line_ok (SetInterrupt c b p)"
  by (simp add: SetInterrupt_def UpdateException_line)

lemma UpdateException_cause [simp]:
  "m_interrupt_cause (UpdateException p) = m_interrupt_cause p"
  "m_interrupt_mask (UpdateException p) = m_interrupt_mask p"
  by (simp_all add: UpdateException_def)

text \<open>An interrupt request touches its own cause bits only.\<close>

lemma SetInterrupt_cause [simp]:
  "m_interrupt_cause (SetInterrupt c b p) =
    (if b then m_interrupt_cause p OR c else m_interrupt_cause p AND NOT c)"
  "m_interrupt_mask (SetInterrupt c b p) = m_interrupt_mask p"
  by (simp_all add: SetInterrupt_def)

section \<open>High speed port\<close>

definition NextPowerOf2 :: "u32 \<Rightarrow> u32" where
  "NextPowerOf2 value0 =
    (let value = value0 - 1;
         value = value OR drop_bit 1 value;
         value = value OR drop_bit 2 value;
         value = value OR drop_bit 4 value;
         value = value OR drop_bit 8 value;
         value = value OR drop_bit 16 value
     in value + 1)"

text \<open>No device, the null device, or the ARAM expansion with its mask and memory.\<close>

datatype HSPDevice = NoDevice | NullDevice | ARAMExpansion u32 "u32 \<Rightarrow> u8"

definition HSPDevice_Create_ARAMExpansion :: "u32 \<Rightarrow> HSPDevice" where
  "HSPDevice_Create_ARAMExpansion config_size = ARAMExpansion (NextPowerOf2 config_size - 1) (\<lambda>_. 0)"

definition bytes_at :: "(u32 \<Rightarrow> u8) \<Rightarrow> u32 \<Rightarrow> nat \<Rightarrow> u8 list" where
  "bytes_at f off n = map (\<lambda>i. f (off + word_of_nat i)) [0..<n]"

definition HSP_Read :: "u32 \<Rightarrow> HSPDevice \<Rightarrow> u64" where
  "HSP_Read address d =
    (case d of
       NoDevice \<Rightarrow> 0
     | NullDevice \<Rightarrow> 0
     | ARAMExpansion msk ptr \<Rightarrow> swap64 (le_word (bytes_at ptr (address AND msk) 8)))"

definition HSP_Write :: "u32 \<Rightarrow> u64 \<Rightarrow> HSPDevice \<Rightarrow> HSPDevice" where
  "HSP_Write address value d =
    (case d of
       NoDevice \<Rightarrow> NoDevice
     | NullDevice \<Rightarrow> NullDevice
     | ARAMExpansion msk ptr \<Rightarrow>
         ARAMExpansion msk (store_bytes (address AND msk) (le_bytes 8 (swap64 value)) ptr))"

lemma bytes_at_store_bytes:
  "length bs \<le> 2 ^ 32 \<Longrightarrow> bytes_at (store_bytes off bs f) off (length bs) = bs"
  by (intro nth_equalityI) (simp_all add: bytes_at_def store_bytes_nth)

lemma HSP_Read_Write: "HSP_Read a (HSP_Write a v (ARAMExpansion msk f)) = v"
  using bytes_at_store_bytes [of "le_bytes 8 (swap64 v)" "a AND msk" f]
  by (simp add: HSP_Read_def HSP_Write_def le_word_le_bytes)

text \<open>
  After any request, acknowledgement or change of the mask, the external-interrupt exception of
  the CPU is pending exactly if some cause is pending and not masked, and a request changes its own
  cause bits only.
\<close>

theorem interrupt_line_follows_causes:
  "line_ok (SetInterrupt c b p) \<and> line_ok (write_interrupt_cause v p) \<and> line_ok (write_interrupt_mask v p) \<and>
   line_ok (SetResetButton b p) \<and>
   m_interrupt_cause (SetInterrupt c b p) AND NOT c = m_interrupt_cause p AND NOT c \<and>
   (m_interrupt_cause (SetInterrupt c b p) AND c = (if b then c else 0))"
  by (auto simp: UpdateException_line SetInterrupt_line write_interrupt_cause_def write_interrupt_mask_def
      SetResetButton_def bit.conj_disj_distrib2 and.assoc)

end
