(* ===== verification/Dsp_Manager.thy ===== *)
theory Dsp_Manager
  imports Dsp_Lle Console_Devices
begin

text \<open>
  \<open>Core/HW/DSP.cpp\<close>: the console's DSP interface \<open>DSPManager\<close>.  It holds the DSP control
  register with the three interrupt bits, the audio DMA that feeds the audio interface, the ARAM
  DMA between main memory and ARAM, and the emulator object with its cycle budget.  ARAM and main
  memory are those of the \<open>host\<close> record inside the emulator.  Events put in the queue of
  \<open>CoreTiming\<close> and buffers sent to the audio interface are recorded in lists; the requests of the
  DSP itself are counted by \<open>h_irq\<close> of the host and delivered by \<open>fire_dsp_request\<close>.
\<close>

section \<open>State\<close>

abbreviation (input) INT_DSP :: u16 where "INT_DSP \<equiv> 0x80"

abbreviation (input) INT_ARAM :: u16 where "INT_ARAM \<equiv> 0x20"

abbreviation (input) INT_AID :: u16 where "INT_AID \<equiv> 0x08"

abbreviation (input) DSP_CONTROL_MASK :: u16 where "DSP_CONTROL_MASK \<equiv> 0x0C07"

abbreviation (input) DSP_MAIL_SLICE :: int where "DSP_MAIL_SLICE \<equiv> 72"

record AudioDMA =
  current_source_address :: u32
  remaining_blocks_count :: u16
  SourceAddress :: u32
  AudioDMAControl :: u16

record ARAM_DMA =
  MMAddr :: u32
  ARAddr :: u32
  Cnt :: u32

datatype event_type = GenerateDSPInterruptEvent u16 | CompleteARAMEvent

record DSPManager =
  m_aram_size :: u32
  m_audio_dma :: AudioDMA
  m_aram_dma :: ARAM_DMA
  m_dsp_control :: u16
  m_aram_info :: u16
  m_aram_mode :: u16
  m_aram_refresh :: u16
  m_dsp_slice :: int
  m_dsp_emulator :: DSPLLE
  pi_state :: ProcessorInterface
  hsp :: HSPDevice
  scheduled :: "(int \<times> event_type) list"
  audio_out :: "u8 list option list"

abbreviation host_of :: "DSPManager \<Rightarrow> host" where
  "host_of m \<equiv> the_host (dsp_of (m_dsp_emulator m))"

definition upd_host :: "(host \<Rightarrow> host) \<Rightarrow> DSPManager \<Rightarrow> DSPManager" where
  "upd_host f m = m\<lparr>m_dsp_emulator := upd_lle_dsp (\<lambda>s. s\<lparr>the_host := f (the_host s)\<rparr>) (m_dsp_emulator m)\<rparr>"

lemma host_of_upd_host [simp]: "host_of (upd_host f m) = f (host_of m)"
  by (simp add: upd_host_def)

text \<open>Assignment of a bit field of a union, the bits of \<open>fld\<close>.\<close>

definition set_field :: "u16 \<Rightarrow> u16 \<Rightarrow> u16 \<Rightarrow> u16" where
  "set_field fld v old = (old AND NOT fld) OR (v AND fld)"

definition dma_count :: "ARAM_DMA \<Rightarrow> u32" where
  "dma_count d = Cnt d AND 0x7fffffff"

definition dma_dir :: "ARAM_DMA \<Rightarrow> bool" where
  "dma_dir d \<longleftrightarrow> bit (Cnt d) 31"

definition set_dma_count :: "u32 \<Rightarrow> ARAM_DMA \<Rightarrow> ARAM_DMA" where
  "set_dma_count v d = d\<lparr>Cnt := (Cnt d AND 0x80000000) OR (v AND 0x7fffffff)\<rparr>"

definition NumBlocks :: "AudioDMA \<Rightarrow> u16" where
  "NumBlocks a = AudioDMAControl a AND 0x7fff"

definition Enable :: "AudioDMA \<Rightarrow> bool" where
  "Enable a \<longleftrightarrow> bit (AudioDMAControl a) 15"

section \<open>Initialisation\<close>

text \<open>\<open>emu\<close> is the new emulator object; \<open>exram_size\<close> is \<open>GetExRamSizeReal()\<close>.\<close>

definition Reinit :: "DSPLLE \<Rightarrow> u32 \<Rightarrow> DSPManager \<Rightarrow> DSPManager" where
  "Reinit emu exram_size m =
    (let m1 = m\<lparr>m_dsp_emulator := emu\<rparr>;
         m2 = (if h_wii_mode (host_of m1)
               then upd_host (\<lambda>h. h\<lparr>h_aram_mask := h_exram_mask h\<rparr>) (m1\<lparr>m_aram_size := exram_size\<rparr>)
               else upd_host (\<lambda>h. h\<lparr>h_aram_mask := 0x00FFFFFF, h_aram := \<lambda>_. 0\<rparr>) (m1\<lparr>m_aram_size := 0x01000000\<rparr>))
     in m2\<lparr>m_audio_dma := \<lparr>current_source_address = 0, remaining_blocks_count = 0, SourceAddress = 0,
                            AudioDMAControl = 0\<rparr>,
           m_aram_dma := \<lparr>MMAddr = 0, ARAddr = 0, Cnt = 0\<rparr>,
           m_dsp_control := set_field 4 4 0,
           m_aram_info := 0, m_aram_mode := 1, m_aram_refresh := 156\<rparr>)"

section \<open>Interrupts\<close>

definition ints_set :: "u16 \<Rightarrow> bool" where
  "ints_set hex \<longleftrightarrow> (drop_bit 1 hex AND hex) AND (INT_DSP OR INT_ARAM OR INT_AID) \<noteq> 0"

definition UpdateInterrupts :: "DSPManager \<Rightarrow> DSPManager" where
  "UpdateInterrupts m = m\<lparr>pi_state := SetInterrupt INT_CAUSE_DSP (ints_set (m_dsp_control m)) (pi_state m)\<rparr>"

definition GenerateDSPInterrupt :: "u16 \<Rightarrow> DSPManager \<Rightarrow> DSPManager" where
  "GenerateDSPInterrupt DSPIntType m = UpdateInterrupts
    (m\<lparr>m_dsp_control := m_dsp_control m OR (DSPIntType AND (INT_DSP OR INT_ARAM OR INT_AID))\<rparr>)"

definition CompleteARAM :: "DSPManager \<Rightarrow> DSPManager" where
  "CompleteARAM m = GenerateDSPInterrupt INT_ARAM (m\<lparr>m_dsp_control := set_field 0x200 0 (m_dsp_control m)\<rparr>)"

definition ScheduleEvent :: "int \<Rightarrow> event_type \<Rightarrow> DSPManager \<Rightarrow> DSPManager" where
  "ScheduleEvent cycles e m = m\<lparr>scheduled := scheduled m @ [(cycles, e)]\<rparr>"

text \<open>The callbacks of the two event types.\<close>

definition fire_event :: "event_type \<Rightarrow> DSPManager \<Rightarrow> DSPManager" where
  "fire_event e m = (case e of GenerateDSPInterruptEvent t \<Rightarrow> GenerateDSPInterrupt t m | CompleteARAMEvent \<Rightarrow> CompleteARAM m)"

definition fire_dsp_request :: "DSPManager \<Rightarrow> DSPManager" where
  "fire_dsp_request m =
    (if h_irq (host_of m) = 0 then m
     else GenerateDSPInterrupt INT_DSP (upd_host (\<lambda>h. h\<lparr>h_irq := h_irq h - 1\<rparr>) m))"

section \<open>Time slices\<close>

text \<open>The remainder of C++ has the sign of the dividend.\<close>

definition rem6 :: "int \<Rightarrow> int" where
  "rem6 x = (if x < 0 then - (- x mod 6) else x mod 6)"

definition emulator_update :: "wake list \<Rightarrow> bool \<Rightarrow> int \<Rightarrow> DSPManager \<Rightarrow> DSPManager option" where
  "emulator_update ws det cycles m =
     map_option (\<lambda>l. m\<lparr>m_dsp_emulator := l\<rparr>) (DSP_Update ws det cycles (m_dsp_emulator m))"

definition UpdateDSPSlice :: "wake list \<Rightarrow> bool \<Rightarrow> int \<Rightarrow> DSPManager \<Rightarrow> DSPManager option" where
  "UpdateDSPSlice ws det cycles m =
    map_option (\<lambda>m1. m1\<lparr>m_dsp_slice := rem6 (m_dsp_slice m1) + cycles\<rparr>)
      (emulator_update ws det (m_dsp_slice m) m)"

text \<open>The first part of the reads of a mailbox's high half.\<close>

definition mail_slice :: "wake list \<Rightarrow> bool \<Rightarrow> DSPManager \<Rightarrow> DSPManager option" where
  "mail_slice ws det m =
    (if DSP_MAIL_SLICE < m_dsp_slice m
     then map_option (\<lambda>m1. m1\<lparr>m_dsp_slice := m_dsp_slice m1 - DSP_MAIL_SLICE\<rparr>)
            (emulator_update ws det DSP_MAIL_SLICE m)
     else Some m)"

section \<open>Audio DMA\<close>

text \<open>The argument of \<open>SendAIBuffer\<close>: 32 bytes, or the null pointer.\<close>

definition audio_block :: "host \<Rightarrow> u32 \<Rightarrow> u8 list option" where
  "audio_block h address =
    (case GetPointerForRange h address 32 of None \<Rightarrow> None | Some (rg, off) \<Rightarrow> Some (emu_bytes h rg off 32))"

definition UpdateAudioDMA :: "DSPManager \<Rightarrow> DSPManager" where
  "UpdateAudioDMA m =
    (let a = m_audio_dma m in
     if Enable a then
       let m1 = m\<lparr>audio_out := audio_out m @ [audio_block (host_of m) (current_source_address a)]\<rparr>;
           a1 = (if remaining_blocks_count a \<noteq> 0
                 then a\<lparr>remaining_blocks_count := remaining_blocks_count a - 1,
                        current_source_address := current_source_address a + 32\<rparr>
                 else a)
       in if remaining_blocks_count a1 = 0
          then GenerateDSPInterrupt INT_AID (m1\<lparr>m_audio_dma := a1\<lparr>current_source_address := SourceAddress a1,
                 remaining_blocks_count := NumBlocks a1\<rparr>\<rparr>)
          else m1\<lparr>m_audio_dma := a1\<rparr>
     else m\<lparr>audio_out := audio_out m @ [Some (replicate 32 0)]\<rparr>)"

definition write_AUDIO_DMA_CONTROL_LEN :: "u16 \<Rightarrow> DSPManager \<Rightarrow> DSPManager" where
  "write_AUDIO_DMA_CONTROL_LEN val m =
    (let a = m_audio_dma m; already_enabled = Enable a; a1 = a\<lparr>AudioDMAControl := val\<rparr> in
     if \<not> already_enabled \<and> Enable a1
     then ScheduleEvent 200 (GenerateDSPInterruptEvent INT_AID)
            (m\<lparr>m_audio_dma := a1\<lparr>current_source_address := SourceAddress a1, remaining_blocks_count := NumBlocks a1\<rparr>\<rparr>)
     else m\<lparr>m_audio_dma := a1\<rparr>)"

section \<open>ARAM DMA\<close>

text \<open>The memory \<open>m_aram.ptr\<close> points to: the EXRAM on the Wii.\<close>

definition aram_ptr :: "host \<Rightarrow> u32 \<Rightarrow> u8" where
  "aram_ptr h = (if h_wii_mode h then h_exram h else h_aram h)"

definition set_aram_ptr :: "(u32 \<Rightarrow> u8) \<Rightarrow> host \<Rightarrow> host" where
  "set_aram_ptr f h = (if h_wii_mode h then h\<lparr>h_exram := f\<rparr> else h\<lparr>h_aram := f\<rparr>)"

text \<open>\<open>*(u64*)&m_aram.ptr[off]\<close> as a value and as the target of an assignment.\<close>

definition aram_u64 :: "host \<Rightarrow> u32 \<Rightarrow> u64" where
  "aram_u64 h off = le_word (bytes_at (aram_ptr h) off 8)"

definition set_aram_u64 :: "u32 \<Rightarrow> u64 \<Rightarrow> host \<Rightarrow> host" where
  "set_aram_u64 off v h = set_aram_ptr (store_bytes off (le_bytes 8 v) (aram_ptr h)) h"

abbreviation upd_dma :: "(ARAM_DMA \<Rightarrow> ARAM_DMA) \<Rightarrow> DSPManager \<Rightarrow> DSPManager" where
  "upd_dma f m \<equiv> m\<lparr>m_aram_dma := f (m_aram_dma m)\<rparr>"

text \<open>The last three statements of each loop body.\<close>

definition dma_advance :: "ARAM_DMA \<Rightarrow> ARAM_DMA" where
  "dma_advance d = set_dma_count (dma_count d - 8) (d\<lparr>MMAddr := MMAddr d + 8, ARAddr := ARAddr d + 8\<rparr>)"

definition aram_to_mram :: "DSPManager \<Rightarrow> DSPManager" where
  "aram_to_mram m = (let d = m_aram_dma m in
     upd_dma dma_advance (upd_host (\<lambda>h. Write_U64_Swap (aram_u64 h (ARAddr d AND h_aram_mask h)) (MMAddr d) h) m))"

definition hsp_to_mram :: "DSPManager \<Rightarrow> DSPManager" where
  "hsp_to_mram m = (let d = m_aram_dma m in
     upd_dma dma_advance (upd_host (Write_U64 (HSP_Read (ARAddr d) (hsp m)) (MMAddr d)) m))"

definition mram_to_aram :: "DSPManager \<Rightarrow> DSPManager" where
  "mram_to_aram m = (let d = m_aram_dma m in
     upd_dma dma_advance (upd_host (\<lambda>h.
       let h1 = (if m_aram_info m AND 0xf = 4 \<and> ARAddr d < 0x400000
                 then set_aram_u64 ((ARAddr d + 0x400000) AND h_aram_mask h) (swap64 (Read_U64 h (MMAddr d))) h
                 else h)
       in set_aram_u64 (ARAddr d AND h_aram_mask h) (swap64 (Read_U64 h1 (MMAddr d))) h1) m))"

definition mram_to_hsp :: "DSPManager \<Rightarrow> DSPManager" where
  "mram_to_hsp m = (let d = m_aram_dma m in
     upd_dma dma_advance (m\<lparr>hsp := HSP_Write (ARAddr d) (Read_U64 (host_of m) (MMAddr d)) (hsp m)\<rparr>))"

text \<open>\<open>while (count)\<close>: \<open>None\<close> if it never ends, as for a count that is no multiple of 8.\<close>

partial_function (option) dma_loop :: "(DSPManager \<Rightarrow> DSPManager) \<Rightarrow> DSPManager \<Rightarrow> DSPManager option" where
  "dma_loop body m = (if dma_count (m_aram_dma m) = 0 then Some m else dma_loop body (body m))"

definition Do_ARAM_DMA :: "DSPManager \<Rightarrow> DSPManager option" where
  "Do_ARAM_DMA m =
    (let m1 = m\<lparr>m_dsp_control := set_field 0x200 0x200 (m_dsp_control m)\<rparr>;
         ticksToTransfer = (uint (dma_count (m_aram_dma m)) div 32) * 246;
         m2 = ScheduleEvent ticksToTransfer CompleteARAMEvent m1;
         m3 = upd_dma (\<lambda>d. d\<lparr>ARAddr := ARAddr d AND 0x3ffffff, MMAddr := MMAddr d AND 0x3ffffff\<rparr>) m2
     in if dma_dir (m_aram_dma m) then
          (if ARAddr (m_aram_dma m3) < m_aram_size m3 then dma_loop aram_to_mram m3
           else if \<not> h_wii_mode (host_of m3) then dma_loop hsp_to_mram m3 else Some m3)
        else
          (if ARAddr (m_aram_dma m3) < m_aram_size m3 then dma_loop mram_to_aram m3
           else if \<not> h_wii_mode (host_of m3) then dma_loop mram_to_hsp m3 else Some m3))"

section \<open>Memory-mapped registers\<close>

abbreviation (input) WMASK_AR_INFO :: u16 where "WMASK_AR_INFO \<equiv> 0x007f"

abbreviation (input) WMASK_AR_REFRESH :: u16 where "WMASK_AR_REFRESH \<equiv> 0x07ff"

abbreviation (input) WMASK_AR_HI_RESTRICT :: u16 where "WMASK_AR_HI_RESTRICT \<equiv> 0x03ff"

abbreviation (input) WMASK_AR_CNT_DIR_BIT :: u16 where "WMASK_AR_CNT_DIR_BIT \<equiv> 0x8000"

abbreviation (input) WMASK_AUDIO_HI_RESTRICT_GCN :: u16 where "WMASK_AUDIO_HI_RESTRICT_GCN \<equiv> 0x03ff"

abbreviation (input) WMASK_AUDIO_HI_RESTRICT_WII :: u16 where "WMASK_AUDIO_HI_RESTRICT_WII \<equiv> 0x1fff"

abbreviation (input) WMASK_LO_ALIGN_32BIT :: u16 where "WMASK_LO_ALIGN_32BIT \<equiv> 0xffe0"

text \<open>\<open>HighPart\<close> and \<open>LowPart\<close> of a 32-bit register.\<close>

definition HighPart :: "u32 \<Rightarrow> u16" where "HighPart x = ucast (drop_bit 16 x)"

definition LowPart :: "u32 \<Rightarrow> u16" where "LowPart x = ucast x"

definition set_HighPart :: "u16 \<Rightarrow> u32 \<Rightarrow> u32" where
  "set_HighPart v x = (x AND 0xffff) OR push_bit 16 (ucast v)"

definition set_LowPart :: "u16 \<Rightarrow> u32 \<Rightarrow> u32" where
  "set_LowPart v x = (x AND NOT 0xffff) OR ucast v"

definition read_DSP_CONTROL :: "u64 \<Rightarrow> DSPManager \<Rightarrow> u16 \<times> DSPManager" where
  "read_DSP_CONTROL now m =
    (case DSP_ReadControlRegister now (m_dsp_emulator m) of (v, l) \<Rightarrow>
      ((m_dsp_control m AND NOT DSP_CONTROL_MASK) OR (v AND DSP_CONTROL_MASK), m\<lparr>m_dsp_emulator := l\<rparr>))"

definition write_DSP_CONTROL :: "u64 \<Rightarrow> u16 \<Rightarrow> DSPManager \<Rightarrow> DSPManager" where
  "write_DSP_CONTROL now val m =
    (case DSP_WriteControlRegister now val (m_dsp_emulator m) of (v, l) \<Rightarrow>
      let tmp = (val AND NOT DSP_CONTROL_MASK) OR (v AND DSP_CONTROL_MASK);
          m1 = m\<lparr>m_dsp_emulator := l\<rparr>;
          m2 = (if val AND 1 \<noteq> 0 then m1\<lparr>m_audio_dma := (m_audio_dma m1)\<lparr>AudioDMAControl := 0\<rparr>\<rparr> else m1);
          c0 = m_dsp_control m2;
          c1 = set_field 0x0001 tmp c0;
          c2 = set_field 0x0002 tmp c1;
          c3 = set_field 0x0004 tmp c2;
          c4 = set_field 0x0400 tmp c3;
          c5 = set_field 0x0800 tmp c4;
          c6 = set_field 0x0010 tmp c5;
          c7 = set_field 0x0040 tmp c6;
          c8 = set_field 0x0100 tmp c7;
          c9 = (if tmp AND 0x0008 \<noteq> 0 then set_field 0x0008 0 c8 else c8);
          c10 = (if tmp AND 0x0020 \<noteq> 0 then set_field 0x0020 0 c9 else c9);
          c11 = (if tmp AND 0x0080 \<noteq> 0 then set_field 0x0080 0 c10 else c10);
          c12 = set_field 0xF000 tmp c11
      in UpdateInterrupts (m2\<lparr>m_dsp_control := c12\<rparr>))"

text \<open>The 16-bit reads; an address without a register reads 0.\<close>

definition mmio_read16 :: "wake list \<Rightarrow> bool \<Rightarrow> u64 \<Rightarrow> u32 \<Rightarrow> DSPManager \<Rightarrow> (u16 \<times> DSPManager) option" where
  "mmio_read16 ws det now addr m =
    (let a = m_audio_dma m; d = m_aram_dma m in
     if addr = 0x5000 then
       map_option (\<lambda>m1. (DSP_ReadMailBoxHigh True (m_dsp_emulator m1), m1)) (mail_slice ws det m)
     else if addr = 0x5002 then
       (case DSP_ReadMailBoxLow True (m_dsp_emulator m) of (v, l) \<Rightarrow> Some (v, m\<lparr>m_dsp_emulator := l\<rparr>))
     else if addr = 0x5004 then
       map_option (\<lambda>m1. (DSP_ReadMailBoxHigh False (m_dsp_emulator m1), m1)) (mail_slice ws det m)
     else if addr = 0x5006 then
       (case DSP_ReadMailBoxLow False (m_dsp_emulator m) of (v, l) \<Rightarrow> Some (v, m\<lparr>m_dsp_emulator := l\<rparr>))
     else if addr = 0x500A then Some (read_DSP_CONTROL now m)
     else if addr = 0x5012 then Some (m_aram_info m, m)
     else if addr = 0x5016 then Some (m_aram_mode m, m)
     else if addr = 0x501a then Some (m_aram_refresh m, m)
     else if addr = 0x5020 then Some (HighPart (MMAddr d), m)
     else if addr = 0x5022 then Some (LowPart (MMAddr d), m)
     else if addr = 0x5024 then Some (HighPart (ARAddr d), m)
     else if addr = 0x5026 then Some (LowPart (ARAddr d), m)
     else if addr = 0x5028 then Some (HighPart (Cnt d), m)
     else if addr = 0x502A then Some (LowPart (Cnt d), m)
     else if addr = 0x5030 then Some (HighPart (SourceAddress a), m)
     else if addr = 0x5032 then Some (LowPart (SourceAddress a), m)
     else if addr = 0x5036 then Some (AudioDMAControl a, m)
     else if addr = 0x503A then
       Some (if 0 < remaining_blocks_count a then remaining_blocks_count a - 1 else 0, m)
     else Some (0, m))"

definition mmio_write16 :: "u64 \<Rightarrow> u32 \<Rightarrow> u16 \<Rightarrow> DSPManager \<Rightarrow> DSPManager option" where
  "mmio_write16 now addr val m =
    (let a = m_audio_dma m in
     if addr = 0x5000 then Some (m\<lparr>m_dsp_emulator := DSP_WriteMailBoxHigh True val (m_dsp_emulator m)\<rparr>)
     else if addr = 0x5002 then Some (m\<lparr>m_dsp_emulator := DSP_WriteMailBoxLow True val (m_dsp_emulator m)\<rparr>)
     else if addr = 0x500A then Some (write_DSP_CONTROL now val m)
     else if addr = 0x5012 then Some (m\<lparr>m_aram_info := val AND WMASK_AR_INFO\<rparr>)
     else if addr = 0x501a then Some (m\<lparr>m_aram_refresh := val AND WMASK_AR_REFRESH\<rparr>)
     else if addr = 0x5020 then
       Some (upd_dma (\<lambda>d. d\<lparr>MMAddr := set_HighPart (val AND WMASK_AR_HI_RESTRICT) (MMAddr d)\<rparr>) m)
     else if addr = 0x5022 then
       Some (upd_dma (\<lambda>d. d\<lparr>MMAddr := set_LowPart (val AND WMASK_LO_ALIGN_32BIT) (MMAddr d)\<rparr>) m)
     else if addr = 0x5024 then
       Some (upd_dma (\<lambda>d. d\<lparr>ARAddr := set_HighPart (val AND WMASK_AR_HI_RESTRICT) (ARAddr d)\<rparr>) m)
     else if addr = 0x5026 then
       Some (upd_dma (\<lambda>d. d\<lparr>ARAddr := set_LowPart (val AND WMASK_LO_ALIGN_32BIT) (ARAddr d)\<rparr>) m)
     else if addr = 0x5028 then
       Some (upd_dma (\<lambda>d. d\<lparr>Cnt := set_HighPart (val AND (WMASK_AR_HI_RESTRICT OR WMASK_AR_CNT_DIR_BIT)) (Cnt d)\<rparr>) m)
     else if addr = 0x502A then
       Do_ARAM_DMA (upd_dma (\<lambda>d. d\<lparr>Cnt := (Cnt d AND 0xFFFF0000) OR ucast (val AND WMASK_LO_ALIGN_32BIT)\<rparr>) m)
     else if addr = 0x5030 then
       Some (m\<lparr>m_audio_dma := a\<lparr>SourceAddress := set_HighPart
         (val AND (if h_wii_mode (host_of m) then WMASK_AUDIO_HI_RESTRICT_WII else WMASK_AUDIO_HI_RESTRICT_GCN))
         (SourceAddress a)\<rparr>\<rparr>)
     else if addr = 0x5032 then
       Some (m\<lparr>m_audio_dma := a\<lparr>SourceAddress := set_LowPart (val AND WMASK_LO_ALIGN_32BIT) (SourceAddress a)\<rparr>\<rparr>)
     else if addr = 0x5036 then Some (write_AUDIO_DMA_CONTROL_LEN val m)
     else Some m)"

text \<open>32-bit accesses are two 16-bit ones, the high half first.\<close>

definition mmio_read32 :: "wake list \<Rightarrow> bool \<Rightarrow> u64 \<Rightarrow> u32 \<Rightarrow> DSPManager \<Rightarrow> (u32 \<times> DSPManager) option" where
  "mmio_read32 ws det now addr m =
    (case mmio_read16 ws det now addr m of
       None \<Rightarrow> None
     | Some (hi, m1) \<Rightarrow>
         (case mmio_read16 ws det now (addr + 2) m1 of
            None \<Rightarrow> None
          | Some (lo, m2) \<Rightarrow> Some (push_bit 16 (ucast hi) OR ucast lo, m2)))"

definition mmio_write32 :: "u64 \<Rightarrow> u32 \<Rightarrow> u32 \<Rightarrow> DSPManager \<Rightarrow> DSPManager option" where
  "mmio_write32 now addr val m =
    (case mmio_write16 now addr (ucast (drop_bit 16 val)) m of
       None \<Rightarrow> None
     | Some m1 \<Rightarrow> mmio_write16 now (addr + 2) (ucast val) m1)"

end
