(* ===== verification/Dsp_Mailbox.thy ===== *)
theory Dsp_Mailbox
  imports Dsp_Lle
begin

text \<open>
  The two mailboxes between the CPU and the DSP.  Each carries 31-bit messages in two 16-bit
  accesses per side, interleaved arbitrarily, with bit 31 as the flag of a waiting message.  The
  locale \<open>mailbox_port\<close> states what the accesses of one direction promise; it is interpreted
  for the mail to the DSP (written through \<open>DSPLLE\<close>, read by the DSP at \<open>0xFFFE\<close> and
  \<open>0xFFFF\<close>) and for the mail from the DSP (written at \<open>0xFFFC\<close> and \<open>0xFFFD\<close>, read through
  \<open>DSPLLE\<close>).
\<close>

section \<open>Writer and reader, access by access\<close>

datatype mail_writer = Idle | HighWritten u32

datatype mail_reader = Polling | SawHigh u16

definition mail_hi :: "u32 \<Rightarrow> u16" where "mail_hi m = ucast (drop_bit 16 m)"

definition mail_lo :: "u32 \<Rightarrow> u16" where "mail_lo m = ucast m"

text \<open>The message a reader puts together from the two halves it read, without the flag.\<close>

definition received_mail :: "u16 \<Rightarrow> u16 \<Rightarrow> u32" where
  "received_mail hi lo = push_bit 16 (ucast (hi AND 0x7fff)) OR ucast lo"

text \<open>
  \<open>mail_system mail busy wh wl rh rl s w r sent rcvd\<close>: the system can be in state \<open>s\<close> with the
  writer at \<open>w\<close>, the reader at \<open>r\<close>, after the messages \<open>sent\<close> were written and \<open>rcvd\<close> read.  The
  writer starts only when it sees the flag off, the reader takes the low half only after it saw
  the flag; \<open>other\<close> is any step that leaves the mailbox alone.
\<close>

inductive mail_system ::
  "('s \<Rightarrow> u32) \<Rightarrow> ('s \<Rightarrow> bool) \<Rightarrow> (u16 \<Rightarrow> 's \<Rightarrow> 's) \<Rightarrow> (u16 \<Rightarrow> 's \<Rightarrow> 's) \<Rightarrow> ('s \<Rightarrow> u16) \<Rightarrow>
   ('s \<Rightarrow> u16 \<times> 's) \<Rightarrow> 's \<Rightarrow> mail_writer \<Rightarrow> mail_reader \<Rightarrow> u32 list \<Rightarrow> u32 list \<Rightarrow> bool"
  for mail busy wh wl rh rl where
  start: "\<not> busy s \<Longrightarrow> mail_system mail busy wh wl rh rl s Idle Polling [] []"
| high: "mail_system mail busy wh wl rh rl s Idle r sent rcvd \<Longrightarrow> \<not> busy s \<Longrightarrow>
    mail_system mail busy wh wl rh rl (wh (mail_hi m) s) (HighWritten m) r sent rcvd"
| low: "mail_system mail busy wh wl rh rl s (HighWritten m) r sent rcvd \<Longrightarrow>
    mail_system mail busy wh wl rh rl (wl (mail_lo m) s) Idle r (sent @ [m AND 0x7fffffff]) rcvd"
| poll: "mail_system mail busy wh wl rh rl s w Polling sent rcvd \<Longrightarrow> rh s AND 0x8000 \<noteq> 0 \<Longrightarrow>
    mail_system mail busy wh wl rh rl s w (SawHigh (rh s)) sent rcvd"
| take_mail: "mail_system mail busy wh wl rh rl s w (SawHigh h) sent rcvd \<Longrightarrow>
    mail_system mail busy wh wl rh rl (snd (rl s)) w Polling sent (rcvd @ [received_mail h (fst (rl s))])"
| other: "mail_system mail busy wh wl rh rl s w r sent rcvd \<Longrightarrow> mail s' = mail s \<Longrightarrow>
    mail_system mail busy wh wl rh rl s' w r sent rcvd"

text \<open>
  The invariant of such a system, over the word \<open>M\<close> in the mailbox: with the flag on exactly one
  message is under way and \<open>M\<close> holds it; with the flag off none is, and a writer between its two
  accesses has left the high half there.
\<close>

definition mail_inv :: "u32 \<Rightarrow> mail_writer \<Rightarrow> mail_reader \<Rightarrow> u32 list \<Rightarrow> u32 list \<Rightarrow> bool" where
  "mail_inv M w r sent rcvd \<longleftrightarrow>
    (case w of
       Idle \<Rightarrow> (if bit M 31 then sent = rcvd @ [M AND 0x7fffffff] else sent = rcvd)
     | HighWritten m \<Rightarrow> \<not> bit M 31 \<and> sent = rcvd \<and> mail_hi M = mail_hi m AND 0x7fff) \<and>
    (case r of Polling \<Rightarrow> True | SawHigh h \<Rightarrow> w = Idle \<and> bit M 31 \<and> h = mail_hi M)"

lemma mail_masks: "(0x7fffffff :: u32) = mask 31" "(0xffff :: u32) = mask 16" "(0x7fff :: u16) = mask 15"
  by (simp_all add: mask_eq_exp_minus_1)

lemma bit_flag [simp]: "bit (0x80000000 :: int) n \<longleftrightarrow> n = 31"
proof -
  have "(0x80000000 :: int) = 2 ^ 31" by simp
  then show ?thesis by (simp only: bit_exp_iff) simp
qed

lemma bit_mail_hi: "bit (mail_hi m) i \<longleftrightarrow> i < 16 \<and> bit m (i + 16)"
  by (auto simp: mail_hi_def bit_simps add.commute)

lemma received_whole: "received_mail (mail_hi M) (ucast M) = M AND 0x7fffffff"
  unfolding received_mail_def mail_masks
  by (rule bit_word_eqI) (auto simp: bit_simps bit_mail_hi)

lemma mail_hi_of_write_high:
  "mail_hi (((M AND 0xffff) OR push_bit 16 (ucast (mail_hi m))) AND NOT 0x80000000) = mail_hi m AND 0x7fff"
  unfolding mail_masks by (rule bit_word_eqI) (auto simp: bit_simps bit_mail_hi)

lemma write_low_completes:
  assumes "mail_hi M = mail_hi m AND 0x7fff"
  shows "(((M AND NOT 0xffff) OR ucast (mail_lo m)) OR 0x80000000) AND 0x7fffffff = m AND 0x7fffffff"
proof (rule bit_word_eqI)
  fix n assume n: "n < LENGTH(32)"
  have "bit M n \<longleftrightarrow> bit m n \<and> n < 31" if "16 \<le> n"
    using arg_cong [OF assms, of "\<lambda>x. bit x (n - 16)"] that n
    unfolding mail_masks by (auto simp: bit_mail_hi bit_simps)
  then show "bit ((((M AND NOT 0xffff) OR ucast (mail_lo m)) OR 0x80000000) AND 0x7fffffff) n \<longleftrightarrow>
      bit (m AND 0x7fffffff) n"
    using n unfolding mail_masks by (cases "16 \<le> n") (auto simp: bit_simps mail_lo_def not_less)
qed

section \<open>The contract of a mailbox\<close>

locale mailbox_port =
  fixes mail :: "'s \<Rightarrow> u32" and busy :: "'s \<Rightarrow> bool" and wh wl :: "u16 \<Rightarrow> 's \<Rightarrow> 's"
    and rh :: "'s \<Rightarrow> u16" and rl :: "'s \<Rightarrow> u16 \<times> 's"
  assumes busy: "busy s \<longleftrightarrow> bit (mail s) 31"
    and write_high: "mail (wh v s) = ((mail s AND 0xffff) OR push_bit 16 (ucast v)) AND NOT 0x80000000"
    and write_low: "mail (wl v s) = ((mail s AND NOT 0xffff) OR ucast v) OR 0x80000000"
    and read_high: "rh s = ucast (drop_bit 16 (mail s))"
    and read_low: "fst (rl s) = ucast (mail s)" "mail (snd (rl s)) = mail s AND NOT 0x80000000"
begin

lemma flag [simp]:
  "\<not> busy (wh v s)" "busy (wl v s)" "\<not> busy (snd (rl s))" "rh s AND 0x8000 \<noteq> 0 \<longleftrightarrow> busy s"
proof -
  have "rh s AND 0x8000 \<noteq> 0 \<longleftrightarrow> bit (rh s) 15" by (simp add: bit_iff_and_push_bit_not_eq_0)
  then show "rh s AND 0x8000 \<noteq> 0 \<longleftrightarrow> busy s" by (simp add: busy read_high bit_simps)
qed (simp_all add: busy write_high write_low read_low bit_simps)

lemma write_high_hi: "mail_hi (mail (wh (mail_hi m) s)) = mail_hi m AND 0x7fff"
  unfolding write_high by (rule mail_hi_of_write_high)

lemma write_low_all:
  "mail_hi (mail s) = mail_hi m AND 0x7fff \<Longrightarrow> mail (wl (mail_lo m) s) AND 0x7fffffff = m AND 0x7fffffff"
  unfolding write_low by (rule write_low_completes)

lemma flag_bits: "\<not> bit (mail (wh v s)) 31" "bit (mail (wl v s)) 31" "\<not> bit (mail (snd (rl s))) 31"
  using flag(1-3) by (simp_all add: busy)

text \<open>What every interleaving keeps true: nothing is lost, torn, duplicated or reordered.\<close>

lemma system_inv: "mail_system mail busy wh wl rh rl s w r sent rcvd \<Longrightarrow> mail_inv (mail s) w r sent rcvd"
proof (induction rule: mail_system.induct)
  case (high s r sent rcvd m)
  then show ?case
    by (auto simp: mail_inv_def busy flag_bits write_high_hi split: mail_reader.splits)
next
  case (low s m r sent rcvd)
  then show ?case
    by (auto simp: mail_inv_def flag_bits write_low_all split: mail_reader.splits)
next
  case (poll s w sent rcvd)
  then have "bit (mail s) 31" by (simp add: busy)
  then show ?case using poll
    by (auto simp: mail_inv_def read_high mail_hi_def split: mail_writer.splits)
next
  case (take_mail s w h sent rcvd)
  then show ?case
    by (auto simp: mail_inv_def read_low(1) flag_bits received_whole split: mail_writer.splits if_splits)
qed (auto simp: mail_inv_def busy read_high mail_hi_def bit_simps split: mail_writer.splits mail_reader.splits)

lemma delivery:
  assumes "mail_system mail busy wh wl rh rl s w r sent rcvd"
  shows "sent = rcvd @ (if busy s then [mail s AND 0x7fffffff] else [])"
  using system_inv [OF assms] by (auto simp: mail_inv_def busy split: mail_writer.splits)

end

section \<open>The two directions\<close>

text \<open>Data memory accesses of the DSP program, on the emulator object.\<close>

definition dsp_load :: "u16 \<Rightarrow> DSPLLE \<Rightarrow> u16 \<times> DSPLLE" where
  "dsp_load a l = (case ReadDMEM a (dsp_of l) of (v, s) \<Rightarrow> (v, upd_lle_dsp (\<lambda>_. s) l))"

definition dsp_store :: "u16 \<Rightarrow> u16 \<Rightarrow> DSPLLE \<Rightarrow> DSPLLE" where
  "dsp_store a v l = upd_lle_dsp (WriteDMEM a v) l"

definition cpu_mail :: "DSPLLE \<Rightarrow> u32" where
  "cpu_mail l = mailbox (dsp_of l) CPU"

definition dsp_mail :: "DSPLLE \<Rightarrow> u32" where
  "dsp_mail l = mailbox (dsp_of l) DSP"

lemmas mailbox_access =
  cpu_mail_def dsp_mail_def dsp_load_def dsp_store_def ReadDMEM_def WriteDMEM_def ReadIFX_def
  ReadIFXImpl_def WriteIFX_def DSP_ReadMailBoxHigh_def DSP_ReadMailBoxLow_def DSP_WriteMailBoxHigh_def
  DSP_WriteMailBoxLow_def mailbox_of_def ReadMailboxHigh_def ReadMailboxLow_def WriteMailboxHigh_def
  WriteMailboxLow_def PeekMailbox_def Let_def

lemma high_flag: "(ucast (drop_bit 16 (m :: u32)) :: u16) AND 0x8000 \<noteq> 0 \<longleftrightarrow> bit m 31"
proof -
  have "(ucast (drop_bit 16 m) :: u16) AND 0x8000 \<noteq> 0 \<longleftrightarrow> bit (ucast (drop_bit 16 m) :: u16) 15"
    by (simp add: bit_iff_and_push_bit_not_eq_0)
  then show ?thesis by (simp add: bit_simps)
qed

interpretation to_dsp: mailbox_port cpu_mail "\<lambda>l. DSP_ReadMailBoxHigh True l AND 0x8000 \<noteq> 0"
  "DSP_WriteMailBoxHigh True" "DSP_WriteMailBoxLow True" "\<lambda>l. fst (dsp_load 0xFFFE l)" "dsp_load 0xFFFF"
  by unfold_locales (simp_all add: mailbox_access high_flag)

interpretation from_dsp: mailbox_port dsp_mail "\<lambda>l. fst (dsp_load 0xFFFC l) AND 0x8000 \<noteq> 0"
  "dsp_store 0xFFFC" "dsp_store 0xFFFD" "DSP_ReadMailBoxHigh False" "DSP_ReadMailBoxLow False"
  by unfold_locales (simp_all add: mailbox_access high_flag)

definition mail_to_dsp :: "DSPLLE \<Rightarrow> mail_writer \<Rightarrow> mail_reader \<Rightarrow> u32 list \<Rightarrow> u32 list \<Rightarrow> bool" where
  "mail_to_dsp = mail_system cpu_mail (\<lambda>l. DSP_ReadMailBoxHigh True l AND 0x8000 \<noteq> 0)
     (DSP_WriteMailBoxHigh True) (DSP_WriteMailBoxLow True) (\<lambda>l. fst (dsp_load 0xFFFE l)) (dsp_load 0xFFFF)"

definition mail_from_dsp :: "DSPLLE \<Rightarrow> mail_writer \<Rightarrow> mail_reader \<Rightarrow> u32 list \<Rightarrow> u32 list \<Rightarrow> bool" where
  "mail_from_dsp = mail_system dsp_mail (\<lambda>l. fst (dsp_load 0xFFFC l) AND 0x8000 \<noteq> 0)
     (dsp_store 0xFFFC) (dsp_store 0xFFFD) (DSP_ReadMailBoxHigh False) (DSP_ReadMailBoxLow False)"

text \<open>
  C11: however the accesses of the two sides interleave with each other and with the rest of the
  machine, the messages read are the messages written, whole and in order, and at most the one in
  the mailbox is still to be read; in both directions.
\<close>

theorem mail_delivered_in_order:
  assumes "mail_to_dsp l w r sent rcvd" "mail_from_dsp l' w' r' sent' rcvd'"
  shows "sent = rcvd @ (if DSP_ReadMailBoxHigh True l AND 0x8000 \<noteq> 0 then [cpu_mail l AND 0x7fffffff] else []) \<and>
    sent' = rcvd' @ (if fst (dsp_load 0xFFFC l') AND 0x8000 \<noteq> 0 then [dsp_mail l' AND 0x7fffffff] else [])"
  using to_dsp.delivery [OF assms(1) [unfolded mail_to_dsp_def]]
    from_dsp.delivery [OF assms(2) [unfolded mail_from_dsp_def]] by blast

text \<open>One message from the CPU to the DSP on a fresh object, half read by the DSP.\<close>

theorem mail_delivered_in_order_witness:
  "\<exists>l. mail_to_dsp l Idle (SawHigh 0x9234) [0x12345678] [] \<and> cpu_mail l AND 0x7fffffff = 0x12345678"
proof -
  let ?l0 = "constructed_lle gamecube_host"
  let ?l1 = "DSP_WriteMailBoxHigh True 0x1234 ?l0"
  let ?l2 = "DSP_WriteMailBoxLow True 0x5678 ?l1"
  note fresh = constructed_lle_def constructed_core_def power_on_def mailbox_access
  have a: "mail_to_dsp ?l0 Idle Polling [] []" and "mail_from_dsp ?l0 Idle Polling [] []"
    unfolding mail_to_dsp_def mail_from_dsp_def by (rule mail_system.start, simp add: fresh)+
  have h: "mail_to_dsp ?l1 (HighWritten 0x12345678) Polling [] []"
    using mail_system.high [OF a [unfolded mail_to_dsp_def], of "0x12345678"]
    by (simp add: mail_to_dsp_def mail_hi_def fresh)
  have lo: "mail_lo 0x12345678 = 0x5678" by (simp add: mail_lo_def)
  have f: "mail_to_dsp ?l2 Idle Polling [0x12345678] []"
    using mail_system.low [OF h [unfolded mail_to_dsp_def]] lo by (simp add: mail_to_dsp_def)
  have b: "mail_to_dsp ?l2 Idle (SawHigh 0x9234) [0x12345678] []"
    using mail_system.poll [OF f [unfolded mail_to_dsp_def]] by (simp add: mail_to_dsp_def fresh)
  show ?thesis
    using mail_delivered_in_order [OF b \<open>mail_from_dsp ?l0 Idle Polling [] []\<close>] b by (auto split: if_splits)
qed

end
