(* ===== verification/Dsp_Entry.thy ===== *)
theory Dsp_Entry
  imports Dsp_Mailbox Dsp_Machine Dsp_Control Dsp_Code
begin

text \<open>
  Properties of the core object and of the emulator's entry points: running returns, stepping
  by the debugger runs one instruction at a time, a stopped core never returns, and what every
  sequence of entry points keeps true.
\<close>

section \<open>Running the core object\<close>

lemma core_run_nonpos: "\<not> 0 < n \<Longrightarrow> core_RunCycles ws n c = Some (n, c)"
  by (subst core_RunCycles.simps) simp

lemma core_run_running:
  assumes "m_core_state c = Running" "0 < n"
  shows "core_RunCycles ws n c = Some (0, upd_dsp (\<lambda>s. snd (RunCycles n s)) c)"
  using RunCycles_ends [of n "m_dsp c"] assms
  by (subst core_RunCycles.simps) (auto simp: core_run_nonpos split: prod.split)

lemma core_run_step:
  assumes "m_core_state c = Stepping" "0 < n" "fault (Step (m_dsp c)) = None"
  shows "core_RunCycles (StepPressed # ws) n c = core_RunCycles ws (n - 1) (upd_dsp Step c)"
  using assms by (subst core_RunCycles.simps) (simp add: Let_def)

lemma core_run_steps:
  assumes "m_core_state c = Stepping" "\<forall>i<k. fault ((Step ^^ Suc i) (m_dsp c)) = None" "int k \<le> n"
  shows "core_RunCycles (replicate k StepPressed @ ws) n c =
    core_RunCycles ws (n - int k) (upd_dsp (Step ^^ k) c)"
  using assms
proof (induction k arbitrary: n c)
  case (Suc k)
  have f: "fault (Step (m_dsp c)) = None" using Suc.prems(2) by (auto dest: spec [of _ 0])
  have "\<forall>i<k. fault ((Step ^^ Suc i) (m_dsp (upd_dsp Step c))) = None"
    using Suc.prems(2) by (auto dest: spec [of _ "Suc _"] simp: funpow_swap1)
  then have "core_RunCycles (replicate k StepPressed @ ws) (n - 1) (upd_dsp Step c) =
      core_RunCycles ws (n - 1 - int k) (upd_dsp (Step ^^ k) (upd_dsp Step c))"
    using Suc.prems by (intro Suc.IH) simp_all
  then show ?case using core_run_step [OF Suc.prems(1) _ f] Suc.prems(3)
    by (simp add: funpow_swap1 algebra_simps)
qed simp

text \<open>
  in the debugger each press of Step runs exactly one instruction.  After \<open>k\<close> presses the call
  returns if its cycles are used up, resumes normally with the rest when Run is pressed, and
  otherwise waits for the next press.
\<close>

theorem debugger_steps_one_by_one:
  assumes "m_core_state c = Stepping" "\<forall>i<k. fault ((Step ^^ Suc i) (m_dsp c)) = None" "int k \<le> n" "0 < n"
  shows "core_RunCycles (replicate k StepPressed) n c =
      (if int k = n then Some (0, upd_dsp (Step ^^ k) c) else None) \<and>
    core_RunCycles (replicate k StepPressed @ RunPressed # ws) n c =
      (if int k = n then Some (0, upd_dsp (Step ^^ k) c)
       else Some (0, (upd_dsp (\<lambda>s. snd (RunCycles (n - int k) ((Step ^^ k) s))) c)\<lparr>m_core_state := Running\<rparr>))"
proof -
  have w: "core_RunCycles [] m d = None" if "m_core_state d = Stepping" "0 < m" for m d
    using that by (subst core_RunCycles.simps) simp
  have r: "core_RunCycles (RunPressed # ws) m d = core_RunCycles ws m (SetState Running d)"
    if "m_core_state d = Stepping" "0 < m" for m d
    using that by (subst core_RunCycles.simps) simp
  show ?thesis
    using core_run_steps [OF assms(1-3), of "[]"] core_run_steps [OF assms(1-3), of "RunPressed # ws"] assms
    by (auto simp: core_run_nonpos w r core_run_running SetState_def)
qed

lemma stopped_no_result:
  "core_RunCycles ws n c = Some y \<Longrightarrow> 0 < n \<longrightarrow> m_core_state c \<noteq> Stopped"
  by (erule core_RunCycles.raw_induct [rotated]) (auto split: if_splits State.splits)

text \<open>
  C32: a core that is stopped, as after a shutdown or before a successful initialisation, never
  returns from a request to run.
\<close>

theorem stopped_core_never_returns:
  assumes "6 \<le> cycles" "\<not> m_is_dsp_on_thread l"
  shows "DSP_Update ws det cycles (lle_Shutdown l) = None"
proof -
  have "m_core_state (core_Shutdown (m_dsp_core l)) = Stopped" by (simp add: core_Shutdown_def)
  then have "core_RunCycles ws n (core_Shutdown (m_dsp_core l)) = None" if "0 < n" for n
    using stopped_no_result that by (cases "core_RunCycles ws n (core_Shutdown (m_dsp_core l))") fastforce+
  moreover have "0 < dsp_cycles_of cycles" using assms(1) by (simp add: dsp_cycles_of_def)
  ultimately show ?thesis using assms(2) by (simp add: DSP_Update_def lle_Shutdown_def Let_def not_le)
qed

section \<open>Entry points\<close>

lemma dsp_update_running:
  assumes "m_core_state (m_dsp_core l) = Running" "\<not> m_is_dsp_on_thread l"
  shows "DSP_Update ws det cycles l =
    Some (if dsp_cycles_of cycles \<le> 0 then l
          else upd_lle_dsp (\<lambda>s. snd (RunCycles (dsp_cycles_of cycles) s)) l)"
  using assms by (simp add: DSP_Update_def Let_def core_run_running not_le)

text \<open>
  An update always returns on a running core, whatever the wake-ups, and runs at most one
  instruction for every six cycles of the CPU, none for a slice of less than six.
\<close>

theorem update_returns:
  assumes "m_core_state (m_dsp_core l) = Running" "\<not> m_is_dsp_on_thread l"
  shows "\<exists>l' k. DSP_Update ws det cycles l = Some l' \<and> dsp_of l' = (Step ^^ k) (dsp_of l) \<and>
    6 * int k \<le> max 0 cycles"
proof (cases "dsp_cycles_of cycles \<le> 0")
  case True
  then show ?thesis using assms by (intro exI [of _ l] exI [of _ 0]) (simp add: dsp_update_running)
next
  case False
  let ?n = "dsp_cycles_of cycles"
  have n: "?n = cycles div 6" "0 \<le> cycles" using False by (auto simp: dsp_cycles_of_def split: if_splits)
  obtain k where k: "snd (RunCycles ?n (dsp_of l)) = (Step ^^ k) (dsp_of l)" "int k \<le> max 1 ?n"
    using RunCycles_ends [of ?n "dsp_of l"] by blast
  have "6 * int k \<le> cycles" using k(2) False n by auto
  then show ?thesis using k(1) False assms by (simp add: dsp_update_running) (metis)
qed

theorem update_returns_witness:
  "\<exists>l. DSP_Update [] True 600 ((constructed_lle gamecube_host)\<lparr>m_dsp_core :=
      SetState Running (constructed_core gamecube_host)\<rparr>) = Some l"
  using update_returns [of "(constructed_lle gamecube_host)\<lparr>m_dsp_core :=
      SetState Running (constructed_core gamecube_host)\<rparr>" "[]" True 600]
  by (auto simp: constructed_lle_def SetState_def)

theorem stopped_core_never_returns_witness:
  "DSP_Update [] False 6 (lle_Shutdown (constructed_lle gamecube_host)) = None"
  by (rule stopped_core_never_returns) (simp_all add: constructed_lle_def)

theorem debugger_steps_one_by_one_witness:
  "core_RunCycles [] 5 (SetState Stepping (constructed_core gamecube_host)) = None"
  using debugger_steps_one_by_one [of "SetState Stepping (constructed_core gamecube_host)" 0 5]
  by (simp add: SetState_def)

text \<open>
  The states an initialised emulator object reaches by its entry points, in any order, with the
  debugger pausing and resuming it.
\<close>

inductive lle_reachable :: "DSPLLE \<Rightarrow> bool" where
  initialised: "lle_Initialize look irom_file coef_file verified wii thr (constructed_lle h) = (True, l) \<Longrightarrow>
    lle_reachable l"
| write_control: "lle_reachable l \<Longrightarrow> lle_reachable (snd (DSP_WriteControlRegister now v l))"
| read_control: "lle_reachable l \<Longrightarrow> lle_reachable (snd (DSP_ReadControlRegister now l))"
| write_high: "lle_reachable l \<Longrightarrow> lle_reachable (DSP_WriteMailBoxHigh b v l)"
| write_low: "lle_reachable l \<Longrightarrow> lle_reachable (DSP_WriteMailBoxLow b v l)"
| read_low: "lle_reachable l \<Longrightarrow> lle_reachable (snd (DSP_ReadMailBoxLow b l))"
| update: "lle_reachable l \<Longrightarrow> DSP_Update ws det cycles l = Some l' \<Longrightarrow> lle_reachable l'"
| debug: "lle_reachable l \<Longrightarrow> st \<noteq> Stopped \<Longrightarrow>
    lle_reachable (l\<lparr>m_dsp_core := SetState st (m_dsp_core l)\<rparr>)"

definition lle_ok :: "DSPLLE \<Rightarrow> bool" where
  "lle_ok l \<longleftrightarrow> dsp_wf (dsp_of l) \<and> m_core_state (m_dsp_core l) \<noteq> Stopped \<and>
    \<not> m_is_dsp_on_thread l \<and> \<not> m_request_disable_thread l"

lemma core_part_wf: "core_part s' = core_part s \<Longrightarrow> dsp_wf s' = dsp_wf s"
  using core_part_D [of s' s] by (simp add: dsp_wf_def log_empty_def)

lemma IDMAIn_wf: "dsp_wf (IDMAIn a b n s) = dsp_wf s"
  by (rule core_part_wf) (simp add: IDMAIn_def split: sum.split)

lemma WriteControlRegister_wf: "dsp_wf s \<Longrightarrow> dsp_wf (WriteControlRegister now v s)"
  by (simp add: WriteControlRegister_def Let_def IDMAIn_wf Reset_wf)

lemma ReadControlRegister_wf: "dsp_wf s \<Longrightarrow> dsp_wf (snd (ReadControlRegister now s))"
  by (simp add: ReadControlRegister_def Let_def)

lemma mailbox_wf:
  "dsp_wf s \<Longrightarrow> dsp_wf (WriteMailboxHigh mb v s)" "dsp_wf s \<Longrightarrow> dsp_wf (WriteMailboxLow mb v s)"
  "dsp_wf s \<Longrightarrow> dsp_wf (snd (ReadMailboxLow mb s))"
  by (simp_all add: core_part_wf [OF core_part_mailboxes(1)] core_part_wf [OF core_part_mailboxes(2)]
      core_part_wf [OF core_part_mailboxes(3)])

lemma RunCycles_result_wf: "RunCycles n s = (r, s') \<Longrightarrow> dsp_wf s \<Longrightarrow> dsp_wf s'"
  using RunCycles_wf [of s n] by simp

lemma core_run_keeps:
  "core_RunCycles ws n c = Some y \<Longrightarrow> dsp_wf (m_dsp c) \<longrightarrow> m_core_state c \<noteq> Stopped \<longrightarrow>
    dsp_wf (m_dsp (snd y)) \<and> m_core_state (snd y) \<noteq> Stopped"
  apply (erule core_RunCycles.raw_induct [rotated])
  subgoal premises prems for f ws n c y
    using prems(2)
    by (auto simp: Let_def SetState_def Step_wf dest!: prems(1) dest: RunCycles_result_wf
        split: if_splits State.splits list.splits prod.splits run_end.splits)
  done

lemma Initialize_wf:
  "Initialize verified ir co (power_on h) = (True, s) \<Longrightarrow> dsp_wf s"
  by (auto simp: Initialize_def Let_def InitializeIFX_def dsp_wf_def regs_ok_def log_empty_def
      zero_regs_def power_on_def prod_h_def slice16_def split: if_splits)

lemma SDSP_Reset_wf: "dsp_wf s \<Longrightarrow> dsp_wf (SDSP_Reset s)"
  by (simp add: SDSP_Reset_def dsp_wf_def regs_ok_def log_empty_def)

lemma dsp_wf_code_flags [simp]: "dsp_wf (s\<lparr>code_flags := m\<rparr>) = dsp_wf s"
  by (simp add: dsp_wf_def regs_ok_def log_empty_def)

lemma lle_initialised_ok:
  "lle_Initialize look irom_file coef_file verified wii thr (constructed_lle h) = (True, l) \<Longrightarrow> lle_ok l"
  by (auto simp: lle_Initialize_def core_Initialize_def Let_def lle_ok_def constructed_lle_def
      constructed_core_def SDSP_Reset_wf dest!: Initialize_wf
      split: option.splits prod.splits if_splits)

lemma write_control_ok: "lle_ok l \<Longrightarrow> lle_ok (snd (DSP_WriteControlRegister now v l))"
  by (simp add: DSP_WriteControlRegister_def DSP_ReadControlRegister_def Let_def lle_ok_def case_prod_unfold
      ReadControlRegister_wf WriteControlRegister_wf CheckExceptions_wf CheckExternalInterrupt_wf)

lemma update_ok:
  assumes "lle_ok l" "DSP_Update ws det cycles l = Some l'"
  shows "lle_ok l'"
  using assms core_run_keeps by (auto simp: DSP_Update_def Let_def lle_ok_def split: if_splits)

lemma write_mail_ok:
  "lle_ok l \<Longrightarrow> lle_ok (DSP_WriteMailBoxHigh b v l)" "lle_ok l \<Longrightarrow> lle_ok (DSP_WriteMailBoxLow b v l)"
  by (simp_all add: DSP_WriteMailBoxHigh_def DSP_WriteMailBoxLow_def lle_ok_def mailbox_wf)

text \<open>
  C16: whatever entry points the console calls, in any order, on an initialised object without a
  recompiler, the machine stays well-formed, the core is never stopped, and the DSP thread is
  neither used nor asked to end.
\<close>

theorem reachable_invariant: "lle_reachable l \<Longrightarrow> lle_ok l"
proof (induction rule: lle_reachable.induct)
  case (read_control l now)
  then show ?case by (simp add: DSP_ReadControlRegister_def lle_ok_def case_prod_unfold ReadControlRegister_wf)
next
  case (read_low l b)
  then show ?case by (simp add: DSP_ReadMailBoxLow_def lle_ok_def case_prod_unfold mailbox_wf)
next
  case (debug l st)
  then show ?case by (simp add: lle_ok_def SetState_def)
qed (simp_all add: lle_initialised_ok write_control_ok update_ok write_mail_ok)

definition blank_rom :: "nat \<Rightarrow> u8 list option" where
  "blank_rom n = Some (replicate n 0)"

definition fresh_lle :: DSPLLE where
  "fresh_lle = snd (lle_Initialize null_table (blank_rom 0x2000) (blank_rom 0x1000) True False True
     (constructed_lle gamecube_host))"

lemma fresh_lle_initialised:
  "lle_Initialize null_table (blank_rom 0x2000) (blank_rom 0x1000) True False True (constructed_lle gamecube_host)
    = (True, fresh_lle)"
proof -
  have "fst (lle_Initialize null_table (blank_rom 0x2000) (blank_rom 0x1000) True False True
      (constructed_lle gamecube_host)) = True"
    by (simp add: lle_Initialize_def core_Initialize_def FillDSPInitOptions_def LoadDSPRom_def blank_rom_def
        Initialize_def Let_def DSP_IROM_BYTE_SIZE_def DSP_COEF_BYTE_SIZE_def split: option.split)
  then show ?thesis unfolding fresh_lle_def by (metis prod.collapse)
qed

theorem reachable_invariant_witness: "lle_ok (snd (DSP_WriteControlRegister 0 0x0801 fresh_lle))"
  by (rule reachable_invariant, rule lle_reachable.write_control, rule lle_reachable.initialised,
      rule fresh_lle_initialised)

section \<open>The control register\<close>

lemma analyze_state_keeps [simp]:
  "pc (analyze_state s) = pc s" "iram (analyze_state s) = iram s" "control_reg (analyze_state s) = control_reg s"
  "the_host (analyze_state s) = the_host s" "exceptions (analyze_state s) = exceptions s"
  by (simp_all add: analyze_state_def split: option.split)

lemma Analyze_cong:
  assumes "iram s = iram t" "irom s = irom t"
  shows "Analyze look s = Analyze look t"
proof -
  have r: "ReadIMEM a s = ReadIMEM a t" for a using assms by (simp add: ReadIMEM_def Let_def)
  have "mark_instruction s = mark_instruction t" by (intro ext) (simp add: mark_instruction_def r Let_def)
  then have "scan_instructions n look s a e m = scan_instructions n look t a e m" for n a e m
    by (induction n arbitrary: a m) (simp_all add: r split: option.split)
  moreover have "match_signature s a f sig = match_signature t a f sig" for a f sig
    by (induction sig arbitrary: a f) (simp_all add: r Let_def)
  moreover from this have "FindIdleSkips s = FindIdleSkips t"
    by (intro ext) (simp add: FindIdleSkips_def)
  ultimately have "AnalyzeRange look s = AnalyzeRange look t"
    by (intro ext) (simp add: AnalyzeRange_def FindInstructionStarts_def cong: option.case_cong)
  then show ?thesis by (simp add: Analyze_def cong: option.case_cong)
qed

lemma analysis_fresh: "Analyze table_lookup s = Some (code_flags (analyze_state s))"
  using Analyze_facts [OF table_sizes, of s] by (auto simp: analyze_state_def)

lemma and_not_zero:
  "(v :: u16) AND m = 0 \<Longrightarrow> v AND NOT m = v \<and> (v OR m) AND NOT m = v"
proof -
  assume "v AND m = 0"
  then have "\<not> (bit v n \<and> bit m n)" for n by (metis bit_and_iff bit_0_eq bot_apply bot_bool_def)
  then show ?thesis by (intro conjI bit_word_eqI) (auto simp: bit_simps)
qed

text \<open>The state right after the upload of the first code.\<close>

definition booted :: "u64 \<Rightarrow> u16 \<Rightarrow> SDSP \<Rightarrow> SDSP" where
  "booted now v s = (IDMAIn 0 0x81000000 0x1000 (set_pc 0 s))\<lparr>
     control_reg_init_code_clear_time := now + 130, control_reg := v OR CR_INIT_CODE\<rparr>"

lemma write_leaving_init:
  assumes "control_reg s AND CR_INIT \<noteq> 0" "v AND CR_INIT = 0" "v AND CR_RESET = 0"
  shows "WriteControlRegister now v s = booted now v s"
  using assms and_not_zero [OF assms(2)] by (simp add: WriteControlRegister_def booted_def Let_def)

text \<open>
  clearing the INIT bit uploads the first code: \<open>pc\<close> is 0, the first 0x800 words of
  instruction memory are the big-endian words at \<open>0x01000000\<close> of main memory and the rest is kept,
  the analyzer's flags are those of the new code, and from then on the control register reads back
  as written, with INIT_CODE added during the next 130 ticks.
\<close>

theorem leaving_init_boots:
  assumes "control_reg (dsp_of l) AND CR_INIT \<noteq> 0" "v AND CR_INIT = 0" "v AND CR_RESET = 0"
    "v AND CR_EXTERNAL_INT = 0" "v AND CR_INIT_CODE = 0" "now < 2 ^ 63"
    "GetPointerForRange (the_host (dsp_of l)) 0x81000000 0x1000 = Some (rg, off)"
    "l' = snd (DSP_WriteControlRegister now v l)"
  shows "pc (dsp_of l') = 0 \<and>
    iram (dsp_of l') = (\<lambda>i. if i < 0x800 then be_word (the_host (dsp_of l)) rg off i else iram (dsp_of l) i) \<and>
    Analyze table_lookup (dsp_of l') = Some (code_flags (dsp_of l')) \<and>
    fst (DSP_ReadControlRegister t l') = (if t < now + 130 then v OR CR_INIT_CODE else v)"
proof -
  define b where "b = booted now v (dsp_of l)"
  have "now + 130 \<noteq> 0 \<and> now < now + 130"
    using assms(6) by (simp add: word_less_nat_alt unat_word_ariths unat_arith_simps)
  then have "\<not> now + 130 \<le> now" by (simp add: not_le)
  then have l': "dsp_of l' = b"
    using assms by (simp add: DSP_WriteControlRegister_def DSP_ReadControlRegister_def ReadControlRegister_def
        write_leaving_init b_def booted_def Let_def)
  have c: "IDMAIn 0 0x81000000 0x1000 (set_pc 0 (dsp_of l)) =
      CodeLoaded 0x81000000 0x1000 (set_pc 0 (dsp_of l)\<lparr>iram := \<lambda>i. if i < 0x800
        then be_word (the_host (dsp_of l)) rg off i else iram (dsp_of l) i\<rparr>)"
    using assms(7) by (simp add: IDMAIn_def CopyFromEmuSwapped_def cong: if_cong)
  have f: "code_flags b = code_flags (IDMAIn 0 0x81000000 0x1000 (set_pc 0 (dsp_of l)))"
    "iram b = iram (IDMAIn 0 0x81000000 0x1000 (set_pc 0 (dsp_of l)))"
    "irom b = irom (IDMAIn 0 0x81000000 0x1000 (set_pc 0 (dsp_of l)))" "control_reg b = v OR CR_INIT_CODE"
    "control_reg_init_code_clear_time b = now + 130" "pc b = pc (IDMAIn 0 0x81000000 0x1000 (set_pc 0 (dsp_of l)))"
    by (simp_all add: b_def booted_def)
  obtain s0 where s0: "IDMAIn 0 0x81000000 0x1000 (set_pc 0 (dsp_of l)) = analyze_state s0"
    using assms(7) by (simp add: c CodeLoaded_def)
  have "Analyze table_lookup (analyze_state s0) = Analyze table_lookup s0"
    by (rule Analyze_cong) (simp_all add: analyze_state_def split: option.split)
  then have "Analyze table_lookup b = Some (code_flags b)"
    using Analyze_cong [OF f(2,3)] f(1) analysis_fresh [of s0] by (simp add: s0)
  moreover have "pc b = 0 \<and> iram b = (\<lambda>i. if i < 0x800 then be_word (the_host (dsp_of l)) rg off i else iram (dsp_of l) i)"
    using assms(7) unfolding f c by (simp_all add: CodeLoaded_def)
  moreover have "fst (DSP_ReadControlRegister t l') = (if t < now + 130 then v OR CR_INIT_CODE else v)"
    using assms(5) and_not_zero [OF assms(5)]
    by (simp add: DSP_ReadControlRegister_def ReadControlRegister_def l' f not_le [symmetric] Let_def case_prod_unfold
        del: not_le)
  ultimately show ?thesis by (simp add: l')
qed

lemma lle_Initialize_host:
  "lle_Initialize look irf cof verified wii thr l = (True, l') \<Longrightarrow> the_host (dsp_of l') = the_host (dsp_of l)"
  by (auto simp: lle_Initialize_def core_Initialize_def Initialize_def InitializeIFX_def SDSP_Reset_def Let_def
      split: option.splits prod.splits if_splits)

theorem leaving_init_boots_witness:
  "pc (dsp_of (snd (DSP_WriteControlRegister 5 0 (upd_lle_dsp (control_reg_update (\<lambda>_. 0x0804)) fresh_lle)))) = 0"
proof -
  let ?l = "upd_lle_dsp (control_reg_update (\<lambda>_. 0x0804)) fresh_lle"
  have "the_host (dsp_of ?l) = gamecube_host"
    using lle_Initialize_host [OF fresh_lle_initialised] by (simp add: constructed_lle_def constructed_core_def power_on_def)
  then have "GetPointerForRange (the_host (dsp_of ?l)) 0x81000000 0x1000 = Some (Ram, 0x01000000)"
    by (simp add: GetPointerForRange_def GetSpanForAddress_def gamecube_host_def Let_def)
  from leaving_init_boots [OF _ _ _ _ _ _ this refl, of 0 5] show ?thesis by simp
qed

section \<open>External interrupts\<close>

lemma external_first_of:
  assumes "exceptions s AND 0x80 \<noteq> 0"
  shows "CheckExceptions s = (True, enter_exception 7 s)"
proof -
  have "check_exceptions_from (Suc 6) s = (True, enter_exception (Suc 6) s)"
    using assms unfolding check_exceptions_from.simps(2) [of 6]
    by (simp add: exception_number_def del: push_bit_Suc)
  moreover have "exceptions s \<noteq> 0" using assms by auto
  ultimately show ?thesis by (simp add: CheckExceptions_def)
qed

lemma check_exceptions_control: "control_reg (snd (check_exceptions_from n s)) = control_reg s"
  by (induction n) (simp_all add: enter_exception_def StoreStack_def Let_def)

lemma CheckExceptions_control: "control_reg (snd (CheckExceptions s)) = control_reg s"
  by (simp add: CheckExceptions_def check_exceptions_control)

text \<open>
  raising the external interrupt through the control register enters its handler at once when
  the DSP has enabled it, with \<open>pc\<close> and \<open>$sr\<close> on their stacks, the request bit acknowledged and
  further ones disabled; otherwise the request bit stays set.
\<close>

theorem external_interrupt_served:
  assumes "\<not> m_is_dsp_on_thread l" "v AND CR_EXTERNAL_INT \<noteq> 0" "v AND CR_RESET = 0" "v AND CR_INIT \<noteq> 0"
    "l' = snd (DSP_WriteControlRegister now v l)"
  shows "if IsSRFlagSet SR_EXT_INT_ENABLE (dsp_of l)
    then pc (dsp_of l') = 14 \<and> \<not> IsSRFlagSet SR_EXT_INT_ENABLE (dsp_of l') \<and>
      hd (stack_view (dsp_of l') CallStack) = pc (dsp_of l) \<and>
      hd (stack_view (dsp_of l') DataStack) = sr_of (dsp_of l) \<and>
      control_reg (dsp_of l') AND CR_EXTERNAL_INT = 0
    else control_reg (dsp_of l') AND CR_EXTERNAL_INT \<noteq> 0"
proof -
  define s where "s = dsp_of l"
  have w: "WriteControlRegister now v s = s\<lparr>control_reg := v\<rparr>"
    using assms(3,4) by (simp add: WriteControlRegister_def Let_def)
  have r: "dsp_of l' = snd (ReadControlRegister now (snd (CheckExceptions (CheckExternalInterrupt (s\<lparr>control_reg := v\<rparr>)))))"
    using assms(1,2) w by (simp add: assms(5) DSP_WriteControlRegister_def DSP_ReadControlRegister_def
        Let_def case_prod_unfold s_def [symmetric])
  have k: "pc (snd (ReadControlRegister now t)) = pc t" "regs (snd (ReadControlRegister now t)) = regs t"
    "stack_view (snd (ReadControlRegister now t)) = stack_view t"
    "control_reg (snd (ReadControlRegister now t)) AND CR_EXTERNAL_INT = control_reg t AND CR_EXTERNAL_INT" for t
    by (simp_all add: ReadControlRegister_def Let_def stack_view_def fun_eq_iff and.assoc)
  show ?thesis
  proof (cases "IsSRFlagSet SR_EXT_INT_ENABLE s")
    case True
    let ?t = "(SetException ExternalInterrupt (s\<lparr>control_reg := v\<rparr>))\<lparr>control_reg := v AND NOT CR_EXTERNAL_INT\<rparr>"
    have e: "CheckExternalInterrupt (s\<lparr>control_reg := v\<rparr>) = ?t"
      using True by (simp add: CheckExternalInterrupt_def IsSRFlagSet_def)
    have x: "exceptions ?t AND 0x80 \<noteq> 0"
      by (simp add: SetException_def exception_number_def and.commute bit.conj_disj_distrib)
    have "dsp_of l' = snd (ReadControlRegister now (enter_exception 7 ?t))"
      unfolding r e external_first_of [OF x] by simp
    then show ?thesis using True
      by (simp add: k s_def [symmetric] hd_stack_view stack_index_def enter_exception_def StoreStack_def Let_def
          SetException_def IsSRFlagSet_def and.assoc)
  next
    case False
    then have "dsp_of l' = snd (ReadControlRegister now (snd (CheckExceptions (s\<lparr>control_reg := v\<rparr>))))"
      unfolding r by (simp add: CheckExternalInterrupt_def IsSRFlagSet_def)
    then show ?thesis using False assms(2)
      by (simp add: k s_def [symmetric] CheckExceptions_control)
  qed
qed

theorem external_interrupt_served_witness:
  "pc (dsp_of (snd (DSP_WriteControlRegister 0 0x0802 (upd_lle_dsp (SetSRFlag SR_EXT_INT_ENABLE)
     (constructed_lle gamecube_host))))) = 14"
proof -
  let ?l = "upd_lle_dsp (SetSRFlag SR_EXT_INT_ENABLE) (constructed_lle gamecube_host)"
  have "\<not> m_is_dsp_on_thread ?l" "IsSRFlagSet SR_EXT_INT_ENABLE (dsp_of ?l)"
    by (simp_all add: constructed_lle_def SetSRFlag_def IsSRFlagSet_def bit.conj_disj_distrib)
  then show ?thesis using external_interrupt_served [of ?l "0x0802", OF _ _ _ _ refl] by simp
qed

end
