(* ===== verification/Dsp_Console.thy ===== *)
theory Dsp_Console
  imports Dsp_Manager Dsp_Entry
begin

text \<open>
  Properties of the console's DSP interface: every register write returns, an ARAM DMA copies what
  it should (once for both directions, in the locale \<open>chunk_copy\<close>), and the interrupt line
  follows the control register but for what the program acknowledged or the CPU took meanwhile.
\<close>

section \<open>Interrupts\<close>

definition console_ok :: "DSPManager \<Rightarrow> bool" where
  "console_ok m \<longleftrightarrow> line_ok (pi_state m) \<and>
    (m_interrupt_cause (pi_state m) AND INT_CAUSE_DSP \<noteq> 0 \<longleftrightarrow> ints_set (m_dsp_control m))"

lemma UpdateInterrupts_ok: "console_ok (UpdateInterrupts m)"
  by (simp add: console_ok_def UpdateInterrupts_def SetInterrupt_line bit.conj_disj_distrib2 and.assoc)

lemma GenerateDSPInterrupt_ok: "console_ok (GenerateDSPInterrupt t m)"
  by (simp add: GenerateDSPInterrupt_def UpdateInterrupts_ok)

lemma ints_set_dma_state [simp]: "ints_set (set_field 0x200 v c) = ints_set c"
proof -
  have "(drop_bit 1 (set_field 0x200 v c) AND set_field 0x200 v c) AND 0xA8 =
      (drop_bit 1 c AND c) AND (0xA8 :: u16)"
  proof (rule bit_word_eqI)
    fix n assume n: "n < LENGTH(16)"
    have f: "bit (set_field 0x200 v c) k \<longleftrightarrow> (if k = 9 then bit v k else bit c k)" if "k < 16" for k
      using that bit_push_bit_iff [of 9 "1 :: u16" k] by (auto simp: set_field_def bit_simps)
    have "n \<noteq> 9 \<and> n + 1 \<noteq> 9" if "bit (0xA8 :: u16) n"
      using that by (auto simp: bit_numeral_rec)
    then show "bit ((drop_bit 1 (set_field 0x200 v c) AND set_field 0x200 v c) AND 0xA8) n =
        bit ((drop_bit 1 c AND c) AND (0xA8 :: u16)) n"
      using n by (cases "n + 1 < 16") (auto simp: bit_simps f dest: bit_imp_le_length)
  qed
  then show ?thesis by (simp add: ints_set_def)
qed

section \<open>ARAM DMA ends\<close>

lemma dma_masks: "(0x7fffffff :: u32) = mask 31" by (simp add: mask_eq_exp_minus_1)

lemma dma_count_set: "dma_count (set_dma_count v d) = v AND 0x7fffffff"
  by (simp add: dma_count_def set_dma_count_def bit.conj_disj_distrib2 and.assoc)

lemma dma_count_le: "dma_count d \<le> 0x7fffffff"
  unfolding dma_count_def by (rule word_and_le1)

lemma small_and_mask:
  assumes "v \<le> (0x7fffffff :: u32)"
  shows "v AND 0x7fffffff = v"
proof -
  have "v < 2 ^ 31" using assms by (simp add: word_less_nat_alt word_le_nat_alt)
  then show ?thesis unfolding dma_masks by (rule less_mask_eq)
qed

lemma dma_advance_count:
  assumes "8 \<le> dma_count d"
  shows "unat (dma_count (dma_advance d)) = unat (dma_count d) - 8"
proof -
  have "dma_count d - 8 \<le> 0x7fffffff"
    using word_sub_le [OF assms] dma_count_le [of d] by (rule order_trans)
  then have "dma_count (dma_advance d) = dma_count d - 8"
    unfolding dma_advance_def dma_count_set by (rule small_and_mask)
  then show ?thesis using unat_sub [OF assms] by simp
qed

lemma dma_loop_steps:
  assumes "\<And>m. m_aram_dma (body m) = dma_advance (m_aram_dma m)"
  shows "unat (dma_count (m_aram_dma m)) = 8 * n \<Longrightarrow> dma_loop body m = Some ((body ^^ n) m)"
proof (induction n arbitrary: m)
  case 0
  then show ?case by (subst dma_loop.simps) (simp add: unsigned_eq_0_iff)
next
  case (Suc n)
  then have c: "8 \<le> dma_count (m_aram_dma m)" "dma_count (m_aram_dma m) \<noteq> 0"
    by (auto simp: word_le_nat_alt)
  then have "unat (dma_count (m_aram_dma (body m))) = 8 * n"
    using Suc.prems by (simp add: assms dma_advance_count)
  then have "dma_loop body (body m) = Some ((body ^^ n) (body m))" by (rule Suc.IH)
  then show ?case using c(2) by (subst dma_loop.simps) (simp add: funpow_swap1)
qed

lemma body_advances:
  "m_aram_dma (aram_to_mram m) = dma_advance (m_aram_dma m)"
  "m_aram_dma (hsp_to_mram m) = dma_advance (m_aram_dma m)"
  "m_aram_dma (mram_to_aram m) = dma_advance (m_aram_dma m)"
  "m_aram_dma (mram_to_hsp m) = dma_advance (m_aram_dma m)"
  by (simp_all add: aram_to_mram_def hsp_to_mram_def mram_to_aram_def mram_to_hsp_def upd_host_def Let_def)

lemma unat_mod_8: "x AND 7 = 0 \<Longrightarrow> unat (x :: u32) = 8 * (unat x div 8)"
proof -
  assume a: "x AND 7 = 0"
  have "(7 :: u32) = mask 3" by (simp add: mask_eq_exp_minus_1)
  then have "unat (take_bit 3 x) = 0" using a by (simp add: take_bit_eq_mask)
  then have "take_bit 3 (unat x) = 0" by (simp only: unsigned_take_bit_eq)
  then have "unat x mod 8 = 0" by (simp add: take_bit_eq_mod)
  then show ?thesis using mult_div_mod_eq [of 8 "unat x"] by simp
qed

text \<open>The loop a DMA runs, if its ARAM address is in range.\<close>

definition dma_body :: "DSPManager \<Rightarrow> DSPManager \<Rightarrow> DSPManager" where
  "dma_body m =
    (if ARAddr (m_aram_dma m) AND 0x3ffffff < m_aram_size m
     then if dma_dir (m_aram_dma m) then aram_to_mram else mram_to_aram
     else if h_wii_mode (host_of m) then (\<lambda>m'. m')
     else if dma_dir (m_aram_dma m) then hsp_to_mram else mram_to_hsp)"

text \<open>The state in which the loop starts.\<close>

definition dma_start :: "DSPManager \<Rightarrow> DSPManager" where
  "dma_start m = m\<lparr>m_dsp_control := set_field 0x200 0x200 (m_dsp_control m),
     scheduled := scheduled m @ [((uint (dma_count (m_aram_dma m)) div 32) * 246, CompleteARAMEvent)],
     m_aram_dma := (m_aram_dma m)\<lparr>ARAddr := ARAddr (m_aram_dma m) AND 0x3ffffff,
       MMAddr := MMAddr (m_aram_dma m) AND 0x3ffffff\<rparr>\<rparr>"

lemma dma_start_simps [simp]:
  "ARAddr (m_aram_dma (dma_start m)) = ARAddr (m_aram_dma m) AND 0x3ffffff"
  "MMAddr (m_aram_dma (dma_start m)) = MMAddr (m_aram_dma m) AND 0x3ffffff"
  "Cnt (m_aram_dma (dma_start m)) = Cnt (m_aram_dma m)" "m_aram_size (dma_start m) = m_aram_size m"
  "m_dsp_emulator (dma_start m) = m_dsp_emulator m" "hsp (dma_start m) = hsp m"
  "m_aram_info (dma_start m) = m_aram_info m"
  by (simp_all add: dma_start_def)

lemma Do_ARAM_DMA_result:
  assumes "dma_count (m_aram_dma m) AND 7 = 0"
  shows "Do_ARAM_DMA m = Some ((dma_body m ^^ (unat (dma_count (m_aram_dma m)) div 8)) (dma_start m))"
proof -
  let ?s = "dma_start m" and ?n = "unat (dma_count (m_aram_dma m)) div 8"
  have c: "unat (dma_count (m_aram_dma ?s)) = 8 * ?n"
    using unat_mod_8 [OF assms] by (simp add: dma_start_def dma_count_def)
  have s: "m\<lparr>m_dsp_control := set_field 512 512 (m_dsp_control m),
      scheduled := scheduled m @ [(uint (dma_count (m_aram_dma m)) div 32 * 246, CompleteARAMEvent)],
      m_aram_dma := m_aram_dma m\<lparr>ARAddr := ARAddr (m_aram_dma m) AND 67108863,
        MMAddr := MMAddr (m_aram_dma m) AND 67108863\<rparr>\<rparr> = ?s"
    by (simp add: dma_start_def)
  have id: "((\<lambda>m'. m') ^^ k) x = x" for k and x :: DSPManager by (induction k) simp_all
  note run = dma_loop_steps [OF _ c]
  show ?thesis
    using run [OF body_advances(1)] run [OF body_advances(2)] run [OF body_advances(3)] run [OF body_advances(4)]
    by (auto simp: Do_ARAM_DMA_def ScheduleEvent_def Let_def s dma_body_def id)
qed

lemma count_aligned: "(((c AND 0xFFFF0000) OR ucast (v AND 0xffe0 :: u16)) AND 0x7fffffff) AND (7 :: u32) = 0"
proof -
  have "(ucast (v AND 0xffe0) :: u32) AND 7 = ucast ((v AND 0xffe0) AND 7)"
    by (simp add: unsigned_and_eq)
  also have "(v AND 0xffe0) AND 7 = 0" by (simp add: and.assoc)
  finally have "(ucast (v AND 0xffe0) :: u32) AND 7 = 0" by simp
  then show ?thesis by (simp add: and.assoc bit.conj_disj_distrib2)
qed

lemma dma_iter_count:
  fixes body :: "DSPManager \<Rightarrow> DSPManager"
  assumes "\<And>m. m_aram_dma (body m) = dma_advance (m_aram_dma m)"
  shows "unat (dma_count (m_aram_dma m)) = 8 * k \<Longrightarrow> dma_count (m_aram_dma ((body ^^ k) m)) = 0"
proof (induction k arbitrary: m)
  case (Suc k)
  have "8 \<le> dma_count (m_aram_dma m)" using Suc.prems by (simp add: word_le_nat_alt)
  then have "unat (dma_count (m_aram_dma (body m))) = 8 * k"
    using Suc.prems by (simp add: assms dma_advance_count)
  from Suc.IH [OF this] show ?case by (simp add: funpow_swap1)
qed (simp add: unsigned_eq_0_iff)

text \<open>
  every write to a register of the DSP interface returns.  For the one that starts an ARAM DMA
  the transfer loop ends because the register keeps the count a multiple of 32, and the count ends
  at 0, unless the ARAM address is out of range on the Wii, where nothing is transferred.
\<close>

theorem register_writes_return:
  "\<exists>m'. mmio_write16 now addr val m = Some m' \<and>
    (if addr = 0x502A then
       dma_count (m_aram_dma m') = 0 \<or> h_wii_mode (host_of m) \<and> m_aram_size m \<le> ARAddr (m_aram_dma m) AND 0x3ffffff
     else host_of m' = host_of m \<or> addr = 0x500A)"
proof (cases "addr = 0x502A")
  case False
  then show ?thesis
    by (auto simp: mmio_write16_def Let_def DSP_WriteMailBoxHigh_def DSP_WriteMailBoxLow_def
        WriteMailboxHigh_def WriteMailboxLow_def write_AUDIO_DMA_CONTROL_LEN_def ScheduleEvent_def)
next
  case True
  let ?m = "m\<lparr>m_aram_dma := (m_aram_dma m)\<lparr>Cnt := (Cnt (m_aram_dma m) AND 0xFFFF0000) OR ucast (val AND 0xffe0)\<rparr>\<rparr>"
  have a: "dma_count (m_aram_dma ?m) AND 7 = 0" by (simp add: dma_count_def count_aligned)
  let ?k = "unat (dma_count (m_aram_dma ?m)) div 8"
  have c: "unat (dma_count (m_aram_dma (dma_start ?m))) = 8 * ?k"
    using unat_mod_8 [OF a] by (simp add: dma_count_def)
  note z = dma_iter_count [OF _ c]
  have "dma_count (m_aram_dma ((dma_body ?m ^^ ?k) (dma_start ?m))) = 0 \<or>
      h_wii_mode (host_of m) \<and> m_aram_size m \<le> ARAddr (m_aram_dma m) AND 0x3ffffff"
    using z [OF body_advances(1)] z [OF body_advances(2)] z [OF body_advances(3)] z [OF body_advances(4)]
    by (simp add: dma_body_def not_less)
  moreover have "mmio_write16 now addr val m = Some ((dma_body ?m ^^ ?k) (dma_start ?m))"
    using Do_ARAM_DMA_result [OF a] True by (simp add: mmio_write16_def Let_def)
  ultimately show ?thesis using True by simp
qed

section \<open>ARAM DMA copies\<close>

lemma bytes_at_add: "bytes_at f a (m + n) = bytes_at f a m @ bytes_at f (a + word_of_nat m) n"
  by (rule nth_equalityI) (auto simp: bytes_at_def nth_append add.assoc simp flip: of_nat_add)

lemma length_bytes_at [simp]: "length (bytes_at f a n) = n"
  by (simp add: bytes_at_def)

text \<open>
  The contract of a loop body that moves eight bytes from the memory \<open>src\<close> to the memory \<open>dst\<close>
  while \<open>ok m n\<close> says that \<open>n\<close> more rounds stay in range: the loop is one copy.
\<close>

locale chunk_copy =
  fixes body :: "DSPManager \<Rightarrow> DSPManager" and src dst :: "host \<Rightarrow> u32 \<Rightarrow> u8"
    and put :: "(u32 \<Rightarrow> u8) \<Rightarrow> host \<Rightarrow> host" and src_addr dst_addr :: "ARAM_DMA \<Rightarrow> u32"
    and ok :: "DSPManager \<Rightarrow> nat \<Rightarrow> bool"
  assumes chunk: "ok m (Suc n) \<Longrightarrow> host_of (body m) = put (store_bytes (dst_addr (m_aram_dma m))
      (bytes_at (src (host_of m)) (src_addr (m_aram_dma m)) 8) (dst (host_of m))) (host_of m)"
    and advance: "m_aram_dma (body m) = dma_advance (m_aram_dma m)"
    and addresses: "src_addr (dma_advance d) = src_addr d + 8" "dst_addr (dma_advance d) = dst_addr d + 8"
    and ok_step: "ok m (Suc n) \<Longrightarrow> ok (body m) n"
    and put_laws: "dst (put f h) = f" "src (put f h) = src h" "put g (put f h) = put g h" "put (dst h) h = h"
begin

lemma copies:
  "ok m n \<Longrightarrow> host_of ((body ^^ n) m) = put (store_bytes (dst_addr (m_aram_dma m))
      (bytes_at (src (host_of m)) (src_addr (m_aram_dma m)) (8 * n)) (dst (host_of m))) (host_of m)"
proof (induction n arbitrary: m)
  case 0
  then show ?case by (simp add: bytes_at_def put_laws)
next
  case (Suc n)
  show ?case
    using Suc.IH [OF ok_step [OF Suc.prems]] bytes_at_add [of _ _ 8 "8 * n"]
    by (simp add: funpow_swap1 chunk [OF Suc.prems] advance addresses put_laws store_bytes_append)
qed

end

definition gc_aram :: "DSPManager \<Rightarrow> bool" where
  "gc_aram m \<longleftrightarrow> \<not> h_wii_mode (host_of m) \<and> h_aram_mask (host_of m) = 0x00FFFFFF \<and>
     m_aram_size m = 0x01000000 \<and> h_ram_size (host_of m) \<le> 0x10000000"

text \<open>\<open>n\<close> more chunks fit in ARAM and in main memory.\<close>

definition chunks_fit :: "DSPManager \<Rightarrow> nat \<Rightarrow> bool" where
  "chunks_fit m n \<longleftrightarrow> gc_aram m \<and> unat (ARAddr (m_aram_dma m)) + 8 * n \<le> 0x01000000 \<and>
     unat (MMAddr (m_aram_dma m)) + 8 * n \<le> unat (h_ram_size (host_of m))"

definition set_aram :: "(u32 \<Rightarrow> u8) \<Rightarrow> host \<Rightarrow> host" where "set_aram f h = h\<lparr>h_aram := f\<rparr>"

definition set_ram :: "(u32 \<Rightarrow> u8) \<Rightarrow> host \<Rightarrow> host" where "set_ram f h = h\<lparr>h_ram := f\<rparr>"

lemma mask_id: "unat x < 2 ^ n \<Longrightarrow> x AND mask n = (x :: u32)"
proof -
  assume "unat x < 2 ^ n"
  then have "int (unat x) < 2 ^ n" by (metis of_nat_less_iff of_nat_numeral of_nat_power)
  then show ?thesis by (simp add: mask_eq_iff)
qed

lemma ram_range:
  assumes "h_ram_size h \<le> 0x10000000" "unat a + 8 \<le> unat (h_ram_size h)"
  shows "GetPointerForRange h a 8 = Some (Ram, a)"
proof -
  have r: "unat (h_ram_size h) \<le> 0x10000000" using assms(1) by (simp add: word_le_nat_alt)
  have "(0x3FFFFFFF :: u32) = mask 30" by (simp add: mask_eq_exp_minus_1)
  then have m: "a AND 0x3FFFFFFF = a" using mask_id [of a 30] assms(2) r by simp
  have l: "a < h_ram_size h" using assms(2) by (simp add: word_less_nat_alt)
  have "unat (h_ram_size h - a) = unat (h_ram_size h) - unat a"
    using l by (simp add: unat_sub)
  then show ?thesis using m l assms(2) by (simp add: GetPointerForRange_def GetSpanForAddress_def Let_def)
qed

lemma fit_facts:
  assumes "chunks_fit m (Suc n)"
  shows "ARAddr (m_aram_dma m) AND 0x00FFFFFF = ARAddr (m_aram_dma m)"
    "GetPointerForRange (host_of m) (MMAddr (m_aram_dma m)) 8 = Some (Ram, MMAddr (m_aram_dma m))"
    "unat (ARAddr (m_aram_dma m) + 8) = unat (ARAddr (m_aram_dma m)) + 8"
    "unat (MMAddr (m_aram_dma m) + 8) = unat (MMAddr (m_aram_dma m)) + 8"
proof -
  have f: "unat (ARAddr (m_aram_dma m)) + 8 \<le> 0x01000000" "h_ram_size (host_of m) \<le> 0x10000000"
    "unat (MMAddr (m_aram_dma m)) + 8 \<le> unat (h_ram_size (host_of m))"
    using assms by (auto simp: chunks_fit_def gc_aram_def)
  have "(0x00FFFFFF :: u32) = mask 24" by (simp add: mask_eq_exp_minus_1)
  then show "ARAddr (m_aram_dma m) AND 0x00FFFFFF = ARAddr (m_aram_dma m)"
    using mask_id [of "ARAddr (m_aram_dma m)" 24] f(1) by simp
  show "GetPointerForRange (host_of m) (MMAddr (m_aram_dma m)) 8 = Some (Ram, MMAddr (m_aram_dma m))"
    using f(2,3) by (rule ram_range)
  have "unat (h_ram_size (host_of m)) \<le> 0x10000000" using f(2) by (simp add: word_le_nat_alt)
  then show "unat (ARAddr (m_aram_dma m) + 8) = unat (ARAddr (m_aram_dma m)) + 8"
    "unat (MMAddr (m_aram_dma m) + 8) = unat (MMAddr (m_aram_dma m)) + 8"
    using f by (simp_all add: unat_word_ariths)
qed

lemma fit_step:
  assumes "chunks_fit m (Suc n)" "m_aram_dma m' = dma_advance (m_aram_dma m)" "m_aram_size m' = m_aram_size m"
    and "h_wii_mode (host_of m') = h_wii_mode (host_of m)" "h_aram_mask (host_of m') = h_aram_mask (host_of m)"
    and "h_ram_size (host_of m') = h_ram_size (host_of m)"
  shows "chunks_fit m' n"
  using assms fit_facts(3,4) [OF assms(1)]
  by (simp add: chunks_fit_def gc_aram_def dma_advance_def set_dma_count_def)

lemma advance_addresses:
  "MMAddr (dma_advance d) = MMAddr d + 8" "ARAddr (dma_advance d) = ARAddr d + 8"
  by (simp_all add: dma_advance_def set_dma_count_def)

lemma emu_bytes_ram: "emu_bytes h Ram a n = bytes_at (h_ram h) a n"
  by (simp add: emu_bytes_def bytes_at_def region_byte_def)

lemma region_byte_Ram: "region_byte h Ram = h_ram h"
  by (rule ext) (simp add: region_byte_def)

interpretation to_aram: chunk_copy mram_to_aram h_ram h_aram set_aram MMAddr ARAddr
  "\<lambda>m n. chunks_fit m n \<and> m_aram_info m AND 0xf \<noteq> 4"
proof unfold_locales
  fix m n
  assume a: "chunks_fit m (Suc n) \<and> m_aram_info m AND 0xf \<noteq> 4"
  note f = fit_facts [OF conjunct1 [OF a]]
  have g: "\<not> h_wii_mode (host_of m)" "h_aram_mask (host_of m) = 0x00FFFFFF"
    using a by (simp_all add: chunks_fit_def gc_aram_def)
  have "le_bytes 8 (swap64 (Read_U64 (host_of m) (MMAddr (m_aram_dma m)))) =
      bytes_at (h_ram (host_of m)) (MMAddr (m_aram_dma m)) 8"
    using f(2) by (simp add: Read_U64_def CopyFromEmu_def emu_bytes_ram le_bytes_le_word)
  then show h: "host_of (mram_to_aram m) = set_aram (store_bytes (ARAddr (m_aram_dma m))
      (bytes_at (h_ram (host_of m)) (MMAddr (m_aram_dma m)) 8) (h_aram (host_of m))) (host_of m)"
    using a f(1) g by (simp add: mram_to_aram_def Let_def set_aram_u64_def set_aram_ptr_def aram_ptr_def set_aram_def)
  have "m_aram_info (mram_to_aram m) = m_aram_info m" "m_aram_size (mram_to_aram m) = m_aram_size m"
    by (simp_all add: mram_to_aram_def Let_def upd_host_def)
  then show "chunks_fit (mram_to_aram m) n \<and> m_aram_info (mram_to_aram m) AND 0xf \<noteq> 4"
    using a fit_step [OF conjunct1 [OF a] body_advances(3)] by (simp add: h set_aram_def)
qed (simp_all add: body_advances advance_addresses set_aram_def)

interpretation to_mram: chunk_copy aram_to_mram h_aram h_ram set_ram ARAddr MMAddr chunks_fit
proof unfold_locales
  fix m n
  assume a: "chunks_fit m (Suc n)"
  note f = fit_facts [OF a]
  have g: "\<not> h_wii_mode (host_of m)" "h_aram_mask (host_of m) = 0x00FFFFFF"
    using a by (simp_all add: chunks_fit_def gc_aram_def)
  have "le_bytes 8 (aram_u64 (host_of m) (ARAddr (m_aram_dma m))) =
      bytes_at (h_aram (host_of m)) (ARAddr (m_aram_dma m)) 8"
    using g by (simp add: aram_u64_def aram_ptr_def le_bytes_le_word)
  then show h: "host_of (aram_to_mram m) = set_ram (store_bytes (MMAddr (m_aram_dma m))
      (bytes_at (h_aram (host_of m)) (ARAddr (m_aram_dma m)) 8) (h_ram (host_of m))) (host_of m)"
    using f(1,2) g by (simp add: aram_to_mram_def Let_def Write_U64_Swap_def CopyToEmu_def set_region_bytes_def
        region_byte_Ram set_ram_def)
  have "m_aram_size (aram_to_mram m) = m_aram_size m"
    by (simp add: aram_to_mram_def Let_def upd_host_def)
  then show "chunks_fit (aram_to_mram m) n"
    using fit_step [OF a body_advances(1)] by (simp add: h set_ram_def)
qed (simp_all add: body_advances advance_addresses set_ram_def)

text \<open>
  With \<open>AR_INFO\<close> set for 4 mirrored banks a chunk for the first 4 MiB of ARAM is also stored 4 MiB above:
  the number of chunks of a transfer of \<open>n\<close> chunks to \<open>a\<close> that are.
\<close>

definition mirrored_chunks :: "DSPManager \<Rightarrow> u32 \<Rightarrow> nat \<Rightarrow> nat" where
  "mirrored_chunks m a n = (if m_aram_info m AND 0xf = 4 then min n ((0x400000 - unat a + 7) div 8) else 0)"

lemma store_bytes_upd:
  "\<forall>j<length ys. x \<noteq> c + word_of_nat j \<Longrightarrow> store_bytes c ys (f(x := v)) = (store_bytes c ys f)(x := v)"
proof (induction ys arbitrary: c f)
  case (Cons y ys)
  have "x \<noteq> c" using Cons.prems by (auto dest: spec [of _ 0])
  moreover have "\<forall>j<length ys. x \<noteq> c + 1 + word_of_nat j"
    using Cons.prems by (auto dest: spec [of _ "Suc _"] simp: add.assoc)
  moreover from \<open>x \<noteq> c\<close> have "f(x := v, c := y) = f(c := y, x := v)" by (rule fun_upd_twist)
  ultimately show ?case using Cons.IH [of "c + 1" "f(c := y)"] by (simp only: store_bytes.simps)
qed simp

lemma store_bytes_commute:
  "\<forall>i<length xs. \<forall>j<length ys. a + word_of_nat i \<noteq> c + word_of_nat j \<Longrightarrow>
    store_bytes c ys (store_bytes a xs f) = store_bytes a xs (store_bytes c ys f)"
proof (induction xs arbitrary: a f)
  case (Cons x xs)
  have "\<forall>j<length ys. a \<noteq> c + word_of_nat j" using Cons.prems [THEN spec, of 0] by simp
  moreover have "\<forall>i<length xs. \<forall>j<length ys. a + 1 + word_of_nat i \<noteq> c + word_of_nat j"
  proof (intro allI impI)
    fix i j assume "i < length xs" "j < length ys"
    then show "a + 1 + word_of_nat i \<noteq> c + word_of_nat j"
      using Cons.prems [rule_format, of "Suc i" j] by (simp add: add.assoc)
  qed
  ultimately show ?case using Cons.IH [of "a + 1" "f(a := x)"] store_bytes_upd [of ys a c f x]
    by (simp only: store_bytes.simps)
qed simp

lemma next_chunk:
  assumes "u < 0x400000"
  shows "(0x400000 - u + 7) div 8 = Suc ((0x400000 - (u + 8) + 7) div (8 :: nat))"
proof -
  have step: "(x + 8) div 8 = Suc (x div 8)" for x :: nat by simp
  obtain d where d: "0x400000 = u + d" "0 < d" using assms less_imp_add_positive by metis
  have "(d + 7) div 8 = Suc ((d - 8 + 7) div 8)"
  proof (cases "8 \<le> d")
    case True
    then have "d + 7 = (d - 8 + 7) + 8" by simp
    then show ?thesis using step by metis
  next
    case False
    then have "d + 7 = (d - 1) + 8" "(d - 1) div 8 = 0" "d - 8 = 0" using d(2) by simp_all
    then show ?thesis using step [of "d - 1"] by simp
  qed
  moreover have "0x400000 - u = d" "0x400000 - (u + 8) = d - 8" unfolding d(1) by simp_all
  ultimately show ?thesis by (simp only:)
qed

lemma to_aram_mirrored:
  "chunks_fit m n \<Longrightarrow> m_aram_info m AND 0xf = 4 \<Longrightarrow>
   host_of ((mram_to_aram ^^ n) m) = set_aram (store_bytes (ARAddr (m_aram_dma m))
       (bytes_at (h_ram (host_of m)) (MMAddr (m_aram_dma m)) (8 * n))
     (store_bytes (ARAddr (m_aram_dma m) + 0x400000) (bytes_at (h_ram (host_of m)) (MMAddr (m_aram_dma m))
       (8 * mirrored_chunks m (ARAddr (m_aram_dma m)) n)) (h_aram (host_of m)))) (host_of m)"
proof (induction n arbitrary: m)
  case 0
  then show ?case by (simp add: bytes_at_def set_aram_def mirrored_chunks_def)
next
  case (Suc n)
  let ?a = "ARAddr (m_aram_dma m)" and ?b = "MMAddr (m_aram_dma m)" and ?ram = "h_ram (host_of m)"
  let ?c = "bytes_at ?ram ?b 8"
  define g where "g = (if ?a < 0x400000 then store_bytes (?a + 0x400000) ?c (h_aram (host_of m)) else h_aram (host_of m))"
  note f = fit_facts [OF Suc.prems(1)]
  have gc: "\<not> h_wii_mode (host_of m)" "h_aram_mask (host_of m) = 0x00FFFFFF" and a24: "unat ?a + 8 \<le> 0x1000000"
    using Suc.prems(1) by (simp_all add: chunks_fit_def gc_aram_def)
  have up: "(?a + 0x400000) AND 0xFFFFFF = ?a + 0x400000" if "?a < 0x400000"
  proof -
    have "unat ?a < 0x400000" using that by (simp add: word_less_nat_alt)
    then have "unat (?a + 0x400000) < 2 ^ 24" by (simp add: unat_word_ariths)
    moreover have "(0xFFFFFF :: u32) = mask 24" by (simp add: mask_eq_exp_minus_1)
    ultimately show ?thesis by (metis mask_id)
  qed
  have rd: "le_bytes 8 (swap64 (Read_U64 h ?b)) = ?c" if "h_ram h = ?ram" "GetPointerForRange h ?b 8 = Some (Ram, ?b)" for h
    using that by (simp add: Read_U64_def CopyFromEmu_def emu_bytes_ram le_bytes_le_word)
  have same: "GetPointerForRange (set_aram x (host_of m)) = GetPointerForRange (host_of m)" for x
    by (intro ext) (simp add: set_aram_def GetPointerForRange_def GetSpanForAddress_def Let_def cong: if_cong)
  have bytes: "le_bytes 8 (swap64 (Read_U64 (host_of m) ?b)) = ?c"
    "le_bytes 8 (swap64 (Read_U64 (set_aram x (host_of m)) ?b)) = ?c" for x
    using f(2) by (auto intro!: rd simp: same) (simp add: set_aram_def)
  have put: "set_aram_u64 o' (swap64 v) (host_of m) = set_aram (store_bytes o' (le_bytes 8 (swap64 v)) (h_aram (host_of m))) (host_of m)"
    "set_aram_u64 o' (swap64 v) (set_aram x (host_of m)) = set_aram (store_bytes o' (le_bytes 8 (swap64 v)) x) (host_of m)" for o' v x
    using gc(1) by (simp_all add: set_aram_u64_def set_aram_ptr_def aram_ptr_def set_aram_def)
  have "host_of (mram_to_aram m) = (let h1 = (if m_aram_info m AND 0xf = 4 \<and> ?a < 0x400000
        then set_aram_u64 ((?a + 0x400000) AND h_aram_mask (host_of m)) (swap64 (Read_U64 (host_of m) ?b)) (host_of m)
        else host_of m)
      in set_aram_u64 (?a AND h_aram_mask (host_of m)) (swap64 (Read_U64 h1 ?b)) h1)"
    by (simp add: mram_to_aram_def Let_def)
  also have "\<dots> = set_aram (store_bytes ?a ?c g) (host_of m)"
    using Suc.prems(2) by (simp add: Let_def put bytes gc(2) f(1) up g_def)
  finally have h: "host_of (mram_to_aram m) = set_aram (store_bytes ?a ?c g) (host_of m)" .
  have i: "m_aram_info (mram_to_aram m) = m_aram_info m" "m_aram_size (mram_to_aram m) = m_aram_size m"
    by (simp_all add: mram_to_aram_def Let_def upd_host_def)
  have fit: "chunks_fit (mram_to_aram m) n"
    using fit_step [OF Suc.prems(1) body_advances(3)] i by (simp add: h set_aram_def)
  let ?k = "mirrored_chunks m (?a + 8) n"
  have k: "mirrored_chunks m ?a (Suc n) = (if ?a < 0x400000 then Suc ?k else 0)" "?a < 0x400000 \<or> ?k = 0"
  proof -
    have four: "m_aram_info m AND 0xf = 4" by (rule Suc.prems(2))
    show "mirrored_chunks m ?a (Suc n) = (if ?a < 0x400000 then Suc ?k else 0)"
    proof (cases "unat ?a < 0x400000")
      case True
      then show ?thesis unfolding mirrored_chunks_def f(3) word_less_nat_alt if_P [OF four] next_chunk [OF True] by simp
    next
      case False
      then show ?thesis unfolding mirrored_chunks_def word_less_nat_alt by simp
    qed
    show "?a < 0x400000 \<or> ?k = 0" unfolding mirrored_chunks_def f(3) word_less_nat_alt
      by (cases "unat ?a < 0x400000") simp_all
  qed
  have k_le: "8 * ?k \<le> 0x400007"
  proof -
    have "?k \<le> (0x400000 - unat (?a + 8) + 7) div 8" by (simp add: mirrored_chunks_def)
    also have "\<dots> \<le> 0x400007 div 8" by (rule div_le_mono) simp
    finally show ?thesis by simp
  qed
  have apart: "\<forall>x<length ?c. \<forall>y<length (bytes_at ?ram (?b + 8) (8 * ?k)).
      ?a + word_of_nat x \<noteq> ?a + 8 + 0x400000 + word_of_nat y"
  proof (intro allI impI notI)
    fix x y assume l: "x < length ?c" "y < length (bytes_at ?ram (?b + 8) (8 * ?k))"
      and "?a + word_of_nat x = ?a + 8 + 0x400000 + word_of_nat y"
    then have "(word_of_nat x :: u32) = word_of_nat (0x400008 + y)" by (simp add: add.assoc)
    then have "unat (word_of_nat x :: u32) = unat (word_of_nat (0x400008 + y) :: u32)" by (rule arg_cong)
    moreover have "x < 8" "y < 0x400008" using l k_le by simp_all
    ultimately show False by (simp only: unat_of_nat) simp
  qed
  have eight: "bytes_at ?ram ?b (8 * Suc x) = ?c @ bytes_at ?ram (?b + 8) (8 * x)" for x
    using bytes_at_add [of ?ram ?b 8 "8 * x"] by simp
  have "host_of ((mram_to_aram ^^ Suc n) m) = set_aram (store_bytes (?a + 8) (bytes_at ?ram (?b + 8) (8 * n))
      (store_bytes (?a + 8 + 0x400000) (bytes_at ?ram (?b + 8) (8 * ?k)) (store_bytes ?a ?c g))) (host_of m)"
    using Suc.IH [OF fit] Suc.prems(2) i
    by (simp add: funpow_swap1 h body_advances advance_addresses set_aram_def mirrored_chunks_def)
  also have "\<dots> = set_aram (store_bytes (?a + 8) (bytes_at ?ram (?b + 8) (8 * n)) (store_bytes ?a ?c
      (store_bytes (?a + 8 + 0x400000) (bytes_at ?ram (?b + 8) (8 * ?k)) g))) (host_of m)"
    by (simp only: store_bytes_commute [OF apart])
  also have "\<dots> = set_aram (store_bytes ?a (bytes_at ?ram ?b (8 * Suc n))
      (store_bytes (?a + 8 + 0x400000) (bytes_at ?ram (?b + 8) (8 * ?k)) g)) (host_of m)"
    using eight [of n] by (simp only: store_bytes_append length_bytes_at) simp
  also have "store_bytes (?a + 8 + 0x400000) (bytes_at ?ram (?b + 8) (8 * ?k)) g =
      store_bytes (?a + 0x400000) (bytes_at ?ram ?b (8 * mirrored_chunks m ?a (Suc n))) (h_aram (host_of m))"
  proof (cases "?a < 0x400000")
    case True
    then have "mirrored_chunks m ?a (Suc n) = Suc ?k" using k(1) by simp
    moreover have "?a + 0x400000 + word_of_nat 8 = ?a + 8 + 0x400000" by simp
    ultimately show ?thesis using True by (simp only: eight store_bytes_append length_bytes_at g_def if_True)
  next
    case False
    then have "mirrored_chunks m ?a (Suc n) = 0" "?k = 0" using k by simp_all
    then show ?thesis using False by (simp add: g_def bytes_at_def)
  qed
  finally show ?case .
qed

text \<open>Byte \<open>i\<close> of a copy of \<open>n\<close> bytes, and the bytes outside it.\<close>

definition copied :: "(u32 \<Rightarrow> u8) \<Rightarrow> u32 \<Rightarrow> (u32 \<Rightarrow> u8) \<Rightarrow> u32 \<Rightarrow> nat \<Rightarrow> (u32 \<Rightarrow> u8) \<Rightarrow> bool" where
  "copied from a to b n to' \<longleftrightarrow>
     (\<forall>i<n. to' (b + word_of_nat i) = from (a + word_of_nat i)) \<and>
     (\<forall>x. (\<forall>i<n. x \<noteq> b + word_of_nat i) \<longrightarrow> to' x = to x)"

lemma copied_store: "n \<le> 2 ^ 32 \<Longrightarrow> copied f a g b n (store_bytes b (bytes_at f a n) g)"
  using store_bytes_nth [of _ "bytes_at f a n" b g] store_bytes_other [of "bytes_at f a n" _ b g]
  by (auto simp: copied_def) (simp add: bytes_at_def)

text \<open>
  C19: an ARAM DMA on a GameCube (16 MiB of ARAM) of any multiple of eight bytes, as all the counts the
  registers can hold, whose ranges lie inside ARAM and main memory, returns and copies exactly its bytes,
  in either direction, changes no other byte of either memory, and schedules its completion after 246
  ticks per 32 bytes.  To ARAM with the low nibble of \<open>AR_INFO\<close> equal to 4 the chunks of the first 4 MiB
  are copied to their mirror 4 MiB above as well (where the transfer reaches its own mirror, the
  transfer's bytes stay), with any other value there is no mirror.
\<close>

theorem aram_dma_copies:
  assumes "gc_aram m" "dma_count (m_aram_dma m) AND 7 = 0"
    "a = ARAddr (m_aram_dma m) AND 0x3ffffff" "b = MMAddr (m_aram_dma m) AND 0x3ffffff"
    "n = unat (dma_count (m_aram_dma m))" "a < 0x01000000"
    "unat a + n \<le> 0x01000000" "unat b + n \<le> unat (h_ram_size (host_of m))"
  shows "\<exists>m'. Do_ARAM_DMA m = Some m' \<and>
    scheduled m' = scheduled m @ [((int n div 32) * 246, CompleteARAMEvent)] \<and>
    (if dma_dir (m_aram_dma m)
     then copied (h_aram (host_of m)) a (h_ram (host_of m)) b n (h_ram (host_of m')) \<and>
       host_of m' = (host_of m)\<lparr>h_ram := h_ram (host_of m')\<rparr>
     else (\<exists>mirrored. copied (h_ram (host_of m)) b (h_aram (host_of m)) (a + 0x400000) (8 * mirrored_chunks m a (n div 8)) mirrored \<and>
         copied (h_ram (host_of m)) b mirrored a n (h_aram (host_of m'))) \<and>
       host_of m' = (host_of m)\<lparr>h_aram := h_aram (host_of m')\<rparr>)"
proof -
  have n8: "n = 8 * (n div 8)" using unat_mod_8 [OF assms(2)] assms(5) by simp
  have fit: "chunks_fit (dma_start m) (n div 8)"
    using assms(1,7,8) n8 by (simp add: chunks_fit_def gc_aram_def assms(3,4))
  have n32: "n \<le> 2 ^ 32" using assms(7) by simp
  have body: "dma_body m = (if dma_dir (m_aram_dma m) then aram_to_mram else mram_to_aram)"
    using assms(1,3,6) by (simp add: dma_body_def gc_aram_def)
  have sch: "scheduled ((dma_body m ^^ k) x) = scheduled x" for k x
    by (induction k arbitrary: x)
      (simp_all add: body funpow_swap1 aram_to_mram_def mram_to_aram_def upd_host_def Let_def)
  have r: "Do_ARAM_DMA m = Some ((dma_body m ^^ (n div 8)) (dma_start m))"
    using Do_ARAM_DMA_result [OF assms(2)] assms(5) by simp
  have s: "scheduled (dma_start m) = scheduled m @ [((int n div 32) * 246, CompleteARAMEvent)]"
    using assms(5) by (simp add: dma_start_def)
  show ?thesis
  proof (cases "dma_dir (m_aram_dma m)")
    case True
    then show ?thesis using to_mram.copies [OF fit] fit n8 copied_store [OF n32] sch s r
      by (simp add: body set_ram_def assms(3,4))
  next
    case False
    let ?m' = "(mram_to_aram ^^ (n div 8)) (dma_start m)" and ?k = "8 * mirrored_chunks m a (n div 8)"
    let ?g = "store_bytes (a + 0x400000) (bytes_at (h_ram (host_of m)) b ?k) (h_aram (host_of m))"
    have "mirrored_chunks m a (n div 8) \<le> n div 8" by (simp add: mirrored_chunks_def)
    then have k32: "?k \<le> 2 ^ 32" using n32 by simp
    have "host_of ?m' = set_aram (store_bytes a (bytes_at (h_ram (host_of m)) b n) ?g) (host_of m)"
    proof (cases "m_aram_info m AND 0xf = 4")
      case True
      then show ?thesis using to_aram_mirrored [OF fit] n8 by (simp add: assms(3,4) mirrored_chunks_def)
    next
      case False
      then show ?thesis using to_aram.copies [of "dma_start m" "n div 8"] fit n8
        by (simp add: assms(3,4) mirrored_chunks_def bytes_at_def)
    qed
    moreover have "\<exists>g'. copied (h_ram (host_of m)) b (h_aram (host_of m)) (a + 0x400000) ?k g' \<and>
        copied (h_ram (host_of m)) b g' a n (store_bytes a (bytes_at (h_ram (host_of m)) b n) ?g)"
      using copied_store [OF n32] copied_store [OF k32] by blast
    ultimately show ?thesis using sch s r False by (simp add: body set_aram_def)
  qed
qed

text \<open>A freshly initialised interface on a GameCube.\<close>

definition reset_pi :: ProcessorInterface where
  "reset_pi = pi_Init \<lparr>m_interrupt_cause = 0, m_interrupt_mask = 0, m_fifo_cpu_base = 0, m_fifo_cpu_end = 0,
     m_fifo_cpu_write_pointer = 0, m_reset_code = 0, ppc_exceptions = 0\<rparr>"

definition example_console :: DSPManager where
  "example_console = Reinit (constructed_lle gamecube_host) 0 \<lparr>m_aram_size = 0,
     m_audio_dma = \<lparr>current_source_address = 0, remaining_blocks_count = 0, SourceAddress = 0, AudioDMAControl = 0\<rparr>,
     m_aram_dma = \<lparr>MMAddr = 0, ARAddr = 0, Cnt = 0\<rparr>, m_dsp_control = 0, m_aram_info = 0, m_aram_mode = 0,
     m_aram_refresh = 0, m_dsp_slice = 0, m_dsp_emulator = constructed_lle gamecube_host, pi_state = reset_pi,
     hsp = NullDevice, scheduled = [], audio_out = []\<rparr>"

lemma example_console_simps:
  "host_of example_console = gamecube_host" "m_aram_size example_console = 0x01000000"
  "m_aram_info example_console = 0" "scheduled example_console = []" "pi_state example_console = reset_pi"
  "m_dsp_control example_console = 4" "m_dsp_slice example_console = 0" "audio_out example_console = []"
  by (simp_all add: example_console_def Reinit_def upd_host_def constructed_lle_def constructed_core_def
      power_on_def gamecube_host_def set_field_def)

text \<open>64 bytes to ARAM with four banks: they arrive at \<open>0x2000\<close> and at \<open>0x402000\<close>.\<close>

theorem aram_dma_copies_witness:
  "\<exists>m'. Do_ARAM_DMA (example_console\<lparr>m_aram_dma := \<lparr>MMAddr = 0x1000, ARAddr = 0x2000, Cnt = 0x40\<rparr>, m_aram_info := 4\<rparr>) = Some m' \<and>
    scheduled m' = [(492, CompleteARAMEvent)] \<and>
    h_aram (host_of m') 0x2001 = h_ram (host_of example_console) 0x1001 \<and>
    h_aram (host_of m') 0x402001 = h_ram (host_of example_console) 0x1001"
proof -
  let ?m = "example_console\<lparr>m_aram_dma := \<lparr>MMAddr = 0x1000, ARAddr = 0x2000, Cnt = 0x40\<rparr>, m_aram_info := 4\<rparr>"
  have k: "8 * mirrored_chunks ?m 0x2000 8 = 64" by (simp add: mirrored_chunks_def)
  have far: "\<forall>i<64. (0x402001 :: u32) \<noteq> 0x2000 + word_of_nat i"
  proof (intro allI impI notI)
    fix i :: nat assume i: "i < 64" and "(0x402001 :: u32) = 0x2000 + word_of_nat i"
    then have "(word_of_nat i :: u32) = 0x400001" by (simp add: algebra_simps)
    then have "unat (word_of_nat i :: u32) = 0x400001" by simp
    then show False using i by (simp add: unat_of_nat)
  qed
  from aram_dma_copies [of ?m, OF _ _ refl refl refl]
  obtain m' g where m': "Do_ARAM_DMA ?m = Some m'" "scheduled m' = [(492, CompleteARAMEvent)]"
    "copied (h_ram (host_of ?m)) 0x1000 (h_aram (host_of ?m)) 0x402000 64 g"
    "copied (h_ram (host_of ?m)) 0x1000 g 0x2000 64 (h_aram (host_of m'))"
    using k by (auto simp: gc_aram_def example_console_simps gamecube_host_def dma_count_def dma_dir_def)
  have "h_aram (host_of m') 0x402001 = g 0x402001" using m'(4) far by (simp add: copied_def)
  moreover have "g (0x402000 + word_of_nat 1) = h_ram (host_of ?m) (0x1000 + word_of_nat 1)"
    using m'(3) unfolding copied_def by (metis one_less_numeral_iff semiring_norm(76))
  moreover have "h_aram (host_of m') (0x2000 + word_of_nat 1) = h_ram (host_of ?m) (0x1000 + word_of_nat 1)"
    using m'(4) unfolding copied_def by (metis one_less_numeral_iff semiring_norm(76))
  ultimately show ?thesis using m'(1,2) by simp
qed

section \<open>The interrupt line\<close>

text \<open>
  What can happen to the interface: register accesses, time slices, the audio clock, events that
  fire, requests of the DSP, requests, acknowledgements and masks of the interrupt controller, and
  the CPU, which clears the pending external interrupt when it takes it (\<open>CheckExternalExceptions\<close>)
  and raises and clears its other exceptions.  Two flags record what makes a line lag behind: \<open>a\<close>,
  the program has acknowledged the DSP's cause in the controller since the interface last updated
  it; \<open>t\<close>, the CPU has taken the external interrupt since the controller last updated it.
\<close>

inductive console_reachable :: "bool \<Rightarrow> bool \<Rightarrow> DSPManager \<Rightarrow> bool" where
  reinit: "line_ok (pi_state m) \<Longrightarrow> m_interrupt_cause (pi_state m) AND INT_CAUSE_DSP = 0 \<Longrightarrow>
    console_reachable False False (Reinit emu sz m)"
| reg_write: "console_reachable a t m \<Longrightarrow> mmio_write16 now addr v m = Some m' \<Longrightarrow>
    console_reachable (a \<and> addr \<noteq> 0x500A) (t \<and> addr \<noteq> 0x500A) m'"
| reg_read: "console_reachable a t m \<Longrightarrow> mmio_read16 ws det now addr m = Some (v, m') \<Longrightarrow> console_reachable a t m'"
| time_slice: "console_reachable a t m \<Longrightarrow> UpdateDSPSlice ws det c m = Some m' \<Longrightarrow> console_reachable a t m'"
| audio: "console_reachable a t m \<Longrightarrow>
    r \<longleftrightarrow> Enable (m_audio_dma m) \<and> remaining_blocks_count (m_audio_dma m) \<le> 1 \<Longrightarrow>
    console_reachable (a \<and> \<not> r) (t \<and> \<not> r) (UpdateAudioDMA m)"
| event: "console_reachable a t m \<Longrightarrow> console_reachable False False (fire_event e m)"
| request: "console_reachable a t m \<Longrightarrow> r \<longleftrightarrow> h_irq (host_of m) \<noteq> 0 \<Longrightarrow>
    console_reachable (a \<and> \<not> r) (t \<and> \<not> r) (fire_dsp_request m)"
| other_cause: "console_reachable a t m \<Longrightarrow> c AND INT_CAUSE_DSP = 0 \<Longrightarrow>
    console_reachable a False (m\<lparr>pi_state := SetInterrupt c b (pi_state m)\<rparr>)"
| ack: "console_reachable a t m \<Longrightarrow>
    console_reachable (a \<or> c AND INT_CAUSE_DSP \<noteq> 0) False (m\<lparr>pi_state := write_interrupt_cause c (pi_state m)\<rparr>)"
| mask: "console_reachable a t m \<Longrightarrow>
    console_reachable a False (m\<lparr>pi_state := write_interrupt_mask v (pi_state m)\<rparr>)"
| interrupt_taken: "console_reachable a t m \<Longrightarrow> console_reachable a True
    (m\<lparr>pi_state := (pi_state m)\<lparr>ppc_exceptions := ppc_exceptions (pi_state m) AND NOT EXCEPTION_EXTERNAL_INT\<rparr>\<rparr>)"
| other_exception: "console_reachable a t m \<Longrightarrow>
    x AND EXCEPTION_EXTERNAL_INT = ppc_exceptions (pi_state m) AND EXCEPTION_EXTERNAL_INT \<Longrightarrow>
    console_reachable a t (m\<lparr>pi_state := (pi_state m)\<lparr>ppc_exceptions := x\<rparr>\<rparr>)"

text \<open>Signals never appear without their reason, and each is exact but for its flag.\<close>

definition line_follows :: "bool \<Rightarrow> bool \<Rightarrow> DSPManager \<Rightarrow> bool" where
  "line_follows a t m \<longleftrightarrow>
     (m_interrupt_cause (pi_state m) AND INT_CAUSE_DSP \<noteq> 0 \<longrightarrow> ints_set (m_dsp_control m)) \<and>
     (ppc_exceptions (pi_state m) AND EXCEPTION_EXTERNAL_INT \<noteq> 0 \<longrightarrow>
        m_interrupt_cause (pi_state m) AND m_interrupt_mask (pi_state m) \<noteq> 0) \<and>
     (\<not> a \<longrightarrow> (m_interrupt_cause (pi_state m) AND INT_CAUSE_DSP \<noteq> 0 \<longleftrightarrow> ints_set (m_dsp_control m))) \<and>
     (\<not> t \<longrightarrow> line_ok (pi_state m))"

lemma ok_follows: "console_ok m \<Longrightarrow> line_follows a t m"
  by (simp add: console_ok_def line_follows_def line_ok_def)

text \<open>Operations that leave the control register (but for the DMA bit) and the controller alone.\<close>

definition quiet :: "DSPManager \<Rightarrow> DSPManager \<Rightarrow> bool" where
  "quiet m m' \<longleftrightarrow> pi_state m' = pi_state m \<and> ints_set (m_dsp_control m') = ints_set (m_dsp_control m)"

lemma quiet_follows: "quiet m m' \<Longrightarrow> line_follows a t m \<Longrightarrow> line_follows a t m'"
  by (simp add: quiet_def line_follows_def)

lemma body_quiet: "quiet m (dma_body m0 m)"
  by (simp add: quiet_def dma_body_def aram_to_mram_def hsp_to_mram_def mram_to_aram_def mram_to_hsp_def
      upd_host_def Let_def)

lemma dma_quiet: "quiet m ((dma_body m0 ^^ k) m)"
proof (induction k)
  case (Suc k)
  then show ?case using body_quiet [of "(dma_body m0 ^^ k) m" m0] by (simp add: quiet_def)
qed (simp add: quiet_def)

lemma dma_start_quiet: "quiet m (dma_start m)"
  by (simp add: quiet_def dma_start_def)

lemma write16_quiet:
  assumes "addr \<noteq> 0x500A" "mmio_write16 now addr v m = Some m'"
  shows "quiet m m'"
proof (cases "addr = 0x502A")
  case True
  let ?m = "m\<lparr>m_aram_dma := (m_aram_dma m)\<lparr>Cnt := (Cnt (m_aram_dma m) AND 0xFFFF0000) OR ucast (v AND 0xffe0)\<rparr>\<rparr>"
  have "dma_count (m_aram_dma ?m) AND 7 = 0" by (simp add: dma_count_def count_aligned)
  from Do_ARAM_DMA_result [OF this] obtain k where "m' = (dma_body ?m ^^ k) (dma_start ?m)"
    using assms(2) True by (auto simp: mmio_write16_def Let_def)
  moreover have "quiet m ?m" by (simp add: quiet_def)
  ultimately show ?thesis using dma_quiet [where m = "dma_start ?m" and k = k] dma_start_quiet [of ?m] by (simp add: quiet_def)
next
  case False
  then show ?thesis using assms
    by (auto simp: mmio_write16_def Let_def quiet_def write_AUDIO_DMA_CONTROL_LEN_def ScheduleEvent_def
        split: if_splits)
qed

lemma write16_control: "mmio_write16 now 0x500A v m = Some m' \<Longrightarrow> console_ok m'"
  by (auto simp: mmio_write16_def write_DSP_CONTROL_def Let_def UpdateInterrupts_ok case_prod_unfold)

lemma update_quiet:
  "emulator_update ws det c m = Some m' \<Longrightarrow> quiet m m'" "mail_slice ws det m = Some m' \<Longrightarrow> quiet m m'"
  "UpdateDSPSlice ws det c m = Some m' \<Longrightarrow> quiet m m'"
  by (auto simp: emulator_update_def mail_slice_def UpdateDSPSlice_def quiet_def split: if_splits)

lemma read16_quiet: "mmio_read16 ws det now addr m = Some (v, m') \<Longrightarrow> quiet m m'"
  by (auto simp: mmio_read16_def Let_def read_DSP_CONTROL_def case_prod_unfold update_quiet(2)
      split: if_splits) (auto simp: quiet_def)

lemma audio_follows:
  assumes "line_follows a t m" "r \<longleftrightarrow> Enable (m_audio_dma m) \<and> remaining_blocks_count (m_audio_dma m) \<le> 1"
  shows "line_follows (a \<and> \<not> r) (t \<and> \<not> r) (UpdateAudioDMA m)"
proof -
  have le_1: "c \<le> 1 \<longleftrightarrow> c = 0 \<or> c = 1" for c :: u16
  proof -
    have "unat c \<le> 1 \<longleftrightarrow> unat c = unat (0 :: u16) \<or> unat c = unat (1 :: u16)" by auto
    then show ?thesis by (simp only: word_le_nat_alt word_unat_eq_iff) simp
  qed
  show ?thesis
  proof (cases r)
    case True
    then have "console_ok (UpdateAudioDMA m)" using assms(2) by (auto simp: UpdateAudioDMA_def Let_def GenerateDSPInterrupt_ok le_1)
    then show ?thesis by (rule ok_follows)
  next
    case False
    then have "quiet m (UpdateAudioDMA m)" using assms(2) by (auto simp: UpdateAudioDMA_def Let_def quiet_def le_1)
    then show ?thesis using quiet_follows assms(1) False by simp
  qed
qed

lemma event_ok: "console_ok (fire_event e m)"
  by (simp add: fire_event_def CompleteARAM_def GenerateDSPInterrupt_ok split: event_type.split)

lemma request_follows:
  "line_follows a t m \<Longrightarrow> r \<longleftrightarrow> h_irq (host_of m) \<noteq> 0 \<Longrightarrow>
    line_follows (a \<and> \<not> r) (t \<and> \<not> r) (fire_dsp_request m)"
  by (cases r) (simp_all add: fire_dsp_request_def GenerateDSPInterrupt_ok ok_follows)

lemma bits_apart: "c AND d = 0 \<Longrightarrow> (x OR c) AND d = x AND (d :: u32) \<and> (x AND NOT c) AND d = x AND d"
proof -
  assume "c AND d = 0"
  then have "\<not> (bit c n \<and> bit d n)" for n by (metis bit_and_iff bit_0_eq bot_apply bot_bool_def)
  then show ?thesis by (intro conjI bit_word_eqI) (auto simp: bit_simps)
qed

text \<open>The controller updates the line after requests, acknowledgements and masks.\<close>

lemma follows_updated:
  assumes "line_follows a t m" "line_ok p"
    and "m_interrupt_cause p AND INT_CAUSE_DSP = m_interrupt_cause (pi_state m) AND INT_CAUSE_DSP \<or>
      a' \<and> m_interrupt_cause p AND INT_CAUSE_DSP = 0"
    and "a \<Longrightarrow> a'"
  shows "line_follows a' False (m\<lparr>pi_state := p\<rparr>)"
  using assms(3)
proof (elim disjE conjE)
  assume "m_interrupt_cause p AND INT_CAUSE_DSP = m_interrupt_cause (pi_state m) AND INT_CAUSE_DSP"
  then show ?thesis using assms(1,2,4) by (simp add: line_follows_def line_ok_def) blast
next
  assume "a'" "m_interrupt_cause p AND INT_CAUSE_DSP = 0"
  then show ?thesis using assms(2) by (simp add: line_follows_def line_ok_def)
qed

lemma ack_bit:
  "(x AND NOT c) AND INT_CAUSE_DSP = x AND INT_CAUSE_DSP \<or> c AND INT_CAUSE_DSP \<noteq> 0 \<and> (x AND NOT c) AND INT_CAUSE_DSP = 0"
proof (cases "c AND INT_CAUSE_DSP = 0")
  case True
  then show ?thesis using bits_apart by blast
next
  case False
  have one: "y AND 0x40 = 0 \<longleftrightarrow> \<not> bit y 6" for y :: u32 using and_exp_eq_0_iff_not_bit [of y 6] by simp
  have "bit c 6" using False by (simp add: one)
  then have "(x AND NOT c) AND 0x40 = 0" by (simp add: one bit_and_iff bit_not_iff)
  then show ?thesis using False by simp
qed

text \<open>
  C17: however register accesses, time slices, audio ticks, events, requests, acknowledgements and
  interrupts taken follow each other, the interrupt controller has the DSP's cause set only while
  one of the three interrupts is pending and enabled in the DSP control register, and exactly then
  as long as the program has not acknowledged the DSP's cause in the controller since the interface
  last updated it; and the CPU's line is up only while an unmasked cause is pending, and exactly
  then as long as the CPU has not taken the interrupt since the controller last updated it.
\<close>

theorem dsp_interrupt_line:
  assumes "console_reachable a t m"
  shows "(m_interrupt_cause (pi_state m) AND INT_CAUSE_DSP \<noteq> 0 \<longrightarrow> ints_set (m_dsp_control m)) \<and>
     (ppc_exceptions (pi_state m) AND EXCEPTION_EXTERNAL_INT \<noteq> 0 \<longrightarrow>
        m_interrupt_cause (pi_state m) AND m_interrupt_mask (pi_state m) \<noteq> 0) \<and>
     (\<not> a \<longrightarrow> (m_interrupt_cause (pi_state m) AND INT_CAUSE_DSP \<noteq> 0 \<longleftrightarrow> ints_set (m_dsp_control m))) \<and>
     (\<not> t \<longrightarrow> (ppc_exceptions (pi_state m) AND EXCEPTION_EXTERNAL_INT \<noteq> 0 \<longleftrightarrow>
        m_interrupt_cause (pi_state m) AND m_interrupt_mask (pi_state m) \<noteq> 0))"
  unfolding line_ok_def [symmetric] line_follows_def [symmetric]
  using assms
proof (induction rule: console_reachable.induct)
  case (reinit m emu sz)
  then show ?case
    by (simp add: line_follows_def line_ok_def Reinit_def Let_def upd_host_def ints_set_def set_field_def)
next
  case (reg_write a t m now addr v m')
  show ?case
  proof (cases "addr = 0x500A")
    case True
    then show ?thesis using reg_write write16_control ok_follows by blast
  next
    case False
    then show ?thesis using quiet_follows [OF write16_quiet [OF False reg_write(2)] reg_write.IH] by simp
  qed
next
  case (other_cause a t m c b)
  then show ?case
    by (intro follows_updated [OF other_cause.IH SetInterrupt_line]) (simp_all add: bits_apart)
next
  case (ack a t m c)
  show ?case using ack_bit [of "m_interrupt_cause (pi_state m)" c]
    by (intro follows_updated [OF ack.IH]) (auto simp: write_interrupt_cause_def UpdateException_line)
next
  case (mask a t m v)
  show ?case
    by (intro follows_updated [OF mask.IH]) (simp_all add: write_interrupt_mask_def UpdateException_line)
next
  case (interrupt_taken a t m)
  then show ?case by (simp add: line_follows_def and.assoc)
next
  case (other_exception a t m x)
  then show ?case by (simp add: line_follows_def line_ok_def)
next
  case (reg_read a t m ws det now addr v m')
  show ?case by (rule quiet_follows [OF read16_quiet [OF reg_read(2)] reg_read.IH])
next
  case (time_slice a t m ws det c m')
  show ?case by (rule quiet_follows [OF update_quiet(3) [OF time_slice(2)] time_slice.IH])
qed (rule audio_follows ok_follows [OF event_ok] request_follows; assumption?)+

text \<open>The line of an interrupt taken and acknowledged, which the end of an ARAM DMA then raises again.\<close>

theorem dsp_interrupt_line_witness:
  "let m = fire_event CompleteARAMEvent example_console;
       m1 = m\<lparr>pi_state := (pi_state m)\<lparr>ppc_exceptions := ppc_exceptions (pi_state m) AND NOT EXCEPTION_EXTERNAL_INT\<rparr>\<rparr>;
       m2 = m1\<lparr>pi_state := write_interrupt_cause 0x40 (pi_state m1)\<rparr>
   in line_follows True False m2 \<and> line_follows False False (fire_event CompleteARAMEvent m2)"
proof -
  have r: "console_reachable False False example_console"
    unfolding example_console_def
    by (rule console_reachable.reinit) (simp_all add: reset_pi_def pi_Init_def line_ok_def)
  note r2 = console_reachable.ack [OF console_reachable.interrupt_taken [OF console_reachable.event [OF r]], where c = "0x40"]
  show ?thesis
    using dsp_interrupt_line [OF r2] dsp_interrupt_line [OF console_reachable.event [OF r2]]
    by (simp add: Let_def line_follows_def line_ok_def)
qed

end
