(* ===== verification/Dsp_Console_Io.thy ===== *)
theory Dsp_Console_Io
  imports Dsp_Console
begin

text \<open>
  More properties of the console's DSP interface: the cycle budget, the audio DMA, the DSP control
  register and the registers that read back what was written.
\<close>

section \<open>The cycle budget\<close>

text \<open>
  The two ways the console gives the DSP time: the time slices of the DSP event, and the reads of the
  high half of a mailbox, to the DSP (\<open>True\<close>) or from it.
\<close>

datatype budget_op = TimeSlice int | MailRead bool

fun run_budget :: "wake list \<Rightarrow> bool \<Rightarrow> budget_op list \<Rightarrow> DSPManager \<Rightarrow> DSPManager option" where
  "run_budget ws det [] m = Some m"
| "run_budget ws det (TimeSlice c # ops) m = Option.bind (UpdateDSPSlice ws det c m) (run_budget ws det ops)"
| "run_budget ws det (MailRead to_dsp # ops) m =
    Option.bind (mmio_read16 ws det 0 (if to_dsp then 0x5000 else 0x5004) m) (\<lambda>(v, m1). run_budget ws det ops m1)"

fun granted :: "budget_op list \<Rightarrow> int" where
  "granted [] = 0"
| "granted (TimeSlice c # ops) = c + granted ops"
| "granted (MailRead b # ops) = granted ops"

text \<open>
  What the emulator does with \<open>d\<close> DSP cycles that it is given: it runs them, or counts them for the DSP
  thread; and with a list of such portions.
\<close>

definition serve :: "wake list \<Rightarrow> bool \<Rightarrow> int \<Rightarrow> DSPLLE \<Rightarrow> DSPLLE option" where
  "serve ws det d l =
    (let l1 = (if m_is_dsp_on_thread l \<and> (m_request_disable_thread l \<or> det)
               then (DSP_StopSoundStream l)\<lparr>m_is_dsp_on_thread := False, m_request_disable_thread := False\<rparr> else l)
     in if m_is_dsp_on_thread l1 then Some (l1\<lparr>m_cycle_count := m_cycle_count l1 + word_of_int d\<rparr>)
        else map_option (\<lambda>(n, c). l1\<lparr>m_dsp_core := c\<rparr>) (core_RunCycles ws d (m_dsp_core l1)))"

fun served :: "wake list \<Rightarrow> bool \<Rightarrow> int list \<Rightarrow> DSPLLE \<Rightarrow> DSPLLE option" where
  "served ws det [] l = Some l"
| "served ws det (d # ds) l = Option.bind (serve ws det d l) (served ws det ds)"

lemma served_append: "served ws det (xs @ ys) l = Option.bind (served ws det xs l) (served ws det ys)"
proof (induction xs arbitrary: l)
  case (Cons d xs)
  then show ?case by (cases "serve ws det d l") simp_all
qed simp

lemma served_thread:
  "m_is_dsp_on_thread l \<Longrightarrow> \<not> m_request_disable_thread l \<Longrightarrow> \<not> det \<Longrightarrow>
    served ws det ds l = Some (l\<lparr>m_cycle_count := m_cycle_count l + word_of_int (sum_list ds)\<rparr>)"
  by (induction ds arbitrary: l) (simp_all add: serve_def Let_def add.assoc)

text \<open>An update serves a sixth of the cycles it is called with.\<close>

lemma update_serves:
  assumes "emulator_update ws det c m = Some m'" "0 \<le> c"
  shows "\<exists>ds. (\<forall>d\<in>set ds. 0 < d) \<and> served ws det ds (m_dsp_emulator m) = Some (m_dsp_emulator m')
    \<and> sum_list ds = c div 6 \<and> m_dsp_slice m' = m_dsp_slice m"
proof (cases "c div 6 = 0")
  case True
  then have "m' = m" using assms by (auto simp: emulator_update_def DSP_Update_def dsp_cycles_of_def Let_def)
  then show ?thesis using True by (intro exI [of _ "[]"]) simp
next
  case False
  then have d: "0 < c div 6" "dsp_cycles_of c = c div 6" using assms(2) by (simp_all add: dsp_cycles_of_def)
  have "DSP_Update ws det c l = serve ws det (c div 6) l" for l using d by (simp add: DSP_Update_def serve_def Let_def)
  then have "serve ws det (c div 6) (m_dsp_emulator m) = Some (m_dsp_emulator m')" "m_dsp_slice m' = m_dsp_slice m"
    using assms(1) by (auto simp: emulator_update_def)
  then show ?thesis using d(1) by (intro exI [of _ "[c div 6]"]) simp
qed

text \<open>One operation: what is served and what is left make up what there was and what was granted.\<close>

lemma budget_step:
  assumes "run_budget ws det [op] m = Some m'" "0 \<le> m_dsp_slice m" "\<And>c. op = TimeSlice c \<Longrightarrow> 0 \<le> c"
  shows "\<exists>ds. (\<forall>d\<in>set ds. 0 < d) \<and> served ws det ds (m_dsp_emulator m) = Some (m_dsp_emulator m')
    \<and> 6 * sum_list ds + m_dsp_slice m' = m_dsp_slice m + granted [op] \<and> 0 \<le> m_dsp_slice m'"
proof (cases op)
  case (TimeSlice c)
  then have "UpdateDSPSlice ws det c m = Some m'" using assms(1) by (auto split: bind_splits)
  then obtain m1 where m1: "emulator_update ws det (m_dsp_slice m) m = Some m1"
    "m' = m1\<lparr>m_dsp_slice := rem6 (m_dsp_slice m1) + c\<rparr>" by (auto simp: UpdateDSPSlice_def)
  obtain ds where "\<forall>d\<in>set ds. 0 < d" "served ws det ds (m_dsp_emulator m) = Some (m_dsp_emulator m1)"
    "sum_list ds = m_dsp_slice m div 6" "m_dsp_slice m1 = m_dsp_slice m" using update_serves [OF m1(1) assms(2)] by blast
  then show ?thesis using m1(2) assms(2,3) TimeSlice by (intro exI [of _ ds]) (simp add: rem6_def)
next
  case (MailRead b)
  then have r: "mail_slice ws det m = Some m'"
    using assms(1) by (auto simp: mmio_read16_def Let_def split: if_splits bind_splits)
  show ?thesis
  proof (cases "DSP_MAIL_SLICE < m_dsp_slice m")
    case True
    then obtain m1 where m1: "emulator_update ws det DSP_MAIL_SLICE m = Some m1"
      "m' = m1\<lparr>m_dsp_slice := m_dsp_slice m1 - DSP_MAIL_SLICE\<rparr>" using r by (auto simp: mail_slice_def)
    obtain ds where "\<forall>d\<in>set ds. 0 < d" "served ws det ds (m_dsp_emulator m) = Some (m_dsp_emulator m1)"
      "sum_list ds = DSP_MAIL_SLICE div 6" "m_dsp_slice m1 = m_dsp_slice m" using update_serves [OF m1(1)] by auto
    then show ?thesis using m1(2) True MailRead by (intro exI [of _ ds]) simp
  next
    case False
    then have "m' = m" using r by (simp add: mail_slice_def)
    then show ?thesis using assms(2) MailRead by (intro exI [of _ "[]"]) simp
  qed
qed

text \<open>
  C29: no cycle is lost or given twice: over any sequence of time slices and mailbox polls the emulator
  is in the end where it is after running portions of DSP cycles, one after the other, of which six CPU
  cycles each together with what is left in the slice counter are what was in the counter and the cycles
  granted; the counter never becomes negative.  While the DSP has its own thread the emulator changes in
  nothing but the count of the cycles that thread has to run, by the sum of the portions.
\<close>

theorem no_cycle_lost:
  assumes "run_budget ws det ops m = Some m'" "0 \<le> m_dsp_slice m"
    "\<forall>c. TimeSlice c \<in> set ops \<longrightarrow> 0 \<le> c"
  shows "\<exists>ds. (\<forall>d\<in>set ds. 0 < d) \<and> served ws det ds (m_dsp_emulator m) = Some (m_dsp_emulator m') \<and>
    6 * sum_list ds + m_dsp_slice m' = m_dsp_slice m + granted ops \<and> 0 \<le> m_dsp_slice m' \<and>
    (m_is_dsp_on_thread (m_dsp_emulator m) \<and> \<not> m_request_disable_thread (m_dsp_emulator m) \<and> \<not> det \<longrightarrow>
      m_dsp_emulator m' = (m_dsp_emulator m)\<lparr>m_cycle_count := m_cycle_count (m_dsp_emulator m) + word_of_int (sum_list ds)\<rparr>)"
proof -
  have "\<exists>ds. (\<forall>d\<in>set ds. 0 < d) \<and> served ws det ds (m_dsp_emulator m) = Some (m_dsp_emulator m') \<and>
      6 * sum_list ds + m_dsp_slice m' = m_dsp_slice m + granted ops \<and> 0 \<le> m_dsp_slice m'"
    using assms
  proof (induction ops arbitrary: m)
    case Nil
    then show ?case by (intro exI [of _ "[]"]) simp
  next
    case (Cons op ops)
    obtain m1 where m1: "run_budget ws det [op] m = Some m1" "run_budget ws det ops m1 = Some m'"
      using Cons.prems(1) by (cases op) (auto split: bind_splits)
    obtain ds where ds: "\<forall>d\<in>set ds. 0 < d" "served ws det ds (m_dsp_emulator m) = Some (m_dsp_emulator m1)"
      "6 * sum_list ds + m_dsp_slice m1 = m_dsp_slice m + granted [op]" "0 \<le> m_dsp_slice m1"
      using budget_step [OF m1(1) Cons.prems(2)] Cons.prems(3) by auto
    obtain es where es: "\<forall>d\<in>set es. 0 < d" "served ws det es (m_dsp_emulator m1) = Some (m_dsp_emulator m')"
      "6 * sum_list es + m_dsp_slice m' = m_dsp_slice m1 + granted ops" "0 \<le> m_dsp_slice m'"
      using Cons.IH [OF m1(2) ds(4)] Cons.prems(3) by auto
    have "granted (op # ops) = granted [op] + granted ops" by (cases op) simp_all
    then show ?case using ds es by (intro exI [of _ "ds @ es"]) (auto simp: served_append)
  qed
  then obtain ds where ds: "\<forall>d\<in>set ds. 0 < d" "served ws det ds (m_dsp_emulator m) = Some (m_dsp_emulator m')"
    "6 * sum_list ds + m_dsp_slice m' = m_dsp_slice m + granted ops" "0 \<le> m_dsp_slice m'" by blast
  moreover have "m_is_dsp_on_thread (m_dsp_emulator m) \<and> \<not> m_request_disable_thread (m_dsp_emulator m) \<and> \<not> det \<longrightarrow>
      m_dsp_emulator m' = (m_dsp_emulator m)\<lparr>m_cycle_count := m_cycle_count (m_dsp_emulator m) + word_of_int (sum_list ds)\<rparr>"
    using served_thread ds(2) by (metis option.inject)
  ultimately show ?thesis by blast
qed

text \<open>Slices of 15, 7 and 0 cycles: the thread of the DSP has three cycles to run, four cycles are left.\<close>

theorem no_cycle_lost_witness:
  "\<exists>m'. run_budget [] False [TimeSlice 15, TimeSlice 7, MailRead True, TimeSlice 0]
      (example_console\<lparr>m_dsp_emulator := (m_dsp_emulator example_console)\<lparr>m_is_dsp_on_thread := True\<rparr>\<rparr>) = Some m' \<and>
    m_cycle_count (m_dsp_emulator m') = 3 \<and> m_dsp_slice m' = 4"
proof -
  let ?l = "(m_dsp_emulator example_console)\<lparr>m_is_dsp_on_thread := True\<rparr>"
  let ?m = "example_console\<lparr>m_dsp_emulator := ?l\<rparr>" and ?ops = "[TimeSlice 15, TimeSlice 7, MailRead True, TimeSlice 0]"
  have l: "\<not> m_request_disable_thread ?l" "m_cycle_count ?l = 0"
    by (simp_all add: example_console_def Reinit_def upd_host_def Let_def constructed_lle_def)
  obtain m' where m': "run_budget [] False ?ops ?m = Some m'" "m_dsp_slice m' = 4"
    using l by (simp add: UpdateDSPSlice_def emulator_update_def DSP_Update_def dsp_cycles_of_def rem6_def mail_slice_def
        mmio_read16_def example_console_simps Let_def)
  obtain ds where "6 * sum_list ds + m_dsp_slice m' = m_dsp_slice ?m + granted ?ops"
    "m_dsp_emulator m' = ?l\<lparr>m_cycle_count := m_cycle_count ?l + word_of_int (sum_list ds)\<rparr>"
    using no_cycle_lost [OF m'(1)] l by (auto simp: example_console_simps)
  moreover from this(1) m'(2) have "sum_list ds = 3" by (simp add: example_console_simps)
  ultimately show ?thesis using m' l by simp
qed

section \<open>The audio DMA\<close>

text \<open>\<open>k\<close> ticks after \<open>m\<close>, which has just started a transfer of \<open>n\<close> blocks from \<open>s\<close>.\<close>

definition playing :: "DSPManager \<Rightarrow> u32 \<Rightarrow> nat \<Rightarrow> nat \<Rightarrow> DSPManager \<Rightarrow> bool" where
  "playing m s n k m' \<longleftrightarrow>
    audio_out m' = audio_out m @ map (\<lambda>i. audio_block (host_of m) (s + 32 * word_of_nat (i mod n))) [0..<k] \<and>
    host_of m' = host_of m \<and> scheduled m' = scheduled m \<and>
    AudioDMAControl (m_audio_dma m') = AudioDMAControl (m_audio_dma m) \<and> SourceAddress (m_audio_dma m') = s \<and>
    current_source_address (m_audio_dma m') = s + 32 * word_of_nat (k mod n) \<and>
    remaining_blocks_count (m_audio_dma m') = word_of_nat (n - k mod n)"

lemma small_word_nonzero: "0 < x \<Longrightarrow> x < 2 ^ 16 \<Longrightarrow> (word_of_nat x :: u16) \<noteq> 0"
  by (auto simp: word_of_nat_eq_0_iff dest: dvd_imp_le)

text \<open>The tick of a state that plays, whatever the control register holds.\<close>

lemma playing_step:
  assumes "playing m s n k m'" "Enable (m_audio_dma m)" "0 < n" "n = unat (NumBlocks (m_audio_dma m))"
  shows "playing m s n (Suc k) (UpdateAudioDMA m')"
    "let m2 = UpdateAudioDMA (m'\<lparr>m_dsp_control := c\<rparr>) in
      if n dvd Suc k then m_dsp_control m2 = c OR INT_AID \<and> console_ok m2
      else m_dsp_control m2 = c \<and> pi_state m2 = pi_state m'"
proof -
  let ?j = "k mod n"
  have n: "n < 2 ^ 16" "word_of_nat n = NumBlocks (m_audio_dma m)" and j: "?j < n"
    using unsigned_less [of "NumBlocks (m_audio_dma m)", where 'a = nat] assms(3) by (simp_all add: assms(4))
  have m: "Suc k mod n = (if Suc ?j = n then 0 else Suc ?j)" "n dvd Suc k \<longleftrightarrow> Suc ?j = n"
    using assms(3) by (simp_all add: mod_Suc dvd_eq_mod_eq_0)
  have r: "(word_of_nat (n - ?j) :: u16) \<noteq> 0" using n(1) j by (intro small_word_nonzero) auto
  obtain i where i: "n - ?j = Suc i" "n - Suc ?j = i" using j by (metis Suc_diff_Suc)
  have q: "(word_of_nat (n - ?j) :: u16) - 1 = word_of_nat (n - Suc ?j)" unfolding i by simp
  have z: "(word_of_nat (n - Suc ?j) :: u16) = 0 \<longleftrightarrow> Suc ?j = n"
    using n(1) j small_word_nonzero [of "n - Suc ?j"] by (cases "Suc ?j = n") auto
  have e: "Enable (m_audio_dma m')" and N: "NumBlocks (m_audio_dma m') = NumBlocks (m_audio_dma m)"
    using assms(1,2) by (simp_all add: playing_def Enable_def NumBlocks_def)
  have P: "remaining_blocks_count (m_audio_dma m') = word_of_nat (n - ?j)" using assms(1) by (simp add: playing_def)
  have u: "UpdateAudioDMA (m'\<lparr>m_dsp_control := c\<rparr>) =
     (let a = m_audio_dma m'; m1 = m'\<lparr>m_dsp_control := c, audio_out := audio_out m' @ [audio_block (host_of m') (current_source_address a)]\<rparr>
      in if Suc ?j = n then GenerateDSPInterrupt INT_AID (m1\<lparr>m_audio_dma := a\<lparr>current_source_address := SourceAddress a,
            remaining_blocks_count := word_of_nat n\<rparr>\<rparr>)
         else m1\<lparr>m_audio_dma := a\<lparr>remaining_blocks_count := word_of_nat (n - Suc ?j),
            current_source_address := current_source_address a + 32\<rparr>\<rparr>)" for c
    using e r z N n(2) by (simp add: UpdateAudioDMA_def Let_def P q NumBlocks_def)
  show "let m2 = UpdateAudioDMA (m'\<lparr>m_dsp_control := c\<rparr>) in
      if n dvd Suc k then m_dsp_control m2 = c OR INT_AID \<and> console_ok m2
      else m_dsp_control m2 = c \<and> pi_state m2 = pi_state m'"
    unfolding u m(2) by (simp add: Let_def GenerateDSPInterrupt_ok) (simp add: GenerateDSPInterrupt_def UpdateInterrupts_def)
  have "UpdateAudioDMA m' = UpdateAudioDMA (m'\<lparr>m_dsp_control := m_dsp_control m'\<rparr>)" by simp
  then show "playing m s n (Suc k) (UpdateAudioDMA m')"
    using assms(1) unfolding u
    by (auto simp: playing_def m(1) Let_def GenerateDSPInterrupt_def UpdateInterrupts_def algebra_simps)
qed

text \<open>
  C30: enabling the audio DMA with \<open>n\<close> blocks from address \<open>s\<close> schedules the AID interrupt of its start
  200 cycles later, and from then on every tick sends one block: those at
  \<open>s, s + 32, ..., s + 32 * (n - 1)\<close> in order, and again from \<open>s\<close>, for ever.  Of the ticks those that
  send a last block, so that the transfer starts again, raise the AID interrupt, whatever the control
  register then holds; the others leave the control register and the interrupt controller alone.
\<close>

theorem audio_dma_plays_blocks:
  assumes "\<not> Enable (m_audio_dma m)" "bit v 15" "n = unat (v AND 0x7fff)" "0 < n"
    "m1 = write_AUDIO_DMA_CONTROL_LEN v m" "m' = (UpdateAudioDMA ^^ k) m1"
  shows "scheduled m' = scheduled m @ [(200, GenerateDSPInterruptEvent INT_AID)] \<and>
    playing m1 (SourceAddress (m_audio_dma m)) n k m' \<and>
    (let m2 = UpdateAudioDMA (m'\<lparr>m_dsp_control := c\<rparr>) in
      if n dvd Suc k then m_dsp_control m2 = c OR INT_AID \<and> console_ok m2
      else m_dsp_control m2 = c \<and> pi_state m2 = pi_state m')"
proof -
  have w: "Enable (m_audio_dma m1)" "NumBlocks (m_audio_dma m1) = v AND 0x7fff"
    "scheduled m1 = scheduled m @ [(200, GenerateDSPInterruptEvent INT_AID)]"
    using assms(1,2) by (simp_all add: assms(5) write_AUDIO_DMA_CONTROL_LEN_def Let_def Enable_def NumBlocks_def ScheduleEvent_def)
  have n: "n = unat (NumBlocks (m_audio_dma m1))" by (simp add: w(2) assms(3))
  have "playing m1 (SourceAddress (m_audio_dma m)) n j ((UpdateAudioDMA ^^ j) m1)" for j
  proof (induction j)
    case 0
    show ?case using assms(1-4)
      by (simp add: assms(5) playing_def write_AUDIO_DMA_CONTROL_LEN_def Let_def Enable_def NumBlocks_def ScheduleEvent_def)
  next
    case (Suc j)
    show ?case using playing_step(1) [OF Suc w(1) assms(4) n] by simp
  qed
  then have p: "playing m1 (SourceAddress (m_audio_dma m)) n k m'" by (simp add: assms(6))
  then have "scheduled m' = scheduled m1" by (simp add: playing_def)
  then show ?thesis using p playing_step(2) [OF p w(1) assms(4) n] w(3) by simp
qed

text \<open>Two blocks: the third tick sends the first one again.\<close>

theorem audio_dma_plays_blocks_witness:
  "audio_out ((UpdateAudioDMA ^^ 3) (write_AUDIO_DMA_CONTROL_LEN 0x8002 example_console)) =
    [audio_block gamecube_host 0, audio_block gamecube_host 32, audio_block gamecube_host 0]"
proof -
  have b: "bit (0x8002 :: u16) 15" by (simp add: bit_numeral_rec)
  have a: "\<not> Enable (m_audio_dma example_console)" "SourceAddress (m_audio_dma example_console) = 0"
    by (simp_all add: example_console_def Reinit_def upd_host_def Let_def Enable_def)
  have "host_of (write_AUDIO_DMA_CONTROL_LEN 0x8002 example_console) = gamecube_host"
    "audio_out (write_AUDIO_DMA_CONTROL_LEN 0x8002 example_console) = []"
    by (simp_all add: write_AUDIO_DMA_CONTROL_LEN_def Let_def ScheduleEvent_def example_console_simps)
  moreover have "[0..<3] = [0, 1, 2 :: nat]" by (simp add: upt_rec)
  ultimately show ?thesis
    using audio_dma_plays_blocks [OF a(1) b refl _ refl refl, of 3] a(2) by (simp add: playing_def)
qed

section \<open>The DSP control register\<close>

lemma bit_u16_exp: "(v :: u16) AND 0x0008 \<noteq> 0 \<longleftrightarrow> bit v 3" "v AND 0x0020 \<noteq> 0 \<longleftrightarrow> bit v 5"
  "v AND 0x0080 \<noteq> 0 \<longleftrightarrow> bit v 7"
  by (simp_all add: bit_iff_and_push_bit_not_eq_0)

lemma u16_cases:
  assumes "\<And>n. n \<in> {0, 1, 2, 3, 4, 5, 6, 7, 8, 9, 10, 11, 12, 13, 14, 15} \<Longrightarrow> bit x n \<longleftrightarrow> bit (y :: u16) n"
  shows "x = y"
proof (rule bit_word_eqI)
  fix n assume "n < LENGTH(16)"
  then have "n \<in> {0, 1, 2, 3, 4, 5, 6, 7, 8, 9, 10, 11, 12, 13, 14, 15}" by simp presburger
  then show "bit x n \<longleftrightarrow> bit y n" by (rule assms)
qed

text \<open>
  a write to the DSP control register acknowledges exactly the pending interrupts written as
  1, sets the three interrupt masks and the padding from the value, takes the DSP's own bits from
  the emulator and keeps the DMA state; resetting the DSP also disables the audio DMA.
\<close>

theorem control_write_fields:
  "m_dsp_control (write_DSP_CONTROL now v m) =
    (v AND 0xF150) OR (fst (DSP_WriteControlRegister now v (m_dsp_emulator m)) AND 0x0C07) OR
    (m_dsp_control m AND 0x00A8 AND NOT v) OR (m_dsp_control m AND 0x0200) \<and>
   m_audio_dma (write_DSP_CONTROL now v m) =
    (if v AND 1 \<noteq> 0 then (m_audio_dma m)\<lparr>AudioDMAControl := 0\<rparr> else m_audio_dma m)"
proof -
  have "m_dsp_control (write_DSP_CONTROL now v m) =
    (v AND 0xF150) OR (fst (DSP_WriteControlRegister now v (m_dsp_emulator m)) AND 0x0C07) OR
    (m_dsp_control m AND 0x00A8 AND NOT v) OR (m_dsp_control m AND 0x0200)"
    by (rule u16_cases, elim insertE emptyE)
      (simp_all add: write_DSP_CONTROL_def Let_def case_prod_unfold UpdateInterrupts_def set_field_def
        bit_u16_exp bit_simps bit_numeral_rec if_distrib [of "\<lambda>x. bit x _"])
  then show ?thesis
    by (simp add: write_DSP_CONTROL_def Let_def case_prod_unfold UpdateInterrupts_def)
qed

section \<open>Registers that read back\<close>

text \<open>The 16-bit registers without side effects, each with the bits it keeps.\<close>

definition kept_bits :: "bool \<Rightarrow> (u32 \<times> u16) list" where
  "kept_bits wii = [(0x5012, 0x007f), (0x501a, 0x07ff), (0x5020, 0x03ff), (0x5022, 0xffe0), (0x5024, 0x03ff),
     (0x5026, 0xffe0), (0x5028, 0x83ff), (0x5030, if wii then 0x1fff else 0x03ff), (0x5032, 0xffe0), (0x5036, 0xffff)]"

lemma parts [simp]:
  "HighPart (set_HighPart v x) = v" "LowPart (set_HighPart v x) = LowPart x"
  "LowPart (set_LowPart v x) = v" "HighPart (set_LowPart v x) = HighPart x"
proof -
  have m: "(0xffff :: u32) = mask 16" by (simp add: mask_eq_exp_minus_1)
  show "HighPart (set_HighPart v x) = v" "LowPart (set_HighPart v x) = LowPart x"
    "LowPart (set_LowPart v x) = v" "HighPart (set_LowPart v x) = HighPart x"
    unfolding HighPart_def LowPart_def set_HighPart_def set_LowPart_def m
    by (rule bit_word_eqI, auto simp: bit_simps dest: bit_imp_le_length)+
qed

definition reg_value :: "u32 \<Rightarrow> DSPManager \<Rightarrow> u16 option" where
  "reg_value addr m = map_option fst (mmio_read16 [] False 0 addr m)"

lemma reg_values [simp]:
  "reg_value 0x5012 m = Some (m_aram_info m)" "reg_value 0x501a m = Some (m_aram_refresh m)"
  "reg_value 0x5020 m = Some (HighPart (MMAddr (m_aram_dma m)))"
  "reg_value 0x5022 m = Some (LowPart (MMAddr (m_aram_dma m)))"
  "reg_value 0x5024 m = Some (HighPart (ARAddr (m_aram_dma m)))"
  "reg_value 0x5026 m = Some (LowPart (ARAddr (m_aram_dma m)))"
  "reg_value 0x5028 m = Some (HighPart (Cnt (m_aram_dma m)))"
  "reg_value 0x5030 m = Some (HighPart (SourceAddress (m_audio_dma m)))"
  "reg_value 0x5032 m = Some (LowPart (SourceAddress (m_audio_dma m)))"
  "reg_value 0x5036 m = Some (AudioDMAControl (m_audio_dma m))"
  by (simp_all add: reg_value_def mmio_read16_def Let_def)

lemma dma_start_event [simp]:
  "m_aram_info (write_AUDIO_DMA_CONTROL_LEN v m) = m_aram_info m"
  "m_aram_refresh (write_AUDIO_DMA_CONTROL_LEN v m) = m_aram_refresh m"
  "m_aram_dma (write_AUDIO_DMA_CONTROL_LEN v m) = m_aram_dma m"
  "SourceAddress (m_audio_dma (write_AUDIO_DMA_CONTROL_LEN v m)) = SourceAddress (m_audio_dma m)"
  "AudioDMAControl (m_audio_dma (write_AUDIO_DMA_CONTROL_LEN v m)) = v"
  by (simp_all add: write_AUDIO_DMA_CONTROL_LEN_def ScheduleEvent_def Let_def)

text \<open>The values of the ten registers after a write to one of them.\<close>

definition reads :: "DSPManager \<Rightarrow> u16 list" where
  "reads m = [m_aram_info m, m_aram_refresh m, HighPart (MMAddr (m_aram_dma m)), LowPart (MMAddr (m_aram_dma m)),
     HighPart (ARAddr (m_aram_dma m)), LowPart (ARAddr (m_aram_dma m)), HighPart (Cnt (m_aram_dma m)),
     HighPart (SourceAddress (m_audio_dma m)), LowPart (SourceAddress (m_audio_dma m)),
     AudioDMAControl (m_audio_dma m)]"

lemma write_reads:
  "map_option reads (mmio_write16 now 0x5012 v m) = Some ((reads m)[0 := v AND 0x007f])"
  "map_option reads (mmio_write16 now 0x501a v m) = Some ((reads m)[1 := v AND 0x07ff])"
  "map_option reads (mmio_write16 now 0x5020 v m) = Some ((reads m)[2 := v AND 0x03ff])"
  "map_option reads (mmio_write16 now 0x5022 v m) = Some ((reads m)[3 := v AND 0xffe0])"
  "map_option reads (mmio_write16 now 0x5024 v m) = Some ((reads m)[4 := v AND 0x03ff])"
  "map_option reads (mmio_write16 now 0x5026 v m) = Some ((reads m)[5 := v AND 0xffe0])"
  "map_option reads (mmio_write16 now 0x5028 v m) = Some ((reads m)[6 := v AND 0x83ff])"
  "map_option reads (mmio_write16 now 0x5030 v m) =
     Some ((reads m)[7 := v AND (if h_wii_mode (host_of m) then 0x1fff else 0x03ff)])"
  "map_option reads (mmio_write16 now 0x5032 v m) = Some ((reads m)[8 := v AND 0xffe0])"
  "map_option reads (mmio_write16 now 0x5036 v m) = Some ((reads m)[9 := v])"
  unfolding mmio_write16_def reads_def Let_def by simp_all

lemma and_ffff_16 [simp]: "v AND 0xffff = (v :: u16)"
proof -
  have "v AND mask 16 = v" by (rule bit_word_eqI) (auto simp: bit_simps)
  then show ?thesis by (simp add: mask_eq_exp_minus_1)
qed

lemma reg_values_reads:
  "map (\<lambda>(b, _). reg_value b m) (kept_bits w) = map Some (reads m)"
  by (simp add: kept_bits_def reads_def)

lemma write_reads_nth:
  assumes "i < 10" and "kept_bits (h_wii_mode (host_of m)) ! i = (a, k)"
  shows "map_option reads (mmio_write16 now a v m) = Some ((reads m)[i := v AND k])"
proof -
  have full: "v AND 0xffff = v" by (rule and_ffff_16)
  from assms(1) have "i = 0 \<or> i = 1 \<or> i = 2 \<or> i = 3 \<or> i = 4 \<or> i = 5 \<or> i = 6 \<or> i = 7 \<or> i = 8 \<or> i = 9"
    by presburger
  then show ?thesis
    using assms(2) by (elim disjE) (auto simp: kept_bits_def write_reads full)
qed

text \<open>
  every configuration register reads back the bits it keeps of the value written, and writing
  one leaves the other nine as they are, also the other half of the same address register.
\<close>

theorem registers_read_back:
  fixes v :: u16
  assumes "i < 10" and "kept_bits (h_wii_mode (host_of m)) ! i = (a, k)"
  shows "\<exists>m'. mmio_write16 now a v m = Some m' \<and>
    map (\<lambda>(b, _). reg_value b m') (kept_bits w) =
      (map (\<lambda>(b, _). reg_value b m) (kept_bits w))[i := Some (v AND k)]"
  using write_reads_nth [OF assms, of now v] by (auto simp: reg_values_reads map_update)

theorem registers_read_back_witness:
  "\<exists>m'. mmio_write16 0 0x5020 0xffff example_console = Some m' \<and> reg_value 0x5020 m' = Some 0x03ff"
  using registers_read_back [of 2 example_console "0x5020" "0x03ff" 0 "0xffff" False]
  by (auto simp: kept_bits_def)

end
