(* ===== verification/Core_Timing.thy ===== *)
theory Core_Timing
  imports Dsp_Prelude "HOL-Library.Multiset"
begin

text \<open>
  \<open>Core/CoreTiming.cpp\<close> and \<open>.h\<close>: the scheduler of the emulated machine.  Time advances in slices:
  the CPU runs until its \<open>downcount\<close> is used up, then \<open>Advance\<close> adds the cycles executed to the
  global timer and calls the callback of every event that is due.  Events are ordered by time
  and, at the same time, by the order in which they were scheduled.

  The event queue is a heap of the standard library, of which the code uses that the front is
  the least element; it is a list sorted by the same order here.  Times are \<open>s64\<close> and identifiers
  \<open>u64\<close> in the code and integers here: neither overflows within 400 years of emulated time.
  A callback is a function on the scheduler and the rest of the machine, \<open>None\<close> if it does not
  return.  The overclocking factor is a \<open>float\<close> that is only used in the two conversions between
  downcount and cycles, so the model keeps these two functions in its place.
\<close>

section \<open>The state\<close>

record 'e Event =
  time :: int
  fifo_order :: nat
  userdata :: u64
  ev_type :: 'e

record oc_factor =
  to_cycles :: "int \<Rightarrow> int"
  to_downcount :: "int \<Rightarrow> int"

record 'e timing =
  global_timer :: int
  slice_length :: int
  downcount :: int
  event_queue :: "'e Event list"
  event_fifo_id :: nat
  ts_queue :: "'e Event list"
  is_global_timer_sane :: bool
  idled_cycles :: int
  last_oc :: oc_factor
  config_oc :: oc_factor
  fake_dec_start_value :: u32
  fake_dec_start_ticks :: u64
  fake_TB_start_value :: u64
  fake_TB_start_ticks :: u64

abbreviation (input) MAX_SLICE_LENGTH :: int where "MAX_SLICE_LENGTH \<equiv> 20000"

text \<open>\<open>operator<=>\<close> of events: \<open>earlier\<close> is \<open>\<le>\<close>.\<close>

definition earlier :: "'e Event \<Rightarrow> 'e Event \<Rightarrow> bool" where
  "earlier a b \<longleftrightarrow> time a < time b \<or> (time a = time b \<and> fifo_order a \<le> fifo_order b)"

text \<open>\<open>push_heap\<close>.\<close>

fun push_event :: "'e Event \<Rightarrow> 'e Event list \<Rightarrow> 'e Event list" where
  "push_event e [] = [e]"
| "push_event e (x # xs) = (if earlier x e then x # push_event e xs else e # x # xs)"

section \<open>Operations\<close>

definition DowncountToCycles :: "'e timing \<Rightarrow> int \<Rightarrow> int" where
  "DowncountToCycles t d = to_cycles (last_oc t) d"

definition CyclesToDowncount :: "'e timing \<Rightarrow> int \<Rightarrow> int" where
  "CyclesToDowncount t c = to_downcount (last_oc t) c"

text \<open>
  \<open>Init\<close>: the first conversion is with the factor left from before; \<open>RefreshConfig\<close> then reads
  the settings, \<open>oc\<close>.
\<close>

definition timing_Init :: "oc_factor \<Rightarrow> 'e timing \<Rightarrow> 'e timing" where
  "timing_Init oc t = t\<lparr>downcount := CyclesToDowncount t MAX_SLICE_LENGTH, slice_length := MAX_SLICE_LENGTH,
     global_timer := 0, idled_cycles := 0, is_global_timer_sane := True, event_fifo_id := 0,
     config_oc := oc, last_oc := oc\<rparr>"

definition RefreshConfig :: "oc_factor \<Rightarrow> 'e timing \<Rightarrow> 'e timing" where
  "RefreshConfig oc t = t\<lparr>config_oc := oc\<rparr>"

definition ticks_of :: "'e timing \<Rightarrow> int" where
  "ticks_of t = global_timer t +
     (if is_global_timer_sane t then 0 else slice_length t - DowncountToCycles t (downcount t))"

definition GetTicks :: "'e timing \<Rightarrow> u64" where
  "GetTicks t = word_of_int (ticks_of t)"

definition ForceExceptionCheck :: "int \<Rightarrow> 'e timing \<Rightarrow> 'e timing" where
  "ForceExceptionCheck cycles t =
    (let c = max 0 cycles in
     if c < DowncountToCycles t (downcount t)
     then t\<lparr>slice_length := slice_length t - (DowncountToCycles t (downcount t) - c),
            downcount := CyclesToDowncount t c\<rparr>
     else t)"

definition CoreTiming_ScheduleEvent :: "int \<Rightarrow> 'e \<Rightarrow> u64 \<Rightarrow> bool \<Rightarrow> 'e timing \<Rightarrow> 'e timing" where
  "CoreTiming_ScheduleEvent cycles_into_future event_type ud from_cpu_thread t =
    (if from_cpu_thread then
       let timeout = ticks_of t + cycles_into_future;
           t1 = (if \<not> is_global_timer_sane t then ForceExceptionCheck cycles_into_future t else t)
       in t1\<lparr>event_queue := push_event \<lparr>time = timeout, fifo_order = event_fifo_id t1, userdata = ud,
                ev_type = event_type\<rparr> (event_queue t1),
             event_fifo_id := event_fifo_id t1 + 1\<rparr>
     else t\<lparr>ts_queue := ts_queue t @
            [\<lparr>time = cycles_into_future, fifo_order = 0, userdata = ud, ev_type = event_type\<rparr>]\<rparr>)"

definition ClearPendingEvents :: "'e timing \<Rightarrow> 'e timing" where
  "ClearPendingEvents t = t\<lparr>event_queue := []\<rparr>"

definition RemoveEvent :: "'e \<Rightarrow> 'e timing \<Rightarrow> 'e timing" where
  "RemoveEvent event_type t = t\<lparr>event_queue := filter (\<lambda>e. ev_type e \<noteq> event_type) (event_queue t)\<rparr>"

definition move_event :: "'e Event \<Rightarrow> 'e timing \<Rightarrow> 'e timing" where
  "move_event ev t = t\<lparr>
     event_queue := push_event (ev\<lparr>fifo_order := event_fifo_id t, time := time ev + global_timer t\<rparr>) (event_queue t),
     event_fifo_id := event_fifo_id t + 1\<rparr>"

definition MoveEvents :: "'e timing \<Rightarrow> 'e timing" where
  "MoveEvents t = (fold move_event (ts_queue t) t)\<lparr>ts_queue := []\<rparr>"

definition RemoveAllEvents :: "'e \<Rightarrow> 'e timing \<Rightarrow> 'e timing" where
  "RemoveAllEvents event_type t = RemoveEvent event_type (MoveEvents t)"

definition CoreTiming_Idle :: "'e timing \<Rightarrow> 'e timing" where
  "CoreTiming_Idle t = t\<lparr>idled_cycles := idled_cycles t + DowncountToCycles t (downcount t), downcount := 0\<rparr>"

text \<open>The CPU executes instructions that cost \<open>d\<close> in total.\<close>

definition run_cpu :: "int \<Rightarrow> 'e timing \<Rightarrow> 'e timing" where
  "run_cpu d t = t\<lparr>downcount := downcount t - d\<rparr>"

text \<open>Division of C++ truncates; the quotient is positive or zero for events in the future.\<close>

definition tdiv :: "int \<Rightarrow> int \<Rightarrow> int" where
  "tdiv a b = (if a < 0 then - (- a div b) else a div b)"

definition AdjustEventQueueTimes :: "u32 \<Rightarrow> u32 \<Rightarrow> 'e timing \<Rightarrow> 'e timing" where
  "AdjustEventQueueTimes new_ppc_clock old_ppc_clock t =
    (let ticks = global_timer t in
     t\<lparr>event_queue := map (\<lambda>ev. ev\<lparr>time := ticks + tdiv ((time ev - ticks) * uint new_ppc_clock) (uint old_ppc_clock)\<rparr>)
        (event_queue t)\<rparr>)"

section \<open>Advance\<close>

type_synonym ('e, 's) callback = "'e \<Rightarrow> u64 \<Rightarrow> int \<Rightarrow> 'e timing \<times> 's \<Rightarrow> ('e timing \<times> 's) option"

text \<open>One round of the dispatch loop: the front event is removed, then its callback called.\<close>

definition fire_front :: "('e, 's) callback \<Rightarrow> 'e Event \<Rightarrow> 'e timing \<times> 's \<Rightarrow> ('e timing \<times> 's) option" where
  "fire_front cb ev x = (case x of (t, s) \<Rightarrow>
     cb (ev_type ev) (userdata ev) (global_timer t - time ev) (t\<lparr>event_queue := tl (event_queue t)\<rparr>, s))"

partial_function (option) dispatch_due ::
  "('e, 's) callback \<Rightarrow> 'e timing \<times> 's \<Rightarrow> ('e timing \<times> 's) option" where
  "dispatch_due cb x =
    (if event_queue (fst x) \<noteq> [] \<and> time (hd (event_queue (fst x))) \<le> global_timer (fst x)
     then Option.bind (fire_front cb (hd (event_queue (fst x))) x) (dispatch_due cb)
     else Some x)"

text \<open>\<open>Advance\<close> up to the dispatch loop, and after it.\<close>

definition end_slice :: "'e timing \<Rightarrow> 'e timing" where
  "end_slice t0 =
    (let t = MoveEvents t0;
         cyclesExecuted = slice_length t - DowncountToCycles t (downcount t)
     in t\<lparr>global_timer := global_timer t + cyclesExecuted, last_oc := config_oc t,
          slice_length := MAX_SLICE_LENGTH, is_global_timer_sane := True\<rparr>)"

definition begin_slice :: "'e timing \<Rightarrow> 'e timing" where
  "begin_slice t =
    (let sl = (if event_queue t \<noteq> [] then min (time (hd (event_queue t)) - global_timer t) MAX_SLICE_LENGTH
               else slice_length t)
     in t\<lparr>is_global_timer_sane := False, slice_length := sl, downcount := CyclesToDowncount t sl\<rparr>)"

definition Advance :: "('e, 's) callback \<Rightarrow> 'e timing \<times> 's \<Rightarrow> ('e timing \<times> 's) option" where
  "Advance cb x = map_option (map_prod begin_slice id) (dispatch_due cb (map_prod end_slice id x))"

section \<open>The queue\<close>

lemma earlier_trans: "earlier a b \<Longrightarrow> earlier b c \<Longrightarrow> earlier a c"
  by (auto simp: earlier_def)

lemma earlier_linear: "earlier a b \<or> earlier b a"
  by (auto simp: earlier_def)

lemma mset_push_event [simp]: "mset (push_event e q) = add_mset e (mset q)"
  by (induction q) auto

lemma set_push_event [simp]: "set (push_event e q) = insert e (set q)"
  by (induction q) auto

lemma distinct_push_event [simp]:
  "distinct (map fifo_order (push_event e q)) \<longleftrightarrow> fifo_order e \<notin> fifo_order ` set q \<and> distinct (map fifo_order q)"
  by (induction q) auto

lemma sorted_push_event: "sorted_wrt earlier q \<Longrightarrow> sorted_wrt earlier (push_event e q)"
proof (induction q)
  case (Cons x xs)
  then show ?case using earlier_linear earlier_trans by fastforce
qed simp

text \<open>
  The interface of the heap functions the code relies on: the front is the least element, and
  pushing and popping change the contents by one element.
\<close>

locale event_heap =
  fixes push :: "'e Event \<Rightarrow> 'q \<Rightarrow> 'q" and front :: "'q \<Rightarrow> 'e Event" and pop :: "'q \<Rightarrow> 'q"
    and contents :: "'q \<Rightarrow> 'e Event multiset" and heap :: "'q \<Rightarrow> bool"
  assumes push: "heap q \<Longrightarrow> heap (push e q) \<and> contents (push e q) = add_mset e (contents q)"
    and front: "heap q \<Longrightarrow> e \<in># contents q \<Longrightarrow> front q \<in># contents q \<and> earlier (front q) e"
    and pop: "heap q \<Longrightarrow> contents q \<noteq> {#} \<Longrightarrow> heap (pop q) \<and> contents q = add_mset (front q) (contents (pop q))"
begin

lemma front_earlier_rest: "heap q \<Longrightarrow> e \<in># contents (pop q) \<Longrightarrow> contents q \<noteq> {#} \<Longrightarrow> earlier (front q) e"
  using front [of q e] pop [of q] by simp

lemma popped_in_order: "heap q \<Longrightarrow> contents q \<noteq> {#} \<Longrightarrow> contents (pop q) \<noteq> {#} \<Longrightarrow> earlier (front q) (front (pop q))"
  using front [of "pop q"] pop [of q] front_earlier_rest [of q] by (metis multiset_nonemptyE)

end

interpretation queue: event_heap push_event hd tl mset "sorted_wrt earlier"
proof
  fix q :: "'a Event list" and e
  show "sorted_wrt earlier q \<Longrightarrow> sorted_wrt earlier (push_event e q) \<and> mset (push_event e q) = add_mset e (mset q)"
    by (simp add: sorted_push_event)
  show "sorted_wrt earlier q \<Longrightarrow> e \<in># mset q \<Longrightarrow> hd q \<in># mset q \<and> earlier (hd q) e"
    by (cases q) (auto simp: earlier_def)
  show "sorted_wrt earlier q \<Longrightarrow> mset q \<noteq> {#} \<Longrightarrow> sorted_wrt earlier (tl q) \<and> mset q = add_mset (hd q) (mset (tl q))"
    by (cases q) auto
qed

text \<open>The queue invariant: sorted, with different identifiers, all given out before.\<close>

definition queue_ok :: "'e timing \<Rightarrow> bool" where
  "queue_ok t \<longleftrightarrow> sorted_wrt earlier (event_queue t) \<and> distinct (map fifo_order (event_queue t)) \<and> (\<forall>e \<in> set (event_queue t). fifo_order e < event_fifo_id t)"

lemma ForceExceptionCheck_queue [simp]:
  "event_queue (ForceExceptionCheck c t) = event_queue t" "event_fifo_id (ForceExceptionCheck c t) = event_fifo_id t"
  "ts_queue (ForceExceptionCheck c t) = ts_queue t" "is_global_timer_sane (ForceExceptionCheck c t) = is_global_timer_sane t"
  "global_timer (ForceExceptionCheck c t) = global_timer t"
  by (simp_all add: ForceExceptionCheck_def Let_def)

lemma schedule_queue:
  "event_queue (CoreTiming_ScheduleEvent c e u True t) =
     push_event \<lparr>time = ticks_of t + c, fifo_order = event_fifo_id t, userdata = u, ev_type = e\<rparr> (event_queue t)"
  "event_fifo_id (CoreTiming_ScheduleEvent c e u True t) = event_fifo_id t + 1"
  by (simp_all add: CoreTiming_ScheduleEvent_def Let_def)

lemma queue_ok_schedule: "queue_ok t \<Longrightarrow> queue_ok (CoreTiming_ScheduleEvent c e u b t)"
  by (cases b) (auto simp: queue_ok_def schedule_queue sorted_push_event less_Suc_eq CoreTiming_ScheduleEvent_def)

lemma queue_ok_remove: "queue_ok t \<Longrightarrow> queue_ok (RemoveEvent e t)"
  by (auto simp: queue_ok_def RemoveEvent_def intro: sorted_wrt_filter distinct_map_filter)

lemma queue_ok_move: "queue_ok t \<Longrightarrow> queue_ok (move_event ev t)"
  by (auto simp: queue_ok_def move_event_def sorted_push_event less_Suc_eq)

lemma queue_ok_MoveEvents: "queue_ok t \<Longrightarrow> queue_ok (MoveEvents t)"
proof -
  have "queue_ok t \<Longrightarrow> queue_ok (fold move_event evs t)" for evs
    by (induction evs arbitrary: t) (auto intro: queue_ok_move)
  then show "queue_ok t \<Longrightarrow> queue_ok (MoveEvents t)" by (simp add: MoveEvents_def queue_ok_def)
qed

lemma queue_ok_end_slice: "queue_ok t \<Longrightarrow> queue_ok (end_slice t)"
  using queue_ok_MoveEvents [of t] by (simp add: end_slice_def queue_ok_def Let_def)

lemma queue_ok_begin_slice: "queue_ok (begin_slice t) \<longleftrightarrow> queue_ok t"
  by (simp add: begin_slice_def queue_ok_def Let_def)

lemma queue_ok_tl: "queue_ok t \<Longrightarrow> queue_ok (t\<lparr>event_queue := tl (event_queue t)\<rparr>)"
  by (cases "event_queue t") (auto simp: queue_ok_def)

end
