(* ===== verification/Console_System.thy ===== *)
theory Console_System
  imports Dsp_Manager Core_Timing
begin

text \<open>
  The parts of the console that drive the DSP by the clock: the audio interface
  (\<open>Core/HW/AudioInterface.cpp\<close>), the timers of \<open>Core/HW/SystemTimers.cpp\<close> with the CPU's time base
  and decrementer, and the connection of the DSP interface with the scheduler.  A machine is the
  scheduler together with the record \<open>console\<close>.  Video, IOS and the patch engine, which have events
  of their own, are left out; the mixer, which only receives settings, is too.
\<close>

section \<open>The machine\<close>

text \<open>The event types registered by the modelled components.\<close>

datatype EventType = Ev_Decrementer | Ev_DSP | Ev_AudioDMA | Ev_GPUSleeper | Ev_DSPint | Ev_ARAMint | Ev_AI

record AudioInterface =
  ai_control :: u32
  ai_volume :: u32
  m_sample_counter :: u32
  m_interrupt_timing :: u32
  m_last_cpu_time :: u64
  m_cpu_cycles_per_sample :: u64
  m_ais_sample_rate_divisor :: u32
  m_aid_sample_rate_divisor :: u32

record console =
  dsp_if :: DSPManager
  ai :: AudioInterface
  m_cpu_core_clock :: u32
  spr_DEC :: u32
  full_time_base :: u64

type_synonym machine = "EventType timing \<times> console"

abbreviation upd_ai :: "(AudioInterface \<Rightarrow> AudioInterface) \<Rightarrow> console \<Rightarrow> console" where
  "upd_ai f c \<equiv> c\<lparr>ai := f (ai c)\<rparr>"

abbreviation upd_pi :: "(ProcessorInterface \<Rightarrow> ProcessorInterface) \<Rightarrow> console \<Rightarrow> console" where
  "upd_pi f c \<equiv> c\<lparr>dsp_if := (dsp_if c)\<lparr>pi_state := f (pi_state (dsp_if c))\<rparr>\<rparr>"

abbreviation IsWii :: "console \<Rightarrow> bool" where
  "IsWii c \<equiv> h_wii_mode (host_of (dsp_if c))"

section \<open>Audio interface\<close>

abbreviation (input) INT_CAUSE_AI :: u32 where "INT_CAUSE_AI \<equiv> 0x20"

abbreviation (input) FIXED_SAMPLE_RATE_DIVIDEND :: u64 where "FIXED_SAMPLE_RATE_DIVIDEND \<equiv> 108000000"

datatype SampleRate = AI32KHz | AI48KHz

text \<open>The bit fields of the control register \<open>AICR\<close>.\<close>

abbreviation (input) PSTAT :: nat where "PSTAT \<equiv> 0"
abbreviation (input) AISFR :: nat where "AISFR \<equiv> 1"
abbreviation (input) AIINTMSK :: nat where "AIINTMSK \<equiv> 2"
abbreviation (input) AIINT :: nat where "AIINT \<equiv> 3"
abbreviation (input) AIINTVLD :: nat where "AIINTVLD \<equiv> 4"
abbreviation (input) SCRESET :: nat where "SCRESET \<equiv> 5"
abbreviation (input) AIDFR :: nat where "AIDFR \<equiv> 6"

definition put_bit :: "nat \<Rightarrow> bool \<Rightarrow> u32 \<Rightarrow> u32" where
  "put_bit n b x = (if b then x OR push_bit n 1 else x AND NOT (push_bit n 1))"

definition set_AICR :: "nat \<Rightarrow> bool \<Rightarrow> console \<Rightarrow> console" where
  "set_AICR n b = upd_ai (\<lambda>a. a\<lparr>ai_control := put_bit n b (ai_control a)\<rparr>)"

definition IsPlaying :: "console \<Rightarrow> bool" where
  "IsPlaying c \<longleftrightarrow> bit (ai_control (ai c)) PSTAT"

definition ai_UpdateInterrupts :: "console \<Rightarrow> console" where
  "ai_UpdateInterrupts c =
     upd_pi (SetInterrupt INT_CAUSE_AI (bit (ai_control (ai c)) AIINT \<and> bit (ai_control (ai c)) AIINTMSK)) c"

definition GenerateAudioInterrupt :: "console \<Rightarrow> console" where
  "GenerateAudioInterrupt c = ai_UpdateInterrupts (set_AICR AIINT True c)"

definition IncreaseSampleCount :: "u32 \<Rightarrow> console \<Rightarrow> console" where
  "IncreaseSampleCount amount c =
    (if \<not> IsPlaying c then c
     else let old_sample_counter = m_sample_counter (ai c) + 1;
              c1 = upd_ai (\<lambda>a. a\<lparr>m_sample_counter := m_sample_counter a + amount\<rparr>) c
          in if m_interrupt_timing (ai c1) - old_sample_counter \<le> m_sample_counter (ai c1) - old_sample_counter
             then GenerateAudioInterrupt c1 else c1)"

text \<open>\<open>static_cast<int>\<close> of a 64-bit value.\<close>

definition to_int :: "u64 \<Rightarrow> int" where
  "to_int x = sint (ucast x :: s32)"

definition GetAIPeriod :: "console \<Rightarrow> int" where
  "GetAIPeriod c =
    (let a = ai c;
         period = m_cpu_cycles_per_sample a * ucast (m_interrupt_timing a - m_sample_counter a);
         s_period = m_cpu_cycles_per_sample a * FIXED_SAMPLE_RATE_DIVIDEND div ucast (m_ais_sample_rate_divisor a)
     in if period = 0 then to_int s_period else to_int (min period s_period))"

definition ai_Update :: "int \<Rightarrow> machine \<Rightarrow> machine" where
  "ai_Update cycles_late x = (case x of (t, c) \<Rightarrow>
     if \<not> IsPlaying c then (t, c)
     else let cps = m_cpu_cycles_per_sample (ai c);
              diff = GetTicks t - m_last_cpu_time (ai c);
              samples = ucast (diff div cps) :: u32;
              c1 = (if cps < diff
                    then IncreaseSampleCount samples
                           (upd_ai (\<lambda>a. a\<lparr>m_last_cpu_time := m_last_cpu_time a + ucast samples * cps\<rparr>) c)
                    else c)
          in (CoreTiming_ScheduleEvent (GetAIPeriod c1 - cycles_late) Ev_AI 0 True t, c1))"

definition Get48KHzSampleRateDivisor :: "console \<Rightarrow> u32" where
  "Get48KHzSampleRateDivisor c = (if IsWii c then 1125 else 1124) * 2"

definition Get32KHzSampleRateDivisor :: "console \<Rightarrow> u32" where
  "Get32KHzSampleRateDivisor c = Get48KHzSampleRateDivisor c * 3 div 2"

definition SetAIDSampleRate :: "SampleRate \<Rightarrow> console \<Rightarrow> console" where
  "SetAIDSampleRate rate c =
    (if rate = AI32KHz
     then upd_ai (\<lambda>a. a\<lparr>m_aid_sample_rate_divisor := Get32KHzSampleRateDivisor c\<rparr>) (set_AICR AIDFR True c)
     else upd_ai (\<lambda>a. a\<lparr>m_aid_sample_rate_divisor := Get48KHzSampleRateDivisor c\<rparr>) (set_AICR AIDFR False c))"

definition SetAISSampleRate :: "SampleRate \<Rightarrow> console \<Rightarrow> console" where
  "SetAISSampleRate rate c =
    (let c1 = (if rate = AI32KHz
               then upd_ai (\<lambda>a. a\<lparr>m_ais_sample_rate_divisor := Get32KHzSampleRateDivisor c\<rparr>) (set_AICR AISFR False c)
               else upd_ai (\<lambda>a. a\<lparr>m_ais_sample_rate_divisor := Get48KHzSampleRateDivisor c\<rparr>) (set_AICR AISFR True c))
     in upd_ai (\<lambda>a. a\<lparr>m_cpu_cycles_per_sample :=
          ucast (m_cpu_core_clock c1) * ucast (m_ais_sample_rate_divisor a) div FIXED_SAMPLE_RATE_DIVIDEND\<rparr>) c1)"

definition ai_Init :: "console \<Rightarrow> console" where
  "ai_Init c =
    (let c1 = upd_ai (\<lambda>a. a\<lparr>ai_control := 0\<rparr>) c;
         c2 = SetAIDSampleRate AI32KHz (SetAISSampleRate AI48KHz c1)
     in upd_ai (\<lambda>a. a\<lparr>ai_volume := 0, m_sample_counter := 0, m_interrupt_timing := 0, m_last_cpu_time := 0\<rparr>) c2)"

text \<open>The event is moved to the new time, as by the writes of three registers.\<close>

definition reschedule_AI :: "machine \<Rightarrow> machine" where
  "reschedule_AI x = (case x of (t, c) \<Rightarrow>
     (CoreTiming_ScheduleEvent (GetAIPeriod c) Ev_AI 0 True (RemoveEvent Ev_AI t), c))"

definition write_AI_CONTROL :: "u32 \<Rightarrow> machine \<Rightarrow> machine" where
  "write_AI_CONTROL val x = (case x of (t, c0) \<Rightarrow>
     let c1 = set_AICR AIINTVLD (bit val AIINTVLD) (set_AICR AIINTMSK (bit val AIINTMSK) c0);
         c2 = (if bit val AISFR \<noteq> bit (ai_control (ai c1)) AISFR
               then SetAISSampleRate (if bit val AISFR then AI48KHz else AI32KHz) c1 else c1);
         c3 = (if bit val AIDFR \<noteq> bit (ai_control (ai c2)) AIDFR
               then SetAIDSampleRate (if bit val AIDFR then AI32KHz else AI48KHz) c2 else c2);
         (t4, c4) = (if bit val PSTAT \<noteq> bit (ai_control (ai c3)) PSTAT
               then reschedule_AI (t, upd_ai (\<lambda>a. a\<lparr>m_last_cpu_time := GetTicks t\<rparr>) (set_AICR PSTAT (bit val PSTAT) c3))
               else (t, c3));
         c5 = (if bit val AIINT then set_AICR AIINT False c4 else c4);
         c6 = (if bit val SCRESET
               then upd_ai (\<lambda>a. a\<lparr>m_sample_counter := 0, m_last_cpu_time := GetTicks t4\<rparr>) c5 else c5)
     in (t4, ai_UpdateInterrupts c6))"

definition write_AI_VOLUME :: "u32 \<Rightarrow> machine \<Rightarrow> machine" where
  "write_AI_VOLUME val = map_prod id (upd_ai (\<lambda>a. a\<lparr>ai_volume := val\<rparr>))"

definition read_AI_SAMPLE_COUNTER :: "machine \<Rightarrow> u32" where
  "read_AI_SAMPLE_COUNTER x = (case x of (t, c) \<Rightarrow>
     let cycles_streamed = (if IsPlaying c then GetTicks t - m_last_cpu_time (ai c) else m_last_cpu_time (ai c))
     in m_sample_counter (ai c) + ucast (cycles_streamed div m_cpu_cycles_per_sample (ai c)))"

definition write_AI_SAMPLE_COUNTER :: "u32 \<Rightarrow> machine \<Rightarrow> machine" where
  "write_AI_SAMPLE_COUNTER val x = (case x of (t, c) \<Rightarrow>
     reschedule_AI (t, upd_ai (\<lambda>a. a\<lparr>m_sample_counter := val, m_last_cpu_time := GetTicks t\<rparr>) c))"

definition write_AI_INTERRUPT_TIMING :: "u32 \<Rightarrow> machine \<Rightarrow> machine" where
  "write_AI_INTERRUPT_TIMING val x = (case x of (t, c) \<Rightarrow>
     reschedule_AI (t, upd_ai (\<lambda>a. a\<lparr>m_interrupt_timing := val\<rparr>) c))"

section \<open>The time base and the decrementer\<close>

abbreviation (input) TIMER_RATIO :: "'a::len word" where "TIMER_RATIO \<equiv> 12"

definition GetFakeTimeBase :: "'e timing \<Rightarrow> u64" where
  "GetFakeTimeBase t = fake_TB_start_value t + (GetTicks t - fake_TB_start_ticks t) div TIMER_RATIO"

definition TimeBaseSet :: "machine \<Rightarrow> machine" where
  "TimeBaseSet x = (case x of (t, c) \<Rightarrow>
     (t\<lparr>fake_TB_start_ticks := GetTicks t, fake_TB_start_value := full_time_base c\<rparr>, c))"

definition GetFakeDecrementer :: "'e timing \<Rightarrow> u32" where
  "GetFakeDecrementer t = fake_dec_start_value t - ucast ((GetTicks t - fake_dec_start_ticks t) div TIMER_RATIO)"

text \<open>The product \<open>decValue * TIMER_RATIO\<close> is computed in 32 bits.\<close>

definition DecrementerSet :: "machine \<Rightarrow> machine" where
  "DecrementerSet x = (case x of (t, c) \<Rightarrow>
     let decValue = spr_DEC c; t1 = RemoveEvent Ev_Decrementer t
     in if decValue AND 0x80000000 = 0
        then (CoreTiming_ScheduleEvent (uint (decValue * TIMER_RATIO)) Ev_Decrementer 0 True
                (t1\<lparr>fake_dec_start_ticks := GetTicks t1, fake_dec_start_value := decValue\<rparr>), c)
        else (t1, c))"

section \<open>Requests of the DSP interface\<close>

text \<open>
  What the DSP interface scheduled, and the interrupts the DSP requested while it ran on the CPU
  thread, reach the scheduler.
\<close>

definition event_of :: "event_type \<Rightarrow> EventType \<times> u64" where
  "event_of e = (case e of GenerateDSPInterruptEvent v \<Rightarrow> (Ev_DSPint, ucast v) | CompleteARAMEvent \<Rightarrow> (Ev_ARAMint, 0))"

definition requests :: "DSPManager \<Rightarrow> (int \<times> EventType \<times> u64) list" where
  "requests m = replicate (h_irq (host_of m)) (0, Ev_DSPint, ucast INT_DSP) @ map (\<lambda>(n, e). (n, event_of e)) (scheduled m)"

definition take_requests :: "DSPManager \<Rightarrow> DSPManager" where
  "take_requests m = upd_host (\<lambda>h. h\<lparr>h_irq := 0\<rparr>) (m\<lparr>scheduled := []\<rparr>)"

definition pass_requests :: "DSPManager \<Rightarrow> machine \<Rightarrow> machine" where
  "pass_requests m x = (case x of (t, c) \<Rightarrow>
     (fold (\<lambda>(n, e, u). CoreTiming_ScheduleEvent n e u True) (requests m) t, c\<lparr>dsp_if := take_requests m\<rparr>))"

section \<open>Register accesses of the CPU\<close>

definition cpu_write16 :: "u32 \<Rightarrow> u16 \<Rightarrow> machine \<Rightarrow> machine option" where
  "cpu_write16 addr v x = (case x of (t, c) \<Rightarrow>
     map_option (\<lambda>m. pass_requests m (t, c)) (mmio_write16 (GetFakeTimeBase t) addr v (dsp_if c)))"

definition cpu_read16 :: "wake list \<Rightarrow> bool \<Rightarrow> u32 \<Rightarrow> machine \<Rightarrow> (u16 \<times> machine) option" where
  "cpu_read16 ws det addr x = (case x of (t, c) \<Rightarrow>
     map_option (\<lambda>(v, m). (v, pass_requests m (t, c))) (mmio_read16 ws det (GetFakeTimeBase t) addr (dsp_if c)))"

section \<open>Callbacks\<close>

definition on_DSPCallback :: "wake list \<Rightarrow> bool \<Rightarrow> int \<Rightarrow> machine \<Rightarrow> machine option" where
  "on_DSPCallback ws det cycles_late x = (case x of (t, c) \<Rightarrow>
     map_option (\<lambda>m. map_prod (CoreTiming_ScheduleEvent (uint DSP_UpdateRate - cycles_late) Ev_DSP 0 True) id
                       (pass_requests m (t, c)))
       (UpdateDSPSlice ws det (to_int (word_of_int (uint DSP_UpdateRate - cycles_late))) (dsp_if c)))"

definition GetAudioDMACallbackPeriod :: "u32 \<Rightarrow> u32 \<Rightarrow> int" where
  "GetAudioDMACallbackPeriod cpu_core_clock aid_sample_rate_divisor =
     to_int (ucast cpu_core_clock * ucast aid_sample_rate_divisor div (FIXED_SAMPLE_RATE_DIVIDEND * 4 div 32))"

definition on_AudioDMACallback :: "int \<Rightarrow> machine \<Rightarrow> machine" where
  "on_AudioDMACallback cycles_late x = (case x of (t, c) \<Rightarrow>
     let c1 = c\<lparr>dsp_if := UpdateAudioDMA (dsp_if c)\<rparr>;
         callback_period = GetAudioDMACallbackPeriod (m_cpu_core_clock c1) (m_aid_sample_rate_divisor (ai c1))
     in (CoreTiming_ScheduleEvent (callback_period - cycles_late) Ev_AudioDMA 0 True t, c1))"

definition on_GPUSleepCallback :: "int \<Rightarrow> machine \<Rightarrow> machine" where
  "on_GPUSleepCallback cycles_late x = (case x of (t, c) \<Rightarrow>
     (CoreTiming_ScheduleEvent (uint (m_cpu_core_clock c div 1000) - cycles_late) Ev_GPUSleeper 0 True t, c))"

definition on_DecrementerCallback :: "console \<Rightarrow> console" where
  "on_DecrementerCallback c =
     upd_pi (\<lambda>p. p\<lparr>ppc_exceptions := ppc_exceptions p OR EXCEPTION_DECREMENTER\<rparr>) (c\<lparr>spr_DEC := 0xFFFFFFFF\<rparr>)"

text \<open>The callback each type was registered with.\<close>

definition callbacks :: "wake list \<Rightarrow> bool \<Rightarrow> (EventType, console) callback" where
  "callbacks ws det e ud cycles_late x = (case e of
     Ev_Decrementer \<Rightarrow> Some (map_prod id on_DecrementerCallback x)
   | Ev_DSP \<Rightarrow> on_DSPCallback ws det cycles_late x
   | Ev_AudioDMA \<Rightarrow> Some (on_AudioDMACallback cycles_late x)
   | Ev_GPUSleeper \<Rightarrow> Some (on_GPUSleepCallback cycles_late x)
   | Ev_DSPint \<Rightarrow> Some (map_prod id (\<lambda>c. c\<lparr>dsp_if := GenerateDSPInterrupt (ucast ud) (dsp_if c)\<rparr>) x)
   | Ev_ARAMint \<Rightarrow> Some (map_prod id (\<lambda>c. c\<lparr>dsp_if := CompleteARAM (dsp_if c)\<rparr>) x)
   | Ev_AI \<Rightarrow> Some (ai_Update cycles_late x))"

section \<open>Initialisation of the timers\<close>

text \<open>\<open>emulated_time\<close> is \<open>CEXIIPL::GetEmulatedTime\<close>, in seconds.\<close>

definition timers_Init :: "u32 \<Rightarrow> machine \<Rightarrow> machine" where
  "timers_Init emulated_time x = (case x of (t, c) \<Rightarrow>
     let t1 = t\<lparr>fake_TB_start_value := ucast (m_cpu_core_clock c div TIMER_RATIO) * ucast emulated_time,
                fake_TB_start_ticks := GetTicks t, fake_dec_start_value := 0xFFFFFFFF,
                fake_dec_start_ticks := GetTicks t\<rparr>;
         t2 = CoreTiming_ScheduleEvent 0 Ev_DSP 0 True (CoreTiming_ScheduleEvent 0 Ev_GPUSleeper 0 True t1)
     in (CoreTiming_ScheduleEvent
           (GetAudioDMACallbackPeriod (m_cpu_core_clock c) (m_aid_sample_rate_divisor (ai c))) Ev_AudioDMA 0 True t2, c))"

definition ChangePPCClock :: "bool \<Rightarrow> machine \<Rightarrow> machine" where
  "ChangePPCClock wii x = (case x of (t, c) \<Rightarrow>
     let previous_clock = m_cpu_core_clock c; c1 = c\<lparr>m_cpu_core_clock := (if wii then 729000000 else 486000000)\<rparr>
     in (AdjustEventQueueTimes (m_cpu_core_clock c1) previous_clock t, c1))"

text \<open>One iteration of the CPU's dispatcher.\<close>

definition system_Advance :: "wake list \<Rightarrow> bool \<Rightarrow> machine \<Rightarrow> machine option" where
  "system_Advance ws det = Advance (callbacks ws det)"

end
