(* ===== verification/Core_Advance.thy ===== *)
theory Core_Advance
  imports Core_Timing
begin

text \<open>
  The dispatch loop of \<open>Advance\<close>.  What the scheduler relies on is stated as the contract
  \<open>polite_callbacks\<close>: a callback returns and touches the scheduler only by scheduling events,
  each later than the event that fired, or at the same time with a lower rank.  Under it the loop
  ends, fires events in order, fires everything that is due and nothing else.
\<close>

section \<open>Firing a sequence of events\<close>

definition due :: "'e timing \<Rightarrow> bool" where
  "due t \<longleftrightarrow> event_queue t \<noteq> [] \<and> time (hd (event_queue t)) \<le> global_timer t"

inductive fires ::
  "('e, 's) callback \<Rightarrow> 'e timing \<times> 's \<Rightarrow> 'e Event list \<Rightarrow> 'e timing \<times> 's \<Rightarrow> bool" for cb where
  fires_none: "fires cb x [] x"
| fires_front: "due (fst x) \<Longrightarrow> fire_front cb (hd (event_queue (fst x))) x = Some y \<Longrightarrow> fires cb y es z \<Longrightarrow>
    fires cb x (hd (event_queue (fst x)) # es) z"

inductive_cases fires_ConsE: "fires cb x (e # es) z"

lemma dispatch_due_step:
  "dispatch_due cb x = (if due (fst x) then Option.bind (fire_front cb (hd (event_queue (fst x))) x) (dispatch_due cb) else Some x)"
  by (subst dispatch_due.simps) (simp add: due_def)

text \<open>Several calls of \<open>ScheduleEvent\<close> from the CPU thread.\<close>

definition schedule_all :: "(int \<times> 'e \<times> u64) list \<Rightarrow> 'e timing \<Rightarrow> 'e timing" where
  "schedule_all calls = fold (\<lambda>(c, e, u). CoreTiming_ScheduleEvent c e u True) calls"

lemma schedule_all_simps [simp]:
  "schedule_all [] t = t"
  "schedule_all ((c, e, u) # calls) t = schedule_all calls (CoreTiming_ScheduleEvent c e u True t)"
  by (simp_all add: schedule_all_def)

lemma schedule_sane:
  "is_global_timer_sane t \<Longrightarrow> is_global_timer_sane (CoreTiming_ScheduleEvent c e u True t) \<and>
     global_timer (CoreTiming_ScheduleEvent c e u True t) = global_timer t \<and>
     ts_queue (CoreTiming_ScheduleEvent c e u True t) = ts_queue t \<and>
     ticks_of (CoreTiming_ScheduleEvent c e u True t) = global_timer t \<and> ticks_of t = global_timer t"
  by (simp add: CoreTiming_ScheduleEvent_def ticks_of_def Let_def)

lemma schedule_all_sane:
  "is_global_timer_sane t \<Longrightarrow> is_global_timer_sane (schedule_all calls t) \<and>
     global_timer (schedule_all calls t) = global_timer t \<and> ts_queue (schedule_all calls t) = ts_queue t"
  by (induction calls arbitrary: t) (auto simp: schedule_sane)

lemma queue_ok_schedule_all: "queue_ok t \<Longrightarrow> queue_ok (schedule_all calls t)"
  by (induction calls arbitrary: t) (auto simp: queue_ok_schedule)

lemma schedule_all_fifo: "event_fifo_id (schedule_all calls t) = event_fifo_id t + length calls"
  by (induction calls arbitrary: t) (auto simp: schedule_queue)

text \<open>The events that scheduling adds.\<close>

fun new_events :: "int \<Rightarrow> nat \<Rightarrow> (int \<times> 'e \<times> u64) list \<Rightarrow> 'e Event list" where
  "new_events now i [] = []"
| "new_events now i ((c, e, u) # calls) =
    \<lparr>time = now + c, fifo_order = i, userdata = u, ev_type = e\<rparr> # new_events now (Suc i) calls"

lemma schedule_all_queue:
  "is_global_timer_sane t \<Longrightarrow>
     mset (event_queue (schedule_all calls t)) =
       mset (event_queue t) + mset (new_events (global_timer t) (event_fifo_id t) calls)"
  by (induction calls arbitrary: t) (auto simp: schedule_sane schedule_queue)

lemma new_events_fifo: "n \<in> set (new_events now i calls) \<Longrightarrow> i \<le> fifo_order n"
  by (induction calls arbitrary: i) (fastforce dest: Suc_leD)+

lemma new_events_call:
  "n \<in> set (new_events now i calls) \<Longrightarrow> (time n - now, ev_type n, userdata n) \<in> set calls"
  by (induction now i calls rule: new_events.induct) auto

section \<open>The contract\<close>

locale polite_callbacks =
  fixes cb :: "('e, 's) callback" and rank :: "'e \<Rightarrow> nat" and I :: "'s \<Rightarrow> bool"
  assumes polite: "I s \<Longrightarrow> is_global_timer_sane t \<Longrightarrow> 0 \<le> late \<Longrightarrow>
    \<exists>calls s'. cb e u late (t, s) = Some (schedule_all calls t, s') \<and> I s' \<and>
      (\<forall>(c, e', u') \<in> set calls. 0 < late + c \<or> 0 \<le> late + c \<and> rank e' < rank e)"
begin

lemma fire_front_step:
  assumes "due t" "queue_ok t" "I s" "is_global_timer_sane t"
  obtains calls s' where
    "fire_front cb (hd (event_queue t)) (t, s) =
       Some (schedule_all calls (t\<lparr>event_queue := tl (event_queue t)\<rparr>), s')"
    "I s'"
    "\<And>n. n \<in> set (new_events (global_timer t) (event_fifo_id t) calls) \<Longrightarrow>
       time (hd (event_queue t)) < time n \<or>
       time (hd (event_queue t)) \<le> time n \<and> rank (ev_type n) < rank (ev_type (hd (event_queue t)))"
proof -
  let ?e = "hd (event_queue t)" and ?t = "t\<lparr>event_queue := tl (event_queue t)\<rparr>"
  have late: "0 \<le> global_timer t - time ?e" using assms by (simp add: due_def)
  obtain calls s' where *: "cb (ev_type ?e) (userdata ?e) (global_timer t - time ?e) (?t, s) = Some (schedule_all calls ?t, s')"
    "I s'" "\<forall>(c, e', u') \<in> set calls. 0 < global_timer t - time ?e + c \<or>
        0 \<le> global_timer t - time ?e + c \<and> rank e' < rank (ev_type ?e)"
    using polite [OF assms(3) _ late, of ?t "ev_type ?e" "userdata ?e"] assms(4) by auto
  have "time ?e < time n \<or> time ?e \<le> time n \<and> rank (ev_type n) < rank (ev_type ?e)"
    if "n \<in> set (new_events (global_timer t) (event_fifo_id t) calls)" for n
    using bspec [OF *(3) new_events_call [OF that]] by auto
  then show ?thesis using that * by (simp add: fire_front_def)
qed

text \<open>The loop ends: every round replaces the front event by finitely many smaller ones.\<close>

definition due_weights :: "'e timing \<Rightarrow> (nat \<times> nat) multiset" where
  "due_weights t = image_mset (\<lambda>e. (nat (global_timer t - time e), rank (ev_type e)))
     (filter_mset (\<lambda>e. time e \<le> global_timer t) (mset (event_queue t)))"

lemma weights_decrease:
  assumes "due t" "is_global_timer_sane t"
    and "\<And>n. n \<in> set (new_events (global_timer t) (event_fifo_id t) calls) \<Longrightarrow>
       time (hd (event_queue t)) < time n \<or>
       time (hd (event_queue t)) \<le> time n \<and> rank (ev_type n) < rank (ev_type (hd (event_queue t)))"
  shows "(due_weights (schedule_all calls (t\<lparr>event_queue := tl (event_queue t)\<rparr>)), due_weights t)
     \<in> mult (less_than <*lex*> less_than)"
proof -
  let ?f = "\<lambda>e. (nat (global_timer t - time e), rank (ev_type e))" and ?now = "\<lambda>e. time e \<le> global_timer t"
  let ?e = "hd (event_queue t)" and ?new = "new_events (global_timer t) (event_fifo_id t) calls"
  let ?rest = "image_mset ?f (filter_mset ?now (mset (tl (event_queue t))))"
  have q: "event_queue t = ?e # tl (event_queue t)" using assms(1) by (simp add: due_def)
  have old: "due_weights t = ?rest + {#?f ?e#}"
    unfolding due_weights_def using assms(1) by (cases "event_queue t") (auto simp: due_def)
  have new: "due_weights (schedule_all calls (t\<lparr>event_queue := tl (event_queue t)\<rparr>)) =
      ?rest + image_mset ?f (filter_mset ?now (mset ?new))"
    using schedule_all_queue [of "t\<lparr>event_queue := tl (event_queue t)\<rparr>" calls]
      schedule_all_sane [of "t\<lparr>event_queue := tl (event_queue t)\<rparr>" calls] assms(2)
    by (simp add: due_weights_def)
  show ?thesis unfolding old new
  proof (rule one_step_implies_mult)
    show "\<forall>k \<in> set_mset (image_mset ?f (filter_mset ?now (mset ?new))).
        \<exists>j \<in> set_mset {#?f ?e#}. (k, j) \<in> less_than <*lex*> less_than"
      using assms(1,3) by (force simp: due_def)
  qed simp
qed

lemma dispatch_returns:
  "queue_ok t \<Longrightarrow> I s \<Longrightarrow> is_global_timer_sane t \<Longrightarrow>
     \<exists>es t' s'. fires cb (t, s) es (t', s') \<and> dispatch_due cb (t, s) = Some (t', s') \<and> \<not> due t'"
proof (induction "due_weights t" arbitrary: t s rule: wf_induct_rule [OF wf_mult [OF wf_lex_prod [OF wf_less_than wf_less_than]]])
  case (1 t s)
  show ?case
  proof (cases "due t")
    case False
    then show ?thesis by (subst dispatch_due_step) (auto intro: fires_none)
  next
    case True
    obtain calls s' where step: "fire_front cb (hd (event_queue t)) (t, s) =
        Some (schedule_all calls (t\<lparr>event_queue := tl (event_queue t)\<rparr>), s')" "I s'"
      and less: "(due_weights (schedule_all calls (t\<lparr>event_queue := tl (event_queue t)\<rparr>)), due_weights t)
        \<in> mult (less_than <*lex*> less_than)"
      using fire_front_step [OF True 1(2-4)] weights_decrease [OF True 1(4)] by metis
    have ok: "queue_ok (schedule_all calls (t\<lparr>event_queue := tl (event_queue t)\<rparr>))"
      "is_global_timer_sane (schedule_all calls (t\<lparr>event_queue := tl (event_queue t)\<rparr>))"
      using 1(2,4) by (simp_all add: queue_ok_schedule_all queue_ok_tl schedule_all_sane)
    obtain es t' s'' where "fires cb (schedule_all calls (t\<lparr>event_queue := tl (event_queue t)\<rparr>), s') es (t', s'')"
      "dispatch_due cb (schedule_all calls (t\<lparr>event_queue := tl (event_queue t)\<rparr>), s') = Some (t', s'')" "\<not> due t'"
      using 1(1) [OF less ok(1) step(2) ok(2)] by blast
    then have "fires cb (t, s) (hd (event_queue t) # es) (t', s'') \<and> dispatch_due cb (t, s) = Some (t', s'') \<and> \<not> due t'"
      using True step(1) by (subst dispatch_due_step) (auto intro: fires_front [of "(t, s)", simplified])
    then show ?thesis by blast
  qed
qed

text \<open>What one round does to the queue and the rest.\<close>

lemma fire_effect:
  assumes "fire_front cb (hd (event_queue t)) (t, s) = Some (t', s')"
    and "due t" "queue_ok t" "I s" "is_global_timer_sane t"
  shows "queue_ok t'" "I s'" "is_global_timer_sane t'" "global_timer t' = global_timer t" "ts_queue t' = ts_queue t"
    "event_fifo_id t \<le> event_fifo_id t'" "set (tl (event_queue t)) \<subseteq> set (event_queue t')"
    "\<And>e. e \<in> set (event_queue t') \<Longrightarrow> e \<in> set (tl (event_queue t)) \<or>
       time (hd (event_queue t)) \<le> time e \<and> event_fifo_id t \<le> fifo_order e"
proof -
  let ?t = "t\<lparr>event_queue := tl (event_queue t)\<rparr>"
  obtain calls where t': "t' = schedule_all calls ?t" and s': "I s'"
    and new: "\<And>n. n \<in> set (new_events (global_timer t) (event_fifo_id t) calls) \<Longrightarrow> time (hd (event_queue t)) \<le> time n"
    using fire_front_step [OF assms(2-5)] assms(1) by (metis Pair_inject less_imp_le option.inject)
  have q: "set (event_queue t') = set (tl (event_queue t)) \<union> set (new_events (global_timer t) (event_fifo_id t) calls)"
    using arg_cong [OF schedule_all_queue [of ?t calls], of set_mset] assms(5) by (simp add: t')
  show "queue_ok t'" "I s'" "is_global_timer_sane t'" "global_timer t' = global_timer t" "ts_queue t' = ts_queue t"
    "event_fifo_id t \<le> event_fifo_id t'"
    using assms s' by (simp_all add: t' queue_ok_schedule_all queue_ok_tl schedule_all_sane schedule_all_fifo)
  show "set (tl (event_queue t)) \<subseteq> set (event_queue t')" by (simp add: q)
  show "\<And>e. e \<in> set (event_queue t') \<Longrightarrow> e \<in> set (tl (event_queue t)) \<or>
       time (hd (event_queue t)) \<le> time e \<and> event_fifo_id t \<le> fifo_order e"
    using new new_events_fifo q by blast
qed

lemma queue_front:
  assumes "due t" "queue_ok t"
  shows "event_queue t = hd (event_queue t) # tl (event_queue t)" "fifo_order (hd (event_queue t)) < event_fifo_id t"
    "\<And>e. e \<in> set (tl (event_queue t)) \<Longrightarrow> earlier (hd (event_queue t)) e \<and> fifo_order e \<noteq> fifo_order (hd (event_queue t))"
proof -
  obtain a q where q: "event_queue t = a # q" using assms(1) by (cases "event_queue t") (auto simp: due_def)
  show "event_queue t = hd (event_queue t) # tl (event_queue t)" by (simp add: q)
  show "fifo_order (hd (event_queue t)) < event_fifo_id t" using assms(2) by (simp add: queue_ok_def q)
  show "earlier (hd (event_queue t)) e \<and> fifo_order e \<noteq> fifo_order (hd (event_queue t))"
    if "e \<in> set (tl (event_queue t))" for e
    using assms(2) that by (auto simp: queue_ok_def q dest: image_eqI [of "fifo_order a" fifo_order e, OF sym])
qed

text \<open>Everything fired after an event that is ahead of the whole queue comes after it.\<close>

lemma fires_after:
  "fires cb x es y \<Longrightarrow> queue_ok (fst x) \<Longrightarrow> I (snd x) \<Longrightarrow> is_global_timer_sane (fst x) \<Longrightarrow>
     fifo_order f < event_fifo_id (fst x) \<Longrightarrow>
     \<forall>e \<in> set (event_queue (fst x)). earlier f e \<and> fifo_order e \<noteq> fifo_order f \<Longrightarrow>
     \<forall>e \<in> set es. earlier f e \<and> fifo_order e \<noteq> fifo_order f"
proof (induction rule: fires.induct)
  case (fires_front x y es z)
  obtain t s t' s' where x: "x = (t, s)" "y = (t', s')" by (cases x, cases y)
  have h: "due t" "queue_ok t" "I s" "is_global_timer_sane t" using fires_front x by simp_all
  note eff = fire_effect [OF fires_front(2) [unfolded x, simplified] h]
  have f: "earlier f (hd (event_queue t))" "fifo_order (hd (event_queue t)) \<noteq> fifo_order f"
    using fires_front.prems(5) queue_front(1) [OF h(1,2)] x by (metis fst_conv list.set_intros(1))+
  have "earlier f e \<and> fifo_order e \<noteq> fifo_order f" if "e \<in> set (event_queue t')" for e
    using eff(8) [OF that]
  proof
    assume "e \<in> set (tl (event_queue t))"
    then show ?thesis using fires_front.prems(5) queue_front(1) [OF h(1,2)] x by (metis fst_conv list.set_intros(2))
  next
    assume "time (hd (event_queue t)) \<le> time e \<and> event_fifo_id t \<le> fifo_order e"
    then show ?thesis using f fires_front.prems(4) x by (auto simp: earlier_def)
  qed
  then show ?case using fires_front.IH f fires_front.prems(4) eff(1-3,6) x by simp
qed simp

lemma fires_in_order:
  "fires cb x es y \<Longrightarrow> queue_ok (fst x) \<Longrightarrow> I (snd x) \<Longrightarrow> is_global_timer_sane (fst x) \<Longrightarrow>
     sorted_wrt earlier es \<and> distinct (map fifo_order es) \<and> (\<forall>e \<in> set es. time e \<le> global_timer (fst x))"
proof (induction rule: fires.induct)
  case (fires_front x y es z)
  obtain t s t' s' where x: "x = (t, s)" "y = (t', s')" by (cases x, cases y)
  have h: "due t" "queue_ok t" "I s" "is_global_timer_sane t" using fires_front x by simp_all
  note eff = fire_effect [OF fires_front(2) [unfolded x, simplified] h] and q = queue_front [OF h(1,2)]
  have "earlier (hd (event_queue t)) e \<and> fifo_order e \<noteq> fifo_order (hd (event_queue t))"
    if "e \<in> set (event_queue t')" for e
    using eff(8) [OF that] q(3) [of e] q(2) by (auto simp: earlier_def)
  then have "\<forall>e \<in> set es. earlier (hd (event_queue t)) e \<and> fifo_order e \<noteq> fifo_order (hd (event_queue t))"
    using fires_after [OF fires_front(3), unfolded x fst_conv snd_conv, OF eff(1-3) order.strict_trans2 [OF q(2) eff(6)]] by blast
  moreover have "sorted_wrt earlier es \<and> distinct (map fifo_order es) \<and> (\<forall>e \<in> set es. time e \<le> global_timer t)"
    using fires_front.IH [unfolded x fst_conv snd_conv, OF eff(1-3)] eff(4) by simp
  moreover have "fifo_order (hd (event_queue t)) \<notin> fifo_order ` set es" using calculation(1) by (metis imageE)
  ultimately show ?case using h(1) by (simp add: x due_def)
qed simp

lemma fires_keeps:
  "fires cb x es y \<Longrightarrow> queue_ok (fst x) \<Longrightarrow> I (snd x) \<Longrightarrow> is_global_timer_sane (fst x) \<Longrightarrow>
     queue_ok (fst y) \<and> I (snd y) \<and> is_global_timer_sane (fst y) \<and> global_timer (fst y) = global_timer (fst x) \<and>
     ts_queue (fst y) = ts_queue (fst x) \<and> set (event_queue (fst x)) \<subseteq> set es \<union> set (event_queue (fst y))"
proof (induction rule: fires.induct)
  case (fires_front x y es z)
  obtain t s t' s' where x: "x = (t, s)" "y = (t', s')" by (cases x, cases y)
  have h: "due t" "queue_ok t" "I s" "is_global_timer_sane t" using fires_front x by simp_all
  note eff = fire_effect [OF fires_front(2) [unfolded x, simplified] h]
  have "set (event_queue t) = insert (hd (event_queue t)) (set (tl (event_queue t)))"
    using queue_front(1) [OF h(1,2)] by (metis list.simps(15))
  then show ?case using fires_front.IH eff(1-5,7) x by auto
qed simp

text \<open>What a callback of one type establishes and all callbacks keep holds once that type has fired.\<close>

lemma fires_establish:
  assumes est: "\<And>u late t s t' s'. I s \<Longrightarrow> cb p u late (t, s) = Some (t', s') \<Longrightarrow> P s'"
    and keep: "\<And>e u late t s t' s'. I s \<Longrightarrow> is_global_timer_sane t \<Longrightarrow> 0 \<le> late \<Longrightarrow> P s \<Longrightarrow>
      cb e u late (t, s) = Some (t', s') \<Longrightarrow> P s'"
  shows "fires cb x es y \<Longrightarrow> queue_ok (fst x) \<Longrightarrow> I (snd x) \<Longrightarrow> is_global_timer_sane (fst x) \<Longrightarrow>
    P (snd x) \<or> p \<in> ev_type ` set es \<Longrightarrow> P (snd y)"
proof (induction rule: fires.induct)
  case (fires_front x y es z)
  obtain t s t' s' where x: "x = (t, s)" "y = (t', s')" by (cases x, cases y)
  have h: "due t" "queue_ok t" "I s" "is_global_timer_sane t" using fires_front x by simp_all
  note eff = fire_effect [OF fires_front(2) [unfolded x, simplified] h]
  have cb: "cb (ev_type (hd (event_queue t))) (userdata (hd (event_queue t)))
      (global_timer t - time (hd (event_queue t))) (t\<lparr>event_queue := tl (event_queue t)\<rparr>, s) = Some (t', s')"
    using fires_front(2) x by (simp add: fire_front_def)
  have "P s'" if "P s \<or> ev_type (hd (event_queue t)) = p"
    using that est [OF h(3)] keep [OF h(3) _ _ _ cb] cb h(1,4) by (auto simp: due_def)
  then show ?case using fires_front.IH fires_front.prems(4) eff(1-3) x by auto
qed auto

text \<open>The whole loop: everything due is fired, in order and once, and nothing else.\<close>

lemma dispatch_spec:
  assumes "queue_ok t" "I s" "is_global_timer_sane t"
  obtains es t' s' where "dispatch_due cb (t, s) = Some (t', s')" "fires cb (t, s) es (t', s')"
    "sorted_wrt earlier es" "distinct (map fifo_order es)" "\<forall>e \<in> set es. time e \<le> global_timer t"
    "\<forall>e \<in> set (event_queue t'). global_timer t < time e"
    "\<forall>e \<in> set (event_queue t). if time e \<le> global_timer t then e \<in> set es else e \<in> set (event_queue t')"
    "queue_ok t'" "I s'" "is_global_timer_sane t'" "global_timer t' = global_timer t" "ts_queue t' = ts_queue t"
proof -
  obtain es t' s' where d: "dispatch_due cb (t, s) = Some (t', s')" "fires cb (t, s) es (t', s')" "\<not> due t'"
    using dispatch_returns [OF assms] by blast
  note keep = fires_keeps [OF d(2), simplified, OF assms] and order = fires_in_order [OF d(2), simplified, OF assms]
  have "global_timer t' < time e" if "e \<in> set (event_queue t')" for e
    using queue.front [of "event_queue t'" e] keep d(3) that by (auto simp: queue_ok_def due_def earlier_def)
  then show ?thesis using that d keep order by force
qed

end

text \<open>\<open>es\<close> are the events whose callbacks \<open>Advance\<close> calls, in order.\<close>

definition fired_by :: "('e, 's) callback \<Rightarrow> 'e timing \<times> 's \<Rightarrow> 'e Event list \<Rightarrow> bool" where
  "fired_by cb x es \<longleftrightarrow> (\<exists>y. fires cb (map_prod end_slice id x) es y \<and>
     Advance cb x = Some (map_prod begin_slice id y))"

lemma begin_slice_simps [simp]:
  "event_queue (begin_slice t) = event_queue t" "global_timer (begin_slice t) = global_timer t"
  "ts_queue (begin_slice t) = ts_queue t" "\<not> is_global_timer_sane (begin_slice t)"
  by (simp_all add: begin_slice_def Let_def)

lemma move_events_keep:
  "global_timer (fold move_event evs t) = global_timer t" "slice_length (fold move_event evs t) = slice_length t"
  "downcount (fold move_event evs t) = downcount t" "last_oc (fold move_event evs t) = last_oc t"
  "is_global_timer_sane (fold move_event evs t) = is_global_timer_sane t" "config_oc (fold move_event evs t) = config_oc t"
  by (induction evs arbitrary: t) (simp_all add: move_event_def)

lemma end_slice_simps [simp]:
  "event_queue (end_slice t) = event_queue (MoveEvents t)" "ts_queue (end_slice t) = []"
  "is_global_timer_sane (end_slice t)"
  "global_timer (end_slice t) = global_timer t + (slice_length t - DowncountToCycles t (downcount t))"
  by (simp_all add: end_slice_def MoveEvents_def move_events_keep DowncountToCycles_def Let_def)

section \<open>The periodic events\<close>

text \<open>
  A callback of type \<open>p\<close> that schedules itself \<open>k - late\<close> cycles ahead, and is scheduled by no
  other, fires at exact multiples of its period however late the single calls are.
\<close>

definition times_of :: "'e \<Rightarrow> 'e Event list \<Rightarrow> int list" where
  "times_of p q = map time (filter (\<lambda>e. ev_type e = p) q)"

locale periodic_callback = polite_callbacks +
  fixes p :: 'a and k :: int
  assumes period_pos: "0 < k"
    and periodic: "I s \<Longrightarrow> is_global_timer_sane t \<Longrightarrow> 0 \<le> late \<Longrightarrow>
      \<exists>calls s'. cb e u late (t, s) = Some (schedule_all calls t, s') \<and>
        map fst (filter (\<lambda>c. fst (snd c) = p) calls) = (if e = p then [k - late] else [])"
begin

lemma times_new_events:
  "times_of q (new_events now i calls) = map (\<lambda>c. now + fst c) (filter (\<lambda>c. fst (snd c) = q) calls)"
  by (induction now i calls rule: new_events.induct) (simp_all add: times_of_def)

lemma mset_times: "mset q = mset q' \<Longrightarrow> mset (times_of e q) = mset (times_of e q')"
  by (simp add: times_of_def mset_map mset_filter)

lemma times_append [simp]: "times_of e (q @ q') = times_of e q @ times_of e q'"
  by (simp add: times_of_def)

lemma periodic_step:
  assumes "fire_front cb (hd (event_queue t)) (t, s) = Some (t', s')"
    and "due t" "queue_ok t" "I s" "is_global_timer_sane t" "times_of p (event_queue t) = [\<tau>]"
  shows "times_of p (event_queue t') = [if ev_type (hd (event_queue t)) = p then \<tau> + k else \<tau>]"
    "ev_type (hd (event_queue t)) = p \<Longrightarrow> time (hd (event_queue t)) = \<tau>"
proof -
  let ?e = "hd (event_queue t)" and ?t = "t\<lparr>event_queue := tl (event_queue t)\<rparr>"
  have old: "times_of p (event_queue t) = (if ev_type ?e = p then [time ?e] else []) @ times_of p (tl (event_queue t))"
    by (cases "event_queue t") (use assms(2) in \<open>simp_all add: times_of_def due_def\<close>)
  then show "ev_type ?e = p \<Longrightarrow> time ?e = \<tau>" using assms(6) by simp
  have late: "0 \<le> global_timer t - time ?e" using assms(2) by (simp add: due_def)
  obtain calls where t': "t' = schedule_all calls ?t"
    and calls: "map fst (filter (\<lambda>c. fst (snd c) = p) calls) = (if ev_type ?e = p then [k - (global_timer t - time ?e)] else [])"
    using periodic [OF assms(4) _ late, of ?t "ev_type ?e" "userdata ?e"] assms(1,5) by (auto simp: fire_front_def)
  have "mset (times_of p (event_queue t')) =
      mset (times_of p (tl (event_queue t) @ new_events (global_timer t) (event_fifo_id t) calls))"
    using schedule_all_queue [of ?t calls] assms(5) by (intro mset_times) (simp add: t')
  also have "times_of p (tl (event_queue t) @ new_events (global_timer t) (event_fifo_id t) calls) =
      times_of p (tl (event_queue t)) @ map ((+) (global_timer t)) (map fst (filter (\<lambda>c. fst (snd c) = p) calls))"
    by (simp add: times_new_events)
  also have "\<dots> = [if ev_type ?e = p then \<tau> + k else \<tau>]"
    unfolding calls using old assms(6) by auto
  finally show "times_of p (event_queue t') = [if ev_type ?e = p then \<tau> + k else \<tau>]"
    by simp
qed

lemma fires_periodic:
  "fires cb x es y \<Longrightarrow> queue_ok (fst x) \<Longrightarrow> I (snd x) \<Longrightarrow> is_global_timer_sane (fst x) \<Longrightarrow>
     times_of p (event_queue (fst x)) = [\<tau>] \<Longrightarrow>
     \<exists>n. times_of p es = map (\<lambda>i. \<tau> + k * int i) [0..<n] \<and> times_of p (event_queue (fst y)) = [\<tau> + k * int n]"
proof (induction arbitrary: \<tau> rule: fires.induct)
  case (fires_none x)
  then show ?case by (intro exI [of _ 0]) (simp add: times_of_def)
next
  case (fires_front x y es z)
  obtain t s t' s' where x: "x = (t, s)" "y = (t', s')" by (cases x, cases y)
  have h: "due t" "queue_ok t" "I s" "is_global_timer_sane t" "times_of p (event_queue t) = [\<tau>]"
    using fires_front x by simp_all
  let ?e = "hd (event_queue t)"
  note eff = fire_effect [OF fires_front(2) [unfolded x, simplified] h(1-4)]
    and step = periodic_step [OF fires_front(2) [unfolded x, simplified] h]
  obtain n where n: "times_of p es = map (\<lambda>i. (if ev_type ?e = p then \<tau> + k else \<tau>) + k * int i) [0..<n]"
    "times_of p (event_queue (fst z)) = [(if ev_type ?e = p then \<tau> + k else \<tau>) + k * int n]"
    using fires_front.IH [unfolded x fst_conv snd_conv, OF eff(1-3) step(1)] by blast
  show ?case
  proof (cases "ev_type ?e = p")
    case True
    have "times_of p (?e # es) = map (\<lambda>i. \<tau> + k * int i) [0..<Suc n]"
      using True n(1) step(2) by (simp add: times_of_def upt_conv_Cons map_Suc_upt [symmetric] algebra_simps del: upt_Suc)
    then show ?thesis using n(2) True x by (intro exI [of _ "Suc n"]) (simp add: algebra_simps)
  next
    case False
    then show ?thesis using n x by (intro exI [of _ n]) (simp add: times_of_def)
  qed
qed

end

section \<open>Slices end in time\<close>

text \<open>What the CPU thread does between two calls of \<open>Advance\<close>.\<close>

inductive in_slice :: "'e timing \<Rightarrow> bool" where
  begin_slice: "queue_ok t \<Longrightarrow> in_slice (begin_slice t)"
| run: "in_slice t \<Longrightarrow> 0 \<le> d \<Longrightarrow> in_slice (run_cpu d t)"
| idle: "in_slice t \<Longrightarrow> in_slice (CoreTiming_Idle t)"
| schedule: "in_slice t \<Longrightarrow> 0 \<le> c \<Longrightarrow> in_slice (CoreTiming_ScheduleEvent c e u from_cpu t)"
| remove: "in_slice t \<Longrightarrow> in_slice (RemoveEvent e t)"
| force: "in_slice t \<Longrightarrow> in_slice (ForceExceptionCheck c t)"
| config: "in_slice t \<Longrightarrow> in_slice (RefreshConfig oc t)"

definition slice_covers :: "'e timing \<Rightarrow> bool" where
  "slice_covers t \<longleftrightarrow> queue_ok t \<and> \<not> is_global_timer_sane t \<and>
     (\<forall>e \<in> set (event_queue t). global_timer t + slice_length t \<le> time e)"

lemma covers_begin:
  assumes "queue_ok t"
  shows "slice_covers (begin_slice t)"
proof -
  have "time (hd (event_queue t)) \<le> time e" if "e \<in> set (event_queue t)" for e
    using queue.front [of "event_queue t" e] assms that by (auto simp: queue_ok_def earlier_def)
  then have "\<forall>e \<in> set (event_queue t). global_timer t + slice_length (begin_slice t) \<le> time e"
    by (force simp: begin_slice_def Let_def)
  then show ?thesis using assms by (simp add: slice_covers_def queue_ok_begin_slice)
qed

lemma force_covers: "slice_covers t \<Longrightarrow> slice_covers (ForceExceptionCheck c t)"
  by (auto simp: slice_covers_def queue_ok_def ForceExceptionCheck_def Let_def)

lemma force_bound:
  "\<not> is_global_timer_sane t \<Longrightarrow> 0 \<le> c \<Longrightarrow>
     global_timer (ForceExceptionCheck c t) + slice_length (ForceExceptionCheck c t) \<le> ticks_of t + c"
  by (simp add: ForceExceptionCheck_def ticks_of_def Let_def)

lemma in_slice_covers: "in_slice t \<Longrightarrow> slice_covers t"
proof (induction rule: in_slice.induct)
  case (schedule t c e u from_cpu)
  show ?case
  proof (cases from_cpu)
    case True
    have "slice_covers (ForceExceptionCheck c t)" using schedule by (simp add: force_covers)
    then have "\<forall>x \<in> set (event_queue t). global_timer t + slice_length (ForceExceptionCheck c t) \<le> time x"
      by (simp add: slice_covers_def)
    moreover have "global_timer t + slice_length (ForceExceptionCheck c t) \<le> ticks_of t + c"
      using force_bound [of t c] schedule by (simp add: slice_covers_def)
    moreover have "queue_ok (CoreTiming_ScheduleEvent c e u True t)" "\<not> is_global_timer_sane t"
      using schedule by (simp_all add: slice_covers_def queue_ok_schedule)
    ultimately show ?thesis using True by (simp add: slice_covers_def CoreTiming_ScheduleEvent_def Let_def)
  next
    case False
    then show ?thesis using schedule by (simp add: slice_covers_def queue_ok_def CoreTiming_ScheduleEvent_def)
  qed
next
  case (remove t e)
  then show ?case using queue_ok_remove [of t e] by (auto simp: slice_covers_def RemoveEvent_def)
qed (simp_all add: covers_begin force_covers, simp_all add: slice_covers_def queue_ok_def run_cpu_def CoreTiming_Idle_def
  RefreshConfig_def)

end
