(* ===== verification/Console_Clock.thy ===== *)
theory Console_Clock
  imports Console_System Core_Advance Dsp_Console
begin

text \<open>
  The console driven by its scheduler: every callback keeps to the contract of the scheduler, so
  \<open>Advance\<close> returns and fires what is due in order.  The periodic callbacks keep their period
  exactly, and what the DSP interface schedules arrives when it should.
\<close>

section \<open>The invariant of the machine between events\<close>

definition core_runs :: "DSPManager \<Rightarrow> bool" where
  "core_runs m \<longleftrightarrow> m_core_state (m_dsp_core (m_dsp_emulator m)) = Running \<and> \<not> m_is_dsp_on_thread (m_dsp_emulator m)"

definition divisors :: "u32 set" where
  "divisors = {2248, 3372, 2250, 3375}"

definition clocks_ok :: "console \<Rightarrow> bool" where
  "clocks_ok c \<longleftrightarrow> m_cpu_core_clock c \<in> {486000000, 729000000} \<and>
     m_aid_sample_rate_divisor (ai c) \<in> divisors \<and> m_ais_sample_rate_divisor (ai c) \<in> divisors \<and>
     m_cpu_cycles_per_sample (ai c) \<noteq> 0 \<and> m_cpu_cycles_per_sample (ai c) < 0x8000"

text \<open>\<open>f\<close> is the clock of the CPU and \<open>d\<close> the divisor of the audio DMA, which no callback changes.\<close>

definition machine_ok :: "u32 \<Rightarrow> u32 \<Rightarrow> console \<Rightarrow> bool" where
  "machine_ok f d c \<longleftrightarrow> core_runs (dsp_if c) \<and> requests (dsp_if c) = [] \<and> clocks_ok c \<and>
     m_cpu_core_clock c = f \<and> m_aid_sample_rate_divisor (ai c) = d"

text \<open>Lower ranks fire last among events scheduled for the same time by a callback.\<close>

definition rank_of :: "EventType \<Rightarrow> nat" where
  "rank_of e = (if e = Ev_DSPint then 0 else 1)"

lemma requests_Nil: "requests m = [] \<longleftrightarrow> h_irq (host_of m) = 0 \<and> scheduled m = []"
  by (simp add: requests_def)

lemma requests_take [simp]: "requests (take_requests m) = []"
  by (simp add: requests_def take_requests_def upd_host_def)

lemma core_runs_take [simp]: "core_runs (take_requests m) = core_runs m"
  by (simp add: core_runs_def take_requests_def upd_host_def)

lemma pass_requests_all: "pass_requests m (t, c) = (schedule_all (requests m) t, c\<lparr>dsp_if := take_requests m\<rparr>)"
  by (simp add: pass_requests_def schedule_all_def)

lemma pass_no_requests: "requests m = [] \<Longrightarrow> pass_requests m (t, c) = (t, c\<lparr>dsp_if := take_requests m\<rparr>)"
  by (simp add: pass_requests_all)

lemma slice_result:
  assumes "core_runs m"
  obtains m' where "UpdateDSPSlice ws det n m = Some m'" "core_runs m'" "scheduled m' = scheduled m"
proof -
  note run = dsp_update_running [of "m_dsp_emulator m" ws det "m_dsp_slice m"]
  show ?thesis using that run assms
    by (fastforce simp: UpdateDSPSlice_def emulator_update_def core_runs_def split: if_splits)
qed

lemma interrupts_keep [simp]:
  "m_dsp_emulator (GenerateDSPInterrupt v m) = m_dsp_emulator m" "scheduled (GenerateDSPInterrupt v m) = scheduled m"
  "m_dsp_emulator (CompleteARAM m) = m_dsp_emulator m" "scheduled (CompleteARAM m) = scheduled m"
  "m_dsp_emulator (UpdateAudioDMA m) = m_dsp_emulator m" "scheduled (UpdateAudioDMA m) = scheduled m"
  by (simp_all add: GenerateDSPInterrupt_def CompleteARAM_def UpdateInterrupts_def UpdateAudioDMA_def Let_def)

lemma keep_emulator: "m_dsp_emulator m' = m_dsp_emulator m \<Longrightarrow> scheduled m' = scheduled m \<Longrightarrow>
    core_runs m' = core_runs m \<and> requests m' = requests m"
  by (simp add: core_runs_def requests_def)

section \<open>Periods\<close>

lemma to_int_small:
  assumes "uint x < 2 ^ 31"
  shows "to_int x = uint x"
proof -
  have "- (2 ^ 31) \<le> uint x" by (rule order_trans [OF _ uint_ge_0]) simp
  then have "signed_take_bit 31 (uint x) = uint x" using assms by (intro signed_take_bit_int_eq_self) simp_all
  then show ?thesis using assms by (simp add: to_int_def sint_uint unsigned_ucast_eq take_bit_int_eq_self)
qed

lemma uint_pos: "x \<noteq> 0 \<Longrightarrow> 0 < uint (x :: u64)"
  using uint_ge_0 [of x] uint_0_iff [of x] by linarith

lemma uint_mult_small: "uint x * uint y < 2 ^ 64 \<Longrightarrow> uint (x * y) = uint x * uint (y :: u64)"
  by (simp add: uint_word_ariths)

lemma AudioDMA_period:
  assumes "clocks_ok c"
  shows "0 < GetAudioDMACallbackPeriod (m_cpu_core_clock c) (m_aid_sample_rate_divisor (ai c))"
  using assms by (auto simp: clocks_ok_def divisors_def GetAudioDMACallbackPeriod_def to_int_def)

lemma AI_period:
  assumes "clocks_ok c"
  shows "0 < GetAIPeriod c"
proof -
  let ?cps = "m_cpu_cycles_per_sample (ai c)" and ?d = "m_ais_sample_rate_divisor (ai c)"
  let ?n = "m_interrupt_timing (ai c) - m_sample_counter (ai c)"
  let ?p = "?cps * ucast ?n :: u64" and ?s = "?cps * 108000000 div ucast ?d :: u64"
  have cps: "0 < uint ?cps" "uint ?cps < 0x8000"
    using assms uint_pos [of ?cps] by (auto simp: clocks_ok_def word_less_def)
  have d: "uint (ucast ?d :: u64) \<in> {2248, 3372, 2250, 3375}"
    using assms by (auto simp: clocks_ok_def divisors_def)
  have m: "uint (?cps * 108000000) = uint ?cps * 108000000"
    using cps by (subst uint_mult_small) simp_all
  have s: "0 < uint ?s" "uint ?s < 2 ^ 31"
    using d cps by (auto simp: uint_div m)
  show ?thesis
  proof (cases "?p = 0")
    case True
    then show ?thesis using s by (simp add: GetAIPeriod_def Let_def to_int_small)
  next
    case False
    then have "0 < uint (min ?p ?s)" using s using uint_pos [of ?p] by (simp add: min_def)
    moreover have "uint (min ?p ?s) < 2 ^ 31" using s by (auto simp: min_def word_le_def)
    ultimately show ?thesis using False by (simp add: GetAIPeriod_def Let_def to_int_small)
  qed
qed

lemma GPU_period: "clocks_ok c \<Longrightarrow> 0 < uint (m_cpu_core_clock c div 1000)"
  by (auto simp: clocks_ok_def)

section \<open>The callbacks keep the contract\<close>

lemma clocks_ok_cong: "m_cpu_core_clock c' = m_cpu_core_clock c \<Longrightarrow>
    m_aid_sample_rate_divisor (ai c') = m_aid_sample_rate_divisor (ai c) \<Longrightarrow>
    m_ais_sample_rate_divisor (ai c') = m_ais_sample_rate_divisor (ai c) \<Longrightarrow>
    m_cpu_cycles_per_sample (ai c') = m_cpu_cycles_per_sample (ai c) \<Longrightarrow> clocks_ok c' = clocks_ok c"
  by (simp add: clocks_ok_def)

lemma machine_ok_keep:
  assumes "machine_ok f d c" "m_dsp_emulator (dsp_if c') = m_dsp_emulator (dsp_if c)"
    "scheduled (dsp_if c') = scheduled (dsp_if c)" "m_cpu_core_clock c' = m_cpu_core_clock c"
    "m_aid_sample_rate_divisor (ai c') = m_aid_sample_rate_divisor (ai c)"
    "m_ais_sample_rate_divisor (ai c') = m_ais_sample_rate_divisor (ai c)"
    "m_cpu_cycles_per_sample (ai c') = m_cpu_cycles_per_sample (ai c)"
  shows "machine_ok f d c'"
  using assms keep_emulator [of "dsp_if c'" "dsp_if c"] clocks_ok_cong [of c' c] by (simp add: machine_ok_def)

lemma sample_count_keeps [simp]:
  "m_dsp_emulator (dsp_if (IncreaseSampleCount n c)) = m_dsp_emulator (dsp_if c)"
  "scheduled (dsp_if (IncreaseSampleCount n c)) = scheduled (dsp_if c)"
  "m_cpu_core_clock (IncreaseSampleCount n c) = m_cpu_core_clock c"
  "m_aid_sample_rate_divisor (ai (IncreaseSampleCount n c)) = m_aid_sample_rate_divisor (ai c)"
  "m_ais_sample_rate_divisor (ai (IncreaseSampleCount n c)) = m_ais_sample_rate_divisor (ai c)"
  "m_cpu_cycles_per_sample (ai (IncreaseSampleCount n c)) = m_cpu_cycles_per_sample (ai c)"
  by (simp_all add: IncreaseSampleCount_def GenerateAudioInterrupt_def ai_UpdateInterrupts_def set_AICR_def Let_def)

text \<open>What each callback schedules: itself after its period, and interrupts at once.\<close>

lemma AI_callback:
  assumes "machine_ok f d c"
  shows "\<exists>calls c'. ai_Update late (t, c) = (schedule_all calls t, c') \<and> machine_ok f d c' \<and>
    (\<forall>x \<in> set calls. fst (snd x) = Ev_AI \<and> 0 < late + fst x)"
proof (cases "IsPlaying c")
  case False
  then show ?thesis using assms by (intro exI [of _ "[]"]) (simp add: ai_Update_def)
next
  case True
  define c' where "c' = snd (ai_Update late (t, c))"
  have c': "machine_ok f d c'" unfolding c'_def using assms True
    by (auto simp: ai_Update_def Let_def intro: machine_ok_keep)
  then have "0 < GetAIPeriod c'" by (simp add: machine_ok_def AI_period)
  moreover have "ai_Update late (t, c) = (schedule_all [(GetAIPeriod c' - late, Ev_AI, 0)] t, c')"
    using True by (simp add: c'_def ai_Update_def Let_def)
  ultimately show ?thesis using c' by (intro exI [of _ "[(GetAIPeriod c' - late, Ev_AI, 0)]"] exI [of _ c']) simp
qed

lemma DSP_callback:
  assumes "machine_ok f d c"
  shows "\<exists>n c'. on_DSPCallback ws det late (t, c) =
      Some (schedule_all (replicate n (0, Ev_DSPint, ucast INT_DSP) @ [(12600 - late, Ev_DSP, 0)]) t, c') \<and> machine_ok f d c'"
proof -
  have core: "core_runs (dsp_if c)" "scheduled (dsp_if c) = []" "clocks_ok c" "m_cpu_core_clock c = f"
    "m_aid_sample_rate_divisor (ai c) = d"
    using assms by (simp_all add: machine_ok_def requests_Nil)
  obtain m where m: "UpdateDSPSlice ws det (to_int (word_of_int (uint DSP_UpdateRate - late))) (dsp_if c) = Some m"
    "core_runs m" "scheduled m = []"
    using slice_result [OF core(1)] core(2) by metis
  have "schedule_all (xs @ ys) t = schedule_all ys (schedule_all xs t)" for xs ys :: "(int \<times> EventType \<times> u64) list"
    by (simp add: schedule_all_def)
  then have "on_DSPCallback ws det late (t, c) =
      Some (schedule_all (replicate (h_irq (host_of m)) (0, Ev_DSPint, ucast INT_DSP) @ [(12600 - late, Ev_DSP, 0)]) t,
            c\<lparr>dsp_if := take_requests m\<rparr>)"
    using m by (simp add: on_DSPCallback_def pass_requests_all requests_def DSP_UpdateRate_def)
  moreover have "machine_ok f d (c\<lparr>dsp_if := take_requests m\<rparr>)"
    using m core by (simp add: machine_ok_def clocks_ok_def)
  ultimately show ?thesis by blast
qed

text \<open>The period of a self-scheduling callback, and the events that have a fixed one.\<close>

fun period_of :: "u32 \<Rightarrow> u32 \<Rightarrow> EventType \<Rightarrow> int" where
  "period_of f d Ev_DSP = 12600"
| "period_of f d Ev_AudioDMA = GetAudioDMACallbackPeriod f d"
| "period_of f d Ev_GPUSleeper = uint (f div 1000)"
| "period_of f d _ = 0"

definition periodic_events :: "EventType set" where
  "periodic_events = {Ev_DSP, Ev_AudioDMA, Ev_GPUSleeper}"

definition polite_call :: "EventType \<Rightarrow> int \<Rightarrow> (int \<times> EventType \<times> u64) list \<Rightarrow> bool" where
  "polite_call e late calls \<longleftrightarrow> (\<forall>(n, e', u') \<in> set calls. 0 < late + n \<or> 0 \<le> late + n \<and> rank_of e' < rank_of e)"

definition calls_itself :: "EventType \<Rightarrow> int \<Rightarrow> u32 \<Rightarrow> u32 \<Rightarrow> (int \<times> EventType \<times> u64) list \<Rightarrow> bool" where
  "calls_itself e late f d calls \<longleftrightarrow> (\<forall>p \<in> periodic_events.
     map fst (filter (\<lambda>c. fst (snd c) = p) calls) = (if e = p then [period_of f d p - late] else []))"

lemma period_pos: "machine_ok f d c \<Longrightarrow> p \<in> periodic_events \<Longrightarrow> 0 < period_of f d p"
  using AudioDMA_period [of c] GPU_period [of c] by (auto simp: machine_ok_def periodic_events_def)

lemma callback_calls:
  assumes ok: "machine_ok f d c" and late: "0 \<le> late"
  obtains calls c' where "callbacks ws det e u late (t, c) = Some (schedule_all calls t, c')" "machine_ok f d c'"
    "polite_call e late calls" "calls_itself e late f d calls"
proof (cases e)
  case Ev_DSP
  obtain n c' where "on_DSPCallback ws det late (t, c) =
      Some (schedule_all (replicate n (0, Ev_DSPint, ucast INT_DSP) @ [(12600 - late, Ev_DSP, 0)]) t, c')" "machine_ok f d c'"
    using DSP_callback [OF ok] by blast
  then show ?thesis using that [of "replicate n (0, Ev_DSPint, ucast INT_DSP) @ [(12600 - late, Ev_DSP, 0)]" c'] late
    by (auto simp: Ev_DSP callbacks_def rank_of_def polite_call_def calls_itself_def periodic_events_def)
next
  case Ev_AudioDMA
  let ?c = "c\<lparr>dsp_if := UpdateAudioDMA (dsp_if c)\<rparr>"
  have "machine_ok f d ?c" by (rule machine_ok_keep [OF ok]) simp_all
  then show ?thesis using that [of "[(period_of f d Ev_AudioDMA - late, Ev_AudioDMA, 0)]" ?c]
      period_pos [OF ok, of Ev_AudioDMA] ok
    by (auto simp: Ev_AudioDMA callbacks_def on_AudioDMACallback_def polite_call_def calls_itself_def
        periodic_events_def machine_ok_def)
next
  case Ev_GPUSleeper
  then show ?thesis using that [of "[(period_of f d Ev_GPUSleeper - late, Ev_GPUSleeper, 0)]" c]
      period_pos [OF ok, of Ev_GPUSleeper] ok
    by (auto simp: callbacks_def on_GPUSleepCallback_def polite_call_def calls_itself_def
        periodic_events_def machine_ok_def)
next
  case Ev_AI
  obtain calls c' where *: "ai_Update late (t, c) = (schedule_all calls t, c')" "machine_ok f d c'"
    "\<forall>x \<in> set calls. fst (snd x) = Ev_AI \<and> 0 < late + fst x"
    using AI_callback [OF ok] by blast
  have "filter (\<lambda>c. fst (snd c) = p) calls = []" if "p \<in> periodic_events" for p
    using that *(3) by (auto simp: filter_empty_conv periodic_events_def)
  moreover have "polite_call e late calls" using *(3) by (auto simp: polite_call_def)
  ultimately show ?thesis using that [of calls c'] * Ev_AI
    by (simp add: callbacks_def calls_itself_def periodic_events_def)
next
  case Ev_Decrementer
  have "machine_ok f d (on_DecrementerCallback c)"
    by (rule machine_ok_keep [OF ok]) (simp_all add: on_DecrementerCallback_def)
  then show ?thesis using that [of "[]"]
    by (auto simp: callbacks_def Ev_Decrementer polite_call_def calls_itself_def periodic_events_def)
next
  case Ev_DSPint
  have "machine_ok f d (c\<lparr>dsp_if := GenerateDSPInterrupt (ucast u) (dsp_if c)\<rparr>)"
    by (rule machine_ok_keep [OF ok]) simp_all
  then show ?thesis using that [of "[]"]
    by (auto simp: callbacks_def Ev_DSPint polite_call_def calls_itself_def periodic_events_def)
next
  case Ev_ARAMint
  have "machine_ok f d (c\<lparr>dsp_if := CompleteARAM (dsp_if c)\<rparr>)"
    by (rule machine_ok_keep [OF ok]) simp_all
  then show ?thesis using that [of "[]"]
    by (auto simp: callbacks_def Ev_ARAMint polite_call_def calls_itself_def periodic_events_def)
qed

interpretation clock: polite_callbacks "callbacks ws det" rank_of "machine_ok f d" for ws det f d
proof
  fix c :: console and t :: "EventType timing" and late :: int and e u
  assume "machine_ok f d c" "0 \<le> late"
  then show "\<exists>calls c'. callbacks ws det e u late (t, c) = Some (schedule_all calls t, c') \<and> machine_ok f d c' \<and>
      (\<forall>(n, e', u') \<in> set calls. 0 < late + n \<or> 0 \<le> late + n \<and> rank_of e' < rank_of e)"
    by (rule callback_calls [of f d c late ws det e u t]) (auto simp: polite_call_def)
qed

lemma periodic_interpretation:
  assumes "p \<in> periodic_events" "0 < period_of f d p"
  shows "periodic_callback (callbacks ws det) rank_of (machine_ok f d) p (period_of f d p)"
proof
  fix c :: console and t :: "EventType timing" and late :: int and e u
  assume "machine_ok f d c" "0 \<le> late"
  then obtain calls c' where "callbacks ws det e u late (t, c) = Some (schedule_all calls t, c')"
    "calls_itself e late f d calls" by (rule callback_calls)
  then show "\<exists>calls c'. callbacks ws det e u late (t, c) = Some (schedule_all calls t, c') \<and>
      map fst (filter (\<lambda>c. fst (snd c) = p) calls) = (if e = p then [period_of f d p - late] else [])"
    using assms(1) unfolding calls_itself_def by blast
qed (rule assms(2))

interpretation dsp_clock: periodic_callback "callbacks ws det" rank_of "machine_ok f d" Ev_DSP 12600 for ws det f d
  using periodic_interpretation [of Ev_DSP f d ws det] by (simp add: periodic_events_def)

section \<open>Advancing the clock\<close>

lemma advance_result:
  assumes "machine_ok f d c" "queue_ok t"
  obtains es t' c' where "system_Advance ws det (t, c) = Some (begin_slice t', c')"
    "fires (callbacks ws det) (end_slice t, c) es (t', c')" "fired_by (callbacks ws det) (t, c) es"
    "sorted_wrt earlier es" "distinct (map fifo_order es)" "\<forall>e \<in> set es. time e \<le> global_timer (end_slice t)"
    "\<forall>e \<in> set (event_queue t'). global_timer (end_slice t) < time e"
    "\<forall>e \<in> set (event_queue (MoveEvents t)).
       if time e \<le> global_timer (end_slice t) then e \<in> set es else e \<in> set (event_queue t')"
    "queue_ok t'" "machine_ok f d c'" "global_timer t' = global_timer (end_slice t)" "ts_queue t' = []"
proof -
  have ok: "queue_ok (end_slice t)" by (rule queue_ok_end_slice [OF assms(2)])
  obtain es t' c' where d: "dispatch_due (callbacks ws det) (end_slice t, c) = Some (t', c')"
    "fires (callbacks ws det) (end_slice t, c) es (t', c')"
    and rest: "sorted_wrt earlier es" "distinct (map fifo_order es)" "\<forall>e \<in> set es. time e \<le> global_timer (end_slice t)"
    "\<forall>e \<in> set (event_queue t'). global_timer (end_slice t) < time e"
    "\<forall>e \<in> set (event_queue (end_slice t)).
       if time e \<le> global_timer (end_slice t) then e \<in> set es else e \<in> set (event_queue t')"
    "queue_ok t'" "machine_ok f d c'" "is_global_timer_sane t'" "global_timer t' = global_timer (end_slice t)"
    "ts_queue t' = ts_queue (end_slice t)"
    by (rule clock.dispatch_spec [OF ok assms(1) end_slice_simps(3), of ws det])
  have "system_Advance ws det (t, c) = Some (begin_slice t', c')"
    by (simp add: system_Advance_def Advance_def d(1))
  moreover from this have "fired_by (callbacks ws det) (t, c) es"
    unfolding fired_by_def system_Advance_def by (intro exI [of _ "(t', c')"]) (simp add: d(2))
  ultimately show ?thesis using rest d(2) by (intro that) simp_all
qed

text \<open>
  C15: \<open>Advance\<close> always returns.  It moves the timer by the cycles executed, calls the callback of
  every event that is due then, also of those scheduled meanwhile, in the order of their times and
  each once, and leaves every later event in the queue.
\<close>

theorem advance_fires_what_is_due:
  assumes "machine_ok f d c" "queue_ok t"
  shows "\<exists>es t' c'. system_Advance ws det (t, c) = Some (t', c') \<and> fired_by (callbacks ws det) (t, c) es \<and>
    global_timer t' = global_timer t + (slice_length t - DowncountToCycles t (downcount t)) \<and>
    sorted_wrt earlier es \<and> distinct (map fifo_order es) \<and> (\<forall>e \<in> set es. time e \<le> global_timer t') \<and>
    (\<forall>e \<in> set (event_queue (MoveEvents t)).
       if time e \<le> global_timer t' then e \<in> set es else e \<in> set (event_queue t')) \<and>
    (\<forall>e \<in> set (event_queue t'). global_timer t' < time e) \<and> machine_ok f d c' \<and> queue_ok t'"
proof -
  obtain es t' c' where *: "system_Advance ws det (t, c) = Some (begin_slice t', c')"
    "fired_by (callbacks ws det) (t, c) es"
    "sorted_wrt earlier es" "distinct (map fifo_order es)" "\<forall>e \<in> set es. time e \<le> global_timer (end_slice t)"
    "\<forall>e \<in> set (event_queue t'). global_timer (end_slice t) < time e"
    "\<forall>e \<in> set (event_queue (MoveEvents t)).
       if time e \<le> global_timer (end_slice t) then e \<in> set es else e \<in> set (event_queue t')"
    "queue_ok t'" "machine_ok f d c'" "global_timer t' = global_timer (end_slice t)"
    by (rule advance_result [OF assms, of ws det]) blast
  then show ?thesis
    by (intro exI [of _ es] exI [of _ "begin_slice t'"] exI [of _ c']) (simp add: queue_ok_begin_slice)
qed

text \<open>
  C26: a CPU thread that schedules no event in the past never makes one late by more than the
  overshoot of the last block of instructions over its downcount, and none is early.
\<close>

theorem events_on_time:
  assumes "in_slice t" "machine_ok f d c" "e \<in> set (event_queue t)"
    "fired_by (callbacks ws det) (t, c) es" "e \<in> set es"
  shows "0 \<le> global_timer (end_slice t) - time e \<and>
    global_timer (end_slice t) - time e \<le> - DowncountToCycles t (downcount t)"
proof -
  have cov: "slice_covers t" by (rule in_slice_covers [OF assms(1)])
  obtain y where "fires (callbacks ws det) (end_slice t, c) es y" using assms(4) by (auto simp: fired_by_def)
  then have "time e \<le> global_timer (end_slice t)"
    using clock.fires_in_order [of ws det "(end_slice t, c)" es y f d] cov assms(2,5)
    by (simp add: slice_covers_def queue_ok_end_slice)
  moreover have "global_timer t + slice_length t \<le> time e" using cov assms(3) by (simp add: slice_covers_def)
  ultimately show ?thesis by simp
qed

text \<open>
  C25: the time slices of the DSP, the ticks of the audio DMA and the GPU's timer do not drift:
  however late \<open>Advance\<close> is called, the callbacks fire for the times \<open>\<tau>, \<tau> + k, \<tau> + 2 * k, ...\<close> up
  to the present, and the next one waits.
\<close>

theorem periodic_events_do_not_drift:
  assumes "machine_ok f d c" "queue_ok t" "p \<in> periodic_events" "times_of p (event_queue (MoveEvents t)) = [\<tau>]"
  shows "\<exists>es t' c' n. system_Advance ws det (t, c) = Some (t', c') \<and> fired_by (callbacks ws det) (t, c) es \<and>
    times_of p es = map (\<lambda>i. \<tau> + period_of f d p * int i) [0..<n] \<and>
    times_of p (event_queue t') = [\<tau> + period_of f d p * int n] \<and>
    global_timer t' < \<tau> + period_of f d p * int n \<and>
    (\<forall>i<n. \<tau> + period_of f d p * int i \<le> global_timer t')"
proof -
  have pos: "0 < period_of f d p" using period_pos assms by blast
  obtain es t' c' where *: "system_Advance ws det (t, c) = Some (begin_slice t', c')"
    "fires (callbacks ws det) (end_slice t, c) es (t', c')" "fired_by (callbacks ws det) (t, c) es"
    "\<forall>e \<in> set es. time e \<le> global_timer (end_slice t)"
    "\<forall>e \<in> set (event_queue t'). global_timer (end_slice t) < time e" "global_timer t' = global_timer (end_slice t)"
    by (rule advance_result [OF assms(1,2), of ws det]) blast
  obtain n where n: "times_of p es = map (\<lambda>i. \<tau> + period_of f d p * int i) [0..<n]"
    "times_of p (event_queue t') = [\<tau> + period_of f d p * int n]"
    using periodic_callback.fires_periodic [OF periodic_interpretation [OF assms(3) pos] *(2)] assms
    by (auto simp: queue_ok_end_slice)
  have "\<tau> + period_of f d p * int i \<le> global_timer t'" if "i < n" for i
  proof -
    have "\<tau> + period_of f d p * int i \<in> set (times_of p es)" using that by (auto simp: n(1))
    then show ?thesis using *(4,6) by (auto simp: times_of_def)
  qed
  moreover have "\<tau> + period_of f d p * int n \<in> set (times_of p (event_queue t'))" by (simp add: n(2))
  then have "global_timer t' < \<tau> + period_of f d p * int n" using *(5,6) by (auto simp: times_of_def)
  ultimately show ?thesis using * n
    by (intro exI [of _ es] exI [of _ "begin_slice t'"] exI [of _ c'] exI [of _ n]) simp
qed

section \<open>ARAM DMA through the scheduler\<close>

lemma region_irq [simp]: "h_irq (set_region_bytes rg f h) = h_irq h"
  by (simp add: set_region_bytes_def split: region.split)

lemma copy_irq [simp]: "h_irq (CopyToEmu a bs h) = h_irq h"
  by (simp add: CopyToEmu_def split: option.split prod.split region.split)

lemma aram_irq [simp]: "h_irq (set_aram_u64 off v h) = h_irq h"
  by (simp add: set_aram_u64_def set_aram_ptr_def)

definition same_control :: "DSPManager \<Rightarrow> DSPManager \<Rightarrow> bool" where
  "same_control m m' \<longleftrightarrow> core_runs m' = core_runs m \<and> scheduled m' = scheduled m \<and>
     h_irq (host_of m') = h_irq (host_of m) \<and> m_dsp_control m' = m_dsp_control m"

lemma body_control: "same_control m (dma_body m0 m)"
  by (simp add: same_control_def core_runs_def dma_body_def aram_to_mram_def hsp_to_mram_def mram_to_aram_def
      mram_to_hsp_def Let_def upd_host_def Write_U64_Swap_def Write_U64_def)

lemma bodies_control: "same_control m ((dma_body m0 ^^ k) m)"
proof (induction k)
  case (Suc k)
  then show ?case using body_control [of "(dma_body m0 ^^ k) m" m0] by (simp add: same_control_def)
qed (simp add: same_control_def)

text \<open>The length of the transfer that a write of \<open>v\<close> to \<open>AR_DMA_CNT_L\<close> starts, in bytes.\<close>

definition dma_length :: "u16 \<Rightarrow> DSPManager \<Rightarrow> int" where
  "dma_length v m = uint (dma_count ((m_aram_dma m)\<lparr>Cnt := (Cnt (m_aram_dma m) AND 0xFFFF0000) OR ucast (v AND 0xffe0)\<rparr>))"

lemma dma_write:
  obtains m' where "mmio_write16 now 0x502A v m = Some m'" "core_runs m' = core_runs m"
    "scheduled m' = scheduled m @ [(246 * (dma_length v m div 32), CompleteARAMEvent)]"
    "h_irq (host_of m') = h_irq (host_of m)" "m_dsp_control m' = set_field 0x200 0x200 (m_dsp_control m)"
proof -
  let ?m = "m\<lparr>m_aram_dma := (m_aram_dma m)\<lparr>Cnt := (Cnt (m_aram_dma m) AND 0xFFFF0000) OR ucast (v AND 0xffe0)\<rparr>\<rparr>"
  let ?k = "unat (dma_count (m_aram_dma ?m)) div 8"
  have a: "dma_count (m_aram_dma ?m) AND 7 = 0" by (simp add: dma_count_def count_aligned)
  have "mmio_write16 now 0x502A v m = Some ((dma_body ?m ^^ ?k) (dma_start ?m))"
    using Do_ARAM_DMA_result [OF a] by (simp add: mmio_write16_def Let_def)
  then show ?thesis using bodies_control [of "dma_start ?m" ?k ?m] that
    by (simp add: same_control_def dma_start_def core_runs_def dma_length_def mult.commute)
qed

text \<open>The CPU runs for some cycles, then the clock is advanced, several times over.\<close>

fun slices :: "wake list \<Rightarrow> bool \<Rightarrow> int list \<Rightarrow> machine \<Rightarrow> machine option" where
  "slices ws det [] x = Some x"
| "slices ws det (n # ns) x = Option.bind (system_Advance ws det (map_prod (run_cpu n) id x)) (slices ws det ns)"

text \<open>The interrupt of the ARAM DMA is pending and the DMA flag is clear.\<close>

definition dma_done :: "console \<Rightarrow> bool" where
  "dma_done c \<longleftrightarrow> m_dsp_control (dsp_if c) AND 0x220 = 0x20"

definition dma_pending :: "int \<Rightarrow> EventType timing \<Rightarrow> bool" where
  "dma_pending w t \<longleftrightarrow> (\<exists>e \<in> set (event_queue t). time e = w \<and> ev_type e = Ev_ARAMint)"

lemma control_bits: "m_dsp_control (GenerateDSPInterrupt v m) = m_dsp_control m OR (v AND 0xA8)"
  by (simp add: GenerateDSPInterrupt_def UpdateInterrupts_def)

lemma done_interrupt: "x AND 0x220 = 0x20 \<Longrightarrow> (x OR (v AND 0xA8)) AND 0x220 = (0x20 :: u16)"
proof -
  assume a: "x AND 0x220 = 0x20"
  have "(x OR (v AND 0xA8)) AND 0x220 = (x AND 0x220) OR (v AND (0xA8 AND 0x220))"
    by (simp only: bit.conj_disj_distrib2 and.assoc)
  also have "\<dots> = 0x20 OR (v AND 0x20)" by (simp add: a)
  also have "\<dots> = 0x20" by (rule bit_word_eqI) (auto simp: bit_simps)
  finally show ?thesis .
qed

lemma slice_control: "UpdateDSPSlice ws det n m = Some m' \<Longrightarrow> m_dsp_control m' = m_dsp_control m"
  by (auto simp: UpdateDSPSlice_def emulator_update_def)

lemma complete_done: "m_dsp_control (CompleteARAM m) AND 0x220 = 0x20"
proof -
  have "(set_field 0x200 0 x OR 0x20) AND 0x220 = (0x20 :: u16)" for x :: u16
  proof -
    have "(set_field 0x200 0 x OR 0x20) AND 0x220 = (x AND (NOT 0x200 AND 0x220)) OR (0x20 :: u16)"
      unfolding set_field_def by (simp only: bit.conj_disj_distrib2 and.assoc) simp
    also have "\<dots> = (x AND 0x20) OR 0x20" by simp
    also have "\<dots> = 0x20" by (rule bit_word_eqI) (auto simp: bit_simps)
    finally show ?thesis .
  qed
  then show ?thesis by (simp add: CompleteARAM_def control_bits)
qed

lemma sample_count_control [simp]: "m_dsp_control (dsp_if (IncreaseSampleCount n c)) = m_dsp_control (dsp_if c)"
  by (simp add: IncreaseSampleCount_def GenerateAudioInterrupt_def ai_UpdateInterrupts_def set_AICR_def Let_def)

lemma take_control [simp]: "m_dsp_control (take_requests m) = m_dsp_control m"
  by (simp add: take_requests_def upd_host_def)

lemma audio_done: "m_dsp_control m AND 0x220 = 0x20 \<Longrightarrow> m_dsp_control (UpdateAudioDMA m) AND 0x220 = 0x20"
  using done_interrupt [of "m_dsp_control m" INT_AID] by (simp add: UpdateAudioDMA_def Let_def control_bits)

lemma callbacks_keep_done:
  assumes "callbacks ws det e u late (t, c) = Some (t', c')" "dma_done c"
  shows "dma_done c'"
  using assms done_interrupt audio_done
  by (cases e) (auto simp: callbacks_def dma_done_def on_DSPCallback_def pass_requests_def on_AudioDMACallback_def
      on_GPUSleepCallback_def on_DecrementerCallback_def ai_Update_def Let_def control_bits complete_done
      split: if_splits dest: slice_control)

lemma dma_event_done: "callbacks ws det Ev_ARAMint u late (t, c) = Some (t', c') \<Longrightarrow> dma_done c'"
  by (auto simp: callbacks_def dma_done_def complete_done)

lemma slice_dma:
  assumes "machine_ok f d c" "queue_ok t" "dma_done c \<or> dma_pending w t"
    "system_Advance ws det (t, c) = Some (t', c')"
  shows "machine_ok f d c'" "queue_ok t'" "dma_done c' \<or> dma_pending w t'" "w \<le> global_timer t' \<Longrightarrow> dma_done c'"
proof -
  obtain es t'' c'' where a: "system_Advance ws det (t, c) = Some (begin_slice t'', c'')"
    "fires (callbacks ws det) (end_slice t, c) es (t'', c'')"
    "\<forall>e \<in> set (event_queue (MoveEvents t)).
       if time e \<le> global_timer (end_slice t) then e \<in> set es else e \<in> set (event_queue t'')"
    "queue_ok t''" "machine_ok f d c''" "global_timer t'' = global_timer (end_slice t)"
    by (rule advance_result [OF assms(1,2), of ws det]) blast
  have t': "t' = begin_slice t''" "c'' = c'" using a(1) assms(4) by simp_all
  note * = a(2) [unfolded t'(2)] t'(1) a(3,4) a(5) [unfolded t'(2)] a(6)
  show "machine_ok f d c'" "queue_ok t'" using * by (simp_all add: queue_ok_begin_slice)
  have moved: "set (event_queue t) \<subseteq> set (event_queue (MoveEvents t))"
  proof -
    have "set (event_queue u) \<subseteq> set (event_queue (fold move_event evs u))" for evs and u :: "EventType timing"
      by (induction evs arbitrary: u) (fastforce simp: move_event_def)+
    then show ?thesis by (simp add: MoveEvents_def)
  qed
  have fired: "dma_done c'" if "dma_done c \<or> Ev_ARAMint \<in> ev_type ` set es"
    using clock.fires_establish [where P = dma_done and p = Ev_ARAMint, OF dma_event_done callbacks_keep_done *(1)]
      that assms(1,2) by (simp add: queue_ok_end_slice)
  have "dma_done c' \<or> dma_pending w t'' \<and> global_timer t'' < w"
  proof (cases "dma_done c")
    case False
    then obtain e where e: "e \<in> set (event_queue t)" "time e = w" "ev_type e = Ev_ARAMint"
      using assms(3) by (auto simp: dma_pending_def)
    then have "if w \<le> global_timer t'' then e \<in> set es else e \<in> set (event_queue t'')"
      using *(3,6) moved by auto
    moreover have "e \<in> set es \<Longrightarrow> Ev_ARAMint \<in> ev_type ` set es" using e(3) by (metis imageI)
    ultimately show ?thesis using fired e by (auto simp: dma_pending_def not_le split: if_splits)
  qed (simp add: fired)
  then show "dma_done c' \<or> dma_pending w t'" "w \<le> global_timer t' \<Longrightarrow> dma_done c'"
    by (auto simp: t'(1) dma_pending_def)
qed

lemma run_keeps: "queue_ok (run_cpu n t) = queue_ok t" "dma_pending w (run_cpu n t) = dma_pending w t"
  by (simp_all add: run_cpu_def queue_ok_def dma_pending_def)

lemma slices_dma:
  "slices ws det ns (t, c) = Some (t', c') \<Longrightarrow> ns \<noteq> [] \<Longrightarrow> machine_ok f d c \<Longrightarrow> queue_ok t \<Longrightarrow>
     dma_done c \<or> dma_pending w t \<Longrightarrow>
     (dma_done c' \<or> dma_pending w t') \<and> (w \<le> global_timer t' \<longrightarrow> dma_done c')"
proof (induction ns arbitrary: t c)
  case (Cons n ns)
  obtain t1 c1 where adv: "system_Advance ws det (run_cpu n t, c) = Some (t1, c1)" "slices ws det ns (t1, c1) = Some (t', c')"
    using Cons.prems(1) by (auto split: bind_splits)
  note s = slice_dma [OF Cons.prems(3) _ _ adv(1), of w, unfolded run_keeps, OF Cons.prems(4,5)]
  show ?case
  proof (cases "ns = []")
    case True
    then show ?thesis using s adv(2) by simp
  next
    case False
    then show ?thesis using Cons.IH [OF adv(2) False s(1-3)] by simp
  qed
qed simp

lemma slices_return:
  assumes "machine_ok f d c" "queue_ok t"
  obtains t' c' where "slices ws det ns (t, c) = Some (t', c')"
proof -
  have "\<exists>y. slices ws det ns (t, c) = Some y"
    using assms
  proof (induction ns arbitrary: t c)
    case (Cons n ns)
    have q: "queue_ok (run_cpu n t)" using Cons.prems by (simp add: run_keeps)
    obtain es t1 c1 where "system_Advance ws det (run_cpu n t, c) = Some (begin_slice t1, c1)" "queue_ok t1" "machine_ok f d c1"
      by (rule advance_result [OF Cons.prems(1) q, of ws det]) blast
    then show ?case using Cons.IH [of c1 "begin_slice t1"] by (simp add: queue_ok_begin_slice)
  qed simp
  then show ?thesis using that by auto
qed

text \<open>
  C18: a write to the count register of the ARAM DMA sets the DMA flag and schedules the
  completion 246 cycles per 32 bytes ahead.  However the time after it is cut into slices, once
  the timer has reached that moment the flag is clear and the interrupt pending, and until then
  the completion stays scheduled.
\<close>

theorem aram_dma_completes_on_time:
  assumes "machine_ok f d c" "queue_ok t" "w = ticks_of t + 246 * (dma_length v (dsp_if c) div 32)"
  shows "\<exists>t1 c1. cpu_write16 0x502A v (t, c) = Some (t1, c1) \<and> bit (m_dsp_control (dsp_if c1)) 9 \<and> dma_pending w t1 \<and>
    (\<forall>ns. ns \<noteq> [] \<longrightarrow> (\<exists>t2 c2. slices ws det ns (t1, c1) = Some (t2, c2) \<and>
       (if w \<le> global_timer t2 then dma_done c2 else dma_done c2 \<or> dma_pending w t2)))"
proof -
  obtain m where m: "mmio_write16 (GetFakeTimeBase t) 0x502A v (dsp_if c) = Some m" "core_runs m"
    "scheduled m = [(246 * (dma_length v (dsp_if c) div 32), CompleteARAMEvent)]"
    "h_irq (host_of m) = 0" "m_dsp_control m = set_field 0x200 0x200 (m_dsp_control (dsp_if c))"
    by (rule dma_write [of "GetFakeTimeBase t" v "dsp_if c"]) (use assms(1) in \<open>auto simp: machine_ok_def requests_Nil\<close>)
  define t1 where "t1 = CoreTiming_ScheduleEvent (246 * (dma_length v (dsp_if c) div 32)) Ev_ARAMint 0 True t"
  define c1 where "c1 = c\<lparr>dsp_if := take_requests m\<rparr>"
  have w: "cpu_write16 0x502A v (t, c) = Some (t1, c1)"
    using m by (simp add: cpu_write16_def pass_requests_def requests_def event_of_def t1_def c1_def)
  have ok: "machine_ok f d c1" "queue_ok t1" "dma_pending w t1"
    using assms m by (auto simp: c1_def t1_def machine_ok_def clocks_ok_def queue_ok_schedule dma_pending_def schedule_queue)
  have "bit (m_dsp_control (dsp_if c1)) 9"
    using m(5) by (simp add: c1_def set_field_def bit_simps)
  moreover have "\<exists>t2 c2. slices ws det ns (t1, c1) = Some (t2, c2) \<and>
      (if w \<le> global_timer t2 then dma_done c2 else dma_done c2 \<or> dma_pending w t2)" if "ns \<noteq> []" for ns
  proof -
    obtain t2 c2 where s: "slices ws det ns (t1, c1) = Some (t2, c2)" by (rule slices_return [OF ok(1,2)])
    show ?thesis using s slices_dma [OF s that ok(1,2), of w] ok(3) by simp
  qed
  ultimately show ?thesis using w ok(3) by blast
qed

section \<open>An example machine\<close>

text \<open>A GameCube after initialisation, with the DSP core running and no overclocking.\<close>

definition no_overclock :: oc_factor where
  "no_overclock = \<lparr>to_cycles = (\<lambda>x. x), to_downcount = (\<lambda>x. x)\<rparr>"

definition blank_timing :: "EventType timing" where
  "blank_timing = \<lparr>global_timer = 0, slice_length = 0, downcount = 0, event_queue = [], event_fifo_id = 0, ts_queue = [],
     is_global_timer_sane = False, idled_cycles = 0, last_oc = no_overclock, config_oc = no_overclock,
     fake_dec_start_value = 0, fake_dec_start_ticks = 0, fake_TB_start_value = 0, fake_TB_start_ticks = 0\<rparr>"

definition example_dsp :: DSPManager where
  "example_dsp = example_console\<lparr>m_dsp_emulator :=
     (m_dsp_emulator example_console)\<lparr>m_dsp_core := SetState Running (m_dsp_core (m_dsp_emulator example_console))\<rparr>\<rparr>"

definition example_machine :: machine where
  "example_machine = timers_Init 0 (timing_Init no_overclock blank_timing,
     ai_Init \<lparr>dsp_if = example_dsp, ai = \<lparr>ai_control = 0, ai_volume = 0, m_sample_counter = 0, m_interrupt_timing = 0,
       m_last_cpu_time = 0, m_cpu_cycles_per_sample = 0, m_ais_sample_rate_divisor = 0, m_aid_sample_rate_divisor = 0\<rparr>,
       m_cpu_core_clock = 486000000, spr_DEC = 0, full_time_base = 0\<rparr>)"

lemma example_dsp_simps:
  "host_of example_dsp = gamecube_host" "scheduled example_dsp = []" "core_runs example_dsp"
  by (simp_all add: example_dsp_def example_console_def Reinit_def upd_host_def constructed_lle_def constructed_core_def
      power_on_def gamecube_host_def SetState_def core_runs_def)

lemma example_ok: "machine_ok 486000000 3372 (snd example_machine)"
  by (simp add: example_machine_def timers_Init_def machine_ok_def ai_Init_def SetAIDSampleRate_def SetAISSampleRate_def
      set_AICR_def Let_def example_dsp_simps requests_def clocks_ok_def divisors_def Get32KHzSampleRateDivisor_def
      Get48KHzSampleRateDivisor_def gamecube_host_def)

lemma example_queue:
  "event_queue (fst example_machine) =
    [\<lparr>time = 0, fifo_order = 0, userdata = 0, ev_type = Ev_GPUSleeper\<rparr>,
     \<lparr>time = 0, fifo_order = 1, userdata = 0, ev_type = Ev_DSP\<rparr>,
     \<lparr>time = 121392, fifo_order = 2, userdata = 0, ev_type = Ev_AudioDMA\<rparr>]"
  "event_fifo_id (fst example_machine) = 3" "ts_queue (fst example_machine) = []"
  by (simp_all add: example_machine_def timers_Init_def CoreTiming_ScheduleEvent_def timing_Init_def blank_timing_def
      ticks_of_def Let_def earlier_def ai_Init_def SetAIDSampleRate_def SetAISSampleRate_def set_AICR_def
      Get32KHzSampleRateDivisor_def Get48KHzSampleRateDivisor_def example_dsp_simps gamecube_host_def
      GetAudioDMACallbackPeriod_def to_int_def)

lemma example_queue_ok: "queue_ok (fst example_machine)"
  by (simp add: queue_ok_def example_queue earlier_def)

lemma example_pair: "example_machine = (fst example_machine, snd example_machine)"
  by simp

theorem advance_fires_what_is_due_witness:
  "\<exists>t' c'. system_Advance [] False example_machine = Some (t', c')"
  using advance_fires_what_is_due [OF example_ok example_queue_ok, of "[]" False] by auto

theorem periodic_events_do_not_drift_witness:
  "\<exists>t' c' n. system_Advance [] False example_machine = Some (t', c') \<and>
     times_of Ev_DSP (event_queue t') = [12600 * int n]"
  using periodic_events_do_not_drift [OF example_ok example_queue_ok, of Ev_DSP 0 "[]" False]
  by (auto simp: periodic_events_def MoveEvents_def example_queue times_of_def)

theorem aram_dma_completes_on_time_witness:
  "\<exists>t1 c1. cpu_write16 0x502A 0x40 example_machine = Some (t1, c1) \<and> dma_pending 492 t1"
proof -
  have "dma_length 0x40 (dsp_if (snd example_machine)) = 64 \<and> ticks_of (fst example_machine) = 0"
    by (simp add: example_machine_def timers_Init_def dma_length_def dma_count_def ticks_of_def timing_Init_def
        CoreTiming_ScheduleEvent_def Let_def blank_timing_def ai_Init_def SetAIDSampleRate_def SetAISSampleRate_def
        set_AICR_def example_dsp_def example_console_def Reinit_def upd_host_def constructed_lle_def
        constructed_core_def power_on_def gamecube_host_def)
  then show ?thesis
    using aram_dma_completes_on_time [OF example_ok example_queue_ok, of 492 "0x40"] by fastforce
qed

theorem events_on_time_witness:
  "\<exists>t c e es. fired_by (callbacks [] False) (t, c) es \<and> e \<in> set es \<and>
     global_timer (end_slice t) - time e \<le> - DowncountToCycles t (downcount t)"
proof -
  let ?t = "run_cpu 100 (begin_slice (fst example_machine))"
  let ?e = "\<lparr>time = 0, fifo_order = 1, userdata = 0, ev_type = Ev_DSP\<rparr> :: EventType Event"
  have t: "in_slice ?t" by (intro in_slice.intros example_queue_ok) simp
  have e: "?e \<in> set (event_queue ?t)" by (simp add: run_cpu_def example_queue)
  have ok: "queue_ok ?t" using t in_slice_covers [of ?t] by (simp add: slice_covers_def)
  obtain es where es: "fired_by (callbacks [] False) (?t, snd example_machine) es"
    "\<forall>e \<in> set (event_queue (MoveEvents ?t)). if time e \<le> global_timer (end_slice ?t) then e \<in> set es else True"
    by (rule advance_result [OF example_ok ok, of "[]" False]) fastforce
  have "global_timer (end_slice ?t) = 100"
    by (simp add: run_cpu_def DowncountToCycles_def begin_slice_def example_queue Let_def CyclesToDowncount_def)
      (simp add: example_machine_def timers_Init_def CoreTiming_ScheduleEvent_def timing_Init_def blank_timing_def Let_def
        no_overclock_def)
  moreover have "?e \<in> set (event_queue (MoveEvents ?t))"
    by (simp add: MoveEvents_def run_cpu_def example_queue)
  ultimately have "?e \<in> set es" using es(2) by fastforce
  then show ?thesis using events_on_time [OF t example_ok e es(1)] es(1) by blast
qed

end
