(* ===== verification/Console_Timers.thy ===== *)
theory Console_Timers
  imports Console_Clock
begin

text \<open>
  The CPU's timers and the audio interface: when the decrementer fires and what it reads, the time
  base, the sample counter and its interrupt.
\<close>

section \<open>Decrementer and time base\<close>

lemma ticks_word: "0 \<le> ticks_of t \<Longrightarrow> ticks_of t < 2 ^ 64 \<Longrightarrow> uint (GetTicks t) = ticks_of t"
  by (simp add: GetTicks_def unsigned_of_int take_bit_int_eq_self)

lemma elapsed:
  assumes "0 \<le> ticks_of t" "ticks_of t \<le> ticks_of t'" "ticks_of t' < 2 ^ 64"
  shows "uint ((GetTicks t' - GetTicks t) div 12) = (ticks_of t' - ticks_of t) div 12"
  using assms ticks_word [of t] ticks_word [of t']
  by (simp add: uint_div uint_word_ariths)

lemma schedule_other [simp]:
  "fake_dec_start_value (CoreTiming_ScheduleEvent n e u b t) = fake_dec_start_value t"
  "fake_dec_start_ticks (CoreTiming_ScheduleEvent n e u b t) = fake_dec_start_ticks t"
  by (simp_all add: CoreTiming_ScheduleEvent_def ForceExceptionCheck_def Let_def)

lemma times_push: "mset (times_of p (push_event e q)) = (if ev_type e = p then {#time e#} else {#}) + mset (times_of p q)"
  by (induction q) (auto simp: times_of_def)

lemma times_removed [simp]: "times_of p (filter (\<lambda>e. ev_type e \<noteq> p) q) = []"
  by (simp add: times_of_def filter_empty_conv)

text \<open>
  C28: setting the decrementer to a non-negative value \<open>v\<close> leaves exactly one event for it,
  \<open>12 * v mod 2^32\<close> cycles ahead: the product is computed in 32 bits.  Until it is set again it
  reads \<open>v\<close> less one for every 12 cycles.  So it reads 0 when its interrupt fires exactly if \<open>v\<close> is
  at most 0x15555555; for a greater value the interrupt comes early.
\<close>

theorem decrementer_fires:
  fixes v :: u32
  assumes "v = spr_DEC c" "\<not> bit v 31" "DecrementerSet (t, c) = (t1, c1)" "0 \<le> ticks_of t"
    and "fake_dec_start_value t2 = fake_dec_start_value t1" "fake_dec_start_ticks t2 = fake_dec_start_ticks t1"
    and "ticks_of t \<le> ticks_of t2" "ticks_of t2 < 2 ^ 64"
  shows "times_of Ev_Decrementer (event_queue t1) = [ticks_of t + 12 * uint v mod 2 ^ 32] \<and>
    GetFakeDecrementer t2 = v - word_of_int ((ticks_of t2 - ticks_of t) div 12) \<and>
    (ticks_of t2 = ticks_of t + 12 * uint v mod 2 ^ 32 \<longrightarrow> (GetFakeDecrementer t2 = 0 \<longleftrightarrow> v \<le> 0x15555555))"
proof -
  have neg: "v AND 0x80000000 = 0"
    using assms(2) and_exp_eq_0_iff_not_bit [of v 31] by simp
  let ?r = "RemoveEvent Ev_Decrementer t"
  have ticks: "ticks_of ?r = ticks_of t" "GetTicks ?r = GetTicks t"
    by (simp_all add: RemoveEvent_def ticks_of_def GetTicks_def DowncountToCycles_def)
  have t1: "t1 = CoreTiming_ScheduleEvent (uint (v * 12)) Ev_Decrementer 0 True
      (?r\<lparr>fake_dec_start_ticks := GetTicks t, fake_dec_start_value := v\<rparr>)"
    using assms(1,3) neg by (auto simp: DecrementerSet_def Let_def ticks)
  have wait: "uint (v * 12) = 12 * uint v mod 2 ^ 32" by (simp add: uint_word_ariths mult.commute)
  have "ticks_of (?r\<lparr>fake_dec_start_ticks := GetTicks t, fake_dec_start_value := v\<rparr>) = ticks_of t"
    by (simp add: RemoveEvent_def ticks_of_def DowncountToCycles_def)
  then have "mset (times_of Ev_Decrementer (event_queue t1)) = {#ticks_of t + 12 * uint v mod 2 ^ 32#}"
    by (simp add: t1 schedule_queue times_push wait RemoveEvent_def)
  then have one: "times_of Ev_Decrementer (event_queue t1) = [ticks_of t + 12 * uint v mod 2 ^ 32]" by simp
  let ?d = "(ticks_of t2 - ticks_of t) div 12"
  have "(ucast ((GetTicks t2 - GetTicks t) div 12) :: u32) = word_of_int ?d"
    unfolding elapsed [OF assms(4,7,8), symmetric] by simp
  then have reads: "GetFakeDecrementer t2 = v - word_of_int ?d"
    by (simp add: GetFakeDecrementer_def assms(5,6) t1)
  have "GetFakeDecrementer t2 = 0 \<longleftrightarrow> v \<le> 0x15555555" if "ticks_of t2 = ticks_of t + 12 * uint v mod 2 ^ 32"
  proof -
    have d: "?d = (12 * uint v mod 2 ^ 32) div 12" "0 \<le> ?d" "?d < 2 ^ 32" using that by simp_all
    have "uint (word_of_int ?d :: u32) = ?d"
      using d(2,3) by (simp add: unsigned_of_int take_bit_int_eq_self)
    then have "GetFakeDecrementer t2 = 0 \<longleftrightarrow> uint v = ?d"
      unfolding reads right_minus_eq by (simp add: word_uint_eq_iff)
    also have "\<dots> \<longleftrightarrow> 12 * uint v < 2 ^ 32"
    proof
      assume "uint v = ?d"
      then have "12 * uint v \<le> 12 * uint v mod 2 ^ 32" using d(1) by linarith
      then show "12 * uint v < 2 ^ 32" by (meson le_less_trans pos_mod_bound zero_less_numeral zero_less_power)
    qed (use d(1) in simp)
    also have "\<dots> \<longleftrightarrow> v \<le> 0x15555555" by (simp add: word_le_def) presburger
    finally show ?thesis .
  qed
  then show ?thesis using one reads by blast
qed

text \<open>
  After the time base was set it counts one for every 12 cycles from the value written.
\<close>

theorem time_base_counts:
  assumes "TimeBaseSet (t, c) = (t1, c1)" "0 \<le> ticks_of t" "ticks_of t \<le> ticks_of t2" "ticks_of t2 < 2 ^ 64"
    and "fake_TB_start_value t2 = fake_TB_start_value t1" "fake_TB_start_ticks t2 = fake_TB_start_ticks t1"
  shows "GetFakeTimeBase t2 = full_time_base c + word_of_int ((ticks_of t2 - ticks_of t) div 12)"
proof -
  have "t1 = t\<lparr>fake_TB_start_ticks := GetTicks t, fake_TB_start_value := full_time_base c\<rparr>"
    using assms(1) by (auto simp: TimeBaseSet_def)
  moreover have "(GetTicks t2 - GetTicks t) div 12 = word_of_int ((ticks_of t2 - ticks_of t) div 12)"
    using elapsed [OF assms(2-4)] by (metis word_of_int_uint)
  ultimately show ?thesis using assms(5,6) by (simp add: GetFakeTimeBase_def)
qed

section \<open>The sample counter\<close>

text \<open>
  A run of the audio interface after the counter was set to \<open>v\<close> at time \<open>t0\<close> while playing: time
  passes and the interface updates itself, as often and as late as it may be.
\<close>

inductive counting :: "u32 \<Rightarrow> u64 \<Rightarrow> machine \<Rightarrow> bool" for v t0 where
  set_counter: "IsPlaying c \<Longrightarrow> m_cpu_cycles_per_sample (ai c) \<noteq> 0 \<Longrightarrow> GetTicks t = t0 \<Longrightarrow> t0 \<le> GetTicks t' \<Longrightarrow>
    counting v t0 (t', snd (write_AI_SAMPLE_COUNTER v (t, c)))"
| pass: "counting v t0 (t, c) \<Longrightarrow> GetTicks t \<le> GetTicks t' \<Longrightarrow> counting v t0 (t', c)"
| update: "counting v t0 (t, c) \<Longrightarrow> GetTicks t \<le> GetTicks t' \<Longrightarrow> counting v t0 (t', snd (ai_Update late (t, c)))"

definition counted :: "u32 \<Rightarrow> u64 \<Rightarrow> machine \<Rightarrow> int \<Rightarrow> bool" where
  "counted v t0 x n \<longleftrightarrow> (case x of (t, c) \<Rightarrow> IsPlaying c \<and> m_cpu_cycles_per_sample (ai c) \<noteq> 0 \<and> 0 \<le> n \<and>
     uint (m_last_cpu_time (ai c)) = uint t0 + n * uint (m_cpu_cycles_per_sample (ai c)) \<and>
     m_last_cpu_time (ai c) \<le> GetTicks t \<and> m_sample_counter (ai c) = v + word_of_int n)"

lemma interrupt_ai [simp]:
  "m_sample_counter (ai (GenerateAudioInterrupt c)) = m_sample_counter (ai c)"
  "m_last_cpu_time (ai (GenerateAudioInterrupt c)) = m_last_cpu_time (ai c)"
  by (simp_all add: GenerateAudioInterrupt_def ai_UpdateInterrupts_def set_AICR_def)

lemma interrupt_playing [simp]: "IsPlaying (GenerateAudioInterrupt c) = IsPlaying c"
  by (simp add: IsPlaying_def GenerateAudioInterrupt_def ai_UpdateInterrupts_def set_AICR_def put_bit_def bit_simps)

lemma increase_result:
  assumes "IsPlaying c"
  shows "m_sample_counter (ai (IncreaseSampleCount n c)) = m_sample_counter (ai c) + n"
    "m_last_cpu_time (ai (IncreaseSampleCount n c)) = m_last_cpu_time (ai c)" "IsPlaying (IncreaseSampleCount n c)"
  using assms by (simp_all add: IncreaseSampleCount_def Let_def) (simp_all add: IsPlaying_def)

lemma uint_minus_le: "y \<le> x \<Longrightarrow> uint (x - y) = uint x - uint (y :: u64)"
  by (simp add: uint_sub_lem word_le_def)

lemma uint_ucast_up: "uint (ucast (x :: u32) :: u64) = uint x"
  by transfer simp

lemma counted_update:
  assumes "counted v t0 (t, c) n" "GetTicks t \<le> GetTicks t'"
  shows "\<exists>n. counted v t0 (t', snd (ai_Update late (t, c))) n"
proof -
  let ?cps = "m_cpu_cycles_per_sample (ai c)" and ?last = "m_last_cpu_time (ai c)"
  let ?diff = "GetTicks t - ?last"
  have c: "IsPlaying c" "?cps \<noteq> 0" "0 \<le> n" "uint ?last = uint t0 + n * uint ?cps" "?last \<le> GetTicks t"
    "m_sample_counter (ai c) = v + word_of_int n"
    using assms(1) by (simp_all add: counted_def)
  show ?thesis
  proof (cases "?cps < ?diff")
    case False
    then show ?thesis using c assms(2) by (intro exI [of _ n]) (auto simp: counted_def ai_Update_def Let_def)
  next
    case True
    let ?s = "ucast (?diff div ?cps) :: u32"
    have cps: "0 < uint ?cps" using c(2) by (rule uint_pos)
    have s: "uint ?s = (uint ?diff div uint ?cps) mod 2 ^ 32"
      by (simp add: unsigned_ucast_eq uint_div take_bit_eq_mod)
    then have "uint ?s \<le> uint ?diff div uint ?cps"
      using zmod_le_nonneg_dividend [of "uint ?diff div uint ?cps" "2 ^ 32"] cps by (simp add: pos_imp_zdiv_nonneg_iff)
    then have "uint ?s * uint ?cps \<le> uint ?diff div uint ?cps * uint ?cps" by (rule mult_right_mono) simp
    also have "\<dots> \<le> uint ?diff"
      using pos_mod_sign [OF cps, of "uint ?diff"] by (simp flip: minus_mod_eq_div_mult)
    finally have le: "uint ?s * uint ?cps \<le> uint ?diff" .
    have small: "uint ?last + uint ?s * uint ?cps \<le> uint (GetTicks t)" using le uint_minus_le [OF c(5)] by simp
    have bound: "uint (GetTicks t) < 2 ^ 64" using uint_lt2p [of "GetTicks t"] by simp
    have u: "uint (ucast ?s :: u64) = uint ?s" by (rule uint_ucast_up)
    have "uint ?s * uint ?cps < 2 ^ 64" using small bound uint_ge_0 [of ?last] by linarith
    then have m: "uint (ucast ?s * ?cps) = uint ?s * uint ?cps"
      by (subst uint_mult_small) (simp_all only: u)
    have add: "uint (?last + ucast ?s * ?cps) = uint ?last + uint ?s * uint ?cps"
      using uint_add_lem [of ?last "ucast ?s * ?cps"] small bound by (simp add: m)
    have play: "IsPlaying (upd_ai (\<lambda>a. a\<lparr>m_last_cpu_time := l\<rparr>) c)" for l using c(1) by (simp add: IsPlaying_def)
    show ?thesis
      using c True assms(2) add small cps
      by (intro exI [of _ "n + uint ?s"])
        (auto simp: counted_def ai_Update_def Let_def increase_result [OF play] word_le_def algebra_simps)
  qed
qed

lemma ucast_down_add: "(ucast (x + y :: u64) :: u32) = ucast x + ucast y"
proof -
  have "take_bit 32 (take_bit 64 a + take_bit 64 b) = take_bit 32 (a + b)" for a b :: int
    by (subst (1 2) take_bit_add [symmetric]) simp
  then show ?thesis by transfer simp
qed

lemma ucast_of_int: "(ucast (word_of_int n :: u64) :: u32) = word_of_int n"
  by transfer simp

lemma pred_le:
  fixes x n :: u32
  assumes "n \<noteq> 0"
  shows "x - 1 \<le> n - 1 \<longleftrightarrow> x \<noteq> 0 \<and> x \<le> n"
proof (cases "x = 0")
  case True
  have "uint n - 1 < 2 ^ 32 - 1" "0 < uint n" using uint_lt2p [of n] assms by (simp_all add: word_neq_0_conv word_less_def)
  then show ?thesis using True by (simp add: word_le_def uint_word_ariths)
next
  case False
  have "uint (y - 1) = uint y - 1" if "y \<noteq> 0" for y :: u32
    using that uint_sub_lem [of 1 y] by (simp add: word_neq_0_conv word_less_def)
  then have "x - 1 \<le> n - 1 \<longleftrightarrow> uint x - 1 \<le> uint n - 1" using False assms by (simp add: word_le_def)
  then show ?thesis using False by (simp add: word_le_def del: of_int_eq_iff) presburger
qed

lemma counting_counted: "counting v t0 x \<Longrightarrow> \<exists>n. counted v t0 x n"
proof (induction rule: counting.induct)
  case (set_counter c t t')
  then show ?case
    by (intro exI [of _ 0]) (auto simp: counted_def write_AI_SAMPLE_COUNTER_def reschedule_AI_def IsPlaying_def)
next
  case (pass t c t')
  then show ?case by (auto simp: counted_def)
next
  case (update t c t' late)
  then show ?case using counted_update by blast
qed

text \<open>
  C27: while the audio interface plays, its sample counter reads the value it was set to plus one
  for every whole sample period since, however the updates by the scheduler fall.
\<close>

theorem sample_counter_exact:
  assumes "counting v t0 (t, c)"
  shows "read_AI_SAMPLE_COUNTER (t, c) = v + ucast ((GetTicks t - t0) div m_cpu_cycles_per_sample (ai c))"
proof -
  let ?cps = "m_cpu_cycles_per_sample (ai c)" and ?last = "m_last_cpu_time (ai c)"
  obtain n where c: "IsPlaying c" "?cps \<noteq> 0" "0 \<le> n" "uint ?last = uint t0 + n * uint ?cps" "?last \<le> GetTicks t"
    "m_sample_counter (ai c) = v + word_of_int n"
    using counting_counted [OF assms] by (auto simp: counted_def)
  have cps: "0 < uint ?cps" using c(2) by (rule uint_pos)
  have "0 \<le> n * uint ?cps" using c(3) by simp
  then have "t0 \<le> ?last" using c(4) by (simp add: word_le_def)
  then have "uint (GetTicks t - t0) = n * uint ?cps + uint (GetTicks t - ?last)"
    using c(4) uint_minus_le [OF c(5)] uint_minus_le [OF order_trans [OF _ c(5)], of t0] by simp
  then have "uint (GetTicks t - t0) div uint ?cps = n + uint (GetTicks t - ?last) div uint ?cps"
    using cps by simp
  then have "uint ((GetTicks t - t0) div ?cps) = n + uint ((GetTicks t - ?last) div ?cps)"
    by (simp only: uint_div)
  then have "word_of_int (uint ((GetTicks t - t0) div ?cps)) = (word_of_int (n + uint ((GetTicks t - ?last) div ?cps)) :: u64)"
    by (rule arg_cong)
  then have "(GetTicks t - t0) div ?cps = word_of_int n + (GetTicks t - ?last) div ?cps"
    by (simp only: word_of_int_uint of_int_add)
  then have "(ucast ((GetTicks t - t0) div ?cps) :: u32) = word_of_int n + ucast ((GetTicks t - ?last) div ?cps)"
    by (simp only: ucast_down_add ucast_of_int)
  then show ?thesis using c by (simp add: read_AI_SAMPLE_COUNTER_def Let_def add.assoc)
qed

text \<open>
  counting \<open>n\<close> samples raises the interrupt of the audio interface exactly if the counter
  takes the value of the timing register on the way, also when it wraps around.
\<close>

theorem sample_interrupt_exact:
  assumes "IsPlaying c" "n \<noteq> 0"
  shows "bit (ai_control (ai (IncreaseSampleCount n c))) AIINT \<longleftrightarrow>
    bit (ai_control (ai c)) AIINT \<or>
    (\<exists>k. 0 < k \<and> k \<le> n \<and> m_interrupt_timing (ai c) = m_sample_counter (ai c) + k)"
proof -
  let ?w = "m_interrupt_timing (ai c)" and ?s = "m_sample_counter (ai c)"
  have "?w - (?s + 1) \<le> ?s + n - (?s + 1) \<longleftrightarrow> (\<exists>k. 0 < k \<and> k \<le> n \<and> ?w = ?s + k)"
  proof
    assume "?w - (?s + 1) \<le> ?s + n - (?s + 1)"
    then have "?w - ?s - 1 \<le> n - 1" by (simp add: algebra_simps)
    then have "?w - ?s \<noteq> 0 \<and> ?w - ?s \<le> n" using pred_le assms(2) by blast
    then have "0 < ?w - ?s \<and> ?w - ?s \<le> n" by (simp only: word_neq_0_conv)
    then show "\<exists>k. 0 < k \<and> k \<le> n \<and> ?w = ?s + k" by (intro exI [of _ "?w - ?s"]) simp
  next
    assume "\<exists>k. 0 < k \<and> k \<le> n \<and> ?w = ?s + k"
    then obtain k where k: "0 < k" "k \<le> n" "?w = ?s + k" by blast
    then have "k - 1 \<le> n - 1" using pred_le assms(2) by (metis word_less_nat_alt less_irrefl)
    then show "?w - (?s + 1) \<le> ?s + n - (?s + 1)" by (simp add: k(3) algebra_simps)
  qed
  then show ?thesis using assms(1)
    by (auto simp: IncreaseSampleCount_def Let_def GenerateAudioInterrupt_def ai_UpdateInterrupts_def set_AICR_def
        put_bit_def bit_simps)
qed

section \<open>Witnesses\<close>

text \<open>A machine at time 0 in the middle of no slice, with the decrementer register at 100.\<close>

abbreviation (input) dec_machine :: console where
  "dec_machine \<equiv> (snd example_machine)\<lparr>spr_DEC := 100\<rparr>"

lemma blank_ticks: "ticks_of blank_timing = 0" "GetTicks blank_timing = 0"
  by (simp_all add: GetTicks_def ticks_of_def blank_timing_def DowncountToCycles_def no_overclock_def)

lemma ticks_fake [simp]:
  "ticks_of (t\<lparr>fake_dec_start_value := a\<rparr>) = ticks_of t" "ticks_of (t\<lparr>fake_dec_start_ticks := b\<rparr>) = ticks_of t"
  "ticks_of (t\<lparr>fake_TB_start_value := b\<rparr>) = ticks_of t" "ticks_of (t\<lparr>fake_TB_start_ticks := b\<rparr>) = ticks_of t"
  by (simp_all add: ticks_of_def DowncountToCycles_def)

theorem decrementer_fires_witness:
  "times_of Ev_Decrementer (event_queue (fst (DecrementerSet (blank_timing, dec_machine)))) = [1200]"
proof -
  let ?t2 = "blank_timing\<lparr>fake_dec_start_value := fake_dec_start_value (fst (DecrementerSet (blank_timing, dec_machine))),
     fake_dec_start_ticks := fake_dec_start_ticks (fst (DecrementerSet (blank_timing, dec_machine)))\<rparr>"
  have "ticks_of ?t2 = 0" by (simp add: blank_ticks)
  moreover have "\<not> bit (100 :: u32) 31" by (simp add: bit_numeral_rec)
  ultimately show ?thesis
    using decrementer_fires [of 100 dec_machine blank_timing "fst (DecrementerSet (blank_timing, dec_machine))"
        "snd (DecrementerSet (blank_timing, dec_machine))" ?t2]
    by (simp add: blank_ticks)
qed

theorem time_base_counts_witness:
  "GetFakeTimeBase (fst (TimeBaseSet (blank_timing, dec_machine))) = full_time_base dec_machine"
  using time_base_counts [of blank_timing dec_machine "fst (TimeBaseSet (blank_timing, dec_machine))"
      "snd (TimeBaseSet (blank_timing, dec_machine))" "fst (TimeBaseSet (blank_timing, dec_machine))"]
  by (simp add: TimeBaseSet_def blank_ticks)

text \<open>The example machine with its audio interface playing.\<close>

definition playing_console :: console where
  "playing_console = set_AICR PSTAT True (snd example_machine)"

lemma playing_facts: "IsPlaying playing_console" "m_cpu_cycles_per_sample (ai playing_console) = 10116"
  by (simp_all add: playing_console_def IsPlaying_def set_AICR_def put_bit_def bit_simps example_machine_def timers_Init_def
      ai_Init_def SetAIDSampleRate_def SetAISSampleRate_def Let_def Get48KHzSampleRateDivisor_def example_dsp_simps
      gamecube_host_def)

theorem sample_counter_exact_witness:
  "\<exists>t c. counting 7 0 (t, c) \<and>
     read_AI_SAMPLE_COUNTER (t, c) = 7 + ucast (GetTicks t div m_cpu_cycles_per_sample (ai c))"
proof -
  have "counting 7 0 (blank_timing, snd (write_AI_SAMPLE_COUNTER 7 (blank_timing, playing_console)))"
    by (rule counting.set_counter) (simp_all add: playing_facts blank_ticks)
  with sample_counter_exact [OF this] show ?thesis unfolding diff_zero by blast
qed

theorem sample_interrupt_exact_witness:
  "\<exists>c. bit (ai_control (ai (IncreaseSampleCount 5 c))) AIINT"
  using sample_interrupt_exact [of "upd_ai (\<lambda>a. a\<lparr>m_sample_counter := 0, m_interrupt_timing := 3\<rparr>) playing_console" 5]
    playing_facts(1)
  by (auto simp: IsPlaying_def intro!: exI [of _ "upd_ai (\<lambda>a. a\<lparr>m_sample_counter := 0, m_interrupt_timing := 3\<rparr>) playing_console"])

end
