(* ===== verification/Ppc_State.thy ===== *)
theory Ppc_State
  imports Dsp_Prelude
begin

text \<open>
  The state of the emulated PowerPC, \<open>Core/PowerPC/PowerPC.h\<close>: registers, the condition register in
  its optimised form (\<open>ConditionRegister.h\<close>), the XER kept in parts, the fields of an instruction
  word and the bit layouts of \<open>Gekko.h\<close>.  The handlers of the interpreter are functions on
  \<open>Interpreter\<close>, which adds the members of that class to \<open>PowerPCState\<close>.  Arrays are functions
  of the index; every index the code uses is a bit field smaller than the array.
\<close>

section \<open>Fields of an instruction\<close>

text \<open>The unions \<open>UGeckoInstruction\<close> and \<open>BitField\<close>: \<open>w\<close> bits from bit \<open>n\<close>.\<close>

definition bit_field :: "nat \<Rightarrow> nat \<Rightarrow> u32 \<Rightarrow> u32" where
  "bit_field n w inst = drop_bit n inst AND mask w"

abbreviation inst_index :: "nat \<Rightarrow> nat \<Rightarrow> u32 \<Rightarrow> nat" where
  "inst_index n w inst \<equiv> unat (bit_field n w inst)"

definition inst_OPCD :: "u32 \<Rightarrow> nat" where "inst_OPCD i = inst_index 26 6 i"
definition inst_RD :: "u32 \<Rightarrow> nat" where "inst_RD i = inst_index 21 5 i"
definition inst_RS :: "u32 \<Rightarrow> nat" where "inst_RS i = inst_index 21 5 i"
definition inst_RA :: "u32 \<Rightarrow> nat" where "inst_RA i = inst_index 16 5 i"
definition inst_RB :: "u32 \<Rightarrow> nat" where "inst_RB i = inst_index 11 5 i"
definition inst_SUBOP10 :: "u32 \<Rightarrow> nat" where "inst_SUBOP10 i = inst_index 1 10 i"
definition inst_SUBOP5 :: "u32 \<Rightarrow> nat" where "inst_SUBOP5 i = inst_index 1 5 i"
definition inst_Rc :: "u32 \<Rightarrow> bool" where "inst_Rc i = bit i 0"
definition inst_OE :: "u32 \<Rightarrow> bool" where "inst_OE i = bit i 10"
definition inst_SIMM_16 :: "u32 \<Rightarrow> s32" where "inst_SIMM_16 i = scast (ucast i :: u16)"
definition inst_UIMM :: "u32 \<Rightarrow> u32" where "inst_UIMM i = bit_field 0 16 i"
definition inst_TO :: "u32 \<Rightarrow> u32" where "inst_TO i = bit_field 21 5 i"
definition inst_LK :: "u32 \<Rightarrow> bool" where "inst_LK i = bit i 0"
definition inst_AA :: "u32 \<Rightarrow> bool" where "inst_AA i = bit i 1"
definition inst_LI :: "u32 \<Rightarrow> u32" where "inst_LI i = bit_field 2 24 i"
definition inst_BD :: "u32 \<Rightarrow> u32" where "inst_BD i = bit_field 2 14 i"
definition inst_BI :: "u32 \<Rightarrow> nat" where "inst_BI i = inst_index 16 5 i"
definition inst_BO :: "u32 \<Rightarrow> u32" where "inst_BO i = bit_field 21 5 i"
definition inst_CRFD :: "u32 \<Rightarrow> nat" where "inst_CRFD i = inst_index 23 3 i"
definition inst_CRFS :: "u32 \<Rightarrow> nat" where "inst_CRFS i = inst_index 18 3 i"
definition inst_CRBA :: "u32 \<Rightarrow> nat" where "inst_CRBA i = inst_index 16 5 i"
definition inst_CRBB :: "u32 \<Rightarrow> nat" where "inst_CRBB i = inst_index 11 5 i"
definition inst_CRBD :: "u32 \<Rightarrow> nat" where "inst_CRBD i = inst_index 21 5 i"
definition inst_CRM :: "u32 \<Rightarrow> u32" where "inst_CRM i = bit_field 12 8 i"
definition inst_FM :: "u32 \<Rightarrow> u32" where "inst_FM i = bit_field 17 8 i"
definition inst_FB :: "u32 \<Rightarrow> nat" where "inst_FB i = inst_index 11 5 i"
definition inst_FD :: "u32 \<Rightarrow> nat" where "inst_FD i = inst_index 21 5 i"
definition inst_SH :: "u32 \<Rightarrow> nat" where "inst_SH i = inst_index 11 5 i"
definition inst_MB :: "u32 \<Rightarrow> nat" where "inst_MB i = inst_index 6 5 i"
definition inst_ME :: "u32 \<Rightarrow> nat" where "inst_ME i = inst_index 1 5 i"
definition inst_SR :: "u32 \<Rightarrow> nat" where "inst_SR i = inst_index 16 4 i"
definition inst_SPR :: "u32 \<Rightarrow> u32" where "inst_SPR i = bit_field 11 10 i"
definition inst_SPRU :: "u32 \<Rightarrow> u32" where "inst_SPRU i = bit_field 11 5 i"
definition inst_SPRL :: "u32 \<Rightarrow> u32" where "inst_SPRL i = bit_field 16 5 i"
definition inst_NB :: "u32 \<Rightarrow> nat" where "inst_NB i = inst_index 11 5 i"

lemma inst_index_less [simp]: "w < 32 \<Longrightarrow> inst_index n w i < 2 ^ w"
proof -
  assume w: "w < 32"
  have "bit_field n w i = take_bit w (drop_bit n i)" by (simp add: bit_field_def take_bit_eq_mask)
  then have "unat (bit_field n w i) = take_bit w (unat (drop_bit n i))" by (simp add: unsigned_take_bit_eq)
  then show ?thesis using take_bit_nat_less_exp [of w "unat (drop_bit n i)"] by simp
qed

lemma inst_fields_less [simp]:
  "inst_RD i < 32" "inst_RS i < 32" "inst_RA i < 32" "inst_RB i < 32" "inst_CRFD i < 8" "inst_CRFS i < 8"
  "inst_SH i < 32" "inst_MB i < 32" "inst_ME i < 32" "inst_BI i < 32" "inst_CRBA i < 32" "inst_CRBB i < 32"
  "inst_CRBD i < 32" "inst_SR i < 16"
  using inst_index_less [of 5 _ i] inst_index_less [of 3 _ i] inst_index_less [of 4 _ i]
  by (simp_all add: inst_RD_def inst_RS_def inst_RA_def inst_RB_def inst_CRFD_def inst_CRFS_def inst_SH_def
      inst_MB_def inst_ME_def inst_BI_def inst_CRBA_def inst_CRBB_def inst_CRBD_def inst_SR_def)

definition SignExt26 :: "u32 \<Rightarrow> s32" where
  "SignExt26 x = (if x AND 0x2000000 \<noteq> 0 then x OR 0xFC000000 else x)"

definition SignExt16 :: "s16 \<Rightarrow> s32" where
  "SignExt16 x = scast x"

text \<open>The mask of the rotate instructions; bit 0 is the most significant one here.\<close>

definition MakeRotationMask :: "nat \<Rightarrow> nat \<Rightarrow> u32" where
  "MakeRotationMask mb me =
    (let begin = drop_bit mb 0xFFFFFFFF; end = drop_bit me 0x7FFFFFFF; m = begin XOR end
     in if me < mb then NOT m else m)"

section \<open>The state\<close>

text \<open>\<open>INVALID_TAG\<close> marks a free way of the translation cache.\<close>

record TLBEntry =
  tlb_tag :: "nat \<Rightarrow> u32"
  tlb_paddr :: "nat \<Rightarrow> u32"
  tlb_vsid :: "nat \<Rightarrow> u32"
  tlb_pte :: "nat \<Rightarrow> u32"
  tlb_recent :: u32

record PowerPCState =
  ppc_pc :: u32
  ppc_npc :: u32
  gpr :: "nat \<Rightarrow> u32"
  cr_fields :: "nat \<Rightarrow> u64"
  msr :: u32
  fpscr :: u32
  feature_flags :: u32
  Exceptions :: u32
  xer_ca :: u8
  xer_so_ov :: u8
  xer_stringctrl :: u16
  reserve_address :: u32
  reserve :: bool
  pagetable_update_pending :: bool
  ps :: "nat \<Rightarrow> u64 \<times> u64"
  sr_regs :: "nat \<Rightarrow> u32"
  spr :: "nat \<Rightarrow> u32"
  pagetable_base :: u32
  pagetable_mask :: u32
  tlb :: "nat \<Rightarrow> nat \<Rightarrow> TLBEntry"

record Interpreter = PowerPCState +
  m_end_block :: bool
  m_last_pc :: u32
  m_prev_inst :: u32

text \<open>The members' initial values.\<close>

definition free_tlb_entry :: TLBEntry where
  "free_tlb_entry = \<lparr>tlb_tag = \<lambda>_. 0xFFFFFFFF, tlb_paddr = \<lambda>_. 0, tlb_vsid = \<lambda>_. 0, tlb_pte = \<lambda>_. 0, tlb_recent = 0\<rparr>"

definition power_on_cpu :: Interpreter where
  "power_on_cpu = \<lparr>ppc_pc = 0, ppc_npc = 0, gpr = \<lambda>_. 0, cr_fields = \<lambda>_. 0, msr = 0, fpscr = 0, feature_flags = 0,
     Exceptions = 0, xer_ca = 0, xer_so_ov = 0, xer_stringctrl = 0, reserve_address = 0, reserve = False,
     pagetable_update_pending = False, ps = \<lambda>_. (0, 0), sr_regs = \<lambda>_. 0, spr = \<lambda>_. 0, pagetable_base = 0,
     pagetable_mask = 0, tlb = \<lambda>_ _. free_tlb_entry, m_end_block = False, m_last_pc = 0, m_prev_inst = 0\<rparr>"

abbreviation set_gpr :: "nat \<Rightarrow> u32 \<Rightarrow> Interpreter \<Rightarrow> Interpreter" where
  "set_gpr n v s \<equiv> s\<lparr>gpr := (gpr s)(n := v)\<rparr>"

abbreviation set_spr :: "nat \<Rightarrow> u32 \<Rightarrow> Interpreter \<Rightarrow> Interpreter" where
  "set_spr n v s \<equiv> s\<lparr>spr := (spr s)(n := v)\<rparr>"

abbreviation (input) SPR_XER :: nat where "SPR_XER \<equiv> 1"
abbreviation (input) SPR_LR :: nat where "SPR_LR \<equiv> 8"
abbreviation (input) SPR_CTR :: nat where "SPR_CTR \<equiv> 9"
abbreviation (input) SPR_DSISR :: nat where "SPR_DSISR \<equiv> 18"
abbreviation (input) SPR_DAR :: nat where "SPR_DAR \<equiv> 19"
abbreviation (input) SPR_DEC :: nat where "SPR_DEC \<equiv> 22"
abbreviation (input) SPR_SDR :: nat where "SPR_SDR \<equiv> 25"
abbreviation (input) SPR_SRR0 :: nat where "SPR_SRR0 \<equiv> 26"
abbreviation (input) SPR_SRR1 :: nat where "SPR_SRR1 \<equiv> 27"
abbreviation (input) SPR_TL :: nat where "SPR_TL \<equiv> 268"
abbreviation (input) SPR_TU :: nat where "SPR_TU \<equiv> 269"

section \<open>The condition register\<close>

abbreviation (input) CR_SO :: u32 where "CR_SO \<equiv> 1"
abbreviation (input) CR_EQ :: u32 where "CR_EQ \<equiv> 2"
abbreviation (input) CR_GT :: u32 where "CR_GT \<equiv> 4"
abbreviation (input) CR_LT :: u32 where "CR_LT \<equiv> 8"
abbreviation (input) CR_EMU_SO_BIT :: nat where "CR_EMU_SO_BIT \<equiv> 59"
abbreviation (input) CR_EMU_LT_BIT :: nat where "CR_EMU_LT_BIT \<equiv> 62"

definition PPCToInternal :: "u8 \<Rightarrow> u64" where
  "PPCToInternal value = 0x100000000
     OR push_bit CR_EMU_SO_BIT (of_bool (value AND 1 \<noteq> 0))
     OR of_bool (value AND 2 = 0)
     OR push_bit 63 (of_bool (value AND 4 = 0))
     OR push_bit CR_EMU_LT_BIT (of_bool (value AND 8 \<noteq> 0))"

definition s_crTable :: "u64 list" where
  "s_crTable = map PPCToInternal [0, 1, 2, 3, 4, 5, 6, 7, 8, 9, 0xA, 0xB, 0xC, 0xD, 0xE, 0xF]"

definition SetField :: "nat \<Rightarrow> u32 \<Rightarrow> Interpreter \<Rightarrow> Interpreter" where
  "SetField cr_field value s = s\<lparr>cr_fields := (cr_fields s)(cr_field := s_crTable ! unat value)\<rparr>"

definition field_of :: "u64 \<Rightarrow> u32" where
  "field_of cr_val =
     ucast (drop_bit CR_EMU_SO_BIT cr_val AND 9)
     OR push_bit 1 (of_bool (cr_val AND 0xFFFFFFFF = 0))
     OR push_bit 2 (of_bool (0 <s cr_val))"

definition GetField :: "nat \<Rightarrow> Interpreter \<Rightarrow> u32" where
  "GetField cr_field s = field_of (cr_fields s cr_field)"

definition GetBit :: "nat \<Rightarrow> Interpreter \<Rightarrow> u32" where
  "GetBit n s = drop_bit (3 - n mod 4) (GetField (n div 4) s) AND 1"

definition SetBit :: "nat \<Rightarrow> u32 \<Rightarrow> Interpreter \<Rightarrow> Interpreter" where
  "SetBit n value s =
    (if value AND 1 \<noteq> 0 then SetField (n div 4) (GetField (n div 4) s OR drop_bit (n mod 4) 8) s
     else SetField (n div 4) (GetField (n div 4) s AND NOT (drop_bit (n mod 4) 8)) s)"

definition cr_Get :: "Interpreter \<Rightarrow> u32" where
  "cr_Get s = fold (\<lambda>i new_cr. new_cr OR push_bit (28 - i * 4) (GetField i s)) [0..<8] 0"

definition cr_Set :: "u32 \<Rightarrow> Interpreter \<Rightarrow> Interpreter" where
  "cr_Set cr s = fold (\<lambda>i. SetField i (drop_bit (28 - i * 4) cr AND 0xF)) [0..<8] s"

section \<open>The XER\<close>

definition SetCarry :: "u32 \<Rightarrow> Interpreter \<Rightarrow> Interpreter" where
  "SetCarry ca s = s\<lparr>xer_ca := ucast ca\<rparr>"

definition GetCarry :: "Interpreter \<Rightarrow> u32" where
  "GetCarry s = ucast (xer_ca s)"

definition GetXER :: "Interpreter \<Rightarrow> u32" where
  "GetXER s = ucast (xer_stringctrl s) OR push_bit 29 (ucast (xer_ca s)) OR push_bit 30 (ucast (xer_so_ov s))"

definition SetXER :: "u32 \<Rightarrow> Interpreter \<Rightarrow> Interpreter" where
  "SetXER new_xer s = s\<lparr>
     xer_stringctrl := ucast (bit_field 0 7 new_xer + push_bit 8 (bit_field 8 8 new_xer)),
     xer_ca := ucast (bit_field 29 1 new_xer),
     xer_so_ov := ucast (push_bit 1 (bit_field 31 1 new_xer) + bit_field 30 1 new_xer)\<rparr>"

definition GetXER_SO :: "Interpreter \<Rightarrow> u32" where
  "GetXER_SO s = ucast (drop_bit 1 (xer_so_ov s))"

definition SetXER_SO :: "bool \<Rightarrow> Interpreter \<Rightarrow> Interpreter" where
  "SetXER_SO value s = s\<lparr>xer_so_ov := xer_so_ov s OR push_bit 1 (of_bool value)\<rparr>"

definition GetXER_OV :: "Interpreter \<Rightarrow> u32" where
  "GetXER_OV s = ucast (xer_so_ov s AND 1)"

definition SetXER_OV :: "bool \<Rightarrow> Interpreter \<Rightarrow> Interpreter" where
  "SetXER_OV value s = SetXER_SO value (s\<lparr>xer_so_ov := (xer_so_ov s AND 0xFE) OR of_bool value\<rparr>)"

end
