(* ===== verification/Ppc_Exceptions.thy ===== *)
theory Ppc_Exceptions
  imports Ppc_State
begin

text \<open>
  Exceptions of the CPU: \<open>PowerPCManager::CheckExceptions\<close> and \<open>CheckExternalExceptions\<close> of
  \<open>Core/PowerPC/PowerPC.cpp\<close>, the functions that raise exceptions (\<open>ExceptionUtils.h\<close>), the
  summary bits of the floating-point status register (\<open>Interpreter_FPUtils.h\<close>) and the
  performance monitor.  The host side of \<open>MSRUpdated\<close> (memory views and the recompiler) is left
  out.
\<close>

section \<open>Raising\<close>

abbreviation (input) EXCEPTION_SYSCALL :: u32 where "EXCEPTION_SYSCALL \<equiv> 2"
abbreviation (input) EXCEPTION_DSI :: u32 where "EXCEPTION_DSI \<equiv> 8"
abbreviation (input) EXCEPTION_ISI :: u32 where "EXCEPTION_ISI \<equiv> 0x10"
abbreviation (input) EXCEPTION_ALIGNMENT :: u32 where "EXCEPTION_ALIGNMENT \<equiv> 0x20"
abbreviation (input) EXCEPTION_FPU_UNAVAILABLE :: u32 where "EXCEPTION_FPU_UNAVAILABLE \<equiv> 0x40"
abbreviation (input) EXCEPTION_PROGRAM :: u32 where "EXCEPTION_PROGRAM \<equiv> 0x80"
abbreviation (input) EXCEPTION_PERFORMANCE_MONITOR :: u32 where "EXCEPTION_PERFORMANCE_MONITOR \<equiv> 0x100"
abbreviation (input) EXCEPTION_FAKE_MEMCHECK_HIT :: u32 where "EXCEPTION_FAKE_MEMCHECK_HIT \<equiv> 0x200"

datatype ProgramExceptionCause = FloatingPoint | IllegalInstruction | PrivilegedInstruction | Trap

fun cause_bits :: "ProgramExceptionCause \<Rightarrow> u32" where
  "cause_bits FloatingPoint = push_bit 20 1"
| "cause_bits IllegalInstruction = push_bit 19 1"
| "cause_bits PrivilegedInstruction = push_bit 18 1"
| "cause_bits Trap = push_bit 17 1"

definition raise_exception :: "u32 \<Rightarrow> Interpreter \<Rightarrow> Interpreter" where
  "raise_exception e s = s\<lparr>Exceptions := Exceptions s OR e\<rparr>"

definition GenerateAlignmentException :: "u32 \<Rightarrow> Interpreter \<Rightarrow> Interpreter" where
  "GenerateAlignmentException address s = set_spr SPR_DAR address (raise_exception EXCEPTION_ALIGNMENT s)"

definition GenerateDSIException :: "u32 \<Rightarrow> Interpreter \<Rightarrow> Interpreter" where
  "GenerateDSIException address s = set_spr SPR_DAR address (raise_exception EXCEPTION_DSI s)"

definition GenerateProgramException :: "ProgramExceptionCause \<Rightarrow> Interpreter \<Rightarrow> Interpreter" where
  "GenerateProgramException cause s = set_spr SPR_SRR1 (cause_bits cause) (raise_exception EXCEPTION_PROGRAM s)"

section \<open>The machine state register\<close>

abbreviation (input) MSR_LE :: nat where "MSR_LE \<equiv> 0"
abbreviation (input) MSR_DR :: nat where "MSR_DR \<equiv> 4"
abbreviation (input) MSR_IR :: nat where "MSR_IR \<equiv> 5"
abbreviation (input) MSR_FE1 :: nat where "MSR_FE1 \<equiv> 8"
abbreviation (input) MSR_FE0 :: nat where "MSR_FE0 \<equiv> 11"
abbreviation (input) MSR_FP :: nat where "MSR_FP \<equiv> 13"
abbreviation (input) MSR_PR :: nat where "MSR_PR \<equiv> 14"
abbreviation (input) MSR_EE :: nat where "MSR_EE \<equiv> 15"
abbreviation (input) MSR_ILE :: nat where "MSR_ILE \<equiv> 16"

definition put_bit32 :: "nat \<Rightarrow> bool \<Rightarrow> u32 \<Rightarrow> u32" where
  "put_bit32 n b x = (if b then set_bit n x else unset_bit n x)"

abbreviation (input) FEATURE_FLAG_PERFMON :: u32 where "FEATURE_FLAG_PERFMON \<equiv> 4"

text \<open>
  Page table mappings are views of the host that only the recompiler wants; without it
  \<open>PageTableUpdated\<close> resets the pending flag.
\<close>

definition PageTableUpdated :: "Interpreter \<Rightarrow> Interpreter" where
  "PageTableUpdated s = s\<lparr>pagetable_update_pending := False\<rparr>"

definition MSRUpdated :: "Interpreter \<Rightarrow> Interpreter" where
  "MSRUpdated s0 =
    (let s = s0\<lparr>feature_flags := (feature_flags s0 AND FEATURE_FLAG_PERFMON) OR (drop_bit 4 (msr s0) AND 3)\<rparr>
     in if bit (msr s) MSR_DR \<and> pagetable_update_pending s then PageTableUpdated s else s)"

definition MMCRUpdated :: "Interpreter \<Rightarrow> Interpreter" where
  "MMCRUpdated s =
    (let perfmon = spr s 952 \<noteq> 0 \<or> spr s 956 \<noteq> 0
     in s\<lparr>feature_flags := (feature_flags s AND NOT FEATURE_FLAG_PERFMON)
            OR (if perfmon then FEATURE_FLAG_PERFMON else 0)\<rparr>)"

definition RecalculateAllFeatureFlags :: "Interpreter \<Rightarrow> Interpreter" where
  "RecalculateAllFeatureFlags s =
    (let perfmon = spr s 952 \<noteq> 0 \<or> spr s 956 \<noteq> 0
     in s\<lparr>feature_flags := (drop_bit 4 (msr s) AND 3) OR (if perfmon then FEATURE_FLAG_PERFMON else 0)\<rparr>)"

section \<open>Taking an exception\<close>

text \<open>
  The lines common to all vectors: save the address and the machine state, switch to the
  exception's state (\<open>LE\<close> from \<open>ILE\<close>, the bits of \<open>0x04EF36\<close> off) and go to the vector.
\<close>

definition enter_vector :: "u32 \<Rightarrow> u32 \<Rightarrow> u32 \<Rightarrow> u32 \<Rightarrow> Interpreter \<Rightarrow> Interpreter" where
  "enter_vector srr0 srr1 vector handled s =
    (let s1 = set_spr SPR_SRR1 srr1 (set_spr SPR_SRR0 srr0 s);
         s2 = s1\<lparr>msr := put_bit32 MSR_LE (bit (msr s1) MSR_ILE) (msr s1)\<rparr>;
         s3 = s2\<lparr>msr := msr s2 AND NOT 0x04EF36\<rparr>
     in s3\<lparr>ppc_npc := vector, ppc_pc := vector, Exceptions := Exceptions s3 AND NOT handled\<rparr>)"

definition CheckExternalExceptions :: "Interpreter \<Rightarrow> Interpreter" where
  "CheckExternalExceptions s =
    (let exceptions = Exceptions s; saved = msr s AND 0x87C0FFFF
     in if exceptions \<noteq> 0 \<and> bit (msr s) MSR_EE then MSRUpdated
          (if exceptions AND EXCEPTION_EXTERNAL_INT \<noteq> 0
           then enter_vector (ppc_npc s) saved 0x500 EXCEPTION_EXTERNAL_INT s
           else if exceptions AND EXCEPTION_PERFORMANCE_MONITOR \<noteq> 0
           then enter_vector (ppc_npc s) saved 0xF00 EXCEPTION_PERFORMANCE_MONITOR s
           else if exceptions AND EXCEPTION_DECREMENTER \<noteq> 0
           then enter_vector (ppc_npc s) saved 0x900 EXCEPTION_DECREMENTER s
           else s)
        else s)"

definition ppc_CheckExceptions :: "Interpreter \<Rightarrow> Interpreter" where
  "ppc_CheckExceptions s =
    (let exceptions = Exceptions s; saved = msr s AND 0x87C0FFFF
     in if exceptions AND EXCEPTION_ISI \<noteq> 0
        then MSRUpdated (enter_vector (ppc_npc s) (saved OR push_bit 30 1) 0x400 EXCEPTION_ISI s)
        else if exceptions AND EXCEPTION_PROGRAM \<noteq> 0
        then MSRUpdated (enter_vector (ppc_pc s) (spr s SPR_SRR1 OR saved) 0x700 EXCEPTION_PROGRAM s)
        else if exceptions AND EXCEPTION_SYSCALL \<noteq> 0
        then MSRUpdated (enter_vector (ppc_npc s) saved 0xC00 EXCEPTION_SYSCALL s)
        else if exceptions AND EXCEPTION_FPU_UNAVAILABLE \<noteq> 0
        then MSRUpdated (enter_vector (ppc_pc s) saved 0x800 EXCEPTION_FPU_UNAVAILABLE s)
        else if exceptions AND EXCEPTION_FAKE_MEMCHECK_HIT \<noteq> 0
        then MSRUpdated (s\<lparr>Exceptions := Exceptions s AND (NOT EXCEPTION_DSI AND NOT EXCEPTION_FAKE_MEMCHECK_HIT)\<rparr>)
        else if exceptions AND EXCEPTION_DSI \<noteq> 0
        then MSRUpdated (enter_vector (ppc_pc s) saved 0x300 EXCEPTION_DSI s)
        else if exceptions AND EXCEPTION_ALIGNMENT \<noteq> 0
        then MSRUpdated (enter_vector (ppc_pc s) saved 0x600 EXCEPTION_ALIGNMENT s)
        else CheckExternalExceptions s)"

section \<open>Floating-point status\<close>

abbreviation (input) FPSCR_VX_ANY :: u32 where "FPSCR_VX_ANY \<equiv> 0x01F80700"
abbreviation (input) FPSCR_ANY_X :: u32 where "FPSCR_ANY_X \<equiv> 0x1FF80700"
abbreviation (input) FPSCR_ANY_E :: u32 where "FPSCR_ANY_E \<equiv> 0xF8"
abbreviation (input) FPSCR_FX :: u32 where "FPSCR_FX \<equiv> 0x80000000"
abbreviation (input) FPSCR_mask :: u32 where "FPSCR_mask \<equiv> 0xFFFFF7FF"

definition CheckFPExceptions :: "Interpreter \<Rightarrow> Interpreter" where
  "CheckFPExceptions s =
    (if bit (fpscr s) 30 \<and> (bit (msr s) MSR_FE0 \<or> bit (msr s) MSR_FE1)
     then GenerateProgramException FloatingPoint s else s)"

definition UpdateFPExceptionSummary :: "Interpreter \<Rightarrow> Interpreter" where
  "UpdateFPExceptionSummary s =
    (let s1 = s\<lparr>fpscr := put_bit32 29 (fpscr s AND FPSCR_VX_ANY \<noteq> 0) (fpscr s)\<rparr>;
         s2 = s1\<lparr>fpscr := put_bit32 30 (drop_bit 22 (fpscr s1) AND (fpscr s1 AND FPSCR_ANY_E) \<noteq> 0) (fpscr s1)\<rparr>
     in CheckFPExceptions s2)"

definition SetFPException :: "u32 \<Rightarrow> Interpreter \<Rightarrow> Interpreter" where
  "SetFPException m s =
    (let s1 = (if fpscr s AND m \<noteq> m then s\<lparr>fpscr := put_bit32 31 True (fpscr s)\<rparr> else s)
     in UpdateFPExceptionSummary (s1\<lparr>fpscr := fpscr s1 OR m\<rparr>))"

text \<open>\<open>RoundingModeUpdated\<close> sets the mode of the host's floating-point unit, which is not modelled.\<close>

definition FPSCRUpdated :: "Interpreter \<Rightarrow> Interpreter" where
  "FPSCRUpdated s = UpdateFPExceptionSummary s"

definition UpdateCR1 :: "Interpreter \<Rightarrow> Interpreter" where
  "UpdateCR1 s = SetField 1 (bit_field 28 4 (fpscr s)) s"

section \<open>The performance monitor\<close>

definition add_pmc :: "nat \<Rightarrow> u32 \<Rightarrow> Interpreter \<Rightarrow> Interpreter" where
  "add_pmc n amount s = set_spr n (spr s n + amount) s"

definition UpdatePerformanceMonitor :: "u32 \<Rightarrow> u32 \<Rightarrow> u32 \<Rightarrow> Interpreter \<Rightarrow> Interpreter" where
  "UpdatePerformanceMonitor cycles num_load_stores num_fp_inst s =
    (let mmcr0 = spr s 952; mmcr1 = spr s 956;
         s1 = (if bit_field 6 7 mmcr0 = 1 then add_pmc 953 cycles s else s);
         s2 = (if bit_field 0 6 mmcr0 = 1 then add_pmc 954 cycles s1
               else if bit_field 0 6 mmcr0 = 11 then add_pmc 954 num_load_stores s1 else s1);
         s3 = (if bit_field 27 5 mmcr1 = 1 then add_pmc 957 cycles s2
               else if bit_field 27 5 mmcr1 = 11 then add_pmc 957 num_fp_inst s2 else s2);
         s4 = (if bit_field 22 5 mmcr1 = 1 then add_pmc 958 cycles s3 else s3)
     in if (bit mmcr0 15 \<and> bit (spr s4 953) 31)
           \<or> (bit mmcr0 14 \<and> (bit (spr s4 954) 31 \<or> bit (spr s4 957) 31 \<or> bit (spr s4 958) 31))
        then raise_exception EXCEPTION_PERFORMANCE_MONITOR s4 else s4)"

end
