(* ===== verification/Ppc_Integer.thy ===== *)
theory Ppc_Integer
  imports Ppc_Exceptions "HOL-Library.Signed_Division"
begin

text \<open>
  The integer instructions, \<open>Core/PowerPC/Interpreter/Interpreter_Integer.cpp\<close>, one definition per
  handler in the order of the file.  A handler takes the instruction word and the interpreter.
  Products that overflow \<open>int\<close> wrap.
\<close>

section \<open>Helpers\<close>

definition Helper_UpdateCR0 :: "u32 \<Rightarrow> Interpreter \<Rightarrow> Interpreter" where
  "Helper_UpdateCR0 value s =
    (let cr_val = scast value :: u64;
         cr_val = (if value = 0 then cr_val OR push_bit 63 1 else cr_val);
         cr_val = (cr_val AND NOT (push_bit CR_EMU_SO_BIT 1)) OR push_bit CR_EMU_SO_BIT (ucast (GetXER_SO s))
     in s\<lparr>cr_fields := (cr_fields s)(0 := cr_val)\<rparr>)"

definition Helper_Carry :: "u32 \<Rightarrow> u32 \<Rightarrow> u32" where
  "Helper_Carry value1 value2 = of_bool (NOT value1 < value2)"

text \<open>The last statements of the handlers: \<open>if (inst.OE) ...\<close> and \<open>if (inst.Rc) ...\<close>.\<close>

definition record_OV :: "u32 \<Rightarrow> bool \<Rightarrow> Interpreter \<Rightarrow> Interpreter" where
  "record_OV inst overflow s = (if inst_OE inst then SetXER_OV overflow s else s)"

definition record_CR0 :: "u32 \<Rightarrow> u32 \<Rightarrow> Interpreter \<Rightarrow> Interpreter" where
  "record_CR0 inst value s = (if inst_Rc inst then Helper_UpdateCR0 value s else s)"

text \<open>The shift of \<open>srawx\<close> and \<open>srawix\<close> by less than 32.\<close>

definition shift_algebraic :: "u32 \<Rightarrow> nat \<Rightarrow> Interpreter \<Rightarrow> Interpreter" where
  "shift_algebraic inst amount s =
    (let rrs = gpr s (inst_RS inst)
     in SetCarry (of_bool (rrs <s 0 \<and> 0 < amount \<and> push_bit (32 - amount) rrs \<noteq> 0))
          (set_gpr (inst_RA inst) (signed_drop_bit amount rrs) s))"

section \<open>Instructions\<close>

definition ppc_addi :: "u32 \<Rightarrow> Interpreter \<Rightarrow> Interpreter" where
  "ppc_addi inst s = (if inst_RA inst \<noteq> 0 then set_gpr (inst_RD inst) (gpr s (inst_RA inst) + inst_SIMM_16 inst) s
     else set_gpr (inst_RD inst) (inst_SIMM_16 inst) s)"

definition ppc_addic :: "u32 \<Rightarrow> Interpreter \<Rightarrow> Interpreter" where
  "ppc_addic inst s = (let a = gpr s (inst_RA inst); imm = inst_SIMM_16 inst
     in SetCarry (Helper_Carry a imm) (set_gpr (inst_RD inst) (a + imm) s))"

definition ppc_addic_rc :: "u32 \<Rightarrow> Interpreter \<Rightarrow> Interpreter" where
  "ppc_addic_rc inst s = (let s1 = ppc_addic inst s in Helper_UpdateCR0 (gpr s1 (inst_RD inst)) s1)"

definition ppc_addis :: "u32 \<Rightarrow> Interpreter \<Rightarrow> Interpreter" where
  "ppc_addis inst s = (if inst_RA inst \<noteq> 0 then set_gpr (inst_RD inst) (gpr s (inst_RA inst) + push_bit 16 (inst_SIMM_16 inst)) s
     else set_gpr (inst_RD inst) (push_bit 16 (inst_SIMM_16 inst)) s)"

definition ppc_andi_rc :: "u32 \<Rightarrow> Interpreter \<Rightarrow> Interpreter" where
  "ppc_andi_rc inst s = (let s1 = set_gpr (inst_RA inst) (gpr s (inst_RS inst) AND inst_UIMM inst) s
     in Helper_UpdateCR0 (gpr s1 (inst_RA inst)) s1)"

definition ppc_andis_rc :: "u32 \<Rightarrow> Interpreter \<Rightarrow> Interpreter" where
  "ppc_andis_rc inst s = (let s1 = set_gpr (inst_RA inst) (gpr s (inst_RS inst) AND push_bit 16 (inst_UIMM inst)) s
     in Helper_UpdateCR0 (gpr s1 (inst_RA inst)) s1)"

definition Helper_IntCompare :: "u32 \<Rightarrow> bool \<Rightarrow> bool \<Rightarrow> Interpreter \<Rightarrow> Interpreter" where
  "Helper_IntCompare inst a_less_b b_less_a s =
    (let cr_field = (if a_less_b then CR_LT else if b_less_a then CR_GT else CR_EQ);
         cr_field = (if GetXER_SO s \<noteq> 0 then cr_field OR CR_SO else cr_field)
     in SetField (inst_CRFD inst) cr_field s)"

definition ppc_cmpi :: "u32 \<Rightarrow> Interpreter \<Rightarrow> Interpreter" where
  "ppc_cmpi inst s = (let a = gpr s (inst_RA inst); b = inst_SIMM_16 inst in Helper_IntCompare inst (a <s b) (b <s a) s)"

definition ppc_cmpli :: "u32 \<Rightarrow> Interpreter \<Rightarrow> Interpreter" where
  "ppc_cmpli inst s = (let a = gpr s (inst_RA inst); b = inst_UIMM inst in Helper_IntCompare inst (a < b) (b < a) s)"

definition ppc_mulli :: "u32 \<Rightarrow> Interpreter \<Rightarrow> Interpreter" where
  "ppc_mulli inst s = set_gpr (inst_RD inst) (gpr s (inst_RA inst) * inst_SIMM_16 inst) s"

definition ppc_ori :: "u32 \<Rightarrow> Interpreter \<Rightarrow> Interpreter" where
  "ppc_ori inst s = set_gpr (inst_RA inst) (gpr s (inst_RS inst) OR inst_UIMM inst) s"

definition ppc_oris :: "u32 \<Rightarrow> Interpreter \<Rightarrow> Interpreter" where
  "ppc_oris inst s = set_gpr (inst_RA inst) (gpr s (inst_RS inst) OR push_bit 16 (inst_UIMM inst)) s"

definition ppc_subfic :: "u32 \<Rightarrow> Interpreter \<Rightarrow> Interpreter" where
  "ppc_subfic inst s = (let a = gpr s (inst_RA inst); immediate = inst_SIMM_16 inst
     in SetCarry (of_bool (a = 0 \<or> Helper_Carry (0 - a) immediate \<noteq> 0)) (set_gpr (inst_RD inst) (immediate - a) s))"

definition trap_taken :: "u32 \<Rightarrow> u32 \<Rightarrow> u32 \<Rightarrow> bool" where
  "trap_taken TO a b \<longleftrightarrow> (a <s b \<and> TO AND 0x10 \<noteq> 0) \<or> (b <s a \<and> TO AND 0x08 \<noteq> 0) \<or> (a = b \<and> TO AND 0x04 \<noteq> 0)
     \<or> (a < b \<and> TO AND 0x02 \<noteq> 0) \<or> (b < a \<and> TO AND 0x01 \<noteq> 0)"

definition ppc_twi :: "u32 \<Rightarrow> Interpreter \<Rightarrow> Interpreter" where
  "ppc_twi inst s = (let a = gpr s (inst_RA inst); b = inst_SIMM_16 inst
     in if trap_taken (inst_TO inst) a b
        then (ppc_CheckExceptions (GenerateProgramException Trap s))\<lparr>m_end_block := True\<rparr> else s)"

definition ppc_xori :: "u32 \<Rightarrow> Interpreter \<Rightarrow> Interpreter" where
  "ppc_xori inst s = set_gpr (inst_RA inst) (gpr s (inst_RS inst) XOR inst_UIMM inst) s"

definition ppc_xoris :: "u32 \<Rightarrow> Interpreter \<Rightarrow> Interpreter" where
  "ppc_xoris inst s = set_gpr (inst_RA inst) (gpr s (inst_RS inst) XOR push_bit 16 (inst_UIMM inst)) s"

definition ppc_rlwimix :: "u32 \<Rightarrow> Interpreter \<Rightarrow> Interpreter" where
  "ppc_rlwimix inst s = (let mask = MakeRotationMask (inst_MB inst) (inst_ME inst);
         v = (gpr s (inst_RA inst) AND NOT mask) OR (word_rotl (inst_SH inst) (gpr s (inst_RS inst)) AND mask)
     in record_CR0 inst v (set_gpr (inst_RA inst) v s))"

definition ppc_rlwinmx :: "u32 \<Rightarrow> Interpreter \<Rightarrow> Interpreter" where
  "ppc_rlwinmx inst s = (let mask = MakeRotationMask (inst_MB inst) (inst_ME inst);
         v = word_rotl (inst_SH inst) (gpr s (inst_RS inst)) AND mask
     in record_CR0 inst v (set_gpr (inst_RA inst) v s))"

definition ppc_rlwnmx :: "u32 \<Rightarrow> Interpreter \<Rightarrow> Interpreter" where
  "ppc_rlwnmx inst s = (let mask = MakeRotationMask (inst_MB inst) (inst_ME inst);
         v = word_rotl (unat (gpr s (inst_RB inst) AND 0x1F)) (gpr s (inst_RS inst)) AND mask
     in record_CR0 inst v (set_gpr (inst_RA inst) v s))"

definition ppc_andx :: "u32 \<Rightarrow> Interpreter \<Rightarrow> Interpreter" where
  "ppc_andx inst s = (let v = gpr s (inst_RS inst) AND gpr s (inst_RB inst)
     in record_CR0 inst v (set_gpr (inst_RA inst) v s))"

definition ppc_andcx :: "u32 \<Rightarrow> Interpreter \<Rightarrow> Interpreter" where
  "ppc_andcx inst s = (let v = gpr s (inst_RS inst) AND NOT (gpr s (inst_RB inst))
     in record_CR0 inst v (set_gpr (inst_RA inst) v s))"

definition ppc_cmp :: "u32 \<Rightarrow> Interpreter \<Rightarrow> Interpreter" where
  "ppc_cmp inst s = (let a = gpr s (inst_RA inst); b = gpr s (inst_RB inst) in Helper_IntCompare inst (a <s b) (b <s a) s)"

definition ppc_cmpl :: "u32 \<Rightarrow> Interpreter \<Rightarrow> Interpreter" where
  "ppc_cmpl inst s = (let a = gpr s (inst_RA inst); b = gpr s (inst_RB inst) in Helper_IntCompare inst (a < b) (b < a) s)"

text \<open>\<open>std::countl_zero\<close>.\<close>

definition countl_zero :: "u32 \<Rightarrow> nat" where
  "countl_zero w = length (takeWhile (\<lambda>i. \<not> bit w i) (rev [0..<32]))"

definition ppc_cntlzwx :: "u32 \<Rightarrow> Interpreter \<Rightarrow> Interpreter" where
  "ppc_cntlzwx inst s = (let v = word_of_nat (countl_zero (gpr s (inst_RS inst)))
     in record_CR0 inst v (set_gpr (inst_RA inst) v s))"

definition ppc_eqvx :: "u32 \<Rightarrow> Interpreter \<Rightarrow> Interpreter" where
  "ppc_eqvx inst s = (let v = NOT (gpr s (inst_RS inst) XOR gpr s (inst_RB inst))
     in record_CR0 inst v (set_gpr (inst_RA inst) v s))"

definition ppc_extsbx :: "u32 \<Rightarrow> Interpreter \<Rightarrow> Interpreter" where
  "ppc_extsbx inst s = (let v = scast (ucast (gpr s (inst_RS inst)) :: u8)
     in record_CR0 inst v (set_gpr (inst_RA inst) v s))"

definition ppc_extshx :: "u32 \<Rightarrow> Interpreter \<Rightarrow> Interpreter" where
  "ppc_extshx inst s = (let v = scast (ucast (gpr s (inst_RS inst)) :: u16)
     in record_CR0 inst v (set_gpr (inst_RA inst) v s))"

definition ppc_nandx :: "u32 \<Rightarrow> Interpreter \<Rightarrow> Interpreter" where
  "ppc_nandx inst s = (let v = NOT (gpr s (inst_RS inst) AND gpr s (inst_RB inst))
     in record_CR0 inst v (set_gpr (inst_RA inst) v s))"

definition ppc_norx :: "u32 \<Rightarrow> Interpreter \<Rightarrow> Interpreter" where
  "ppc_norx inst s = (let v = NOT (gpr s (inst_RS inst) OR gpr s (inst_RB inst))
     in record_CR0 inst v (set_gpr (inst_RA inst) v s))"

definition ppc_orx :: "u32 \<Rightarrow> Interpreter \<Rightarrow> Interpreter" where
  "ppc_orx inst s = (let v = gpr s (inst_RS inst) OR gpr s (inst_RB inst)
     in record_CR0 inst v (set_gpr (inst_RA inst) v s))"

definition ppc_orcx :: "u32 \<Rightarrow> Interpreter \<Rightarrow> Interpreter" where
  "ppc_orcx inst s = (let v = gpr s (inst_RS inst) OR NOT (gpr s (inst_RB inst))
     in record_CR0 inst v (set_gpr (inst_RA inst) v s))"

definition ppc_slwx :: "u32 \<Rightarrow> Interpreter \<Rightarrow> Interpreter" where
  "ppc_slwx inst s = (let amount = gpr s (inst_RB inst);
         v = (if amount AND 0x20 \<noteq> 0 then 0 else push_bit (unat (amount AND 0x1F)) (gpr s (inst_RS inst)))
     in record_CR0 inst v (set_gpr (inst_RA inst) v s))"

definition ppc_srawx :: "u32 \<Rightarrow> Interpreter \<Rightarrow> Interpreter" where
  "ppc_srawx inst s = (let rb = gpr s (inst_RB inst);
         s1 = (if rb AND 0x20 \<noteq> 0 then
                 if gpr s (inst_RS inst) AND 0x80000000 \<noteq> 0 then SetCarry 1 (set_gpr (inst_RA inst) 0xFFFFFFFF s)
                 else SetCarry 0 (set_gpr (inst_RA inst) 0 s)
               else shift_algebraic inst (unat (rb AND 0x1F)) s)
     in record_CR0 inst (gpr s1 (inst_RA inst)) s1)"

definition ppc_srawix :: "u32 \<Rightarrow> Interpreter \<Rightarrow> Interpreter" where
  "ppc_srawix inst s = (let s1 = shift_algebraic inst (inst_SH inst) s in record_CR0 inst (gpr s1 (inst_RA inst)) s1)"

definition ppc_srwx :: "u32 \<Rightarrow> Interpreter \<Rightarrow> Interpreter" where
  "ppc_srwx inst s = (let amount = gpr s (inst_RB inst);
         v = (if amount AND 0x20 \<noteq> 0 then 0 else drop_bit (unat (amount AND 0x1F)) (gpr s (inst_RS inst)))
     in record_CR0 inst v (set_gpr (inst_RA inst) v s))"

definition ppc_tw :: "u32 \<Rightarrow> Interpreter \<Rightarrow> Interpreter" where
  "ppc_tw inst s = (let a = gpr s (inst_RA inst); b = gpr s (inst_RB inst)
     in if trap_taken (inst_TO inst) a b
        then (ppc_CheckExceptions (GenerateProgramException Trap s))\<lparr>m_end_block := True\<rparr> else s)"

definition ppc_xorx :: "u32 \<Rightarrow> Interpreter \<Rightarrow> Interpreter" where
  "ppc_xorx inst s = (let v = gpr s (inst_RS inst) XOR gpr s (inst_RB inst)
     in record_CR0 inst v (set_gpr (inst_RA inst) v s))"

definition HasAddOverflowed :: "u32 \<Rightarrow> u32 \<Rightarrow> u32 \<Rightarrow> bool" where
  "HasAddOverflowed x y result \<longleftrightarrow> drop_bit 31 ((x XOR result) AND (y XOR result)) \<noteq> 0"

definition ppc_addx :: "u32 \<Rightarrow> Interpreter \<Rightarrow> Interpreter" where
  "ppc_addx inst s = (let a = gpr s (inst_RA inst);
         b = gpr s (inst_RB inst);
         result = a + b;
         s1 = set_gpr (inst_RD inst) result s
     in record_CR0 inst result (record_OV inst (HasAddOverflowed a b result) s1))"

definition ppc_addcx :: "u32 \<Rightarrow> Interpreter \<Rightarrow> Interpreter" where
  "ppc_addcx inst s = (let a = gpr s (inst_RA inst);
         b = gpr s (inst_RB inst);
         result = a + b;
         s1 = set_gpr (inst_RD inst) result s;
         s2 = SetCarry (Helper_Carry a b) s1
     in record_CR0 inst result (record_OV inst (HasAddOverflowed a b result) s2))"

definition ppc_addex :: "u32 \<Rightarrow> Interpreter \<Rightarrow> Interpreter" where
  "ppc_addex inst s = (let carry = GetCarry s;
         a = gpr s (inst_RA inst);
         b = gpr s (inst_RB inst);
         result = a + b + carry;
         s1 = set_gpr (inst_RD inst) result s;
         s2 = SetCarry (of_bool (Helper_Carry a b \<noteq> 0 \<or> (carry \<noteq> 0 \<and> Helper_Carry (a + b) carry \<noteq> 0))) s1
     in record_CR0 inst result (record_OV inst (HasAddOverflowed a b result) s2))"

definition ppc_addmex :: "u32 \<Rightarrow> Interpreter \<Rightarrow> Interpreter" where
  "ppc_addmex inst s = (let carry = GetCarry s;
         a = gpr s (inst_RA inst);
         b = 0xFFFFFFFF;
         result = a + b + carry;
         s1 = set_gpr (inst_RD inst) result s;
         s2 = SetCarry (Helper_Carry a (carry - 1)) s1
     in record_CR0 inst result (record_OV inst (HasAddOverflowed a b result) s2))"

definition ppc_addzex :: "u32 \<Rightarrow> Interpreter \<Rightarrow> Interpreter" where
  "ppc_addzex inst s = (let carry = GetCarry s;
         a = gpr s (inst_RA inst);
         result = a + carry;
         s1 = set_gpr (inst_RD inst) result s;
         s2 = SetCarry (Helper_Carry a carry) s1
     in record_CR0 inst result (record_OV inst (HasAddOverflowed a 0 result) s2))"

definition ppc_divwx :: "u32 \<Rightarrow> Interpreter \<Rightarrow> Interpreter" where
  "ppc_divwx inst s = (let a = gpr s (inst_RA inst); b = gpr s (inst_RB inst);
         overflow = (b = 0 \<or> (a = 0x80000000 \<and> b = - 1));
         v = (if overflow then if a <s 0 then 0xFFFFFFFF else 0 else word_of_int (sint a sdiv sint b))
     in record_CR0 inst v (record_OV inst overflow (set_gpr (inst_RD inst) v s)))"

definition ppc_divwux :: "u32 \<Rightarrow> Interpreter \<Rightarrow> Interpreter" where
  "ppc_divwux inst s = (let a = gpr s (inst_RA inst); b = gpr s (inst_RB inst); overflow = (b = 0);
         v = (if overflow then 0 else a div b)
     in record_CR0 inst v (record_OV inst overflow (set_gpr (inst_RD inst) v s)))"

definition ppc_mulhwx :: "u32 \<Rightarrow> Interpreter \<Rightarrow> Interpreter" where
  "ppc_mulhwx inst s = (let a = scast (gpr s (inst_RA inst)) :: s64; b = scast (gpr s (inst_RB inst)) :: s64;
         d = ucast (signed_drop_bit 32 (a * b))
     in record_CR0 inst d (set_gpr (inst_RD inst) d s))"

definition ppc_mulhwux :: "u32 \<Rightarrow> Interpreter \<Rightarrow> Interpreter" where
  "ppc_mulhwux inst s = (let a = ucast (gpr s (inst_RA inst)) :: u64; b = ucast (gpr s (inst_RB inst)) :: u64;
         d = ucast (drop_bit 32 (a * b))
     in record_CR0 inst d (set_gpr (inst_RD inst) d s))"

definition ppc_mullwx :: "u32 \<Rightarrow> Interpreter \<Rightarrow> Interpreter" where
  "ppc_mullwx inst s = (let a = scast (gpr s (inst_RA inst)) :: s64; b = scast (gpr s (inst_RB inst)) :: s64; result = a * b;
         v = ucast result
     in record_CR0 inst v (record_OV inst (result <s - 0x80000000 \<or> 0x7FFFFFFF <s result) (set_gpr (inst_RD inst) v s)))"

definition ppc_negx :: "u32 \<Rightarrow> Interpreter \<Rightarrow> Interpreter" where
  "ppc_negx inst s = (let a = gpr s (inst_RA inst); v = NOT a + 1
     in record_CR0 inst v (record_OV inst (a = 0x80000000) (set_gpr (inst_RD inst) v s)))"

definition ppc_subfx :: "u32 \<Rightarrow> Interpreter \<Rightarrow> Interpreter" where
  "ppc_subfx inst s = (let a = NOT (gpr s (inst_RA inst));
         b = gpr s (inst_RB inst);
         result = a + b + 1;
         s1 = set_gpr (inst_RD inst) result s
     in record_CR0 inst result (record_OV inst (HasAddOverflowed a b result) s1))"

definition ppc_subfcx :: "u32 \<Rightarrow> Interpreter \<Rightarrow> Interpreter" where
  "ppc_subfcx inst s = (let a = NOT (gpr s (inst_RA inst));
         b = gpr s (inst_RB inst);
         result = a + b + 1;
         s1 = set_gpr (inst_RD inst) result s;
         s2 = SetCarry (of_bool (a = 0xFFFFFFFF \<or> Helper_Carry b (a + 1) \<noteq> 0)) s1
     in record_CR0 inst result (record_OV inst (HasAddOverflowed a b result) s2))"

definition ppc_subfex :: "u32 \<Rightarrow> Interpreter \<Rightarrow> Interpreter" where
  "ppc_subfex inst s = (let a = NOT (gpr s (inst_RA inst));
         b = gpr s (inst_RB inst);
         carry = GetCarry s;
         result = a + b + carry;
         s1 = set_gpr (inst_RD inst) result s;
         s2 = SetCarry (of_bool (Helper_Carry a b \<noteq> 0 \<or> Helper_Carry (a + b) carry \<noteq> 0)) s1
     in record_CR0 inst result (record_OV inst (HasAddOverflowed a b result) s2))"

definition ppc_subfmex :: "u32 \<Rightarrow> Interpreter \<Rightarrow> Interpreter" where
  "ppc_subfmex inst s = (let a = NOT (gpr s (inst_RA inst));
         b = 0xFFFFFFFF;
         carry = GetCarry s;
         result = a + b + carry;
         s1 = set_gpr (inst_RD inst) result s;
         s2 = SetCarry (Helper_Carry a (carry - 1)) s1
     in record_CR0 inst result (record_OV inst (HasAddOverflowed a b result) s2))"

definition ppc_subfzex :: "u32 \<Rightarrow> Interpreter \<Rightarrow> Interpreter" where
  "ppc_subfzex inst s = (let a = NOT (gpr s (inst_RA inst));
         carry = GetCarry s;
         result = a + carry;
         s1 = set_gpr (inst_RD inst) result s;
         s2 = SetCarry (Helper_Carry a carry) s1
     in record_CR0 inst result (record_OV inst (HasAddOverflowed a 0 result) s2))"

end
