(* ===== verification/Ppc_Registers.thy ===== *)
theory Ppc_Registers
  imports Ppc_Integer
begin

text \<open>
  Lemmas on the registers of the CPU.  The condition register is kept as eight 64-bit values; its
  architectural value is the 32-bit word \<open>cr_Get\<close>, and every operation of the code acts on it as
  the architecture says.  The XER is kept in three parts with the same relation to its word.
\<close>

section \<open>Fields of the condition register\<close>

lemma crTable_length [simp]: "length s_crTable = 16"
  by (simp add: s_crTable_def)

lemma sint_pos_iff: "0 <s x \<longleftrightarrow> \<not> bit x 63 \<and> x \<noteq> 0" for x :: u64
proof -
  have "sint x < 0 \<longleftrightarrow> bit x 63" by (simp add: bit_last_iff [of x, simplified])
  moreover have "sint x = 0 \<longleftrightarrow> x = 0" by (metis signed_0 signed_word_eqI)
  ultimately show ?thesis by (auto simp: word_sless_alt)
qed

lemma field_of_table:
  assumes "v < 16"
  shows "field_of (s_crTable ! unat v) = v"
proof -
  have "unat v < 16" using assms by (simp add: word_less_nat_alt)
  then have "unat v \<in> {0, 1, 2, 3, 4, 5, 6, 7, 8, 9, 10, 11, 12, 13, 14, 15}" by (simp, presburger)
  then have "v \<in> {0, 1, 2, 3, 4, 5, 6, 7, 8, 9, 10, 11, 12, 13, 14, 15}" by (auto simp: word_unat_eq_iff)
  then show ?thesis
    by (auto simp: s_crTable_def field_of_def PPCToInternal_def sint_pos_iff)
qed

lemma bit_nine: "bit (9 :: u64) n \<longleftrightarrow> n = 0 \<or> n = 3"
proof -
  have nine: "(9 :: u64) = push_bit 3 1 OR 1" by simp
  show ?thesis unfolding nine bit_or_iff bit_push_bit_iff bit_1_iff by auto
qed

lemma bit_field_of:
  "bit (field_of x) n \<longleftrightarrow> n = 0 \<and> bit x 59 \<or> n = 3 \<and> bit x 62 \<or> n = 1 \<and> x AND 0xFFFFFFFF = 0 \<or> n = 2 \<and> 0 <s x"
proof -
  have "bit (field_of x) n \<longleftrightarrow> n < 32 \<and> ((n = 0 \<or> n = 3) \<and> bit x (59 + n) \<or>
      n = 1 \<and> x AND 0xFFFFFFFF = 0 \<or> n = 2 \<and> 0 <s x)"
    unfolding field_of_def bit_or_iff bit_push_bit_iff bit_of_bool_iff bit_unsigned_iff bit_and_iff bit_nine bit_drop_bit_eq
    by auto
  then show ?thesis by auto
qed

lemma field_of_less [simp]: "field_of x < 16"
proof -
  have "field_of x = take_bit 4 (field_of x)"
    by (rule bit_word_eqI) (auto simp: bit_take_bit_iff bit_field_of)
  then have "unat (field_of x) = take_bit 4 (unat (field_of x))" by (metis unsigned_take_bit_eq)
  then show ?thesis using take_bit_nat_less_exp [of 4 "unat (field_of x)"] by (simp add: word_less_nat_alt)
qed

lemma GetField_less [simp]: "GetField f s < 16"
  by (simp add: GetField_def)

lemma GetField_SetField [simp]:
  "v < 16 \<Longrightarrow> GetField f (SetField f' v s) = (if f = f' then v else GetField f s)"
  by (simp add: GetField_def SetField_def field_of_table)


lemma GetField_bits: "bit (GetField f s) n \<Longrightarrow> n < 4"
  by (auto simp: GetField_def bit_field_of)

section \<open>The condition register as a word\<close>

lemma bit_fold_or:
  "bit (fold (\<lambda>i r. r OR push_bit (k i) (f i)) is a) n \<longleftrightarrow>
     n < 32 \<and> (bit a n \<or> (\<exists>i \<in> set is. k i \<le> n \<and> bit (f i) (n - k i)))" for a :: u32
  by (induction "is" arbitrary: a) (auto simp: bit_or_iff bit_push_bit_iff dest: bit_imp_le_length)

lemma quad:
  fixes n :: nat
  obtains q r where "n = 4 * q + r" "r < 4" "n div 4 = q" "n mod 4 = r"
  by (rule that [of "n div 4" "n mod 4"]) simp_all

text \<open>Field \<open>f\<close> holds the bits \<open>28 - 4 * f\<close> and up; bit \<open>n\<close> is in field \<open>7 - n div 4\<close>.\<close>

lemma cr_position:
  fixes n i :: nat
  assumes "n < 32" "i < 8"
  shows "28 - i * 4 \<le> n \<and> n - (28 - i * 4) < 4 \<longleftrightarrow> i = 7 - n div 4"
    and "i = 7 - n div 4 \<Longrightarrow> n - (28 - i * 4) = n mod 4"
proof -
  define q where "q = n div 4"
  have n: "n = 4 * q + n mod 4" "n mod 4 < 4" "q < 8" using assms by (simp_all add: q_def)
  show "28 - i * 4 \<le> n \<and> n - (28 - i * 4) < 4 \<longleftrightarrow> i = 7 - n div 4"
    unfolding q_def [symmetric] using n assms by linarith
  show "n - (28 - i * 4) = n mod 4" if "i = 7 - n div 4"
    using n assms that unfolding q_def [symmetric] by linarith
qed

lemma bit_cr_Get: "bit (cr_Get s) n \<longleftrightarrow> n < 32 \<and> bit (GetField (7 - n div 4) s) (n mod 4)"
proof (cases "n < 32")
  case True
  have "(\<exists>i \<in> set [0..<8]. 28 - i * 4 \<le> n \<and> bit (GetField i s) (n - (28 - i * 4))) \<longleftrightarrow>
      bit (GetField (7 - n div 4) s) (n mod 4)" (is "?L \<longleftrightarrow> ?R")
  proof
    assume ?L
    then obtain i where i: "i < 8" "28 - i * 4 \<le> n" "bit (GetField i s) (n - (28 - i * 4))" by auto
    then have "i = 7 - n div 4" using cr_position(1) [OF True i(1)] GetField_bits by blast
    then show ?R using i(3) cr_position(2) [OF True i(1)] by simp
  next
    assume r: ?R
    have "7 - n div 4 < 8" by simp
    then show ?L using cr_position [OF True, of "7 - n div 4"] r by (intro bexI [of _ "7 - n div 4"]) auto
  qed
  then show ?thesis using True unfolding cr_Get_def bit_fold_or by simp
qed (simp add: cr_Get_def bit_fold_or)

lemma GetField_cr_Get: "f < 8 \<Longrightarrow> GetField f s = bit_field (28 - f * 4) 4 (cr_Get s)"
proof (rule bit_word_eqI)
  fix n assume f: "f < 8"
  have "bit (cr_Get s) (28 - f * 4 + n) \<longleftrightarrow> bit (GetField f s) n" if "n < 4"
  proof -
    define k where "k = 28 - f * 4 + n"
    have k: "k < 32" using f that unfolding k_def by linarith
    then have "f = 7 - k div 4" "n = k mod 4"
      using cr_position [OF k f] that by (auto simp: k_def)
    then show ?thesis using k unfolding k_def [symmetric] by (simp add: bit_cr_Get)
  qed
  then show "bit (GetField f s) n \<longleftrightarrow> bit (bit_field (28 - f * 4) 4 (cr_Get s)) n"
    using GetField_bits [of f s n]
    unfolding bit_field_def bit_and_iff bit_drop_bit_eq bit_mask_iff by auto
qed


definition put_field :: "nat \<Rightarrow> u32 \<Rightarrow> u32 \<Rightarrow> u32" where
  "put_field f v w = (w AND NOT (push_bit (28 - f * 4) (mask 4))) OR push_bit (28 - f * 4) (take_bit 4 v)"

lemma bit_put_field:
  assumes "f < 8" "n < 32"
  shows "bit (put_field f v w) n \<longleftrightarrow> (if f = 7 - n div 4 then bit v (n mod 4) else bit w n)"
proof -
  have "bit (put_field f v w) n \<longleftrightarrow> (if 28 - f * 4 \<le> n \<and> n - (28 - f * 4) < 4 then bit v (n - (28 - f * 4)) else bit w n)"
    using assms(2) unfolding put_field_def bit_or_iff bit_and_iff bit_not_iff bit_push_bit_iff bit_take_bit_iff bit_mask_iff
    by auto
  then show ?thesis using cr_position [OF assms(2,1)] by auto
qed

lemma cr_Get_SetField:
  assumes "f < 8" "v < 16"
  shows "cr_Get (SetField f v s) = put_field f v (cr_Get s)"
proof (rule bit_word_eqI)
  fix n assume "n < LENGTH(32)"
  then show "bit (cr_Get (SetField f v s)) n = bit (put_field f v (cr_Get s)) n"
    using assms by (simp add: bit_put_field bit_cr_Get)
qed

lemma GetField_fold:
  "(\<And>i. g i < 16) \<Longrightarrow> GetField f (fold (\<lambda>i. SetField i (g i)) is s) = (if f \<in> set is then g f else GetField f s)"
  by (induction "is" arbitrary: s) auto

lemma and_15_less: "x AND 0xF < (16 :: u32)"
proof -
  have "x AND 0xF \<le> 0xF" by (rule word_and_le1)
  then show ?thesis by (rule le_less_trans) simp
qed

lemma cr_Get_Set: "cr_Get (cr_Set v s) = v"
proof (rule bit_word_eqI)
  fix n assume "n < LENGTH(32)"
  then have n: "n < 32" by simp
  have f: "GetField (7 - n div 4) (cr_Set v s) = drop_bit (28 - (7 - n div 4) * 4) v AND 0xF"
  proof -
    have "7 - n div 4 < 8" by linarith
    then show ?thesis
      using GetField_fold [of "\<lambda>i. drop_bit (28 - i * 4) v AND 0xF" "7 - n div 4" "[0..<8]" s, OF and_15_less]
      by (simp add: cr_Set_def)
  qed
  obtain q r where q: "n = 4 * q + r" "r < 4" "n div 4 = q" "n mod 4 = r" by (rule quad)
  have p: "28 - (7 - n div 4) * 4 + n mod 4 = n" "n mod 4 < 4" unfolding q(3,4) using n q(1,2) by linarith+
  have "bit (x AND 0xF) (n mod 4) \<longleftrightarrow> bit x (n mod 4)" for x :: u32
  proof -
    have "(0xF :: u32) = mask 4" by (simp add: mask_eq_exp_minus_1)
    then show ?thesis using p(2) by (simp only: bit_and_iff bit_mask_iff) auto
  qed
  then show "bit (cr_Get (cr_Set v s)) n = bit v n" using n p(1) by (simp add: bit_cr_Get f bit_drop_bit_eq)
qed

section \<open>Single bits of the condition register\<close>

lemma arch_position:
  fixes n :: nat
  assumes "n < 32"
  shows "7 - (31 - n) div 4 = n div 4" "(31 - n) mod 4 = 3 - n mod 4"
proof -
  obtain q r where q: "n = 4 * q + r" "r < 4" "n div 4 = q" "n mod 4 = r" by (rule quad)
  have "q \<le> 7" using q assms by linarith
  then obtain q' r' where q': "q + q' = 7" "r + r' = 3" using q(2) that [of "7 - q" "3 - r"] by linarith
  then have "31 - n = 4 * q' + r'" "r' < 4" using q by linarith+
  then have "(31 - n) div 4 = q'" "(31 - n) mod 4 = r'" by simp_all
  then show "7 - (31 - n) div 4 = n div 4" "(31 - n) mod 4 = 3 - n mod 4" unfolding q(3,4) using q' by linarith+
qed

text \<open>Bit \<open>n\<close> of the architecture is bit \<open>31 - n\<close> of the word.\<close>

lemma GetBit_cr_Get: "n < 32 \<Longrightarrow> GetBit n s = of_bool (bit (cr_Get s) (31 - n))"
  by (rule bit_word_eqI)
     (auto simp: GetBit_def bit_cr_Get arch_position bit_and_iff bit_drop_bit_eq bit_1_iff bit_of_bool_iff)

lemma bit_drop_8: "bit (drop_bit j (8 :: u32)) m \<longleftrightarrow> j + m = 3"
proof -
  have eight: "(8 :: u32) = push_bit 3 1" by simp
  show ?thesis unfolding eight bit_drop_bit_eq comp_def bit_push_bit_iff bit_1_iff by auto
qed

lemma field_ops_less:
  "GetField f s OR drop_bit j 8 < 16" "GetField f s AND NOT (drop_bit j 8) < 16"
proof -
  have *: "x < 16" if "\<And>n. bit x n \<Longrightarrow> n < 4" for x :: u32
  proof -
    have "x = take_bit 4 x" by (rule bit_word_eqI) (use that in \<open>auto simp: bit_take_bit_iff\<close>)
    then have "unat x = take_bit 4 (unat x)" by (metis unsigned_take_bit_eq)
    then show ?thesis using take_bit_nat_less_exp [of 4 "unat x"] by (simp add: word_less_nat_alt)
  qed
  show "GetField f s OR drop_bit j 8 < 16" "GetField f s AND NOT (drop_bit j 8) < 16"
    by (rule *; use GetField_bits in \<open>force simp: bit_or_iff bit_and_iff bit_drop_8\<close>)+
qed

lemma cr_Get_SetBit:
  assumes "n < 32"
  shows "cr_Get (SetBit n v s) = put_bit32 (31 - n) (bit v 0) (cr_Get s)"
proof (rule bit_word_eqI)
  fix m assume "m < LENGTH(32)"
  then have m: "m < 32" by simp
  have odd: "v AND 1 \<noteq> 0 \<longleftrightarrow> bit v 0" by (simp add: and_one_eq odd_iff_mod_2_eq_one bit_0)
  have same: "7 - m div 4 = n div 4 \<and> n mod 4 + m mod 4 = 3 \<longleftrightarrow> m = 31 - n"
  proof -
    obtain q r where q: "n = 4 * q + r" "r < 4" "n div 4 = q" "n mod 4 = r" by (rule quad)
    obtain q' r' where q': "m = 4 * q' + r'" "r' < 4" "m div 4 = q'" "m mod 4 = r'" by (rule quad)
    have "q \<le> 7" "q' \<le> 7" using m assms q q' by linarith+
    then show ?thesis unfolding q(3,4) q'(3,4) using q(1,2) q'(1,2)
      by (cases "q + q' = 7"; cases "r + r' = 3"; simp; linarith)
  qed
  have "n div 4 < 8" using assms by simp
  then show "bit (cr_Get (SetBit n v s)) m = bit (put_bit32 (31 - n) (bit v 0) (cr_Get s)) m"
    using m same unfolding SetBit_def odd
    by (auto simp: cr_Get_SetField field_ops_less bit_put_field bit_cr_Get put_bit32_def bit_set_bit_iff bit_unset_bit_iff
        bit_or_iff bit_and_iff bit_not_iff bit_drop_8)
qed


section \<open>The XER\<close>

text \<open>The parts of the XER hold no more than their bits; every instruction keeps this.\<close>

definition xer_ok :: "Interpreter \<Rightarrow> bool" where
  "xer_ok s \<longleftrightarrow> xer_ca s \<le> 1 \<and> xer_so_ov s \<le> 3"

lemma xer_ok_power_on [simp]: "xer_ok (power_on_cpu\<lparr>gpr := g\<rparr>)"
  by (simp add: xer_ok_def power_on_cpu_def)

definition xer_SO :: "Interpreter \<Rightarrow> bool" where
  "xer_SO s = bit (xer_so_ov s) 1"

definition xer_OV :: "Interpreter \<Rightarrow> bool" where
  "xer_OV s = bit (xer_so_ov s) 0"

lemma le_3_cases:
  fixes x :: u8
  assumes "x \<le> 3"
  obtains "x = 0" | "x = 1" | "x = 2" | "x = 3"
proof -
  have "unat x \<le> 3" using assms by (simp add: word_le_nat_alt)
  then have "unat x = 0 \<or> unat x = 1 \<or> unat x = 2 \<or> unat x = 3" by linarith
  then show ?thesis using that by (auto simp: word_unat_eq_iff)
qed

lemma SO_value: "xer_ok s \<Longrightarrow> GetXER_SO s = of_bool (xer_SO s)"
  unfolding xer_ok_def xer_SO_def GetXER_SO_def by (elim conjE le_3_cases) simp_all

lemma xer_ok_OV [simp]: "xer_ok s \<Longrightarrow> xer_ok (SetXER_OV v s)"
  unfolding xer_ok_def SetXER_OV_def SetXER_SO_def by (elim conjE le_3_cases) simp_all

text \<open>The overflow bit is set or cleared and the summary bit sticks.\<close>

lemma SetXER_OV_bits [simp]:
  "xer_ok s \<Longrightarrow> xer_OV (SetXER_OV v s) = v" "xer_ok s \<Longrightarrow> xer_SO (SetXER_OV v s) = (xer_SO s \<or> v)"
  unfolding xer_ok_def xer_OV_def xer_SO_def SetXER_OV_def SetXER_SO_def
  by (elim conjE le_3_cases; simp)+

lemma SetCarry_simps [simp]:
  "xer_so_ov (SetCarry c s) = xer_so_ov s" "gpr (SetCarry c s) = gpr s" "cr_fields (SetCarry c s) = cr_fields s"
  by (simp_all add: SetCarry_def)


lemma carry_value: "xer_ok s \<Longrightarrow> GetCarry s = of_bool (bit (xer_ca s) 0)"
proof -
  assume "xer_ok s"
  then have "unat (xer_ca s) = 0 \<or> unat (xer_ca s) = 1" by (auto simp: xer_ok_def word_le_nat_alt)
  then have "xer_ca s = 0 \<or> xer_ca s = 1" by (auto simp: word_unat_eq_iff)
  then show ?thesis by (auto simp: GetCarry_def)
qed

lemma xer_ok_Carry [simp]: "xer_ok s \<Longrightarrow> xer_ok (SetCarry (of_bool b) s)"
  by (simp add: xer_ok_def SetCarry_def)

lemma GetCarry_SetCarry [simp]: "GetCarry (SetCarry (of_bool b) s) = of_bool b"
  by (simp add: GetCarry_def SetCarry_def)

section \<open>Results compared with zero\<close>

text \<open>The field of a comparison: less, greater or equal, and the summary overflow bit.\<close>

definition order_field :: "bool \<Rightarrow> bool \<Rightarrow> bool \<Rightarrow> u32" where
  "order_field lt gt so = (if lt then CR_LT else if gt then CR_GT else CR_EQ) OR (if so then CR_SO else 0)"

lemma order_field_less [simp]: "order_field lt gt so < 16"
  by (simp add: order_field_def)

lemma IntCompare_field: "xer_ok s \<Longrightarrow>
    Helper_IntCompare inst lt gt s = SetField (inst_CRFD inst) (order_field lt gt (xer_SO s)) s"
  by (simp add: Helper_IntCompare_def order_field_def SO_value Let_def)

lemma bit_order_field:
  "bit (order_field lt gt so) n \<longleftrightarrow> n = 0 \<and> so \<or> n = 1 \<and> \<not> lt \<and> \<not> gt \<or> n = 2 \<and> \<not> lt \<and> gt \<or> n = 3 \<and> lt"
proof -
  have p: "(2 :: u32) = push_bit 1 1" "(4 :: u32) = push_bit 2 1" "(8 :: u32) = push_bit 3 1" by simp_all
  have "bit (1 :: u32) n \<longleftrightarrow> n = 0" "bit (2 :: u32) n \<longleftrightarrow> n = 1" "bit (4 :: u32) n \<longleftrightarrow> n = 2" "bit (8 :: u32) n \<longleftrightarrow> n = 3"
    unfolding p bit_push_bit_iff bit_1_iff by auto
  then show ?thesis by (auto simp: order_field_def bit_or_iff)
qed

lemma bit_insert_59:
  "bit ((x AND NOT (push_bit k 1)) OR push_bit k (of_bool b)) n \<longleftrightarrow> n < 64 \<and> (if n = k then b else bit x n)" for x :: u64
  unfolding bit_or_iff bit_and_iff bit_not_iff bit_push_bit_iff bit_of_bool_iff bit_1_iff
  by (auto dest: bit_imp_le_length)

lemma bit_scast: "bit (scast v :: u64) n \<longleftrightarrow> n < 64 \<and> bit v (min n 31)" for v :: u32
  by (auto simp: bit_signed_iff min_def)

lemma low_word_0: "x AND 0xFFFFFFFF = 0 \<longleftrightarrow> (\<forall>n<32. \<not> bit x n)" for x :: u64
proof -
  have m: "(0xFFFFFFFF :: u64) = mask 32" by (simp add: mask_eq_exp_minus_1)
  have less: "n < 64" if "n < 32" for n :: nat using that by simp
  show ?thesis unfolding m bit_eq_iff bit_and_iff bit_mask_iff by simp (metis less)
qed

lemma CR0_field:
  assumes "xer_ok s"
  shows "Helper_UpdateCR0 v s = s\<lparr>cr_fields := cr_fields (Helper_UpdateCR0 v s)\<rparr>"
    and "GetField f (Helper_UpdateCR0 v s) = (if f = 0 then order_field (v <s 0) (0 <s v) (xer_SO s) else GetField f s)"
proof -
  show "Helper_UpdateCR0 v s = s\<lparr>cr_fields := cr_fields (Helper_UpdateCR0 v s)\<rparr>"
    by (simp add: Helper_UpdateCR0_def Let_def)
  define w where "w = cr_fields (Helper_UpdateCR0 v s) 0"
  have w: "bit w n \<longleftrightarrow> n < 64 \<and> (if n = 59 then xer_SO s else bit v (min n 31) \<or> (v = 0 \<and> n = 63))" for n
  proof -
    have so: "(ucast (GetXER_SO s) :: u64) = of_bool (xer_SO s)" using SO_value [OF assms] by simp
    have "w = ((if v = 0 then scast v OR push_bit 63 1 else scast v) AND NOT (push_bit 59 1)) OR push_bit 59 (of_bool (xer_SO s))"
      unfolding w_def Helper_UpdateCR0_def Let_def so by simp
    then show ?thesis
      by (simp only: bit_insert_59) (simp only: bit_or_iff bit_scast bit_push_bit_iff bit_1_iff split: if_splits; auto)
  qed
  have neg: "v <s 0 \<longleftrightarrow> bit v 31" by (simp add: word_sless_alt bit_last_iff [of v, simplified])
  have pos: "0 <s v \<longleftrightarrow> \<not> bit v 31 \<and> v \<noteq> 0" using neg by (metis signed.less_asym signed.neqE)
  have zero: "v = 0 \<longleftrightarrow> (\<forall>n<32. \<not> bit v n)" by (auto simp: bit_eq_iff dest: bit_imp_le_length)
  have low: "w AND 0xFFFFFFFF = 0 \<longleftrightarrow> v = 0" unfolding low_word_0 zero by (simp add: w)
  have "w \<noteq> 0" using low w [of 63] by (cases "v = 0") auto
  then have gt: "0 <s w \<longleftrightarrow> 0 <s v" unfolding sint_pos_iff pos by (auto simp: w)
  have "field_of w = order_field (v <s 0) (0 <s v) (xer_SO s)"
    by (rule bit_word_eqI) (auto simp: bit_field_of bit_order_field low gt neg pos w)
  then show "GetField f (Helper_UpdateCR0 v s) = (if f = 0 then order_field (v <s 0) (0 <s v) (xer_SO s) else GetField f s)"
    by (simp add: GetField_def w_def Helper_UpdateCR0_def Let_def)
qed


section \<open>The word of the XER\<close>

lemma bit_bit_field: "bit (bit_field n w x) k \<longleftrightarrow> k < w \<and> n + k < 32 \<and> bit x (n + k)"
  unfolding bit_field_def bit_and_iff bit_drop_bit_eq bit_mask_iff by (auto dest: bit_imp_le_length)

lemma bit_XER_mask: "bit (0xE000FF7F :: u32) n \<longleftrightarrow> n < 32 \<and> (n < 7 \<or> 8 \<le> n \<and> n < 16 \<or> 29 \<le> n)"
proof -
  have m: "(0xE000FF7F :: u32) = mask 7 OR (push_bit 8 (mask 8) OR push_bit 29 (mask 3))" by (simp add: mask_eq_exp_minus_1)
  show ?thesis unfolding m bit_or_iff bit_push_bit_iff bit_mask_iff by auto
qed

text \<open>Writing the XER and reading it back gives the word without its reserved bits.\<close>

lemma GetXER_SetXER: "GetXER (SetXER x s) = x AND 0xE000FF7F"
proof (rule bit_word_eqI)
  fix n assume "n < LENGTH(32)"
  have "bit_field 0 7 x AND push_bit 8 (bit_field 8 8 x) = 0" "push_bit 1 (bit_field 31 1 x) AND bit_field 30 1 x = 0"
    by (rule bit_word_eqI; simp only: bit_and_iff bit_push_bit_iff bit_bit_field; simp)+
  then have sums: "bit_field 0 7 x + push_bit 8 (bit_field 8 8 x) = bit_field 0 7 x OR push_bit 8 (bit_field 8 8 x)"
    "push_bit 1 (bit_field 31 1 x) + bit_field 30 1 x = push_bit 1 (bit_field 31 1 x) OR bit_field 30 1 x"
    by (simp_all add: disjunctive_add_eq_or)
  have parts: "xer_stringctrl (SetXER x s) = ucast (bit_field 0 7 x OR push_bit 8 (bit_field 8 8 x))"
    "xer_ca (SetXER x s) = ucast (bit_field 29 1 x)"
    "xer_so_ov (SetXER x s) = ucast (push_bit 1 (bit_field 31 1 x) OR bit_field 30 1 x)"
    unfolding SetXER_def sums by simp_all
  have bits: "bit (xer_stringctrl (SetXER x s)) k \<longleftrightarrow> (k < 7 \<or> 8 \<le> k \<and> k < 16) \<and> bit x k"
    "bit (xer_ca (SetXER x s)) k \<longleftrightarrow> k = 0 \<and> bit x 29"
    "bit (xer_so_ov (SetXER x s)) k \<longleftrightarrow> k = 0 \<and> bit x 30 \<or> k = 1 \<and> bit x 31" for k
    unfolding parts bit_unsigned_iff bit_or_iff bit_push_bit_iff bit_bit_field by auto
  have "bit (GetXER (SetXER x s)) n \<longleftrightarrow> n < 32 \<and> (n < 7 \<or> 8 \<le> n \<and> n < 16 \<or> 29 \<le> n) \<and> bit x n"
  proof -
    consider "n < 29" | "n = 29" | "n = 30" | "n = 31" using \<open>n < LENGTH(32)\<close> by fastforce
    then show ?thesis
      unfolding GetXER_def bit_or_iff bit_push_bit_iff bit_unsigned_iff bits by cases auto
  qed
  then show "bit (GetXER (SetXER x s)) n \<longleftrightarrow> bit (x AND 0xE000FF7F) n"
    unfolding bit_and_iff bit_XER_mask by blast
qed

lemma xer_ok_SetXER [simp]: "xer_ok (SetXER x s)"
proof -
  have "ucast (bit_field 29 1 x) = (of_bool (bit x 29) :: u8)"
    by (rule bit_word_eqI) (auto simp: bit_unsigned_iff bit_bit_field bit_of_bool_iff)
  moreover have "ucast (push_bit 1 (bit_field 31 1 x) + bit_field 30 1 x) = (2 * of_bool (bit x 31) + of_bool (bit x 30) :: u8)"
  proof -
    have "bit_field 31 1 x = of_bool (bit x 31)" "bit_field 30 1 x = of_bool (bit x 30)"
      by (rule bit_word_eqI; simp only: bit_bit_field bit_of_bool_iff; auto)+
    then show ?thesis by simp
  qed
  ultimately show ?thesis by (simp add: xer_ok_def SetXER_def)
qed

end
