(* ===== verification/Ppc_Arith.thy ===== *)
theory Ppc_Arith
  imports Ppc_Registers
begin

text \<open>
  What the integer instructions compute: sums and differences with carry, overflow and the
  comparison with zero, products, quotients, shifts and rotations.
\<close>

section \<open>Carry and overflow of 32-bit words\<close>

lemma uint_not32: "uint (NOT a) = 2 ^ 32 - 1 - uint (a :: u32)"
proof -
  have "a \<le> - 1" by simp
  then have "uint (- 1 - a) = uint (- 1 :: u32) - uint a" by (simp add: uint_minus_simple_alt [symmetric])
  moreover have "NOT a = - 1 - a" "uint (- 1 :: u32) = 2 ^ 32 - 1"
    by (simp_all add: not_eq_complement unsigned_minus_1_eq_mask mask_eq_exp_minus_1)
  ultimately show ?thesis by metis
qed

lemma uint_range32: "0 \<le> uint a" "uint a < 2 ^ 32" for a :: u32
  using uint_lt2p [of a] by simp_all

lemma sint_range32: "- (2 ^ 31) \<le> sint a" "sint a < 2 ^ 31" for a :: u32
  using sint_ge [of a] sint_lt [of a] by simp_all

lemma uint_nonzero: "a \<noteq> 0 \<longleftrightarrow> 1 \<le> uint a" for a :: u32
proof -
  have "a \<noteq> 0 \<longleftrightarrow> uint a \<noteq> 0" by (simp add: word_uint_eq_iff)
  then show ?thesis using uint_range32(1) [of a] by linarith
qed

lemma uint_add32: "uint (a + b) = (if 2 ^ 32 \<le> uint a + uint b then uint a + uint b - 2 ^ 32 else uint a + uint b)"
  for a b :: u32
  using uint_range32 [of a] uint_range32 [of b] by (simp add: uint_plus_if_size word_size not_less)

lemma Carry_exact: "Helper_Carry a b = of_bool (2 ^ 32 \<le> uint a + uint b)"
proof -
  have "NOT a < b \<longleftrightarrow> 2 ^ 32 - 1 - uint a < uint b" by (simp only: word_less_def uint_not32)
  then show ?thesis by (simp add: Helper_Carry_def)
qed

text \<open>The sum of two words and a carry, split as the code does.\<close>

lemma Carry_twice:
  "of_bool (Helper_Carry a b \<noteq> 0 \<or> (c \<and> Helper_Carry (a + b) (of_bool c) \<noteq> 0))
     = (of_bool (2 ^ 32 \<le> uint a + uint b + of_bool c) :: u32)"
  using uint_range32 [of a] uint_range32 [of b]
  by (cases c) (simp_all add: Carry_exact uint_add32)

lemma sint_sum_cases:
  fixes a b :: u32 and c :: bool
  defines "S \<equiv> sint a + sint b + of_bool c"
  shows "sint (a + b + of_bool c) = (if 2 ^ 31 \<le> S then S - 2 ^ 32 else if S < - (2 ^ 31) then S + 2 ^ 32 else S)"
proof -
  have "a + b + of_bool c = word_of_int S" unfolding S_def by (simp add: of_int_of_bool)
  then have "sint (a + b + of_bool c) = signed_take_bit 31 S" by (simp add: sint_sbintrunc')
  moreover have "- (2 ^ 32) \<le> S" "S < 2 ^ 32"
    using sint_range32 [of a] sint_range32 [of b] by (auto simp: S_def)
  moreover have "signed_take_bit 31 S = (if 2 ^ 31 \<le> S then S - 2 ^ 32 else if S < - (2 ^ 31) then S + 2 ^ 32 else S)"
    if "- (2 ^ 32) \<le> S" "S < 2 ^ 32"
  proof -
    have "signed_take_bit 31 S = (S + 2 ^ 31) mod 2 ^ 32 - 2 ^ 31" by (simp add: signed_take_bit_eq_take_bit_shift take_bit_eq_mod)
    moreover have "(S + 2 ^ 31) mod 2 ^ 32 = (if 2 ^ 31 \<le> S then S - 2 ^ 31 else if S < - (2 ^ 31) then S + 2 ^ 31 + 2 ^ 32 else S + 2 ^ 31)"
      using that minus_mod_self2 [of "S + 2 ^ 31" "2 ^ 32"] mod_add_self2 [of "S + 2 ^ 31" "2 ^ 32"]
        mod_pos_pos_trivial [of "S - 2 ^ 31" "2 ^ 32"] mod_pos_pos_trivial [of "S + 2 ^ 31 + 2 ^ 32" "2 ^ 32"]
        mod_pos_pos_trivial [of "S + 2 ^ 31" "2 ^ 32"]
      by auto
    ultimately show ?thesis by simp
  qed
  ultimately show ?thesis by simp
qed

lemma sign_bit32: "bit a 31 \<longleftrightarrow> sint a < 0" for a :: u32
  using bit_last_iff [of a] by simp

lemma overflow_sign:
  fixes x y k :: int
  assumes "- (2 ^ 31) \<le> x" "x < 2 ^ 31" "- (2 ^ 31) \<le> y" "y < 2 ^ 31" "0 \<le> k" "k \<le> 1"
    "r = (if 2 ^ 31 \<le> x + y + k then x + y + k - 2 ^ 32 else if x + y + k < - (2 ^ 31) then x + y + k + 2 ^ 32 else x + y + k)"
  shows "(x < 0 \<longleftrightarrow> y < 0) \<and> (x < 0 \<longleftrightarrow> \<not> r < 0) \<longleftrightarrow> r \<noteq> x + y + k"
proof -
  consider "2 ^ 31 \<le> x + y + k" | "x + y + k < - (2 ^ 31)" | "- (2 ^ 31) \<le> x + y + k" "x + y + k < 2 ^ 31" by linarith
  then show ?thesis
  proof cases
    case 1
    then have "0 \<le> x" "0 \<le> y" "r = x + y + k - 2 ^ 32" "r < 0" using assms by simp_all
    then show ?thesis by simp
  next
    case 2
    then have "x < 0" "y < 0" "r = x + y + k + 2 ^ 32" "0 \<le> r" using assms by simp_all
    then show ?thesis by simp
  next
    case 3
    then have "r = x + y + k" using assms(7) by simp
    then show ?thesis using assms(5,6) by auto
  qed
qed

lemma Overflow_exact:
  fixes a b :: u32
  shows "HasAddOverflowed a b (a + b + of_bool c) \<longleftrightarrow> sint (a + b + of_bool c) \<noteq> sint a + sint b + of_bool c"
proof -
  have shift: "drop_bit 31 x \<noteq> 0 \<longleftrightarrow> bit x 31" for x :: u32
  proof -
    have "drop_bit 31 x = of_bool (bit x 31)"
    proof (rule bit_word_eqI)
      show "bit (drop_bit 31 x) n \<longleftrightarrow> bit (of_bool (bit x 31) :: u32) n" for n
        by (cases n) (auto simp: bit_drop_bit_eq bit_of_bool_iff dest: bit_imp_le_length)
    qed
    then show ?thesis by simp
  qed
  have "HasAddOverflowed a b r \<longleftrightarrow> (bit a 31 \<longleftrightarrow> bit b 31) \<and> (bit a 31 \<longleftrightarrow> \<not> bit r 31)" for r
    unfolding HasAddOverflowed_def shift bit_and_iff bit_xor_iff by blast
  then show ?thesis
    unfolding sign_bit32
    using overflow_sign [OF sint_range32 [of a] sint_range32 [of b] _ _ sint_sum_cases [of a b c]] by simp
qed


section \<open>Recording\<close>

named_theorems ppc_frame \<open>what the parts of a handler leave unchanged\<close>

lemma record_OV_frame [ppc_frame, simp]:
  "gpr (record_OV inst v s) = gpr s" "xer_ca (record_OV inst v s) = xer_ca s"
  "cr_fields (record_OV inst v s) = cr_fields s" "GetField f (record_OV inst v s) = GetField f s"
  by (simp_all add: record_OV_def SetXER_OV_def SetXER_SO_def GetField_def)

lemma record_OV_ok [simp]: "xer_ok s \<Longrightarrow> xer_ok (record_OV inst v s)"
  by (simp add: record_OV_def)

lemma record_OV_flags [simp]:
  "xer_ok s \<Longrightarrow> xer_OV (record_OV inst v s) = (if inst_OE inst then v else xer_OV s)"
  "xer_ok s \<Longrightarrow> xer_SO (record_OV inst v s) = (xer_SO s \<or> inst_OE inst \<and> v)"
  by (simp_all add: record_OV_def)

lemma record_CR0_frame [ppc_frame, simp]:
  "gpr (record_CR0 inst v s) = gpr s" "xer_ca (record_CR0 inst v s) = xer_ca s"
  "xer_so_ov (record_CR0 inst v s) = xer_so_ov s"
  by (simp_all add: record_CR0_def Helper_UpdateCR0_def Let_def)

lemma record_CR0_xer [simp]:
  "xer_ok (record_CR0 inst v s) = xer_ok s" "xer_OV (record_CR0 inst v s) = xer_OV s" "xer_SO (record_CR0 inst v s) = xer_SO s"
  by (simp_all add: xer_ok_def xer_OV_def xer_SO_def)

lemma record_CR0_field [simp]:
  "xer_ok s \<Longrightarrow> GetField f (record_CR0 inst v s) =
     (if f = 0 \<and> inst_Rc inst then order_field (v <s 0) (0 <s v) (xer_SO s) else GetField f s)"
  by (simp add: record_CR0_def CR0_field(2))

lemma set_gpr_frame [simp]:
  "xer_ok (set_gpr n v s) = xer_ok s" "xer_OV (set_gpr n v s) = xer_OV s" "xer_SO (set_gpr n v s) = xer_SO s"
  "GetField f (set_gpr n v s) = GetField f s"
  by (simp_all add: xer_ok_def xer_OV_def xer_SO_def GetField_def)

lemma SetCarry_frame [simp]:
  "xer_OV (SetCarry c s) = xer_OV s" "xer_SO (SetCarry c s) = xer_SO s" "GetField f (SetCarry c s) = GetField f s"
  by (simp_all add: xer_OV_def xer_SO_def GetField_def)

section \<open>Sums and differences\<close>

definition xer_CA :: "Interpreter \<Rightarrow> bool" where
  "xer_CA s = bit (xer_ca s) 0"

lemma CA_frame [simp]:
  "xer_CA (record_OV inst ov s) = xer_CA s" "xer_CA (record_CR0 inst v s) = xer_CA s" "xer_CA (set_gpr n r s) = xer_CA s"
  "xer_CA (SetCarry (of_bool b) s) = b"
  by (simp_all add: xer_CA_def SetCarry_def)

lemma GetCarry_CA: "xer_ok s \<Longrightarrow> GetCarry s = of_bool (xer_CA s)"
  by (simp add: carry_value xer_CA_def)

text \<open>
  The result \<open>v\<close> is written to the register \<open>r\<close>; with \<open>OE\<close> the overflow bit becomes \<open>ov\<close> and the
  summary bit sticks; with \<open>Rc\<close> field 0 compares the result with zero and repeats the summary bit.
\<close>

definition records :: "u32 \<Rightarrow> nat \<Rightarrow> u32 \<Rightarrow> bool \<Rightarrow> Interpreter \<Rightarrow> Interpreter \<Rightarrow> bool" where
  "records inst r v ov s s' \<longleftrightarrow> gpr s' = (gpr s)(r := v)
     \<and> xer_OV s' = (if inst_OE inst then ov else xer_OV s) \<and> xer_SO s' = (xer_SO s \<or> inst_OE inst \<and> ov)
     \<and> (\<forall>f. GetField f s' = (if f = 0 \<and> inst_Rc inst then order_field (v <s 0) (0 <s v) (xer_SO s') else GetField f s))
     \<and> xer_ok s'"

text \<open>The sum of two words and a carry, with the exact overflow and, if \<open>ca\<close>, the exact carry.\<close>

definition sums_exactly :: "bool \<Rightarrow> u32 \<Rightarrow> u32 \<Rightarrow> u32 \<Rightarrow> bool \<Rightarrow> Interpreter \<Rightarrow> Interpreter \<Rightarrow> bool" where
  "sums_exactly ca inst x y c s s' \<longleftrightarrow>
     records inst (inst_RD inst) (x + y + of_bool c) (sint (x + y + of_bool c) \<noteq> sint x + sint y + of_bool c) s s'
     \<and> xer_CA s' = (if ca then 2 ^ 32 \<le> uint x + uint y + of_bool c else xer_CA s)"

lemma sums_exactlyI:
  assumes "xer_ok s" "v = x + y + of_bool c" "ov \<longleftrightarrow> HasAddOverflowed x y v"
  shows "sums_exactly False inst x y c s (record_CR0 inst v (record_OV inst ov (set_gpr (inst_RD inst) v s)))"
    and "cw = of_bool (2 ^ 32 \<le> uint x + uint y + of_bool c) \<Longrightarrow>
      sums_exactly True inst x y c s (record_CR0 inst v (record_OV inst ov (SetCarry cw (set_gpr (inst_RD inst) v s))))"
  using assms Overflow_exact [of x y c] by (auto simp: sums_exactly_def records_def)

lemma Carry_cases:
  "Helper_Carry a b = of_bool (2 ^ 32 \<le> uint a + uint b + of_bool False)"
  "Helper_Carry a (of_bool c) = of_bool (2 ^ 32 \<le> uint a + uint (0 :: u32) + of_bool c)"
  "of_bool (Helper_Carry a b \<noteq> 0 \<or> Helper_Carry (a + b) (of_bool c) \<noteq> 0) = (of_bool (2 ^ 32 \<le> uint a + uint b + of_bool c) :: u32)"
  "of_bool (Helper_Carry a b \<noteq> 0 \<or> of_bool c \<noteq> (0 :: u32) \<and> Helper_Carry (a + b) (of_bool c) \<noteq> 0)
     = (of_bool (2 ^ 32 \<le> uint a + uint b + of_bool c) :: u32)"
  using Carry_twice [of a b c] uint_range32 [of "a + b"] by (cases c; simp add: Carry_exact)+

lemma Carry_plus_1:
  "of_bool (a = 0xFFFFFFFF \<or> Helper_Carry b (a + 1) \<noteq> 0) = (of_bool (2 ^ 32 \<le> uint a + uint b + of_bool True) :: u32)"
proof -
  have max: "a = 0xFFFFFFFF \<longleftrightarrow> uint a = 2 ^ 32 - 1" by (simp add: word_uint_eq_iff)
  have "uint (a + 1) = (if uint a = 2 ^ 32 - 1 then 0 else uint a + 1)"
    using uint_add32 [of a 1] uint_range32 [of a] by auto
  then show ?thesis using uint_range32 [of b] uint_range32 [of a] unfolding max Carry_exact by auto
qed

lemma adds_exactly_sums:
  assumes "xer_ok s"
  shows "sums_exactly False inst (gpr s (inst_RA inst)) (gpr s (inst_RB inst)) False s (ppc_addx inst s)"
    and "sums_exactly True inst (gpr s (inst_RA inst)) (gpr s (inst_RB inst)) False s (ppc_addcx inst s)"
    and "sums_exactly True inst (gpr s (inst_RA inst)) (gpr s (inst_RB inst)) (xer_CA s) s (ppc_addex inst s)"
    and "sums_exactly True inst (gpr s (inst_RA inst)) 0 (xer_CA s) s (ppc_addzex inst s)"
    and "sums_exactly False inst (NOT (gpr s (inst_RA inst))) (gpr s (inst_RB inst)) True s (ppc_subfx inst s)"
    and "sums_exactly True inst (NOT (gpr s (inst_RA inst))) (gpr s (inst_RB inst)) True s (ppc_subfcx inst s)"
    and "sums_exactly True inst (NOT (gpr s (inst_RA inst))) (gpr s (inst_RB inst)) (xer_CA s) s (ppc_subfex inst s)"
    and "sums_exactly True inst (NOT (gpr s (inst_RA inst))) 0 (xer_CA s) s (ppc_subfzex inst s)"
  unfolding ppc_addx_def ppc_addcx_def ppc_addex_def ppc_addzex_def ppc_subfx_def ppc_subfcx_def ppc_subfex_def
    ppc_subfzex_def Let_def GetCarry_CA [OF assms]
  by (rule sums_exactlyI [OF assms]; (rule Carry_cases | rule Carry_plus_1 | simp))+


lemma neg_overflow: "HasAddOverflowed (NOT a) 0 (NOT a + 1) \<longleftrightarrow> a = 0x80000000"
proof -
  have "HasAddOverflowed (NOT a) 0 (NOT a + 1) \<longleftrightarrow> sint (NOT a + 0 + of_bool True) \<noteq> sint (NOT a) + sint (0 :: u32) + of_bool True"
    using Overflow_exact [of "NOT a" 0 True] by simp
  also have "\<dots> \<longleftrightarrow> sint (NOT a) = 2 ^ 31 - 1"
    unfolding sint_sum_cases using sint_range32 [of "NOT a"] by auto
  also have "\<dots> \<longleftrightarrow> NOT a = 0x7FFFFFFF"
    using signed_word_eqI [of "NOT a" "0x7FFFFFFF"] by auto
  also have "\<dots> \<longleftrightarrow> a = NOT 0x7FFFFFFF" by (metis bit.double_compl)
  also have "(NOT 0x7FFFFFFF :: u32) = 0x80000000" by code_simp
  finally show ?thesis .
qed

lemma uint_minus32: "a \<noteq> 0 \<Longrightarrow> uint (- a) = 2 ^ 32 - uint (a :: u32)"
  using uint_sub_if' [of 0 a] uint_nonzero [of a] by simp

lemma Carry_difference: "a = 0 \<or> Helper_Carry (0 - a) b \<noteq> 0 \<longleftrightarrow> a \<le> b"
  by (cases "a = 0") (auto simp: Carry_exact uint_minus32 word_le_def)

text \<open>
  \<open>addme\<close> and \<open>subfme\<close> add minus one to a word \<open>x\<close>.  With the carry set that sum always carries, and the code
  clears the carry.
\<close>

lemma minus_one_carry:
  assumes "xer_ok s" "(f, x) \<in> {(ppc_addmex, gpr s (inst_RA inst)), (ppc_subfmex, NOT (gpr s (inst_RA inst)))}"
  shows "records inst (inst_RD inst) (x - 1 + of_bool (xer_CA s)) (sint (x - 1 + of_bool (xer_CA s)) \<noteq> sint x - 1 + of_bool (xer_CA s))
      s (f inst s) \<and>
    (xer_CA (f inst s) \<longleftrightarrow> \<not> xer_CA s \<and> x \<noteq> 0) \<and>
    (2 ^ 32 \<le> uint x + (2 ^ 32 - 1) + of_bool (xer_CA s) \<longleftrightarrow> xer_CA s \<or> x \<noteq> 0)"
proof -
  define c where "c = xer_CA s"
  have minus: "x - 1 + of_bool c = x + 0xFFFFFFFF + of_bool c" for x :: u32 by simp
  have ov: "sint (x - 1 + of_bool c) \<noteq> sint x - 1 + of_bool c \<longleftrightarrow> HasAddOverflowed x 0xFFFFFFFF (x - 1 + of_bool c)" for x
    using Overflow_exact [of x "0xFFFFFFFF" c] unfolding minus by simp
  have ca: "Helper_Carry x (of_bool c - 1) = of_bool (\<not> c \<and> x \<noteq> 0)" for x
  proof (cases c)
    case True
    then show ?thesis using uint_range32 [of x] by (simp add: Carry_exact)
  next
    case False
    have "uint (- 1 :: u32) = 2 ^ 32 - 1" by (simp add: unsigned_minus_1_eq_mask mask_eq_exp_minus_1)
    moreover have "2 ^ 32 \<le> uint x + (2 ^ 32 - 1) \<longleftrightarrow> x \<noteq> 0" by (simp add: uint_nonzero)
    ultimately have "Helper_Carry x (- 1) = of_bool (x \<noteq> 0)" unfolding Carry_exact by simp
    then show ?thesis using False by simp
  qed
  have ok: "xer_ok (SetCarry (of_bool b) (set_gpr r v s))" for b r v using assms(1) by simp
  have "2 ^ 32 \<le> uint x + (2 ^ 32 - 1) + of_bool c \<longleftrightarrow> c \<or> x \<noteq> 0"
    by (cases c) (simp_all add: uint_nonzero)
  moreover have "f inst s = record_CR0 inst (x - 1 + of_bool c) (record_OV inst (HasAddOverflowed x 0xFFFFFFFF (x - 1 + of_bool c))
      (SetCarry (of_bool (\<not> c \<and> x \<noteq> 0)) (set_gpr (inst_RD inst) (x - 1 + of_bool c) s)))"
    using assms(2) unfolding minus ca [symmetric]
    by (auto simp: ppc_addmex_def ppc_subfmex_def GetCarry_CA [OF assms(1)] c_def Let_def)
  ultimately show ?thesis
    using ok unfolding c_def [symmetric] records_def ov by simp
qed

lemma minus_one_sum:
  assumes "xer_ok s" "(f, x) \<in> {(ppc_addmex, gpr s (inst_RA inst)), (ppc_subfmex, NOT (gpr s (inst_RA inst)))}"
  shows "if xer_CA s then records inst (inst_RD inst) x False s (f inst s) \<and> \<not> xer_CA (f inst s)
    else sums_exactly True inst x 0xFFFFFFFF False s (f inst s)"
proof (cases "xer_CA s")
  case True
  then show ?thesis using minus_one_carry [OF assms] by simp
next
  case False
  have m: "uint (0xFFFFFFFF :: u32) = 2 ^ 32 - 1" "sint (0xFFFFFFFF :: u32) = - 1" by simp_all
  have w: "x + 0xFFFFFFFF = x - 1" by simp
  show ?thesis using minus_one_carry [OF assms] False
    unfolding sums_exactly_def m w by (simp add: w)
qed

text \<open>
  C36: the additions and subtractions write the exact sum modulo \<open>2 ^ 32\<close>, detect overflow exactly,
  compare the result with zero where they record it, and set the carry to the exact carry, with one
  exception: \<open>addme\<close> and \<open>subfme\<close>, which add minus one and the carry, do so only if the carry was clear;
  if it was set they clear it, although their sum then always carries.  A difference is the sum with the
  complement and one.
\<close>

theorem integer_sums_exact:
  assumes "xer_ok s"
  shows "let a = gpr s (inst_RA inst); b = gpr s (inst_RB inst); imm = inst_SIMM_16 inst; ca = xer_CA s in
    sums_exactly False inst a b False s (ppc_addx inst s) \<and> sums_exactly True inst a b False s (ppc_addcx inst s) \<and>
    sums_exactly True inst a b ca s (ppc_addex inst s) \<and> sums_exactly True inst a 0 ca s (ppc_addzex inst s) \<and>
    sums_exactly False inst (NOT a) b True s (ppc_subfx inst s) \<and> sums_exactly True inst (NOT a) b True s (ppc_subfcx inst s) \<and>
    sums_exactly True inst (NOT a) b ca s (ppc_subfex inst s) \<and> sums_exactly True inst (NOT a) 0 ca s (ppc_subfzex inst s) \<and>
    sums_exactly False inst (NOT a) 0 True s (ppc_negx inst s) \<and>
    (if ca then records inst (inst_RD inst) a False s (ppc_addmex inst s) \<and> \<not> xer_CA (ppc_addmex inst s) \<and>
       records inst (inst_RD inst) (NOT a) False s (ppc_subfmex inst s) \<and> \<not> xer_CA (ppc_subfmex inst s)
     else sums_exactly True inst a 0xFFFFFFFF False s (ppc_addmex inst s) \<and>
       sums_exactly True inst (NOT a) 0xFFFFFFFF False s (ppc_subfmex inst s)) \<and>
    ppc_addi inst s = s\<lparr>gpr := (gpr s)(inst_RD inst := (if inst_RA inst = 0 then 0 else a) + imm)\<rparr> \<and>
    ppc_addis inst s = s\<lparr>gpr := (gpr s)(inst_RD inst := (if inst_RA inst = 0 then 0 else a) + imm * 2 ^ 16)\<rparr> \<and>
    gpr (ppc_addic inst s) = (gpr s)(inst_RD inst := a + imm) \<and> xer_CA (ppc_addic inst s) = (2 ^ 32 \<le> uint a + uint imm) \<and>
    gpr (ppc_addic_rc inst s) = gpr (ppc_addic inst s) \<and> xer_CA (ppc_addic_rc inst s) = xer_CA (ppc_addic inst s) \<and>
    (\<forall>f. GetField f (ppc_addic_rc inst s) =
       (if f = 0 then order_field (a + imm <s 0) (0 <s a + imm) (xer_SO s) else GetField f s)) \<and>
    gpr (ppc_subfic inst s) = (gpr s)(inst_RD inst := imm - a) \<and> (xer_CA (ppc_subfic inst s) \<longleftrightarrow> a \<le> imm)"
proof -
  let ?a = "gpr s (inst_RA inst)" and ?imm = "inst_SIMM_16 inst"
  have "sums_exactly False inst (NOT ?a) 0 True s (ppc_negx inst s)"
    unfolding ppc_negx_def Let_def by (rule sums_exactlyI [OF assms]; simp add: neg_overflow)
  moreover have "xer_CA (ppc_addic inst s) = (2 ^ 32 \<le> uint ?a + uint ?imm)"
    unfolding ppc_addic_def Let_def Carry_exact by simp
  moreover have "xer_CA (ppc_subfic inst s) \<longleftrightarrow> ?a \<le> ?imm"
    unfolding ppc_subfic_def Let_def Carry_difference by simp
  moreover have "push_bit 16 ?imm = ?imm * 2 ^ 16" by (rule push_bit_eq_mult)
  moreover have "GetField f (ppc_addic_rc inst s) =
      (if f = 0 then order_field (?a + ?imm <s 0) (0 <s ?a + ?imm) (xer_SO s) else GetField f s)" for f
    using assms by (simp add: ppc_addic_rc_def ppc_addic_def Let_def CR0_field(2) Carry_exact)
  moreover have "gpr (ppc_addic_rc inst s) = gpr (ppc_addic inst s)" "xer_CA (ppc_addic_rc inst s) = xer_CA (ppc_addic inst s)"
    by (simp_all add: ppc_addic_rc_def Helper_UpdateCR0_def Let_def xer_CA_def)
  ultimately show ?thesis
    using adds_exactly_sums [OF assms, of inst] minus_one_sum [OF assms, of ppc_addmex ?a] minus_one_sum [OF assms, of ppc_subfmex "NOT ?a"]
    unfolding Let_def by (simp add: ppc_addic_def ppc_subfic_def ppc_addi_def ppc_addis_def Let_def)
qed

text \<open>\<open>0x80000000\<close> added to itself carries; five added to minus one and a carry leaves five and no carry.\<close>

theorem integer_sums_exact_witness:
  "sums_exactly True 0x7C642C15 0x80000000 0x80000000 False (power_on_cpu\<lparr>gpr := \<lambda>_. 0x80000000\<rparr>)
     (ppc_addcx 0x7C642C15 (power_on_cpu\<lparr>gpr := \<lambda>_. 0x80000000\<rparr>)) \<and>
   \<not> xer_CA (ppc_addmex 0x7C6401D4 (SetCarry 1 (power_on_cpu\<lparr>gpr := \<lambda>_. 5\<rparr>)))"
proof
  show "sums_exactly True 0x7C642C15 0x80000000 0x80000000 False (power_on_cpu\<lparr>gpr := \<lambda>_. 0x80000000\<rparr>)
     (ppc_addcx 0x7C642C15 (power_on_cpu\<lparr>gpr := \<lambda>_. 0x80000000\<rparr>))"
    using integer_sums_exact [of "power_on_cpu\<lparr>gpr := \<lambda>_. 0x80000000\<rparr>" "0x7C642C15"] by (simp add: Let_def)
  let ?s = "SetCarry (of_bool True) (power_on_cpu\<lparr>gpr := \<lambda>_. 5\<rparr>)"
  have "xer_ok ?s" "xer_CA ?s" by (simp_all del: of_bool_eq)
  then show "\<not> xer_CA (ppc_addmex 0x7C6401D4 (SetCarry 1 (power_on_cpu\<lparr>gpr := \<lambda>_. 5\<rparr>)))"
    using integer_sums_exact [of ?s "0x7C6401D4"] by (simp add: Let_def)
qed

section \<open>Products and quotients\<close>

lemma sint_up64: "sint (scast a :: s64) = sint (a :: u32)"
  by (rule sint_up_scast) (simp add: is_up)

lemma uint_up64: "uint (ucast a :: u64) = uint (a :: u32)"
  by (rule uint_up_ucast) (simp add: is_up)

lemma sint_product: "sint ((scast a :: s64) * scast b) = sint a * sint b" for a b :: u32
proof -
  have "\<bar>sint a\<bar> \<le> 2 ^ 31" "\<bar>sint b\<bar> \<le> 2 ^ 31" using sint_range32 [of a] sint_range32 [of b] by simp_all
  then have "\<bar>sint a * sint b\<bar> \<le> 2 ^ 31 * 2 ^ 31" unfolding abs_mult by (intro mult_mono) simp_all
  then have "- (2 ^ 63) \<le> sint a * sint b" "sint a * sint b < 2 ^ 63" by auto
  then show ?thesis by (simp add: sint_word_mult sint_up64 signed_take_bit_int_eq_self)
qed

lemma uint_product: "uint ((ucast a :: u64) * ucast b) = uint a * uint b" for a b :: u32
proof -
  have "uint a * uint b < 2 ^ 32 * 2 ^ 32"
    using uint_range32 [of a] uint_range32 [of b] by (intro mult_strict_mono') simp_all
  then show ?thesis by (simp add: uint_word_ariths uint_up64)
qed

lemma ucast_of_int64: "(ucast (word_of_int n :: u64) :: u32) = word_of_int n"
  by (rule bit_word_eqI) (simp add: bit_unsigned_iff bit_of_int_iff)

lemma ucast_sint64: "(ucast (x :: u64) :: u32) = word_of_int (sint x)"
  using ucast_of_int64 [of "sint x"] by simp

lemma ucast_uint64: "(ucast (x :: u64) :: u32) = word_of_int (uint x)"
  using ucast_of_int64 [of "uint x"] by simp

lemma signed_less: "x <s y \<longleftrightarrow> sint x < sint y"
  by (simp add: word_sless_alt)

text \<open>\<open>records\<close> for the instructions without an overflow bit.\<close>

definition writes :: "u32 \<Rightarrow> nat \<Rightarrow> u32 \<Rightarrow> Interpreter \<Rightarrow> Interpreter \<Rightarrow> bool" where
  "writes inst r v s s' \<longleftrightarrow> gpr s' = (gpr s)(r := v) \<and> xer_so_ov s' = xer_so_ov s \<and> xer_ok s'
     \<and> (\<forall>f. GetField f s' = (if f = 0 \<and> inst_Rc inst then order_field (v <s 0) (0 <s v) (xer_SO s) else GetField f s))"

lemma recordsI: "xer_ok s \<Longrightarrow> records inst r v ov s (record_CR0 inst v (record_OV inst ov (set_gpr r v s)))"
  by (simp add: records_def)

lemma writesI:
  "xer_ok s \<Longrightarrow> writes inst r v s (record_CR0 inst v (set_gpr r v s))"
  "xer_ok s \<Longrightarrow> writes inst r v s (record_CR0 inst v (SetCarry (of_bool b) (set_gpr r v s)))"
  by (simp_all add: writes_def)

text \<open>
  C37: the multiplications deliver the low or the high half of the exact product, and the divisions
  the quotient rounded towards zero.  Overflow is flagged exactly when the product does not fit,
  or the divisor is 0, or the quotient is \<open>2 ^ 31\<close>; then a signed division gives the sign of the
  dividend and an unsigned one 0.
\<close>

theorem products_and_quotients:
  assumes "xer_ok s"
  shows "let a = gpr s (inst_RA inst); b = gpr s (inst_RB inst); d = inst_RD inst; imm = inst_SIMM_16 inst in
    records inst d (word_of_int (sint a * sint b)) (sint a * sint b < - (2 ^ 31) \<or> 2 ^ 31 \<le> sint a * sint b) s (ppc_mullwx inst s) \<and>
    writes inst d (word_of_int (sint a * sint b div 2 ^ 32)) s (ppc_mulhwx inst s) \<and>
    writes inst d (word_of_int (uint a * uint b div 2 ^ 32)) s (ppc_mulhwux inst s) \<and>
    gpr (ppc_mulli inst s) = (gpr s)(d := word_of_int (sint a * sint imm)) \<and>
    (let bad = (sint b = 0 \<or> sint a = - (2 ^ 31) \<and> sint b = - 1) in
       records inst d (if bad then if sint a < 0 then - 1 else 0 else word_of_int (sint a sdiv sint b)) bad s (ppc_divwx inst s)) \<and>
    records inst d (word_of_int (uint a div uint b)) (b = 0) s (ppc_divwux inst s)"
proof -
  define a b where "a = gpr s (inst_RA inst)" and "b = gpr s (inst_RB inst)"
  let ?bad = "sint b = 0 \<or> sint a = - (2 ^ 31) \<and> sint b = - 1"
  have zero: "b = 0 \<longleftrightarrow> sint b = 0" using signed_word_eqI [of b 0] by auto
  have least: "a = 0x80000000 \<longleftrightarrow> sint a = - (2 ^ 31)" using signed_word_eqI [of a "0x80000000"] by auto
  have minus: "b = - 1 \<longleftrightarrow> sint b = - 1" using signed_word_eqI [of b "- 1"] by auto
  have bad: "(b = 0 \<or> a = 0x80000000 \<and> b = - 1) = ?bad" unfolding zero least minus ..
  have "records inst (inst_RD inst) (word_of_int (sint a * sint b)) (sint a * sint b < - (2 ^ 31) \<or> 2 ^ 31 \<le> sint a * sint b)
      s (ppc_mullwx inst s)"
  proof -
    have "(scast a * scast b <s (- 0x80000000 :: s64) \<or> 0x7FFFFFFF <s (scast a * scast b :: s64)) =
        (sint a * sint b < - (2 ^ 31) \<or> 2 ^ 31 \<le> sint a * sint b)"
      unfolding signed_less sint_product by auto
    then show ?thesis
      unfolding ppc_mullwx_def Let_def a_def [symmetric] b_def [symmetric] ucast_sint64 sint_product
      using recordsI [OF assms] by simp
  qed
  moreover have "writes inst (inst_RD inst) (word_of_int (sint a * sint b div 2 ^ 32)) s (ppc_mulhwx inst s)"
    unfolding ppc_mulhwx_def Let_def a_def [symmetric] b_def [symmetric] ucast_sint64 sint_signed_drop_bit_eq
      sint_product drop_bit_eq_div by (rule writesI [OF assms])
  moreover have "writes inst (inst_RD inst) (word_of_int (uint a * uint b div 2 ^ 32)) s (ppc_mulhwux inst s)"
  proof -
    have "uint (drop_bit 32 ((ucast a :: u64) * ucast b)) = uint a * uint b div 2 ^ 32"
      unfolding drop_bit_eq_div uint_div uint_product by simp
    then show ?thesis
      unfolding ppc_mulhwux_def Let_def a_def [symmetric] b_def [symmetric] ucast_uint64 by (simp only: writesI [OF assms])
  qed
  moreover have "records inst (inst_RD inst) (if ?bad then if sint a < 0 then - 1 else 0 else word_of_int (sint a sdiv sint b)) ?bad
      s (ppc_divwx inst s)"
  proof -
    have "(0xFFFFFFFF :: u32) = - 1" "a <s 0 \<longleftrightarrow> sint a < 0" by (simp_all add: signed_less)
    then show ?thesis
      unfolding ppc_divwx_def Let_def a_def [symmetric] b_def [symmetric] bad by (simp only: recordsI [OF assms])
  qed
  moreover have "records inst (inst_RD inst) (word_of_int (uint a div uint b)) (b = 0) s (ppc_divwux inst s)"
  proof -
    have "(if b = 0 then 0 else a div b) = word_of_int (uint a div uint b)" by (simp add: word_div_def)
    then show ?thesis
      unfolding ppc_divwux_def Let_def a_def [symmetric] b_def [symmetric] by (simp only: recordsI [OF assms])
  qed
  ultimately show ?thesis
    unfolding Let_def a_def [symmetric] b_def [symmetric] by (simp add: ppc_mulli_def a_def)
qed

theorem products_and_quotients_witness:
  "records 0x7C642BD6 3 3 False (power_on_cpu\<lparr>gpr := (\<lambda>_. 0)(4 := 7, 5 := 2)\<rparr>)
     (ppc_divwx 0x7C642BD6 (power_on_cpu\<lparr>gpr := (\<lambda>_. 0)(4 := 7, 5 := 2)\<rparr>))"
proof -
  have f: "inst_RA 0x7C642BD6 = 4" "inst_RB 0x7C642BD6 = 5" "inst_RD 0x7C642BD6 = 3"
    by (simp_all add: inst_RA_def inst_RB_def inst_RD_def bit_field_def mask_eq_exp_minus_1)
  show ?thesis
    using products_and_quotients [of "power_on_cpu\<lparr>gpr := (\<lambda>_. 0)(4 := 7, 5 := 2)\<rparr>" "0x7C642BD6"]
    by (simp add: Let_def f signed_divide_int_def)
qed

end
