(* ===== verification/Ppc_Shift.thy ===== *)
theory Ppc_Shift
  imports Ppc_Arith
begin

text \<open>
  Shifts, rotations and bit counting of the CPU.
\<close>

section \<open>Shifts\<close>

text \<open>A register holds the amount of a shift in its low six bits.\<close>

definition shift_count :: "u32 \<Rightarrow> nat" where
  "shift_count w = unat w mod 64"

lemma amount_bits: "w AND 0x20 \<noteq> 0 \<longleftrightarrow> 32 \<le> shift_count w" "unat (w AND 0x1F) = shift_count w mod 32"
proof -
  have m: "(0x1F :: u32) = mask 5" by (simp add: mask_eq_exp_minus_1)
  have "unat (w AND 0x1F) = unat w mod 32" unfolding m take_bit_eq_mask [symmetric]
    by (simp add: take_bit_eq_mod unat_mod_distrib)
  then show "unat (w AND 0x1F) = shift_count w mod 32" by (simp add: shift_count_def mod_mod_cancel)
  have p: "(0x20 :: u32) = 2 ^ 5" by simp
  have "w AND 0x20 \<noteq> 0 \<longleftrightarrow> bit w 5" unfolding p and_exp_eq_0_iff_not_bit by simp
  also have "\<dots> \<longleftrightarrow> odd (unat w div 32)"
    using bit_iff_odd [of "unat w" 5] by (simp add: bit_unsigned_iff)
  also have "\<dots> \<longleftrightarrow> 32 \<le> shift_count w"
  proof -
    have "unat w mod 64 = 32 * (unat w div 32 mod 2) + unat w mod 32" using mod_mult2_eq [of "unat w" 32 2] by simp
    moreover have "unat w mod 32 < 32" by simp
    ultimately show ?thesis unfolding shift_count_def odd_iff_mod_2_eq_one by (cases "unat w div 32 mod 2 = 1") auto
  qed
  finally show "w AND 0x20 \<noteq> 0 \<longleftrightarrow> 32 \<le> shift_count w" .
qed

lemma shift_count_less: "shift_count w < 64"
  by (simp add: shift_count_def)

lemma left_shift: "(if 32 \<le> n then 0 else push_bit n x) = word_of_int (uint x * 2 ^ n)" for x :: u32
proof -
  have "push_bit n x = 0" if "32 \<le> n" using that by (intro bit_word_eqI) (simp add: bit_push_bit_iff)
  moreover have "word_of_int (uint x * 2 ^ n) = push_bit n x" by (simp add: push_bit_eq_mult)
  ultimately show ?thesis by simp
qed

lemma right_shift: "(if 32 \<le> n then 0 else drop_bit n x) = word_of_int (uint x div 2 ^ n)" for x :: u32
proof (cases "32 \<le> n")
  case True
  then have "(2 :: int) ^ 32 \<le> 2 ^ n" by (rule power_increasing) simp
  then have "uint x div 2 ^ n = 0" using uint_range32 [of x] by simp
  then show ?thesis using True by simp
next
  case False
  have "uint (drop_bit n x) = drop_bit n (uint x)"
    by (rule bit_eqI) (auto simp: bit_drop_bit_eq bit_uint_iff dest: bit_imp_le_length)
  then have "drop_bit n x = word_of_int (drop_bit n (uint x))" by (metis word_of_int_uint)
  then show ?thesis using False by (simp add: drop_bit_eq_div)
qed

lemma lost_bits: "n < 32 \<Longrightarrow> 0 < n \<and> push_bit (32 - n) x \<noteq> 0 \<longleftrightarrow> \<not> 2 ^ n dvd sint x" for x :: u32
proof -
  assume n: "n < 32"
  have "push_bit (32 - n) x = 0 \<longleftrightarrow> (\<forall>i<n. \<not> bit x i)"
  proof -
    have "(\<forall>j<32. \<not> (32 - n \<le> j \<and> bit x (j - (32 - n)))) \<longleftrightarrow> (\<forall>i<n. \<not> bit x i)" (is "?L \<longleftrightarrow> ?R")
    proof
      show ?R if ?L
      proof (intro allI impI)
        fix i assume "i < n"
        then show "\<not> bit x i" using that [rule_format, of "32 - n + i"] n by simp
      qed
    qed (use n in auto)
    then show ?thesis by (auto simp: bit_eq_iff bit_push_bit_iff)
  qed
  also have "\<dots> \<longleftrightarrow> take_bit n (sint x) = 0"
    using n by (auto simp: bit_eq_iff bit_take_bit_iff bit_sint_iff)
  finally show ?thesis using n by (cases n) (auto simp: take_bit_eq_0_iff)
qed

lemma algebraic_shift:
  assumes "n < 32" "xer_ok s"
  shows "shift_algebraic inst n s = SetCarry (of_bool (sint (gpr s (inst_RS inst)) < 0 \<and> \<not> 2 ^ n dvd sint (gpr s (inst_RS inst))))
    (set_gpr (inst_RA inst) (word_of_int (sint (gpr s (inst_RS inst)) div 2 ^ n)) s)"
proof -
  have "signed_drop_bit n x = word_of_int (sint x div 2 ^ n)" for x :: u32
    by (simp flip: drop_bit_eq_div sint_signed_drop_bit_eq)
  moreover have "x <s 0 \<and> 0 < n \<and> push_bit (32 - n) x \<noteq> 0 \<longleftrightarrow> sint x < 0 \<and> \<not> 2 ^ n dvd sint x" for x :: u32
    using lost_bits [OF assms(1), of x] by (simp add: signed_less)
  ultimately show ?thesis unfolding shift_algebraic_def Let_def by simp
qed


lemma sign_test: "x AND 0x80000000 \<noteq> 0 \<longleftrightarrow> sint x < 0" for x :: u32
proof -
  have p: "(0x80000000 :: u32) = 2 ^ 31" by simp
  show ?thesis unfolding p and_exp_eq_0_iff_not_bit sign_bit32 by simp
qed

text \<open>A shift by 32 or more leaves copies of the sign.\<close>

lemma far_shift:
  fixes x :: u32
  assumes "32 \<le> n"
  shows "sint x div 2 ^ n = (if sint x < 0 then - 1 else 0)" "sint x < 0 \<Longrightarrow> \<not> 2 ^ n dvd sint x"
proof -
  have big: "(2 :: int) ^ 32 \<le> 2 ^ n" using assms by (intro power_increasing) simp_all
  then show "sint x div 2 ^ n = (if sint x < 0 then - 1 else 0)"
    using sint_range32 [of x] div_pos_pos_trivial [of "sint x" "2 ^ n"] div_pos_neg_trivial [of "sint x + 2 ^ n" "2 ^ n"]
      div_add_self2 [of "2 ^ n" "sint x"] div_pos_pos_trivial [of "sint x + 2 ^ n" "2 ^ n"]
    by auto
  show "\<not> 2 ^ n dvd sint x" if "sint x < 0"
    using zdvd_imp_le [of "2 ^ n" "- sint x"] that big sint_range32 [of x] by auto
qed

text \<open>
  C38: shifts of any amount up to 63 are exact: to the left the product with the power of two, to the
  right the quotient rounded down, of the unsigned value or of the signed one.  The algebraic
  shifts set the carry exactly when the value is negative and bits other than 0 were lost.
\<close>

theorem shifts_exact:
  assumes "xer_ok s"
  shows "let x = gpr s (inst_RS inst); n = shift_count (gpr s (inst_RB inst)); r = inst_RA inst in
    writes inst r (word_of_int (uint x * 2 ^ n)) s (ppc_slwx inst s) \<and>
    writes inst r (word_of_int (uint x div 2 ^ n)) s (ppc_srwx inst s) \<and>
    writes inst r (word_of_int (sint x div 2 ^ n)) s (ppc_srawx inst s) \<and>
    (xer_CA (ppc_srawx inst s) \<longleftrightarrow> sint x < 0 \<and> \<not> 2 ^ n dvd sint x) \<and>
    writes inst r (word_of_int (sint x div 2 ^ inst_SH inst)) s (ppc_srawix inst s) \<and>
    (xer_CA (ppc_srawix inst s) \<longleftrightarrow> sint x < 0 \<and> \<not> 2 ^ inst_SH inst dvd sint x)"
proof -
  let ?x = "gpr s (inst_RS inst)" and ?n = "shift_count (gpr s (inst_RB inst))"
  have amount: "\<not> 32 \<le> ?n \<Longrightarrow> ?n mod 32 = ?n" by simp
  have "ppc_slwx inst s = record_CR0 inst (word_of_int (uint ?x * 2 ^ ?n)) (set_gpr (inst_RA inst) (word_of_int (uint ?x * 2 ^ ?n)) s)"
    unfolding ppc_slwx_def Let_def amount_bits using left_shift [of ?n ?x] by (auto simp: amount)
  moreover have "ppc_srwx inst s = record_CR0 inst (word_of_int (uint ?x div 2 ^ ?n)) (set_gpr (inst_RA inst) (word_of_int (uint ?x div 2 ^ ?n)) s)"
    unfolding ppc_srwx_def Let_def amount_bits using right_shift [of ?n ?x] by (auto simp: amount)
  moreover have "ppc_srawx inst s = record_CR0 inst (word_of_int (sint ?x div 2 ^ ?n))
      (SetCarry (of_bool (sint ?x < 0 \<and> \<not> 2 ^ ?n dvd sint ?x)) (set_gpr (inst_RA inst) (word_of_int (sint ?x div 2 ^ ?n)) s))"
  proof (cases "32 \<le> ?n")
    case True
    have ones: "(0xFFFFFFFF :: u32) = - 1" by simp
    show ?thesis unfolding ppc_srawx_def Let_def amount_bits sign_test ones using True far_shift [OF True, of ?x] by auto
  next
    case False
    then have "?n < 32" by simp
    then show ?thesis
      unfolding ppc_srawx_def Let_def amount_bits using algebraic_shift [OF _ assms, of ?n inst] False by simp
  qed
  moreover have "ppc_srawix inst s = record_CR0 inst (word_of_int (sint ?x div 2 ^ inst_SH inst))
      (SetCarry (of_bool (sint ?x < 0 \<and> \<not> 2 ^ inst_SH inst dvd sint ?x))
        (set_gpr (inst_RA inst) (word_of_int (sint ?x div 2 ^ inst_SH inst)) s))"
    unfolding ppc_srawix_def Let_def algebraic_shift [OF inst_fields_less(7) assms] by simp
  ultimately show ?thesis using writesI [OF assms] unfolding Let_def by simp
qed

theorem shifts_exact_witness:
  "writes 0x7C832E70 3 (- 2) (power_on_cpu\<lparr>gpr := \<lambda>_. 0xFFFFFFC0\<rparr>)
     (ppc_srawix 0x7C832E70 (power_on_cpu\<lparr>gpr := \<lambda>_. 0xFFFFFFC0\<rparr>))"
proof -
  have f: "inst_RA 0x7C832E70 = 3" "inst_SH 0x7C832E70 = 5"
    by (simp_all add: inst_RA_def inst_SH_def bit_field_def mask_eq_exp_minus_1)
  show ?thesis
    using shifts_exact [of "power_on_cpu\<lparr>gpr := \<lambda>_. 0xFFFFFFC0\<rparr>" "0x7C832E70"] by (simp add: Let_def f)
qed

section \<open>Rotations\<close>

text \<open>The architecture counts bits from the most significant one.\<close>

definition arch_bit :: "u32 \<Rightarrow> nat \<Rightarrow> bool" where
  "arch_bit x i = bit x (31 - i)"

text \<open>The bits from \<open>mb\<close> to \<open>me\<close>, around the end of the word if \<open>me\<close> comes first.\<close>

definition in_mask :: "nat \<Rightarrow> nat \<Rightarrow> nat \<Rightarrow> bool" where
  "in_mask mb me i \<longleftrightarrow> (if mb \<le> me then mb \<le> i \<and> i \<le> me else mb \<le> i \<or> i \<le> me)"

lemma arch_ops [simp]:
  "arch_bit (x AND y) i = (arch_bit x i \<and> arch_bit y i)" "arch_bit (x OR y) i = (arch_bit x i \<or> arch_bit y i)"
  "arch_bit (NOT x) i \<longleftrightarrow> \<not> arch_bit x i"
  by (auto simp: arch_bit_def bit_and_iff bit_or_iff bit_not_iff)

lemma mask_bits:
  assumes "mb < 32" "me < 32" "i < 32"
  shows "arch_bit (MakeRotationMask mb me) i = in_mask mb me i"
proof -
  have ones: "(0xFFFFFFFF :: u32) = mask 32" "(0x7FFFFFFF :: u32) = mask 31" by (simp_all add: mask_eq_exp_minus_1)
  have "bit (drop_bit mb (0xFFFFFFFF :: u32)) (31 - i) \<longleftrightarrow> mb \<le> i" "bit (drop_bit me (0x7FFFFFFF :: u32)) (31 - i) \<longleftrightarrow> me < i"
    unfolding ones bit_drop_bit_eq comp_def bit_mask_iff using assms by auto
  then show ?thesis
    unfolding MakeRotationMask_def Let_def arch_bit_def in_mask_def
    by (auto simp: bit_not_iff bit_xor_iff)
qed

lemma rotated_bits:
  assumes "i < 32" "m < 32"
  shows "arch_bit (word_rotl m x) i = arch_bit x ((i + m) mod 32)"
proof -
  have "(31 - i + (32 - m)) mod 32 = 31 - (i + m) mod 32"
  proof (cases "i + m < 32")
    case True
    define k where "k = 31 - (i + m)"
    have "31 - i + (32 - m) = k + 32" "k < 32" using True assms by (simp_all add: k_def)
    then have "(31 - i + (32 - m)) mod 32 = k" by (metis mod_add_self2 mod_less)
    then show ?thesis using True by (simp add: k_def)
  next
    case False
    then have "(i + m) mod 32 = i + m - 32" using assms by (simp add: mod_if)
    moreover have "31 - i + (32 - m) < 32" "31 - i + (32 - m) = 31 - (i + m - 32)" using False assms by linarith+
    ultimately show ?thesis by simp
  qed
  moreover have "31 - i < 32" by linarith
  ultimately show ?thesis using assms by (simp add: arch_bit_def bit_word_rotl_iff)
qed

text \<open>
  C39: the rotate instructions deliver, inside the mask, the source rotated left, and outside it 0 or,
  for the insertion, the old bits of the target.  The mask is the run of bits from \<open>MB\<close> to \<open>ME\<close>, which
  may go around the end of the word.
\<close>

theorem rotations_exact:
  assumes "xer_ok s"
  shows "let x = gpr s (inst_RS inst); old = gpr s (inst_RA inst); sh = inst_SH inst;
      m = in_mask (inst_MB inst) (inst_ME inst); shb = unat (gpr s (inst_RB inst)) mod 32 in
    (\<exists>v. writes inst (inst_RA inst) v s (ppc_rlwinmx inst s) \<and>
       (\<forall>i<32. arch_bit v i \<longleftrightarrow> m i \<and> arch_bit x ((i + sh) mod 32))) \<and>
    (\<exists>v. writes inst (inst_RA inst) v s (ppc_rlwnmx inst s) \<and>
       (\<forall>i<32. arch_bit v i \<longleftrightarrow> m i \<and> arch_bit x ((i + shb) mod 32))) \<and>
    (\<exists>v. writes inst (inst_RA inst) v s (ppc_rlwimix inst s) \<and>
       (\<forall>i<32. arch_bit v i = (if m i then arch_bit x ((i + sh) mod 32) else arch_bit old i)))"
proof -
  have shb: "unat (w AND 0x1F) = unat w mod 32" for w :: u32
    using amount_bits(2) [of w] by (simp add: shift_count_def mod_mod_cancel)
  note bits = mask_bits [OF inst_fields_less(8,9)] rotated_bits
  show ?thesis
    unfolding Let_def ppc_rlwinmx_def ppc_rlwnmx_def ppc_rlwimix_def
    by (intro conjI exI, rule writesI [OF assms], simp add: bits conj_commute,
        rule writesI [OF assms], simp add: bits shb conj_commute,
        rule writesI [OF assms], auto simp: bits)
qed

theorem rotations_exact_witness:
  "\<exists>v. writes 0x5483E8FE 3 v (power_on_cpu\<lparr>gpr := \<lambda>_. 0x12345678\<rparr>)
      (ppc_rlwinmx 0x5483E8FE (power_on_cpu\<lparr>gpr := \<lambda>_. 0x12345678\<rparr>)) \<and>
    (\<forall>i<32. arch_bit v i \<longleftrightarrow> in_mask 3 31 i \<and> arch_bit 0x12345678 ((i + 29) mod 32))"
proof -
  have f: "inst_RA 0x5483E8FE = 3" "inst_SH 0x5483E8FE = 29" "inst_MB 0x5483E8FE = 3" "inst_ME 0x5483E8FE = 31"
    by (simp_all add: inst_RA_def inst_SH_def inst_MB_def inst_ME_def bit_field_def mask_eq_exp_minus_1)
  show ?thesis
    using rotations_exact [of "power_on_cpu\<lparr>gpr := \<lambda>_. 0x12345678\<rparr>" "0x5483E8FE"] by (simp add: Let_def f)
qed

section \<open>Counting\<close>

text \<open>The zeros before the first bit that is set.\<close>

lemma leading_zeros:
  "countl_zero w \<le> 32" "i < countl_zero w \<Longrightarrow> \<not> arch_bit w i" "countl_zero w < 32 \<Longrightarrow> arch_bit w (countl_zero w)"
proof -
  let ?P = "\<lambda>i. \<not> bit w i" and ?l = "rev [0..<32]"
  have nth: "?l ! i = 31 - i" if "i < 32" for i using that by (simp add: rev_nth)
  show le: "countl_zero w \<le> 32" using length_takeWhile_le [of ?P ?l] by (simp add: countl_zero_def)
  show "\<not> arch_bit w i" if "i < countl_zero w"
  proof -
    have i: "i < 32" using that le by simp
    have "takeWhile ?P ?l ! i \<in> set (takeWhile ?P ?l)" using that by (simp add: countl_zero_def)
    then have "?P (takeWhile ?P ?l ! i)" by (auto dest: set_takeWhileD)
    then show ?thesis using that takeWhile_nth [of i ?P ?l] nth [OF i] by (simp add: countl_zero_def arch_bit_def)
  qed
  show "arch_bit w (countl_zero w)" if "countl_zero w < 32"
    using that nth_length_takeWhile [of ?P ?l] nth [OF that] by (simp add: countl_zero_def arch_bit_def)
qed

end
