(* ===== verification/Ppc_Branch.thy ===== *)
theory Ppc_Branch
  imports Ppc_Exceptions
begin

text \<open>
  The branch instructions of the interpreter, \<open>Core/PowerPC/Interpreter/Interpreter_Branch.cpp\<close>, and
  its system register instructions other than \<open>mfspr\<close> and \<open>mtspr\<close>,
  \<open>Interpreter_SystemRegisters.cpp\<close>: condition register logic, moves of the condition register, of the
  floating-point status, of the machine state and of the segment registers.  The recording of
  branches for the debugger and the replaced functions (\<open>HLEFunction\<close>) are left out.
\<close>

section \<open>Branches\<close>

abbreviation (input) BO_DONT_DECREMENT_FLAG :: u32 where "BO_DONT_DECREMENT_FLAG \<equiv> 4"

abbreviation end_block :: "Interpreter \<Rightarrow> Interpreter" where
  "end_block s \<equiv> s\<lparr>m_end_block := True\<rparr>"

definition save_link :: "u32 \<Rightarrow> Interpreter \<Rightarrow> Interpreter" where
  "save_link inst s = (if inst_LK inst then set_spr SPR_LR (ppc_pc s + 4) s else s)"

definition ppc_bx :: "u32 \<Rightarrow> Interpreter \<Rightarrow> Interpreter" where
  "ppc_bx inst s =
    (let s1 = save_link inst s; target = SignExt26 (push_bit 2 (inst_LI inst));
         destination_addr = (if inst_AA inst then target else target + ppc_pc s1)
     in end_block (s1\<lparr>ppc_npc := destination_addr\<rparr>))"

definition decrement_ctr :: "u32 \<Rightarrow> Interpreter \<Rightarrow> Interpreter" where
  "decrement_ctr inst s =
    (if inst_BO inst AND BO_DONT_DECREMENT_FLAG = 0 then set_spr SPR_CTR (spr s SPR_CTR - 1) s else s)"

definition ppc_bcx :: "u32 \<Rightarrow> Interpreter \<Rightarrow> Interpreter" where
  "ppc_bcx inst s0 =
    (let s = decrement_ctr inst s0; BO = inst_BO inst;
         true_false = drop_bit 3 BO AND 1 \<noteq> 0;
         only_counter_check = drop_bit 4 BO AND 1 \<noteq> 0;
         only_condition_check = drop_bit 2 BO AND 1 \<noteq> 0;
         ctr_check = (of_bool (spr s SPR_CTR \<noteq> 0) XOR drop_bit 1 BO) AND 1;
         counter = (only_condition_check \<or> ctr_check \<noteq> 0);
         condition = (only_counter_check \<or> GetBit (inst_BI inst) s = of_bool true_false)
     in if counter \<and> condition
        then let s1 = save_link inst s; target = SignExt16 (ucast (push_bit 2 (inst_BD inst)));
                 destination_addr = (if inst_AA inst then target else target + ppc_pc s1)
             in end_block (s1\<lparr>ppc_npc := destination_addr\<rparr>)
        else end_block s)"

definition ppc_bcctrx :: "u32 \<Rightarrow> Interpreter \<Rightarrow> Interpreter" where
  "ppc_bcctrx inst s =
    (let BO = inst_BO inst;
         condition = (drop_bit 4 BO OR of_bool (GetBit (inst_BI inst) s = drop_bit 3 BO AND 1)) AND 1
     in if condition \<noteq> 0
        then end_block (save_link inst (s\<lparr>ppc_npc := spr s SPR_CTR AND NOT 3\<rparr>))
        else end_block s)"

definition ppc_bclrx :: "u32 \<Rightarrow> Interpreter \<Rightarrow> Interpreter" where
  "ppc_bclrx inst s0 =
    (let s = decrement_ctr inst s0; BO = inst_BO inst;
         counter = (drop_bit 2 BO OR (of_bool (spr s SPR_CTR \<noteq> 0) XOR drop_bit 1 BO)) AND 1;
         condition = (drop_bit 4 BO OR of_bool (GetBit (inst_BI inst) s = drop_bit 3 BO AND 1)) AND 1
     in if counter AND condition \<noteq> 0
        then end_block (save_link inst (s\<lparr>ppc_npc := spr s SPR_LR AND NOT 3\<rparr>))
        else end_block s)"

text \<open>The first lines of the instructions of the operating system.\<close>

definition privileged :: "(Interpreter \<Rightarrow> Interpreter) \<Rightarrow> Interpreter \<Rightarrow> Interpreter" where
  "privileged f s = (if bit (msr s) MSR_PR then GenerateProgramException PrivilegedInstruction s else f s)"

definition ppc_rfi :: "u32 \<Rightarrow> Interpreter \<Rightarrow> Interpreter" where
  "ppc_rfi inst = privileged (\<lambda>s.
    let m = 0x87C0FFFF;
        s1 = s\<lparr>msr := (msr s AND NOT m) OR (spr s SPR_SRR1 AND m)\<rparr>;
        s2 = s1\<lparr>msr := msr s1 AND 0xFFFBFFFF\<rparr>
    in end_block (MSRUpdated (s2\<lparr>ppc_npc := spr s2 SPR_SRR0\<rparr>)))"

definition ppc_sc :: "u32 \<Rightarrow> Interpreter \<Rightarrow> Interpreter" where
  "ppc_sc inst s = end_block (ppc_CheckExceptions (raise_exception EXCEPTION_SYSCALL s))"

section \<open>Condition register\<close>

definition cr_logic :: "(u32 \<Rightarrow> u32 \<Rightarrow> u32) \<Rightarrow> u32 \<Rightarrow> Interpreter \<Rightarrow> Interpreter" where
  "cr_logic f inst s =
    (let a = GetBit (inst_CRBA inst) s; b = GetBit (inst_CRBB inst) s in SetBit (inst_CRBD inst) (f a b) s)"

definition ppc_crand :: "u32 \<Rightarrow> Interpreter \<Rightarrow> Interpreter" where
  "ppc_crand = cr_logic (\<lambda>a b. a AND b)"

definition ppc_crandc :: "u32 \<Rightarrow> Interpreter \<Rightarrow> Interpreter" where
  "ppc_crandc = cr_logic (\<lambda>a b. a AND (1 XOR b))"

definition ppc_creqv :: "u32 \<Rightarrow> Interpreter \<Rightarrow> Interpreter" where
  "ppc_creqv = cr_logic (\<lambda>a b. 1 XOR (a XOR b))"

definition ppc_crnand :: "u32 \<Rightarrow> Interpreter \<Rightarrow> Interpreter" where
  "ppc_crnand = cr_logic (\<lambda>a b. 1 XOR (a AND b))"

definition ppc_crnor :: "u32 \<Rightarrow> Interpreter \<Rightarrow> Interpreter" where
  "ppc_crnor = cr_logic (\<lambda>a b. 1 XOR (a OR b))"

definition ppc_cror :: "u32 \<Rightarrow> Interpreter \<Rightarrow> Interpreter" where
  "ppc_cror = cr_logic (\<lambda>a b. a OR b)"

definition ppc_crorc :: "u32 \<Rightarrow> Interpreter \<Rightarrow> Interpreter" where
  "ppc_crorc = cr_logic (\<lambda>a b. a OR (1 XOR b))"

definition ppc_crxor :: "u32 \<Rightarrow> Interpreter \<Rightarrow> Interpreter" where
  "ppc_crxor = cr_logic (\<lambda>a b. a XOR b)"

definition ppc_mcrf :: "u32 \<Rightarrow> Interpreter \<Rightarrow> Interpreter" where
  "ppc_mcrf inst s = SetField (inst_CRFD inst) (GetField (inst_CRFS inst) s) s"

definition ppc_mcrxr :: "u32 \<Rightarrow> Interpreter \<Rightarrow> Interpreter" where
  "ppc_mcrxr inst s = (SetField (inst_CRFD inst) (drop_bit 28 (GetXER s)) s)\<lparr>xer_ca := 0, xer_so_ov := 0\<rparr>"

definition ppc_mfcr :: "u32 \<Rightarrow> Interpreter \<Rightarrow> Interpreter" where
  "ppc_mfcr inst s = set_gpr (inst_RD inst) (cr_Get s) s"

text \<open>A mask with four bits for each bit of an instruction field.\<close>

definition nibble_mask :: "u32 \<Rightarrow> u32" where
  "nibble_mask fm = fold (\<lambda>i m. if fm AND push_bit i 1 \<noteq> 0 then m OR push_bit (i * 4) 0xF else m) [0..<8] 0"

definition ppc_mtcrf :: "u32 \<Rightarrow> Interpreter \<Rightarrow> Interpreter" where
  "ppc_mtcrf inst s =
    (let crm = inst_CRM inst
     in if crm = 0xFF then cr_Set (gpr s (inst_RS inst)) s
        else let m = nibble_mask crm
             in cr_Set ((cr_Get s AND NOT m) OR (gpr s (inst_RS inst) AND m)) s)"

section \<open>Floating-point status\<close>

definition set_fpscr :: "u32 \<Rightarrow> Interpreter \<Rightarrow> Interpreter" where
  "set_fpscr value s = s\<lparr>fpscr := value AND FPSCR_mask\<rparr>"

definition record_CR1 :: "u32 \<Rightarrow> Interpreter \<Rightarrow> Interpreter" where
  "record_CR1 inst s = (if inst_Rc inst then UpdateCR1 s else s)"

definition ppc_mtfsb0x :: "u32 \<Rightarrow> Interpreter \<Rightarrow> Interpreter" where
  "ppc_mtfsb0x inst s =
    (let b = drop_bit (inst_CRBD inst) 0x80000000
     in record_CR1 inst (FPSCRUpdated (s\<lparr>fpscr := fpscr s AND NOT b\<rparr>)))"

definition ppc_mtfsb1x :: "u32 \<Rightarrow> Interpreter \<Rightarrow> Interpreter" where
  "ppc_mtfsb1x inst s =
    (let b = drop_bit (inst_CRBD inst) 0x80000000;
         s1 = (if b AND FPSCR_ANY_X \<noteq> 0 then SetFPException b s else s\<lparr>fpscr := fpscr s OR (b AND FPSCR_mask)\<rparr>)
     in record_CR1 inst (FPSCRUpdated s1))"

definition ppc_mtfsfix :: "u32 \<Rightarrow> Interpreter \<Rightarrow> Interpreter" where
  "ppc_mtfsfix inst s =
    (let n = 4 * inst_CRFD inst; m = drop_bit n 0xF0000000; imm = push_bit 16 inst AND 0xF0000000
     in record_CR1 inst (FPSCRUpdated (set_fpscr ((fpscr s AND NOT m) OR drop_bit n imm) s)))"

definition ppc_mtfsfx :: "u32 \<Rightarrow> Interpreter \<Rightarrow> Interpreter" where
  "ppc_mtfsfx inst s =
    (let m = nibble_mask (inst_FM inst)
     in record_CR1 inst (FPSCRUpdated (set_fpscr ((fpscr s AND NOT m) OR (ucast (fst (ps s (inst_FB inst))) AND m)) s)))"

definition ppc_mcrfs :: "u32 \<Rightarrow> Interpreter \<Rightarrow> Interpreter" where
  "ppc_mcrfs inst s =
    (let n = 4 * (7 - inst_CRFS inst); fpflags = drop_bit n (fpscr s) AND 0xF;
         s1 = s\<lparr>fpscr := fpscr s AND NOT (push_bit n 0xF AND (FPSCR_FX OR FPSCR_ANY_X))\<rparr>
     in SetField (inst_CRFD inst) fpflags (FPSCRUpdated s1))"

definition set_ps0 :: "nat \<Rightarrow> u64 \<Rightarrow> Interpreter \<Rightarrow> Interpreter" where
  "set_ps0 n v s = s\<lparr>ps := (ps s)(n := (v, snd (ps s n)))\<rparr>"

definition ppc_mffsx :: "u32 \<Rightarrow> Interpreter \<Rightarrow> Interpreter" where
  "ppc_mffsx inst s = record_CR1 inst (set_ps0 (inst_FD inst) (0xFFF8000000000000 OR ucast (fpscr s)) s)"

section \<open>Machine state and segment registers\<close>

definition ppc_mfmsr :: "u32 \<Rightarrow> Interpreter \<Rightarrow> Interpreter" where
  "ppc_mfmsr inst = privileged (\<lambda>s. set_gpr (inst_RD inst) (msr s) s)"

definition ppc_mtmsr :: "u32 \<Rightarrow> Interpreter \<Rightarrow> Interpreter" where
  "ppc_mtmsr inst = privileged (\<lambda>s.
     end_block (ppc_CheckExceptions (CheckFPExceptions (MSRUpdated (s\<lparr>msr := gpr s (inst_RS inst)\<rparr>)))))"

definition ppc_mfsr :: "u32 \<Rightarrow> Interpreter \<Rightarrow> Interpreter" where
  "ppc_mfsr inst = privileged (\<lambda>s. set_gpr (inst_RD inst) (sr_regs s (inst_SR inst)) s)"

definition segment_index :: "u32 \<Rightarrow> Interpreter \<Rightarrow> nat" where
  "segment_index inst s = unat (drop_bit 28 (gpr s (inst_RB inst)) AND 0xF)"

definition ppc_mfsrin :: "u32 \<Rightarrow> Interpreter \<Rightarrow> Interpreter" where
  "ppc_mfsrin inst = privileged (\<lambda>s. set_gpr (inst_RD inst) (sr_regs s (segment_index inst s)) s)"

text \<open>\<open>SRUpdated\<close> only rebuilds the host's views of the page table.\<close>

definition ppc_mtsr :: "u32 \<Rightarrow> Interpreter \<Rightarrow> Interpreter" where
  "ppc_mtsr inst = privileged (\<lambda>s. s\<lparr>sr_regs := (sr_regs s)(inst_SR inst := gpr s (inst_RS inst))\<rparr>)"

definition ppc_mtsrin :: "u32 \<Rightarrow> Interpreter \<Rightarrow> Interpreter" where
  "ppc_mtsrin inst = privileged (\<lambda>s. s\<lparr>sr_regs := (sr_regs s)(segment_index inst s := gpr s (inst_RS inst))\<rparr>)"

definition ppc_isync :: "u32 \<Rightarrow> Interpreter \<Rightarrow> Interpreter" where
  "ppc_isync inst s = s"

end
