(* ===== verification/Ppc_Control.thy ===== *)
theory Ppc_Control
  imports Ppc_Registers Ppc_Branch
begin

text \<open>
  Properties of the control instructions of the CPU: the condition register as a 32-bit word, the
  decisions of the branches, the priority of the exceptions and the return from them.
\<close>

section \<open>The condition register as a word\<close>

text \<open>Bit \<open>n\<close> of the condition register in the numbering of the architecture.\<close>

definition cr_bit :: "nat \<Rightarrow> Interpreter \<Rightarrow> bool" where
  "cr_bit n s = bit (cr_Get s) (31 - n)"

lemma cr_logic_bit:
  assumes "\<And>a b. bit (f (of_bool a) (of_bool b)) 0 = g a b"
  shows "cr_Get (cr_logic f inst s) =
    put_bit32 (31 - inst_CRBD inst) (g (cr_bit (inst_CRBA inst) s) (cr_bit (inst_CRBB inst) s)) (cr_Get s)"
  by (simp add: cr_logic_def Let_def cr_Get_SetBit GetBit_cr_Get assms cr_bit_def)

lemma bit_nibble_mask: "n < 32 \<Longrightarrow> bit (nibble_mask fm) n = bit fm (n div 4)"
proof -
  assume n: "n < 32"
  have step: "bit (fold (\<lambda>i m. if fm AND push_bit i 1 \<noteq> 0 then m OR push_bit (i * 4) 0xF else m) is a) n \<longleftrightarrow>
      bit a n \<or> (n div 4 \<in> set is \<and> bit fm (n div 4))" for "is" and a :: u32
  proof (induction "is" arbitrary: a)
    case (Cons i "is")
    have m: "(0xF :: u32) = mask 4" by (simp add: mask_eq_exp_minus_1)
    have t: "fm AND push_bit i 1 \<noteq> 0 \<longleftrightarrow> bit fm i"
      by (simp add: push_bit_eq_mult and_exp_eq_0_iff_not_bit)
    have "i * 4 \<le> n \<and> n - i * 4 < 4 \<longleftrightarrow> i = n div 4"
    proof -
      obtain q r where q: "n = 4 * q + r" "r < 4" "n div 4 = q" by (rule quad)
      show ?thesis unfolding q(3) using q(1,2) by linarith
    qed
    then have "bit (push_bit (i * 4) (0xF :: u32)) n \<longleftrightarrow> i = n div 4"
      using n unfolding m bit_push_bit_iff bit_mask_iff by auto
    then show ?case unfolding fold_Cons comp_def Cons.IH t by (auto simp: bit_or_iff)
  qed simp
  have "n div 4 < 8" using n by simp
  then show ?thesis unfolding nibble_mask_def step by simp
qed

text \<open>
  the instructions that compute with the condition register act on its 32-bit word as the
  architecture says: each logical instruction sets one bit to its function of two bits, a field
  move copies four bits, and \<open>mtcrf\<close> replaces exactly the fields its mask names, after which
  \<open>mfcr\<close> reads them.
\<close>

theorem condition_register_word:
  "cr_Get (ppc_crand i s) = put_bit32 (31 - inst_CRBD i) (cr_bit (inst_CRBA i) s \<and> cr_bit (inst_CRBB i) s) (cr_Get s) \<and>
   cr_Get (ppc_crandc i s) = put_bit32 (31 - inst_CRBD i) (cr_bit (inst_CRBA i) s \<and> \<not> cr_bit (inst_CRBB i) s) (cr_Get s) \<and>
   cr_Get (ppc_creqv i s) = put_bit32 (31 - inst_CRBD i) (cr_bit (inst_CRBA i) s = cr_bit (inst_CRBB i) s) (cr_Get s) \<and>
   cr_Get (ppc_crnand i s) = put_bit32 (31 - inst_CRBD i) (\<not> (cr_bit (inst_CRBA i) s \<and> cr_bit (inst_CRBB i) s)) (cr_Get s) \<and>
   cr_Get (ppc_crnor i s) = put_bit32 (31 - inst_CRBD i) (\<not> (cr_bit (inst_CRBA i) s \<or> cr_bit (inst_CRBB i) s)) (cr_Get s) \<and>
   cr_Get (ppc_cror i s) = put_bit32 (31 - inst_CRBD i) (cr_bit (inst_CRBA i) s \<or> cr_bit (inst_CRBB i) s) (cr_Get s) \<and>
   cr_Get (ppc_crorc i s) = put_bit32 (31 - inst_CRBD i) (\<not> (cr_bit (inst_CRBB i) s \<and> \<not> cr_bit (inst_CRBA i) s)) (cr_Get s) \<and>
   cr_Get (ppc_crxor i s) = put_bit32 (31 - inst_CRBD i) (cr_bit (inst_CRBA i) s \<noteq> cr_bit (inst_CRBB i) s) (cr_Get s) \<and>
   cr_Get (ppc_mcrf i s) = put_field (inst_CRFD i) (bit_field (28 - inst_CRFS i * 4) 4 (cr_Get s)) (cr_Get s) \<and>
   bit (gpr (ppc_mfcr j (ppc_mtcrf i s)) (inst_RD j)) n =
     (n < 32 \<and> (if bit (inst_CRM i) (n div 4) then bit (gpr s (inst_RS i)) n else bit (cr_Get s) n))"
proof (intro conjI)
  show "bit (gpr (ppc_mfcr j (ppc_mtcrf i s)) (inst_RD j)) n =
     (n < 32 \<and> (if bit (inst_CRM i) (n div 4) then bit (gpr s (inst_RS i)) n else bit (cr_Get s) n))"
  proof (cases "n < 32")
    case True
    have "bit (0xFF :: u32) k" if "k < 8" for k
    proof -
      have "(0xFF :: u32) = mask 8" by (simp add: mask_eq_exp_minus_1)
      then show ?thesis using that by (simp only: bit_mask_iff) simp
    qed
    moreover have "n div 4 < 8" using True by simp
    ultimately show ?thesis using True
      by (simp add: ppc_mfcr_def ppc_mtcrf_def Let_def cr_Get_Set bit_or_iff bit_and_iff bit_not_iff bit_nibble_mask)
  qed (auto dest: bit_imp_le_length)
  show "cr_Get (ppc_mcrf i s) = put_field (inst_CRFD i) (bit_field (28 - inst_CRFS i * 4) 4 (cr_Get s)) (cr_Get s)"
    by (simp add: ppc_mcrf_def cr_Get_SetField GetField_cr_Get [symmetric])
qed (unfold ppc_crand_def ppc_crandc_def ppc_creqv_def ppc_crnand_def ppc_crnor_def ppc_cror_def ppc_crorc_def ppc_crxor_def,
    (rule cr_logic_bit, simp split: if_splits)+)

section \<open>Branches\<close>

text \<open>The byte offsets of the two forms of direct branches, as signed integers.\<close>

definition displacement14 :: "u32 \<Rightarrow> int" where
  "displacement14 inst = 4 * signed_take_bit 13 (uint (inst_BD inst))"

definition displacement24 :: "u32 \<Rightarrow> int" where
  "displacement24 inst = 4 * signed_take_bit 23 (uint (inst_LI inst))"

lemma bit_BD: "bit (inst_BD i) n \<longleftrightarrow> n < 14 \<and> bit i (n + 2)"
  by (auto simp: inst_BD_def bit_bit_field add.commute)

lemma bit_LI: "bit (inst_LI i) n \<longleftrightarrow> n < 24 \<and> bit i (n + 2)"
  by (auto simp: inst_LI_def bit_bit_field add.commute)

lemma bit_signed_times_4:
  "bit (word_of_int (4 * signed_take_bit m x) :: u32) n \<longleftrightarrow> n < 32 \<and> 2 \<le> n \<and> bit x (min (n - 2) m)"
proof -
  have "4 * signed_take_bit m x = push_bit 2 (signed_take_bit m x)" by (simp add: push_bit_eq_mult)
  then show ?thesis by (auto simp: bit_word_of_int_iff bit_push_bit_iff bit_signed_take_bit_iff min_def)
qed

lemma target14: "SignExt16 (ucast (push_bit 2 (inst_BD i))) = word_of_int (displacement14 i)"
proof (rule bit_word_eqI)
  fix n assume "n < LENGTH(32)"
  then have n: "n < 32" by simp
  have "bit (SignExt16 (ucast (push_bit 2 (inst_BD i)))) n \<longleftrightarrow> 2 \<le> min n 15 \<and> bit (inst_BD i) (min n 15 - 2)"
    using n by (auto simp: SignExt16_def bit_signed_iff bit_unsigned_iff bit_push_bit_iff min_def)
  moreover have "min n 15 - 2 = min (n - 2) 13" if "2 \<le> n" using that by auto
  ultimately show "bit (SignExt16 (ucast (push_bit 2 (inst_BD i)))) n \<longleftrightarrow> bit (word_of_int (displacement14 i) :: u32) n"
    using n unfolding displacement14_def bit_signed_times_4 by (auto simp: bit_uint_iff dest: bit_imp_le_length)
qed

lemma target24: "SignExt26 (push_bit 2 (inst_LI i)) = word_of_int (displacement24 i)"
proof (rule bit_word_eqI)
  fix n assume "n < LENGTH(32)"
  then have n: "n < 32" by simp
  define x where "x = push_bit 2 (inst_LI i)"
  have x: "bit x k \<longleftrightarrow> k < 32 \<and> 2 \<le> k \<and> bit (inst_LI i) (k - 2)" for k
    unfolding x_def bit_push_bit_iff by (auto dest: bit_imp_le_length)
  have sign: "x AND 0x2000000 \<noteq> 0 \<longleftrightarrow> bit x 25"
  proof -
    have "(0x2000000 :: u32) = 2 ^ 25" by simp
    then show ?thesis by (simp only: and_exp_eq_0_iff_not_bit) simp
  qed
  have hi: "bit (0xFC000000 :: u32) k \<longleftrightarrow> 26 \<le> k \<and> k < 32" for k
  proof -
    have "(0xFC000000 :: u32) = push_bit 26 (mask 6)" by (simp add: mask_eq_exp_minus_1)
    then show ?thesis by (simp only: bit_push_bit_iff bit_mask_iff) auto
  qed
  have "bit (SignExt26 x) n \<longleftrightarrow> bit x (min n 25)"
  proof -
    have "bit (SignExt26 x) n \<longleftrightarrow> bit x n \<or> bit x 25 \<and> 26 \<le> n"
      using n by (cases "bit x 25") (simp_all only: SignExt26_def sign if_True if_False bit_or_iff hi; simp)+
    then show ?thesis using n x [of n] by (cases "n \<le> 25") (auto simp: min_def bit_LI)
  qed
  also have "\<dots> \<longleftrightarrow> 2 \<le> n \<and> bit (inst_LI i) (min (n - 2) 23)"
  proof -
    have "min n 25 - 2 = min (n - 2) 23" if "2 \<le> n" using that by auto
    then show ?thesis using n by (auto simp: x)
  qed
  finally show "bit (SignExt26 (push_bit 2 (inst_LI i))) n \<longleftrightarrow> bit (word_of_int (displacement24 i) :: u32) n"
    using n unfolding displacement24_def bit_signed_times_4 x_def by (auto simp: bit_uint_iff dest: bit_imp_le_length)
qed

text \<open>The two tests of a conditional branch, on the counter and on a bit of the condition register.\<close>

definition counter_after :: "u32 \<Rightarrow> Interpreter \<Rightarrow> u32" where
  "counter_after i s = (if bit (inst_BO i) 2 then spr s SPR_CTR else spr s SPR_CTR - 1)"

definition counter_test :: "u32 \<Rightarrow> Interpreter \<Rightarrow> bool" where
  "counter_test i s \<longleftrightarrow> bit (inst_BO i) 2 \<or> (counter_after i s \<noteq> 0) \<noteq> bit (inst_BO i) 1"

definition condition_test :: "u32 \<Rightarrow> Interpreter \<Rightarrow> bool" where
  "condition_test i s \<longleftrightarrow> bit (inst_BO i) 4 \<or> cr_bit (inst_BI i) s = bit (inst_BO i) 3"

text \<open>The state after a branch that is taken, or not taken, with its counter.\<close>

definition branched :: "u32 \<Rightarrow> bool \<Rightarrow> u32 \<Rightarrow> u32 \<Rightarrow> Interpreter \<Rightarrow> Interpreter" where
  "branched i taken target ctr s =
    (let s1 = set_spr SPR_CTR ctr s;
         s2 = (if taken then (if bit i 0 then set_spr SPR_LR (ppc_pc s + 4) s1 else s1)\<lparr>ppc_npc := target\<rparr> else s1)
     in s2\<lparr>m_end_block := True\<rparr>)"

lemma bit_tests:
  "drop_bit n BO AND 1 \<noteq> 0 \<longleftrightarrow> bit BO n" "drop_bit n BO AND 1 = of_bool (bit BO n)"
  "BO AND 4 = 0 \<longleftrightarrow> \<not> bit BO 2" for BO :: u32
proof -
  show d: "drop_bit n BO AND 1 = of_bool (bit BO n)"
    by (rule bit_word_eqI) (auto simp: bit_and_iff bit_drop_bit_eq bit_1_iff bit_of_bool_iff)
  show "drop_bit n BO AND 1 \<noteq> 0 \<longleftrightarrow> bit BO n" unfolding d by simp
  have "(4 :: u32) = 2 ^ 2" by simp
  then show "BO AND 4 = 0 \<longleftrightarrow> \<not> bit BO 2" by (simp only: and_exp_eq_0_iff_not_bit)
qed

lemma counter_bit:
  "((of_bool a XOR drop_bit n BO) AND 1 \<noteq> 0) \<longleftrightarrow> a \<noteq> bit BO n"
  "(drop_bit m BO OR (of_bool a XOR drop_bit n BO)) AND 1 = of_bool (bit BO m \<or> a \<noteq> bit BO n)"
  "(drop_bit m BO OR of_bool a) AND 1 = of_bool (bit BO m \<or> a)" for BO :: u32
proof -
  show "(drop_bit m BO OR (of_bool a XOR drop_bit n BO)) AND 1 = of_bool (bit BO m \<or> a \<noteq> bit BO n)"
    "(drop_bit m BO OR of_bool a) AND 1 = of_bool (bit BO m \<or> a)"
    by (rule bit_word_eqI; auto simp: bit_and_iff bit_or_iff bit_xor_iff bit_drop_bit_eq bit_1_iff bit_of_bool_iff)+
  have "(of_bool a XOR drop_bit n BO) AND 1 = of_bool (a \<noteq> bit BO n)"
    by (rule bit_word_eqI) (auto simp: bit_and_iff bit_xor_iff bit_drop_bit_eq bit_1_iff bit_of_bool_iff)
  then show "((of_bool a XOR drop_bit n BO) AND 1 \<noteq> 0) \<longleftrightarrow> a \<noteq> bit BO n" by simp
qed

lemma decremented: "decrement_ctr i s = set_spr SPR_CTR (counter_after i s) s"
  by (simp add: decrement_ctr_def counter_after_def bit_tests)

lemma cr_Get_frame [simp]: "cr_Get (s\<lparr>spr := x\<rparr>) = cr_Get s" "cr_Get (s\<lparr>ppc_npc := y\<rparr>) = cr_Get s"
  by (simp_all add: cr_Get_def GetField_def)

lemma cr_bit_frame [simp]: "cr_bit n (s\<lparr>spr := x\<rparr>) = cr_bit n s"
  by (simp add: cr_bit_def)

lemma of_bool_eq: "(of_bool a = (of_bool b :: u32)) = (a = b)"
  by simp

text \<open>
  C40: each branch decides by the tests its BO field selects, on the counter after its decrement
  and on one bit of the condition register; a taken branch goes to its signed displacement,
  relative or absolute, or to the word address in the link or the count register, and saves the
  address of the next instruction if its LK bit is set.  Nothing else changes.  (For \<open>bcctr\<close> with a
  decrement, an invalid form the source asserts against, this is what a release build does.)
\<close>

theorem branches_decide:
  "ppc_bx i s = branched i True (if inst_AA i then word_of_int (displacement24 i)
      else ppc_pc s + word_of_int (displacement24 i)) (spr s SPR_CTR) s \<and>
   ppc_bcx i s = branched i (counter_test i s \<and> condition_test i s) (if inst_AA i then word_of_int (displacement14 i)
      else ppc_pc s + word_of_int (displacement14 i)) (counter_after i s) s \<and>
   ppc_bclrx i s = branched i (counter_test i s \<and> condition_test i s) (spr s SPR_LR AND NOT 3) (counter_after i s) s \<and>
   ppc_bcctrx i s = branched i (condition_test i s) (spr s SPR_CTR AND NOT 3) (spr s SPR_CTR) s"
proof (intro conjI)
  have link: "inst_LK i = bit i 0" by (simp add: inst_LK_def)
  note defs = branched_def save_link_def Let_def link add.commute
  show "ppc_bx i s = branched i True (if inst_AA i then word_of_int (displacement24 i)
      else ppc_pc s + word_of_int (displacement24 i)) (spr s SPR_CTR) s"
    by (simp add: ppc_bx_def target24 defs)
  show "ppc_bcx i s = branched i (counter_test i s \<and> condition_test i s) (if inst_AA i then word_of_int (displacement14 i)
      else ppc_pc s + word_of_int (displacement14 i)) (counter_after i s) s"
    by (simp add: ppc_bcx_def decremented bit_tests counter_bit GetBit_cr_Get of_bool_eq target14 counter_test_def
        condition_test_def cr_bit_def [symmetric] defs del: of_bool_eq_iff)
  show "ppc_bclrx i s = branched i (counter_test i s \<and> condition_test i s) (spr s SPR_LR AND NOT 3) (counter_after i s) s"
    by (simp add: ppc_bclrx_def decremented bit_tests counter_bit GetBit_cr_Get of_bool_eq counter_test_def
        condition_test_def cr_bit_def [symmetric] defs)
  show "ppc_bcctrx i s = branched i (condition_test i s) (spr s SPR_CTR AND NOT 3) (spr s SPR_CTR) s"
    by (simp add: ppc_bcctrx_def bit_tests counter_bit GetBit_cr_Get of_bool_eq
        condition_test_def cr_bit_def [symmetric] defs)
qed

section \<open>Exceptions\<close>

text \<open>
  The exceptions in the order in which the emulator serves them: the bit of \<open>Exceptions\<close>, the vector,
  whether the saved address is the one after the instruction, and whether it waits for the bit EE of
  the machine state.  The order is the emulator's own; a comment in \<open>CheckExceptions\<close> says that it
  is not the architecture's, where it depends on the class of the instruction.
\<close>

definition exception_vectors :: "(nat \<times> u32 \<times> bool \<times> bool) list" where
  "exception_vectors =
    [(4, 0x400, True, False), (7, 0x700, False, False), (1, 0xC00, True, False), (6, 0x800, False, False),
     (3, 0x300, False, False), (5, 0x600, False, False),
     (2, 0x500, True, True), (8, 0xF00, True, True), (0, 0x900, True, True)]"

definition exceptions_due :: "Interpreter \<Rightarrow> (nat \<times> u32 \<times> bool \<times> bool) list" where
  "exceptions_due s = filter (\<lambda>(b, v, after, maskable). bit (Exceptions s) b \<and> (maskable \<longrightarrow> bit (msr s) MSR_EE)) exception_vectors"

definition exception_cause :: "nat \<Rightarrow> Interpreter \<Rightarrow> u32" where
  "exception_cause b s = (if b = 4 then 2 ^ 30 else if b = 7 then spr s SPR_SRR1 else 0)"

text \<open>The machine state with which a handler starts: LE from ILE, and POW, EE, PR, FP, FE0, SE, BE,
  FE1, IR, DR, PM and RI off.\<close>

definition handler_msr_bit :: "u32 \<Rightarrow> nat \<Rightarrow> bool" where
  "handler_msr_bit m n = (if n = 0 then bit m 16
     else n \<notin> {1, 2, 4, 5, 8, 9, 10, 11, 13, 14, 15, 18} \<and> bit m n)"

definition handler_entered :: "nat \<times> u32 \<times> bool \<times> bool \<Rightarrow> Interpreter \<Rightarrow> Interpreter \<Rightarrow> bool" where
  "handler_entered e s s' = (case e of (b, v, after, maskable) \<Rightarrow>
     ppc_pc s' = v \<and> ppc_npc s' = v \<and> Exceptions s' = unset_bit b (Exceptions s) \<and>
     spr s' = (spr s)(SPR_SRR0 := if after then ppc_npc s else ppc_pc s,
                      SPR_SRR1 := exception_cause b s OR (msr s AND 0x87C0FFFF)) \<and>
     (\<forall>n<32. bit (msr s') n = handler_msr_bit (msr s) n) \<and> gpr s' = gpr s \<and> cr_fields s' = cr_fields s)"

text \<open>
  Nothing but what \<open>handler_entered\<close> speaks of is different, and what \<open>MSRUpdated\<close> derives from the
  machine state.
\<close>

definition only_entered :: "Interpreter \<Rightarrow> Interpreter \<Rightarrow> bool" where
  "only_entered s s' \<longleftrightarrow> s' = MSRUpdated (s\<lparr>ppc_pc := ppc_pc s', ppc_npc := ppc_npc s', Exceptions := Exceptions s',
     spr := spr s', msr := msr s'\<rparr>)"

text \<open>The exceptions served before a hit of a memory check is looked at: ISI, program, system call and
  floating-point unavailable.\<close>

definition earlier_pending :: "Interpreter \<Rightarrow> bool" where
  "earlier_pending s \<longleftrightarrow> (\<exists>n\<in>{1, 4, 6, 7}. bit (Exceptions s) n)"

lemma MSRUpdated_frame [simp]:
  "msr (MSRUpdated s) = msr s" "spr (MSRUpdated s) = spr s" "ppc_npc (MSRUpdated s) = ppc_npc s"
  "ppc_pc (MSRUpdated s) = ppc_pc s" "Exceptions (MSRUpdated s) = Exceptions s" "gpr (MSRUpdated s) = gpr s"
  "cr_fields (MSRUpdated s) = cr_fields s" "fpscr (MSRUpdated s) = fpscr s"
  by (simp_all add: MSRUpdated_def PageTableUpdated_def Let_def)

lemma bit_run: "k + w \<le> 32 \<Longrightarrow> bit (push_bit k (mask w) :: u32) n \<longleftrightarrow> k \<le> n \<and> n < k + w"
  unfolding bit_push_bit_iff bit_mask_iff by auto

lemma bit_handled_mask:
  "bit (0x04EF36 :: u32) n \<longleftrightarrow> n \<in> {1, 2, 4, 5, 8, 9, 10, 11, 13, 14, 15, 18}"
proof -
  have m: "(0x04EF36 :: u32) = push_bit 1 (mask 2) OR (push_bit 4 (mask 2) OR (push_bit 8 (mask 4) OR
      (push_bit 13 (mask 3) OR push_bit 18 (mask 1))))" by (simp add: mask_eq_exp_minus_1)
  have r: "bit (push_bit 1 (mask 2) :: u32) n \<longleftrightarrow> n = 1 \<or> n = 2" "bit (push_bit 4 (mask 2) :: u32) n \<longleftrightarrow> n = 4 \<or> n = 5"
    "bit (push_bit 8 (mask 4) :: u32) n \<longleftrightarrow> n = 8 \<or> n = 9 \<or> n = 10 \<or> n = 11"
    "bit (push_bit 13 (mask 3) :: u32) n \<longleftrightarrow> n = 13 \<or> n = 14 \<or> n = 15" "bit (push_bit 18 (mask 1) :: u32) n \<longleftrightarrow> n = 18"
    by (subst bit_run; simp; linarith)+
  show ?thesis unfolding m bit_or_iff r by simp
qed

lemma handler_msr:
  "n < 32 \<Longrightarrow> bit (put_bit32 MSR_LE (bit m MSR_ILE) m AND NOT 0x04EF36) n = handler_msr_bit m n"
  unfolding bit_and_iff bit_not_iff bit_handled_mask handler_msr_bit_def put_bit32_def
  by (auto simp: bit_set_bit_iff bit_unset_bit_iff)

lemma pending_bits:
  "e AND 0x10 \<noteq> 0 \<longleftrightarrow> bit e 4" "e AND 0x80 \<noteq> 0 \<longleftrightarrow> bit e 7" "e AND 2 \<noteq> 0 \<longleftrightarrow> bit e 1"
  "e AND 0x40 \<noteq> 0 \<longleftrightarrow> bit e 6" "e AND 0x200 \<noteq> 0 \<longleftrightarrow> bit e 9" "e AND 8 \<noteq> 0 \<longleftrightarrow> bit e 3"
  "e AND 0x20 \<noteq> 0 \<longleftrightarrow> bit e 5" "e AND 4 \<noteq> 0 \<longleftrightarrow> bit e 2" "e AND 0x100 \<noteq> 0 \<longleftrightarrow> bit e 8"
  "e AND 1 \<noteq> 0 \<longleftrightarrow> bit e 0" for e :: u32
proof -
  have p: "(0x10 :: u32) = 2 ^ 4" "(0x80 :: u32) = 2 ^ 7" "(2 :: u32) = 2 ^ 1" "(0x40 :: u32) = 2 ^ 6"
    "(0x200 :: u32) = 2 ^ 9" "(8 :: u32) = 2 ^ 3" "(0x20 :: u32) = 2 ^ 5" "(4 :: u32) = 2 ^ 2"
    "(0x100 :: u32) = 2 ^ 8" "(1 :: u32) = 2 ^ 0" by simp_all
  have q: "e AND 2 ^ n \<noteq> 0 \<longleftrightarrow> bit e n" for n by (simp add: and_exp_eq_0_iff_not_bit)
  show "e AND 0x10 \<noteq> 0 \<longleftrightarrow> bit e 4" "e AND 0x80 \<noteq> 0 \<longleftrightarrow> bit e 7" "e AND 2 \<noteq> 0 \<longleftrightarrow> bit e 1"
    "e AND 0x40 \<noteq> 0 \<longleftrightarrow> bit e 6" "e AND 0x200 \<noteq> 0 \<longleftrightarrow> bit e 9" "e AND 8 \<noteq> 0 \<longleftrightarrow> bit e 3"
    "e AND 0x20 \<noteq> 0 \<longleftrightarrow> bit e 5" "e AND 4 \<noteq> 0 \<longleftrightarrow> bit e 2" "e AND 0x100 \<noteq> 0 \<longleftrightarrow> bit e 8"
    "e AND 1 \<noteq> 0 \<longleftrightarrow> bit e 0"
    by (subst p, rule q)+
qed

lemma enter_vector_simps [simp]:
  "ppc_pc (enter_vector srr0 srr1 v handled s) = v" "ppc_npc (enter_vector srr0 srr1 v handled s) = v"
  "Exceptions (enter_vector srr0 srr1 v handled s) = Exceptions s AND NOT handled"
  "spr (enter_vector srr0 srr1 v handled s) = (spr s)(SPR_SRR0 := srr0, SPR_SRR1 := srr1)"
  "msr (enter_vector srr0 srr1 v handled s) = put_bit32 MSR_LE (bit (msr s) MSR_ILE) (msr s) AND NOT 0x04EF36"
  "gpr (enter_vector srr0 srr1 v handled s) = gpr s" "cr_fields (enter_vector srr0 srr1 v handled s) = cr_fields s"
  by (simp_all add: enter_vector_def Let_def)

lemma enter_vector_entered:
  assumes "srr0 = (if after then ppc_npc s else ppc_pc s)" "srr1 = exception_cause b s OR (msr s AND 0x87C0FFFF)"
    and "handled = push_bit b 1"
  shows "handler_entered (b, v, after, maskable) s (MSRUpdated (enter_vector srr0 srr1 v handled s))"
proof -
  have "unset_bit b (Exceptions s) = Exceptions s AND NOT handled" by (simp add: assms(3) unset_bit_eq_and_not)
  then show ?thesis
    unfolding handler_entered_def prod.case MSRUpdated_frame enter_vector_simps
    using assms(1,2) handler_msr by (intro conjI) auto
qed

lemma only_enter_vector: "only_entered s (MSRUpdated (enter_vector srr0 srr1 v handled s))"
  unfolding only_entered_def MSRUpdated_frame enter_vector_simps
  by (rule arg_cong [of _ _ MSRUpdated]) (simp add: enter_vector_def Let_def)

lemma served_first:
  assumes "bit (Exceptions s) 9 \<longrightarrow> earlier_pending s" "exceptions_due s = e # es"
  shows "handler_entered e s (ppc_CheckExceptions s) \<and> only_entered s (ppc_CheckExceptions s)"
proof -
  let ?b = "bit (Exceptions s)"
  note due = assms(2) [unfolded exceptions_due_def exception_vectors_def, symmetric]
  have nz: "Exceptions s \<noteq> 0" if "?b k" for k using that by auto
  note step = ppc_CheckExceptions_def CheckExternalExceptions_def Let_def pending_bits earlier_pending_def only_enter_vector
  consider "?b 4" | "\<not> ?b 4" "?b 7" | "\<not> ?b 4" "\<not> ?b 7" "?b 1" | "\<not> ?b 4" "\<not> ?b 7" "\<not> ?b 1" "?b 6"
    | "\<not> ?b 4" "\<not> ?b 7" "\<not> ?b 1" "\<not> ?b 6" "?b 3" | "\<not> ?b 4" "\<not> ?b 7" "\<not> ?b 1" "\<not> ?b 6" "\<not> ?b 3" "?b 5"
    | "\<not> ?b 4" "\<not> ?b 7" "\<not> ?b 1" "\<not> ?b 6" "\<not> ?b 3" "\<not> ?b 5"
    by blast
  then show ?thesis
  proof cases
    case 7
    then have ee: "bit (msr s) 15" using due by (cases "bit (msr s) 15") simp_all
    consider "?b 2" | "\<not> ?b 2" "?b 8" | "\<not> ?b 2" "\<not> ?b 8" "?b 0" using 7 due by (cases "?b 2"; cases "?b 8"; cases "?b 0") simp_all
    then show ?thesis
      by cases (use 7 due ee assms(1) nz in \<open>simp_all add: step enter_vector_entered exception_cause_def del: bit_0\<close>)
  qed (use due assms(1) in \<open>simp_all add: step enter_vector_entered exception_cause_def or.commute del: bit_0\<close>)
qed

text \<open>
  C34: \<open>CheckExceptions\<close> takes at most one exception, the first due in the emulator's order, which puts
  those of instructions before the interrupts, and these wait for the bit EE.  Taking it clears its bit
  only, so that every other one stays pending, saves the address to return to and the machine state with
  the cause in SRR0 and SRR1, goes to the vector and starts the handler in the supervisor state with
  interrupts and translation off, and changes nothing else of the CPU (but what is derived from the
  machine state).  A hit of a memory check before any of the first four swallows a pending DSI instead;
  and if nothing is due nothing is taken.
\<close>

theorem due_exception_taken:
  "(if bit (Exceptions s) 9 \<and> \<not> earlier_pending s
    then ppc_CheckExceptions s = MSRUpdated (s\<lparr>Exceptions := unset_bit 3 (unset_bit 9 (Exceptions s))\<rparr>)
    else case exceptions_due s of
      [] \<Rightarrow> ppc_CheckExceptions s = s \<or> ppc_CheckExceptions s = MSRUpdated s
    | e # es \<Rightarrow> handler_entered e s (ppc_CheckExceptions s) \<and> only_entered s (ppc_CheckExceptions s) \<and>
        (\<forall>f\<in>set es. case (e, f) of ((b, v, after, maskable), (b', v', after', maskable')) \<Rightarrow>
           bit (Exceptions (ppc_CheckExceptions s)) b' \<and> (maskable \<longrightarrow> maskable')))"
proof (cases "bit (Exceptions s) 9 \<and> \<not> earlier_pending s")
  case True
  have "x AND (NOT 8 AND NOT 0x200) = unset_bit 3 (unset_bit 9 (x :: u32))" for x
    by (simp add: unset_bit_eq_and_not ac_simps)
  then show ?thesis using True
    by (simp add: ppc_CheckExceptions_def Let_def pending_bits earlier_pending_def)
next
  case False
  show ?thesis
  proof (cases "exceptions_due s")
    case Nil
    have none: "\<not> bit (Exceptions s) 4" "\<not> bit (Exceptions s) 7" "\<not> bit (Exceptions s) 1" "\<not> bit (Exceptions s) 6"
      "\<not> bit (Exceptions s) 3" "\<not> bit (Exceptions s) 5"
      "bit (msr s) 15 \<longrightarrow> \<not> bit (Exceptions s) 2 \<and> \<not> bit (Exceptions s) 8 \<and> \<not> bit (Exceptions s) 0"
      using Nil by (auto simp: exceptions_due_def exception_vectors_def split: if_splits)
    then have "ppc_CheckExceptions s = s \<or> ppc_CheckExceptions s = MSRUpdated s"
      using False by (auto simp: ppc_CheckExceptions_def CheckExternalExceptions_def Let_def pending_bits
          earlier_pending_def simp del: bit_0)
    then show ?thesis using False Nil by auto
  next
    case (Cons e es)
    have S: "handler_entered e s (ppc_CheckExceptions s)" "only_entered s (ppc_CheckExceptions s)"
      using served_first [of s e es] False Cons by blast+
    obtain b v after maskable where e: "e = (b, v, after, maskable)" by (metis prod.exhaust)
    have ex: "Exceptions (ppc_CheckExceptions s) = unset_bit b (Exceptions s)" using S(1) by (simp add: e handler_entered_def)
    have rest: "bit (unset_bit b (Exceptions s)) b' \<and> (maskable \<longrightarrow> maskable')" if "(b', v', after', maskable') \<in> set es" for b' v' after' maskable'
    proof -
      have sub: "exceptions_due s = filter (\<lambda>(b, v, after, maskable). bit (Exceptions s) b \<and> (maskable \<longrightarrow> bit (msr s) MSR_EE)) exception_vectors"
        by (simp add: exceptions_due_def)
      have "sorted_wrt (\<lambda>(b, v, a, m) (b', v', a', m'). b \<noteq> b' \<and> (m \<longrightarrow> m')) exception_vectors"
        by (simp add: exception_vectors_def)
      then have "sorted_wrt (\<lambda>(b, v, a, m) (b', v', a', m'). b \<noteq> b' \<and> (m \<longrightarrow> m')) (e # es)"
        unfolding Cons [symmetric] sub by (rule sorted_wrt_filter)
      then have "b \<noteq> b' \<and> (maskable \<longrightarrow> maskable')" using that by (auto simp: e)
      moreover have "(b', v', after', maskable') \<in> set (exceptions_due s)" using that Cons by simp
      then have "bit (Exceptions s) b'" by (simp add: exceptions_due_def)
      ultimately show ?thesis by (simp add: bit_unset_bit_iff)
    qed
    then show ?thesis using S False Cons by (auto simp: e ex)
  qed
qed

theorem due_exception_taken_witness:
  "handler_entered (1, 0xC00, True, False) (power_on_cpu\<lparr>Exceptions := 3, msr := 0x8000\<rparr>)
     (ppc_CheckExceptions (power_on_cpu\<lparr>Exceptions := 3, msr := 0x8000\<rparr>)) \<and>
   bit (Exceptions (ppc_CheckExceptions (power_on_cpu\<lparr>Exceptions := 3, msr := 0x8000\<rparr>))) 0"
proof -
  have "exceptions_due (power_on_cpu\<lparr>Exceptions := 3, msr := 0x8000\<rparr>) = [(1, 0xC00, True, False), (0, 0x900, True, True)]"
    by (simp add: exceptions_due_def exception_vectors_def)
  moreover have "\<not> bit (3 :: u32) 9" by (simp add: bit_numeral_rec)
  ultimately show ?thesis
    using due_exception_taken [of "power_on_cpu\<lparr>Exceptions := 3, msr := 0x8000\<rparr>"] by (simp del: bit_0)
qed

lemma bit_saved_mask: "n < 32 \<Longrightarrow> bit (0x87C0FFFF :: u32) n \<longleftrightarrow> n < 16 \<or> 22 \<le> n \<and> n < 27 \<or> n = 31"
proof -
  have m: "(0x87C0FFFF :: u32) = push_bit 0 (mask 16) OR (push_bit 22 (mask 5) OR push_bit 31 (mask 1))"
    by (simp add: mask_eq_exp_minus_1)
  have r: "bit (push_bit 0 (mask 16) :: u32) n \<longleftrightarrow> n < 16" "bit (push_bit 22 (mask 5) :: u32) n \<longleftrightarrow> 22 \<le> n \<and> n < 27"
    "bit (push_bit 31 (mask 1) :: u32) n \<longleftrightarrow> n = 31"
    by (subst bit_run; simp del: push_bit_0_id; linarith)+
  show "bit (0x87C0FFFF :: u32) n \<longleftrightarrow> n < 16 \<or> 22 \<le> n \<and> n < 27 \<or> n = 31" unfolding m bit_or_iff r by simp
qed

lemma bit_wait_mask: "n < 32 \<Longrightarrow> bit (0xFFFBFFFF :: u32) n \<longleftrightarrow> n \<noteq> 18"
proof -
  have m: "(0xFFFBFFFF :: u32) = NOT (push_bit 18 1)" by simp
  show "bit (0xFFFBFFFF :: u32) n \<longleftrightarrow> n \<noteq> 18" if "n < 32"
    unfolding m bit_not_iff bit_push_bit_iff bit_1_iff using that by auto
qed

text \<open>The causes are in bits that a return does not restore.\<close>

definition cause_outside_saved :: "u32 \<Rightarrow> bool" where
  "cause_outside_saved c \<longleftrightarrow> c AND 0x87C0FFFF = 0"

lemma generated_causes: "cause_outside_saved (cause_bits c)"
  by (cases c) (simp_all add: cause_outside_saved_def)

lemma masked_zero: "x AND m = 0 \<Longrightarrow> bit m n \<Longrightarrow> \<not> bit x n" for x m :: u32
  by (metis bit_and_iff bit_0_eq bot_apply bot_bool_def)

lemma rfi_restores:
  assumes entered: "handler_entered (b, v, after, maskable) s s'"
    and cause: "b = 7 \<longrightarrow> cause_outside_saved (spr s SPR_SRR1)"
    and handler: "spr h SPR_SRR0 = spr s' SPR_SRR0" "spr h SPR_SRR1 = spr s' SPR_SRR1" "\<not> bit (msr h) 14"
    and reserved: "\<forall>n \<in> {16, 17, 18, 19, 20, 21, 27, 28, 29, 30}. bit (msr h) n = bit (msr s') n"
  shows "ppc_npc (ppc_rfi i h) = (if after then ppc_npc s else ppc_pc s) \<and> msr (ppc_rfi i h) = unset_bit 18 (msr s)"
proof
  have spr: "spr s' SPR_SRR0 = (if after then ppc_npc s else ppc_pc s)"
    "spr s' SPR_SRR1 = exception_cause b s OR (msr s AND 0x87C0FFFF)"
    and msr: "\<And>n. n < 32 \<Longrightarrow> bit (msr s') n = handler_msr_bit (msr s) n"
    using entered by (simp_all add: handler_entered_def)
  have npc: "ppc_npc (ppc_rfi i h) = spr h SPR_SRR0"
    and m: "msr (ppc_rfi i h) = ((msr h AND NOT 0x87C0FFFF) OR (spr h SPR_SRR1 AND 0x87C0FFFF)) AND 0xFFFBFFFF"
    using handler(3) by (simp_all add: ppc_rfi_def privileged_def Let_def)
  show "ppc_npc (ppc_rfi i h) = (if after then ppc_npc s else ppc_pc s)" using npc handler(1) spr(1) by simp
  have c0: "exception_cause b s AND 0x87C0FFFF = 0"
    using cause by (simp add: exception_cause_def cause_outside_saved_def)
  show "msr (ppc_rfi i h) = unset_bit 18 (msr s)"
  proof (rule bit_word_eqI)
    fix n assume "n < LENGTH(32)"
    then have n: "n < 32" by simp
    have word: "bit (msr (ppc_rfi i h)) n \<longleftrightarrow>
        ((bit (msr h) n \<and> \<not> bit (0x87C0FFFF :: u32) n) \<or>
         ((bit (exception_cause b s) n \<or> bit (msr s) n) \<and> bit (0x87C0FFFF :: u32) n)) \<and> n \<noteq> 18"
      using n unfolding m handler(2) spr(2) bit_and_iff bit_or_iff bit_not_iff bit_wait_mask [OF n] by auto
    show "bit (msr (ppc_rfi i h)) n \<longleftrightarrow> bit (unset_bit 18 (msr s)) n"
    proof (cases "bit (0x87C0FFFF :: u32) n")
      case True
      then show ?thesis using word masked_zero [OF c0 True] by (auto simp: bit_unset_bit_iff)
    next
      case False
      then have "n \<in> {16, 17, 18, 19, 20, 21, 27, 28, 29, 30}"
        using n unfolding bit_saved_mask [OF n] by (simp, presburger)
      moreover from this have "handler_msr_bit (msr s) n \<longleftrightarrow> bit (msr s) n \<and> n \<noteq> 18"
        by (auto simp: handler_msr_bit_def)
      ultimately show ?thesis using word False reserved msr [OF n] by (simp add: bit_unset_bit_iff) blast
    qed
  qed
qed

text \<open>
  C35: after any exception is taken, a handler that ends with SRR0 and SRR1 as the exception left
  them, in the supervisor state and with the reserved bits of the machine state unchanged returns
  with \<open>rfi\<close> to the interrupted address and to the machine state the exception interrupted, except
  that the bit POW is off.
\<close>

theorem exception_then_rfi:
  assumes "\<not> bit (Exceptions s) 9" "exceptions_due s = (b, v, after, maskable) # es"
    and "bit (Exceptions s) 7 \<longrightarrow> cause_outside_saved (spr s SPR_SRR1)"
    and "spr h SPR_SRR0 = spr (ppc_CheckExceptions s) SPR_SRR0" "spr h SPR_SRR1 = spr (ppc_CheckExceptions s) SPR_SRR1"
    and "\<not> bit (msr h) 14"
    and "\<forall>n \<in> {16, 17, 18, 19, 20, 21, 27, 28, 29, 30}. bit (msr h) n = bit (msr (ppc_CheckExceptions s)) n"
  shows "ppc_npc (ppc_rfi i h) = (if after then ppc_npc s else ppc_pc s) \<and> msr (ppc_rfi i h) = unset_bit 18 (msr s)"
proof (rule rfi_restores [OF conjunct1 [OF served_first [OF _ assms(2)]] _ assms(4-7)])
  show "bit (Exceptions s) 9 \<longrightarrow> earlier_pending s" using assms(1) by blast
  have "(b, v, after, maskable) \<in> set (exceptions_due s)" using assms(2) by simp
  then have "bit (Exceptions s) b" by (simp add: exceptions_due_def)
  then show "b = 7 \<longrightarrow> cause_outside_saved (spr s SPR_SRR1)" using assms(3) by blast
qed

theorem exception_then_rfi_witness:
  "\<exists>s. ppc_npc s = 0x80003104 \<and> msr s = 0xB032 \<and>
     (let h = (ppc_CheckExceptions s)\<lparr>ppc_pc := 0x80000540\<rparr>
      in ppc_npc (ppc_rfi 0x4C000064 h) = 0x80003104 \<and> msr (ppc_rfi 0x4C000064 h) = 0xB032)"
proof (intro exI conjI)
  let ?s = "power_on_cpu\<lparr>ppc_npc := 0x80003104, msr := 0xB032, Exceptions := 4\<rparr>"
  have d: "exceptions_due ?s = [(2, 0x500, True, True)]" by (simp add: exceptions_due_def exception_vectors_def)
  show "let h = (ppc_CheckExceptions ?s)\<lparr>ppc_pc := 0x80000540\<rparr>
      in ppc_npc (ppc_rfi 0x4C000064 h) = 0x80003104 \<and> msr (ppc_rfi 0x4C000064 h) = 0xB032"
    using exception_then_rfi [of ?s 2 "0x500" True True Nil "(ppc_CheckExceptions ?s)\<lparr>ppc_pc := 0x80000540\<rparr>" "0x4C000064"] d
      served_first [of ?s "(2, 0x500, True, True)" Nil]
    by (simp add: handler_entered_def handler_msr_bit_def unset_bit_eq_and_not Let_def)
qed simp_all

end
