(* ===== verification/Ppc_Cache.thy ===== *)
theory Ppc_Cache
  imports Ppc_Exceptions Dsp_Memory
begin

text \<open>
  The caches of the CPU, \<open>Core/PowerPC/PPCCache.cpp\<close> and \<open>.h\<close>: 128 sets of 8 blocks of 32 bytes,
  with tables that give the way of each block of memory, \<open>0xff\<close> if it is not cached.  A block is
  kept as its bytes, which the code only copies.  The recompiler, which is told of invalidations,
  and the savestates are left out.
\<close>

section \<open>Memory seen by the CPU\<close>

text \<open>
  The memory manager with the parts only the CPU uses: the locked cache and the fake virtual
  memory.
\<close>

record MemoryManager =
  mem_host :: host
  m_l1_cache :: "u32 \<Rightarrow> u8"
  m_l1_cache_size :: u32
  has_fakevmem :: bool
  m_fakevmem :: "u32 \<Rightarrow> u8"
  m_fakevmem_mask :: u32

section \<open>State\<close>

abbreviation (input) CACHE_SETS :: nat where "CACHE_SETS \<equiv> 128"
abbreviation (input) CACHE_WAYS :: nat where "CACHE_WAYS \<equiv> 8"
abbreviation (input) CACHE_EXRAM_BIT :: u32 where "CACHE_EXRAM_BIT \<equiv> 0x10000000"
abbreviation (input) CACHE_VMEM_BIT :: u32 where "CACHE_VMEM_BIT \<equiv> 0x20000000"

record Cache =
  c_data :: "nat \<Rightarrow> nat \<Rightarrow> u8 list"
  c_addrs :: "nat \<Rightarrow> nat \<Rightarrow> u32"
  c_plru :: "nat \<Rightarrow> u8"
  c_valid :: "nat \<Rightarrow> u8"
  c_modified :: "nat \<Rightarrow> u8"
  lookup_table :: "u32 \<Rightarrow> u8"
  lookup_table_ex :: "u32 \<Rightarrow> u8"
  lookup_table_vmem :: "u32 \<Rightarrow> u8"

definition s_plru_mask :: "u8 list" where
  "s_plru_mask = [11, 11, 19, 19, 37, 37, 69, 69]"

definition s_plru_value :: "u8 list" where
  "s_plru_value = [11, 3, 17, 1, 36, 4, 64, 0]"

definition s_way_from_valid :: "u8 \<Rightarrow> u8" where
  "s_way_from_valid m = word_of_nat (length (takeWhile (bit m) [0..<8]))"

definition s_way_from_plru :: "u8 \<Rightarrow> u8" where
  "s_way_from_plru m =
    (if bit m 0 then (if bit m 2 then (if bit m 6 then 7 else 6) else if bit m 5 then 5 else 4)
     else if bit m 1 then (if bit m 4 then 3 else 2)
     else if bit m 3 then 1 else 0)"

definition cache_Reset :: "Cache \<Rightarrow> Cache" where
  "cache_Reset c = c\<lparr>c_valid := \<lambda>_. 0, c_plru := \<lambda>_. 0, c_modified := \<lambda>_. 0,
     lookup_table := \<lambda>_. 0xFF, lookup_table_ex := \<lambda>_. 0xFF, lookup_table_vmem := \<lambda>_. 0xFF\<rparr>"

definition cache_Init :: "Cache \<Rightarrow> Cache" where
  "cache_Init c = cache_Reset (c\<lparr>c_data := \<lambda>_ _. replicate 32 0, c_addrs := \<lambda>_ _. 0\<rparr>)"

definition lookup_way :: "MemoryManager \<Rightarrow> u32 \<Rightarrow> Cache \<Rightarrow> u8" where
  "lookup_way mm addr c =
    (if addr AND CACHE_VMEM_BIT \<noteq> 0 then lookup_table_vmem c (drop_bit 5 (addr AND m_fakevmem_mask mm))
     else if addr AND CACHE_EXRAM_BIT \<noteq> 0 then lookup_table_ex c (drop_bit 5 (addr AND h_exram_mask (mem_host mm)))
     else lookup_table c (drop_bit 5 (addr AND h_ram_mask (mem_host mm))))"

definition set_lookup :: "MemoryManager \<Rightarrow> u32 \<Rightarrow> u8 \<Rightarrow> Cache \<Rightarrow> Cache" where
  "set_lookup mm addr way c =
    (if addr AND CACHE_VMEM_BIT \<noteq> 0
     then c\<lparr>lookup_table_vmem := (lookup_table_vmem c)(drop_bit 5 (addr AND m_fakevmem_mask mm) := way)\<rparr>
     else if addr AND CACHE_EXRAM_BIT \<noteq> 0
     then c\<lparr>lookup_table_ex := (lookup_table_ex c)(drop_bit 5 (addr AND h_exram_mask (mem_host mm)) := way)\<rparr>
     else c\<lparr>lookup_table := (lookup_table c)(drop_bit 5 (addr AND h_ram_mask (mem_host mm)) := way)\<rparr>)"

abbreviation put2 :: "('a \<Rightarrow> 'b \<Rightarrow> 'c) \<Rightarrow> 'a \<Rightarrow> 'b \<Rightarrow> 'c \<Rightarrow> ('a \<Rightarrow> 'b \<Rightarrow> 'c)" where
  "put2 f i j v \<equiv> f(i := (f i)(j := v))"

definition mem_CopyToEmu :: "u32 \<Rightarrow> u8 list \<Rightarrow> MemoryManager \<Rightarrow> MemoryManager" where
  "mem_CopyToEmu addr data mm = mm\<lparr>mem_host := CopyToEmu addr data (mem_host mm)\<rparr>"

section \<open>Finding and filling a block\<close>

definition cache_set :: "u32 \<Rightarrow> nat" where
  "cache_set addr = unat (drop_bit 5 addr AND 0x7F)"

text \<open>The block that has to leave the way: it is stored if it was modified.\<close>

definition evict :: "nat \<Rightarrow> nat \<Rightarrow> Cache \<times> MemoryManager \<Rightarrow> Cache \<times> MemoryManager" where
  "evict row way x = (case x of (c, mm) \<Rightarrow>
     if bit (c_valid c row) way
     then let mm1 = (if bit (c_modified c row) way then mem_CopyToEmu (c_addrs c row way) (c_data c row way) mm else mm)
          in (set_lookup mm1 (c_addrs c row way) 0xFF c, mm1)
     else (c, mm))"

definition load_block :: "u32 \<Rightarrow> nat \<Rightarrow> nat \<Rightarrow> Cache \<times> MemoryManager \<Rightarrow> Cache \<times> MemoryManager" where
  "load_block addr row way x = (case x of (c, mm) \<Rightarrow>
     let c1 = c\<lparr>c_data := put2 (c_data c) row way (CopyFromEmu (mem_host mm) (c_data c row way) (addr AND NOT 0x1F))\<rparr>;
         c2 = set_lookup mm addr (word_of_nat way) c1
     in (c2\<lparr>c_addrs := put2 (c_addrs c2) row way addr,
            c_valid := (c_valid c2)(row := set_bit way (c_valid c2 row)),
            c_modified := (c_modified c2)(row := unset_bit way (c_modified c2 row))\<rparr>, mm))"

definition touch_plru :: "nat \<Rightarrow> u8 \<Rightarrow> Cache \<Rightarrow> Cache" where
  "touch_plru row way c =
    (if way \<noteq> 0xFF
     then c\<lparr>c_plru := (c_plru c)(row := (c_plru c row AND NOT (s_plru_mask ! unat way)) OR s_plru_value ! unat way)\<rparr>
     else c)"

definition GetCache :: "u32 \<Rightarrow> bool \<Rightarrow> Cache \<times> MemoryManager \<Rightarrow> (nat \<times> u8) \<times> Cache \<times> MemoryManager" where
  "GetCache addr0 locked x = (case x of (c, mm) \<Rightarrow>
     let addr = addr0 AND NOT 31; row = cache_set addr; way = lookup_way mm addr c;
         (way1, c1, mm1) =
           (if \<not> locked \<and> way = 0xFF
            then let w = (if c_valid c row \<noteq> 0xFF then s_way_from_valid (c_valid c row) else s_way_from_plru (c_plru c row))
                 in (w, load_block addr row (unat w) (evict row (unat w) (c, mm)))
            else (way, c, mm))
     in ((row, way1), touch_plru row way1 c1, mm1))"

section \<open>Operations on a block\<close>

definition forget :: "nat \<Rightarrow> nat \<Rightarrow> Cache \<times> MemoryManager \<Rightarrow> Cache \<times> MemoryManager" where
  "forget row way x = (case x of (c, mm) \<Rightarrow>
     let c1 = set_lookup mm (c_addrs c row way) 0xFF c
     in (c1\<lparr>c_valid := (c_valid c1)(row := unset_bit way (c_valid c1 row)),
            c_modified := (c_modified c1)(row := unset_bit way (c_modified c1 row))\<rparr>, mm))"

definition cache_Store :: "u32 \<Rightarrow> Cache \<times> MemoryManager \<Rightarrow> Cache \<times> MemoryManager" where
  "cache_Store addr x = (case GetCache addr True x of ((row, w), c, mm) \<Rightarrow>
     if w = 0xFF then (c, mm)
     else let way = unat w;
              mm1 = (if bit (c_valid c row) way \<and> bit (c_modified c row) way
                     then mem_CopyToEmu (addr AND NOT 0x1F) (c_data c row way) mm else mm)
          in (c\<lparr>c_modified := (c_modified c)(row := unset_bit way (c_modified c row))\<rparr>, mm1))"

definition cache_Invalidate :: "u32 \<Rightarrow> Cache \<times> MemoryManager \<Rightarrow> Cache \<times> MemoryManager" where
  "cache_Invalidate addr x = (case GetCache addr True x of ((row, w), c, mm) \<Rightarrow>
     if w = 0xFF then (c, mm)
     else if bit (c_valid c row) (unat w) then forget row (unat w) (c, mm) else (c, mm))"

definition cache_Flush :: "u32 \<Rightarrow> Cache \<times> MemoryManager \<Rightarrow> Cache \<times> MemoryManager" where
  "cache_Flush addr x = (case GetCache addr True x of ((row, w), c, mm) \<Rightarrow>
     if w = 0xFF then (c, mm)
     else let way = unat w
          in if bit (c_valid c row) way
             then forget row way (c,
                    if bit (c_modified c row) way then mem_CopyToEmu (addr AND NOT 0x1F) (c_data c row way) mm else mm)
             else (c, mm))"

definition cache_Touch :: "u32 \<Rightarrow> Cache \<times> MemoryManager \<Rightarrow> Cache \<times> MemoryManager" where
  "cache_Touch addr x = snd (GetCache addr False x)"

definition write_back :: "Cache \<Rightarrow> nat \<times> nat \<Rightarrow> MemoryManager \<Rightarrow> MemoryManager" where
  "write_back c p mm = (case p of (row, way) \<Rightarrow>
     if bit (c_valid c row) way \<and> bit (c_modified c row) way
     then mem_CopyToEmu (c_addrs c row way) (c_data c row way) mm else mm)"

definition FlushAll :: "Cache \<times> MemoryManager \<Rightarrow> Cache \<times> MemoryManager" where
  "FlushAll x = (case x of (c, mm) \<Rightarrow>
     (cache_Reset c, fold (write_back c) (List.product [0..<CACHE_SETS] [0..<CACHE_WAYS]) mm))"

section \<open>Reading and writing\<close>

text \<open>The bytes of the block from \<open>addr\<close> on, at most \<open>len\<close>.\<close>

definition len_in_block :: "u32 \<Rightarrow> nat \<Rightarrow> nat" where
  "len_in_block addr len = min len (unat (((addr + 32) AND NOT 31) - addr))"

definition offset_in_block :: "u32 \<Rightarrow> nat" where
  "offset_in_block addr = unat (addr - (addr AND NOT 31))"

lemma split_block: "x AND NOT 31 = x - (x AND 31)" "x - (x AND NOT 31) = x AND 31" for x :: u32
proof -
  have "(x AND NOT 31) + (x AND 31) = (x AND NOT 31) OR (x AND 31)"
    by (rule disjunctive_add_eq_or, rule bit_word_eqI) (simp only: bit_and_iff bit_not_iff; auto)
  also have "\<dots> = x" by (rule bit_word_eqI) (simp only: bit_and_iff bit_or_iff bit_not_iff; auto)
  finally show "x AND NOT 31 = x - (x AND 31)" "x - (x AND NOT 31) = x AND 31" by (simp_all add: algebra_simps)
qed

lemma block_end: "((addr + 32) AND NOT 31) - addr = 32 - (addr - (addr AND NOT 31))" for addr :: u32
proof -
  have m: "(31 :: u32) = mask 5" by (simp add: mask_eq_exp_minus_1)
  have "take_bit 5 (addr + 32) = take_bit 5 addr"
  proof -
    have "uint (addr + 32) = (uint addr + 32) mod 2 ^ 32" by (simp add: uint_word_ariths)
    then have "take_bit 5 (uint (addr + 32)) = take_bit 5 (uint addr)" by (simp add: take_bit_eq_mod mod_mod_cancel)
    then have "uint (take_bit 5 (addr + 32)) = uint (take_bit 5 addr)" unfolding unsigned_take_bit_eq .
    then show ?thesis by (metis uint_word_of_int_eq word_of_int_uint)
  qed
  then have "(addr + 32) AND 31 = addr AND 31" unfolding m by (simp add: take_bit_eq_mask)
  then show ?thesis unfolding split_block by simp
qed

lemma offset_less: "offset_in_block addr < 32"
proof -
  have m: "(31 :: u32) = mask 5" by (simp add: mask_eq_exp_minus_1)
  have "addr - (addr AND NOT 31) = take_bit 5 addr" unfolding split_block(2) unfolding m by (simp add: take_bit_eq_mask)
  then have "offset_in_block addr = take_bit 5 (unat addr)" by (simp add: offset_in_block_def unsigned_take_bit_eq)
  then show ?thesis using take_bit_nat_less_exp [of 5 "unat addr"] by simp
qed

lemma len_in_block_eq: "len_in_block addr len = min len (32 - offset_in_block addr)"
proof -
  have "addr - (addr AND NOT 31) \<le> 32" using offset_less [of addr] by (simp add: offset_in_block_def word_le_nat_alt)
  then have "unat (32 - (addr - (addr AND NOT 31))) = 32 - offset_in_block addr"
    by (simp add: unat_sub offset_in_block_def)
  then show ?thesis by (simp only: len_in_block_def block_end)
qed

lemma len_in_block_pos: "0 < len \<Longrightarrow> 0 < len_in_block addr len"
  using offset_less [of addr] by (simp add: len_in_block_eq)

lemma len_in_block_le: "len_in_block addr len \<le> len"
  by (simp add: len_in_block_def)

text \<open>\<open>buffer\<close> is the destination; a failed copy from memory leaves its bytes.\<close>

function cache_Read :: "u32 \<Rightarrow> u8 list \<Rightarrow> bool \<Rightarrow> Cache \<times> MemoryManager \<Rightarrow> u8 list \<times> Cache \<times> MemoryManager" where
  "cache_Read addr buffer locked x =
    (if buffer = [] then ([], x)
     else case GetCache addr locked x of ((row, way), c, mm) \<Rightarrow>
       let n = len_in_block addr (length buffer);
           bytes = (if way \<noteq> 0xFF then take n (drop (offset_in_block addr) (c_data c row (unat way)))
                    else CopyFromEmu (mem_host mm) (take n buffer) addr);
           (rest, y) = cache_Read (addr + word_of_nat n) (drop n buffer) locked (c, mm)
       in (bytes @ rest, y))"
  by pat_completeness auto
termination
  by (relation "measure (\<lambda>(addr, buffer, locked, x). length buffer)") (simp_all add: len_in_block_pos)

definition overwrite :: "nat \<Rightarrow> u8 list \<Rightarrow> u8 list \<Rightarrow> u8 list" where
  "overwrite n bytes xs = take n xs @ bytes @ drop (n + length bytes) xs"

function cache_Write :: "u32 \<Rightarrow> u8 list \<Rightarrow> bool \<Rightarrow> Cache \<times> MemoryManager \<Rightarrow> Cache \<times> MemoryManager" where
  "cache_Write addr buffer locked x =
    (if buffer = [] then x
     else case GetCache addr locked x of ((row, way), c, mm) \<Rightarrow>
       let n = len_in_block addr (length buffer); w = unat way;
           y = (if way \<noteq> 0xFF
                then (c\<lparr>c_data := put2 (c_data c) row w (overwrite (offset_in_block addr) (take n buffer) (c_data c row w)),
                        c_modified := (c_modified c)(row := set_bit w (c_modified c row))\<rparr>, mm)
                else (c, mem_CopyToEmu addr (take n buffer) mm))
       in cache_Write (addr + word_of_nat n) (drop n buffer) locked y)"
  by pat_completeness auto
termination
  by (relation "measure (\<lambda>(addr, buffer, locked, x). length buffer)") (simp_all add: len_in_block_pos)

declare cache_Read.simps [simp del] cache_Write.simps [simp del]

section \<open>Instructions\<close>

abbreviation (input) HID0_ICE :: nat where "HID0_ICE \<equiv> 15"
abbreviation (input) HID0_ILOCK :: nat where "HID0_ILOCK \<equiv> 13"

definition ReadInstruction :: "bool \<Rightarrow> u32 \<Rightarrow> u32 \<Rightarrow> Cache \<times> MemoryManager \<Rightarrow> u32 \<times> Cache \<times> MemoryManager" where
  "ReadInstruction disable_icache hid0 addr x =
    (if \<not> bit hid0 HID0_ICE \<or> disable_icache then (Read_U32 (mem_host (snd x)) addr, x)
     else case cache_Read addr (replicate 4 0) (bit hid0 HID0_ILOCK) x of (bytes, y) \<Rightarrow> (swap32 (le_word bytes), y))"

text \<open>The instruction cache invalidates all ways of the set.\<close>

definition forget_lookup :: "MemoryManager \<Rightarrow> nat \<Rightarrow> nat \<Rightarrow> Cache \<Rightarrow> Cache" where
  "forget_lookup mm row way c = (if bit (c_valid c row) way then set_lookup mm (c_addrs c row way) 0xFF c else c)"

definition icache_Invalidate :: "MemoryManager \<Rightarrow> u32 \<Rightarrow> Cache \<Rightarrow> Cache" where
  "icache_Invalidate mm addr c =
    (let row = cache_set addr; c1 = fold (forget_lookup mm row) [0..<8] c
     in c1\<lparr>c_valid := (c_valid c1)(row := 0), c_modified := (c_modified c1)(row := 0)\<rparr>)"

end
