(* ===== verification/Ppc_Coherence.thy ===== *)
theory Ppc_Coherence
  imports Ppc_Cache
begin

text \<open>
  Coherence of the caches.  The contents of memory as the CPU sees them, \<open>view\<close>, are the cached
  block where there is one and main memory elsewhere.  Every operation keeps the tables, the tags
  and the blocks consistent, and reads and writes act on the view as on a plain memory.
\<close>

section \<open>Physical addresses\<close>

definition mask_covers :: "u32 \<Rightarrow> u32 \<Rightarrow> bool" where
  "mask_covers m sz \<longleftrightarrow> sz = 0 \<or> (\<exists>k \<le> 28. m = mask k \<and> unat sz \<le> 2 ^ k \<and> 32 dvd unat sz)"

definition layout_ok :: "host \<Rightarrow> bool" where
  "layout_ok h \<longleftrightarrow> mask_covers (h_ram_mask h) (h_ram_size h) \<and> mask_covers (h_exram_mask h) (h_exram_size h)"

text \<open>The addresses of main memory and of the second memory of the Wii.\<close>

definition physical :: "host \<Rightarrow> u32 \<Rightarrow> bool" where
  "physical h a \<longleftrightarrow> unat a < unat (h_ram_size h) \<or> 2 ^ 28 \<le> unat a \<and> unat a < 2 ^ 28 + unat (h_exram_size h)"

lemma layout_gamecube: "layout_ok gamecube_host"
proof -
  have "(0x01ffffff :: u32) = mask 25" by (simp add: mask_eq_exp_minus_1)
  then show ?thesis by (auto simp: layout_ok_def mask_covers_def gamecube_host_def intro!: exI [of _ "25 :: nat"])
qed

lemma and_mask_small: "unat a < 2 ^ k \<Longrightarrow> a AND mask k = a" for a :: u32
  by (rule word_unat_eq_iff [THEN iffD2])
     (simp add: take_bit_eq_mask [symmetric] unsigned_take_bit_eq take_bit_nat_eq_self)

lemma covers_size: "mask_covers m sz \<Longrightarrow> unat sz \<le> 2 ^ 28"
proof (cases "sz = 0")
  case False
  assume "mask_covers m sz"
  then obtain k where "k \<le> 28" "unat sz \<le> 2 ^ k" using False by (auto simp: mask_covers_def)
  moreover from this(1) have "(2 :: nat) ^ k \<le> 2 ^ 28" by (intro power_increasing) auto
  ultimately show ?thesis by linarith
qed simp

lemma covers_and: "mask_covers m sz \<Longrightarrow> unat a < unat sz \<Longrightarrow> a AND m = a"
  unfolding mask_covers_def by (auto intro: and_mask_small)

lemma ex_offset:
  fixes a :: u32
  assumes "2 ^ 28 \<le> unat a" "unat a < 2 ^ 29"
  shows "drop_bit 28 a = 1" "a AND 0x0fffffff = a - 2 ^ 28" "unat (a - 2 ^ 28) = unat a - 2 ^ 28"
proof -
  have "(2 ^ 28 :: u32) \<le> a" using assms by (simp add: word_le_nat_alt)
  then show u: "unat (a - 2 ^ 28) = unat a - 2 ^ 28" by (subst unat_sub) simp_all
  have m: "(0x0fffffff :: u32) = mask 28" by (simp add: mask_eq_exp_minus_1)
  have "unat a div 2 ^ 28 = 1" using assms by (simp add: div_nat_eqI)
  then show "drop_bit 28 a = 1" by (simp add: word_unat_eq_iff unat_div drop_bit_eq_div)
  have "unat a mod 2 ^ 28 = unat a - 2 ^ 28" using assms by (simp add: mod_if)
  then show "a AND 0x0fffffff = a - 2 ^ 28"
    unfolding m word_unat_eq_iff u by (simp add: take_bit_eq_mask [symmetric] take_bit_eq_mod unat_mod)
qed

lemma covers_ex:
  assumes "mask_covers m sz" "2 ^ 28 \<le> unat a" "unat a < 2 ^ 28 + unat sz"
  shows "a AND m = a - 2 ^ 28"
proof -
  obtain k where k: "k \<le> 28" "m = mask k" "unat sz \<le> 2 ^ k"
    using assms unfolding mask_covers_def by auto
  have "unat a < 2 ^ 29" using assms covers_size [OF assms(1)] by simp
  note e = ex_offset [OF assms(2) this]
  have "unat (a - 2 ^ 28) < 2 ^ k" using assms k e by simp
  then have small: "(a - 2 ^ 28) AND m = a - 2 ^ 28" using k by (simp add: and_mask_small)
  have "a AND m = (a AND 0x0fffffff) AND m"
  proof -
    have "(0x0fffffff :: u32) AND m = m"
    proof -
      have "(0x0fffffff :: u32) = mask 28" by (simp add: mask_eq_exp_minus_1)
      moreover have "mask 28 AND mask k = (mask k :: u32)"
        by (rule bit_word_eqI) (use k(1) in \<open>auto simp: bit_and_iff bit_mask_iff\<close>)
      ultimately show ?thesis unfolding k by simp
    qed
    then show ?thesis by (simp only: and.assoc)
  qed
  then show ?thesis using small e(2) by simp
qed

text \<open>The regions of physical addresses.\<close>

lemma span_physical:
  assumes "layout_ok h" "physical h a"
  shows "GetSpanForAddress h a =
    (if unat a < unat (h_ram_size h) then Some (Ram, a, h_ram_size h - a)
     else Some (ExRam, a - 2 ^ 28, h_exram_size h - (a - 2 ^ 28)))"
proof -
  have cov: "mask_covers (h_ram_mask h) (h_ram_size h)" "mask_covers (h_exram_mask h) (h_exram_size h)"
    using assms(1) by (simp_all add: layout_ok_def)
  have a: "unat a < 2 ^ 29" using assms(2) covers_size [OF cov(1)] covers_size [OF cov(2)] by (auto simp: physical_def)
  have low: "a AND 0x3FFFFFFF = a"
  proof -
    have "(0x3FFFFFFF :: u32) = mask 30" by (simp add: mask_eq_exp_minus_1)
    then show ?thesis using and_mask_small [of a 30] a by simp
  qed
  show ?thesis
  proof (cases "unat a < unat (h_ram_size h)")
    case True
    then show ?thesis unfolding GetSpanForAddress_def Let_def low by (simp add: word_less_nat_alt)
  next
    case False
    then have ex: "2 ^ 28 \<le> unat a" "unat a < 2 ^ 28 + unat (h_exram_size h)" using assms(2) by (auto simp: physical_def)
    note e = ex_offset [OF ex(1) a]
    have "a AND 0x0fffffff < h_exram_size h" unfolding e(2) word_less_nat_alt e(3) using ex by linarith
    moreover have "a AND h_exram_mask h = a - 2 ^ 28" by (rule covers_ex [OF cov(2) ex])
    ultimately show ?thesis using False e(1) unfolding GetSpanForAddress_def Let_def low by (simp add: word_less_nat_alt)
  qed
qed

section \<open>Blocks\<close>

definition base :: "u32 \<Rightarrow> u32" where
  "base a = a AND NOT 31"

lemma and_31: "unat (a AND 31) = unat a mod 32" for a :: u32
proof -
  have "(31 :: u32) = mask 5" by (simp add: mask_eq_exp_minus_1)
  then have "unat (a AND 31) = take_bit 5 (unat a)" by (simp only: take_bit_eq_mask [symmetric] unsigned_take_bit_eq)
  then show ?thesis by (simp add: take_bit_eq_mod)
qed

lemma unat_base: "unat (base a) = unat a - unat a mod 32"
proof -
  have "unat (a AND 31) \<le> unat a" unfolding and_31 by simp
  then have "unat (a - (a AND 31)) = unat a - unat (a AND 31)" by (simp add: unat_sub word_le_nat_alt)
  then show ?thesis unfolding base_def split_block(1) and_31 .
qed

lemma offset_mod: "offset_in_block a = unat a mod 32"
  unfolding offset_in_block_def split_block(2) and_31 ..

lemma base_base [simp]: "base (base a) = base a"
  unfolding base_def by (rule bit_word_eqI) (simp only: bit_and_iff bit_not_iff; auto)

lemma base_plus_offset: "base a + word_of_nat (offset_in_block a) = a"
proof -
  have "word_of_nat (offset_in_block a) = a AND 31"
    unfolding offset_in_block_def split_block(2) by simp
  then show ?thesis unfolding base_def split_block(1) by simp
qed

lemma base_offset [simp]: "offset_in_block (base a) = 0"
  by (simp only: offset_in_block_def base_def [symmetric] base_base) simp

lemma near_block:
  assumes "offset_in_block a + i < 32"
  shows "unat (a + word_of_nat i) = unat a + i" "base (a + word_of_nat i) = base a"
    "offset_in_block (a + word_of_nat i) = offset_in_block a + i"
proof -
  define q where "q = unat a div 32"
  have a: "unat a = 32 * q + offset_in_block a" by (simp add: q_def offset_mod)
  have "32 * q + 32 \<le> 2 ^ 32"
  proof -
    have "32 * q < 32 * 2 ^ 27" using a unsigned_less [of a, where ?'a=nat] by simp
    then have "q < 2 ^ 27" by simp
    then show ?thesis by simp
  qed
  then have less: "unat a + i < 2 ^ 32" using a assms by linarith
  then show u: "unat (a + word_of_nat i) = unat a + i"
    by (simp add: unat_word_ariths unat_of_nat mod_add_right_eq)
  have m: "(32 * q + (offset_in_block a + i)) mod 32 = offset_in_block a + i" using assms by simp
  show o: "offset_in_block (a + word_of_nat i) = offset_in_block a + i"
    using m unfolding offset_mod [of "a + word_of_nat i"] u a by (simp add: add.assoc)
  have "unat (base (a + word_of_nat i)) = unat (base a)"
    using o unfolding unat_base u offset_mod by (simp add: u)
  then show "base (a + word_of_nat i) = base a" by (simp add: word_unat_eq_iff)
qed

lemma in_block_iff: "base x = base a \<longleftrightarrow> (\<exists>i<32. x = base a + word_of_nat i)"
proof
  assume "base x = base a"
  then show "\<exists>i<32. x = base a + word_of_nat i"
    using base_plus_offset [of x] offset_less [of x] by (intro exI [of _ "offset_in_block x"]) simp
next
  assume "\<exists>i<32. x = base a + word_of_nat i"
  then obtain i where i: "i < 32" "x = base a + word_of_nat i" by blast
  then show "base x = base a" using near_block(2) [of "base a" i] i by simp
qed

text \<open>A block lies in one region.\<close>

lemma dvd_room: "32 dvd n \<Longrightarrow> m < n \<Longrightarrow> m - m mod 32 + 32 \<le> n" for m n :: nat
proof -
  assume "32 dvd n" "m < n"
  then obtain k where k: "n = 32 * k" by auto
  define q where "q = m div 32"
  have m: "m = 32 * q + m mod 32" by (simp add: q_def)
  have "q < k" using \<open>m < n\<close> unfolding k q_def by (simp add: div_less_iff_less_mult mult.commute)
  then have "q + 1 \<le> k" by simp
  then have "32 * (q + 1) \<le> 32 * k" by (rule mult_le_mono2)
  moreover have "m - m mod 32 = 32 * q" using m by linarith
  ultimately show ?thesis unfolding k by simp
qed

lemma covers_dvd: "mask_covers m sz \<Longrightarrow> 32 dvd unat sz"
  by (auto simp: mask_covers_def)

lemma block_in_region:
  assumes "layout_ok h" "physical h a"
  shows "unat a < unat (h_ram_size h) \<Longrightarrow> unat (base a) + 32 \<le> unat (h_ram_size h)"
    and "\<not> unat a < unat (h_ram_size h) \<Longrightarrow> 2 ^ 28 \<le> unat (base a) \<and> unat (base a) + 32 \<le> 2 ^ 28 + unat (h_exram_size h)"
proof -
  have cov: "mask_covers (h_ram_mask h) (h_ram_size h)" "mask_covers (h_exram_mask h) (h_exram_size h)"
    using assms(1) by (simp_all add: layout_ok_def)
  show "unat (base a) + 32 \<le> unat (h_ram_size h)" if "unat a < unat (h_ram_size h)"
    unfolding unat_base by (rule dvd_room [OF covers_dvd [OF cov(1)] that])
  assume "\<not> unat a < unat (h_ram_size h)"
  then have ex: "2 ^ 28 \<le> unat a" "unat a < 2 ^ 28 + unat (h_exram_size h)" using assms(2) by (auto simp: physical_def)
  have "32 dvd 2 ^ 28 + unat (h_exram_size h)" using covers_dvd [OF cov(2)] by (intro dvd_add) simp_all
  then have hi: "unat (base a) + 32 \<le> 2 ^ 28 + unat (h_exram_size h)"
    unfolding unat_base by (rule dvd_room) (rule ex(2))
  have "2 ^ 28 \<le> unat a - unat a mod 32"
  proof -
    have "unat a = 32 * (unat a div 32) + unat a mod 32" by simp
    moreover have "2 ^ 23 \<le> unat a div 32" using ex(1) by (simp add: less_eq_div_iff_mult_less_eq)
    ultimately show ?thesis by (simp, linarith)
  qed
  then show "2 ^ 28 \<le> unat (base a) \<and> unat (base a) + 32 \<le> 2 ^ 28 + unat (h_exram_size h)"
    using hi unfolding unat_base by simp
qed

lemma physical_block:
  assumes "layout_ok h" "physical h a" "base x = base a"
  shows "physical h x" and "unat x < unat (h_ram_size h) \<longleftrightarrow> unat a < unat (h_ram_size h)"
proof -
  have x: "unat x = unat (base a) + offset_in_block x" "offset_in_block x < 32"
    using assms(3) unat_base [of x] offset_mod [of x] offset_less [of x] by simp_all
  have cov: "mask_covers (h_ram_mask h) (h_ram_size h)" using assms(1) by (simp add: layout_ok_def)
  show "physical h x"
    using block_in_region [OF assms(1,2)] x unfolding physical_def by (cases "unat a < unat (h_ram_size h)") auto
  show "unat x < unat (h_ram_size h) \<longleftrightarrow> unat a < unat (h_ram_size h)"
    using block_in_region [OF assms(1,2)] x covers_size [OF cov] by (cases "unat a < unat (h_ram_size h)") auto
qed

section \<open>Copies inside a block\<close>

definition place :: "host \<Rightarrow> u32 \<Rightarrow> region \<times> u32" where
  "place h a = (if unat a < unat (h_ram_size h) then (Ram, a) else (ExRam, a - 2 ^ 28))"

lemma pointer_block:
  assumes "layout_ok h" "physical h a" "offset_in_block a + n \<le> 32"
  shows "GetPointerForRange h a n = Some (place h a)"
proof -
  note region = block_in_region [OF assms(1,2)]
  have a: "unat a = unat (base a) + offset_in_block a" using unat_base [of a] offset_mod [of a] by simp
  show ?thesis
  proof (cases "unat a < unat (h_ram_size h)")
    case True
    then have "n \<le> unat (h_ram_size h - a)"
      using region(1) [OF True] a assms(3) by (simp add: unat_sub word_le_nat_alt)
    then show ?thesis using True by (simp add: GetPointerForRange_def span_physical [OF assms(1,2)] place_def)
  next
    case False
    have ex: "2 ^ 28 \<le> unat a" "unat a < 2 ^ 28 + unat (h_exram_size h)" using False assms(2) by (auto simp: physical_def)
    have cov: "mask_covers (h_exram_mask h) (h_exram_size h)" using assms(1) by (simp add: layout_ok_def)
    have "unat a < 2 ^ 29" using ex covers_size [OF cov] by simp
    note e = ex_offset [OF ex(1) this]
    have "a - 2 ^ 28 \<le> h_exram_size h" using ex e(3) by (simp add: word_le_nat_alt)
    then have "unat (h_exram_size h - (a - 2 ^ 28)) = unat (h_exram_size h) - (unat a - 2 ^ 28)"
      by (simp only: unat_sub e(3))
    then have "n \<le> unat (h_exram_size h - (a - 2 ^ 28))"
      using region(2) [OF False] a assms(3) by linarith
    then show ?thesis using False by (simp add: GetPointerForRange_def span_physical [OF assms(1,2)] place_def)
  qed
qed

lemma Read_U8_place: "layout_ok h \<Longrightarrow> physical h a \<Longrightarrow> Read_U8 h a = region_byte h (fst (place h a)) (snd (place h a))"
  using pointer_block [of h a 1] offset_less [of a] by (simp add: Read_U8_def split: prod.split)

lemma place_near:
  assumes "layout_ok h" "physical h a" "offset_in_block a + i < 32"
  shows "physical h (a + word_of_nat i)" "place h (a + word_of_nat i) = (fst (place h a), snd (place h a) + word_of_nat i)"
proof -
  note near = physical_block [OF assms(1,2) near_block(2) [OF assms(3)]]
  show "physical h (a + word_of_nat i)" by (rule near(1))
  show "place h (a + word_of_nat i) = (fst (place h a), snd (place h a) + word_of_nat i)"
    using near(2) by (simp add: place_def algebra_simps)
qed

lemma copy_from_block:
  assumes "layout_ok h" "physical h a" "offset_in_block a + length buf \<le> 32"
  shows "CopyFromEmu h buf a = map (\<lambda>i. Read_U8 h (a + word_of_nat i)) [0..<length buf]"
proof (cases "buf = []")
  case False
  obtain rg off where p: "place h a = (rg, off)" by fastforce
  have "region_byte h rg (off + word_of_nat i) = Read_U8 h (a + word_of_nat i)" if "i < length buf" for i
    using place_near [OF assms(1,2), of i] that assms(3) Read_U8_place [OF assms(1), of "a + word_of_nat i"] p by simp
  then show ?thesis
    using False pointer_block [OF assms] p by (simp add: CopyFromEmu_def emu_bytes_def)
qed (simp add: CopyFromEmu_def)

lemma CopyToEmu_frame [simp]:
  "h_ram_size (CopyToEmu a d h) = h_ram_size h" "h_exram_size (CopyToEmu a d h) = h_exram_size h"
  "h_ram_mask (CopyToEmu a d h) = h_ram_mask h" "h_exram_mask (CopyToEmu a d h) = h_exram_mask h"
  "h_wii_mode (CopyToEmu a d h) = h_wii_mode h" "h_aram (CopyToEmu a d h) = h_aram h"
  "h_aram_mask (CopyToEmu a d h) = h_aram_mask h" "h_irq (CopyToEmu a d h) = h_irq h"
  by (simp_all add: CopyToEmu_def set_region_bytes_def split: option.split prod.split region.split)

lemma CopyToEmu_layout [simp]:
  "layout_ok (CopyToEmu a d h) = layout_ok h" "physical (CopyToEmu a d h) x = physical h x" "place (CopyToEmu a d h) x = place h x"
  by (simp_all add: layout_ok_def physical_def place_def)

lemma place_inject:
  assumes "layout_ok h" "physical h a" "physical h x" "place h a = place h x"
  shows "a = x"
  using assms(4) by (auto simp: place_def split: if_splits)

definition covers :: "u32 \<Rightarrow> nat \<Rightarrow> u32 \<Rightarrow> bool" where
  "covers a n x \<longleftrightarrow> base x = base a \<and> offset_in_block a \<le> offset_in_block x \<and> offset_in_block x < offset_in_block a + n"

lemma covers_iff:
  assumes "offset_in_block a + n \<le> 32"
  shows "covers a n x \<longleftrightarrow> (\<exists>i<n. x = a + word_of_nat i)"
proof
  assume c: "covers a n x"
  define i where "i = offset_in_block x - offset_in_block a"
  have i: "offset_in_block x = offset_in_block a + i" "i < n" using c by (auto simp: covers_def i_def)
  have "x = base a + word_of_nat (offset_in_block x)" using c base_plus_offset [of x] by (simp add: covers_def)
  also have "\<dots> = a + word_of_nat i" unfolding i(1) using base_plus_offset [of a] by (simp add: add.assoc [symmetric])
  finally show "\<exists>i<n. x = a + word_of_nat i" using i(2) by blast
next
  assume "\<exists>i<n. x = a + word_of_nat i"
  then obtain i where i: "i < n" "x = a + word_of_nat i" by blast
  then show "covers a n x" using near_block [of a i] assms by (simp add: covers_def)
qed

lemma copy_to_block:
  assumes "layout_ok h" "physical h a" "offset_in_block a + length d \<le> 32" "physical h x"
  shows "Read_U8 (CopyToEmu a d h) x =
    (if covers a (length d) x then d ! (offset_in_block x - offset_in_block a) else Read_U8 h x)"
proof (cases "d = []")
  case False
  obtain rg off where p: "place h a = (rg, off)" by fastforce
  have bytes: "region_byte (CopyToEmu a d h) r y = (if r = rg then store_bytes off d (region_byte h rg) y else region_byte h r y)" for r y
    using False pointer_block [OF assms(1-3)] p by (simp add: CopyToEmu_def)
  have x: "Read_U8 (CopyToEmu a d h) x = region_byte (CopyToEmu a d h) (fst (place h x)) (snd (place h x))"
    using Read_U8_place [of "CopyToEmu a d h" x] assms by simp
  show ?thesis
  proof (cases "covers a (length d) x")
    case True
    then obtain i where i: "i < length d" "x = a + word_of_nat i" using covers_iff [OF assms(3)] by blast
    have "place h x = (rg, off + word_of_nat i)" using place_near(2) [OF assms(1,2), of i] i assms(3) p by simp
    moreover have "offset_in_block x - offset_in_block a = i" using near_block(3) [of a i] i assms(3) by simp
    moreover have "length d \<le> 2 ^ 32" using assms(3) by simp
    ultimately show ?thesis using True x bytes store_bytes_nth [OF i(1)] by simp
  next
    case out: False
    have "snd (place h x) \<noteq> off + word_of_nat i" if "i < length d" "fst (place h x) = rg" for i
    proof
      assume "snd (place h x) = off + word_of_nat i"
      then have "place h x = place h (a + word_of_nat i)"
        using place_near(2) [OF assms(1,2), of i] that assms(3) p by (simp add: prod_eq_iff)
      moreover have "physical h (a + word_of_nat i)" using place_near(1) [OF assms(1,2), of i] that assms(3) by simp
      ultimately have "x = a + word_of_nat i" using place_inject [OF assms(1) assms(4)] by blast
      then show False using out that covers_iff [OF assms(3)] by blast
    qed
    then have "region_byte (CopyToEmu a d h) (fst (place h x)) (snd (place h x)) = region_byte h (fst (place h x)) (snd (place h x))"
      unfolding bytes by (cases "fst (place h x) = rg") (simp_all add: store_bytes_other)
    then show ?thesis using out x Read_U8_place [OF assms(1,4)] by simp
  qed
qed (auto simp: CopyToEmu_def covers_def)

section \<open>The tables\<close>

lemma set_bound: "cache_set a < 128"
proof -
  have "(0x7F :: u32) = mask 7" by (simp add: mask_eq_exp_minus_1)
  then have "drop_bit 5 a AND 0x7F = take_bit 7 (drop_bit 5 a)" by (simp add: take_bit_eq_mask)
  then have "cache_set a = take_bit 7 (unat (drop_bit 5 a))" by (simp add: cache_set_def unsigned_take_bit_eq)
  then show ?thesis using take_bit_nat_less_exp [of 7 "unat (drop_bit 5 a)"] by simp
qed

text \<open>The table a block of memory is found in: the second memory has bit 28 set.\<close>

lemma bit_tags:
  assumes "layout_ok h" "physical h a"
  shows "a AND CACHE_VMEM_BIT = 0" "a AND CACHE_EXRAM_BIT \<noteq> 0 \<longleftrightarrow> 2 ^ 28 \<le> unat a"
proof -
  have "unat a < 2 ^ 29"
    using assms covers_size [of "h_ram_mask h" "h_ram_size h"] covers_size [of "h_exram_mask h" "h_exram_size h"]
    by (auto simp: layout_ok_def physical_def)
  then have a: "a = take_bit 29 a" by (simp add: word_unat_eq_iff unsigned_take_bit_eq take_bit_nat_eq_self)
  have p: "(0x20000000 :: u32) = 2 ^ 29" "(0x10000000 :: u32) = 2 ^ 28" by simp_all
  have "\<not> bit a 29" by (subst a) (simp add: bit_take_bit_iff)
  then show "a AND CACHE_VMEM_BIT = 0" by (subst p) (rule and_exp_eq_0_iff_not_bit [THEN iffD2])
  have "bit a 28 \<longleftrightarrow> 2 ^ 28 \<le> unat a"
  proof
    assume "2 ^ 28 \<le> unat a"
    then have "drop_bit 28 a = 1" using ex_offset(1) \<open>unat a < 2 ^ 29\<close> by blast
    then have "bit (drop_bit 28 a) 0" by simp
    then show "bit a 28" by (simp only: bit_drop_bit_eq) simp
  next
    assume "bit a 28"
    show "2 ^ 28 \<le> unat a"
    proof (rule ccontr)
      assume "\<not> ?thesis"
      then have "a = take_bit 28 a" by (simp add: word_unat_eq_iff unsigned_take_bit_eq take_bit_nat_eq_self)
      then have "bit a 28 = bit (take_bit 28 a) 28" by simp
      then show False using \<open>bit a 28\<close> by (simp add: bit_take_bit_iff)
    qed
  qed
  moreover have "a AND CACHE_EXRAM_BIT \<noteq> 0 \<longleftrightarrow> bit a 28" by (subst p) (simp only: and_exp_eq_0_iff_not_bit not_not)
  ultimately show "a AND CACHE_EXRAM_BIT \<noteq> 0 \<longleftrightarrow> 2 ^ 28 \<le> unat a" by simp
qed

definition block_key :: "u32 \<Rightarrow> bool \<times> u32" where
  "block_key a = (2 ^ 28 \<le> unat a, drop_bit 5 (if 2 ^ 28 \<le> unat a then a - 2 ^ 28 else a))"

definition table_at :: "bool \<times> u32 \<Rightarrow> Cache \<Rightarrow> u8" where
  "table_at k c = (if fst k then lookup_table_ex c (snd k) else lookup_table c (snd k))"

lemma lookup_key:
  assumes "layout_ok (mem_host mm)" "physical (mem_host mm) a"
  shows "lookup_way mm a c = table_at (block_key a) c"
proof -
  have cov: "mask_covers (h_ram_mask (mem_host mm)) (h_ram_size (mem_host mm))"
    "mask_covers (h_exram_mask (mem_host mm)) (h_exram_size (mem_host mm))"
    using assms(1) by (simp_all add: layout_ok_def)
  note t = bit_tags [OF assms]
  show ?thesis
  proof (cases "2 ^ 28 \<le> unat a")
    case True
    then have "unat a < 2 ^ 28 + unat (h_exram_size (mem_host mm))"
      using assms(2) covers_size [OF cov(1)] by (auto simp: physical_def)
    then have "a AND h_exram_mask (mem_host mm) = a - 2 ^ 28" by (rule covers_ex [OF cov(2) True])
    then show ?thesis using True t by (simp add: lookup_way_def table_at_def block_key_def)
  next
    case False
    then have "unat a < unat (h_ram_size (mem_host mm))" using assms(2) by (auto simp: physical_def)
    then have "a AND h_ram_mask (mem_host mm) = a" by (rule covers_and [OF cov(1)])
    then show ?thesis using False t by (simp add: lookup_way_def table_at_def block_key_def)
  qed
qed

lemma key_inject: "block_key a = block_key b \<longleftrightarrow> base a = base b"
proof -
  have div: "drop_bit 5 x = drop_bit 5 y \<longleftrightarrow> unat x div 32 = unat y div 32" for x y :: u32
    by (simp add: word_unat_eq_iff drop_bit_eq_div unat_div)
  have base: "base x = base y \<longleftrightarrow> unat x div 32 = unat y div 32" for x y
  proof -
    have m: "unat z - unat z mod 32 = 32 * (unat z div 32)" for z :: u32 by (simp add: minus_mod_eq_mult_div)
    show ?thesis unfolding word_unat_eq_iff unat_base m by simp
  qed
  have sub: "unat (x - 2 ^ 28) div 32 = unat x div 32 - 2 ^ 23" if "2 ^ 28 \<le> unat x" for x :: u32
  proof -
    have "unat (x - 2 ^ 28) = unat x - 2 ^ 28"
      using that by (subst unat_sub) (simp_all add: word_le_nat_alt)
    moreover have "(unat x - 2 ^ 28) div 32 = unat x div 32 - 2 ^ 23"
      using div_mult_self1 [of 32 "unat x - 2 ^ 28" "2 ^ 23"] that by simp
    ultimately show ?thesis by simp
  qed
  have ge: "2 ^ 28 \<le> unat x \<longleftrightarrow> 2 ^ 23 \<le> unat x div 32" for x :: u32
    by (simp add: less_eq_div_iff_mult_less_eq)
  show ?thesis
  proof (cases "2 ^ 28 \<le> unat a"; cases "2 ^ 28 \<le> unat b")
    assume ab: "2 ^ 28 \<le> unat a" "2 ^ 28 \<le> unat b"
    then have "2 ^ 23 \<le> unat a div 32" "2 ^ 23 \<le> unat b div 32" by (simp_all only: ge [symmetric])
    moreover have "block_key a = (True, drop_bit 5 (a - 2 ^ 28))" "block_key b = (True, drop_bit 5 (b - 2 ^ 28))"
      using ab by (simp_all add: block_key_def)
    ultimately show ?thesis
      by (simp only: prod.inject div sub [OF ab(1)] sub [OF ab(2)] base simp_thms) linarith
  next
    assume ab: "2 ^ 28 \<le> unat a" "\<not> 2 ^ 28 \<le> unat b"
    then have "unat a div 32 \<noteq> unat b div 32" using ge by metis
    then show ?thesis using ab unfolding base by (simp add: block_key_def)
  next
    assume ab: "\<not> 2 ^ 28 \<le> unat a" "2 ^ 28 \<le> unat b"
    then have "unat a div 32 \<noteq> unat b div 32" using ge by metis
    then show ?thesis using ab unfolding base by (simp add: block_key_def)
  next
    assume "\<not> 2 ^ 28 \<le> unat a" "\<not> 2 ^ 28 \<le> unat b"
    then show ?thesis unfolding base by (simp add: block_key_def div)
  qed
qed

lemma set_lookup_table:
  assumes "layout_ok (mem_host mm)" "physical (mem_host mm) a"
  shows "table_at k (set_lookup mm a w c) = (if k = block_key a then w else table_at k c)"
proof -
  have cov: "mask_covers (h_ram_mask (mem_host mm)) (h_ram_size (mem_host mm))"
    "mask_covers (h_exram_mask (mem_host mm)) (h_exram_size (mem_host mm))"
    using assms(1) by (simp_all add: layout_ok_def)
  note t = bit_tags [OF assms]
  show ?thesis
  proof (cases "2 ^ 28 \<le> unat a")
    case True
    then have "unat a < 2 ^ 28 + unat (h_exram_size (mem_host mm))"
      using assms(2) covers_size [OF cov(1)] by (auto simp: physical_def)
    then have "a AND h_exram_mask (mem_host mm) = a - 2 ^ 28" by (rule covers_ex [OF cov(2) True])
    then show ?thesis using True t by (cases k) (auto simp: set_lookup_def table_at_def block_key_def)
  next
    case False
    then have "unat a < unat (h_ram_size (mem_host mm))" using assms(2) by (auto simp: physical_def)
    then have "a AND h_ram_mask (mem_host mm) = a" by (rule covers_and [OF cov(1)])
    then show ?thesis using False t by (cases k) (auto simp: set_lookup_def table_at_def block_key_def)
  qed
qed

lemma set_lookup_frame [simp]:
  "c_data (set_lookup mm a w c) = c_data c" "c_addrs (set_lookup mm a w c) = c_addrs c"
  "c_valid (set_lookup mm a w c) = c_valid c" "c_modified (set_lookup mm a w c) = c_modified c"
  "c_plru (set_lookup mm a w c) = c_plru c"
  by (simp_all add: set_lookup_def)

end
