(* ===== verification/Ppc_CacheView.thy ===== *)
theory Ppc_CacheView
  imports Ppc_Coherence
begin

text \<open>
  The view of memory through a cache, the invariant of its tables, and the preservation of both by
  the operations on blocks.
\<close>

section \<open>View and invariant\<close>

definition view :: "Cache \<times> MemoryManager \<Rightarrow> u32 \<Rightarrow> u8" where
  "view x a = (case x of (c, mm) \<Rightarrow>
     let w = table_at (block_key a) c
     in if w \<noteq> 0xFF then c_data c (cache_set a) (unat w) ! offset_in_block a else Read_U8 (mem_host mm) a)"

definition block_bytes :: "host \<Rightarrow> u32 \<Rightarrow> u8 list" where
  "block_bytes h b = map (\<lambda>i. Read_U8 h (b + word_of_nat i)) [0..<32]"

text \<open>A way that holds a block.\<close>

definition way_ok :: "Cache \<Rightarrow> host \<Rightarrow> nat \<Rightarrow> nat \<Rightarrow> bool" where
  "way_ok c h r w \<longleftrightarrow>
    (let b = c_addrs c r w
     in physical h b \<and> base b = b \<and> cache_set b = r \<and> table_at (block_key b) c = word_of_nat w
        \<and> (bit (c_modified c r) w \<or> c_data c r w = block_bytes h b))"

definition entry_ok :: "Cache \<Rightarrow> u32 \<Rightarrow> bool" where
  "entry_ok c a \<longleftrightarrow>
    (let w = unat (table_at (block_key a) c)
     in w < 8 \<and> bit (c_valid c (cache_set a)) w \<and> c_addrs c (cache_set a) w = base a)"

definition cache_ok :: "Cache \<times> MemoryManager \<Rightarrow> bool" where
  "cache_ok x = (case x of (c, mm) \<Rightarrow>
     layout_ok (mem_host mm)
     \<and> (\<forall>a. physical (mem_host mm) a \<and> table_at (block_key a) c \<noteq> 0xFF \<longrightarrow> entry_ok c a)
     \<and> (\<forall>r<128. \<forall>w<8. length (c_data c r w) = 32 \<and> (bit (c_valid c r) w \<longrightarrow> way_ok c (mem_host mm) r w)))"

abbreviation mapped :: "Cache \<times> MemoryManager \<Rightarrow> u32 \<Rightarrow> bool" where
  "mapped x \<equiv> physical (mem_host (snd x))"

lemma cache_set_base [simp]: "cache_set (base a) = cache_set a"
proof -
  have "unat (base a) div 32 = unat a div 32" unfolding unat_base by (simp add: minus_mod_eq_mult_div)
  then have "drop_bit 5 (base a) = drop_bit 5 a" by (simp add: word_unat_eq_iff drop_bit_eq_div unat_div)
  then show ?thesis by (simp add: cache_set_def)
qed

lemma key_base [simp]: "block_key (base a) = block_key a"
  by (simp only: key_inject base_base)

lemma way_word [simp]: "w < 8 \<Longrightarrow> unat (word_of_nat w :: u8) = w" "w < 8 \<Longrightarrow> (word_of_nat w :: u8) \<noteq> 0xFF"
proof -
  assume "w < 8"
  then show u: "unat (word_of_nat w :: u8) = w" by (simp add: unat_of_nat)
  show "(word_of_nat w :: u8) \<noteq> 0xFF" using \<open>w < 8\<close> arg_cong [of "word_of_nat w :: u8" "0xFF" unat] unfolding u by auto
qed

lemma block_nth: "i < 32 \<Longrightarrow> block_bytes h b ! i = Read_U8 h (b + word_of_nat i)"
  by (simp add: block_bytes_def)

lemma block_length [simp]: "length (block_bytes h b) = 32"
  by (simp add: block_bytes_def)

lemma block_at: "block_bytes h (base a) ! offset_in_block a = Read_U8 h a"
  using offset_less [of a] base_plus_offset [of a] by (simp add: block_nth)

lemma base_in_block: "base b = b \<Longrightarrow> i < 32 \<Longrightarrow> base (b + word_of_nat i) = b"
  using near_block(2) [of b i] base_offset [of b] by simp

lemma block_bytes_cong: "base b = b \<Longrightarrow> (\<And>a. base a = b \<Longrightarrow> Read_U8 h a = Read_U8 h' a) \<Longrightarrow> block_bytes h b = block_bytes h' b"
  by (simp add: block_bytes_def base_in_block)

text \<open>A whole block stored.\<close>

lemma store_block:
  assumes "layout_ok h" "physical h b" "base b = b" "length d = 32" "physical h a"
  shows "Read_U8 (CopyToEmu b d h) a = (if base a = b then d ! offset_in_block a else Read_U8 h a)"
proof -
  have o: "offset_in_block b = 0" using base_offset [of b] assms(3) by simp
  show ?thesis
    using copy_to_block [OF assms(1,2) _ assms(5), of d] assms(3,4) o offset_less [of a] by (simp add: covers_def)
qed

section \<open>Filling a way\<close>

lemma evicted:
  assumes "cache_ok (c, mm)" "r < 128" "w < 8"
  obtains c1 mm1 where "evict r w (c, mm) = (c1, mm1)"
    "c_data c1 = c_data c" "c_addrs c1 = c_addrs c" "c_valid c1 = c_valid c" "c_modified c1 = c_modified c"
    "\<And>x. physical (mem_host mm1) x = physical (mem_host mm) x" "layout_ok (mem_host mm1)"
    "\<And>a. physical (mem_host mm) a \<Longrightarrow> Read_U8 (mem_host mm1) a =
       (if bit (c_valid c r) w \<and> base a = c_addrs c r w then c_data c r w ! offset_in_block a else Read_U8 (mem_host mm) a)"
    "\<And>a. table_at (block_key a) c1 =
       (if bit (c_valid c r) w \<and> base a = c_addrs c r w then 0xFF else table_at (block_key a) c)"
proof (cases "bit (c_valid c r) w")
  case False
  then show ?thesis using assms by (intro that [of c mm]) (simp_all add: evict_def cache_ok_def)
next
  case True
  define b where "b = c_addrs c r w"
  define mm1 where "mm1 = (if bit (c_modified c r) w then mem_CopyToEmu b (c_data c r w) mm else mm)"
  have way: "way_ok c (mem_host mm) r w" "length (c_data c r w) = 32" and l: "layout_ok (mem_host mm)"
    using assms True by (auto simp: cache_ok_def)
  then have b: "physical (mem_host mm) b" "base b = b" by (simp_all add: way_ok_def b_def Let_def)
  have l1: "layout_ok (mem_host mm1)" "\<And>x. physical (mem_host mm1) x = physical (mem_host mm) x"
    using l by (simp_all add: mm1_def mem_CopyToEmu_def)
  show ?thesis
  proof (rule that [of "set_lookup mm1 b 0xFF c" mm1])
    show "evict r w (c, mm) = (set_lookup mm1 b 0xFF c, mm1)" using True by (simp add: evict_def mm1_def b_def Let_def)
    show "Read_U8 (mem_host mm1) a =
       (if bit (c_valid c r) w \<and> base a = c_addrs c r w then c_data c r w ! offset_in_block a else Read_U8 (mem_host mm) a)"
      if "physical (mem_host mm) a" for a
    proof (cases "bit (c_modified c r) w")
      case True
      then show ?thesis using store_block [OF l b way(2) that] \<open>bit (c_valid c r) w\<close>
        by (simp add: mm1_def mem_CopyToEmu_def b_def)
    next
      case False
      then have "c_data c r w = block_bytes (mem_host mm) b" using way(1) by (simp add: way_ok_def b_def Let_def)
      then show ?thesis using False block_at [of "mem_host mm" a] by (auto simp: mm1_def b_def)
    qed
    show "table_at (block_key a) (set_lookup mm1 b 0xFF c) =
       (if bit (c_valid c r) w \<and> base a = c_addrs c r w then 0xFF else table_at (block_key a) c)" for a
      using set_lookup_table [OF l1(1), of b] l1(2) b True by (simp add: key_inject b_def)
  qed (simp_all add: l1)
qed

lemma cache_okI:
  assumes "layout_ok (mem_host mm)"
    and "\<And>a. physical (mem_host mm) a \<Longrightarrow> table_at (block_key a) c \<noteq> 0xFF \<Longrightarrow> entry_ok c a"
    and "\<And>r w. r < 128 \<Longrightarrow> w < 8 \<Longrightarrow> length (c_data c r w) = 32"
    and "\<And>r w. r < 128 \<Longrightarrow> w < 8 \<Longrightarrow> bit (c_valid c r) w \<Longrightarrow> way_ok c (mem_host mm) r w"
  shows "cache_ok (c, mm)"
  using assms by (simp add: cache_ok_def)

lemma cache_okD:
  assumes "cache_ok (c, mm)"
  shows "layout_ok (mem_host mm)"
    and "physical (mem_host mm) a \<Longrightarrow> table_at (block_key a) c \<noteq> 0xFF \<Longrightarrow> entry_ok c a"
    and "r < 128 \<Longrightarrow> w < 8 \<Longrightarrow> length (c_data c r w) = 32"
    and "r < 128 \<Longrightarrow> w < 8 \<Longrightarrow> bit (c_valid c r) w \<Longrightarrow> way_ok c (mem_host mm) r w"
  using assms by (simp_all add: cache_ok_def)

lemma bit_set_u8: "w < 8 \<Longrightarrow> bit (set_bit w (x :: u8)) n \<longleftrightarrow> n = w \<or> bit x n"
  by (auto simp: bit_set_bit_iff)

lemma bit_unset_u8: "bit (unset_bit w (x :: u8)) n \<longleftrightarrow> n \<noteq> w \<and> bit x n"
  by (auto simp: bit_unset_bit_iff)

lemma filled:
  assumes ok: "cache_ok (c, mm)" and b: "physical (mem_host mm) b" "base b = b" and r: "r = cache_set b" and w: "w < 8"
    and miss: "table_at (block_key b) c = 0xFF"
    and x': "load_block b r w (evict r w (c, mm)) = (c', mm')"
  shows "cache_ok (c', mm')" "\<And>a. physical (mem_host mm) a \<Longrightarrow> view (c', mm') a = view (c, mm) a"
    "\<And>a. physical (mem_host mm') a = physical (mem_host mm) a" "table_at (block_key b) c' = word_of_nat w"
proof -
  have r128: "r < 128" unfolding r by (rule set_bound)
  obtain c1 mm1 where e: "evict r w (c, mm) = (c1, mm1)"
    "c_data c1 = c_data c" "c_addrs c1 = c_addrs c" "c_valid c1 = c_valid c" "c_modified c1 = c_modified c"
    "\<And>x. physical (mem_host mm1) x = physical (mem_host mm) x" "layout_ok (mem_host mm1)"
    and byte: "\<And>a. physical (mem_host mm) a \<Longrightarrow> Read_U8 (mem_host mm1) a =
       (if bit (c_valid c r) w \<and> base a = c_addrs c r w then c_data c r w ! offset_in_block a else Read_U8 (mem_host mm) a)"
    and tab1: "\<And>a. table_at (block_key a) c1 =
       (if bit (c_valid c r) w \<and> base a = c_addrs c r w then 0xFF else table_at (block_key a) c)"
    by (rule evicted [OF ok r128 w]) blast
  define old where "old a \<longleftrightarrow> bit (c_valid c r) w \<and> base a = c_addrs c r w" for a
  note D = cache_okD [OF ok]
  have wayD: "way_ok c (mem_host mm) r w" if "old a" for a using D(4) [OF r128 w] that by (simp add: old_def)
  have oldD: "table_at (block_key a) c = word_of_nat w" "cache_set a = r" if "old a" for a
  proof -
    have ba: "base a = c_addrs c r w" using that by (simp add: old_def)
    then show "cache_set a = r" using wayD [OF that] cache_set_base [of a] by (simp add: way_ok_def Let_def del: cache_set_base)
    show "table_at (block_key a) c = word_of_nat w"
      using wayD [OF that] key_base [of a] ba by (simp add: way_ok_def Let_def del: key_base)
  qed
  have b_old: "\<not> old b" using oldD(1) [of b] miss w by auto
  have lenb: "length (c_data c r w) = 32" by (rule D(3) [OF r128 w])
  have line: "CopyFromEmu (mem_host mm1) (c_data c r w) (b AND NOT 0x1F) = block_bytes (mem_host mm1) b"
  proof -
    have bb: "b AND NOT 0x1F = b" using b(2) by (simp add: base_def)
    have "offset_in_block b = 0" using base_offset [of b] b(2) by simp
    then show ?thesis
      unfolding bb using copy_from_block [OF e(7), of b "c_data c r w"] e(6) b(1) lenb by (simp add: block_bytes_def)
  qed
  have c': "c' = (set_lookup mm1 b (word_of_nat w) (c1\<lparr>c_data := put2 (c_data c) r w (block_bytes (mem_host mm1) b)\<rparr>))
      \<lparr>c_addrs := put2 (c_addrs c) r w b, c_valid := (c_valid c)(r := set_bit w (c_valid c r)),
       c_modified := (c_modified c)(r := unset_bit w (c_modified c r))\<rparr>" and mm': "mm' = mm1"
    using x' unfolding e(1) load_block_def prod.case Let_def e(2-5) line by (auto simp: e(2-5))
  have tab: "table_at (block_key a) c' = (if base a = b then word_of_nat w else if old a then 0xFF else table_at (block_key a) c)" for a
  proof -
    have "table_at (block_key a) c' = table_at (block_key a) (set_lookup mm1 b (word_of_nat w) (c1\<lparr>c_data := put2 (c_data c) r w (block_bytes (mem_host mm1) b)\<rparr>))"
      unfolding c' by (simp add: table_at_def)
    also have "\<dots> = (if block_key a = block_key b then word_of_nat w else table_at (block_key a) c1)"
      using set_lookup_table [OF e(7), of b] e(6) b(1) by (simp add: table_at_def)
    also have "\<dots> = (if base a = b then word_of_nat w else if old a then 0xFF else table_at (block_key a) c)"
      unfolding key_inject b(2) tab1 old_def by simp
    finally show ?thesis .
  qed
  have data: "c_data c' = put2 (c_data c) r w (block_bytes (mem_host mm1) b)" "c_addrs c' = put2 (c_addrs c) r w b"
    "c_valid c' = (c_valid c)(r := set_bit w (c_valid c r))" "c_modified c' = (c_modified c)(r := unset_bit w (c_modified c r))"
    unfolding c' by simp_all
  have keep: "(cache_set a, unat (table_at (block_key a) c)) \<noteq> (r, w)"
    if "physical (mem_host mm) a" "table_at (block_key a) c \<noteq> 0xFF" "\<not> old a" for a
  proof
    assume "(cache_set a, unat (table_at (block_key a) c)) = (r, w)"
    then have "old a" using D(2) [OF that(1,2)] by (simp add: entry_ok_def old_def Let_def)
    then show False using that by simp
  qed
  show phys: "\<And>a. physical (mem_host mm') a = physical (mem_host mm) a" unfolding mm' by (rule e(6))
  show "table_at (block_key b) c' = word_of_nat w" using tab [of b] b(2) by simp
  show "view (c', mm') a = view (c, mm) a" if a: "physical (mem_host mm) a" for a
  proof -
    consider "base a = b" | "base a \<noteq> b" "old a" | "base a \<noteq> b" "\<not> old a" by blast
    then show ?thesis
    proof cases
      case 1
      have "\<not> old a" using b_old 1 b(2) by (simp add: old_def)
      moreover have "table_at (block_key a) c = 0xFF" using miss key_base [of a] 1 by (simp del: key_base)
      moreover have "cache_set a = r" using cache_set_base [of a] 1 r by (simp del: cache_set_base)
      ultimately show ?thesis
        using 1 tab [of a] w block_at [of "mem_host mm1" a] byte [OF a] by (auto simp: view_def data Let_def old_def)
    next
      case 2
      then show ?thesis using oldD [OF 2(2)] tab [of a] w byte [OF a] by (simp add: view_def mm' Let_def old_def)
    next
      case 3
      then show ?thesis
        using tab [of a] keep [OF a _ 3(2)] byte [OF a] by (auto simp: view_def mm' data Let_def old_def)
    qed
  qed
  show "cache_ok (c', mm')"
  proof (rule cache_okI)
    show "layout_ok (mem_host mm')" unfolding mm' by (rule e(7))
    show "entry_ok c' a" if "physical (mem_host mm') a" "table_at (block_key a) c' \<noteq> 0xFF" for a
    proof (cases "base a = b")
      case True
      then have "cache_set a = r" using cache_set_base [of a] r by (simp del: cache_set_base)
      then show ?thesis using True tab [of a] w by (simp add: entry_ok_def data Let_def bit_set_u8)
    next
      case False
      then have "\<not> old a" "table_at (block_key a) c \<noteq> 0xFF" using tab [of a] that(2) by (auto split: if_splits)
      then show ?thesis
        using False D(2) [of a] keep [of a] that(1) tab [of a] w unfolding phys
        by (auto simp: entry_ok_def data Let_def bit_set_u8)
    qed
    show "length (c_data c' r' w') = 32" if "r' < 128" "w' < 8" for r' w'
      using D(3) [OF that] by (auto simp: data)
    fix r' w'
    assume rw: "r' < 128" "w' < 8" "bit (c_valid c' r') w'"
    show "way_ok c' (mem_host mm') r' w'"
    proof (cases "(r', w') = (r, w)")
      case True
      then show ?thesis using b e(6) tab [of b] r by (simp add: way_ok_def data Let_def mm')
    next
      case False
      then have v: "bit (c_valid c r') w'" using rw(3) w by (auto simp: data bit_set_u8 split: if_splits)
      define b' where "b' = c_addrs c r' w'"
      have W: "physical (mem_host mm) b'" "base b' = b'" "cache_set b' = r'" "table_at (block_key b') c = word_of_nat w'"
        "bit (c_modified c r') w' \<or> c_data c r' w' = block_bytes (mem_host mm) b'"
        using D(4) [OF rw(1,2) v] by (simp_all add: way_ok_def b'_def Let_def)
      have nb: "base b' \<noteq> b" using W(2,4) miss rw(2) by auto
      have no: "\<not> old b'"
      proof
        assume o: "old b'"
        have "(word_of_nat w' :: u8) = word_of_nat w" using oldD(1) [OF o] W(4) by simp
        then have "w' = w" using way_word(1) [OF rw(2)] way_word(1) [OF w] by metis
        then show False using oldD(2) [OF o] W(3) False by simp
      qed
      have "block_bytes (mem_host mm1) b' = block_bytes (mem_host mm) b'"
      proof (rule block_bytes_cong [OF W(2)])
        fix a assume ab: "base a = b'"
        then have "physical (mem_host mm) a" using physical_block(1) [OF D(1) W(1), of a] W(2) by simp
        moreover have "\<not> old a" using no ab W(2) by (simp add: old_def)
        ultimately show "Read_U8 (mem_host mm1) a = Read_U8 (mem_host mm) a" using byte [of a] by (auto simp: old_def)
      qed
      moreover have "table_at (block_key b') c' = word_of_nat w'" using tab [of b'] nb no W(4) by simp
      moreover have "c_addrs c' r' w' = b'" "c_data c' r' w' = c_data c r' w'" "bit (c_modified c' r') w' = bit (c_modified c r') w'"
        using False by (auto simp: data b'_def bit_unset_u8)
      ultimately show ?thesis using W e(6) unfolding way_ok_def mm' Let_def by simp
    qed
  qed
qed

section \<open>Finding a block\<close>

lemma plru_irrelevant [simp]:
  "view (c\<lparr>c_plru := p\<rparr>, mm) = view (c, mm)" "cache_ok (c\<lparr>c_plru := p\<rparr>, mm) = cache_ok (c, mm)"
  "table_at k (c\<lparr>c_plru := p\<rparr>) = table_at k c"
  by (simp_all add: view_def cache_ok_def entry_ok_def way_ok_def table_at_def fun_eq_iff Let_def)

lemma victim_less: "v \<noteq> 0xFF \<Longrightarrow> unat (s_way_from_valid v) < 8" "unat (s_way_from_plru p) < 8"
proof -
  show "unat (s_way_from_plru p) < 8" by (simp add: s_way_from_plru_def)
  assume v: "v \<noteq> 0xFF"
  have "\<exists>n<8. \<not> bit v n"
  proof (rule ccontr)
    assume "\<not> ?thesis"
    then have "v = mask 8" by (intro bit_word_eqI) (auto simp: bit_mask_iff)
    then show False using v by (simp add: mask_eq_exp_minus_1)
  qed
  then obtain n where n: "n < 8" "\<not> bit v n" by blast
  have "length (takeWhile (bit v) [0..<8]) < 8"
  proof (rule ccontr)
    assume "\<not> ?thesis"
    then have "takeWhile (bit v) [0..<8] = take 8 [0..<8]"
      using length_takeWhile_le [of "bit v" "[0..<8]"] takeWhile_eq_take [of "bit v" "[0..<8]"] by simp
    then have "\<forall>i \<in> set [0..<8]. bit v i" by (metis set_takeWhileD take_all length_upt diff_zero order_refl)
    then show False using n by simp
  qed
  then show "unat (s_way_from_valid v) < 8" by (simp add: s_way_from_valid_def unat_of_nat)
qed

text \<open>What every step of a cache keeps.\<close>

definition refines :: "Cache \<times> MemoryManager \<Rightarrow> Cache \<times> MemoryManager \<Rightarrow> bool" where
  "refines x y \<longleftrightarrow> cache_ok y \<and> (\<forall>a. mapped y a = mapped x a) \<and> (\<forall>a. mapped x a \<longrightarrow> view y a = view x a)"

lemma refines_trans: "refines x y \<Longrightarrow> refines y z \<Longrightarrow> refines x z"
  by (simp add: refines_def)

lemma refines_refl: "cache_ok x \<Longrightarrow> refines x x"
  by (simp add: refines_def)

lemma touch_irrelevant [simp]:
  "table_at k (touch_plru r u c) = table_at k c" "refines z (touch_plru r u c, mm) = refines z (c, mm)"
  by (simp_all add: touch_plru_def refines_def)

lemma GetCache_spec:
  assumes ok: "cache_ok x" and a: "mapped x a" and g: "GetCache a locked x = ((row, w), y)"
  shows "row = cache_set a" "refines x y" "w = table_at (block_key a) (fst y)" "\<not> locked \<Longrightarrow> w \<noteq> 0xFF"
    "w \<noteq> 0xFF \<Longrightarrow> entry_ok (fst y) a \<and> way_ok (fst y) (mem_host (snd y)) row (unat w)"
proof -
  obtain c mm where x: "x = (c, mm)" by fastforce
  have ok': "cache_ok (c, mm)" and a': "physical (mem_host mm) a" using ok a x by simp_all
  note D = cache_okD [OF ok']
  have base: "physical (mem_host mm) (base a)" by (rule physical_block(1) [OF D(1) a']) simp
  have way: "lookup_way mm (base a) c = table_at (block_key a) c" using lookup_key [OF D(1) base] by simp
  define v where "v = (if c_valid c (cache_set a) \<noteq> 0xFF then s_way_from_valid (c_valid c (cache_set a)) else s_way_from_plru (c_plru c (cache_set a)))"
  have v8: "unat v < 8" using victim_less by (simp add: v_def)
  obtain c' mm' where l: "load_block (base a) (cache_set a) (unat v) (evict (cache_set a) (unat v) (c, mm)) = (c', mm')" by fastforce
  have res: "((row, w), y) = (if \<not> locked \<and> table_at (block_key a) c = 0xFF then ((cache_set a, v), touch_plru (cache_set a) v c', mm')
     else ((cache_set a, table_at (block_key a) c), touch_plru (cache_set a) (table_at (block_key a) c) c, mm))"
    using g unfolding x GetCache_def prod.case base_def [symmetric] Let_def cache_set_base way v_def [symmetric] l
    by (auto split: if_splits)
  then show row: "row = cache_set a" by (simp split: if_splits)
  have main: "refines x y \<and> w = table_at (block_key a) (fst y) \<and> (\<not> locked \<longrightarrow> w \<noteq> 0xFF)"
  proof (cases "\<not> locked \<and> table_at (block_key a) c = 0xFF")
    case True
    then have "table_at (block_key (base a)) c = 0xFF" by simp
    note F = filled [OF ok' base base_base cache_set_base [symmetric] v8 this]
    have "refines x (c', mm')" using F(1-3) [of c' mm'] l by (simp add: refines_def x)
    moreover have "table_at (block_key a) c' = v" using F(4) [of c' mm'] l by (simp add: word_unat_eq_iff)
    moreover have "v \<noteq> 0xFF" using v8 by auto
    ultimately show ?thesis using res True by simp
  next
    case False
    then show ?thesis using res refines_refl [OF ok'] unfolding x by auto
  qed
  then show "refines x y" "w = table_at (block_key a) (fst y)" "\<not> locked \<Longrightarrow> w \<noteq> 0xFF" by blast+
  show "w \<noteq> 0xFF \<Longrightarrow> entry_ok (fst y) a \<and> way_ok (fst y) (mem_host (snd y)) row (unat w)"
  proof -
    assume w: "w \<noteq> 0xFF"
    obtain c1 mm1 where y: "y = (c1, mm1)" by fastforce
    have oky: "cache_ok (c1, mm1)" and ay: "physical (mem_host mm1) a" using main a by (simp_all add: refines_def y)
    have e: "entry_ok c1 a" using cache_okD(2) [OF oky ay] w main by (simp add: y)
    moreover have "way_ok c1 (mem_host mm1) row (unat w)"
      using cache_okD(4) [OF oky, of row "unat w"] e set_bound [of a] main by (simp add: row entry_ok_def y Let_def)
    ultimately show ?thesis by (simp add: y)
  qed
qed

end
