(* ===== verification/Ppc_CacheOps.thy ===== *)
theory Ppc_CacheOps
  imports Ppc_CacheView
begin

text \<open>
  Reads, writes and the block operations of a cache act on the view of memory as on a plain array
  of bytes.
\<close>

section \<open>Reading\<close>

lemma view_near:
  assumes "offset_in_block a + i < 32"
  shows "view (c, mm) (a + word_of_nat i) =
    (let w = table_at (block_key a) c
     in if w \<noteq> 0xFF then c_data c (cache_set a) (unat w) ! (offset_in_block a + i)
        else Read_U8 (mem_host mm) (a + word_of_nat i))"
proof -
  note n = near_block(2,3) [OF assms]
  have "block_key (a + word_of_nat i) = block_key a" "cache_set (a + word_of_nat i) = cache_set a"
    using n(1) key_inject cache_set_base by metis+
  then show ?thesis using n(2) by (simp add: view_def Let_def)
qed

lemma chunk_fits: "offset_in_block a + len_in_block a len \<le> 32"
  using offset_less [of a] by (simp add: len_in_block_eq)

lemma append_chunks: "map f [0..<n] @ map (\<lambda>i. f (n + i)) [0..<m] = map f [0..<n + m]"
proof -
  have "map f [n..<n + m] = map (\<lambda>i. f (n + i)) [0..<m]"
    by (rule nth_equalityI) simp_all
  then show ?thesis by (metis le_add1 map_append upt_add_eq_append zero_le)
qed

lemma Read_spec:
  assumes "cache_ok x" "\<forall>i < length buf. mapped x (a + word_of_nat i)" "cache_Read a buf locked x = (bytes, y)"
  shows "bytes = map (\<lambda>i. view x (a + word_of_nat i)) [0..<length buf] \<and> refines x y"
  using assms
proof (induction a buf locked x arbitrary: bytes y rule: cache_Read.induct)
  case (1 a buf locked x)
  show ?case
  proof (cases "buf = []")
    case True
    then show ?thesis using 1 by (simp add: cache_Read.simps refines_refl)
  next
    case False
    obtain row w c mm where g: "GetCache a locked x = ((row, w), c, mm)" by (metis prod.exhaust)
    define n where "n = len_in_block a (length buf)"
    have n: "0 < n" "n \<le> length buf" "offset_in_block a + n \<le> 32"
      using False len_in_block_pos [of "length buf" a] chunk_fits by (simp_all add: n_def len_in_block_le)
    have a: "mapped x a" using 1(3) False by (auto dest: spec [of _ 0])
    note G = GetCache_spec [OF 1(2) a g]
    have ok: "cache_ok (c, mm)" and phys: "\<And>p. physical (mem_host mm) p = mapped x p"
      and view: "\<And>p. mapped x p \<Longrightarrow> view (c, mm) p = view x p"
      using G(2) by (simp_all add: refines_def)
    obtain rest z where r: "cache_Read (a + word_of_nat n) (drop n buf) locked (c, mm) = (rest, z)" by (rule prod.exhaust)
    have later: "\<forall>i < length (drop n buf). mapped (c, mm) (a + word_of_nat n + word_of_nat i)"
    proof (intro allI impI)
      fix i assume "i < length (drop n buf)"
      then have "n + i < length buf" by simp
      from 1(3) [rule_format, OF this] show "mapped (c, mm) (a + word_of_nat n + word_of_nat i)"
        using phys by (simp add: add.assoc)
    qed
    have IH: "rest = map (\<lambda>i. view (c, mm) (a + word_of_nat n + word_of_nat i)) [0..<length buf - n] \<and> refines (c, mm) z"
      using 1(1) [OF False g [symmetric] refl refl n_def refl ok later r] by simp
    have head: "(if w \<noteq> 0xFF then take n (drop (offset_in_block a) (c_data c row (unat w)))
        else CopyFromEmu (mem_host mm) (take n buf) a) = map (\<lambda>i. view (c, mm) (a + word_of_nat i)) [0..<n]"
    proof (cases "w = 0xFF")
      case True
      have "physical (mem_host mm) a" using a phys by simp
      then have "CopyFromEmu (mem_host mm) (take n buf) a = map (\<lambda>i. Read_U8 (mem_host mm) (a + word_of_nat i)) [0..<n]"
        using copy_from_block [OF cache_okD(1) [OF ok], of a "take n buf"] n by simp
      then show ?thesis using True G(3) n(3) by (simp add: view_near Let_def)
    next
      case False
      then have "length (c_data c row (unat w)) = 32"
        using cache_okD(3) [OF ok, of row "unat w"] G(5) set_bound [of a] by (simp add: G(1) entry_ok_def G(3) Let_def)
      then show ?thesis using False G(1,3) n(3)
        by (intro nth_equalityI) (simp_all add: view_near Let_def)
    qed
    have "bytes = map (\<lambda>i. view (c, mm) (a + word_of_nat i)) [0..<n] @ rest" "y = z"
      using 1(4) False head r unfolding cache_Read.simps [of a buf] g by (auto simp: n_def [symmetric] Let_def)
    moreover have "rest = map (\<lambda>i. view (c, mm) (a + word_of_nat (n + i))) [0..<length buf - n]"
      using IH by (simp add: add.assoc)
    ultimately have "bytes = map (\<lambda>i. view (c, mm) (a + word_of_nat i)) [0..<length buf]"
      using append_chunks [of "\<lambda>i. view (c, mm) (a + word_of_nat i)" n "length buf - n"] n(2) by simp
    also have "\<dots> = map (\<lambda>i. view x (a + word_of_nat i)) [0..<length buf]" using view 1(3) by simp
    finally show ?thesis using IH \<open>y = z\<close> refines_trans [OF G(2)] by blast
  qed
qed

section \<open>Writing\<close>

text \<open>One step of a write: the bytes go to the cached block or, when the cache is locked, to memory.\<close>

definition put_bytes :: "u32 \<Rightarrow> u8 list \<Rightarrow> nat \<Rightarrow> u8 \<Rightarrow> Cache \<times> MemoryManager \<Rightarrow> Cache \<times> MemoryManager" where
  "put_bytes a d row w x = (case x of (c, mm) \<Rightarrow>
     if w \<noteq> 0xFF
     then (c\<lparr>c_data := put2 (c_data c) row (unat w) (overwrite (offset_in_block a) d (c_data c row (unat w))),
             c_modified := (c_modified c)(row := set_bit (unat w) (c_modified c row))\<rparr>, mm)
     else (c, mem_CopyToEmu a d mm))"

lemma overwrite_nth:
  "n + length d \<le> length xs \<Longrightarrow> i < length xs \<Longrightarrow>
    overwrite n d xs ! i = (if n \<le> i \<and> i < n + length d then d ! (i - n) else xs ! i)"
  by (auto simp: overwrite_def nth_append min_def)

lemma overwrite_length [simp]: "n + length d \<le> length xs \<Longrightarrow> length (overwrite n d xs) = length xs"
  by (simp add: overwrite_def)

lemma memory_write_ok:
  assumes ok: "cache_ok (c, mm)" and a: "physical (mem_host mm) a" and fit: "offset_in_block a + length d \<le> 32"
    and free: "table_at (block_key a) c = 0xFF"
  shows "cache_ok (c, mem_CopyToEmu a d mm)"
proof (rule cache_okI)
  note D = cache_okD [OF ok]
  show "layout_ok (mem_host (mem_CopyToEmu a d mm))" using D(1) by (simp add: mem_CopyToEmu_def)
  show "entry_ok c p" if "physical (mem_host (mem_CopyToEmu a d mm)) p" "table_at (block_key p) c \<noteq> 0xFF" for p
    using D(2) [of p] that by (simp add: mem_CopyToEmu_def)
  show "length (c_data c r w) = 32" if "r < 128" "w < 8" for r w using D(3) [OF that] .
  show "way_ok c (mem_host (mem_CopyToEmu a d mm)) r w" if "r < 128" "w < 8" "bit (c_valid c r) w" for r w
  proof -
    define b where "b = c_addrs c r w"
    have W: "way_ok c (mem_host mm) r w" by (rule D(4) [OF that])
    then have b: "physical (mem_host mm) b" "base b = b" "table_at (block_key b) c = word_of_nat w"
      by (simp_all add: way_ok_def b_def Let_def)
    then have "base a \<noteq> b" using free that(2) key_base [of a] by (metis way_word(2))
    then have "block_bytes (CopyToEmu a d (mem_host mm)) b = block_bytes (mem_host mm) b"
      using copy_to_block [OF D(1) a fit] physical_block(1) [OF D(1) b(1)] b(2)
      by (intro block_bytes_cong) (auto simp: covers_def)
    then show ?thesis using W by (simp add: way_ok_def mem_CopyToEmu_def b_def Let_def)
  qed
qed

lemma put_bytes_spec:
  assumes ok: "cache_ok x" and a: "mapped x a" and g: "GetCache a locked x = ((row, w), y)"
    and fit: "offset_in_block a + length d \<le> 32"
  shows "cache_ok (put_bytes a d row w y)" "mapped (put_bytes a d row w y) p = mapped x p"
    "mapped x p \<Longrightarrow> view (put_bytes a d row w y) p =
      (if covers a (length d) p then d ! (offset_in_block p - offset_in_block a) else view x p)"
proof -
  obtain c mm where y: "y = (c, mm)" by fastforce
  note G = GetCache_spec [OF ok a g]
  have oky: "cache_ok (c, mm)" and phys: "\<And>p. physical (mem_host mm) p = mapped x p"
    and view: "\<And>p. mapped x p \<Longrightarrow> view (c, mm) p = view x p" and tab: "w = table_at (block_key a) c"
    using G(2,3) by (simp_all add: refines_def y)
  note D = cache_okD [OF oky]
  show "mapped (put_bytes a d row w y) p = mapped x p"
    by (simp add: put_bytes_def y mem_CopyToEmu_def phys)
  have same: "cache_set p = cache_set a \<and> block_key p = block_key a" if "covers a n p" for n p
    using that key_inject [of p a] cache_set_base by (metis covers_def)
  show "cache_ok (put_bytes a d row w y)"
  proof (cases "w = 0xFF")
    case True
    then show ?thesis using memory_write_ok [OF oky _ fit] a phys tab by (simp add: put_bytes_def y)
  next
    case False
    let ?c = "fst (put_bytes a d row w y)"
    have c: "put_bytes a d row w y = (?c, mm)" "c_addrs ?c = c_addrs c" "c_valid ?c = c_valid c" "\<And>k. table_at k ?c = table_at k c"
      using False by (simp_all add: put_bytes_def y table_at_def)
    have e: "entry_ok c a" using G(5) False by (simp add: y)
    then have w8: "unat w < 8" "row < 128" using tab set_bound [of a] by (simp_all add: entry_ok_def Let_def G(1))
    have "cache_ok (?c, mm)"
    proof (rule cache_okI)
      show "layout_ok (mem_host mm)" by (rule D(1))
      show "entry_ok ?c p" if "physical (mem_host mm) p" "table_at (block_key p) ?c \<noteq> 0xFF" for p
        using D(2) [of p] that unfolding entry_ok_def c(2-4) by simp
      show "length (c_data ?c r v) = 32" if "r < 128" "v < 8" for r v
        using D(3) [OF that] D(3) [OF w8(2,1)] fit False by (auto simp: put_bytes_def y)
      show "way_ok ?c (mem_host mm) r v" if rv: "r < 128" "v < 8" "bit (c_valid ?c r) v" for r v
      proof -
        have W: "way_ok c (mem_host mm) r v" using D(4) [OF rv(1,2)] rv(3) unfolding c(3) by blast
        have "bit (c_modified ?c r) v \<longleftrightarrow> (r, v) = (row, unat w) \<or> bit (c_modified c r) v"
          using False w8 by (auto simp: put_bytes_def y bit_set_u8)
        moreover have "(r, v) \<noteq> (row, unat w) \<Longrightarrow> c_data ?c r v = c_data c r v" using False by (auto simp: put_bytes_def y)
        ultimately show ?thesis using W unfolding way_ok_def c(2,4) Let_def by auto
      qed
    qed
    then show ?thesis using c(1) by simp
  qed
  assume p: "mapped x p"
  show "view (put_bytes a d row w y) p = (if covers a (length d) p then d ! (offset_in_block p - offset_in_block a) else view x p)"
  proof (cases "w = 0xFF")
    case True
    have "Read_U8 (CopyToEmu a d (mem_host mm)) p = (if covers a (length d) p then d ! (offset_in_block p - offset_in_block a) else Read_U8 (mem_host mm) p)"
      using copy_to_block [OF D(1) _ fit, of p] a p phys by simp
    then show ?thesis using True tab view [OF p] same [of "length d" p]
      by (auto simp: put_bytes_def y view_def mem_CopyToEmu_def Let_def)
  next
    case False
    have e: "entry_ok c a" using G(5) False by (simp add: y)
    then have w8: "unat w < 8" "row < 128" "c_addrs c row (unat w) = base a" using tab set_bound [of a] by (simp_all add: entry_ok_def Let_def G(1))
    note len = D(3) [OF w8(2,1)]
    let ?v = "table_at (block_key p) c"
    have data: "view (put_bytes a d row w y) p = (if ?v \<noteq> 0xFF then
        (if (cache_set p, unat ?v) = (row, unat w) then overwrite (offset_in_block a) d (c_data c row (unat w)) else c_data c (cache_set p) (unat ?v)) ! offset_in_block p
        else Read_U8 (mem_host mm) p)"
      using False by (auto simp: put_bytes_def y view_def table_at_def Let_def)
    have here: "base p = base a \<longleftrightarrow> ?v \<noteq> 0xFF \<and> (cache_set p, unat ?v) = (row, unat w)"
    proof
      assume "base p = base a"
      then have "block_key p = block_key a" "cache_set p = cache_set a" using key_inject cache_set_base by metis+
      then show "?v \<noteq> 0xFF \<and> (cache_set p, unat ?v) = (row, unat w)" using tab False by (simp add: G(1))
    next
      assume h: "?v \<noteq> 0xFF \<and> (cache_set p, unat ?v) = (row, unat w)"
      then have "c_addrs c (cache_set p) (unat ?v) = base p" using D(2) [of p] p phys by (simp add: entry_ok_def Let_def)
      then show "base p = base a" using h w8(3) by simp
    qed
    have v: "view x p = (if ?v \<noteq> 0xFF then c_data c (cache_set p) (unat ?v) ! offset_in_block p else Read_U8 (mem_host mm) p)"
      using view [OF p] by (simp add: view_def Let_def)
    have ow: "overwrite (offset_in_block a) d (c_data c row (unat w)) ! offset_in_block p =
       (if offset_in_block a \<le> offset_in_block p \<and> offset_in_block p < offset_in_block a + length d
        then d ! (offset_in_block p - offset_in_block a) else c_data c row (unat w) ! offset_in_block p)"
      using overwrite_nth [of "offset_in_block a" d "c_data c row (unat w)" "offset_in_block p"] fit len offset_less [of p] by simp
    show ?thesis unfolding data v covers_def using here ow by auto
  qed
qed

lemma store_bytes_covers:
  assumes "offset_in_block a + length d \<le> 32"
  shows "store_bytes a d f p = (if covers a (length d) p then d ! (offset_in_block p - offset_in_block a) else f p)"
proof (cases "covers a (length d) p")
  case True
  then obtain i where i: "i < length d" "p = a + word_of_nat i" using covers_iff [OF assms] by blast
  have "length d \<le> 2 ^ 32" using assms by simp
  then show ?thesis using True i near_block(3) [of a i] assms store_bytes_nth [OF i(1), of a f] by simp
next
  case False
  then have "\<forall>i < length d. p \<noteq> a + word_of_nat i" using covers_iff [OF assms, of p] by blast
  then show ?thesis using False by (simp add: store_bytes_other)
qed

lemma store_bytes_cong: "f p = g p \<Longrightarrow> store_bytes a d f p = store_bytes a d g p"
proof (induction d arbitrary: a f g)
  case (Cons b d)
  show ?case unfolding store_bytes.simps by (rule Cons.IH) (simp add: Cons.prems)
qed simp

lemma Write_spec:
  assumes "cache_ok x" "\<forall>i < length buf. mapped x (a + word_of_nat i)"
  shows "cache_ok (cache_Write a buf locked x) \<and> (\<forall>p. mapped (cache_Write a buf locked x) p = mapped x p) \<and>
    (\<forall>p. mapped x p \<longrightarrow> view (cache_Write a buf locked x) p = store_bytes a buf (view x) p)"
  using assms
proof (induction a buf locked x rule: cache_Write.induct)
  case (1 a buf locked x)
  show ?case
  proof (cases "buf = []")
    case True
    then show ?thesis using 1 by (simp add: cache_Write.simps)
  next
    case False
    obtain row w c mm where g: "GetCache a locked x = ((row, w), c, mm)" by (metis prod.exhaust)
    define n where "n = len_in_block a (length buf)"
    have n: "0 < n" "n \<le> length buf" "offset_in_block a + length (take n buf) \<le> 32"
      using False len_in_block_pos [of "length buf" a] chunk_fits [of a "length buf"] by (simp_all add: n_def len_in_block_le)
    have a: "mapped x a" using 1(3) False by (auto dest: spec [of _ 0])
    define z where "z = put_bytes a (take n buf) row w (c, mm)"
    note P = put_bytes_spec [OF 1(2) a g n(3), folded z_def]
    have step: "cache_Write a buf locked x = cache_Write (a + word_of_nat n) (drop n buf) locked z"
      using False unfolding cache_Write.simps [of a buf] g by (simp add: z_def put_bytes_def n_def [symmetric] Let_def)
    have later: "\<forall>i < length (drop n buf). mapped z (a + word_of_nat n + word_of_nat i)"
    proof (intro allI impI)
      fix i assume "i < length (drop n buf)"
      then have "n + i < length buf" by simp
      from 1(3) [rule_format, OF this] show "mapped z (a + word_of_nat n + word_of_nat i)" using P(2) by (simp add: add.assoc)
    qed
    have z: "z = (if w \<noteq> 0xFF then
         (c\<lparr>c_data := put2 (c_data c) row (unat w) (overwrite (offset_in_block a) (take n buf) (c_data c row (unat w))),
            c_modified := (c_modified c)(row := set_bit (unat w) (c_modified c row))\<rparr>, mm)
         else (c, mem_CopyToEmu a (take n buf) mm))"
      by (simp add: z_def put_bytes_def)
    note IH = 1(1) [OF False g [symmetric] refl refl n_def refl z P(1) later]
    have "view (cache_Write a buf locked x) p = store_bytes a buf (view x) p" if p: "mapped x p" for p
    proof -
      have "view (cache_Write a buf locked x) p = store_bytes (a + word_of_nat n) (drop n buf) (view z) p"
        using IH P(2) p by (simp add: step)
      also have "\<dots> = store_bytes (a + word_of_nat n) (drop n buf) (store_bytes a (take n buf) (view x)) p"
        by (rule store_bytes_cong) (simp add: P(3) [OF p] store_bytes_covers [OF n(3)])
      also have "\<dots> = store_bytes a (take n buf @ drop n buf) (view x) p"
        unfolding store_bytes_append using n(2) by simp
      finally show ?thesis by simp
    qed
    then show ?thesis using IH P(2) by (simp add: step)
  qed
qed

section \<open>Block operations\<close>

text \<open>A block forgotten: its bytes are those of memory again.\<close>

lemma forget_spec:
  assumes ok: "cache_ok (c, mm)" and a: "physical (mem_host mm) a" and e: "entry_ok c a" and w: "table_at (block_key a) c = word_of_nat w" "w < 8"
  shows "cache_ok (forget (cache_set a) w (c, mm))"
    "physical (mem_host (snd (forget (cache_set a) w (c, mm)))) p = physical (mem_host mm) p"
    "physical (mem_host mm) p \<Longrightarrow> view (forget (cache_set a) w (c, mm)) p =
       (if base p = base a then Read_U8 (mem_host mm) p else view (c, mm) p)"
proof -
  let ?r = "cache_set a"
  note D = cache_okD [OF ok]
  have addr: "c_addrs c ?r w = base a" using e w by (simp add: entry_ok_def Let_def)
  have base: "physical (mem_host mm) (base a)" by (rule physical_block(1) [OF D(1) a]) simp
  define c1 where "c1 = fst (forget ?r w (c, mm))"
  have f: "forget ?r w (c, mm) = (c1, mm)" by (simp add: c1_def forget_def Let_def)
  have c1: "c_data c1 = c_data c" "c_addrs c1 = c_addrs c" "c_valid c1 = (c_valid c)(?r := unset_bit w (c_valid c ?r))"
    "c_modified c1 = (c_modified c)(?r := unset_bit w (c_modified c ?r))"
    by (simp_all add: c1_def forget_def Let_def)
  have tab: "table_at (block_key p) c1 = (if base p = base a then 0xFF else table_at (block_key p) c)" for p
  proof -
    have "table_at (block_key p) c1 = table_at (block_key p) (set_lookup mm (base a) 0xFF c)"
      by (simp add: c1_def forget_def Let_def table_at_def addr)
    then show ?thesis using set_lookup_table [OF D(1) base, of "block_key p" "0xFF" c] by (simp add: key_inject)
  qed
  show "physical (mem_host (snd (forget ?r w (c, mm)))) p = physical (mem_host mm) p" by (simp add: f)
  have same: "w' = w \<and> base p = base a" if p: "physical (mem_host mm) p" "table_at (block_key p) c = word_of_nat w'" "w' < 8"
    "cache_set p = ?r" "w' = w" for p w'
    using D(2) [OF p(1)] p addr by (simp add: entry_ok_def Let_def)
  show "view (forget ?r w (c, mm)) p = (if base p = base a then Read_U8 (mem_host mm) p else view (c, mm) p)"
    unfolding f by (simp add: view_def tab c1 Let_def)
  show "cache_ok (forget ?r w (c, mm))"
    unfolding f
  proof (rule cache_okI)
    show "layout_ok (mem_host mm)" by (rule D(1))
    show "length (c_data c1 r' w') = 32" if "r' < 128" "w' < 8" for r' w' using D(3) [OF that] by (simp add: c1)
    show "entry_ok c1 p" if p: "physical (mem_host mm) p" "table_at (block_key p) c1 \<noteq> 0xFF" for p
    proof -
      have n: "base p \<noteq> base a" "table_at (block_key p) c \<noteq> 0xFF" using p(2) by (simp_all add: tab split: if_splits)
      have E: "entry_ok c p" by (rule D(2) [OF p(1) n(2)])
      then have "\<not> (cache_set p = ?r \<and> unat (table_at (block_key p) c) = w)"
        using n(1) addr by (auto simp: entry_ok_def Let_def)
      then show ?thesis using E n(1) by (auto simp: entry_ok_def tab c1 Let_def bit_unset_u8)
    qed
    show "way_ok c1 (mem_host mm) r' w'" if rw: "r' < 128" "w' < 8" "bit (c_valid c1 r') w'" for r' w'
    proof -
      have v: "bit (c_valid c r') w'" "(r', w') \<noteq> (?r, w)" using rw(3) by (auto simp: c1 bit_unset_u8 split: if_splits)
      have W: "way_ok c (mem_host mm) r' w'" by (rule D(4) [OF rw(1,2) v(1)])
      define b where "b = c_addrs c r' w'"
      have b: "base b = b" "cache_set b = r'" "table_at (block_key b) c = word_of_nat w'" using W by (simp_all add: way_ok_def b_def Let_def)
      have "base b \<noteq> base a"
      proof
        assume "base b = base a"
        then have "cache_set b = ?r" "table_at (block_key b) c = word_of_nat w" using w(1) cache_set_base key_base by metis+
        then have "r' = ?r" "(word_of_nat w' :: u8) = word_of_nat w" using b by simp_all
        then show False using v(2) way_word(1) [OF rw(2)] way_word(1) [OF w(2)] by metis
      qed
      then have "table_at (block_key b) c1 = table_at (block_key b) c" by (simp add: tab)
      then show ?thesis using W v(2) by (auto simp: way_ok_def c1 b_def Let_def bit_unset_u8)
    qed
  qed
qed

text \<open>A block written back to memory.\<close>

lemma written_back:
  assumes ok: "cache_ok (c, mm)" and a: "physical (mem_host mm) a" and e: "entry_ok c a"
    and w: "table_at (block_key a) c = word_of_nat w" "w < 8"
    and mm1: "mm1 = (if bit (c_modified c (cache_set a)) w then mem_CopyToEmu (base a) (c_data c (cache_set a) w) mm else mm)"
  shows "cache_ok (c, mm1)" "physical (mem_host mm1) p = physical (mem_host mm) p"
    "physical (mem_host mm) p \<Longrightarrow> view (c, mm1) p = view (c, mm) p"
    "physical (mem_host mm) p \<Longrightarrow> Read_U8 (mem_host mm1) p = (if base p = base a then view (c, mm) p else Read_U8 (mem_host mm) p)"
proof -
  let ?r = "cache_set a" and ?d = "c_data c (cache_set a) w"
  note D = cache_okD [OF ok]
  have base: "physical (mem_host mm) (base a)" by (rule physical_block(1) [OF D(1) a]) simp
  have r: "?r < 128" by (rule set_bound)
  have valid: "bit (c_valid c ?r) w" "c_addrs c ?r w = base a" using e w by (simp_all add: entry_ok_def Let_def)
  have W: "way_ok c (mem_host mm) ?r w" by (rule D(4) [OF r w(2) valid(1)])
  have here: "view (c, mm) p = ?d ! offset_in_block p" if "base p = base a" for p
  proof -
    have "cache_set p = ?r" "table_at (block_key p) c = word_of_nat w" using that w(1) cache_set_base key_base by metis+
    then show ?thesis using w(2) by (simp add: view_def Let_def)
  qed
  show phys: "\<And>p. physical (mem_host mm1) p = physical (mem_host mm) p" by (simp add: mm1 mem_CopyToEmu_def)
  show byte: "Read_U8 (mem_host mm1) p = (if base p = base a then view (c, mm) p else Read_U8 (mem_host mm) p)"
    if p: "physical (mem_host mm) p" for p
  proof (cases "bit (c_modified c ?r) w")
    case True
    then show ?thesis
      using store_block [OF D(1) base base_base D(3) [OF r w(2)] p] here [of p] by (simp add: mm1 mem_CopyToEmu_def)
  next
    case False
    then have "?d = block_bytes (mem_host mm) (base a)" using W valid(2) by (simp add: way_ok_def Let_def)
    then show ?thesis using False here [of p] block_at [of "mem_host mm" p] by (auto simp: mm1)
  qed
  show "view (c, mm1) p = view (c, mm) p" if p: "physical (mem_host mm) p" for p
  proof (cases "table_at (block_key p) c = 0xFF")
    case True
    then have "base p \<noteq> base a" using w key_base by (metis way_word(2))
    then show ?thesis using True byte [OF p] by (simp add: view_def Let_def)
  qed (simp add: view_def Let_def)
  show "cache_ok (c, mm1)"
  proof (rule cache_okI)
    show "layout_ok (mem_host mm1)" using D(1) by (simp add: mm1 mem_CopyToEmu_def)
    show "entry_ok c q" if "physical (mem_host mm1) q" "table_at (block_key q) c \<noteq> 0xFF" for q
      using D(2) [of q] that phys by simp
    show "length (c_data c r' w') = 32" if "r' < 128" "w' < 8" for r' w' using D(3) [OF that] .
    show "way_ok c (mem_host mm1) r' w'" if rw: "r' < 128" "w' < 8" "bit (c_valid c r') w'" for r' w'
    proof -
      define b where "b = c_addrs c r' w'"
      have W': "way_ok c (mem_host mm) r' w'" by (rule D(4) [OF rw])
      then have b: "physical (mem_host mm) b" "base b = b" "cache_set b = r'" "table_at (block_key b) c = word_of_nat w'"
        by (simp_all add: way_ok_def b_def Let_def)
      show ?thesis
      proof (cases "base a = b")
        case True
        then have "r' = ?r" "(word_of_nat w' :: u8) = word_of_nat w" using b w(1) cache_set_base key_base by metis+
        then have same: "r' = ?r" "w' = w" using way_word(1) [OF rw(2)] way_word(1) [OF w(2)] by metis+
        have "block_bytes (mem_host mm1) b = ?d"
        proof (rule nth_equalityI)
          show "length (block_bytes (mem_host mm1) b) = length ?d" using D(3) [OF r w(2)] by simp
          fix i assume "i < length (block_bytes (mem_host mm1) b)"
          then have i: "i < 32" by simp
          have bi: "base (b + word_of_nat i) = base a" using base_in_block [OF b(2) i] True by simp
          have "offset_in_block (b + word_of_nat i) = i" using near_block(3) [of b i] i base_offset [of b] b(2) by simp
          moreover have "physical (mem_host mm) (b + word_of_nat i)"
            using physical_block(1) [OF D(1) a bi] .
          ultimately show "block_bytes (mem_host mm1) b ! i = ?d ! i"
            using byte [of "b + word_of_nat i"] here [OF bi] bi by (simp add: block_nth [OF i])
        qed
        then show ?thesis using W' phys same unfolding way_ok_def b_def Let_def by simp
      next
        case False
        have "block_bytes (mem_host mm1) b = block_bytes (mem_host mm) b"
          by (rule block_bytes_cong [OF b(2)], use byte False physical_block(1) [OF D(1) b(1)] b(2) in auto)
        then show ?thesis using W' phys unfolding way_ok_def b_def Let_def by simp
      qed
    qed
  qed
qed

lemma way_of_entry:
  assumes "cache_ok (c, mm)" "physical (mem_host mm) a" "table_at (block_key a) c \<noteq> 0xFF"
  shows "entry_ok c a" "unat (table_at (block_key a) c) < 8" "bit (c_valid c (cache_set a)) (unat (table_at (block_key a) c))"
    "table_at (block_key a) c = word_of_nat (unat (table_at (block_key a) c))"
proof -
  show e: "entry_ok c a" by (rule cache_okD(2) [OF assms])
  then show "unat (table_at (block_key a) c) < 8" "bit (c_valid c (cache_set a)) (unat (table_at (block_key a) c))"
    by (simp_all add: entry_ok_def Let_def)
qed simp

text \<open>Flushing and storing put the block of an address into memory and keep the view.\<close>

definition in_memory :: "Cache \<times> MemoryManager \<Rightarrow> u32 \<Rightarrow> bool" where
  "in_memory x a \<longleftrightarrow> (\<forall>p. base p = base a \<longrightarrow> Read_U8 (mem_host (snd x)) p = view x p)"

lemma uncached_in_memory:
  assumes "table_at (block_key a) (fst x) = 0xFF"
  shows "in_memory x a"
  unfolding in_memory_def
proof (intro allI impI)
  fix p assume "base p = base a"
  then have "table_at (block_key p) (fst x) = 0xFF" using assms key_base by metis
  then show "Read_U8 (mem_host (snd x)) p = view x p" by (cases x) (simp add: view_def Let_def)
qed

lemma Flush_spec:
  assumes ok: "cache_ok x" and a: "mapped x a"
  shows "refines x (cache_Flush a x) \<and> in_memory (cache_Flush a x) a"
proof -
  obtain row w c mm where g: "GetCache a True x = ((row, w), c, mm)" by (metis prod.exhaust)
  note G = GetCache_spec [OF ok a g]
  have okc: "cache_ok (c, mm)" and phys: "\<And>p. physical (mem_host mm) p = mapped x p" and t: "w = table_at (block_key a) c"
    using G(2,3) by (simp_all add: refines_def)
  show ?thesis
  proof (cases "w = 0xFF")
    case True
    then show ?thesis using G(2) uncached_in_memory [of a "(c, mm)"] t by (simp add: cache_Flush_def g)
  next
    case False
    have am: "physical (mem_host mm) a" using a phys by simp
    note E = way_of_entry [OF okc am, folded t, OF False]
    define mm1 where "mm1 = (if bit (c_modified c (cache_set a)) (unat w) then mem_CopyToEmu (base a) (c_data c (cache_set a) (unat w)) mm else mm)"
    have tw: "table_at (block_key a) c = word_of_nat (unat w)" using t by simp
    note B = written_back [OF okc am E(1) tw E(2) mm1_def]
    have "physical (mem_host mm1) a" using B(2) am by simp
    note F = forget_spec [OF B(1) this E(1) tw E(2)]
    have res: "cache_Flush a x = forget (cache_set a) (unat w) (c, mm1)"
      using False E(3) G(1) by (simp add: cache_Flush_def g mm1_def base_def Let_def)
    have vw: "view (forget (cache_set a) (unat w) (c, mm1)) p = view (c, mm) p" if "physical (mem_host mm) p" for p
      using F(3) [of p] B(2-4) [of p] that by auto
    have "refines (c, mm) (forget (cache_set a) (unat w) (c, mm1))"
      using F(1,2) B(2) vw by (simp add: refines_def)
    moreover have "in_memory (forget (cache_set a) (unat w) (c, mm1)) a"
      unfolding in_memory_def
    proof (intro allI impI)
      fix p assume bp: "base p = base a"
      have "snd (forget (cache_set a) (unat w) (c, mm1)) = mm1" by (simp add: forget_def Let_def)
      moreover have p: "physical (mem_host mm) p" by (rule physical_block(1) [OF cache_okD(1) [OF okc] am bp])
      ultimately show "Read_U8 (mem_host (snd (forget (cache_set a) (unat w) (c, mm1)))) p = view (forget (cache_set a) (unat w) (c, mm1)) p"
        using vw [OF p] B(4) [OF p] bp by simp
    qed
    ultimately show ?thesis using refines_trans [OF G(2)] res by simp
  qed
qed

lemma modified_irrelevant [simp]:
  "table_at k (c\<lparr>c_modified := f\<rparr>) = table_at k c" "view (c\<lparr>c_modified := f\<rparr>, m) = view (c, m)"
  by (simp_all add: view_def table_at_def fun_eq_iff Let_def)

lemma modified_off:
  assumes ok: "cache_ok (c, mm)" and clean: "c_data c r w = block_bytes (mem_host mm) (c_addrs c r w)"
  shows "cache_ok (c\<lparr>c_modified := (c_modified c)(r := unset_bit w (c_modified c r))\<rparr>, mm)"
proof (rule cache_okI)
  note D = cache_okD [OF ok]
  show "layout_ok (mem_host mm)" by (rule D(1))
  show "entry_ok (c\<lparr>c_modified := (c_modified c)(r := unset_bit w (c_modified c r))\<rparr>) a"
    if "physical (mem_host mm) a" "table_at (block_key a) (c\<lparr>c_modified := (c_modified c)(r := unset_bit w (c_modified c r))\<rparr>) \<noteq> 0xFF" for a
    using D(2) [of a] that by (simp add: entry_ok_def)
  fix r' w' :: nat assume rw: "r' < 128" "w' < 8"
  then show "length (c_data (c\<lparr>c_modified := (c_modified c)(r := unset_bit w (c_modified c r))\<rparr>) r' w') = 32"
    using D(3) by simp
  assume "bit (c_valid (c\<lparr>c_modified := (c_modified c)(r := unset_bit w (c_modified c r))\<rparr>) r') w'"
  then have "way_ok c (mem_host mm) r' w'" using D(4) [OF rw] by simp
  then show "way_ok (c\<lparr>c_modified := (c_modified c)(r := unset_bit w (c_modified c r))\<rparr>) (mem_host mm) r' w'"
    using clean by (auto simp: way_ok_def Let_def bit_unset_u8)
qed

lemma Store_spec:
  assumes ok: "cache_ok x" and a: "mapped x a"
  shows "refines x (cache_Store a x) \<and> in_memory (cache_Store a x) a"
proof -
  obtain row w c mm where g: "GetCache a True x = ((row, w), c, mm)" by (metis prod.exhaust)
  note G = GetCache_spec [OF ok a g]
  have okc: "cache_ok (c, mm)" and phys: "\<And>p. physical (mem_host mm) p = mapped x p" and t: "w = table_at (block_key a) c"
    using G(2,3) by (simp_all add: refines_def)
  show ?thesis
  proof (cases "w = 0xFF")
    case True
    then show ?thesis using G(2) uncached_in_memory [of a "(c, mm)"] t by (simp add: cache_Store_def g)
  next
    case False
    have am: "physical (mem_host mm) a" using a phys by simp
    note E = way_of_entry [OF okc am, folded t, OF False]
    define mm1 where "mm1 = (if bit (c_modified c (cache_set a)) (unat w) then mem_CopyToEmu (base a) (c_data c (cache_set a) (unat w)) mm else mm)"
    have tw: "table_at (block_key a) c = word_of_nat (unat w)" using t by simp
    note B = written_back [OF okc am E(1) tw E(2) mm1_def]
    define c1 where "c1 = c\<lparr>c_modified := (c_modified c)(cache_set a := unset_bit (unat w) (c_modified c (cache_set a)))\<rparr>"
    have res: "cache_Store a x = (c1, mm1)"
      using False E(3) G(1) by (simp add: cache_Store_def g mm1_def c1_def base_def Let_def)
    have view1: "view (c1, m) p = view (c, m) p" for m p by (simp add: c1_def)
    have addr: "c_addrs c (cache_set a) (unat w) = base a" using E(1) t by (simp add: entry_ok_def Let_def)
    have byte: "Read_U8 (mem_host mm1) p = view (c, mm) p" if "base p = base a" for p
      using B(4) [of p] physical_block(1) [OF cache_okD(1) [OF okc] am that] that by simp
    have "c_data c (cache_set a) (unat w) = block_bytes (mem_host mm1) (base a)"
    proof (rule nth_equalityI)
      show "length (c_data c (cache_set a) (unat w)) = length (block_bytes (mem_host mm1) (base a))"
        using cache_okD(3) [OF okc set_bound E(2)] by simp
      fix i assume "i < length (c_data c (cache_set a) (unat w))"
      then have i: "i < 32" using cache_okD(3) [OF okc set_bound E(2)] by simp
      have p: "base (base a + word_of_nat i) = base a" by (rule base_in_block [OF base_base i])
      have "view (c, mm) (base a + word_of_nat i) = c_data c (cache_set a) (unat w) ! i"
        using view_near [of "base a" i c mm] i False t by (simp add: Let_def)
      then show "c_data c (cache_set a) (unat w) ! i = block_bytes (mem_host mm1) (base a) ! i"
        using byte [OF p] by (simp add: block_nth [OF i])
    qed
    then have "cache_ok (c1, mm1)" using modified_off [OF B(1), of "cache_set a" "unat w"] addr by (simp add: c1_def)
    then have "refines (c, mm) (c1, mm1)" using B(2,3) by (simp add: refines_def view1)
    moreover have "in_memory (c1, mm1) a"
      using byte B(3) physical_block(1) [OF cache_okD(1) [OF okc] am] by (simp add: in_memory_def view1)
    ultimately show ?thesis using refines_trans [OF G(2)] res by simp
  qed
qed

end
