(* ===== verification/Ppc_Caching.thy ===== *)
theory Ppc_Caching
  imports Ppc_CacheOps
begin

text \<open>
  Caching is transparent.  A locale states what it means for a memory with hidden state to behave as
  a plain map from addresses to bytes; the cache is interpreted as one, and sequences of accesses
  and of maintenance operations follow.
\<close>

section \<open>Memories that behave as a map\<close>

primrec run_ops :: "('o \<Rightarrow> 's \<Rightarrow> 'b \<times> 's) \<Rightarrow> 'o list \<Rightarrow> 's \<Rightarrow> 'b list \<times> 's" where
  "run_ops step [] s = ([], s)"
| "run_ops step (p # qs) s = (let (bs, t) = run_ops step qs (snd (step p s)) in (fst (step p s) # bs, t))"

locale plain_memory =
  fixes inv :: "'s \<Rightarrow> bool" and present :: "'s \<Rightarrow> u32 set" and contents :: "'s \<Rightarrow> u32 \<Rightarrow> u8"
    and step :: "'o \<Rightarrow> 's \<Rightarrow> 'r \<times> 's" and flat :: "'o \<Rightarrow> (u32 \<Rightarrow> u8) \<Rightarrow> 'r \<times> (u32 \<Rightarrow> u8)"
    and reach :: "'o \<Rightarrow> u32 set"
  assumes step_inv: "inv s \<Longrightarrow> reach p \<subseteq> present s \<Longrightarrow> inv (snd (step p s))"
    and step_present: "inv s \<Longrightarrow> reach p \<subseteq> present s \<Longrightarrow> present (snd (step p s)) = present s"
    and step_result: "inv s \<Longrightarrow> reach p \<subseteq> present s \<Longrightarrow> fst (step p s) = fst (flat p (contents s))"
    and step_contents: "inv s \<Longrightarrow> reach p \<subseteq> present s \<Longrightarrow> a \<in> present s \<Longrightarrow>
      contents (snd (step p s)) a = snd (flat p (contents s)) a"
    and flat_result: "(\<And>a. a \<in> reach p \<Longrightarrow> f a = g a) \<Longrightarrow> fst (flat p f) = fst (flat p g)"
    and flat_contents: "f a = g a \<Longrightarrow> snd (flat p f) a = snd (flat p g) a"
begin

lemma run:
  assumes "inv s" "\<forall>p \<in> set qs. reach p \<subseteq> present s" "\<forall>a \<in> present s. contents s a = f a"
  shows "inv (snd (run_ops step qs s)) \<and> present (snd (run_ops step qs s)) = present s \<and>
    fst (run_ops step qs s) = fst (run_ops flat qs f) \<and>
    (\<forall>a \<in> present s. contents (snd (run_ops step qs s)) a = snd (run_ops flat qs f) a)"
  using assms
proof (induction qs arbitrary: s f)
  case (Cons p qs)
  have p: "reach p \<subseteq> present s" using Cons.prems by simp
  have same: "fst (flat p (contents s)) = fst (flat p f)"
    using p Cons.prems(3) by (intro flat_result) blast
  have "\<forall>a \<in> present s. contents (snd (step p s)) a = snd (flat p f) a"
    using step_contents [OF Cons.prems(1) p] flat_contents [of "contents s" _ f p] Cons.prems(3) by simp
  then show ?case
    using Cons.IH [of "snd (step p s)" "snd (flat p f)"]
      step_inv [OF Cons.prems(1) p] step_present [OF Cons.prems(1) p] step_result [OF Cons.prems(1) p] Cons.prems(2) same
    by (simp add: case_prod_beta)
qed simp

end

section \<open>Flushing and invalidating\<close>

lemma Touch_spec: "cache_ok x \<Longrightarrow> mapped x a \<Longrightarrow> refines x (cache_Touch a x)"
  using GetCache_spec [of x a False] by (cases "GetCache a False x") (auto simp: cache_Touch_def)

lemma Invalidate_spec:
  assumes ok: "cache_ok x" and a: "mapped x a"
  shows "cache_ok (cache_Invalidate a x) \<and> (\<forall>p. mapped (cache_Invalidate a x) p = mapped x p) \<and>
    (\<forall>p. mapped x p \<longrightarrow> view (cache_Invalidate a x) p = (if base p = base a then Read_U8 (mem_host (snd x)) p else view x p))"
proof -
  obtain row w c mm where g: "GetCache a True x = ((row, w), c, mm)" by (metis prod.exhaust)
  note G = GetCache_spec [OF ok a g]
  have okc: "cache_ok (c, mm)" and phys: "\<And>p. physical (mem_host mm) p = mapped x p" and t: "w = table_at (block_key a) c"
    and vw: "\<And>p. mapped x p \<Longrightarrow> view (c, mm) p = view x p"
    using G(2,3) by (simp_all add: refines_def)
  have mm: "mm = snd x" using g by (cases x) (simp add: GetCache_def Let_def)
  show ?thesis
  proof (cases "w = 0xFF")
    case True
    have "view x p = Read_U8 (mem_host (snd x)) p" if "mapped x p" "base p = base a" for p
      using uncached_in_memory [of a "(c, mm)"] t True vw [OF that(1)] that(2) mm by (simp add: in_memory_def)
    then show ?thesis using True okc vw phys by (simp add: cache_Invalidate_def g)
  next
    case False
    have am: "physical (mem_host mm) a" using a phys by simp
    note E = way_of_entry [OF okc am, folded t, OF False]
    have tw: "table_at (block_key a) c = word_of_nat (unat w)" using t by simp
    note F = forget_spec [OF okc am E(1) tw E(2)]
    have "cache_Invalidate a x = forget (cache_set a) (unat w) (c, mm)"
      using False E(3) G(1) by (simp add: cache_Invalidate_def g)
    then show ?thesis using F vw phys by (simp add: mm)
  qed
qed

lemma write_back_spec:
  assumes ok: "cache_ok (c, mm)" and r: "r < 128" "w < 8" and p: "physical (mem_host mm) p"
  shows "cache_ok (c, write_back c (r, w) mm)" "physical (mem_host (write_back c (r, w) mm)) q = physical (mem_host mm) q"
    "view (c, write_back c (r, w) mm) p = view (c, mm) p"
    "Read_U8 (mem_host (write_back c (r, w) mm)) p =
      (if bit (c_valid c r) w \<and> c_addrs c r w = base p then view (c, mm) p else Read_U8 (mem_host mm) p)"
proof -
  consider "\<not> bit (c_valid c r) w" | "bit (c_valid c r) w" by blast
  then have "cache_ok (c, write_back c (r, w) mm) \<and> physical (mem_host (write_back c (r, w) mm)) q = physical (mem_host mm) q \<and>
    view (c, write_back c (r, w) mm) p = view (c, mm) p \<and>
    Read_U8 (mem_host (write_back c (r, w) mm)) p =
      (if bit (c_valid c r) w \<and> c_addrs c r w = base p then view (c, mm) p else Read_U8 (mem_host mm) p)"
  proof cases
    case 1
    then show ?thesis using ok by (simp add: write_back_def)
  next
    case 2
    define a where "a = c_addrs c r w"
    have W: "way_ok c (mem_host mm) r w" by (rule cache_okD(4) [OF ok r 2])
    then have a: "physical (mem_host mm) a" "base a = a" "cache_set a = r" "table_at (block_key a) c = word_of_nat w"
      by (simp_all add: way_ok_def a_def Let_def)
    have e: "entry_ok c a" using a r 2 by (simp add: entry_ok_def a_def Let_def)
    have "write_back c (r, w) mm = (if bit (c_modified c (cache_set a)) w then mem_CopyToEmu (base a) (c_data c (cache_set a) w) mm else mm)"
      using a 2 by (simp add: write_back_def a_def)
    note B = written_back [OF ok a(1) e a(4) r(2) this]
    show ?thesis using B p 2 a by (auto simp: a_def)
  qed
  then show "cache_ok (c, write_back c (r, w) mm)" "physical (mem_host (write_back c (r, w) mm)) q = physical (mem_host mm) q"
    "view (c, write_back c (r, w) mm) p = view (c, mm) p"
    "Read_U8 (mem_host (write_back c (r, w) mm)) p =
      (if bit (c_valid c r) w \<and> c_addrs c r w = base p then view (c, mm) p else Read_U8 (mem_host mm) p)"
    by simp_all
qed

lemma fold_write_back:
  assumes "cache_ok (c, mm)" "\<forall>(r, w) \<in> set qs. r < 128 \<and> w < 8"
  shows "layout_ok (mem_host (fold (write_back c) qs mm)) \<and>
    (\<forall>p. physical (mem_host (fold (write_back c) qs mm)) p = physical (mem_host mm) p) \<and>
    (\<forall>p. physical (mem_host mm) p \<longrightarrow> Read_U8 (mem_host (fold (write_back c) qs mm)) p =
      (if \<exists>(r, w) \<in> set qs. bit (c_valid c r) w \<and> c_addrs c r w = base p then view (c, mm) p else Read_U8 (mem_host mm) p))"
  using assms
proof (induction qs arbitrary: mm)
  case Nil
  then show ?case by (simp add: cache_ok_def)
next
  case (Cons rw qs)
  obtain r w where rw: "rw = (r, w)" by fastforce
  have b: "r < 128" "w < 8" using Cons.prems(2) by (simp_all add: rw)
  show ?case
  proof (cases "\<exists>q. physical (mem_host mm) q")
    case True
    then obtain q where q: "physical (mem_host mm) q" by blast
    note W = write_back_spec [OF Cons.prems(1) b]
    have IH: "layout_ok (mem_host (fold (write_back c) qs (write_back c rw mm))) \<and>
      (\<forall>p. physical (mem_host (fold (write_back c) qs (write_back c rw mm))) p = physical (mem_host (write_back c rw mm)) p) \<and>
      (\<forall>p. physical (mem_host (write_back c rw mm)) p \<longrightarrow> Read_U8 (mem_host (fold (write_back c) qs (write_back c rw mm))) p =
        (if \<exists>(r, w) \<in> set qs. bit (c_valid c r) w \<and> c_addrs c r w = base p then view (c, write_back c rw mm) p
         else Read_U8 (mem_host (write_back c rw mm)) p))"
      by (rule Cons.IH) (use W(1) [OF q] Cons.prems(2) rw in auto)
    then show ?thesis using W(2) [OF q] W(3,4) unfolding rw by (auto simp del: split_paired_Ex)
  next
    case False
    note W = write_back_spec(1,2) [OF Cons.prems(1) b]
    have "write_back c rw mm = mm"
    proof (cases "bit (c_valid c r) w")
      case True
      then have "physical (mem_host mm) (c_addrs c r w)" using cache_okD(4) [OF Cons.prems(1) b] by (simp add: way_ok_def Let_def)
      then show ?thesis using False by blast
    qed (simp add: write_back_def rw)
    then show ?thesis using Cons.IH [OF Cons.prems(1)] Cons.prems(2) False by auto
  qed
qed

lemma reset_view: "table_at k (cache_Reset c) = 0xFF" "view (cache_Reset c, mm) a = Read_U8 (mem_host mm) a"
proof -
  show t: "table_at k (cache_Reset c) = 0xFF" for k by (simp add: table_at_def cache_Reset_def)
  show "view (cache_Reset c, mm) a = Read_U8 (mem_host mm) a" by (simp add: view_def t Let_def)
qed

lemma reset_ok:
  assumes "layout_ok (mem_host mm)" "\<And>r w. r < 128 \<Longrightarrow> w < 8 \<Longrightarrow> length (c_data c r w) = 32"
  shows "cache_ok (cache_Reset c, mm)"
  using assms by (intro cache_okI) (simp_all add: reset_view, simp_all add: cache_Reset_def)

lemma FlushAll_spec:
  assumes ok: "cache_ok x"
  shows "refines x (FlushAll x) \<and> (\<forall>p. mapped x p \<longrightarrow> Read_U8 (mem_host (snd (FlushAll x))) p = view x p)"
proof -
  obtain c mm where x: "x = (c, mm)" by fastforce
  define qs where "qs = List.product [0..<128] [0..<8 :: nat]"
  have qs: "\<forall>(r, w) \<in> set qs. r < 128 \<and> w < 8" by (auto simp: qs_def)
  note F = fold_write_back [OF ok [unfolded x] qs]
  note D = cache_okD [OF ok [unfolded x]]
  have byte: "Read_U8 (mem_host (fold (write_back c) qs mm)) p = view x p" if p: "physical (mem_host mm) p" for p
  proof (cases "table_at (block_key p) c = 0xFF")
    case True
    then have "view x p = Read_U8 (mem_host mm) p" by (simp add: view_def x Let_def)
    then show ?thesis using F p x by simp
  next
    case False
    have "entry_ok c p" by (rule D(2) [OF p False])
    then have "(cache_set p, unat (table_at (block_key p) c)) \<in> set qs"
      "bit (c_valid c (cache_set p)) (unat (table_at (block_key p) c)) \<and> c_addrs c (cache_set p) (unat (table_at (block_key p) c)) = base p"
      using set_bound [of p] by (simp_all add: entry_ok_def qs_def Let_def)
    then have "\<exists>(r, w) \<in> set qs. bit (c_valid c r) w \<and> c_addrs c r w = base p" by (auto simp del: split_paired_Ex)
    then show ?thesis using F p x by simp
  qed
  have f: "FlushAll x = (cache_Reset c, fold (write_back c) qs mm)" by (simp add: FlushAll_def x qs_def)
  have "cache_ok (FlushAll x)" unfolding f using F D(3) by (intro reset_ok) simp_all
  then show ?thesis using F byte unfolding f refines_def by (simp add: reset_view x)
qed

lemma Init_spec: "layout_ok (mem_host mm) \<Longrightarrow> cache_ok (cache_Init c, mm) \<and> view (cache_Init c, mm) = Read_U8 (mem_host mm)"
  unfolding cache_Init_def by (intro conjI reset_ok ext) (simp_all add: reset_view)

section \<open>Sequences of operations\<close>

datatype cache_op =
    CacheRead u32 nat bool
  | CacheWrite u32 "u8 list" bool
  | CacheFlush u32
  | CacheStore u32
  | CacheTouch u32
  | CacheFlushAll

primrec op_reach :: "cache_op \<Rightarrow> u32 set" where
  "op_reach (CacheRead a n _) = {a + word_of_nat i | i. i < n}"
| "op_reach (CacheWrite a d _) = {a + word_of_nat i | i. i < length d}"
| "op_reach (CacheFlush a) = {a}"
| "op_reach (CacheStore a) = {a}"
| "op_reach (CacheTouch a) = {a}"
| "op_reach CacheFlushAll = {}"

primrec cached_op :: "cache_op \<Rightarrow> Cache \<times> MemoryManager \<Rightarrow> u8 list \<times> Cache \<times> MemoryManager" where
  "cached_op (CacheRead a n locked) x = cache_Read a (replicate n 0) locked x"
| "cached_op (CacheWrite a d locked) x = ([], cache_Write a d locked x)"
| "cached_op (CacheFlush a) x = ([], cache_Flush a x)"
| "cached_op (CacheStore a) x = ([], cache_Store a x)"
| "cached_op (CacheTouch a) x = ([], cache_Touch a x)"
| "cached_op CacheFlushAll x = ([], FlushAll x)"

primrec flat_op :: "cache_op \<Rightarrow> (u32 \<Rightarrow> u8) \<Rightarrow> u8 list \<times> (u32 \<Rightarrow> u8)" where
  "flat_op (CacheRead a n _) f = (map (\<lambda>i. f (a + word_of_nat i)) [0..<n], f)"
| "flat_op (CacheWrite a d _) f = ([], store_bytes a d f)"
| "flat_op (CacheFlush a) f = ([], f)"
| "flat_op (CacheStore a) f = ([], f)"
| "flat_op (CacheTouch a) f = ([], f)"
| "flat_op CacheFlushAll f = ([], f)"

lemma cached_op_spec:
  assumes "cache_ok x" "op_reach p \<subseteq> {a. mapped x a}"
  shows "cache_ok (snd (cached_op p x)) \<and> (\<forall>a. mapped (snd (cached_op p x)) a = mapped x a) \<and>
    fst (cached_op p x) = fst (flat_op p (view x)) \<and>
    (\<forall>a. mapped x a \<longrightarrow> view (snd (cached_op p x)) a = snd (flat_op p (view x)) a)"
proof (cases p)
  case (CacheRead a n locked)
  have m: "\<forall>i < length (replicate n (0 :: u8)). mapped x (a + word_of_nat i)" using assms(2) CacheRead by auto
  obtain bytes y where r: "cache_Read a (replicate n 0) locked x = (bytes, y)" by (metis prod.exhaust)
  show ?thesis using Read_spec [OF assms(1) m r] by (simp add: CacheRead r refines_def)
next
  case (CacheWrite a d locked)
  have m: "\<forall>i < length d. mapped x (a + word_of_nat i)" using assms(2) CacheWrite by auto
  show ?thesis using Write_spec [OF assms(1) m, of locked] by (simp add: CacheWrite)
qed (use assms Flush_spec Store_spec Touch_spec FlushAll_spec in \<open>simp_all add: refines_def\<close>)

interpretation cached: plain_memory cache_ok "\<lambda>x. {a. mapped x a}" view cached_op flat_op op_reach
proof
  show "fst (flat_op p f) = fst (flat_op p g)" if "\<And>a. a \<in> op_reach p \<Longrightarrow> f a = g a" for p f g
  proof (cases p)
    case (CacheRead a n locked)
    have "f (a + word_of_nat i) = g (a + word_of_nat i)" if "i < n" for i
      using \<open>\<And>a. a \<in> op_reach p \<Longrightarrow> f a = g a\<close> [of "a + word_of_nat i"] that CacheRead by auto
    then show ?thesis by (simp add: CacheRead)
  qed simp_all
  show "snd (flat_op p f) a = snd (flat_op p g) a" if "f a = g a" for a p f g
    using that by (cases p) (simp_all, rule store_bytes_cong)
  fix s p assume A: "cache_ok s" "op_reach p \<subseteq> {a. mapped s a}"
  note S = cached_op_spec [OF A]
  show "cache_ok (snd (cached_op p s))" "{a. mapped (snd (cached_op p s)) a} = {a. mapped s a}"
    "fst (cached_op p s) = fst (flat_op p (view s))"
    using S by simp_all
  show "view (snd (cached_op p s)) a = snd (flat_op p (view s)) a" if "a \<in> {a. mapped s a}" for a
    using S that by simp
qed

section \<open>Transparency\<close>

text \<open>C33: Caching is transparent: any sequence of reads, writes, flushes, stores, touches and flushes of
  the whole cache, locked or not, on addresses of main memory returns the bytes that the same sequence
  returns on a plain map of addresses to bytes, and ends with the same view; flushing the cache then
  leaves exactly that map in memory.\<close>

theorem caching_is_transparent:
  assumes "cache_ok x" "\<forall>p \<in> set qs. op_reach p \<subseteq> {a. mapped x a}"
  shows "fst (run_ops cached_op qs x) = fst (run_ops flat_op qs (view x)) \<and>
    (\<forall>a \<in> {a. mapped x a}.
      Read_U8 (mem_host (snd (FlushAll (snd (run_ops cached_op qs x))))) a = snd (run_ops flat_op qs (view x)) a)"
proof -
  note R = cached.run [OF assms(1,2), of "view x"]
  then show ?thesis using FlushAll_spec [of "snd (run_ops cached_op qs x)"] by (simp add: set_eq_iff)
qed

definition plain_cache :: Cache where
  "plain_cache = \<lparr>c_data = \<lambda>_ _. [], c_addrs = \<lambda>_ _. 0, c_plru = \<lambda>_. 0, c_valid = \<lambda>_. 0, c_modified = \<lambda>_. 0,
     lookup_table = \<lambda>_. 0, lookup_table_ex = \<lambda>_. 0, lookup_table_vmem = \<lambda>_. 0\<rparr>"

definition gamecube_memory :: MemoryManager where
  "gamecube_memory = \<lparr>mem_host = gamecube_host, m_l1_cache = \<lambda>_. 0, m_l1_cache_size = 0x40000,
     has_fakevmem = True, m_fakevmem = \<lambda>_. 0, m_fakevmem_mask = 0x01FFFFFF\<rparr>"

lemma caching_is_transparent_witness:
  "fst (run_ops cached_op [CacheWrite 0x1000 [1, 2, 3, 4] False, CacheTouch 0x2000, CacheRead 0x1002 2 False]
     (cache_Init plain_cache, gamecube_memory)) = [[], [], [3, 4]]"
proof -
  let ?x = "(cache_Init plain_cache, gamecube_memory)"
  let ?ops = "[CacheWrite 0x1000 [1, 2, 3, 4] False, CacheTouch 0x2000, CacheRead 0x1002 2 False]"
  have ok: "cache_ok ?x" using Init_spec [of gamecube_memory plain_cache] layout_gamecube by (simp add: gamecube_memory_def)
  have small: "i < 4 \<Longrightarrow> i = 0 \<or> i = 1 \<or> i = 2 \<or> i = (3 :: nat)" for i by linarith
  have here: "mapped ?x (0x1000 + word_of_nat i)" "mapped ?x 0x2000" "j < 2 \<Longrightarrow> mapped ?x (0x1002 + word_of_nat j)" if "i < 4" for i j
    using small [OF that] small [of j] by (auto simp: gamecube_memory_def physical_def gamecube_host_def)
  have "op_reach (CacheWrite 0x1000 [1, 2, 3, 4] False) \<subseteq> {a. mapped ?x a}" using here by auto
  moreover have "op_reach (CacheTouch 0x2000) \<subseteq> {a. mapped ?x a}" using here(2) [of 0] by auto
  moreover have "op_reach (CacheRead 0x1002 2 False) \<subseteq> {a. mapped ?x a}" using here(3) [of 0] by auto
  ultimately have r: "\<forall>p \<in> set ?ops. op_reach p \<subseteq> {a. mapped ?x a}" by simp
  have two: "[0..<2 :: nat] = [0, 1]" by (simp add: upt_conv_Cons)
  show ?thesis unfolding caching_is_transparent [OF ok r, THEN conjunct1] by (simp add: two)
qed

end
