(* ===== verification/Ppc_Machine.thy ===== *)
theory Ppc_Machine
  imports Ppc_Branch Ppc_Cache
begin

text \<open>
  The CPU with the memory around it: the interpreter's state, main memory, both caches, the block
  address translation tables of \<open>Core/PowerPC/MMU.h\<close> and the write gather pipe of
  \<open>Core/HW/GPFifo.cpp\<close>.  Everything else on the bus is an argument: \<open>'d\<close> is the state of the
  devices, and a \<open>bus\<close> holds the operations they offer.
\<close>

section \<open>State\<close>

text \<open>
  \<open>IsMMUMode\<close>, \<open>IsPauseOnPanicMode\<close>, \<open>m_disable_icache\<close> and \<open>m_low_dcbz_hack\<close> are settings;
  \<open>cpu_broken\<close> records that \<open>CPUManager::Break\<close> was called.  The bytes before the pointer of the
  gather pipe are \<open>m_gather_pipe\<close>; the three FIFO registers belong to the processor interface, and
  \<open>ppc_downcount\<close> is the rest of the slice of \<open>PowerPCState::downcount\<close>.
\<close>

record 'd Cpu =
  core :: Interpreter
  m_memory :: MemoryManager
  iCache :: Cache
  dCache :: Cache
  m_ibat_table :: "u32 \<Rightarrow> u32"
  m_dbat_table :: "u32 \<Rightarrow> u32"
  m_enable_dcache :: bool
  m_disable_icache :: bool
  m_low_dcbz_hack :: bool
  IsMMUMode :: bool
  IsPauseOnPanicMode :: bool
  cpu_broken :: bool
  ppc_downcount :: int
  m_gather_pipe :: "u8 list"
  m_fifo_cpu_base :: u32
  m_fifo_cpu_end :: u32
  m_fifo_cpu_write_pointer :: u32
  devices :: 'd

text \<open>
  Operations of the devices, each on the whole machine, because a device may raise an exception or
  transfer data: registers (\<open>MMIO::Mapping\<close>, by the number of bytes), the frame buffer, the interrupt
  of a bad bus access, the notice of a full gather pipe, the timers behind the time base
  and the decrementer, and the event scheduler.
\<close>

record 'd bus =
  mmio_Read :: "nat \<Rightarrow> u32 \<Rightarrow> 'd Cpu \<Rightarrow> u64 \<times> 'd Cpu"
  mmio_Write :: "nat \<Rightarrow> u32 \<Rightarrow> u32 \<Rightarrow> 'd Cpu \<Rightarrow> 'd Cpu"
  PeekColor :: "u32 \<Rightarrow> u32 \<Rightarrow> 'd Cpu \<Rightarrow> u32"
  PeekDepth :: "u32 \<Rightarrow> u32 \<Rightarrow> 'd Cpu \<Rightarrow> u32"
  PokeColor :: "u32 \<Rightarrow> u32 \<Rightarrow> u32 \<Rightarrow> 'd Cpu \<Rightarrow> 'd Cpu"
  PokeDepth :: "u32 \<Rightarrow> u32 \<Rightarrow> u32 \<Rightarrow> 'd Cpu \<Rightarrow> 'd Cpu"
  bus_error_interrupt :: "'d Cpu \<Rightarrow> 'd Cpu"
  GatherPipeBursted :: "'d Cpu \<Rightarrow> 'd Cpu"
  bus_DecrementerSet :: "'d Cpu \<Rightarrow> 'd Cpu"
  bus_TimeBaseSet :: "'d Cpu \<Rightarrow> 'd Cpu"
  bus_GetFakeDecrementer :: "'d Cpu \<Rightarrow> u32"
  bus_GetFakeTimeBase :: "'d Cpu \<Rightarrow> u64"
  bus_Advance :: "'d Cpu \<Rightarrow> 'd Cpu"
  bus_set_slice_length :: "int \<Rightarrow> 'd Cpu \<Rightarrow> 'd Cpu"

abbreviation upd_core :: "(Interpreter \<Rightarrow> Interpreter) \<Rightarrow> 'd Cpu \<Rightarrow> 'd Cpu" where
  "upd_core f s \<equiv> s\<lparr>core := f (core s)\<rparr>"

abbreviation upd_memory :: "(MemoryManager \<Rightarrow> MemoryManager) \<Rightarrow> 'd Cpu \<Rightarrow> 'd Cpu" where
  "upd_memory f s \<equiv> s\<lparr>m_memory := f (m_memory s)\<rparr>"

abbreviation main_memory :: "'d Cpu \<Rightarrow> host" where
  "main_memory s \<equiv> mem_host (m_memory s)"

abbreviation reg :: "'d Cpu \<Rightarrow> nat \<Rightarrow> u32" where
  "reg s n \<equiv> gpr (core s) n"

abbreviation sprs :: "'d Cpu \<Rightarrow> nat \<Rightarrow> u32" where
  "sprs s n \<equiv> spr (core s) n"

definition cpu_Break :: "'d Cpu \<Rightarrow> 'd Cpu" where
  "cpu_Break s = s\<lparr>cpu_broken := True\<rparr>"

text \<open>The last lines of an access that cannot be resolved.\<close>

definition panic_break :: "'d Cpu \<Rightarrow> 'd Cpu" where
  "panic_break s =
    (if IsPauseOnPanicMode s
     then upd_core (raise_exception (EXCEPTION_DSI OR EXCEPTION_FAKE_MEMCHECK_HIT)) (cpu_Break s) else s)"

section \<open>The write gather pipe\<close>

abbreviation (input) GATHER_PIPE_SIZE :: nat where "GATHER_PIPE_SIZE \<equiv> 32"
abbreviation (input) GATHER_PIPE_PHYSICAL_ADDRESS :: u32 where "GATHER_PIPE_PHYSICAL_ADDRESS \<equiv> 0x0C008000"

definition IsBNE :: "'d Cpu \<Rightarrow> bool" where
  "IsBNE s = False"

definition ResetGatherPipe :: "'d Cpu \<Rightarrow> 'd Cpu" where
  "ResetGatherPipe s = s\<lparr>m_gather_pipe := []\<rparr>"

definition gpfifo_Init :: "'d Cpu \<Rightarrow> 'd Cpu" where
  "gpfifo_Init s = ResetGatherPipe s"

text \<open>One block of the loop of \<open>UpdateGatherPipe\<close>.\<close>

definition burst_block :: "'d bus \<Rightarrow> u8 list \<Rightarrow> 'd Cpu \<Rightarrow> 'd Cpu" where
  "burst_block B block s =
    (let s1 = upd_memory (mem_CopyToEmu (m_fifo_cpu_write_pointer s) block) s;
         s2 = s1\<lparr>m_fifo_cpu_write_pointer :=
                (if m_fifo_cpu_write_pointer s1 = m_fifo_cpu_end s1 then m_fifo_cpu_base s1
                 else m_fifo_cpu_write_pointer s1 + 32)\<rparr>
     in GatherPipeBursted B s2)"

fun burst_blocks :: "'d bus \<Rightarrow> u8 list \<Rightarrow> 'd Cpu \<Rightarrow> u8 list \<times> 'd Cpu" where
  "burst_blocks B pipe s =
    (if GATHER_PIPE_SIZE \<le> length pipe
     then burst_blocks B (drop GATHER_PIPE_SIZE pipe) (burst_block B (take GATHER_PIPE_SIZE pipe) s)
     else (pipe, s))"

declare burst_blocks.simps [simp del]

definition UpdateGatherPipe :: "'d bus \<Rightarrow> 'd Cpu \<Rightarrow> 'd Cpu" where
  "UpdateGatherPipe B s = (case burst_blocks B (m_gather_pipe s) s of (pipe, s1) \<Rightarrow> s1\<lparr>m_gather_pipe := pipe\<rparr>)"

definition FastCheckGatherPipe :: "'d bus \<Rightarrow> 'd Cpu \<Rightarrow> 'd Cpu" where
  "FastCheckGatherPipe B s = (if GATHER_PIPE_SIZE \<le> length (m_gather_pipe s) then UpdateGatherPipe B s else s)"

definition CheckGatherPipe :: "'d bus \<Rightarrow> 'd Cpu \<Rightarrow> 'd Cpu" where
  "CheckGatherPipe B s = (if GATHER_PIPE_SIZE \<le> length (m_gather_pipe s) then UpdateGatherPipe B s else s)"

definition FastWrite8 :: "u8 \<Rightarrow> 'd Cpu \<Rightarrow> 'd Cpu" where
  "FastWrite8 value s = s\<lparr>m_gather_pipe := m_gather_pipe s @ [value]\<rparr>"

definition FastWrite16 :: "u16 \<Rightarrow> 'd Cpu \<Rightarrow> 'd Cpu" where
  "FastWrite16 value s = s\<lparr>m_gather_pipe := m_gather_pipe s @ le_bytes 2 (swap16 value)\<rparr>"

definition FastWrite32 :: "u32 \<Rightarrow> 'd Cpu \<Rightarrow> 'd Cpu" where
  "FastWrite32 value s = s\<lparr>m_gather_pipe := m_gather_pipe s @ le_bytes 4 (swap32 value)\<rparr>"

definition FastWrite64 :: "u64 \<Rightarrow> 'd Cpu \<Rightarrow> 'd Cpu" where
  "FastWrite64 value s = s\<lparr>m_gather_pipe := m_gather_pipe s @ le_bytes 8 (swap64 value)\<rparr>"

definition gpfifo_Write8 :: "'d bus \<Rightarrow> u8 \<Rightarrow> 'd Cpu \<Rightarrow> 'd Cpu" where
  "gpfifo_Write8 B value s = CheckGatherPipe B (FastWrite8 value s)"

definition gpfifo_Write16 :: "'d bus \<Rightarrow> u16 \<Rightarrow> 'd Cpu \<Rightarrow> 'd Cpu" where
  "gpfifo_Write16 B value s = CheckGatherPipe B (FastWrite16 value s)"

definition gpfifo_Write32 :: "'d bus \<Rightarrow> u32 \<Rightarrow> 'd Cpu \<Rightarrow> 'd Cpu" where
  "gpfifo_Write32 B value s = CheckGatherPipe B (FastWrite32 value s)"

definition gpfifo_Write64 :: "'d bus \<Rightarrow> u64 \<Rightarrow> 'd Cpu \<Rightarrow> 'd Cpu" where
  "gpfifo_Write64 B value s = CheckGatherPipe B (FastWrite64 value s)"

end
