(* ===== verification/Ppc_Mmu.thy ===== *)
theory Ppc_Mmu
  imports Ppc_Machine
begin

text \<open>
  The memory management unit, \<open>Core/PowerPC/MMU.cpp\<close>: accesses to physical memory, block and page
  address translation with the translation cache, and the accesses the CPU makes.  An access takes
  the number of its bytes, the template argument \<open>T\<close> or \<open>size\<close> of the source.  The debugger's memory
  checks are absent, so \<open>Memcheck\<close> returns at once, and the views of the page table that only
  the recompiler uses are left out.
\<close>

section \<open>Flags and pages\<close>

datatype XCheckTLBFlag = XNoException | XRead | XWrite | XOpcode | XOpcodeNoException

definition IsOpcodeFlag :: "XCheckTLBFlag \<Rightarrow> bool" where
  "IsOpcodeFlag flag \<longleftrightarrow> flag = XOpcode \<or> flag = XOpcodeNoException"

definition IsNoExceptionFlag :: "XCheckTLBFlag \<Rightarrow> bool" where
  "IsNoExceptionFlag flag \<longleftrightarrow> flag = XNoException \<or> flag = XOpcodeNoException"

abbreviation (input) HW_PAGE_MASK :: u32 where "HW_PAGE_MASK \<equiv> 0xFFF"
abbreviation (input) HW_PAGE_INDEX_SHIFT :: nat where "HW_PAGE_INDEX_SHIFT \<equiv> 12"
abbreviation (input) HW_PAGE_INDEX_MASK :: u32 where "HW_PAGE_INDEX_MASK \<equiv> 0x3f"

definition crosses_page :: "u32 \<Rightarrow> nat \<Rightarrow> bool" where
  "crosses_page em_address n \<longleftrightarrow>
     em_address AND NOT HW_PAGE_MASK \<noteq> (em_address + word_of_nat n - 1) AND NOT HW_PAGE_MASK"

section \<open>The frame buffer\<close>

definition EFB_Read :: "'d bus \<Rightarrow> u32 \<Rightarrow> 'd Cpu \<Rightarrow> u32" where
  "EFB_Read B addr s =
    (let x = drop_bit 2 (addr AND 0xfff); y = drop_bit 12 addr AND 0x3ff
     in if addr AND 0x00800000 \<noteq> 0 then 0
        else if addr AND 0x00400000 \<noteq> 0 then PeekDepth B x y s
        else PeekColor B x y s)"

definition EFB_Write :: "'d bus \<Rightarrow> u32 \<Rightarrow> u32 \<Rightarrow> 'd Cpu \<Rightarrow> 'd Cpu" where
  "EFB_Write B data addr s =
    (let x = drop_bit 2 (addr AND 0xfff); y = drop_bit 12 addr AND 0x3ff
     in if addr AND 0x00800000 \<noteq> 0 then s
        else if addr AND 0x00400000 \<noteq> 0 then PokeDepth B x y data s
        else PokeColor B x y data s)"

section \<open>Physical accesses\<close>

abbreviation (input) SPR_HID0 :: nat where "SPR_HID0 \<equiv> 1008"
abbreviation (input) SPR_HID2 :: nat where "SPR_HID2 \<equiv> 920"
abbreviation (input) SPR_HID4 :: nat where "SPR_HID4 \<equiv> 1011"
abbreviation (input) HID0_DLOCK :: nat where "HID0_DLOCK \<equiv> 12"

text \<open>\<open>bswap\<close> of a value of \<open>n\<close> bytes copied from memory.\<close>

definition bswap :: "nat \<Rightarrow> u64 \<Rightarrow> u64" where
  "bswap n val =
    (if n = 1 then ucast (ucast val :: u8)
     else if n = 2 then ucast (swap16 (ucast val))
     else if n = 4 then ucast (swap32 (ucast val))
     else swap64 val)"

definition bytes_value :: "u8 list \<Rightarrow> u64" where
  "bytes_value bytes = bswap (length bytes) (le_word bytes)"

definition plain_bytes :: "(u32 \<Rightarrow> u8) \<Rightarrow> u32 \<Rightarrow> nat \<Rightarrow> u8 list" where
  "plain_bytes f a n = map (\<lambda>i. f (a + word_of_nat i)) [0..<n]"

text \<open>
  \<open>GetEXRAM\<close> and \<open>GetFakeVMEM\<close> are null pointers where the memory does not exist.  The value of a
  cached read whose copy from memory fails is uninitialised in the source and 0 here.
\<close>

definition has_exram :: "'d Cpu \<Rightarrow> bool" where
  "has_exram s = h_wii_mode (main_memory s)"

definition dcache_Read :: "XCheckTLBFlag \<Rightarrow> u32 \<Rightarrow> nat \<Rightarrow> 'd Cpu \<Rightarrow> u64 \<times> 'd Cpu" where
  "dcache_Read flag a n s =
    (case cache_Read a (replicate n 0) (bit (sprs s SPR_HID0) HID0_DLOCK \<or> flag \<noteq> XRead) (dCache s, m_memory s) of
       (bytes, c, m) \<Rightarrow> (bytes_value bytes, s\<lparr>dCache := c, m_memory := m\<rparr>))"

text \<open>\<open>ReadFromHardware\<close> after the translation, for an access inside a page.\<close>

definition read_physical :: "'d bus \<Rightarrow> XCheckTLBFlag \<Rightarrow> bool \<Rightarrow> u32 \<Rightarrow> nat \<Rightarrow> 'd Cpu \<Rightarrow> u64 \<times> 'd Cpu" where
  "read_physical B flag wi a n s =
    (if flag = XRead \<and> a AND 0xF8000000 = 0x08000000
     then if a < 0x0c000000 then (take_bit (8 * n) (ucast (EFB_Read B a s)), s)
          else (case mmio_Read B n a s of (v, s1) \<Rightarrow> (take_bit (8 * n) v, s1))
     else if drop_bit 28 a = 0xE \<and> a < 0xE0000000 + m_l1_cache_size (m_memory s)
     then (bytes_value (plain_bytes (m_l1_cache (m_memory s)) (a AND 0x0FFFFFFF) n), s)
     else if a AND 0xF8000000 = 0
     then let b = a AND h_ram_mask (main_memory s)
          in if \<not> m_enable_dcache s \<or> wi then (bytes_value (plain_bytes (h_ram (main_memory s)) b n), s)
             else dcache_Read flag b n s
     else if has_exram s \<and> drop_bit 28 a = 1 \<and> a AND 0x0FFFFFFF < h_exram_size (main_memory s)
     then let b = a AND 0x0FFFFFFF
          in if \<not> m_enable_dcache s \<or> wi then (bytes_value (plain_bytes (h_exram (main_memory s)) b n), s)
             else dcache_Read flag (b + 0x10000000) n s
     else if has_fakevmem (m_memory s) \<and> a AND 0xFE000000 = 0x7E000000
     then (bytes_value (plain_bytes (m_fakevmem (m_memory s)) (a AND m_fakevmem_mask (m_memory s)) n), s)
     else (0, panic_break s))"

text \<open>An access across a page is made byte by byte.\<close>

primrec read_bytewise :: "(u32 \<Rightarrow> nat \<Rightarrow> 's \<Rightarrow> u64 \<times> 's) \<Rightarrow> u32 \<Rightarrow> nat \<Rightarrow> u64 \<Rightarrow> 's \<Rightarrow> u64 \<times> 's" where
  "read_bytewise f a 0 var s = (var, s)"
| "read_bytewise f a (Suc n) var s = (case f a 1 s of (b, s1) \<Rightarrow> read_bytewise f (a + 1) n (push_bit 8 var OR b) s1)"

definition paged_read :: "(u32 \<Rightarrow> nat \<Rightarrow> 's \<Rightarrow> u64 \<times> 's) \<Rightarrow> u32 \<Rightarrow> nat \<Rightarrow> 's \<Rightarrow> u64 \<times> 's" where
  "paged_read f a n s = (if crosses_page a n then read_bytewise f a n 0 s else f a n s)"

definition ReadPhysical :: "'d bus \<Rightarrow> XCheckTLBFlag \<Rightarrow> u32 \<Rightarrow> nat \<Rightarrow> 'd Cpu \<Rightarrow> u64 \<times> 'd Cpu" where
  "ReadPhysical B flag = paged_read (read_physical B flag False)"

section \<open>Block address translation\<close>

abbreviation (input) BAT_INDEX_SHIFT :: nat where "BAT_INDEX_SHIFT \<equiv> 17"
abbreviation (input) BAT_MAPPED_BIT :: u32 where "BAT_MAPPED_BIT \<equiv> 1"
abbreviation (input) BAT_PHYSICAL_BIT :: u32 where "BAT_PHYSICAL_BIT \<equiv> 2"
abbreviation (input) BAT_WI_BIT :: u32 where "BAT_WI_BIT \<equiv> 4"

text \<open>The translated address and whether it is write-through or cache-inhibited.\<close>

definition TranslateBatAddress :: "(u32 \<Rightarrow> u32) \<Rightarrow> u32 \<Rightarrow> (u32 \<times> bool) option" where
  "TranslateBatAddress bat_table address =
    (let bat_result = bat_table (drop_bit BAT_INDEX_SHIFT address)
     in if bat_result AND BAT_MAPPED_BIT = 0 then None
        else Some ((bat_result AND NOT 7) OR (address AND 0x1FFFF), bat_result AND BAT_WI_BIT \<noteq> 0))"

definition bat_VP :: "u32 \<Rightarrow> bool" where "bat_VP batu = bit batu 0"
definition bat_VS :: "u32 \<Rightarrow> bool" where "bat_VS batu = bit batu 1"
definition bat_BL :: "u32 \<Rightarrow> u32" where "bat_BL batu = bit_field 2 11 batu"
definition bat_BEPI :: "u32 \<Rightarrow> u32" where "bat_BEPI batu = bit_field 17 15 batu"
definition bat_WIMG :: "u32 \<Rightarrow> u32" where "bat_WIMG batl = bit_field 3 4 batl"
definition bat_BRPN :: "u32 \<Rightarrow> u32" where "bat_BRPN batl = bit_field 17 15 batl"

definition fast_memory :: "'d Cpu \<Rightarrow> u32 \<Rightarrow> bool" where
  "fast_memory s physical_address \<longleftrightarrow>
     (has_fakevmem (m_memory s) \<and> physical_address AND 0xFE000000 = 0x7E000000)
     \<or> physical_address < h_ram_size (main_memory s)
     \<or> (has_exram s \<and> drop_bit 28 physical_address = 1 \<and> physical_address AND 0x0FFFFFFF < h_exram_size (main_memory s))
     \<or> (drop_bit 28 physical_address = 0xE \<and> physical_address < 0xE0000000 + m_l1_cache_size (m_memory s))"

definition bat_entry :: "'d Cpu \<Rightarrow> u32 \<Rightarrow> u32 \<Rightarrow> u32" where
  "bat_entry s batl j =
    (let physical_address = push_bit BAT_INDEX_SHIFT (bat_BRPN batl OR j);
         wi = bat_WIMG batl AND 0xC \<noteq> 0;
         valid_bit = BAT_MAPPED_BIT OR (if wi then BAT_WI_BIT else 0)
           OR (if \<not> wi \<and> fast_memory s physical_address then BAT_PHYSICAL_BIT else 0)
     in physical_address OR valid_bit)"

definition map_block :: "'d Cpu \<Rightarrow> u32 \<Rightarrow> u32 \<Rightarrow> nat \<Rightarrow> (u32 \<Rightarrow> u32) \<Rightarrow> (u32 \<Rightarrow> u32)" where
  "map_block s batu batl n bat_table =
    (let j = word_of_nat n
     in if j AND bat_BL batu = j
        then bat_table(drop_bit BAT_INDEX_SHIFT (push_bit BAT_INDEX_SHIFT (bat_BEPI batu OR j)) := bat_entry s batl j)
        else bat_table)"

definition UpdateBAT :: "'d Cpu \<Rightarrow> nat \<Rightarrow> (u32 \<Rightarrow> u32) \<Rightarrow> (u32 \<Rightarrow> u32)" where
  "UpdateBAT s n bat_table =
    (let batu = sprs s n; batl = sprs s (n + 1)
     in if \<not> bat_VS batu \<and> \<not> bat_VP batu then bat_table
        else fold (map_block s batu batl) [0..<unat (bat_BL batu) + 1] bat_table)"

definition UpdateBATs :: "'d Cpu \<Rightarrow> nat \<Rightarrow> (u32 \<Rightarrow> u32) \<Rightarrow> (u32 \<Rightarrow> u32)" where
  "UpdateBATs s base_spr bat_table = fold (\<lambda>i. UpdateBAT s (base_spr + i * 2)) [0..<4] bat_table"

definition UpdateFakeMMUBat :: "'d Cpu \<Rightarrow> u32 \<Rightarrow> (u32 \<Rightarrow> u32) \<Rightarrow> (u32 \<Rightarrow> u32)" where
  "UpdateFakeMMUBat s start_addr bat_table =
    fold (\<lambda>i t. let e_address = word_of_nat i + drop_bit BAT_INDEX_SHIFT start_addr;
                    p_address = 0x7E000000 OR (push_bit BAT_INDEX_SHIFT (word_of_nat i) AND m_fakevmem_mask (m_memory s))
                in t(e_address := p_address OR (BAT_MAPPED_BIT OR BAT_PHYSICAL_BIT)))
      [0..<0x800] bat_table"

abbreviation (input) SPR_IBAT0U :: nat where "SPR_IBAT0U \<equiv> 528"
abbreviation (input) SPR_DBAT0U :: nat where "SPR_DBAT0U \<equiv> 536"
abbreviation (input) SPR_IBAT4U :: nat where "SPR_IBAT4U \<equiv> 560"
abbreviation (input) SPR_DBAT4U :: nat where "SPR_DBAT4U \<equiv> 568"
abbreviation (input) HID4_SBE :: nat where "HID4_SBE \<equiv> 25"

definition bat_table_of :: "'d Cpu \<Rightarrow> nat \<Rightarrow> nat \<Rightarrow> (u32 \<Rightarrow> u32)" where
  "bat_table_of s spr0 spr4 =
    (let t = UpdateBATs s spr0 (\<lambda>_. 0);
         extended_bats = h_wii_mode (main_memory s) \<and> bit (sprs s SPR_HID4) HID4_SBE;
         t1 = (if extended_bats then UpdateBATs s spr4 t else t)
     in if has_fakevmem (m_memory s)
        then UpdateFakeMMUBat s 0x70000000 (UpdateFakeMMUBat s 0x40000000 t1) else t1)"

definition DBATUpdated :: "'d Cpu \<Rightarrow> 'd Cpu" where
  "DBATUpdated s = s\<lparr>m_dbat_table := bat_table_of s SPR_DBAT0U SPR_DBAT4U\<rparr>"

definition IBATUpdated :: "'d Cpu \<Rightarrow> 'd Cpu" where
  "IBATUpdated s = s\<lparr>m_ibat_table := bat_table_of s SPR_IBAT0U SPR_IBAT4U\<rparr>"

section \<open>Page address translation\<close>

definition EffectiveAddress_SR :: "u32 \<Rightarrow> nat" where "EffectiveAddress_SR a = unat (bit_field 28 4 a)"
definition EffectiveAddress_page_index :: "u32 \<Rightarrow> u32" where "EffectiveAddress_page_index a = bit_field 12 16 a"
definition EffectiveAddress_API :: "u32 \<Rightarrow> u32" where "EffectiveAddress_API a = bit_field 22 6 a"
definition EffectiveAddress_offset :: "u32 \<Rightarrow> u32" where "EffectiveAddress_offset a = bit_field 0 12 a"

definition sr_VSID :: "u32 \<Rightarrow> u32" where "sr_VSID r = bit_field 0 24 r"
definition sr_N :: "u32 \<Rightarrow> bool" where "sr_N r = bit r 28"
definition sr_T :: "u32 \<Rightarrow> bool" where "sr_T r = bit r 31"

text \<open>The first word of a page table entry, and the fields of the second.\<close>

definition UPTE_Lo :: "u32 \<Rightarrow> bool \<Rightarrow> u32 \<Rightarrow> u32" where
  "UPTE_Lo vsid h api = api OR push_bit 6 (of_bool h) OR push_bit 7 vsid OR push_bit 31 1"

definition pte_WIMG :: "u32 \<Rightarrow> u32" where "pte_WIMG pte2 = bit_field 3 4 pte2"
definition pte_C :: "u32 \<Rightarrow> bool" where "pte_C pte2 = bit pte2 7"
definition pte_RPN :: "u32 \<Rightarrow> u32" where "pte_RPN pte2 = bit_field 12 20 pte2"
definition set_pte_C :: "u32 \<Rightarrow> u32" where "set_pte_C pte2 = set_bit 7 pte2"
definition set_pte_R :: "u32 \<Rightarrow> u32" where "set_pte_R pte2 = set_bit 8 pte2"

datatype TranslateAddressResultEnum = BAT_TRANSLATED | PAGE_TABLE_TRANSLATED | DIRECT_STORE_SEGMENT | PAGE_FAULT

record TranslateAddressResult =
  tr_address :: u32
  tr_result :: TranslateAddressResultEnum
  tr_wi :: bool

definition Success :: "TranslateAddressResult \<Rightarrow> bool" where
  "Success r \<longleftrightarrow> tr_result r = BAT_TRANSLATED \<or> tr_result r = PAGE_TABLE_TRANSLATED"

datatype TLBLookupResult = TLB_Found u32 | TLB_NotFound | TLB_UpdateC

definition INVALID_TAG :: u32 where "INVALID_TAG = 0xFFFFFFFF"

abbreviation upd_tlb :: "nat \<Rightarrow> nat \<Rightarrow> (TLBEntry \<Rightarrow> TLBEntry) \<Rightarrow> Interpreter \<Rightarrow> Interpreter" where
  "upd_tlb i j f c \<equiv> c\<lparr>tlb := (tlb c)(i := (tlb c i)(j := f (tlb c i j)))\<rparr>"

definition tlb_index :: "XCheckTLBFlag \<Rightarrow> nat" where
  "tlb_index flag = (if IsOpcodeFlag flag then 1 else 0)"

definition tlb_set :: "u32 \<Rightarrow> nat" where
  "tlb_set vpa = unat (drop_bit HW_PAGE_INDEX_SHIFT vpa AND HW_PAGE_INDEX_MASK)"

text \<open>
  One way of the translation cache that holds the page; the memory attributes it also delivers are
  dropped by the caller, whose result keeps the default \<open>wi = false\<close>.
\<close>

definition hit_way :: "XCheckTLBFlag \<Rightarrow> u32 \<Rightarrow> nat \<Rightarrow> Interpreter \<Rightarrow> TLBLookupResult \<times> Interpreter" where
  "hit_way flag vpa w c =
    (let i = tlb_index flag; j = tlb_set vpa; tlbe = tlb c i j
     in if flag = XWrite \<and> \<not> pte_C (tlb_pte tlbe w)
        then (TLB_UpdateC, upd_tlb i j (\<lambda>e. e\<lparr>tlb_pte := (tlb_pte e)(w := set_pte_C (tlb_pte e w))\<rparr>) c)
        else (TLB_Found (tlb_paddr tlbe w OR (vpa AND 0xfff)),
              if IsNoExceptionFlag flag then c else upd_tlb i j (\<lambda>e. e\<lparr>tlb_recent := word_of_nat w\<rparr>) c))"

definition LookupTLBPageAddress :: "XCheckTLBFlag \<Rightarrow> u32 \<Rightarrow> u32 \<Rightarrow> Interpreter \<Rightarrow> TLBLookupResult \<times> Interpreter" where
  "LookupTLBPageAddress flag vpa vsid c =
    (let tag = drop_bit HW_PAGE_INDEX_SHIFT vpa; tlbe = tlb c (tlb_index flag) (tlb_set vpa)
     in if tlb_tag tlbe 0 = tag \<and> tlb_vsid tlbe 0 = vsid then hit_way flag vpa 0 c
        else if tlb_tag tlbe 1 = tag \<and> tlb_vsid tlbe 1 = vsid then hit_way flag vpa 1 c
        else (TLB_NotFound, c))"

definition UpdateTLBEntry :: "XCheckTLBFlag \<Rightarrow> u32 \<Rightarrow> u32 \<Rightarrow> u32 \<Rightarrow> Interpreter \<Rightarrow> Interpreter" where
  "UpdateTLBEntry flag pte2 address vsid c =
    (if IsNoExceptionFlag flag then c
     else let i = tlb_index flag; j = tlb_set address; tlbe = tlb c i j;
              w = (if tlb_recent tlbe = 0 \<and> tlb_tag tlbe 0 \<noteq> INVALID_TAG then 1 else 0)
          in upd_tlb i j (\<lambda>e. e\<lparr>tlb_recent := word_of_nat w,
               tlb_paddr := (tlb_paddr e)(w := push_bit HW_PAGE_INDEX_SHIFT (pte_RPN pte2)),
               tlb_pte := (tlb_pte e)(w := pte2),
               tlb_tag := (tlb_tag e)(w := drop_bit HW_PAGE_INDEX_SHIFT address),
               tlb_vsid := (tlb_vsid e)(w := vsid)\<rparr>) c)"

definition InvalidateTLBEntry :: "u32 \<Rightarrow> Interpreter \<Rightarrow> Interpreter" where
  "InvalidateTLBEntry address c =
    (let j = tlb_set address; free = (\<lambda>e. e\<lparr>tlb_tag := \<lambda>_. INVALID_TAG\<rparr>);
         c1 = upd_tlb 1 j free (upd_tlb 0 j free c)
     in if bit (msr c1) MSR_DR then PageTableUpdated c1 else c1\<lparr>pagetable_update_pending := True\<rparr>)"

definition SDRUpdated :: "Interpreter \<Rightarrow> Interpreter" where
  "SDRUpdated c =
    (let sdr = spr c SPR_SDR; htabmask = bit_field 0 9 sdr; htaborg = bit_field 16 16 sdr
     in PageTableUpdated (c\<lparr>pagetable_base := push_bit 16 htaborg,
          pagetable_mask := push_bit 16 htabmask OR 0xffc0\<rparr>))"

text \<open>The walk of one group of eight entries: the address of the first that matches.\<close>

definition pte_read_flag :: "XCheckTLBFlag \<Rightarrow> XCheckTLBFlag" where
  "pte_read_flag flag = (if IsNoExceptionFlag flag then XNoException else XRead)"

primrec search_pteg :: "'d bus \<Rightarrow> XCheckTLBFlag \<Rightarrow> u32 \<Rightarrow> u32 \<Rightarrow> nat \<Rightarrow> 'd Cpu \<Rightarrow> u32 option \<times> 'd Cpu" where
  "search_pteg B flag pte1 pteg_addr 0 s = (None, s)"
| "search_pteg B flag pte1 pteg_addr (Suc k) s =
    (case ReadPhysical B (pte_read_flag flag) pteg_addr 4 s of (pteg, s1) \<Rightarrow>
       if ucast pteg = pte1 then (Some pteg_addr, s1) else search_pteg B flag pte1 (pteg_addr + 8) k s1)"

definition set_access_bits :: "XCheckTLBFlag \<Rightarrow> u32 \<Rightarrow> u32" where
  "set_access_bits flag pte2 =
    (case flag of XNoException \<Rightarrow> pte2 | XOpcodeNoException \<Rightarrow> pte2 | XRead \<Rightarrow> set_pte_R pte2
     | XWrite \<Rightarrow> set_pte_C (set_pte_R pte2) | XOpcode \<Rightarrow> set_pte_R pte2)"

definition mem_Write_U32 :: "u32 \<Rightarrow> u32 \<Rightarrow> 'd Cpu \<Rightarrow> 'd Cpu" where
  "mem_Write_U32 value a s = upd_memory (\<lambda>m. m\<lparr>mem_host := Write_U32 value a (mem_host m)\<rparr>) s"

text \<open>The entry found: its access bits are set in memory, and it enters the translation cache.\<close>

definition use_pte :: "'d bus \<Rightarrow> XCheckTLBFlag \<Rightarrow> TLBLookupResult \<Rightarrow> u32 \<Rightarrow> u32 \<Rightarrow> u32 \<Rightarrow> 'd Cpu \<Rightarrow> TranslateAddressResult \<times> 'd Cpu" where
  "use_pte B flag res address vsid pteg_addr s =
    (case ReadPhysical B (pte_read_flag flag) (pteg_addr + 4) 4 s of (v, s1) \<Rightarrow>
       let old_pte2 = ucast v; pte2 = set_access_bits flag old_pte2;
           s2 = (if \<not> IsNoExceptionFlag flag \<and> pte2 \<noteq> old_pte2 then mem_Write_U32 pte2 (pteg_addr + 4) s1 else s1);
           s3 = (if res \<noteq> TLB_UpdateC then upd_core (UpdateTLBEntry flag pte2 address vsid) s2 else s2)
       in (\<lparr>tr_address = push_bit 12 (pte_RPN pte2) OR EffectiveAddress_offset address,
            tr_result = PAGE_TABLE_TRANSLATED, tr_wi = False\<rparr>, s3))"

definition fault_result :: "TranslateAddressResultEnum \<Rightarrow> TranslateAddressResult" where
  "fault_result e = \<lparr>tr_address = 0, tr_result = e, tr_wi = False\<rparr>"

definition pteg_address :: "u32 \<Rightarrow> Interpreter \<Rightarrow> u32" where
  "pteg_address hash c = (push_bit 6 hash AND pagetable_mask c) OR pagetable_base c"

definition TranslatePageAddress :: "'d bus \<Rightarrow> XCheckTLBFlag \<Rightarrow> u32 \<Rightarrow> 'd Cpu \<Rightarrow> TranslateAddressResult \<times> 'd Cpu" where
  "TranslatePageAddress B flag address s =
    (let sr = sr_regs (core s) (EffectiveAddress_SR address); vsid = sr_VSID sr
     in case LookupTLBPageAddress flag address vsid (core s) of (res, c1) \<Rightarrow>
        let s1 = s\<lparr>core := c1\<rparr>
        in case res of
             TLB_Found translated_address \<Rightarrow>
               (\<lparr>tr_address = translated_address, tr_result = PAGE_TABLE_TRANSLATED, tr_wi = False\<rparr>, s1)
           | _ \<Rightarrow>
             if sr_T sr then (fault_result DIRECT_STORE_SEGMENT, s1)
             else if IsOpcodeFlag flag \<and> sr_N sr then (fault_result PAGE_FAULT, s1)
             else let hash = vsid XOR EffectiveAddress_page_index address; api = EffectiveAddress_API address
                  in case search_pteg B flag (UPTE_Lo vsid False api) (pteg_address hash (core s1)) 8 s1 of
                       (Some a, s2) \<Rightarrow> use_pte B flag res address vsid a s2
                     | (None, s2) \<Rightarrow>
                       (case search_pteg B flag (UPTE_Lo vsid True api) (pteg_address (NOT hash) (core s2)) 8 s2 of
                          (Some a, s3) \<Rightarrow> use_pte B flag res address vsid a s3
                        | (None, s3) \<Rightarrow> (fault_result PAGE_FAULT, s3)))"

definition TranslateAddress :: "'d bus \<Rightarrow> XCheckTLBFlag \<Rightarrow> u32 \<Rightarrow> 'd Cpu \<Rightarrow> TranslateAddressResult \<times> 'd Cpu" where
  "TranslateAddress B flag address s =
    (case TranslateBatAddress (if IsOpcodeFlag flag then m_ibat_table s else m_dbat_table s) address of
       Some (a, wi) \<Rightarrow> (\<lparr>tr_address = a, tr_result = BAT_TRANSLATED, tr_wi = wi\<rparr>, s)
     | None \<Rightarrow> TranslatePageAddress B flag address s)"

definition GetTranslatedAddress :: "'d bus \<Rightarrow> u32 \<Rightarrow> 'd Cpu \<Rightarrow> u32 option \<times> 'd Cpu" where
  "GetTranslatedAddress B address s =
    (case TranslateAddress B XNoException address s of (r, s1) \<Rightarrow> (if Success r then Some (tr_address r) else None, s1))"

section \<open>Exceptions\<close>

definition mmu_GenerateDSIException :: "u32 \<Rightarrow> bool \<Rightarrow> 'd Cpu \<Rightarrow> 'd Cpu" where
  "mmu_GenerateDSIException effective_address write s =
    (if \<not> IsMMUMode s then panic_break s
     else upd_core (\<lambda>c. raise_exception EXCEPTION_DSI
            (set_spr SPR_DAR effective_address
              (set_spr SPR_DSISR (if write then push_bit 30 1 OR push_bit 25 1 else push_bit 30 1) c))) s)"

definition GenerateISIException :: "u32 \<Rightarrow> 'd Cpu \<Rightarrow> 'd Cpu" where
  "GenerateISIException effective_address s =
    upd_core (\<lambda>c. raise_exception EXCEPTION_ISI (c\<lparr>ppc_npc := effective_address\<rparr>)) s"

section \<open>Reads\<close>

definition read_translated :: "'d bus \<Rightarrow> XCheckTLBFlag \<Rightarrow> u32 \<Rightarrow> nat \<Rightarrow> 'd Cpu \<Rightarrow> u64 \<times> 'd Cpu" where
  "read_translated B flag em_address n s =
    (if bit (msr (core s)) (if IsOpcodeFlag flag then MSR_IR else MSR_DR)
     then case TranslateAddress B flag em_address s of (r, s1) \<Rightarrow>
       if Success r then read_physical B flag (tr_wi r) (tr_address r) n s1
       else (0, if flag = XRead then mmu_GenerateDSIException em_address False s1 else s1)
     else read_physical B flag False em_address n s)"

definition ReadFromHardware :: "'d bus \<Rightarrow> XCheckTLBFlag \<Rightarrow> u32 \<Rightarrow> nat \<Rightarrow> 'd Cpu \<Rightarrow> u64 \<times> 'd Cpu" where
  "ReadFromHardware B flag = paged_read (read_translated B flag)"

definition mmu_Read :: "'d bus \<Rightarrow> nat \<Rightarrow> u32 \<Rightarrow> 'd Cpu \<Rightarrow> u64 \<times> 'd Cpu" where
  "mmu_Read B n address s = ReadFromHardware B XRead address n s"

text \<open>Instructions: the word, or \<open>None\<close> if the translation fails.\<close>

definition TryReadInstruction :: "'d bus \<Rightarrow> u32 \<Rightarrow> 'd Cpu \<Rightarrow> u32 option \<times> 'd Cpu" where
  "TryReadInstruction B address s =
    (let fetch = (\<lambda>a t. if has_fakevmem (m_memory t) \<and> a AND 0xFE000000 = 0x7E000000
           then (Some (swap32 (le_word (plain_bytes (m_fakevmem (m_memory t)) (a AND m_fakevmem_mask (m_memory t)) 4))), t)
           else case ReadInstruction (m_disable_icache t) (sprs t SPR_HID0) a (iCache t, m_memory t) of
             (hex, c, m) \<Rightarrow> (Some hex, t\<lparr>iCache := c, m_memory := m\<rparr>))
     in if bit (msr (core s)) MSR_IR
        then case TranslateAddress B XOpcode address s of (r, s1) \<Rightarrow>
          if Success r then fetch (tr_address r) s1 else (None, s1)
        else fetch address s)"

definition Read_Opcode :: "'d bus \<Rightarrow> u32 \<Rightarrow> 'd Cpu \<Rightarrow> u32 \<times> 'd Cpu" where
  "Read_Opcode B address s =
    (case TryReadInstruction B address s of
       (Some hex, s1) \<Rightarrow> (hex, s1)
     | (None, s1) \<Rightarrow> (0, GenerateISIException address s1))"

end
