(* ===== verification/Ppc_Access.thy ===== *)
theory Ppc_Access
  imports Ppc_Mmu
begin

text \<open>
  The rest of \<open>Core/PowerPC/MMU.cpp\<close>: writes, the operations on lines of the data cache, the
  transfers of the locked cache, and the accesses of the host (the debugger, cheats and patches).
\<close>

section \<open>Writes\<close>

text \<open>The bytes of the access, in the order of memory.\<close>

definition swapped_bytes :: "u32 \<Rightarrow> nat \<Rightarrow> u8 list" where
  "swapped_bytes data n = take n (le_bytes 4 (swap32 (word_rotr (n * 8) data)))"

text \<open>Registers and the gather pipe take sizes other than 1, 2 and 4 byte by byte.\<close>

primrec gather_bytes :: "'d bus \<Rightarrow> u32 \<Rightarrow> nat \<Rightarrow> 'd Cpu \<Rightarrow> 'd Cpu" where
  "gather_bytes B data 0 s = s"
| "gather_bytes B data (Suc k) s = gather_bytes B data k (gpfifo_Write8 B (ucast (drop_bit (8 * k) data)) s)"

definition gather_write :: "'d bus \<Rightarrow> u32 \<Rightarrow> nat \<Rightarrow> 'd Cpu \<Rightarrow> 'd Cpu" where
  "gather_write B data n s =
    (if n = 1 then gpfifo_Write8 B (ucast data) s
     else if n = 2 then gpfifo_Write16 B (ucast data) s
     else if n = 4 then gpfifo_Write32 B data s
     else gather_bytes B data n s)"

primrec mmio_bytes :: "'d bus \<Rightarrow> u32 \<Rightarrow> u32 \<Rightarrow> nat \<Rightarrow> 'd Cpu \<Rightarrow> 'd Cpu" where
  "mmio_bytes B a data 0 s = s"
| "mmio_bytes B a data (Suc k) s =
    mmio_bytes B (a + 1) data k (mmio_Write B 1 a (ucast (ucast (drop_bit (8 * k) data) :: u8)) s)"

definition mmio_write :: "'d bus \<Rightarrow> u32 \<Rightarrow> u32 \<Rightarrow> nat \<Rightarrow> 'd Cpu \<Rightarrow> 'd Cpu" where
  "mmio_write B a data n s =
    (if n = 1 then mmio_Write B 1 a (ucast (ucast data :: u8)) s
     else if n = 2 then mmio_Write B 2 a (ucast (ucast data :: u16)) s
     else if n = 4 then mmio_Write B 4 a data s
     else mmio_bytes B a data n s)"

text \<open>Destinations that come before main memory: gather pipe, frame buffer, registers, locked cache.\<close>

definition write_special :: "'d bus \<Rightarrow> XCheckTLBFlag \<Rightarrow> u32 \<Rightarrow> u32 \<Rightarrow> nat \<Rightarrow> 'd Cpu \<Rightarrow> 'd Cpu option" where
  "write_special B flag a data n s =
    (if flag = XWrite \<and> a AND 0xFFFFF000 = GATHER_PIPE_PHYSICAL_ADDRESS then Some (gather_write B data n s)
     else if flag = XWrite \<and> a AND 0xF8000000 = 0x08000000
     then Some (if a < 0x0c000000 then EFB_Write B data a s else mmio_write B a data n s)
     else if drop_bit 28 a = 0xE \<and> a < 0xE0000000 + m_l1_cache_size (m_memory s)
     then Some (upd_memory (\<lambda>m. m\<lparr>m_l1_cache := store_bytes (a AND 0x0FFFFFFF) (swapped_bytes data n) (m_l1_cache m)\<rparr>) s)
     else None)"

definition dcache_Write :: "u32 \<Rightarrow> u8 list \<Rightarrow> 'd Cpu \<Rightarrow> 'd Cpu" where
  "dcache_Write a bytes s =
    (case cache_Write a bytes (bit (sprs s SPR_HID0) HID0_DLOCK) (dCache s, m_memory s) of
       (c, m) \<Rightarrow> s\<lparr>dCache := c, m_memory := m\<rparr>)"

text \<open>A write to one of the two memories: into the cache, into memory, or for the host into both.\<close>

definition write_region :: "XCheckTLBFlag \<Rightarrow> bool \<Rightarrow> region \<Rightarrow> u32 \<Rightarrow> u32 \<Rightarrow> u8 list \<Rightarrow> 'd Cpu \<Rightarrow> 'd Cpu" where
  "write_region flag wi rg offset cache_address bytes s =
    (let s1 = (if m_enable_dcache s \<and> \<not> wi then dcache_Write cache_address bytes s else s)
     in if \<not> m_enable_dcache s \<or> wi \<or> flag \<noteq> XWrite
        then upd_memory (\<lambda>m. m\<lparr>mem_host := set_region_bytes rg (store_bytes offset bytes (region_byte (mem_host m) rg)) (mem_host m)\<rparr>) s1
        else s1)"

definition write_memory :: "XCheckTLBFlag \<Rightarrow> bool \<Rightarrow> u32 \<Rightarrow> u32 \<Rightarrow> nat \<Rightarrow> 'd Cpu \<Rightarrow> 'd Cpu" where
  "write_memory flag wi a data n s =
    (if a AND 0xF8000000 = 0
     then let b = a AND h_ram_mask (main_memory s) in write_region flag wi Ram b b (swapped_bytes data n) s
     else if has_exram s \<and> drop_bit 28 a = 1 \<and> a AND 0x0FFFFFFF < h_exram_size (main_memory s)
     then let b = a AND 0x0FFFFFFF in write_region flag wi ExRam b (b + 0x10000000) (swapped_bytes data n) s
     else if has_fakevmem (m_memory s) \<and> a AND 0xFE000000 = 0x7E000000
     then upd_memory (\<lambda>m. m\<lparr>m_fakevmem := store_bytes (a AND m_fakevmem_mask m) (swapped_bytes data n) (m_fakevmem m)\<rparr>) s
     else panic_break s)"

definition write_uncached :: "'d bus \<Rightarrow> XCheckTLBFlag \<Rightarrow> u32 \<Rightarrow> u32 \<Rightarrow> nat \<Rightarrow> 'd Cpu \<Rightarrow> 'd Cpu" where
  "write_uncached B flag a data n s =
    (case write_special B flag a data n s of Some s1 \<Rightarrow> s1 | None \<Rightarrow> write_memory flag False a data n s)"

text \<open>
  A write-through or cache-inhibited write that is not a whole aligned word fills the aligned
  double words around it; its inner accesses are aligned words of no page attribute.
\<close>

primrec duplicate_word :: "'d bus \<Rightarrow> XCheckTLBFlag \<Rightarrow> u32 \<Rightarrow> u32 \<Rightarrow> nat \<Rightarrow> 'd Cpu \<Rightarrow> 'd Cpu" where
  "duplicate_word B flag addr rotated_data 0 s = s"
| "duplicate_word B flag addr rotated_data (Suc k) s =
    duplicate_word B flag (addr + 8) rotated_data k
      (write_uncached B flag (addr + 4) rotated_data 4 (write_uncached B flag addr rotated_data 4 s))"

definition AlignDown8 :: "u32 \<Rightarrow> u32" where "AlignDown8 a = a AND NOT 7"
definition AlignUp8 :: "u32 \<Rightarrow> u32" where "AlignUp8 a = (a + 7) AND NOT 7"

definition write_physical :: "'d bus \<Rightarrow> XCheckTLBFlag \<Rightarrow> bool \<Rightarrow> u32 \<Rightarrow> u32 \<Rightarrow> nat \<Rightarrow> 'd Cpu \<Rightarrow> 'd Cpu" where
  "write_physical B flag wi a data n s =
    (case write_special B flag a data n s of Some s1 \<Rightarrow> s1
     | None \<Rightarrow>
       if wi \<and> (n < 4 \<or> a AND 3 \<noteq> 0)
       then let rotated_data = word_rotr ((unat (a AND 3) + n) * 8) data;
                start_addr = AlignDown8 a; end_addr = AlignUp8 (a + word_of_nat n)
            in duplicate_word B flag start_addr rotated_data (unat (end_addr - start_addr) div 8) (bus_error_interrupt B s)
       else write_memory flag wi a data n s)"

definition write_translated :: "'d bus \<Rightarrow> XCheckTLBFlag \<Rightarrow> u32 \<Rightarrow> u32 \<Rightarrow> nat \<Rightarrow> 'd Cpu \<Rightarrow> 'd Cpu" where
  "write_translated B flag em_address data n s =
    (if bit (msr (core s)) MSR_DR
     then case TranslateAddress B flag em_address s of (r, s1) \<Rightarrow>
       if Success r then write_physical B flag (tr_wi r) (tr_address r) data n s1
       else if flag = XWrite then mmu_GenerateDSIException em_address True s1 else s1
     else write_physical B flag False em_address data n s)"

text \<open>An access across a page is made in two halves.\<close>

definition paged_write :: "(u32 \<Rightarrow> u32 \<Rightarrow> nat \<Rightarrow> 's \<Rightarrow> 's) \<Rightarrow> u32 \<Rightarrow> u32 \<Rightarrow> nat \<Rightarrow> 's \<Rightarrow> 's" where
  "paged_write f a data n s =
    (if crosses_page a n
     then let end_page = (a + word_of_nat n - 1) AND NOT HW_PAGE_MASK;
              first_half = unat (end_page - a); second_half = n - first_half
          in f end_page data second_half (f a (word_rotr (second_half * 8) data) first_half s)
     else f a data n s)"

definition WriteToHardware :: "'d bus \<Rightarrow> XCheckTLBFlag \<Rightarrow> u32 \<Rightarrow> u32 \<Rightarrow> nat \<Rightarrow> 'd Cpu \<Rightarrow> 'd Cpu" where
  "WriteToHardware B flag = paged_write (write_translated B flag)"

definition WritePhysical :: "'d bus \<Rightarrow> XCheckTLBFlag \<Rightarrow> u32 \<Rightarrow> u32 \<Rightarrow> nat \<Rightarrow> 'd Cpu \<Rightarrow> 'd Cpu" where
  "WritePhysical B flag = paged_write (write_physical B flag False)"

definition mmu_Write :: "'d bus \<Rightarrow> nat \<Rightarrow> u32 \<Rightarrow> u32 \<Rightarrow> 'd Cpu \<Rightarrow> 'd Cpu" where
  "mmu_Write B n var address s = WriteToHardware B XWrite address var n s"

definition mmu_Write_U64 :: "'d bus \<Rightarrow> u64 \<Rightarrow> u32 \<Rightarrow> 'd Cpu \<Rightarrow> 'd Cpu" where
  "mmu_Write_U64 B var address s =
    WriteToHardware B XWrite (address + 4) (ucast var) 4
      (WriteToHardware B XWrite address (ucast (drop_bit 32 var)) 4 s)"

definition mmu_Write_U16_Swap :: "'d bus \<Rightarrow> u32 \<Rightarrow> u32 \<Rightarrow> 'd Cpu \<Rightarrow> 'd Cpu" where
  "mmu_Write_U16_Swap B var address s =
    mmu_Write B 2 ((var AND 0xFFFF0000) OR ucast (swap16 (ucast var))) address s"

definition mmu_Write_U32_Swap :: "'d bus \<Rightarrow> u32 \<Rightarrow> u32 \<Rightarrow> 'd Cpu \<Rightarrow> 'd Cpu" where
  "mmu_Write_U32_Swap B var address s = mmu_Write B 4 (swap32 var) address s"

definition mmu_Write_U64_Swap :: "'d bus \<Rightarrow> u64 \<Rightarrow> u32 \<Rightarrow> 'd Cpu \<Rightarrow> 'd Cpu" where
  "mmu_Write_U64_Swap B var address s = mmu_Write_U64 B (swap64 var) address s"

section \<open>Lines of the data cache\<close>

definition line_address :: "u32 \<Rightarrow> u32" where
  "line_address address = address AND NOT 0x1F"

text \<open>
  The translation of the line instructions: \<open>op\<close> acts on the physical address; \<open>dsi\<close> says whether a
  page fault raises an exception.  Direct-store segments are ignored.
\<close>

definition on_line :: "'d bus \<Rightarrow> bool \<Rightarrow> (u32 \<Rightarrow> 'd Cpu \<Rightarrow> 'd Cpu) \<Rightarrow> u32 \<Rightarrow> 'd Cpu \<Rightarrow> 'd Cpu" where
  "on_line B dsi op address s =
    (if bit (msr (core s)) MSR_DR
     then case TranslateAddress B XWrite address s of (r, s1) \<Rightarrow>
       (case tr_result r of
          DIRECT_STORE_SEGMENT \<Rightarrow> s1
        | PAGE_FAULT \<Rightarrow> (if dsi then mmu_GenerateDSIException address True s1 else s1)
        | _ \<Rightarrow> op (tr_address r) s1)
     else op address s)"

definition with_dcache :: "(Cache \<times> MemoryManager \<Rightarrow> Cache \<times> MemoryManager) \<Rightarrow> 'd Cpu \<Rightarrow> 'd Cpu" where
  "with_dcache f s =
    (if m_enable_dcache s then case f (dCache s, m_memory s) of (c, m) \<Rightarrow> s\<lparr>dCache := c, m_memory := m\<rparr> else s)"

definition ClearDCacheLine :: "'d bus \<Rightarrow> u32 \<Rightarrow> 'd Cpu \<Rightarrow> 'd Cpu" where
  "ClearDCacheLine B =
    on_line B True (\<lambda>a. fold (\<lambda>i. WritePhysical B XWrite (a + i) 0 4) [0, 4, 8, 12, 16, 20, 24, 28])"

definition StoreDCacheLine :: "'d bus \<Rightarrow> u32 \<Rightarrow> 'd Cpu \<Rightarrow> 'd Cpu" where
  "StoreDCacheLine B address = on_line B True (\<lambda>a. with_dcache (cache_Store a)) (line_address address)"

definition InvalidateDCacheLine :: "'d bus \<Rightarrow> u32 \<Rightarrow> 'd Cpu \<Rightarrow> 'd Cpu" where
  "InvalidateDCacheLine B address = on_line B False (\<lambda>a. with_dcache (cache_Invalidate a)) (line_address address)"

definition FlushDCacheLine :: "'d bus \<Rightarrow> u32 \<Rightarrow> 'd Cpu \<Rightarrow> 'd Cpu" where
  "FlushDCacheLine B address = on_line B True (\<lambda>a. with_dcache (cache_Flush a)) (line_address address)"

definition TouchDCacheLine :: "'d bus \<Rightarrow> u32 \<Rightarrow> 'd Cpu \<Rightarrow> 'd Cpu" where
  "TouchDCacheLine B address = on_line B True (\<lambda>a. with_dcache (cache_Touch a)) (line_address address)"

section \<open>Transfers of the locked cache\<close>

definition lc_word :: "'d Cpu \<Rightarrow> u32 \<Rightarrow> u32" where
  "lc_word s cache_address = swap32 (le_word (plain_bytes (m_l1_cache (m_memory s)) (cache_address AND 0x3FFFF) 4))"

definition lc_store :: "u32 \<Rightarrow> u8 list \<Rightarrow> 'd Cpu \<Rightarrow> 'd Cpu" where
  "lc_store cache_address bytes s =
    upd_memory (\<lambda>m. m\<lparr>m_l1_cache := store_bytes (cache_address AND 0x3FFFF) bytes (m_l1_cache m)\<rparr>) s"

abbreviation dma_words :: "nat \<Rightarrow> u32 list" where
  "dma_words num_blocks \<equiv> map (\<lambda>k. word_of_nat (4 * k)) [0..<8 * num_blocks]"

definition DMA_LCToMemory :: "'d bus \<Rightarrow> u32 \<Rightarrow> u32 \<Rightarrow> nat \<Rightarrow> 'd Cpu \<Rightarrow> 'd Cpu" where
  "DMA_LCToMemory B mem_address cache_address num_blocks s =
    (if mem_address AND 0x0F000000 = 0x08000000
     then fold (\<lambda>i t. EFB_Write B (lc_word t (cache_address + i)) (mem_address + i) t) (dma_words num_blocks) s
     else if mem_address AND 0x0F000000 = 0x0C000000
     then fold (\<lambda>i t. mmio_Write B 4 (mem_address + i) (lc_word t (cache_address + i)) t) (dma_words num_blocks) s
     else upd_memory (\<lambda>m. mem_CopyToEmu mem_address
            (plain_bytes (m_l1_cache m) (cache_address AND 0x3FFFF) (32 * num_blocks)) m) s)"

definition DMA_MemoryToLC :: "'d bus \<Rightarrow> u32 \<Rightarrow> u32 \<Rightarrow> nat \<Rightarrow> 'd Cpu \<Rightarrow> 'd Cpu" where
  "DMA_MemoryToLC B cache_address mem_address num_blocks s =
    (if mem_address AND 0x0F000000 = 0x08000000
     then fold (\<lambda>i t. lc_store (cache_address + i) (le_bytes 4 (swap32 (EFB_Read B (mem_address + i) t))) t) (dma_words num_blocks) s
     else if mem_address AND 0x0F000000 = 0x0C000000
     then fold (\<lambda>i t. case mmio_Read B 4 (mem_address + i) t of
            (v, t1) \<Rightarrow> lc_store (cache_address + i) (le_bytes 4 (swap32 (ucast v))) t1) (dma_words num_blocks) s
     else lc_store cache_address
            (CopyFromEmu (main_memory s) (plain_bytes (m_l1_cache (m_memory s)) (cache_address AND 0x3FFFF) (32 * num_blocks)) mem_address) s)"

section \<open>Accesses of the host\<close>

definition IsPhysicalRAMAddress :: "u32 \<Rightarrow> 'd Cpu \<Rightarrow> bool" where
  "IsPhysicalRAMAddress address s \<longleftrightarrow>
    (let segment = drop_bit 28 address
     in (segment = 0 \<and> address AND 0x0FFFFFFF < h_ram_size (main_memory s))
        \<or> (has_exram s \<and> segment = 1 \<and> address AND 0x0FFFFFFF < h_exram_size (main_memory s))
        \<or> (has_fakevmem (m_memory s) \<and> address AND 0xFE000000 = 0x7E000000)
        \<or> (segment = 0xE \<and> address < 0xE0000000 + m_l1_cache_size (m_memory s)))"

definition IsEffectiveRAMAddress :: "'d bus \<Rightarrow> XCheckTLBFlag \<Rightarrow> u32 \<Rightarrow> 'd Cpu \<Rightarrow> bool \<times> 'd Cpu" where
  "IsEffectiveRAMAddress B flag address s =
    (case TranslateAddress B flag address s of (r, s1) \<Rightarrow> (Success r \<and> IsPhysicalRAMAddress (tr_address r) s1, s1))"

datatype RequestedAddressSpace = SpaceEffective | SpacePhysical | SpaceVirtual

definition HostIsRAMAddress :: "'d bus \<Rightarrow> u32 \<Rightarrow> RequestedAddressSpace \<Rightarrow> 'd Cpu \<Rightarrow> bool \<times> 'd Cpu" where
  "HostIsRAMAddress B address space s =
    (case space of
       SpaceEffective \<Rightarrow> if bit (msr (core s)) MSR_DR then IsEffectiveRAMAddress B XNoException address s
                       else (IsPhysicalRAMAddress address s, s)
     | SpacePhysical \<Rightarrow> (IsPhysicalRAMAddress address s, s)
     | SpaceVirtual \<Rightarrow> if bit (msr (core s)) MSR_DR then IsEffectiveRAMAddress B XNoException address s else (False, s))"

definition HostIsInstructionRAMAddress :: "'d bus \<Rightarrow> u32 \<Rightarrow> RequestedAddressSpace \<Rightarrow> 'd Cpu \<Rightarrow> bool \<times> 'd Cpu" where
  "HostIsInstructionRAMAddress B address space s =
    (if address AND 3 \<noteq> 0 then (False, s)
     else case space of
       SpaceEffective \<Rightarrow> if bit (msr (core s)) MSR_IR then IsEffectiveRAMAddress B XOpcodeNoException address s
                       else (IsPhysicalRAMAddress address s, s)
     | SpacePhysical \<Rightarrow> (IsPhysicalRAMAddress address s, s)
     | SpaceVirtual \<Rightarrow> if bit (msr (core s)) MSR_IR then IsEffectiveRAMAddress B XOpcodeNoException address s else (False, s))"

definition HostRead :: "'d bus \<Rightarrow> nat \<Rightarrow> u32 \<Rightarrow> 'd Cpu \<Rightarrow> u64 \<times> 'd Cpu" where
  "HostRead B n address s = ReadFromHardware B XNoException address n s"

definition HostWrite :: "'d bus \<Rightarrow> nat \<Rightarrow> u32 \<Rightarrow> u32 \<Rightarrow> 'd Cpu \<Rightarrow> 'd Cpu" where
  "HostWrite B n var address s = WriteToHardware B XNoException address var n s"

definition HostWrite_U64 :: "'d bus \<Rightarrow> u64 \<Rightarrow> u32 \<Rightarrow> 'd Cpu \<Rightarrow> 'd Cpu" where
  "HostWrite_U64 B var address s =
    WriteToHardware B XNoException (address + 4) (ucast var) 4
      (WriteToHardware B XNoException address (ucast (drop_bit 32 var)) 4 s)"

text \<open>The result says whether the address was translated, with the value.\<close>

definition HostTryRead :: "'d bus \<Rightarrow> nat \<Rightarrow> u32 \<Rightarrow> RequestedAddressSpace \<Rightarrow> 'd Cpu \<Rightarrow> (bool \<times> u64) option \<times> 'd Cpu" where
  "HostTryRead B n address space s =
    (case HostIsRAMAddress B address space s of (ram, s1) \<Rightarrow>
       if \<not> ram then (None, s1)
       else case space of
         SpaceEffective \<Rightarrow> (case ReadFromHardware B XNoException address n s1 of
                           (v, s2) \<Rightarrow> (Some (bit (msr (core s2)) MSR_DR, v), s2))
       | SpacePhysical \<Rightarrow> (case ReadPhysical B XNoException address n s1 of (v, s2) \<Rightarrow> (Some (False, v), s2))
       | SpaceVirtual \<Rightarrow> if \<not> bit (msr (core s1)) MSR_DR then (None, s1)
                       else case ReadFromHardware B XNoException address n s1 of (v, s2) \<Rightarrow> (Some (True, v), s2))"

definition HostTryWrite :: "'d bus \<Rightarrow> nat \<Rightarrow> u32 \<Rightarrow> u32 \<Rightarrow> RequestedAddressSpace \<Rightarrow> 'd Cpu \<Rightarrow> bool option \<times> 'd Cpu" where
  "HostTryWrite B n var address space s =
    (case HostIsRAMAddress B address space s of (ram, s1) \<Rightarrow>
       if \<not> ram then (None, s1)
       else case space of
         SpaceEffective \<Rightarrow> let s2 = WriteToHardware B XNoException address var n s1 in (Some (bit (msr (core s2)) MSR_DR), s2)
       | SpacePhysical \<Rightarrow> (Some False, WritePhysical B XNoException address var n s1)
       | SpaceVirtual \<Rightarrow> if \<not> bit (msr (core s1)) MSR_DR then (None, s1)
                       else (Some True, WriteToHardware B XNoException address var n s1))"

definition HostTryWrite_U64 :: "'d bus \<Rightarrow> u64 \<Rightarrow> u32 \<Rightarrow> RequestedAddressSpace \<Rightarrow> 'd Cpu \<Rightarrow> bool option \<times> 'd Cpu" where
  "HostTryWrite_U64 B var address space s =
    (case HostTryWrite B 4 (ucast (drop_bit 32 var)) address space s of
       (None, s1) \<Rightarrow> (None, s1)
     | (Some _, s1) \<Rightarrow> HostTryWrite B 4 (ucast var) (address + 4) space s1)"

definition HostRead_Instruction :: "'d bus \<Rightarrow> u32 \<Rightarrow> 'd Cpu \<Rightarrow> u64 \<times> 'd Cpu" where
  "HostRead_Instruction B address s = ReadFromHardware B XOpcodeNoException address 4 s"

definition HostTryReadInstruction :: "'d bus \<Rightarrow> u32 \<Rightarrow> RequestedAddressSpace \<Rightarrow> 'd Cpu \<Rightarrow> (bool \<times> u64) option \<times> 'd Cpu" where
  "HostTryReadInstruction B address space s =
    (case HostIsInstructionRAMAddress B address space s of (ram, s1) \<Rightarrow>
       if \<not> ram then (None, s1)
       else case space of
         SpaceEffective \<Rightarrow> (case ReadFromHardware B XOpcodeNoException address 4 s1 of
                           (v, s2) \<Rightarrow> (Some (bit (msr (core s2)) MSR_IR, v), s2))
       | SpacePhysical \<Rightarrow> (case ReadPhysical B XOpcodeNoException address 4 s1 of (v, s2) \<Rightarrow> (Some (False, v), s2))
       | SpaceVirtual \<Rightarrow> if \<not> bit (msr (core s1)) MSR_IR then (None, s1)
                       else case ReadFromHardware B XOpcodeNoException address 4 s1 of (v, s2) \<Rightarrow> (Some (True, v), s2))"

text \<open>
  Strings end at a zero, at memory that is not RAM, or at the size if it is not zero.  The first
  argument of the loops bounds their rounds; \<open>None\<close> says that it was too small.
\<close>

fun HostGetString :: "nat \<Rightarrow> 'd bus \<Rightarrow> u32 \<Rightarrow> nat \<Rightarrow> u8 list \<Rightarrow> 'd Cpu \<Rightarrow> (u8 list \<times> 'd Cpu) option" where
  "HostGetString 0 B address n str s = None"
| "HostGetString (Suc k) B address n str s =
    (case HostIsRAMAddress B address SpaceEffective s of (ram, s1) \<Rightarrow>
       if \<not> ram then Some (str, s1)
       else case HostRead B 1 address s1 of (res, s2) \<Rightarrow>
         if res = 0 then Some (str, s2)
         else let str1 = str @ [ucast res]
              in if n = 0 \<or> length str1 < n then HostGetString k B (address + 1) n str1 s2 else Some (str1, s2))"

fun HostGetU16String :: "nat \<Rightarrow> 'd bus \<Rightarrow> u32 \<Rightarrow> nat \<Rightarrow> u16 list \<Rightarrow> 'd Cpu \<Rightarrow> (u16 list \<times> 'd Cpu) option" where
  "HostGetU16String 0 B address n str s = None"
| "HostGetU16String (Suc k) B address n str s =
    (case HostIsRAMAddress B address SpaceEffective s of (ram1, s1) \<Rightarrow>
       case (if ram1 then HostIsRAMAddress B (address + 1) SpaceEffective s1 else (False, s1)) of (ram, s2) \<Rightarrow>
         if \<not> ram then Some (str, s2)
         else case HostRead B 2 address s2 of (res, s3) \<Rightarrow>
           if res = 0 then Some (str, s3)
           else let str1 = str @ [ucast res]
                in if n = 0 \<or> length str1 < n then HostGetU16String k B (address + 2) n str1 s3 else Some (str1, s3))"

text \<open>The loop of \<open>HostTryReadString\<close> after the first character.\<close>

fun try_string :: "nat \<Rightarrow> 'd bus \<Rightarrow> u32 \<Rightarrow> nat \<Rightarrow> RequestedAddressSpace \<Rightarrow> u8 list \<Rightarrow> 'd Cpu \<Rightarrow> (u8 list \<times> 'd Cpu) option" where
  "try_string 0 B address n space str s = None"
| "try_string (Suc k) B address n space str s =
    (if n = 0 \<or> length str < n
     then case HostTryRead B 1 (address + 1) space s of
            (Some (_, v), s1) \<Rightarrow> if v = 0 then Some (str, s1) else try_string k B (address + 1) n space (str @ [ucast v]) s1
          | (None, s1) \<Rightarrow> Some (str, s1)
     else Some (str, s))"

definition HostTryReadString ::
    "nat \<Rightarrow> 'd bus \<Rightarrow> u32 \<Rightarrow> nat \<Rightarrow> RequestedAddressSpace \<Rightarrow> 'd Cpu \<Rightarrow> ((bool \<times> u8 list) option \<times> 'd Cpu) option" where
  "HostTryReadString k B address n space s =
    (case HostTryRead B 1 address space s of
       (None, s1) \<Rightarrow> Some (None, s1)
     | (Some (translated, v), s1) \<Rightarrow>
         if v = 0 then Some (Some (translated, []), s1)
         else map_option (\<lambda>(str, s2). (Some (translated, str), s2)) (try_string k B address n space [ucast v] s1))"

section \<open>Questions of the recompiler\<close>

definition IsOptimizableRAMAddress :: "'d Cpu \<Rightarrow> u32 \<Rightarrow> u32 \<Rightarrow> bool" where
  "IsOptimizableRAMAddress s address access_size \<longleftrightarrow>
     bit (msr (core s)) MSR_DR \<and> \<not> m_enable_dcache s
     \<and> (let last_byte_address = address + drop_bit 3 access_size - 1;
            bat_result_1 = m_dbat_table s (drop_bit BAT_INDEX_SHIFT address);
            bat_result_2 = m_dbat_table s (drop_bit BAT_INDEX_SHIFT last_byte_address)
        in bat_result_1 AND bat_result_2 AND BAT_PHYSICAL_BIT \<noteq> 0)"

definition IsMMIOAddress :: "u32 \<Rightarrow> bool \<Rightarrow> bool" where
  "IsMMIOAddress address is_wii \<longleftrightarrow>
     address \<noteq> GATHER_PIPE_PHYSICAL_ADDRESS
     \<and> (address AND 0xFFFF0000 = 0x0C000000
        \<or> (is_wii \<and> (address AND 0xFFFF0000 = 0x0D000000 \<or> address AND 0xFFFF0000 = 0x0D800000)))"

definition IsOptimizableMMIOAccess :: "'d Cpu \<Rightarrow> u32 \<Rightarrow> u32 \<Rightarrow> u32" where
  "IsOptimizableMMIOAccess s address access_size =
    (if \<not> bit (msr (core s)) MSR_DR \<or> m_enable_dcache s then 0
     else case TranslateBatAddress (m_dbat_table s) address of
            None \<Rightarrow> 0
          | Some (a, _) \<Rightarrow>
              if a AND (drop_bit 3 access_size - 1) \<noteq> 0 \<or> \<not> IsMMIOAddress a (h_wii_mode (main_memory s)) then 0 else a)"

definition IsOptimizableGatherPipeWrite :: "'d Cpu \<Rightarrow> u32 \<Rightarrow> bool" where
  "IsOptimizableGatherPipeWrite s address \<longleftrightarrow>
     bit (msr (core s)) MSR_DR
     \<and> (case TranslateBatAddress (m_dbat_table s) address of
          None \<Rightarrow> False | Some (a, _) \<Rightarrow> a = GATHER_PIPE_PHYSICAL_ADDRESS)"

text \<open>The address, with whether it was translated and by a block.\<close>

definition JitCache_TranslateAddress :: "'d bus \<Rightarrow> u32 \<Rightarrow> 'd Cpu \<Rightarrow> (bool \<times> bool \<times> u32) option \<times> 'd Cpu" where
  "JitCache_TranslateAddress B address s =
    (if \<not> bit (msr (core s)) MSR_IR then (Some (False, False, address), s)
     else case TranslateAddress B XOpcode address s of (r, s1) \<Rightarrow>
       (if Success r then Some (True, tr_result r = BAT_TRANSLATED, tr_address r) else None, s1))"

end
