(* ===== verification/Ppc_Float.thy ===== *)
theory Ppc_Float
  imports Ppc_Exceptions "HOL-Library.Signed_Division"
begin

text \<open>
  Floating point.  \<open>double\<close> and \<open>float\<close> of the language are bit patterns of the IEEE 754 formats, and the
  arithmetic the interpreter does on them is defined here on exact values, rounded as the mode of
  \<open>Common::FPU::SetSIMDMode\<close> says on the x86-64 host (rounding direction, and denormal results
  flushed to zero).  Then the helpers of \<open>Common/FloatUtils\<close>.
\<close>

section \<open>Values\<close>

text \<open>\<open>Finite s m e\<close> is the number \<open>m * 2 ^ e\<close>, negative if \<open>s\<close>.\<close>

datatype fval = NotANumber | Infinite bool | Finite bool nat int

text \<open>A format has \<open>p\<close> bits of precision and \<open>w\<close> bits of exponent.\<close>

definition exponent_bias :: "nat \<Rightarrow> int" where
  "exponent_bias w = 2 ^ (w - 1) - 1"

definition least_exponent :: "nat \<Rightarrow> nat \<Rightarrow> int" where
  "least_exponent p w = 2 - exponent_bias w - int p"

definition unpack :: "nat \<Rightarrow> nat \<Rightarrow> nat \<Rightarrow> fval" where
  "unpack p w n =
    (let f = n mod 2 ^ (p - 1); x = n div 2 ^ (p - 1) mod 2 ^ w; s = odd (n div 2 ^ (p - 1 + w))
     in if x = 2 ^ w - 1 then (if f = 0 then Infinite s else NotANumber)
        else if x = 0 then Finite s f (least_exponent p w)
        else Finite s (2 ^ (p - 1) + f) (least_exponent p w + int x - 1))"

definition unpack64 :: "u64 \<Rightarrow> fval" where "unpack64 x = unpack 53 11 (unat x)"
definition unpack32 :: "u32 \<Rightarrow> fval" where "unpack32 x = unpack 24 8 (unat x)"

section \<open>Rounding\<close>

text \<open>
  A mode is the rounding direction \<open>FPSCR.RN\<close> (nearest, zero, plus and minus infinity) and whether
  denormal results are flushed.
\<close>

type_synonym fp_mode = "nat \<times> bool"

fun significant_bits :: "nat \<Rightarrow> nat" where
  "significant_bits n = (if n = 0 then 0 else Suc (significant_bits (n div 2)))"

declare significant_bits.simps [simp del]

definition rounds_up :: "nat \<Rightarrow> bool \<Rightarrow> nat \<Rightarrow> nat \<Rightarrow> nat \<Rightarrow> bool" where
  "rounds_up rn s q r n =
    (if rn = 0 then 2 ^ n < 2 * r \<or> (2 ^ n = 2 * r \<and> odd q)
     else if rn = 1 then False
     else if rn = 2 then r \<noteq> 0 \<and> \<not> s
     else r \<noteq> 0 \<and> s)"

definition shift_round :: "nat \<Rightarrow> bool \<Rightarrow> nat \<Rightarrow> nat \<Rightarrow> nat" where
  "shift_round rn s m n =
    (let q = m div 2 ^ n; r = m mod 2 ^ n in if rounds_up rn s q r n then q + 1 else q)"

text \<open>The number in units of \<open>2 ^ lsb\<close>.\<close>

definition in_units :: "nat \<Rightarrow> bool \<Rightarrow> nat \<Rightarrow> int \<Rightarrow> int \<Rightarrow> nat" where
  "in_units rn s m e lsb = (if e \<le> lsb then shift_round rn s m (nat (lsb - e)) else m * 2 ^ nat (e - lsb))"

definition round_magnitude :: "nat \<Rightarrow> nat \<Rightarrow> fp_mode \<Rightarrow> bool \<Rightarrow> nat \<Rightarrow> int \<Rightarrow> nat" where
  "round_magnitude p w mode s m e =
    (case mode of (rn, ftz) \<Rightarrow>
      if m = 0 then 0
      else let top = e + int (significant_bits m) - 1; fine = top - (int p - 1); lsb = max fine (least_exponent p w);
               q = in_units rn s m e lsb;
               bits = (if q < 2 ^ (p - 1) then q else nat (lsb - least_exponent p w + 1) * 2 ^ (p - 1) + (q - 2 ^ (p - 1)));
               tiny = (if in_units rn s m e fine = 2 ^ p then top + 1 else top) < 1 - exponent_bias w;
               infinity = (2 ^ w - 1) * 2 ^ (p - 1)
           in if ftz \<and> tiny then 0
              else if infinity \<le> bits
              then (if rn = 0 \<or> (rn = 2 \<and> \<not> s) \<or> (3 \<le> rn \<and> s) then infinity else infinity - 1)
              else bits)"

definition round_pack :: "nat \<Rightarrow> nat \<Rightarrow> fp_mode \<Rightarrow> bool \<Rightarrow> nat \<Rightarrow> int \<Rightarrow> nat" where
  "round_pack p w mode s m e = (if s then 2 ^ (p - 1 + w) else 0) + round_magnitude p w mode s m e"

abbreviation round64 :: "fp_mode \<Rightarrow> bool \<times> nat \<times> int \<Rightarrow> u64" where
  "round64 mode x \<equiv> (case x of (s, m, e) \<Rightarrow> word_of_nat (round_pack 53 11 mode s m e))"

abbreviation round32 :: "fp_mode \<Rightarrow> bool \<times> nat \<times> int \<Rightarrow> u32" where
  "round32 mode x \<equiv> (case x of (s, m, e) \<Rightarrow> word_of_nat (round_pack 24 8 mode s m e))"

section \<open>Arithmetic\<close>

abbreviation (input) DOUBLE_QBIT :: u64 where "DOUBLE_QBIT \<equiv> 0x0008000000000000"
abbreviation (input) DOUBLE_SIGN :: u64 where "DOUBLE_SIGN \<equiv> 0x8000000000000000"
abbreviation (input) DOUBLE_EXP :: u64 where "DOUBLE_EXP \<equiv> 0x7FF0000000000000"
abbreviation (input) DOUBLE_FRAC :: u64 where "DOUBLE_FRAC \<equiv> 0x000FFFFFFFFFFFFF"
abbreviation (input) FLOAT_SIGN :: u32 where "FLOAT_SIGN \<equiv> 0x80000000"
abbreviation (input) FLOAT_EXP :: u32 where "FLOAT_EXP \<equiv> 0x7F800000"
abbreviation (input) FLOAT_FRAC :: u32 where "FLOAT_FRAC \<equiv> 0x007FFFFF"

text \<open>The invalid result of the host, and the infinities.\<close>

definition default_nan :: u64 where "default_nan = 0xFFF8000000000000"
definition PPC_NAN :: u64 where "PPC_NAN = 0x7FF8000000000000"
definition infinity64 :: "bool \<Rightarrow> u64" where "infinity64 s = (if s then DOUBLE_SIGN OR DOUBLE_EXP else DOUBLE_EXP)"

definition MakeQuiet :: "u64 \<Rightarrow> u64" where "MakeQuiet d = d OR DOUBLE_QBIT"

definition isnan :: "u64 \<Rightarrow> bool" where "isnan x \<longleftrightarrow> unpack64 x = NotANumber"
definition isinf :: "u64 \<Rightarrow> bool" where "isinf x \<longleftrightarrow> x AND NOT DOUBLE_SIGN = DOUBLE_EXP"
definition signbit :: "u64 \<Rightarrow> bool" where "signbit x = bit x 63"
definition negate :: "u64 \<Rightarrow> u64" where "negate x = x XOR DOUBLE_SIGN"
definition fabs :: "u64 \<Rightarrow> u64" where "fabs x = x AND NOT DOUBLE_SIGN"

definition signed_int :: "bool \<Rightarrow> nat \<Rightarrow> int" where
  "signed_int s m = (if s then - int m else int m)"

text \<open>An exact zero has the sign of its terms if they agree, else minus only when rounding down.\<close>

definition exact_sum :: "nat \<Rightarrow> bool \<times> nat \<times> int \<Rightarrow> bool \<times> nat \<times> int \<Rightarrow> bool \<times> nat \<times> int" where
  "exact_sum rn x y =
    (case (x, y) of ((s1, m1, e1), (s2, m2, e2)) \<Rightarrow>
       let e = min e1 e2; v = signed_int s1 (m1 * 2 ^ nat (e1 - e)) + signed_int s2 (m2 * 2 ^ nat (e2 - e))
       in (if v = 0 then (if s1 = s2 then s1 else rn = 3) else v < 0, nat \<bar>v\<bar>, e))"

text \<open>The result of an operation on a NaN: the first one, quiet.\<close>

definition pick_nan :: "u64 list \<Rightarrow> u64" where
  "pick_nan xs = (case filter isnan xs of x # _ \<Rightarrow> MakeQuiet x | [] \<Rightarrow> default_nan)"

definition f_add :: "fp_mode \<Rightarrow> u64 \<Rightarrow> u64 \<Rightarrow> u64" where
  "f_add mode a b =
    (case (unpack64 a, unpack64 b) of
       (Finite s1 m1 e1, Finite s2 m2 e2) \<Rightarrow> round64 mode (exact_sum (fst mode) (s1, m1, e1) (s2, m2, e2))
     | (Infinite s, Infinite t) \<Rightarrow> if s = t then infinity64 s else default_nan
     | (Infinite s, Finite _ _ _) \<Rightarrow> infinity64 s
     | (Finite _ _ _, Infinite t) \<Rightarrow> infinity64 t
     | _ \<Rightarrow> pick_nan [a, b])"

definition f_sub :: "fp_mode \<Rightarrow> u64 \<Rightarrow> u64 \<Rightarrow> u64" where
  "f_sub mode a b = (if isnan a \<or> isnan b then pick_nan [a, b] else f_add mode a (negate b))"

definition f_mul :: "fp_mode \<Rightarrow> u64 \<Rightarrow> u64 \<Rightarrow> u64" where
  "f_mul mode a b =
    (case (unpack64 a, unpack64 b) of
       (Finite s1 m1 e1, Finite s2 m2 e2) \<Rightarrow> round64 mode (s1 \<noteq> s2, m1 * m2, e1 + e2)
     | (Infinite s, Infinite t) \<Rightarrow> infinity64 (s \<noteq> t)
     | (Infinite s, Finite t m _) \<Rightarrow> if m = 0 then default_nan else infinity64 (s \<noteq> t)
     | (Finite s m _, Infinite t) \<Rightarrow> if m = 0 then default_nan else infinity64 (s \<noteq> t)
     | _ \<Rightarrow> pick_nan [a, b])"

text \<open>A quotient is carried to 64 bits more than its divisor has, and a last bit for the remainder.\<close>

definition f_div :: "fp_mode \<Rightarrow> u64 \<Rightarrow> u64 \<Rightarrow> u64" where
  "f_div mode a b =
    (case (unpack64 a, unpack64 b) of
       (Finite s1 m1 e1, Finite s2 m2 e2) \<Rightarrow>
         if m2 = 0 then (if m1 = 0 then default_nan else infinity64 (s1 \<noteq> s2))
         else let n = m1 * 2 ^ 120; q = n div m2; r = n mod m2
              in round64 mode (s1 \<noteq> s2, 2 * q + (if r = 0 then 0 else 1), e1 - e2 - 121)
     | (Infinite s, Infinite t) \<Rightarrow> default_nan
     | (Infinite s, Finite t _ _) \<Rightarrow> infinity64 (s \<noteq> t)
     | (Finite s _ _, Infinite t) \<Rightarrow> round64 mode (s \<noteq> t, 0, 0)
     | _ \<Rightarrow> pick_nan [a, b])"

definition f_fma :: "fp_mode \<Rightarrow> u64 \<Rightarrow> u64 \<Rightarrow> u64 \<Rightarrow> u64" where
  "f_fma mode a c b =
    (case (unpack64 a, unpack64 c, unpack64 b) of
       (Finite s1 m1 e1, Finite s2 m2 e2, Finite s3 m3 e3) \<Rightarrow>
         round64 mode (exact_sum (fst mode) (s1 \<noteq> s2, m1 * m2, e1 + e2) (s3, m3, e3))
     | (Finite _ _ _, Finite _ _ _, Infinite t) \<Rightarrow> infinity64 t
     | _ \<Rightarrow> if isnan a \<or> isnan c \<or> isnan b then pick_nan [a, c, b] else f_add mode (f_mul mode a c) b)"

text \<open>Conversions between the formats; a NaN keeps its sign and payload and becomes quiet.\<close>

definition to_single :: "fp_mode \<Rightarrow> u64 \<Rightarrow> u32" where
  "to_single mode x =
    (case unpack64 x of
       Finite s m e \<Rightarrow> round32 mode (s, m, e)
     | Infinite s \<Rightarrow> (if s then FLOAT_SIGN OR FLOAT_EXP else FLOAT_EXP)
     | NotANumber \<Rightarrow> (if bit x 63 then FLOAT_SIGN else 0) OR FLOAT_EXP OR 0x00400000 OR (ucast (drop_bit 29 x) AND FLOAT_FRAC))"

definition to_double :: "u32 \<Rightarrow> u64" where
  "to_double x =
    (case unpack32 x of
       Finite s m e \<Rightarrow> round64 (0, False) (s, m, e)
     | Infinite s \<Rightarrow> infinity64 s
     | NotANumber \<Rightarrow> (if bit x 31 then DOUBLE_SIGN else 0) OR DOUBLE_EXP OR DOUBLE_QBIT OR push_bit 29 (ucast (x AND FLOAT_FRAC)))"

text \<open>Comparisons: a NaN compares as neither, and the zeros are equal.\<close>

fun value_less :: "fval \<Rightarrow> fval \<Rightarrow> bool" where
  "value_less (Finite s1 m1 e1) (Finite s2 m2 e2) =
    (let e = min e1 e2 in signed_int s1 (m1 * 2 ^ nat (e1 - e)) < signed_int s2 (m2 * 2 ^ nat (e2 - e)))"
| "value_less (Infinite s) (Infinite t) = (s \<and> \<not> t)"
| "value_less (Infinite s) (Finite _ _ _) = s"
| "value_less (Finite _ _ _) (Infinite t) = (\<not> t)"
| "value_less _ _ = False"

definition f_less :: "u64 \<Rightarrow> u64 \<Rightarrow> bool" where
  "f_less a b = value_less (unpack64 a) (unpack64 b)"

definition f_equal :: "u64 \<Rightarrow> u64 \<Rightarrow> bool" where
  "f_equal a b \<longleftrightarrow> \<not> isnan a \<and> \<not> isnan b \<and> \<not> f_less a b \<and> \<not> f_less b a"

definition f_at_least :: "u64 \<Rightarrow> u64 \<Rightarrow> bool" where
  "f_at_least a b \<longleftrightarrow> f_less b a \<or> f_equal a b"

definition is_zero :: "u64 \<Rightarrow> bool" where
  "is_zero x \<longleftrightarrow> x AND NOT DOUBLE_SIGN = 0"

text \<open>Integers: rounding to an integral double (\<open>trunc\<close>, \<open>ceil\<close>, \<open>floor\<close> by direction), and conversion.\<close>

definition round_integral :: "nat \<Rightarrow> u64 \<Rightarrow> u64" where
  "round_integral rn x =
    (case unpack64 x of
       Finite s m e \<Rightarrow> if 0 \<le> e then x else round64 (0, False) (s, shift_round rn s m (nat (- e)), 0)
     | Infinite _ \<Rightarrow> x
     | NotANumber \<Rightarrow> MakeQuiet x)"

definition integer_part :: "fval \<Rightarrow> int" where
  "integer_part v =
    (case v of Finite s m e \<Rightarrow> signed_int s (if 0 \<le> e then m * 2 ^ nat e else m div 2 ^ nat (- e)) | _ \<Rightarrow> 0)"

definition double_of_int :: "int \<Rightarrow> u64" where
  "double_of_int i = round64 (0, False) (i < 0, nat \<bar>i\<bar>, 0)"

section \<open>\<open>Common/FloatUtils\<close>\<close>

definition IsSNAN :: "u64 \<Rightarrow> bool" where
  "IsSNAN d \<longleftrightarrow> d AND DOUBLE_EXP = DOUBLE_EXP \<and> d AND DOUBLE_FRAC \<noteq> 0 \<and> d AND DOUBLE_QBIT = 0"

definition IsQNAN :: "u64 \<Rightarrow> bool" where
  "IsQNAN d \<longleftrightarrow> d AND DOUBLE_EXP = DOUBLE_EXP \<and> d AND DOUBLE_QBIT = DOUBLE_QBIT"

definition FlushToZero64 :: "u64 \<Rightarrow> u64" where
  "FlushToZero64 d = (if d AND DOUBLE_EXP = 0 then d AND DOUBLE_SIGN else d)"

definition FlushToZero32 :: "u32 \<Rightarrow> u32" where
  "FlushToZero32 f = (if f AND FLOAT_EXP = 0 then f AND FLOAT_SIGN else f)"

definition ClassifyDouble :: "u64 \<Rightarrow> u32" where
  "ClassifyDouble d =
    (let s = d AND DOUBLE_SIGN \<noteq> 0; e = d AND DOUBLE_EXP
     in if 0 < e \<and> e < DOUBLE_EXP then (if s then 0x8 else 0x4)
        else if d AND DOUBLE_FRAC \<noteq> 0 then (if e \<noteq> 0 then 0x11 else if s then 0x18 else 0x14)
        else if e \<noteq> 0 then (if s then 0x9 else 0x5)
        else if s then 0x12 else 0x2)"

definition ClassifyFloat :: "u32 \<Rightarrow> u32" where
  "ClassifyFloat f =
    (let s = f AND FLOAT_SIGN \<noteq> 0; e = f AND FLOAT_EXP
     in if 0 < e \<and> e < FLOAT_EXP then (if s then 0x8 else 0x4)
        else if f AND FLOAT_FRAC \<noteq> 0 then (if e \<noteq> 0 then 0x11 else if s then 0x18 else 0x14)
        else if e \<noteq> 0 then (if s then 0x9 else 0x5)
        else if s then 0x12 else 0x2)"

text \<open>Tables of the estimates: base and slope of each segment.\<close>

definition frsqrte_expected :: "(int \<times> int) list" where
  "frsqrte_expected =
    [(0x1a7e800, -0x568), (0x17cb800, -0x4f3), (0x1552800, -0x48d), (0x130c000, -0x435),
     (0x10f2000, -0x3e7), (0x0eff000, -0x3a2), (0x0d2e000, -0x365), (0x0b7c000, -0x32e),
     (0x09e5000, -0x2fc), (0x0867000, -0x2d0), (0x06ff000, -0x2a8), (0x05ab800, -0x283),
     (0x046a000, -0x261), (0x0339800, -0x243), (0x0218800, -0x226), (0x0105800, -0x20b),
     (0x3ffa000, -0x7a4), (0x3c29000, -0x700), (0x38aa000, -0x670), (0x3572000, -0x5f2),
     (0x3279000, -0x584), (0x2fb7000, -0x524), (0x2d26000, -0x4cc), (0x2ac0000, -0x47e),
     (0x2881000, -0x43a), (0x2665000, -0x3fa), (0x2468000, -0x3c2), (0x2287000, -0x38e),
     (0x20c1000, -0x35e), (0x1f12000, -0x332), (0x1d79000, -0x30a), (0x1bf4000, -0x2e6)]"

definition fres_expected :: "(int \<times> int) list" where
  "fres_expected =
    [(0x7ff800, 0x3e1), (0x783800, 0x3a7), (0x70ea00, 0x371), (0x6a0800, 0x340), (0x638800, 0x313),
     (0x5d6200, 0x2ea), (0x579000, 0x2c4), (0x520800, 0x2a0), (0x4cc800, 0x27f), (0x47ca00, 0x261),
     (0x430800, 0x245), (0x3e8000, 0x22a), (0x3a2c00, 0x212), (0x360800, 0x1fb), (0x321400, 0x1e5),
     (0x2e4a00, 0x1d1), (0x2aa800, 0x1be), (0x272c00, 0x1ac), (0x23d600, 0x19b), (0x209e00, 0x18b),
     (0x1d8800, 0x17c), (0x1a9000, 0x16e), (0x17ae00, 0x15b), (0x14f800, 0x15b), (0x124400, 0x143),
     (0x0fbe00, 0x143), (0x0d3800, 0x12d), (0x0ade00, 0x12d), (0x088400, 0x11a), (0x065000, 0x11a),
     (0x041c00, 0x108), (0x020c00, 0x106)]"

text \<open>
  The loop that normalises a denormal number makes at most 52 rounds; the first argument bounds them.
\<close>

fun normalise_double :: "nat \<Rightarrow> u64 \<Rightarrow> u64 \<Rightarrow> u64 \<times> u64" where
  "normalise_double 0 e mantissa = (e, mantissa)"
| "normalise_double (Suc k) e mantissa =
    (let e1 = e - push_bit 52 1; m1 = push_bit 1 mantissa
     in if bit m1 52 then (e1, m1) else normalise_double k e1 m1)"

definition estimate_entry :: "(int \<times> int) list \<Rightarrow> nat \<Rightarrow> int \<times> int" where
  "estimate_entry table i = table ! i"

definition ApproximateReciprocalSquareRoot :: "u64 \<Rightarrow> u64" where
  "ApproximateReciprocalSquareRoot val =
    (let mantissa = val AND DOUBLE_FRAC; s = val AND DOUBLE_SIGN; e = val AND DOUBLE_EXP
     in if mantissa = 0 \<and> e = 0 then s OR DOUBLE_EXP
        else if e = DOUBLE_EXP
        then (if mantissa = 0 then (if s \<noteq> 0 then PPC_NAN else 0) else MakeQuiet val)
        else if s \<noteq> 0 then PPC_NAN
        else case (if e = 0 then (case normalise_double 52 e mantissa of (e1, m1) \<Rightarrow> (e1 + push_bit 52 1, m1 AND DOUBLE_FRAC))
                   else (e, mantissa)) of (e2, m2) \<Rightarrow>
          let exponent_lsb = e2 AND push_bit 52 1;
              e3 = (push_bit 52 0x3FF - word_of_int (sint (e2 - push_bit 52 0x3FE) sdiv 2)) AND push_bit 52 0x7FF;
              i = unat (drop_bit 37 (exponent_lsb OR m2));
              entry = estimate_entry frsqrte_expected (i div 2048)
          in s OR e3 OR push_bit 26 (word_of_int (fst entry + snd entry * int (i mod 2048))))"

definition FLOAT_MAX :: u64 where "FLOAT_MAX = 0x47EFFFFFE0000000"

definition ApproximateReciprocal :: "u64 \<Rightarrow> u64" where
  "ApproximateReciprocal val =
    (let mantissa = val AND DOUBLE_FRAC; s = val AND DOUBLE_SIGN; e = val AND DOUBLE_EXP
     in if mantissa = 0 \<and> e = 0 then s OR DOUBLE_EXP
        else if e = DOUBLE_EXP then (if mantissa = 0 then s else MakeQuiet val)
        else if e < push_bit 52 895 then s OR FLOAT_MAX
        else if push_bit 52 1149 \<le> e then s
        else let i = unat (drop_bit 37 mantissa); entry = estimate_entry fres_expected (i div 1024)
             in s OR (push_bit 52 0x7FD - e) OR push_bit 29 (word_of_int (fst entry - (snd entry * int (i mod 1024) + 1) div 2)))"

end
