(* ===== verification/Ppc_Fpu.thy ===== *)
theory Ppc_Fpu
  imports Ppc_Float Ppc_Branch
begin

text \<open>
  The floating-point instructions, \<open>Core/PowerPC/Interpreter/Interpreter_FloatingPoint.cpp\<close>, with the
  helpers of \<open>Interpreter_FPUtils.h\<close> that detect exceptions and round.  On the x86-64 host the
  mode of \<open>RoundingModeUpdated\<close> flushes denormal results, so \<open>cpu_info.bFlushToZero\<close> holds and the
  explicit flushes of \<open>ForceSingle\<close> and \<open>ForceDouble\<close> are not made.
\<close>

section \<open>Status\<close>

definition inst_FA :: "u32 \<Rightarrow> nat" where "inst_FA i = inst_index 16 5 i"
definition inst_FC :: "u32 \<Rightarrow> nat" where "inst_FC i = inst_index 6 5 i"

abbreviation (input) FPSCR_ZX :: u32 where "FPSCR_ZX \<equiv> 0x04000000"
abbreviation (input) FPSCR_XX :: u32 where "FPSCR_XX \<equiv> 0x02000000"
abbreviation (input) FPSCR_VXSNAN :: u32 where "FPSCR_VXSNAN \<equiv> 0x01000000"
abbreviation (input) FPSCR_VXISI :: u32 where "FPSCR_VXISI \<equiv> 0x00800000"
abbreviation (input) FPSCR_VXIDI :: u32 where "FPSCR_VXIDI \<equiv> 0x00400000"
abbreviation (input) FPSCR_VXZDZ :: u32 where "FPSCR_VXZDZ \<equiv> 0x00200000"
abbreviation (input) FPSCR_VXIMZ :: u32 where "FPSCR_VXIMZ \<equiv> 0x00100000"
abbreviation (input) FPSCR_VXVC :: u32 where "FPSCR_VXVC \<equiv> 0x00080000"
abbreviation (input) FPSCR_VXSQRT :: u32 where "FPSCR_VXSQRT \<equiv> 0x00000200"
abbreviation (input) FPSCR_VXCVI :: u32 where "FPSCR_VXCVI \<equiv> 0x00000100"
abbreviation (input) FPSCR_NI :: nat where "FPSCR_NI \<equiv> 2"
abbreviation (input) FPSCR_ZE :: nat where "FPSCR_ZE \<equiv> 4"
abbreviation (input) FPSCR_VE :: nat where "FPSCR_VE \<equiv> 7"
abbreviation (input) FPSCR_FI :: nat where "FPSCR_FI \<equiv> 17"
abbreviation (input) FPSCR_FR :: nat where "FPSCR_FR \<equiv> 18"
abbreviation (input) FPCC_MASK :: u32 where "FPCC_MASK \<equiv> 0xF000"

text \<open>The mode of the host's floating-point unit, which every change of the register renews.\<close>

definition mode_of :: "Interpreter \<Rightarrow> fp_mode" where
  "mode_of c = (unat (bit_field 0 2 (fpscr c)), bit (fpscr c) FPSCR_NI)"

definition put_fpscr :: "nat \<Rightarrow> bool \<Rightarrow> Interpreter \<Rightarrow> Interpreter" where
  "put_fpscr n b c = c\<lparr>fpscr := put_bit32 n b (fpscr c)\<rparr>"

definition ClearFIFR :: "Interpreter \<Rightarrow> Interpreter" where
  "ClearFIFR c = put_fpscr FPSCR_FR False (put_fpscr FPSCR_FI False c)"

definition get_FPRF :: "Interpreter \<Rightarrow> u32" where
  "get_FPRF c = bit_field 12 5 (fpscr c)"

definition set_FPRF :: "u32 \<Rightarrow> Interpreter \<Rightarrow> Interpreter" where
  "set_FPRF v c = c\<lparr>fpscr := (fpscr c AND NOT 0x1F000) OR (push_bit 12 v AND 0x1F000)\<rparr>"

definition UpdateFPRFDouble :: "u64 \<Rightarrow> Interpreter \<Rightarrow> Interpreter" where
  "UpdateFPRFDouble v c = set_FPRF (ClassifyDouble v) c"

definition UpdateFPRFSingle :: "u32 \<Rightarrow> Interpreter \<Rightarrow> Interpreter" where
  "UpdateFPRFSingle v c = set_FPRF (ClassifyFloat v) c"

definition ps_Fill :: "nat \<Rightarrow> u64 \<Rightarrow> Interpreter \<Rightarrow> Interpreter" where
  "ps_Fill n v c = c\<lparr>ps := (ps c)(n := (v, v))\<rparr>"

definition ps_SetBoth :: "nat \<Rightarrow> u64 \<Rightarrow> u64 \<Rightarrow> Interpreter \<Rightarrow> Interpreter" where
  "ps_SetBoth n v w c = c\<lparr>ps := (ps c)(n := (v, w))\<rparr>"

abbreviation PS0 :: "nat \<Rightarrow> Interpreter \<Rightarrow> u64" where "PS0 n c \<equiv> fst (ps c n)"
abbreviation PS1 :: "nat \<Rightarrow> Interpreter \<Rightarrow> u64" where "PS1 n c \<equiv> snd (ps c n)"

section \<open>Rounding\<close>

definition ForceSingle :: "Interpreter \<Rightarrow> u64 \<Rightarrow> u32" where
  "ForceSingle c v =
    (if bit (fpscr c) FPSCR_NI \<and> v AND (DOUBLE_EXP OR DOUBLE_FRAC) < 0x3810000000000000
     then ucast (drop_bit 32 (v AND DOUBLE_SIGN))
     else to_single (mode_of c) v)"

definition ForceDouble :: "Interpreter \<Rightarrow> u64 \<Rightarrow> u64" where
  "ForceDouble c d = d"

definition Force25Bit :: "u64 \<Rightarrow> u64" where
  "Force25Bit d =
    (let e = d AND DOUBLE_EXP; fraction = d AND DOUBLE_FRAC
     in if e = 0 \<and> fraction \<noteq> 0
        then let n = 64 - significant_bits (unat fraction) - 11
             in (d AND signed_drop_bit n 0xFFFFFFFFF8000000) + (d AND drop_bit n 0x8000000)
        else (d AND 0xFFFFFFFFF8000000) + (d AND 0x8000000))"

section \<open>Operations that detect exceptions\<close>

record FPResult =
  fp_value :: u64
  fp_exception :: u32

definition HasNoInvalidExceptions :: "FPResult \<Rightarrow> bool" where
  "HasNoInvalidExceptions r \<longleftrightarrow> fp_exception r AND FPSCR_VX_ANY = 0"

text \<open>
  The lines for a result that is a NaN: a signalling operand raises its exception, and the first
  operand that is a NaN becomes the result; otherwise \<open>invalid\<close> says which exception is raised.
\<close>

definition nan_result :: "u64 list \<Rightarrow> u32 \<Rightarrow> Interpreter \<Rightarrow> FPResult \<times> Interpreter" where
  "nan_result operands invalid c =
    (let snan = (\<exists>x\<in>set operands. IsSNAN x);
         c1 = ClearFIFR (if snan then SetFPException FPSCR_VXSNAN c else c);
         e = (if snan then FPSCR_VXSNAN else 0)
     in case filter isnan operands of
          x # _ \<Rightarrow> (\<lparr>fp_value = MakeQuiet x, fp_exception = e\<rparr>, c1)
        | [] \<Rightarrow> if invalid = 0 then (\<lparr>fp_value = PPC_NAN, fp_exception = e\<rparr>, c1)
               else (\<lparr>fp_value = PPC_NAN, fp_exception = invalid\<rparr>, SetFPException invalid c1))"

definition plain_result :: "u64 \<Rightarrow> Interpreter \<Rightarrow> FPResult \<times> Interpreter" where
  "plain_result v c = (\<lparr>fp_value = v, fp_exception = 0\<rparr>, c)"

definition NI_mul :: "u64 \<Rightarrow> u64 \<Rightarrow> Interpreter \<Rightarrow> FPResult \<times> Interpreter" where
  "NI_mul a b c =
    (let v = f_mul (mode_of c) a b in if isnan v then nan_result [a, b] FPSCR_VXIMZ c else plain_result v c)"

definition NI_div :: "u64 \<Rightarrow> u64 \<Rightarrow> Interpreter \<Rightarrow> FPResult \<times> Interpreter" where
  "NI_div a b c =
    (let v = f_div (mode_of c) a b
     in if isinf v
        then (if is_zero b then (\<lparr>fp_value = v, fp_exception = FPSCR_ZX\<rparr>, SetFPException FPSCR_ZX c) else plain_result v c)
        else if isnan v
        then nan_result [a, b] (if is_zero b then FPSCR_VXZDZ else if isinf a \<and> isinf b then FPSCR_VXIDI else 0) c
        else plain_result v c)"

definition clear_if_infinite :: "u64 list \<Rightarrow> Interpreter \<Rightarrow> Interpreter" where
  "clear_if_infinite operands c = (if \<exists>x\<in>set operands. isinf x then ClearFIFR c else c)"

definition NI_add :: "u64 \<Rightarrow> u64 \<Rightarrow> Interpreter \<Rightarrow> FPResult \<times> Interpreter" where
  "NI_add a b c =
    (let v = f_add (mode_of c) a b
     in if isnan v then nan_result [a, b] FPSCR_VXISI c else plain_result v (clear_if_infinite [a, b] c))"

definition NI_sub :: "u64 \<Rightarrow> u64 \<Rightarrow> Interpreter \<Rightarrow> FPResult \<times> Interpreter" where
  "NI_sub a b c =
    (let v = f_sub (mode_of c) a b
     in if isnan v then nan_result [a, b] FPSCR_VXISI c else plain_result v (clear_if_infinite [a, b] c))"

text \<open>
  A single-precision product and sum is computed in double precision; where it ties in the step to
  single precision, the error of the double step decides.
\<close>

definition fma_single :: "fp_mode \<Rightarrow> u64 \<Rightarrow> u64 \<Rightarrow> u64 \<Rightarrow> u64" where
  "fma_single mode a c_value b_sign =
    (let c_round = Force25Bit c_value; v = f_fma mode a c_round b_sign
     in if v AND 0x1fffffff = 0x10000000
        then let a_prime = f_sub mode b_sign v; b_prime = f_add mode v a_prime;
                 delta_a = f_fma mode a c_round a_prime; delta_b = f_sub mode b_sign b_prime;
                 e = f_add mode delta_a delta_b
             in if is_zero e then v
                else if f_less 0 e = f_less 0 v then v + 1 else v - 1
        else v)"

definition NI_madd_msub :: "bool \<Rightarrow> bool \<Rightarrow> u64 \<Rightarrow> u64 \<Rightarrow> u64 \<Rightarrow> Interpreter \<Rightarrow> FPResult \<times> Interpreter" where
  "NI_madd_msub sub single a x b c =
    (let mode = mode_of c; b_sign = (if sub then negate b else b);
         v = (if single then fma_single mode a x b_sign else f_fma mode a x b_sign)
     in if isnan v then nan_result [a, b, x] (if isnan (f_mul mode a x) then FPSCR_VXIMZ else FPSCR_VXISI) c
        else plain_result v (clear_if_infinite [a, b, x] c))"

abbreviation (input) "NI_madd \<equiv> NI_madd_msub False"
abbreviation (input) "NI_msub \<equiv> NI_madd_msub True"

section \<open>Comparisons\<close>

text \<open>\<open>FPCC\<close>: less, greater, equal, unordered.\<close>

abbreviation (input) FPCC_FL :: u32 where "FPCC_FL \<equiv> 8"
abbreviation (input) FPCC_FG :: u32 where "FPCC_FG \<equiv> 4"
abbreviation (input) FPCC_FE :: u32 where "FPCC_FE \<equiv> 2"
abbreviation (input) FPCC_FU :: u32 where "FPCC_FU \<equiv> 1"

definition compare_result :: "u64 \<Rightarrow> u64 \<Rightarrow> u32" where
  "compare_result fa fb =
    (if isnan fa \<or> isnan fb then FPCC_FU else if f_less fa fb then FPCC_FL else if f_less fb fa then FPCC_FG else FPCC_FE)"

definition record_compare :: "u32 \<Rightarrow> u32 \<Rightarrow> Interpreter \<Rightarrow> Interpreter" where
  "record_compare inst compare_value c =
    SetField (inst_CRFD inst) compare_value (set_FPRF ((get_FPRF c AND NOT FPCC_MASK) OR compare_value) c)"

definition Helper_FloatCompareOrdered :: "u32 \<Rightarrow> u64 \<Rightarrow> u64 \<Rightarrow> Interpreter \<Rightarrow> Interpreter" where
  "Helper_FloatCompareOrdered inst fa fb c =
    record_compare inst (compare_result fa fb)
      (if isnan fa \<or> isnan fb
       then if IsSNAN fa \<or> IsSNAN fb
            then let c1 = SetFPException FPSCR_VXSNAN c
                 in if bit (fpscr c1) FPSCR_VE then c1 else SetFPException FPSCR_VXVC c1
            else SetFPException FPSCR_VXVC c
       else c)"

definition Helper_FloatCompareUnordered :: "u32 \<Rightarrow> u64 \<Rightarrow> u64 \<Rightarrow> Interpreter \<Rightarrow> Interpreter" where
  "Helper_FloatCompareUnordered inst fa fb c =
    record_compare inst (compare_result fa fb)
      (if (isnan fa \<or> isnan fb) \<and> (IsSNAN fa \<or> IsSNAN fb) then SetFPException FPSCR_VXSNAN c else c)"

definition ppc_fcmpo :: "u32 \<Rightarrow> Interpreter \<Rightarrow> Interpreter" where
  "ppc_fcmpo inst c = Helper_FloatCompareOrdered inst (PS0 (inst_FA inst) c) (PS0 (inst_FB inst) c) c"

definition ppc_fcmpu :: "u32 \<Rightarrow> Interpreter \<Rightarrow> Interpreter" where
  "ppc_fcmpu inst c = Helper_FloatCompareUnordered inst (PS0 (inst_FA inst) c) (PS0 (inst_FB inst) c) c"

section \<open>Conversion to integers\<close>

definition SetFI :: "bool \<Rightarrow> Interpreter \<Rightarrow> Interpreter" where
  "SetFI FI c = put_fpscr FPSCR_FI FI (if FI then SetFPException FPSCR_XX c else c)"

definition RoundToIntegerMode :: "fp_mode \<Rightarrow> u64 \<Rightarrow> u64" where
  "RoundToIntegerMode mode number =
    (let int_precision = (number AND DOUBLE_SIGN) OR 0x4330000000000000
     in f_sub mode (f_add mode number int_precision) int_precision)"

text \<open>The value, whether an exception occurred, and the state.\<close>

definition convert_value :: "u64 \<Rightarrow> u64 \<Rightarrow> Interpreter \<Rightarrow> u32 \<times> bool \<times> Interpreter" where
  "convert_value b rounded c =
    (if isnan b
     then (0x80000000, True, SetFPException FPSCR_VXCVI (if IsSNAN b then SetFPException FPSCR_VXSNAN c else c))
     else if f_at_least rounded (double_of_int 0x80000000) then (0x7fffffff, True, SetFPException FPSCR_VXCVI c)
     else if f_less rounded (double_of_int (- 0x80000000)) then (0x80000000, True, SetFPException FPSCR_VXCVI c)
     else let signed_value = integer_part (unpack64 rounded); di = double_of_int signed_value
          in (word_of_int signed_value, False,
              if f_equal di b then ClearFIFR c else put_fpscr FPSCR_FR (f_less (fabs b) (fabs di)) (SetFI True c)))"

definition ConvertToInteger :: "u32 \<Rightarrow> nat \<Rightarrow> Interpreter \<Rightarrow> Interpreter" where
  "ConvertToInteger inst rounding_mode c =
    (let b = PS0 (inst_FB inst) c;
         rounded = (if rounding_mode = 0 then RoundToIntegerMode (mode_of c) b else round_integral rounding_mode b)
     in case convert_value b rounded c of (v, exception_occurred, c1) \<Rightarrow>
          let c2 = (if exception_occurred then ClearFIFR c1 else c1);
              c3 = (if \<not> exception_occurred \<or> \<not> bit (fpscr c2) FPSCR_VE
                    then set_ps0 (inst_FD inst)
                           (0xfff8000000000000 OR ucast v OR (if v = 0 \<and> signbit b then 0x100000000 else 0)) c2
                    else c2)
          in record_CR1 inst c3)"

definition ppc_fctiwx :: "u32 \<Rightarrow> Interpreter \<Rightarrow> Interpreter" where
  "ppc_fctiwx inst c = ConvertToInteger inst (unat (bit_field 0 2 (fpscr c))) c"

definition ppc_fctiwzx :: "u32 \<Rightarrow> Interpreter \<Rightarrow> Interpreter" where
  "ppc_fctiwzx inst c = ConvertToInteger inst 1 c"

section \<open>Moves\<close>

definition ppc_fmrx :: "u32 \<Rightarrow> Interpreter \<Rightarrow> Interpreter" where
  "ppc_fmrx inst c = record_CR1 inst (set_ps0 (inst_FD inst) (PS0 (inst_FB inst) c) c)"

definition ppc_fabsx :: "u32 \<Rightarrow> Interpreter \<Rightarrow> Interpreter" where
  "ppc_fabsx inst c = record_CR1 inst (set_ps0 (inst_FD inst) (fabs (PS0 (inst_FB inst) c)) c)"

definition ppc_fnabsx :: "u32 \<Rightarrow> Interpreter \<Rightarrow> Interpreter" where
  "ppc_fnabsx inst c = record_CR1 inst (set_ps0 (inst_FD inst) (PS0 (inst_FB inst) c OR DOUBLE_SIGN) c)"

definition ppc_fnegx :: "u32 \<Rightarrow> Interpreter \<Rightarrow> Interpreter" where
  "ppc_fnegx inst c = record_CR1 inst (set_ps0 (inst_FD inst) (PS0 (inst_FB inst) c XOR DOUBLE_SIGN) c)"

definition select :: "u64 \<Rightarrow> u64 \<Rightarrow> u64 \<Rightarrow> u64" where
  "select a x b = (if f_at_least a DOUBLE_SIGN then x else b)"

definition ppc_fselx :: "u32 \<Rightarrow> Interpreter \<Rightarrow> Interpreter" where
  "ppc_fselx inst c = record_CR1 inst
     (set_ps0 (inst_FD inst) (select (PS0 (inst_FA inst) c) (PS0 (inst_FC inst) c) (PS0 (inst_FB inst) c)) c)"

end
