(* ===== verification/Ppc_LoadStore.thy ===== *)
theory Ppc_LoadStore
  imports Ppc_Access Ppc_Fpu
begin

text \<open>
  Loads, stores and the instructions of the caches and the translation cache,
  \<open>Core/PowerPC/Interpreter/Interpreter_LoadStore.cpp\<close>, one definition per handler.  The registers of
  floating point are pairs of 64-bit patterns; single precision is converted bit by bit as in
  \<open>Interpreter_FPUtils.h\<close>.  The calls that tell a recompiler of changed code have no effect here.
\<close>

section \<open>Single and double precision\<close>

definition ConvertToSingle :: "u64 \<Rightarrow> u32" where
  "ConvertToSingle x =
    (let e = ucast (drop_bit 52 x AND 0x7ff) :: u32
     in if 896 < e \<or> x AND NOT 0x8000000000000000 = 0
        then ucast ((drop_bit 32 x AND 0xc0000000) OR (drop_bit 29 x AND 0x3fffffff))
        else if 874 \<le> e
        then drop_bit (unat (905 - e)) (ucast (0x80000000 OR drop_bit 21 (x AND 0x000FFFFFFFFFFFFF)))
             OR ucast (drop_bit 32 x AND 0x80000000)
        else ucast ((drop_bit 32 x AND 0xc0000000) OR (drop_bit 29 x AND 0x3fffffff)))"

definition ConvertToSingleFTZ :: "u64 \<Rightarrow> u32" where
  "ConvertToSingleFTZ x =
    (let e = ucast (drop_bit 52 x AND 0x7ff) :: u32
     in if 896 < e \<or> x AND NOT 0x8000000000000000 = 0
        then ucast ((drop_bit 32 x AND 0xc0000000) OR (drop_bit 29 x AND 0x3fffffff))
        else ucast (drop_bit 32 x AND 0x80000000))"

text \<open>
  The loop that normalises a subnormal fraction.  The fraction is below \<open>2 ^ 23\<close> and not zero, so
  at most 23 rounds are made; the first argument bounds them.
\<close>

fun normalise :: "nat \<Rightarrow> u64 \<Rightarrow> u64 \<Rightarrow> u64 \<times> u64" where
  "normalise 0 e frac = (e, frac)"
| "normalise (Suc k) e frac =
    (let frac1 = push_bit 1 frac; e1 = e - 1
     in if frac1 AND 0x00800000 = 0 then normalise k e1 frac1 else (e1, frac1))"

definition ConvertToDouble :: "u32 \<Rightarrow> u64" where
  "ConvertToDouble value =
    (let x = ucast value :: u64; e = drop_bit 23 x AND 0xff; frac = x AND 0x007fffff;
         spread = (\<lambda>y. push_bit 61 y OR push_bit 60 y OR push_bit 59 y :: u64)
     in if 0 < e \<and> e < 255
        then push_bit 32 (x AND 0xc0000000) OR spread (of_bool (drop_bit 7 e = 0)) OR push_bit 29 (x AND 0x3fffffff)
        else if e = 0 \<and> frac \<noteq> 0
        then case normalise 23 (1023 - 126) frac of (e1, frac1) \<Rightarrow>
               push_bit 32 (x AND 0x80000000) OR push_bit 52 e1 OR push_bit 29 (frac1 AND 0x007fffff)
        else push_bit 32 (x AND 0xc0000000) OR spread (drop_bit 7 e) OR push_bit 29 (x AND 0x3fffffff))"

section \<open>Addresses\<close>

definition Helper_Get_EA :: "Interpreter \<Rightarrow> u32 \<Rightarrow> u32" where
  "Helper_Get_EA c inst =
    (if inst_RA inst \<noteq> 0 then gpr c (inst_RA inst) + inst_SIMM_16 inst else inst_SIMM_16 inst)"

definition Helper_Get_EA_U :: "Interpreter \<Rightarrow> u32 \<Rightarrow> u32" where
  "Helper_Get_EA_U c inst = gpr c (inst_RA inst) + inst_SIMM_16 inst"

definition Helper_Get_EA_X :: "Interpreter \<Rightarrow> u32 \<Rightarrow> u32" where
  "Helper_Get_EA_X c inst =
    (if inst_RA inst \<noteq> 0 then gpr c (inst_RA inst) + gpr c (inst_RB inst) else gpr c (inst_RB inst))"

definition Helper_Get_EA_UX :: "Interpreter \<Rightarrow> u32 \<Rightarrow> u32" where
  "Helper_Get_EA_UX c inst = gpr c (inst_RA inst) + gpr c (inst_RB inst)"

section \<open>The steps the handlers share\<close>

text \<open>\<open>load\<close> reads and, unless a DSI exception is pending, updates the registers.\<close>

definition no_DSI :: "'d Cpu \<Rightarrow> bool" where
  "no_DSI s \<longleftrightarrow> Exceptions (core s) AND EXCEPTION_DSI = 0"

definition load :: "'d bus \<Rightarrow> nat \<Rightarrow> u32 \<Rightarrow> (u64 \<Rightarrow> Interpreter \<Rightarrow> Interpreter) \<Rightarrow> 'd Cpu \<Rightarrow> 'd Cpu" where
  "load B n address update s =
    (case mmu_Read B n address s of (v, s1) \<Rightarrow> if no_DSI s1 then upd_core (update v) s1 else s1)"

definition unless_DSI :: "(Interpreter \<Rightarrow> Interpreter) \<Rightarrow> 'd Cpu \<Rightarrow> 'd Cpu" where
  "unless_DSI update s = (if no_DSI s then upd_core update s else s)"

definition if_aligned :: "u32 \<Rightarrow> ('d Cpu \<Rightarrow> 'd Cpu) \<Rightarrow> 'd Cpu \<Rightarrow> 'd Cpu" where
  "if_aligned address f s =
    (if address AND 3 \<noteq> 0 then upd_core (GenerateAlignmentException address) s else f s)"

definition set_RA :: "u32 \<Rightarrow> u32 \<Rightarrow> Interpreter \<Rightarrow> Interpreter" where
  "set_RA inst address c = set_gpr (inst_RA inst) address c"

definition set_RD :: "u32 \<Rightarrow> u64 \<Rightarrow> Interpreter \<Rightarrow> Interpreter" where
  "set_RD inst v c = set_gpr (inst_RD inst) (ucast v) c"

definition set_RD_signed :: "u32 \<Rightarrow> u64 \<Rightarrow> Interpreter \<Rightarrow> Interpreter" where
  "set_RD_signed inst v c = set_gpr (inst_RD inst) (scast (ucast v :: s16)) c"

definition load_u :: "'d bus \<Rightarrow> nat \<Rightarrow> u32 \<Rightarrow> (u64 \<Rightarrow> Interpreter \<Rightarrow> Interpreter) \<Rightarrow> u32 \<Rightarrow> 'd Cpu \<Rightarrow> 'd Cpu" where
  "load_u B n address update inst s = load B n address (\<lambda>v c. set_RA inst address (update v c)) s"

definition store_u :: "'d bus \<Rightarrow> nat \<Rightarrow> u32 \<Rightarrow> u32 \<Rightarrow> u32 \<Rightarrow> 'd Cpu \<Rightarrow> 'd Cpu" where
  "store_u B n value address inst s = unless_DSI (set_RA inst address) (mmu_Write B n value address s)"

section \<open>Loads and stores of the general registers\<close>

definition ppc_lbz :: "'d bus \<Rightarrow> u32 \<Rightarrow> 'd Cpu \<Rightarrow> 'd Cpu" where
  "ppc_lbz B inst s = load B 1 (Helper_Get_EA (core s) inst) (set_RD inst) s"

definition ppc_lbzu :: "'d bus \<Rightarrow> u32 \<Rightarrow> 'd Cpu \<Rightarrow> 'd Cpu" where
  "ppc_lbzu B inst s = load_u B 1 (Helper_Get_EA_U (core s) inst) (set_RD inst) inst s"

definition ppc_lha :: "'d bus \<Rightarrow> u32 \<Rightarrow> 'd Cpu \<Rightarrow> 'd Cpu" where
  "ppc_lha B inst s = load B 2 (Helper_Get_EA (core s) inst) (set_RD_signed inst) s"

definition ppc_lhau :: "'d bus \<Rightarrow> u32 \<Rightarrow> 'd Cpu \<Rightarrow> 'd Cpu" where
  "ppc_lhau B inst s = load_u B 2 (Helper_Get_EA_U (core s) inst) (set_RD_signed inst) inst s"

definition ppc_lhz :: "'d bus \<Rightarrow> u32 \<Rightarrow> 'd Cpu \<Rightarrow> 'd Cpu" where
  "ppc_lhz B inst s = load B 2 (Helper_Get_EA (core s) inst) (set_RD inst) s"

definition ppc_lhzu :: "'d bus \<Rightarrow> u32 \<Rightarrow> 'd Cpu \<Rightarrow> 'd Cpu" where
  "ppc_lhzu B inst s = load_u B 2 (Helper_Get_EA_U (core s) inst) (set_RD inst) inst s"

definition ppc_lwz :: "'d bus \<Rightarrow> u32 \<Rightarrow> 'd Cpu \<Rightarrow> 'd Cpu" where
  "ppc_lwz B inst s = load B 4 (Helper_Get_EA (core s) inst) (set_RD inst) s"

definition ppc_lwzu :: "'d bus \<Rightarrow> u32 \<Rightarrow> 'd Cpu \<Rightarrow> 'd Cpu" where
  "ppc_lwzu B inst s = load_u B 4 (Helper_Get_EA_U (core s) inst) (set_RD inst) inst s"

definition ppc_stb :: "'d bus \<Rightarrow> u32 \<Rightarrow> 'd Cpu \<Rightarrow> 'd Cpu" where
  "ppc_stb B inst s = mmu_Write B 1 (reg s (inst_RS inst)) (Helper_Get_EA (core s) inst) s"

definition ppc_stbu :: "'d bus \<Rightarrow> u32 \<Rightarrow> 'd Cpu \<Rightarrow> 'd Cpu" where
  "ppc_stbu B inst s = store_u B 1 (reg s (inst_RS inst)) (Helper_Get_EA_U (core s) inst) inst s"

definition ppc_sth :: "'d bus \<Rightarrow> u32 \<Rightarrow> 'd Cpu \<Rightarrow> 'd Cpu" where
  "ppc_sth B inst s = mmu_Write B 2 (reg s (inst_RS inst)) (Helper_Get_EA (core s) inst) s"

definition ppc_sthu :: "'d bus \<Rightarrow> u32 \<Rightarrow> 'd Cpu \<Rightarrow> 'd Cpu" where
  "ppc_sthu B inst s = store_u B 2 (reg s (inst_RS inst)) (Helper_Get_EA_U (core s) inst) inst s"

definition ppc_stw :: "'d bus \<Rightarrow> u32 \<Rightarrow> 'd Cpu \<Rightarrow> 'd Cpu" where
  "ppc_stw B inst s = mmu_Write B 4 (reg s (inst_RS inst)) (Helper_Get_EA (core s) inst) s"

definition ppc_stwu :: "'d bus \<Rightarrow> u32 \<Rightarrow> 'd Cpu \<Rightarrow> 'd Cpu" where
  "ppc_stwu B inst s = store_u B 4 (reg s (inst_RS inst)) (Helper_Get_EA_U (core s) inst) inst s"

text \<open>The indexed forms.\<close>

definition ppc_lbzx :: "'d bus \<Rightarrow> u32 \<Rightarrow> 'd Cpu \<Rightarrow> 'd Cpu" where
  "ppc_lbzx B inst s = load B 1 (Helper_Get_EA_X (core s) inst) (set_RD inst) s"

definition ppc_lbzux :: "'d bus \<Rightarrow> u32 \<Rightarrow> 'd Cpu \<Rightarrow> 'd Cpu" where
  "ppc_lbzux B inst s = load_u B 1 (Helper_Get_EA_UX (core s) inst) (set_RD inst) inst s"

definition ppc_lhax :: "'d bus \<Rightarrow> u32 \<Rightarrow> 'd Cpu \<Rightarrow> 'd Cpu" where
  "ppc_lhax B inst s = load B 2 (Helper_Get_EA_X (core s) inst) (set_RD_signed inst) s"

definition ppc_lhaux :: "'d bus \<Rightarrow> u32 \<Rightarrow> 'd Cpu \<Rightarrow> 'd Cpu" where
  "ppc_lhaux B inst s = load_u B 2 (Helper_Get_EA_UX (core s) inst) (set_RD_signed inst) inst s"

definition ppc_lhzx :: "'d bus \<Rightarrow> u32 \<Rightarrow> 'd Cpu \<Rightarrow> 'd Cpu" where
  "ppc_lhzx B inst s = load B 2 (Helper_Get_EA_X (core s) inst) (set_RD inst) s"

definition ppc_lhzux :: "'d bus \<Rightarrow> u32 \<Rightarrow> 'd Cpu \<Rightarrow> 'd Cpu" where
  "ppc_lhzux B inst s = load_u B 2 (Helper_Get_EA_UX (core s) inst) (set_RD inst) inst s"

definition ppc_lwzx :: "'d bus \<Rightarrow> u32 \<Rightarrow> 'd Cpu \<Rightarrow> 'd Cpu" where
  "ppc_lwzx B inst s = load B 4 (Helper_Get_EA_X (core s) inst) (set_RD inst) s"

definition ppc_lwzux :: "'d bus \<Rightarrow> u32 \<Rightarrow> 'd Cpu \<Rightarrow> 'd Cpu" where
  "ppc_lwzux B inst s = load_u B 4 (Helper_Get_EA_UX (core s) inst) (set_RD inst) inst s"

definition ppc_lhbrx :: "'d bus \<Rightarrow> u32 \<Rightarrow> 'd Cpu \<Rightarrow> 'd Cpu" where
  "ppc_lhbrx B inst s = load B 2 (Helper_Get_EA_X (core s) inst) (\<lambda>v. set_RD inst (ucast (swap16 (ucast v)))) s"

definition ppc_lwbrx :: "'d bus \<Rightarrow> u32 \<Rightarrow> 'd Cpu \<Rightarrow> 'd Cpu" where
  "ppc_lwbrx B inst s = load B 4 (Helper_Get_EA_X (core s) inst) (\<lambda>v. set_RD inst (ucast (swap32 (ucast v)))) s"

definition ppc_stbx :: "'d bus \<Rightarrow> u32 \<Rightarrow> 'd Cpu \<Rightarrow> 'd Cpu" where
  "ppc_stbx B inst s = mmu_Write B 1 (reg s (inst_RS inst)) (Helper_Get_EA_X (core s) inst) s"

definition ppc_stbux :: "'d bus \<Rightarrow> u32 \<Rightarrow> 'd Cpu \<Rightarrow> 'd Cpu" where
  "ppc_stbux B inst s = store_u B 1 (reg s (inst_RS inst)) (Helper_Get_EA_UX (core s) inst) inst s"

definition ppc_sthx :: "'d bus \<Rightarrow> u32 \<Rightarrow> 'd Cpu \<Rightarrow> 'd Cpu" where
  "ppc_sthx B inst s = mmu_Write B 2 (reg s (inst_RS inst)) (Helper_Get_EA_X (core s) inst) s"

definition ppc_sthux :: "'d bus \<Rightarrow> u32 \<Rightarrow> 'd Cpu \<Rightarrow> 'd Cpu" where
  "ppc_sthux B inst s = store_u B 2 (reg s (inst_RS inst)) (Helper_Get_EA_UX (core s) inst) inst s"

definition ppc_stwx :: "'d bus \<Rightarrow> u32 \<Rightarrow> 'd Cpu \<Rightarrow> 'd Cpu" where
  "ppc_stwx B inst s = mmu_Write B 4 (reg s (inst_RS inst)) (Helper_Get_EA_X (core s) inst) s"

definition ppc_stwux :: "'d bus \<Rightarrow> u32 \<Rightarrow> 'd Cpu \<Rightarrow> 'd Cpu" where
  "ppc_stwux B inst s = store_u B 4 (reg s (inst_RS inst)) (Helper_Get_EA_UX (core s) inst) inst s"

definition ppc_sthbrx :: "'d bus \<Rightarrow> u32 \<Rightarrow> 'd Cpu \<Rightarrow> 'd Cpu" where
  "ppc_sthbrx B inst s = mmu_Write_U16_Swap B (reg s (inst_RS inst)) (Helper_Get_EA_X (core s) inst) s"

definition ppc_stwbrx :: "'d bus \<Rightarrow> u32 \<Rightarrow> 'd Cpu \<Rightarrow> 'd Cpu" where
  "ppc_stwbrx B inst s = mmu_Write_U32_Swap B (reg s (inst_RS inst)) (Helper_Get_EA_X (core s) inst) s"

section \<open>Floating-point loads and stores\<close>

definition set_FD :: "u32 \<Rightarrow> u64 \<Rightarrow> Interpreter \<Rightarrow> Interpreter" where
  "set_FD inst v c = set_ps0 (inst_FD inst) v c"

definition fill_FD :: "u32 \<Rightarrow> u64 \<Rightarrow> Interpreter \<Rightarrow> Interpreter" where
  "fill_FD inst v c = ps_Fill (inst_FD inst) (ConvertToDouble (ucast v)) c"

definition single_FS :: "u32 \<Rightarrow> 'd Cpu \<Rightarrow> u32" where
  "single_FS inst s = ConvertToSingle (PS0 (inst_RS inst) (core s))"

definition double_FS :: "u32 \<Rightarrow> 'd Cpu \<Rightarrow> u64" where
  "double_FS inst s = PS0 (inst_RS inst) (core s)"

definition ppc_lfd :: "'d bus \<Rightarrow> u32 \<Rightarrow> 'd Cpu \<Rightarrow> 'd Cpu" where
  "ppc_lfd B inst s = (let address = Helper_Get_EA (core s) inst in if_aligned address (load B 8 address (set_FD inst)) s)"

definition ppc_lfdu :: "'d bus \<Rightarrow> u32 \<Rightarrow> 'd Cpu \<Rightarrow> 'd Cpu" where
  "ppc_lfdu B inst s =
    (let address = Helper_Get_EA_U (core s) inst in if_aligned address (load_u B 8 address (set_FD inst) inst) s)"

definition ppc_lfdux :: "'d bus \<Rightarrow> u32 \<Rightarrow> 'd Cpu \<Rightarrow> 'd Cpu" where
  "ppc_lfdux B inst s =
    (let address = Helper_Get_EA_UX (core s) inst in if_aligned address (load_u B 8 address (set_FD inst) inst) s)"

definition ppc_lfdx :: "'d bus \<Rightarrow> u32 \<Rightarrow> 'd Cpu \<Rightarrow> 'd Cpu" where
  "ppc_lfdx B inst s = (let address = Helper_Get_EA_X (core s) inst in if_aligned address (load B 8 address (set_FD inst)) s)"

definition ppc_lfs :: "'d bus \<Rightarrow> u32 \<Rightarrow> 'd Cpu \<Rightarrow> 'd Cpu" where
  "ppc_lfs B inst s = (let address = Helper_Get_EA (core s) inst in if_aligned address (load B 4 address (fill_FD inst)) s)"

definition ppc_lfsu :: "'d bus \<Rightarrow> u32 \<Rightarrow> 'd Cpu \<Rightarrow> 'd Cpu" where
  "ppc_lfsu B inst s =
    (let address = Helper_Get_EA_U (core s) inst in if_aligned address (load_u B 4 address (fill_FD inst) inst) s)"

definition ppc_lfsux :: "'d bus \<Rightarrow> u32 \<Rightarrow> 'd Cpu \<Rightarrow> 'd Cpu" where
  "ppc_lfsux B inst s =
    (let address = Helper_Get_EA_UX (core s) inst in if_aligned address (load_u B 4 address (fill_FD inst) inst) s)"

definition ppc_lfsx :: "'d bus \<Rightarrow> u32 \<Rightarrow> 'd Cpu \<Rightarrow> 'd Cpu" where
  "ppc_lfsx B inst s = (let address = Helper_Get_EA_X (core s) inst in if_aligned address (load B 4 address (fill_FD inst)) s)"

definition ppc_stfd :: "'d bus \<Rightarrow> u32 \<Rightarrow> 'd Cpu \<Rightarrow> 'd Cpu" where
  "ppc_stfd B inst s =
    (let address = Helper_Get_EA (core s) inst in if_aligned address (mmu_Write_U64 B (double_FS inst s) address) s)"

definition ppc_stfdu :: "'d bus \<Rightarrow> u32 \<Rightarrow> 'd Cpu \<Rightarrow> 'd Cpu" where
  "ppc_stfdu B inst s =
    (let address = Helper_Get_EA_U (core s) inst
     in if_aligned address (\<lambda>s. unless_DSI (set_RA inst address) (mmu_Write_U64 B (double_FS inst s) address s)) s)"

definition ppc_stfdux :: "'d bus \<Rightarrow> u32 \<Rightarrow> 'd Cpu \<Rightarrow> 'd Cpu" where
  "ppc_stfdux B inst s =
    (let address = Helper_Get_EA_UX (core s) inst
     in if_aligned address (\<lambda>s. unless_DSI (set_RA inst address) (mmu_Write_U64 B (double_FS inst s) address s)) s)"

definition ppc_stfdx :: "'d bus \<Rightarrow> u32 \<Rightarrow> 'd Cpu \<Rightarrow> 'd Cpu" where
  "ppc_stfdx B inst s =
    (let address = Helper_Get_EA_X (core s) inst in if_aligned address (mmu_Write_U64 B (double_FS inst s) address) s)"

definition ppc_stfiwx :: "'d bus \<Rightarrow> u32 \<Rightarrow> 'd Cpu \<Rightarrow> 'd Cpu" where
  "ppc_stfiwx B inst s =
    (let address = Helper_Get_EA_X (core s) inst in if_aligned address (mmu_Write B 4 (ucast (double_FS inst s)) address) s)"

definition ppc_stfs :: "'d bus \<Rightarrow> u32 \<Rightarrow> 'd Cpu \<Rightarrow> 'd Cpu" where
  "ppc_stfs B inst s =
    (let address = Helper_Get_EA (core s) inst in if_aligned address (mmu_Write B 4 (single_FS inst s) address) s)"

definition ppc_stfsu :: "'d bus \<Rightarrow> u32 \<Rightarrow> 'd Cpu \<Rightarrow> 'd Cpu" where
  "ppc_stfsu B inst s =
    (let address = Helper_Get_EA_U (core s) inst in if_aligned address (store_u B 4 (single_FS inst s) address inst) s)"

definition ppc_stfsux :: "'d bus \<Rightarrow> u32 \<Rightarrow> 'd Cpu \<Rightarrow> 'd Cpu" where
  "ppc_stfsux B inst s =
    (let address = Helper_Get_EA_UX (core s) inst in if_aligned address (store_u B 4 (single_FS inst s) address inst) s)"

definition ppc_stfsx :: "'d bus \<Rightarrow> u32 \<Rightarrow> 'd Cpu \<Rightarrow> 'd Cpu" where
  "ppc_stfsx B inst s =
    (let address = Helper_Get_EA_X (core s) inst in if_aligned address (mmu_Write B 4 (single_FS inst s) address) s)"

section \<open>Several registers\<close>

text \<open>
  The loops of \<open>lmw\<close> and \<open>stmw\<close> over the last \<open>k\<close> registers, left at the first DSI exception.
\<close>

primrec lmw_loop :: "'d bus \<Rightarrow> u32 \<Rightarrow> nat \<Rightarrow> 'd Cpu \<Rightarrow> 'd Cpu" where
  "lmw_loop B address 0 s = s"
| "lmw_loop B address (Suc k) s =
    (case mmu_Read B 4 address s of (v, s1) \<Rightarrow>
       if no_DSI s1 then lmw_loop B (address + 4) k (upd_core (set_gpr (31 - k) (ucast v)) s1) else s1)"

primrec stmw_loop :: "'d bus \<Rightarrow> u32 \<Rightarrow> nat \<Rightarrow> 'd Cpu \<Rightarrow> 'd Cpu" where
  "stmw_loop B address 0 s = s"
| "stmw_loop B address (Suc k) s =
    (let s1 = mmu_Write B 4 (reg s (31 - k)) address s
     in if no_DSI s1 then stmw_loop B (address + 4) k s1 else s1)"

definition if_string :: "u32 \<Rightarrow> ('d Cpu \<Rightarrow> 'd Cpu) \<Rightarrow> 'd Cpu \<Rightarrow> 'd Cpu" where
  "if_string address f s =
    (if bit (msr (core s)) MSR_LE then upd_core (GenerateAlignmentException address) s else f s)"

definition ppc_lmw :: "'d bus \<Rightarrow> u32 \<Rightarrow> 'd Cpu \<Rightarrow> 'd Cpu" where
  "ppc_lmw B inst s =
    (let address = Helper_Get_EA (core s) inst
     in if_aligned address (if_string address (lmw_loop B address (32 - inst_RD inst))) s)"

definition ppc_stmw :: "'d bus \<Rightarrow> u32 \<Rightarrow> 'd Cpu \<Rightarrow> 'd Cpu" where
  "ppc_stmw B inst s =
    (let address = Helper_Get_EA (core s) inst
     in if_aligned address (if_string address (stmw_loop B address (32 - inst_RS inst))) s)"

section \<open>Strings\<close>

text \<open>
  The loop of \<open>lswx\<close> and \<open>lswi\<close>: byte \<open>i\<close> of the string goes to byte \<open>i mod 4\<close> of its register, which is
  cleared when its first byte comes; \<open>k\<close> bytes are left.
\<close>

primrec load_string :: "'d bus \<Rightarrow> nat \<Rightarrow> nat \<Rightarrow> u32 \<Rightarrow> nat \<Rightarrow> 'd Cpu \<Rightarrow> 'd Cpu" where
  "load_string B rd i EA 0 s = s"
| "load_string B rd i EA (Suc k) s =
    (let r = (rd + i div 4) mod 32; offset = 8 * (i mod 4);
         s1 = (if i mod 4 = 0 then upd_core (set_gpr r 0) s else s)
     in case mmu_Read B 1 EA s1 of (v, s2) \<Rightarrow>
          if \<not> no_DSI s2 then s2
          else load_string B rd (Suc i) (EA + 1) k
                 (upd_core (\<lambda>c. set_gpr r (gpr c r OR push_bit (24 - offset) (ucast v)) c) s2))"

definition ppc_lswx :: "'d bus \<Rightarrow> u32 \<Rightarrow> 'd Cpu \<Rightarrow> 'd Cpu" where
  "ppc_lswx B inst s =
    (let EA = Helper_Get_EA_X (core s) inst
     in if_string EA (load_string B (inst_RD inst) 0 EA (unat (ucast (xer_stringctrl (core s)) :: u8))) s)"

definition string_EA :: "Interpreter \<Rightarrow> u32 \<Rightarrow> u32" where
  "string_EA c inst = (if inst_RA inst \<noteq> 0 then gpr c (inst_RA inst) else 0)"

definition string_length :: "u32 \<Rightarrow> nat" where
  "string_length inst = (if inst_NB inst \<noteq> 0 then inst_NB inst else 32)"

definition ppc_lswi :: "'d bus \<Rightarrow> u32 \<Rightarrow> 'd Cpu \<Rightarrow> 'd Cpu" where
  "ppc_lswi B inst s =
    (let EA = string_EA (core s) inst
     in if_string EA (load_string B (inst_RD inst) 0 EA (string_length inst)) s)"

text \<open>
  \<open>Helper_StoreString\<close>: whole aligned words only, with \<open>current_value\<close> holding the bytes still to
  store in its upper half.  \<open>store_string_words\<close> is the loop and \<open>store_tail\<close> the end.
\<close>

definition store_tail :: "'d bus \<Rightarrow> nat \<Rightarrow> u64 \<Rightarrow> u32 \<Rightarrow> nat \<Rightarrow> nat \<Rightarrow> 'd Cpu \<Rightarrow> 'd Cpu" where
  "store_tail B misalignment_bytes current_value current_address r n s =
    (if n = 0 then s
     else let v = (if misalignment_bytes < n
                   then push_bit ((n - misalignment_bytes) * 8) (current_value OR ucast (reg s r))
                   else drop_bit ((misalignment_bytes - n) * 8) current_value) AND 0xFFFFFFFF00000000
          in case mmu_Read B 4 current_address s of (w, s1) \<Rightarrow>
               let u = v OR (push_bit (n * 8) w AND 0xFFFFFFFF)
               in if no_DSI s1 then mmu_Write B 4 (ucast (drop_bit (n * 8) u)) current_address s1 else s1)"

fun store_string_words :: "'d bus \<Rightarrow> nat \<Rightarrow> u64 \<Rightarrow> u32 \<Rightarrow> nat \<Rightarrow> nat \<Rightarrow> 'd Cpu \<Rightarrow> 'd Cpu" where
  "store_string_words B misalignment_bytes current_value current_address r n s =
    (if n < 4 then store_tail B misalignment_bytes current_value current_address r n s
     else let v = current_value OR ucast (reg s r);
              s1 = mmu_Write B 4 (ucast (drop_bit (misalignment_bytes * 8) v)) current_address s
          in if no_DSI s1
             then store_string_words B misalignment_bytes (push_bit 32 v) (current_address + 4) ((r + 1) mod 32) (n - 4) s1
             else s1)"

declare store_string_words.simps [simp del]

definition Helper_StoreString :: "'d bus \<Rightarrow> u32 \<Rightarrow> nat \<Rightarrow> nat \<Rightarrow> 'd Cpu \<Rightarrow> 'd Cpu" where
  "Helper_StoreString B EA n r s =
    (let misalignment_bytes = unat (EA AND 3); current_address = EA AND NOT 3
     in if misalignment_bytes = 0 then store_string_words B 0 0 current_address r n s
        else case mmu_Read B 4 current_address s of (v, s1) \<Rightarrow>
          if no_DSI s1
          then store_string_words B misalignment_bytes (push_bit (misalignment_bytes * 8) v AND 0xFFFFFFFF00000000)
                 current_address r (n + misalignment_bytes) s1
          else s1)"

definition ppc_stswi :: "'d bus \<Rightarrow> u32 \<Rightarrow> 'd Cpu \<Rightarrow> 'd Cpu" where
  "ppc_stswi B inst s =
    (let EA = string_EA (core s) inst
     in if_string EA (Helper_StoreString B EA (string_length inst) (inst_RS inst)) s)"

definition ppc_stswx :: "'d bus \<Rightarrow> u32 \<Rightarrow> 'd Cpu \<Rightarrow> 'd Cpu" where
  "ppc_stswx B inst s =
    (let EA = Helper_Get_EA_X (core s) inst
     in if_string EA (Helper_StoreString B EA (unat (ucast (xer_stringctrl (core s)) :: u8)) (inst_RS inst)) s)"

section \<open>Reservations\<close>

definition ppc_lwarx :: "'d bus \<Rightarrow> u32 \<Rightarrow> 'd Cpu \<Rightarrow> 'd Cpu" where
  "ppc_lwarx B inst s =
    (let address = Helper_Get_EA_X (core s) inst
     in if_aligned address (load B 4 address (\<lambda>v c. (set_RD inst v c)\<lparr>reserve := True, reserve_address := address\<rparr>)) s)"

definition ppc_stwcxd :: "'d bus \<Rightarrow> u32 \<Rightarrow> 'd Cpu \<Rightarrow> 'd Cpu" where
  "ppc_stwcxd B inst s =
    (let address = Helper_Get_EA_X (core s) inst; failed = upd_core (\<lambda>c. SetField 0 (GetXER_SO c) c)
     in if_aligned address (\<lambda>s.
          if reserve (core s) \<and> address = reserve_address (core s)
          then let s1 = mmu_Write B 4 (reg s (inst_RS inst)) address s
               in if no_DSI s1
                  then upd_core (\<lambda>c. SetField 0 (2 OR GetXER_SO c) (c\<lparr>reserve := False\<rparr>)) s1
                  else failed s1
          else failed s) s)"

section \<open>Caches and translation\<close>

abbreviation (input) HID0_DCE :: nat where "HID0_DCE \<equiv> 14"
abbreviation (input) HID2_LCE :: nat where "HID2_LCE \<equiv> 28"
abbreviation (input) SPR_EAR :: nat where "SPR_EAR \<equiv> 282"

definition if_privileged :: "('d Cpu \<Rightarrow> 'd Cpu) \<Rightarrow> 'd Cpu \<Rightarrow> 'd Cpu" where
  "if_privileged f s =
    (if bit (msr (core s)) MSR_PR then upd_core (GenerateProgramException PrivilegedInstruction) s else f s)"

definition ppc_dcba :: "'d bus \<Rightarrow> u32 \<Rightarrow> 'd Cpu \<Rightarrow> 'd Cpu" where "ppc_dcba B inst s = s"
definition ppc_dcbt :: "'d bus \<Rightarrow> u32 \<Rightarrow> 'd Cpu \<Rightarrow> 'd Cpu" where "ppc_dcbt B inst s = s"
definition ppc_dcbtst :: "'d bus \<Rightarrow> u32 \<Rightarrow> 'd Cpu \<Rightarrow> 'd Cpu" where "ppc_dcbtst B inst s = s"
definition ppc_eieio :: "'d bus \<Rightarrow> u32 \<Rightarrow> 'd Cpu \<Rightarrow> 'd Cpu" where "ppc_eieio B inst s = s"
definition ppc_sync :: "'d bus \<Rightarrow> u32 \<Rightarrow> 'd Cpu \<Rightarrow> 'd Cpu" where "ppc_sync B inst s = s"

definition ppc_dcbf :: "'d bus \<Rightarrow> u32 \<Rightarrow> 'd Cpu \<Rightarrow> 'd Cpu" where
  "ppc_dcbf B inst s =
    (if \<not> m_enable_dcache s then s else FlushDCacheLine B (Helper_Get_EA_X (core s) inst) s)"

definition ppc_dcbi :: "'d bus \<Rightarrow> u32 \<Rightarrow> 'd Cpu \<Rightarrow> 'd Cpu" where
  "ppc_dcbi B inst = if_privileged (\<lambda>s.
    if \<not> m_enable_dcache s then s else InvalidateDCacheLine B (Helper_Get_EA_X (core s) inst) s)"

definition ppc_dcbst :: "'d bus \<Rightarrow> u32 \<Rightarrow> 'd Cpu \<Rightarrow> 'd Cpu" where
  "ppc_dcbst B inst s =
    (if \<not> m_enable_dcache s then s else StoreDCacheLine B (Helper_Get_EA_X (core s) inst) s)"

definition ppc_dcbz :: "'d bus \<Rightarrow> u32 \<Rightarrow> 'd Cpu \<Rightarrow> 'd Cpu" where
  "ppc_dcbz B inst s =
    (let dcbz_addr = Helper_Get_EA_X (core s) inst
     in if \<not> bit (sprs s SPR_HID0) HID0_DCE then upd_core (GenerateAlignmentException dcbz_addr) s
        else if \<not> m_enable_dcache s \<and> dcbz_addr < 0x80008000 \<and> 0x80000000 \<le> dcbz_addr \<and> m_low_dcbz_hack s then s
        else ClearDCacheLine B (dcbz_addr AND NOT 31) s)"

definition ppc_dcbz_l :: "'d bus \<Rightarrow> u32 \<Rightarrow> 'd Cpu \<Rightarrow> 'd Cpu" where
  "ppc_dcbz_l B inst s =
    (if \<not> bit (sprs s SPR_HID2) HID2_LCE then upd_core (GenerateProgramException IllegalInstruction) s
     else let address = Helper_Get_EA_X (core s) inst
          in if \<not> bit (sprs s SPR_HID0) HID0_DCE then upd_core (GenerateAlignmentException address) s
             else ClearDCacheLine B (address AND NOT 31) s)"

definition ppc_eciwx :: "'d bus \<Rightarrow> u32 \<Rightarrow> 'd Cpu \<Rightarrow> 'd Cpu" where
  "ppc_eciwx B inst s =
    (let EA = Helper_Get_EA_X (core s) inst
     in if sprs s SPR_EAR AND 0x80000000 = 0 then upd_core (GenerateDSIException EA) s
        else if_aligned EA (\<lambda>s. case mmu_Read B 4 EA s of (v, s1) \<Rightarrow> upd_core (set_RD inst v) s1) s)"

definition ppc_ecowx :: "'d bus \<Rightarrow> u32 \<Rightarrow> 'd Cpu \<Rightarrow> 'd Cpu" where
  "ppc_ecowx B inst s =
    (let EA = Helper_Get_EA_X (core s) inst
     in if sprs s SPR_EAR AND 0x80000000 = 0 then upd_core (GenerateDSIException EA) s
        else if_aligned EA (mmu_Write B 4 (reg s (inst_RS inst)) EA) s)"

definition ppc_icbi :: "'d bus \<Rightarrow> u32 \<Rightarrow> 'd Cpu \<Rightarrow> 'd Cpu" where
  "ppc_icbi B inst s =
    s\<lparr>iCache := icache_Invalidate (m_memory s) (Helper_Get_EA_X (core s) inst) (iCache s)\<rparr>"

definition ppc_tlbie :: "'d bus \<Rightarrow> u32 \<Rightarrow> 'd Cpu \<Rightarrow> 'd Cpu" where
  "ppc_tlbie B inst = if_privileged (\<lambda>s. upd_core (InvalidateTLBEntry (reg s (inst_RB inst))) s)"

definition ppc_tlbsync :: "'d bus \<Rightarrow> u32 \<Rightarrow> 'd Cpu \<Rightarrow> 'd Cpu" where
  "ppc_tlbsync B inst = if_privileged (\<lambda>s. s)"

end
