(* ===== verification/Ppc_Spr.thy ===== *)
theory Ppc_Spr
  imports Ppc_LoadStore
begin

text \<open>
  The special purpose registers: \<open>mfspr\<close>, \<open>mftb\<close> and \<open>mtspr\<close> of
  \<open>Core/PowerPC/Interpreter/Interpreter_SystemRegisters.cpp\<close> with everything a write sets off: the
  time base and the decrementer, the caches, the gather pipe, the transfers of the locked cache, and
  the tables of the memory management unit.  An array index of the source that no \<open>case\<close> names is
  plain storage.
\<close>

section \<open>Indices\<close>

abbreviation (input) SPR_TL_W :: nat where "SPR_TL_W \<equiv> 284"
abbreviation (input) SPR_TU_W :: nat where "SPR_TU_W \<equiv> 285"
abbreviation (input) SPR_PVR :: nat where "SPR_PVR \<equiv> 287"
abbreviation (input) SPR_WPAR :: nat where "SPR_WPAR \<equiv> 921"
abbreviation (input) SPR_DMAU :: nat where "SPR_DMAU \<equiv> 922"
abbreviation (input) SPR_DMAL :: nat where "SPR_DMAL \<equiv> 923"
abbreviation (input) SPR_IABR :: nat where "SPR_IABR \<equiv> 1010"
abbreviation (input) SPR_HID1 :: nat where "SPR_HID1 \<equiv> 1009"
abbreviation (input) SPR_THRM1 :: nat where "SPR_THRM1 \<equiv> 1020"
abbreviation (input) SPR_THRM2 :: nat where "SPR_THRM2 \<equiv> 1021"
abbreviation (input) SPR_THRM3 :: nat where "SPR_THRM3 \<equiv> 1022"
abbreviation (input) HID0_ICFI :: nat where "HID0_ICFI \<equiv> 11"

definition mf_index :: "u32 \<Rightarrow> nat" where
  "mf_index inst = unat (push_bit 5 (inst_SPR inst AND 0x1F) + (drop_bit 5 (inst_SPR inst) AND 0x1F))"

definition mt_index :: "u32 \<Rightarrow> nat" where
  "mt_index inst = unat (push_bit 5 (inst_SPRU inst) OR (inst_SPRL inst AND 0x1F))"

section \<open>Reading\<close>

definition WriteFullTimeBaseValue :: "u64 \<Rightarrow> Interpreter \<Rightarrow> Interpreter" where
  "WriteFullTimeBaseValue value c = set_spr SPR_TU (ucast (drop_bit 32 value)) (set_spr SPR_TL (ucast value) c)"

definition ReadFullTimeBaseValue :: "Interpreter \<Rightarrow> u64" where
  "ReadFullTimeBaseValue c = ucast (spr c SPR_TL) OR push_bit 32 (ucast (spr c SPR_TU))"

text \<open>The \<open>switch\<close> of \<open>mfspr\<close>: registers whose value is computed when they are read.\<close>

definition refresh_spr :: "'d bus \<Rightarrow> nat \<Rightarrow> 'd Cpu \<Rightarrow> 'd Cpu" where
  "refresh_spr B index s =
    (if index = SPR_DEC
     then (if sprs s index AND 0x80000000 = 0 then upd_core (set_spr index (bus_GetFakeDecrementer B s)) s else s)
     else if index = SPR_TL \<or> index = SPR_TU then upd_core (WriteFullTimeBaseValue (bus_GetFakeTimeBase B s)) s
     else if index = SPR_WPAR then upd_core (set_spr index (put_bit32 0 (IsBNE s) (sprs s index))) s
     else if index = SPR_XER then upd_core (\<lambda>c. set_spr index (GetXER c) c) s
     else if index = 937 then upd_core (set_spr index (sprs s 953)) s
     else if index = 938 then upd_core (set_spr index (sprs s 954)) s
     else if index = 941 then upd_core (set_spr index (sprs s 957)) s
     else if index = 942 then upd_core (set_spr index (sprs s 958)) s
     else s)"

definition ppc_mfspr :: "'d bus \<Rightarrow> u32 \<Rightarrow> 'd Cpu \<Rightarrow> 'd Cpu" where
  "ppc_mfspr B inst s =
    (let index = mf_index inst
     in if bit (msr (core s)) MSR_PR \<and> index \<noteq> SPR_XER \<and> index \<noteq> SPR_LR \<and> index \<noteq> SPR_CTR
           \<and> index \<noteq> SPR_TL \<and> index \<noteq> SPR_TU
        then upd_core (GenerateProgramException PrivilegedInstruction) s
        else if index = SPR_IABR then upd_core (\<lambda>c. set_gpr (inst_RD inst) (spr c index AND NOT 1) c) s
        else upd_core (\<lambda>c. set_gpr (inst_RD inst) (spr c index) c) (refresh_spr B index s))"

definition ppc_mftb :: "'d bus \<Rightarrow> u32 \<Rightarrow> 'd Cpu \<Rightarrow> 'd Cpu" where
  "ppc_mftb B inst s = ppc_mfspr B inst s"

section \<open>Writing\<close>

definition write_hid0 :: "'d Cpu \<Rightarrow> 'd Cpu" where
  "write_hid0 s =
    (if bit (sprs s SPR_HID0) HID0_ICFI
     then (upd_core (\<lambda>c. set_spr SPR_HID0 (unset_bit HID0_ICFI (spr c SPR_HID0)) c) s)\<lparr>iCache := cache_Reset (iCache s)\<rparr>
     else s)"

text \<open>The transfer that a write to \<open>DMAL\<close> starts is complete at once.\<close>

definition lc_dma_length :: "Interpreter \<Rightarrow> nat" where
  "lc_dma_length c =
    (let n = push_bit 2 (bit_field 0 5 (spr c SPR_DMAU)) OR bit_field 2 2 (spr c SPR_DMAL)
     in if n = 0 then 128 else unat n)"

definition write_dmal :: "'d bus \<Rightarrow> 'd Cpu \<Rightarrow> 'd Cpu" where
  "write_dmal B s =
    (let mem_address = push_bit 5 (bit_field 5 27 (sprs s SPR_DMAU));
         cache_address = push_bit 5 (bit_field 5 27 (sprs s SPR_DMAL));
         s1 = (if \<not> bit (sprs s SPR_DMAL) 1 then s
               else if bit (sprs s SPR_DMAL) 4 then DMA_MemoryToLC B cache_address mem_address (lc_dma_length (core s)) s
               else DMA_LCToMemory B mem_address cache_address (lc_dma_length (core s)) s)
     in upd_core (\<lambda>c. set_spr SPR_DMAL (unset_bit 1 (spr c SPR_DMAL)) c) s1)"

definition write_dec :: "'d bus \<Rightarrow> u32 \<Rightarrow> u32 \<Rightarrow> 'd Cpu \<Rightarrow> 'd Cpu" where
  "write_dec B old_value value s =
    bus_DecrementerSet B
      (if drop_bit 31 old_value = 0 \<and> drop_bit 31 value \<noteq> 0 then upd_core (raise_exception EXCEPTION_DECREMENTER) s else s)"

text \<open>
  \<open>UpdateThermalReg\<close>: \<open>TIN\<close>, \<open>TIV\<close> and \<open>TID\<close> are bits 31, 30 and 2, the threshold is bits 23 to 29.
\<close>

abbreviation (input) SIMULATED_TEMP :: u32 where "SIMULATED_TEMP \<equiv> 42"

definition UpdateThermalReg :: "bool \<Rightarrow> u32 \<Rightarrow> u32" where
  "UpdateThermalReg enabled v =
    (if \<not> enabled \<or> \<not> bit v 0 then unset_bit 30 v
     else put_bit32 31 (if bit v 2 then SIMULATED_TEMP < bit_field 23 7 v else bit_field 23 7 v < SIMULATED_TEMP) (set_bit 30 v))"

definition write_thrm :: "Interpreter \<Rightarrow> Interpreter" where
  "write_thrm c =
    (let enabled = bit (spr c SPR_THRM3) 0
     in set_spr SPR_THRM2 (UpdateThermalReg enabled (spr c SPR_THRM2))
          (set_spr SPR_THRM1 (UpdateThermalReg enabled (spr c SPR_THRM1)) c))"

definition is_dbat :: "nat \<Rightarrow> bool" where
  "is_dbat index \<longleftrightarrow> (536 \<le> index \<and> index \<le> 543) \<or> (568 \<le> index \<and> index \<le> 575)"

definition is_ibat :: "nat \<Rightarrow> bool" where
  "is_ibat index \<longleftrightarrow> (528 \<le> index \<and> index \<le> 535) \<or> (560 \<le> index \<and> index \<le> 567)"

text \<open>The \<open>switch\<close> of \<open>mtspr\<close>, after the register has been stored.\<close>

definition spr_written :: "'d bus \<Rightarrow> nat \<Rightarrow> u32 \<Rightarrow> u32 \<Rightarrow> 'd Cpu \<Rightarrow> 'd Cpu" where
  "spr_written B index old_value value s =
    (if index = SPR_TL_W then bus_TimeBaseSet B (upd_core (set_spr SPR_TL value) s)
     else if index = SPR_TU_W then bus_TimeBaseSet B (upd_core (set_spr SPR_TU value) s)
     else if index = SPR_PVR then upd_core (set_spr index old_value) s
     else if index = SPR_HID0 then write_hid0 s
     else if index = SPR_HID1 then upd_core (set_spr index (sprs s index AND 0xF8000000)) s
     else if index = SPR_HID2
     then upd_core (set_spr index ((sprs s index AND 0xF0FF0000) OR (old_value AND 0x0F000000))) s
     else if index = SPR_HID4 then (if old_value \<noteq> sprs s index then DBATUpdated (IBATUpdated s) else s)
     else if index = SPR_WPAR then ResetGatherPipe s
     else if index = SPR_DMAL then write_dmal B s
     else if index = SPR_DEC then write_dec B old_value value s
     else if index = SPR_SDR then upd_core SDRUpdated s
     else if index = SPR_XER then upd_core (\<lambda>c. SetXER (spr c index) c) s
     else if is_dbat index then (if old_value \<noteq> sprs s index then DBATUpdated s else s)
     else if is_ibat index then (if old_value \<noteq> sprs s index then IBATUpdated s else s)
     else if index = 952 \<or> index = 956 then upd_core MMCRUpdated s
     else if index = SPR_THRM1 \<or> index = SPR_THRM2 \<or> index = SPR_THRM3 then upd_core write_thrm s
     else s)"

definition ppc_mtspr :: "'d bus \<Rightarrow> u32 \<Rightarrow> 'd Cpu \<Rightarrow> 'd Cpu" where
  "ppc_mtspr B inst s =
    (let index = mt_index inst; value = reg s (inst_RD inst)
     in if bit (msr (core s)) MSR_PR \<and> index \<noteq> SPR_XER \<and> index \<noteq> SPR_LR \<and> index \<noteq> SPR_CTR
        then upd_core (GenerateProgramException PrivilegedInstruction) s
        else spr_written B index (sprs s index) value (upd_core (set_spr index value) s))"

end
