(* ===== verification/Ppc_FpArith.thy ===== *)
theory Ppc_FpArith
  imports Ppc_Fpu
begin

text \<open>
  The arithmetic instructions of \<open>Core/PowerPC/Interpreter/Interpreter_FloatingPoint.cpp\<close>, one
  definition per handler: rounding to single, sums, products, quotients, the estimates and the
  combined products and sums.
\<close>

section \<open>Writing a result\<close>

definition write_double :: "u32 \<Rightarrow> u64 \<Rightarrow> Interpreter \<Rightarrow> Interpreter" where
  "write_double inst result c = UpdateFPRFDouble result (set_ps0 (inst_FD inst) result c)"

definition write_single :: "u32 \<Rightarrow> u32 \<Rightarrow> Interpreter \<Rightarrow> Interpreter" where
  "write_single inst result c = UpdateFPRFSingle result (ps_Fill (inst_FD inst) (to_double result) c)"

text \<open>The tests before a result is written: no enabled exception occurred.\<close>

definition not_invalid :: "Interpreter \<Rightarrow> FPResult \<Rightarrow> bool" where
  "not_invalid c r \<longleftrightarrow> \<not> bit (fpscr c) FPSCR_VE \<or> HasNoInvalidExceptions r"

definition not_divide_by_zero :: "Interpreter \<Rightarrow> FPResult \<Rightarrow> bool" where
  "not_divide_by_zero c r \<longleftrightarrow> \<not> bit (fpscr c) FPSCR_ZE \<or> fp_exception r \<noteq> FPSCR_ZX"

definition finish :: "u32 \<Rightarrow> (Interpreter \<Rightarrow> FPResult \<Rightarrow> bool) \<Rightarrow> (u64 \<Rightarrow> Interpreter \<Rightarrow> Interpreter) \<Rightarrow> FPResult \<times> Interpreter \<Rightarrow> Interpreter" where
  "finish inst allowed write x =
    (case x of (r, c) \<Rightarrow> record_CR1 inst (if allowed c r then write (fp_value r) c else c))"

definition force_write_double :: "u32 \<Rightarrow> u64 \<Rightarrow> Interpreter \<Rightarrow> Interpreter" where
  "force_write_double inst v c = write_double inst (ForceDouble c v) c"

definition force_write_single :: "u32 \<Rightarrow> u64 \<Rightarrow> Interpreter \<Rightarrow> Interpreter" where
  "force_write_single inst v c = write_single inst (ForceSingle c v) c"

text \<open>\<open>isnan(x) ? x : -x\<close>, in both formats.\<close>

definition negate_number :: "u64 \<Rightarrow> u64" where
  "negate_number x = (if isnan x then x else negate x)"

definition isnan_single :: "u32 \<Rightarrow> bool" where "isnan_single x \<longleftrightarrow> unpack32 x = NotANumber"

definition negate_number_single :: "u32 \<Rightarrow> u32" where
  "negate_number_single x = (if isnan_single x then x else x XOR FLOAT_SIGN)"

abbreviation (input) FA :: "u32 \<Rightarrow> Interpreter \<Rightarrow> u64" where "FA inst c \<equiv> PS0 (inst_FA inst) c"
abbreviation (input) FB :: "u32 \<Rightarrow> Interpreter \<Rightarrow> u64" where "FB inst c \<equiv> PS0 (inst_FB inst) c"
abbreviation (input) FC :: "u32 \<Rightarrow> Interpreter \<Rightarrow> u64" where "FC inst c \<equiv> PS0 (inst_FC inst) c"

section \<open>Instructions\<close>

definition ppc_frspx :: "u32 \<Rightarrow> Interpreter \<Rightarrow> Interpreter" where
  "ppc_frspx inst c =
    (let b = FB inst c; rounded = ForceSingle c b; d = to_double rounded
     in record_CR1 inst
          (if isnan b
           then let c1 = (if IsSNAN b then SetFPException FPSCR_VXSNAN c else c);
                    c2 = (if \<not> IsSNAN b \<or> \<not> bit (fpscr c1) FPSCR_VE
                          then UpdateFPRFSingle rounded (ps_Fill (inst_FD inst) d c1) else c1)
                in ClearFIFR c2
           else ps_Fill (inst_FD inst) d
                  (UpdateFPRFSingle rounded
                    (put_fpscr FPSCR_FR (f_less (fabs b) (fabs d)) (SetFI (\<not> f_equal b d) c)))))"

definition ppc_fmulx :: "u32 \<Rightarrow> Interpreter \<Rightarrow> Interpreter" where
  "ppc_fmulx inst c = finish inst not_invalid
     (\<lambda>v c. let result = ForceDouble c v in UpdateFPRFDouble result (ClearFIFR (set_ps0 (inst_FD inst) result c)))
     (NI_mul (FA inst c) (FC inst c) c)"

definition ppc_fmulsx :: "u32 \<Rightarrow> Interpreter \<Rightarrow> Interpreter" where
  "ppc_fmulsx inst c = finish inst not_invalid
     (\<lambda>v c. let result = ForceSingle c v
            in UpdateFPRFSingle result (ClearFIFR (ps_Fill (inst_FD inst) (to_double result) c)))
     (NI_mul (FA inst c) (Force25Bit (FC inst c)) c)"

definition ppc_fmaddsx :: "u32 \<Rightarrow> Interpreter \<Rightarrow> Interpreter" where
  "ppc_fmaddsx inst c = finish inst not_invalid
     (\<lambda>v c. let result = ForceSingle c v
            in UpdateFPRFSingle result
                 (put_fpscr FPSCR_FR False
                   (put_fpscr FPSCR_FI (\<not> f_equal v (to_double result))
                     (ps_Fill (inst_FD inst) (to_double result) c))))
     (NI_madd True (FA inst c) (FC inst c) (FB inst c) c)"

definition ppc_fmaddx :: "u32 \<Rightarrow> Interpreter \<Rightarrow> Interpreter" where
  "ppc_fmaddx inst c = finish inst not_invalid (force_write_double inst) (NI_madd False (FA inst c) (FC inst c) (FB inst c) c)"

definition ppc_faddx :: "u32 \<Rightarrow> Interpreter \<Rightarrow> Interpreter" where
  "ppc_faddx inst c = finish inst not_invalid (force_write_double inst) (NI_add (FA inst c) (FB inst c) c)"

definition ppc_faddsx :: "u32 \<Rightarrow> Interpreter \<Rightarrow> Interpreter" where
  "ppc_faddsx inst c = finish inst not_invalid (force_write_single inst) (NI_add (FA inst c) (FB inst c) c)"

definition ppc_fsubx :: "u32 \<Rightarrow> Interpreter \<Rightarrow> Interpreter" where
  "ppc_fsubx inst c = finish inst not_invalid (force_write_double inst) (NI_sub (FA inst c) (FB inst c) c)"

definition ppc_fsubsx :: "u32 \<Rightarrow> Interpreter \<Rightarrow> Interpreter" where
  "ppc_fsubsx inst c = finish inst not_invalid (force_write_single inst) (NI_sub (FA inst c) (FB inst c) c)"

definition ppc_fdivx :: "u32 \<Rightarrow> Interpreter \<Rightarrow> Interpreter" where
  "ppc_fdivx inst c = finish inst (\<lambda>c r. not_divide_by_zero c r \<and> not_invalid c r) (force_write_double inst) (NI_div (FA inst c) (FB inst c) c)"

definition ppc_fdivsx :: "u32 \<Rightarrow> Interpreter \<Rightarrow> Interpreter" where
  "ppc_fdivsx inst c = finish inst (\<lambda>c r. not_divide_by_zero c r \<and> not_invalid c r) (force_write_single inst) (NI_div (FA inst c) (FB inst c) c)"

definition ppc_fmsubx :: "u32 \<Rightarrow> Interpreter \<Rightarrow> Interpreter" where
  "ppc_fmsubx inst c = finish inst not_invalid (force_write_double inst) (NI_msub False (FA inst c) (FC inst c) (FB inst c) c)"

definition ppc_fmsubsx :: "u32 \<Rightarrow> Interpreter \<Rightarrow> Interpreter" where
  "ppc_fmsubsx inst c = finish inst not_invalid (force_write_single inst) (NI_msub True (FA inst c) (FC inst c) (FB inst c) c)"

definition ppc_fnmaddx :: "u32 \<Rightarrow> Interpreter \<Rightarrow> Interpreter" where
  "ppc_fnmaddx inst c = finish inst not_invalid (\<lambda>v c. write_double inst (negate_number (ForceDouble c v)) c) (NI_madd False (FA inst c) (FC inst c) (FB inst c) c)"

definition ppc_fnmaddsx :: "u32 \<Rightarrow> Interpreter \<Rightarrow> Interpreter" where
  "ppc_fnmaddsx inst c = finish inst not_invalid (\<lambda>v c. write_single inst (negate_number_single (ForceSingle c v)) c) (NI_madd True (FA inst c) (FC inst c) (FB inst c) c)"

definition ppc_fnmsubx :: "u32 \<Rightarrow> Interpreter \<Rightarrow> Interpreter" where
  "ppc_fnmsubx inst c = finish inst not_invalid (\<lambda>v c. write_double inst (negate_number (ForceDouble c v)) c) (NI_msub False (FA inst c) (FC inst c) (FB inst c) c)"

definition ppc_fnmsubsx :: "u32 \<Rightarrow> Interpreter \<Rightarrow> Interpreter" where
  "ppc_fnmsubsx inst c = finish inst not_invalid (\<lambda>v c. write_single inst (negate_number_single (ForceSingle c v)) c) (NI_msub True (FA inst c) (FC inst c) (FB inst c) c)"

section \<open>Estimates\<close>

text \<open>
  \<open>estimate\<close> is the lambda \<open>compute_result\<close>; a pole or an invalid operand first raises its exception,
  and the enable bit then suppresses the result.
\<close>

definition estimate_fres :: "u32 \<Rightarrow> u64 \<Rightarrow> Interpreter \<Rightarrow> Interpreter" where
  "estimate_fres inst v c =
    (let result = ApproximateReciprocal v
     in UpdateFPRFSingle (to_single (mode_of c) result) (ps_Fill (inst_FD inst) result c))"

definition estimate_frsqrte :: "u32 \<Rightarrow> u64 \<Rightarrow> Interpreter \<Rightarrow> Interpreter" where
  "estimate_frsqrte inst v c = write_double inst (ApproximateReciprocalSquareRoot v) c"

definition estimate_exception :: "u32 \<Rightarrow> nat \<Rightarrow> (Interpreter \<Rightarrow> Interpreter) \<Rightarrow> Interpreter \<Rightarrow> Interpreter" where
  "estimate_exception e enable compute_result c =
    (let c1 = ClearFIFR (SetFPException e c) in if \<not> bit (fpscr c1) enable then compute_result c1 else c1)"

definition ppc_fresx :: "u32 \<Rightarrow> Interpreter \<Rightarrow> Interpreter" where
  "ppc_fresx inst c =
    (let b = FB inst c; compute_result = estimate_fres inst b
     in record_CR1 inst
          (if is_zero b then estimate_exception FPSCR_ZX FPSCR_ZE compute_result c
           else if IsSNAN b then estimate_exception FPSCR_VXSNAN FPSCR_VE compute_result c
           else compute_result (if isnan b \<or> isinf b then ClearFIFR c else c)))"

definition ppc_frsqrtex :: "u32 \<Rightarrow> Interpreter \<Rightarrow> Interpreter" where
  "ppc_frsqrtex inst c =
    (let b = FB inst c; compute_result = estimate_frsqrte inst b
     in record_CR1 inst
          (if f_less b 0 then estimate_exception FPSCR_VXSQRT FPSCR_VE compute_result c
           else if is_zero b then estimate_exception FPSCR_ZX FPSCR_ZE compute_result c
           else if IsSNAN b then estimate_exception FPSCR_VXSNAN FPSCR_VE compute_result c
           else compute_result (if isnan b \<or> isinf b then ClearFIFR c else c)))"

end
