(* ===== verification/Ppc_Paired.thy ===== *)
theory Ppc_Paired
  imports Ppc_FpArith
begin

text \<open>
  The paired-single instructions, \<open>Core/PowerPC/Interpreter/Interpreter_Paired.cpp\<close>, one definition
  per handler in the order of the file.
\<close>

section \<open>Moves\<close>

definition set_pair :: "u32 \<Rightarrow> u64 \<Rightarrow> u64 \<Rightarrow> Interpreter \<Rightarrow> Interpreter" where
  "set_pair inst v w c = record_CR1 inst (ps_SetBoth (inst_FD inst) v w c)"

abbreviation (input) A0 :: "u32 \<Rightarrow> Interpreter \<Rightarrow> u64" where "A0 inst c \<equiv> PS0 (inst_FA inst) c"
abbreviation (input) A1 :: "u32 \<Rightarrow> Interpreter \<Rightarrow> u64" where "A1 inst c \<equiv> PS1 (inst_FA inst) c"
abbreviation (input) B0 :: "u32 \<Rightarrow> Interpreter \<Rightarrow> u64" where "B0 inst c \<equiv> PS0 (inst_FB inst) c"
abbreviation (input) B1 :: "u32 \<Rightarrow> Interpreter \<Rightarrow> u64" where "B1 inst c \<equiv> PS1 (inst_FB inst) c"
abbreviation (input) C0 :: "u32 \<Rightarrow> Interpreter \<Rightarrow> u64" where "C0 inst c \<equiv> PS0 (inst_FC inst) c"
abbreviation (input) C1 :: "u32 \<Rightarrow> Interpreter \<Rightarrow> u64" where "C1 inst c \<equiv> PS1 (inst_FC inst) c"

definition ppc_ps_sel :: "u32 \<Rightarrow> Interpreter \<Rightarrow> Interpreter" where
  "ppc_ps_sel inst c = set_pair inst (select (A0 inst c) (C0 inst c) (B0 inst c)) (select (A1 inst c) (C1 inst c) (B1 inst c)) c"

definition ppc_ps_neg :: "u32 \<Rightarrow> Interpreter \<Rightarrow> Interpreter" where
  "ppc_ps_neg inst c = set_pair inst (B0 inst c XOR DOUBLE_SIGN) (B1 inst c XOR DOUBLE_SIGN) c"

definition ppc_ps_mr :: "u32 \<Rightarrow> Interpreter \<Rightarrow> Interpreter" where
  "ppc_ps_mr inst c = set_pair inst (B0 inst c) (B1 inst c) c"

definition ppc_ps_nabs :: "u32 \<Rightarrow> Interpreter \<Rightarrow> Interpreter" where
  "ppc_ps_nabs inst c = set_pair inst (B0 inst c OR DOUBLE_SIGN) (B1 inst c OR DOUBLE_SIGN) c"

definition ppc_ps_abs :: "u32 \<Rightarrow> Interpreter \<Rightarrow> Interpreter" where
  "ppc_ps_abs inst c = set_pair inst (B0 inst c AND NOT DOUBLE_SIGN) (B1 inst c AND NOT DOUBLE_SIGN) c"

definition ppc_ps_merge00 :: "u32 \<Rightarrow> Interpreter \<Rightarrow> Interpreter" where
  "ppc_ps_merge00 inst c = set_pair inst (A0 inst c) (B0 inst c) c"

definition ppc_ps_merge01 :: "u32 \<Rightarrow> Interpreter \<Rightarrow> Interpreter" where
  "ppc_ps_merge01 inst c = set_pair inst (A0 inst c) (B1 inst c) c"

definition ppc_ps_merge10 :: "u32 \<Rightarrow> Interpreter \<Rightarrow> Interpreter" where
  "ppc_ps_merge10 inst c = set_pair inst (A1 inst c) (B0 inst c) c"

definition ppc_ps_merge11 :: "u32 \<Rightarrow> Interpreter \<Rightarrow> Interpreter" where
  "ppc_ps_merge11 inst c = set_pair inst (A1 inst c) (B1 inst c) c"

section \<open>Arithmetic\<close>

text \<open>
  \<open>single_of\<close> is an operation followed by \<open>ForceSingle\<close>, which reads the status after it; the two
  halves are computed one after the other, and \<open>finish_pair\<close> is the end of every handler, with
  the half whose class is recorded.
\<close>

definition single_of :: "FPResult \<times> Interpreter \<Rightarrow> u32 \<times> Interpreter" where
  "single_of x = (case x of (r, c) \<Rightarrow> (ForceSingle c (fp_value r), c))"

definition finish_pair :: "u32 \<Rightarrow> u32 \<Rightarrow> u32 \<Rightarrow> u32 \<Rightarrow> Interpreter \<Rightarrow> Interpreter" where
  "finish_pair inst ps0 ps1 classified c =
    record_CR1 inst (UpdateFPRFSingle classified (ps_SetBoth (inst_FD inst) (to_double ps0) (to_double ps1) c))"

definition both_halves ::
    "(Interpreter \<Rightarrow> FPResult \<times> Interpreter) \<Rightarrow> (Interpreter \<Rightarrow> FPResult \<times> Interpreter) \<Rightarrow> (u32 \<Rightarrow> u32) \<Rightarrow> u32 \<Rightarrow> Interpreter \<Rightarrow> Interpreter" where
  "both_halves op0 op1 adjust inst c =
    (case single_of (op0 c) of (ps0, c1) \<Rightarrow> case single_of (op1 c1) of (ps1, c2) \<Rightarrow>
       finish_pair inst (adjust ps0) (adjust ps1) (adjust ps0) c2)"

definition ppc_ps_div :: "u32 \<Rightarrow> Interpreter \<Rightarrow> Interpreter" where
  "ppc_ps_div inst c = both_halves (NI_div (A0 inst c) (B0 inst c))
     (NI_div (A1 inst c) (B1 inst c)) (\<lambda>x. x) inst c"

definition ppc_ps_res :: "u32 \<Rightarrow> Interpreter \<Rightarrow> Interpreter" where
  "ppc_ps_res inst c =
    (let a = B0 inst c; b = B1 inst c;
         c1 = (if is_zero a \<or> is_zero b then ClearFIFR (SetFPException FPSCR_ZX c) else c);
         c2 = (if isnan a \<or> isinf a \<or> isnan b \<or> isinf b then ClearFIFR c1 else c1);
         c3 = (if IsSNAN a \<or> IsSNAN b then SetFPException FPSCR_VXSNAN c2 else c2);
         ps0 = ApproximateReciprocal a; ps1 = ApproximateReciprocal b
     in record_CR1 inst (UpdateFPRFSingle (to_single (mode_of c3) ps0) (ps_SetBoth (inst_FD inst) ps0 ps1 c3)))"

definition ppc_ps_rsqrte :: "u32 \<Rightarrow> Interpreter \<Rightarrow> Interpreter" where
  "ppc_ps_rsqrte inst c =
    (let a = B0 inst c; b = B1 inst c;
         c1 = (if is_zero a \<or> is_zero b then ClearFIFR (SetFPException FPSCR_ZX c) else c);
         c2 = (if f_less a 0 \<or> f_less b 0 then ClearFIFR (SetFPException FPSCR_VXSQRT c1) else c1);
         c3 = (if isnan a \<or> isinf a \<or> isnan b \<or> isinf b then ClearFIFR c2 else c2);
         c4 = (if IsSNAN a \<or> IsSNAN b then SetFPException FPSCR_VXSNAN c3 else c3);
         dst_ps0 = ForceSingle c4 (ApproximateReciprocalSquareRoot a);
         dst_ps1 = ForceSingle c4 (ApproximateReciprocalSquareRoot b)
     in finish_pair inst dst_ps0 dst_ps1 dst_ps0 c4)"

definition ppc_ps_sub :: "u32 \<Rightarrow> Interpreter \<Rightarrow> Interpreter" where
  "ppc_ps_sub inst c = both_halves (NI_sub (A0 inst c) (B0 inst c))
     (NI_sub (A1 inst c) (B1 inst c)) (\<lambda>x. x) inst c"

definition ppc_ps_add :: "u32 \<Rightarrow> Interpreter \<Rightarrow> Interpreter" where
  "ppc_ps_add inst c = both_halves (NI_add (A0 inst c) (B0 inst c))
     (NI_add (A1 inst c) (B1 inst c)) (\<lambda>x. x) inst c"

definition ppc_ps_mul :: "u32 \<Rightarrow> Interpreter \<Rightarrow> Interpreter" where
  "ppc_ps_mul inst c = both_halves (NI_mul (A0 inst c) (Force25Bit (C0 inst c)))
     (NI_mul (A1 inst c) (Force25Bit (C1 inst c))) (\<lambda>x. x) inst c"

definition ppc_ps_msub :: "u32 \<Rightarrow> Interpreter \<Rightarrow> Interpreter" where
  "ppc_ps_msub inst c = both_halves (NI_msub True (A0 inst c) (C0 inst c) (B0 inst c))
     (NI_msub True (A1 inst c) (C1 inst c) (B1 inst c)) (\<lambda>x. x) inst c"

definition ppc_ps_madd :: "u32 \<Rightarrow> Interpreter \<Rightarrow> Interpreter" where
  "ppc_ps_madd inst c = both_halves (NI_madd True (A0 inst c) (C0 inst c) (B0 inst c))
     (NI_madd True (A1 inst c) (C1 inst c) (B1 inst c)) (\<lambda>x. x) inst c"

definition ppc_ps_nmsub :: "u32 \<Rightarrow> Interpreter \<Rightarrow> Interpreter" where
  "ppc_ps_nmsub inst c = both_halves (NI_msub True (A0 inst c) (C0 inst c) (B0 inst c))
     (NI_msub True (A1 inst c) (C1 inst c) (B1 inst c)) (negate_number_single) inst c"

definition ppc_ps_nmadd :: "u32 \<Rightarrow> Interpreter \<Rightarrow> Interpreter" where
  "ppc_ps_nmadd inst c = both_halves (NI_madd True (A0 inst c) (C0 inst c) (B0 inst c))
     (NI_madd True (A1 inst c) (C1 inst c) (B1 inst c)) (negate_number_single) inst c"

definition ppc_ps_sum0 :: "u32 \<Rightarrow> Interpreter \<Rightarrow> Interpreter" where
  "ppc_ps_sum0 inst c =
    (case single_of (NI_add (A0 inst c) (B1 inst c) c) of (ps0, c1) \<Rightarrow>
       finish_pair inst ps0 (ForceSingle c1 (C1 inst c)) ps0 c1)"

definition ppc_ps_sum1 :: "u32 \<Rightarrow> Interpreter \<Rightarrow> Interpreter" where
  "ppc_ps_sum1 inst c =
    (let ps0 = ForceSingle c (C0 inst c)
     in case single_of (NI_add (A0 inst c) (B1 inst c) c) of (ps1, c1) \<Rightarrow> finish_pair inst ps0 ps1 ps1 c1)"

definition ppc_ps_muls0 :: "u32 \<Rightarrow> Interpreter \<Rightarrow> Interpreter" where
  "ppc_ps_muls0 inst c = both_halves (NI_mul (A0 inst c) (Force25Bit (C0 inst c)))
     (NI_mul (A1 inst c) (Force25Bit (C0 inst c))) (\<lambda>x. x) inst c"

definition ppc_ps_muls1 :: "u32 \<Rightarrow> Interpreter \<Rightarrow> Interpreter" where
  "ppc_ps_muls1 inst c = both_halves (NI_mul (A0 inst c) (Force25Bit (C1 inst c)))
     (NI_mul (A1 inst c) (Force25Bit (C1 inst c))) (\<lambda>x. x) inst c"

definition ppc_ps_madds0 :: "u32 \<Rightarrow> Interpreter \<Rightarrow> Interpreter" where
  "ppc_ps_madds0 inst c = both_halves (NI_madd True (A0 inst c) (C0 inst c) (B0 inst c))
     (NI_madd True (A1 inst c) (C0 inst c) (B1 inst c)) (\<lambda>x. x) inst c"

definition ppc_ps_madds1 :: "u32 \<Rightarrow> Interpreter \<Rightarrow> Interpreter" where
  "ppc_ps_madds1 inst c = both_halves (NI_madd True (A0 inst c) (C1 inst c) (B0 inst c))
     (NI_madd True (A1 inst c) (C1 inst c) (B1 inst c)) (\<lambda>x. x) inst c"

section \<open>Comparisons\<close>

definition ppc_ps_cmpu0 :: "u32 \<Rightarrow> Interpreter \<Rightarrow> Interpreter" where
  "ppc_ps_cmpu0 inst c = Helper_FloatCompareUnordered inst (A0 inst c) (B0 inst c) c"

definition ppc_ps_cmpu1 :: "u32 \<Rightarrow> Interpreter \<Rightarrow> Interpreter" where
  "ppc_ps_cmpu1 inst c = Helper_FloatCompareUnordered inst (A1 inst c) (B1 inst c) c"

definition ppc_ps_cmpo0 :: "u32 \<Rightarrow> Interpreter \<Rightarrow> Interpreter" where
  "ppc_ps_cmpo0 inst c = Helper_FloatCompareOrdered inst (A0 inst c) (B0 inst c) c"

definition ppc_ps_cmpo1 :: "u32 \<Rightarrow> Interpreter \<Rightarrow> Interpreter" where
  "ppc_ps_cmpo1 inst c = Helper_FloatCompareOrdered inst (A1 inst c) (B1 inst c) c"

end
