(* ===== verification/Ppc_Quantize.thy ===== *)
theory Ppc_Quantize
  imports Ppc_LoadStore Ppc_Paired
begin

text \<open>
  Loads and stores of paired singles, \<open>Core/PowerPC/Interpreter/Interpreter_LoadStorePaired.cpp\<close>:
  the quantisation of \<open>ScaleAndClamp\<close> and the handlers.
\<close>

section \<open>Scales\<close>

definition inst_I :: "u32 \<Rightarrow> nat" where "inst_I i = inst_index 12 3 i"
definition inst_W :: "u32 \<Rightarrow> bool" where "inst_W i = bit i 15"
definition inst_Ix :: "u32 \<Rightarrow> nat" where "inst_Ix i = inst_index 7 3 i"
definition inst_Wx :: "u32 \<Rightarrow> bool" where "inst_Wx i = bit i 10"
definition inst_SIMM_12 :: "u32 \<Rightarrow> u32" where "inst_SIMM_12 i = scast (ucast i :: 12 word)"

text \<open>The tables hold powers of two: these are their exponents.\<close>

definition dequantize_exponent :: "nat \<Rightarrow> int" where
  "dequantize_exponent i = (if i < 32 then - int i else 64 - int i)"

definition quantize_exponent :: "nat \<Rightarrow> int" where
  "quantize_exponent i = (if i < 32 then int i else int i - 64)"

text \<open>
  The integer types of the quantiser by the three bits of the register: size in bytes and range.
\<close>

definition quantized :: "u32 \<Rightarrow> (nat \<times> int \<times> int) option" where
  "quantized t =
    (if t = 4 then Some (1, 0, 255)
     else if t = 5 then Some (2, 0, 65535)
     else if t = 6 then Some (1, -128, 127)
     else if t = 7 then Some (2, -32768, 32767)
     else None)"

section \<open>Stores\<close>

definition value_of_int :: "int \<Rightarrow> fval" where
  "value_of_int i = Finite (i < 0) (nat \<bar>i\<bar>) 0"

definition scaled :: "fp_mode \<Rightarrow> u64 \<Rightarrow> int \<Rightarrow> fval" where
  "scaled mode v k =
    (case unpack32 (to_single mode v) of
       Finite s m e \<Rightarrow> unpack32 (round32 mode (s, m, e + k))
     | x \<Rightarrow> x)"

text \<open>
  The conversion of a NaN to an integer has no defined result; the low bytes of what the host
  delivers are zero.
\<close>

definition ScaleAndClamp :: "fp_mode \<Rightarrow> int \<times> int \<Rightarrow> u64 \<Rightarrow> nat \<Rightarrow> int" where
  "ScaleAndClamp mode limits v st_scale =
    (case limits of (lo, hi) \<Rightarrow>
       let x = scaled mode v (quantize_exponent st_scale)
       in if value_less x (value_of_int lo) then lo
          else if value_less (value_of_int hi) x then hi
          else integer_part x)"

definition WritePair :: "'d bus \<Rightarrow> nat \<Rightarrow> u32 \<Rightarrow> u32 \<Rightarrow> u32 \<Rightarrow> 'd Cpu \<Rightarrow> 'd Cpu" where
  "WritePair B n val1 val2 addr s =
    (if n = 1 then mmu_Write B 2 (push_bit 8 val1 OR val2) addr s
     else if n = 2 then mmu_Write B 4 (push_bit 16 val1 OR val2) addr s
     else mmu_Write_U64 B (push_bit 32 (ucast val1) OR ucast val2) addr s)"

definition store_quantized :: "'d bus \<Rightarrow> nat \<Rightarrow> bool \<Rightarrow> u32 \<Rightarrow> u32 \<Rightarrow> u32 \<Rightarrow> 'd Cpu \<Rightarrow> 'd Cpu" where
  "store_quantized B n instW val0 val1 addr s =
    (if instW then mmu_Write B n val0 addr s else WritePair B n val0 val1 addr s)"

definition quantize :: "fp_mode \<Rightarrow> nat \<times> int \<times> int \<Rightarrow> nat \<Rightarrow> u64 \<Rightarrow> u32" where
  "quantize mode t st_scale v =
    (case t of (n, limits) \<Rightarrow> take_bit (8 * n) (word_of_int (ScaleAndClamp mode limits v st_scale)))"

abbreviation (input) SPR_GQR0 :: nat where "SPR_GQR0 \<equiv> 912"

definition Helper_Quantize :: "'d bus \<Rightarrow> u32 \<Rightarrow> nat \<Rightarrow> nat \<Rightarrow> bool \<Rightarrow> 'd Cpu \<Rightarrow> 'd Cpu" where
  "Helper_Quantize B addr instI instRS instW s =
    (let gqr = sprs s (SPR_GQR0 + instI); st_type = bit_field 0 3 gqr; st_scale = unat (bit_field 8 6 gqr);
         ps0 = PS0 instRS (core s); ps1 = PS1 instRS (core s); mode = mode_of (core s)
     in if st_type = 0 then store_quantized B 4 instW (ConvertToSingleFTZ ps0) (ConvertToSingleFTZ ps1) addr s
        else case quantized st_type of
          None \<Rightarrow> s
        | Some t \<Rightarrow> store_quantized B (fst t) instW (quantize mode t st_scale ps0) (quantize mode t st_scale ps1) addr s)"

section \<open>Loads\<close>

definition ReadPair :: "'d bus \<Rightarrow> nat \<Rightarrow> u32 \<Rightarrow> 'd Cpu \<Rightarrow> (u32 \<times> u32) \<times> 'd Cpu" where
  "ReadPair B n addr s =
    (case mmu_Read B (2 * n) addr s of (v, s1) \<Rightarrow>
       ((ucast (take_bit (8 * n) (drop_bit (8 * n) v)), ucast (take_bit (8 * n) v)), s1))"

text \<open>Both halves as doubles; \<open>convert\<close> makes one from the value read.\<close>

definition load_quantized :: "'d bus \<Rightarrow> nat \<Rightarrow> (u32 \<Rightarrow> u64) \<Rightarrow> bool \<Rightarrow> u32 \<Rightarrow> 'd Cpu \<Rightarrow> (u64 \<times> u64) \<times> 'd Cpu" where
  "load_quantized B n convert instW addr s =
    (if instW then (case mmu_Read B n addr s of (v, s1) \<Rightarrow> ((convert (ucast v), 0x3FF0000000000000), s1))
     else case ReadPair B n addr s of ((first, second), s1) \<Rightarrow> ((convert first, convert second), s1))"

definition signed_value :: "nat \<times> int \<times> int \<Rightarrow> u32 \<Rightarrow> int" where
  "signed_value t v =
    (case t of (n, lo, hi) \<Rightarrow> if lo < 0 \<and> bit v (8 * n - 1) then uint v - 2 ^ (8 * n) else uint v)"

definition dequantize :: "fp_mode \<Rightarrow> nat \<times> int \<times> int \<Rightarrow> nat \<Rightarrow> u32 \<Rightarrow> u64" where
  "dequantize mode t ld_scale v =
    (let i = signed_value t v in to_double (round32 mode (i < 0, nat \<bar>i\<bar>, dequantize_exponent ld_scale)))"

definition Helper_Dequantize :: "'d bus \<Rightarrow> u32 \<Rightarrow> nat \<Rightarrow> nat \<Rightarrow> bool \<Rightarrow> 'd Cpu \<Rightarrow> 'd Cpu" where
  "Helper_Dequantize B addr instI instRD instW s =
    (let gqr = sprs s (SPR_GQR0 + instI); ld_type = bit_field 16 3 gqr; ld_scale = unat (bit_field 24 6 gqr)
     in case (if ld_type = 0 then load_quantized B 4 ConvertToDouble instW addr s
              else case quantized ld_type of
                None \<Rightarrow> ((0, 0), s)
              | Some t \<Rightarrow> load_quantized B (fst t) (dequantize (mode_of (core s)) t ld_scale) instW addr s) of
          ((ps0, ps1), s1) \<Rightarrow> unless_DSI (ps_SetBoth instRD ps0 ps1) s1)"

section \<open>Instructions\<close>

abbreviation (input) HID2_LSQE :: nat where "HID2_LSQE \<equiv> 31"

definition if_LSQE :: "('d Cpu \<Rightarrow> 'd Cpu) \<Rightarrow> 'd Cpu \<Rightarrow> 'd Cpu" where
  "if_LSQE f s =
    (if \<not> bit (sprs s SPR_HID2) HID2_LSQE then upd_core (GenerateProgramException IllegalInstruction) s else f s)"

definition psq_EA :: "Interpreter \<Rightarrow> u32 \<Rightarrow> u32" where
  "psq_EA c inst = (if inst_RA inst \<noteq> 0 then gpr c (inst_RA inst) + inst_SIMM_12 inst else inst_SIMM_12 inst)"

definition psq_EA_U :: "Interpreter \<Rightarrow> u32 \<Rightarrow> u32" where
  "psq_EA_U c inst = gpr c (inst_RA inst) + inst_SIMM_12 inst"

definition ppc_psq_l :: "'d bus \<Rightarrow> u32 \<Rightarrow> 'd Cpu \<Rightarrow> 'd Cpu" where
  "ppc_psq_l B inst = if_LSQE (\<lambda>s.
     Helper_Dequantize B (psq_EA (core s) inst) (inst_I inst) (inst_RD inst) (inst_W inst) s)"

definition ppc_psq_lu :: "'d bus \<Rightarrow> u32 \<Rightarrow> 'd Cpu \<Rightarrow> 'd Cpu" where
  "ppc_psq_lu B inst = if_LSQE (\<lambda>s. let EA = psq_EA_U (core s) inst
     in unless_DSI (set_RA inst EA) (Helper_Dequantize B EA (inst_I inst) (inst_RD inst) (inst_W inst) s))"

definition ppc_psq_st :: "'d bus \<Rightarrow> u32 \<Rightarrow> 'd Cpu \<Rightarrow> 'd Cpu" where
  "ppc_psq_st B inst = if_LSQE (\<lambda>s.
     Helper_Quantize B (psq_EA (core s) inst) (inst_I inst) (inst_RS inst) (inst_W inst) s)"

definition ppc_psq_stu :: "'d bus \<Rightarrow> u32 \<Rightarrow> 'd Cpu \<Rightarrow> 'd Cpu" where
  "ppc_psq_stu B inst = if_LSQE (\<lambda>s. let EA = psq_EA_U (core s) inst
     in unless_DSI (set_RA inst EA) (Helper_Quantize B EA (inst_I inst) (inst_RS inst) (inst_W inst) s))"

definition ppc_psq_lx :: "'d bus \<Rightarrow> u32 \<Rightarrow> 'd Cpu \<Rightarrow> 'd Cpu" where
  "ppc_psq_lx B inst s =
     Helper_Dequantize B (Helper_Get_EA_X (core s) inst) (inst_Ix inst) (inst_RD inst) (inst_Wx inst) s"

definition ppc_psq_stx :: "'d bus \<Rightarrow> u32 \<Rightarrow> 'd Cpu \<Rightarrow> 'd Cpu" where
  "ppc_psq_stx B inst s =
     Helper_Quantize B (Helper_Get_EA_X (core s) inst) (inst_Ix inst) (inst_RS inst) (inst_Wx inst) s"

definition ppc_psq_lux :: "'d bus \<Rightarrow> u32 \<Rightarrow> 'd Cpu \<Rightarrow> 'd Cpu" where
  "ppc_psq_lux B inst s = (let EA = Helper_Get_EA_UX (core s) inst
     in unless_DSI (set_RA inst EA) (Helper_Dequantize B EA (inst_Ix inst) (inst_RD inst) (inst_Wx inst) s))"

definition ppc_psq_stux :: "'d bus \<Rightarrow> u32 \<Rightarrow> 'd Cpu \<Rightarrow> 'd Cpu" where
  "ppc_psq_stux B inst s = (let EA = Helper_Get_EA_UX (core s) inst
     in unless_DSI (set_RA inst EA) (Helper_Quantize B EA (inst_Ix inst) (inst_RS inst) (inst_Wx inst) s))"

end
