(* ===== verification/Ppc_Decode.thy ===== *)
theory Ppc_Decode
  imports Ppc_Integer Ppc_Spr Ppc_Quantize
begin

text \<open>
  Decoding, \<open>Core/PowerPC/Interpreter/Interpreter_Tables.cpp\<close>: the tables of the interpreter's handlers
  in the order of the file, the arrays built from them when the program is compiled, and
  \<open>GetInterpreterOp\<close> and \<open>RunInterpreterOp\<close>.
\<close>

section \<open>Handlers\<close>

text \<open>
  A function pointer of an array: the code compares it only with \<open>unknown_instruction\<close> and with the
  functions that go on in a second table.
\<close>

type_synonym 'd handler = "u32 \<Rightarrow> 'd Cpu \<Rightarrow> 'd Cpu"

datatype 'd slot = UnknownInstruction | RunTable4 | RunTable19 | RunTable31 | RunTable59 | RunTable63 | Run "'d handler"

type_synonym 'd op_table = "(nat \<times> 'd slot) list"

definition on_core :: "(u32 \<Rightarrow> Interpreter \<Rightarrow> Interpreter) \<Rightarrow> 'd slot" where
  "on_core f = Run (\<lambda>inst. upd_core (f inst))"

section \<open>The tables\<close>

definition s_primary_table :: "'d bus \<Rightarrow> 'd op_table" where
  "s_primary_table B =
    [(4, RunTable4), (19, RunTable19), (31, RunTable31), (59, RunTable59), (63, RunTable63),
     (16, on_core ppc_bcx), (18, on_core ppc_bx), (3, on_core ppc_twi), (17, on_core ppc_sc),
     (7, on_core ppc_mulli), (8, on_core ppc_subfic), (10, on_core ppc_cmpli), (11, on_core ppc_cmpi),
     (12, on_core ppc_addic), (13, on_core ppc_addic_rc), (14, on_core ppc_addi), (15, on_core ppc_addis),
     (20, on_core ppc_rlwimix), (21, on_core ppc_rlwinmx), (23, on_core ppc_rlwnmx), (24, on_core ppc_ori),
     (25, on_core ppc_oris), (26, on_core ppc_xori), (27, on_core ppc_xoris), (28, on_core ppc_andi_rc),
     (29, on_core ppc_andis_rc), (32, Run (ppc_lwz B)), (33, Run (ppc_lwzu B)), (34, Run (ppc_lbz B)),
     (35, Run (ppc_lbzu B)), (40, Run (ppc_lhz B)), (41, Run (ppc_lhzu B)), (42, Run (ppc_lha B)),
     (43, Run (ppc_lhau B)), (44, Run (ppc_sth B)), (45, Run (ppc_sthu B)), (36, Run (ppc_stw B)),
     (37, Run (ppc_stwu B)), (38, Run (ppc_stb B)), (39, Run (ppc_stbu B)), (46, Run (ppc_lmw B)),
     (47, Run (ppc_stmw B)), (48, Run (ppc_lfs B)), (49, Run (ppc_lfsu B)), (50, Run (ppc_lfd B)),
     (51, Run (ppc_lfdu B)), (52, Run (ppc_stfs B)), (53, Run (ppc_stfsu B)), (54, Run (ppc_stfd B)),
     (55, Run (ppc_stfdu B)), (56, Run (ppc_psq_l B)), (57, Run (ppc_psq_lu B)), (60, Run (ppc_psq_st B)),
     (61, Run (ppc_psq_stu B))]"

definition s_table4 :: "'d bus \<Rightarrow> 'd op_table" where
  "s_table4 B =
    [(0, on_core ppc_ps_cmpu0), (32, on_core ppc_ps_cmpo0), (40, on_core ppc_ps_neg),
     (136, on_core ppc_ps_nabs), (264, on_core ppc_ps_abs), (64, on_core ppc_ps_cmpu1),
     (72, on_core ppc_ps_mr), (96, on_core ppc_ps_cmpo1), (528, on_core ppc_ps_merge00),
     (560, on_core ppc_ps_merge01), (592, on_core ppc_ps_merge10), (624, on_core ppc_ps_merge11),
     (1014, Run (ppc_dcbz_l B))]"

definition s_table4_2 :: "'d bus \<Rightarrow> 'd op_table" where
  "s_table4_2 B =
    [(10, on_core ppc_ps_sum0), (11, on_core ppc_ps_sum1), (12, on_core ppc_ps_muls0),
     (13, on_core ppc_ps_muls1), (14, on_core ppc_ps_madds0), (15, on_core ppc_ps_madds1),
     (18, on_core ppc_ps_div), (20, on_core ppc_ps_sub), (21, on_core ppc_ps_add), (23, on_core ppc_ps_sel),
     (24, on_core ppc_ps_res), (25, on_core ppc_ps_mul), (26, on_core ppc_ps_rsqrte),
     (28, on_core ppc_ps_msub), (29, on_core ppc_ps_madd), (30, on_core ppc_ps_nmsub),
     (31, on_core ppc_ps_nmadd)]"

definition s_table4_3 :: "'d bus \<Rightarrow> 'd op_table" where
  "s_table4_3 B =
    [(6, Run (ppc_psq_lx B)), (7, Run (ppc_psq_stx B)), (38, Run (ppc_psq_lux B)), (39, Run (ppc_psq_stux B))]"

definition s_table19 :: "'d bus \<Rightarrow> 'd op_table" where
  "s_table19 B =
    [(528, on_core ppc_bcctrx), (16, on_core ppc_bclrx), (257, on_core ppc_crand), (129, on_core ppc_crandc),
     (289, on_core ppc_creqv), (225, on_core ppc_crnand), (33, on_core ppc_crnor), (449, on_core ppc_cror),
     (417, on_core ppc_crorc), (193, on_core ppc_crxor), (150, on_core ppc_isync), (0, on_core ppc_mcrf),
     (50, on_core ppc_rfi)]"

definition s_table31 :: "'d bus \<Rightarrow> 'd op_table" where
  "s_table31 B =
    [(266, on_core ppc_addx), (778, on_core ppc_addx), (10, on_core ppc_addcx), (522, on_core ppc_addcx),
     (138, on_core ppc_addex), (650, on_core ppc_addex), (234, on_core ppc_addmex), (746, on_core ppc_addmex),
     (202, on_core ppc_addzex), (714, on_core ppc_addzex), (491, on_core ppc_divwx), (1003, on_core ppc_divwx),
     (459, on_core ppc_divwux), (971, on_core ppc_divwux), (75, on_core ppc_mulhwx), (11, on_core ppc_mulhwux),
     (235, on_core ppc_mullwx), (747, on_core ppc_mullwx), (104, on_core ppc_negx), (616, on_core ppc_negx),
     (40, on_core ppc_subfx), (552, on_core ppc_subfx), (8, on_core ppc_subfcx), (520, on_core ppc_subfcx),
     (136, on_core ppc_subfex), (648, on_core ppc_subfex), (232, on_core ppc_subfmex),
     (744, on_core ppc_subfmex), (200, on_core ppc_subfzex), (712, on_core ppc_subfzex),
     (28, on_core ppc_andx), (60, on_core ppc_andcx), (444, on_core ppc_orx), (124, on_core ppc_norx),
     (316, on_core ppc_xorx), (412, on_core ppc_orcx), (476, on_core ppc_nandx), (284, on_core ppc_eqvx),
     (0, on_core ppc_cmp), (32, on_core ppc_cmpl), (26, on_core ppc_cntlzwx), (922, on_core ppc_extshx),
     (954, on_core ppc_extsbx), (536, on_core ppc_srwx), (792, on_core ppc_srawx), (824, on_core ppc_srawix),
     (24, on_core ppc_slwx), (54, Run (ppc_dcbst B)), (86, Run (ppc_dcbf B)), (246, Run (ppc_dcbtst B)),
     (278, Run (ppc_dcbt B)), (470, Run (ppc_dcbi B)), (758, Run (ppc_dcba B)), (1014, Run (ppc_dcbz B)),
     (23, Run (ppc_lwzx B)), (55, Run (ppc_lwzux B)), (279, Run (ppc_lhzx B)), (311, Run (ppc_lhzux B)),
     (343, Run (ppc_lhax B)), (375, Run (ppc_lhaux B)), (87, Run (ppc_lbzx B)), (119, Run (ppc_lbzux B)),
     (534, Run (ppc_lwbrx B)), (790, Run (ppc_lhbrx B)), (150, Run (ppc_stwcxd B)), (20, Run (ppc_lwarx B)),
     (533, Run (ppc_lswx B)), (597, Run (ppc_lswi B)), (151, Run (ppc_stwx B)), (183, Run (ppc_stwux B)),
     (407, Run (ppc_sthx B)), (439, Run (ppc_sthux B)), (215, Run (ppc_stbx B)), (247, Run (ppc_stbux B)),
     (662, Run (ppc_stwbrx B)), (918, Run (ppc_sthbrx B)), (661, Run (ppc_stswx B)), (725, Run (ppc_stswi B)),
     (535, Run (ppc_lfsx B)), (567, Run (ppc_lfsux B)), (599, Run (ppc_lfdx B)), (631, Run (ppc_lfdux B)),
     (663, Run (ppc_stfsx B)), (695, Run (ppc_stfsux B)), (727, Run (ppc_stfdx B)), (759, Run (ppc_stfdux B)),
     (983, Run (ppc_stfiwx B)), (19, on_core ppc_mfcr), (83, on_core ppc_mfmsr), (144, on_core ppc_mtcrf),
     (146, on_core ppc_mtmsr), (210, on_core ppc_mtsr), (242, on_core ppc_mtsrin), (339, Run (ppc_mfspr B)),
     (467, Run (ppc_mtspr B)), (371, Run (ppc_mftb B)), (512, on_core ppc_mcrxr), (595, on_core ppc_mfsr),
     (659, on_core ppc_mfsrin), (4, on_core ppc_tw), (598, Run (ppc_sync B)), (982, Run (ppc_icbi B)),
     (310, Run (ppc_eciwx B)), (438, Run (ppc_ecowx B)), (854, Run (ppc_eieio B)), (306, Run (ppc_tlbie B)),
     (566, Run (ppc_tlbsync B))]"

definition s_table59 :: "'d bus \<Rightarrow> 'd op_table" where
  "s_table59 B =
    [(18, on_core ppc_fdivsx), (20, on_core ppc_fsubsx), (21, on_core ppc_faddsx), (24, on_core ppc_fresx),
     (25, on_core ppc_fmulsx), (28, on_core ppc_fmsubsx), (29, on_core ppc_fmaddsx),
     (30, on_core ppc_fnmsubsx), (31, on_core ppc_fnmaddsx)]"

definition s_table63 :: "'d bus \<Rightarrow> 'd op_table" where
  "s_table63 B =
    [(264, on_core ppc_fabsx), (32, on_core ppc_fcmpo), (0, on_core ppc_fcmpu), (14, on_core ppc_fctiwx),
     (15, on_core ppc_fctiwzx), (72, on_core ppc_fmrx), (136, on_core ppc_fnabsx), (40, on_core ppc_fnegx),
     (12, on_core ppc_frspx), (64, on_core ppc_mcrfs), (583, on_core ppc_mffsx), (70, on_core ppc_mtfsb0x),
     (38, on_core ppc_mtfsb1x), (134, on_core ppc_mtfsfix), (711, on_core ppc_mtfsfx)]"

definition s_table63_2 :: "'d bus \<Rightarrow> 'd op_table" where
  "s_table63_2 B =
    [(18, on_core ppc_fdivx), (20, on_core ppc_fsubx), (21, on_core ppc_faddx), (23, on_core ppc_fselx),
     (25, on_core ppc_fmulx), (26, on_core ppc_frsqrtex), (28, on_core ppc_fmsubx), (29, on_core ppc_fmaddx),
     (30, on_core ppc_fnmsubx), (31, on_core ppc_fnmaddx)]"

section \<open>The arrays\<close>

text \<open>
  An array starts full of \<open>unknown_instruction\<close> and is written entry by entry; the code asserts that
  no entry is written twice.  \<open>fill\<close> repeats a table at every multiple of its stride.
\<close>

definition write_table :: "'d op_table \<Rightarrow> (nat \<Rightarrow> 'd slot) \<Rightarrow> (nat \<Rightarrow> 'd slot)" where
  "write_table entries table = fold (\<lambda>(op, fn) t. t(op := fn)) entries table"

definition fill :: "nat \<Rightarrow> nat \<Rightarrow> 'd op_table \<Rightarrow> 'd op_table" where
  "fill count stride entries = concat (map (\<lambda>i. map (\<lambda>(op, fn). (i * stride + op, fn)) entries) [0..<count])"

definition s_interpreter_op_table :: "'d bus \<Rightarrow> nat \<Rightarrow> 'd slot" where
  "s_interpreter_op_table B = write_table (s_primary_table B) (\<lambda>_. UnknownInstruction)"

definition s_interpreter_op_table4 :: "'d bus \<Rightarrow> nat \<Rightarrow> 'd slot" where
  "s_interpreter_op_table4 B =
    write_table (s_table4 B) (write_table (fill 16 64 (s_table4_3 B)) (write_table (fill 32 32 (s_table4_2 B)) (\<lambda>_. UnknownInstruction)))"

definition s_interpreter_op_table19 :: "'d bus \<Rightarrow> nat \<Rightarrow> 'd slot" where
  "s_interpreter_op_table19 B = write_table (s_table19 B) (\<lambda>_. UnknownInstruction)"

definition s_interpreter_op_table31 :: "'d bus \<Rightarrow> nat \<Rightarrow> 'd slot" where
  "s_interpreter_op_table31 B = write_table (s_table31 B) (\<lambda>_. UnknownInstruction)"

definition s_interpreter_op_table59 :: "'d bus \<Rightarrow> nat \<Rightarrow> 'd slot" where
  "s_interpreter_op_table59 B = write_table (s_table59 B) (\<lambda>_. UnknownInstruction)"

definition s_interpreter_op_table63 :: "'d bus \<Rightarrow> nat \<Rightarrow> 'd slot" where
  "s_interpreter_op_table63 B =
    write_table (fill 32 32 (s_table63_2 B)) (write_table (s_table63 B) (\<lambda>_. UnknownInstruction))"

section \<open>Decoding\<close>

definition GetInterpreterOp :: "'d bus \<Rightarrow> u32 \<Rightarrow> 'd slot" where
  "GetInterpreterOp B inst =
    (let result = s_interpreter_op_table B (inst_OPCD inst)
     in case result of
          RunTable4 \<Rightarrow> s_interpreter_op_table4 B (inst_SUBOP10 inst)
        | RunTable19 \<Rightarrow> s_interpreter_op_table19 B (inst_SUBOP10 inst)
        | RunTable31 \<Rightarrow> s_interpreter_op_table31 B (inst_SUBOP10 inst)
        | RunTable59 \<Rightarrow> s_interpreter_op_table59 B (inst_SUBOP5 inst)
        | RunTable63 \<Rightarrow> s_interpreter_op_table63 B (inst_SUBOP10 inst)
        | _ \<Rightarrow> result)"

text \<open>
  \<open>unknown_instruction\<close> reads the word at the last address for its message, and stops the CPU if the
  user wants panics to.
\<close>

definition unknown_instruction :: "'d bus \<Rightarrow> u32 \<Rightarrow> 'd Cpu \<Rightarrow> 'd Cpu" where
  "unknown_instruction B inst s =
    (case HostRead B 4 (m_last_pc (core s)) s of (_, s1) \<Rightarrow> if IsPauseOnPanicMode s1 then cpu_Break s1 else s1)"

text \<open>The call through a pointer; a second table never holds a pointer to another table.\<close>

definition call_slot :: "'d bus \<Rightarrow> 'd slot \<Rightarrow> 'd handler" where
  "call_slot B f = (case f of Run h \<Rightarrow> h | _ \<Rightarrow> unknown_instruction B)"

definition RunInterpreterOp :: "'d bus \<Rightarrow> u32 \<Rightarrow> 'd Cpu \<Rightarrow> 'd Cpu" where
  "RunInterpreterOp B inst =
    (case s_interpreter_op_table B (inst_OPCD inst) of
       RunTable4 \<Rightarrow> call_slot B (s_interpreter_op_table4 B (inst_SUBOP10 inst)) inst
     | RunTable19 \<Rightarrow> call_slot B (s_interpreter_op_table19 B (inst_SUBOP10 inst)) inst
     | RunTable31 \<Rightarrow> call_slot B (s_interpreter_op_table31 B (inst_SUBOP10 inst)) inst
     | RunTable59 \<Rightarrow> call_slot B (s_interpreter_op_table59 B (inst_SUBOP5 inst)) inst
     | RunTable63 \<Rightarrow> call_slot B (s_interpreter_op_table63 B (inst_SUBOP10 inst)) inst
     | f \<Rightarrow> call_slot B f inst)"

end
