(* ===== verification/Ppc_OpInfo.thy ===== *)
theory Ppc_OpInfo
  imports Ppc_State
begin

text \<open>
  What the interpreter and the recompilers know of each instruction, \<open>Core/PowerPC/PPCTables\<close>: name,
  kind, cycles and flags.  The entry of an instruction is found as the interpreter finds its
  handler; the counters of the statistics are left out.
\<close>

section \<open>Flags and kinds\<close>

definition FL_SET_CR0 :: u64 where "FL_SET_CR0 = push_bit 0 1"
definition FL_SET_CRn :: u64 where "FL_SET_CRn = push_bit 2 1"
definition FL_SET_CA :: u64 where "FL_SET_CA = push_bit 3 1"
definition FL_READ_CA :: u64 where "FL_READ_CA = push_bit 4 1"
definition FL_RC_BIT :: u64 where "FL_RC_BIT = push_bit 5 1"
definition FL_RC_BIT_F :: u64 where "FL_RC_BIT_F = push_bit 6 1"
definition FL_ENDBLOCK :: u64 where "FL_ENDBLOCK = push_bit 7 1"
definition FL_IN_A :: u64 where "FL_IN_A = push_bit 8 1"
definition FL_IN_A0 :: u64 where "FL_IN_A0 = push_bit 9 1"
definition FL_IN_B :: u64 where "FL_IN_B = push_bit 10 1"
definition FL_IN_S :: u64 where "FL_IN_S = push_bit 12 1"
definition FL_IN_AB :: u64 where "FL_IN_AB = FL_IN_A OR FL_IN_B"
definition FL_IN_SB :: u64 where "FL_IN_SB = FL_IN_S OR FL_IN_B"
definition FL_IN_A0B :: u64 where "FL_IN_A0B = FL_IN_A0 OR FL_IN_B"
definition FL_OUT_D :: u64 where "FL_OUT_D = push_bit 13 1"
definition FL_OUT_A :: u64 where "FL_OUT_A = push_bit 14 1"
definition FL_TIMER :: u64 where "FL_TIMER = push_bit 15 1"
definition FL_CHECKEXCEPTIONS :: u64 where "FL_CHECKEXCEPTIONS = push_bit 16 1"
definition FL_NO_REORDER :: u64 where "FL_NO_REORDER = push_bit 17 1"
definition FL_USE_FPU :: u64 where "FL_USE_FPU = push_bit 18 1"
definition FL_LOADSTORE :: u64 where "FL_LOADSTORE = push_bit 19 1"
definition FL_SET_FPRF :: u64 where "FL_SET_FPRF = push_bit 20 1"
definition FL_READ_FPRF :: u64 where "FL_READ_FPRF = push_bit 21 1"
definition FL_SET_OE :: u64 where "FL_SET_OE = push_bit 22 1"
definition FL_IN_FLOAT_A :: u64 where "FL_IN_FLOAT_A = push_bit 23 1"
definition FL_IN_FLOAT_B :: u64 where "FL_IN_FLOAT_B = push_bit 24 1"
definition FL_IN_FLOAT_C :: u64 where "FL_IN_FLOAT_C = push_bit 25 1"
definition FL_IN_FLOAT_S :: u64 where "FL_IN_FLOAT_S = push_bit 26 1"
definition FL_IN_FLOAT_D :: u64 where "FL_IN_FLOAT_D = push_bit 27 1"
definition FL_IN_FLOAT_AB :: u64 where "FL_IN_FLOAT_AB = FL_IN_FLOAT_A OR FL_IN_FLOAT_B"
definition FL_IN_FLOAT_AC :: u64 where "FL_IN_FLOAT_AC = FL_IN_FLOAT_A OR FL_IN_FLOAT_C"
definition FL_IN_FLOAT_ABC :: u64 where "FL_IN_FLOAT_ABC = FL_IN_FLOAT_A OR FL_IN_FLOAT_B OR FL_IN_FLOAT_C"
definition FL_OUT_FLOAT_D :: u64 where "FL_OUT_FLOAT_D = push_bit 28 1"
definition FL_INOUT_FLOAT_D :: u64 where "FL_INOUT_FLOAT_D = FL_IN_FLOAT_D OR FL_OUT_FLOAT_D"
definition FL_IN_FLOAT_A_BITEXACT :: u64 where "FL_IN_FLOAT_A_BITEXACT = push_bit 29 1"
definition FL_IN_FLOAT_B_BITEXACT :: u64 where "FL_IN_FLOAT_B_BITEXACT = push_bit 30 1"
definition FL_IN_FLOAT_C_BITEXACT :: u64 where "FL_IN_FLOAT_C_BITEXACT = push_bit 31 1"
definition FL_IN_FLOAT_AB_BITEXACT :: u64 where "FL_IN_FLOAT_AB_BITEXACT = FL_IN_FLOAT_A_BITEXACT OR FL_IN_FLOAT_B_BITEXACT"
definition FL_IN_FLOAT_BC_BITEXACT :: u64 where "FL_IN_FLOAT_BC_BITEXACT = FL_IN_FLOAT_B_BITEXACT OR FL_IN_FLOAT_C_BITEXACT"
definition FL_PROGRAMEXCEPTION :: u64 where "FL_PROGRAMEXCEPTION = push_bit 32 1"
definition FL_FLOAT_EXCEPTION :: u64 where "FL_FLOAT_EXCEPTION = push_bit 33 1"
definition FL_FLOAT_DIV :: u64 where "FL_FLOAT_DIV = push_bit 34 1"
definition FL_SET_ALL_CR :: u64 where "FL_SET_ALL_CR = push_bit 35 1"
definition FL_READ_CRn :: u64 where "FL_READ_CRn = push_bit 36 1"
definition FL_READ_CR_BI :: u64 where "FL_READ_CR_BI = push_bit 37 1"
definition FL_READ_ALL_CR :: u64 where "FL_READ_ALL_CR = push_bit 38 1"
definition FL_SET_MSR :: u64 where "FL_SET_MSR = push_bit 39 1"

datatype OpType =
    OpInvalid | OpSubtable | OpInteger | OpCR | OpSPR | OpSystem | OpSystemFP | OpLoad | OpStore | OpLoadFP
  | OpStoreFP | OpDoubleFP | OpSingleFP | OpLoadPS | OpStorePS | OpPS | OpDataCache | OpInstructionCache | OpBranch | OpUnknown

record GekkoOPInfo =
  opname :: string
  op_type :: OpType
  num_cycles :: nat
  op_flags :: u64

definition op_info :: "nat \<Rightarrow> string \<Rightarrow> OpType \<Rightarrow> nat \<Rightarrow> u64 \<Rightarrow> nat \<times> GekkoOPInfo" where
  "op_info op name kind cycles fl = (op, \<lparr>opname = name, op_type = kind, num_cycles = cycles, op_flags = fl\<rparr>)"

definition unknown_op_info :: GekkoOPInfo where
  "unknown_op_info = snd (op_info 0 ''unknown_instruction'' OpUnknown 0 FL_ENDBLOCK)"

section \<open>The tables\<close>

definition info_primary_table :: "(nat \<times> GekkoOPInfo) list" where
  "info_primary_table =
    [op_info 4 ''RunTable4'' OpSubtable 0 0,
     op_info 19 ''RunTable19'' OpSubtable 0 0,
     op_info 31 ''RunTable31'' OpSubtable 0 0,
     op_info 59 ''RunTable59'' OpSubtable 0 0,
     op_info 63 ''RunTable63'' OpSubtable 0 0,
     op_info 16 ''bcx'' OpBranch 1 (FL_ENDBLOCK OR FL_READ_CR_BI),
     op_info 18 ''bx'' OpBranch 1 FL_ENDBLOCK,
     op_info 3 ''twi'' OpSystem 1 (FL_IN_A OR FL_ENDBLOCK),
     op_info 17 ''sc'' OpSystem 2 FL_ENDBLOCK,
     op_info 7 ''mulli'' OpInteger 3 (FL_OUT_D OR FL_IN_A),
     op_info 8 ''subfic'' OpInteger 1 (FL_OUT_D OR FL_IN_A OR FL_SET_CA),
     op_info 10 ''cmpli'' OpInteger 1 (FL_IN_A OR FL_SET_CRn),
     op_info 11 ''cmpi'' OpInteger 1 (FL_IN_A OR FL_SET_CRn),
     op_info 12 ''addic'' OpInteger 1 (FL_OUT_D OR FL_IN_A OR FL_SET_CA),
     op_info 13 ''addic_rc'' OpInteger 1 (FL_OUT_D OR FL_IN_A OR FL_SET_CA OR FL_SET_CR0),
     op_info 14 ''addi'' OpInteger 1 (FL_OUT_D OR FL_IN_A0),
     op_info 15 ''addis'' OpInteger 1 (FL_OUT_D OR FL_IN_A0),
     op_info 20 ''rlwimix'' OpInteger 1 (FL_OUT_A OR FL_IN_A OR FL_IN_S OR FL_RC_BIT),
     op_info 21 ''rlwinmx'' OpInteger 1 (FL_OUT_A OR FL_IN_S OR FL_RC_BIT),
     op_info 23 ''rlwnmx'' OpInteger 1 (FL_OUT_A OR FL_IN_SB OR FL_RC_BIT),
     op_info 24 ''ori'' OpInteger 1 (FL_OUT_A OR FL_IN_S),
     op_info 25 ''oris'' OpInteger 1 (FL_OUT_A OR FL_IN_S),
     op_info 26 ''xori'' OpInteger 1 (FL_OUT_A OR FL_IN_S),
     op_info 27 ''xoris'' OpInteger 1 (FL_OUT_A OR FL_IN_S),
     op_info 28 ''andi_rc'' OpInteger 1 (FL_OUT_A OR FL_IN_S OR FL_SET_CR0),
     op_info 29 ''andis_rc'' OpInteger 1 (FL_OUT_A OR FL_IN_S OR FL_SET_CR0),
     op_info 32 ''lwz'' OpLoad 1 (FL_OUT_D OR FL_IN_A0 OR FL_LOADSTORE),
     op_info 33 ''lwzu'' OpLoad 1 (FL_OUT_D OR FL_OUT_A OR FL_IN_A OR FL_LOADSTORE),
     op_info 34 ''lbz'' OpLoad 1 (FL_OUT_D OR FL_IN_A0 OR FL_LOADSTORE),
     op_info 35 ''lbzu'' OpLoad 1 (FL_OUT_D OR FL_OUT_A OR FL_IN_A OR FL_LOADSTORE),
     op_info 40 ''lhz'' OpLoad 1 (FL_OUT_D OR FL_IN_A0 OR FL_LOADSTORE),
     op_info 41 ''lhzu'' OpLoad 1 (FL_OUT_D OR FL_OUT_A OR FL_IN_A OR FL_LOADSTORE),
     op_info 42 ''lha'' OpLoad 1 (FL_OUT_D OR FL_IN_A0 OR FL_LOADSTORE),
     op_info 43 ''lhau'' OpLoad 1 (FL_OUT_D OR FL_OUT_A OR FL_IN_A OR FL_LOADSTORE),
     op_info 44 ''sth'' OpStore 1 (FL_IN_A0 OR FL_IN_S OR FL_LOADSTORE),
     op_info 45 ''sthu'' OpStore 1 (FL_OUT_A OR FL_IN_A OR FL_IN_S OR FL_LOADSTORE),
     op_info 36 ''stw'' OpStore 1 (FL_IN_A0 OR FL_IN_S OR FL_LOADSTORE),
     op_info 37 ''stwu'' OpStore 1 (FL_OUT_A OR FL_IN_A OR FL_IN_S OR FL_LOADSTORE),
     op_info 38 ''stb'' OpStore 1 (FL_IN_A0 OR FL_IN_S OR FL_LOADSTORE),
     op_info 39 ''stbu'' OpStore 1 (FL_OUT_A OR FL_IN_A OR FL_IN_S OR FL_LOADSTORE),
     op_info 46 ''lmw'' OpSystem 11 (FL_IN_A0 OR FL_LOADSTORE),
     op_info 47 ''stmw'' OpSystem 11 (FL_IN_A0 OR FL_LOADSTORE),
     op_info 48 ''lfs'' OpLoadFP 1 (FL_OUT_FLOAT_D OR FL_IN_A OR FL_USE_FPU OR FL_LOADSTORE),
     op_info 49 ''lfsu'' OpLoadFP 1 (FL_OUT_FLOAT_D OR FL_OUT_A OR FL_IN_A OR FL_USE_FPU OR FL_LOADSTORE),
     op_info 50 ''lfd'' OpLoadFP 1 (FL_INOUT_FLOAT_D OR FL_IN_A OR FL_USE_FPU OR FL_LOADSTORE),
     op_info 51 ''lfdu'' OpLoadFP 1 (FL_INOUT_FLOAT_D OR FL_OUT_A OR FL_IN_A OR FL_USE_FPU OR FL_LOADSTORE),
     op_info 52 ''stfs'' OpStoreFP 1 (FL_IN_FLOAT_S OR FL_IN_A0 OR FL_USE_FPU OR FL_LOADSTORE),
     op_info 53 ''stfsu'' OpStoreFP 1 (FL_IN_FLOAT_S OR FL_OUT_A OR FL_IN_A OR FL_USE_FPU OR FL_LOADSTORE),
     op_info 54 ''stfd'' OpStoreFP 1 (FL_IN_FLOAT_S OR FL_IN_A0 OR FL_USE_FPU OR FL_LOADSTORE),
     op_info 55 ''stfdu'' OpStoreFP 1 (FL_IN_FLOAT_S OR FL_OUT_A OR FL_IN_A OR FL_USE_FPU OR FL_LOADSTORE),
     op_info 56 ''psq_l'' OpLoadPS 1 (FL_OUT_FLOAT_D OR FL_IN_A0 OR FL_USE_FPU OR FL_LOADSTORE OR FL_PROGRAMEXCEPTION),
     op_info 57 ''psq_lu'' OpLoadPS 1 (FL_OUT_FLOAT_D OR FL_OUT_A OR FL_IN_A OR FL_USE_FPU OR FL_LOADSTORE OR FL_PROGRAMEXCEPTION),
     op_info 60 ''psq_st'' OpStorePS 1 (FL_IN_FLOAT_S OR FL_IN_A0 OR FL_USE_FPU OR FL_LOADSTORE OR FL_PROGRAMEXCEPTION),
     op_info 61 ''psq_stu'' OpStorePS 1 (FL_IN_FLOAT_S OR FL_OUT_A OR FL_IN_A OR FL_USE_FPU OR FL_LOADSTORE OR FL_PROGRAMEXCEPTION)]"

definition info_table4 :: "(nat \<times> GekkoOPInfo) list" where
  "info_table4 =
    [op_info 0 ''ps_cmpu0'' OpPS 1 (FL_IN_FLOAT_AB OR FL_SET_CRn OR FL_USE_FPU OR FL_READ_FPRF OR FL_SET_FPRF OR FL_PROGRAMEXCEPTION OR FL_FLOAT_EXCEPTION),
     op_info 32 ''ps_cmpo0'' OpPS 1 (FL_IN_FLOAT_AB OR FL_SET_CRn OR FL_USE_FPU OR FL_READ_FPRF OR FL_SET_FPRF OR FL_PROGRAMEXCEPTION OR FL_FLOAT_EXCEPTION),
     op_info 40 ''ps_neg'' OpPS 1 (FL_OUT_FLOAT_D OR FL_IN_FLOAT_B OR FL_IN_FLOAT_B_BITEXACT OR FL_RC_BIT_F OR FL_USE_FPU OR FL_PROGRAMEXCEPTION),
     op_info 136 ''ps_nabs'' OpPS 1 (FL_OUT_FLOAT_D OR FL_IN_FLOAT_B OR FL_IN_FLOAT_B_BITEXACT OR FL_RC_BIT_F OR FL_USE_FPU OR FL_PROGRAMEXCEPTION),
     op_info 264 ''ps_abs'' OpPS 1 (FL_OUT_FLOAT_D OR FL_IN_FLOAT_B OR FL_IN_FLOAT_B_BITEXACT OR FL_RC_BIT_F OR FL_USE_FPU OR FL_PROGRAMEXCEPTION),
     op_info 64 ''ps_cmpu1'' OpPS 1 (FL_IN_FLOAT_AB OR FL_SET_CRn OR FL_USE_FPU OR FL_READ_FPRF OR FL_SET_FPRF OR FL_PROGRAMEXCEPTION OR FL_FLOAT_EXCEPTION),
     op_info 72 ''ps_mr'' OpPS 1 (FL_OUT_FLOAT_D OR FL_IN_FLOAT_B OR FL_IN_FLOAT_B_BITEXACT OR FL_RC_BIT_F OR FL_USE_FPU OR FL_PROGRAMEXCEPTION),
     op_info 96 ''ps_cmpo1'' OpPS 1 (FL_IN_FLOAT_AB OR FL_SET_CRn OR FL_USE_FPU OR FL_READ_FPRF OR FL_SET_FPRF OR FL_PROGRAMEXCEPTION OR FL_FLOAT_EXCEPTION),
     op_info 528 ''ps_merge00'' OpPS 1 (FL_OUT_FLOAT_D OR FL_IN_FLOAT_AB OR FL_IN_FLOAT_AB_BITEXACT OR FL_RC_BIT_F OR FL_USE_FPU OR FL_PROGRAMEXCEPTION),
     op_info 560 ''ps_merge01'' OpPS 1 (FL_OUT_FLOAT_D OR FL_IN_FLOAT_AB OR FL_IN_FLOAT_AB_BITEXACT OR FL_RC_BIT_F OR FL_USE_FPU OR FL_PROGRAMEXCEPTION),
     op_info 592 ''ps_merge10'' OpPS 1 (FL_OUT_FLOAT_D OR FL_IN_FLOAT_AB OR FL_IN_FLOAT_AB_BITEXACT OR FL_RC_BIT_F OR FL_USE_FPU OR FL_PROGRAMEXCEPTION),
     op_info 624 ''ps_merge11'' OpPS 1 (FL_OUT_FLOAT_D OR FL_IN_FLOAT_AB OR FL_IN_FLOAT_AB_BITEXACT OR FL_RC_BIT_F OR FL_USE_FPU OR FL_PROGRAMEXCEPTION),
     op_info 1014 ''dcbz_l'' OpSystem 1 (FL_IN_A0B OR FL_LOADSTORE OR FL_PROGRAMEXCEPTION)]"

definition info_table4_2 :: "(nat \<times> GekkoOPInfo) list" where
  "info_table4_2 =
    [op_info 10 ''ps_sum0'' OpPS 1 (FL_OUT_FLOAT_D OR FL_IN_FLOAT_ABC OR FL_RC_BIT_F OR FL_USE_FPU OR FL_SET_FPRF OR FL_PROGRAMEXCEPTION OR FL_FLOAT_EXCEPTION),
     op_info 11 ''ps_sum1'' OpPS 1 (FL_OUT_FLOAT_D OR FL_IN_FLOAT_ABC OR FL_RC_BIT_F OR FL_USE_FPU OR FL_SET_FPRF OR FL_PROGRAMEXCEPTION OR FL_FLOAT_EXCEPTION),
     op_info 12 ''ps_muls0'' OpPS 1 (FL_OUT_FLOAT_D OR FL_IN_FLOAT_AC OR FL_RC_BIT_F OR FL_USE_FPU OR FL_SET_FPRF OR FL_PROGRAMEXCEPTION OR FL_FLOAT_EXCEPTION),
     op_info 13 ''ps_muls1'' OpPS 1 (FL_OUT_FLOAT_D OR FL_IN_FLOAT_AC OR FL_RC_BIT_F OR FL_USE_FPU OR FL_SET_FPRF OR FL_PROGRAMEXCEPTION OR FL_FLOAT_EXCEPTION),
     op_info 14 ''ps_madds0'' OpPS 1 (FL_OUT_FLOAT_D OR FL_IN_FLOAT_ABC OR FL_RC_BIT_F OR FL_USE_FPU OR FL_SET_FPRF OR FL_PROGRAMEXCEPTION OR FL_FLOAT_EXCEPTION),
     op_info 15 ''ps_madds1'' OpPS 1 (FL_OUT_FLOAT_D OR FL_IN_FLOAT_ABC OR FL_RC_BIT_F OR FL_USE_FPU OR FL_SET_FPRF OR FL_PROGRAMEXCEPTION OR FL_FLOAT_EXCEPTION),
     op_info 18 ''ps_div'' OpPS 17 (FL_OUT_FLOAT_D OR FL_IN_FLOAT_AB OR FL_RC_BIT_F OR FL_USE_FPU OR FL_SET_FPRF OR FL_PROGRAMEXCEPTION OR FL_FLOAT_EXCEPTION OR FL_FLOAT_DIV),
     op_info 20 ''ps_sub'' OpPS 1 (FL_OUT_FLOAT_D OR FL_IN_FLOAT_AB OR FL_RC_BIT_F OR FL_USE_FPU OR FL_SET_FPRF OR FL_PROGRAMEXCEPTION OR FL_FLOAT_EXCEPTION),
     op_info 21 ''ps_add'' OpPS 1 (FL_OUT_FLOAT_D OR FL_IN_FLOAT_AB OR FL_RC_BIT_F OR FL_USE_FPU OR FL_SET_FPRF OR FL_PROGRAMEXCEPTION OR FL_FLOAT_EXCEPTION),
     op_info 23 ''ps_sel'' OpPS 1 (FL_OUT_FLOAT_D OR FL_IN_FLOAT_ABC OR FL_IN_FLOAT_BC_BITEXACT OR FL_RC_BIT_F OR FL_USE_FPU OR FL_PROGRAMEXCEPTION),
     op_info 24 ''ps_res'' OpPS 1 (FL_OUT_FLOAT_D OR FL_IN_FLOAT_B OR FL_RC_BIT_F OR FL_USE_FPU OR FL_SET_FPRF OR FL_PROGRAMEXCEPTION OR FL_FLOAT_EXCEPTION OR FL_FLOAT_DIV),
     op_info 25 ''ps_mul'' OpPS 1 (FL_OUT_FLOAT_D OR FL_IN_FLOAT_AC OR FL_RC_BIT_F OR FL_USE_FPU OR FL_SET_FPRF OR FL_PROGRAMEXCEPTION OR FL_FLOAT_EXCEPTION),
     op_info 26 ''ps_rsqrte'' OpPS 2 (FL_OUT_FLOAT_D OR FL_IN_FLOAT_B OR FL_RC_BIT_F OR FL_USE_FPU OR FL_SET_FPRF OR FL_PROGRAMEXCEPTION OR FL_FLOAT_EXCEPTION OR FL_FLOAT_DIV),
     op_info 28 ''ps_msub'' OpPS 1 (FL_OUT_FLOAT_D OR FL_IN_FLOAT_ABC OR FL_RC_BIT_F OR FL_USE_FPU OR FL_SET_FPRF OR FL_PROGRAMEXCEPTION OR FL_FLOAT_EXCEPTION),
     op_info 29 ''ps_madd'' OpPS 1 (FL_OUT_FLOAT_D OR FL_IN_FLOAT_ABC OR FL_RC_BIT_F OR FL_USE_FPU OR FL_SET_FPRF OR FL_PROGRAMEXCEPTION OR FL_FLOAT_EXCEPTION),
     op_info 30 ''ps_nmsub'' OpPS 1 (FL_OUT_FLOAT_D OR FL_IN_FLOAT_ABC OR FL_RC_BIT_F OR FL_USE_FPU OR FL_SET_FPRF OR FL_PROGRAMEXCEPTION OR FL_FLOAT_EXCEPTION),
     op_info 31 ''ps_nmadd'' OpPS 1 (FL_OUT_FLOAT_D OR FL_IN_FLOAT_ABC OR FL_RC_BIT_F OR FL_USE_FPU OR FL_SET_FPRF OR FL_PROGRAMEXCEPTION OR FL_FLOAT_EXCEPTION)]"

definition info_table4_3 :: "(nat \<times> GekkoOPInfo) list" where
  "info_table4_3 =
    [op_info 6 ''psq_lx'' OpLoadPS 1 (FL_OUT_FLOAT_D OR FL_IN_A0B OR FL_USE_FPU OR FL_LOADSTORE),
     op_info 7 ''psq_stx'' OpStorePS 1 (FL_IN_FLOAT_S OR FL_IN_A0B OR FL_USE_FPU OR FL_LOADSTORE),
     op_info 38 ''psq_lux'' OpLoadPS 1 (FL_OUT_FLOAT_D OR FL_OUT_A OR FL_IN_AB OR FL_USE_FPU OR FL_LOADSTORE),
     op_info 39 ''psq_stux'' OpStorePS 1 (FL_IN_FLOAT_S OR FL_OUT_A OR FL_IN_AB OR FL_USE_FPU OR FL_LOADSTORE)]"

definition info_table19 :: "(nat \<times> GekkoOPInfo) list" where
  "info_table19 =
    [op_info 528 ''bcctrx'' OpBranch 1 (FL_ENDBLOCK OR FL_READ_CR_BI),
     op_info 16 ''bclrx'' OpBranch 1 (FL_ENDBLOCK OR FL_READ_CR_BI),
     op_info 257 ''crand'' OpCR 1 0,
     op_info 129 ''crandc'' OpCR 1 0,
     op_info 289 ''creqv'' OpCR 1 0,
     op_info 225 ''crnand'' OpCR 1 0,
     op_info 33 ''crnor'' OpCR 1 0,
     op_info 449 ''cror'' OpCR 1 0,
     op_info 417 ''crorc'' OpCR 1 0,
     op_info 193 ''crxor'' OpCR 1 0,
     op_info 150 ''isync'' OpInstructionCache 1 FL_NO_REORDER,
     op_info 0 ''mcrf'' OpSystem 1 (FL_SET_CRn OR FL_READ_CRn),
     op_info 50 ''rfi'' OpSystem 2 (FL_ENDBLOCK OR FL_CHECKEXCEPTIONS OR FL_PROGRAMEXCEPTION OR FL_SET_MSR)]"

definition info_table31 :: "(nat \<times> GekkoOPInfo) list" where
  "info_table31 =
    [op_info 266 ''addx'' OpInteger 1 (FL_OUT_D OR FL_IN_AB OR FL_RC_BIT),
     op_info 778 ''addox'' OpInteger 1 (FL_OUT_D OR FL_IN_AB OR FL_RC_BIT OR FL_SET_OE),
     op_info 10 ''addcx'' OpInteger 1 (FL_OUT_D OR FL_IN_AB OR FL_SET_CA OR FL_RC_BIT),
     op_info 522 ''addcox'' OpInteger 1 (FL_OUT_D OR FL_IN_AB OR FL_SET_CA OR FL_RC_BIT OR FL_SET_OE),
     op_info 138 ''addex'' OpInteger 1 (FL_OUT_D OR FL_IN_AB OR FL_READ_CA OR FL_SET_CA OR FL_RC_BIT),
     op_info 650 ''addeox'' OpInteger 1 (FL_OUT_D OR FL_IN_AB OR FL_READ_CA OR FL_SET_CA OR FL_RC_BIT OR FL_SET_OE),
     op_info 234 ''addmex'' OpInteger 1 (FL_OUT_D OR FL_IN_A OR FL_READ_CA OR FL_SET_CA OR FL_RC_BIT),
     op_info 746 ''addmeox'' OpInteger 1 (FL_OUT_D OR FL_IN_A OR FL_READ_CA OR FL_SET_CA OR FL_RC_BIT OR FL_SET_OE),
     op_info 202 ''addzex'' OpInteger 1 (FL_OUT_D OR FL_IN_A OR FL_READ_CA OR FL_SET_CA OR FL_RC_BIT),
     op_info 714 ''addzeox'' OpInteger 1 (FL_OUT_D OR FL_IN_A OR FL_READ_CA OR FL_SET_CA OR FL_RC_BIT OR FL_SET_OE),
     op_info 491 ''divwx'' OpInteger 40 (FL_OUT_D OR FL_IN_AB OR FL_RC_BIT),
     op_info 1003 ''divwox'' OpInteger 40 (FL_OUT_D OR FL_IN_AB OR FL_RC_BIT OR FL_SET_OE),
     op_info 459 ''divwux'' OpInteger 40 (FL_OUT_D OR FL_IN_AB OR FL_RC_BIT),
     op_info 971 ''divwuox'' OpInteger 40 (FL_OUT_D OR FL_IN_AB OR FL_RC_BIT OR FL_SET_OE),
     op_info 75 ''mulhwx'' OpInteger 5 (FL_OUT_D OR FL_IN_AB OR FL_RC_BIT),
     op_info 11 ''mulhwux'' OpInteger 5 (FL_OUT_D OR FL_IN_AB OR FL_RC_BIT),
     op_info 235 ''mullwx'' OpInteger 5 (FL_OUT_D OR FL_IN_AB OR FL_RC_BIT),
     op_info 747 ''mullwox'' OpInteger 5 (FL_OUT_D OR FL_IN_AB OR FL_RC_BIT OR FL_SET_OE),
     op_info 104 ''negx'' OpInteger 1 (FL_OUT_D OR FL_IN_A OR FL_RC_BIT),
     op_info 616 ''negox'' OpInteger 1 (FL_OUT_D OR FL_IN_A OR FL_RC_BIT OR FL_SET_OE),
     op_info 40 ''subfx'' OpInteger 1 (FL_OUT_D OR FL_IN_AB OR FL_RC_BIT),
     op_info 552 ''subfox'' OpInteger 1 (FL_OUT_D OR FL_IN_AB OR FL_RC_BIT OR FL_SET_OE),
     op_info 8 ''subfcx'' OpInteger 1 (FL_OUT_D OR FL_IN_AB OR FL_SET_CA OR FL_RC_BIT),
     op_info 520 ''subfcox'' OpInteger 1 (FL_OUT_D OR FL_IN_AB OR FL_SET_CA OR FL_RC_BIT OR FL_SET_OE),
     op_info 136 ''subfex'' OpInteger 1 (FL_OUT_D OR FL_IN_AB OR FL_READ_CA OR FL_SET_CA OR FL_RC_BIT),
     op_info 648 ''subfeox'' OpInteger 1 (FL_OUT_D OR FL_IN_AB OR FL_READ_CA OR FL_SET_CA OR FL_RC_BIT OR FL_SET_OE),
     op_info 232 ''subfmex'' OpInteger 1 (FL_OUT_D OR FL_IN_A OR FL_READ_CA OR FL_SET_CA OR FL_RC_BIT),
     op_info 744 ''subfmeox'' OpInteger 1 (FL_OUT_D OR FL_IN_A OR FL_READ_CA OR FL_SET_CA OR FL_RC_BIT OR FL_SET_OE),
     op_info 200 ''subfzex'' OpInteger 1 (FL_OUT_D OR FL_IN_A OR FL_READ_CA OR FL_SET_CA OR FL_RC_BIT),
     op_info 712 ''subfzeox'' OpInteger 1 (FL_OUT_D OR FL_IN_A OR FL_READ_CA OR FL_SET_CA OR FL_RC_BIT OR FL_SET_OE),
     op_info 28 ''andx'' OpInteger 1 (FL_OUT_A OR FL_IN_SB OR FL_RC_BIT),
     op_info 60 ''andcx'' OpInteger 1 (FL_OUT_A OR FL_IN_SB OR FL_RC_BIT),
     op_info 444 ''orx'' OpInteger 1 (FL_OUT_A OR FL_IN_SB OR FL_RC_BIT),
     op_info 124 ''norx'' OpInteger 1 (FL_OUT_A OR FL_IN_SB OR FL_RC_BIT),
     op_info 316 ''xorx'' OpInteger 1 (FL_OUT_A OR FL_IN_SB OR FL_RC_BIT),
     op_info 412 ''orcx'' OpInteger 1 (FL_OUT_A OR FL_IN_SB OR FL_RC_BIT),
     op_info 476 ''nandx'' OpInteger 1 (FL_OUT_A OR FL_IN_SB OR FL_RC_BIT),
     op_info 284 ''eqvx'' OpInteger 1 (FL_OUT_A OR FL_IN_SB OR FL_RC_BIT),
     op_info 0 ''cmp'' OpInteger 1 (FL_IN_AB OR FL_SET_CRn),
     op_info 32 ''cmpl'' OpInteger 1 (FL_IN_AB OR FL_SET_CRn),
     op_info 26 ''cntlzwx'' OpInteger 1 (FL_OUT_A OR FL_IN_S OR FL_RC_BIT),
     op_info 922 ''extshx'' OpInteger 1 (FL_OUT_A OR FL_IN_S OR FL_RC_BIT),
     op_info 954 ''extsbx'' OpInteger 1 (FL_OUT_A OR FL_IN_S OR FL_RC_BIT),
     op_info 536 ''srwx'' OpInteger 1 (FL_OUT_A OR FL_IN_SB OR FL_RC_BIT),
     op_info 792 ''srawx'' OpInteger 1 (FL_OUT_A OR FL_IN_SB OR FL_SET_CA OR FL_RC_BIT),
     op_info 824 ''srawix'' OpInteger 1 (FL_OUT_A OR FL_IN_S OR FL_SET_CA OR FL_RC_BIT),
     op_info 24 ''slwx'' OpInteger 1 (FL_OUT_A OR FL_IN_SB OR FL_RC_BIT),
     op_info 54 ''dcbst'' OpDataCache 5 (FL_IN_A0B OR FL_LOADSTORE),
     op_info 86 ''dcbf'' OpDataCache 5 (FL_IN_A0B OR FL_LOADSTORE),
     op_info 246 ''dcbtst'' OpDataCache 2 0,
     op_info 278 ''dcbt'' OpDataCache 2 0,
     op_info 470 ''dcbi'' OpDataCache 5 (FL_IN_A0B OR FL_LOADSTORE OR FL_PROGRAMEXCEPTION),
     op_info 758 ''dcba'' OpDataCache 5 0,
     op_info 1014 ''dcbz'' OpDataCache 5 (FL_IN_A0B OR FL_LOADSTORE),
     op_info 23 ''lwzx'' OpLoad 1 (FL_OUT_D OR FL_IN_A0B OR FL_LOADSTORE),
     op_info 55 ''lwzux'' OpLoad 1 (FL_OUT_D OR FL_OUT_A OR FL_IN_AB OR FL_LOADSTORE),
     op_info 279 ''lhzx'' OpLoad 1 (FL_OUT_D OR FL_IN_A0B OR FL_LOADSTORE),
     op_info 311 ''lhzux'' OpLoad 1 (FL_OUT_D OR FL_OUT_A OR FL_IN_AB OR FL_LOADSTORE),
     op_info 343 ''lhax'' OpLoad 1 (FL_OUT_D OR FL_IN_A0B OR FL_LOADSTORE),
     op_info 375 ''lhaux'' OpLoad 1 (FL_OUT_D OR FL_OUT_A OR FL_IN_AB OR FL_LOADSTORE),
     op_info 87 ''lbzx'' OpLoad 1 (FL_OUT_D OR FL_IN_A0B OR FL_LOADSTORE),
     op_info 119 ''lbzux'' OpLoad 1 (FL_OUT_D OR FL_OUT_A OR FL_IN_AB OR FL_LOADSTORE),
     op_info 534 ''lwbrx'' OpLoad 1 (FL_OUT_D OR FL_IN_A0B OR FL_LOADSTORE),
     op_info 790 ''lhbrx'' OpLoad 1 (FL_OUT_D OR FL_IN_A0B OR FL_LOADSTORE),
     op_info 150 ''stwcxd'' OpStore 1 (FL_IN_S OR FL_IN_A0B OR FL_SET_CR0 OR FL_LOADSTORE),
     op_info 20 ''lwarx'' OpLoad 1 (FL_OUT_D OR FL_IN_A0B OR FL_SET_CR0 OR FL_LOADSTORE),
     op_info 533 ''lswx'' OpLoad 1 (FL_IN_A0B OR FL_OUT_D OR FL_LOADSTORE),
     op_info 597 ''lswi'' OpLoad 1 (FL_IN_A0 OR FL_OUT_D OR FL_LOADSTORE),
     op_info 151 ''stwx'' OpStore 1 (FL_IN_S OR FL_IN_A0B OR FL_LOADSTORE),
     op_info 183 ''stwux'' OpStore 1 (FL_IN_S OR FL_OUT_A OR FL_IN_AB OR FL_LOADSTORE),
     op_info 407 ''sthx'' OpStore 1 (FL_IN_S OR FL_IN_A0B OR FL_LOADSTORE),
     op_info 439 ''sthux'' OpStore 1 (FL_IN_S OR FL_OUT_A OR FL_IN_AB OR FL_LOADSTORE),
     op_info 215 ''stbx'' OpStore 1 (FL_IN_S OR FL_IN_A0B OR FL_LOADSTORE),
     op_info 247 ''stbux'' OpStore 1 (FL_IN_S OR FL_OUT_A OR FL_IN_AB OR FL_LOADSTORE),
     op_info 662 ''stwbrx'' OpStore 1 (FL_IN_S OR FL_IN_A0B OR FL_LOADSTORE),
     op_info 918 ''sthbrx'' OpStore 1 (FL_IN_S OR FL_IN_A0B OR FL_LOADSTORE),
     op_info 661 ''stswx'' OpStore 1 (FL_IN_A0B OR FL_LOADSTORE),
     op_info 725 ''stswi'' OpStore 1 (FL_IN_A0 OR FL_LOADSTORE),
     op_info 535 ''lfsx'' OpLoadFP 1 (FL_OUT_FLOAT_D OR FL_IN_A0B OR FL_USE_FPU OR FL_LOADSTORE),
     op_info 567 ''lfsux'' OpLoadFP 1 (FL_OUT_FLOAT_D OR FL_IN_AB OR FL_OUT_A OR FL_USE_FPU OR FL_LOADSTORE),
     op_info 599 ''lfdx'' OpLoadFP 1 (FL_INOUT_FLOAT_D OR FL_IN_A0B OR FL_USE_FPU OR FL_LOADSTORE),
     op_info 631 ''lfdux'' OpLoadFP 1 (FL_INOUT_FLOAT_D OR FL_IN_AB OR FL_OUT_A OR FL_USE_FPU OR FL_LOADSTORE),
     op_info 663 ''stfsx'' OpStoreFP 1 (FL_IN_FLOAT_S OR FL_IN_A0B OR FL_USE_FPU OR FL_LOADSTORE),
     op_info 695 ''stfsux'' OpStoreFP 1 (FL_IN_FLOAT_S OR FL_IN_AB OR FL_OUT_A OR FL_USE_FPU OR FL_LOADSTORE),
     op_info 727 ''stfdx'' OpStoreFP 1 (FL_IN_FLOAT_S OR FL_IN_A0B OR FL_USE_FPU OR FL_LOADSTORE),
     op_info 759 ''stfdux'' OpStoreFP 1 (FL_IN_FLOAT_S OR FL_IN_AB OR FL_OUT_A OR FL_USE_FPU OR FL_LOADSTORE),
     op_info 983 ''stfiwx'' OpStoreFP 1 (FL_IN_FLOAT_S OR FL_IN_A0B OR FL_USE_FPU OR FL_LOADSTORE),
     op_info 19 ''mfcr'' OpSystem 1 (FL_OUT_D OR FL_READ_ALL_CR),
     op_info 83 ''mfmsr'' OpSystem 1 (FL_OUT_D OR FL_PROGRAMEXCEPTION),
     op_info 144 ''mtcrf'' OpSystem 1 (FL_IN_S OR FL_SET_ALL_CR OR FL_READ_ALL_CR),
     op_info 146 ''mtmsr'' OpSystem 1 (FL_IN_S OR FL_ENDBLOCK OR FL_PROGRAMEXCEPTION OR FL_FLOAT_EXCEPTION OR FL_SET_MSR),
     op_info 210 ''mtsr'' OpSystem 1 (FL_IN_S OR FL_PROGRAMEXCEPTION),
     op_info 242 ''mtsrin'' OpSystem 1 (FL_IN_SB OR FL_PROGRAMEXCEPTION),
     op_info 339 ''mfspr'' OpSPR 1 (FL_OUT_D OR FL_PROGRAMEXCEPTION),
     op_info 467 ''mtspr'' OpSPR 2 (FL_IN_S OR FL_ENDBLOCK OR FL_PROGRAMEXCEPTION),
     op_info 371 ''mftb'' OpSystem 1 (FL_OUT_D OR FL_TIMER OR FL_PROGRAMEXCEPTION),
     op_info 512 ''mcrxr'' OpSystem 1 (FL_SET_CRn OR FL_READ_CA OR FL_SET_CA),
     op_info 595 ''mfsr'' OpSystem 3 (FL_OUT_D OR FL_PROGRAMEXCEPTION),
     op_info 659 ''mfsrin'' OpSystem 3 (FL_OUT_D OR FL_IN_B OR FL_PROGRAMEXCEPTION),
     op_info 4 ''tw'' OpSystem 2 (FL_IN_AB OR FL_ENDBLOCK),
     op_info 598 ''sync'' OpSystem 3 0,
     op_info 982 ''icbi'' OpSystem 4 (FL_IN_A0B OR FL_ENDBLOCK OR FL_LOADSTORE),
     op_info 310 ''eciwx'' OpSystem 1 (FL_IN_A0B OR FL_OUT_D OR FL_LOADSTORE),
     op_info 438 ''ecowx'' OpSystem 1 (FL_IN_A0B OR FL_IN_S OR FL_LOADSTORE),
     op_info 854 ''eieio'' OpSystem 1 0,
     op_info 306 ''tlbie'' OpSystem 1 (FL_IN_B OR FL_PROGRAMEXCEPTION),
     op_info 566 ''tlbsync'' OpSystem 1 FL_PROGRAMEXCEPTION]"

definition info_table59 :: "(nat \<times> GekkoOPInfo) list" where
  "info_table59 =
    [op_info 18 ''fdivsx'' OpSingleFP 17 (FL_OUT_FLOAT_D OR FL_IN_FLOAT_AB OR FL_RC_BIT_F OR FL_USE_FPU OR FL_SET_FPRF OR FL_FLOAT_EXCEPTION OR FL_FLOAT_DIV),
     op_info 20 ''fsubsx'' OpSingleFP 1 (FL_OUT_FLOAT_D OR FL_IN_FLOAT_AB OR FL_RC_BIT_F OR FL_USE_FPU OR FL_SET_FPRF OR FL_FLOAT_EXCEPTION),
     op_info 21 ''faddsx'' OpSingleFP 1 (FL_OUT_FLOAT_D OR FL_IN_FLOAT_AB OR FL_RC_BIT_F OR FL_USE_FPU OR FL_SET_FPRF OR FL_FLOAT_EXCEPTION),
     op_info 24 ''fresx'' OpSingleFP 1 (FL_OUT_FLOAT_D OR FL_IN_FLOAT_B OR FL_RC_BIT_F OR FL_USE_FPU OR FL_SET_FPRF OR FL_FLOAT_EXCEPTION OR FL_FLOAT_DIV),
     op_info 25 ''fmulsx'' OpSingleFP 1 (FL_OUT_FLOAT_D OR FL_IN_FLOAT_AC OR FL_RC_BIT_F OR FL_USE_FPU OR FL_SET_FPRF OR FL_FLOAT_EXCEPTION),
     op_info 28 ''fmsubsx'' OpSingleFP 1 (FL_OUT_FLOAT_D OR FL_IN_FLOAT_ABC OR FL_RC_BIT_F OR FL_USE_FPU OR FL_SET_FPRF OR FL_FLOAT_EXCEPTION),
     op_info 29 ''fmaddsx'' OpSingleFP 1 (FL_OUT_FLOAT_D OR FL_IN_FLOAT_ABC OR FL_RC_BIT_F OR FL_USE_FPU OR FL_SET_FPRF OR FL_FLOAT_EXCEPTION),
     op_info 30 ''fnmsubsx'' OpSingleFP 1 (FL_OUT_FLOAT_D OR FL_IN_FLOAT_ABC OR FL_RC_BIT_F OR FL_USE_FPU OR FL_SET_FPRF OR FL_FLOAT_EXCEPTION),
     op_info 31 ''fnmaddsx'' OpSingleFP 1 (FL_OUT_FLOAT_D OR FL_IN_FLOAT_ABC OR FL_RC_BIT_F OR FL_USE_FPU OR FL_SET_FPRF OR FL_FLOAT_EXCEPTION)]"

definition info_table63 :: "(nat \<times> GekkoOPInfo) list" where
  "info_table63 =
    [op_info 264 ''fabsx'' OpDoubleFP 1 (FL_INOUT_FLOAT_D OR FL_IN_FLOAT_B OR FL_IN_FLOAT_B_BITEXACT OR FL_RC_BIT_F OR FL_USE_FPU),
     op_info 32 ''fcmpo'' OpDoubleFP 1 (FL_IN_FLOAT_AB OR FL_SET_CRn OR FL_USE_FPU OR FL_READ_FPRF OR FL_SET_FPRF OR FL_FLOAT_EXCEPTION),
     op_info 0 ''fcmpu'' OpDoubleFP 1 (FL_IN_FLOAT_AB OR FL_SET_CRn OR FL_USE_FPU OR FL_READ_FPRF OR FL_SET_FPRF OR FL_FLOAT_EXCEPTION),
     op_info 14 ''fctiwx'' OpDoubleFP 1 (FL_INOUT_FLOAT_D OR FL_IN_FLOAT_B OR FL_RC_BIT_F OR FL_USE_FPU OR FL_FLOAT_EXCEPTION),
     op_info 15 ''fctiwzx'' OpDoubleFP 1 (FL_INOUT_FLOAT_D OR FL_IN_FLOAT_B OR FL_RC_BIT_F OR FL_USE_FPU OR FL_FLOAT_EXCEPTION),
     op_info 72 ''fmrx'' OpDoubleFP 1 (FL_INOUT_FLOAT_D OR FL_IN_FLOAT_B OR FL_IN_FLOAT_B_BITEXACT OR FL_RC_BIT_F OR FL_USE_FPU),
     op_info 136 ''fnabsx'' OpDoubleFP 1 (FL_INOUT_FLOAT_D OR FL_IN_FLOAT_B OR FL_RC_BIT_F OR FL_IN_FLOAT_B_BITEXACT OR FL_USE_FPU),
     op_info 40 ''fnegx'' OpDoubleFP 1 (FL_INOUT_FLOAT_D OR FL_IN_FLOAT_B OR FL_RC_BIT_F OR FL_IN_FLOAT_B_BITEXACT OR FL_USE_FPU),
     op_info 12 ''frspx'' OpDoubleFP 1 (FL_OUT_FLOAT_D OR FL_IN_FLOAT_B OR FL_RC_BIT_F OR FL_USE_FPU OR FL_SET_FPRF OR FL_FLOAT_EXCEPTION),
     op_info 64 ''mcrfs'' OpSystemFP 1 (FL_SET_CRn OR FL_USE_FPU OR FL_READ_FPRF),
     op_info 583 ''mffsx'' OpSystemFP 1 (FL_RC_BIT_F OR FL_INOUT_FLOAT_D OR FL_USE_FPU OR FL_READ_FPRF),
     op_info 70 ''mtfsb0x'' OpSystemFP 3 (FL_RC_BIT_F OR FL_USE_FPU OR FL_READ_FPRF OR FL_SET_FPRF),
     op_info 38 ''mtfsb1x'' OpSystemFP 3 (FL_RC_BIT_F OR FL_USE_FPU OR FL_READ_FPRF OR FL_SET_FPRF OR FL_FLOAT_EXCEPTION),
     op_info 134 ''mtfsfix'' OpSystemFP 3 (FL_RC_BIT_F OR FL_USE_FPU OR FL_READ_FPRF OR FL_SET_FPRF OR FL_FLOAT_EXCEPTION),
     op_info 711 ''mtfsfx'' OpSystemFP 3 (FL_RC_BIT_F OR FL_IN_FLOAT_B OR FL_USE_FPU OR FL_READ_FPRF OR FL_SET_FPRF OR FL_FLOAT_EXCEPTION)]"

definition info_table63_2 :: "(nat \<times> GekkoOPInfo) list" where
  "info_table63_2 =
    [op_info 18 ''fdivx'' OpDoubleFP 31 (FL_INOUT_FLOAT_D OR FL_IN_FLOAT_AB OR FL_RC_BIT_F OR FL_USE_FPU OR FL_SET_FPRF OR FL_FLOAT_EXCEPTION OR FL_FLOAT_DIV),
     op_info 20 ''fsubx'' OpDoubleFP 1 (FL_INOUT_FLOAT_D OR FL_IN_FLOAT_AB OR FL_RC_BIT_F OR FL_USE_FPU OR FL_SET_FPRF OR FL_FLOAT_EXCEPTION),
     op_info 21 ''faddx'' OpDoubleFP 1 (FL_INOUT_FLOAT_D OR FL_IN_FLOAT_AB OR FL_RC_BIT_F OR FL_USE_FPU OR FL_SET_FPRF OR FL_FLOAT_EXCEPTION),
     op_info 23 ''fselx'' OpDoubleFP 1 (FL_INOUT_FLOAT_D OR FL_IN_FLOAT_ABC OR FL_IN_FLOAT_BC_BITEXACT OR FL_RC_BIT_F OR FL_USE_FPU),
     op_info 25 ''fmulx'' OpDoubleFP 1 (FL_INOUT_FLOAT_D OR FL_IN_FLOAT_AC OR FL_RC_BIT_F OR FL_USE_FPU OR FL_SET_FPRF OR FL_FLOAT_EXCEPTION),
     op_info 26 ''frsqrtex'' OpDoubleFP 1 (FL_INOUT_FLOAT_D OR FL_IN_FLOAT_B OR FL_RC_BIT_F OR FL_USE_FPU OR FL_SET_FPRF OR FL_FLOAT_EXCEPTION OR FL_FLOAT_DIV),
     op_info 28 ''fmsubx'' OpDoubleFP 1 (FL_INOUT_FLOAT_D OR FL_IN_FLOAT_ABC OR FL_RC_BIT_F OR FL_USE_FPU OR FL_SET_FPRF OR FL_FLOAT_EXCEPTION),
     op_info 29 ''fmaddx'' OpDoubleFP 1 (FL_INOUT_FLOAT_D OR FL_IN_FLOAT_ABC OR FL_RC_BIT_F OR FL_USE_FPU OR FL_SET_FPRF OR FL_FLOAT_EXCEPTION),
     op_info 30 ''fnmsubx'' OpDoubleFP 1 (FL_INOUT_FLOAT_D OR FL_IN_FLOAT_ABC OR FL_RC_BIT_F OR FL_USE_FPU OR FL_SET_FPRF OR FL_FLOAT_EXCEPTION),
     op_info 31 ''fnmaddx'' OpDoubleFP 1 (FL_INOUT_FLOAT_D OR FL_IN_FLOAT_ABC OR FL_RC_BIT_F OR FL_USE_FPU OR FL_SET_FPRF OR FL_FLOAT_EXCEPTION)]"

section \<open>The arrays and the look-up\<close>

definition write_info :: "(nat \<times> GekkoOPInfo) list \<Rightarrow> (nat \<Rightarrow> GekkoOPInfo) \<Rightarrow> (nat \<Rightarrow> GekkoOPInfo)" where
  "write_info entries table = fold (\<lambda>(op, info) t. t(op := info)) entries table"

text \<open>\<open>fill_info\<close> writes each entry at every multiple of the stride before the next.\<close>

definition fill_info :: "nat \<Rightarrow> nat \<Rightarrow> (nat \<times> GekkoOPInfo) list \<Rightarrow> (nat \<times> GekkoOPInfo) list" where
  "fill_info count stride entries =
    concat (map (\<lambda>(op, info). map (\<lambda>i. (i * stride + op, info)) [0..<count]) entries)"

definition tables_primary :: "nat \<Rightarrow> GekkoOPInfo" where
  "tables_primary = write_info info_primary_table (\<lambda>_. unknown_op_info)"

definition tables_table4 :: "nat \<Rightarrow> GekkoOPInfo" where
  "tables_table4 =
    write_info info_table4 (write_info (fill_info 16 64 info_table4_3) (write_info (fill_info 32 32 info_table4_2) (\<lambda>_. unknown_op_info)))"

definition tables_table19 :: "nat \<Rightarrow> GekkoOPInfo" where
  "tables_table19 = write_info info_table19 (\<lambda>_. unknown_op_info)"

definition tables_table31 :: "nat \<Rightarrow> GekkoOPInfo" where
  "tables_table31 = write_info info_table31 (\<lambda>_. unknown_op_info)"

definition tables_table59 :: "nat \<Rightarrow> GekkoOPInfo" where
  "tables_table59 = write_info info_table59 (\<lambda>_. unknown_op_info)"

definition tables_table63 :: "nat \<Rightarrow> GekkoOPInfo" where
  "tables_table63 = write_info (fill_info 32 32 info_table63_2) (write_info info_table63 (\<lambda>_. unknown_op_info))"

definition GetOpInfo :: "u32 \<Rightarrow> GekkoOPInfo" where
  "GetOpInfo inst =
    (let info = tables_primary (inst_OPCD inst)
     in if op_type info = OpSubtable
        then (if inst_OPCD inst = 4 then tables_table4 (inst_SUBOP10 inst)
              else if inst_OPCD inst = 19 then tables_table19 (inst_SUBOP10 inst)
              else if inst_OPCD inst = 31 then tables_table31 (inst_SUBOP10 inst)
              else if inst_OPCD inst = 59 then tables_table59 (inst_SUBOP5 inst)
              else if inst_OPCD inst = 63 then tables_table63 (inst_SUBOP10 inst)
              else unknown_op_info)
        else if op_type info = OpInvalid then unknown_op_info
        else info)"

definition GetInstructionName :: "u32 \<Rightarrow> string" where
  "GetInstructionName inst = opname (GetOpInfo inst)"

definition IsValidInstruction :: "u32 \<Rightarrow> bool" where
  "IsValidInstruction inst \<longleftrightarrow> op_type (GetOpInfo inst) \<noteq> OpInvalid \<and> op_type (GetOpInfo inst) \<noteq> OpUnknown"

end
