(* ===== verification/Ppc_Run.thy ===== *)
theory Ppc_Run
  imports Ppc_Decode Ppc_OpInfo
begin

text \<open>
  The interpreter's steps, \<open>Core/PowerPC/Interpreter/Interpreter.cpp\<close>: one instruction
  (\<open>SingleStepInner\<close>), the debugger's step, and the loop over a slice.  No function of the game is
  replaced (\<open>HandleFunctionHooking\<close> finds nothing) and no breakpoint is set.
\<close>

section \<open>One instruction\<close>

abbreviation (input) HID2_PSE :: nat where "HID2_PSE \<equiv> 29"

definition IsPairedSingleQuantizedNonIndexedInstruction :: "u32 \<Rightarrow> bool" where
  "IsPairedSingleQuantizedNonIndexedInstruction inst \<longleftrightarrow>
     (let opcode = inst_OPCD inst in opcode = 0x38 \<or> opcode = 0x39 \<or> opcode = 0x3C \<or> opcode = 0x3D)"

definition IsPairedSingleInstruction :: "u32 \<Rightarrow> bool" where
  "IsPairedSingleInstruction inst \<longleftrightarrow> inst_OPCD inst = 4 \<or> IsPairedSingleQuantizedNonIndexedInstruction inst"

definition IsInvalidPairedSingleExecution :: "u32 \<Rightarrow> Interpreter \<Rightarrow> bool" where
  "IsInvalidPairedSingleExecution inst c \<longleftrightarrow>
     (\<not> bit (spr c SPR_HID2) HID2_PSE \<and> IsPairedSingleInstruction inst)
     \<or> (bit (spr c SPR_HID2) HID2_PSE \<and> \<not> bit (spr c SPR_HID2) HID2_LSQE
        \<and> IsPairedSingleQuantizedNonIndexedInstruction inst)"

definition UpdatePC :: "Interpreter \<Rightarrow> Interpreter" where
  "UpdatePC c = c\<lparr>m_last_pc := ppc_pc c, ppc_pc := ppc_npc c\<rparr>"

definition interpreter_Init :: "Interpreter \<Rightarrow> Interpreter" where
  "interpreter_Init c = c\<lparr>m_end_block := False\<rparr>"

definition interpreter_CheckExceptions :: "Interpreter \<Rightarrow> Interpreter" where
  "interpreter_CheckExceptions c = end_block (ppc_CheckExceptions c)"

text \<open>The handler of an instruction, and the exception a failed access leaves.\<close>

definition run_handler :: "'d bus \<Rightarrow> u32 \<Rightarrow> 'd Cpu \<Rightarrow> 'd Cpu" where
  "run_handler B inst s =
    (let s1 = RunInterpreterOp B inst s in if no_DSI s1 then s1 else upd_core interpreter_CheckExceptions s1)"

definition uses_fpu :: "u32 \<Rightarrow> bool" where
  "uses_fpu inst \<longleftrightarrow> op_flags (GetOpInfo inst) AND FL_USE_FPU \<noteq> 0"

definition loads_or_stores :: "u32 \<Rightarrow> bool" where
  "loads_or_stores inst \<longleftrightarrow> op_flags (GetOpInfo inst) AND FL_LOADSTORE \<noteq> 0"

text \<open>The branches of \<open>SingleStepInner\<close> between the fetch and \<open>UpdatePC\<close>.\<close>

definition execute :: "'d bus \<Rightarrow> u32 \<Rightarrow> 'd Cpu \<Rightarrow> 'd Cpu" where
  "execute B inst s =
    (if inst \<noteq> 0
     then if IsInvalidPairedSingleExecution inst (core s)
          then upd_core (\<lambda>c. interpreter_CheckExceptions (GenerateProgramException IllegalInstruction c)) s
          else if bit (msr (core s)) MSR_FP then run_handler B inst s
          else if uses_fpu inst
          then upd_core (\<lambda>c. interpreter_CheckExceptions (raise_exception EXCEPTION_FPU_UNAVAILABLE c)) s
          else run_handler B inst s
     else upd_core interpreter_CheckExceptions s)"

definition fetch :: "'d bus \<Rightarrow> 'd Cpu \<Rightarrow> u32 \<times> 'd Cpu" where
  "fetch B s =
    (let s1 = upd_core (\<lambda>c. c\<lparr>ppc_npc := ppc_pc c + 4\<rparr>) s
     in case Read_Opcode B (ppc_pc (core s1)) s1 of (inst, s2) \<Rightarrow> (inst, upd_core (\<lambda>c. c\<lparr>m_prev_inst := inst\<rparr>) s2))"

definition SingleStepInner :: "'d bus \<Rightarrow> 'd Cpu \<Rightarrow> nat \<times> 'd Cpu" where
  "SingleStepInner B s =
    (case fetch B s of (inst, s1) \<Rightarrow>
       let cycles = num_cycles (GetOpInfo inst)
       in (cycles,
           upd_core (\<lambda>c. UpdatePerformanceMonitor (word_of_nat cycles) (of_bool (loads_or_stores inst)) (of_bool (uses_fpu inst))
                           (UpdatePC c))
             (execute B inst s1)))"

section \<open>Slices\<close>

definition SingleStep :: "'d bus \<Rightarrow> 'd Cpu \<Rightarrow> 'd Cpu" where
  "SingleStep B s =
    (case SingleStepInner B (bus_Advance B s) of (_, s1) \<Rightarrow>
       let s2 = (bus_set_slice_length B 1 s1)\<lparr>ppc_downcount := 0\<rparr>
       in if Exceptions (core s2) \<noteq> 0
          then upd_core (\<lambda>c. let c1 = ppc_CheckExceptions c in c1\<lparr>ppc_pc := ppc_npc c1\<rparr>) s2
          else s2)"

text \<open>
  The loops of \<open>Run\<close>, each bounded by its first argument: the instructions of a block, which ends when
  a handler sets \<open>m_end_block\<close>, and the blocks of a slice.  \<open>None\<close> says that the bound was too small.
\<close>

fun run_block :: "nat \<Rightarrow> 'd bus \<Rightarrow> int \<Rightarrow> 'd Cpu \<Rightarrow> (int \<times> 'd Cpu) option" where
  "run_block 0 B cycles s = None"
| "run_block (Suc k) B cycles s =
    (case SingleStepInner B s of (n, s1) \<Rightarrow>
       if m_end_block (core s1) then Some (cycles + int n, s1) else run_block k B (cycles + int n) s1)"

fun run_slice :: "nat \<Rightarrow> nat \<Rightarrow> 'd bus \<Rightarrow> 'd Cpu \<Rightarrow> 'd Cpu option" where
  "run_slice 0 k B s = None"
| "run_slice (Suc j) k B s =
    (if ppc_downcount s \<le> 0 then Some s
     else case run_block k B 0 (upd_core (\<lambda>c. c\<lparr>m_end_block := False\<rparr>) s) of
            None \<Rightarrow> None
          | Some (cycles, s1) \<Rightarrow> run_slice j k B (s1\<lparr>ppc_downcount := ppc_downcount s1 - cycles\<rparr>))"

text \<open>One round of the loop of \<open>Run\<close>: the scheduler, then the slice.\<close>

definition run_round :: "nat \<Rightarrow> nat \<Rightarrow> 'd bus \<Rightarrow> 'd Cpu \<Rightarrow> 'd Cpu option" where
  "run_round j k B s = run_slice j k B (bus_Advance B s)"

section \<open>Reset\<close>

text \<open>\<open>PowerPCManager::ResetRegisters\<close> on the whole machine.\<close>

definition reset_core :: "bool \<Rightarrow> Interpreter \<Rightarrow> Interpreter" where
  "reset_core is_wii c =
    (let c1 = c\<lparr>ps := \<lambda>_. (0, 0), sr_regs := \<lambda>_. 0, gpr := \<lambda>_. 0, spr := \<lambda>_. 0\<rparr>;
         c2 = set_spr SPR_PVR (if is_wii then 0x00087102 else 0x00083214) c1;
         c3 = set_spr 926 0x82bb08e8 (set_spr 925 0x1840c00d (set_spr 924 0x0d96e200 (set_spr SPR_HID1 0x80000000 c2)));
         c4 = c3\<lparr>fpscr := 0, ppc_pc := 0, ppc_npc := 0, Exceptions := 0, reserve := False, reserve_address := 0,
                 cr_fields := \<lambda>_. 0x8000000000000001\<rparr>
     in SetXER 0 c4)"

definition ResetRegisters :: "'d bus \<Rightarrow> 'd Cpu \<Rightarrow> 'd Cpu" where
  "ResetRegisters B s =
    (let s1 = IBATUpdated (DBATUpdated (upd_core (reset_core (h_wii_mode (main_memory s))) s));
         s2 = bus_TimeBaseSet B (upd_core (\<lambda>c. set_spr SPR_TU 0 (set_spr SPR_TL 0 c)) s1);
         s3 = bus_DecrementerSet B (upd_core (\<lambda>c. set_spr SPR_DEC 0xFFFFFFFF (c\<lparr>msr := 0\<rparr>)) s2)
     in upd_core RecalculateAllFeatureFlags s3)"

end
