(* ===== verification/Ppc_Opcodes.thy ===== *)
theory Ppc_Opcodes
  imports Ppc_Run
begin

text \<open>
  The decode tables of the interpreter and of \<open>PPCTables\<close>: no entry of an array is written twice, and
  both hold the same instructions.
\<close>

section \<open>Arrays written from tables\<close>

definition keys :: "(nat \<times> 'a) list \<Rightarrow> nat list" where
  "keys entries = map fst entries"

lemma keys_simps [simp]: "keys [] = []" "keys ((k, v) # es) = k # keys es" "keys (es @ fs) = keys es @ keys fs"
  by (simp_all add: keys_def)

lemma keys_op_info [simp]: "keys (op_info k name kind cycles fl # es) = k # keys es"
  by (simp add: op_info_def)

text \<open>A property of all entries of a table holds at the keys of the table.\<close>

lemma fold_upd_iff:
  assumes "\<forall>e \<in> set es. P (snd e)"
  shows "P (fold (\<lambda>(k, v) t. t(k := v)) es t n) \<longleftrightarrow> n \<in> set (keys es) \<or> P (t n)"
  using assms
proof (induction es arbitrary: t)
  case (Cons e es)
  obtain k v where "e = (k, v)" by (cases e)
  with Cons.prems Cons.IH [of "t(k := v)"] show ?case by auto
qed simp

definition known_slot :: "'d slot \<Rightarrow> bool" where
  "known_slot f \<longleftrightarrow> f \<noteq> UnknownInstruction"

definition known_info :: "GekkoOPInfo \<Rightarrow> bool" where
  "known_info i \<longleftrightarrow> op_type i \<noteq> OpInvalid \<and> op_type i \<noteq> OpUnknown"

lemma write_table_known:
  "list_all (\<lambda>e. known_slot (snd e)) es \<Longrightarrow>
    known_slot (write_table es t n) \<longleftrightarrow> n \<in> set (keys es) \<or> known_slot (t n)"
  by (simp add: write_table_def fold_upd_iff list_all_iff)

lemma write_info_known:
  "list_all (\<lambda>e. known_info (snd e)) es \<Longrightarrow>
    known_info (write_info es t n) \<longleftrightarrow> n \<in> set (keys es) \<or> known_info (t n)"
  by (simp add: write_info_def fold_upd_iff list_all_iff)

lemma in_keys_fill: "k \<in> set (keys (fill n st es)) \<longleftrightarrow> (\<exists>i<n. \<exists>op \<in> set (keys es). k = i * st + op)"
  by (force simp: fill_def keys_def)

lemma in_keys_fill_info: "k \<in> set (keys (fill_info n st es)) \<longleftrightarrow> (\<exists>i<n. \<exists>op \<in> set (keys es). k = i * st + op)"
  by (force simp: fill_info_def keys_def)

lemma known_fill: "list_all (\<lambda>e. P (snd e)) es \<Longrightarrow> list_all (\<lambda>e. P (snd e)) (fill n st es)"
  by (auto simp: fill_def list_all_iff)

lemma known_fill_info: "list_all (\<lambda>e. P (snd e)) es \<Longrightarrow> list_all (\<lambda>e. P (snd e)) (fill_info n st es)"
  by (auto simp: fill_info_def list_all_iff)

section \<open>The tables of the sources\<close>

lemmas handler_tables = s_primary_table_def s_table4_def s_table4_2_def s_table4_3_def s_table19_def s_table31_def
  s_table59_def s_table63_def s_table63_2_def

lemmas info_tables = info_primary_table_def info_table4_def info_table4_2_def info_table4_3_def info_table19_def
  info_table31_def info_table59_def info_table63_def info_table63_2_def

lemma handlers_known:
  "list_all (\<lambda>e. known_slot (snd e)) (s_primary_table B)"
  "list_all (\<lambda>e. known_slot (snd e)) (s_table4 B)"
  "list_all (\<lambda>e. known_slot (snd e)) (s_table4_2 B)"
  "list_all (\<lambda>e. known_slot (snd e)) (s_table4_3 B)"
  "list_all (\<lambda>e. known_slot (snd e)) (s_table19 B)"
  "list_all (\<lambda>e. known_slot (snd e)) (s_table31 B)"
  "list_all (\<lambda>e. known_slot (snd e)) (s_table59 B)"
  "list_all (\<lambda>e. known_slot (snd e)) (s_table63 B)"
  "list_all (\<lambda>e. known_slot (snd e)) (s_table63_2 B)"
  by (simp_all add: handler_tables known_slot_def on_core_def)

lemma infos_known:
  "list_all (\<lambda>e. known_info (snd e)) info_primary_table"
  "list_all (\<lambda>e. known_info (snd e)) info_table4"
  "list_all (\<lambda>e. known_info (snd e)) info_table4_2"
  "list_all (\<lambda>e. known_info (snd e)) info_table4_3"
  "list_all (\<lambda>e. known_info (snd e)) info_table19"
  "list_all (\<lambda>e. known_info (snd e)) info_table31"
  "list_all (\<lambda>e. known_info (snd e)) info_table59"
  "list_all (\<lambda>e. known_info (snd e)) info_table63"
  "list_all (\<lambda>e. known_info (snd e)) info_table63_2"
  by (simp_all add: info_tables known_info_def op_info_def)

lemma keys_agree:
  "set (keys (s_primary_table B)) = set (keys info_primary_table)"
  "set (keys (s_table4 B)) = set (keys info_table4)"
  "set (keys (s_table4_2 B)) = set (keys info_table4_2)"
  "set (keys (s_table4_3 B)) = set (keys info_table4_3)"
  "set (keys (s_table19 B)) = set (keys info_table19)"
  "keys (s_table31 B) = keys info_table31"
  "set (keys (s_table59 B)) = set (keys info_table59)"
  "set (keys (s_table63 B)) = set (keys info_table63)"
  "set (keys (s_table63_2 B)) = set (keys info_table63_2)"
  by (simp_all add: handler_tables info_tables)

text \<open>Each slot of the first table that goes on in a second one is at the number of that table.\<close>

lemma fold_upd_at:
  assumes "\<forall>(k, v) \<in> set es. R k v" "n \<in> set (keys es) \<or> R n (t n)"
  shows "R n (fold (\<lambda>(k, v) t. t(k := v)) es t n)"
  using assms
proof (induction es arbitrary: t)
  case (Cons e es)
  obtain k v where "e = (k, v)" by (cases e)
  with Cons.prems Cons.IH [of "t(k := v)"] show ?case by auto
qed simp

definition slot_at :: "nat \<Rightarrow> 'd slot \<Rightarrow> bool" where
  "slot_at n f \<longleftrightarrow> (f = RunTable4 \<longleftrightarrow> n = 4) \<and> (f = RunTable19 \<longleftrightarrow> n = 19) \<and> (f = RunTable31 \<longleftrightarrow> n = 31)
     \<and> (f = RunTable59 \<longleftrightarrow> n = 59) \<and> (f = RunTable63 \<longleftrightarrow> n = 63)"

definition info_at :: "nat \<Rightarrow> GekkoOPInfo \<Rightarrow> bool" where
  "info_at n i \<longleftrightarrow> op_type i \<noteq> OpInvalid \<and> (op_type i = OpSubtable \<longleftrightarrow> n = 4 \<or> n = 19 \<or> n = 31 \<or> n = 59 \<or> n = 63)"

lemma primary_slot: "slot_at n (s_interpreter_op_table B n)"
  unfolding s_interpreter_op_table_def write_table_def
  by (rule fold_upd_at) (auto simp: s_primary_table_def slot_at_def on_core_def)

lemma primary_info: "info_at n (tables_primary n)"
  unfolding tables_primary_def write_info_def
  by (rule fold_upd_at) (auto simp: info_primary_table_def info_at_def op_info_def unknown_op_info_def)

lemmas known_tables = write_table_known write_info_known handlers_known infos_known known_fill known_fill_info

lemma known_unknown [simp]: "\<not> known_slot UnknownInstruction" "\<not> known_info unknown_op_info"
  by (simp_all add: known_slot_def known_info_def unknown_op_info_def op_info_def)

lemma arrays_agree:
  "known_slot (s_interpreter_op_table B n) \<longleftrightarrow> known_info (tables_primary n)"
  "known_slot (s_interpreter_op_table4 B n) \<longleftrightarrow> known_info (tables_table4 n)"
  "known_slot (s_interpreter_op_table19 B n) \<longleftrightarrow> known_info (tables_table19 n)"
  "known_slot (s_interpreter_op_table31 B n) \<longleftrightarrow> known_info (tables_table31 n)"
  "known_slot (s_interpreter_op_table59 B n) \<longleftrightarrow> known_info (tables_table59 n)"
  "known_slot (s_interpreter_op_table63 B n) \<longleftrightarrow> known_info (tables_table63 n)"
  by (simp_all add: s_interpreter_op_table_def s_interpreter_op_table4_def s_interpreter_op_table19_def
      s_interpreter_op_table31_def s_interpreter_op_table59_def s_interpreter_op_table63_def
      tables_primary_def tables_table4_def tables_table19_def tables_table31_def tables_table59_def
      tables_table63_def known_tables keys_agree in_keys_fill in_keys_fill_info)

section \<open>No entry is written twice\<close>

definition op_arrays :: "'d bus \<Rightarrow> (nat \<times> nat list) list" where
  "op_arrays B =
    [(64, keys (s_primary_table B)),
     (1024, keys (fill 32 32 (s_table4_2 B)) @ keys (fill 16 64 (s_table4_3 B)) @ keys (s_table4 B)),
     (1024, keys (s_table19 B)), (1024, keys (s_table31 B)), (32, keys (s_table59 B)),
     (1024, keys (s_table63 B) @ keys (fill 32 32 (s_table63_2 B)))]"

definition unambiguous :: "nat \<times> nat list \<Rightarrow> bool" where
  "unambiguous a \<longleftrightarrow> distinct (snd a) \<and> list_all (\<lambda>k. k < fst a) (snd a)"

lemma keys_fill: "keys (fill n st es) = concat (map (\<lambda>i. map (\<lambda>k. i * st + k) (keys es)) [0..<n])"
  by (simp add: fill_def keys_def map_concat comp_def case_prod_beta)

lemma keys_fill_Suc: "keys (fill (Suc n) st es) = keys (fill n st es) @ map (\<lambda>k. n * st + k) (keys es)"
  by (simp add: keys_fill)

lemma fill_below:
  assumes "list_all (\<lambda>k. k < st) (keys es)" "k \<in> set (keys (fill n st es))"
  shows "k < n * st \<and> k mod st \<in> set (keys es)"
  using assms
proof (induction n)
  case 0 then show ?case by (simp add: keys_fill)
next
  case (Suc n)
  from Suc.prems consider "k \<in> set (keys (fill n st es))" | op where "op \<in> set (keys es)" "k = n * st + op"
    by (auto simp: keys_fill_Suc)
  then show ?case
  proof cases
    case 1 with Suc.IH Suc.prems(1) show ?thesis by simp
  next
    case 2 with Suc.prems(1) show ?thesis by (auto simp: list_all_iff)
  qed
qed

lemma distinct_fill:
  assumes "list_all (\<lambda>k. k < st) (keys es)" "distinct (keys es)"
  shows "distinct (keys (fill n st es))"
proof (induction n)
  case 0 then show ?case by (simp add: keys_fill)
next
  case (Suc n)
  have "set (keys (fill n st es)) \<inter> (\<lambda>k. n * st + k) ` set (keys es) = {}"
    using fill_below [OF assms(1), of _ n] by fastforce
  with Suc assms(2) show ?case by (simp add: keys_fill_Suc distinct_map)
qed

lemma op_array_parts:
  "list_all (\<lambda>k. k < 32) (keys (s_table4_2 B))" "distinct (keys (s_table4_2 B))"
  "list_all (\<lambda>k. k < 64) (keys (s_table4_3 B))" "distinct (keys (s_table4_3 B))"
  "list_all (\<lambda>k. k < 32) (keys (s_table63_2 B))" "distinct (keys (s_table63_2 B))"
  by (simp_all add: handler_tables)

lemma op_array_apart:
  "k mod 64 \<in> set (keys (s_table4_3 B)) \<Longrightarrow> k mod 32 \<notin> set (keys (s_table4_2 B))"
  "k \<in> set (keys (s_table4 B)) \<Longrightarrow> k mod 32 \<notin> set (keys (s_table4_2 B)) \<and> k mod 64 \<notin> set (keys (s_table4_3 B))"
  "k \<in> set (keys (s_table63 B)) \<Longrightarrow> k mod 32 \<notin> set (keys (s_table63_2 B))"
proof -
  assume "k mod 64 \<in> set (keys (s_table4_3 B))"
  moreover have "k mod 32 = k mod 64 mod 32" by (simp add: mod_mod_cancel)
  ultimately show "k mod 32 \<notin> set (keys (s_table4_2 B))" by (auto simp: handler_tables)
qed (auto simp: handler_tables)

lemma unambiguous_app:
  "distinct xs \<Longrightarrow> distinct ys \<Longrightarrow> (\<And>k. k \<in> set xs \<Longrightarrow> k \<notin> set ys) \<Longrightarrow> (\<And>k. k \<in> set xs \<or> k \<in> set ys \<Longrightarrow> k < n) \<Longrightarrow>
    unambiguous (n, xs @ ys)"
  by (auto simp: unambiguous_def list_all_iff)

lemma table4_keys: "distinct (keys (s_table4 B))" "k \<in> set (keys (s_table4 B)) \<Longrightarrow> k < 1024"
  by (auto simp: handler_tables)

lemma table63_keys: "distinct (keys (s_table63 B))" "k \<in> set (keys (s_table63 B)) \<Longrightarrow> k < 1024"
  by (auto simp: handler_tables)

lemma fill4_2: "k \<in> set (keys (fill 32 32 (s_table4_2 B))) \<Longrightarrow> k < 1024 \<and> k mod 32 \<in> set (keys (s_table4_2 B))"
  using fill_below [OF op_array_parts(1), of k 32 B] by simp

lemma fill4_3: "k \<in> set (keys (fill 16 64 (s_table4_3 B))) \<Longrightarrow> k < 1024 \<and> k mod 64 \<in> set (keys (s_table4_3 B))"
  using fill_below [OF op_array_parts(3), of k 16 B] by simp

lemma fill63_2: "k \<in> set (keys (fill 32 32 (s_table63_2 B))) \<Longrightarrow> k < 1024 \<and> k mod 32 \<in> set (keys (s_table63_2 B))"
  using fill_below [OF op_array_parts(5), of k 32 B] by simp

lemma unambiguous_4:
  "unambiguous (1024, keys (fill 32 32 (s_table4_2 B)) @ keys (fill 16 64 (s_table4_3 B)) @ keys (s_table4 B))"
proof (intro unambiguous_app)
  show "distinct (keys (fill 32 32 (s_table4_2 B)))" by (intro distinct_fill op_array_parts)
  have "distinct (keys (fill 16 64 (s_table4_3 B)))" by (intro distinct_fill op_array_parts)
  then show "distinct (keys (fill 16 64 (s_table4_3 B)) @ keys (s_table4 B))"
    using table4_keys(1) [of B] op_array_apart(2) [of _ B] fill4_3 [of _ B] by auto
next
  fix k assume "k \<in> set (keys (fill 32 32 (s_table4_2 B)))"
  then show "k \<notin> set (keys (fill 16 64 (s_table4_3 B)) @ keys (s_table4 B))"
    using fill4_2 [of k B] fill4_3 [of k B] op_array_apart(1,2) [of k B] by auto
next
  fix k assume "k \<in> set (keys (fill 32 32 (s_table4_2 B))) \<or> k \<in> set (keys (fill 16 64 (s_table4_3 B)) @ keys (s_table4 B))"
  then show "k < 1024" using fill4_2 [of k B] fill4_3 [of k B] table4_keys(2) [of k B] by auto
qed

lemma unambiguous_63: "unambiguous (1024, keys (s_table63 B) @ keys (fill 32 32 (s_table63_2 B)))"
proof (intro unambiguous_app)
  show "distinct (keys (fill 32 32 (s_table63_2 B)))" by (intro distinct_fill op_array_parts)
  show "distinct (keys (s_table63 B))" by (rule table63_keys)
next
  fix k assume "k \<in> set (keys (s_table63 B))"
  then show "k \<notin> set (keys (fill 32 32 (s_table63_2 B)))" using fill63_2 [of k B] op_array_apart(3) [of k B] by auto
next
  fix k assume "k \<in> set (keys (s_table63 B)) \<or> k \<in> set (keys (fill 32 32 (s_table63_2 B)))"
  then show "k < 1024" using fill63_2 [of k B] table63_keys(2) [of k B] by auto
qed

lemma unambiguous_plain:
  "unambiguous (64, keys (s_primary_table B))" "unambiguous (1024, keys (s_table19 B))"
  "unambiguous (1024, keys (s_table31 B))" "unambiguous (32, keys (s_table59 B))"
  by (simp_all add: unambiguous_def handler_tables)

section \<open>The properties\<close>

text \<open>
  C13: Decoding is unambiguous and complete.  No entry of the arrays of handlers is written twice
  or out of bounds, and the interpreter has a handler for exactly the instruction words that
  \<open>PPCTables\<close> knows, so that what the rest of the program believes to be an instruction is one; the
  handler run is the one looked up.
\<close>

theorem decode_tables_agree:
  "list_all unambiguous (op_arrays B)
   \<and> (GetInterpreterOp B inst = UnknownInstruction \<longleftrightarrow> \<not> IsValidInstruction inst)
   \<and> RunInterpreterOp B inst = call_slot B (GetInterpreterOp B inst) inst"
proof (intro conjI)
  show "list_all unambiguous (op_arrays B)"
    by (simp add: op_arrays_def unambiguous_4 unambiguous_63 unambiguous_plain)
  have "known_slot (GetInterpreterOp B inst) \<longleftrightarrow> known_info (GetOpInfo inst)"
  proof (cases "s_interpreter_op_table B (inst_OPCD inst)")
    case (Run h)
    then show ?thesis using primary_slot [of "inst_OPCD inst" B] primary_info [of "inst_OPCD inst"] arrays_agree(1) [of B "inst_OPCD inst"]
      by (simp add: GetInterpreterOp_def GetOpInfo_def slot_at_def info_at_def)
  qed (use primary_slot [of "inst_OPCD inst" B] primary_info [of "inst_OPCD inst"] arrays_agree(1) [of B "inst_OPCD inst"] in
      \<open>simp_all add: GetInterpreterOp_def GetOpInfo_def slot_at_def info_at_def arrays_agree\<close>)
  then show "GetInterpreterOp B inst = UnknownInstruction \<longleftrightarrow> \<not> IsValidInstruction inst"
    by (auto simp: known_slot_def known_info_def IsValidInstruction_def)
  show "RunInterpreterOp B inst = call_slot B (GetInterpreterOp B inst) inst"
    by (simp add: RunInterpreterOp_def GetInterpreterOp_def Let_def split: slot.split)
qed

end
