(* ===== verification/Ppc_Values.thy ===== *)
theory Ppc_Values
  imports Ppc_Float "Complex_Main"
begin

text \<open>
  The numbers behind bit patterns of floating point: their values as rationals, the fields of a
  pattern, and that rounding keeps every number the format can represent.
\<close>

section \<open>Values\<close>

definition fnum :: "fval \<Rightarrow> rat" where
  "fnum v = (case v of Finite s m e \<Rightarrow> of_int (signed_int s m) * 2 powi e | _ \<Rightarrow> 0)"

text \<open>Equal as data of the formats: a NaN is a NaN, and zeros differ in sign.\<close>

fun same_value :: "fval \<Rightarrow> fval \<Rightarrow> bool" where
  "same_value NotANumber v = (v = NotANumber)"
| "same_value (Infinite s) v = (v = Infinite s)"
| "same_value (Finite s m e) v = (\<exists>n k. v = Finite s n k \<and> fnum (Finite s m e) = fnum v)"

lemma fnum_Finite: "fnum (Finite s m e) = (if s then - 1 else 1) * of_nat m * 2 powi e"
  by (simp add: fnum_def signed_int_def)

lemma fnum_shift: "fnum (Finite s (m * 2 ^ k) (e - int k)) = fnum (Finite s m e)"
  by (simp add: fnum_Finite power_int_diff)

lemma same_value_shift: "same_value (Finite s (m * 2 ^ k) (e - int k)) (Finite s m e)"
  by (simp add: fnum_shift)

lemma same_value_zero: "same_value (Finite s 0 e) (Finite s 0 e')"
  by (simp add: fnum_Finite)

section \<open>Fields\<close>

definition exponent64 :: "u64 \<Rightarrow> u64" where "exponent64 y = drop_bit 52 y AND 0x7ff"
definition fraction64 :: "u64 \<Rightarrow> u64" where "fraction64 y = y AND 0x000FFFFFFFFFFFFF"
definition exponent32 :: "u32 \<Rightarrow> u32" where "exponent32 y = drop_bit 23 y AND 0xff"
definition fraction32 :: "u32 \<Rightarrow> u32" where "fraction32 y = y AND 0x007fffff"

definition fields_value :: "nat \<Rightarrow> nat \<Rightarrow> bool \<Rightarrow> nat \<Rightarrow> nat \<Rightarrow> fval" where
  "fields_value p w s x f =
    (if x = 2 ^ w - 1 then (if f = 0 then Infinite s else NotANumber)
     else if x = 0 then Finite s f (least_exponent p w)
     else Finite s (2 ^ (p - 1) + f) (least_exponent p w + int x - 1))"

lemma unpack_fields:
  "unpack p w n = fields_value p w (odd (n div 2 ^ (p - 1 + w))) (n div 2 ^ (p - 1) mod 2 ^ w) (n mod 2 ^ (p - 1))"
  by (simp add: unpack_def fields_value_def Let_def)

lemma bit_odd: "bit (x :: 'a::len word) n \<longleftrightarrow> odd (unat x div 2 ^ n)"
proof -
  have "bit x n = bit (unat x) n" by (simp add: bit_unsigned_iff)
  then show ?thesis by (simp only: bit_iff_odd)
qed

lemma unat_masked_drop: "unat (drop_bit n x AND mask m) = unat x div 2 ^ n mod 2 ^ m" for x :: "'a::len word"
  by (simp add: unsigned_drop_bit_eq unsigned_take_bit_eq flip: take_bit_eq_mask) (simp add: take_bit_eq_mod drop_bit_eq_div)

lemma unat_drop: "unat (drop_bit n x) = unat x div 2 ^ n" for x :: "'a::len word"
  using unsigned_less [of x, where 'a = nat]
  by (simp add: unsigned_drop_bit_eq take_bit_nat_eq_self) (simp add: drop_bit_eq_div)

lemma unpack64_fields: "unpack64 y = fields_value 53 11 (bit y 63) (unat (exponent64 y)) (unat (fraction64 y))"
  using unat_masked_drop [of 52 y 11] unat_masked_drop [of 0 y 52]
  by (simp add: unpack64_def unpack_fields exponent64_def fraction64_def bit_odd mask_eq_exp_minus_1)

lemma unpack32_fields: "unpack32 y = fields_value 24 8 (bit y 31) (unat (exponent32 y)) (unat (fraction32 y))"
  using unat_masked_drop [of 23 y 8] unat_masked_drop [of 0 y 23]
  by (simp add: unpack32_def unpack_fields exponent32_def fraction32_def bit_odd mask_eq_exp_minus_1)

text \<open>A pattern put together from sign, exponent and fraction.\<close>

lemma unat_bit_below:
  fixes f :: "'a::len word"
  assumes "unat f < 2 ^ n" "bit f j"
  shows "j < n"
proof -
  have "take_bit n (unat f) = unat f" using assms(1) by (rule take_bit_nat_eq_self)
  moreover have "bit (unat f) j" using assms(2) by (simp add: bit_unsigned_iff)
  ultimately show ?thesis by (metis bit_take_bit_iff)
qed

lemma bit_sign_mask: "bit (0x8000000000000000 :: u64) n \<longleftrightarrow> n = 63"
  using bit_exp_iff [of 63 n, where 'a = u64] by auto

lemma mask64: "(0x7ff :: u64) = mask 11" "(0x000FFFFFFFFFFFFF :: u64) = mask 52" "(0x7FF0000000000000 :: u64) = push_bit 52 (mask 11)"
  by (simp_all add: mask_eq_exp_minus_1 push_bit_eq_mult)

lemma compose_fields:
  fixes v e g :: u64
  assumes "unat e < 2 ^ 11" "unat g < 2 ^ 52"
  defines "r \<equiv> (v AND 0x8000000000000000) OR push_bit 52 e OR g :: u64"
  shows "exponent64 r = e" "fraction64 r = g" "bit r 63 = bit v 63"
proof -
  have bits: "bit r k \<longleftrightarrow> k < 64 \<and> (k = 63 \<and> bit v 63 \<or> 52 \<le> k \<and> bit e (k - 52) \<or> k < 52 \<and> bit g k)" for k
    using unat_bit_below [OF assms(2), of k] bit_imp_le_length [of v k]
    unfolding r_def bit_or_iff bit_and_iff bit_sign_mask bit_push_bit_iff by auto
  show "exponent64 r = e"
  proof (rule bit_word_eqI)
    fix n assume "n < LENGTH(64)"
    then show "bit (exponent64 r) n = bit e n"
      using unat_bit_below [OF assms(1), of n] unfolding exponent64_def mask64(1) bit_and_iff bit_mask_iff bit_drop_bit_eq comp_def bits by auto
  qed
  show "fraction64 r = g"
  proof (rule bit_word_eqI)
    fix n assume "n < LENGTH(64)"
    then show "bit (fraction64 r) n = bit g n"
      using unat_bit_below [OF assms(2), of n] unfolding fraction64_def mask64(2) bit_and_iff bit_mask_iff bits by auto
  qed
  show "bit r 63 = bit v 63" using unat_bit_below [OF assms(1), of 11] unfolding bits by auto
qed

lemma exponent_in_place: "v AND 0x7FF0000000000000 = push_bit 52 (exponent64 v)"
  unfolding exponent64_def mask64(1,3) by (rule bit_word_eqI) (auto simp: bit_simps)

lemma exponent64_less: "unat (exponent64 v) < 2 ^ 11"
  using unat_masked_drop [of 52 v 11] unfolding exponent64_def mask64(1) by simp

lemma fraction64_less: "unat (fraction64 v) < 2 ^ 52"
  using unat_masked_drop [of 0 v 52] unfolding fraction64_def mask64(2) by simp

lemma fnum_normal:
  assumes "0 < unat (exponent64 v)" "unat (exponent64 v) < 2047"
  shows "fnum (unpack64 v) =
    (if bit v 63 then - 1 else 1) * of_nat (2 ^ 52 + unat (fraction64 v)) * 2 powi (int (unat (exponent64 v)) - 1075)"
  using assms by (simp add: unpack64_fields fields_value_def fnum_Finite least_exponent_def exponent_bias_def)

section \<open>Rounding of what the format can represent\<close>

lemma significant_bits_0 [simp]: "significant_bits 0 = 0"
  by (simp add: significant_bits.simps)

lemma significant_bits_bounds: "0 < m \<Longrightarrow> 2 ^ (significant_bits m - 1) \<le> m \<and> m < 2 ^ significant_bits m \<and> 0 < significant_bits m"
proof (induction m rule: significant_bits.induct)
  case (1 n)
  show ?case
  proof (cases "n = 1")
    case True then show ?thesis by (simp add: significant_bits.simps)
  next
    case False
    with 1 have IH: "2 ^ (significant_bits (n div 2) - 1) \<le> n div 2" "n div 2 < 2 ^ significant_bits (n div 2)" "0 < significant_bits (n div 2)"
      by auto
    then obtain k where k: "significant_bits (n div 2) = Suc k" by (cases "significant_bits (n div 2)") auto
    have "significant_bits n = Suc (Suc k)" using 1(2) k by (subst significant_bits.simps) simp
    with IH k show ?thesis by (simp; intro conjI; linarith)
  qed
qed

lemma significant_bits_eq:
  assumes "2 ^ k \<le> m" "m < 2 ^ Suc k"
  shows "significant_bits m = Suc k"
proof -
  have m: "0 < m" using assms(1) by (metis gr0I not_less zero_less_numeral zero_less_power)
  from significant_bits_bounds [OF m] obtain j where j: "significant_bits m = Suc j" "2 ^ j \<le> m" "m < 2 ^ Suc j"
    by (cases "significant_bits m") auto
  have "j < Suc k" using j(2) assms(2) by (meson le_less_trans power_less_imp_less_exp one_less_numeral_iff semiring_norm(76))
  moreover have "k < Suc j" using assms(1) j(3) by (meson le_less_trans power_less_imp_less_exp one_less_numeral_iff semiring_norm(76))
  ultimately show ?thesis using j(1) by simp
qed

lemma significant_bits_shift: "0 < m \<Longrightarrow> significant_bits (m * 2 ^ j) = significant_bits m + j"
proof -
  assume "0 < m"
  from significant_bits_bounds [OF this] obtain k where k: "significant_bits m = Suc k" "2 ^ k \<le> m" "m < 2 ^ Suc k"
    by (cases "significant_bits m") auto
  then have "significant_bits (m * 2 ^ j) = Suc (k + j)"
    by (intro significant_bits_eq) (simp_all add: power_add)
  with k show ?thesis by simp
qed

text \<open>Scaling a significand and its exponent against each other changes nothing.\<close>

lemma shift_round_scale: "shift_round rn s (m * 2 ^ j) (n + j) = shift_round rn s m n"
proof -
  have q: "m * 2 ^ j div 2 ^ (n + j) = m div 2 ^ n" by (simp add: power_add div_mult2_eq mult.commute)
  have r: "m * 2 ^ j mod 2 ^ (n + j) = m mod 2 ^ n * 2 ^ j" by (simp add: power_add mult_mod_left)
  have "rounds_up rn s a (b * 2 ^ j) (n + j) = rounds_up rn s a b n" for a b
    by (simp add: rounds_up_def power_add)
  then show ?thesis by (simp only: shift_round_def q r Let_def)
qed

lemma shift_round_0 [simp]: "shift_round rn s m 0 = m"
  by (simp add: shift_round_def rounds_up_def)

lemma shift_round_exact: "shift_round rn s (m * 2 ^ j) j = m"
  using shift_round_scale [of rn s m j 0] by simp

lemma in_units_scale: "in_units rn s (m * 2 ^ j) (e - int j) lsb = in_units rn s m e lsb"
proof (cases "e \<le> lsb")
  case True
  then have "nat (lsb - (e - int j)) = nat (lsb - e) + j" by simp
  with True show ?thesis by (simp add: in_units_def shift_round_scale)
next
  case False
  show ?thesis
  proof (cases "e - int j \<le> lsb")
    case True
    define i where "i = nat (lsb - (e - int j))"
    have j: "j = nat (e - lsb) + i" using True False by (simp add: i_def)
    have "m * 2 ^ j = (m * 2 ^ nat (e - lsb)) * 2 ^ i" by (simp add: j power_add)
    have "in_units rn s (m * 2 ^ j) (e - int j) lsb = shift_round rn s (m * 2 ^ j) i"
      using True by (simp add: in_units_def i_def)
    also have "\<dots> = m * 2 ^ nat (e - lsb)" unfolding \<open>m * 2 ^ j = _\<close> by (rule shift_round_exact)
    finally show ?thesis using False by (simp add: in_units_def)
  next
    case 2: False
    have "nat (e - lsb) = j + nat (e - int j - lsb)" using 2 False by simp
    with 2 False show ?thesis by (simp add: in_units_def power_add)
  qed
qed

lemma round_pack_scale: "round_pack p w mode s (m * 2 ^ j) (e - int j) = round_pack p w mode s m e"
proof (cases "m = 0")
  case False
  then have "e - int j + int (significant_bits (m * 2 ^ j)) = e + int (significant_bits m)"
    by (simp add: significant_bits_shift)
  then show ?thesis by (simp only: round_pack_def round_magnitude_def in_units_scale) (simp add: False)
qed (simp add: round_pack_def round_magnitude_def split: prod.split)

text \<open>
  A normal number whose significand fits is packed as it is, in every mode, and unpacks to a
  significand of full length.
\<close>

definition fits :: "nat \<Rightarrow> nat \<Rightarrow> nat \<Rightarrow> int \<Rightarrow> bool" where
  "fits p w m e \<longleftrightarrow> 0 < m \<and> significant_bits m \<le> p \<and> 1 - exponent_bias w \<le> e + int (significant_bits m) - 1
     \<and> e + int (significant_bits m) - 1 \<le> exponent_bias w"

lemma full_significand:
  assumes "0 < m" "significant_bits m \<le> p"
  shows "2 ^ (p - 1) \<le> m * 2 ^ (p - significant_bits m)" "m * 2 ^ (p - significant_bits m) < 2 ^ p"
proof -
  from significant_bits_bounds [OF assms(1)] obtain k where k: "significant_bits m = Suc k" "2 ^ k \<le> m" "m < 2 ^ Suc k"
    by (cases "significant_bits m") auto
  have p: "p - 1 = k + (p - Suc k)" "p = Suc k + (p - Suc k)" using assms(2) k(1) by simp_all
  show "2 ^ (p - 1) \<le> m * 2 ^ (p - significant_bits m)"
    unfolding k(1) by (subst p(1)) (simp only: power_add mult_le_mono1 k(2))
  show "m * 2 ^ (p - significant_bits m) < 2 ^ p"
    unfolding k(1) by (subst (2) p(2)) (simp only: power_add, rule mult_less_mono1 [OF k(3)], simp)
qed

lemma round_magnitude_fits:
  assumes "fits p w m e" "0 < p" "2 \<le> w"
  shows "round_magnitude p w mode s m e =
    nat (e + int (significant_bits m) - 1 + exponent_bias w) * 2 ^ (p - 1) + (m * 2 ^ (p - significant_bits m) - 2 ^ (p - 1))"
proof -
  obtain rn ftz where mode: "mode = (rn, ftz)" by (cases mode)
  define t where "t = e + int (significant_bits m) - 1"
  define q where "q = m * 2 ^ (p - significant_bits m)"
  have m: "0 < m" "significant_bits m \<le> p" and t: "1 - exponent_bias w \<le> t" "t \<le> exponent_bias w"
    using assms(1) by (simp_all add: fits_def t_def)
  have q: "2 ^ (p - 1) \<le> q" "q < 2 ^ p" unfolding q_def using full_significand [OF m] by simp_all
  have lsb: "t - (int p - 1) = e - int (p - significant_bits m)" using m(2) by (simp add: t_def)
  have units: "in_units rn s m e (t - (int p - 1)) = q"
    unfolding lsb q_def in_units_scale [of rn s m "p - significant_bits m" e, symmetric] by (simp add: in_units_def)
  have least: "max (t - (int p - 1)) (least_exponent p w) = t - (int p - 1)"
    using t(1) by (simp add: least_exponent_def max_def)
  have ex: "nat (t - (int p - 1) - least_exponent p w + 1) = nat (t + exponent_bias w)"
    by (simp add: least_exponent_def)
  have "nat (t + exponent_bias w) \<le> 2 ^ w - 2"
    using t(2) assms(3) by (cases w) (auto simp: exponent_bias_def nat_le_iff of_nat_diff)
  have "nat (t + exponent_bias w) * 2 ^ (p - 1) + (q - 2 ^ (p - 1)) < (2 ^ w - 1) * 2 ^ (p - 1)"
  proof -
    have "q - 2 ^ (p - 1) < 2 ^ (p - 1)" using q \<open>0 < p\<close> by (cases p) simp_all
    then have "nat (t + exponent_bias w) * 2 ^ (p - 1) + (q - 2 ^ (p - 1)) < (nat (t + exponent_bias w) + 1) * 2 ^ (p - 1)"
      by simp
    also have "\<dots> \<le> (2 ^ w - 1) * 2 ^ (p - 1)" using \<open>_ \<le> 2 ^ w - 2\<close> power_increasing [of 1 w "2 :: nat"] assms(3)
      by (intro mult_le_mono1) simp
    finally show ?thesis .
  qed
  moreover define B where "B = nat (t + exponent_bias w) * 2 ^ (p - 1) + (q - 2 ^ (p - 1))"
  ultimately have B: "\<not> (2 ^ w - 1) * 2 ^ (p - 1) \<le> B" by linarith
  have conds: "(m = 0) = False" "(q < 2 ^ (p - 1)) = False" "(q = 2 ^ p) = False" "(t < 1 - exponent_bias w) = False"
    using m q t(1) by simp_all
  show ?thesis
    unfolding round_magnitude_def Let_def mode prod.case t_def [symmetric] q_def [symmetric] least units ex
    by (simp only: conds if_False B_def [symmetric] B simp_thms)
qed

lemma round_pack_fits:
  assumes "fits p w m e" "0 < p" "2 \<le> w"
  defines "x \<equiv> nat (e + int (significant_bits m) - 1 + exponent_bias w)" and "f \<equiv> m * 2 ^ (p - significant_bits m) - 2 ^ (p - 1)"
  shows "round_pack p w mode s m e = (of_bool s * 2 ^ w + x) * 2 ^ (p - 1) + f" "f < 2 ^ (p - 1)" "0 < x" "x < 2 ^ w - 1"
proof -
  have m: "0 < m" "significant_bits m \<le> p" and t: "1 - exponent_bias w \<le> e + int (significant_bits m) - 1"
      "e + int (significant_bits m) - 1 \<le> exponent_bias w"
    using assms(1) by (simp_all add: fits_def)
  show "f < 2 ^ (p - 1)" using full_significand [OF m] \<open>0 < p\<close> unfolding f_def by (cases p) simp_all
  show "0 < x" "x < 2 ^ w - 1"
    using t assms(3) power_increasing [of 2 w "2 :: nat"]
    by (cases w; auto simp: x_def nat_less_iff exponent_bias_def of_nat_diff)+
  show "round_pack p w mode s m e = (of_bool s * 2 ^ w + x) * 2 ^ (p - 1) + f"
    by (simp add: round_pack_def round_magnitude_fits [OF assms(1-3)] f_def x_def power_add algebra_simps)
qed

lemma round_pack_less:
  assumes "fits p w m e" "0 < p" "2 \<le> w"
  shows "round_pack p w mode s m e < 2 ^ (p + w)"
proof -
  define x where "x = nat (e + int (significant_bits m) - 1 + exponent_bias w)"
  define f where "f = m * 2 ^ (p - significant_bits m) - 2 ^ (p - 1)"
  note r = round_pack_fits [OF assms, folded x_def f_def]
  have "round_pack p w mode s m e < (of_bool s * 2 ^ w + x + 1) * 2 ^ (p - 1)" unfolding r(1) using r(2) by simp
  also have "\<dots> \<le> (2 * 2 ^ w) * 2 ^ (p - 1)" using r(4) by (intro mult_le_mono1) (cases s, auto)
  also have "\<dots> = 2 ^ (p + w)" using \<open>0 < p\<close> by (cases p) (simp_all add: power_add)
  finally show ?thesis .
qed

lemma unpack_round_pack:
  assumes "fits p w m e" "0 < p" "2 \<le> w"
  shows "unpack p w (round_pack p w mode s m e) =
    Finite s (m * 2 ^ (p - significant_bits m)) (e - int (p - significant_bits m))"
proof -
  define x where "x = nat (e + int (significant_bits m) - 1 + exponent_bias w)"
  define f where "f = m * 2 ^ (p - significant_bits m) - 2 ^ (p - 1)"
  define n where "n = round_pack p w mode s m e"
  note r = round_pack_fits [OF assms, folded x_def f_def]
  have m: "0 < m" "significant_bits m \<le> p" and t: "1 - exponent_bias w \<le> e + int (significant_bits m) - 1"
    using assms(1) by (simp_all add: fits_def)
  have "n mod 2 ^ (p - 1) = f" "n div 2 ^ (p - 1) = of_bool s * 2 ^ w + x"
    unfolding n_def r(1) using r(2) by simp_all
  moreover from this have "n div 2 ^ (p - 1) mod 2 ^ w = x" "odd (n div 2 ^ (p - 1) div 2 ^ w) = s"
    using r(4) by (cases s; simp)+
  ultimately have "unpack p w n = Finite s (2 ^ (p - 1) + f) (least_exponent p w + int x - 1)"
    using r(3,4) by (simp only: unpack_fields fields_value_def power_add div_mult2_eq) simp
  moreover have "2 ^ (p - 1) + f = m * 2 ^ (p - significant_bits m)" using full_significand [OF m] by (simp add: f_def)
  moreover have "least_exponent p w + int x - 1 = e - int (p - significant_bits m)"
    using t m(2) by (simp add: least_exponent_def x_def)
  ultimately show ?thesis by (simp add: n_def)
qed

lemma round_pack_mode: "fits p w m e \<Longrightarrow> 0 < p \<Longrightarrow> 2 \<le> w \<Longrightarrow> round_pack p w mode s m e = round_pack p w mode' s m e"
  by (simp add: round_pack_fits(1))

text \<open>The same for words of the two formats.\<close>

lemma unpack32_round:
  assumes "fits 24 8 m e"
  shows "unpack32 (round32 mode (s, m, e)) = Finite s (m * 2 ^ (24 - significant_bits m)) (e - int (24 - significant_bits m))"
proof -
  have "round_pack 24 8 mode s m e < 2 ^ 32" using round_pack_less [OF assms, of mode s] by simp
  then have "unat (round32 mode (s, m, e)) = round_pack 24 8 mode s m e"
    by (simp add: unsigned_of_nat take_bit_nat_eq_self)
  then show ?thesis using unpack_round_pack [OF assms, of mode s] by (simp add: unpack32_def)
qed

lemma unpack64_round:
  assumes "fits 53 11 m e"
  shows "unpack64 (round64 mode (s, m, e)) = Finite s (m * 2 ^ (53 - significant_bits m)) (e - int (53 - significant_bits m))"
proof -
  have "round_pack 53 11 mode s m e < 2 ^ 64" using round_pack_less [OF assms, of mode s] by simp
  then have "unat (round64 mode (s, m, e)) = round_pack 53 11 mode s m e"
    by (simp add: unsigned_of_nat take_bit_nat_eq_self)
  then show ?thesis using unpack_round_pack [OF assms, of mode s] by (simp add: unpack64_def)
qed

end
