(* ===== verification/Ppc_Estimates.thy ===== *)
theory Ppc_Estimates
  imports Ppc_Values
begin

text \<open>
  The reciprocal estimates of \<open>Common/FloatUtils.cpp\<close>: both tables are piecewise linear, and the
  result is within one part in 4096 of the exact reciprocal or reciprocal square root.
\<close>

section \<open>Bounds on a segment\<close>

text \<open>On a segment the product of argument and estimate is a quadratic polynomial with one maximum.\<close>

lemma quadratic_bounds:
  fixes a c d j n :: int
  assumes "0 \<le> j" "j \<le> n" "0 < d" "L \<le> a * c" "L \<le> (a + n) * (c - d * n)" "(c + a * d)\<^sup>2 \<le> 4 * d * U"
  shows "L \<le> (a + j) * (c - d * j)" "(a + j) * (c - d * j) \<le> U"
proof -
  have "n * ((a + j) * (c - d * j)) = (n - j) * (a * c) + j * ((a + n) * (c - d * n)) + n * (d * j * (n - j))"
    by (simp add: algebra_simps)
  moreover have "n * L \<le> (n - j) * (a * c) + j * ((a + n) * (c - d * n))"
  proof -
    have "n * L = (n - j) * L + j * L" by (simp add: algebra_simps)
    also have "\<dots> \<le> (n - j) * (a * c) + j * ((a + n) * (c - d * n))"
      using assms by (intro add_mono mult_left_mono) simp_all
    finally show ?thesis .
  qed
  moreover have "0 \<le> n * (d * j * (n - j))" using assms by simp
  ultimately have "n * L \<le> n * ((a + j) * (c - d * j))" by linarith
  then show "L \<le> (a + j) * (c - d * j)" using assms by (cases "n = 0") (auto simp: mult_le_cancel_left)
  have "4 * d * ((a + j) * (c - d * j)) = (c + a * d)\<^sup>2 - (2 * d * j - (c - a * d))\<^sup>2"
    by (simp add: power2_eq_square algebra_simps)
  then have "4 * d * ((a + j) * (c - d * j)) \<le> (c + a * d)\<^sup>2" using zero_le_power2 [of "2 * d * j - (c - a * d)"] by linarith
  then have "4 * d * ((a + j) * (c - d * j)) \<le> 4 * d * U" using assms(6) by linarith
  then show "(a + j) * (c - d * j) \<le> U" using assms(3) by (simp add: mult_le_cancel_left)
qed

text \<open>With the square of the estimate it is cubic; the mean of the three factors bounds it.\<close>

lemma mean_of_three:
  fixes u v :: int
  assumes "0 \<le> u" "0 \<le> v"
  shows "27 * (u\<^sup>2 * v) \<le> (2 * u + v) ^ 3"
proof -
  have "(2 * u + v) ^ 3 - 27 * (u\<^sup>2 * v) = (v - u)\<^sup>2 * (8 * u + v)"
    by (simp add: power2_eq_square power3_eq_cube algebra_simps)
  moreover have "0 \<le> (v - u)\<^sup>2 * (8 * u + v)" using assms by simp
  ultimately show ?thesis by linarith
qed

lemma cubic_bounds:
  fixes a c d j n :: int
  assumes "0 \<le> j" "j \<le> n" "0 < d" "0 \<le> a" "d * n \<le> c" "d * (a + 2 * n) \<le> 2 * c"
    and "L \<le> c\<^sup>2 * a" "L \<le> (c - d * n)\<^sup>2 * (a + n)" "8 * (c + d * a) ^ 3 \<le> 54 * d * U"
  shows "L \<le> (c - d * j)\<^sup>2 * (a + j)" "(c - d * j)\<^sup>2 * (a + j) \<le> U"
proof -
  have "n * ((c - d * j)\<^sup>2 * (a + j)) =
      (n - j) * (c\<^sup>2 * a) + j * ((c - d * n)\<^sup>2 * (a + n)) + j * (n - j) * (n * (d * (2 * c - d * (a + n + j))))"
    by (simp add: power2_eq_square algebra_simps)
  moreover have "n * L \<le> (n - j) * (c\<^sup>2 * a) + j * ((c - d * n)\<^sup>2 * (a + n))"
  proof -
    have "n * L = (n - j) * L + j * L" by (simp add: algebra_simps)
    also have "\<dots> \<le> (n - j) * (c\<^sup>2 * a) + j * ((c - d * n)\<^sup>2 * (a + n))"
      using assms by (intro add_mono mult_left_mono) simp_all
    finally show ?thesis .
  qed
  moreover have "0 \<le> j * (n - j) * (n * (d * (2 * c - d * (a + n + j))))"
  proof -
    have "d * (a + n + j) \<le> d * (a + 2 * n)" using assms by simp
    then have "0 \<le> 2 * c - d * (a + n + j)" using assms(6) by linarith
    then show ?thesis using assms(1-3) by (intro mult_nonneg_nonneg) simp_all
  qed
  ultimately have "n * L \<le> n * ((c - d * j)\<^sup>2 * (a + j))" by linarith
  then show "L \<le> (c - d * j)\<^sup>2 * (a + j)" using assms by (cases "n = 0") (auto simp: mult_le_cancel_left)
  have "d * j \<le> d * n" using assms(2,3) by simp
  then have "0 \<le> c - d * j" using assms(5) by linarith
  then have "27 * ((c - d * j)\<^sup>2 * (2 * d * (a + j))) \<le> (2 * (c - d * j) + 2 * d * (a + j)) ^ 3"
    using assms by (intro mean_of_three) simp_all
  also have "2 * (c - d * j) + 2 * d * (a + j) = 2 * (c + d * a)" by (simp add: algebra_simps)
  also have "(2 * (c + d * a)) ^ 3 = 8 * (c + d * a) ^ 3" unfolding power_mult_distrib by simp
  finally have "27 * ((c - d * j)\<^sup>2 * (2 * d * (a + j))) \<le> 54 * d * U" using assms(9) by linarith
  moreover have "27 * ((c - d * j)\<^sup>2 * (2 * d * (a + j))) = 54 * d * ((c - d * j)\<^sup>2 * (a + j))" by simp
  ultimately have "54 * d * ((c - d * j)\<^sup>2 * (a + j)) \<le> 54 * d * U" by simp
  then show "(c - d * j)\<^sup>2 * (a + j) \<le> U" using assms(3) by (simp add: mult_le_cancel_left)
qed

section \<open>The tables\<close>

definition fres_segment_ok :: "nat \<times> int \<times> int \<Rightarrow> bool" where
  "fres_segment_ok x = (case x of (i, b, d) \<Rightarrow>
     let a = 32768 + 1024 * int i; c = 2 ^ 24 + 2 * b in
     0 < d \<and> 2 ^ 40 - 2 ^ 28 \<le> a * (c - 1) \<and> 2 ^ 40 - 2 ^ 28 \<le> (a + 1024) * (c - 1 - d * 1024)
     \<and> (c + (a + 1) * d)\<^sup>2 \<le> 4 * d * (2 ^ 40 + 2 ^ 28) \<and> (c - 1 + a * d)\<^sup>2 \<le> 4 * d * (2 ^ 40 + 2 ^ 28)
     \<and> 2 ^ 40 - 2 ^ 28 \<le> (a + 1) * c \<and> 2 ^ 40 - 2 ^ 28 \<le> (a + 1 + 1024) * (c - d * 1024)
     \<and> d * 1023 + 1 \<le> 2 * b \<and> b < 2 ^ 23)"

lemma fres_table: "list_all fres_segment_ok (enumerate 0 fres_expected)"
  by code_simp

lemma length_fres [simp]: "length fres_expected = 32"
  by (simp add: fres_expected_def)

lemma halved: "2 ^ 40 - 2 ^ 28 \<le> 2 * x \<Longrightarrow> 2 ^ 39 - 2 ^ 27 \<le> x" "2 * x \<le> 2 ^ 40 + 2 ^ 28 \<Longrightarrow> x \<le> 2 ^ 39 + 2 ^ 27" for x :: int
  by simp_all

lemma fres_segment:
  assumes "i < 32768" "Y = fst (fres_expected ! (i div 1024)) - (snd (fres_expected ! (i div 1024)) * int (i mod 1024) + 1) div 2"
  shows "0 \<le> Y" "Y < 2 ^ 23" "2 ^ 39 - 2 ^ 27 \<le> (32768 + int i) * (2 ^ 23 + Y)"
    "(32768 + int i + 1) * (2 ^ 23 + Y) \<le> 2 ^ 39 + 2 ^ 27"
proof -
  obtain b d where entry: "fres_expected ! (i div 1024) = (b, d)" by (cases "fres_expected ! (i div 1024)")
  define a where "a = 32768 + 1024 * int (i div 1024)"
  define c where "c = 2 ^ 24 + 2 * b"
  define j where "j = int (i mod 1024)"
  have "(i div 1024, b, d) \<in> set (enumerate 0 fres_expected)"
    using assms(1) entry by (auto simp: in_set_conv_nth nth_enumerate_eq intro!: exI [of _ "i div 1024"])
  then have ok: "fres_segment_ok (i div 1024, b, d)" using fres_table by (auto simp: list_all_iff)
  have j: "0 \<le> j" "j \<le> 1023" "j \<le> 1024" by (simp_all add: j_def)
  have i: "32768 + int i = a + j"
    using div_mult_mod_eq [of i 1024] unfolding a_def j_def by linarith
  have Y: "Y = b - (d * j + 1) div 2" by (simp add: assms(2) entry j_def)
  have twice: "c - 1 - d * j \<le> 2 * (2 ^ 23 + Y)" "2 * (2 ^ 23 + Y) \<le> c - d * j" unfolding Y c_def by simp_all
  from ok have d: "0 < d" and lower: "2 ^ 40 - 2 ^ 28 \<le> a * (c - 1)" "2 ^ 40 - 2 ^ 28 \<le> (a + 1024) * (c - 1 - d * 1024)"
    and upper: "(c + (a + 1) * d)\<^sup>2 \<le> 4 * d * (2 ^ 40 + 2 ^ 28)" "(c - 1 + a * d)\<^sup>2 \<le> 4 * d * (2 ^ 40 + 2 ^ 28)"
    and lower': "2 ^ 40 - 2 ^ 28 \<le> (a + 1) * c" "2 ^ 40 - 2 ^ 28 \<le> (a + 1 + 1024) * (c - d * 1024)"
    and b: "d * 1023 + 1 \<le> 2 * b" "b < 2 ^ 23"
    unfolding fres_segment_ok_def prod.case Let_def a_def [symmetric] c_def [symmetric] by blast+
  have a: "0 \<le> a" by (simp add: a_def)
  have dj: "0 \<le> d * j" "d * j \<le> d * 1023" using d j by simp_all
  then show "0 \<le> Y" using b(1) unfolding Y by linarith
  show "Y < 2 ^ 23" using dj(1) b(2) unfolding Y by linarith
  have "2 ^ 40 - 2 ^ 28 \<le> (a + j) * (c - 1 - d * j)"
    by (rule quadratic_bounds(1) [OF j(1) j(3) d lower upper(2)])
  also have "\<dots> \<le> (a + j) * (2 * (2 ^ 23 + Y))" using a j(1) by (intro mult_left_mono twice(1)) linarith
  finally have "2 ^ 40 - 2 ^ 28 \<le> 2 * ((a + j) * (2 ^ 23 + Y))" by (simp only: mult.left_commute)
  then show "2 ^ 39 - 2 ^ 27 \<le> (32768 + int i) * (2 ^ 23 + Y)" unfolding i by (rule halved)
  have "(a + 1 + j) * (2 * (2 ^ 23 + Y)) \<le> (a + 1 + j) * (c - d * j)"
    using a j(1) by (intro mult_left_mono twice(2)) linarith
  also have "\<dots> \<le> 2 ^ 40 + 2 ^ 28"
    by (rule quadratic_bounds(2) [OF j(1) j(3) d lower' upper(1)])
  finally have "2 * ((a + 1 + j) * (2 ^ 23 + Y)) \<le> 2 ^ 40 + 2 ^ 28" by (simp only: mult.left_commute)
  moreover have "32768 + int i + 1 = a + 1 + j" using i by linarith
  ultimately show "(32768 + int i + 1) * (2 ^ 23 + Y) \<le> 2 ^ 39 + 2 ^ 27" by (simp only: halved(2))
qed

definition frsqrte_segment_ok :: "nat \<times> int \<times> int \<Rightarrow> bool" where
  "frsqrte_segment_ok x = (case x of (i, b, e) \<Rightarrow>
     let d = - e; a = 32768 + 2048 * int (i mod 16); c = 2 ^ 26 + b; t = (if 16 \<le> i then 2 ^ 69 else 2 ^ 68); w = t div 2 ^ 11 in
     0 < d \<and> d * 2047 \<le> b \<and> b < 2 ^ 26 \<and> d * 2048 \<le> c \<and> d * (a + 1 + 2 * 2048) \<le> 2 * c
     \<and> t - w \<le> c\<^sup>2 * a \<and> t - w \<le> (c - d * 2048)\<^sup>2 * (a + 2048)
     \<and> t - w \<le> c\<^sup>2 * (a + 1) \<and> t - w \<le> (c - d * 2048)\<^sup>2 * (a + 1 + 2048)
     \<and> 8 * (c + d * a) ^ 3 \<le> 54 * d * (t + w) \<and> 8 * (c + d * (a + 1)) ^ 3 \<le> 54 * d * (t + w))"

lemma frsqrte_table: "list_all frsqrte_segment_ok (enumerate 0 frsqrte_expected)"
  by code_simp

lemma length_frsqrte [simp]: "length frsqrte_expected = 32"
  by (simp add: frsqrte_expected_def)

lemma frsqrte_segment:
  fixes k m :: nat
  defines "t \<equiv> (2 :: int) ^ (if k = 1 then 69 else 68)"
  assumes "m < 32768" "k < 2" "i = 32768 * k + m"
    "Y = fst (frsqrte_expected ! (i div 2048)) + snd (frsqrte_expected ! (i div 2048)) * int (i mod 2048)"
  shows "0 \<le> Y" "Y < 2 ^ 26" "t - t div 2 ^ 11 \<le> (2 ^ 26 + Y)\<^sup>2 * (32768 + int m)"
    "(2 ^ 26 + Y)\<^sup>2 * (32768 + int m + 1) \<le> t + t div 2 ^ 11"
proof -
  obtain b e where entry: "frsqrte_expected ! (i div 2048) = (b, e)" by (cases "frsqrte_expected ! (i div 2048)")
  define d where "d = - e"
  define a where "a = 32768 + 2048 * int (i div 2048 mod 16)"
  define c where "c = 2 ^ 26 + b"
  define j where "j = int (i mod 2048)"
  have idx: "i div 2048 < 32" using assms(2-4) by (simp add: less_mult_imp_div_less)
  then have "(i div 2048, b, e) \<in> set (enumerate 0 frsqrte_expected)"
    using entry by (auto simp: in_set_conv_nth nth_enumerate_eq intro!: exI [of _ "i div 2048"])
  then have ok: "frsqrte_segment_ok (i div 2048, b, e)" using frsqrte_table by (auto simp: list_all_iff)
  have j: "0 \<le> j" "j \<le> 2047" "j \<le> 2048" by (simp_all add: j_def)
  have "i = m + 2048 * (16 * k)" by (simp add: assms(4))
  then have split: "i div 2048 = 16 * k + m div 2048" "i mod 2048 = m mod 2048" by (simp_all only: div_mult_self2 mod_mult_self2)
  have "m div 2048 < 16" using assms(2) by (simp add: less_mult_imp_div_less)
  then have half: "16 \<le> i div 2048 \<longleftrightarrow> k = 1" "i div 2048 mod 16 = m div 2048" "i mod 2048 = m mod 2048"
    unfolding split using assms(3) by (auto simp: less_2_cases_iff)
  have i: "32768 + int m = a + j"
    using div_mult_mod_eq [of m 2048] unfolding a_def j_def half by linarith
  have t: "(if 16 \<le> i div 2048 then 2 ^ 69 else 2 ^ 68) = t" by (simp add: t_def half)
  have Y: "Y = b - d * j" by (simp add: assms(5) entry j_def d_def)
  then have c: "2 ^ 26 + Y = c - d * j" by (simp add: c_def)
  from ok have d: "0 < d" and b: "d * 2047 \<le> b" "b < 2 ^ 26" "d * 2048 \<le> c" and concave: "d * (a + 1 + 2 * 2048) \<le> 2 * c"
    and lower: "t - t div 2 ^ 11 \<le> c\<^sup>2 * a" "t - t div 2 ^ 11 \<le> (c - d * 2048)\<^sup>2 * (a + 2048)"
    and lower': "t - t div 2 ^ 11 \<le> c\<^sup>2 * (a + 1)" "t - t div 2 ^ 11 \<le> (c - d * 2048)\<^sup>2 * (a + 1 + 2048)"
    and upper: "8 * (c + d * a) ^ 3 \<le> 54 * d * (t + t div 2 ^ 11)" "8 * (c + d * (a + 1)) ^ 3 \<le> 54 * d * (t + t div 2 ^ 11)"
    unfolding frsqrte_segment_ok_def prod.case Let_def a_def [symmetric] c_def [symmetric] d_def [symmetric] t by blast+
  have dj: "0 \<le> d * j" "d * j \<le> d * 2047" using d j by simp_all
  then show "0 \<le> Y" "Y < 2 ^ 26" using b unfolding Y by linarith+
  have a: "0 \<le> a" "0 \<le> a + 1" by (simp_all add: a_def)
  have concave': "d * (a + 2 * 2048) \<le> 2 * c" using concave d by (simp add: algebra_simps)
  show "t - t div 2 ^ 11 \<le> (2 ^ 26 + Y)\<^sup>2 * (32768 + int m)"
    unfolding c i by (rule cubic_bounds(1) [OF j(1) j(3) d a(1) b(3) concave' lower upper(1)])
  have "(c - d * j)\<^sup>2 * (a + 1 + j) \<le> t + t div 2 ^ 11"
    by (rule cubic_bounds(2) [OF j(1) j(3) d a(2) b(3) concave lower' upper(2)])
  moreover have "32768 + int m + 1 = a + 1 + j" using i by linarith
  ultimately show "(2 ^ 26 + Y)\<^sup>2 * (32768 + int m + 1) \<le> t + t div 2 ^ 11" unfolding c by (simp only:)
qed

section \<open>The estimates as numbers\<close>

lemma push_bit_diff: "push_bit n a - push_bit n b = push_bit n (a - b)" for a b :: "'a::len word"
  by (simp add: push_bit_eq_mult left_diff_distrib)

lemma unat_of_int: "0 \<le> i \<Longrightarrow> i < 2 ^ 64 \<Longrightarrow> unat (word_of_int i :: u64) = nat i"
  by (simp add: unsigned_of_int take_bit_int_eq_self)

lemma unat_pushed:
  fixes f :: u64
  assumes "unat f * 2 ^ k < 2 ^ 64"
  shows "unat (push_bit k f) = unat f * 2 ^ k"
  using assms unfolding unsigned_push_bit_eq by (simp add: push_bit_eq_mult take_bit_nat_eq_self)

lemma fres_fields:
  assumes "895 \<le> unat (exponent64 v)" "unat (exponent64 v) < 1149"
    and "i = unat (fraction64 v) div 2 ^ 37"
    and "Y = fst (fres_expected ! (i div 1024)) - (snd (fres_expected ! (i div 1024)) * int (i mod 1024) + 1) div 2"
  shows "unat (exponent64 (ApproximateReciprocal v)) = 2045 - unat (exponent64 v)"
    "unat (fraction64 (ApproximateReciprocal v)) = nat Y * 2 ^ 29"
    "bit (ApproximateReciprocal v) 63 = bit v 63"
proof -
  have i: "i < 32768" using fraction64_less [of v] by (simp add: assms(3) less_mult_imp_div_less)
  note Y = fres_segment(1,2) [OF i assms(4)]
  have e: "unat (2045 - exponent64 v) = 2045 - unat (exponent64 v)"
    using assms(2) by (subst unat_sub) (simp_all add: word_le_nat_alt)
  have g: "unat (push_bit 29 (word_of_int Y) :: u64) = nat Y * 2 ^ 29"
    using Y by (subst unat_pushed) (simp_all add: unat_of_int nat_less_iff)
  have index: "unat (drop_bit 37 (fraction64 v)) = i" unfolding assms(3) by (rule unat_drop)
  have place: "unat (push_bit 52 (exponent64 v)) = unat (exponent64 v) * 2 ^ 52"
    using assms(2) by (intro unat_pushed) simp
  have le: "push_bit 52 (exponent64 v) < push_bit 52 895 \<longleftrightarrow> False" "push_bit 52 1149 \<le> push_bit 52 (exponent64 v) \<longleftrightarrow> False"
      "push_bit 52 (exponent64 v) = 0 \<longleftrightarrow> False" "push_bit 52 (exponent64 v) = 0x7FF0000000000000 \<longleftrightarrow> False"
    using assms(1,2) place by (auto simp: word_less_nat_alt word_le_nat_alt word_unat_eq_iff)
  have val: "ApproximateReciprocal v = (v AND 0x8000000000000000) OR push_bit 52 (2045 - exponent64 v) OR push_bit 29 (word_of_int Y)"
    unfolding ApproximateReciprocal_def Let_def exponent_in_place le fraction64_def [symmetric] index estimate_entry_def
      assms(4) [symmetric] push_bit_diff by (simp add: or.assoc)
  show "unat (exponent64 (ApproximateReciprocal v)) = 2045 - unat (exponent64 v)"
    "unat (fraction64 (ApproximateReciprocal v)) = nat Y * 2 ^ 29" "bit (ApproximateReciprocal v) 63 = bit v 63"
    using compose_fields [of "2045 - exponent64 v" "push_bit 29 (word_of_int Y)" v] e g Y assms(1)
    by (simp_all add: val or.assoc nat_less_iff)
qed

text \<open>A product of two numbers near a power of two, as an integer.\<close>

lemma near_power:
  fixes P :: int
  assumes "2 ^ n - 2 ^ (n - k) \<le> P" "P \<le> 2 ^ n + 2 ^ (n - k)" "k \<le> n"
  shows "2 ^ k * \<bar>of_int P * 2 powi (- int n) - 1\<bar> \<le> (1 :: rat)"
proof -
  have n: "(2 :: rat) ^ n = 2 ^ k * 2 ^ (n - k)" using assms(3) by (simp flip: power_add)
  have "of_int P * 2 powi (- int n) - (1 :: rat) = (of_int P - 2 ^ n) / 2 ^ n"
    by (simp add: power_int_minus field_simps)
  moreover have "\<bar>of_int P - 2 ^ n\<bar> \<le> (2 ^ (n - k) :: rat)"
  proof -
    have "\<bar>P - 2 ^ n\<bar> \<le> 2 ^ (n - k)" using assms(1,2) by linarith
    then have "of_int \<bar>P - 2 ^ n\<bar> \<le> (of_int (2 ^ (n - k)) :: rat)" by (rule of_int_le_iff [THEN iffD2])
    then show ?thesis by simp
  qed
  ultimately show ?thesis by (simp add: n abs_mult divide_le_eq)
qed

lemma signed_product: "s * s = 1 \<Longrightarrow> s * A * p * (s * B * q) = A * B * (p * q)" for s A B p q :: rat
proof -
  assume "s * s = 1"
  moreover have "s * A * p * (s * B * q) = (s * s) * (A * B * (p * q))" by (simp only: mult_ac)
  ultimately show ?thesis by simp
qed

lemma powers_of_two: "(2 :: rat) powi a * (2 powi b * 2 powi b * 2 powi c) = 2 powi (a + (b + b + c))"
proof -
  have add: "(2 :: rat) powi (x + y) = 2 powi x * 2 powi y" for x y by (rule power_int_add) simp
  show ?thesis unfolding add by (rule refl)
qed

lemma in_segment:
  "int (M div 2 ^ n) * 2 ^ n \<le> int M" "int M \<le> (int (M div 2 ^ n) + 1) * 2 ^ n"
proof -
  have "int M = int (M div 2 ^ n) * 2 ^ n + int (M mod 2 ^ n)"
    using div_mult_mod_eq [of "int M" "2 ^ n"] by (simp add: zdiv_int zmod_int)
  moreover have "int (M mod 2 ^ n) < 2 ^ n" by (simp add: zmod_int)
  ultimately show "int (M div 2 ^ n) * 2 ^ n \<le> int M" "int M \<le> (int (M div 2 ^ n) + 1) * 2 ^ n"
    unfolding distrib_right by linarith+
qed

lemma reciprocal_accurate:
  assumes "895 \<le> unat (exponent64 v)" "unat (exponent64 v) < 1149"
  shows "2 ^ 12 * \<bar>fnum (unpack64 v) * fnum (unpack64 (ApproximateReciprocal v)) - 1\<bar> \<le> 1"
proof -
  define M where "M = unat (fraction64 v)"
  define i where "i = M div 2 ^ 37"
  define Y where "Y = fst (fres_expected ! (i div 1024)) - (snd (fres_expected ! (i div 1024)) * int (i mod 1024) + 1) div 2"
  have i: "i < 32768" using fraction64_less [of v] by (simp add: i_def M_def less_mult_imp_div_less)
  note seg = fres_segment [OF i Y_def]
  note f = fres_fields [OF assms i_def [unfolded M_def] Y_def]
  define P where "P = (2 ^ 52 + int M) * (2 ^ 23 + Y)"
  have M: "(32768 + int i) * 2 ^ 37 \<le> 2 ^ 52 + int M" "2 ^ 52 + int M \<le> (32768 + int i + 1) * 2 ^ 37"
    using in_segment [of M 37] by (simp_all add: i_def algebra_simps)
  have "(2 ^ 39 - 2 ^ 27) * 2 ^ 37 \<le> ((32768 + int i) * (2 ^ 23 + Y)) * 2 ^ 37"
    by (intro mult_right_mono seg(3)) simp
  also have "\<dots> = ((32768 + int i) * 2 ^ 37) * (2 ^ 23 + Y)" by (simp only: mult.assoc mult.commute mult.left_commute)
  also have "\<dots> \<le> P" unfolding P_def by (intro mult_right_mono M(1)) (simp add: seg(1))
  finally have low: "2 ^ 76 - 2 ^ (76 - 12) \<le> P" by simp
  have "P \<le> ((32768 + int i + 1) * 2 ^ 37) * (2 ^ 23 + Y)" unfolding P_def by (intro mult_right_mono M(2)) (simp add: seg(1))
  also have "\<dots> = ((32768 + int i + 1) * (2 ^ 23 + Y)) * 2 ^ 37" by (simp only: mult.assoc mult.commute mult.left_commute)
  also have "\<dots> \<le> (2 ^ 39 + 2 ^ 27) * 2 ^ 37" by (intro mult_right_mono seg(4)) simp
  finally have high: "P \<le> 2 ^ 76 + 2 ^ (76 - 12)" by simp
  have prod: "fnum (unpack64 v) * fnum (unpack64 (ApproximateReciprocal v)) = of_int P * 2 powi (- int 76)"
  proof -
    let ?E = "unat (exponent64 v)"
    have r: "fnum (unpack64 (ApproximateReciprocal v)) =
        (if bit v 63 then - 1 else 1) * (2 ^ 29 * (2 ^ 23 + of_int Y)) * 2 powi (970 - int ?E)"
      using assms seg(1) by (subst fnum_normal) (simp_all add: f of_nat_diff of_nat_nat algebra_simps)
    have "(2 :: rat) powi (int ?E - 1075) * 2 powi (970 - int ?E) = 2 powi (- 105)"
      by (simp flip: power_int_add)
    note powers = this
    have x: "fnum (unpack64 v) = (if bit v 63 then - 1 else 1) * (2 ^ 52 + of_nat M) * 2 powi (int ?E - 1075)"
      using assms by (simp add: fnum_normal M_def)
    have "fnum (unpack64 v) * fnum (unpack64 (ApproximateReciprocal v)) =
        (2 ^ 52 + of_nat M) * (2 ^ 29 * (2 ^ 23 + of_int Y)) * 2 powi (- 105)"
      unfolding x r by (subst signed_product) (simp_all only: powers split: if_split, simp)
    also have "\<dots> = of_int P * (2 ^ 29 * 2 powi (- 105))" 
      by (simp only: P_def of_int_mult of_int_add of_int_power of_int_numeral of_int_of_nat_eq mult_ac)
    also have "(2 :: rat) ^ 29 * 2 powi (- 105) = 2 powi (- int 76)" by (simp add: power_int_def power_one_over)
    finally show ?thesis .
  qed
  show ?thesis unfolding prod by (rule near_power [OF low high]) simp
qed

text \<open>The reciprocal square root of a positive normal number.\<close>

lemma half_exponent:
  fixes E :: u64
  assumes "0 < unat E" "unat E < 2047"
  shows "(push_bit 52 0x3FF - word_of_int (sint (push_bit 52 E - push_bit 52 0x3FE) sdiv 2)) AND push_bit 52 0x7FF
    = push_bit 52 (word_of_nat ((3068 - unat E) div 2) :: u64)"
proof -
  define d where "d = (int (unat E) - 1022) * 2 ^ 52"
  have "push_bit 52 E - push_bit 52 0x3FE = (word_of_int d :: u64)"
    by (simp add: d_def push_bit_eq_mult)
  then have "sint (push_bit 52 E - push_bit 52 0x3FE) = sint (word_of_int d :: u64)" by (simp only:)
  also have "\<dots> = d" unfolding sint_sbintrunc'
  proof (rule signed_take_bit_int_eq_self)
    have "0 < int (unat E)" "int (unat E) < 2047" using assms by linarith+
    then show "- (2 ^ (LENGTH(64) - 1)) \<le> d" "d < 2 ^ (LENGTH(64) - 1)" unfolding d_def by simp_all
  qed
  finally have "sint (push_bit 52 E - push_bit 52 0x3FE) = d" .
  moreover have "d sdiv 2 = (int (unat E) - 1022) * 2 ^ 51"
  proof -
    have "(2 * x) sdiv 2 = x" for x :: int by (simp add: signed_divide_int_def sgn_mult abs_mult sgn_mult_abs)
    moreover have "d = 2 * ((int (unat E) - 1022) * 2 ^ 51)" by (simp add: d_def)
    ultimately show ?thesis by (simp only:)
  qed
  ultimately have "push_bit 52 0x3FF - word_of_int (sint (push_bit 52 E - push_bit 52 0x3FE) sdiv 2)
      = (word_of_nat ((3068 - unat E) * 2 ^ 51) :: u64)"
  proof -
    assume *: "sint (push_bit 52 E - push_bit 52 0x3FE) = d" "d sdiv 2 = (int (unat E) - 1022) * 2 ^ 51"
    have "unat E \<le> 3068" using assms(2) by simp
    then have "1023 * 2 ^ 52 - (int (unat E) - 1022) * 2 ^ 51 = int ((3068 - unat E) * 2 ^ 51)"
      by (simp add: of_nat_diff algebra_simps)
    then have "(word_of_int (1023 * 2 ^ 52 - (int (unat E) - 1022) * 2 ^ 51) :: u64) = word_of_nat ((3068 - unat E) * 2 ^ 51)"
      by (simp only: of_int_of_nat_eq)
    then show ?thesis unfolding * by (simp add: push_bit_eq_mult)
  qed
  moreover have "exponent64 (word_of_nat ((3068 - unat E) * 2 ^ 51)) = word_of_nat ((3068 - unat E) div 2)"
  proof -
    define n where "n = 3068 - unat E"
    have n: "n < 2 ^ 12" by (simp add: n_def)
    have "unat (word_of_nat (n * 2 ^ 51) :: u64) = n * 2 ^ 51"
      unfolding unsigned_of_nat of_nat_id by (rule take_bit_nat_eq_self) (use n in simp)
    then have "unat (exponent64 (word_of_nat (n * 2 ^ 51))) = n * 2 ^ 51 div 2 ^ 52 mod 2 ^ 11"
      unfolding exponent64_def mask64(1) unat_masked_drop by simp
    also have "\<dots> = n div 2"
    proof -
      have "n * 2 ^ 51 div 2 ^ 52 = n div 2" by (simp add: div_mult2_eq [of _ "2 ^ 51" 2, simplified] mult.commute)
      then show ?thesis using n by (simp add: less_mult_imp_div_less)
    qed
    finally show ?thesis
      using n unfolding n_def [symmetric] by (simp add: word_unat_eq_iff unsigned_of_nat take_bit_nat_eq_self)
  qed
  ultimately show ?thesis using exponent_in_place by simp
qed

lemma frsqrte_fields:
  assumes "0 < unat (exponent64 v)" "unat (exponent64 v) < 2047" "\<not> bit v 63"
    and "k = unat (exponent64 v) mod 2" "m = unat (fraction64 v) div 2 ^ 37" "i = 32768 * k + m"
    and "Y = fst (frsqrte_expected ! (i div 2048)) + snd (frsqrte_expected ! (i div 2048)) * int (i mod 2048)"
  shows "unat (exponent64 (ApproximateReciprocalSquareRoot v)) = (3068 - unat (exponent64 v)) div 2"
    "unat (fraction64 (ApproximateReciprocalSquareRoot v)) = nat Y * 2 ^ 26"
    "\<not> bit (ApproximateReciprocalSquareRoot v) 63"
proof -
  have m: "m < 32768" using fraction64_less [of v] by (simp add: assms(5) less_mult_imp_div_less)
  have k: "k < 2" by (simp add: assms(4))
  note Y = frsqrte_segment(1,2) [OF m k assms(6,7)]
  define F where "F = (word_of_nat ((3068 - unat (exponent64 v)) div 2) :: u64)"
  have F: "unat F = (3068 - unat (exponent64 v)) div 2"
    by (simp add: F_def unsigned_of_nat take_bit_nat_eq_self)
  have g: "unat (push_bit 26 (word_of_int Y) :: u64) = nat Y * 2 ^ 26"
    using Y by (subst unat_pushed) (simp_all add: unat_of_int nat_less_iff)
  have v_sign: "v AND 0x8000000000000000 = 0"
    using assms(3) and_exp_eq_0_iff_not_bit [of v 63] by simp
  have lsb: "push_bit 52 (exponent64 v) AND push_bit 52 1 = push_bit 52 (word_of_nat k)"
  proof -
    have "push_bit 52 (exponent64 v) AND push_bit 52 1 = push_bit 52 (exponent64 v AND 1)" by (rule push_bit_and [symmetric])
    also have "exponent64 v AND 1 = word_of_nat k"
    proof -
      have "unat (exponent64 v AND 1) = k" using unat_masked_drop [of 0 "exponent64 v" 1] by (simp add: assms(4) mask_eq_exp_minus_1)
      moreover have "unat (word_of_nat k :: u64) = k" using k by (simp add: unsigned_of_nat take_bit_nat_eq_self)
      ultimately show ?thesis unfolding word_unat_eq_iff by (simp only:)
    qed
    finally show ?thesis .
  qed
  have index: "unat (drop_bit 37 (push_bit 52 (word_of_nat k) OR fraction64 v)) = i"
  proof -
    have "push_bit 52 (word_of_nat k) OR fraction64 v = push_bit 52 (word_of_nat k) + fraction64 v"
    proof (rule disjunctive_add [symmetric])
      fix n show "\<not> bit (push_bit 52 (word_of_nat k) :: u64) n \<or> \<not> bit (fraction64 v) n"
        using unat_bit_below [OF fraction64_less, of v n] by (auto simp: bit_push_bit_iff)
    qed
    moreover have pushed: "unat (push_bit 52 (word_of_nat k) :: u64) = k * 2 ^ 52"
      using k by (subst unat_pushed) (simp_all add: unsigned_of_nat take_bit_nat_eq_self)
    moreover have "unat (push_bit 52 (word_of_nat k) + fraction64 v) = k * 2 ^ 52 + unat (fraction64 v)"
    proof -
      have "k * 2 ^ 52 + unat (fraction64 v) < 2 ^ 64" using k fraction64_less [of v] by (auto simp: less_2_cases_iff)
      then show ?thesis using pushed by (subst unat_add_lem [THEN iffD1]) simp_all
    qed
    moreover have "(k * 2 ^ 52 + unat (fraction64 v)) div 2 ^ 37 = i"
    proof -
      have "k * 2 ^ 52 + unat (fraction64 v) = unat (fraction64 v) + 2 ^ 37 * (32768 * k)" by simp
      then show ?thesis by (simp only: div_mult_self2 assms(5,6)) simp
    qed
    ultimately show ?thesis by (simp only: unat_drop)
  qed
  have place: "unat (push_bit 52 (exponent64 v)) = unat (exponent64 v) * 2 ^ 52"
    using assms(2) by (intro unat_pushed) simp
  have ne: "push_bit 52 (exponent64 v) = 0 \<longleftrightarrow> False" "push_bit 52 (exponent64 v) = 0x7FF0000000000000 \<longleftrightarrow> False"
    using assms(1,2) place by (auto simp: word_unat_eq_iff)
  note half = half_exponent [OF assms(1,2), folded F_def]
  have val: "ApproximateReciprocalSquareRoot v = (v AND 0x8000000000000000) OR push_bit 52 F OR push_bit 26 (word_of_int Y)"
    unfolding ApproximateReciprocalSquareRoot_def Let_def exponent_in_place ne v_sign simp_thms if_False prod.case
      fraction64_def [symmetric] lsb index estimate_entry_def assms(7) [symmetric] half by simp
  show "unat (exponent64 (ApproximateReciprocalSquareRoot v)) = (3068 - unat (exponent64 v)) div 2"
    "unat (fraction64 (ApproximateReciprocalSquareRoot v)) = nat Y * 2 ^ 26"
    "\<not> bit (ApproximateReciprocalSquareRoot v) 63"
    using compose_fields [of F "push_bit 26 (word_of_int Y)" v] F g Y assms(1,3)
    by (simp_all only: val) (auto simp: nat_less_iff)
qed

lemma reciprocal_root_accurate:
  assumes "0 < unat (exponent64 v)" "unat (exponent64 v) < 2047" "\<not> bit v 63"
  shows "2 ^ 11 * \<bar>fnum (unpack64 v) * (fnum (unpack64 (ApproximateReciprocalSquareRoot v)))\<^sup>2 - 1\<bar> \<le> 1"
    "0 < fnum (unpack64 (ApproximateReciprocalSquareRoot v))"
proof -
  define M where "M = unat (fraction64 v)"
  define E where "E = unat (exponent64 v)"
  define k where "k = E mod 2"
  define m where "m = M div 2 ^ 37"
  define i where "i = 32768 * k + m"
  define Y where "Y = fst (frsqrte_expected ! (i div 2048)) + snd (frsqrte_expected ! (i div 2048)) * int (i mod 2048)"
  define F where "F = (3068 - E) div 2"
  define n where "n = 105 + k"
  have m: "m < 32768" using fraction64_less [of v] by (simp add: m_def M_def less_mult_imp_div_less)
  have k: "k < 2" by (simp add: k_def)
  note seg = frsqrte_segment [OF m k i_def Y_def]
  note f = frsqrte_fields [OF assms k_def [unfolded E_def] m_def [unfolded M_def] i_def Y_def]
  define S where "S = (2 ^ 26 + Y)\<^sup>2"
  define P where "P = (2 ^ 52 + int M) * S"
  have S: "0 \<le> S" by (simp add: S_def)
  have n: "(2 :: int) ^ (if k = 1 then 69 else 68) * 2 ^ 37 = 2 ^ n" "(2 :: int) ^ (if k = 1 then 69 else 68) div 2 ^ 11 * 2 ^ 37 = 2 ^ (n - 11)"
    using k by (auto simp: n_def less_2_cases_iff)
  have M: "(32768 + int m) * 2 ^ 37 \<le> 2 ^ 52 + int M" "2 ^ 52 + int M \<le> (32768 + int m + 1) * 2 ^ 37"
    using in_segment [of M 37] by (simp_all add: m_def algebra_simps)
  have "2 ^ n - 2 ^ (n - 11) \<le> (S * (32768 + int m)) * 2 ^ 37"
    unfolding n [symmetric] left_diff_distrib [symmetric] S_def by (intro mult_right_mono seg(3)) simp
  also have "\<dots> = ((32768 + int m) * 2 ^ 37) * S" by (simp only: mult.assoc mult.commute mult.left_commute)
  also have "\<dots> \<le> P" unfolding P_def by (intro mult_right_mono M(1) S)
  finally have low: "2 ^ n - 2 ^ (n - 11) \<le> P" .
  have "P \<le> ((32768 + int m + 1) * 2 ^ 37) * S" unfolding P_def by (intro mult_right_mono M(2) S)
  also have "\<dots> = (S * (32768 + int m + 1)) * 2 ^ 37" by (simp only: mult.assoc mult.commute mult.left_commute)
  also have "\<dots> \<le> 2 ^ n + 2 ^ (n - 11)"
    unfolding n [symmetric] distrib_right [symmetric] S_def by (intro mult_right_mono seg(4)) simp
  finally have high: "P \<le> 2 ^ n + 2 ^ (n - 11)" .
  have FE: "2 * F + E + k = 3068" using assms(2) unfolding F_def k_def E_def by presburger
  have r: "fnum (unpack64 (ApproximateReciprocalSquareRoot v)) = 2 ^ 26 * (2 ^ 26 + of_int Y) * 2 powi (int F - 1075)"
    using assms seg(1) by (subst fnum_normal) (simp_all add: f F_def E_def algebra_simps)
  have x: "fnum (unpack64 v) = (2 ^ 52 + of_nat M) * 2 powi (int E - 1075)"
    using assms by (simp add: fnum_normal M_def E_def)
  have "0 < (2 ^ 26 + of_int Y :: rat)" using seg(1) by (intro add_pos_nonneg) simp_all
  then show "0 < fnum (unpack64 (ApproximateReciprocalSquareRoot v))" unfolding r by simp
  have "(2 :: rat) powi (int E - 1075) * ((2 powi (int F - 1075))\<^sup>2 * (2 ^ 26)\<^sup>2) = 2 powi (- int n)"
  proof -
    have "(2 :: rat) powi (int E - 1075) * ((2 powi (int F - 1075)) * (2 powi (int F - 1075)) * 2 powi 52) = 2 powi (- int n)"
    proof -
      have "int E - 1075 + (int F - 1075 + (int F - 1075) + 52) = - int n" using FE by (simp add: n_def)
      then show ?thesis by (simp only: powers_of_two)
    qed
    then show ?thesis by (simp add: power2_eq_square power_int_def)
  qed
  note powers = this
  have "fnum (unpack64 v) * (fnum (unpack64 (ApproximateReciprocalSquareRoot v)))\<^sup>2 =
      (2 ^ 52 + of_nat M) * (2 ^ 26 + of_int Y)\<^sup>2 * (2 powi (int E - 1075) * ((2 powi (int F - 1075))\<^sup>2 * (2 ^ 26)\<^sup>2))"
    unfolding x r by (simp only: power_mult_distrib mult_ac)
  also have "\<dots> = of_int P * 2 powi (- int n)"
    unfolding powers by (simp only: P_def S_def of_int_mult of_int_add of_int_power of_int_numeral of_int_of_nat_eq)
  finally have prod: "fnum (unpack64 v) * (fnum (unpack64 (ApproximateReciprocalSquareRoot v)))\<^sup>2 = of_int P * 2 powi (- int n)" .
  show "2 ^ 11 * \<bar>fnum (unpack64 v) * (fnum (unpack64 (ApproximateReciprocalSquareRoot v)))\<^sup>2 - 1\<bar> \<le> 1"
    unfolding prod by (rule near_power [OF low high]) (simp add: n_def)
qed

section \<open>The property\<close>

text \<open>
  C14: The estimates are as accurate as the processor's manual promises.  For a number whose reciprocal
  is not clamped, \<open>fres\<close> and \<open>ps_res\<close> deliver it within one part in 4096, and for every positive normal
  number \<open>frsqrte\<close> delivers a positive number whose square times the argument is within one part
  in 2048 of one, that is one part in 4096 of the root.
\<close>

theorem estimates_accurate:
  "(895 \<le> unat (exponent64 v) \<and> unat (exponent64 v) < 1149 \<longrightarrow>
      2 ^ 12 * \<bar>fnum (unpack64 v) * fnum (unpack64 (ApproximateReciprocal v)) - 1\<bar> \<le> 1)
   \<and> (0 < unat (exponent64 v) \<and> unat (exponent64 v) < 2047 \<and> \<not> bit v 63 \<longrightarrow>
      2 ^ 11 * \<bar>fnum (unpack64 v) * (fnum (unpack64 (ApproximateReciprocalSquareRoot v)))\<^sup>2 - 1\<bar> \<le> 1
      \<and> 0 < fnum (unpack64 (ApproximateReciprocalSquareRoot v)))"
  using reciprocal_accurate [of v] reciprocal_root_accurate [of v] by blast

text \<open>The estimates of 3.\<close>

lemma estimates_accurate_witness:
  "2 ^ 12 * \<bar>fnum (unpack64 0x4008000000000000) * fnum (unpack64 (ApproximateReciprocal 0x4008000000000000)) - 1\<bar> \<le> 1
   \<and> 2 ^ 11 * \<bar>fnum (unpack64 0x4008000000000000) * (fnum (unpack64 (ApproximateReciprocalSquareRoot 0x4008000000000000)))\<^sup>2 - 1\<bar> \<le> 1"
proof -
  have "exponent64 0x4008000000000000 = 1024" "\<not> bit (0x4008000000000000 :: u64) 63"
    unfolding exponent64_def by code_simp+
  then show ?thesis using estimates_accurate [of "0x4008000000000000"] by simp
qed

end
