(* ===== verification/Ppc_Single.thy ===== *)
theory Ppc_Single
  imports Ppc_LoadStore Ppc_Values
begin

text \<open>
  Single precision in the registers: the bit-by-bit conversions of \<open>Interpreter_FPUtils.h\<close> keep the
  number and are inverse to each other.
\<close>

section \<open>Masks and fields\<close>

lemma fp_masks:
  "(0x7ff :: u64) = mask 11" "(0xff :: u64) = mask 8" "(0x7f :: u64) = mask 7" "(0x007fffff :: u64) = mask 23"
  "(0x000FFFFFFFFFFFFF :: u64) = mask 52" "(0x3fffffff :: u64) = mask 30" "(0x00800000 :: u64) = push_bit 23 1"
  "(0xc0000000 :: u64) = push_bit 30 (mask 2)" "(0x80000000 :: u64) = push_bit 31 1" "(0x8000000000000000 :: u64) = push_bit 63 1"
  by (simp_all add: mask_eq_exp_minus_1 push_bit_eq_mult)

text \<open>The short path of \<open>ConvertToSingle\<close> drops three bits of the exponent and 29 of the fraction.\<close>

definition narrow :: "u64 \<Rightarrow> u32" where
  "narrow x = ucast ((drop_bit 32 x AND 0xc0000000) OR (drop_bit 29 x AND 0x3fffffff))"

lemma bit_narrow: "bit (narrow x) k \<longleftrightarrow> k < 32 \<and> bit x (if k < 30 then 29 + k else 32 + k)"
  by (auto simp: narrow_def fp_masks bit_simps)

definition widen :: "u32 \<Rightarrow> u64 \<Rightarrow> u64" where
  "widen x m = push_bit 32 (ucast x AND 0xc0000000) OR m OR push_bit 29 (ucast x AND 0x3fffffff)"

definition spread_only :: "u64 \<Rightarrow> bool" where
  "spread_only m \<longleftrightarrow> (\<forall>k. bit m k \<longrightarrow> 59 \<le> k \<and> k \<le> 61)"

lemma bit_widen:
  "bit (widen x m) k \<longleftrightarrow> k < 64 \<and> (62 \<le> k \<and> bit x (k - 32) \<or> bit m k \<or> 29 \<le> k \<and> k < 59 \<and> bit x (k - 29))"
  using bit_imp_le_length [of m k] by (auto simp: widen_def fp_masks bit_simps)

lemma narrow_widen:
  assumes "spread_only m"
  shows "narrow (widen x m) = x"
proof (rule bit_word_eqI)
  fix n assume "n < LENGTH(32)"
  moreover have "bit m k \<Longrightarrow> 59 \<le> k \<and> k \<le> 61" for k using assms by (simp add: spread_only_def)
  ultimately show "bit (narrow (widen x m)) n = bit x n"
    by (cases "n < 30") (force simp: bit_narrow bit_widen)+
qed

definition spread :: "u64 \<Rightarrow> u64" where
  "spread y = push_bit 61 y OR push_bit 60 y OR push_bit 59 y"

lemma bit_spread: "bit (spread (of_bool b)) k \<longleftrightarrow> b \<and> 59 \<le> k \<and> k \<le> 61"
proof -
  have "spread (of_bool b) = push_bit 59 (if b then mask 3 else 0)"
    by (cases b) (simp_all add: spread_def mask_eq_exp_minus_1)
  then show ?thesis by (auto simp: bit_simps)
qed

lemma spread_only_of_bool: "spread_only (spread (of_bool b))"
  by (simp add: spread_only_def bit_spread)

text \<open>The exponent of the double: the bias grows by 896.\<close>

lemma exponent_parts:
  "drop_bit 23 (ucast x :: u64) AND 0xff = (drop_bit 23 (ucast x) AND 0x7f) + (if bit x 30 then 0x80 else 0)"
proof -
  have "drop_bit 23 (ucast x :: u64) AND 0xff = (drop_bit 23 (ucast x) AND 0x7f) OR push_bit 7 (of_bool (bit x 30))"
  proof (rule bit_eqI)
    fix n :: nat
    consider "n < 7" | "n = 7" | "7 < n" by linarith
    then show "bit (drop_bit 23 (ucast x :: u64) AND 0xff) n =
        bit ((drop_bit 23 (ucast x) AND 0x7f) OR push_bit 7 (of_bool (bit x 30) :: u64)) n"
      by cases (auto simp: fp_masks bit_simps)
  qed
  also have "\<dots> = (drop_bit 23 (ucast x) AND 0x7f) + push_bit 7 (of_bool (bit x 30))"
    by (rule disjunctive_add [symmetric]) (auto simp: fp_masks bit_simps)
  finally show ?thesis by simp
qed

lemma bit_1024: "bit (1024 :: int) k \<longleftrightarrow> k = 10"
  using bit_exp_iff [of 10 k, where 'a = int] by auto

lemma exponent_widen:
  "exponent64 (widen x (spread (of_bool (\<not> bit x 30)))) = (drop_bit 23 (ucast x) AND 0xff) + 896"
proof -
  have "exponent64 (widen x (spread (of_bool (\<not> bit x 30)))) =
        (drop_bit 23 (ucast x) AND 0x7f) OR (if bit x 30 then 1024 else push_bit 7 (mask 3))"
  proof (rule bit_eqI)
    fix n :: nat
    consider "n < 7" | "7 \<le> n" "n < 10" | "n = 10" | "10 < n" by linarith
    then show "bit (exponent64 (widen x (spread (of_bool (\<not> bit x 30))))) n =
        bit ((drop_bit 23 (ucast x) AND 0x7f) OR (if bit x 30 then 1024 else push_bit 7 (mask 3)) :: u64) n"
      by cases (auto simp: exponent64_def fp_masks bit_simps bit_widen bit_spread bit_1024)
  qed
  also have "\<dots> = (drop_bit 23 (ucast x) AND 0x7f) + (if bit x 30 then 1024 else push_bit 7 (mask 3))"
    by (rule disjunctive_add [symmetric]) (auto simp: fp_masks bit_simps bit_1024)
  finally show ?thesis by (simp add: exponent_parts mask_eq_exp_minus_1)
qed

section \<open>Subnormal numbers\<close>

lemma unat_double:
  fixes f :: u64
  assumes "unat f < 2 ^ 23"
  shows "unat (push_bit 1 f) = 2 * unat f"
  using assms by (simp add: push_bit_eq_mult unat_mult_lem [THEN iffD1])

lemma bit_23_iff:
  fixes f :: u64
  assumes "unat f < 2 ^ 24"
  shows "f AND 0x00800000 = 0 \<longleftrightarrow> unat f < 2 ^ 23"
proof -
  have "f AND 0x00800000 = 0 \<longleftrightarrow> \<not> bit f 23"
    using and_exp_eq_0_iff_not_bit [of f 23] by simp
  also have "bit f 23 = bit (unat f) 23" by (simp add: bit_unsigned_iff)
  also have "(\<not> bit (unat f) 23) \<longleftrightarrow> even (unat f div 2 ^ 23)" by (simp only: bit_iff_odd not_not)
  also have "\<dots> \<longleftrightarrow> unat f < 2 ^ 23"
  proof -
    have "unat f div 2 ^ 23 < 2" using assms by (simp add: less_mult_imp_div_less)
    then show ?thesis by (auto simp: less_2_cases_iff div_eq_0_iff)
  qed
  finally show ?thesis .
qed

lemma normalise_spec:
  assumes "unat f < 2 ^ 23" "2 ^ 23 \<le> unat f * 2 ^ n"
  shows "\<exists>k. 0 < k \<and> k \<le> n \<and> normalise n e f = (e - word_of_nat k, push_bit k f)
    \<and> 2 ^ 23 \<le> unat f * 2 ^ k \<and> unat f * 2 ^ k < 2 ^ 24"
  using assms
proof (induction n arbitrary: e f)
  case 0 then show ?case by simp
next
  case (Suc n)
  let ?f = "push_bit 1 f"
  have double: "unat ?f = 2 * unat f" using Suc.prems(1) by (rule unat_double)
  show ?case
  proof (cases "unat ?f < 2 ^ 23")
    case True
    from Suc.IH [OF True, of "e - 1"] Suc.prems(2) double
    obtain k where k: "0 < k" "k \<le> n" "normalise n (e - 1) ?f = (e - 1 - word_of_nat k, push_bit k ?f)"
      "2 ^ 23 \<le> unat ?f * 2 ^ k" "unat ?f * 2 ^ k < 2 ^ 24" by auto
    from True bit_23_iff [of ?f] have "?f AND 0x00800000 = 0" by simp
    with k double show ?thesis by (intro exI [of _ "Suc k"]) (simp add: push_bit_push_bit diff_diff_eq add.commute)
  next
    case False
    moreover have "unat ?f < 2 ^ 24" using Suc.prems(1) double by simp
    ultimately show ?thesis using bit_23_iff [of ?f] double by (intro exI [of _ 1]) simp
  qed
qed

lemma bit_below:
  fixes f :: u64
  assumes "unat f < 2 ^ n" "bit f j"
  shows "j < n"
proof -
  have "take_bit n (unat f) = unat f" using assms(1) by (rule take_bit_nat_eq_self)
  moreover have "bit (unat f) j" using assms(2) by (simp add: bit_unsigned_iff)
  ultimately show ?thesis by (metis bit_take_bit_iff)
qed

text \<open>The double of a subnormal single: sign, exponent and the fraction without its leading bit.\<close>

definition put_together :: "u32 \<Rightarrow> u64 \<Rightarrow> u64 \<Rightarrow> u64" where
  "put_together x e g = push_bit 32 (ucast x AND 0x80000000) OR push_bit 52 e OR push_bit 29 (g AND 0x007fffff)"

lemma bit_put_together: "bit (put_together x e g) k \<longleftrightarrow>
    k < 64 \<and> (k = 63 \<and> bit x 31 \<or> 52 \<le> k \<and> bit e (k - 52) \<or> 29 \<le> k \<and> k < 52 \<and> bit g (k - 29))"
proof -
  have m: "bit (0x80000000 :: u64) n \<longleftrightarrow> n = 31" for n using bit_exp_iff [of 31 n, where 'a = u64] by auto
  have "bit (push_bit 32 (ucast x AND 0x80000000 :: u64)) k \<longleftrightarrow> k = 63 \<and> bit x 31"
    unfolding bit_push_bit_iff bit_and_iff m by (auto simp: bit_ucast_iff)
  moreover have "bit (push_bit 52 e) k \<longleftrightarrow> k < 64 \<and> 52 \<le> k \<and> bit e (k - 52)" by (auto simp: bit_push_bit_iff)
  moreover have "bit (push_bit 29 (g AND 0x007fffff)) k \<longleftrightarrow> k < 64 \<and> 29 \<le> k \<and> k < 52 \<and> bit g (k - 29)"
    by (auto simp: fp_masks(4) bit_push_bit_iff bit_and_iff bit_mask_iff)
  ultimately show ?thesis unfolding put_together_def bit_or_iff by (simp only:) auto
qed

lemma put_together_fields:
  assumes "unat e < 2 ^ 11"
  shows "exponent64 (put_together x e g) = e" "fraction64 (put_together x e g) = push_bit 29 (g AND 0x007fffff)"
proof -
  show "exponent64 (put_together x e g) = e"
  proof (rule bit_word_eqI)
    fix n assume "n < LENGTH(64)"
    then show "bit (exponent64 (put_together x e g)) n = bit e n"
      using bit_below [OF assms, of n] by (auto simp: exponent64_def bit_put_together fp_masks bit_simps)
  qed
  show "fraction64 (put_together x e g) = push_bit 29 (g AND 0x007fffff)"
    by (rule bit_word_eqI) (auto simp: fraction64_def bit_put_together fp_masks bit_simps)
qed

lemma restore_fraction:
  fixes f :: u64
  assumes "unat f < 2 ^ 23" "2 ^ 23 \<le> unat f * 2 ^ k" "unat f * 2 ^ k < 2 ^ 24" "k \<le> 23"
  shows "drop_bit (8 + k) (ucast (0x80000000 OR drop_bit 21 (push_bit 29 (push_bit k f AND 0x007fffff))) :: u32) = ucast f"
proof -
  have g: "unat (push_bit k f) = unat f * 2 ^ k"
  proof -
    have "unat f * 2 ^ k < 2 ^ 64" using assms(3) by simp
    then show ?thesis unfolding unsigned_push_bit_eq by (simp add: push_bit_eq_mult take_bit_nat_eq_self)
  qed
  have top: "bit (push_bit k f) 23"
    using bit_23_iff [of "push_bit k f"] assms(2,3) g and_exp_eq_0_iff_not_bit [of "push_bit k f" 23] by simp
  have below: "bit (push_bit k f) j \<Longrightarrow> j < 24" for j
    using bit_below [of "push_bit k f" 24 j] assms(3) unfolding g by simp
  have joined: "0x80000000 OR drop_bit 21 (push_bit 29 (push_bit k f AND 0x007fffff)) = push_bit 8 (push_bit k f)"
  proof (rule bit_word_eqI)
    fix n assume n: "n < LENGTH(64)"
    have "bit (0x80000000 :: u64) n \<longleftrightarrow> n = 31" using bit_exp_iff [of 31 n, where 'a = u64] by auto
    moreover have "bit (drop_bit 21 (push_bit 29 (push_bit k f AND 0x007fffff))) n \<longleftrightarrow>
        8 \<le> n \<and> n < 31 \<and> bit (push_bit k f) (n - 8)"
      using n by (auto simp: fp_masks bit_drop_bit_eq bit_push_bit_iff bit_and_iff bit_mask_iff)
    moreover have "bit (push_bit 8 (push_bit k f)) n \<longleftrightarrow> 8 \<le> n \<and> bit (push_bit k f) (n - 8)"
      using n by (subst bit_push_bit_iff) simp
    moreover have "bit (push_bit k f) (n - 8) \<Longrightarrow> 8 \<le> n \<Longrightarrow> n < 31 \<or> n = 31" using below [of "n - 8"] by linarith
    ultimately show "bit (0x80000000 OR drop_bit 21 (push_bit 29 (push_bit k f AND 0x007fffff))) n = bit (push_bit 8 (push_bit k f)) n"
      using top by (auto simp: bit_or_iff)
  qed
  show ?thesis
  proof (rule bit_word_eqI)
    fix n assume "n < LENGTH(32)"
    moreover have "bit f n \<Longrightarrow> n + k < 24" using below [of "n + k"] bit_below [OF assms(1), of n] assms(4) by (auto simp: bit_push_bit_iff)
    ultimately show "bit (drop_bit (8 + k) (ucast (0x80000000 OR drop_bit 21 (push_bit 29 (push_bit k f AND 0x007fffff))) :: u32)) n = bit (ucast f :: u32) n"
      using assms(4) unfolding joined by (auto simp: bit_simps)
  qed
qed

section \<open>The conversions\<close>

lemma ConvertToDouble_cases:
  fixes x :: u32
  defines "e \<equiv> drop_bit 23 (ucast x :: u64) AND 0xff" and "f \<equiv> ucast x AND 0x007fffff :: u64"
  shows "0 < e \<Longrightarrow> e < 255 \<Longrightarrow> ConvertToDouble x = widen x (spread (of_bool (\<not> bit x 30)))"
    "e = 255 \<Longrightarrow> ConvertToDouble x = widen x (spread 1)"
    "e = 0 \<Longrightarrow> f = 0 \<Longrightarrow> ConvertToDouble x = widen x (spread 0)"
    "e = 0 \<Longrightarrow> f \<noteq> 0 \<Longrightarrow> ConvertToDouble x = put_together x (fst (normalise 23 897 f)) (snd (normalise 23 897 f))"
proof -
  have seven: "drop_bit 7 e = of_bool (bit x 30)"
  proof (rule bit_word_eqI)
    fix n assume "n < LENGTH(64)"
    then show "bit (drop_bit 7 e) n = bit (of_bool (bit x 30) :: u64) n"
      by (cases "n = 0") (auto simp: e_def fp_masks(2) bit_drop_bit_eq bit_and_iff bit_mask_iff bit_ucast_iff bit_1_iff)
  qed
  note d = ConvertToDouble_def Let_def widen_def spread_def e_def [symmetric] f_def [symmetric] seven
  show "0 < e \<Longrightarrow> e < 255 \<Longrightarrow> ConvertToDouble x = widen x (spread (of_bool (\<not> bit x 30)))"
    by (simp add: d)
  show "e = 255 \<Longrightarrow> ConvertToDouble x = widen x (spread 1)" using seven by (auto simp: d)
  show "e = 0 \<Longrightarrow> f = 0 \<Longrightarrow> ConvertToDouble x = widen x (spread 0)" using seven by (auto simp: d)
  show "e = 0 \<Longrightarrow> f \<noteq> 0 \<Longrightarrow> ConvertToDouble x = put_together x (fst (normalise 23 897 f)) (snd (normalise 23 897 f))"
    by (simp add: d put_together_def case_prod_beta)
qed

lemma bit_not_sign: "bit (NOT 0x8000000000000000 :: u64) n \<longleftrightarrow> n < 64 \<and> n \<noteq> 63"
  using bit_exp_iff [of 63 n, where 'a = u64] unfolding bit_not_iff by auto

lemma nonzero_bit: "w \<noteq> 0 \<Longrightarrow> \<exists>n. bit w n" for w :: "'a::len word"
  by (rule ccontr) (auto intro: bit_word_eqI)

lemma exponent_zero_bits:
  fixes x :: u32
  assumes "drop_bit 23 (ucast x :: u64) AND 0xff = 0" "23 \<le> k" "k < 31"
  shows "\<not> bit x k"
proof -
  have "\<not> bit (drop_bit 23 (ucast x :: u64) AND 0xff) (k - 23)" by (simp only: assms(1)) simp
  with assms(2,3) show ?thesis by (auto simp: fp_masks bit_simps)
qed

lemma fraction_zero_bits:
  fixes x :: u32
  assumes "(ucast x :: u64) AND 0x007fffff = 0" "k < 23"
  shows "\<not> bit x k"
proof -
  have "\<not> bit ((ucast x :: u64) AND 0x007fffff) k" by (simp only: assms(1)) simp
  with assms(2) show ?thesis by (auto simp: fp_masks bit_simps)
qed

lemma exponent_ucast: "(ucast (drop_bit 52 y AND 0x7ff) :: u32) = ucast (exponent64 y)" "unat (exponent64 y) < 2048"
proof -
  show "(ucast (drop_bit 52 y AND 0x7ff) :: u32) = ucast (exponent64 y)" by (simp add: exponent64_def)
  have "exponent64 y \<le> 0x7ff" unfolding exponent64_def by (rule word_and_le1)
  then show "unat (exponent64 y) < 2048" by (simp add: word_le_nat_alt)
qed

lemma unat_exponent: "unat (ucast (exponent64 y) :: u32) = unat (exponent64 y)"
  using exponent_ucast(2) [of y] by (simp add: unsigned_ucast_eq take_bit_nat_eq_self)

lemma nonzero_magnitude:
  assumes "0 < unat (exponent64 y)"
  shows "y AND NOT 0x8000000000000000 \<noteq> 0"
proof -
  have "exponent64 y \<noteq> 0" using assms by auto
  then obtain n where "bit (exponent64 y) n" using nonzero_bit by blast
  then have "n < 11" "bit y (52 + n)" by (auto simp: exponent64_def fp_masks(1) bit_and_iff bit_drop_bit_eq bit_mask_iff)
  moreover have "bit (NOT 0x8000000000000000 :: u64) (52 + n)"
    using \<open>n < 11\<close> unfolding bit_not_sign by simp
  ultimately have *: "bit (y AND NOT 0x8000000000000000) (52 + n)" unfolding bit_and_iff by simp
  show ?thesis
  proof
    assume "y AND NOT 0x8000000000000000 = 0"
    with * show False by (simp only: bit_0_eq) simp
  qed
qed

lemma ConvertToSingle_cases:
  "896 < unat (exponent64 y) \<or> y AND NOT 0x8000000000000000 = 0 \<Longrightarrow> ConvertToSingle y = narrow y"
  "874 \<le> unat (exponent64 y) \<Longrightarrow> unat (exponent64 y) \<le> 896 \<Longrightarrow> ConvertToSingle y =
    drop_bit (905 - unat (exponent64 y)) (ucast (0x80000000 OR drop_bit 21 (fraction64 y))) OR ucast (drop_bit 32 y AND 0x80000000)"
proof -
  let ?e = "ucast (exponent64 y) :: u32"
  have less: "896 < ?e \<longleftrightarrow> 896 < unat (exponent64 y)" "874 \<le> ?e \<longleftrightarrow> 874 \<le> unat (exponent64 y)"
    by (simp_all add: word_less_nat_alt word_le_nat_alt unat_exponent)
  show "896 < unat (exponent64 y) \<or> y AND NOT 0x8000000000000000 = 0 \<Longrightarrow> ConvertToSingle y = narrow y"
    unfolding ConvertToSingle_def Let_def exponent_ucast(1) less narrow_def by simp
  assume *: "874 \<le> unat (exponent64 y)" "unat (exponent64 y) \<le> 896"
  then have "y AND NOT 0x8000000000000000 \<noteq> 0" by (intro nonzero_magnitude) simp
  moreover have "unat (905 - ?e) = 905 - unat (exponent64 y)"
    using * by (subst unat_sub) (simp_all add: word_le_nat_alt unat_exponent)
  moreover have "(896 < ?e) = False" "(874 \<le> ?e) = True" using * less by simp_all
  ultimately show "ConvertToSingle y =
    drop_bit (905 - unat (exponent64 y)) (ucast (0x80000000 OR drop_bit 21 (fraction64 y))) OR ucast (drop_bit 32 y AND 0x80000000)"
    by (simp only: ConvertToSingle_def Let_def exponent_ucast(1) fraction64_def if_False if_True simp_thms)
qed

lemma zero_double: "widen x 0 AND NOT 0x8000000000000000 = 0"
  if "drop_bit 23 (ucast x :: u64) AND 0xff = 0" "(ucast x :: u64) AND 0x007fffff = 0"
proof (rule bit_word_eqI)
  fix n
  have low: "k < 31 \<Longrightarrow> \<not> bit x k" for k
    using exponent_zero_bits [OF that(1), of k] fraction_zero_bits [OF that(2), of k] by linarith
  show "bit (widen x 0 AND NOT 0x8000000000000000) n = bit (0 :: u64) n"
    unfolding bit_and_iff bit_not_sign bit_widen using low [of 30] low [of "n - 29"] by (cases "n = 62"; cases "n = 63") auto
qed

lemma exponent_all_ones:
  assumes "drop_bit 23 (ucast x :: u64) AND 0xff = 255"
  shows "exponent64 (widen x (spread (of_bool True))) = mask 11"
proof (rule bit_word_eqI)
  fix n assume n: "n < LENGTH(64)"
  have "bit (drop_bit 23 (ucast x :: u64) AND 0xff) n \<longleftrightarrow> n < 8" for n
    unfolding assms using bit_mask_iff [of 8 n, where 'a = u64] by (auto simp: mask_eq_exp_minus_1)
  then have x: "n < 8 \<Longrightarrow> bit x (23 + n)" for n
    by (auto simp: fp_masks bit_simps)
  consider "n < 7" | "7 \<le> n" "n < 10" | "n = 10" | "10 < n" by linarith
  then show "bit (exponent64 (widen x (spread (of_bool True)))) n = bit (mask 11 :: u64) n"
    using x [of n] x [of 7]
    by cases (auto simp: exponent64_def bit_drop_bit_eq bit_and_iff fp_masks(1) bit_mask_iff bit_widen bit_spread simp del: of_bool_eq)
qed

lemma subnormal_double:
  fixes x :: u32
  defines "f \<equiv> ucast x AND 0x007fffff :: u64"
  assumes "drop_bit 23 (ucast x :: u64) AND 0xff = 0" "f \<noteq> 0"
  shows "\<exists>k. 0 < k \<and> k \<le> 23 \<and> 2 ^ 23 \<le> unat f * 2 ^ k \<and> unat f * 2 ^ k < 2 ^ 24 \<and> unat f < 2 ^ 23
    \<and> ConvertToDouble x = put_together x (897 - word_of_nat k) (push_bit k f)"
proof -
  have "f \<le> 0x007fffff" unfolding f_def by (rule word_and_le1)
  then have f: "unat f < 2 ^ 23" by (simp add: word_le_nat_alt)
  have "unat f \<noteq> 0" using assms(3) by (simp add: unat_eq_0)
  then have "2 ^ 23 \<le> unat f * 2 ^ 23" by simp
  from normalise_spec [OF f this, of 897] f show ?thesis
    using ConvertToDouble_cases(4) [of x] assms by auto
qed

lemma sign_and_fraction:
  fixes x :: u32
  assumes "drop_bit 23 (ucast x :: u64) AND 0xff = 0" "unat e < 2 ^ 11"
  shows "ucast (ucast x AND 0x007fffff :: u64) OR ucast (drop_bit 32 (put_together x e g) AND 0x80000000) = x"
proof (rule bit_word_eqI)
  fix n assume n: "n < LENGTH(32)"
  have "bit (0x80000000 :: u64) n \<longleftrightarrow> n = 31" using bit_exp_iff [of 31 n, where 'a = u64] by auto
  moreover have "\<not> bit e 11" using bit_below [OF assms(2), of 11] by auto
  ultimately have "bit (ucast (drop_bit 32 (put_together x e g) AND 0x80000000) :: u32) n \<longleftrightarrow> n = 31 \<and> bit x 31"
    using n by (auto simp: bit_ucast_iff bit_and_iff bit_drop_bit_eq bit_put_together)
  moreover have "bit (ucast (ucast x AND 0x007fffff :: u64) :: u32) n \<longleftrightarrow> n < 23 \<and> bit x n"
    using n by (auto simp: fp_masks(4) bit_ucast_iff bit_and_iff bit_mask_iff)
  moreover have "n < 23 \<or> n = 31 \<or> \<not> bit x n" using exponent_zero_bits [OF assms(1), of n] n by (simp; linarith)
  ultimately show "bit (ucast (ucast x AND 0x007fffff :: u64) OR ucast (drop_bit 32 (put_together x e g) AND 0x80000000) :: u32) n = bit x n"
    unfolding bit_or_iff by blast
qed

text \<open>The value of the double.\<close>

lemma single_fields:
  "unat (drop_bit 23 (ucast x :: u64) AND 0xff) = unat (exponent32 x)"
  "unat ((ucast x :: u64) AND 0x007fffff) = unat (fraction32 x)"
  for x :: u32
  using unat_masked_drop [of 23 "ucast x :: u64" 8] unat_masked_drop [of 23 x 8]
    unat_masked_drop [of 0 "ucast x :: u64" 23] unat_masked_drop [of 0 x 23] unsigned_less [of x, where 'a = nat]
  by (simp_all add: exponent32_def fraction32_def mask_eq_exp_minus_1 unsigned_ucast_eq take_bit_nat_eq_self)

lemma fraction32_less: "unat (fraction32 x) < 2 ^ 23"
proof -
  have "fraction32 x \<le> 0x007fffff" unfolding fraction32_def by (rule word_and_le1)
  then show ?thesis by (simp add: word_le_nat_alt)
qed

lemma unat_push_bit:
  fixes f :: u64
  assumes "unat f * 2 ^ k < 2 ^ 64"
  shows "unat (push_bit k f) = unat f * 2 ^ k"
  using assms unfolding unsigned_push_bit_eq by (simp add: push_bit_eq_mult take_bit_nat_eq_self)

lemma fraction_widen:
  assumes "spread_only m"
  shows "unat (fraction64 (widen x m)) = unat (fraction32 x) * 2 ^ 29"
proof -
  have "fraction64 (widen x m) = push_bit 29 (ucast x AND 0x007fffff)"
  proof (rule bit_word_eqI)
    fix n assume "n < LENGTH(64)"
    moreover have "bit m n \<Longrightarrow> 59 \<le> n" using assms by (simp add: spread_only_def)
    ultimately show "bit (fraction64 (widen x m)) n = bit (push_bit 29 (ucast x AND 0x007fffff) :: u64) n"
      unfolding bit_push_bit_iff fraction64_def bit_and_iff fp_masks(4,5) bit_mask_iff bit_widen
      by (auto simp: bit_ucast_iff)
  qed
  also have "unat \<dots> = unat ((ucast x :: u64) AND 0x007fffff) * 2 ^ 29"
    using fraction32_less [of x] by (intro unat_push_bit) (simp add: single_fields)
  finally show ?thesis by (simp add: single_fields)
qed

lemma sign_widen: "spread_only m \<Longrightarrow> bit (widen x m) 63 = bit x 31"
  by (auto simp: bit_widen spread_only_def)

lemma exponent_all_zero:
  "drop_bit 23 (ucast x :: u64) AND 0xff = 0 \<Longrightarrow> exponent64 (widen x 0) = 0"
proof (rule bit_word_eqI)
  fix n assume *: "drop_bit 23 (ucast x :: u64) AND 0xff = 0"
  have z: "\<not> bit x k" if "23 \<le> k" "k < 31" for k using exponent_zero_bits [OF * that] .
  show "bit (exponent64 (widen x 0)) n = bit (0 :: u64) n"
    unfolding exponent64_def bit_and_iff fp_masks(1) bit_mask_iff bit_drop_bit_eq comp_def bit_widen
    using z [of "20 + n"] z [of "23 + n"] by auto
qed

lemma infinite_or_nan: "x = 2 ^ w - 1 \<Longrightarrow> fields_value p w s x f = (if f = 0 then Infinite s else NotANumber)"
  by (simp add: fields_value_def)

text \<open>What the conversion makes of the four kinds of singles.\<close>

lemma double_shape:
  fixes x :: u32
  defines "y \<equiv> ConvertToDouble x"
  obtains (normal) b where "0 < unat (exponent32 x)" "unat (exponent32 x) < 255" "y = widen x (spread (of_bool b))"
      "unat (exponent64 y) = unat (exponent32 x) + 896"
    | (special) b where "unat (exponent32 x) = 2 ^ 8 - 1" "y = widen x (spread (of_bool b))" "unat (exponent64 y) = 2 ^ 11 - 1"
    | (zero) b where "unat (exponent32 x) = 0" "unat (fraction32 x) = 0" "y = widen x (spread (of_bool b))"
      "unat (exponent64 y) = 0" "y AND NOT 0x8000000000000000 = 0"
    | (subnormal) k f where "unat (exponent32 x) = 0" "unat (fraction32 x) = unat f" "f = ucast x AND 0x007fffff" "f \<noteq> 0"
      "0 < k" "k \<le> 23" "unat f < 2 ^ 23" "2 ^ 23 \<le> unat f * 2 ^ k" "unat f * 2 ^ k < 2 ^ 24"
      "y = put_together x (897 - word_of_nat k) (push_bit k f)" "unat (897 - word_of_nat k :: u64) = 897 - k"
      "unat (exponent64 y) = 897 - k" "fraction64 y = push_bit 29 (push_bit k f AND 0x007fffff)"
proof -
  define e where "e = drop_bit 23 (ucast x :: u64) AND 0xff"
  define f where "f = (ucast x AND 0x007fffff :: u64)"
  have fields: "unat e = unat (exponent32 x)" "unat f = unat (fraction32 x)" by (simp_all add: e_def f_def single_fields)
  have e: "e \<le> 0xff" unfolding e_def by (rule word_and_le1)
  then consider "0 < e" "e < 255" | "e = 255" | "e = 0" "f = 0" | "e = 0" "f \<noteq> 0"
    by (metis word_gt_0 order_le_less)
  then show thesis
  proof cases
    case 1
    then have w: "y = widen x (spread (of_bool (\<not> bit x 30)))"
      using ConvertToDouble_cases(1) [of x] by (simp add: e_def y_def)
    have "unat (e + 896) = unat e + 896" using e by (intro unat_add_lem [THEN iffD1, THEN trans]) (simp_all add: word_le_nat_alt)
    then have "unat (exponent64 y) = unat (exponent32 x) + 896"
      using exponent_widen [of x] fields by (simp add: w e_def [symmetric])
    moreover have "0 < unat (exponent32 x)" "unat (exponent32 x) < 255"
      using 1 unfolding fields(1) [symmetric] by (simp_all add: word_less_nat_alt word_gt_0 unat_gt_0)
    ultimately show thesis using normal w by blast
  next
    case 2
    then have w: "y = widen x (spread (of_bool True))"
      using ConvertToDouble_cases(2) [of x] by (simp add: e_def y_def)
    have "unat (exponent32 x) = 2 ^ 8 - 1" using 2 fields by simp
    moreover have "unat (exponent64 y) = 2 ^ 11 - 1"
      unfolding w using 2 exponent_all_ones [of x] by (simp add: e_def mask_eq_exp_minus_1)
    ultimately show thesis using special w by blast
  next
    case 3
    then have w: "y = widen x (spread (of_bool False))"
      using ConvertToDouble_cases(3) [of x] by (simp add: e_def f_def y_def)
    have "unat (exponent64 y) = 0" using exponent_all_zero [of x] 3 by (simp add: w spread_def e_def)
    moreover have "y AND NOT 0x8000000000000000 = 0" using zero_double [of x] 3 by (simp add: w e_def f_def spread_def)
    moreover have "unat (exponent32 x) = 0" "unat (fraction32 x) = 0" using 3 fields by simp_all
    ultimately show thesis using zero w by blast
  next
    case 4
    then obtain k where k: "0 < k" "k \<le> 23" "unat f < 2 ^ 23" "2 ^ 23 \<le> unat f * 2 ^ k" "unat f * 2 ^ k < 2 ^ 24"
        and w: "y = put_together x (897 - word_of_nat k) (push_bit k f)"
      using subnormal_double [of x] by (auto simp: e_def f_def y_def)
    have u: "unat (897 - word_of_nat k :: u64) = 897 - k"
      using k(2) by (subst unat_sub) (simp_all add: word_le_nat_alt unsigned_of_nat take_bit_nat_eq_self)
    then have "unat (exponent64 y) = 897 - k" "fraction64 y = push_bit 29 (push_bit k f AND 0x007fffff)"
      using put_together_fields [of "897 - word_of_nat k" x "push_bit k f"] k(2) by (simp_all add: w)
    moreover have "unat (exponent32 x) = 0" "unat (fraction32 x) = unat f" using 4 fields by simp_all
    ultimately show thesis using subnormal [OF _ _ f_def] 4(2) k w u by blast
  qed
qed

lemma ConvertToDouble_sign: "bit (ConvertToDouble x) 63 = bit x 31"
proof (cases rule: double_shape [of x])
  case (subnormal k f)
  have "unat (897 - word_of_nat k :: u64) < 2 ^ 11" unfolding subnormal(11) by simp
  then show ?thesis using bit_below [of "897 - word_of_nat k :: u64" 11 11] unfolding subnormal(10) bit_put_together by auto
qed (simp_all only: sign_widen spread_only_of_bool)

lemma ConvertToDouble_value: "same_value (unpack64 (ConvertToDouble x)) (unpack32 x)"
proof (cases rule: double_shape [of x])
  case (normal b)
  have "unpack64 (ConvertToDouble x) =
        Finite (bit x 31) ((2 ^ 23 + unat (fraction32 x)) * 2 ^ 29) (int (unat (exponent32 x)) - 150 - int 29)"
    using normal unfolding unpack64_fields ConvertToDouble_sign normal(4)
    by (simp add: normal(3) fraction_widen spread_only_of_bool fields_value_def least_exponent_def exponent_bias_def)
  moreover have "unpack32 x = Finite (bit x 31) (2 ^ 23 + unat (fraction32 x)) (int (unat (exponent32 x)) - 150)"
    using normal(1,2) by (simp add: unpack32_fields fields_value_def least_exponent_def exponent_bias_def)
  ultimately show ?thesis by (simp only: same_value_shift)
next
  case (special b)
  then show ?thesis
    unfolding unpack64_fields unpack32_fields ConvertToDouble_sign
    by (simp only: infinite_or_nan fraction_widen spread_only_of_bool) simp
next
  case (zero b)
  then show ?thesis
    unfolding unpack64_fields unpack32_fields ConvertToDouble_sign zero(4)
    by (simp add: fraction_widen spread_only_of_bool fields_value_def fnum_Finite)
next
  case (subnormal k f)
  have "unat (push_bit k f AND 0x007fffff) = unat f * 2 ^ k - 2 ^ 23"
    using unat_masked_drop [of 0 "push_bit k f" 23] unat_push_bit [of f k] subnormal(8,9)
    by (simp add: mask_eq_exp_minus_1 mod_if [of _ 8388608])
  then have "unat (fraction64 (ConvertToDouble x)) = (unat f * 2 ^ k - 2 ^ 23) * 2 ^ 29"
    unfolding subnormal(13) using subnormal(9) by (subst unat_push_bit) simp_all
  then have "unpack64 (ConvertToDouble x) = Finite (bit x 31) (unat f * 2 ^ (k + 29)) (- 149 - int (k + 29))"
    using subnormal(5,6,8) unfolding unpack64_fields ConvertToDouble_sign subnormal(12)
    by (simp add: fields_value_def least_exponent_def exponent_bias_def power_add diff_mult_distrib)
  moreover have "unpack32 x = Finite (bit x 31) (unat f) (- 149)"
    using subnormal(1,2) by (simp add: unpack32_fields fields_value_def least_exponent_def exponent_bias_def)
  ultimately show ?thesis by (simp only: same_value_shift)
qed

lemma exponent_field: "drop_bit 23 (ucast x :: u64) AND 0xff = 0 \<longleftrightarrow> unat (exponent32 x) = 0" for x :: u32
  using single_fields(1) [of x] by (simp add: word_unat_eq_iff)

lemma ConvertToSingle_ConvertToDouble: "ConvertToSingle (ConvertToDouble x) = x"
proof (cases rule: double_shape [of x])
  case (subnormal k f)
  then have "ConvertToSingle (ConvertToDouble x) =
      drop_bit (8 + k) (ucast (0x80000000 OR drop_bit 21 (push_bit 29 (push_bit k f AND 0x007fffff)))) OR
      ucast (drop_bit 32 (ConvertToDouble x) AND 0x80000000)"
    by (subst ConvertToSingle_cases(2)) simp_all
  also have "\<dots> = ucast f OR ucast (drop_bit 32 (ConvertToDouble x) AND 0x80000000)"
    by (simp only: restore_fraction [OF subnormal(7-9,6)])
  also have "\<dots> = x"
    using subnormal(1,11) unfolding subnormal(3,10) exponent_field [symmetric] by (intro sign_and_fraction) simp_all
  finally show ?thesis .
qed (simp_all add: ConvertToSingle_cases(1) narrow_widen spread_only_of_bool)

text \<open>The conversion that flushes subnormal numbers.\<close>

lemma ConvertToSingleFTZ_cases:
  "896 < unat (exponent64 y) \<or> y AND NOT 0x8000000000000000 = 0 \<Longrightarrow> ConvertToSingleFTZ y = narrow y"
  "unat (exponent64 y) \<le> 896 \<Longrightarrow> y AND NOT 0x8000000000000000 \<noteq> 0 \<Longrightarrow>
    ConvertToSingleFTZ y = ucast (drop_bit 32 y AND 0x80000000)"
proof -
  let ?e = "ucast (exponent64 y) :: u32"
  have less: "896 < ?e \<longleftrightarrow> 896 < unat (exponent64 y)" by (simp add: word_less_nat_alt unat_exponent)
  show "896 < unat (exponent64 y) \<or> y AND NOT 0x8000000000000000 = 0 \<Longrightarrow> ConvertToSingleFTZ y = narrow y"
    unfolding ConvertToSingleFTZ_def Let_def exponent_ucast(1) less narrow_def by simp
  assume "unat (exponent64 y) \<le> 896" "y AND NOT 0x8000000000000000 \<noteq> 0"
  then have "(896 < ?e \<or> y AND NOT 0x8000000000000000 = 0) = False" unfolding less by simp
  then show "ConvertToSingleFTZ y = ucast (drop_bit 32 y AND 0x80000000)"
    by (simp only: ConvertToSingleFTZ_def Let_def exponent_ucast(1) if_False)
qed

text \<open>
  C12: A single loaded into a register becomes the double of the same value, and stored again it is
  the same 32 bits, for every pattern: normal and subnormal numbers, zeros, infinities, and NaNs
  with their payload.
\<close>

theorem single_double_roundtrip:
  "ConvertToSingle (ConvertToDouble x) = x \<and> same_value (unpack64 (ConvertToDouble x)) (unpack32 x)"
  by (simp add: ConvertToSingle_ConvertToDouble ConvertToDouble_value)

end
