(* ===== verification/Ppc_Memory.thy ===== *)
theory Ppc_Memory
  imports Ppc_Access Ppc_Caching
begin

text \<open>
  Memory as a program sees it.  Loads and stores to main memory, through address translation by
  blocks, across pages, cached or not, behave as on a plain memory of big-endian bytes.
\<close>

section \<open>Accesses inside a page\<close>

lemma page_of: "unat (a AND NOT 0xFFF) = 4096 * (unat a div 4096)" for a :: u32
proof -
  have m: "(0xFFF :: u32) = mask 12" by (simp add: mask_eq_exp_minus_1)
  have "a AND NOT 0xFFF = push_bit 12 (drop_bit 12 a)"
    unfolding m by (rule bit_word_eqI) (auto simp: bit_simps)
  moreover have "unat (push_bit 12 (drop_bit 12 a)) = 4096 * (unat a div 4096)"
  proof -
    have "unat (drop_bit 12 a) = unat a div 4096" using unat_drop_bit_eq [of 12 a] by (simp add: drop_bit_eq_div)
    moreover have "4096 * (unat a div 4096) \<le> unat a" by simp
    moreover have "unat a < 2 ^ 32" using unsigned_less [of a, where 'a = nat] by simp
    ultimately show ?thesis unfolding unsigned_push_bit_eq by (simp add: push_bit_eq_mult take_bit_nat_eq_self mult.commute)
  qed
  ultimately show ?thesis by simp
qed

lemma page_room:
  assumes "\<not> crosses_page a n" "0 < n" "n \<le> 8"
  shows "unat a mod 4096 + n \<le> 4096"
proof -
  have a: "unat a < 2 ^ 32" using unsigned_less [of a, where 'a = nat] by simp
  have e: "unat (a + word_of_nat n - 1) = (unat a + (n - 1)) mod 2 ^ 32"
  proof -
    have "a + word_of_nat n - 1 = a + word_of_nat (n - 1)" using assms(2) by (simp add: of_nat_diff)
    then show ?thesis by (simp only:) (simp add: unat_word_ariths unat_of_nat mod_add_right_eq)
  qed
  have "4096 * (unat a div 4096) = 4096 * (unat (a + word_of_nat n - 1) div 4096)"
    using assms(1) unfolding crosses_page_def page_of [symmetric] by simp
  then have d: "unat a div 4096 = (unat a + (n - 1)) mod 2 ^ 32 div 4096" unfolding e by simp
  show ?thesis
  proof (cases "unat a + (n - 1) < 2 ^ 32")
    case True
    then have "unat a div 4096 = (unat a + (n - 1)) div 4096" using d by simp
    then have "unat a + (n - 1) < 4096 * (unat a div 4096) + 4096"
      using mod_less_divisor [of 4096 "unat a + (n - 1)"] mult_div_mod_eq [of 4096 "unat a + (n - 1)"] by linarith
    then show ?thesis using mult_div_mod_eq [of 4096 "unat a"] assms(2) by linarith
  next
    case False
    then have "(unat a + (n - 1)) mod 2 ^ 32 = unat a + (n - 1) - 2 ^ 32" using a assms(3) by (simp add: mod_if)
    then have "unat a div 4096 = 0" using d a assms(3) by simp
    then show ?thesis using False assms(3) by (simp add: div_eq_0_iff)
  qed
qed

lemma unat_near:
  fixes a :: u32
  assumes "unat a mod 4096 + i < 4096"
  shows "unat (a + word_of_nat i) = unat a + i"
proof -
  define q where "q = unat a div 4096"
  have a: "unat a = 4096 * q + unat a mod 4096" by (simp add: q_def)
  have "4096 * q < 4096 * 2 ^ 20" using a unsigned_less [of a, where 'a = nat] by simp
  then have "q < 2 ^ 20" by simp
  then have "unat a + i < 2 ^ 32" using a assms by simp
  then show ?thesis by (simp add: unat_word_ariths unat_of_nat mod_add_right_eq)
qed

section \<open>The memory and its addresses\<close>

text \<open>
  \<open>seen s a\<close> is the byte at a physical address of memory, which may still be in the cache;
  \<open>data_address s ea\<close> the physical address of a data access that needs no page table and may be
  cached.  It is the last address, which is no memory, if there is none.
\<close>

definition seen :: "'d Cpu \<Rightarrow> u32 \<Rightarrow> u8" where
  "seen s = (if m_enable_dcache s then view (dCache s, m_memory s) else Read_U8 (main_memory s))"

definition data_address :: "'d Cpu \<Rightarrow> u32 \<Rightarrow> u32" where
  "data_address s ea =
    (if bit (msr (core s)) MSR_DR
     then case TranslateBatAddress (m_dbat_table s) ea of Some (a, False) \<Rightarrow> a | _ \<Rightarrow> 0xFFFFFFFF
     else ea)"

definition memory_ok :: "'d Cpu \<Rightarrow> bool" where
  "memory_ok s \<longleftrightarrow>
     layout_ok (main_memory s) \<and> unat (h_ram_size (main_memory s)) \<le> 2 ^ 27
     \<and> (h_exram_size (main_memory s) \<noteq> 0 \<longrightarrow> h_wii_mode (main_memory s))
     \<and> (m_enable_dcache s \<longrightarrow> cache_ok (dCache s, m_memory s))
     \<and> (\<forall>i. m_dbat_table s i AND 0x1FFF8 = 0)"

text \<open>Everything about the memories except what main memory holds; the caches keep it.\<close>

definition config :: "MemoryManager \<Rightarrow> MemoryManager" where
  "config mm = mm\<lparr>mem_host := (mem_host mm)\<lparr>h_ram := \<lambda>_. 0, h_exram := \<lambda>_. 0\<rparr>\<rparr>"

lemma config_copy [simp]: "config (mem_CopyToEmu a bytes mm) = config mm"
  by (simp add: config_def mem_CopyToEmu_def CopyToEmu_def set_region_bytes_def split: option.split prod.split region.split)

lemma config_GetCache: "config (snd (snd (GetCache a locked x))) = config (snd x)"
  by (cases x) (simp add: GetCache_def evict_def load_block_def Let_def)

lemma config_Read: "config (snd (snd (cache_Read a buf locked x))) = config (snd x)"
proof (induction a buf locked x rule: cache_Read.induct)
  case (1 a buf locked x)
  obtain row way c mm where g: "GetCache a locked x = ((row, way), c, mm)" by (metis prod.exhaust)
  show ?case
  proof (cases "buf = []")
    case False
    then show ?thesis using 1 [OF False g [symmetric] refl refl refl refl] config_GetCache [of a locked x]
      by (subst cache_Read.simps) (simp add: g Let_def case_prod_beta)
  qed (subst cache_Read.simps, simp)
qed

lemma config_Write: "config (snd (cache_Write a buf locked x)) = config (snd x)"
proof (induction a buf locked x rule: cache_Write.induct)
  case (1 a buf locked x)
  obtain row way c mm where g: "GetCache a locked x = ((row, way), c, mm)" by (metis prod.exhaust)
  show ?case
  proof (cases "buf = []")
    case False
    then show ?thesis using 1 [OF False g [symmetric] refl refl refl refl refl] config_GetCache [of a locked x]
      by (subst cache_Write.simps) (simp add: g Let_def)
  qed (subst cache_Write.simps, simp)
qed

lemma config_keeps:
  assumes "config mm = config mm'"
  shows "physical (mem_host mm) = physical (mem_host mm')" "layout_ok (mem_host mm) = layout_ok (mem_host mm')"
    "h_wii_mode (mem_host mm) = h_wii_mode (mem_host mm')" "h_ram_size (mem_host mm) = h_ram_size (mem_host mm')"
    "h_exram_size (mem_host mm) = h_exram_size (mem_host mm')"
proof -
  have h: "(mem_host mm)\<lparr>h_ram := \<lambda>_. 0, h_exram := \<lambda>_. 0\<rparr> = (mem_host mm')\<lparr>h_ram := \<lambda>_. 0, h_exram := \<lambda>_. 0\<rparr>"
    using arg_cong [OF assms, of mem_host] by (simp add: config_def)
  show s: "h_ram_size (mem_host mm) = h_ram_size (mem_host mm')" "h_exram_size (mem_host mm) = h_exram_size (mem_host mm')"
    "h_wii_mode (mem_host mm) = h_wii_mode (mem_host mm')"
    using arg_cong [OF h, of h_ram_size] arg_cong [OF h, of h_exram_size] arg_cong [OF h, of h_wii_mode] by simp_all
  have m: "h_ram_mask (mem_host mm) = h_ram_mask (mem_host mm')" "h_exram_mask (mem_host mm) = h_exram_mask (mem_host mm')"
    using arg_cong [OF h, of h_ram_mask] arg_cong [OF h, of h_exram_mask] by simp_all
  show "physical (mem_host mm) = physical (mem_host mm')" "layout_ok (mem_host mm) = layout_ok (mem_host mm')"
    using s m by (simp_all add: fun_eq_iff physical_def layout_ok_def)
qed

text \<open>The tables that \<open>DBATUpdated\<close> fills hold whole blocks.\<close>

definition whole_blocks :: "(u32 \<Rightarrow> u32) \<Rightarrow> bool" where
  "whole_blocks t \<longleftrightarrow> (\<forall>i. t i AND 0x1FFF8 = 0)"

lemma fold_keeps: "P x \<Longrightarrow> (\<And>y z. P z \<Longrightarrow> P (f y z)) \<Longrightarrow> P (fold f ys x)"
  by (induction ys arbitrary: x) auto

lemma mask_block: "(0x1FFF8 :: u32) = push_bit 3 (mask 14)"
  by (simp add: mask_eq_exp_minus_1 push_bit_eq_mult)

lemma block_entry:
  fixes v f :: u32
  assumes "\<forall>k<17. \<not> bit v k" "f AND NOT 7 = 0"
  shows "(v OR f) AND 0x1FFF8 = 0"
proof (rule bit_word_eqI)
  fix n assume "n < LENGTH(32)"
  have "bit f n \<Longrightarrow> n < 3"
  proof -
    assume "bit f n"
    moreover have "\<not> bit (f AND NOT 7) n" unfolding assms(2) by simp
    ultimately have "bit (7 :: u32) n" using bit_imp_le_length [of f n] by (auto simp only: bit_and_iff bit_not_iff possible_bit_word)
    moreover have "(7 :: u32) = mask 3" by (simp add: mask_eq_exp_minus_1)
    ultimately show "n < 3" by (simp only: bit_mask_iff)
  qed
  then show "bit ((v OR f) AND 0x1FFF8) n = bit (0 :: u32) n"
    using assms(1) unfolding mask_block by (auto simp: bit_simps)
qed

lemma bat_entry_block: "bat_entry s l j AND 0x1FFF8 = 0"
  unfolding bat_entry_def Let_def by (rule block_entry) (simp_all add: bit_push_bit_iff bit_or_iff)

lemma fake_entry_block: "((0x7E000000 OR (push_bit 17 i AND m)) OR 3) AND 0x1FFF8 = (0 :: u32)"
proof (rule block_entry)
  have "(0x7E000000 :: u32) = push_bit 25 0x3F" by (simp add: push_bit_eq_mult)
  then show "\<forall>k<17. \<not> bit (0x7E000000 OR (push_bit 17 i AND m)) k" by (auto simp only: bit_or_iff bit_and_iff bit_push_bit_iff)
qed simp

lemma tables_hold_blocks: "whole_blocks (bat_table_of s n m)"
proof -
  have bats: "whole_blocks (UpdateBATs s k t)" if "whole_blocks t" for k t
  proof -
    have "whole_blocks (map_block s u l j t)" if "whole_blocks t" for u l j t
      using that by (simp add: whole_blocks_def map_block_def Let_def bat_entry_block)
    then have "whole_blocks (UpdateBAT s k t)" if "whole_blocks t" for k t
      using that unfolding UpdateBAT_def Let_def
      by (auto intro: fold_keeps [where P = whole_blocks] simp del: upt_Suc upt.simps)
    then show ?thesis using that unfolding UpdateBATs_def by (auto intro: fold_keeps [where P = whole_blocks])
  qed
  have fake: "whole_blocks (UpdateFakeMMUBat s a t)" if "whole_blocks t" for a t
    unfolding UpdateFakeMMUBat_def Let_def
    by (rule fold_keeps [where P = whole_blocks]) (use that in \<open>simp_all add: whole_blocks_def fake_entry_block\<close>)
  have zero: "whole_blocks (\<lambda>_. 0)" by (simp add: whole_blocks_def)
  show ?thesis unfolding bat_table_of_def Let_def by (simp add: bats fake zero)
qed

lemma DBATUpdated_ok: "memory_ok s \<Longrightarrow> memory_ok (DBATUpdated s)"
  using tables_hold_blocks [of s] by (simp add: memory_ok_def DBATUpdated_def whole_blocks_def)

section \<open>Accesses to physical memory\<close>

lemma mask_28: "(0x0FFFFFFF :: u32) = mask 28"
  by (simp add: mask_eq_exp_minus_1)

lemma top_bits: "a AND 0xF8000000 = push_bit 27 (drop_bit 27 a)" for a :: u32
proof -
  have "(0xF8000000 :: u32) = NOT (mask 27)" by (simp add: mask_eq_exp_minus_1)
  then show ?thesis by (simp only:) (rule bit_word_eqI, auto simp only: bit_and_iff bit_not_iff bit_mask_iff bit_push_bit_iff
      bit_drop_bit_eq comp_def possible_bit_word not_less le_add_diff_inverse)
qed

lemma top_value: "unat (a AND 0xF8000000) = 2 ^ 27 * (unat a div 2 ^ 27)" for a :: u32
proof -
  have "2 ^ 27 * (unat a div 2 ^ 27) \<le> unat a" by simp
  then have "2 ^ 27 * (unat a div 2 ^ 27) < 2 ^ 32" using unsigned_less [of a, where 'a = nat] by (simp add: order.strict_trans1)
  then show ?thesis
    unfolding top_bits unsigned_push_bit_eq unat_drop_bit_eq
    by (simp add: push_bit_eq_mult drop_bit_eq_div take_bit_nat_eq_self mult.commute)
qed

text \<open>Where an address of memory lies among the ranges the accesses test.\<close>

lemma ranges:
  assumes "memory_ok s" "physical (main_memory s) a"
  shows "a AND 0xF8000000 \<noteq> 0x08000000" "drop_bit 28 a \<noteq> 0xE" "a AND 0xFFFFF000 \<noteq> 0x0C008000"
    "a AND 0xF8000000 = 0 \<longleftrightarrow> unat a < unat (h_ram_size (main_memory s))"
    "unat a < unat (h_ram_size (main_memory s)) \<Longrightarrow> a AND h_ram_mask (main_memory s) = a"
    "\<not> unat a < unat (h_ram_size (main_memory s)) \<Longrightarrow> has_exram s \<and> drop_bit 28 a = 1 \<and> a AND 0x0FFFFFFF = a - 2 ^ 28
       \<and> a - 2 ^ 28 < h_exram_size (main_memory s)"
proof -
  let ?h = "main_memory s"
  have lay: "layout_ok ?h" and small: "unat (h_ram_size ?h) \<le> 2 ^ 27" and ex: "h_exram_size ?h \<noteq> 0 \<longrightarrow> h_wii_mode ?h"
    using assms(1) by (simp_all add: memory_ok_def)
  have cov: "mask_covers (h_ram_mask ?h) (h_ram_size ?h)" "mask_covers (h_exram_mask ?h) (h_exram_size ?h)"
    using lay by (simp_all add: layout_ok_def)
  consider (ram) "unat a < unat (h_ram_size ?h)" | (exram) "\<not> unat a < unat (h_ram_size ?h)" "2 ^ 28 \<le> unat a" "unat a < 2 ^ 28 + unat (h_exram_size ?h)"
    using assms(2) by (auto simp: physical_def)
  then have "unat a < 2 ^ 27 \<and> unat a div 2 ^ 27 = 0 \<or> 2 ^ 28 \<le> unat a \<and> unat a < 2 ^ 29 \<and> 2 \<le> unat a div 2 ^ 27"
  proof cases
    case ram then show ?thesis using small by simp
  next
    case exram then show ?thesis using covers_size [OF cov(2)] by (simp add: less_eq_div_iff_mult_less_eq)
  qed
  then have split: "unat a < 2 ^ 27 \<and> unat (a AND 0xF8000000) = 0
      \<or> 2 ^ 28 \<le> unat a \<and> unat a < 2 ^ 29 \<and> 2 ^ 28 \<le> unat (a AND 0xF8000000)"
    unfolding top_value by auto
  have e: "drop_bit 28 a = 1 \<and> a AND 0x0fffffff = a - 2 ^ 28 \<and> unat (a - 2 ^ 28) = unat a - 2 ^ 28"
    if "2 ^ 28 \<le> unat a" "unat a < 2 ^ 29" using ex_offset [OF that] by simp
  show "a AND 0xF8000000 \<noteq> 0x08000000" using split by (auto simp: word_unat_eq_iff)
  show "drop_bit 28 a \<noteq> 0xE"
  proof
    assume "drop_bit 28 a = 0xE"
    then have "unat a div 2 ^ 28 = 14" using unat_drop_bit_eq [of 28 a] by (simp add: drop_bit_eq_div)
    then have "14 * 2 ^ 28 \<le> unat a" by (metis div_times_less_eq_dividend)
    then show False using split by auto
  qed
  show "a AND 0xFFFFF000 \<noteq> 0x0C008000"
  proof
    assume *: "a AND 0xFFFFF000 = 0x0C008000"
    have "a AND 0xF8000000 = (a AND 0xFFFFF000) AND 0xF8000000" by (simp add: and.assoc)
    also have "\<dots> = 0x08000000" unfolding * by simp
    finally show False using \<open>a AND 0xF8000000 \<noteq> 0x08000000\<close> by simp
  qed
  show "a AND 0xF8000000 = 0 \<longleftrightarrow> unat a < unat (h_ram_size ?h)"
    using split small assms(2) unfolding physical_def by (auto simp: word_unat_eq_iff)
  show "a AND h_ram_mask ?h = a" if "unat a < unat (h_ram_size ?h)" by (rule covers_and [OF cov(1) that])
  assume "\<not> unat a < unat (h_ram_size ?h)"
  then have x: "2 ^ 28 \<le> unat a" "unat a < 2 ^ 28 + unat (h_exram_size ?h)" using assms(2) by (auto simp: physical_def)
  then have "unat a < 2 ^ 29" using covers_size [OF cov(2)] by simp
  note e = e [OF x(1) this]
  have "h_exram_size ?h \<noteq> 0" using x by auto
  then show "has_exram s \<and> drop_bit 28 a = 1 \<and> a AND 0x0FFFFFFF = a - 2 ^ 28 \<and> a - 2 ^ 28 < h_exram_size ?h"
    using e ex x by (auto simp: has_exram_def word_less_nat_alt)
qed

text \<open>Main memory itself, byte by byte.\<close>

lemma Read_U8_physical:
  assumes "layout_ok h" "physical h a"
  shows "Read_U8 h a = (if unat a < unat (h_ram_size h) then h_ram h a else h_exram h (a - 2 ^ 28))"
proof -
  have cov: "mask_covers (h_exram_mask h) (h_exram_size h)" using assms(1) by (simp add: layout_ok_def)
  have room: "\<not> unat (n - x) < 1" if "unat x < unat n" for n x :: u32
    using that by (subst unat_sub) (simp_all add: word_le_nat_alt)
  show ?thesis
  proof (cases "unat a < unat (h_ram_size h)")
    case True
    then show ?thesis using room [OF True]
      by (simp add: Read_U8_def GetPointerForRange_def span_physical [OF assms] region_byte_def)
  next
    case False
    then have x: "2 ^ 28 \<le> unat a" "unat a < 2 ^ 28 + unat (h_exram_size h)" using assms(2) by (auto simp: physical_def)
    then have "unat a < 2 ^ 29" using covers_size [OF cov] by simp
    from ex_offset(3) [OF x(1) this] have "unat (a - 2 ^ 28) < unat (h_exram_size h)" using x by linarith
    from room [OF this] show ?thesis using False
      by (simp add: Read_U8_def GetPointerForRange_def span_physical [OF assms] region_byte_def)
  qed
qed

lemma store_bytes_shift: "store_bytes (a - k) bytes f (p - k) = store_bytes a bytes (\<lambda>x. f (x - k)) p"
proof (induction bytes arbitrary: a f)
  case (Cons b bs)
  have "(\<lambda>x. (f(a - k := b)) (x - k)) = (\<lambda>x. f (x - k))(a := b)" by (auto simp: fun_eq_iff)
  moreover have "a + 1 - k = a - k + 1" by simp
  ultimately show ?case using Cons [of "a + 1" "f(a - k := b)"] by (simp only: store_bytes.simps)
qed simp

section \<open>Numbers as bytes\<close>

text \<open>The most significant byte comes first.\<close>

definition be_value :: "u8 list \<Rightarrow> u64" where
  "be_value bytes = le_word (rev bytes)"

definition be_bytes :: "nat \<Rightarrow> 'a::len word \<Rightarrow> u8 list" where
  "be_bytes n v = rev (le_bytes n v)"

lemma byte_of:
  assumes "(n :: nat) < 8 * k"
  obtains j m where "n = 8 * j + m" "j < k" "m < 8"
proof (rule that [of "n div 8" "n mod 8"])
  show "n div 8 < k" using assms by (simp add: less_mult_imp_div_less mult.commute)
qed simp_all

lemma bit_swap64: "bit (swap64 w) i \<longleftrightarrow> (if i < 32 then bit (swap32 (ucast (drop_bit 32 w))) i else bit (swap32 (ucast w)) (i - 32))"
proof -
  have "bit (swap32 v) i \<Longrightarrow> i < 32" for v using bit_imp_le_length [of "swap32 v" i] by simp
  then show ?thesis by (auto simp: swap64_def bit_simps dest: bit_imp_le_length)
qed

lemma byte_swapped: "j < 4 \<Longrightarrow> byte_at j (swap32 v) = byte_at (3 - j) v"
proof (rule bit_word_eqI)
  fix m assume A: "j < 4" "m < LENGTH(8)"
  then consider "j = 0" | "j = 1" | "j = 2" | "j = 3" by linarith
  then show "bit (byte_at j (swap32 v)) m = bit (byte_at (3 - j) v) m"
    by cases (use A in \<open>simp_all add: byte_at_def bit_simps bit_swap32 add.commute\<close>)
qed

lemma byte_swapped64: "j < 8 \<Longrightarrow> byte_at j (swap64 v) = byte_at (7 - j) v"
proof -
  assume A: "j < 8"
  show ?thesis
  proof (cases "j < 4")
    case True
    have "byte_at j (swap64 v) = byte_at j (swap32 (ucast (drop_bit 32 v)))"
      by (rule bit_word_eqI) (use True in \<open>auto simp: byte_at_def bit_simps bit_swap64\<close>)
    also have "\<dots> = byte_at (3 - j) (ucast (drop_bit 32 v) :: u32)" by (rule byte_swapped [OF True])
    also have "\<dots> = byte_at (7 - j) v"
      by (rule bit_word_eqI) (use True in \<open>auto simp: byte_at_def bit_simps algebra_simps\<close>)
    finally show ?thesis .
  next
    case False
    then obtain i where i: "j = 4 + i" "i < 4" using A by (metis add_less_imp_less_left le_add_diff_inverse nat_add_left_cancel_less not_less numeral_Bit0)
    have "byte_at j (swap64 v) = byte_at i (swap32 (ucast v))"
      by (rule bit_word_eqI) (use i in \<open>auto simp: byte_at_def bit_simps bit_swap64\<close>)
    also have "\<dots> = byte_at (3 - i) (ucast v :: u32)" by (rule byte_swapped [OF i(2)])
    also have "\<dots> = byte_at (7 - j) v"
      by (rule bit_word_eqI) (use i in \<open>auto simp: byte_at_def bit_simps\<close>)
    finally show ?thesis .
  qed
qed

lemma same_bytes:
  assumes "le_bytes n x = le_bytes n y" "8 * n = LENGTH('a)"
  shows "x = (y :: 'a::len word)"
  using arg_cong [OF assms(1), of "\<lambda>bs. le_word bs :: 'a word"] by (simp add: le_word_le_bytes assms(2))

lemma bswap_be: "8 * length bs = LENGTH('a) \<Longrightarrow> (\<And>j. j < length bs \<Longrightarrow> byte_at j (sw (le_word bs)) = byte_at (length bs - 1 - j) (le_word bs :: 'a::len word))
    \<Longrightarrow> sw (le_word bs) = (le_word (rev bs) :: 'a word)"
  by (rule same_bytes [of "length bs"]) (auto intro!: nth_equalityI simp: le_bytes_def byte_at_le_word rev_nth)

lemma le_word_ucast: "8 * length bs \<le> LENGTH('a) \<Longrightarrow> 8 * length bs \<le> LENGTH('b) \<Longrightarrow> ucast (le_word bs :: 'a::len word) = (le_word bs :: 'b::len word)"
  by (rule bit_word_eqI) (auto simp: bit_ucast_iff bit_le_word)

lemma bytes_value_be: "length bs \<in> {1, 2, 4, 8} \<Longrightarrow> bytes_value bs = be_value bs"
proof -
  assume "length bs \<in> {1, 2, 4, 8}"
  then consider "length bs = 1" | "length bs = 2" | "length bs = 4" | "length bs = 8" by auto
  then show ?thesis
  proof cases
    case 1
    then have "rev bs = bs" by (auto simp: length_Suc_conv)
    then show ?thesis using 1 by (simp add: bytes_value_def bswap_def be_value_def le_word_ucast)
  next
    case 2
    have "swap16 (le_word bs) = le_word (rev bs)"
    proof (rule bswap_be)
      fix j assume "j < length bs"
      then have "j = 0 \<or> j = 1" using 2 by linarith
      then show "byte_at j (swap16 (le_word bs)) = byte_at (length bs - 1 - j) (le_word bs :: u16)"
        by (intro bit_word_eqI) (use 2 in \<open>auto simp: byte_at_def bit_simps bit_swap16 add.commute\<close>)
    qed (use 2 in simp)
    then show ?thesis using 2 by (simp add: bytes_value_def bswap_def be_value_def le_word_ucast)
  next
    case 3
    have "swap32 (le_word bs) = le_word (rev bs)" by (rule bswap_be) (use 3 in \<open>auto simp: byte_swapped\<close>)
    then show ?thesis using 3 by (simp add: bytes_value_def bswap_def be_value_def le_word_ucast)
  next
    case 4
    have "swap64 (le_word bs) = le_word (rev bs)" by (rule bswap_be) (use 4 in \<open>auto simp: byte_swapped64\<close>)
    then show ?thesis using 4 by (simp add: bytes_value_def bswap_def be_value_def)
  qed
qed

lemma length_be_bytes [simp]: "length (be_bytes n v) = n"
  by (simp add: be_bytes_def)

lemma nth_be_bytes: "i < n \<Longrightarrow> be_bytes n v ! i = byte_at (n - 1 - i) v"
  by (simp add: be_bytes_def rev_nth le_bytes_def)

lemma byte_rotated:
  fixes v :: u32
  assumes "j < 4"
  shows "byte_at j (word_rotr (k * 8) v) = byte_at ((j + k) mod 4) v"
proof (rule bit_word_eqI)
  fix m assume m: "m < LENGTH(8)"
  define q r where "q = (j + k) div 4" and "r = (j + k) mod 4"
  have "j + k = 4 * q + r" "r < 4" by (simp_all add: q_def r_def)
  then have "8 * j + m + k * 8 = 8 * r + m + 32 * q" "8 * r + m < 32" using m by simp_all
  then have "(8 * j + m + k * 8) mod 32 = 8 * r + m" by (simp only: mod_mult_self2) simp
  then show "bit (byte_at j (word_rotr (k * 8) v)) m = bit (byte_at ((j + k) mod 4) v) m"
    using m assms by (simp add: r_def byte_at_def bit_ucast_iff bit_drop_bit_eq bit_word_rotr_iff)
qed

lemma swapped_be: "0 < n \<Longrightarrow> n \<le> 4 \<Longrightarrow> swapped_bytes v n = be_bytes n v"
proof (rule nth_equalityI)
  fix i assume A: "0 < n" "n \<le> 4" and "i < length (swapped_bytes v n)"
  then have i: "i < n" by (simp add: swapped_bytes_def)
  have "3 - i + n = n - Suc i + 4" using i A by simp
  then have "(3 - i + n) mod 4 = n - Suc i" using i A by (simp only: mod_add_self2) simp
  then show "swapped_bytes v n ! i = be_bytes n v ! i"
    using i A by (simp add: swapped_bytes_def le_bytes_def nth_be_bytes byte_swapped byte_rotated)
qed (simp add: swapped_bytes_def)

lemma be_bytes_split:
  assumes "k \<le> n" "n \<le> 4"
  shows "be_bytes (n - k) (word_rotr (k * 8) v) @ be_bytes k v = be_bytes n (v :: u32)"
proof (rule nth_equalityI)
  fix i assume "i < length (be_bytes (n - k) (word_rotr (k * 8) v) @ be_bytes k v)"
  then have i: "i < n" using assms by simp
  show "(be_bytes (n - k) (word_rotr (k * 8) v) @ be_bytes k v) ! i = be_bytes n v ! i"
  proof (cases "i < n - k")
    case True
    then have "(n - k - 1 - i + k) mod 4 = n - 1 - i" using assms by simp
    then show ?thesis using True i assms by (simp add: nth_append nth_be_bytes byte_rotated)
  next
    case False
    then show ?thesis using i assms by (simp add: nth_append nth_be_bytes)
  qed
qed (use assms in simp)

lemma be_value_snoc: "be_value (bs @ [b]) = push_bit 8 (be_value bs) OR ucast b"
  by (simp add: be_value_def or.commute)

section \<open>Accesses to main memory\<close>

text \<open>\<open>after s s' f\<close>: only the data cache and the memories changed, and memory now holds \<open>f\<close>.\<close>

definition after :: "'d Cpu \<Rightarrow> 'd Cpu \<Rightarrow> (u32 \<Rightarrow> u8) \<Rightarrow> bool" where
  "after s s' f \<longleftrightarrow>
     s' = s\<lparr>dCache := dCache s', m_memory := m_memory s'\<rparr> \<and> config (m_memory s') = config (m_memory s) \<and> memory_ok s'
     \<and> (\<forall>p. physical (main_memory s) p \<longrightarrow> seen s' p = f p)"

lemma afterD:
  assumes "after s s' f"
  shows "core s' = core s" "m_dbat_table s' = m_dbat_table s" "m_enable_dcache s' = m_enable_dcache s" "memory_ok s'"
    "physical (main_memory s') = physical (main_memory s)" "physical (main_memory s) p \<Longrightarrow> seen s' p = f p"
proof -
  have s': "s' = s\<lparr>dCache := dCache s', m_memory := m_memory s'\<rparr>" using assms by (simp add: after_def)
  show "core s' = core s" "m_dbat_table s' = m_dbat_table s" "m_enable_dcache s' = m_enable_dcache s"
    by (subst s', simp)+
  show "memory_ok s'" "physical (main_memory s) p \<Longrightarrow> seen s' p = f p" using assms by (simp_all add: after_def)
  show "physical (main_memory s') = physical (main_memory s)"
    using assms by (intro config_keeps(1)) (simp add: after_def)
qed

lemma after_same: "memory_ok s \<Longrightarrow> after s s (seen s)"
  by (simp add: after_def)

lemma after_trans:
  assumes "after s t f" "after t u g"
  shows "after s u g"
proof -
  have t: "t = s\<lparr>dCache := dCache t, m_memory := m_memory t\<rparr>" and u: "u = t\<lparr>dCache := dCache u, m_memory := m_memory u\<rparr>"
    using assms by (simp_all add: after_def)
  have "u = s\<lparr>dCache := dCache u, m_memory := m_memory u\<rparr>" by (subst u, subst t) simp
  then show ?thesis using assms afterD(5) [OF assms(1)] by (auto simp: after_def)
qed

lemma after_cong: "after s t f \<Longrightarrow> (\<And>p. physical (main_memory s) p \<Longrightarrow> f p = g p) \<Longrightarrow> after s t g"
  by (simp add: after_def)

lemma after_config:
  assumes "memory_ok s" "s' = s\<lparr>dCache := c, m_memory := mm\<rparr>" "config mm = config (m_memory s)"
    "m_enable_dcache s \<Longrightarrow> cache_ok (c, mm)" "\<And>p. physical (main_memory s) p \<Longrightarrow> seen s' p = f p"
  shows "after s s' f"
  using assms config_keeps [OF assms(3)] by (simp add: after_def memory_ok_def)

definition span :: "u32 \<Rightarrow> nat \<Rightarrow> u32 set" where
  "span a n = {a + word_of_nat i | i. i < n}"

lemma span_near: "unat a mod 4096 + n \<le> 4096 \<Longrightarrow> p \<in> span a n \<longleftrightarrow> unat a \<le> unat p \<and> unat p < unat a + n"
proof
  assume A: "unat a mod 4096 + n \<le> 4096"
  show "p \<in> span a n \<Longrightarrow> unat a \<le> unat p \<and> unat p < unat a + n"
    using A by (auto simp: span_def unat_near)
  assume p: "unat a \<le> unat p \<and> unat p < unat a + n"
  then have e: "p = a + word_of_nat (unat p - unat a)" by (simp add: of_nat_diff word_le_nat_alt)
  have "unat p - unat a < n" using p by linarith
  with e show "p \<in> span a n" unfolding span_def by blast
qed

text \<open>The bytes of an access lie in one of the memories.\<close>

lemma span_region:
  assumes "memory_ok s" "span a n \<subseteq> {p. physical (main_memory s) p}" "unat a mod 4096 + n \<le> 4096" "i < n"
  shows "unat (a + word_of_nat i) < unat (h_ram_size (main_memory s)) \<longleftrightarrow> unat a < unat (h_ram_size (main_memory s))"
proof -
  have small: "unat (h_ram_size (main_memory s)) \<le> 2 ^ 27" using assms(1) by (simp add: memory_ok_def)
  have u: "unat (a + word_of_nat i) = unat a + i" using assms(3,4) by (intro unat_near) simp
  have "i < 4096" using assms(3,4) by simp
  moreover have "physical (main_memory s) (a + word_of_nat i)" using assms(2,4) by (auto simp: span_def)
  ultimately show ?thesis using small u unfolding physical_def by auto
qed

lemma read_seen:
  assumes ok: "memory_ok s" and m: "span a n \<subseteq> {p. physical (main_memory s) p}" and room: "unat a mod 4096 + n \<le> 4096"
    and n: "n \<in> {1, 2, 4, 8}"
  shows "\<exists>s'. read_physical B XRead False a n s = (be_value (map (\<lambda>i. seen s (a + word_of_nat i)) [0..<n]), s') \<and> after s s' (seen s)"
proof -
  let ?h = "main_memory s" and ?bytes = "map (\<lambda>i. seen s (a + word_of_nat i)) [0..<n]"
  have at: "physical ?h (a + word_of_nat i)" if "i < n" for i using m that by (auto simp: span_def)
  have p: "physical ?h a" using at [of 0] n by auto
  note R = ranges [OF ok p]
  have lay: "layout_ok ?h" using ok by (simp add: memory_ok_def)
  have sum: "bytes_value ?bytes = be_value ?bytes" using n by (intro bytes_value_be) simp
  have plain: ?thesis if d: "\<not> m_enable_dcache s"
  proof -
    have byte: "seen s (a + word_of_nat i) = (if unat a < unat (h_ram_size ?h) then h_ram ?h (a + word_of_nat i)
        else h_exram ?h (a + word_of_nat i - 2 ^ 28))" if "i < n" for i
      using d Read_U8_physical [OF lay at [OF that]] span_region [OF ok m room that] by (simp add: seen_def)
    have "read_physical B XRead False a n s = (be_value ?bytes, s)"
    proof (cases "unat a < unat (h_ram_size ?h)")
      case True
      then have "plain_bytes (h_ram ?h) a n = ?bytes" using byte by (simp add: plain_bytes_def)
      then show ?thesis using R True d sum by (simp add: read_physical_def Let_def)
    next
      case False
      have "plain_bytes (h_exram ?h) (a - 2 ^ 28) n = ?bytes" using byte False by (simp add: plain_bytes_def algebra_simps)
      then show ?thesis using R False d sum by (simp add: read_physical_def Let_def)
    qed
    then show ?thesis using after_same [OF ok] by simp
  qed
  have cached: ?thesis if d: "m_enable_dcache s"
  proof -
    have c: "cache_ok (dCache s, m_memory s)" using ok d by (simp add: memory_ok_def)
    define locked where "locked = bit (sprs s SPR_HID0) HID0_DLOCK"
    obtain bytes c' mm where r: "cache_Read a (replicate n 0) locked (dCache s, m_memory s) = (bytes, c', mm)"
      by (metis prod.exhaust)
    have S: "bytes = ?bytes" "refines (dCache s, m_memory s) (c', mm)"
      using Read_spec [OF c _ r] at d by (simp_all add: seen_def)
    have cf: "config mm = config (m_memory s)" using config_Read [of a "replicate n 0" locked "(dCache s, m_memory s)"] r by simp
    define s' where "s' = s\<lparr>dCache := c', m_memory := mm\<rparr>"
    have "dcache_Read XRead a n s = (be_value ?bytes, s')"
      using r sum S(1) by (simp add: dcache_Read_def locked_def s'_def)
    then have "read_physical B XRead False a n s = (be_value ?bytes, s')"
      using R d by (cases "unat a < unat (h_ram_size ?h)") (simp_all add: read_physical_def Let_def)
    moreover have "after s s' (seen s)"
      by (rule after_config [OF ok s'_def cf]) (use S(2) d in \<open>simp_all add: refines_def seen_def s'_def\<close>)
    ultimately show ?thesis by blast
  qed
  show ?thesis using plain cached by blast
qed

lemma set_region_config: "config (mm\<lparr>mem_host := set_region_bytes rg f (mem_host mm)\<rparr>) = config mm"
  by (simp add: config_def set_region_bytes_def split: region.split)

lemma store_outside: "p \<notin> span a (length bytes) \<Longrightarrow> store_bytes a bytes f p = f p"
  by (rule store_bytes_other) (auto simp: span_def)

text \<open>Bytes stored into the array of a memory are stored at their addresses.\<close>

lemma store_ram:
  assumes ok: "memory_ok s" and m: "span a (length bytes) \<subseteq> {p. physical (main_memory s) p}"
    and room: "unat a mod 4096 + length bytes \<le> 4096" and p: "physical (main_memory s) p"
  defines "in_ram \<equiv> unat a < unat (h_ram_size (main_memory s))"
  defines "h' \<equiv> (if in_ram then set_region_bytes Ram (store_bytes a bytes (region_byte (main_memory s) Ram)) (main_memory s)
    else set_region_bytes ExRam (store_bytes (a - 2 ^ 28) bytes (region_byte (main_memory s) ExRam)) (main_memory s))"
  shows "Read_U8 h' p = store_bytes a bytes (Read_U8 (main_memory s)) p"
proof -
  let ?h = "main_memory s"
  have "config ((m_memory s)\<lparr>mem_host := h'\<rparr>) = config (m_memory s)" by (simp add: h'_def set_region_config)
  note K = config_keeps [OF this, simplified]
  have lay: "layout_ok ?h" "layout_ok h'" using ok K by (simp_all add: memory_ok_def)
  have p': "physical h' p" using p K by simp
  have other: "store_bytes a bytes (Read_U8 ?h) p = Read_U8 ?h p" if "(unat p < unat (h_ram_size ?h)) \<noteq> in_ram"
  proof (rule store_outside)
    show "p \<notin> span a (length bytes)"
      using span_region [OF ok m room] that by (auto simp: span_def in_ram_def)
  qed
  have ram: "region_byte ?h Ram = h_ram ?h" "region_byte ?h ExRam = h_exram ?h" by (simp_all add: fun_eq_iff region_byte_def)
  have R: "Read_U8 h' p = (if unat p < unat (h_ram_size ?h) then h_ram h' p else h_exram h' (p - 2 ^ 28))"
    "Read_U8 ?h p = (if unat p < unat (h_ram_size ?h) then h_ram ?h p else h_exram ?h (p - 2 ^ 28))"
    using Read_U8_physical [OF lay(2) p'] Read_U8_physical [OF lay(1) p] K by simp_all
  show ?thesis
  proof (cases "(unat p < unat (h_ram_size ?h)) = in_ram")
    case False
    then have "Read_U8 h' p = Read_U8 ?h p" unfolding R by (simp add: h'_def set_region_bytes_def)
    then show ?thesis using other False by simp
  next
    case same: True
    show ?thesis
    proof (cases in_ram)
      case True
      then have "Read_U8 h' p = h_ram h' p" using R(1) same by simp
      also have "\<dots> = store_bytes a bytes (h_ram ?h) p" using True by (simp add: h'_def set_region_bytes_def ram)
      also have "\<dots> = store_bytes a bytes (Read_U8 ?h) p" by (rule store_bytes_cong) (use True same in \<open>simp add: R\<close>)
      finally show ?thesis .
    next
      case False
      then have "Read_U8 h' p = h_exram h' (p - 2 ^ 28)" using R(1) same by simp
      also have "\<dots> = store_bytes (a - 2 ^ 28) bytes (h_exram ?h) (p - 2 ^ 28)"
        using False by (simp add: h'_def set_region_bytes_def ram)
      also have "\<dots> = store_bytes a bytes (\<lambda>x. h_exram ?h (x - 2 ^ 28)) p" by (rule store_bytes_shift)
      also have "\<dots> = store_bytes a bytes (Read_U8 ?h) p" by (rule store_bytes_cong) (use False same in \<open>simp add: R\<close>)
      finally show ?thesis .
    qed
  qed
qed

lemma write_seen:
  assumes ok: "memory_ok s" and m: "span a n \<subseteq> {p. physical (main_memory s) p}" and room: "unat a mod 4096 + n \<le> 4096"
    and n: "0 < n" "n \<le> 4"
  shows "after s (write_physical B XWrite False a v n s) (store_bytes a (be_bytes n v) (seen s))"
proof -
  let ?h = "main_memory s" and ?bytes = "be_bytes n v"
  have p: "physical ?h a" using m n by (force simp: span_def)
  note R = ranges [OF ok p]
  have sw: "swapped_bytes v n = ?bytes" by (rule swapped_be [OF n])
  have len: "span a (length ?bytes) \<subseteq> {p. physical ?h p}" "unat a mod 4096 + length ?bytes \<le> 4096" using m room by simp_all
  have w: "write_physical B XWrite False a v n s =
    (if unat a < unat (h_ram_size ?h) then write_region XWrite False Ram a a ?bytes s
     else write_region XWrite False ExRam (a - 2 ^ 28) a ?bytes s)"
    using R by (cases "unat a < unat (h_ram_size ?h)")
      (simp_all add: write_physical_def write_special_def write_memory_def Let_def sw)
  show ?thesis
  proof (cases "m_enable_dcache s")
    case True
    define locked where "locked = bit (sprs s SPR_HID0) HID0_DLOCK"
    have c: "cache_ok (dCache s, m_memory s)" using ok True by (simp add: memory_ok_def)
    obtain c' mm where y: "cache_Write a ?bytes locked (dCache s, m_memory s) = (c', mm)" by (metis prod.exhaust)
    have S: "cache_ok (c', mm)" "\<And>p. physical ?h p \<Longrightarrow> view (c', mm) p = store_bytes a ?bytes (view (dCache s, m_memory s)) p"
      using Write_spec [OF c, of ?bytes a locked] len(1) y by (auto simp: span_def)
    have cf: "config mm = config (m_memory s)" using config_Write [of a ?bytes locked "(dCache s, m_memory s)"] y by simp
    have e: "write_physical B XWrite False a v n s = s\<lparr>dCache := c', m_memory := mm\<rparr>"
      using True y by (simp add: w write_region_def dcache_Write_def locked_def)
    show ?thesis
      by (rule after_config [OF ok e cf]) (use S True in \<open>simp_all add: seen_def e\<close>)
  next
    case False
    define h' where "h' = (if unat a < unat (h_ram_size ?h) then set_region_bytes Ram (store_bytes a ?bytes (region_byte ?h Ram)) ?h
      else set_region_bytes ExRam (store_bytes (a - 2 ^ 28) ?bytes (region_byte ?h ExRam)) ?h)"
    have e: "write_physical B XWrite False a v n s = s\<lparr>dCache := dCache s, m_memory := (m_memory s)\<lparr>mem_host := h'\<rparr>\<rparr>"
      using False by (simp add: w write_region_def h'_def Let_def)
    have cf: "config ((m_memory s)\<lparr>mem_host := h'\<rparr>) = config (m_memory s)" by (simp add: h'_def set_region_config)
    show ?thesis
      by (rule after_config [OF ok e cf]) (use False store_ram [OF ok len] in \<open>simp_all add: e seen_def h'_def\<close>)
  qed
qed

section \<open>Translated accesses\<close>

lemma nowhere: "memory_ok s \<Longrightarrow> \<not> physical (main_memory s) 0xFFFFFFFF"
  using covers_size [of "h_exram_mask (main_memory s)" "h_exram_size (main_memory s)"]
    covers_size [of "h_ram_mask (main_memory s)" "h_ram_size (main_memory s)"]
  by (auto simp: memory_ok_def layout_ok_def physical_def)

lemma low_17: "(0x1FFFF :: u32) = mask 17"
  by (simp add: mask_eq_exp_minus_1)

lemma high_part: "(\<And>n. n < k \<Longrightarrow> \<not> bit x n) \<Longrightarrow> x = push_bit k (drop_bit k x)" for x :: u32
proof (rule bit_word_eqI)
  fix n assume "\<And>n. n < k \<Longrightarrow> \<not> bit x n" "n < LENGTH(32)"
  then show "bit x n = bit (push_bit k (drop_bit k x)) n" by (cases "n < k") (simp_all add: bit_simps)
qed

lemma block_value:
  fixes e a :: u32
  assumes "e AND 0x1FFF8 = 0"
  shows "unat ((e AND NOT 7) OR (a AND 0x1FFFF)) = unat (e AND NOT 7) + unat a mod 2 ^ 17" "2 ^ 17 dvd unat (e AND NOT 7)"
proof -
  have m: "(7 :: u32) = mask 3" by (simp add: mask_eq_exp_minus_1)
  have zero: "\<not> bit (e AND NOT 7) n" if "n < 17" for n
  proof
    assume *: "bit (e AND NOT 7) n"
    have "bit (e AND 0x1FFF8) n" using * that unfolding m mask_block by (auto simp: bit_simps)
    then show False unfolding assms by simp
  qed
  have high: "e AND NOT 7 = push_bit 17 (drop_bit 17 (e AND NOT 7))" by (rule high_part) (rule zero)
  define q where "q = unat (drop_bit 17 (e AND NOT 7))"
  have "q = unat (e AND NOT 7) div 2 ^ 17" unfolding q_def unat_drop_bit_eq by (simp add: drop_bit_eq_div)
  then have q: "q < 2 ^ 15" using unsigned_less [of "e AND NOT 7", where 'a = nat] by (simp add: less_mult_imp_div_less)
  have u: "unat (e AND NOT 7) = 2 ^ 17 * q"
    using arg_cong [OF high, of unat] q unfolding unsigned_push_bit_eq q_def [symmetric]
    by (simp add: push_bit_eq_mult take_bit_nat_eq_self)
  then show "2 ^ 17 dvd unat (e AND NOT 7)" by simp
  have "(e AND NOT 7) AND (a AND 0x1FFFF) = 0"
    by (rule bit_word_eqI) (use zero in \<open>auto simp only: bit_and_iff low_17 bit_mask_iff bit_0_eq\<close>)
  then have "(e AND NOT 7) OR (a AND 0x1FFFF) = (e AND NOT 7) + (a AND 0x1FFFF)"
    by (simp add: disjunctive_add_eq_or)
  moreover have t: "unat (a AND 0x1FFFF) = unat a mod 2 ^ 17"
    unfolding low_17 take_bit_eq_mask [symmetric] unsigned_take_bit_eq by (simp add: take_bit_eq_mod)
  moreover have "2 ^ 17 * q + unat a mod 2 ^ 17 < 2 ^ 32"
  proof -
    have "unat a mod 2 ^ 17 < 2 ^ 17" by simp
    moreover have "(2 :: nat) ^ 17 * (q + 1) \<le> 2 ^ 17 * 2 ^ 15" using q by (intro mult_le_mono2) simp
    ultimately show ?thesis by simp
  qed
  ultimately show "unat ((e AND NOT 7) OR (a AND 0x1FFFF)) = unat (e AND NOT 7) + unat a mod 2 ^ 17"
    unfolding u [symmetric] by (simp add: unat_word_ariths)
qed

lemma near_parts:
  fixes a :: nat
  assumes "a mod 4096 + i < 4096"
  shows "(a + i) div 2 ^ 17 = a div 2 ^ 17" "(a + i) mod 2 ^ 17 = a mod 2 ^ 17 + i"
proof -
  define q r p where "q = a div 2 ^ 17" and "r = a mod 2 ^ 17 div 4096" and "p = a mod 4096"
  have "a mod 2 ^ 17 mod 4096 = a mod 4096" by (simp add: mod_mod_cancel)
  then have a: "a mod 2 ^ 17 = 4096 * r + p" using mult_div_mod_eq [of 4096 "a mod 2 ^ 17"] by (simp add: r_def p_def)
  have "r < 32" by (simp add: r_def less_mult_imp_div_less)
  then have l: "a mod 2 ^ 17 + i < 2 ^ 17" using assms unfolding a p_def by simp
  have e: "a + i = 2 ^ 17 * q + (a mod 2 ^ 17 + i)" using mult_div_mod_eq [of "2 ^ 17" a] by (simp only: q_def add.assoc [symmetric])
  show "(a + i) div 2 ^ 17 = a div 2 ^ 17" unfolding e q_def [symmetric] using l by simp
  show "(a + i) mod 2 ^ 17 = a mod 2 ^ 17 + i" unfolding e using l by simp
qed

text \<open>Inside a page the physical address follows the effective one.\<close>

lemma data_address_near:
  assumes ok: "memory_ok s" and room: "unat ea mod 4096 + i < 4096"
    and m: "physical (main_memory s) (data_address s ea)"
  shows "data_address s (ea + word_of_nat i) = data_address s ea + word_of_nat i"
    "unat (data_address s ea) mod 4096 = unat ea mod 4096"
proof -
  have u: "unat (ea + word_of_nat i) = unat ea + i" by (rule unat_near [OF room])
  consider "\<not> bit (msr (core s)) MSR_DR" | "bit (msr (core s)) MSR_DR" by blast
  then have "data_address s (ea + word_of_nat i) = data_address s ea + word_of_nat i
    \<and> unat (data_address s ea) mod 4096 = unat ea mod 4096"
  proof cases
    case 2
    define e where "e = m_dbat_table s (drop_bit 17 ea)"
    define place where "place = (\<lambda>x. (e AND NOT 7) OR (x AND 0x1FFFF))"
    have e0: "e AND 0x1FFF8 = 0" using ok by (simp add: memory_ok_def e_def)
    have hit: "TranslateBatAddress (m_dbat_table s) ea = Some (place ea, False)"
    proof (rule ccontr)
      assume "\<not> ?thesis"
      then have "data_address s ea = 0xFFFFFFFF"
        using 2 by (auto simp: data_address_def TranslateBatAddress_def Let_def e_def place_def)
      then show False using m nowhere [OF ok] by simp
    qed
    have "drop_bit 17 (ea + word_of_nat i) = drop_bit 17 ea"
      using near_parts(1) [OF room] by (intro word_unat_eq_iff [THEN iffD2]) (simp only: unat_drop_bit_eq u, simp only: drop_bit_eq_div)
    then have hit': "TranslateBatAddress (m_dbat_table s) (ea + word_of_nat i) = Some (place (ea + word_of_nat i), False)"
      using hit by (auto simp: TranslateBatAddress_def Let_def place_def e_def split: if_splits)
    have p: "unat (place x) = unat (e AND NOT 7) + unat x mod 2 ^ 17" for x
      unfolding place_def by (rule block_value(1) [OF e0])
    have "2 ^ 17 dvd unat (e AND NOT 7)" by (rule block_value(2) [OF e0])
    then obtain q where q: "unat (e AND NOT 7) = 2 ^ 17 * q" by blast
    have page: "unat (place ea) mod 4096 = unat ea mod 4096"
    proof -
      have "unat (place ea) = unat ea mod 2 ^ 17 + 4096 * (32 * q)" unfolding p q by simp
      then show ?thesis by (simp only: mod_mult_self2) (simp add: mod_mod_cancel)
    qed
    have "unat (place (ea + word_of_nat i)) = unat (place ea) + i"
      unfolding p u near_parts(2) [OF room] by simp
    moreover have "unat (place ea + word_of_nat i) = unat (place ea) + i"
      by (rule unat_near) (use page room in simp)
    ultimately have "place (ea + word_of_nat i) = place ea + word_of_nat i" by (simp add: word_unat_eq_iff)
    then show ?thesis using 2 hit hit' page by (simp add: data_address_def)
  qed (simp add: data_address_def)
  then show "data_address s (ea + word_of_nat i) = data_address s ea + word_of_nat i"
    "unat (data_address s ea) mod 4096 = unat ea mod 4096" by simp_all
qed

text \<open>The plain memory that the accesses see through the addresses \<open>at\<close>.\<close>

definition load_at :: "(u32 \<Rightarrow> u32) \<Rightarrow> u32 \<Rightarrow> nat \<Rightarrow> (u32 \<Rightarrow> u8) \<Rightarrow> u8 list" where
  "load_at at ea n f = map (\<lambda>i. f (at (ea + word_of_nat i))) [0..<n]"

primrec store_at :: "(u32 \<Rightarrow> u32) \<Rightarrow> u32 \<Rightarrow> u8 list \<Rightarrow> (u32 \<Rightarrow> u8) \<Rightarrow> (u32 \<Rightarrow> u8)" where
  "store_at at ea [] f = f"
| "store_at at ea (b # bs) f = store_at at (ea + 1) bs (f(at ea := b))"

definition reaches :: "'d Cpu \<Rightarrow> u32 \<Rightarrow> nat \<Rightarrow> bool" where
  "reaches s ea n \<longleftrightarrow> data_address s ` span ea n \<subseteq> {p. physical (main_memory s) p}"

lemma store_at_append: "store_at at ea (xs @ ys) f = store_at at (ea + word_of_nat (length xs)) ys (store_at at ea xs f)"
  by (induction xs arbitrary: ea f) (simp_all add: algebra_simps)

lemma store_at_cong: "f p = g p \<Longrightarrow> store_at at ea bs f p = store_at at ea bs g p"
proof (induction bs arbitrary: ea f g)
  case (Cons b bs)
  show ?case unfolding store_at.simps by (rule Cons.IH) (simp add: Cons.prems)
qed simp

lemma store_at_near:
  "(\<And>i. i < length bs \<Longrightarrow> at (ea + word_of_nat i) = a + word_of_nat i) \<Longrightarrow> store_at at ea bs f = store_bytes a bs f"
proof (induction bs arbitrary: ea a f)
  case (Cons b bs)
  have "at (ea + 1 + word_of_nat i) = a + 1 + word_of_nat i" if "i < length bs" for i
    using Cons.prems [of "Suc i"] that by (simp add: algebra_simps)
  then show ?case using Cons.IH [of "ea + 1" "a + 1"] Cons.prems [of 0] by simp
qed simp

lemma reachesD: "reaches s ea n \<Longrightarrow> i < n \<Longrightarrow> physical (main_memory s) (data_address s (ea + word_of_nat i))"
  by (auto simp: reaches_def span_def)

lemma reaches_after: "after s s' f \<Longrightarrow> reaches s' = reaches s" "after s s' f \<Longrightarrow> data_address s' = data_address s"
proof -
  assume a: "after s s' f"
  show d: "data_address s' = data_address s" unfolding fun_eq_iff data_address_def afterD(1,2) [OF a] by simp
  show "reaches s' = reaches s" unfolding fun_eq_iff reaches_def d afterD(5) [OF a] by simp
qed

lemma in_page:
  assumes "memory_ok s" "reaches s ea n" "0 < n" "unat ea mod 4096 + n \<le> 4096"
  shows "span (data_address s ea) n \<subseteq> {p. physical (main_memory s) p}"
    "unat (data_address s ea) mod 4096 + n \<le> 4096"
    "i < n \<Longrightarrow> data_address s (ea + word_of_nat i) = data_address s ea + word_of_nat i"
proof -
  have p: "physical (main_memory s) (data_address s ea)" using reachesD [OF assms(2), of 0] assms(3) by simp
  have near: "data_address s (ea + word_of_nat i) = data_address s ea + word_of_nat i" if "i < n" for i
    by (rule data_address_near(1) [OF assms(1) _ p]) (use assms(4) that in simp)
  then show "i < n \<Longrightarrow> data_address s (ea + word_of_nat i) = data_address s ea + word_of_nat i" by blast
  show "span (data_address s ea) n \<subseteq> {p. physical (main_memory s) p}"
    using reachesD [OF assms(2)] near by (auto simp: span_def)
  show "unat (data_address s ea) mod 4096 + n \<le> 4096"
    using data_address_near(2) [OF assms(1) _ p, of 0] assms(3,4) by simp
qed

lemma translated:
  assumes "memory_ok s" "physical (main_memory s) (data_address s ea)"
  shows "bit (msr (core s)) MSR_DR \<Longrightarrow> TranslateAddress B flag ea s =
      (\<lparr>tr_address = data_address s ea, tr_result = BAT_TRANSLATED, tr_wi = False\<rparr>, s) \<or> IsOpcodeFlag flag"
    "\<not> bit (msr (core s)) MSR_DR \<Longrightarrow> data_address s ea = ea"
  using assms(2) nowhere [OF assms(1)]
  by (auto simp: data_address_def TranslateAddress_def split: option.splits bool.splits)

lemma read_translated_seen:
  assumes ok: "memory_ok s" and r: "reaches s ea n" and room: "unat ea mod 4096 + n \<le> 4096" and n: "n \<in> {1, 2, 4, 8}"
  shows "\<exists>s'. read_translated B XRead ea n s = (be_value (load_at (data_address s) ea n (seen s)), s') \<and> after s s' (seen s)"
proof -
  have "0 < n" using n by auto
  note P = in_page [OF ok r this room]
  have p: "physical (main_memory s) (data_address s ea)" using reachesD [OF r \<open>0 < n\<close>] by simp
  have e: "read_translated B XRead ea n s = read_physical B XRead False (data_address s ea) n s"
    using translated(1) [OF ok p, of B XRead] translated(2) [OF ok p]
    by (cases "bit (msr (core s)) MSR_DR") (simp_all add: read_translated_def IsOpcodeFlag_def Success_def)
  have "map (\<lambda>i. seen s (data_address s ea + word_of_nat i)) [0..<n] = load_at (data_address s) ea n (seen s)"
    using P(3) by (simp add: load_at_def)
  then show ?thesis using read_seen [OF ok P(1,2) n] unfolding e by simp
qed

lemma write_translated_seen:
  assumes ok: "memory_ok s" and r: "reaches s ea n" and room: "unat ea mod 4096 + n \<le> 4096" and n: "0 < n" "n \<le> 4"
  shows "after s (write_translated B XWrite ea v n s) (store_at (data_address s) ea (be_bytes n v) (seen s))"
proof -
  note P = in_page [OF ok r n(1) room]
  have p: "physical (main_memory s) (data_address s ea)" using reachesD [OF r n(1)] by simp
  have "write_translated B XWrite ea v n s = write_physical B XWrite False (data_address s ea) v n s"
    using translated(1) [OF ok p, of B XWrite] translated(2) [OF ok p]
    by (cases "bit (msr (core s)) MSR_DR") (simp_all add: write_translated_def IsOpcodeFlag_def Success_def)
  moreover have "store_at (data_address s) ea (be_bytes n v) (seen s) = store_bytes (data_address s ea) (be_bytes n v) (seen s)"
    by (rule store_at_near) (simp add: P(3))
  ultimately show ?thesis using write_seen [OF ok P(1,2) n] by simp
qed

section \<open>Accesses across a page\<close>

lemma page_split:
  assumes c: "crosses_page a n" and n: "0 < n" "n \<le> 8"
    and e_def: "e = (a + word_of_nat n - 1) AND NOT 0xFFF" and k_def: "k = unat (e - a)"
  shows "0 < k" "k < n" "unat a mod 4096 + k = 4096" "e = a + word_of_nat k" "unat e mod 4096 = 0"
proof -
  define l where "l = unat (a + word_of_nat n - 1)"
  define off q where "off = unat a mod 4096" and "q = unat a div 4096"
  have a: "unat a = 4096 * q + off" "off < 4096" "unat a < 2 ^ 32"
    using unsigned_less [of a, where 'a = nat] by (simp_all add: off_def q_def)
  have q: "q < 2 ^ 20" using a by simp
  have "a + word_of_nat n - 1 = a + word_of_nat (n - 1)" using n(1) by (simp add: of_nat_diff)
  then have l: "l = (unat a + (n - 1)) mod 2 ^ 32" unfolding l_def by (simp only:) (simp add: unat_word_ariths unat_of_nat mod_add_right_eq)
  have e: "unat e = 4096 * (l div 4096)" unfolding e_def page_of l_def ..
  have "unat (a AND NOT 0xFFF) \<noteq> unat e" using c unfolding crosses_page_def e_def word_unat_eq_iff .
  then have differ: "l div 4096 \<noteq> q" unfolding page_of e by (simp add: q_def)
  have "unat a + (n - 1) < 4096 * (q + 1) + 4096" using a n by simp
  then have "(unat a + (n - 1)) div 4096 < q + 2" by (simp add: less_mult_imp_div_less)
  moreover have "q \<le> (unat a + (n - 1)) div 4096" unfolding q_def by (rule div_le_mono) simp
  ultimately have two: "(unat a + (n - 1)) div 4096 = q \<or> (unat a + (n - 1)) div 4096 = q + 1" by linarith
  have succ: "(unat a + (n - 1)) div 4096 = q + 1"
  proof (cases "unat a + (n - 1) < 2 ^ 32")
    case True
    then show ?thesis using two differ l by simp
  next
    case False
    then have "2 ^ 20 \<le> (unat a + (n - 1)) div 4096" by (simp add: less_eq_div_iff_mult_less_eq)
    then show ?thesis using two q by linarith
  qed
  then have "4096 * (q + 1) \<le> unat a + (n - 1)" using times_div_less_eq_dividend [of 4096 "unat a + (n - 1)"] by simp
  then have k': "4096 - off \<le> n - 1" using a by simp
  have "unat (a + word_of_nat (4096 - off)) = (4096 * (q + 1)) mod 2 ^ 32"
  proof -
    have "unat (a + word_of_nat (4096 - off)) = (unat a + (4096 - off)) mod 2 ^ 32"
      by (simp add: unat_word_ariths unat_of_nat mod_add_right_eq)
    moreover have "unat a + (4096 - off) = 4096 * (q + 1)" using a by simp
    ultimately show ?thesis by simp
  qed
  moreover have "unat e = (4096 * (q + 1)) mod 2 ^ 32"
  proof (cases "unat a + (n - 1) < 2 ^ 32")
    case True
    then have "4096 * (q + 1) < 2 ^ 32" using \<open>4096 * (q + 1) \<le> unat a + (n - 1)\<close> by linarith
    then show ?thesis using True succ l e by simp
  next
    case False
    then have "l = unat a + (n - 1) - 2 ^ 32" unfolding l using a n by (simp add: mod_if)
    then have "l < 8" using a n by simp
    then have "unat e = 0" unfolding e by simp
    moreover have "q + 1 = 2 ^ 20" using False a n q by simp
    ultimately show ?thesis by simp
  qed
  ultimately have ek: "e = a + word_of_nat (4096 - off)" by (simp add: word_unat_eq_iff)
  obtain m where m: "m = 4096 - off" "m \<le> 4096" by simp
  have "k = m" unfolding k_def ek m(1) [symmetric] using m(2) by (simp add: unat_of_nat)
  then have "k = 4096 - off" using m(1) by simp
  then show "0 < k" "k < n" "unat a mod 4096 + k = 4096" "e = a + word_of_nat k" "unat e mod 4096 = 0"
    using a k' n ek unfolding off_def [symmetric] e by simp_all
qed

lemma reaches_part: "reaches s ea n \<Longrightarrow> i + m \<le> n \<Longrightarrow> reaches s (ea + word_of_nat i) m"
proof -
  assume "reaches s ea n" "i + m \<le> n"
  then have "physical (main_memory s) (data_address s (ea + word_of_nat i + word_of_nat j))" if "j < m" for j
    using reachesD [of s ea n "i + j"] that by (simp add: algebra_simps)
  then show ?thesis by (auto simp: reaches_def span_def)
qed

lemma bytewise_seen:
  assumes "memory_ok s" "reaches s ea n" "var = be_value bs"
  shows "\<exists>s'. read_bytewise (read_translated B XRead) ea n var s = (be_value (bs @ load_at (data_address s) ea n (seen s)), s')
    \<and> after s s' (seen s)"
  using assms
proof (induction n arbitrary: ea var bs s)
  case 0
  then show ?case using after_same by (simp add: load_at_def)
next
  case (Suc n)
  have one: "reaches s ea 1" and rest: "reaches s (ea + 1) n"
    using reaches_part [OF Suc.prems(2), of 0 1] reaches_part [OF Suc.prems(2), of 1 n] by simp_all
  have "unat ea mod 4096 < 4096" by (rule mod_less_divisor) simp
  then have room: "unat ea mod 4096 + 1 \<le> 4096" by linarith
  let ?b = "seen s (data_address s ea)"
  obtain s1 where s1: "read_translated B XRead ea 1 s = (ucast ?b, s1)" "after s s1 (seen s)"
    using read_translated_seen [OF Suc.prems(1) one room, of B] by (auto simp: load_at_def be_value_def)
  have v: "push_bit 8 var OR ucast ?b = be_value (bs @ [?b])" by (simp add: be_value_snoc Suc.prems(3))
  have "load_at (data_address s) (ea + 1) n (seen s1) = load_at (data_address s) (ea + 1) n (seen s)"
    using afterD(6) [OF s1(2)] reachesD [OF rest] by (simp add: load_at_def)
  moreover have "?b # load_at (data_address s) (ea + 1) n (seen s) = load_at (data_address s) ea (Suc n) (seen s)"
    unfolding load_at_def upt_conv_Cons [OF zero_less_Suc] map_Suc_upt [symmetric] by (simp add: comp_def algebra_simps)
  moreover obtain s' where "read_bytewise (read_translated B XRead) (ea + 1) n (push_bit 8 var OR ucast ?b) s1
      = (be_value ((bs @ [?b]) @ load_at (data_address s1) (ea + 1) n (seen s1)), s')" "after s1 s' (seen s1)"
    using Suc.IH [OF afterD(4) [OF s1(2)] _ v, of "ea + 1"] rest reaches_after [OF s1(2)] by metis
  moreover have "after s s' (seen s)" if "after s1 s' (seen s1)" for s'
    by (rule after_cong [OF after_trans [OF s1(2) that]]) (rule afterD(6) [OF s1(2)])
  ultimately show ?case using s1(1) reaches_after(2) [OF s1(2)] by auto
qed

lemma mmu_Read_seen:
  assumes ok: "memory_ok s" and r: "reaches s ea n" and n: "n \<in> {1, 2, 4, 8}"
  shows "\<exists>s'. mmu_Read B n ea s = (be_value (load_at (data_address s) ea n (seen s)), s') \<and> after s s' (seen s)"
proof (cases "crosses_page ea n")
  case True
  then show ?thesis using bytewise_seen [OF ok r, of 0 "[]"] by (simp add: mmu_Read_def ReadFromHardware_def paged_read_def be_value_def)
next
  case False
  have "unat ea mod 4096 + n \<le> 4096" by (rule page_room [OF False]) (use n in auto)
  then show ?thesis using read_translated_seen [OF ok r _ n] False by (simp add: mmu_Read_def ReadFromHardware_def paged_read_def)
qed

lemma WriteToHardware_seen:
  assumes ok: "memory_ok s" and r: "reaches s ea n" and n: "0 < n" "n \<le> 4"
  shows "after s (WriteToHardware B XWrite ea v n s) (store_at (data_address s) ea (be_bytes n v) (seen s))"
proof (cases "crosses_page ea n")
  case False
  have "unat ea mod 4096 + n \<le> 4096" by (rule page_room [OF False]) (use n in auto)
  then show ?thesis using write_translated_seen [OF ok r _ n] False by (simp add: WriteToHardware_def paged_write_def)
next
  case True
  define e where "e = (ea + word_of_nat n - 1) AND NOT 0xFFF"
  define k where "k = unat (e - ea)"
  have "n \<le> 8" using n by simp
  note P = page_split [OF True n(1) this e_def k_def]
  define v1 s1 where "v1 = word_rotr ((n - k) * 8) v" and "s1 = write_translated B XWrite ea v1 k s"
  have w: "WriteToHardware B XWrite ea v n s = write_translated B XWrite e v (n - k) s1"
    using True by (simp add: WriteToHardware_def paged_write_def Let_def e_def k_def v1_def s1_def)
  have r1: "reaches s ea k" "reaches s e (n - k)"
    using reaches_part [OF r, of 0 k] reaches_part [OF r, of k "n - k"] P by simp_all
  have A: "after s s1 (store_at (data_address s) ea (be_bytes k v1) (seen s))"
    unfolding s1_def by (rule write_translated_seen [OF ok r1(1)]) (use P n in simp_all)
  have "after s1 (write_translated B XWrite e v (n - k) s1) (store_at (data_address s1) e (be_bytes (n - k) v) (seen s1))"
    by (rule write_translated_seen [OF afterD(4) [OF A]]) (use P n r1 reaches_after(1) [OF A] in simp_all)
  from after_trans [OF A this] have "after s (WriteToHardware B XWrite ea v n s)
      (store_at (data_address s) e (be_bytes (n - k) v) (seen s1))"
    unfolding w reaches_after(2) [OF A] .
  moreover have "store_at (data_address s) e (be_bytes (n - k) v) (seen s1) p = store_at (data_address s) ea (be_bytes n v) (seen s) p"
    if "physical (main_memory s) p" for p
  proof -
    have "store_at (data_address s) e (be_bytes (n - k) v) (seen s1) p
      = store_at (data_address s) e (be_bytes (n - k) v) (store_at (data_address s) ea (be_bytes k v1) (seen s)) p"
      by (rule store_at_cong) (rule afterD(6) [OF A that])
    also have "\<dots> = store_at (data_address s) ea (be_bytes k v1 @ be_bytes (n - k) v) (seen s) p"
      by (simp add: store_at_append P(4))
    also have "be_bytes k v1 @ be_bytes (n - k) v = be_bytes n v"
      using be_bytes_split [of "n - k" n v] P(2) n by (simp add: v1_def)
    finally show ?thesis .
  qed
  ultimately show ?thesis by (rule after_cong)
qed

section \<open>Loads and stores as operations of a plain memory\<close>

datatype access_width = W8 | W16 | W32 | W64

primrec width :: "access_width \<Rightarrow> nat" where
  "width W8 = 1" | "width W16 = 2" | "width W32 = 4" | "width W64 = 8"

datatype access = Load access_width u32 | Store access_width u64 u32

primrec cpu_access :: "'d bus \<Rightarrow> access \<Rightarrow> 'd Cpu \<Rightarrow> u64 option \<times> 'd Cpu" where
  "cpu_access B (Load w ea) s = (case mmu_Read B (width w) ea s of (v, s1) \<Rightarrow> (Some v, s1))"
| "cpu_access B (Store w v ea) s =
    (None, if w = W64 then mmu_Write_U64 B v ea s else mmu_Write B (width w) (ucast v) ea s)"

primrec flat_access :: "(u32 \<Rightarrow> u32) \<Rightarrow> access \<Rightarrow> (u32 \<Rightarrow> u8) \<Rightarrow> u64 option \<times> (u32 \<Rightarrow> u8)" where
  "flat_access at (Load w ea) f = (Some (be_value (load_at at ea (width w) f)), f)"
| "flat_access at (Store w v ea) f = (None, store_at at ea (be_bytes (width w) v) f)"

primrec access_reach :: "(u32 \<Rightarrow> u32) \<Rightarrow> access \<Rightarrow> u32 set" where
  "access_reach at (Load w ea) = at ` span ea (width w)"
| "access_reach at (Store w v ea) = at ` span ea (width w)"

lemma be_bytes_ucast: "8 * n \<le> LENGTH('b) \<Longrightarrow> be_bytes n (ucast v :: 'b::len word) = be_bytes n v"
proof (rule nth_equalityI)
  fix i assume A: "8 * n \<le> LENGTH('b)" and "i < length (be_bytes n (ucast v :: 'b word))"
  then show "be_bytes n (ucast v :: 'b word) ! i = be_bytes n v ! i"
    by (simp add: nth_be_bytes, intro bit_word_eqI) (auto simp: byte_at_def bit_simps)
qed simp

lemma be_bytes_halves: "be_bytes 4 (ucast (drop_bit 32 v) :: u32) @ be_bytes 4 (ucast v :: u32) = be_bytes 8 (v :: u64)"
proof (rule nth_equalityI)
  fix i assume "i < length (be_bytes 4 (ucast (drop_bit 32 v) :: u32) @ be_bytes 4 (ucast v :: u32))"
  then have i: "i < 8" by simp
  have low: "byte_at j (ucast v :: u32) = byte_at j v" if "j < 4" for j
    by (rule bit_word_eqI) (use that in \<open>auto simp: byte_at_def bit_simps\<close>)
  have high: "byte_at j (ucast (drop_bit 32 v) :: u32) = byte_at (4 + j) v" if "j < 4" for j
    by (rule bit_word_eqI) (use that in \<open>auto simp: byte_at_def bit_simps add.assoc\<close>)
  show "(be_bytes 4 (ucast (drop_bit 32 v) :: u32) @ be_bytes 4 (ucast v :: u32)) ! i = be_bytes 8 v ! i"
    using i by (cases "i < 4") (simp_all add: nth_append nth_be_bytes low high)
qed simp

lemma access_spec:
  assumes ok: "memory_ok s" and r: "access_reach (data_address s) p \<subseteq> {a. physical (main_memory s) a}"
  shows "fst (cpu_access B p s) = fst (flat_access (data_address s) p (seen s))"
    "after s (snd (cpu_access B p s)) (snd (flat_access (data_address s) p (seen s)))"
proof -
  have "fst (cpu_access B p s) = fst (flat_access (data_address s) p (seen s))
    \<and> after s (snd (cpu_access B p s)) (snd (flat_access (data_address s) p (seen s)))"
  proof (cases p)
    case (Load w ea)
    have "reaches s ea (width w)" using r by (simp add: Load reaches_def)
    moreover have "width w \<in> {1, 2, 4, 8}" by (cases w) simp_all
    ultimately show ?thesis using mmu_Read_seen [OF ok, of ea "width w" B] by (auto simp: Load)
  next
    case (Store w v ea)
    have e: "reaches s ea (width w)" using r by (simp add: Store reaches_def)
    show ?thesis
    proof (cases "w = W64")
      case False
      then have n: "0 < width w" "width w \<le> 4" by (cases w; simp)+
      then have "be_bytes (width w) (ucast v :: u32) = be_bytes (width w) v" by (intro be_bytes_ucast) simp
      then show ?thesis using WriteToHardware_seen [OF ok e n, of B "ucast v"] False by (simp add: Store mmu_Write_def)
    next
      case True
      let ?hi = "ucast (drop_bit 32 v) :: u32" and ?lo = "ucast v :: u32"
      have h: "reaches s ea 4" "reaches s (ea + 4) 4"
        using reaches_part [OF e, of 0 4] reaches_part [OF e, of 4 4] True by simp_all
      define s1 where "s1 = WriteToHardware B XWrite ea ?hi 4 s"
      have A: "after s s1 (store_at (data_address s) ea (be_bytes 4 ?hi) (seen s))"
        unfolding s1_def by (rule WriteToHardware_seen [OF ok h(1)]) simp_all
      have "after s1 (WriteToHardware B XWrite (ea + 4) ?lo 4 s1) (store_at (data_address s1) (ea + 4) (be_bytes 4 ?lo) (seen s1))"
        by (rule WriteToHardware_seen [OF afterD(4) [OF A]]) (use h reaches_after(1) [OF A] in simp_all)
      from after_trans [OF A this] have C: "after s (mmu_Write_U64 B v ea s) (store_at (data_address s) (ea + 4) (be_bytes 4 ?lo) (seen s1))"
        unfolding reaches_after(2) [OF A] by (simp add: mmu_Write_U64_def s1_def)
      have "after s (mmu_Write_U64 B v ea s) (store_at (data_address s) ea (be_bytes 8 v) (seen s))"
      proof (rule after_cong [OF C])
        fix q assume "physical (main_memory s) q"
        then have "store_at (data_address s) (ea + 4) (be_bytes 4 ?lo) (seen s1) q =
            store_at (data_address s) (ea + 4) (be_bytes 4 ?lo) (store_at (data_address s) ea (be_bytes 4 ?hi) (seen s)) q"
          by (intro store_at_cong) (rule afterD(6) [OF A])
        then show "store_at (data_address s) (ea + 4) (be_bytes 4 ?lo) (seen s1) q = store_at (data_address s) ea (be_bytes 8 v) (seen s) q"
          by (simp add: be_bytes_halves [symmetric] store_at_append)
      qed
      then show ?thesis using True by (simp add: Store)
    qed
  qed
  then show "fst (cpu_access B p s) = fst (flat_access (data_address s) p (seen s))"
    "after s (snd (cpu_access B p s)) (snd (flat_access (data_address s) p (seen s)))" by simp_all
qed

text \<open>The states that a machine reaches by accesses to memory.\<close>

definition accessed :: "'d Cpu \<Rightarrow> 'd Cpu \<Rightarrow> bool" where
  "accessed s t \<longleftrightarrow> (\<exists>f. after s t f)"

lemma accessed_access:
  assumes "accessed s t" "access_reach (data_address s) p \<subseteq> {a. physical (main_memory t) a}"
  shows "fst (cpu_access B p t) = fst (flat_access (data_address s) p (seen t))"
    "after t (snd (cpu_access B p t)) (snd (flat_access (data_address s) p (seen t)))" "accessed s (snd (cpu_access B p t))"
proof -
  obtain f where f: "after s t f" using assms(1) by (auto simp: accessed_def)
  have "access_reach (data_address t) p \<subseteq> {a. physical (main_memory t) a}" using assms(2) reaches_after(2) [OF f] by simp
  note S = access_spec [OF afterD(4) [OF f] this, of B]
  show "fst (cpu_access B p t) = fst (flat_access (data_address s) p (seen t))"
    "after t (snd (cpu_access B p t)) (snd (flat_access (data_address s) p (seen t)))"
    using S reaches_after(2) [OF f] by simp_all
  show "accessed s (snd (cpu_access B p t))" using after_trans [OF f S(2)] by (auto simp: accessed_def)
qed

interpretation cpu: plain_memory "accessed s" "\<lambda>t. {a. physical (main_memory t) a}" seen
  "cpu_access B" "flat_access (data_address s)" "access_reach (data_address s)" for s :: "'d Cpu" and B
proof
  show "fst (flat_access (data_address s) p f) = fst (flat_access (data_address s) p g)"
    if "\<And>a. a \<in> access_reach (data_address s) p \<Longrightarrow> f a = g a" for p f g
  proof (cases p)
    case (Load w ea)
    have "load_at (data_address s) ea (width w) f = load_at (data_address s) ea (width w) g"
      using that unfolding load_at_def by (intro map_cong) (auto simp: Load span_def)
    then show ?thesis by (simp add: Load)
  qed simp
  show "snd (flat_access (data_address s) p f) a = snd (flat_access (data_address s) p g) a" if "f a = g a" for a p f g
    using that by (cases p) (simp_all, rule store_at_cong)
  fix t p assume A: "accessed s t" "access_reach (data_address s) p \<subseteq> {a. physical (main_memory t) a}"
  note S = accessed_access [OF A, of B]
  show "accessed s (snd (cpu_access B p t))" by (rule S(3))
  show "{a. physical (main_memory (snd (cpu_access B p t))) a} = {a. physical (main_memory t) a}" using afterD(5) [OF S(2)] by simp
  show "fst (cpu_access B p t) = fst (flat_access (data_address s) p (seen t))" by (rule S(1))
  show "seen (snd (cpu_access B p t)) a = snd (flat_access (data_address s) p (seen t)) a" if "a \<in> {a. physical (main_memory t) a}" for a
    using afterD(6) [OF S(2)] that by simp
qed

text \<open>C2: Main memory as the CPU reaches it is a plain memory of big-endian numbers: any sequence of loads
  and stores of one, two, four or eight bytes, at any alignment, across pages, with block translation or
  without translation, with the data cache on or off and locked or not, loads the numbers that the same
  sequence loads from a plain map of translated addresses to bytes, leaves that map as the contents of
  memory, and changes nothing of the machine but the cache and the memories.  Accesses that go past the
  cache because their block is write-through or cache-inhibited are not covered.\<close>

theorem cpu_memory_is_plain:
  assumes "memory_ok s" "\<forall>p \<in> set qs. access_reach (data_address s) p \<subseteq> {a. physical (main_memory s) a}"
  shows "fst (run_ops (cpu_access B) qs s) = fst (run_ops (flat_access (data_address s)) qs (seen s))
    \<and> after s (snd (run_ops (cpu_access B) qs s)) (snd (run_ops (flat_access (data_address s)) qs (seen s)))"
proof -
  have "accessed s s" using after_same [OF assms(1)] by (auto simp: accessed_def)
  note R = cpu.run [OF this assms(2), of "seen s" B]
  then obtain f where "after s (snd (run_ops (cpu_access B) qs s)) f" by (auto simp: accessed_def)
  then have "after s (snd (run_ops (cpu_access B) qs s)) (snd (run_ops (flat_access (data_address s)) qs (seen s)))"
    by (rule after_cong) (use afterD(6) [OF \<open>after s _ f\<close>] R in auto)
  then show ?thesis using R by blast
qed

section \<open>A machine\<close>

text \<open>A bus without devices, and a machine with the block of the cached memory of the GameCube.\<close>

definition quiet_bus :: "unit bus" where
  "quiet_bus = \<lparr>mmio_Read = \<lambda>_ _ s. (0, s), mmio_Write = \<lambda>_ _ _ s. s, PeekColor = \<lambda>_ _ _. 0, PeekDepth = \<lambda>_ _ _. 0,
     PokeColor = \<lambda>_ _ _ s. s, PokeDepth = \<lambda>_ _ _ s. s, bus_error_interrupt = id, GatherPipeBursted = id,
     bus_DecrementerSet = id, bus_TimeBaseSet = id, bus_GetFakeDecrementer = \<lambda>_. 0, bus_GetFakeTimeBase = \<lambda>_. 0,
     bus_Advance = id, bus_set_slice_length = \<lambda>_ s. s\<rparr>"

definition gamecube_cpu :: "bool \<Rightarrow> unit Cpu" where
  "gamecube_cpu dcache = \<lparr>core = power_on_cpu\<lparr>msr := 0x10\<rparr>, m_memory = gamecube_memory, iCache = cache_Init plain_cache,
     dCache = cache_Init plain_cache, m_ibat_table = \<lambda>_. 0, m_dbat_table = \<lambda>i. if i = 0x4000 then 3 else 0,
     m_enable_dcache = dcache, m_disable_icache = False, m_low_dcbz_hack = False, IsMMUMode = True, IsPauseOnPanicMode = False,
     cpu_broken = False, ppc_downcount = 0, m_gather_pipe = [], m_fifo_cpu_base = 0, m_fifo_cpu_end = 0,
     m_fifo_cpu_write_pointer = 0, devices = ()\<rparr>"

lemma gamecube_cpu_ok: "memory_ok (gamecube_cpu d)"
proof -
  have "cache_ok (cache_Init plain_cache, gamecube_memory)"
    using Init_spec [of gamecube_memory plain_cache] layout_gamecube by (simp add: gamecube_memory_def)
  then show ?thesis using layout_gamecube
    by (simp add: memory_ok_def gamecube_cpu_def) (simp add: gamecube_memory_def gamecube_host_def)
qed

lemma gamecube_cpu_seen: "seen (gamecube_cpu d) p = 0"
proof -
  have "Read_U8 gamecube_host p = 0"
    by (simp add: Read_U8_def gamecube_host_def region_byte_def split: option.split prod.split region.split)
  then show ?thesis using layout_gamecube Init_spec [of gamecube_memory plain_cache]
    by (simp add: seen_def gamecube_cpu_def) (simp add: gamecube_memory_def)
qed

lemma cpu_memory_is_plain_witness:
  "fst (run_ops (cpu_access quiet_bus) [Store W32 0x01020304 0x80000FFE, Load W64 0x80000FFC] (gamecube_cpu True))
    = [None, Some 0x0000010203040000]"
proof -
  let ?s = "gamecube_cpu True" and ?ops = "[Store W32 0x01020304 0x80000FFE, Load W64 0x80000FFC]"
  have place: "data_address ?s 0x80000FFC = 0xFFC" "data_address ?s 0x80000FFD = 0xFFD" "data_address ?s 0x80000FFE = 0xFFE"
    "data_address ?s 0x80000FFF = 0xFFF" "data_address ?s 0x80001000 = 0x1000" "data_address ?s 0x80001001 = 0x1001"
    "data_address ?s 0x80001002 = 0x1002" "data_address ?s 0x80001003 = 0x1003"
    by (simp_all add: data_address_def gamecube_cpu_def TranslateBatAddress_def power_on_cpu_def Let_def)
  have upt: "[0..<8 :: nat] = [0, 1, 2, 3, 4, 5, 6, 7]" "[0..<4 :: nat] = [0, 1, 2, 3]" by (simp_all add: upt_conv_Cons)
  have here: "physical (main_memory ?s) a" if "unat a < 0x1800000" for a
    using that by (simp add: gamecube_cpu_def gamecube_memory_def gamecube_host_def physical_def)
  have "\<forall>p \<in> set ?ops. access_reach (data_address ?s) p \<subseteq> {a. physical (main_memory ?s) a}"
  proof -
    have "span a n = (\<lambda>i. a + word_of_nat i) ` set [0..<n]" for a n by (auto simp: span_def)
    then have "span a 8 = {a, a + 1, a + 2, a + 3, a + 4, a + 5, a + 6, a + 7}" "span a 4 = {a, a + 1, a + 2, a + 3}" for a
      by (simp_all only: upt) simp_all
    then show ?thesis by (simp add: place here)
  qed
  note P = cpu_memory_is_plain [OF gamecube_cpu_ok this, of quiet_bus]
  have zero: "seen ?s = (\<lambda>_. 0)" by (rule ext) (rule gamecube_cpu_seen)
  have bytes: "be_bytes 4 (0x01020304 :: u64) = [1, 2, 3, 4]" by (simp add: be_bytes_def le_bytes_def byte_at_def upt)
  have "load_at (data_address ?s) 0x80000FFC 8 (store_at (data_address ?s) 0x80000FFE [1, 2, 3, 4] (\<lambda>_. 0)) = [0, 0, 1, 2, 3, 4, 0, 0]"
    by (simp add: load_at_def upt place)
  then show ?thesis using P by (simp add: zero bytes be_value_def)
qed

end
