(* ===== verification/Ppc_Quantised.thy ===== *)
theory Ppc_Quantised
  imports Ppc_Quantize Ppc_Single Ppc_Memory
begin

text \<open>
  The quantiser of paired singles: what is loaded is exact, stores saturate, and integers that were
  loaded are stored unchanged with the same type and scale.
\<close>

section \<open>Exact numbers\<close>

lemma fits_single_double: "fits 24 8 m e \<Longrightarrow> fits 53 11 m e"
  by (auto simp: fits_def exponent_bias_def)

lemma to_double_round:
  assumes "fits 24 8 m e"
  shows "to_double (round32 mode (s, m, e)) = round64 mode' (s, m, e)"
proof -
  have "to_double (round32 mode (s, m, e)) = round64 (0, False) (s, m * 2 ^ (24 - significant_bits m), e - int (24 - significant_bits m))"
    unfolding to_double_def unpack32_round [OF assms] by simp
  also have "\<dots> = round64 mode' (s, m, e)"
    using round_pack_mode [OF fits_single_double [OF assms], of "(0, False)" s mode'] by (simp add: round_pack_scale)
  finally show ?thesis .
qed

lemma to_single_round:
  assumes "fits 24 8 m e"
  shows "to_single mode (round64 mode' (s, m, e)) = round32 mode'' (s, m, e)"
proof -
  have "to_single mode (round64 mode' (s, m, e)) = round32 mode (s, m * 2 ^ (53 - significant_bits m), e - int (53 - significant_bits m))"
    unfolding to_single_def unpack64_round [OF fits_single_double [OF assms]] by simp
  also have "\<dots> = round32 mode'' (s, m, e)"
    using round_pack_mode [OF assms, of mode s mode''] by (simp add: round_pack_scale)
  finally show ?thesis .
qed

lemma scaled_round:
  assumes "fits 24 8 m e" "fits 24 8 m (e + k)"
  shows "scaled mode (round64 mode' (s, m, e)) k =
    Finite s (m * 2 ^ (24 - significant_bits m)) (e + k - int (24 - significant_bits m))"
proof -
  have "scaled mode (round64 mode' (s, m, e)) k =
      unpack32 (round32 mode (s, m * 2 ^ (24 - significant_bits m), e + k - int (24 - significant_bits m)))"
    unfolding scaled_def to_single_round [OF assms(1), of mode mode' s mode] unpack32_round [OF assms(1)] by (simp add: algebra_simps)
  also have "\<dots> = unpack32 (round32 mode (s, m, e + k))" by (simp add: round_pack_scale)
  finally show ?thesis unfolding unpack32_round [OF assms(2)] .
qed

section \<open>Integers\<close>

definition quantized_ok :: "nat \<times> int \<times> int \<Rightarrow> bool" where
  "quantized_ok t \<longleftrightarrow> t \<in> {(1, 0, 255), (2, 0, 65535), (1, - 128, 127), (2, - 32768, 32767)}"

lemma quantized_cases: "quantized x = Some t \<Longrightarrow> quantized_ok t"
  by (auto simp: quantized_def quantized_ok_def split: if_splits)

lemma bit_top:
  fixes v :: u32
  assumes "uint v < 2 ^ Suc n"
  shows "bit v n \<longleftrightarrow> 2 ^ n \<le> uint v"
proof -
  have u: "uint v = int (unat v)" by simp
  then have "int (unat v) < int (2 ^ Suc n)" using assms by simp
  then have "unat v < 2 ^ Suc n" by (simp only: of_nat_less_iff)
  then have "unat v div 2 ^ n < 2" by (simp add: less_mult_imp_div_less)
  then have "odd (unat v div 2 ^ n) \<longleftrightarrow> 2 ^ n \<le> unat v" using div_greater_zero_iff [of "unat v" "2 ^ n"]
    by (auto simp: less_2_cases_iff)
  also have "\<dots> \<longleftrightarrow> 2 ^ n \<le> uint v" unfolding u by (simp flip: of_nat_le_iff [where 'a = int])
  finally show ?thesis by (simp add: bit_odd)
qed

lemma take_bit_word_of_int:
  fixes v :: u32
  assumes "uint v < 2 ^ k" "k \<le> 32"
  shows "take_bit k (word_of_int (uint v)) = v" "take_bit k (word_of_int (uint v - 2 ^ k)) = v"
proof -
  have v: "take_bit k (uint v) = uint v" using assms(1) by (simp add: take_bit_int_eq_self)
  have "take_bit k (uint v - 2 ^ k) = take_bit k (uint v)" by (simp add: take_bit_eq_mod)
  with v have w: "take_bit k (uint v - 2 ^ k) = uint v" by simp
  have t: "take_bit k (word_of_int x :: u32) = word_of_int (take_bit k x)" for x
    using assms(2) by (simp add: take_bit_of_int)
  show "take_bit k (word_of_int (uint v)) = v" unfolding t v by simp
  show "take_bit k (word_of_int (uint v - 2 ^ k)) = v" unfolding t w by simp
qed

lemma signed_value_spec:
  assumes "quantized_ok (n, lo, hi)" "uint v < 2 ^ (8 * n)"
  defines "i \<equiv> signed_value (n, lo, hi) v"
  shows "lo \<le> i" "i \<le> hi" "nat \<bar>i\<bar> < 2 ^ 16" "take_bit (8 * n) (word_of_int i) = v"
proof -
  have n: "n = 1 \<or> n = 2" using assms(1) by (auto simp: quantized_ok_def)
  then have "uint v < 2 ^ Suc (8 * n - 1)" using assms(2) by auto
  then have top: "bit v (8 * n - 1) \<longleftrightarrow> 2 ^ (8 * n - 1) \<le> uint v" by (rule bit_top)
  have i: "i = (if lo < 0 \<and> 2 ^ (8 * n - 1) \<le> uint v then uint v - 2 ^ (8 * n) else uint v)"
    using top by (auto simp: i_def signed_value_def)
  show "lo \<le> i" "i \<le> hi" "nat \<bar>i\<bar> < 2 ^ 16"
  proof -
    define x where "x = uint v"
    have "0 \<le> x" by (simp add: x_def)
    then show "lo \<le> i" "i \<le> hi" "nat \<bar>i\<bar> < 2 ^ 16"
      using assms(1,2) unfolding i quantized_ok_def x_def [symmetric] by (auto simp: nat_less_iff)
  qed
  show "take_bit (8 * n) (word_of_int i) = v"
    using take_bit_word_of_int [OF assms(2)] n unfolding i by auto
qed

lemma fits_integer:
  assumes "0 < m" "m < 2 ^ 16" "- 64 \<le> e" "e \<le> 64"
  shows "fits 24 8 m e"
proof -
  from significant_bits_bounds [OF assms(1)] obtain k where k: "significant_bits m = Suc k" "2 ^ k \<le> m"
    by (cases "significant_bits m") auto
  then have "2 ^ k < (2 :: nat) ^ 16" using assms(2) by linarith
  then have "k < 16" by (simp only: power_strict_increasing_iff)
  then show ?thesis using assms k(1) by (simp add: fits_def exponent_bias_def)
qed

lemma value_less_integer:
  "value_less (Finite s (m * 2 ^ d) (- int d)) (value_of_int j) \<longleftrightarrow> signed_int s m < j"
  "value_less (value_of_int j) (Finite s (m * 2 ^ d) (- int d)) \<longleftrightarrow> j < signed_int s m"
proof -
  have j: "signed_int (j < 0) (nat \<bar>j\<bar> * 2 ^ d) = j * 2 ^ d" by (auto simp: signed_int_def)
  have m: "signed_int s (m * 2 ^ d) = signed_int s m * 2 ^ d" by (simp add: signed_int_def)
  show "value_less (Finite s (m * 2 ^ d) (- int d)) (value_of_int j) \<longleftrightarrow> signed_int s m < j"
    "value_less (value_of_int j) (Finite s (m * 2 ^ d) (- int d)) \<longleftrightarrow> j < signed_int s m"
    unfolding value_of_int_def by (simp_all add: Let_def m j)
qed

lemma integer_part_shift: "integer_part (Finite s (m * 2 ^ d) (- int d)) = signed_int s m"
  by (cases "d = 0") (simp_all add: integer_part_def)

lemma round_zero: "round_pack p w mode False 0 e = 0"
  by (simp add: round_pack_def round_magnitude_def split: prod.split)

lemma unpack_zero: "unpack32 0 = Finite False 0 (- 149)" "unpack64 0 = Finite False 0 (- 1074)"
  by (simp_all add: unpack32_def unpack64_def unpack_def Let_def least_exponent_def exponent_bias_def)

lemma quantize_dequantize:
  assumes ok: "quantized_ok t" and v: "uint v < 2 ^ (8 * fst t)" and k: "k < 64"
  shows "quantize mode t k (dequantize mode' t k v) = v"
proof -
  obtain n lo hi where t: "t = (n, lo, hi)" by (cases t)
  define i where "i = signed_value t v"
  note i = signed_value_spec [OF ok [unfolded t] v [unfolded t fst_conv], folded t, folded i_def]
  have "ScaleAndClamp mode (lo, hi) (dequantize mode' t k v) k = i"
  proof (cases "i = 0")
    case True
    have "dequantize mode' t k v = 0"
      using True by (simp add: dequantize_def Let_def i_def round_zero to_double_def unpack_zero)
    then have "scaled mode (dequantize mode' t k v) (quantize_exponent k) = Finite False 0 (- 149)"
      by (simp add: scaled_def to_single_def unpack_zero round_zero)
    then show ?thesis using i(1,2) True by (simp add: ScaleAndClamp_def value_of_int_def integer_part_def signed_int_def)
  next
    case False
    define s m e where "s = (i < 0)" and "m = nat \<bar>i\<bar>" and "e = dequantize_exponent k"
    have m: "0 < m" "m < 2 ^ 16" using False i(3) by (simp_all add: m_def)
    have e: "- 64 \<le> e" "e \<le> 64" "e + quantize_exponent k = 0"
      using k by (simp_all add: e_def dequantize_exponent_def quantize_exponent_def)
    have f: "fits 24 8 m e" "fits 24 8 m (e + quantize_exponent k)" using fits_integer [OF m] e by simp_all
    have "dequantize mode' t k v = round64 (0, False) (s, m, e)"
      using to_double_round [OF f(1), of mode' s "(0, False)"] by (simp add: dequantize_def Let_def i_def s_def m_def e_def)
    then have x: "scaled mode (dequantize mode' t k v) (quantize_exponent k) =
        Finite s (m * 2 ^ (24 - significant_bits m)) (- int (24 - significant_bits m))"
      using scaled_round [OF f, of mode "(0, False)" s] e(3) by simp
    have "signed_int s m = i" by (simp add: signed_int_def s_def m_def)
    then show ?thesis
      using i(1,2) unfolding ScaleAndClamp_def Let_def x prod.case value_less_integer integer_part_shift by simp
  qed
  then show ?thesis using i(4) by (simp add: quantize_def t)
qed

section \<open>The float type\<close>

lemma sign_part: "ucast (drop_bit 32 y AND 0x80000000) = (x AND 0x80000000 :: u32)" if "bit y 63 = bit x 31" for x :: u32 and y :: u64
proof (rule bit_word_eqI)
  fix n assume n: "n < LENGTH(32)"
  have "bit (0x80000000 :: u64) n \<longleftrightarrow> n = 31" "bit (0x80000000 :: u32) n \<longleftrightarrow> n = 31"
    using bit_exp_iff [of 31 n, where 'a = u64] bit_exp_iff [of 31 n, where 'a = u32] by auto
  then show "bit (ucast (drop_bit 32 y AND 0x80000000) :: u32) n = bit (x AND 0x80000000) n"
    using n that unfolding bit_ucast_iff bit_and_iff bit_drop_bit_eq comp_def by auto
qed

lemma exponent32_zero: "x AND FLOAT_EXP = 0 \<longleftrightarrow> unat (exponent32 x) = 0" for x :: u32
proof -
  have m: "(0x7F800000 :: u32) = push_bit 23 (mask 8)" "(0xff :: u32) = mask 8" by (simp_all add: mask_eq_exp_minus_1)
  have "x AND 0x7F800000 = push_bit 23 (exponent32 x)" "exponent32 x = drop_bit 23 (x AND 0x7F800000)"
    unfolding exponent32_def m by (rule bit_word_eqI; auto simp: bit_simps)+
  then show ?thesis unfolding unat_eq_0 by (metis push_bit_of_0 drop_bit_of_0)
qed

lemma FTZ_double: "ConvertToSingleFTZ (ConvertToDouble x) = FlushToZero32 x"
proof (cases rule: double_shape [of x])
  case (subnormal k f)
  have "ConvertToDouble x AND NOT 0x8000000000000000 \<noteq> 0" by (rule nonzero_magnitude) (use subnormal in simp)
  then have "ConvertToSingleFTZ (ConvertToDouble x) = ucast (drop_bit 32 (ConvertToDouble x) AND 0x80000000)"
    using subnormal(5,12) by (intro ConvertToSingleFTZ_cases(2)) simp_all
  also have "\<dots> = x AND 0x80000000" by (rule sign_part [OF ConvertToDouble_sign])
  finally show ?thesis using subnormal(1) exponent32_zero [of x] by (simp add: FlushToZero32_def)
next
  case (zero b)
  have "ConvertToSingleFTZ (ConvertToDouble x) = x"
    using zero by (simp add: ConvertToSingleFTZ_cases(1) narrow_widen spread_only_of_bool)
  moreover have "x AND FLOAT_SIGN = x"
  proof (rule bit_word_eqI)
    fix n assume n: "n < LENGTH(32)"
    have "drop_bit 23 (ucast x :: u64) AND 0xff = 0" "(ucast x :: u64) AND 0x007fffff = 0"
      using zero(1,2) single_fields [of x] by (simp_all add: word_unat_eq_iff)
    then have "n < 31 \<Longrightarrow> \<not> bit x n"
      using exponent_zero_bits [of x n] fraction_zero_bits [of x n] by linarith
    moreover have "bit (0x80000000 :: u32) n \<longleftrightarrow> n = 31" using bit_exp_iff [of 31 n, where 'a = u32] by auto
    ultimately show "bit (x AND FLOAT_SIGN) n = bit x n" using n unfolding bit_and_iff by (cases "n = 31") auto
  qed
  ultimately show ?thesis by (simp add: FlushToZero32_def)
qed (simp_all add: ConvertToSingleFTZ_cases(1) narrow_widen spread_only_of_bool FlushToZero32_def exponent32_zero)

section \<open>Copies\<close>

text \<open>
  The bytes of an element of a type and what a copy of it is: integers are themselves, singles lose
  their fraction when they are subnormal.
\<close>

definition element_size :: "u32 \<Rightarrow> nat option" where
  "element_size ty = (if ty = 0 then Some 4 else map_option fst (quantized ty))"

definition element_copy :: "u32 \<Rightarrow> u32 \<Rightarrow> u32" where
  "element_copy ty x = (if ty = 0 then FlushToZero32 x else x)"

lemma element_cases:
  assumes "element_size ty = Some n"
  obtains "ty = 0" "n = 4" | t where "ty \<noteq> 0" "quantized ty = Some t" "n = fst t" "quantized_ok t" "n = 1 \<or> n = 2"
proof (cases "ty = 0")
  case False
  then obtain t where t: "quantized ty = Some t" "n = fst t" using assms by (auto simp: element_size_def)
  then have "n = 1 \<or> n = 2" using quantized_cases [OF t(1)] by (auto simp: quantized_ok_def)
  then show ?thesis using that(2) t False quantized_cases [OF t(1)] by blast
qed (use assms that(1) in \<open>simp add: element_size_def\<close>)

text \<open>What a load followed by a store of the same register makes of an element.\<close>

lemma element_through:
  assumes "element_size ty = Some n" "uint x < 2 ^ (8 * n)" "k < 64"
  shows "(if ty = 0 then ConvertToSingleFTZ (ConvertToDouble x) else case quantized ty of None \<Rightarrow> 0
    | Some t \<Rightarrow> quantize mode t k (dequantize mode' t k x)) = element_copy ty x"
  using assms(1)
proof (cases rule: element_cases)
  case 1
  then show ?thesis by (simp add: element_copy_def FTZ_double)
next
  case (2 t)
  then show ?thesis using quantize_dequantize [of t x k mode mode'] assms(2,3) by (simp add: element_copy_def)
qed

lemma uint_part: "uint (ucast (take_bit k v) :: u32) < 2 ^ k" if "k \<le> 32" for v :: u64
proof -
  have "(ucast (take_bit k v) :: u32) = take_bit k (ucast v)" by (rule bit_word_eqI) (auto simp: bit_simps)
  moreover have "uint (take_bit k (ucast v :: u32)) < 2 ^ k" unfolding unsigned_take_bit_eq by (rule take_bit_int_less_exp)
  ultimately show ?thesis by simp
qed

text \<open>C4: A paired-single load followed by the paired-single store of the same register copies memory:
  with the same type and scale in the two halves of the quantisation register, integers of any of the four
  types come back exactly whatever the scale and the rounding mode, and singles come back with
  subnormal values flushed to zero, one element or both.\<close>

theorem paired_copy:
  assumes ty: "element_size (bit_field 16 3 (sprs s (SPR_GQR0 + i))) = Some n"
    and same: "bit_field 0 3 (sprs s (SPR_GQR0 + i)) = bit_field 16 3 (sprs s (SPR_GQR0 + i))"
      "bit_field 8 6 (sprs s (SPR_GQR0 + i)) = bit_field 24 6 (sprs s (SPR_GQR0 + i))"
    and read: "mmu_Read B (if one then n else 2 * n) ea s = (v, s1)" "no_DSI s1" "one \<Longrightarrow> take_bit (8 * n) v = v"
      "sprs s1 (SPR_GQR0 + i) = sprs s (SPR_GQR0 + i)"
  shows "Helper_Quantize B ea' i r one (Helper_Dequantize B ea i r one s) =
    store_quantized B n one (element_copy (bit_field 16 3 (sprs s (SPR_GQR0 + i)))
        (ucast (take_bit (8 * n) (if one then v else drop_bit (8 * n) v))))
      (element_copy (bit_field 16 3 (sprs s (SPR_GQR0 + i))) (ucast (take_bit (8 * n) v)))
      ea' (Helper_Dequantize B ea i r one s)"
proof -
  define gqr where "gqr = sprs s (SPR_GQR0 + i)"
  define ty k x y where "ty = bit_field 16 3 gqr" and "k = unat (bit_field 24 6 gqr)"
    and "x = (ucast (take_bit (8 * n) (if one then v else drop_bit (8 * n) v)) :: u32)"
    and "y = (ucast (take_bit (8 * n) v) :: u32)"
  note abbr = gqr_def [symmetric] ty_def [symmetric] k_def [symmetric]
  have n: "n \<le> 4" using assms(1) by (elim element_cases) auto
  have bounds: "uint x < 2 ^ (8 * n)" "uint y < 2 ^ (8 * n)" "k < 64"
    unfolding x_def y_def k_def by (rule uint_part, use n in simp)+ (use inst_index_less [of 6 24 gqr] in simp)
  define conv where "conv = (if ty = 0 then ConvertToDouble else case quantized ty of None \<Rightarrow> (\<lambda>_. 0)
    | Some t \<Rightarrow> dequantize (mode_of (core s)) t k)"
  have load: "Helper_Dequantize B ea i r one s = upd_core (ps_SetBoth r (conv x) (if one then 0x3FF0000000000000 else conv y)) s1"
  proof -
    have l: "load_quantized B n c one ea s = ((c x, if one then 0x3FF0000000000000 else c y), s1)" for c
      using read(1,3) by (simp add: load_quantized_def ReadPair_def x_def y_def split: if_splits)
    from ty [unfolded abbr] show ?thesis
    proof (cases rule: element_cases)
      case 1
      then show ?thesis using l [of ConvertToDouble] read(2)
        by (simp add: Helper_Dequantize_def Let_def abbr conv_def unless_DSI_def)
    next
      case (2 t)
      then show ?thesis using l [of "dequantize (mode_of (core s)) t k"] read(2)
        by (simp add: Helper_Dequantize_def Let_def abbr conv_def unless_DSI_def)
    qed
  qed
  define s2 where "s2 = Helper_Dequantize B ea i r one s"
  have ps: "PS0 r (core s2) = conv x" "\<not> one \<Longrightarrow> PS1 r (core s2) = conv y" and g: "sprs s2 (SPR_GQR0 + i) = gqr"
    unfolding s2_def load using read(4) by (simp_all add: ps_SetBoth_def gqr_def)
  have thr: "(if ty = 0 then ConvertToSingleFTZ (conv z) else case quantized ty of None \<Rightarrow> 0
      | Some t \<Rightarrow> quantize (mode_of (core s2)) t k (conv z)) = element_copy ty z" if "uint z < 2 ^ (8 * n)" for z
    using element_through [OF ty [unfolded abbr] that bounds(3), of "mode_of (core s2)" "mode_of (core s)"]
    by (cases "ty = 0"; cases "quantized ty") (simp_all add: conv_def)
  have "Helper_Quantize B ea' i r one s2 = store_quantized B n one (element_copy ty x) (element_copy ty y) ea' s2"
  proof (cases one)
    case True
    from ty [unfolded abbr] show ?thesis
      by (cases rule: element_cases)
        (use thr [OF bounds(1)] True in \<open>simp_all add: Helper_Quantize_def Let_def g same [unfolded abbr] abbr ps store_quantized_def\<close>)
  next
    case False
    from ty [unfolded abbr] show ?thesis
      by (cases rule: element_cases)
        (use thr [OF bounds(1)] thr [OF bounds(2)] False in \<open>simp_all add: Helper_Quantize_def Let_def g same [unfolded abbr] abbr ps\<close>)
  qed
  then show ?thesis unfolding abbr x_def y_def s2_def .
qed

text \<open>A machine whose memory holds the low byte of each address, with signed bytes of scale five.\<close>

definition counting_cpu :: "unit Cpu" where
  "counting_cpu = (gamecube_cpu False)\<lparr>core := set_spr SPR_GQR0 0x05060506 (core (gamecube_cpu False)),
     m_memory := gamecube_memory\<lparr>mem_host := gamecube_host\<lparr>h_ram := \<lambda>a. ucast a\<rparr>\<rparr>\<rparr>"

lemma counting_cpu_ok: "memory_ok counting_cpu"
proof -
  have c: "config (gamecube_memory\<lparr>mem_host := gamecube_host\<lparr>h_ram := \<lambda>a. ucast a\<rparr>\<rparr>) = config gamecube_memory"
    by (simp add: config_def gamecube_memory_def)
  then show ?thesis using gamecube_cpu_ok [of False] config_keeps(2) [OF c]
    by (simp add: memory_ok_def counting_cpu_def gamecube_cpu_def) (simp add: gamecube_memory_def)
qed

lemma counting_cpu_seen: "unat a < 0x1800000 \<Longrightarrow> seen counting_cpu a = ucast a"
  using Read_U8_physical [of "main_memory counting_cpu" a] counting_cpu_ok
  by (simp add: seen_def memory_ok_def physical_def) (simp add: counting_cpu_def gamecube_cpu_def gamecube_host_def)

lemma paired_copy_witness:
  "Helper_Quantize quiet_bus 0x80002000 0 3 False (Helper_Dequantize quiet_bus 0x80001080 0 3 False counting_cpu) =
    mmu_Write quiet_bus 2 0x8081 0x80002000 (Helper_Dequantize quiet_bus 0x80001080 0 3 False counting_cpu)"
proof -
  let ?s = "counting_cpu"
  have gqr: "sprs ?s (SPR_GQR0 + 0) = 0x05060506" by (simp add: counting_cpu_def)
  have fields: "bit_field 16 3 (0x05060506 :: u32) = 6" "bit_field 0 3 (0x05060506 :: u32) = 6"
    "bit_field 8 6 (0x05060506 :: u32) = 5" "bit_field 24 6 (0x05060506 :: u32) = 5" by (simp_all add: bit_field_def mask_eq_exp_minus_1)
  have place: "data_address ?s 0x80001080 = 0x1080" "data_address ?s 0x80001081 = 0x1081"
    by (simp_all add: data_address_def counting_cpu_def gamecube_cpu_def TranslateBatAddress_def power_on_cpu_def Let_def)
  have upt: "[0..<2 :: nat] = [0, 1]" by (simp add: upt_conv_Cons)
  have "reaches ?s 0x80001080 2"
  proof -
    have "span a 2 = {a, a + 1}" for a
    proof -
      have "span a 2 = (\<lambda>i. a + word_of_nat i) ` set [0..<2]" by (auto simp: span_def)
      then show ?thesis by (simp add: upt)
    qed
    then show ?thesis by (simp add: reaches_def place) (simp add: counting_cpu_def gamecube_memory_def gamecube_host_def physical_def)
  qed
  from mmu_Read_seen [OF counting_cpu_ok this, of quiet_bus] obtain s1
    where r: "mmu_Read quiet_bus 2 0x80001080 ?s = (be_value (load_at (data_address ?s) 0x80001080 2 (seen ?s)), s1)"
      and a: "after ?s s1 (seen ?s)" by auto
  have v: "be_value (load_at (data_address ?s) 0x80001080 2 (seen ?s)) = 0x8081"
    by (simp add: load_at_def upt place counting_cpu_seen be_value_def)
  have c: "core s1 = core ?s" by (rule afterD(1) [OF a])
  have "no_DSI s1" by (simp add: no_DSI_def c counting_cpu_def gamecube_cpu_def power_on_cpu_def)
  note P = paired_copy [of ?s 0 1 quiet_bus False "0x80001080" "0x8081" s1 "0x80002000" 3, unfolded gqr fields]
  show ?thesis
    by (subst P) (use r v c \<open>no_DSI s1\<close> gqr in \<open>simp_all add: element_size_def quantized_def element_copy_def store_quantized_def WritePair_def\<close>)
qed

end
