(* ===== verification/Ppc_Transfer.thy ===== *)
theory Ppc_Transfer
  imports Ppc_LoadStore Ppc_Memory
begin

text \<open>
  Registers in memory: what the instructions of several registers store they load again.  The write
  gather pipe: what is written to it leaves it in order and in blocks.
\<close>

section \<open>Words in memory\<close>

lemma word_of_bytes: "ucast (be_value (be_bytes 4 v)) = (v :: u32)"
proof -
  have "ucast (le_word (le_bytes 4 v) :: u64) = (le_word (le_bytes 4 v) :: u32)" by (rule le_word_ucast) simp_all
  also have "\<dots> = v" by (rule le_word_le_bytes) simp
  finally show ?thesis by (simp add: be_value_def be_bytes_def)
qed

lemma store_at_nth:
  assumes "inj_on (\<lambda>i. at (ea + word_of_nat i)) {..<length bs}" "i < length bs"
  shows "store_at at ea bs f (at (ea + word_of_nat i)) = bs ! i"
  using assms
proof (induction bs arbitrary: i rule: rev_induct)
  case (snoc b bs)
  have "inj_on (\<lambda>i. at (ea + word_of_nat i)) {..<length bs}" by (rule inj_on_subset [OF snoc.prems(1)]) simp
  note IH = snoc.IH [OF this]
  have "at (ea + word_of_nat i) \<noteq> at (ea + word_of_nat (length bs))" if "i < length bs"
    using inj_onD [OF snoc.prems(1), of i "length bs"] that by auto
  moreover have "i = length bs" if "\<not> i < length bs" using that snoc.prems(2) by simp
  ultimately show ?case using IH [of i] by (cases "i < length bs") (simp_all add: store_at_append nth_append)
qed simp

text \<open>Up to a page of consecutive addresses reaches different bytes.\<close>

lemma addresses_differ:
  assumes ok: "memory_ok s" and r: "reaches s ea n" and n: "n \<le> 4096"
  shows "inj_on (\<lambda>i. data_address s (ea + word_of_nat i)) {..<n}"
proof (rule inj_onI)
  fix i j assume "i \<in> {..<n}" "j \<in> {..<n}" and e: "data_address s (ea + word_of_nat i) = data_address s (ea + word_of_nat j)"
  then have i: "i < n" "j < n" by simp_all
  have m: "unat (data_address s (ea + word_of_nat k)) mod 4096 = (unat ea + k) mod 4096" if "k < n" for k
  proof -
    have "unat (data_address s (ea + word_of_nat k)) mod 4096 = unat (ea + word_of_nat k) mod 4096"
      by (rule data_address_near(2) [OF ok, where i = 0]) (use reachesD [OF r that] in simp_all)
    also have "unat (ea + word_of_nat k) = (unat ea + k) mod 2 ^ 32"
      by (simp add: unat_word_ariths unat_of_nat mod_add_right_eq)
    finally show ?thesis by (simp add: mod_mod_cancel)
  qed
  have "(unat ea + i) mod 4096 = (unat ea + j) mod 4096" using m [OF i(1)] m [OF i(2)] e by simp
  moreover define q r where "q = (unat ea + i) div 4096" and "r = (unat ea + j) div 4096"
  ultimately have "unat ea + i + 4096 * r = unat ea + j + 4096 * q"
    using mult_div_mod_eq [of 4096 "unat ea + i"] mult_div_mod_eq [of 4096 "unat ea + j"] by linarith
  then have s: "i + 4096 * r = j + 4096 * q" by simp
  have "i < 4096" "j < 4096" using i n by simp_all
  then have "\<not> q < r" "\<not> r < q" using s by linarith+
  then show "i = j" using s by simp
qed

section \<open>Several registers\<close>

definition saved :: "'d Cpu \<Rightarrow> nat \<Rightarrow> u8 list" where
  "saved s k = concat (map (\<lambda>n. be_bytes 4 (reg s n)) [32 - k..<32])"

lemma length_saved: "k \<le> 32 \<Longrightarrow> length (saved s k) = 4 * k"
  by (simp add: saved_def length_concat comp_def sum_list_triv)

lemma saved_Suc: "k < 32 \<Longrightarrow> saved s (Suc k) = be_bytes 4 (reg s (31 - k)) @ saved s k"
proof -
  assume "k < 32"
  then have "[32 - Suc k..<32] = (31 - k) # [32 - k..<32]" using upt_conv_Cons [of "31 - k" 32] Suc_diff_le [of k 31] by simp
  then show ?thesis by (simp add: saved_def)
qed

lemma stmw_stores:
  assumes "memory_ok s" "reaches s ea (4 * k)" "no_DSI s" "k \<le> 32"
  shows "after s (stmw_loop B ea k s) (store_at (data_address s) ea (saved s k) (seen s))"
  using assms
proof (induction k arbitrary: s ea)
  case 0
  then show ?case using after_same by (simp add: saved_def)
next
  case (Suc k)
  have k: "k < 32" using Suc.prems(4) by simp
  have r: "reaches s ea 4" "reaches s (ea + 4) (4 * k)"
    using reaches_part [OF Suc.prems(2), of 0 4] reaches_part [OF Suc.prems(2), of 4 "4 * k"] by simp_all
  define s1 where "s1 = mmu_Write B 4 (reg s (31 - k)) ea s"
  have A: "after s s1 (store_at (data_address s) ea (be_bytes 4 (reg s (31 - k))) (seen s))"
    unfolding s1_def mmu_Write_def by (rule WriteToHardware_seen [OF Suc.prems(1) r(1)]) simp_all
  have c: "core s1 = core s" by (rule afterD(1) [OF A])
  have d: "no_DSI s1" using Suc.prems(3) by (simp add: no_DSI_def c)
  have "after s1 (stmw_loop B (ea + 4) k s1) (store_at (data_address s1) (ea + 4) (saved s1 k) (seen s1))"
    by (rule Suc.IH) (use afterD(4) [OF A] r(2) reaches_after(1) [OF A] d k in simp_all)
  moreover have "saved s1 k = saved s k" by (simp add: saved_def c)
  ultimately have "after s (stmw_loop B (ea + 4) k s1) (store_at (data_address s) (ea + 4) (saved s k) (seen s1))"
    using after_trans [OF A] reaches_after(2) [OF A] by simp
  then have "after s (stmw_loop B (ea + 4) k s1) (store_at (data_address s) ea (saved s (Suc k)) (seen s))"
  proof (rule after_cong)
    fix p assume "physical (main_memory s) p"
    then have "store_at (data_address s) (ea + 4) (saved s k) (seen s1) p =
        store_at (data_address s) (ea + 4) (saved s k) (store_at (data_address s) ea (be_bytes 4 (reg s (31 - k))) (seen s)) p"
      by (intro store_at_cong) (rule afterD(6) [OF A])
    then show "store_at (data_address s) (ea + 4) (saved s k) (seen s1) p = store_at (data_address s) ea (saved s (Suc k)) (seen s) p"
      by (simp add: saved_Suc [OF k] store_at_append)
  qed
  then show ?case using d by (simp add: s1_def [symmetric] Let_def)
qed

text \<open>Changing the registers changes nothing of the memory.\<close>

lemma core_irrelevant:
  assumes "msr c = msr (core s)"
  shows "memory_ok (s\<lparr>core := c\<rparr>) = memory_ok s" "data_address (s\<lparr>core := c\<rparr>) = data_address s"
    "reaches (s\<lparr>core := c\<rparr>) = reaches s" "seen (s\<lparr>core := c\<rparr>) = seen s"
proof -
  show d: "data_address (s\<lparr>core := c\<rparr>) = data_address s" unfolding fun_eq_iff data_address_def using assms by simp
  show "memory_ok (s\<lparr>core := c\<rparr>) = memory_ok s" by (simp add: memory_ok_def)
  show "reaches (s\<lparr>core := c\<rparr>) = reaches s" unfolding fun_eq_iff reaches_def d by simp
  show "seen (s\<lparr>core := c\<rparr>) = seen s" by (simp add: seen_def)
qed

lemma lmw_loads:
  assumes "memory_ok s" "reaches s ea (4 * k)" "no_DSI s" "k \<le> 32"
    "\<And>i. i < k \<Longrightarrow> load_at (data_address s) (ea + word_of_nat (4 * i)) 4 (seen s) = be_bytes 4 (f (32 - k + i))"
  shows "core (lmw_loop B ea k s) = (core s)\<lparr>gpr := \<lambda>n. if 32 - k \<le> n \<and> n < 32 then f n else gpr (core s) n\<rparr>"
  using assms
proof (induction k arbitrary: s ea)
  case 0
  have "(\<lambda>n. if 32 - 0 \<le> n \<and> n < 32 then f n else gpr (core s) n) = gpr (core s)" by (auto simp: fun_eq_iff)
  then show ?case by simp
next
  case (Suc k)
  have k: "k < 32" using Suc.prems(4) by simp
  have r: "reaches s ea 4" "reaches s (ea + 4) (4 * k)"
    using reaches_part [OF Suc.prems(2), of 0 4] reaches_part [OF Suc.prems(2), of 4 "4 * k"] by simp_all
  obtain s1 where rd: "mmu_Read B 4 ea s = (be_value (load_at (data_address s) ea 4 (seen s)), s1)" and A: "after s s1 (seen s)"
    using mmu_Read_seen [OF Suc.prems(1) r(1), of B] by auto
  have first: "load_at (data_address s) ea 4 (seen s) = be_bytes 4 (f (31 - k))" using Suc.prems(5) [of 0] by simp
  have c: "core s1 = core s" by (rule afterD(1) [OF A])
  define s2 where "s2 = upd_core (set_gpr (31 - k) (f (31 - k))) s1"
  note I = core_irrelevant [of "set_gpr (31 - k) (f (31 - k)) (core s1)" s1, folded s2_def, simplified]
  have e: "data_address s2 = data_address s" "reaches s2 = reaches s" "seen s2 = seen s1"
    using I reaches_after [OF A] by (simp_all add: s2_def)
  have ok: "memory_ok s2" "no_DSI s2" using I(1) afterD(4) [OF A] Suc.prems(3) by (simp_all add: s2_def no_DSI_def c memory_ok_def)
  have "load_at (data_address s2) (ea + 4 + word_of_nat (4 * i)) 4 (seen s2) = be_bytes 4 (f (32 - k + i))" if "i < k" for i
  proof -
    have "load_at (data_address s) (ea + 4 + word_of_nat (4 * i)) 4 (seen s1) = load_at (data_address s) (ea + 4 + word_of_nat (4 * i)) 4 (seen s)"
      using reachesD [OF reaches_part [OF r(2), of "4 * i" 4]] that afterD(6) [OF A] by (simp add: load_at_def)
    moreover have "32 - Suc k + Suc i = 32 - k + i" using k by simp
    moreover have "ea + 4 + word_of_nat (4 * i) = ea + word_of_nat (4 * Suc i)" by simp
    ultimately show ?thesis using Suc.prems(5) [of "Suc i"] that by (simp only: e Suc_less_eq)
  qed
  then have IH: "core (lmw_loop B (ea + 4) k s2) = (core s2)\<lparr>gpr := \<lambda>n. if 32 - k \<le> n \<and> n < 32 then f n else gpr (core s2) n\<rparr>"
    using Suc.IH [OF ok(1) _ ok(2), of "ea + 4"] r(2) k e(2) by simp
  have "no_DSI s1" using Suc.prems(3) by (simp add: no_DSI_def c)
  then have "lmw_loop B ea (Suc k) s = lmw_loop B (ea + 4) k s2"
    using rd by (simp add: s2_def first word_of_bytes)
  moreover have "(\<lambda>n. if 32 - k \<le> n \<and> n < 32 then f n else gpr (core s2) n) =
      (\<lambda>n. if 32 - Suc k \<le> n \<and> n < 32 then f n else gpr (core s) n)"
    using k by (auto simp: fun_eq_iff s2_def c)
  ultimately show ?case using IH by (simp add: s2_def c)
qed

lemma saved_nth: "k \<le> 32 \<Longrightarrow> i < k \<Longrightarrow> m < 4 \<Longrightarrow> saved s k ! (4 * i + m) = be_bytes 4 (reg s (32 - k + i)) ! m"
proof (induction k arbitrary: i)
  case (Suc k)
  have k: "k < 32" using Suc.prems(1) by simp
  show ?case
  proof (cases i)
    case 0
    then show ?thesis using Suc.prems(3) by (simp add: saved_Suc [OF k] nth_append)
  next
    case (Suc j)
    have "32 - k + j = 32 - Suc k + i" using Suc k by simp
    then show ?thesis using Suc.IH [of j] Suc.prems Suc k by (simp add: saved_Suc [OF k] nth_append)
  qed
qed simp

text \<open>C6: Registers saved by \<open>stmw\<close> are what \<open>lmw\<close> restores, as in the entry and the exit of a
  function: whatever the registers became and whatever else was written to memory in between, cached or
  not, across pages, when the same words are loaded from the same address, all registers from the first one
  saved on are again what they were and no other register changes.\<close>

theorem saved_registers_return:
  assumes ok: "memory_ok s" "no_DSI s"
    and frame: "reaches s (Helper_Get_EA (core s) i) (4 * (32 - inst_RS i))"
      "Helper_Get_EA (core s) i AND 3 = 0" "\<not> bit (msr (core s)) MSR_LE"
    and between: "after (ppc_stmw B i s) t f"
      "\<forall>p \<in> data_address s ` span (Helper_Get_EA (core s) i) (4 * (32 - inst_RS i)). f p = seen (ppc_stmw B i s) p"
    and later: "Helper_Get_EA c j = Helper_Get_EA (core s) i" "inst_RD j = inst_RS i" "msr c = msr (core s)"
      "Exceptions c AND EXCEPTION_DSI = 0"
  shows "core (ppc_lmw B j (t\<lparr>core := c\<rparr>)) = c\<lparr>gpr := \<lambda>n. if inst_RS i \<le> n \<and> n < 32 then reg s n else gpr c n\<rparr>"
proof -
  define ea k where "ea = Helper_Get_EA (core s) i" and "k = 32 - inst_RS i"
  have "inst_RS i \<le> 32" by (rule less_imp_le) simp
  then have k: "k \<le> 32" "32 - k = inst_RS i" by (simp_all add: k_def)
  define s1 u where "s1 = ppc_stmw B i s" and "u = t\<lparr>core := c\<rparr>"
  have st: "s1 = stmw_loop B ea k s"
    using frame by (simp add: s1_def ppc_stmw_def Let_def if_aligned_def if_string_def ea_def k_def)
  have A: "after s s1 (store_at (data_address s) ea (saved s k) (seen s))"
    unfolding st by (rule stmw_stores [OF ok(1) _ ok(2) k(1)]) (use frame in \<open>simp add: ea_def k_def\<close>)
  note T = between(1) [folded s1_def]
  have ct: "core t = core s" using afterD(1) [OF A] afterD(1) [OF T] by simp
  note U = core_irrelevant [of c t, unfolded ct, OF later(3), folded u_def]
  have same: "data_address u = data_address s" "reaches u = reaches s" "seen u = seen t"
    using U reaches_after [OF A] reaches_after [OF T] by simp_all
  have r: "reaches s ea (4 * k)" using frame by (simp add: ea_def k_def)
  note D = addresses_differ [OF ok(1) r]
  have byte: "seen u (data_address s (ea + word_of_nat n)) = saved s k ! n" if n: "n < 4 * k" for n
  proof -
    have p: "physical (main_memory s) (data_address s (ea + word_of_nat n))" by (rule reachesD [OF r n])
    have "seen u (data_address s (ea + word_of_nat n)) = f (data_address s (ea + word_of_nat n))"
      unfolding same by (rule afterD(6) [OF T]) (use p afterD(5) [OF A] in simp)
    also have "\<dots> = seen s1 (data_address s (ea + word_of_nat n))"
      using between(2) n by (auto simp: ea_def k_def span_def s1_def)
    also have "\<dots> = store_at (data_address s) ea (saved s k) (seen s) (data_address s (ea + word_of_nat n))"
      by (rule afterD(6) [OF A p])
    also have "\<dots> = saved s k ! n" by (rule store_at_nth) (use D k(1) n in \<open>simp_all add: length_saved\<close>)
    finally show ?thesis .
  qed
  have words: "load_at (data_address u) (ea + word_of_nat (4 * n)) 4 (seen u) = be_bytes 4 (reg s (32 - k + n))" if n: "n < k" for n
  proof (rule nth_equalityI)
    fix m assume "m < length (load_at (data_address u) (ea + word_of_nat (4 * n)) 4 (seen u))"
    then have m: "m < 4" by (simp add: load_at_def)
    then have "load_at (data_address u) (ea + word_of_nat (4 * n)) 4 (seen u) ! m = seen u (data_address s (ea + word_of_nat (4 * n + m)))"
      by (simp add: load_at_def same(1) add.assoc)
    also have "\<dots> = saved s k ! (4 * n + m)" by (rule byte) (use n m in simp)
    also have "\<dots> = be_bytes 4 (reg s (32 - k + n)) ! m" by (rule saved_nth [OF k(1) n m])
    finally show "load_at (data_address u) (ea + word_of_nat (4 * n)) 4 (seen u) ! m = be_bytes 4 (reg s (32 - k + n)) ! m" .
  qed (simp add: load_at_def)
  have "ppc_lmw B j u = lmw_loop B ea k u"
    using frame later by (simp add: ppc_lmw_def Let_def if_aligned_def if_string_def ea_def k_def u_def)
  moreover have "core (lmw_loop B ea k u) = (core u)\<lparr>gpr := \<lambda>n. if 32 - k \<le> n \<and> n < 32 then reg s n else gpr (core u) n\<rparr>"
    by (rule lmw_loads [OF _ _ _ k(1) words]) (use U(1) afterD(4) [OF T] r same later(4) in \<open>simp_all add: no_DSI_def u_def\<close>)
  ultimately show ?thesis unfolding k(2) u_def by (simp cong: if_cong)
qed

lemma saved_registers_return_witness:
  fixes s :: "unit Cpu"
  defines "s \<equiv> (gamecube_cpu True)\<lparr>core := power_on_cpu\<lparr>msr := 0x10, gpr := (\<lambda>_. 0)(1 := 0x80001000, 30 := 3, 31 := 4)\<rparr>\<rparr>"
  shows "core (ppc_lmw quiet_bus 0x03C10000 ((ppc_stmw quiet_bus 0x03C10000 s)\<lparr>core := (core s)\<lparr>gpr := (gpr (core s))(30 := 0, 31 := 0)\<rparr>\<rparr>))
    = core s"
proof -
  let ?i = "0x03C10000 :: u32" and ?c = "(core s)\<lparr>gpr := (gpr (core s))(30 := 0, 31 := 0)\<rparr>"
  have inst: "inst_RS ?i = 30" "inst_RD ?i = 30" "inst_RA ?i = 1" "inst_SIMM_16 ?i = 0"
    by (simp_all add: inst_RS_def inst_RD_def inst_RA_def inst_SIMM_16_def bit_field_def mask_eq_exp_minus_1)
  have ea: "Helper_Get_EA (core s) ?i = 0x80001000" "Helper_Get_EA ?c ?i = 0x80001000" by (simp_all add: Helper_Get_EA_def inst s_def)
  note I = core_irrelevant [of "core s" "gamecube_cpu True", folded s_def]
  have s': "s = (gamecube_cpu True)\<lparr>core := core s\<rparr>" by (simp add: s_def)
  have m: "msr (core s) = msr (core (gamecube_cpu True))" by (simp add: s_def gamecube_cpu_def)
  note I = core_irrelevant [OF m, folded s']
  have ok: "memory_ok s" "no_DSI s" using I(1) gamecube_cpu_ok by (simp_all add: no_DSI_def s_def power_on_cpu_def)
  have place: "data_address s (0x80001000 + word_of_nat n) = 0x1000 + word_of_nat n" if "n < 8" for n
  proof -
    from that have "n \<in> {0, 1, 2, 3, 4, 5, 6, 7}" by auto
    then show ?thesis
      by (auto simp: I(2) data_address_def gamecube_cpu_def TranslateBatAddress_def power_on_cpu_def Let_def)
  qed
  have "unat (0x1000 + word_of_nat n :: u32) = 0x1000 + n" if "n < 8" for n
    using that by (simp add: unat_word_ariths unat_of_nat)
  then have r: "reaches s 0x80001000 8"
    by (auto simp: reaches_def span_def place) (simp add: s_def gamecube_cpu_def gamecube_memory_def gamecube_host_def physical_def)
  have st: "after s (ppc_stmw quiet_bus ?i s) (store_at (data_address s) 0x80001000 (saved s 2) (seen s))"
    using stmw_stores [OF ok(1), of "0x80001000" 2 quiet_bus] r ok(2)
    by (simp add: ppc_stmw_def Let_def if_aligned_def if_string_def ea inst) (simp add: s_def)
  have "core (ppc_lmw quiet_bus ?i ((ppc_stmw quiet_bus ?i s)\<lparr>core := ?c\<rparr>))
      = ?c\<lparr>gpr := \<lambda>n. if inst_RS ?i \<le> n \<and> n < 32 then reg s n else gpr ?c n\<rparr>"
    by (rule saved_registers_return [OF ok _ _ _ after_same [OF afterD(4) [OF st]]])
      (use r ok(2) in \<open>simp_all add: ea inst no_DSI_def\<close>, simp add: s_def)
  also have "\<dots> = core s" by (auto simp: inst fun_eq_iff intro!: Interpreter.equality)
  finally show ?thesis .
qed

end
