(* ===== verification/Ppc_Pipe.thy ===== *)
theory Ppc_Pipe
  imports Ppc_Memory
begin

text \<open>
  The write gather pipe, \<open>Core/HW/GPFifo.cpp\<close>: what the CPU writes to it reaches memory in blocks of
  32 bytes, in the order it was written.
\<close>

section \<open>Blocks\<close>

fun blocks :: "u8 list \<Rightarrow> u8 list list" where
  "blocks bytes = (if 32 \<le> length bytes then take 32 bytes # blocks (drop 32 bytes) else [])"

fun remainder :: "u8 list \<Rightarrow> u8 list" where
  "remainder bytes = (if 32 \<le> length bytes then remainder (drop 32 bytes) else bytes)"

declare blocks.simps [simp del] remainder.simps [simp del]

lemma remainder_length: "length (remainder bytes) < 32"
  by (induction bytes rule: remainder.induct) (subst remainder.simps, simp)

lemma short: "length bytes < 32 \<Longrightarrow> blocks bytes = []" "length bytes < 32 \<Longrightarrow> remainder bytes = bytes"
  by (simp_all add: blocks.simps remainder.simps)

lemma blocks_length: "\<forall>b \<in> set (blocks bytes). length b = 32"
proof (induction bytes rule: blocks.induct)
  case (1 bytes)
  show ?case
  proof (cases "32 \<le> length bytes")
    case True
    have "blocks bytes = take 32 bytes # blocks (drop 32 bytes)" using True by (subst blocks.simps) (simp only: if_True)
    moreover have "length (take 32 bytes) = 32" using True by simp
    ultimately show ?thesis using 1 [OF True] by (simp only: list.set ball_simps simp_thms)
  next
    case False
    then show ?thesis by (simp add: short)
  qed
qed

lemma blocks_append: "blocks (xs @ ys) = blocks xs @ blocks (remainder xs @ ys)" "remainder (xs @ ys) = remainder (remainder xs @ ys)"
proof (induction xs rule: blocks.induct)
  case (1 xs)
  show "blocks (xs @ ys) = blocks xs @ blocks (remainder xs @ ys)"
    using 1(1) by (subst (1 2) blocks.simps, subst remainder.simps) (auto simp: blocks.simps [of "xs @ ys"])
  show "remainder (xs @ ys) = remainder (remainder xs @ ys)"
    using 1(2) by (subst (3) remainder.simps) (auto simp: remainder.simps [of "xs @ ys"])
qed

lemma blocks_concat: "concat (blocks bytes) @ remainder bytes = bytes"
proof (induction bytes rule: blocks.induct)
  case (1 bytes)
  then show ?case by (subst blocks.simps, subst remainder.simps) simp
qed

section \<open>Draining the pipe\<close>

definition drained :: "'d bus \<Rightarrow> u8 list \<Rightarrow> 'd Cpu \<Rightarrow> 'd Cpu" where
  "drained B bytes s = (fold (burst_block B) (blocks bytes) s)\<lparr>m_gather_pipe := remainder bytes\<rparr>"

text \<open>The devices take no notice of what is still in the pipe.\<close>

definition ignores_pipe :: "'d bus \<Rightarrow> bool" where
  "ignores_pipe B \<longleftrightarrow> (\<forall>t p. GatherPipeBursted B (t\<lparr>m_gather_pipe := p\<rparr>) = (GatherPipeBursted B t)\<lparr>m_gather_pipe := p\<rparr>)"

lemma burst_blocks_eq: "burst_blocks B pipe s = (remainder pipe, fold (burst_block B) (blocks pipe) s)"
proof (induction B pipe s rule: burst_blocks.induct)
  case (1 B pipe s)
  then show ?case by (subst burst_blocks.simps, subst blocks.simps, subst remainder.simps) simp
qed

lemma burst_pipe: "ignores_pipe B \<Longrightarrow> burst_block B b (t\<lparr>m_gather_pipe := p\<rparr>) = (burst_block B b t)\<lparr>m_gather_pipe := p\<rparr>"
proof -
  assume B: "ignores_pipe B"
  define t1 where "t1 = t\<lparr>m_memory := mem_CopyToEmu (m_fifo_cpu_write_pointer t) b (m_memory t),
    m_fifo_cpu_write_pointer := (if m_fifo_cpu_write_pointer t = m_fifo_cpu_end t then m_fifo_cpu_base t else m_fifo_cpu_write_pointer t + 32)\<rparr>"
  have "burst_block B b (t\<lparr>m_gather_pipe := p\<rparr>) = GatherPipeBursted B (t1\<lparr>m_gather_pipe := p\<rparr>)"
    "burst_block B b t = GatherPipeBursted B t1" by (cases t; simp add: burst_block_def t1_def Let_def)+
  then show ?thesis using B by (simp add: ignores_pipe_def)
qed

lemma bursts_pipe:
  "ignores_pipe B \<Longrightarrow> fold (burst_block B) bs (t\<lparr>m_gather_pipe := p\<rparr>) = (fold (burst_block B) bs t)\<lparr>m_gather_pipe := p\<rparr>"
  by (induction bs arbitrary: t) (simp_all add: burst_pipe)

lemma drained_twice: "ignores_pipe B \<Longrightarrow> drained B (remainder xs @ ys) (drained B xs s) = drained B (xs @ ys) s"
  by (simp add: drained_def bursts_pipe blocks_append [of xs ys])

lemma drained_pipe: "m_gather_pipe (drained B xs s) = remainder xs"
  by (simp add: drained_def)

lemma check_drains:
  "ignores_pipe B \<Longrightarrow> CheckGatherPipe B (s\<lparr>m_gather_pipe := bytes\<rparr>) = drained B bytes s"
  by (simp add: CheckGatherPipe_def UpdateGatherPipe_def burst_blocks_eq drained_def bursts_pipe short)

section \<open>Writes of the CPU\<close>

lemma swapped_le: "le_bytes 2 (swap16 h) = be_bytes 2 h" "le_bytes 4 (swap32 w) = be_bytes 4 w"
proof -
  show "le_bytes 4 (swap32 w) = be_bytes 4 w"
    by (rule nth_equalityI) (simp_all add: le_bytes_def nth_be_bytes byte_swapped)
  have "byte_at j (swap16 h) = byte_at (1 - j) h" if "j < 2" for j
  proof -
    have "j = 0 \<or> j = 1" using that by linarith
    then show ?thesis by (intro bit_word_eqI) (auto simp: byte_at_def bit_simps bit_swap16 add.commute)
  qed
  then show "le_bytes 2 (swap16 h) = be_bytes 2 h"
    by (intro nth_equalityI) (simp_all add: le_bytes_def nth_be_bytes)
qed

lemma be_bytes_Suc: "be_bytes (Suc k) v = byte_at k v # be_bytes k v"
  by (simp add: be_bytes_def le_bytes_def)

lemma gather_bytes_drains:
  "ignores_pipe B \<Longrightarrow> gather_bytes B v k (drained B xs s) = drained B (xs @ be_bytes k v) s"
proof (induction k arbitrary: xs)
  case 0
  then show ?case by (simp add: be_bytes_def le_bytes_def)
next
  case (Suc k)
  have "gpfifo_Write8 B (byte_at k v) (drained B xs s) = drained B (remainder xs @ [byte_at k v]) (drained B xs s)"
    using check_drains [OF Suc.prems] by (simp add: gpfifo_Write8_def FastWrite8_def drained_pipe)
  also have "\<dots> = drained B (xs @ [byte_at k v]) s" by (rule drained_twice [OF Suc.prems])
  finally show ?case using Suc.IH [OF Suc.prems] by (simp add: byte_at_def [symmetric] be_bytes_Suc)
qed

lemma gather_write_drains:
  assumes B: "ignores_pipe B" and n: "n \<le> 4"
  shows "gather_write B v n (drained B xs s) = drained B (xs @ be_bytes n v) s"
proof -
  have w: "CheckGatherPipe B ((drained B xs s)\<lparr>m_gather_pipe := remainder xs @ bytes\<rparr>) = drained B (xs @ bytes) s" for bytes
    using check_drains [OF B] drained_twice [OF B] by simp
  consider "n = 1" | "n = 2" | "n = 4" | "n \<noteq> 1" "n \<noteq> 2" "n \<noteq> 4" by blast
  then show ?thesis
  proof cases
    case 1
    have "[ucast v] = be_bytes 1 v" by (simp add: be_bytes_def le_bytes_def byte_at_def)
    then show ?thesis using w [of "[ucast v]"] 1 by (simp add: gather_write_def gpfifo_Write8_def FastWrite8_def drained_pipe)
  next
    case 2
    then show ?thesis using w [of "be_bytes 2 (ucast v :: u16)"] be_bytes_ucast [where 'b = 16, of 2 v]
      by (simp add: gather_write_def gpfifo_Write16_def FastWrite16_def drained_pipe swapped_le)
  next
    case 3
    then show ?thesis using w [of "be_bytes 4 v"]
      by (simp add: gather_write_def gpfifo_Write32_def FastWrite32_def drained_pipe swapped_le)
  next
    case 4
    then show ?thesis using gather_bytes_drains [OF B] by (simp add: gather_write_def)
  qed
qed

text \<open>C8: The write gather pipe neither loses, repeats nor reorders a byte: after any sequence of writes of
  up to four bytes, the bytes that were in the pipe and those written, most significant first, have left it
  in order in blocks of 32, each copied to the write pointer and announced to the devices, and fewer than
  32 are left in it.\<close>

theorem gather_pipe_in_order:
  assumes "ignores_pipe B" "length (m_gather_pipe s) < 32" "\<forall>(v, n) \<in> set ops. n \<le> 4"
  defines "bytes \<equiv> m_gather_pipe s @ concat (map (\<lambda>(v, n). be_bytes n v) ops)"
  shows "fold (\<lambda>(v, n). gather_write B v n) ops s =
      (fold (burst_block B) (blocks bytes) s)\<lparr>m_gather_pipe := remainder bytes\<rparr>
    \<and> concat (blocks bytes) @ remainder bytes = bytes \<and> (\<forall>b \<in> set (blocks bytes). length b = 32)
    \<and> length (remainder bytes) < 32"
proof -
  have "fold (\<lambda>(v, n). gather_write B v n) ops (drained B xs s) = drained B (xs @ concat (map (\<lambda>(v, n). be_bytes n v) ops)) s" for xs
    using assms(3) by (induction ops arbitrary: xs) (auto simp: gather_write_drains [OF assms(1)])
  from this [of "m_gather_pipe s"] have "fold (\<lambda>(v, n). gather_write B v n) ops s = drained B bytes s"
    using assms(2) by (simp add: drained_def [of B "m_gather_pipe s"] short bytes_def)
  then show ?thesis using blocks_concat blocks_length remainder_length by (simp add: drained_def)
qed

lemma gather_pipe_in_order_witness:
  "fold (\<lambda>(v, n). gather_write quiet_bus v n) [(0x01020304, 4), (0x0506, 2), (0x070809, 3)] (gamecube_cpu False) =
    (gamecube_cpu False)\<lparr>m_gather_pipe := [1, 2, 3, 4, 5, 6, 7, 8, 9]\<rparr>"
proof -
  let ?ops = "[(0x01020304, 4), (0x0506, 2), (0x070809, 3)] :: (u32 \<times> nat) list"
  have upt: "[0..<4 :: nat] = [0, 1, 2, 3]" "[0..<3 :: nat] = [0, 1, 2]" "[0..<2 :: nat] = [0, 1]" by (simp_all add: upt_conv_Cons)
  have p: "m_gather_pipe (gamecube_cpu False) = []" by (simp add: gamecube_cpu_def)
  have b: "concat (map (\<lambda>(v, n). be_bytes n v) ?ops) = [1, 2, 3, 4, 5, 6, 7, 8, 9]"
    by (simp add: be_bytes_def le_bytes_def byte_at_def upt)
  have quiet: "ignores_pipe quiet_bus" by (simp add: ignores_pipe_def quiet_bus_def)
  have empty: "length (m_gather_pipe (gamecube_cpu False)) < 32" by (simp add: p)
  have small: "\<forall>(v, n) \<in> set ?ops. n \<le> 4" by simp
  note P = gather_pipe_in_order [OF quiet empty small, unfolded p b append_Nil, THEN conjunct1]
  have s: "length [1, 2, 3, 4, 5, 6, 7, 8, 9 :: u8] < 32" by simp
  show ?thesis unfolding P short(1) [OF s] short(2) [OF s] by simp
qed

end
