(* ===== verification/Ppc_Tlb.thy ===== *)
theory Ppc_Tlb
  imports Ppc_Memory
begin

text \<open>
  The translation cache of pages: a translation found in the page table is found again without it,
  until its segment register is changed, it is invalidated, or two other pages of its set are translated.
\<close>

section \<open>Reads of the page table\<close>










section \<open>Pages\<close>





section \<open>The page stays while one other page of its set is in use\<close>






















end
