(* ===== verification/Spec2Isabelle.thy ===== *)
theory Spec2Isabelle
  imports Dsp_Address Dsp_Product Dsp_Machine Dsp_Lengths Dsp_Console_Io Console_Timers
    Ppc_Arith Ppc_Shift Ppc_Control Ppc_Caching Ppc_Run
    Ppc_Opcodes Ppc_Estimates Ppc_Quantised Ppc_Transfer Ppc_Pipe Ppc_Tlb
begin

text \<open>
  A verification library for the low-level emulation (LLE) of the GameCube and Wii DSP in PrimedGun
  (a fork of the Dolphin emulator): the audio processor's interpreter, the object around it, the
  interface through which the emulated console drives it, and the scheduler and timers that drive
  the console itself; and the interpreter of the console's CPU, a PowerPC 750 with paired singles,
  with its exceptions, memory management, caches and gather pipe.  Paths are relative to
  \<open>src/Source/Core/\<close>.
\<close>

section \<open>The program\<close>

text \<open>
  The DSP is a 16-bit processor with 40-bit accumulators, four hardware stacks for calls, data
  and loops, modulo address registers and a memory accelerator.  \<open>Core/DSP/\<close> emulates it:
  \<open>SDSP\<close> holds the registers, memories, mailboxes and exceptions; \<open>Interpreter\<close> decodes and
  executes; \<open>Analyzer\<close> marks instruction starts, loop ends and idle loops that the run functions
  consult; \<open>Accelerator\<close> streams samples from ARAM; \<open>DSPCore\<close> adds running, stepping and
  stopping.  \<open>Core/HW/DSPLLE/\<close> wraps it: \<open>DSPLLE\<close> loads the ROMs and is called by the console,
  \<open>DSPHost.cpp\<close> gives the DSP access to console memory.  \<open>Core/HW/DSP.cpp\<close> is the register
  interface the CPU sees: mailboxes, control register, ARAM DMA, audio DMA and the time slices
  given to the emulator; it raises its interrupts at \<open>Core/HW/ProcessorInterface.cpp\<close>.

  All of this happens in emulated time.  \<open>Core/CoreTiming.cpp\<close> keeps the global timer and the
  queue of events; whenever the CPU has used up its slice, \<open>Advance\<close> calls the callbacks of the
  events that are due.  \<open>Core/HW/SystemTimers.cpp\<close> registers the periodic ones (DSP slice,
  audio DMA, GPU sleep) and the decrementer, \<open>Core/HW/AudioInterface.cpp\<close> its sample counter, and
  \<open>Core/HW/DSP.cpp\<close> the end of an ARAM DMA and its delayed interrupts.

  The CPU is \<open>Core/PowerPC/\<close>.  \<open>PowerPCState\<close> holds its registers; \<open>Interpreter\<close> fetches,
  decodes and executes one instruction at a time, ends blocks and asks \<open>PowerPC.cpp\<close> to take
  exceptions; \<open>MMU.cpp\<close> translates addresses with the BATs, the TLB and the page tables and
  performs accesses, through the caches of \<open>PPCCache.cpp\<close>, to memory, to the locked cache, to
  device registers or to the gather pipe of \<open>GPFifo.cpp\<close>.
\<close>

section \<open>Theories and sources\<close>

text \<open>
  In dependency order; names of definitions are those of the source, with suffixes \<open>_op\<close> for
  instruction handlers, \<open>_ext\<close> for extended opcodes and prefixes such as \<open>lle_\<close>, \<open>core_\<close>, \<open>pi_\<close>
  where several classes share a name.

  \<^item> \<open>Dsp_Prelude\<close>: machine integers of \<open>Common/CommonTypes.h\<close> as words of 8 to 64 bits, bit
    fields, sign extension to 40 bits, and the hint collections of the development.
  \<^item> \<open>Dsp_Tables\<close>, \<open>Dsp_State\<close>, \<open>Dsp_Stacks\<close>: \<open>DSPTables\<close>, \<open>DSPCore.h\<close>, \<open>DSPStacks.cpp\<close>.  The
    state of the machine is the record \<open>SDSP\<close>.  The three ways in which the source
    leaves defined behaviour (the exit on an oversized DMA, a DMA past the end of DSP memory, code
    uploaded from unmapped memory) are recorded in its field \<open>fault\<close>; runs stop there.
  \<^item> \<open>Dsp_Host\<close>, \<open>Dsp_Memory\<close>: \<open>DSPHost.cpp\<close>, the address translation and the accessors of
    \<open>Core/HW/Memmap.cpp\<close>, swaps of \<open>Common/Swap.h\<close>, the code hash of \<open>Common/Hash.cpp\<close>.  Console
    memory is the record \<open>host\<close>, a component of \<open>SDSP\<close>.
  \<^item> \<open>Dsp_Accelerator\<close>, \<open>Dsp_Hardware\<close>, \<open>Dsp_Core\<close>, \<open>Dsp_Analyzer\<close>: \<open>DSPAccelerator\<close>,
    \<open>DSPHWInterface.cpp\<close>, \<open>DSPMemoryMap.cpp\<close> with exceptions and reset of \<open>DSPCore.cpp\<close>,
    \<open>DSPAnalyzer\<close>.
  \<^item> \<open>Dsp_Interp\<close>, \<open>Dsp_Arith\<close>, \<open>Dsp_Mult\<close>, \<open>Dsp_Branch\<close>, \<open>Dsp_LoadStore\<close>, \<open>Dsp_ExtOps\<close>,
    \<open>Dsp_Decode\<close>: the interpreter.  Every handler of the files \<open>DSPInt*.cpp\<close> is a function on
    \<open>SDSP\<close>; \<open>Dsp_Decode\<close> holds the opcode tables, \<open>Step\<close> and the run functions.
  \<^item> \<open>Dsp_Lle\<close>: \<open>DSPCore\<close> and \<open>DSPLLE\<close>.  \<open>Dsp_Manager\<close>: \<open>Core/HW/DSP.cpp\<close>.  \<open>Console_Devices\<close>:
    the interrupt controller and the high-speed port.
  \<^item> \<open>Core_Timing\<close>: \<open>CoreTiming.cpp\<close>, for events of any type and a machine of any type.
    \<open>Console_System\<close>: \<open>AudioInterface.cpp\<close>, \<open>SystemTimers.cpp\<close> and the event types of the modelled
    components.  The record \<open>console\<close> holds the state of all devices; a \<open>machine\<close> is the scheduler
    paired with it, and \<open>cpu_write16\<close>, \<open>cpu_read16\<close>, \<open>callbacks\<close>, \<open>system_Advance\<close> work on it.

  \<^item> \<open>Ppc_State\<close>, \<open>Ppc_Exceptions\<close>, \<open>Ppc_Integer\<close>, \<open>Ppc_Branch\<close>, \<open>Ppc_Cache\<close>: \<open>Gekko.h\<close>,
    \<open>ConditionRegister\<close>, \<open>PowerPC.cpp\<close>, \<open>Interpreter_Integer.cpp\<close>, \<open>Interpreter_Branch.cpp\<close>,
    the part of \<open>Interpreter_SystemRegisters.cpp\<close> that needs the registers only, \<open>PPCCache.cpp\<close>.
    The state is the record \<open>PPCState\<close>; handlers of these files are functions on it.
  \<^item> \<open>Ppc_Machine\<close>: the record \<open>Cpu\<close>, which adds memory, caches, TLB, BAT tables, gather pipe and
    devices to \<open>PPCState\<close>, and \<open>GPFifo.cpp\<close>.  \<open>Ppc_Mmu\<close>, \<open>Ppc_Access\<close>: \<open>MMU.cpp\<close>; the first
    holds translation and accesses, the second the accesses of debugger and host, block transfers
    and the DMA of the locked cache.
  \<^item> \<open>Ppc_Float\<close>: IEEE arithmetic of the host on bit patterns of 32 and 64 bits, and
    \<open>Common/FloatUtils.cpp\<close>.  \<open>Ppc_Fpu\<close>, \<open>Ppc_FpArith\<close>, \<open>Ppc_Paired\<close>:
    \<open>Interpreter_FPUtils.h\<close>, \<open>Interpreter_FloatingPoint.cpp\<close>, \<open>Interpreter_Paired.cpp\<close>.
  \<^item> \<open>Ppc_LoadStore\<close>, \<open>Ppc_Quantize\<close>, \<open>Ppc_Spr\<close>: \<open>Interpreter_LoadStore.cpp\<close>,
    \<open>Interpreter_LoadStorePaired.cpp\<close>, \<open>Interpreter_SystemRegisters.cpp\<close>.
  \<^item> \<open>Ppc_Decode\<close>, \<open>Ppc_OpInfo\<close>, \<open>Ppc_Run\<close>: \<open>Interpreter_Tables.cpp\<close>, \<open>PPCTables.cpp\<close>,
    \<open>Interpreter.cpp\<close> with reset of \<open>PowerPC.cpp\<close>.

  Theories of lemmas and properties: \<open>Dsp_Address\<close> (address registers), \<open>Dsp_Flags\<close> and
  \<open>Dsp_Product\<close> (arithmetic), \<open>Dsp_Control\<close> (stacks, exceptions, loops), \<open>Dsp_Opcodes\<close> (decode
  tables), \<open>Dsp_Code\<close> (analyzer), \<open>Dsp_Lengths\<close> (instruction lengths), \<open>Dsp_Invariant\<close> and
  \<open>Dsp_Machine\<close> (invariant and runs), \<open>Dsp_Mailbox\<close> (both mailboxes), \<open>Dsp_Entry\<close> (core object
  and emulator entry points), \<open>Dsp_Console\<close> and \<open>Dsp_Console_Io\<close> (the console's interface),
  \<open>Core_Advance\<close> (the dispatch loop for any callbacks), \<open>Console_Clock\<close> (the same for the
  console's own callbacks), \<open>Console_Timers\<close> (decrementer, time base, sample counter),
  \<open>Ppc_Registers\<close>, \<open>Ppc_Arith\<close>, \<open>Ppc_Shift\<close> (registers and integer instructions), \<open>Ppc_Control\<close>
  (condition register, branches, exceptions), \<open>Ppc_Coherence\<close>, \<open>Ppc_CacheView\<close>,
  \<open>Ppc_CacheOps\<close>, \<open>Ppc_Caching\<close> (caches), \<open>Ppc_Memory\<close> (main memory as loads and stores reach
  it), \<open>Ppc_Transfer\<close> (several registers), \<open>Ppc_Pipe\<close> (gather pipe), \<open>Ppc_Tlb\<close> (translation cache),
  \<open>Ppc_Opcodes\<close> (decode tables), \<open>Ppc_Values\<close>, \<open>Ppc_Single\<close>, \<open>Ppc_Estimates\<close>,
  \<open>Ppc_Quantised\<close> (values of floating-point patterns, single and double precision, estimates, quantiser).
\<close>

section \<open>What is shown\<close>

text \<open>
  \<^item> Arithmetic: products, sums, differences and roundings are the exact 40-bit two's complement
    ones, carry and overflow are exact, and condition codes decide the comparisons.  Address
    registers move inside the ring their wrapping register defines.
  \<^item> Control: the four stacks implement bounded last-in first-out lists, calls and exceptions
    return where they came from, hardware loops run their count, the highest enabled exception
    is served.
  \<^item> Code: the opcode table is unambiguous, lengths agree with the templates, the analyzer's
    sweep ends, is exact, and flags loop ends; straight-line execution stays on its marks.
  \<^item> Machine: all run functions iterate \<open>Step\<close>, end in time, and keep the well-formedness
    invariant; so do all entry points, in any order.
  \<^item> Mailboxes: an interleaving system of one writer and one reader delivers every message
    whole and in order; proved once in the locale \<open>mailbox_port\<close> and interpreted for both
    directions.
  \<^item> Console: DMA copies exactly (locale \<open>chunk_copy\<close>), writes return, the interrupt line
    never is up without a reason in the control register, and is whenever there is one until the
    program acknowledges it or the CPU takes it; audio blocks are played in order, for ever, with one
    interrupt for every start; no cycle granted is lost on its way to the DSP; registers read back; memory accesses read back (locale \<open>memory_cell\<close>).
  \<^item> Time: \<open>Advance\<close> returns, fires what is due in order and once, and keeps the rest.  This is
    proved in the locale \<open>polite_callbacks\<close>, whose law is that a callback schedules a list of
    events, none in the past and those at the present of a smaller rank; its extension
    \<open>periodic_callback\<close> gives that self-scheduling events do not drift.  Both are interpreted on
    the console's callbacks.  No slice runs past the next event, so an event is late by the
    overshoot of the last instructions only.  An ARAM DMA started by a register write completes
    at its time; the decrementer fires when it reads 0, up to the value where a product overflows;
    the sample counter and its interrupt are exact.

  \<^item> CPU: integer instructions are exact with their overflow and, but for \<open>addme\<close> and \<open>subfme\<close>, their
    carry, branches decide as their fields say, the first due exception in the emulator's order is
    taken and nothing else changes, and \<open>rfi\<close> undoes it; the opcode tables are
    unambiguous and agree.
  \<^item> CPU memory: loads and stores of any size and alignment, through block translation, across
    pages and through the data cache, act on a plain big-endian memory.  The locale
    \<open>plain_memory\<close> states this contract; the cache and then the whole access path are interpreted
    as one.  Saved registers come back, the gather pipe keeps the order of its bytes, the
    translation cache repeats what the page table said until a second other page of its set is used,
    the segment changes or the page is invalidated.
  \<^item> CPU floating point: singles in registers have the value they had in memory and are stored
    unchanged, quantised integers are loaded exactly and stored back exactly, the estimates are as
    close as the manual of the processor says.

  Other interfaces: \<open>hw_stacks\<close> in \<open>Dsp_Stacks\<close>, \<open>ring_cursor\<close> in \<open>Dsp_Address\<close> and
  \<open>event_heap\<close> in \<open>Core_Timing\<close>.  Each is
  interpreted on the definitions of the model.
\<close>

section \<open>Bounds, fuel and loops\<close>

text \<open>
  The analyzer's scan carries as fuel the length of the address range, and every instruction is at
  least one word long, so it never runs out (\<open>analysis_is_linear_sweep\<close>).  The run functions are
  bounded by the cycles they are given; they recurse on them.  Loops the source does not bound,
  \<open>DSPCore::RunCycles\<close>, the ARAM DMA loops, reading a string and the dispatch loop of
  \<open>Advance\<close>, are partial functions with
  \<open>None\<close> for not returning; it is proved when they return, and that a stopped core never does.
  The CPU runs in rounds of one event dispatch and the blocks up to the end of the slice.  A block
  ends at the next branch or exception and a slice when its downcount is used up; neither is
  bounded by the source, so \<open>run_block\<close> and \<open>run_slice\<close> carry fuel and return \<open>None\<close> without it, and
  so do strings read from memory.  The shifts that normalise a significand stop after at most
  23 or 52 steps, the number of its fraction bits.
  A call of \<open>DSPCore::RunCycles\<close> while stepping waits for the user: the presses are an argument.
\<close>

section \<open>Modelling decisions\<close>

text \<open>
  \<^item> In the theories of the DSP, time (\<open>CoreTiming::GetTicks\<close>, host clock) is an argument of the
    operations that read it and events are recorded as scheduled with their delay; the invariants
    there allow any event at any moment.  \<open>Console_System\<close> passes the recorded requests to the
    scheduler (\<open>pass_requests\<close>) after each operation, in the order in which they were made.
  \<^item> Times of the scheduler are integers and its queue is a sorted list, of which only what a heap
    promises is used (\<open>event_heap\<close>).  The overclocking factor, a \<open>float\<close>, is only used by the two
    conversions between downcount and cycles and is represented by them; no property assumes
    anything of them.
  \<^item> The requests the DSP makes to the console from its own thread are counted in \<open>host\<close> and served
    by \<open>fire_dsp_request\<close>.
  \<^item> The hash check of the ROMs (\<open>VerifyRoms\<close>) and file contents are inputs.
  \<^item> Shifts and products that overflow \<open>int\<close> in the source wrap at 32 bits, as the compilers in
    use do.  Memory is little-endian, as on the supported hosts.
  \<^item> The DSP thread is modelled by its rounds; the properties of the entry points are for the
    interpreter, which the source never runs on a thread.
  \<^item> The devices behind the CPU's addresses are a record of functions \<open>bus\<close> on a state of any
    type; instructions do not depend on what they do.
  \<^item> Floating point is computed on bit patterns with exact rational intermediate values and one
    rounding, in the rounding mode and flush mode that \<open>FPSCR\<close> selects, as on an x86-64 host with
    FMA.  A conversion of a NaN to an integer, undefined in C++, gives 0 in the quantiser.
  \<^item> Debugger break points, memory checks, HLE hooks and the views of page tables that only the
    recompiler uses are off.
\<close>

section \<open>Not modelled\<close>

text \<open>
  The recompiler (\<open>Core/DSP/Jit\<close>), the assembler, disassembler and label maps (tools), the HLE
  emulation of single microcodes, savestates, the capture logger, thread events, memory views of
  the host (fastmem), the throttling of the scheduler to host time, the callbacks of video, IPC
  and the patch engine; the recompilers, debugger and symbol tools of the CPU; and everything
  outside: graphics, IOS, input, user interfaces and third-party code.  The recompilers would need
  a semantics of x86 or ARM code; the others are independent of what is shown here.
\<close>

end
